(* ===== verification/Prelude.thy ===== *)
theory Prelude
  imports Main
begin

text \<open>
  Shared vocabulary of the development: results of fallible code, programs over a database whose
  statements may fail, transactions, table operations on lists of rows, and the collections the
  component theories feed their automation from.

  A Go function that returns \<open>(T, error)\<close> and issues statements to the database becomes a
  program of type \<open>('e, 'd, 'o, 'a) prog\<close>: it takes the world and gives back either an error
  (\<open>Inl\<close>) or a value (\<open>Inr\<close>), together with the world it leaves behind.  The world holds
  the rows (\<open>data\<close>), the messages handed to the event bus so far (\<open>outbox\<close>) and an
  oracle (\<open>faults\<close>) that decides, statement by statement, whether the infrastructure answers.  A theorem about all worlds is therefore a theorem about all
  schedules of database failures.
\<close>

named_theorems prog_elims \<open>when a program step returns a value\<close>
named_theorems preserves_intros \<open>programs that preserve an invariant of the rows\<close>
named_theorems wp_intros \<open>weakest preconditions, one rule per program construct\<close>
named_theorems repo_defs \<open>definitions of the repository statements\<close>

section \<open>Results\<close>

definition bindE :: "'e + 'a \<Rightarrow> ('a \<Rightarrow> 'e + 'b) \<Rightarrow> 'e + 'b" where
  "bindE r f = (case r of Inl e \<Rightarrow> Inl e | Inr x \<Rightarrow> f x)"

lemma bindE_simps [simp]: "bindE (Inl e) f = Inl e" "bindE (Inr x) f = f x"
  by (simp_all add: bindE_def)

lemma bindE_Inr_iff: "bindE r f = Inr y \<longleftrightarrow> (\<exists>x. r = Inr x \<and> f x = Inr y)"
  by (cases r) auto

lemma bindE_Inl_iff: "bindE r f = Inl e \<longleftrightarrow> r = Inl e \<or> (\<exists>x. r = Inr x \<and> f x = Inl e)"
  by (cases r) auto

definition guardE :: "bool \<Rightarrow> 'e \<Rightarrow> 'e + unit" where
  "guardE b e = (if b then Inr () else Inl e)"

lemma guardE_iff [simp]: "guardE b e = Inr u \<longleftrightarrow> b" "guardE b e = Inl e' \<longleftrightarrow> \<not> b \<and> e = e'"
  by (auto simp: guardE_def)

section \<open>Programs over a database that may fail\<close>

record ('d, 'o) world =
  data :: 'd
  faults :: "bool list"
  outbox :: "'o list"

type_synonym ('e, 'd, 'o, 'a) prog = "('d, 'o) world \<Rightarrow> ('e + 'a) \<times> ('d, 'o) world"

definition ret :: "'a \<Rightarrow> ('e, 'd, 'o, 'a) prog" where
  "ret x w = (Inr x, w)"

definition fail :: "'e \<Rightarrow> ('e, 'd, 'o, 'a) prog" where
  "fail e w = (Inl e, w)"

definition bind :: "('e, 'd, 'o, 'a) prog \<Rightarrow> ('a \<Rightarrow> ('e, 'd, 'o, 'b) prog) \<Rightarrow> ('e, 'd, 'o, 'b) prog" where
  "bind m f w = (case m w of (Inl e, w') \<Rightarrow> (Inl e, w') | (Inr x, w') \<Rightarrow> f x w')"

text \<open>A pure result inside a program, and a check that returns early with an error.\<close>

definition lift :: "'e + 'a \<Rightarrow> ('e, 'd, 'o, 'a) prog" where
  "lift r w = (r, w)"

definition require :: "bool \<Rightarrow> 'e \<Rightarrow> ('e, 'd, 'o, unit) prog" where
  "require b e = (if b then ret () else fail e)"

text \<open>
  One SQL statement.  The oracle may refuse it (the driver returns an error, nothing is written);
  otherwise the statement runs atomically on the rows and may itself report an error, a violated
  constraint for instance, without writing.
\<close>

definition stmt :: "'e \<Rightarrow> ('d \<Rightarrow> 'e + 'a \<times> 'd) \<Rightarrow> ('e, 'd, 'o, 'a) prog" where
  "stmt infra f w =
     (let w' = w\<lparr>faults := tl (faults w)\<rparr>
      in if faults w \<noteq> [] \<and> hd (faults w) then (Inl infra, w')
         else case f (data w) of
                Inl e \<Rightarrow> (Inl e, w')
              | Inr (x, d) \<Rightarrow> (Inr x, w'\<lparr>data := d\<rparr>))"

definition query :: "'e \<Rightarrow> ('d \<Rightarrow> 'a) \<Rightarrow> ('e, 'd, 'o, 'a) prog" where
  "query infra g = stmt infra (\<lambda>d. Inr (g d, d))"

text \<open>
  The transaction runner: an error of the body, or of the commit, restores the rows
  the transaction started from.  The oracle is not restored: the statements have been sent.
\<close>

definition atomically :: "'e \<Rightarrow> ('e, 'd, 'o, 'a) prog \<Rightarrow> ('e, 'd, 'o, 'a) prog" where
  "atomically infra m w =
     (case bind m (\<lambda>x. bind (query infra (\<lambda>_. ())) (\<lambda>_. ret x)) w of
        (Inl e, w') \<Rightarrow> (Inl e, w'\<lparr>data := data w\<rparr>)
      | (Inr x, w') \<Rightarrow> (Inr x, w'))"

text \<open>Run a program and hand its result, an error included, to the caller.\<close>

definition attempt :: "('e, 'd, 'o, 'a) prog \<Rightarrow> ('e, 'd, 'o, 'e + 'a) prog" where
  "attempt m w = (case m w of (r, w') \<Rightarrow> (Inr r, w'))"

text \<open>Hand a message to the bus: it is outside every transaction and reports no error.\<close>

definition emit :: "'o \<Rightarrow> ('e, 'd, 'o, unit) prog" where
  "emit m w = (Inr (), w\<lparr>outbox := outbox w @ [m]\<rparr>)"

text \<open>Run a program for every element of a list, stopping at the first error.\<close>

fun for_each :: "('a \<Rightarrow> ('e, 'd, 'o, unit) prog) \<Rightarrow> 'a list \<Rightarrow> ('e, 'd, 'o, unit) prog" where
  "for_each f [] = ret ()"
| "for_each f (x # xs) = bind (f x) (\<lambda>_. for_each f xs)"

subsection \<open>When a step returns a value\<close>

lemma ret_iff [prog_elims]: "ret x w = (Inr y, w') \<longleftrightarrow> y = x \<and> w' = w"
  by (auto simp: ret_def)

lemma fail_iff [prog_elims]: "fail e w = (Inr y, w') \<longleftrightarrow> False"
  by (simp add: fail_def)

lemma bind_iff [prog_elims]:
  "bind m f w = (Inr y, w'') \<longleftrightarrow> (\<exists>x w'. m w = (Inr x, w') \<and> f x w' = (Inr y, w''))"
  by (auto simp: bind_def split: prod.splits sum.splits)

lemma lift_iff [prog_elims]: "lift r w = (Inr y, w') \<longleftrightarrow> r = Inr y \<and> w' = w"
  by (auto simp: lift_def)

lemma require_iff [prog_elims]: "require b e w = (Inr u, w') \<longleftrightarrow> b \<and> w' = w"
  by (auto simp: require_def ret_def fail_def)

lemma emit_iff [prog_elims]:
  "emit m w = (Inr u, w') \<longleftrightarrow> w' = w\<lparr>outbox := outbox w @ [m]\<rparr>"
  by (auto simp: emit_def)

lemma stmt_iff [prog_elims]:
  "stmt infra f w = (Inr y, w') \<longleftrightarrow>
     (faults w = [] \<or> \<not> hd (faults w)) \<and>
     (\<exists>d. f (data w) = Inr (y, d) \<and> w' = w\<lparr>faults := tl (faults w), data := d\<rparr>)"
  by (auto simp: stmt_def Let_def split: sum.splits prod.splits)

lemma query_iff [prog_elims]:
  "query infra g w = (Inr y, w') \<longleftrightarrow>
     (faults w = [] \<or> \<not> hd (faults w)) \<and> y = g (data w) \<and> w' = w\<lparr>faults := tl (faults w)\<rparr>"
  by (auto simp: query_def stmt_iff)

lemma if_prog_iff [prog_elims]:
  "(if b then m else m') w = (Inr y, w') \<longleftrightarrow>
     (b \<and> m w = (Inr y, w')) \<or> (\<not> b \<and> m' w = (Inr y, w'))"
  by simp

lemma atomically_iff [prog_elims]:
  "atomically infra m w = (Inr y, w'') \<longleftrightarrow>
     (\<exists>w'. m w = (Inr y, w') \<and> (faults w' = [] \<or> \<not> hd (faults w')) \<and>
           w'' = w'\<lparr>faults := tl (faults w')\<rparr>)"
proof -
  let ?body = "bind m (\<lambda>x. bind (query infra (\<lambda>_. ())) (\<lambda>_. ret x))"
  have "atomically infra m w = (Inr y, w'') \<longleftrightarrow> ?body w = (Inr y, w'')"
    unfolding atomically_def by (auto split: prod.splits sum.splits)
  also have "\<dots> \<longleftrightarrow> (\<exists>w'. m w = (Inr y, w') \<and> (faults w' = [] \<or> \<not> hd (faults w')) \<and>
      w'' = w'\<lparr>faults := tl (faults w')\<rparr>)"
    by (auto simp: bind_iff query_iff ret_iff)
  finally show ?thesis .
qed

text \<open>A transaction that reports an error leaves the rows as it found them.\<close>

lemma atomically_error: "atomically infra m w = (Inl e, w') \<Longrightarrow> data w' = data w"
  by (auto simp: atomically_def split: prod.splits sum.splits)

lemma atomically_data:
  "atomically infra m w = (r, w') \<Longrightarrow>
     data w' = data w \<or> (\<exists>y w1. r = Inr y \<and> m w = (Inr y, w1) \<and> data w' = data w1)"
  by (cases r) (auto dest: atomically_error simp: atomically_iff)

subsection \<open>Laws of sequencing\<close>

lemma bind_unit:
  "bind (lift (Inr x)) g = g x" "bind (lift (Inl e)) g = fail e" "bind (ret x) g = g x"
  "bind (fail e) g = fail e"
  by (simp_all add: fun_eq_iff bind_def lift_def fail_def ret_def)

lemma bind_assoc: "bind (bind m g) h = bind m (\<lambda>x. bind (g x) h)"
  by (auto simp: fun_eq_iff bind_def split: prod.split sum.split)

subsection \<open>Worlds without faults\<close>

lemma stmt_no_faults [simp]:
  "faults w = [] \<Longrightarrow> stmt infra f w =
     (case f (data w) of Inl e \<Rightarrow> (Inl e, w) | Inr (x, d) \<Rightarrow> (Inr x, w\<lparr>data := d\<rparr>))"
  by (cases w) (auto simp: stmt_def split: sum.splits prod.splits)

lemma query_no_faults [simp]: "faults w = [] \<Longrightarrow> query infra g w = (Inr (g (data w)), w)"
  by (simp add: query_def)

lemma bind_step [simp]:
  "m w = (Inr x, w') \<Longrightarrow> bind m f w = f x w'"
  "m w = (Inl e, w') \<Longrightarrow> bind m f w = (Inl e, w')"
  by (simp_all add: bind_def)

lemma prog_steps [simp]:
  "ret x w = (Inr x, w)" "fail e w = (Inl e, w)" "lift r w = (r, w)"
  "require True e = ret ()" "require False e = fail e"
  by (simp_all add: ret_def fail_def lift_def require_def)

lemma atomically_steps:
  "m w = (Inl e, w') \<Longrightarrow> atomically infra m w = (Inl e, w'\<lparr>data := data w\<rparr>)"
  "m w = (Inr x, w') \<Longrightarrow> faults w' = [] \<Longrightarrow> atomically infra m w = (Inr x, w')"
  by (simp_all add: atomically_def)

subsection \<open>Invariants of the rows\<close>

text \<open>
  \<open>preserves I m\<close>: whatever happens, an error included, \<open>m\<close> leaves rows that satisfy
  \<open>I\<close> when it found such rows.  The rules follow the shape of a program, so a handler
  is reduced to its writes.
\<close>

definition preserves :: "('d \<Rightarrow> bool) \<Rightarrow> ('e, 'd, 'o, 'a) prog \<Rightarrow> bool" where
  "preserves I m \<longleftrightarrow> (\<forall>w r w'. I (data w) \<longrightarrow> m w = (r, w') \<longrightarrow> I (data w'))"

lemma preservesD: "preserves I m \<Longrightarrow> m w = (r, w') \<Longrightarrow> I (data w) \<Longrightarrow> I (data w')"
  by (auto simp: preserves_def)

lemma preserves_basic [preserves_intros]:
  "preserves I (ret x)" "preserves I (fail e)" "preserves I (lift r)" "preserves I (require b e)"
  "preserves I (emit m)"
  by (auto simp: preserves_def ret_def fail_def lift_def require_def emit_def)

lemma preserves_query [preserves_intros]: "preserves I (query infra g)"
  by (auto simp: preserves_def query_def stmt_def Let_def split: if_splits)

lemma preserves_stmt:
  "(\<And>d x d'. I d \<Longrightarrow> f d = Inr (x, d') \<Longrightarrow> I d') \<Longrightarrow> preserves I (stmt infra f)"
  unfolding preserves_def
proof (intro allI impI)
  fix w r w'
  assume step: "\<And>d x d'. I d \<Longrightarrow> f d = Inr (x, d') \<Longrightarrow> I d'"
    and I: "I (data w)" and run: "stmt infra f w = (r, w')"
  show "I (data w')"
  proof (cases "f (data w)")
    case (Inl e)
    with I run show ?thesis by (auto simp: stmt_def Let_def split: if_splits)
  next
    case (Inr y)
    with I run step [OF I, of "fst y" "snd y"] show ?thesis
      by (auto simp: stmt_def Let_def split: if_splits prod.splits)
  qed
qed

lemma preserves_bind [preserves_intros]:
  "preserves I m \<Longrightarrow> (\<And>x. preserves I (f x)) \<Longrightarrow> preserves I (bind m f)"
  unfolding preserves_def
proof (intro allI impI)
  fix w r w'
  assume m: "\<forall>w r w'. I (data w) \<longrightarrow> m w = (r, w') \<longrightarrow> I (data w')"
    and f: "\<And>x. \<forall>w r w'. I (data w) \<longrightarrow> f x w = (r, w') \<longrightarrow> I (data w')"
    and I: "I (data w)" and run: "bind m f w = (r, w')"
  obtain r1 w1 where step: "m w = (r1, w1)" by (cases "m w")
  with m I have "I (data w1)" by blast
  with step run f show "I (data w')" by (cases r1) (auto simp: bind_def)
qed

text \<open>What a step hands to the rest of the program, given the invariant.\<close>

definition yields :: "('d \<Rightarrow> bool) \<Rightarrow> ('a \<Rightarrow> bool) \<Rightarrow> ('e, 'd, 'o, 'a) prog \<Rightarrow> bool" where
  "yields I Q m \<longleftrightarrow> (\<forall>w y w'. I (data w) \<longrightarrow> m w = (Inr y, w') \<longrightarrow> Q y)"

lemma preserves_bind_yields:
  assumes "preserves I m" "yields I Q m" "\<And>x. Q x \<Longrightarrow> preserves I (f x)"
  shows "preserves I (bind m f)"
  unfolding preserves_def
proof (intro allI impI)
  fix w r w'
  assume I: "I (data w)" and run: "bind m f w = (r, w')"
  obtain r1 w1 where step: "m w = (r1, w1)" by (cases "m w")
  with assms(1) I have I1: "I (data w1)" by (auto dest: preservesD)
  show "I (data w')"
  proof (cases r1)
    case (Inl e)
    with step run I1 show ?thesis by (simp add: bind_def)
  next
    case (Inr x)
    with step I assms(2) have "Q x" by (auto simp: yields_def)
    from preservesD [OF assms(3) [OF this], of w1 r w'] I1 step Inr run
    show ?thesis by (simp add: bind_def)
  qed
qed

lemma preserves_attempt [preserves_intros]: "preserves I m \<Longrightarrow> preserves I (attempt m)"
  unfolding preserves_def attempt_def by (fastforce split: prod.splits)

lemma preserves_case_sum [preserves_intros]:
  "(\<And>e. r = Inl e \<Longrightarrow> preserves I (f e)) \<Longrightarrow> (\<And>x. r = Inr x \<Longrightarrow> preserves I (g x)) \<Longrightarrow>
     preserves I (case r of Inl e \<Rightarrow> f e | Inr x \<Rightarrow> g x)"
  by (cases r) auto

lemma preserves_if [preserves_intros]:
  "(b \<Longrightarrow> preserves I m) \<Longrightarrow> (\<not> b \<Longrightarrow> preserves I m') \<Longrightarrow> preserves I (if b then m else m')"
  by simp

lemma preserves_case_option [preserves_intros]:
  "(x = None \<Longrightarrow> preserves I m) \<Longrightarrow> (\<And>y. x = Some y \<Longrightarrow> preserves I (f y)) \<Longrightarrow>
     preserves I (case x of None \<Rightarrow> m | Some y \<Rightarrow> f y)"
  by (cases x) auto

lemma preserves_case_list [preserves_intros]:
  "(xs = [] \<Longrightarrow> preserves I m) \<Longrightarrow> (\<And>y ys. xs = y # ys \<Longrightarrow> preserves I (f y ys)) \<Longrightarrow>
     preserves I (case xs of [] \<Rightarrow> m | y # ys \<Rightarrow> f y ys)"
  by (cases xs) auto

lemma preserves_atomically [preserves_intros]:
  assumes "preserves I m" shows "preserves I (atomically infra m)"
  unfolding preserves_def
proof (intro allI impI)
  fix w r w'
  assume I: "I (data w)" and run: "atomically infra m w = (r, w')"
  from atomically_data [OF run] show "I (data w')"
    using I assms by (auto dest: preservesD)
qed

lemma preserves_for_each [preserves_intros]:
  "(\<And>x. x \<in> set xs \<Longrightarrow> preserves I (f x)) \<Longrightarrow> preserves I (for_each f xs)"
  by (induction xs) (auto intro!: preserves_intros)

subsection \<open>Weakest preconditions\<close>

text \<open>
  \<open>wpf f m Q d os\<close>: started on rows \<open>d\<close> with outbox \<open>os\<close>, \<open>m\<close> ends in a
  result, rows and outbox that satisfy \<open>Q\<close>; with \<open>f\<close> for every answer of the oracle,
  without \<open>f\<close> when no statement is refused.  One rule per construct turns a handler into the
  conditions on its branches.
\<close>

definition wpf :: "bool \<Rightarrow> ('e, 'd, 'o, 'a) prog \<Rightarrow> ('e + 'a \<Rightarrow> 'd \<Rightarrow> 'o list \<Rightarrow> bool) \<Rightarrow>
    'd \<Rightarrow> 'o list \<Rightarrow> bool" where
  "wpf f m Q d os \<longleftrightarrow> (\<forall>w. data w = d \<longrightarrow> outbox w = os \<longrightarrow> f \<or> faults w = [] \<longrightarrow>
     (case m w of (r, w') \<Rightarrow> Q r (data w') (outbox w') \<and> (f \<or> faults w' = [])))"

abbreviation "wp \<equiv> wpf True"

lemma wpD: "wp m Q (data w) (outbox w) \<Longrightarrow> m w = (r, w') \<Longrightarrow> Q r (data w') (outbox w')"
  by (auto simp: wpf_def)

lemma wpf_no_faults:
  "wpf False m Q (data w) (outbox w) \<Longrightarrow> faults w = [] \<Longrightarrow> m w = (r, w') \<Longrightarrow>
     Q r (data w') (outbox w') \<and> faults w' = []"
  by (auto simp: wpf_def)

lemma wpf_exec:
  assumes "wpf False m (\<lambda>r d' os'. r = r1 \<and> d' = d1 \<and> os' = os1) (data w) (outbox w)" "faults w = []"
  shows "m w = (r1, w\<lparr>data := d1, outbox := os1\<rparr>)"
  using wpf_no_faults [OF assms] assms(2) by (cases "m w") (auto intro: world.equality)

lemma wp_basic [wp_intros]:
  "Q (Inr x) d os \<Longrightarrow> wpf f (ret x) Q d os" "Q (Inl e) d os \<Longrightarrow> wpf f (fail e) Q d os"
  "Q r d os \<Longrightarrow> wpf f (lift r) Q d os"
  by (auto simp: wpf_def)

lemma wp_emit [wp_intros]: "Q (Inr ()) d (os @ [m]) \<Longrightarrow> wpf f (emit m) Q d os"
  by (auto simp: wpf_def emit_def)

lemma wp_require [wp_intros]:
  "(b \<Longrightarrow> Q (Inr ()) d os) \<Longrightarrow> (\<not> b \<Longrightarrow> Q (Inl e) d os) \<Longrightarrow> wpf f (require b e) Q d os"
  by (auto simp: wpf_def require_def)

lemma wp_stmt:
  assumes "f \<Longrightarrow> Q (Inl infra) d os" "\<And>e. g d = Inl e \<Longrightarrow> Q (Inl e) d os"
    "\<And>x d'. g d = Inr (x, d') \<Longrightarrow> Q (Inr x) d' os"
  shows "wpf f (stmt infra g) Q d os"
  using assms by (auto simp: wpf_def stmt_def Let_def split: sum.splits)

lemma wp_query [wp_intros]:
  "(f \<Longrightarrow> Q (Inl infra) d os) \<Longrightarrow> Q (Inr (g d)) d os \<Longrightarrow> wpf f (query infra g) Q d os"
  unfolding query_def by (rule wp_stmt) auto

lemma wp_bind [wp_intros]:
  "wpf f m (\<lambda>r d' os'. case r of Inl e \<Rightarrow> Q (Inl e) d' os' | Inr x \<Rightarrow> wpf f (g x) Q d' os') d os \<Longrightarrow>
     wpf f (bind m g) Q d os"
  unfolding wpf_def bind_def
  by (fastforce split: prod.splits sum.splits)

lemma wp_attempt [wp_intros]: "wpf f m (\<lambda>r. Q (Inr r)) d os \<Longrightarrow> wpf f (attempt m) Q d os"
  unfolding wpf_def attempt_def by (fastforce split: prod.splits)

lemma wp_case_sum [wp_intros]:
  "(\<And>e. r = Inl e \<Longrightarrow> wpf f (g e) Q d os) \<Longrightarrow> (\<And>x. r = Inr x \<Longrightarrow> wpf f (h x) Q d os) \<Longrightarrow>
     wpf f (case r of Inl e \<Rightarrow> g e | Inr x \<Rightarrow> h x) Q d os"
  by (cases r) auto

lemma wp_if [wp_intros]:
  "(b \<Longrightarrow> wpf f m Q d os) \<Longrightarrow> (\<not> b \<Longrightarrow> wpf f m' Q d os) \<Longrightarrow> wpf f (if b then m else m') Q d os"
  by simp

lemma wp_case_option [wp_intros]:
  "(x = None \<Longrightarrow> wpf f m Q d os) \<Longrightarrow> (\<And>y. x = Some y \<Longrightarrow> wpf f (g y) Q d os) \<Longrightarrow>
     wpf f (case x of None \<Rightarrow> m | Some y \<Rightarrow> g y) Q d os"
  by (cases x) auto

lemma wp_atomically [wp_intros]:
  assumes "wpf f m (\<lambda>r d' os'. case r of Inl e \<Rightarrow> Q (Inl e) d os'
        | Inr x \<Rightarrow> Q (Inr x) d' os' \<and> (f \<longrightarrow> Q (Inl infra) d os')) d os"
  shows "wpf f (atomically infra m) Q d os"
  unfolding wpf_def
proof (intro allI impI)
  fix w :: "('a, 'b) world"
  assume w: "data w = d" "outbox w = os" and f: "f \<or> faults w = []"
  obtain r w' where run: "m w = (r, w')" by (cases "m w")
  from assms w f run have *: "case r of Inl e \<Rightarrow> Q (Inl e) d (outbox w')
        | Inr x \<Rightarrow> Q (Inr x) (data w') (outbox w') \<and> (f \<longrightarrow> Q (Inl infra) d (outbox w'))"
    and f': "f \<or> faults w' = []"
    by (auto simp: wpf_def)
  show "case atomically infra m w of
      (r, w') \<Rightarrow> Q r (data w') (outbox w') \<and> (f \<or> faults w' = [])"
  proof (cases r)
    case (Inl e)
    with run have "atomically infra m w = (Inl e, w'\<lparr>data := data w\<rparr>)"
      by (simp add: atomically_steps)
    with * Inl w f' show ?thesis by simp
  next
    case (Inr x)
    with run have "atomically infra m w =
        (if faults w' \<noteq> [] \<and> hd (faults w')
         then (Inl infra, w'\<lparr>faults := tl (faults w'), data := data w\<rparr>)
         else (Inr x, w'\<lparr>faults := tl (faults w')\<rparr>))"
      by (simp add: atomically_def bind_def query_def stmt_def Let_def)
    with * Inr w f' show ?thesis by auto
  qed
qed

lemma wp_mono:
  "wpf f m Q d os \<Longrightarrow> (\<And>r d' os'. Q r d' os' \<Longrightarrow> Q' r d' os') \<Longrightarrow> wpf f m Q' d os"
  by (auto simp: wpf_def split: prod.splits)

lemma preserves_wp:
  "(\<And>d os. I d \<Longrightarrow> wp m (\<lambda>r d' os'. I d') d os) \<Longrightarrow> preserves I m"
  unfolding preserves_def wpf_def by (fastforce split: prod.splits)

section \<open>Tables\<close>

text \<open>
  A table is the list of its rows in primary-key order.  \<open>update_where\<close> and
  \<open>count_where\<close> are \<open>UPDATE ... WHERE\<close> and its \<open>RowsAffected\<close>;
  \<open>select_first\<close> is a query with \<open>First\<close>.
\<close>

definition update_where :: "('r \<Rightarrow> bool) \<Rightarrow> ('r \<Rightarrow> 'r) \<Rightarrow> 'r list \<Rightarrow> 'r list" where
  "update_where P f rows = map (\<lambda>r. if P r then f r else r) rows"

definition count_where :: "('r \<Rightarrow> bool) \<Rightarrow> 'r list \<Rightarrow> nat" where
  "count_where P rows = length (filter P rows)"

definition select_first :: "('r \<Rightarrow> bool) \<Rightarrow> 'r list \<Rightarrow> 'r option" where
  "select_first P rows = find P rows"

definition option_to_result :: "'e \<Rightarrow> 'a option \<Rightarrow> 'e + 'a" where
  "option_to_result e r = (case r of None \<Rightarrow> Inl e | Some x \<Rightarrow> Inr x)"

lemma option_to_result_iff [simp]:
  "option_to_result e r = Inr x \<longleftrightarrow> r = Some x"
  "option_to_result e r = Inl e' \<longleftrightarrow> r = None \<and> e' = e"
  by (auto simp: option_to_result_def split: option.splits)

lemma option_to_result_simps [simp]:
  "option_to_result e None = Inl e" "option_to_result e (Some x) = Inr x"
  by (simp_all add: option_to_result_def)

lemma set_update_where:
  "r \<in> set (update_where P f rows) \<longleftrightarrow>
     (\<exists>r0 \<in> set rows. r = (if P r0 then f r0 else r0))"
  by (auto simp: update_where_def)

lemma update_where_key:
  "(\<And>r. k (f r) = k r) \<Longrightarrow> map k (update_where P f rows) = map k rows"
  by (simp add: update_where_def)

lemma update_where_none: "(\<And>r. r \<in> set rows \<Longrightarrow> \<not> P r) \<Longrightarrow> update_where P f rows = rows"
  by (simp add: update_where_def map_idI)

lemma update_where_update_where:
  "(\<And>r. P (f r) = P r) \<Longrightarrow>
     update_where P g (update_where P f rows) = update_where P (\<lambda>r. g (f r)) rows"
  by (auto simp: update_where_def)

lemma count_where_zero: "count_where P rows = 0 \<longleftrightarrow> (\<forall>r \<in> set rows. \<not> P r)"
  by (simp add: count_where_def filter_empty_conv)

lemma count_where_pos_iff: "0 < count_where P rows \<longleftrightarrow> (\<exists>r \<in> set rows. P r)"
  using count_where_zero [of P rows] by auto

lemma select_first_Some:
  "select_first P rows = Some r \<Longrightarrow> r \<in> set rows \<and> P r"
  by (auto simp: select_first_def find_Some_iff)

lemma select_first_None: "select_first P rows = None \<longleftrightarrow> (\<forall>r \<in> set rows. \<not> P r)"
  by (auto simp: select_first_def find_None_iff)

lemma select_first_unique:
  assumes "r \<in> set rows" "P r" "\<And>r'. r' \<in> set rows \<Longrightarrow> P r' \<Longrightarrow> r' = r"
  shows "select_first P rows = Some r"
proof (cases "select_first P rows")
  case None
  with assms(1,2) show ?thesis by (auto simp: select_first_None)
next
  case (Some r')
  then show ?thesis using assms(3) select_first_Some by fastforce
qed

lemma distinct_key_unique:
  "distinct (map k rows) \<Longrightarrow> r \<in> set rows \<Longrightarrow> r' \<in> set rows \<Longrightarrow> k r = k r' \<Longrightarrow> r = r'"
  by (auto simp: distinct_map dest: inj_onD)

lemma select_first_key:
  "distinct (map k rows) \<Longrightarrow> r \<in> set rows \<Longrightarrow> P r \<Longrightarrow> (\<And>r'. P r' \<Longrightarrow> k r' = k r) \<Longrightarrow>
     select_first P rows = Some r"
  by (rule select_first_unique) (auto dest: distinct_key_unique)

section \<open>Arithmetic\<close>

lemma int_div_less_iff:
  fixes m :: int
  assumes "0 < l"
  shows "m div l < p \<longleftrightarrow> m < p * l"
proof -
  have eq: "m = (m div l) * l + m mod l" by simp
  have b: "0 \<le> m mod l" "m mod l < l" using assms by simp_all
  show ?thesis
  proof
    assume "m div l < p"
    then have "(m div l + 1) * l \<le> p * l" using assms by (intro mult_right_mono) auto
    then have "m div l * l + l \<le> p * l" by (simp add: distrib_right)
    then show "m < p * l" using eq b by linarith
  next
    assume h: "m < p * l"
    show "m div l < p"
    proof (rule ccontr)
      assume "\<not> m div l < p"
      then have "p * l \<le> (m div l) * l" using assms by (intro mult_right_mono) auto
      then show False using h eq b by linarith
    qed
  qed
qed

end
