(* ===== verification/Domain.thy ===== *)
theory Domain
  imports Prelude
begin

text \<open>
  The domain layer (\<open>internal/domain\<close>): error sentinels, the entities that cross the
  layers, and the small pure functions on them.  Identifiers are Go \<open>int64\<close> values and
  times are UTC instants in nanoseconds, as Go has them;
  both are \<open>int\<close> here.  Optional pointers are \<open>option\<close>.
\<close>

section \<open>Errors (errors.go)\<close>

text \<open>
  \<open>ErrInfra\<close> stands for every wrapped driver error that is no sentinel,
  \<open>ErrRowsAffected\<close> for the count mismatch of \<open>requireRows\<close>, and
  \<open>ErrResource\<close> for \<open>domain.ResourceError\<close>.
\<close>

datatype error =
    ErrNotFound | ErrConflict | ErrValidation | ErrForbidden | ErrInvalidCredentials
  | ErrOAuthAccessDenied | ErrOAuthCallbackInvalid | ErrOAuthVerificationFailed
  | ErrConfirmationRequired | ErrDisabled | ErrAnonymousRestricted | ErrRegistrationClosed
  | ErrMailUnavailable | ErrLastAdmin | ErrLastLoginMethod | ErrCacheInvalidation
  | ErrCaptchaRequired | ErrCaptchaUnavailable | ErrCaptchaFailed | ErrProviderNotFound
  | ErrParentNotFound | ErrParentDeleted | ErrCrossThreadReply | ErrDepthExceeded
  | ErrSiteInactive | ErrThreadClosed | ErrCredentialStale | ErrCredentialMode
  | ErrUnavailable | ErrRateLimited | ErrSecretCorrupt | ErrTokenInvalid
  | ErrAlreadyInitialized | ErrEmailExists | ErrEmailDomainNotAllowed | ErrAuthorizationRequired
  | ErrInfra
  | ErrRowsAffected nat nat
  | ErrResource (resource_id: int) (resource_err: error)

section \<open>Enumerations (types.go)\<close>

datatype role = RoleAdmin | RoleUser

datatype user_status = UserStatusActive | UserStatusDisabled | UserStatusDeleted

datatype site_status = SiteStatusActive | SiteStatusDisabled

datatype comment_status =
  CommentStatusPending | CommentStatusPublished | CommentStatusSpam | CommentStatusDeleted

datatype comment_sort = CommentSortAsc | CommentSortDesc | CommentSortHot

fun status_string :: "comment_status \<Rightarrow> string" where
  "status_string CommentStatusPending = ''pending''"
| "status_string CommentStatusPublished = ''published''"
| "status_string CommentStatusSpam = ''spam''"
| "status_string CommentStatusDeleted = ''deleted''"

fun sort_string :: "comment_sort \<Rightarrow> string" where
  "sort_string CommentSortAsc = ''asc''"
| "sort_string CommentSortDesc = ''desc''"
| "sort_string CommentSortHot = ''hot''"

abbreviation "CommentModeAnonymous \<equiv> ''anonymous''"
abbreviation "CommentModeAuthenticated \<equiv> ''authenticated''"
abbreviation "PrivacyModeNone \<equiv> ''none''"
abbreviation "PrivacyModeCoarse \<equiv> ''coarse''"
abbreviation "PrivacyModeFull \<equiv> ''full''"
abbreviation "ModerationDirect \<equiv> ''direct''"
abbreviation "ModerationReview \<equiv> ''review''"
abbreviation "UserDeleteModeSoft \<equiv> ''soft''"
abbreviation "UserDeleteModeHard \<equiv> ''hard''"

section \<open>Sort parameters and paging (types.go)\<close>

text \<open>A \<open>CommentSort\<close> conversion of an unvalidated string: only the three constants are valid.\<close>

definition comment_sort_of :: "string \<Rightarrow> comment_sort option" where
  "comment_sort_of s =
     (if s = ''asc'' then Some CommentSortAsc
      else if s = ''desc'' then Some CommentSortDesc
      else if s = ''hot'' then Some CommentSortHot
      else None)"

definition ValidCommentSort :: "string \<Rightarrow> bool" where
  "ValidCommentSort s \<longleftrightarrow> s = ''asc'' \<or> s = ''desc''"

definition ValidPublicCommentSort :: "string \<Rightarrow> bool" where
  "ValidPublicCommentSort s \<longleftrightarrow> ValidCommentSort s \<or> s = ''hot''"

definition NormalizeAdminSort :: "string \<Rightarrow> error + comment_sort" where
  "NormalizeAdminSort raw =
     (if raw = '''' then Inr CommentSortDesc
      else if \<not> ValidCommentSort raw then Inl ErrValidation
      else option_to_result ErrValidation (comment_sort_of raw))"

lemma comment_sort_of_string [simp]: "comment_sort_of (sort_string s) = Some s"
  by (cases s) (simp_all add: comment_sort_of_def)

lemma sort_string_inj [simp]: "sort_string s = sort_string t \<longleftrightarrow> s = t"
  by (cases s; cases t) simp_all

lemma status_string_inj [simp]: "status_string s = status_string t \<longleftrightarrow> s = t"
  by (cases s; cases t) simp_all

lemma ValidPublicCommentSort_iff:
  "ValidPublicCommentSort s \<longleftrightarrow> (\<exists>t. comment_sort_of s = Some t)"
  by (auto simp: ValidPublicCommentSort_def ValidCommentSort_def comment_sort_of_def)

lemma comment_sort_of_Some: "comment_sort_of s = Some t \<Longrightarrow> s = sort_string t"
  by (auto simp: comment_sort_of_def split: if_splits)

lemma NormalizeAdminSort_iff:
  "NormalizeAdminSort raw = Inr s \<longleftrightarrow>
     (raw = '''' \<and> s = CommentSortDesc) \<or> (raw = ''asc'' \<and> s = CommentSortAsc) \<or>
     (raw = ''desc'' \<and> s = CommentSortDesc)"
  by (auto simp: NormalizeAdminSort_def ValidCommentSort_def comment_sort_of_def)

text \<open>
  \<open>int\<close> is 64 bits wide: \<open>maxInt\<close> is the code's \<open>int(^uint(0) >> 1)\<close>.
  Go's division truncates; both operands are positive where it is used.
\<close>

definition maxInt :: int where "maxInt = 2 ^ 63 - 1"
definition minInt :: int where "minInt = - (2 ^ 63)"

definition OffsetForPage :: "int \<Rightarrow> int \<Rightarrow> int" where
  "OffsetForPage page limit =
     (if page \<le> 1 \<or> limit \<le> 0 then 0
      else if page - 1 > maxInt div limit then maxInt - (maxInt mod limit)
      else (page - 1) * limit)"

lemma OffsetForPage_cases:
  assumes "1 < page" "0 < limit"
  shows "(page - 1) * limit \<le> maxInt \<Longrightarrow> OffsetForPage page limit = (page - 1) * limit"
    and "maxInt < (page - 1) * limit \<Longrightarrow> OffsetForPage page limit = maxInt - maxInt mod limit"
proof -
  have *: "maxInt div limit < page - 1 \<longleftrightarrow> maxInt < (page - 1) * limit"
    using assms(2) by (rule int_div_less_iff)
  show "(page - 1) * limit \<le> maxInt \<Longrightarrow> OffsetForPage page limit = (page - 1) * limit"
    using assms * by (auto simp: OffsetForPage_def)
  show "maxInt < (page - 1) * limit \<Longrightarrow> OffsetForPage page limit = maxInt - maxInt mod limit"
    using assms * by (auto simp: OffsetForPage_def)
qed

section \<open>Entities (types.go)\<close>

text \<open>
  A user with the two password columns of its row (\<open>repository/model\<close>), which \<open>domain.User\<close>
  leaves out.
\<close>

record user =
  u_id :: int
  u_email :: string
  u_email_normalized :: string
  u_nickname :: string
  u_website_url :: "string option"
  u_role :: role
  u_status :: user_status
  u_session_version :: int
  u_email_verified_at :: "int option"
  u_created_at :: int
  u_updated_at :: int
  u_deleted_at :: "int option"
  u_status_before_delete :: "user_status option"
  u_password_hash :: "string option"
  u_password_changed_at :: "int option"

record passkey_credential =
  pk_id :: int
  pk_user_id :: int
  pk_credential_id :: string
  pk_public_key :: string
  pk_attestation_type :: string
  pk_transports :: string
  pk_sign_count :: int
  pk_backup_eligible :: bool
  pk_backup_state :: bool
  pk_name :: string
  pk_created_at :: int
  pk_last_used_at :: "int option"

record external_identity =
  ei_id :: int
  ei_user_id :: int
  ei_provider_key :: string
  ei_provider_subject :: string
  ei_verified_email :: string
  ei_created_at :: int
  ei_last_login_at :: "int option"

record notification_preferences =
  np_id :: int
  np_user_id :: int
  np_reply_enabled :: bool
  np_moderation_enabled :: bool
  np_updated_at :: int

record principal =
  p_user_id :: int
  p_role :: role
  p_status :: user_status
  p_session_version :: int

record comment =
  c_id :: int
  c_site_id :: int
  c_thread_id :: int
  c_user_id :: int
  c_parent_id :: "int option"
  c_root_id :: "int option"
  c_reply_to_user_id :: "int option"
  c_depth :: int
  c_body_markdown :: string
  c_status :: comment_status
  c_status_before_delete :: "comment_status option"
  c_is_pinned :: bool
  c_ip_mode :: string
  c_ip_value :: "string option"
  c_ua_mode :: string
  c_ua_raw :: "string option"
  c_ua_browser :: "string option"
  c_ua_os :: "string option"
  c_ua_device :: "string option"
  c_created_at :: int
  c_updated_at :: int
  c_published_at :: "int option"
  c_deleted_at :: "int option"

record thread =
  t_id :: int
  t_site_id :: int
  t_page_key :: string
  t_page_url :: "string option"
  t_page_title :: "string option"
  t_comments_enabled :: bool
  t_created_at :: int
  t_updated_at :: int

text \<open>Patch of a thread: \<open>None\<close> keeps a field, the clear flags write \<open>NULL\<close>.\<close>

record thread_patch =
  tp_page_key :: "string option"
  tp_page_title :: "string option"
  tp_clear_page_title :: bool
  tp_page_url :: "string option"
  tp_clear_page_url :: bool
  tp_comments_enabled :: "bool option"

record site =
  s_id :: int
  s_name :: string
  s_canonical_url :: string
  s_status :: site_status
  s_created_at :: int
  s_updated_at :: int

text \<open>A row of \<open>site_origins\<close>: the domain \<open>Origin\<close> with its owning site.\<close>

record origin =
  o_id :: int
  o_site_id :: int
  o_origin :: string

record comment_like =
  l_id :: int
  l_site_id :: int
  l_comment_id :: int
  l_user_id :: int

text \<open>Position of a page: the pinned group, the sort columns and the row id.\<close>

record cursor =
  cur_pinned :: bool
  cur_created_at :: int
  cur_id :: int
  cur_like_count :: int
  cur_hot :: bool

record privacy_policy =
  pp_ip_mode :: string
  pp_ua_mode :: string

text \<open>
  \<open>CaptchaPolicy\<close> is a Go map read with the zero value for a missing key, so it is a
  boolean function of the action.
\<close>

record comment_policy =
  pol_mode :: string
  pol_epoch :: int
  pol_moderation :: string
  pol_user_delete_mode :: string
  pol_max_reply_depth :: int
  pol_public_registration :: bool
  pol_captcha_policy :: "string \<Rightarrow> bool"
  pol_privacy :: privacy_policy
  pol_gravatar_base_url :: string
  pol_comment_sort :: string
  pol_emoji_catalog_url :: string

datatype comment_event_type = TypeCommentCreated | TypeCommentPublished

record comment_event =
  ev_type :: comment_event_type
  ev_site_id :: int
  ev_thread_id :: int
  ev_comment_id :: int
  ev_user_id :: int
  ev_parent_id :: "int option"
  ev_mode :: string

record batch_result =
  br_requested :: nat
  br_changed :: nat
  br_unchanged :: nat

record trend_range =
  tr_start :: int
  tr_end :: int

record admin_filter =
  af_site_id :: "int option"
  af_thread_id :: "int option"
  af_status :: "comment_status option"
  af_user_id :: "int option"
  af_since :: "int option"
  af_until :: "int option"
  af_q :: string
  af_sort :: comment_sort
  af_offset :: int
  af_limit :: int

record owner_filter =
  of_site_id :: "int option"
  of_status :: "comment_status option"
  of_offset :: int
  of_limit :: int

end
