(* ===== verification/Go_Std.thy ===== *)
theory Go_Std
  imports Prelude "HOL-Library.Char_ord"
begin

text \<open>
  What the code uses of Go's standard library on strings: trimming, splitting, decimal
  integers of 64 bits and unpadded base64.  A Go string is a sequence of bytes, here a list of
  \<open>char\<close>, so \<open>len\<close> is \<open>length\<close>.
\<close>

section \<open>strings\<close>

text \<open>The UTF-8 encodings of the runes \<open>unicode.IsSpace\<close> accepts.\<close>

definition space_runes :: "string list" where
  "space_runes =
     [[CHR 0x09], [CHR 0x0A], [CHR 0x0B], [CHR 0x0C], [CHR 0x0D], [CHR 0x20],
      [CHR 0xC2, CHR 0x85], [CHR 0xC2, CHR 0xA0], [CHR 0xE1, CHR 0x9A, CHR 0x80],
      [CHR 0xE2, CHR 0x80, CHR 0x80], [CHR 0xE2, CHR 0x80, CHR 0x81], [CHR 0xE2, CHR 0x80, CHR 0x82],
      [CHR 0xE2, CHR 0x80, CHR 0x83], [CHR 0xE2, CHR 0x80, CHR 0x84], [CHR 0xE2, CHR 0x80, CHR 0x85],
      [CHR 0xE2, CHR 0x80, CHR 0x86], [CHR 0xE2, CHR 0x80, CHR 0x87], [CHR 0xE2, CHR 0x80, CHR 0x88],
      [CHR 0xE2, CHR 0x80, CHR 0x89], [CHR 0xE2, CHR 0x80, CHR 0x8A], [CHR 0xE2, CHR 0x80, CHR 0xA8],
      [CHR 0xE2, CHR 0x80, CHR 0xA9], [CHR 0xE2, CHR 0x80, CHR 0xAF], [CHR 0xE2, CHR 0x81, CHR 0x9F],
      [CHR 0xE3, CHR 0x80, CHR 0x80]]"

definition strip_rune :: "string list \<Rightarrow> string \<Rightarrow> string option" where
  "strip_rune rs s =
     (case find (\<lambda>r. r \<noteq> [] \<and> take (length r) s = r) rs of
        None \<Rightarrow> None
      | Some r \<Rightarrow> Some (drop (length r) s))"

lemma strip_rune_shorter: "strip_rune rs s = Some s' \<Longrightarrow> length s' < length s"
  by (auto simp: strip_rune_def find_Some_iff split: option.splits)
     (metis diff_less length_greater_0_conv take_Nil)

function trim_runes :: "string list \<Rightarrow> string \<Rightarrow> string" where
  "trim_runes rs s = (case strip_rune rs s of None \<Rightarrow> s | Some s' \<Rightarrow> trim_runes rs s')"
  by pat_completeness auto
termination
  by (relation "measure (\<lambda>(rs, s). length s)") (auto dest: strip_rune_shorter)

declare trim_runes.simps [simp del]

definition TrimSpace :: "string \<Rightarrow> string" where
  "TrimSpace s = rev (trim_runes (map rev space_runes) (rev (trim_runes space_runes s)))"

lemma trim_runes_length: "length (trim_runes rs s) \<le> length s"
proof (induction rs s rule: trim_runes.induct)
  case (1 rs s)
  then show ?case
    by (subst trim_runes.simps) (force split: option.splits dest: strip_rune_shorter)
qed

lemma TrimSpace_length: "length (TrimSpace s) \<le> length s"
  by (metis TrimSpace_def length_rev order_trans trim_runes_length)

lemma TrimSpace_Nil [simp]: "TrimSpace [] = []"
  using TrimSpace_length [of "[]"] by simp

text \<open>\<open>strings.Split\<close> on a one-byte separator: one field more than separators.\<close>

fun Split :: "char \<Rightarrow> string \<Rightarrow> string list" where
  "Split sep [] = [[]]"
| "Split sep (c # s) =
     (if c = sep then [] # Split sep s
      else (case Split sep s of [] \<Rightarrow> [[c]] | f # fs \<Rightarrow> (c # f) # fs))"

text \<open>\<open>strings.Join\<close>.\<close>

fun Join :: "char \<Rightarrow> string list \<Rightarrow> string" where
  "Join sep [] = []"
| "Join sep [f] = f"
| "Join sep (f # g # fs) = f @ sep # Join sep (g # fs)"

lemma Split_not_Nil [simp]: "Split sep s \<noteq> []"
  by (cases s) (auto split: list.splits)

lemma Split_no_sep: "sep \<notin> set s \<Longrightarrow> Split sep s = [s]"
  by (induction s) auto

lemma Split_append: "sep \<notin> set f \<Longrightarrow> Split sep (f @ sep # s) = f # Split sep s"
  by (induction f) auto

lemma Split_Join:
  "fs \<noteq> [] \<Longrightarrow> (\<And>f. f \<in> set fs \<Longrightarrow> sep \<notin> set f) \<Longrightarrow> Split sep (Join sep fs) = fs"
  by (induction sep fs rule: Join.induct) (auto simp: Split_no_sep Split_append)

text \<open>\<open>strings.SplitN(s, sep, 2)\<close>.\<close>

fun SplitN2 :: "char \<Rightarrow> string \<Rightarrow> string list" where
  "SplitN2 sep [] = [[]]"
| "SplitN2 sep (c # s) =
     (if c = sep then [[], s]
      else (case SplitN2 sep s of [] \<Rightarrow> [[c]] | f # fs \<Rightarrow> (c # f) # fs))"

lemma SplitN2_append: "sep \<notin> set f \<Longrightarrow> SplitN2 sep (f @ sep # s) = [f, s]"
  by (induction f) auto

definition HasPrefix :: "string \<Rightarrow> string \<Rightarrow> bool" where
  "HasPrefix s p \<longleftrightarrow> take (length p) s = p"

section \<open>strconv\<close>

definition digit_char :: "nat \<Rightarrow> char" where "digit_char n = char_of (48 + n)"

definition is_digit :: "char \<Rightarrow> bool" where
  "is_digit c \<longleftrightarrow> 48 \<le> (of_char c :: nat) \<and> (of_char c :: nat) \<le> 57"

definition digit_value :: "char \<Rightarrow> nat" where "digit_value c = of_char c - 48"

fun nat_digits :: "nat \<Rightarrow> string" where
  "nat_digits n = (if n < 10 then [digit_char n] else nat_digits (n div 10) @ [digit_char (n mod 10)])"

declare nat_digits.simps [simp del]

text \<open>\<open>strconv.FormatInt(n, 10)\<close>, which is also what \<open>%d\<close> prints.\<close>

definition FormatInt :: "int \<Rightarrow> string" where
  "FormatInt n = (if n < 0 then CHR ''-'' # nat_digits (nat (- n)) else nat_digits (nat n))"

definition parse_digits :: "string \<Rightarrow> nat option" where
  "parse_digits s =
     (if s \<noteq> [] \<and> (\<forall>c \<in> set s. is_digit c)
      then Some (foldl (\<lambda>a c. 10 * a + digit_value c) 0 s) else None)"

text \<open>
  \<open>strconv.ParseInt(s, 10, 64)\<close>: an optional sign, at least one digit, and a value in the range
  of \<open>int64\<close>; anything else is an error.
\<close>

definition ParseInt :: "string \<Rightarrow> int option" where
  "ParseInt s =
     (let (neg, ds) = (case s of
                         c # r \<Rightarrow> if c = CHR ''-'' then (True, r)
                                  else if c = CHR ''+'' then (False, r) else (False, s)
                       | [] \<Rightarrow> (False, s))
      in case parse_digits ds of
           None \<Rightarrow> None
         | Some n \<Rightarrow>
             (let v = (if neg then - int n else int n)
              in if - (2 ^ 63) \<le> v \<and> v \<le> 2 ^ 63 - 1 then Some v else None))"

lemma digit_char_facts:
  assumes "n < 10"
  shows "is_digit (digit_char n)" "digit_value (digit_char n) = n"
  using assms by (simp_all add: is_digit_def digit_value_def digit_char_def)

lemma nat_digits_not_Nil [simp]: "nat_digits n \<noteq> []"
  by (subst nat_digits.simps) simp

lemma nat_digits_digits: "\<forall>c \<in> set (nat_digits n). is_digit c"
proof (induction n rule: nat_digits.induct)
  case (1 n)
  then show ?case
    by (subst nat_digits.simps) (auto simp: digit_char_facts)
qed

lemma nat_digits_value: "foldl (\<lambda>a c. 10 * a + digit_value c) 0 (nat_digits n) = n"
proof (induction n rule: nat_digits.induct)
  case (1 n)
  then show ?case
    by (subst nat_digits.simps) (auto simp: digit_char_facts)
qed

lemma parse_nat_digits [simp]: "parse_digits (nat_digits n) = Some n"
  using nat_digits_digits nat_digits_value by (simp add: parse_digits_def)

lemma is_digit_not_sign: "is_digit c \<Longrightarrow> c \<noteq> CHR ''-'' \<and> c \<noteq> CHR ''+'' \<and> c \<noteq> CHR '':''"
  by (auto simp: is_digit_def)

lemma nat_digits_head: "\<exists>c r. nat_digits n = c # r \<and> is_digit c"
  using nat_digits_digits [of n] nat_digits_not_Nil [of n] by (cases "nat_digits n") auto

lemma FormatInt_no_colon: "CHR '':'' \<notin> set (FormatInt n)"
  using nat_digits_digits by (auto simp: FormatInt_def dest: is_digit_not_sign)

lemma FormatInt_digits: "0 \<le> n \<Longrightarrow> FormatInt n \<noteq> [] \<and> (\<forall>c \<in> set (FormatInt n). is_digit c)"
  using nat_digits_digits by (simp add: FormatInt_def)

theorem ParseInt_FormatInt:
  assumes "- (2 ^ 63) \<le> n" "n \<le> 2 ^ 63 - 1"
  shows "ParseInt (FormatInt n) = Some n"
proof (cases "n < 0")
  case True
  then show ?thesis using assms by (simp add: ParseInt_def FormatInt_def)
next
  case False
  obtain c r where c: "nat_digits (nat n) = c # r" "is_digit c" using nat_digits_head by blast
  then have "parse_digits (c # r) = Some (nat n)" by (metis parse_nat_digits)
  with c False assms show ?thesis
    by (simp add: ParseInt_def FormatInt_def is_digit_not_sign)
qed

section \<open>encoding/base64: RawURLEncoding and RawStdEncoding\<close>

definition b64_char :: "nat \<Rightarrow> char" where
  "b64_char n =
     (if n < 26 then char_of (65 + n) else if n < 52 then char_of (97 + (n - 26))
      else if n < 62 then char_of (48 + (n - 52)) else if n = 62 then CHR ''-'' else CHR ''_'')"

definition b64_value :: "char \<Rightarrow> nat option" where
  "b64_value c =
     (let k = (of_char c :: nat)
      in if 65 \<le> k \<and> k \<le> 90 then Some (k - 65) else if 97 \<le> k \<and> k \<le> 122 then Some (k - 97 + 26)
         else if 48 \<le> k \<and> k \<le> 57 then Some (k - 48 + 52) else if k = 45 then Some 62
         else if k = 95 then Some 63 else None)"

text \<open>Three bytes give four symbols, a rest of one or two bytes gives two or three.\<close>

fun b64_encode_nats :: "nat list \<Rightarrow> nat list" where
  "b64_encode_nats [] = []"
| "b64_encode_nats [a] = [a div 4, (a mod 4) * 16]"
| "b64_encode_nats [a, b] = [a div 4, (a mod 4) * 16 + b div 16, (b mod 16) * 4]"
| "b64_encode_nats (a # b # c # r) =
     [a div 4, (a mod 4) * 16 + b div 16, (b mod 16) * 4 + c div 64, c mod 64] @ b64_encode_nats r"

text \<open>
  The decoder skips line breaks, does not check the unused bits of the last symbol (the encoding
  is not \<open>Strict\<close>) and refuses a lone last symbol.
\<close>

fun b64_decode_nats :: "nat list \<Rightarrow> nat list option" where
  "b64_decode_nats [] = Some []"
| "b64_decode_nats [w] = None"
| "b64_decode_nats [w, x] = Some [(w * 4 + x div 16) mod 256]"
| "b64_decode_nats [w, x, y] =
     Some [(w * 4 + x div 16) mod 256, ((x mod 16) * 16 + y div 4) mod 256]"
| "b64_decode_nats (w # x # y # z # r) =
     map_option (\<lambda>bs. (w * 4 + x div 16) mod 256 # ((x mod 16) * 16 + y div 4) mod 256 #
                      ((y mod 4) * 64 + z) mod 256 # bs) (b64_decode_nats r)"

definition radix64_encode :: "(nat \<Rightarrow> char) \<Rightarrow> string \<Rightarrow> string" where
  "radix64_encode ch s = map ch (b64_encode_nats (map of_char s))"

definition radix64_decode :: "(char \<Rightarrow> nat option) \<Rightarrow> string \<Rightarrow> string option" where
  "radix64_decode val s =
     (let vs = map val (filter (\<lambda>c. c \<noteq> CHR 0x0A \<and> c \<noteq> CHR 0x0D) s)
      in if None \<in> set vs then None
         else map_option (map char_of) (b64_decode_nats (map the vs)))"

definition b64_encode :: "string \<Rightarrow> string" where
  "b64_encode = radix64_encode b64_char"

definition b64_decode :: "string \<Rightarrow> string option" where
  "b64_decode = radix64_decode b64_value"

text \<open>\<open>RawStdEncoding\<close> has \<open>+\<close> and \<open>/\<close> as its last two symbols.\<close>

definition std64_char :: "nat \<Rightarrow> char" where
  "std64_char n = (if n = 62 then CHR ''+'' else if n = 63 then CHR ''/'' else b64_char n)"

definition std64_value :: "char \<Rightarrow> nat option" where
  "std64_value c = (if c = CHR ''+'' then Some 62 else if c = CHR ''/'' then Some 63
     else if c = CHR ''-'' \<or> c = CHR ''_'' then None else b64_value c)"

definition std64_encode :: "string \<Rightarrow> string" where
  "std64_encode = radix64_encode std64_char"

definition std64_decode :: "string \<Rightarrow> string option" where
  "std64_decode = radix64_decode std64_value"

lemma b64_value_char:
  assumes "n < 64"
  shows "b64_value (b64_char n) = Some n" "b64_char n \<noteq> CHR 0x0A" "b64_char n \<noteq> CHR 0x0D"
        "b64_char n \<noteq> CHR 0x20"
proof -
  show *: "b64_value (b64_char n) = Some n"
    using assms by (auto simp: b64_value_def b64_char_def Let_def)
  have "b64_value (CHR 0x0A) = None" "b64_value (CHR 0x0D) = None" "b64_value (CHR 0x20) = None"
    by (simp_all add: b64_value_def)
  with * show "b64_char n \<noteq> CHR 0x0A" "b64_char n \<noteq> CHR 0x0D" "b64_char n \<noteq> CHR 0x20"
    by (metis option.distinct(1))+
qed

lemma b64_encode_nats_bound: "\<forall>b \<in> set bs. b < 256 \<Longrightarrow> \<forall>v \<in> set (b64_encode_nats bs). v < 64"
  by (induction bs rule: b64_encode_nats.induct) auto

lemma b64_nats_roundtrip:
  "\<forall>b \<in> set bs. b < 256 \<Longrightarrow> b64_decode_nats (b64_encode_nats bs) = Some bs"
proof (induction bs rule: b64_encode_nats.induct)
  case 1
  show ?case by simp
next
  case (2 a)
  then have "(a div 4 * 4 + (a mod 4) * 16 div 16) mod 256 = a" by simp
  then show ?case by simp
next
  case (3 a b)
  have "((a mod 4) * 16 + b div 16) div 16 = a mod 4" "((a mod 4) * 16 + b div 16) mod 16 = b div 16"
    using 3 by auto
  moreover have "(a div 4 * 4 + a mod 4) mod 256 = a" "(b div 16 * 16 + b mod 16) mod 256 = b"
    using 3 by simp_all
  ultimately show ?case by simp
next
  case (4 a b c r)
  have "((a mod 4) * 16 + b div 16) div 16 = a mod 4" "((a mod 4) * 16 + b div 16) mod 16 = b div 16"
    "((b mod 16) * 4 + c div 64) div 4 = b mod 16" "((b mod 16) * 4 + c div 64) mod 4 = c div 64"
    using 4 by auto
  moreover have "(a div 4 * 4 + a mod 4) mod 256 = a" "(b div 16 * 16 + b mod 16) mod 256 = b"
    "(c div 64 * 64 + c mod 64) mod 256 = c"
    using 4 by simp_all
  ultimately show ?case using 4 by simp
qed

lemma of_char_bound: "\<forall>b \<in> set (map of_char s). (b :: nat) < 256"
  by auto

text \<open>What an alphabet owes the codec.\<close>

locale radix64_alphabet =
  fixes ch :: "nat \<Rightarrow> char" and val :: "char \<Rightarrow> nat option"
  assumes val_ch: "n < 64 \<Longrightarrow> val (ch n) = Some n"
    and no_break: "n < 64 \<Longrightarrow> ch n \<noteq> CHR 0x0A \<and> ch n \<noteq> CHR 0x0D"
begin

lemma radix64_roundtrip: "radix64_decode val (radix64_encode ch s) = Some s"
proof -
  let ?ns = "b64_encode_nats (map of_char s)"
  have bound: "\<forall>v \<in> set ?ns. v < 64"
    by (rule b64_encode_nats_bound [OF of_char_bound])
  have flt: "filter (\<lambda>c. c \<noteq> CHR 0x0A \<and> c \<noteq> CHR 0x0D) (map ch ?ns) = map ch ?ns"
    using bound by (auto simp: filter_id_conv no_break)
  have vals: "map (val \<circ> ch) ?ns = map Some ?ns"
    using bound by (auto simp: val_ch)
  have "radix64_decode val (radix64_encode ch s) =
      map_option (map char_of) (b64_decode_nats (map (the \<circ> Some) ?ns))"
    unfolding radix64_decode_def radix64_encode_def flt Let_def map_map vals by auto
  also have "\<dots> = map_option (map char_of) (b64_decode_nats ?ns)"
    by (simp add: comp_def)
  also have "\<dots> = Some s"
    using b64_nats_roundtrip [OF of_char_bound, of s] by (simp add: comp_def)
  finally show ?thesis .
qed

lemma radix64_bytes: "c \<in> set (radix64_encode ch s) \<Longrightarrow> \<exists>n < 64. c = ch n"
  using b64_encode_nats_bound [OF of_char_bound, of s] by (auto simp: radix64_encode_def)

lemma radix64_Nil_iff: "radix64_encode ch s = [] \<longleftrightarrow> s = []"
proof
  assume "radix64_encode ch s = []"
  then have "Some s = radix64_decode val []" by (metis radix64_roundtrip)
  then show "s = []" by (simp add: radix64_decode_def)
qed (simp add: radix64_encode_def)

end

lemma std64_value_char: "n < 64 \<Longrightarrow> std64_value (std64_char n) = Some n"
proof -
  assume n: "n < 64"
  show ?thesis
  proof (cases "n = 62 \<or> n = 63")
    case False
    with n have "b64_char n \<noteq> CHR ''+'' \<and> b64_char n \<noteq> CHR ''/'' \<and> b64_char n \<noteq> CHR ''-'' \<and> b64_char n \<noteq> CHR ''_''"
      using b64_value_char(1) [OF n] by (auto simp: b64_value_def)
    with False n show ?thesis by (simp add: std64_value_def std64_char_def b64_value_char)
  qed (auto simp: std64_value_def std64_char_def)
qed

interpretation url64: radix64_alphabet b64_char b64_value
  by unfold_locales (simp_all add: b64_value_char)

interpretation std64: radix64_alphabet std64_char std64_value
  by unfold_locales (rule std64_value_char, assumption, auto simp: std64_char_def b64_value_char)

theorem b64_roundtrip: "b64_decode (b64_encode s) = Some s"
  by (simp add: b64_decode_def b64_encode_def url64.radix64_roundtrip)

theorem std64_roundtrip: "std64_decode (std64_encode s) = Some s"
  by (simp add: std64_decode_def std64_encode_def std64.radix64_roundtrip)

text \<open>An encoded string has no byte a trim would remove.\<close>

lemma b64_encode_bytes: "c \<in> set (b64_encode s) \<Longrightarrow> \<exists>n < 64. c = b64_char n"
  by (simp add: b64_encode_def url64.radix64_bytes)

lemma std64_encode_bytes: "c \<in> set (std64_encode s) \<Longrightarrow> \<exists>n < 64. c = std64_char n"
  by (simp add: std64_encode_def std64.radix64_bytes)

lemma b64_encode_Nil_iff: "b64_encode s = [] \<longleftrightarrow> s = []"
  by (simp add: b64_encode_def url64.radix64_Nil_iff)

end
