(* ===== verification/Cursor.thy ===== *)
theory Cursor
  imports Domain Go_Std
begin

text \<open>
  The paging cursors of \<open>internal/service/comment/cursor.go\<close> and
  \<open>public_page_cursor.go\<close>: colon-separated decimal fields in unpadded URL-safe base64.
  The locale \<open>wire_format\<close> is the contract between a list of printed fields and its parser;
  it is interpreted once per cursor format.
\<close>

section \<open>Page sizes\<close>

abbreviation "defaultLimit \<equiv> (50 :: int)"
abbreviation "maxLimit \<equiv> (100 :: int)"
abbreviation "defaultLatestLimit \<equiv> (25 :: int)"
abbreviation "maxLatestLimit \<equiv> (25 :: int)"

definition normalizeLimit :: "int \<Rightarrow> int" where
  "normalizeLimit limit =
     (if limit \<le> 0 then defaultLimit else if limit > maxLimit then maxLimit else limit)"

definition normalizeLatestLimit :: "int \<Rightarrow> int" where
  "normalizeLatestLimit limit =
     (if limit \<le> 0 then defaultLatestLimit
      else if limit > maxLatestLimit then maxLatestLimit else limit)"

section \<open>The wire format\<close>

definition wire_encode :: "string list \<Rightarrow> string" where
  "wire_encode fs = b64_encode (Join CHR '':'' fs)"

definition flag_string :: "bool \<Rightarrow> string" where
  "flag_string b = FormatInt (if b then 1 else 0)"

lemma flag_string_simps [simp]:
  "flag_string True = ''1''" "flag_string False = ''0''"
  by code_simp+

lemma flag_string_facts [simp]:
  "(flag_string b = ''1'') = b" "(flag_string b = ''0'') = (\<not> b)" "CHR '':'' \<notin> set (flag_string b)"
  by (cases b; simp)+

lemma trim_runes_id:
  "(\<And>r. r \<in> set rs \<Longrightarrow> r = [] \<or> hd r \<notin> set s) \<Longrightarrow> trim_runes rs s = s"
proof -
  assume *: "\<And>r. r \<in> set rs \<Longrightarrow> r = [] \<or> hd r \<notin> set s"
  have "find (\<lambda>r. r \<noteq> [] \<and> take (length r) s = r) rs = None"
  proof (subst find_None_iff, rule notI, elim exE conjE)
    fix r assume "r \<in> set rs" "r \<noteq> []" "take (length r) s = r"
    then have "hd r \<in> set s" by (metis hd_in_set in_set_takeD)
    with * \<open>r \<in> set rs\<close> \<open>r \<noteq> []\<close> show False by blast
  qed
  then show ?thesis by (subst trim_runes.simps) (simp add: strip_rune_def)
qed

lemma space_rune_ends:
  "\<forall>r \<in> set space_runes. b64_value (hd r) = None \<and> b64_value (hd (rev r)) = None"
  by (simp add: space_runes_def b64_value_def)

lemma TrimSpace_b64: "TrimSpace (b64_encode s) = b64_encode s"
proof -
  have v: "b64_value c \<noteq> None" if "c \<in> set (b64_encode s)" for c
    using b64_encode_bytes [OF that] b64_value_char by fastforce
  have 1: "trim_runes space_runes (b64_encode s) = b64_encode s"
    using v space_rune_ends by (intro trim_runes_id) blast
  have 2: "trim_runes (map rev space_runes) (rev (b64_encode s)) = rev (b64_encode s)"
    using v space_rune_ends by (intro trim_runes_id) (fastforce dest: v)
  show ?thesis by (simp add: TrimSpace_def 1 2)
qed

lemma TrimSpace_wire: "Join CHR '':'' fs \<noteq> [] \<Longrightarrow> TrimSpace (wire_encode fs) \<noteq> []"
  by (simp add: wire_encode_def TrimSpace_b64 b64_encode_Nil_iff)

locale wire_format =
  fixes fields :: "'a \<Rightarrow> string list"
    and parse :: "string list \<Rightarrow> 'e + 'b"
    and value_of :: "'a \<Rightarrow> 'b"
    and valid :: "'a \<Rightarrow> bool"
  assumes fields_clean: "valid a \<Longrightarrow> f \<in> set (fields a) \<Longrightarrow> CHR '':'' \<notin> set f"
    and fields_many: "valid a \<Longrightarrow> 2 \<le> length (fields a)"
    and parse_fields: "valid a \<Longrightarrow> parse (fields a) = Inr (value_of a)"
begin

lemma text_not_Nil: "valid a \<Longrightarrow> Join CHR '':'' (fields a) \<noteq> []"
  using fields_many [of a]
  by (cases "fields a" rule: list.exhaust; cases "tl (fields a)") auto

lemma not_blank: "valid a \<Longrightarrow> TrimSpace (wire_encode (fields a)) \<noteq> []"
  by (simp add: TrimSpace_wire text_not_Nil)

lemma decoded: "b64_decode (wire_encode (fields a)) = Some (Join CHR '':'' (fields a))"
  by (simp add: wire_encode_def b64_roundtrip)

lemma split_text: "valid a \<Longrightarrow> Split CHR '':'' (Join CHR '':'' (fields a)) = fields a"
  using fields_many [of a] by (intro Split_Join) (auto dest: fields_clean)

theorem roundtrip:
  "valid a \<Longrightarrow> parse (Split CHR '':'' (Join CHR '':'' (fields a))) = Inr (value_of a)"
  by (simp add: split_text parse_fields)

end

section \<open>Cursors of the flat listing (cursor.go)\<close>

definition parse_or_invalid :: "string \<Rightarrow> error + int" where
  "parse_or_invalid s = option_to_result ErrValidation (ParseInt s)"

definition directional_fields :: "bool \<times> int \<times> int \<Rightarrow> string list" where
  "directional_fields = (\<lambda>(pinned, created, cid).
     [''v2'', flag_string pinned, FormatInt created, FormatInt cid])"

definition hot_fields :: "bool \<times> int \<times> int \<times> int \<Rightarrow> string list" where
  "hot_fields = (\<lambda>(pinned, likes, created, cid).
     [''hot'', ''v2'', flag_string pinned, FormatInt likes, FormatInt created, FormatInt cid])"

definition encodeCursor :: "bool \<Rightarrow> int \<Rightarrow> int \<Rightarrow> string" where
  "encodeCursor pinned created cid = wire_encode (directional_fields (pinned, created, cid))"

definition encodeHotCursor :: "bool \<Rightarrow> int \<Rightarrow> int \<Rightarrow> int \<Rightarrow> string" where
  "encodeHotCursor pinned likes created cid = wire_encode (hot_fields (pinned, likes, created, cid))"

definition directional_cursor :: "bool \<times> int \<times> int \<Rightarrow> cursor" where
  "directional_cursor = (\<lambda>(pinned, created, cid).
     \<lparr>cur_pinned = pinned, cur_created_at = created, cur_id = cid, cur_like_count = 0, cur_hot = False\<rparr>)"

definition hot_cursor :: "bool \<times> int \<times> int \<times> int \<Rightarrow> cursor" where
  "hot_cursor = (\<lambda>(pinned, likes, created, cid).
     \<lparr>cur_pinned = pinned, cur_created_at = created, cur_id = cid, cur_like_count = likes,
      cur_hot = True\<rparr>)"

text \<open>The current form has four fields; the legacy form is split at its first colon only.\<close>

definition parse_v2 :: "string list \<Rightarrow> error + cursor" where
  "parse_v2 parts =
     (case parts of
        [v, g, m, i] \<Rightarrow>
          if g \<noteq> ''0'' \<and> g \<noteq> ''1'' then Inl ErrValidation
          else bindE (parse_or_invalid m) (\<lambda>micros. bindE (parse_or_invalid i) (\<lambda>cid.
               Inr (directional_cursor (g = ''1'', micros, cid))))
      | _ \<Rightarrow> Inl ErrValidation)"

definition decodeDirectionalCursor :: "string \<Rightarrow> error + cursor" where
  "decodeDirectionalCursor text =
     (if HasPrefix text ''v2:'' then parse_v2 (Split CHR '':'' text)
      else case SplitN2 CHR '':'' text of
             [m, i] \<Rightarrow> bindE (parse_or_invalid m) (\<lambda>micros. bindE (parse_or_invalid i) (\<lambda>cid.
                       Inr (directional_cursor (False, micros, cid))))
           | _ \<Rightarrow> Inl ErrValidation)"

definition parse_hot :: "string list \<Rightarrow> error + cursor" where
  "parse_hot parts =
     (case parts of
        [h, v, g, l, m, i] \<Rightarrow>
          if h \<noteq> ''hot'' \<or> v \<noteq> ''v2'' then Inl ErrValidation
          else if g \<noteq> ''0'' \<and> g \<noteq> ''1'' then Inl ErrValidation
          else bindE (parse_or_invalid l) (\<lambda>likes. bindE (parse_or_invalid m) (\<lambda>micros.
               bindE (parse_or_invalid i) (\<lambda>cid. Inr (hot_cursor (g = ''1'', likes, micros, cid)))))
      | [h, l, m, i] \<Rightarrow>
          if h \<noteq> ''hot'' then Inl ErrValidation
          else bindE (parse_or_invalid l) (\<lambda>likes. bindE (parse_or_invalid m) (\<lambda>micros.
               bindE (parse_or_invalid i) (\<lambda>cid. Inr (hot_cursor (False, likes, micros, cid)))))
      | _ \<Rightarrow> Inl ErrValidation)"

definition decodeHotCursor :: "string \<Rightarrow> error + cursor" where
  "decodeHotCursor text = parse_hot (Split CHR '':'' text)"

definition decodeCursor :: "string \<Rightarrow> comment_sort \<Rightarrow> error + cursor option" where
  "decodeCursor raw srt =
     (if TrimSpace raw = [] then Inr None
      else case b64_decode raw of
             None \<Rightarrow> Inl ErrValidation
           | Some text \<Rightarrow>
               if srt = CommentSortHot then bindE (decodeHotCursor text) (\<lambda>c. Inr (Some c))
               else if HasPrefix text ''hot:'' then Inl ErrValidation
               else bindE (decodeDirectionalCursor text) (\<lambda>c. Inr (Some c)))"

definition int64 :: "int \<Rightarrow> bool" where "int64 n \<longleftrightarrow> - (2 ^ 63) \<le> n \<and> n \<le> 2 ^ 63 - 1"

lemma parse_or_invalid_FormatInt [simp]: "int64 n \<Longrightarrow> parse_or_invalid (FormatInt n) = Inr n"
  by (simp add: parse_or_invalid_def int64_def ParseInt_FormatInt)

interpretation directional: wire_format directional_fields parse_v2 directional_cursor
  "\<lambda>(pinned, created, cid). int64 created \<and> int64 cid"
  by unfold_locales
     (auto simp: directional_fields_def parse_v2_def FormatInt_no_colon split: prod.splits)

interpretation hot: wire_format hot_fields parse_hot hot_cursor
  "\<lambda>(pinned, likes, created, cid). int64 likes \<and> int64 created \<and> int64 cid"
  by unfold_locales
     (auto simp: hot_fields_def parse_hot_def FormatInt_no_colon split: prod.splits)

text \<open>A cursor never decodes under the other family of sorts.\<close>

lemma HasPrefix_Join: "HasPrefix (Join sep (f # g # fs)) (f @ [sep])"
  by (simp add: HasPrefix_def)

lemma directional_text_prefix:
  "HasPrefix (Join CHR '':'' (directional_fields a)) ''v2:''"
  "\<not> HasPrefix (Join CHR '':'' (directional_fields a)) ''hot:''"
  by (auto simp: directional_fields_def HasPrefix_def split: prod.splits)

lemma hot_text_prefix: "HasPrefix (Join CHR '':'' (hot_fields a)) ''hot:''"
  by (auto simp: hot_fields_def HasPrefix_def split: prod.splits)

lemma decode_encodeCursor:
  assumes "int64 created" "int64 cid" "srt \<noteq> CommentSortHot"
  shows "decodeCursor (encodeCursor pinned created cid) srt =
           Inr (Some (directional_cursor (pinned, created, cid)))"
  using assms directional.not_blank [of "(pinned, created, cid)"]
    directional.decoded [of "(pinned, created, cid)"]
    directional.roundtrip [of "(pinned, created, cid)"]
  by (simp add: decodeCursor_def encodeCursor_def decodeDirectionalCursor_def directional_text_prefix)

lemma decode_encodeHotCursor:
  assumes "int64 likes" "int64 created" "int64 cid"
  shows "decodeCursor (encodeHotCursor pinned likes created cid) CommentSortHot =
           Inr (Some (hot_cursor (pinned, likes, created, cid)))"
  using assms hot.not_blank [of "(pinned, likes, created, cid)"]
    hot.decoded [of "(pinned, likes, created, cid)"]
    hot.roundtrip [of "(pinned, likes, created, cid)"]
  by (simp add: decodeCursor_def encodeHotCursor_def decodeHotCursor_def)

lemma decode_hot_as_directional:
  assumes "int64 likes" "int64 created" "int64 cid" "srt \<noteq> CommentSortHot"
  shows "decodeCursor (encodeHotCursor pinned likes created cid) srt = Inl ErrValidation"
  using assms hot.not_blank [of "(pinned, likes, created, cid)"]
    hot.decoded [of "(pinned, likes, created, cid)"]
  by (simp add: decodeCursor_def encodeHotCursor_def hot_text_prefix)

lemma decode_directional_as_hot:
  assumes "int64 created" "int64 cid"
  shows "decodeCursor (encodeCursor pinned created cid) CommentSortHot = Inl ErrValidation"
  using assms directional.not_blank [of "(pinned, created, cid)"]
    directional.decoded [of "(pinned, created, cid)"]
    directional.split_text [of "(pinned, created, cid)"]
  by (simp add: decodeCursor_def encodeCursor_def decodeHotCursor_def parse_hot_def
      directional_fields_def)

section \<open>Cursors of the paged listing (public_page_cursor.go)\<close>

record root_position =
  rp_site :: int
  rp_thread :: int
  rp_sort :: comment_sort
  rp_pinned :: bool
  rp_likes :: int
  rp_created_at :: int
  rp_id :: int

record reply_position =
  yp_site :: int
  yp_thread :: int
  yp_root :: int
  yp_created_at :: int
  yp_id :: int

definition root_fields :: "root_position \<Rightarrow> string list" where
  "root_fields p =
     [''roots'', ''v1'', FormatInt (rp_site p), FormatInt (rp_thread p), sort_string (rp_sort p),
      flag_string (rp_pinned p),
      FormatInt (if rp_sort p = CommentSortHot then rp_likes p else 0),
      FormatInt (rp_created_at p), FormatInt (rp_id p)]"

definition reply_fields :: "reply_position \<Rightarrow> string list" where
  "reply_fields p =
     [''replies'', ''v1'', FormatInt (yp_site p), FormatInt (yp_thread p), FormatInt (yp_root p),
      FormatInt (yp_created_at p), FormatInt (yp_id p)]"

definition encodeRootCursor :: "root_position \<Rightarrow> string" where
  "encodeRootCursor p = wire_encode (root_fields p)"

definition encodeReplyCursor :: "reply_position \<Rightarrow> string" where
  "encodeReplyCursor p = wire_encode (reply_fields p)"

definition page_cursor_shape :: "string \<Rightarrow> nat \<Rightarrow> string list \<Rightarrow> error + string list" where
  "page_cursor_shape namespace count fs =
     (if length fs \<noteq> count \<or> fs ! 0 \<noteq> namespace \<or> fs ! 1 \<noteq> ''v1'' then Inl ErrValidation
      else Inr fs)"

definition decodePageCursorFields :: "string \<Rightarrow> string \<Rightarrow> nat \<Rightarrow> error + string list" where
  "decodePageCursorFields raw namespace count =
     (case b64_decode raw of
        None \<Rightarrow> Inl ErrValidation
      | Some text \<Rightarrow> page_cursor_shape namespace count (Split CHR '':'' text))"

definition parsePageCursorNumber :: "string \<Rightarrow> error + int" where
  "parsePageCursorNumber raw =
     (if raw = [] \<or> (\<exists>c \<in> set raw. \<not> is_digit c) then Inl ErrValidation
      else parse_or_invalid raw)"

text \<open>The fields are parsed in order and the first bad one is reported.\<close>

fun parse_numbers :: "string list \<Rightarrow> error + int list" where
  "parse_numbers [] = Inr []"
| "parse_numbers (f # fs) =
     bindE (parsePageCursorNumber f) (\<lambda>n. bindE (parse_numbers fs) (\<lambda>ns. Inr (n # ns)))"

definition root_cursor_of_fields ::
  "int \<Rightarrow> int \<Rightarrow> comment_sort \<Rightarrow> string list \<Rightarrow> error + cursor" where
  "root_cursor_of_fields site thread srt fs =
     (if fs ! 4 \<noteq> sort_string srt \<or> \<not> ValidPublicCommentSort (fs ! 4) \<or>
         (fs ! 5 \<noteq> ''0'' \<and> fs ! 5 \<noteq> ''1'') then Inl ErrValidation
      else bindE (parse_numbers [fs ! 2, fs ! 3, fs ! 6, fs ! 7, fs ! 8]) (\<lambda>ns.
        if ns ! 0 \<noteq> site \<or> ns ! 0 \<le> 0 \<or> ns ! 1 \<noteq> thread \<or> ns ! 1 \<le> 0 \<or> ns ! 4 \<le> 0 \<or>
           (srt \<noteq> CommentSortHot \<and> ns ! 2 \<noteq> 0) then Inl ErrValidation
        else Inr \<lparr>cur_pinned = (fs ! 5 = ''1''), cur_created_at = ns ! 3, cur_id = ns ! 4,
                  cur_like_count = ns ! 2, cur_hot = (srt = CommentSortHot)\<rparr>))"

definition decodeRootCursor ::
  "string \<Rightarrow> int \<Rightarrow> int \<Rightarrow> comment_sort \<Rightarrow> error + cursor option" where
  "decodeRootCursor raw site thread srt =
     (if TrimSpace raw = [] then Inr None
      else bindE (decodePageCursorFields raw ''roots'' 9) (\<lambda>fs.
           bindE (root_cursor_of_fields site thread srt fs) (\<lambda>c. Inr (Some c))))"

definition reply_cursor_of_fields :: "int \<Rightarrow> int \<Rightarrow> int \<Rightarrow> string list \<Rightarrow> error + cursor" where
  "reply_cursor_of_fields site thread root fs =
     bindE (parse_numbers (drop 2 fs)) (\<lambda>ns.
       if ns ! 0 \<noteq> site \<or> ns ! 0 \<le> 0 \<or> ns ! 1 \<noteq> thread \<or> ns ! 1 \<le> 0 \<or> ns ! 2 \<noteq> root \<or>
          ns ! 2 \<le> 0 \<or> ns ! 4 \<le> 0 then Inl ErrValidation
       else Inr \<lparr>cur_pinned = False, cur_created_at = ns ! 3, cur_id = ns ! 4, cur_like_count = 0,
                 cur_hot = False\<rparr>)"

definition decodeReplyCursor :: "string \<Rightarrow> int \<Rightarrow> int \<Rightarrow> int \<Rightarrow> error + cursor option" where
  "decodeReplyCursor raw site thread root =
     (if TrimSpace raw = [] then Inr None
      else bindE (decodePageCursorFields raw ''replies'' 7) (\<lambda>fs.
           bindE (reply_cursor_of_fields site thread root fs) (\<lambda>c. Inr (Some c))))"

text \<open>Positions a stored row can have.\<close>

definition id64 :: "int \<Rightarrow> bool" where "id64 n \<longleftrightarrow> 0 < n \<and> n \<le> 2 ^ 63 - 1"
definition count64 :: "int \<Rightarrow> bool" where "count64 n \<longleftrightarrow> 0 \<le> n \<and> n \<le> 2 ^ 63 - 1"

definition root_position_ok :: "root_position \<Rightarrow> bool" where
  "root_position_ok p \<longleftrightarrow> id64 (rp_site p) \<and> id64 (rp_thread p) \<and> id64 (rp_id p) \<and>
     count64 (rp_likes p) \<and> count64 (rp_created_at p)"

definition reply_position_ok :: "reply_position \<Rightarrow> bool" where
  "reply_position_ok p \<longleftrightarrow> id64 (yp_site p) \<and> id64 (yp_thread p) \<and> id64 (yp_root p) \<and>
     id64 (yp_id p) \<and> count64 (yp_created_at p)"

lemma parsePageCursorNumber_FormatInt:
  "count64 n \<Longrightarrow> parsePageCursorNumber (FormatInt n) = Inr n"
  using FormatInt_digits [of n]
  by (auto simp: parsePageCursorNumber_def count64_def int64_def)

lemma id64_count64: "id64 n \<Longrightarrow> count64 n"
  by (simp add: id64_def count64_def)

lemma count64_zero [simp]: "count64 0"
  by (simp add: count64_def)

lemma sort_string_no_colon: "CHR '':'' \<notin> set (sort_string s)"
  by (cases s) simp_all

interpretation roots: wire_format root_fields "page_cursor_shape ''roots'' 9" root_fields
  root_position_ok
  by unfold_locales
     (auto simp: root_fields_def page_cursor_shape_def FormatInt_no_colon sort_string_no_colon
        split: prod.splits)

interpretation replies: wire_format reply_fields "page_cursor_shape ''replies'' 7" reply_fields
  reply_position_ok
  by unfold_locales (auto simp: reply_fields_def page_cursor_shape_def FormatInt_no_colon)

lemma decode_encodeRootCursor:
  assumes "root_position_ok p"
  shows "decodeRootCursor (encodeRootCursor p) site thread srt =
     (if site = rp_site p \<and> thread = rp_thread p \<and> srt = rp_sort p
      then Inr (Some \<lparr>cur_pinned = rp_pinned p, cur_created_at = rp_created_at p, cur_id = rp_id p,
             cur_like_count = (if srt = CommentSortHot then rp_likes p else 0),
             cur_hot = (srt = CommentSortHot)\<rparr>)
      else Inl ErrValidation)"
proof -
  have shape: "decodePageCursorFields (encodeRootCursor p) ''roots'' 9 = Inr (root_fields p)"
    using assms roots.decoded [of p] roots.roundtrip [of p]
    by (simp add: decodePageCursorFields_def encodeRootCursor_def)
  have blank: "TrimSpace (encodeRootCursor p) \<noteq> []"
    using assms roots.not_blank [of p] by (simp add: encodeRootCursor_def)
  have nums: "parse_numbers [FormatInt (rp_site p), FormatInt (rp_thread p),
      FormatInt (if rp_sort p = CommentSortHot then rp_likes p else 0),
      FormatInt (rp_created_at p), FormatInt (rp_id p)] =
      Inr [rp_site p, rp_thread p, if rp_sort p = CommentSortHot then rp_likes p else 0,
           rp_created_at p, rp_id p]"
    using assms by (simp add: root_position_ok_def parsePageCursorNumber_FormatInt id64_count64)
  have pos: "0 < rp_site p" "0 < rp_thread p" "0 < rp_id p"
    using assms by (simp_all add: root_position_ok_def id64_def)
  show ?thesis
    using pos nums
    by (auto simp: decodeRootCursor_def shape blank root_cursor_of_fields_def root_fields_def
        ValidPublicCommentSort_iff simp del: parse_numbers.simps)
qed

lemma decode_encodeReplyCursor:
  assumes "reply_position_ok p"
  shows "decodeReplyCursor (encodeReplyCursor p) site thread root =
     (if site = yp_site p \<and> thread = yp_thread p \<and> root = yp_root p
      then Inr (Some \<lparr>cur_pinned = False, cur_created_at = yp_created_at p, cur_id = yp_id p,
             cur_like_count = 0, cur_hot = False\<rparr>)
      else Inl ErrValidation)"
proof -
  have shape: "decodePageCursorFields (encodeReplyCursor p) ''replies'' 7 = Inr (reply_fields p)"
    using assms replies.decoded [of p] replies.roundtrip [of p]
    by (simp add: decodePageCursorFields_def encodeReplyCursor_def)
  have blank: "TrimSpace (encodeReplyCursor p) \<noteq> []"
    using assms replies.not_blank [of p] by (simp add: encodeReplyCursor_def)
  have nums: "parse_numbers [FormatInt (yp_site p), FormatInt (yp_thread p), FormatInt (yp_root p),
      FormatInt (yp_created_at p), FormatInt (yp_id p)] =
      Inr [yp_site p, yp_thread p, yp_root p, yp_created_at p, yp_id p]"
    using assms by (simp add: reply_position_ok_def parsePageCursorNumber_FormatInt id64_count64)
  have pos: "0 < yp_site p" "0 < yp_thread p" "0 < yp_id p" "0 < yp_root p"
    using assms by (simp_all add: reply_position_ok_def id64_def)
  show ?thesis
    using pos nums
    by (auto simp: decodeReplyCursor_def shape blank reply_cursor_of_fields_def reply_fields_def
        simp del: parse_numbers.simps)
qed

section \<open>What a client can do with a cursor\<close>

text \<open>The cursor of the flat listing survives its trip through the client: decoded under the sort it
  was made for it gives back the position it was made from, and decoded under the other family of
  sorts it is refused.\<close>

lemma flat_cursor_roundtrip:
  assumes "int64 likes" "int64 created" "int64 cid"
  shows "decodeCursor (encodeHotCursor pinned likes created cid) srt =
      (if srt = CommentSortHot then Inr (Some (hot_cursor (pinned, likes, created, cid)))
       else Inl ErrValidation) \<and>
    decodeCursor (encodeCursor pinned created cid) srt =
      (if srt = CommentSortHot then Inl ErrValidation
       else Inr (Some (directional_cursor (pinned, created, cid))))"
  using assms decode_encodeCursor decode_encodeHotCursor decode_hot_as_directional
    decode_directional_as_hot
  by simp

lemma flat_cursor_roundtrip_witness:
  "decodeCursor (encodeHotCursor True 12 1700000000000000 42) CommentSortHot =
     Inr (Some (hot_cursor (True, 12, 1700000000000000, 42)))"
  using flat_cursor_roundtrip [of 12 1700000000000000 42 True CommentSortHot] by (simp add: int64_def)

text \<open>C38: a cursor of the paged listing is good only for the request it was issued for: under the same
  site, thread and sort (or root) it decodes to the position it was made from, and under any other
  it is refused.\<close>

theorem page_cursor_scoped:
  assumes "root_position_ok p" "reply_position_ok y"
  shows "decodeRootCursor (encodeRootCursor p) site thread srt =
     (if site = rp_site p \<and> thread = rp_thread p \<and> srt = rp_sort p
      then Inr (Some \<lparr>cur_pinned = rp_pinned p, cur_created_at = rp_created_at p, cur_id = rp_id p,
             cur_like_count = (if srt = CommentSortHot then rp_likes p else 0),
             cur_hot = (srt = CommentSortHot)\<rparr>)
      else Inl ErrValidation) \<and>
    decodeReplyCursor (encodeReplyCursor y) site thread root =
     (if site = yp_site y \<and> thread = yp_thread y \<and> root = yp_root y
      then Inr (Some \<lparr>cur_pinned = False, cur_created_at = yp_created_at y, cur_id = yp_id y,
             cur_like_count = 0, cur_hot = False\<rparr>)
      else Inl ErrValidation)"
  by (intro conjI decode_encodeRootCursor decode_encodeReplyCursor assms)

lemma page_cursor_scoped_witness:
  "decodeRootCursor (encodeRootCursor \<lparr>rp_site = 1, rp_thread = 2, rp_sort = CommentSortAsc,
     rp_pinned = False, rp_likes = 0, rp_created_at = 5, rp_id = 3\<rparr>) 7 2 CommentSortAsc = Inl ErrValidation"
  using page_cursor_scoped [of "\<lparr>rp_site = 1, rp_thread = 2, rp_sort = CommentSortAsc,
     rp_pinned = False, rp_likes = 0, rp_created_at = 5, rp_id = 3\<rparr>"
     "\<lparr>yp_site = 1, yp_thread = 2, yp_root = 3, yp_created_at = 5, yp_id = 4\<rparr>" 7 2 CommentSortAsc 0]
  by (simp add: root_position_ok_def reply_position_ok_def id64_def count64_def)

end
