(* ===== verification/Memory_Cache.thy ===== *)
theory Memory_Cache
  imports Go_Std "HOL-Library.AList"
begin

text \<open>
  The cache (\<open>internal/platform/cache\<close>): \<open>memory.go\<close>, the in-process store with expiry and a
  capacity, and \<open>namespace.go\<close>, its partition into namespaces that each own a
  quota.  A Go map is an association list without repeated keys; a loop over a map runs over its entries
  in list order.  Every operation runs under the store's mutex, so it is one step.  It is given the
  instants the clock answers and the answers of \<open>ctx.Err()\<close>.  \<open>encoding/json\<close> is
  given by the encoder and decoder of the type in question.
\<close>

section \<open>State\<close>

datatype cache_error =
    Cache_ErrNotFound | Cache_ErrCapacity | ErrInvalidNamespace | ErrInvalidNamespaceTTL
  | Cache_Context | Cache_JSON

record memory_item =
  mi_data :: string
  mi_expires :: int

record memory =
  mem_items :: "(string \<times> memory_item) list"
  mem_limit :: int
  mem_namespaces :: "(string \<times> (string \<times> int) list) list"

type_synonym 'a cache_op = "memory \<Rightarrow> (cache_error + 'a) \<times> memory"

definition DefaultMemoryLimit :: int where
  "DefaultMemoryLimit = 10000"

definition NewMemory :: "int \<Rightarrow> memory" where
  "NewMemory limit = \<lparr>mem_items = [],
     mem_limit = (if limit \<le> 0 then DefaultMemoryLimit else limit), mem_namespaces = []\<rparr>"

definition drop_item :: "string \<Rightarrow> memory \<Rightarrow> memory" where
  "drop_item key s = s\<lparr>mem_items := AList.delete key (mem_items s)\<rparr>"

definition put_item :: "string \<Rightarrow> memory_item \<Rightarrow> memory \<Rightarrow> memory" where
  "put_item key it s = s\<lparr>mem_items := AList.update key it (mem_items s)\<rparr>"

definition removeNamespaceMembershipLocked :: "string \<Rightarrow> memory \<Rightarrow> memory" where
  "removeNamespaceMembershipLocked key s =
     s\<lparr>mem_namespaces := filter (\<lambda>(name, members). members \<noteq> [])
          (map (\<lambda>(name, members). (name, AList.delete key members)) (mem_namespaces s))\<rparr>"

abbreviation forget_key :: "string \<Rightarrow> memory \<Rightarrow> memory" where
  "forget_key key s \<equiv> removeNamespaceMembershipLocked key (drop_item key s)"

text \<open>\<open>item, ok := s.items[key]\<close> with the test \<open>ok && s.now().Before(item.expires)\<close>.\<close>

definition live_item :: "int \<Rightarrow> string \<Rightarrow> memory \<Rightarrow> memory_item option" where
  "live_item now key s =
     (case map_of (mem_items s) key of
        None \<Rightarrow> None
      | Some it \<Rightarrow> if now < mi_expires it then Some it else None)"

definition decoded :: "(string \<Rightarrow> 'a option) \<Rightarrow> string \<Rightarrow> cache_error + 'a" where
  "decoded dec raw = (case dec raw of None \<Rightarrow> Inl Cache_JSON | Some v \<Rightarrow> Inr v)"

section \<open>The store (memory.go)\<close>

definition Memory_Get ::
  "(string \<Rightarrow> 'a option) \<Rightarrow> cache_error option \<Rightarrow> int \<Rightarrow> string \<Rightarrow> 'a cache_op" where
  "Memory_Get dec ctx now key s =
     (case ctx of
        Some e \<Rightarrow> (Inl e, s)
      | None \<Rightarrow>
          (case live_item now key s of
             None \<Rightarrow> (Inl Cache_ErrNotFound, forget_key key s)
           | Some it \<Rightarrow> (decoded dec (mi_data it), s)))"

text \<open>The operations that ask the context twice, before and after the lock, get both answers.\<close>

definition with_context ::
  "cache_error option \<times> cache_error option \<Rightarrow> 'a cache_op \<Rightarrow> 'a cache_op" where
  "with_context ctx op s =
     (case ctx of
        (Some e, _) \<Rightarrow> (Inl e, s)
      | (None, Some e) \<Rightarrow> (Inl e, s)
      | (None, None) \<Rightarrow> op s)"

definition forget_expired :: "string \<Rightarrow> memory \<Rightarrow> memory" where
  "forget_expired key s = (if map_of (mem_items s) key \<noteq> None then forget_key key s else s)"

definition GetRawJSON ::
  "cache_error option \<times> cache_error option \<Rightarrow> int \<Rightarrow> string \<Rightarrow> string cache_op" where
  "GetRawJSON ctx now key = with_context ctx (\<lambda>s.
     case live_item now key s of
       None \<Rightarrow> (Inl Cache_ErrNotFound, forget_expired key s)
     | Some it \<Rightarrow> (Inr (mi_data it), s))"

definition evictExpired :: "int \<Rightarrow> memory \<Rightarrow> memory" where
  "evictExpired now s =
     fold (\<lambda>(key, it) s'. if \<not> now < mi_expires it then forget_key key s' else s') (mem_items s) s"

definition items_full :: "memory \<Rightarrow> bool" where
  "items_full s \<longleftrightarrow> mem_limit s \<le> int (length (mem_items s))"

text \<open>\<open>bytes_of\<close> is the result of \<open>json.Marshal(value)\<close>.\<close>

definition Memory_Set :: "string option \<Rightarrow> int \<Rightarrow> string \<Rightarrow> int \<Rightarrow> unit cache_op" where
  "Memory_Set bytes_of now key ttl s =
     (case bytes_of of
        None \<Rightarrow> (Inl Cache_JSON, s)
      | Some bytes \<Rightarrow>
          (let s1 = (if map_of (mem_items s) key = None \<and> items_full s then evictExpired now s else s)
           in if map_of (mem_items s) key = None \<and> items_full s1 then (Inl Cache_ErrCapacity, s1)
              else (Inr (), put_item key \<lparr>mi_data = bytes, mi_expires = now + ttl\<rparr> s1)))"

definition Memory_Delete :: "string \<Rightarrow> unit cache_op" where
  "Memory_Delete key s = (Inr (), forget_key key s)"

definition Memory_AtomicConsume ::
  "(string \<Rightarrow> string option) \<Rightarrow> cache_error option \<Rightarrow> int \<Rightarrow> string \<Rightarrow> string cache_op" where
  "Memory_AtomicConsume dec ctx now key s =
     (case ctx of
        Some e \<Rightarrow> (Inl e, s)
      | None \<Rightarrow>
          (case live_item now key s of
             None \<Rightarrow> (Inl Cache_ErrNotFound, forget_key key s)
           | Some it \<Rightarrow> (decoded dec (mi_data it), forget_key key s)))"

text \<open>\<open>valid\<close> is \<open>json.Valid\<close>.\<close>

definition Memory_CompareAndSwapJSON ::
  "(string \<Rightarrow> bool) \<Rightarrow> cache_error option \<times> cache_error option \<Rightarrow> int \<Rightarrow> string \<Rightarrow> string \<Rightarrow>
     string \<Rightarrow> bool cache_op" where
  "Memory_CompareAndSwapJSON valid ctx now key expected replacement = with_context ctx (\<lambda>s.
     case live_item now key s of
       None \<Rightarrow> (Inr False, forget_expired key s)
     | Some it \<Rightarrow>
         if mi_data it \<noteq> expected then (Inr False, s)
         else if \<not> valid replacement then (Inl Cache_JSON, s)
         else (Inr True, put_item key (it\<lparr>mi_data := replacement\<rparr>) s))"

definition Memory_CompareAndDeleteJSON ::
  "cache_error option \<times> cache_error option \<Rightarrow> int \<Rightarrow> string \<Rightarrow> string \<Rightarrow> bool cache_op" where
  "Memory_CompareAndDeleteJSON ctx now key expected = with_context ctx (\<lambda>s.
     case live_item now key s of
       None \<Rightarrow> (Inr False, forget_expired key s)
     | Some it \<Rightarrow> if mi_data it \<noteq> expected then (Inr False, s) else (Inr True, forget_key key s))"

text \<open>
  \<open>singleflight\<close> merges concurrent loads of one key into one; here the one load runs.  \<open>now\<close>
  and \<open>later\<close> are the instants of the lookup and of the write.
\<close>

definition GetOrLoad ::
  "('v \<Rightarrow> string option) \<Rightarrow> (string \<Rightarrow> 'a option) \<Rightarrow> cache_error option \<Rightarrow> int \<Rightarrow> int \<Rightarrow> string \<Rightarrow> int \<Rightarrow>
     (cache_error + 'v) \<Rightarrow> 'a cache_op" where
  "GetOrLoad enc dec ctx now later key ttl load s =
     (case Memory_Get dec ctx now key s of
        (Inr v, s1) \<Rightarrow> (Inr v, s1)
      | (Inl e, s1) \<Rightarrow>
          if e \<noteq> Cache_ErrNotFound then (Inl e, s1)
          else (case load of
                  Inl e' \<Rightarrow> (Inl e', s1)
                | Inr v \<Rightarrow>
                    (case Memory_Set (enc v) later key ttl s1 of
                       (Inl e', s2) \<Rightarrow> (Inl e', s2)
                     | (Inr _, s2) \<Rightarrow>
                         (case enc v of
                            None \<Rightarrow> (Inl Cache_JSON, s2)
                          | Some raw \<Rightarrow> (decoded dec raw, s2)))))"

section \<open>Namespaces of the store (namespace.go)\<close>

definition members_of :: "string \<Rightarrow> memory \<Rightarrow> (string \<times> int) list" where
  "members_of name s = (case map_of (mem_namespaces s) name of None \<Rightarrow> [] | Some ms \<Rightarrow> ms)"

definition put_members :: "string \<Rightarrow> (string \<times> int) list \<Rightarrow> memory \<Rightarrow> memory" where
  "put_members name ms s = s\<lparr>mem_namespaces := AList.update name ms (mem_namespaces s)\<rparr>"

definition drop_namespace :: "string \<Rightarrow> memory \<Rightarrow> memory" where
  "drop_namespace name s = s\<lparr>mem_namespaces := AList.delete name (mem_namespaces s)\<rparr>"

definition drop_member :: "string \<Rightarrow> string \<Rightarrow> memory \<Rightarrow> memory" where
  "drop_member name key s = put_members name (AList.delete key (members_of name s)) s"

text \<open>The loop at the head of \<open>namespaceSet\<close> over the members of the namespace.\<close>

definition prune_member :: "string \<Rightarrow> int \<Rightarrow> string \<times> int \<Rightarrow> memory \<Rightarrow> memory" where
  "prune_member name now = (\<lambda>(member, expires) s.
     case map_of (mem_items s) member of
       None \<Rightarrow> drop_member name member s
     | Some it \<Rightarrow>
         if \<not> now < mi_expires it then drop_item member (drop_member name member s)
         else if \<not> now < expires then drop_member name member s
         else s)"

definition prune_members :: "string \<Rightarrow> int \<Rightarrow> memory \<Rightarrow> memory" where
  "prune_members name now s = fold (prune_member name now) (members_of name s) s"

text \<open>
  \<open>namespaceSet\<close>.  The local variable \<open>members\<close> is the map held in \<open>s.namespaces\<close>, so it is
  read back from there; once the eviction has dropped the namespace the map is an empty one, which the
  code puts back.
\<close>

definition admit_key ::
  "string \<Rightarrow> string \<Rightarrow> int \<Rightarrow> int \<Rightarrow> memory \<Rightarrow> (cache_error + bool) \<times> memory" where
  "admit_key name key now limit s =
     (let members = members_of name s; item = map_of (mem_items s) key;
          item_live = (case item of None \<Rightarrow> False | Some it \<Rightarrow> now < mi_expires it)
      in if (case map_of members key of None \<Rightarrow> False | Some expires \<Rightarrow> now < expires) \<and> item_live
         then (Inr True, s)
         else if item_live
         then (if limit \<le> int (length members) then (Inl Cache_ErrCapacity, s)
               else (Inr True, put_members name
                       (AList.update key (case item of None \<Rightarrow> 0 | Some it \<Rightarrow> mi_expires it) members) s))
         else (Inr False, drop_item key (drop_member name key s)))"

definition open_namespace :: "string \<Rightarrow> memory \<Rightarrow> memory" where
  "open_namespace name s =
     (if map_of (mem_namespaces s) name = None then put_members name [] s else s)"

definition release_namespace :: "string \<Rightarrow> memory \<Rightarrow> memory" where
  "release_namespace name s = (if members_of name s = [] then drop_namespace name s else s)"

definition write_member :: "string \<Rightarrow> string \<Rightarrow> string \<Rightarrow> int \<Rightarrow> memory \<Rightarrow> memory" where
  "write_member name key bytes expires s =
     put_members name (AList.update key expires (members_of name s))
       (put_item key \<lparr>mi_data = bytes, mi_expires = expires\<rparr> s)"

definition namespaceSet ::
  "string \<Rightarrow> string \<Rightarrow> string \<Rightarrow> string option \<Rightarrow> int \<Rightarrow> int \<Rightarrow> int \<Rightarrow> unit cache_op" where
  "namespaceSet name prefix suffix bytes_of now ttl limit s =
     (case bytes_of of
        None \<Rightarrow> (Inl Cache_JSON, s)
      | Some bytes \<Rightarrow>
          (let key = prefix @ suffix;
               s1 = prune_members name now (open_namespace name s);
               write = write_member name key bytes (now + ttl)
           in case admit_key name key now limit s1 of
                (Inl e, s2) \<Rightarrow> (Inl e, s2)
              | (Inr tracked, s2) \<Rightarrow>
                  if \<not> tracked \<and> limit \<le> int (length (members_of name s2))
                  then (Inl Cache_ErrCapacity, release_namespace name s2)
                  else if \<not> tracked \<and> items_full s2
                  then (let s4 = open_namespace name (evictExpired now s2)
                        in if items_full s4 then (Inl Cache_ErrCapacity, release_namespace name s4)
                           else (Inr (), write s4))
                  else (Inr (), write s2)))"

definition namespaceDelete :: "string \<Rightarrow> string \<Rightarrow> string \<Rightarrow> unit cache_op" where
  "namespaceDelete name prefix suffix s =
     (let key = prefix @ suffix; s1 = drop_item key s
      in case map_of (mem_namespaces s1) name of
           None \<Rightarrow> (Inr (), s1)
         | Some _ \<Rightarrow>
             (Inr (), release_namespace name (drop_member name key s1)))"

definition drop_known_member :: "string \<Rightarrow> string \<Rightarrow> memory \<Rightarrow> memory" where
  "drop_known_member name key s =
     (if map_of (mem_namespaces s) name = None then s else drop_member name key s)"

definition namespaceConsume ::
  "(string \<Rightarrow> string option) \<Rightarrow> int \<Rightarrow> string \<Rightarrow> string \<Rightarrow> string \<Rightarrow> string cache_op" where
  "namespaceConsume dec now name prefix suffix s =
     (let key = prefix @ suffix; s1 = drop_known_member name key (drop_item key s)
      in case live_item now key s of
           None \<Rightarrow> (Inl Cache_ErrNotFound, s1)
         | Some it \<Rightarrow> (decoded dec (mi_data it), s1))"

definition namespaceGet ::
  "(string \<Rightarrow> 'a option) \<Rightarrow> cache_error option \<Rightarrow> int \<Rightarrow> string \<Rightarrow> string \<Rightarrow> 'a cache_op" where
  "namespaceGet dec ctx now prefix suffix = Memory_Get dec ctx now (prefix @ suffix)"

definition namespaceGetRawJSON ::
  "cache_error option \<times> cache_error option \<Rightarrow> int \<Rightarrow> string \<Rightarrow> string \<Rightarrow> string cache_op" where
  "namespaceGetRawJSON ctx now prefix suffix = GetRawJSON ctx now (prefix @ suffix)"

text \<open>Here the replacement is checked before the store is touched.\<close>

definition namespaceCompareAndSwapJSON ::
  "(string \<Rightarrow> bool) \<Rightarrow> cache_error option \<times> cache_error option \<Rightarrow> int \<Rightarrow> string \<Rightarrow> string \<Rightarrow> string \<Rightarrow>
     string \<Rightarrow> bool cache_op" where
  "namespaceCompareAndSwapJSON valid ctx now prefix suffix expected replacement s =
     (case fst ctx of
        Some e \<Rightarrow> (Inl e, s)
      | None \<Rightarrow>
          if \<not> valid replacement then (Inl Cache_JSON, s)
          else Memory_CompareAndSwapJSON (\<lambda>_. True) (None, snd ctx) now (prefix @ suffix)
                 expected replacement s)"

definition namespaceCompareAndDeleteJSON ::
  "cache_error option \<times> cache_error option \<Rightarrow> int \<Rightarrow> string \<Rightarrow> string \<Rightarrow> string \<Rightarrow> string \<Rightarrow>
     bool cache_op" where
  "namespaceCompareAndDeleteJSON ctx now name prefix suffix expected = with_context ctx (\<lambda>s.
     let key = prefix @ suffix
     in case live_item now key s of
          None \<Rightarrow> (Inr False, forget_expired key s)
        | Some it \<Rightarrow>
            if mi_data it \<noteq> expected then (Inr False, s)
            else (Inr True, snd (namespaceDelete name prefix suffix s)))"

section \<open>Namespaces (namespace.go)\<close>

text \<open>
  The client's side, on a store that brings its own namespaces (\<open>n.backend\<close>), as both stores of
  the program do.  The bookkeeping for other stores exists for tests and is left out.
\<close>

record namespace =
  ns_name :: string
  ns_prefix :: string
  ns_limit :: int

definition NewNamespaceChecked :: "string \<Rightarrow> string \<Rightarrow> int \<Rightarrow> cache_error + namespace" where
  "NewNamespaceChecked name prefix limit =
     (if TrimSpace name = '''' then Inl ErrInvalidNamespace
      else if prefix = '''' then Inl ErrInvalidNamespace
      else if limit \<le> 0 then Inl ErrInvalidNamespace
      else Inr \<lparr>ns_name = name, ns_prefix = prefix, ns_limit = limit\<rparr>)"

definition ns_valid :: "namespace \<Rightarrow> bool" where
  "ns_valid N \<longleftrightarrow> ns_name N \<noteq> '''' \<and> ns_prefix N \<noteq> '''' \<and> 0 < ns_limit N"

definition when_valid :: "namespace \<Rightarrow> 'a cache_op \<Rightarrow> 'a cache_op" where
  "when_valid N op s = (if ns_valid N then op s else (Inl ErrInvalidNamespace, s))"

definition Namespace_Get ::
  "(string \<Rightarrow> 'a option) \<Rightarrow> namespace \<Rightarrow> cache_error option \<Rightarrow> int \<Rightarrow> string \<Rightarrow> 'a cache_op" where
  "Namespace_Get dec N ctx now suffix =
     when_valid N (namespaceGet dec ctx now (ns_prefix N) suffix)"

definition Namespace_GetRawJSON ::
  "namespace \<Rightarrow> cache_error option \<times> cache_error option \<Rightarrow> int \<Rightarrow> string \<Rightarrow> string cache_op" where
  "Namespace_GetRawJSON N ctx now suffix =
     when_valid N (namespaceGetRawJSON ctx now (ns_prefix N) suffix)"

definition Namespace_Set ::
  "namespace \<Rightarrow> string option \<Rightarrow> int \<Rightarrow> string \<Rightarrow> int \<Rightarrow> unit cache_op" where
  "Namespace_Set N bytes_of now suffix ttl = when_valid N (\<lambda>s.
     if ttl \<le> 0 then (Inl ErrInvalidNamespaceTTL, s)
     else namespaceSet (ns_name N) (ns_prefix N) suffix bytes_of now ttl (ns_limit N) s)"

definition Namespace_Delete :: "namespace \<Rightarrow> string \<Rightarrow> unit cache_op" where
  "Namespace_Delete N suffix = when_valid N (namespaceDelete (ns_name N) (ns_prefix N) suffix)"

definition Namespace_CompareAndSwapJSON ::
  "(string \<Rightarrow> bool) \<Rightarrow> namespace \<Rightarrow> cache_error option \<times> cache_error option \<Rightarrow> int \<Rightarrow> string \<Rightarrow> string \<Rightarrow>
     string \<Rightarrow> bool cache_op" where
  "Namespace_CompareAndSwapJSON valid N ctx now suffix expected replacement =
     when_valid N (namespaceCompareAndSwapJSON valid ctx now (ns_prefix N) suffix expected replacement)"

definition Namespace_CompareAndDeleteJSON ::
  "namespace \<Rightarrow> cache_error option \<times> cache_error option \<Rightarrow> int \<Rightarrow> string \<Rightarrow> string \<Rightarrow> bool cache_op" where
  "Namespace_CompareAndDeleteJSON N ctx now suffix expected =
     when_valid N (namespaceCompareAndDeleteJSON ctx now (ns_name N) (ns_prefix N) suffix expected)"

definition Namespace_AtomicConsume ::
  "(string \<Rightarrow> string option) \<Rightarrow> namespace \<Rightarrow> int \<Rightarrow> string \<Rightarrow> string cache_op" where
  "Namespace_AtomicConsume dec N now suffix =
     when_valid N (namespaceConsume dec now (ns_name N) (ns_prefix N) suffix)"

end
