(* ===== verification/Memory_Spec.thy ===== *)
theory Memory_Spec
  imports Memory_Cache
begin

text \<open>
  The cache as a map whose entries expire.  Evictions are invisible: whatever an operation throws
  away on the side has expired.
\<close>

section \<open>States\<close>

abbreviation item_of :: "memory \<Rightarrow> string \<Rightarrow> memory_item option" where
  "item_of s \<equiv> map_of (mem_items s)"

definition mem_ok :: "memory \<Rightarrow> bool" where
  "mem_ok s \<longleftrightarrow> distinct (map fst (mem_items s)) \<and> distinct (map fst (mem_namespaces s)) \<and>
     (\<forall>(name, members) \<in> set (mem_namespaces s). distinct (map fst members))"

named_theorems cache_simps \<open>the maps of the store after an elementary change\<close>

lemma item_of_steps [cache_simps]:
  "item_of (drop_item k s) = (item_of s)(k := None)"
  "item_of (put_item k it s) = (item_of s)(k \<mapsto> it)"
  "item_of (removeNamespaceMembershipLocked k s) = item_of s"
  "item_of (put_members name ms s) = item_of s"
  "item_of (drop_namespace name s) = item_of s"
  "item_of (drop_member name k s) = item_of s"
  by (simp_all add: drop_item_def put_item_def removeNamespaceMembershipLocked_def put_members_def
      drop_namespace_def drop_member_def AList.delete_conv' AList.update_conv')

lemma mem_limit_steps [simp]:
  "mem_limit (drop_item k s) = mem_limit s" "mem_limit (put_item k it s) = mem_limit s"
  "mem_limit (removeNamespaceMembershipLocked k s) = mem_limit s"
  "mem_limit (put_members name ms s) = mem_limit s" "mem_limit (drop_namespace name s) = mem_limit s"
  "mem_limit (drop_member name k s) = mem_limit s"
  by (simp_all add: drop_item_def put_item_def removeNamespaceMembershipLocked_def put_members_def
      drop_namespace_def drop_member_def)

lemma members_of_removal_aux:
  "distinct (map fst nss) \<Longrightarrow>
     (case map_of (filter (\<lambda>(name, members). members \<noteq> [])
            (map (\<lambda>(name, members). (name, AList.delete k members)) nss)) name of
        None \<Rightarrow> [] | Some ms \<Rightarrow> ms)
       = AList.delete k (case map_of nss name of None \<Rightarrow> [] | Some ms \<Rightarrow> ms)"
  (is "_ \<Longrightarrow> ?lhs nss = ?rhs nss")
proof (induction nss)
  case (Cons p nss)
  obtain nm ms where p: "p = (nm, ms)" by (cases p)
  have rest: "map_of (filter (\<lambda>(name, members). members \<noteq> [])
      (map (\<lambda>(name, members). (name, AList.delete k members)) nss)) nm = None"
    using Cons.prems p by (auto simp: map_of_eq_None_iff image_iff split: prod.splits)
  show ?case
    using Cons rest p by (cases "nm = name") auto
qed simp

lemma members_of_steps [cache_simps]:
  "members_of name (drop_item k s) = members_of name s"
  "members_of name (put_item k it s) = members_of name s"
  "members_of name (put_members name' ms s) = (if name' = name then ms else members_of name s)"
  "members_of name (drop_member name' k s) =
     (if name' = name then AList.delete k (members_of name s) else members_of name s)"
  by (simp_all add: members_of_def drop_item_def put_item_def put_members_def drop_member_def
      AList.update_conv')

lemma members_of_removed [cache_simps]:
  assumes "mem_ok s"
  shows "members_of name (removeNamespaceMembershipLocked k s) = AList.delete k (members_of name s)"
    and "members_of name (drop_namespace name' s) = (if name' = name then [] else members_of name s)"
  using members_of_removal_aux [of "mem_namespaces s" k name] assms
  by (simp_all add: mem_ok_def members_of_def removeNamespaceMembershipLocked_def
      drop_namespace_def AList.delete_conv')

lemma members_distinct: "mem_ok s \<Longrightarrow> distinct (map fst (members_of name s))"
  by (auto simp: mem_ok_def members_of_def split: option.split dest!: map_of_SomeD)

lemma set_update_subset: "set (AList.update k v al) \<subseteq> insert (k, v) (set al)"
  by (induction al) auto

lemma mem_ok_steps [cache_simps, intro]:
  assumes "mem_ok s"
  shows "mem_ok (drop_item k s)" "mem_ok (put_item k it s)"
    "mem_ok (removeNamespaceMembershipLocked k s)" "mem_ok (drop_namespace name s)"
    "distinct (map fst ms) \<Longrightarrow> mem_ok (put_members name ms s)" "mem_ok (drop_member name k s)"
proof -
  show put: "mem_ok (put_members name ms s)" if "distinct (map fst ms)" for ms
    using assms that by (auto simp: mem_ok_def put_members_def AList.distinct_update
        dest!: subsetD [OF set_update_subset])
  show "mem_ok (drop_member name k s)"
    unfolding drop_member_def
    by (rule put) (simp add: AList.distinct_delete members_distinct assms)
qed (use assms in \<open>auto simp: mem_ok_def drop_item_def put_item_def removeNamespaceMembershipLocked_def
      drop_namespace_def AList.distinct_delete AList.distinct_update AList.delete_eq distinct_map_filter
      o_def case_prod_unfold\<close>)

section \<open>Invisible removals\<close>

text \<open>\<open>shrinks now s s'\<close>: the step from \<open>s\<close> to \<open>s'\<close> only removed what has expired at \<open>now\<close>.\<close>

definition shrinks :: "int \<Rightarrow> memory \<Rightarrow> memory \<Rightarrow> bool" where
  "shrinks now s s' \<longleftrightarrow> mem_ok s' \<and> mem_limit s' = mem_limit s \<and>
     length (mem_items s') \<le> length (mem_items s) \<and>
     (\<forall>k. item_of s' k = item_of s k \<or>
        item_of s' k = None \<and> (\<exists>it. item_of s k = Some it \<and> mi_expires it \<le> now)) \<and>
     (\<forall>name k. map_of (members_of name s') k = map_of (members_of name s) k \<or>
        map_of (members_of name s') k = None)"

lemma shrinksI:
  assumes "mem_ok s'" "mem_limit s' = mem_limit s" "length (mem_items s') \<le> length (mem_items s)"
    "\<And>k. item_of s' k = item_of s k \<or>
        item_of s' k = None \<and> (\<exists>it. item_of s k = Some it \<and> mi_expires it \<le> now)"
    "\<And>name k. map_of (members_of name s') k = map_of (members_of name s) k \<or>
        map_of (members_of name s') k = None"
  shows "shrinks now s s'"
  using assms by (simp add: shrinks_def)

lemma shrinks_refl: "mem_ok s \<Longrightarrow> shrinks now s s"
  by (simp add: shrinks_def)

lemma shrinks_item:
  assumes "shrinks now s s'"
  obtains "item_of s' k = item_of s k"
    | it where "item_of s' k = None" "item_of s k = Some it" "mi_expires it \<le> now"
  using assms unfolding shrinks_def by metis

lemma shrinks_member:
  assumes "shrinks now s s'"
  obtains "map_of (members_of name s') k = map_of (members_of name s) k"
    | "map_of (members_of name s') k = None"
  using assms unfolding shrinks_def by metis

lemma shrinks_sizes:
  "shrinks now s s' \<Longrightarrow> mem_limit s' = mem_limit s \<and> length (mem_items s') \<le> length (mem_items s)"
  by (simp add: shrinks_def)

lemma shrinks_trans:
  assumes 1: "shrinks now s s'" and 2: "shrinks now s' s''"
  shows "shrinks now s s''"
proof (rule shrinksI)
  show "mem_ok s''" using 2 by (simp add: shrinks_def)
  show "mem_limit s'' = mem_limit s" "length (mem_items s'') \<le> length (mem_items s)"
    using shrinks_sizes [OF 1] shrinks_sizes [OF 2] by linarith+
  show "item_of s'' k = item_of s k \<or>
      item_of s'' k = None \<and> (\<exists>it. item_of s k = Some it \<and> mi_expires it \<le> now)" for k
    by (rule shrinks_item [OF 1, of k]; rule shrinks_item [OF 2, of k]) auto
  show "map_of (members_of name s'') k = map_of (members_of name s) k \<or>
      map_of (members_of name s'') k = None" for name k
    by (rule shrinks_member [OF 1, of name k]; rule shrinks_member [OF 2, of name k]) auto
qed

lemma shrinks_ok: "shrinks now s s' \<Longrightarrow> mem_ok s'"
  by (simp add: shrinks_def)

lemma length_items_steps [simp]:
  "length (mem_items (drop_item k s)) \<le> length (mem_items s)"
  "mem_items (removeNamespaceMembershipLocked k s) = mem_items s"
  "mem_items (put_members name ms s) = mem_items s"
  "mem_items (drop_namespace name s) = mem_items s"
  "mem_items (drop_member name k s) = mem_items s"
  by (simp_all add: drop_item_def removeNamespaceMembershipLocked_def put_members_def
      drop_namespace_def drop_member_def AList.length_delete_le)

lemma map_of_delete_cases:
  "map_of (AList.delete k ms) k' = map_of ms k' \<or> map_of (AList.delete k ms) k' = None"
  by (simp add: AList.delete_conv')

lemma shrinks_drop_member: "mem_ok s \<Longrightarrow> shrinks now s (drop_member name k s)"
  by (rule shrinksI) (auto simp: cache_simps AList.delete_conv')

lemma shrinks_drop_item:
  "mem_ok s \<Longrightarrow> live_item now k s = None \<Longrightarrow> shrinks now s (drop_item k s)"
  by (rule shrinksI)
    (auto simp: cache_simps live_item_def not_less split: option.splits if_splits)

lemma shrinks_remove: "mem_ok s \<Longrightarrow> shrinks now s (removeNamespaceMembershipLocked k s)"
  by (rule shrinksI) (auto simp: cache_simps AList.delete_conv')

lemma shrinks_forget: "mem_ok s \<Longrightarrow> live_item now k s = None \<Longrightarrow> shrinks now s (forget_key k s)"
  by (meson shrinks_drop_item shrinks_ok shrinks_remove shrinks_trans)

lemma shrinks_drop_namespace:
  "mem_ok s \<Longrightarrow> members_of name s = [] \<Longrightarrow> shrinks now s (drop_namespace name s)"
  by (rule shrinksI) (auto simp: cache_simps)

lemma shrinks_new_members:
  "mem_ok s \<Longrightarrow> members_of name s = [] \<Longrightarrow> shrinks now s (put_members name [] s)"
  by (rule shrinksI) (auto simp: cache_simps)

lemma shrinks_prune_member:
  assumes "mem_ok s"
  shows "shrinks now s (prune_member name now p s)"
proof -
  obtain k e where p: "p = (k, e)" by (cases p)
  have m: "shrinks now s (drop_member name k s)" by (rule shrinks_drop_member [OF assms])
  have i: "shrinks now s (drop_item k (drop_member name k s))"
    if "item_of s k = Some it" "\<not> now < mi_expires it" for it
    by (rule shrinks_trans [OF m shrinks_drop_item])
      (use that assms in \<open>auto simp: live_item_def cache_simps\<close>)
  show ?thesis
    using m i shrinks_refl [OF assms] by (auto simp: prune_member_def p split: option.splits)
qed

lemma shrinks_fold:
  "mem_ok s \<Longrightarrow> (\<And>x s'. x \<in> set xs \<Longrightarrow> shrinks now s s' \<Longrightarrow> shrinks now s' (f x s')) \<Longrightarrow>
     shrinks now s (fold f xs s)"
proof (induction xs arbitrary: s)
  case (Cons x xs)
  have 1: "shrinks now s (f x s)" using Cons.prems by (simp add: shrinks_refl)
  have "shrinks now (f x s) (fold f xs (f x s))"
    using Cons.prems 1 by (intro Cons.IH) (auto intro: shrinks_ok shrinks_trans)
  then show ?case using 1 by (auto intro: shrinks_trans)
qed (simp add: shrinks_refl)

lemma shrinks_prune: "mem_ok s \<Longrightarrow> shrinks now s (prune_members name now s)"
  unfolding prune_members_def
  by (rule shrinks_fold) (auto intro: shrinks_prune_member shrinks_ok)

lemma shrinks_evict:
  assumes "mem_ok s"
  shows "shrinks now s (evictExpired now s)"
  unfolding evictExpired_def
proof (rule shrinks_fold [OF assms])
  fix p s' assume p: "p \<in> set (mem_items s)" and s': "shrinks now s s'"
  obtain k it where k: "p = (k, it)" by (cases p)
  have "item_of s k = Some it"
    using p k assms by (simp add: mem_ok_def)
  then have "live_item now k s' = None" if "\<not> now < mi_expires it"
    using that by - (rule shrinks_item [OF s', of k], auto simp: live_item_def)
  then show "shrinks now s' ((\<lambda>(key, it) s'. if \<not> now < mi_expires it then forget_key key s' else s') p s')"
    using k shrinks_ok [OF s'] by (auto intro: shrinks_forget shrinks_refl)
qed

text \<open>After an eviction nothing that has expired is left.\<close>

lemma evict_keeps_gone:
  "item_of s k = None \<Longrightarrow>
     item_of (fold (\<lambda>(key, it) s'. if \<not> now < mi_expires it then forget_key key s' else s') xs s) k = None"
  by (induction xs arbitrary: s) (auto simp: cache_simps split: prod.splits)

lemma evict_drops:
  "(k, it) \<in> set xs \<Longrightarrow> mi_expires it \<le> now \<Longrightarrow>
     item_of (fold (\<lambda>(key, it) s'. if \<not> now < mi_expires it then forget_key key s' else s') xs s) k = None"
proof (induction xs arbitrary: s)
  case (Cons p xs)
  show ?case
  proof (cases "p = (k, it)")
    case True
    have "item_of (forget_key k s) k = None" by (simp add: cache_simps)
    from evict_keeps_gone [OF this] show ?thesis using True Cons.prems by simp
  qed (use Cons in auto)
qed simp

lemma item_of_evict: "mem_ok s \<Longrightarrow> item_of (evictExpired now s) k = live_item now k s"
proof -
  assume ok: "mem_ok s"
  have "item_of (evictExpired now s) k = None" if "item_of s k = Some it" "mi_expires it \<le> now" for it
    unfolding evictExpired_def by (rule evict_drops) (use that in \<open>auto dest: map_of_SomeD\<close>)
  then show ?thesis
    by - (rule shrinks_item [OF shrinks_evict [OF ok, of now], of k],
      auto simp: live_item_def not_less split: option.splits)
qed

section \<open>The map a client sees\<close>

definition view :: "memory \<Rightarrow> int \<Rightarrow> string \<Rightarrow> string option" where
  "view s t key = map_option mi_data (live_item t key s)"

lemma view_later: "view s t k = None \<Longrightarrow> t \<le> t' \<Longrightarrow> view s t' k = None"
  by (auto simp: view_def live_item_def split: option.splits if_splits)

lemma live_item_shrinks:
  assumes "shrinks now s s'" "now \<le> t"
  shows "live_item t k s' = live_item t k s"
  by (rule shrinks_item [OF assms(1), of k]) (use assms(2) in \<open>auto simp: live_item_def\<close>)

lemma view_shrinks: "shrinks now s s' \<Longrightarrow> now \<le> t \<Longrightarrow> view s' t = view s t"
  by (simp add: view_def live_item_shrinks fun_eq_iff)

lemma view_put:
  "view (put_item k it s) t = (view s t)(k := if t < mi_expires it then Some (mi_data it) else None)"
  by (auto simp: view_def live_item_def cache_simps fun_eq_iff)

lemma view_forget: "view (forget_key k s) t = (view s t)(k := None)"
  by (auto simp: view_def live_item_def cache_simps fun_eq_iff)

lemma view_drop [simp]: "view (drop_item k s) t = (view s t)(k := None)"
  by (auto simp: view_def live_item_def cache_simps fun_eq_iff)

lemma view_members [simp]:
  "view (put_members name ms s) t = view s t" "view (drop_namespace name s) t = view s t"
  "view (drop_member name k s) t = view s t" "view (removeNamespaceMembershipLocked k s) t = view s t"
  by (simp_all add: view_def live_item_def cache_simps fun_eq_iff)

lemma shrinks_forget_expired:
  "mem_ok s \<Longrightarrow> live_item now k s = None \<Longrightarrow> shrinks now s (forget_expired k s)"
  by (simp add: forget_expired_def shrinks_forget shrinks_refl)

end
