(* ===== verification/Backend.thy ===== *)
theory Backend
  imports Memory_Spec
begin

text \<open>
  What the clients of the cache rely on.  \<open>expiring_store\<close> is the contract of a map whose
  entries expire; \<open>json_backend\<close> adds the reads and the atomic comparisons of \<open>onetime.Backend\<close>,
  \<open>consuming_store\<close> the atomic consumption.  The namespaces of the memory store provide all of it.
\<close>

section \<open>Contracts\<close>

text \<open>The interface \<open>onetime.Backend\<close> (\<open>internal/platform/onetime\<close>).\<close>

record 's backend =
  bk_set :: "string option \<Rightarrow> int \<Rightarrow> string \<Rightarrow> int \<Rightarrow> 's \<Rightarrow> (cache_error + unit) \<times> 's"
  bk_delete :: "string \<Rightarrow> 's \<Rightarrow> (cache_error + unit) \<times> 's"
  bk_get_raw :: "cache_error option \<times> cache_error option \<Rightarrow> int \<Rightarrow> string \<Rightarrow> 's \<Rightarrow>
    (cache_error + string) \<times> 's"
  bk_cas :: "cache_error option \<times> cache_error option \<Rightarrow> int \<Rightarrow> string \<Rightarrow> string \<Rightarrow> string \<Rightarrow> 's \<Rightarrow>
    (cache_error + bool) \<times> 's"
  bk_cad :: "cache_error option \<times> cache_error option \<Rightarrow> int \<Rightarrow> string \<Rightarrow> string \<Rightarrow> 's \<Rightarrow>
    (cache_error + bool) \<times> 's"

text \<open>\<open>same_from now v v'\<close>: two views agree from the instant \<open>now\<close> on.\<close>

definition same_from :: "int \<Rightarrow> (int \<Rightarrow> string \<Rightarrow> string option) \<Rightarrow> (int \<Rightarrow> string \<Rightarrow> string option) \<Rightarrow> bool" where
  "same_from now v v' \<longleftrightarrow> (\<forall>t \<ge> now. v' t = v t)"

lemma same_from_refl [simp]: "same_from now v v"
  by (simp add: same_from_def)

lemma same_fromD: "same_from now v v' \<Longrightarrow> now \<le> t \<Longrightarrow> v' t = v t"
  by (simp add: same_from_def)

locale expiring_store =
  fixes ok :: "'s \<Rightarrow> bool" and seen :: "'s \<Rightarrow> int \<Rightarrow> string \<Rightarrow> string option"
    and set_value :: "string option \<Rightarrow> int \<Rightarrow> string \<Rightarrow> int \<Rightarrow> 's \<Rightarrow> (cache_error + unit) \<times> 's"
    and delete_value :: "string \<Rightarrow> 's \<Rightarrow> (cache_error + unit) \<times> 's"
  assumes seen_expires: "seen s t k = None \<Longrightarrow> t \<le> t' \<Longrightarrow> seen s t' k = None"
    and seen_constant: "seen s t k = Some x \<Longrightarrow> seen s t' k = Some y \<Longrightarrow> y = x"
    and set_done: "ok s \<Longrightarrow> set_value (Some x) now k ttl s = (Inr u, s') \<Longrightarrow>
      ok s' \<and> same_from now (\<lambda>t. (seen s t)(k := if t < now + ttl then Some x else None)) (seen s')"
    and set_failed: "ok s \<Longrightarrow> set_value xo now k ttl s = (Inl e, s') \<Longrightarrow>
      ok s' \<and> same_from now (seen s) (seen s')"
    and set_encoded: "set_value None now k ttl s \<noteq> (Inr u, s')"
    and delete_done: "ok s \<Longrightarrow> delete_value k s = (r, s') \<Longrightarrow>
      ok s' \<and> r = Inr () \<and> seen s' t = (seen s t)(k := None)"

locale json_backend =
  expiring_store ok seen "bk_set B" "bk_delete B"
  for ok :: "'s \<Rightarrow> bool" and seen and B :: "'s backend" +
  fixes valid :: "string \<Rightarrow> bool"
  assumes get_raw: "ok s \<Longrightarrow> bk_get_raw B ctx now k s = (r, s') \<Longrightarrow>
      ok s' \<and> same_from now (seen s) (seen s') \<and>
      (\<forall>x. r = Inr x \<longrightarrow> seen s now k = Some x) \<and>
      (ctx = (None, None) \<longrightarrow> r = option_to_result Cache_ErrNotFound (seen s now k))"
    and cas_done: "ok s \<Longrightarrow> bk_cas B ctx now k x y s = (Inr True, s') \<Longrightarrow>
      ok s' \<and> seen s now k = Some x \<and>
      same_from now (\<lambda>t. (seen s t)(k := map_option (\<lambda>_. y) (seen s t k))) (seen s')"
    and cas_refused: "ok s \<Longrightarrow> bk_cas B ctx now k x y s = (b, s') \<Longrightarrow> b \<noteq> Inr True \<Longrightarrow>
      ok s' \<and> same_from now (seen s) (seen s')"
    and cas_answers: "ok s \<Longrightarrow> valid y \<Longrightarrow>
      fst (bk_cas B (None, None) now k x y s) = Inr (seen s now k = Some x)"
    and cad_done: "ok s \<Longrightarrow> bk_cad B ctx now k x s = (Inr True, s') \<Longrightarrow>
      ok s' \<and> seen s now k = Some x \<and> seen s' t = (seen s t)(k := None)"
    and cad_refused: "ok s \<Longrightarrow> bk_cad B ctx now k x s = (b, s') \<Longrightarrow> b \<noteq> Inr True \<Longrightarrow>
      ok s' \<and> same_from now (seen s) (seen s')"
    and cad_answers: "ok s \<Longrightarrow>
      fst (bk_cad B (None, None) now k x s) = Inr (seen s now k = Some x)"

locale consuming_store = expiring_store +
  fixes consume :: "(string \<Rightarrow> string option) \<Rightarrow> int \<Rightarrow> string \<Rightarrow> 'a \<Rightarrow> (cache_error + string) \<times> 'a"
  assumes consume_done: "ok s \<Longrightarrow> consume dec now k s = (r, s') \<Longrightarrow>
      ok s' \<and> same_from now (\<lambda>t. (seen s t)(k := None)) (seen s') \<and>
      r = (case seen s now k of None \<Rightarrow> Inl Cache_ErrNotFound | Some x \<Rightarrow> decoded dec x)"

section \<open>The memory store keeps them\<close>

definition memory_backend :: "(string \<Rightarrow> bool) \<Rightarrow> string \<Rightarrow> string \<Rightarrow> int \<Rightarrow> memory backend" where
  "memory_backend valid name prefix limit =
     \<lparr>bk_set = (\<lambda>xo now k ttl. namespaceSet name prefix k xo now ttl limit),
      bk_delete = namespaceDelete name prefix,
      bk_get_raw = (\<lambda>ctx now. namespaceGetRawJSON ctx now prefix),
      bk_cas = (\<lambda>ctx now. namespaceCompareAndSwapJSON valid ctx now prefix),
      bk_cad = (\<lambda>ctx now. namespaceCompareAndDeleteJSON ctx now name prefix)\<rparr>"

definition view_under :: "string \<Rightarrow> memory \<Rightarrow> int \<Rightarrow> string \<Rightarrow> string option" where
  "view_under prefix s t k = view s t (prefix @ k)"

lemma same_from_under:
  "same_from now (view s) (view s') \<Longrightarrow> same_from now (view_under p s) (view_under p s')"
  by (simp add: same_from_def view_under_def fun_eq_iff)

lemma shrinks_same: "shrinks now s s' \<Longrightarrow> mem_ok s' \<and> same_from now (view s) (view s')"
  by (simp add: same_from_def view_shrinks shrinks_ok)

lemma shrinks_open: "mem_ok s \<Longrightarrow> shrinks now s (open_namespace name s)"
  by (auto simp: open_namespace_def members_of_def intro: shrinks_refl shrinks_new_members)

lemma shrinks_release: "mem_ok s \<Longrightarrow> shrinks now s (release_namespace name s)"
  by (auto simp: release_namespace_def intro: shrinks_refl shrinks_drop_namespace)

lemma shrinks_opened:
  "mem_ok s \<Longrightarrow> shrinks now s (prune_members name now (open_namespace name s))"
  by (meson shrinks_ok shrinks_open shrinks_prune shrinks_trans)

lemma admit_key_cases:
  assumes "admit_key name key now limit s = (r, s')" "mem_ok s"
  obtains (tracked) "r = Inr True" "s' = s" "map_of (members_of name s) key \<noteq> None"
    | (refused) "r = Inl Cache_ErrCapacity" "s' = s"
    | (adopted) it where "r = Inr True" "item_of s key = Some it" "now < mi_expires it"
        "s' = put_members name (AList.update key (mi_expires it) (members_of name s)) s"
        "int (length (members_of name s)) < limit"
    | (fresh) "r = Inr False" "s' = drop_item key (drop_member name key s)" "shrinks now s s'"
proof -
  have f: "shrinks now s (drop_item key (drop_member name key s))"
    if "\<not> (case item_of s key of None \<Rightarrow> False | Some it \<Rightarrow> now < mi_expires it)"
    by (rule shrinks_trans [OF shrinks_drop_member shrinks_drop_item])
      (use assms(2) that in \<open>auto simp: live_item_def cache_simps split: option.splits\<close>)
  show thesis
    using assms(1) that f unfolding admit_key_def Let_def
    by (cases "item_of s key"; cases "map_of (members_of name s) key") (auto split: if_splits)
qed

lemma mem_ok_write: "mem_ok s \<Longrightarrow> mem_ok (write_member name key x e s)"
  by (simp add: write_member_def cache_simps AList.distinct_update members_distinct)

lemma view_write:
  "view (write_member name key x e s) t = (view s t)(key := if t < e then Some x else None)"
  by (simp add: write_member_def view_put)

text \<open>A write of a namespace either refuses, having at most dropped dead entries, or it writes.\<close>

lemma namespaceSet_cases:
  assumes set: "namespaceSet name prefix suffix (Some x) now ttl limit s = (r, s')" and ok: "mem_ok s"
  obtains (refused) "r = Inl Cache_ErrCapacity" "shrinks now s s'"
    | (written) sm where "r = Inr ()" "mem_ok sm" "same_from now (view s) (view sm)"
        "s' = write_member name (prefix @ suffix) x (now + ttl) sm"
proof -
  define key where "key = prefix @ suffix"
  define s1 where "s1 = prune_members name now (open_namespace name s)"
  obtain r2 s2 where a: "admit_key name key now limit s1 = (r2, s2)" by fastforce
  have s1: "shrinks now s s1" unfolding s1_def by (rule shrinks_opened [OF ok])
  note set = set [unfolded namespaceSet_def Let_def key_def [symmetric] s1_def [symmetric] a]
  from a shrinks_ok [OF s1] show thesis
  proof (cases rule: admit_key_cases)
    case tracked
    show thesis
      by (rule written [of s1]) (use set tracked s1 shrinks_same in \<open>auto simp: key_def\<close>)
  next
    case refused
    then show thesis using that(1) set s1 by simp
  next
    case (adopted it)
    have "mem_ok s2"
      using adopted shrinks_ok [OF s1]
      by (simp add: cache_simps AList.distinct_update members_distinct)
    moreover have "same_from now (view s) (view s2)"
      using adopted shrinks_same [OF s1] by (simp add: same_from_def)
    ultimately show thesis
      using set adopted written [of s2] by (simp add: key_def)
  next
    case fresh
    have s2: "shrinks now s s2" by (rule shrinks_trans [OF s1 fresh(3)])
    have s4: "shrinks now s (open_namespace name (evictExpired now s2))"
      by (meson s2 shrinks_evict shrinks_ok shrinks_open shrinks_trans)
    have rel: "shrinks now s (release_namespace name sx)" if "shrinks now s sx" for sx
      by (meson that shrinks_ok shrinks_release shrinks_trans)
    consider "r = Inl Cache_ErrCapacity" "s' = release_namespace name s2"
      | "r = Inl Cache_ErrCapacity"
        "s' = release_namespace name (open_namespace name (evictExpired now s2))"
      | "r = Inr ()" "s' = write_member name key x (now + ttl) s2"
      | "r = Inr ()"
        "s' = write_member name key x (now + ttl) (open_namespace name (evictExpired now s2))"
      using set fresh(1) by (auto simp: Let_def split: if_splits)
    then show thesis
      by cases (use that(1) rel [OF s2] rel [OF s4] written shrinks_same [OF s2] shrinks_same [OF s4]
        in \<open>auto simp: key_def\<close>)
  qed
qed

lemma same_from_step:
  "same_from now (view s) (view sm) \<Longrightarrow> (\<And>t. now \<le> t \<Longrightarrow> view s' t = f t (view sm t)) \<Longrightarrow>
     same_from now (\<lambda>t. f t (view s t)) (view s')"
  by (simp add: same_from_def)

lemma with_context_cases:
  assumes "with_context ctx op s = (r, s')"
  obtains (stopped) e where "ctx \<noteq> (None, None)" "r = Inl e" "s' = s"
    | (run) "op s = (r, s')"
  using assms by (auto simp: with_context_def split: prod.splits option.splits)

lemma GetRawJSON_law:
  assumes "GetRawJSON ctx now k s = (r, s')" "mem_ok s"
  shows "mem_ok s' \<and> same_from now (view s) (view s') \<and> (\<forall>x. r = Inr x \<longrightarrow> view s now k = Some x) \<and>
    (ctx = (None, None) \<longrightarrow> r = option_to_result Cache_ErrNotFound (view s now k))"
  using assms(1) unfolding GetRawJSON_def
proof (cases rule: with_context_cases)
  case run
  then show ?thesis
    using assms(2) shrinks_same [OF shrinks_forget_expired [OF assms(2)], of now k]
    by (cases "live_item now k s") (auto simp: view_def option_to_result_def)
qed (use assms in auto)

lemma CompareAndSwapJSON_law:
  assumes "Memory_CompareAndSwapJSON valid ctx now k x y s = (r, s')" "mem_ok s"
  shows "mem_ok s'"
    and "r = Inr True \<Longrightarrow> view s now k = Some x \<and>
      same_from now (\<lambda>t. (view s t)(k := map_option (\<lambda>_. y) (view s t k))) (view s')"
    and "r \<noteq> Inr True \<Longrightarrow> same_from now (view s) (view s')"
    and "ctx = (None, None) \<Longrightarrow> valid y \<Longrightarrow> r = Inr (view s now k = Some x)"
proof -
  have "mem_ok s' \<and>
    (r = Inr True \<longrightarrow> view s now k = Some x \<and>
      same_from now (\<lambda>t. (view s t)(k := map_option (\<lambda>_. y) (view s t k))) (view s')) \<and>
    (r \<noteq> Inr True \<longrightarrow> same_from now (view s) (view s')) \<and>
    (ctx = (None, None) \<longrightarrow> valid y \<longrightarrow> r = Inr (view s now k = Some x))"
    using assms(1) unfolding Memory_CompareAndSwapJSON_def
  proof (cases rule: with_context_cases)
    case run
    show ?thesis
    proof (cases "live_item now k s")
      case None
      then show ?thesis
        using run assms(2) shrinks_same [OF shrinks_forget_expired [OF assms(2) None]]
        by (auto simp: view_def)
    next
      case (Some it)
      then have it: "item_of s k = Some it" by (auto simp: live_item_def split: option.splits if_splits)
      then have "view s t k = (if t < mi_expires it then Some (mi_data it) else None)" for t
        by (simp add: view_def live_item_def)
      moreover have "now < mi_expires it"
        using Some it by (auto simp: live_item_def split: if_splits)
      ultimately show ?thesis
        using run Some assms(2)
        by (auto simp: view_put same_from_def cache_simps fun_eq_iff split: if_splits)
    qed
  qed (use assms in auto)
  then show "mem_ok s'"
    and "r = Inr True \<Longrightarrow> view s now k = Some x \<and>
      same_from now (\<lambda>t. (view s t)(k := map_option (\<lambda>_. y) (view s t k))) (view s')"
    and "r \<noteq> Inr True \<Longrightarrow> same_from now (view s) (view s')"
    and "ctx = (None, None) \<Longrightarrow> valid y \<Longrightarrow> r = Inr (view s now k = Some x)"
    by blast+
qed

lemma namespaceDelete_law:
  assumes "namespaceDelete name prefix suffix s = (r, s')" "mem_ok s"
  shows "mem_ok s' \<and> r = Inr () \<and> view s' t = (view s t)(prefix @ suffix := None)"
  using assms by (auto simp: namespaceDelete_def release_namespace_def cache_simps Let_def
      split: option.splits)

lemma namespaceCompareAndDeleteJSON_law:
  assumes "namespaceCompareAndDeleteJSON ctx now name prefix suffix x s = (r, s')" "mem_ok s"
  shows "mem_ok s' \<and>
    (r = Inr True \<longrightarrow> view s now (prefix @ suffix) = Some x \<and>
       (\<forall>t. view s' t = (view s t)(prefix @ suffix := None))) \<and>
    (r \<noteq> Inr True \<longrightarrow> same_from now (view s) (view s')) \<and>
    (ctx = (None, None) \<longrightarrow> r = Inr (view s now (prefix @ suffix) = Some x))"
  using assms(1) unfolding namespaceCompareAndDeleteJSON_def
proof (cases rule: with_context_cases)
  case run
  obtain r1 s1 where d: "namespaceDelete name prefix suffix s = (r1, s1)" by fastforce
  show ?thesis
    using run d assms(2) namespaceDelete_law [OF d assms(2)]
      shrinks_same [OF shrinks_forget_expired [OF assms(2)], of now "prefix @ suffix"]
    by (cases "live_item now (prefix @ suffix) s") (auto simp: view_def Let_def split: if_splits)
qed (use assms in auto)

lemma namespaceCompareAndSwapJSON_law:
  assumes "namespaceCompareAndSwapJSON valid ctx now prefix suffix x y s = (r, s')" "mem_ok s"
  shows "mem_ok s' \<and>
    (r = Inr True \<longrightarrow> view s now (prefix @ suffix) = Some x \<and>
       same_from now (\<lambda>t. (view s t)(prefix @ suffix := map_option (\<lambda>_. y) (view s t (prefix @ suffix))))
         (view s')) \<and>
    (r \<noteq> Inr True \<longrightarrow> same_from now (view s) (view s')) \<and>
    (ctx = (None, None) \<longrightarrow> valid y \<longrightarrow> r = Inr (view s now (prefix @ suffix) = Some x))"
proof (cases "fst ctx = None \<and> valid y")
  case True
  then have "Memory_CompareAndSwapJSON (\<lambda>_. True) (None, snd ctx) now (prefix @ suffix) x y s = (r, s')"
    using assms(1) by (simp add: namespaceCompareAndSwapJSON_def)
  from CompareAndSwapJSON_law [OF this assms(2)] show ?thesis by (cases ctx) auto
qed (use assms in \<open>auto simp: namespaceCompareAndSwapJSON_def split: option.splits\<close>)

lemma namespaceConsume_law:
  assumes "namespaceConsume dec now name prefix suffix s = (r, s')" "mem_ok s"
  shows "mem_ok s' \<and> (\<forall>t. view s' t = (view s t)(prefix @ suffix := None)) \<and>
    r = (case view s now (prefix @ suffix) of
           None \<Rightarrow> Inl Cache_ErrNotFound | Some x \<Rightarrow> decoded dec x)"
  using assms by (auto simp: namespaceConsume_def drop_known_member_def cache_simps Let_def view_def
      split: option.splits if_splits)


lemma namespaceSet_law:
  assumes "namespaceSet name prefix suffix xo now ttl limit s = (r, s')" "mem_ok s"
  shows "mem_ok s' \<and> (xo = None \<longrightarrow> r = Inl Cache_JSON) \<and>
    (r \<noteq> Inr () \<longrightarrow> same_from now (view s) (view s')) \<and>
    (\<forall>x. xo = Some x \<longrightarrow> r = Inr () \<longrightarrow>
       same_from now (\<lambda>t. (view s t)(prefix @ suffix := if t < now + ttl then Some x else None)) (view s'))"
proof (cases xo)
  case (Some x)
  from assms(1) [unfolded Some] assms(2) show ?thesis
  proof (cases rule: namespaceSet_cases)
    case refused
    then show ?thesis using Some shrinks_same by auto
  next
    case (written sm)
    then show ?thesis
      using Some by (auto simp: mem_ok_write view_write same_from_def)
  qed
qed (use assms in \<open>auto simp: namespaceSet_def\<close>)

text \<open>The same laws, about the keys of one namespace.\<close>

lemma same_from_upd:
  assumes "same_from now (\<lambda>t. (view s t)(prefix @ k := v t (view s t (prefix @ k)))) (view s')"
  shows "same_from now (\<lambda>t. (view_under prefix s t)(k := v t (view_under prefix s t k))) (view_under prefix s')"
  using assms by (auto simp: same_from_def view_under_def fun_eq_iff)

lemma memory_seen_expires:
  "view_under prefix s t k = None \<Longrightarrow> t \<le> t' \<Longrightarrow> view_under prefix s t' k = None"
  by (auto simp: view_under_def dest: view_later)

lemma memory_seen_constant:
  "view_under prefix s t k = Some x \<Longrightarrow> view_under prefix s t' k = Some y \<Longrightarrow> y = x"
  by (auto simp: view_under_def view_def live_item_def split: option.splits if_splits)

lemma memory_set_done:
  assumes "mem_ok s" "bk_set (memory_backend valid name prefix limit) (Some x) now k ttl s = (Inr u, s')"
  shows "mem_ok s' \<and> same_from now
      (\<lambda>t. (view_under prefix s t)(k := if t < now + ttl then Some x else None)) (view_under prefix s')"
proof -
  have "namespaceSet name prefix k (Some x) now ttl limit s = (Inr u, s')"
    using assms(2) by (simp add: memory_backend_def)
  from namespaceSet_law [OF this assms(1)]
    same_from_upd [of now s prefix k "\<lambda>t _. if t < now + ttl then Some x else None" s']
  show ?thesis by simp
qed

lemma memory_set_failed:
  assumes "mem_ok s" "bk_set (memory_backend valid name prefix limit) xo now k ttl s = (Inl e, s')"
  shows "mem_ok s' \<and> same_from now (view_under prefix s) (view_under prefix s')"
proof -
  have "namespaceSet name prefix k xo now ttl limit s = (Inl e, s')"
    using assms(2) by (simp add: memory_backend_def)
  from namespaceSet_law [OF this assms(1)] same_from_under [of now s s' prefix]
  show ?thesis by simp
qed

lemma memory_set_encoded:
  "bk_set (memory_backend valid name prefix limit) None now k ttl s \<noteq> (Inr u, s')"
  by (simp add: memory_backend_def namespaceSet_def)

lemma memory_delete:
  assumes "mem_ok s" "bk_delete (memory_backend valid name prefix limit) k s = (r, s')"
  shows "mem_ok s' \<and> r = Inr () \<and> view_under prefix s' t = (view_under prefix s t)(k := None)"
  using namespaceDelete_law [of name prefix k s r s' t] assms
  by (simp add: memory_backend_def view_under_def fun_eq_iff)

lemma memory_get_raw:
  assumes "mem_ok s" "bk_get_raw (memory_backend valid name prefix limit) ctx now k s = (r, s')"
  shows "mem_ok s' \<and> same_from now (view_under prefix s) (view_under prefix s') \<and>
      (\<forall>x. r = Inr x \<longrightarrow> view_under prefix s now k = Some x) \<and>
      (ctx = (None, None) \<longrightarrow> r = option_to_result Cache_ErrNotFound (view_under prefix s now k))"
proof -
  have "GetRawJSON ctx now (prefix @ k) s = (r, s')"
    using assms(2) by (simp add: memory_backend_def namespaceGetRawJSON_def)
  note law = GetRawJSON_law [OF this assms(1)]
  have "same_from now (view_under prefix s) (view_under prefix s')"
    by (rule same_from_under) (use law in blast)
  then show ?thesis unfolding view_under_def [of _ s now k] using law by blast
qed

lemma memory_cas_done:
  assumes "mem_ok s" "bk_cas (memory_backend valid name prefix limit) ctx now k x y s = (Inr True, s')"
  shows "mem_ok s' \<and> view_under prefix s now k = Some x \<and> same_from now
      (\<lambda>t. (view_under prefix s t)(k := map_option (\<lambda>_. y) (view_under prefix s t k))) (view_under prefix s')"
proof -
  have "namespaceCompareAndSwapJSON valid ctx now prefix k x y s = (Inr True, s')"
    using assms(2) by (simp add: memory_backend_def)
  from namespaceCompareAndSwapJSON_law [OF this assms(1)] show ?thesis
    using same_from_upd [of now s prefix k "\<lambda>_. map_option (\<lambda>_. y)" s']
    by (simp add: view_under_def [of _ s now])
qed

lemma memory_cas_refused:
  assumes "mem_ok s" "bk_cas (memory_backend valid name prefix limit) ctx now k x y s = (b, s')" "b \<noteq> Inr True"
  shows "mem_ok s' \<and> same_from now (view_under prefix s) (view_under prefix s')"
proof -
  have "namespaceCompareAndSwapJSON valid ctx now prefix k x y s = (b, s')"
    using assms(2) by (simp add: memory_backend_def)
  from namespaceCompareAndSwapJSON_law [OF this assms(1)] assms(3) same_from_under [of now s s' prefix]
  show ?thesis by simp
qed

lemma memory_cas_answers:
  assumes "mem_ok s" "valid y"
  shows "fst (bk_cas (memory_backend valid name prefix limit) (None, None) now k x y s) =
      Inr (view_under prefix s now k = Some x)"
  using namespaceCompareAndSwapJSON_law [OF surjective_pairing assms(1),
      of valid "(None, None)" now prefix k x y] assms(2)
  by (simp add: memory_backend_def view_under_def)

lemma memory_cad_done:
  assumes "mem_ok s" "bk_cad (memory_backend valid name prefix limit) ctx now k x s = (Inr True, s')"
  shows "mem_ok s' \<and> view_under prefix s now k = Some x \<and>
      view_under prefix s' t = (view_under prefix s t)(k := None)"
  using namespaceCompareAndDeleteJSON_law [of ctx now name prefix k x s "Inr True" s'] assms
  by (simp add: memory_backend_def view_under_def fun_eq_iff)

lemma memory_cad_refused:
  assumes "mem_ok s" "bk_cad (memory_backend valid name prefix limit) ctx now k x s = (b, s')" "b \<noteq> Inr True"
  shows "mem_ok s' \<and> same_from now (view_under prefix s) (view_under prefix s')"
proof -
  have "namespaceCompareAndDeleteJSON ctx now name prefix k x s = (b, s')"
    using assms(2) by (simp add: memory_backend_def)
  from namespaceCompareAndDeleteJSON_law [OF this assms(1)] assms(3) same_from_under [of now s s' prefix]
  show ?thesis by simp
qed

lemma memory_cad_answers:
  assumes "mem_ok s"
  shows "fst (bk_cad (memory_backend valid name prefix limit) (None, None) now k x s) =
      Inr (view_under prefix s now k = Some x)"
  using namespaceCompareAndDeleteJSON_law [OF surjective_pairing assms(1),
      of "(None, None)" now name prefix k x]
  by (simp add: memory_backend_def view_under_def)

lemma memory_consume:
  assumes "mem_ok s" "namespaceConsume dec now name prefix k s = (r, s')"
  shows "mem_ok s' \<and> same_from now (\<lambda>t. (view_under prefix s t)(k := None)) (view_under prefix s') \<and>
      r = (case view_under prefix s now k of None \<Rightarrow> Inl Cache_ErrNotFound | Some x \<Rightarrow> decoded dec x)"
  using namespaceConsume_law [OF assms(2,1)]
  by (simp add: view_under_def same_from_def fun_eq_iff)

interpretation memory_ns: json_backend mem_ok "view_under prefix" "memory_backend valid name prefix limit" valid
  by unfold_locales
    (fact memory_seen_expires memory_seen_constant memory_set_done memory_set_failed
      memory_set_encoded memory_delete memory_get_raw memory_cas_done memory_cas_refused
      memory_cas_answers memory_cad_done memory_cad_refused memory_cad_answers)+

section \<open>A namespace of the memory store\<close>

text \<open>A \<open>*Namespace\<close> as the backend it is passed as.\<close>

definition namespace_backend :: "(string \<Rightarrow> bool) \<Rightarrow> namespace \<Rightarrow> memory backend" where
  "namespace_backend valid N =
     \<lparr>bk_set = Namespace_Set N, bk_delete = Namespace_Delete N, bk_get_raw = Namespace_GetRawJSON N,
      bk_cas = Namespace_CompareAndSwapJSON valid N, bk_cad = Namespace_CompareAndDeleteJSON N\<rparr>"

locale valid_namespace =
  fixes N :: namespace and valid :: "string \<Rightarrow> bool"
  assumes namespace_valid: "ns_valid N"
begin

abbreviation "mb \<equiv> memory_backend valid (ns_name N) (ns_prefix N) (ns_limit N)"

lemma backend_ops:
  "bk_set (namespace_backend valid N) xo now k ttl s =
     (if ttl \<le> 0 then (Inl ErrInvalidNamespaceTTL, s) else bk_set mb xo now k ttl s)"
  "bk_delete (namespace_backend valid N) k s = bk_delete mb k s"
  "bk_get_raw (namespace_backend valid N) ctx now k s = bk_get_raw mb ctx now k s"
  "bk_cas (namespace_backend valid N) ctx now k x y s = bk_cas mb ctx now k x y s"
  "bk_cad (namespace_backend valid N) ctx now k x s = bk_cad mb ctx now k x s"
  using namespace_valid
  by (simp_all add: namespace_backend_def memory_backend_def Namespace_Set_def Namespace_Delete_def
      Namespace_GetRawJSON_def Namespace_CompareAndSwapJSON_def Namespace_CompareAndDeleteJSON_def
      when_valid_def)

lemma set_laws:
  "mem_ok s \<Longrightarrow> bk_set (namespace_backend valid N) (Some x) now k ttl s = (Inr u, s') \<Longrightarrow>
     mem_ok s' \<and> same_from now (\<lambda>t. (view_under (ns_prefix N) s t)
       (k := if t < now + ttl then Some x else None)) (view_under (ns_prefix N) s')"
  "mem_ok s \<Longrightarrow> bk_set (namespace_backend valid N) xo now k ttl s = (Inl e, s') \<Longrightarrow>
     mem_ok s' \<and> same_from now (view_under (ns_prefix N) s) (view_under (ns_prefix N) s')"
  "bk_set (namespace_backend valid N) None now k ttl s \<noteq> (Inr u, s')"
  unfolding backend_ops
  using memory_set_done [of s valid "ns_name N" "ns_prefix N" "ns_limit N" x now k ttl u s']
    memory_set_failed [of s valid "ns_name N" "ns_prefix N" "ns_limit N" xo now k ttl e s']
    memory_set_encoded [of valid "ns_name N" "ns_prefix N" "ns_limit N" now k ttl s u s']
  by (auto split: if_splits)

end

sublocale valid_namespace \<subseteq> json_backend mem_ok "view_under (ns_prefix N)" "namespace_backend valid N" valid
  by (unfold_locales, (fact memory_seen_expires memory_seen_constant set_laws)+,
    (unfold backend_ops),
    (fact memory_delete memory_get_raw memory_cas_done memory_cas_refused
        memory_cas_answers memory_cad_done memory_cad_refused memory_cad_answers)+)

context valid_namespace
begin

lemma provides_backend:
  "json_backend mem_ok (view_under (ns_prefix N)) (namespace_backend valid N) valid"
  by (rule json_backend_axioms)

end

sublocale valid_namespace \<subseteq> consuming_store mem_ok "view_under (ns_prefix N)"
  "bk_set (namespace_backend valid N)" "bk_delete (namespace_backend valid N)"
  "\<lambda>dec. Namespace_AtomicConsume dec N"
proof unfold_locales
  fix s dec now k r s'
  assume "mem_ok s" "Namespace_AtomicConsume dec N now k s = (r, s')"
  then show "mem_ok s' \<and>
      same_from now (\<lambda>t. (view_under (ns_prefix N) s t)(k := None)) (view_under (ns_prefix N) s') \<and>
      r = (case view_under (ns_prefix N) s now k of None \<Rightarrow> Inl Cache_ErrNotFound | Some x \<Rightarrow> decoded dec x)"
    using namespace_valid memory_consume
    by (simp add: Namespace_AtomicConsume_def when_valid_def)
qed

lemma namespace_is_backend:
  assumes "ns_valid N"
  shows "json_backend mem_ok (view_under (ns_prefix N)) (namespace_backend valid N) valid"
  by (rule valid_namespace.provides_backend [OF valid_namespace.intro [OF assms]])

text \<open>The namespaces of the program (\<open>identity/service.go\<close>, \<open>comment/authcode.go\<close>).\<close>

definition email_code_login_ns :: namespace where
  "email_code_login_ns = \<lparr>ns_name = ''email_code_login'', ns_prefix = ''email-code:login:'', ns_limit = 2000\<rparr>"

definition password_reset_ns :: namespace where
  "password_reset_ns =
     \<lparr>ns_name = ''password_reset_code'', ns_prefix = ''email-code:password_reset:'', ns_limit = 500\<rparr>"

definition widget_auth_code_ns :: namespace where
  "widget_auth_code_ns = \<lparr>ns_name = ''widget_auth_code'', ns_prefix = ''authcode:'', ns_limit = 1000\<rparr>"

interpretation login_codes: valid_namespace email_code_login_ns valid for valid
  by unfold_locales (simp add: ns_valid_def email_code_login_ns_def)

interpretation reset_codes: valid_namespace password_reset_ns valid for valid
  by unfold_locales (simp add: ns_valid_def password_reset_ns_def)

interpretation auth_codes: valid_namespace widget_auth_code_ns valid for valid
  by unfold_locales (simp add: ns_valid_def widget_auth_code_ns_def)

end
