(* ===== verification/Onetime.thy ===== *)
theory Onetime
  imports Backend
begin

text \<open>
  One-time credentials (\<open>internal/platform/onetime\<close>): a digest stored with an expiry, checked a
  limited number of times and consumed at most once.  \<open>VerifyAndConsume\<close> reads the record, decides, and
  writes with an atomic comparison; when another request has changed the record in between, it
  starts over.  The two halves of a round are separate steps, so that requests may interleave.
\<close>

section \<open>Records\<close>

text \<open>Instants are nanoseconds since 1970; Go's zero time is the first instant of year 1.\<close>

definition zero_time :: int where
  "zero_time = - 62135596800000000000"

record onetime_record =
  or_hash :: string
  or_attempts :: int
  or_expires_at :: int

text \<open>\<open>json.Marshal\<close> and \<open>json.Unmarshal\<close> at the type of records.\<close>

record onetime_json =
  oj_marshal :: "onetime_record \<Rightarrow> string option"
  oj_unmarshal :: "string \<Rightarrow> onetime_record option"

definition validRecord :: "onetime_record \<Rightarrow> bool" where
  "validRecord r \<longleftrightarrow> or_hash r \<noteq> '''' \<and> 0 \<le> or_attempts r \<and> or_expires_at r \<noteq> zero_time"

datatype verify_result = Consumed | Attempted | Invalid

section \<open>Operations\<close>

text \<open>\<open>issued_at\<close> is the instant stamped into the record, \<open>now\<close> the store's.\<close>

definition Issue ::
  "'s backend \<Rightarrow> onetime_json \<Rightarrow> cache_error option \<Rightarrow> int \<Rightarrow> int \<Rightarrow> string \<Rightarrow> string \<Rightarrow> int \<Rightarrow> 's \<Rightarrow>
     (cache_error + unit) \<times> 's" where
  "Issue B J ctx issued_at now key digest ttl s =
     (case ctx of
        Some e \<Rightarrow> (Inl e, s)
      | None \<Rightarrow> bk_set B (oj_marshal J \<lparr>or_hash = digest, or_attempts = 0,
                   or_expires_at = issued_at + ttl\<rparr>) now key ttl s)"

definition Onetime_Delete :: "'s backend \<Rightarrow> string \<Rightarrow> 's \<Rightarrow> (cache_error + unit) \<times> 's" where
  "Onetime_Delete B key s = bk_delete B key s"

text \<open>What a round has decided to do after its read.\<close>

datatype verify_action =
    Answer "cache_error + verify_result"
  | CompareAndDelete string verify_result
  | CompareAndSwap string string

definition verify_decide ::
  "onetime_json \<Rightarrow> int \<Rightarrow> string \<Rightarrow> int \<Rightarrow> string \<Rightarrow> verify_action" where
  "verify_decide J now submitted maxAttempts raw =
     (case oj_unmarshal J raw of
        None \<Rightarrow> CompareAndDelete raw Invalid
      | Some current \<Rightarrow>
          if \<not> validRecord current then CompareAndDelete raw Invalid
          else if \<not> now < or_expires_at current \<or> maxAttempts \<le> or_attempts current
          then CompareAndDelete raw Invalid
          else if or_hash current = submitted then CompareAndDelete raw Consumed
          else (let next_record = current\<lparr>or_attempts := or_attempts current + 1\<rparr>
                in if maxAttempts \<le> or_attempts next_record then CompareAndDelete raw Invalid
                   else (case oj_marshal J next_record of
                           None \<Rightarrow> Answer (Inl Cache_JSON)
                         | Some replacement \<Rightarrow> CompareAndSwap raw replacement)))"

text \<open>The answers of the context and of the clock during one round.\<close>

record verify_round =
  vr_ctx :: "cache_error option"
  vr_read_ctx :: "cache_error option \<times> cache_error option"
  vr_write_ctx :: "cache_error option \<times> cache_error option"
  vr_read_at :: int
  vr_decide_at :: int
  vr_write_at :: int

definition verify_read ::
  "'s backend \<Rightarrow> onetime_json \<Rightarrow> verify_round \<Rightarrow> string \<Rightarrow> string \<Rightarrow> int \<Rightarrow> 's \<Rightarrow> verify_action \<times> 's" where
  "verify_read B J rd key submitted maxAttempts s =
     (case vr_ctx rd of
        Some e \<Rightarrow> (Answer (Inl e), s)
      | None \<Rightarrow>
          (case bk_get_raw B (vr_read_ctx rd) (vr_read_at rd) key s of
             (Inl e, s') \<Rightarrow>
               (Answer (if e = Cache_ErrNotFound then Inr Invalid else Inl e), s')
           | (Inr raw, s') \<Rightarrow> (verify_decide J (vr_decide_at rd) submitted maxAttempts raw, s')))"

text \<open>\<open>None\<close> is \<open>continue\<close>: the record has changed.\<close>

definition verify_write ::
  "'s backend \<Rightarrow> verify_round \<Rightarrow> string \<Rightarrow> verify_action \<Rightarrow> 's \<Rightarrow>
     (cache_error + verify_result) option \<times> 's" where
  "verify_write B rd key a s =
     (let settle = (\<lambda>v p. case p of
            (Inl e, s') \<Rightarrow> (Some (Inl e), s')
          | (Inr done_, s') \<Rightarrow> (if done_ then Some (Inr v) else None, s'))
      in case a of
           Answer r \<Rightarrow> (Some r, s)
         | CompareAndDelete raw v \<Rightarrow>
             settle v (bk_cad B (vr_write_ctx rd) (vr_write_at rd) key raw s)
         | CompareAndSwap raw replacement \<Rightarrow>
             settle Attempted (bk_cas B (vr_write_ctx rd) (vr_write_at rd) key raw replacement s))"

text \<open>
  The loop.  \<open>rounds\<close> gives, for every round, the answers above and what other requests do to the
  store between its read and its write; when it is used up, the loop has not ended (\<open>None\<close>).
\<close>

fun VerifyAndConsume ::
  "'s backend \<Rightarrow> onetime_json \<Rightarrow> (verify_round \<times> ('s \<Rightarrow> 's)) list \<Rightarrow> string \<Rightarrow> string \<Rightarrow> int \<Rightarrow> 's \<Rightarrow>
     (cache_error + verify_result) option \<times> 's" where
  "VerifyAndConsume B J [] key submitted maxAttempts s = (None, s)"
| "VerifyAndConsume B J ((rd, others) # rounds) key submitted maxAttempts s =
     (case verify_read B J rd key submitted maxAttempts s of
        (a, s1) \<Rightarrow>
          (case verify_write B rd key a (others s1) of
             (Some r, s2) \<Rightarrow> (Some r, s2)
           | (None, s2) \<Rightarrow> VerifyAndConsume B J rounds key submitted maxAttempts s2))"

section \<open>Concurrent requests\<close>

text \<open>
  A pool of requests on one store.  A request that verifies a credential is idle, about to read, or
  about to write.  The last two fields record what has been issued and what verifications have
  answered.
\<close>

datatype verify_request =
    Resting
  | Reading string string
  | Writing string string verify_action

record 's pool =
  pl_now :: int
  pl_store :: 's
  pl_requests :: "nat \<Rightarrow> verify_request"
  pl_issued :: "(string \<times> string) list"
  pl_answers :: "(string \<times> string \<times> verify_result) list"

definition answer_of :: "string \<Rightarrow> string \<Rightarrow> (cache_error + verify_result) option \<Rightarrow>
    (string \<times> string \<times> verify_result) list" where
  "answer_of key submitted r = (case r of Some (Inr v) \<Rightarrow> [(key, submitted, v)] | _ \<Rightarrow> [])"

inductive pool_step :: "'s backend \<Rightarrow> onetime_json \<Rightarrow> int \<Rightarrow> 's pool \<Rightarrow> 's pool \<Rightarrow> bool"
  for B J maxAttempts where
  clock: "pl_now P \<le> now \<Longrightarrow> pool_step B J maxAttempts P (P\<lparr>pl_now := now\<rparr>)"
| issue: "Issue B J ctx issued_at (pl_now P) key digest ttl (pl_store P) = (r, s') \<Longrightarrow>
    pool_step B J maxAttempts P (P\<lparr>pl_store := s',
      pl_issued := (if r = Inr () then [(key, digest)] else []) @ pl_issued P\<rparr>)"
| discard: "Onetime_Delete B key (pl_store P) = (r, s') \<Longrightarrow>
    pool_step B J maxAttempts P (P\<lparr>pl_store := s'\<rparr>)"
| submit: "pl_requests P p = Resting \<Longrightarrow>
    pool_step B J maxAttempts P (P\<lparr>pl_requests := (pl_requests P)(p := Reading key submitted)\<rparr>)"
| fetch: "pl_requests P p = Reading key submitted \<Longrightarrow> vr_read_at rd = pl_now P \<Longrightarrow>
    verify_read B J rd key submitted maxAttempts (pl_store P) = (a, s') \<Longrightarrow>
    pool_step B J maxAttempts P (P\<lparr>pl_store := s',
      pl_requests := (pl_requests P)(p := Writing key submitted a)\<rparr>)"
| store_back: "pl_requests P p = Writing key submitted a \<Longrightarrow> vr_write_at rd = pl_now P \<Longrightarrow>
    verify_write B rd key a (pl_store P) = (r, s') \<Longrightarrow>
    pool_step B J maxAttempts P (P\<lparr>pl_store := s',
      pl_requests := (pl_requests P)(p := (if r = None then Reading key submitted else Resting)),
      pl_answers := answer_of key submitted r @ pl_answers P\<rparr>)"

definition fresh_pool :: "int \<Rightarrow> 's \<Rightarrow> 's pool" where
  "fresh_pool now s = \<lparr>pl_now = now, pl_store = s, pl_requests = (\<lambda>_. Resting), pl_issued = [],
     pl_answers = []\<rparr>"

definition issues :: "string \<Rightarrow> 's pool \<Rightarrow> nat" where
  "issues key P = length (filter (\<lambda>(k, _). k = key) (pl_issued P))"

definition answers :: "string \<Rightarrow> verify_result \<Rightarrow> 's pool \<Rightarrow> nat" where
  "answers key v P = length (filter (\<lambda>(k, _, v'). k = key \<and> v' = v) (pl_answers P))"

section \<open>The books\<close>

text \<open>
  The invariant of one key: what the store holds under it (\<open>held\<close>) is a record issued for it with
  guesses left, every consumption has used up an issue, and the failed attempts are paid for by the issues.
\<close>

definition attempts_in :: "onetime_json \<Rightarrow> string \<Rightarrow> int" where
  "attempts_in J x = (case oj_unmarshal J x of None \<Rightarrow> 0 | Some r \<Rightarrow> or_attempts r)"

definition entry_ok :: "onetime_json \<Rightarrow> int \<Rightarrow> (string \<times> string) list \<Rightarrow> string \<Rightarrow> string \<Rightarrow> bool" where
  "entry_ok J M issued k x \<longleftrightarrow>
     (\<exists>r. oj_unmarshal J x = Some r \<and> (k, or_hash r) \<in> set issued \<and>
        0 \<le> or_attempts r \<and> or_attempts r < M)"

definition action_ok :: "onetime_json \<Rightarrow> int \<Rightarrow> string \<Rightarrow> verify_action \<Rightarrow> bool" where
  "action_ok J M submitted a =
     (case a of
        Answer r \<Rightarrow> (\<forall>v. r = Inr v \<longrightarrow> v = Invalid)
      | CompareAndDelete raw v \<Rightarrow> v \<noteq> Attempted \<and>
          (v = Consumed \<longrightarrow> (\<exists>r. oj_unmarshal J raw = Some r \<and> or_hash r = submitted))
      | CompareAndSwap raw x \<Rightarrow>
          (\<exists>r. oj_unmarshal J raw = Some r \<and> or_attempts r + 1 < M \<and>
             oj_unmarshal J x = Some (r\<lparr>or_attempts := or_attempts r + 1\<rparr>)))"

definition key_books ::
  "onetime_json \<Rightarrow> int \<Rightarrow> (string \<times> string) list \<Rightarrow> (string \<times> string \<times> verify_result) list \<Rightarrow> string \<Rightarrow>
     string option \<Rightarrow> bool" where
  "key_books J M issued replies k held \<longleftrightarrow>
     (let n = int (length (filter (\<lambda>(k', _). k' = k) issued));
          used = int (length (filter (\<lambda>(k', _, v). k' = k \<and> v = Consumed) replies));
          missed = int (length (filter (\<lambda>(k', _, v). k' = k \<and> v = Attempted) replies))
      in (\<forall>x. held = Some x \<longrightarrow> entry_ok J M issued k x) \<and>
         used + (if held = None then 0 else 1) \<le> n \<and>
         missed \<le> (case held of None \<Rightarrow> (M - 1) * n | Some x \<Rightarrow> (M - 1) * (n - 1) + attempts_in J x) \<and>
         (\<forall>d. (k, d, Consumed) \<in> set replies \<longrightarrow> (k, d) \<in> set issued))"

lemma entry_ok_attempts: "entry_ok J M issued k x \<Longrightarrow> 0 \<le> attempts_in J x \<and> attempts_in J x < M"
  by (auto simp: entry_ok_def attempts_in_def)

lemma budget_step: "a < M \<Longrightarrow> m \<le> (M - 1) * (n - 1) + a \<Longrightarrow> m \<le> (M - 1) * (n::int)"
  by (simp add: algebra_simps)

lemma budget_issue: "1 \<le> M \<Longrightarrow> m \<le> (M - 1) * (n::int) \<Longrightarrow> m \<le> (M - 1) * (1 + n)"
  by (simp add: algebra_simps)

lemma books_lost:
  assumes "key_books J M issued replies k held"
  shows "key_books J M issued replies k None"
proof (cases held)
  case (Some x)
  then have "entry_ok J M issued k x" using assms by (simp add: key_books_def Let_def)
  then have "attempts_in J x < M" by (rule entry_ok_attempts [THEN conjunct2])
  then show ?thesis
    using assms Some budget_step by (auto simp: key_books_def Let_def)
qed (use assms in simp)

lemma books_issued:
  assumes "key_books J M issued replies k held" "1 \<le> M"
    and "held' = None \<or> held' = Some x \<and> oj_unmarshal J x = Some \<lparr>or_hash = d, or_attempts = 0, or_expires_at = e\<rparr>"
  shows "key_books J M ((k, d) # issued) replies k held'"
proof -
  have none: "key_books J M issued replies k None" by (rule books_lost [OF assms(1)])
  show ?thesis
  proof (cases held')
    case None
    then show ?thesis using none budget_issue [OF assms(2)] by (auto simp: key_books_def Let_def)
  next
    case (Some y)
    then show ?thesis
      using none assms(2,3) by (auto simp: key_books_def entry_ok_def attempts_in_def Let_def)
  qed
qed

lemma books_issued_other:
  "key_books J M issued replies k held \<Longrightarrow> k' \<noteq> k \<Longrightarrow> key_books J M ((k', d) # issued) replies k held"
  by (auto simp: key_books_def entry_ok_def Let_def)

lemma books_consumed:
  assumes "key_books J M issued replies k (Some x)" "oj_unmarshal J x = Some r"
  shows "key_books J M issued ((k, or_hash r, Consumed) # replies) k None"
  using assms books_lost [OF assms(1)]
  by (auto simp: key_books_def entry_ok_def Let_def)

lemma books_missed:
  assumes "key_books J M issued replies k (Some x)" "oj_unmarshal J x = Some r"
    "or_attempts r + 1 < M" "oj_unmarshal J y = Some (r\<lparr>or_attempts := or_attempts r + 1\<rparr>)"
  shows "key_books J M issued ((k, d, Attempted) # replies) k (Some y)"
  using assms by (auto simp: key_books_def entry_ok_def attempts_in_def Let_def)

lemma books_answer_other:
  "key_books J M issued replies k held \<Longrightarrow> k' \<noteq> k \<or> v = Invalid \<Longrightarrow>
     key_books J M issued ((k', d, v) # replies) k held"
  by (auto simp: key_books_def Let_def)

lemma action_ok_decide:
  assumes "\<And>r x. oj_marshal J r = Some x \<Longrightarrow> oj_unmarshal J x = Some r"
  shows "action_ok J M submitted (verify_decide J now submitted M raw)"
  using assms by (auto simp: verify_decide_def action_ok_def Let_def not_le split: option.splits)

definition pool_ok ::
  "('s \<Rightarrow> bool) \<Rightarrow> ('s \<Rightarrow> int \<Rightarrow> string \<Rightarrow> string option) \<Rightarrow> onetime_json \<Rightarrow> int \<Rightarrow> 's pool \<Rightarrow> bool" where
  "pool_ok ok seen J M P \<longleftrightarrow> ok (pl_store P) \<and>
     (\<forall>k. key_books J M (pl_issued P) (pl_answers P) k (seen (pl_store P) (pl_now P) k)) \<and>
     (\<forall>p k d a. pl_requests P p = Writing k d a \<longrightarrow> action_ok J M d a)"

lemma pool_ok_requests:
  "pool_ok ok seen J M P \<Longrightarrow> (\<forall>p k d a. f p = Writing k d a \<longrightarrow> action_ok J M d a) \<Longrightarrow>
     pool_ok ok seen J M (P\<lparr>pl_requests := f\<rparr>)"
  by (simp add: pool_ok_def)

context json_backend
begin

lemma verify_read_effect:
  assumes "verify_read B J rd key submitted M s = (a, s')" "ok s"
  shows "ok s'" "same_from (vr_read_at rd) (seen s) (seen s')"
    and "(\<And>r x. oj_marshal J r = Some x \<Longrightarrow> oj_unmarshal J x = Some r) \<Longrightarrow> action_ok J M submitted a"
proof -
  have "ok s' \<and> same_from (vr_read_at rd) (seen s) (seen s') \<and>
      (a = Answer (Inr Invalid) \<or> (\<exists>e. a = Answer (Inl e)) \<or>
       (\<exists>raw. a = verify_decide J (vr_decide_at rd) submitted M raw))"
    using assms by (auto simp: verify_read_def dest: get_raw split: option.splits prod.splits
        sum.splits if_splits)
  then show "ok s'" "same_from (vr_read_at rd) (seen s) (seen s')"
    and "(\<And>r x. oj_marshal J r = Some x \<Longrightarrow> oj_unmarshal J x = Some r) \<Longrightarrow> action_ok J M submitted a"
    using action_ok_decide by (auto simp: action_ok_def)
qed

text \<open>A write either changes nothing the clients see, or consumes or counts the record it read.\<close>

lemma verify_write_cases:
  assumes "verify_write B rd key a s = (r, s')" "ok s" "vr_write_at rd = now"
  obtains (unchanged) "ok s'" "same_from now (seen s) (seen s')"
      "\<And>v. r = Some (Inr v) \<Longrightarrow> a = Answer (Inr v)"
    | (removed) raw v where "a = CompareAndDelete raw v" "r = Some (Inr v)" "ok s'"
        "seen s now key = Some raw" "seen s' now = (seen s now)(key := None)"
    | (counted) raw y where "a = CompareAndSwap raw y" "r = Some (Inr Attempted)" "ok s'"
        "seen s now key = Some raw" "seen s' now = (seen s now)(key := Some y)"
proof (cases a)
  case (Answer x1)
  then have "r = Some x1" "s' = s" using assms(1) by (auto simp: verify_write_def)
  then show thesis using assms(2) Answer by - (rule unchanged, auto)
next
  case (CompareAndDelete raw v)
  obtain b s1 where b: "bk_cad B (vr_write_ctx rd) now key raw s = (b, s1)" by fastforce
  show thesis
  proof (cases "b = Inr True")
    case True
    show thesis
      by (rule removed [of raw v])
        (use assms b True CompareAndDelete cad_done [OF assms(2) b [unfolded True], of now]
          in \<open>auto simp: verify_write_def\<close>)
  next
    case False
    show thesis
      by (rule unchanged) (use assms b False CompareAndDelete cad_refused [OF assms(2) b False]
          in \<open>auto simp: verify_write_def split: sum.splits if_splits\<close>)
  qed
next
  case (CompareAndSwap raw y)
  obtain b s1 where b: "bk_cas B (vr_write_ctx rd) now key raw y s = (b, s1)" by fastforce
  show thesis
  proof (cases "b = Inr True")
    case True
    note d = cas_done [OF assms(2) b [unfolded True]]
    then have "seen s1 now = (seen s now)(key := Some y)"
      by (auto dest!: same_fromD [of now _ _ now])
    then show thesis
      by (intro counted [of raw y]) (use assms b True CompareAndSwap d in \<open>auto simp: verify_write_def\<close>)
  next
    case False
    show thesis
      by (rule unchanged) (use assms b False CompareAndSwap cas_refused [OF assms(2) b False]
          in \<open>auto simp: verify_write_def split: sum.splits if_splits\<close>)
  qed
qed

lemma seen_tick: "t \<le> t' \<Longrightarrow> seen s t' k = seen s t k \<or> seen s t' k = None"
  by (metis option.exhaust seen_constant seen_expires)

lemma issue_effect:
  assumes "Issue B J ctx issued_at now key digest ttl s = (r, s')" "ok s"
    and codec: "\<And>r x. oj_marshal J r = Some x \<Longrightarrow> oj_unmarshal J x = Some r"
  obtains (failed) "r \<noteq> Inr ()" "ok s'" "seen s' now = seen s now"
    | (issued) held' x e where "r = Inr ()" "ok s'" "seen s' now = (seen s now)(key := held')"
        "held' = None \<or> held' = Some x \<and> oj_unmarshal J x = Some \<lparr>or_hash = digest, or_attempts = 0, or_expires_at = e\<rparr>"
proof (cases r)
  case (Inl e)
  have "ok s' \<and> same_from now (seen s) (seen s')"
  proof (cases ctx)
    case None
    then have "bk_set B (oj_marshal J \<lparr>or_hash = digest, or_attempts = 0, or_expires_at = issued_at + ttl\<rparr>)
        now key ttl s = (Inl e, s')"
      using assms(1) Inl by (simp add: Issue_def)
    from set_failed [OF assms(2) this] show ?thesis .
  qed (use assms(1,2) in \<open>simp add: Issue_def\<close>)
  then show thesis using failed Inl same_fromD [of now "seen s" "seen s'" now] by simp
next
  case (Inr u)
  let ?r = "\<lparr>or_hash = digest, or_attempts = 0, or_expires_at = issued_at + ttl\<rparr>"
  have set: "bk_set B (oj_marshal J ?r) now key ttl s = (Inr u, s')"
    using assms(1) Inr by (simp add: Issue_def split: option.splits)
  then obtain x where x: "oj_marshal J ?r = Some x"
    using set_encoded by (cases "oj_marshal J ?r") auto
  from set_done [OF assms(2) set [unfolded x]]
  have "ok s'" "seen s' now = (seen s now)(key := if 0 < ttl then Some x else None)"
    by (auto dest!: same_fromD [of now _ _ now])
  then show thesis
    using issued [of "if 0 < ttl then Some x else None" x "issued_at + ttl"] Inr codec [OF x] by simp
qed

lemma issue_books:
  assumes "Issue B J ctx issued_at now key digest ttl s = (r, s')" "ok s" "1 \<le> M"
    and codec: "\<And>r x. oj_marshal J r = Some x \<Longrightarrow> oj_unmarshal J x = Some r"
    and old: "\<And>k. key_books J M issued replies k (seen s now k)"
  shows "ok s' \<and> key_books J M ((if r = Inr () then [(key, digest)] else []) @ issued) replies k (seen s' now k)"
proof (rule issue_effect [OF assms(1,2) codec], assumption, goal_cases failed issued)
  case failed
  then show ?case using old by simp
next
  case issued: (issued held' x e)
  show ?case
  proof (cases "k = key")
    case True
    then show ?thesis using old [of key] issued assms(3) by (auto intro: books_issued)
  next
    case False
    then show ?thesis using old [of k] issued by (auto intro: books_issued_other)
  qed
qed

lemma write_books:
  assumes "verify_write B rd key a s = (r, s')" "ok s" "vr_write_at rd = now"
    and a: "action_ok J M submitted a" and old: "\<And>k. key_books J M issued replies k (seen s now k)"
  shows "ok s' \<and> key_books J M issued (answer_of key submitted r @ replies) k (seen s' now k)"
proof (rule verify_write_cases [OF assms(1-3)], goal_cases unchanged removed counted)
  case unchanged
  have "v = Invalid" if "r = Some (Inr v)" for v
    using unchanged(3) [OF that] a by (simp add: action_ok_def)
  then show ?case
    using unchanged same_fromD [OF unchanged(2)] old [of k]
      books_answer_other [of J M issued replies k _ key Invalid submitted]
    by (auto simp: answer_of_def split: option.splits sum.splits)
next
  case removed: (removed raw v)
  have lost: "key_books J M issued replies key None" by (rule books_lost [OF old])
  consider "k \<noteq> key" | "k = key" "v = Invalid"
    | q where "k = key" "v = Consumed" "oj_unmarshal J raw = Some q" "or_hash q = submitted"
    using a removed(1) by (cases v) (auto simp: action_ok_def)
  then show ?case
    using removed old [of k] lost books_consumed [of J M issued replies key raw]
    by cases (auto simp: answer_of_def intro: books_answer_other)
next
  case counted: (counted raw y)
  obtain q where "oj_unmarshal J raw = Some q" "or_attempts q + 1 < M"
      "oj_unmarshal J y = Some (q\<lparr>or_attempts := or_attempts q + 1\<rparr>)"
    using a counted(1) by (auto simp: action_ok_def)
  then show ?case
    using old [of k] counted
    by (cases "k = key") (auto simp: answer_of_def intro: books_missed books_answer_other)
qed

lemma pool_step_ok:
  assumes step: "pool_step B J M P P'" and ok: "pool_ok ok seen J M P" and M: "1 \<le> M"
    and codec: "\<And>r x. oj_marshal J r = Some x \<Longrightarrow> oj_unmarshal J x = Some r"
  shows "pool_ok ok seen J M P'"
proof -
  have s: "ok (pl_store P)"
    and old: "\<And>k. key_books J M (pl_issued P) (pl_answers P) k (seen (pl_store P) (pl_now P) k)"
    and acts: "\<And>p k d a. pl_requests P p = Writing k d a \<Longrightarrow> action_ok J M d a"
    using ok by (auto simp: pool_ok_def)
  show ?thesis using step
  proof cases
    case (clock now)
    have "key_books J M (pl_issued P) (pl_answers P) k (seen (pl_store P) now k)" for k
      using old [of k] seen_tick [OF clock(2), of "pl_store P" k] books_lost [OF old [of k]] by auto
    then show ?thesis using ok clock(1) by (simp add: pool_ok_def)
  next
    case (issue ctx issued_at key digest ttl r s')
    then show ?thesis
      using issue_books [OF issue(2) s M codec old] acts by (auto simp: pool_ok_def)
  next
    case (discard key r s')
    have "ok s'" "seen s' (pl_now P) = (seen (pl_store P) (pl_now P))(key := None)"
      using delete_done [OF s discard(2) [unfolded Onetime_Delete_def], of "pl_now P"] by auto
    then show ?thesis
      using ok discard(1) old books_lost [OF old] by (simp add: pool_ok_def)
  next
    case (submit p key submitted)
    then show ?thesis using ok by (auto simp: pool_ok_def)
  next
    case (fetch p key submitted rd a s')
    note r = verify_read_effect [OF fetch(4) s]
    have "seen s' (pl_now P) = seen (pl_store P) (pl_now P)"
      using same_fromD [OF r(2)] fetch(3) by simp
    then show ?thesis using ok fetch(1) r(1) r(3) codec by (auto simp: pool_ok_def)
  next
    case (store_back p key submitted a rd r s')
    then show ?thesis
      using write_books [OF store_back(4) s store_back(3) acts [OF store_back(2)] old] acts
      by (auto simp: pool_ok_def)
  qed
qed

theorem pool_books:
  assumes "(pool_step B J M)\<^sup>*\<^sup>* (fresh_pool now s) P" "ok s" "\<And>k. seen s now k = None" "1 \<le> M"
    and codec: "\<And>r x. oj_marshal J r = Some x \<Longrightarrow> oj_unmarshal J x = Some r"
  shows "pool_ok ok seen J M P"
  using assms(1)
proof (induction rule: rtranclp_induct)
  case base
  show ?case using assms(2-4) by (simp add: pool_ok_def fresh_pool_def key_books_def)
next
  case (step P P')
  then show ?case using pool_step_ok assms(4) codec by blast
qed

end

section \<open>One request at a time\<close>

definition quiet_round :: "verify_round \<Rightarrow> bool" where
  "quiet_round rd \<longleftrightarrow> vr_ctx rd = None \<and> vr_read_ctx rd = (None, None) \<and>
     vr_write_ctx rd = (None, None) \<and> vr_read_at rd \<le> vr_write_at rd"

definition verdict :: "onetime_json \<Rightarrow> int \<Rightarrow> string \<Rightarrow> int \<Rightarrow> string option \<Rightarrow> verify_result" where
  "verdict J now submitted M held =
     (case Option.bind held (oj_unmarshal J) of
        None \<Rightarrow> Invalid
      | Some r \<Rightarrow>
          if \<not> validRecord r \<or> or_expires_at r \<le> now \<or> M \<le> or_attempts r then Invalid
          else if or_hash r = submitted then Consumed
          else if M \<le> or_attempts r + 1 then Invalid else Attempted)"

text \<open>
  What the code relies on of \<open>encoding/json\<close>: what it encodes it decodes, and it is valid JSON.
\<close>

definition json_ok :: "onetime_json \<Rightarrow> (string \<Rightarrow> bool) \<Rightarrow> bool" where
  "json_ok J valid \<longleftrightarrow> (\<forall>r x. oj_marshal J r = Some x \<longrightarrow> oj_unmarshal J x = Some r \<and> valid x)"

definition undisturbed ::
  "('s \<Rightarrow> bool) \<Rightarrow> ('s \<Rightarrow> int \<Rightarrow> string \<Rightarrow> string option) \<Rightarrow> string \<Rightarrow> ('s \<Rightarrow> 's) \<Rightarrow> bool" where
  "undisturbed ok seen key others \<longleftrightarrow>
     (\<forall>s. ok s \<longrightarrow> ok (others s) \<and> (\<forall>t. seen (others s) t key = seen s t key))"

context json_backend
begin

lemma verify_read_quiet:
  assumes "quiet_round rd" "ok s"
  shows "fst (verify_read B J rd key d M s) =
    (case seen s (vr_read_at rd) key of
       None \<Rightarrow> Answer (Inr Invalid) | Some raw \<Rightarrow> verify_decide J (vr_decide_at rd) d M raw)"
proof -
  obtain r s' where g: "bk_get_raw B (None, None) (vr_read_at rd) key s = (r, s')" by fastforce
  then have "r = option_to_result Cache_ErrNotFound (seen s (vr_read_at rd) key)"
    using get_raw [OF assms(2) g] by blast
  then show ?thesis
    using g assms(1)
    by (auto simp: verify_read_def quiet_round_def option_to_result_def split: option.splits)
qed

lemma verify_write_quiet:
  assumes "quiet_round rd" "ok s"
  shows "fst (verify_write B rd key (CompareAndDelete raw v) s) =
      (if seen s (vr_write_at rd) key = Some raw then Some (Inr v) else None)"
    and "valid y \<Longrightarrow> fst (verify_write B rd key (CompareAndSwap raw y) s) =
      (if seen s (vr_write_at rd) key = Some raw then Some (Inr Attempted) else None)"
proof -
  obtain b s1 where b: "bk_cad B (None, None) (vr_write_at rd) key raw s = (b, s1)" by fastforce
  then show "fst (verify_write B rd key (CompareAndDelete raw v) s) =
      (if seen s (vr_write_at rd) key = Some raw then Some (Inr v) else None)"
    using cad_answers [OF assms(2), of "vr_write_at rd" key raw] assms(1)
    by (auto simp: verify_write_def quiet_round_def)
  obtain c s2 where c: "bk_cas B (None, None) (vr_write_at rd) key raw y s = (c, s2)" by fastforce
  then show "fst (verify_write B rd key (CompareAndSwap raw y) s) =
      (if seen s (vr_write_at rd) key = Some raw then Some (Inr Attempted) else None)" if "valid y"
    using cas_answers [OF assms(2) that, of "vr_write_at rd" key raw] assms(1)
    by (auto simp: verify_write_def quiet_round_def)
qed

lemma verify_decide_quiet:
  assumes "quiet_round rd" "ok s" "json_ok J valid"
  shows "fst (verify_write B rd key (verify_decide J now d M raw) s) \<noteq> None \<or>
    seen s (vr_write_at rd) key \<noteq> Some raw"
    and "(\<And>r. oj_marshal J r \<noteq> None) \<Longrightarrow> seen s (vr_write_at rd) key = Some raw \<Longrightarrow>
      fst (verify_write B rd key (verify_decide J now d M raw) s) =
        Some (Inr (verdict J now d M (Some raw)))"
proof -
  show "fst (verify_write B rd key (verify_decide J now d M raw) s) \<noteq> None \<or>
      seen s (vr_write_at rd) key \<noteq> Some raw"
    using assms(3) verify_write_quiet [OF assms(1,2)]
    by (auto simp: verify_decide_def json_ok_def Let_def verify_write_def [of _ _ _ "Answer _"]
        split: option.splits)
  show "fst (verify_write B rd key (verify_decide J now d M raw) s) =
        Some (Inr (verdict J now d M (Some raw)))"
    if total: "\<And>r. oj_marshal J r \<noteq> None" and held: "seen s (vr_write_at rd) key = Some raw"
  proof (cases "oj_unmarshal J raw")
    case (Some r)
    obtain y where "oj_marshal J (r\<lparr>or_attempts := or_attempts r + 1\<rparr>) = Some y"
      using total by blast
    then show ?thesis
      using assms(3) verify_write_quiet [OF assms(1,2)] held Some
      by (auto simp: verify_decide_def verdict_def json_ok_def)
  qed (use verify_write_quiet [OF assms(1,2)] held in \<open>simp add: verify_decide_def verdict_def\<close>)
qed

text \<open>
  One round is enough when the record stays as it was read until it is written back; a record that
  expires in between costs a second one.
\<close>

lemma verify_in_one_round:
  assumes q: "quiet_round rd" and s: "ok s"
    and o: "undisturbed ok seen key others" and v: "json_ok J valid"
  shows "fst (VerifyAndConsume B J ((rd, others) # rounds) key d M s) \<noteq> None \<or>
      seen s (vr_read_at rd) key \<noteq> seen s (vr_write_at rd) key"
    and "(\<And>r. oj_marshal J r \<noteq> None) \<Longrightarrow>
      seen s (vr_read_at rd) key = seen s (vr_write_at rd) key \<Longrightarrow>
      fst (VerifyAndConsume B J ((rd, others) # rounds) key d M s) =
        Some (Inr (verdict J (vr_decide_at rd) d M (seen s (vr_read_at rd) key)))"
proof -
  obtain a s1 where r: "verify_read B J rd key d M s = (a, s1)" by fastforce
  note e = verify_read_effect [OF r s]
  have o1: "ok (others s1)" "\<And>t. seen (others s1) t key = seen s1 t key"
    using o e(1) by (auto simp: undisturbed_def)
  have w: "seen (others s1) (vr_write_at rd) key = seen s (vr_write_at rd) key"
    using o1 same_fromD [OF e(2)] q by (simp add: quiet_round_def)
  obtain x s2 where wr: "verify_write B rd key a (others s1) = (x, s2)" by fastforce
  have run: "fst (VerifyAndConsume B J ((rd, others) # rounds) key d M s) = x" if "x \<noteq> None"
    using that r wr by auto
  have fin: "x \<noteq> None \<or> seen s (vr_read_at rd) key \<noteq> seen s (vr_write_at rd) key"
  proof (cases "seen s (vr_read_at rd) key")
    case None
    then show ?thesis using verify_read_quiet [OF q s, of J key d M] r wr by (auto simp: verify_write_def)
  next
    case (Some raw)
    then have "a = verify_decide J (vr_decide_at rd) d M raw"
      using verify_read_quiet [OF q s, of J key d M] r by simp
    then show ?thesis
      using verify_decide_quiet(1) [OF q o1(1) v, of key "vr_decide_at rd" d M raw]
        wr w Some by auto
  qed
  then show "fst (VerifyAndConsume B J ((rd, others) # rounds) key d M s) \<noteq> None \<or>
      seen s (vr_read_at rd) key \<noteq> seen s (vr_write_at rd) key"
    using run by auto
  show "fst (VerifyAndConsume B J ((rd, others) # rounds) key d M s) =
        Some (Inr (verdict J (vr_decide_at rd) d M (seen s (vr_read_at rd) key)))"
    if total: "\<And>r. oj_marshal J r \<noteq> None"
      and kept: "seen s (vr_read_at rd) key = seen s (vr_write_at rd) key"
  proof (cases "seen s (vr_read_at rd) key")
    case None
    then have "x = Some (Inr Invalid)"
      using verify_read_quiet [OF q s, of J key d M] r wr by (auto simp: verify_write_def)
    then show ?thesis using run None by (simp add: verdict_def)
  next
    case (Some raw)
    then have "a = verify_decide J (vr_decide_at rd) d M raw"
      using verify_read_quiet [OF q s, of J key d M] r by simp
    then have "x = Some (Inr (verdict J (vr_decide_at rd) d M (Some raw)))"
      using verify_decide_quiet(2) [OF q o1(1) v total, of key raw] wr w kept Some
      by (metis fst_conv)
    then show ?thesis using run Some by simp
  qed
qed

lemma verify_in_two_rounds:
  assumes q: "quiet_round rd1" "quiet_round rd2" "vr_write_at rd1 \<le> vr_read_at rd2" and s: "ok s"
    and o: "undisturbed ok seen key others1" "undisturbed ok seen key others2"
    and v: "json_ok J valid"
  shows "fst (VerifyAndConsume B J ((rd1, others1) # (rd2, others2) # rounds) key d M s) \<noteq> None"
proof (rule ccontr)
  assume c: "\<not> ?thesis"
  obtain a s1 where r: "verify_read B J rd1 key d M s = (a, s1)" by fastforce
  note e = verify_read_effect [OF r s]
  obtain x s2 where wr: "verify_write B rd1 key a (others1 s1) = (x, s2)" by fastforce
  have x: "x = None" using c r wr by (cases x) auto
  have "seen s (vr_read_at rd1) key \<noteq> seen s (vr_write_at rd1) key"
    using verify_in_one_round(1) [OF q(1) s o(1) v, of "(rd2, others2) # rounds" d M] c by blast
  then have gone: "seen s (vr_write_at rd1) key = None"
    using seen_tick [of "vr_read_at rd1" "vr_write_at rd1" s key] q(1) by (auto simp: quiet_round_def)
  have o1: "ok (others1 s1)" "\<And>t. seen (others1 s1) t key = seen s1 t key"
    using o(1) e(1) by (auto simp: undisturbed_def)
  then have "seen (others1 s1) (vr_write_at rd1) key = None"
    using same_fromD [OF e(2)] q(1) gone by (simp add: quiet_round_def)
  then have s2: "ok s2" "seen s2 (vr_write_at rd1) key = None"
    by (rule_tac verify_write_cases [OF wr o1(1) refl];
      auto simp: x dest: same_fromD [of _ _ _ "vr_write_at rd1"])+
  have none: "seen s2 t key = None" if "vr_write_at rd1 \<le> t" for t
    using seen_expires [OF s2(2) that] .
  have "fst (VerifyAndConsume B J ((rd2, others2) # rounds) key d M s2) \<noteq> None"
    using verify_in_one_round(1) [OF q(2) s2(1) o(2) v, of rounds d M] none [of "vr_read_at rd2"]
      none [of "vr_write_at rd2"] q(2,3) by (simp add: quiet_round_def)
  then show False using c r wr x by simp
qed

end

end
