(* ===== verification/Quota.thy ===== *)
theory Quota
  imports Backend "HOL-Library.Sublist"
begin

text \<open>
  The commands of the cache as one interface: they answer like a map whose entries expire, and no namespace ever holds
  more live entries than its quota, whatever the rest of the program does to the
  store.
\<close>

section \<open>Commands\<close>

text \<open>
  The operations of \<open>Store\<close> and \<open>Namespace\<close> on values that are stored as they are.
  A command goes to the store itself or to one of its namespaces.
\<close>

datatype store_op =
    OpGet string
  | OpSet string string int
  | OpDelete string
  | OpConsume string
  | OpSwap string string string
  | OpRemove string string

datatype store_reply = Found string | Missing | Stored | Refused cache_error | Compared bool

primrec op_key :: "store_op \<Rightarrow> string" where
  "op_key (OpGet k) = k"
| "op_key (OpSet k x ttl) = k"
| "op_key (OpDelete k) = k"
| "op_key (OpConsume k) = k"
| "op_key (OpSwap k x y) = k"
| "op_key (OpRemove k x) = k"

definition value_reply :: "cache_error + string \<Rightarrow> store_reply" where
  "value_reply r = (case r of Inr x \<Rightarrow> Found x
     | Inl e \<Rightarrow> if e = Cache_ErrNotFound then Missing else Refused e)"

definition unit_reply :: "cache_error + unit \<Rightarrow> store_reply" where
  "unit_reply r = (case r of Inr _ \<Rightarrow> Stored | Inl e \<Rightarrow> Refused e)"

definition bool_reply :: "cache_error + bool \<Rightarrow> store_reply" where
  "bool_reply r = (case r of Inr b \<Rightarrow> Compared b | Inl e \<Rightarrow> Refused e)"

primrec exec_plain :: "int \<Rightarrow> store_op \<Rightarrow> memory \<Rightarrow> store_reply \<times> memory" where
  "exec_plain now (OpGet k) s = apfst value_reply (Memory_Get Some None now k s)"
| "exec_plain now (OpSet k x ttl) s = apfst unit_reply (Memory_Set (Some x) now k ttl s)"
| "exec_plain now (OpDelete k) s = apfst unit_reply (Memory_Delete k s)"
| "exec_plain now (OpConsume k) s = apfst value_reply (Memory_AtomicConsume Some None now k s)"
| "exec_plain now (OpSwap k x y) s =
     apfst bool_reply (Memory_CompareAndSwapJSON (\<lambda>_. True) (None, None) now k x y s)"
| "exec_plain now (OpRemove k x) s =
     apfst bool_reply (Memory_CompareAndDeleteJSON (None, None) now k x s)"

primrec exec_in :: "namespace \<Rightarrow> int \<Rightarrow> store_op \<Rightarrow> memory \<Rightarrow> store_reply \<times> memory" where
  "exec_in N now (OpGet k) s = apfst value_reply (Namespace_Get Some N None now k s)"
| "exec_in N now (OpSet k x ttl) s = apfst unit_reply (Namespace_Set N (Some x) now k ttl s)"
| "exec_in N now (OpDelete k) s = apfst unit_reply (Namespace_Delete N k s)"
| "exec_in N now (OpConsume k) s = apfst value_reply (Namespace_AtomicConsume Some N now k s)"
| "exec_in N now (OpSwap k x y) s =
     apfst bool_reply (Namespace_CompareAndSwapJSON (\<lambda>_. True) N (None, None) now k x y s)"
| "exec_in N now (OpRemove k x) s =
     apfst bool_reply (Namespace_CompareAndDeleteJSON N (None, None) now k x s)"

datatype cache_command = Plain store_op | Within namespace store_op

primrec exec_command :: "int \<Rightarrow> cache_command \<Rightarrow> memory \<Rightarrow> store_reply \<times> memory" where
  "exec_command now (Plain cmd) s = exec_plain now cmd s"
| "exec_command now (Within N cmd) s = exec_in N now cmd s"

primrec command_key :: "cache_command \<Rightarrow> string" where
  "command_key (Plain cmd) = op_key cmd"
| "command_key (Within N cmd) = ns_prefix N @ op_key cmd"

section \<open>The specification\<close>

text \<open>
  What each operation does to the map a client sees.  Only an insertion may be refused.
\<close>

definition reply_of :: "string option \<Rightarrow> store_reply" where
  "reply_of r = (case r of None \<Rightarrow> Missing | Some x \<Rightarrow> Found x)"

primrec spec_op ::
  "int \<Rightarrow> store_op \<Rightarrow> string \<Rightarrow> (int \<Rightarrow> string \<Rightarrow> string option) \<Rightarrow>
     store_reply \<times> (int \<Rightarrow> string \<Rightarrow> string option)" where
  "spec_op now (OpGet _) k v = (reply_of (v now k), v)"
| "spec_op now (OpSet _ x ttl) k v =
     (Stored, \<lambda>t. (v t)(k := if t < now + ttl then Some x else None))"
| "spec_op now (OpDelete _) k v = (Stored, \<lambda>t. (v t)(k := None))"
| "spec_op now (OpConsume _) k v = (reply_of (v now k), \<lambda>t. (v t)(k := None))"
| "spec_op now (OpSwap _ x y) k v =
     (Compared (v now k = Some x),
      if v now k = Some x then \<lambda>t. (v t)(k := map_option (\<lambda>_. y) (v t k)) else v)"
| "spec_op now (OpRemove _ x) k v =
     (Compared (v now k = Some x), if v now k = Some x then \<lambda>t. (v t)(k := None) else v)"

primrec command_op :: "cache_command \<Rightarrow> store_op" where
  "command_op (Plain cmd) = cmd"
| "command_op (Within N cmd) = cmd"

definition usable :: "cache_command \<Rightarrow> bool" where
  "usable c \<longleftrightarrow> (case c of Plain _ \<Rightarrow> True | Within N _ \<Rightarrow> ns_valid N)"

lemma Memory_Set_cases:
  assumes "Memory_Set (Some x) now key ttl s = (r, s')" "mem_ok s"
  obtains (refused) "r = Inl Cache_ErrCapacity" "shrinks now s s'"
    | (written) sm where "r = Inr ()" "shrinks now s sm"
        "s' = put_item key \<lparr>mi_data = x, mi_expires = now + ttl\<rparr> sm"
  using assms shrinks_evict [OF assms(2)] shrinks_refl [OF assms(2)]
  by (auto simp: Memory_Set_def Let_def split: if_splits)

lemma mem_ok_forget: "mem_ok s \<Longrightarrow> mem_ok (forget_key k s)"
  by (simp add: cache_simps)

lemma Memory_Get_law:
  assumes "Memory_Get Some None now k s = (r, s')" "mem_ok s"
  shows "mem_ok s' \<and> same_from now (view s) (view s') \<and> value_reply r = reply_of (view s now k)"
proof (cases "live_item now k s")
  case None
  then show ?thesis
    using assms shrinks_same [OF shrinks_forget [OF assms(2) None]]
    by (auto simp: Memory_Get_def value_reply_def reply_of_def view_def)
qed (use assms in \<open>auto simp: Memory_Get_def value_reply_def reply_of_def view_def decoded_def\<close>)

lemma Memory_AtomicConsume_law:
  assumes "Memory_AtomicConsume Some None now k s = (r, s')" "mem_ok s"
  shows "mem_ok s' \<and> (\<forall>t. view s' t = (view s t)(k := None)) \<and>
    value_reply r = reply_of (view s now k)"
  using assms mem_ok_forget [OF assms(2), of k] view_forget [of k s]
  by (auto simp: Memory_AtomicConsume_def value_reply_def reply_of_def view_def decoded_def
      split: option.splits)

lemma Memory_CompareAndDeleteJSON_law:
  assumes "Memory_CompareAndDeleteJSON (None, None) now k x s = (r, s')" "mem_ok s"
  shows "mem_ok s' \<and> r = Inr (view s now k = Some x) \<and>
    same_from now (snd (spec_op now (OpRemove k x) k (view s))) (view s')"
proof (cases "live_item now k s")
  case None
  then show ?thesis
    using assms shrinks_same [OF shrinks_forget_expired [OF assms(2) None]]
    by (auto simp: Memory_CompareAndDeleteJSON_def with_context_def view_def [of s now])
next
  case (Some it)
  then show ?thesis
    using assms view_forget [of k s] mem_ok_forget [OF assms(2), of k]
    by (auto simp: Memory_CompareAndDeleteJSON_def with_context_def same_from_def view_def [of s now]
        split: if_splits)
qed

definition answers_like ::
  "int \<Rightarrow> store_op \<Rightarrow> string \<Rightarrow> store_reply \<Rightarrow> memory \<Rightarrow> memory \<Rightarrow> bool" where
  "answers_like now cmd k r s s' \<longleftrightarrow> mem_ok s' \<and>
     (r = fst (spec_op now cmd k (view s)) \<and> same_from now (snd (spec_op now cmd k (view s))) (view s') \<or>
      (\<exists>k x ttl e. cmd = OpSet k x ttl \<and> r = Refused e) \<and> same_from now (view s) (view s'))"

lemma exec_plain_like:
  assumes "exec_plain now cmd s = (r, s')" "mem_ok s"
  shows "answers_like now cmd (op_key cmd) r s s'"
proof (cases cmd)
  case (OpGet k)
  then obtain q where "Memory_Get Some None now k s = (q, s')" "r = value_reply q"
    using assms(1) by (auto simp: apfst_def map_prod_def split: prod.splits)
  with Memory_Get_law [OF this(1) assms(2)] OpGet show ?thesis by (simp add: answers_like_def)
next
  case (OpSet k x ttl)
  then obtain q where q: "Memory_Set (Some x) now k ttl s = (q, s')" "r = unit_reply q"
    using assms(1) by (auto simp: apfst_def map_prod_def split: prod.splits)
  from q(1) assms(2) show ?thesis
  proof (cases rule: Memory_Set_cases)
    case refused
    then show ?thesis
      using OpSet q(2) shrinks_same by (auto simp: answers_like_def unit_reply_def)
  next
    case (written sm)
    then show ?thesis
      using OpSet q(2) shrinks_same [OF written(2)]
      by (auto simp: answers_like_def unit_reply_def same_from_def view_put cache_simps)
  qed
next
  case (OpDelete k)
  then show ?thesis
    using assms mem_ok_forget [OF assms(2), of k] view_forget [of k s]
    by (auto simp: answers_like_def Memory_Delete_def unit_reply_def same_from_def)
next
  case (OpConsume k)
  then obtain q where "Memory_AtomicConsume Some None now k s = (q, s')" "r = value_reply q"
    using assms(1) by (auto simp: apfst_def map_prod_def split: prod.splits)
  with Memory_AtomicConsume_law [OF this(1) assms(2)] OpConsume
  show ?thesis by (simp add: answers_like_def same_from_def)
next
  case (OpSwap k x y)
  then obtain q where "Memory_CompareAndSwapJSON (\<lambda>_. True) (None, None) now k x y s = (q, s')"
      "r = bool_reply q"
    using assms(1) by (auto simp: apfst_def map_prod_def split: prod.splits)
  with CompareAndSwapJSON_law [OF this(1) assms(2)] OpSwap
  show ?thesis by (auto simp: answers_like_def bool_reply_def)
next
  case (OpRemove k x)
  then obtain q where "Memory_CompareAndDeleteJSON (None, None) now k x s = (q, s')" "r = bool_reply q"
    using assms(1) by (auto simp: apfst_def map_prod_def split: prod.splits)
  with Memory_CompareAndDeleteJSON_law [OF this(1) assms(2)] OpRemove
  show ?thesis by (auto simp: answers_like_def bool_reply_def)
qed

lemma exec_in_like:
  assumes "exec_in N now cmd s = (r, s')" "mem_ok s" "ns_valid N"
  shows "answers_like now cmd (ns_prefix N @ op_key cmd) r s s'"
proof (cases cmd)
  case (OpGet k)
  then have "exec_plain now (OpGet (ns_prefix N @ k)) s = (r, s')"
    using assms(1,3) by (simp add: Namespace_Get_def when_valid_def namespaceGet_def)
  from exec_plain_like [OF this assms(2)] show ?thesis using OpGet by (simp add: answers_like_def)
next
  case (OpSet k x ttl)
  then obtain q where q: "Namespace_Set N (Some x) now k ttl s = (q, s')" "r = unit_reply q"
    using assms(1) by (auto simp: apfst_def map_prod_def split: prod.splits)
  show ?thesis
  proof (cases "ttl \<le> 0")
    case True
    then show ?thesis
      using q assms(2,3) OpSet
      by (auto simp: Namespace_Set_def when_valid_def answers_like_def unit_reply_def)
  next
    case False
    then have "namespaceSet (ns_name N) (ns_prefix N) k (Some x) now ttl (ns_limit N) s = (q, s')"
      using q(1) assms(3) by (simp add: Namespace_Set_def when_valid_def)
    from namespaceSet_law [OF this assms(2)] show ?thesis
      using OpSet q(2) by (cases q) (auto simp: answers_like_def unit_reply_def)
  qed
next
  case (OpDelete k)
  then obtain q where "namespaceDelete (ns_name N) (ns_prefix N) k s = (q, s')" "r = unit_reply q"
    using assms(1,3) by (auto simp: Namespace_Delete_def when_valid_def apfst_def map_prod_def
        split: prod.splits)
  with namespaceDelete_law [OF this(1) assms(2)] OpDelete
  show ?thesis by (auto simp: answers_like_def unit_reply_def same_from_def)
next
  case (OpConsume k)
  then obtain q where "namespaceConsume Some now (ns_name N) (ns_prefix N) k s = (q, s')"
      "r = value_reply q"
    using assms(1,3) by (auto simp: Namespace_AtomicConsume_def when_valid_def apfst_def map_prod_def
        split: prod.splits)
  with namespaceConsume_law [OF this(1) assms(2)] OpConsume
  show ?thesis
    by (auto simp: answers_like_def same_from_def value_reply_def reply_of_def decoded_def
        split: option.splits)
next
  case (OpSwap k x y)
  then have "exec_plain now (OpSwap (ns_prefix N @ k) x y) s = (r, s')"
    using assms(1,3)
    by (simp add: Namespace_CompareAndSwapJSON_def when_valid_def namespaceCompareAndSwapJSON_def)
  from exec_plain_like [OF this assms(2)] show ?thesis using OpSwap by (simp add: answers_like_def)
next
  case (OpRemove k x)
  then obtain q where "namespaceCompareAndDeleteJSON (None, None) now (ns_name N) (ns_prefix N) k x s = (q, s')"
      "r = bool_reply q"
    using assms(1,3) by (auto simp: Namespace_CompareAndDeleteJSON_def when_valid_def apfst_def
        map_prod_def split: prod.splits)
  with namespaceCompareAndDeleteJSON_law [OF this(1) assms(2)] OpRemove
  show ?thesis by (auto simp: answers_like_def bool_reply_def same_from_def)
qed

section \<open>Quotas\<close>

text \<open>The entries under the prefix of a namespace are among its members, of which there are at most its limit.\<close>

definition quota_ok :: "namespace \<Rightarrow> memory \<Rightarrow> bool" where
  "quota_ok N s \<longleftrightarrow> mem_ok s \<and> int (length (members_of (ns_name N) s)) \<le> ns_limit N \<and>
     (\<forall>k it. item_of s k = Some it \<longrightarrow> prefix (ns_prefix N) k \<longrightarrow>
        map_of (members_of (ns_name N) s) k = Some (mi_expires it))"

lemma quota_okI:
  assumes "mem_ok s" "int (length (members_of (ns_name N) s)) \<le> ns_limit N"
    "\<And>k it. item_of s k = Some it \<Longrightarrow> prefix (ns_prefix N) k \<Longrightarrow>
        map_of (members_of (ns_name N) s) k = Some (mi_expires it)"
  shows "quota_ok N s"
  using assms by (simp add: quota_ok_def)

lemma quota_okD:
  assumes "quota_ok N s"
  shows "mem_ok s" "int (length (members_of (ns_name N) s)) \<le> ns_limit N"
    "item_of s k = Some it \<Longrightarrow> prefix (ns_prefix N) k \<Longrightarrow>
        map_of (members_of (ns_name N) s) k = Some (mi_expires it)"
  using assms by (simp_all add: quota_ok_def)

lemma length_delete: "int (length al) \<le> n \<Longrightarrow> int (length (AList.delete k al)) \<le> n"
  using AList.length_delete_le [of k al] by linarith

lemma length_update:
  "int (length (AList.update k v al)) =
     (if map_of al k = None then int (length al) + 1 else int (length al))"
  by (induction al) auto

named_theorems quota_intros \<open>steps that keep the quota of a namespace\<close>

lemma quota_drop_item [quota_intros]: "quota_ok N s \<Longrightarrow> quota_ok N (drop_item k s)"
  by (rule quota_okI) (auto simp: quota_ok_def cache_simps split: if_splits)

lemma quota_drop_member [quota_intros]:
  assumes "quota_ok N s" "name = ns_name N \<Longrightarrow> prefix (ns_prefix N) k \<Longrightarrow> item_of s k = None"
  shows "quota_ok N (drop_member name k s)"
  by (rule quota_okI) (use assms in \<open>auto simp: quota_ok_def cache_simps AList.delete_conv' intro: length_delete\<close>)

lemma quota_forget [quota_intros]: "quota_ok N s \<Longrightarrow> quota_ok N (forget_key k s)"
  by (rule quota_okI)
    (auto simp: quota_ok_def cache_simps AList.delete_conv' intro: length_delete split: if_splits)

lemma quota_drop_namespace [quota_intros]:
  "quota_ok N s \<Longrightarrow> members_of name s = [] \<Longrightarrow> quota_ok N (drop_namespace name s)"
  by (rule quota_okI) (auto simp: quota_ok_def cache_simps)

lemma quota_open [quota_intros]:
  assumes "quota_ok N s"
  shows "quota_ok N (open_namespace name s)"
proof (rule quota_okI)
  show "mem_ok (open_namespace name s)"
    using assms by (auto simp: open_namespace_def quota_ok_def cache_simps)
  have same: "members_of n (open_namespace name s) = members_of n s" for n
    by (auto simp: open_namespace_def cache_simps members_of_def put_members_def AList.update_conv')
  show "int (length (members_of (ns_name N) (open_namespace name s))) \<le> ns_limit N"
    using assms same by (simp add: quota_ok_def)
  show "map_of (members_of (ns_name N) (open_namespace name s)) k = Some (mi_expires it)"
    if "item_of (open_namespace name s) k = Some it" "prefix (ns_prefix N) k" for k it
    using assms same that by (simp add: quota_ok_def open_namespace_def cache_simps split: if_splits)
qed

lemma quota_release [quota_intros]: "quota_ok N s \<Longrightarrow> quota_ok N (release_namespace name s)"
  by (auto simp: release_namespace_def intro: quota_intros)

lemma quota_forget_expired [quota_intros]: "quota_ok N s \<Longrightarrow> quota_ok N (forget_expired k s)"
  by (auto simp: forget_expired_def intro: quota_intros)

lemma quota_put_other [quota_intros]:
  "quota_ok N s \<Longrightarrow> \<not> prefix (ns_prefix N) k \<Longrightarrow> quota_ok N (put_item k it s)"
  by (rule quota_okI) (auto simp: quota_ok_def cache_simps split: if_splits)

lemma quota_swap [quota_intros]:
  "quota_ok N s \<Longrightarrow> item_of s k = Some it \<Longrightarrow> quota_ok N (put_item k (it\<lparr>mi_data := y\<rparr>) s)"
  by (rule quota_okI) (auto simp: quota_ok_def cache_simps split: if_splits)

lemma quota_write:
  assumes "quota_ok N s" "map_of (members_of (ns_name N) s) k \<noteq> None \<or>
      int (length (members_of (ns_name N) s)) < ns_limit N"
  shows "quota_ok N (write_member (ns_name N) k x e s)"
  by (rule quota_okI)
    (use assms in \<open>auto simp: quota_ok_def write_member_def cache_simps AList.update_conv'
      length_update AList.distinct_update members_distinct split: if_splits\<close>)

lemma quota_write_other [quota_intros]:
  "quota_ok N s \<Longrightarrow> name \<noteq> ns_name N \<Longrightarrow> \<not> prefix (ns_prefix N) k \<Longrightarrow>
     quota_ok N (write_member name k x e s)"
  by (rule quota_okI)
    (auto simp: quota_ok_def write_member_def cache_simps AList.distinct_update members_distinct
      split: if_splits)

lemma quota_put_members_other [quota_intros]:
  "quota_ok N s \<Longrightarrow> name \<noteq> ns_name N \<Longrightarrow> distinct (map fst ms) \<Longrightarrow> quota_ok N (put_members name ms s)"
  by (rule quota_okI) (auto simp: quota_ok_def cache_simps)

lemma quota_evict [quota_intros]:
  assumes "quota_ok N s"
  shows "quota_ok N (evictExpired now s)"
  unfolding evictExpired_def
  by (rule fold_invariant [where Q = "\<lambda>_. True"]) (use assms in \<open>auto intro: quota_intros\<close>)

text \<open>
  The clean-up before a write drops a member of the namespace only together with its entry, since both
  carry the same expiry.
\<close>

lemma quota_prune_member:
  assumes "quota_ok N s"
    and "\<And>it. name = ns_name N \<Longrightarrow> prefix (ns_prefix N) k \<Longrightarrow> item_of s k = Some it \<Longrightarrow>
      mi_expires it = e"
  shows "quota_ok N (prune_member name now (k, e) s)"
proof -
  have *: "quota_ok N (drop_member name k (drop_item k s))"
    by (intro quota_intros assms(1)) (simp add: cache_simps)
  have swap: "drop_item k (drop_member name k s) = drop_member name k (drop_item k s)"
    by (simp add: drop_item_def drop_member_def put_members_def members_of_def)
  show ?thesis
    using assms * swap
    by (auto simp: prune_member_def split: option.splits intro: quota_drop_member)
qed

lemma quota_prune [quota_intros]:
  assumes "quota_ok N s"
  shows "quota_ok N (prune_members name now s)"
proof -
  have "quota_ok N (fold (prune_member name now) (members_of name s) s) \<and>
      shrinks now s (fold (prune_member name now) (members_of name s) s)"
  proof (rule fold_invariant [where Q = "\<lambda>p. p \<in> set (members_of name s)"])
    show "quota_ok N s \<and> shrinks now s s" using assms by (simp add: shrinks_refl quota_okD(1))
    fix p s'
    assume p: "p \<in> set (members_of name s)" and s': "quota_ok N s' \<and> shrinks now s s'"
    obtain k e where k: "p = (k, e)" by (cases p)
    have m: "map_of (members_of name s) k = Some e"
      using p k quota_okD(1) [OF assms] by (simp add: members_distinct)
    have "mi_expires it = e"
      if "name = ns_name N" "prefix (ns_prefix N) k" "item_of s' k = Some it" for it
    proof -
      have "item_of s k = Some it"
        by (rule shrinks_item [OF conjunct2 [OF s'], of k]) (use that(3) in auto)
      then show ?thesis using quota_okD(3) [OF assms _ that(2)] m that(1) by simp
    qed
    then have "quota_ok N (prune_member name now p s')"
      unfolding k by (rule quota_prune_member [OF conjunct1 [OF s']])
    then show "quota_ok N (prune_member name now p s') \<and> shrinks now s (prune_member name now p s')"
      using s' shrinks_prune_member [OF quota_okD(1)] shrinks_trans by blast
  qed simp
  then show ?thesis by (simp add: prune_members_def)
qed

lemma members_open: "members_of n (open_namespace name s) = members_of n s"
  by (auto simp: open_namespace_def cache_simps members_of_def put_members_def AList.update_conv')

lemma members_evict_length:
  assumes "mem_ok s"
  shows "length (members_of name (evictExpired now s)) \<le> length (members_of name s)"
proof -
  have "mem_ok (evictExpired now s) \<and> length (members_of name (evictExpired now s)) \<le> length (members_of name s)"
    unfolding evictExpired_def
  proof (rule fold_invariant [where Q = "\<lambda>_. True"])
    fix p s'
    assume "mem_ok s' \<and> length (members_of name s') \<le> length (members_of name s)"
    then show "mem_ok ((\<lambda>(key, it) s'. if \<not> now < mi_expires it then forget_key key s' else s') p s') \<and>
      length (members_of name ((\<lambda>(key, it) s'. if \<not> now < mi_expires it then forget_key key s' else s') p s'))
        \<le> length (members_of name s)"
      using AList.length_delete_le [of "fst p" "members_of name s'"]
      by (cases p) (auto simp: cache_simps intro: order_trans)
  qed (use assms in simp_all)
  then show ?thesis by simp
qed

lemma quota_namespaceSet:
  assumes set: "namespaceSet (ns_name N) (ns_prefix N) sfx (Some x) now ttl (ns_limit N) s = (r, s')"
    and ok: "quota_ok N s"
  shows "quota_ok N s'"
proof -
  define key where "key = ns_prefix N @ sfx"
  define s1 where "s1 = prune_members (ns_name N) now (open_namespace (ns_name N) s)"
  obtain r2 s2 where a: "admit_key (ns_name N) key now (ns_limit N) s1 = (r2, s2)" by fastforce
  have s1: "quota_ok N s1" unfolding s1_def by (intro quota_intros ok)
  note set = set [unfolded namespaceSet_def Let_def key_def [symmetric] s1_def [symmetric] a]
  from a quota_okD(1) [OF s1] show ?thesis
  proof (cases rule: admit_key_cases)
    case tracked
    then show ?thesis using set s1 quota_write by auto
  next
    case refused
    then show ?thesis using set s1 by simp
  next
    case (adopted it)
    have "quota_ok N s2"
      by (rule quota_okI) (use adopted quota_okD [OF s1] in \<open>auto simp: cache_simps
        AList.distinct_update members_distinct AList.update_conv' length_update\<close>)
    then show ?thesis
      using set adopted quota_write [of N s2 key]
      by (auto simp: cache_simps AList.update_conv')
  next
    case fresh
    have s2: "quota_ok N s2"
    proof -
      have "s2 = drop_member (ns_name N) key (drop_item key s1)"
        using fresh(2) by (simp add: drop_item_def drop_member_def put_members_def members_of_def)
      then show ?thesis by (auto intro!: quota_intros s1 simp: cache_simps)
    qed
    define s4 where "s4 = open_namespace (ns_name N) (evictExpired now s2)"
    have s4: "quota_ok N s4" unfolding s4_def by (intro quota_intros s2)
    have rel: "quota_ok N (release_namespace (ns_name N) s2)"
      "quota_ok N (release_namespace (ns_name N) s4)"
      by (intro quota_intros s2 s4)+
    consider "s' = release_namespace (ns_name N) s2" | "s' = release_namespace (ns_name N) s4"
      | "s' = write_member (ns_name N) key x (now + ttl) s2"
        "int (length (members_of (ns_name N) s2)) < ns_limit N"
      | "s' = write_member (ns_name N) key x (now + ttl) s4"
        "int (length (members_of (ns_name N) s2)) < ns_limit N"
      using set fresh(1) by (auto simp: Let_def s4_def split: if_splits)
    moreover have "length (members_of (ns_name N) s4) \<le> length (members_of (ns_name N) s2)"
      unfolding s4_def members_open by (rule members_evict_length [OF quota_okD(1) [OF s2]])
    ultimately show ?thesis
      using rel quota_write [OF s2, of key] quota_write [OF s4, of key] by cases auto
  qed
qed

text \<open>Another namespace, whose keys lie outside the prefix, does not disturb the members.\<close>

lemma quota_namespaceSet_other:
  assumes set: "namespaceSet name p sfx (Some x) now ttl limit s = (r, s')"
    and ok: "quota_ok N s" and other: "name \<noteq> ns_name N" "\<not> prefix (ns_prefix N) (p @ sfx)"
  shows "quota_ok N s'"
proof -
  define key where "key = p @ sfx"
  define s1 where "s1 = prune_members name now (open_namespace name s)"
  obtain r2 s2 where a: "admit_key name key now limit s1 = (r2, s2)" by fastforce
  have s1: "quota_ok N s1" unfolding s1_def by (intro quota_intros ok)
  note set = set [unfolded namespaceSet_def Let_def key_def [symmetric] s1_def [symmetric] a]
  have "quota_ok N s2"
    using a quota_okD(1) [OF s1]
  proof (cases rule: admit_key_cases)
    case (adopted it)
    then show ?thesis
      using s1 other quota_okD(1) [OF s1]
      by (auto intro!: quota_intros simp: AList.distinct_update members_distinct)
  qed (use s1 other in \<open>auto intro!: quota_intros\<close>)
  then have "quota_ok N (write_member name key x (now + ttl) s2)"
    "quota_ok N (write_member name key x (now + ttl) (open_namespace name (evictExpired now s2)))"
    "quota_ok N (release_namespace name s2)"
    "quota_ok N (release_namespace name (open_namespace name (evictExpired now s2)))" "quota_ok N s2"
    using other by (auto intro!: quota_intros simp: key_def)
  then show ?thesis using set by (auto simp: Let_def split: sum.splits if_splits)
qed

definition stays_outside :: "namespace \<Rightarrow> cache_command \<Rightarrow> bool" where
  "stays_outside N c \<longleftrightarrow> \<not> prefix (ns_prefix N) (command_key c) \<and>
     (case c of Plain _ \<Rightarrow> True | Within N' _ \<Rightarrow> ns_name N' \<noteq> ns_name N)"

text \<open>The removals of all operations.\<close>

lemma quota_namespaceDelete [quota_intros]:
  assumes "quota_ok N s"
  shows "quota_ok N (snd (namespaceDelete name p sfx s))"
proof -
  have "quota_ok N (drop_member name (p @ sfx) (drop_item (p @ sfx) s))"
    by (auto intro!: quota_intros assms simp: cache_simps)
  then show ?thesis
    using assms by (auto simp: namespaceDelete_def Let_def intro: quota_intros split: option.splits)
qed

lemma quota_namespaceConsume [quota_intros]:
  assumes "quota_ok N s"
  shows "quota_ok N (snd (namespaceConsume dec now name p sfx s))"
proof -
  have "quota_ok N (drop_member name (p @ sfx) (drop_item (p @ sfx) s))"
    by (auto intro!: quota_intros assms simp: cache_simps)
  then show ?thesis
    using quota_drop_item [OF assms, of "p @ sfx"]
    by (auto simp: namespaceConsume_def drop_known_member_def Let_def split: option.splits)
qed

lemma quota_compare [quota_intros]:
  assumes "quota_ok N s"
  shows "quota_ok N (snd (Memory_CompareAndSwapJSON valid (None, None) now k x y s))"
    and "quota_ok N (snd (Memory_CompareAndDeleteJSON (None, None) now k x s))"
    and "quota_ok N (snd (namespaceCompareAndDeleteJSON (None, None) now name p sfx x s))"
  using assms
  by (auto simp: Memory_CompareAndSwapJSON_def Memory_CompareAndDeleteJSON_def
      namespaceCompareAndDeleteJSON_def with_context_def Let_def live_item_def
      intro!: quota_intros split: option.splits if_splits)

lemma quota_Get [quota_intros]:
  assumes "quota_ok N s"
  shows "quota_ok N (snd (Memory_Get dec None now k s))"
    and "quota_ok N (snd (Memory_AtomicConsume dec' None now k s))"
  using assms by (auto simp: Memory_Get_def Memory_AtomicConsume_def intro!: quota_intros split: option.splits)

lemma quota_exec_plain:
  assumes "quota_ok N s" "\<not> prefix (ns_prefix N) (op_key cmd)"
  shows "quota_ok N (snd (exec_plain now cmd s))"
  using assms
  by (cases cmd) (auto simp: Memory_Set_def Memory_Delete_def Let_def intro!: quota_intros)

lemma quota_exec_in:
  assumes "quota_ok N s"
    and "N' = N \<or> ns_name N' \<noteq> ns_name N \<and> \<not> prefix (ns_prefix N) (ns_prefix N' @ op_key cmd)"
  shows "quota_ok N (snd (exec_in N' now cmd s))"
proof (cases "ns_valid N'")
  case False
  then show ?thesis
    using assms(1) by (cases cmd) (simp_all add: when_valid_def Namespace_Get_def Namespace_Set_def
        Namespace_Delete_def Namespace_AtomicConsume_def Namespace_CompareAndSwapJSON_def
        Namespace_CompareAndDeleteJSON_def)
next
  case True
  show ?thesis
  proof (cases cmd)
    case (OpSet k x ttl)
    obtain r s' where "namespaceSet (ns_name N') (ns_prefix N') k (Some x) now ttl (ns_limit N') s = (r, s')"
      by fastforce
    then show ?thesis
      using assms True OpSet quota_namespaceSet quota_namespaceSet_other
      by (auto simp: Namespace_Set_def when_valid_def)
  qed (use assms True in \<open>simp_all add: when_valid_def Namespace_Get_def namespaceGet_def
      Namespace_Delete_def Namespace_AtomicConsume_def Namespace_CompareAndSwapJSON_def
      namespaceCompareAndSwapJSON_def Namespace_CompareAndDeleteJSON_def quota_intros\<close>)
qed

lemma quota_exec_command:
  "quota_ok N s \<Longrightarrow> (case c of Within N' _ \<Rightarrow> N' = N | Plain _ \<Rightarrow> False) \<or> stays_outside N c \<Longrightarrow>
     quota_ok N (snd (exec_command now c s))"
  by (cases c) (auto simp: stays_outside_def intro!: quota_exec_plain quota_exec_in)

definition live_under :: "namespace \<Rightarrow> int \<Rightarrow> memory \<Rightarrow> string set" where
  "live_under N t s = {k. prefix (ns_prefix N) k \<and> view s t k \<noteq> None}"

lemma live_under_quota:
  assumes "quota_ok N s"
  shows "finite (live_under N t s) \<and> int (card (live_under N t s)) \<le> ns_limit N"
proof -
  have sub: "live_under N t s \<subseteq> fst ` set (members_of (ns_name N) s)"
  proof
    fix k assume "k \<in> live_under N t s"
    then obtain it where "item_of s k = Some it" "prefix (ns_prefix N) k"
      by (auto simp: live_under_def view_def live_item_def split: option.splits)
    with quota_okD(3) [OF assms this] show "k \<in> fst ` set (members_of (ns_name N) s)"
      by (metis domI dom_map_of_conv_image_fst)
  qed
  have "card (fst ` set (members_of (ns_name N) s)) \<le> length (members_of (ns_name N) s)"
    by (metis card_length set_map length_map)
  then show ?thesis
    using finite_subset [OF sub] card_mono [OF _ sub] quota_okD(2) [OF assms] by auto
qed

text \<open>A history of commands, each at its instant.\<close>

definition run_commands :: "(int \<times> cache_command) list \<Rightarrow> memory \<Rightarrow> memory" where
  "run_commands cs s = fold (\<lambda>(now, c) s'. snd (exec_command now c s')) cs s"

lemma quota_run:
  assumes "quota_ok N s"
    and "\<And>now c. (now, c) \<in> set cs \<Longrightarrow> (\<exists>cmd. c = Within N cmd) \<or> stays_outside N c"
  shows "quota_ok N (run_commands cs s)"
  unfolding run_commands_def
proof (rule fold_invariant [where Q = "\<lambda>p. p \<in> set cs"])
  fix p s' assume p: "p \<in> set cs" and s': "quota_ok N s'"
  obtain now c where "p = (now, c)" by (cases p)
  moreover from this p have "(\<exists>cmd. c = Within N cmd) \<or> stays_outside N c"
    using assms(2) [of now c] by simp
  then have "quota_ok N (snd (exec_command now c s'))"
    by (intro quota_exec_command [OF s']) auto
  ultimately show "quota_ok N ((\<lambda>(now, c) s'. snd (exec_command now c s')) p s')"
    by simp
qed (use assms in simp_all)

end
