(* ===== verification/Cache_Props.thy ===== *)
theory Cache_Props
  imports Onetime Quota
begin

text \<open>
  What the cache and the one-time credentials promise, over the namespaces of the memory store.
\<close>

section \<open>The store\<close>

text \<open>
  C11: Every command on the cache, to the store itself or to one of its namespaces, answers as
  the map of unexpired entries does and leaves that map as the command says, from the instant of the command
  on.  Evictions, capacities and quotas show only as an insertion that is refused and changes
  nothing.
\<close>

theorem cache_answers_like_a_map:
  assumes "mem_ok s" "usable c" "exec_command now c s = (r, s')"
  shows "mem_ok s' \<and>
    (r = fst (spec_op now (command_op c) (command_key c) (view s)) \<and>
       (\<forall>t \<ge> now. view s' t = snd (spec_op now (command_op c) (command_key c) (view s)) t) \<or>
     (\<exists>k x ttl e. command_op c = OpSet k x ttl \<and> r = Refused e) \<and> (\<forall>t \<ge> now. view s' t = view s t))"
proof -
  have "answers_like now (command_op c) (command_key c) r s s'"
    using assms exec_plain_like [of now _ s r s'] exec_in_like [of _ now _ s r s']
    by (cases c) (simp_all add: usable_def)
  then show ?thesis by (auto simp: answers_like_def same_from_def)
qed

text \<open>A store of two entries at most, of which one has expired.\<close>

definition small_store :: memory where
  "small_store = run_commands
     [(0, Within widget_auth_code_ns (OpSet ''a'' ''A'' 10)), (1, Plain (OpSet ''b'' ''B'' 100))]
     (NewMemory 2)"

lemma small_store_ok: "mem_ok small_store"
  by code_simp

theorem cache_answers_like_a_map_witness:
  "(let (r, s') = exec_command 20 (Within widget_auth_code_ns (OpSet ''c'' ''C'' 5)) small_store
    in r = Stored \<and> view s' 24 ''authcode:c'' = Some ''C'' \<and> view s' 24 ''b'' = Some ''B'')"
proof -
  let ?c = "Within widget_auth_code_ns (OpSet ''c'' ''C'' 5)"
  obtain r s' where e: "exec_command 20 ?c small_store = (r, s')" by fastforce
  have u: "usable ?c" by code_simp
  have k: "command_key ?c = ''authcode:c''" by code_simp
  have "fst (exec_command 20 ?c small_store) = Stored" by code_simp
  then have r: "r = Stored" by (simp only: e fst_conv)
  have b: "view small_store 24 ''b'' = Some ''B''" by code_simp
  show ?thesis
    using cache_answers_like_a_map [OF small_store_ok u e, unfolded k] r b
    by (simp only: e) auto
qed

text \<open>
  C10: A namespace never holds more live entries than its limit.  This survives any sequence of its own
  operations and of operations of the rest of the program outside its prefix, starting from an empty store,
  at any instants, and whatever its members are when they expire.
\<close>

theorem namespace_within_quota:
  assumes "NewNamespaceChecked name pre limit = Inr N"
    and "\<forall>(now, c) \<in> set cs. (\<exists>cmd. c = Within N cmd) \<or> stays_outside N c"
  shows "finite (live_under N t (run_commands cs (NewMemory capacity))) \<and>
    int (card (live_under N t (run_commands cs (NewMemory capacity)))) \<le> limit"
proof -
  have N: "ns_limit N = limit" "0 < limit"
    using assms(1) by (auto simp: NewNamespaceChecked_def split: if_splits)
  have "quota_ok N (NewMemory capacity)"
    using N by (simp add: quota_ok_def mem_ok_def NewMemory_def members_of_def)
  from quota_run [OF this, of cs] have "quota_ok N (run_commands cs (NewMemory capacity))"
    using assms(2) by fastforce
  from live_under_quota [OF this] N show ?thesis by simp
qed

theorem namespace_within_quota_witness:
  "\<exists>N. NewNamespaceChecked ''codes'' ''c:'' 1 = Inr N \<and>
     int (card (live_under N 5 (run_commands
       [(0, Within N (OpSet ''a'' ''A'' 10)), (1, Plain (OpSet ''b'' ''B'' 100)),
        (2, Within N (OpSet ''x'' ''X'' 10))] (NewMemory 100)))) \<le> 1"
proof -
  define N where "N = \<lparr>ns_name = ''codes'', ns_prefix = ''c:'', ns_limit = 1\<rparr>"
  have n: "NewNamespaceChecked ''codes'' ''c:'' 1 = Inr N"
    unfolding N_def by code_simp
  show ?thesis
    using n namespace_within_quota [OF n, of "[(0, Within N (OpSet ''a'' ''A'' 10)),
        (1, Plain (OpSet ''b'' ''B'' 100)), (2, Within N (OpSet ''x'' ''X'' 10))]"]
    by (auto simp: stays_outside_def N_def)
qed

section \<open>One-time credentials\<close>

text \<open>
  C9: However requests interleave on one namespace, a credential is spent at most as often
  as it has been issued, only by a request that submitted a digest issued for it, and the number of failed
  attempts that a credential tolerates is one less than the maximum.
\<close>

theorem credential_spent_once:
  assumes "ns_valid N" "mem_ok s" "\<forall>k. view s now (ns_prefix N @ k) = None"
    and "json_ok J valid" "1 \<le> M"
    and "(pool_step (namespace_backend valid N) J M)\<^sup>*\<^sup>* (fresh_pool now s) P"
  shows "answers key Consumed P \<le> issues key P \<and>
    (\<forall>d. (key, d, Consumed) \<in> set (pl_answers P) \<longrightarrow> (key, d) \<in> set (pl_issued P)) \<and>
    int (answers key Attempted P) \<le> (M - 1) * int (issues key P)"
proof -
  note N = namespace_is_backend [OF assms(1), of valid]
  have "pool_ok mem_ok (view_under (ns_prefix N)) J M P"
    by (rule json_backend.pool_books [OF N assms(6,2)])
      (use assms(3-5) in \<open>auto simp: view_under_def json_ok_def\<close>)
  then have b: "key_books J M (pl_issued P) (pl_answers P) key
      (view_under (ns_prefix N) (pl_store P) (pl_now P) key)"
    by (simp add: pool_ok_def)
  have "key_books J M (pl_issued P) (pl_answers P) key None" by (rule books_lost [OF b])
  then show ?thesis by (auto simp: key_books_def answers_def issues_def Let_def)
qed

text \<open>
  A codec for the examples: the two numbers in unary, the digest last.
\<close>

definition unary :: "int \<Rightarrow> string" where
  "unary n = (if n < 0 then ''-'' else ''+'') @ replicate (nat \<bar>n\<bar>) CHR ''1'' @ '';''"

definition read_unary :: "string \<Rightarrow> int \<times> string" where
  "read_unary x = (case x of [] \<Rightarrow> (0, []) | c # cs \<Rightarrow>
     (let n = int (length (takeWhile (\<lambda>c. c = CHR ''1'') cs))
      in (if c = CHR ''-'' then - n else n, drop 1 (dropWhile (\<lambda>c. c = CHR ''1'') cs))))"

lemma read_unary: "read_unary (unary n @ x) = (n, x)"
proof -
  have "takeWhile (\<lambda>c. c = CHR ''1'') (replicate k CHR ''1'' @ CHR '';'' # x) = replicate k CHR ''1''"
    "dropWhile (\<lambda>c. c = CHR ''1'') (replicate k CHR ''1'' @ CHR '';'' # x) = CHR '';'' # x" for k
    by (induction k) auto
  then show ?thesis by (simp add: read_unary_def unary_def)
qed

definition sample_json :: onetime_json where
  "sample_json = \<lparr>
     oj_marshal = (\<lambda>r. Some (unary (or_attempts r) @ unary (or_expires_at r) @ or_hash r)),
     oj_unmarshal = (\<lambda>x. let (a, y) = read_unary x; (e, h) = read_unary y
        in Some \<lparr>or_hash = h, or_attempts = a, or_expires_at = e\<rparr>)\<rparr>"

lemma sample_json_ok: "json_ok sample_json (\<lambda>_. True)"
  by (auto simp: json_ok_def sample_json_def read_unary)

text \<open>Two requests race for the same code; the second finds it gone.\<close>

abbreviation "sample_codes \<equiv> namespace_backend (\<lambda>_. True) email_code_login_ns"

definition round_at :: "int \<Rightarrow> verify_round" where
  "round_at t = \<lparr>vr_ctx = None, vr_read_ctx = (None, None), vr_write_ctx = (None, None),
     vr_read_at = t, vr_decide_at = t, vr_write_at = t\<rparr>"

definition race_issue :: "memory pool" where
  "race_issue = (let P = fresh_pool 1 (NewMemory 10)
     in P\<lparr>pl_store := snd (Issue sample_codes sample_json None 1 1 ''ann'' ''h'' 5 (pl_store P)),
          pl_issued := [(''ann'', ''h'')]\<rparr>)"

definition race_submit :: "nat \<Rightarrow> memory pool \<Rightarrow> memory pool" where
  "race_submit p P = P\<lparr>pl_requests := (pl_requests P)(p := Reading ''ann'' ''h'')\<rparr>"

definition race_read :: "nat \<Rightarrow> memory pool \<Rightarrow> memory pool" where
  "race_read p P = (let (a, s) = verify_read sample_codes sample_json (round_at (pl_now P)) ''ann'' ''h'' 3 (pl_store P)
     in P\<lparr>pl_store := s, pl_requests := (pl_requests P)(p := Writing ''ann'' ''h'' a)\<rparr>)"

definition race_write :: "nat \<Rightarrow> verify_action \<Rightarrow> memory pool \<Rightarrow> memory pool" where
  "race_write p a P = (let (r, s) = verify_write sample_codes (round_at (pl_now P)) ''ann'' a (pl_store P)
     in P\<lparr>pl_store := s,
          pl_requests := (pl_requests P)(p := (if r = None then Reading ''ann'' ''h'' else Resting)),
          pl_answers := answer_of ''ann'' ''h'' r @ pl_answers P\<rparr>)"

definition race_action :: verify_action where
  "race_action = CompareAndDelete (unary 0 @ unary 6 @ ''h'') Consumed"

definition race_end :: "memory pool" where
  "race_end = race_write 1 race_action (race_write 0 race_action
     (race_read 1 (race_read 0 (race_submit 1 (race_submit 0 race_issue)))))"

lemma race_steps:
  "pl_requests P p = Resting \<Longrightarrow> pool_step sample_codes sample_json 3 P (race_submit p P)"
  "pl_requests P p = Reading ''ann'' ''h'' \<Longrightarrow> pool_step sample_codes sample_json 3 P (race_read p P)"
  "pl_requests P p = Writing ''ann'' ''h'' a \<Longrightarrow> pool_step sample_codes sample_json 3 P (race_write p a P)"
proof -
  show "pl_requests P p = Resting \<Longrightarrow> pool_step sample_codes sample_json 3 P (race_submit p P)"
    by (simp add: race_submit_def pool_step.submit)
  show "pool_step sample_codes sample_json 3 P (race_read p P)"
    if "pl_requests P p = Reading ''ann'' ''h''"
    unfolding race_read_def case_prod_unfold Let_def
    by (rule pool_step.fetch [OF that _ surjective_pairing]) (simp add: round_at_def)
  show "pool_step sample_codes sample_json 3 P (race_write p a P)"
    if "pl_requests P p = Writing ''ann'' ''h'' a"
    unfolding race_write_def case_prod_unfold Let_def
    by (rule pool_step.store_back [OF that _ surjective_pairing]) (simp add: round_at_def)
qed

lemma race_reachable:
  "(pool_step sample_codes sample_json 3)\<^sup>*\<^sup>* (fresh_pool 1 (NewMemory 10)) race_end"
proof -
  let ?I = "Issue sample_codes sample_json None 1 1 ''ann'' ''h'' 5 (NewMemory 10)"
  have "fst ?I = Inr ()" by code_simp
  then have "?I = (Inr (), snd ?I)" by (metis prod.collapse)
  then have "pool_step sample_codes sample_json 3 (fresh_pool 1 (NewMemory 10)) race_issue"
    using pool_step.issue [of sample_codes sample_json None 1 "fresh_pool 1 (NewMemory 10)"
        "''ann''" "''h''" 5 "Inr ()" "snd ?I"]
    by (simp add: race_issue_def fresh_pool_def)
  then have issue: "(pool_step sample_codes sample_json 3)\<^sup>*\<^sup>* (fresh_pool 1 (NewMemory 10)) race_issue"
    by (rule r_into_rtranclp)
  have at: "pl_requests race_issue 0 = Resting" "pl_requests (race_submit 0 race_issue) 1 = Resting"
    "pl_requests (race_submit 1 (race_submit 0 race_issue)) 0 = Reading ''ann'' ''h''"
    "pl_requests (race_read 0 (race_submit 1 (race_submit 0 race_issue))) 1 = Reading ''ann'' ''h''"
    "pl_requests (race_read 1 (race_read 0 (race_submit 1 (race_submit 0 race_issue)))) 0 =
       Writing ''ann'' ''h'' race_action"
    "pl_requests (race_write 0 race_action (race_read 1 (race_read 0 (race_submit 1 (race_submit 0 race_issue))))) 1 =
       Writing ''ann'' ''h'' race_action"
    by code_simp+
  note more = rtranclp.rtrancl_into_rtrancl
  show ?thesis
    unfolding race_end_def
    by (rule more [OF more [OF more [OF more [OF more [OF more [OF issue
      race_steps(1) [OF at(1)]] race_steps(1) [OF at(2)]] race_steps(2) [OF at(3)]]
      race_steps(2) [OF at(4)]] race_steps(3) [OF at(5)]] race_steps(3) [OF at(6)]])
qed

theorem credential_spent_once_witness:
  "\<exists>P. (pool_step sample_codes sample_json 3)\<^sup>*\<^sup>* (fresh_pool 1 (NewMemory 10)) P \<and>
     pl_answers P = [(''ann'', ''h'', Consumed)] \<and> answers ''ann'' Consumed P \<le> 1"
proof -
  have N: "ns_valid email_code_login_ns" by (simp add: ns_valid_def email_code_login_ns_def)
  have s: "mem_ok (NewMemory 10)" by code_simp
  have e: "\<forall>k. view (NewMemory 10) 1 (ns_prefix email_code_login_ns @ k) = None"
    by (simp add: view_def live_item_def NewMemory_def)
  have a: "pl_answers race_end = [(''ann'', ''h'', Consumed)]" by code_simp
  have i: "issues ''ann'' race_end = 1" by code_simp
  show ?thesis
    using credential_spent_once [OF N s e sample_json_ok _ race_reachable, of "''ann''"] race_reachable a i
    by auto
qed

text \<open>
  A verification that no other request disturbs gives the verdict on the record it finds: spent for the
  right digest, counted for a wrong one while attempts remain, and invalid otherwise.
\<close>

lemma verification_gives_verdict:
  assumes "ns_valid N" "mem_ok s" "json_ok J valid" "\<forall>r. oj_marshal J r \<noteq> None"
    and "quiet_round rd" "undisturbed mem_ok (view_under (ns_prefix N)) key others"
    and "view s (vr_read_at rd) (ns_prefix N @ key) = view s (vr_write_at rd) (ns_prefix N @ key)"
  shows "fst (VerifyAndConsume (namespace_backend valid N) J ((rd, others) # rounds) key d M s) =
    Some (Inr (verdict J (vr_decide_at rd) d M (view s (vr_read_at rd) (ns_prefix N @ key))))"
  using json_backend.verify_in_one_round(2) [OF namespace_is_backend [OF assms(1)]
      assms(5,2,6,3), of rounds d M] assms(4,7)
  by (simp add: view_under_def)

theorem verification_gives_verdict_witness:
  "(let s = snd (Issue sample_codes sample_json None 1 1 ''ann'' ''h'' 5 (NewMemory 10))
    in fst (VerifyAndConsume sample_codes sample_json [(round_at 3, id)] ''ann'' ''wrong'' 3 s) =
         Some (Inr Attempted))"
proof -
  let ?s = "snd (Issue sample_codes sample_json None 1 1 ''ann'' ''h'' 5 (NewMemory 10))"
  have N: "ns_valid email_code_login_ns" by (simp add: ns_valid_def email_code_login_ns_def)
  have s: "mem_ok ?s" by code_simp
  have t: "\<forall>r. oj_marshal sample_json r \<noteq> None" by (simp add: sample_json_def)
  have q: "quiet_round (round_at 3)" by (simp add: quiet_round_def round_at_def)
  have u: "undisturbed mem_ok (view_under (ns_prefix email_code_login_ns)) ''ann'' id"
    by (simp add: undisturbed_def)
  have k: "view ?s (vr_read_at (round_at 3)) (ns_prefix email_code_login_ns @ ''ann'') =
      view ?s (vr_write_at (round_at 3)) (ns_prefix email_code_login_ns @ ''ann'')"
    by (simp add: round_at_def)
  have v: "verdict sample_json (vr_decide_at (round_at 3)) ''wrong'' 3
      (view ?s (vr_read_at (round_at 3)) (ns_prefix email_code_login_ns @ ''ann'')) = Attempted"
    by code_simp
  show ?thesis
    using verification_gives_verdict [OF N s sample_json_ok t q u k, of "[]" "''wrong''" 3] v
    by (simp add: Let_def)
qed

text \<open>
  C12: The verification loop ends.  Without interference it takes at most two rounds, whatever the clock
  does between them: a record that is still there when it is written back ends the first round, and one that
  expired meanwhile is missing in the second.
\<close>

theorem verification_ends:
  assumes "ns_valid N" "mem_ok s" "json_ok J valid"
    and "quiet_round rd1" "quiet_round rd2" "vr_write_at rd1 \<le> vr_read_at rd2"
    and "undisturbed mem_ok (view_under (ns_prefix N)) key others1"
    and "undisturbed mem_ok (view_under (ns_prefix N)) key others2"
  shows "\<exists>r. fst (VerifyAndConsume (namespace_backend valid N) J
    ((rd1, others1) # (rd2, others2) # rounds) key d M s) = Some r"
  using json_backend.verify_in_two_rounds [OF namespace_is_backend [OF assms(1)]
      assms(4,5,6,2,7,8,3), of rounds d M]
  by blast

text \<open>The record expires between the read and the write of the first round.\<close>

theorem verification_ends_witness:
  "(let s = snd (Issue sample_codes sample_json None 1 1 ''ann'' ''h'' 5 (NewMemory 10));
        rd = (round_at 3)\<lparr>vr_write_at := 20\<rparr>
    in fst (VerifyAndConsume sample_codes sample_json [(rd, id)] ''ann'' ''h'' 3 s) = None \<and>
       fst (VerifyAndConsume sample_codes sample_json [(rd, id), (round_at 21, id)] ''ann'' ''h'' 3 s) \<noteq> None)"
proof -
  let ?s = "snd (Issue sample_codes sample_json None 1 1 ''ann'' ''h'' 5 (NewMemory 10))"
  let ?rd = "(round_at 3)\<lparr>vr_write_at := 20\<rparr>"
  have N: "ns_valid email_code_login_ns" by (simp add: ns_valid_def email_code_login_ns_def)
  have s: "mem_ok ?s" by code_simp
  have q: "quiet_round ?rd" "quiet_round (round_at 21)" "vr_write_at ?rd \<le> vr_read_at (round_at 21)"
    by (simp_all add: quiet_round_def round_at_def)
  have u: "undisturbed mem_ok (view_under (ns_prefix email_code_login_ns)) ''ann'' id"
    by (simp add: undisturbed_def)
  have "fst (VerifyAndConsume sample_codes sample_json [(?rd, id)] ''ann'' ''h'' 3 ?s) = None"
    by code_simp
  then show ?thesis
    using verification_ends [OF N s sample_json_ok q u u, of "[]" "''h''" 3] by (auto simp: Let_def)
qed

end
