(* ===== verification/Store.thy ===== *)
theory Store
  imports Domain
begin

text \<open>
  The relational schema (\<open>migrations/\<close>, \<open>internal/repository/model/model.go\<close>) as one
  record of tables, and the way the database enforces it: a statement whose result would break a
  \<open>CHECK\<close>, \<open>UNIQUE\<close> or foreign key constraint is refused and writes nothing; a deletion
  cascades along \<open>ON DELETE CASCADE\<close> and clears along \<open>ON DELETE SET NULL\<close>.
  Rows are kept in primary-key order; keys come from the table's counter (\<open>AUTOINCREMENT\<close>).
  \<open>db_clock\<close> is the instant GORM stamps on \<open>updated_at\<close> (\<open>autoUpdateTime\<close>).
\<close>

section \<open>Tables\<close>

text \<open>
  The tables that belong to the accounts: credentials, external identities, notification
  preferences, and the row that records the first administrator.
\<close>

record bootstrap_state =
  bs_initialized_at :: int
  bs_admin_user_id :: int

record accounts =
  ac_passkeys :: "passkey_credential list"
  ac_identities :: "external_identity list"
  ac_prefs :: "notification_preferences list"
  ac_bootstrap :: "bootstrap_state option"
  ac_next_passkey :: int
  ac_next_identity :: int
  ac_next_pref :: int

definition no_accounts :: accounts where
  "no_accounts = \<lparr>ac_passkeys = [], ac_identities = [], ac_prefs = [], ac_bootstrap = None,
     ac_next_passkey = 1, ac_next_identity = 1, ac_next_pref = 1\<rparr>"

record db =
  db_users :: "user list"
  db_sites :: "site list"
  db_origins :: "origin list"
  db_threads :: "thread list"
  db_comments :: "comment list"
  db_likes :: "comment_like list"
  db_next_user :: int
  db_next_site :: int
  db_next_origin :: int
  db_next_thread :: int
  db_next_comment :: int
  db_next_like :: int
  db_clock :: int
  db_accounts :: accounts

definition empty_db :: db where
  "empty_db = \<lparr>db_users = [], db_sites = [], db_origins = [], db_threads = [], db_comments = [],
     db_likes = [], db_next_user = 1, db_next_site = 1, db_next_origin = 1, db_next_thread = 1,
     db_next_comment = 1, db_next_like = 1, db_clock = 0,
     db_accounts = no_accounts\<rparr>"

type_synonym 'a sql = "(error, db, comment_event, 'a) prog"

section \<open>Constraints\<close>

definition keys_ok :: "('r \<Rightarrow> int) \<Rightarrow> int \<Rightarrow> 'r list \<Rightarrow> bool" where
  "keys_ok k nxt rows \<longleftrightarrow>
     sorted_wrt (<) (map k rows) \<and> (\<forall>r \<in> set rows. 0 < k r \<and> k r < nxt) \<and> 0 < nxt"

definition has_user :: "user list \<Rightarrow> int \<Rightarrow> bool" where
  "has_user us i \<longleftrightarrow> (\<exists>u \<in> set us. u_id u = i)"

definition has_site :: "site list \<Rightarrow> int \<Rightarrow> bool" where
  "has_site ss i \<longleftrightarrow> (\<exists>s \<in> set ss. s_id s = i)"

definition has_thread :: "thread list \<Rightarrow> int \<Rightarrow> int \<Rightarrow> bool" where
  "has_thread ts sid i \<longleftrightarrow> (\<exists>t \<in> set ts. t_site_id t = sid \<and> t_id t = i)"

definition has_comment :: "comment list \<Rightarrow> int \<Rightarrow> int \<Rightarrow> bool" where
  "has_comment cs sid i \<longleftrightarrow> (\<exists>c \<in> set cs. c_site_id c = sid \<and> c_id c = i)"

definition ref_ok :: "(int \<Rightarrow> bool) \<Rightarrow> int option \<Rightarrow> bool" where
  "ref_ok P r = (case r of None \<Rightarrow> True | Some i \<Rightarrow> P i)"

text \<open>The references that cascade: thread, author, parent and root of a comment.\<close>

definition comment_refs_ok :: "user list \<Rightarrow> thread list \<Rightarrow> comment list \<Rightarrow> comment \<Rightarrow> bool" where
  "comment_refs_ok us ts cs c \<longleftrightarrow>
     has_thread ts (c_site_id c) (c_thread_id c) \<and> has_user us (c_user_id c) \<and>
     ref_ok (has_comment cs (c_site_id c)) (c_parent_id c) \<and>
     ref_ok (has_comment cs (c_site_id c)) (c_root_id c)"

definition like_refs_ok :: "user list \<Rightarrow> comment list \<Rightarrow> comment_like \<Rightarrow> bool" where
  "like_refs_ok us cs l \<longleftrightarrow> has_comment cs (l_site_id l) (l_comment_id l) \<and> has_user us (l_user_id l)"

text \<open>\<open>ck_comments_depth\<close>, \<open>ck_comments_pinned_root\<close> and the two mode checks.\<close>

definition privacy_mode_ok :: "string \<Rightarrow> bool" where
  "privacy_mode_ok m \<longleftrightarrow> m = PrivacyModeNone \<or> m = PrivacyModeCoarse \<or> m = PrivacyModeFull"

definition comment_checks :: "comment \<Rightarrow> bool" where
  "comment_checks c \<longleftrightarrow> 0 \<le> c_depth c \<and>
     (c_is_pinned c \<longrightarrow> c_parent_id c = None \<and> c_root_id c = None \<and> c_depth c = 0) \<and>
     privacy_mode_ok (c_ip_mode c) \<and> privacy_mode_ok (c_ua_mode c)"

definition tables_ok :: "db \<Rightarrow> bool" where
  "tables_ok d \<longleftrightarrow>
     keys_ok u_id (db_next_user d) (db_users d) \<and> keys_ok s_id (db_next_site d) (db_sites d) \<and>
     keys_ok o_id (db_next_origin d) (db_origins d) \<and>
     keys_ok t_id (db_next_thread d) (db_threads d) \<and>
     keys_ok c_id (db_next_comment d) (db_comments d) \<and>
     keys_ok l_id (db_next_like d) (db_likes d)"

definition uniques_ok :: "db \<Rightarrow> bool" where
  "uniques_ok d \<longleftrightarrow>
     distinct (map u_email_normalized (db_users d)) \<and>
     distinct (map (\<lambda>o'. (o_site_id o', o_origin o')) (db_origins d)) \<and>
     distinct (map (\<lambda>t. (t_site_id t, t_page_key t)) (db_threads d)) \<and>
     distinct (map (\<lambda>l. (l_site_id l, l_comment_id l, l_user_id l)) (db_likes d))"

definition refs_ok :: "db \<Rightarrow> bool" where
  "refs_ok d \<longleftrightarrow>
     (\<forall>o' \<in> set (db_origins d). has_site (db_sites d) (o_site_id o')) \<and>
     (\<forall>t \<in> set (db_threads d). has_site (db_sites d) (t_site_id t)) \<and>
     (\<forall>c \<in> set (db_comments d).
        comment_refs_ok (db_users d) (db_threads d) (db_comments d) c \<and>
        ref_ok (has_user (db_users d)) (c_reply_to_user_id c)) \<and>
     (\<forall>l \<in> set (db_likes d). like_refs_ok (db_users d) (db_comments d) l)"

text \<open>\<open>ck_users_session_version\<close> and \<open>ck_users_password_state\<close>.\<close>

definition user_checks :: "user \<Rightarrow> bool" where
  "user_checks u \<longleftrightarrow> 0 < u_session_version u \<and>
     (u_password_hash u = None \<longleftrightarrow> u_password_changed_at u = None)"

definition accounts_ok :: "user list \<Rightarrow> accounts \<Rightarrow> bool" where
  "accounts_ok us a \<longleftrightarrow>
     (\<forall>u \<in> set us. user_checks u) \<and>
     keys_ok pk_id (ac_next_passkey a) (ac_passkeys a) \<and>
     keys_ok ei_id (ac_next_identity a) (ac_identities a) \<and>
     keys_ok np_id (ac_next_pref a) (ac_prefs a) \<and>
     distinct (map pk_credential_id (ac_passkeys a)) \<and>
     distinct (map (\<lambda>e. (ei_provider_key e, ei_provider_subject e)) (ac_identities a)) \<and>
     distinct (map np_user_id (ac_prefs a)) \<and>
     (\<forall>p \<in> set (ac_passkeys a). has_user us (pk_user_id p)) \<and>
     (\<forall>e \<in> set (ac_identities a). has_user us (ei_user_id e)) \<and>
     (\<forall>n \<in> set (ac_prefs a). has_user us (np_user_id n))"

definition schema_ok :: "db \<Rightarrow> bool" where
  "schema_ok d \<longleftrightarrow> tables_ok d \<and> uniques_ok d \<and> refs_ok d \<and>
     (\<forall>c \<in> set (db_comments d). comment_checks c) \<and> accounts_ok (db_users d) (db_accounts d)"

section \<open>Statements\<close>

definition sql_query :: "(db \<Rightarrow> 'a) \<Rightarrow> 'a sql" where
  "sql_query g = query ErrInfra g"

text \<open>A write: the new rows are accepted only when they satisfy the schema.\<close>

definition checked :: "error \<Rightarrow> 'a \<times> db \<Rightarrow> error + 'a \<times> db" where
  "checked viol r = (if schema_ok (snd r) then Inr r else Inl viol)"

definition sql_write :: "error \<Rightarrow> (db \<Rightarrow> 'a \<times> db) \<Rightarrow> 'a sql" where
  "sql_write viol f = stmt ErrInfra (\<lambda>d. checked viol (f d))"

text \<open>A query with \<open>First\<close> that maps \<open>gorm.ErrRecordNotFound\<close> to \<open>domain.ErrNotFound\<close>.\<close>

definition first_or_not_found :: "(db \<Rightarrow> 'r option) \<Rightarrow> 'r sql" where
  "first_or_not_found g = bind (sql_query g) (\<lambda>r. lift (option_to_result ErrNotFound r))"

text \<open>A write that reports \<open>domain.ErrNotFound\<close> when it affected no row.\<close>

definition write_or_not_found :: "error \<Rightarrow> (db \<Rightarrow> nat \<times> db) \<Rightarrow> unit sql" where
  "write_or_not_found viol f = bind (sql_write viol f) (\<lambda>n. require (n \<noteq> 0) ErrNotFound)"

lemma sql_query_iff [prog_elims]:
  "sql_query g w = (Inr y, w') \<longleftrightarrow>
     (faults w = [] \<or> \<not> hd (faults w)) \<and> y = g (data w) \<and> w' = w\<lparr>faults := tl (faults w)\<rparr>"
  by (simp add: sql_query_def query_iff)

lemma sql_write_iff [prog_elims]:
  "sql_write viol f w = (Inr y, w') \<longleftrightarrow>
     (faults w = [] \<or> \<not> hd (faults w)) \<and> y = fst (f (data w)) \<and> schema_ok (snd (f (data w))) \<and>
     w' = w\<lparr>faults := tl (faults w), data := snd (f (data w))\<rparr>"
  by (cases "f (data w)") (auto simp: sql_write_def stmt_iff checked_def)

lemma first_or_not_found_iff [prog_elims]:
  "first_or_not_found g w = (Inr y, w') \<longleftrightarrow>
     (faults w = [] \<or> \<not> hd (faults w)) \<and> g (data w) = Some y \<and> w' = w\<lparr>faults := tl (faults w)\<rparr>"
  by (auto simp: first_or_not_found_def prog_elims)

lemma write_or_not_found_iff [prog_elims]:
  "write_or_not_found viol f w = (Inr u, w') \<longleftrightarrow>
     (faults w = [] \<or> \<not> hd (faults w)) \<and> fst (f (data w)) \<noteq> 0 \<and> schema_ok (snd (f (data w))) \<and>
     w' = w\<lparr>faults := tl (faults w), data := snd (f (data w))\<rparr>"
  by (auto simp: write_or_not_found_def prog_elims)

lemma sql_steps [simp]:
  "faults w = [] \<Longrightarrow> sql_query q w = (Inr (q (data w)), w)"
  "faults w = [] \<Longrightarrow> first_or_not_found g w = (option_to_result ErrNotFound (g (data w)), w)"
  "faults w = [] \<Longrightarrow> sql_write viol f w =
     (if schema_ok (snd (f (data w))) then (Inr (fst (f (data w))), w\<lparr>data := snd (f (data w))\<rparr>)
      else (Inl viol, w))"
  by (auto simp: sql_query_def first_or_not_found_def sql_write_def checked_def bind_def
      split: prod.splits)

lemma preserves_sql_query [preserves_intros]: "preserves I (sql_query g)"
  by (simp add: sql_query_def preserves_query)

lemma preserves_sql_write [preserves_intros]:
  "(\<And>d. I d \<Longrightarrow> schema_ok (snd (f d)) \<Longrightarrow> I (snd (f d))) \<Longrightarrow> preserves I (sql_write viol f)"
  unfolding sql_write_def
  by (rule preserves_stmt) (metis checked_def sum.distinct(1) sum.inject(2) snd_conv)

lemma preserves_first_or_not_found [preserves_intros]: "preserves I (first_or_not_found g)"
  by (simp add: first_or_not_found_def preserves_intros)

lemma preserves_write_or_not_found [preserves_intros]:
  "(\<And>d. I d \<Longrightarrow> schema_ok (snd (f d)) \<Longrightarrow> I (snd (f d))) \<Longrightarrow> preserves I (write_or_not_found viol f)"
  by (auto simp: write_or_not_found_def intro!: preserves_intros)

lemma wp_sql_query [wp_intros]:
  "(f \<Longrightarrow> Q (Inl ErrInfra) d os) \<Longrightarrow> Q (Inr (g d)) d os \<Longrightarrow> wpf f (sql_query g) Q d os"
  unfolding sql_query_def by (rule wp_query)

lemma wp_first_or_not_found [wp_intros]:
  "(f \<Longrightarrow> Q (Inl ErrInfra) d os) \<Longrightarrow> (g d = None \<Longrightarrow> Q (Inl ErrNotFound) d os) \<Longrightarrow>
     (\<And>x. g d = Some x \<Longrightarrow> Q (Inr x) d os) \<Longrightarrow> wpf f (first_or_not_found g) Q d os"
  unfolding first_or_not_found_def
  by (cases "g d") (auto intro!: wp_intros)

lemma wp_sql_write [wp_intros]:
  "(f \<Longrightarrow> Q (Inl ErrInfra) d os) \<Longrightarrow> (\<not> schema_ok (snd (g d)) \<Longrightarrow> Q (Inl viol) d os) \<Longrightarrow>
     (schema_ok (snd (g d)) \<Longrightarrow> Q (Inr (fst (g d))) (snd (g d)) os) \<Longrightarrow>
     wpf f (sql_write viol g) Q d os"
  unfolding sql_write_def
  by (rule wp_stmt) (auto simp: checked_def split: if_splits)

lemma wp_write_or_not_found [wp_intros]:
  "(f \<Longrightarrow> Q (Inl ErrInfra) d os) \<Longrightarrow> (\<not> schema_ok (snd (g d)) \<Longrightarrow> Q (Inl viol) d os) \<Longrightarrow>
     (schema_ok (snd (g d)) \<Longrightarrow> fst (g d) = 0 \<Longrightarrow> Q (Inl ErrNotFound) (snd (g d)) os) \<Longrightarrow>
     (schema_ok (snd (g d)) \<Longrightarrow> fst (g d) \<noteq> 0 \<Longrightarrow> Q (Inr ()) (snd (g d)) os) \<Longrightarrow>
     wpf f (write_or_not_found viol g) Q d os"
  unfolding write_or_not_found_def
  by (auto intro!: wp_intros)

section \<open>Deletion\<close>

text \<open>
  What the cascades leave: a comment survives while its thread, author, parent and root exist.
  The pass is repeated until nothing more dangles; each round that removes a row shortens the list.
\<close>

function sweep_comments :: "user list \<Rightarrow> thread list \<Rightarrow> comment list \<Rightarrow> comment list" where
  "sweep_comments us ts cs =
     (let live = filter (comment_refs_ok us ts cs) cs
      in if length live < length cs then sweep_comments us ts live else cs)"
  by pat_completeness auto
termination
  by (relation "measure (\<lambda>(us, ts, cs). length cs)") (auto simp: Let_def)

declare sweep_comments.simps [simp del]

definition clear_reply_to :: "user list \<Rightarrow> comment \<Rightarrow> comment" where
  "clear_reply_to us c =
     (if ref_ok (has_user us) (c_reply_to_user_id c) then c else c\<lparr>c_reply_to_user_id := None\<rparr>)"

definition cascade :: "db \<Rightarrow> db" where
  "cascade d =
     (let os = filter (\<lambda>o'. has_site (db_sites d) (o_site_id o')) (db_origins d);
          ts = filter (\<lambda>t. has_site (db_sites d) (t_site_id t)) (db_threads d);
          cs = map (clear_reply_to (db_users d)) (sweep_comments (db_users d) ts (db_comments d));
          ls = filter (like_refs_ok (db_users d) cs) (db_likes d)
      in d\<lparr>db_origins := os, db_threads := ts, db_comments := cs, db_likes := ls\<rparr>)"

definition delete_comments :: "(comment \<Rightarrow> bool) \<Rightarrow> db \<Rightarrow> nat \<times> db" where
  "delete_comments P d =
     (count_where P (db_comments d),
      cascade (d\<lparr>db_comments := filter (\<lambda>c. \<not> P c) (db_comments d)\<rparr>))"

definition delete_threads :: "(thread \<Rightarrow> bool) \<Rightarrow> db \<Rightarrow> nat \<times> db" where
  "delete_threads P d =
     (count_where P (db_threads d),
      cascade (d\<lparr>db_threads := filter (\<lambda>t. \<not> P t) (db_threads d)\<rparr>))"

definition delete_sites :: "(site \<Rightarrow> bool) \<Rightarrow> db \<Rightarrow> nat \<times> db" where
  "delete_sites P d =
     (count_where P (db_sites d),
      cascade (d\<lparr>db_sites := filter (\<lambda>s. \<not> P s) (db_sites d)\<rparr>))"

text \<open>The accounts' tables hang off the users alone.\<close>

definition keep_accounts :: "user list \<Rightarrow> accounts \<Rightarrow> accounts" where
  "keep_accounts us a =
     a\<lparr>ac_passkeys := filter (\<lambda>p. has_user us (pk_user_id p)) (ac_passkeys a),
       ac_identities := filter (\<lambda>e. has_user us (ei_user_id e)) (ac_identities a),
       ac_prefs := filter (\<lambda>n. has_user us (np_user_id n)) (ac_prefs a)\<rparr>"

definition delete_users :: "(user \<Rightarrow> bool) \<Rightarrow> db \<Rightarrow> nat \<times> db" where
  "delete_users P d =
     (let us = filter (\<lambda>u. \<not> P u) (db_users d)
      in (count_where P (db_users d),
          cascade (d\<lparr>db_users := us, db_accounts := keep_accounts us (db_accounts d)\<rparr>)))"

lemma sweep_comments_fixpoint:
  "(\<And>c. c \<in> set cs \<Longrightarrow> comment_refs_ok us ts cs c) \<Longrightarrow> sweep_comments us ts cs = cs"
  by (subst sweep_comments.simps) (simp add: Let_def filter_id_conv)

lemma sweep_comments_subset: "set (sweep_comments us ts cs) \<subseteq> set cs"
proof (induction us ts cs rule: sweep_comments.induct)
  case (1 us ts cs)
  then show ?case by (subst sweep_comments.simps) (auto simp: Let_def)
qed

lemma sweep_comments_refs_ok:
  "c \<in> set (sweep_comments us ts cs) \<Longrightarrow>
     comment_refs_ok us ts (sweep_comments us ts cs) c"
proof (induction us ts cs rule: sweep_comments.induct)
  case (1 us ts cs)
  let ?live = "filter (comment_refs_ok us ts cs) cs"
  show ?case
  proof (cases "length ?live < length cs")
    case True
    then have "sweep_comments us ts cs = sweep_comments us ts ?live"
      by (subst sweep_comments.simps) (simp add: Let_def)
    with 1 True show ?thesis by (simp add: Let_def)
  next
    case False
    then have "sweep_comments us ts cs = cs"
      by (subst sweep_comments.simps) (simp add: Let_def)
    moreover have "\<forall>c \<in> set cs. comment_refs_ok us ts cs c"
      using False by (metis length_filter_less)
    ultimately show ?thesis using 1 by simp
  qed
qed

end
