(* ===== verification/Comment_Repo.thy ===== *)
theory Comment_Repo
  imports Store
begin

text \<open>
  The comment statements of \<open>internal/repository/comment.go\<close> and \<open>comment_like.go\<close>.
  The locked variants (\<open>FOR UPDATE\<close>) read the same rows as the unlocked ones; the lock
  only matters between concurrent transactions, which the model runs one after the other.
\<close>

section \<open>Rows\<close>

definition the_comment :: "int \<Rightarrow> int \<Rightarrow> comment \<Rightarrow> bool" where
  "the_comment sid cid c \<longleftrightarrow> c_site_id c = sid \<and> c_id c = cid"

text \<open>\<open>UPDATE comments SET ... WHERE P\<close> through \<open>Model(&model.Comment{})\<close>.\<close>

definition update_comments :: "(comment \<Rightarrow> bool) \<Rightarrow> (comment \<Rightarrow> comment) \<Rightarrow> db \<Rightarrow> nat \<times> db" where
  "update_comments P f d =
     (count_where P (db_comments d),
      d\<lparr>db_comments := update_where P (\<lambda>c. (f c)\<lparr>c_updated_at := db_clock d\<rparr>) (db_comments d)\<rparr>)"

record comment_batch_target =
  bt_site_id :: int
  bt_id :: int

record comment_status_batch_target = comment_batch_target +
  bt_status :: comment_status
  bt_status_before_delete :: "comment_status option"
  bt_published_at :: "int option"
  bt_deleted_at :: "int option"
  bt_preserve_published_at :: bool

section \<open>Reads and inserts\<close>

definition insert_comment :: "comment \<Rightarrow> db \<Rightarrow> comment \<times> db" where
  "insert_comment c d =
     (let row = c\<lparr>c_id := db_next_comment d\<rparr>
      in (row, d\<lparr>db_comments := db_comments d @ [row], db_next_comment := db_next_comment d + 1\<rparr>))"

definition Comment_Create :: "comment \<Rightarrow> comment sql" where
  "Comment_Create c = sql_write ErrInfra (insert_comment c)"

definition FindBySiteAndID :: "int \<Rightarrow> int \<Rightarrow> comment sql" where
  "FindBySiteAndID sid cid =
     first_or_not_found (\<lambda>d. select_first (the_comment sid cid) (db_comments d))"

definition FindBySiteAndIDLocked :: "int \<Rightarrow> int \<Rightarrow> comment sql" where
  "FindBySiteAndIDLocked sid cid =
     first_or_not_found (\<lambda>d. select_first (the_comment sid cid) (db_comments d))"

definition FindGlobalByID :: "int \<Rightarrow> comment sql" where
  "FindGlobalByID cid =
     first_or_not_found (\<lambda>d. select_first (\<lambda>c. c_id c = cid) (db_comments d))"

definition FindGlobalByIDsLocked :: "int list \<Rightarrow> comment list sql" where
  "FindGlobalByIDsLocked ids =
     (if ids = [] then ret []
      else sql_query (\<lambda>d. filter (\<lambda>c. c_id c \<in> set ids) (db_comments d)))"

text \<open>
  One \<open>UNION ALL\<close> query counts every window; its rows come back tagged with the bucket index
  and are copied into a zero-initialised slice, so bucket \<open>i\<close> holds the count of window \<open>i\<close>.
\<close>

definition in_range :: "trend_range \<Rightarrow> comment \<Rightarrow> bool" where
  "in_range r c \<longleftrightarrow> tr_start r \<le> c_created_at c \<and> c_created_at c < tr_end r"

definition CountCreatedByRanges :: "trend_range list \<Rightarrow> nat list sql" where
  "CountCreatedByRanges rs =
     (if rs = [] then ret []
      else sql_query (\<lambda>d. map (\<lambda>r. count_where (in_range r) (db_comments d)) rs))"

section \<open>Updates\<close>

definition UpdateBody :: "int \<Rightarrow> int \<Rightarrow> string \<Rightarrow> unit sql" where
  "UpdateBody sid cid body =
     write_or_not_found ErrInfra
       (update_comments (the_comment sid cid) (\<lambda>c. c\<lparr>c_body_markdown := body\<rparr>))"

definition set_status ::
  "comment_status \<Rightarrow> comment_status option \<Rightarrow> int option \<Rightarrow> int option \<Rightarrow> comment \<Rightarrow> comment" where
  "set_status st before published deleted c =
     c\<lparr>c_status := st, c_status_before_delete := before, c_published_at := published,
       c_deleted_at := deleted\<rparr>"

definition UpdateStatus ::
  "int \<Rightarrow> int \<Rightarrow> comment_status \<Rightarrow> comment_status option \<Rightarrow> int option \<Rightarrow> int option \<Rightarrow> unit sql" where
  "UpdateStatus sid cid st before published deleted =
     write_or_not_found ErrInfra
       (update_comments (the_comment sid cid) (set_status st before published deleted))"

definition targets_comment :: "('a comment_batch_target_scheme) list \<Rightarrow> comment \<Rightarrow> bool" where
  "targets_comment ts c \<longleftrightarrow> (\<exists>t \<in> set ts. the_comment (bt_site_id t) (bt_id t) c)"

text \<open>The first target of the group carries the values written to all of them.\<close>

definition apply_status_target :: "comment_status_batch_target \<Rightarrow> comment \<Rightarrow> comment" where
  "apply_status_target t c =
     (let c' = c\<lparr>c_status := bt_status t, c_status_before_delete := bt_status_before_delete t,
                c_deleted_at := bt_deleted_at t\<rparr>
      in if bt_preserve_published_at t then c' else c'\<lparr>c_published_at := bt_published_at t\<rparr>)"

definition UpdateStatusMany :: "comment_status_batch_target list \<Rightarrow> nat sql" where
  "UpdateStatusMany ts =
     (case ts of [] \<Rightarrow> ret 0
      | first # _ \<Rightarrow> sql_write ErrInfra
          (update_comments (targets_comment ts) (apply_status_target first)))"

definition SetPinned :: "int \<Rightarrow> int \<Rightarrow> bool \<Rightarrow> comment sql" where
  "SetPinned sid cid pinned =
     bind (FindBySiteAndID sid cid) (\<lambda>row.
     bind (if c_is_pinned row \<noteq> pinned
           then bind (sql_write ErrConflict
                  (update_comments (the_comment sid cid) (\<lambda>c. c\<lparr>c_is_pinned := pinned\<rparr>)))
                  (\<lambda>_. ret ())
           else ret ()) (\<lambda>_.
     FindBySiteAndID sid cid))"

definition SetPinnedMany :: "comment_batch_target list \<Rightarrow> bool \<Rightarrow> nat sql" where
  "SetPinnedMany ts pinned =
     (if ts = [] then ret 0
      else sql_write ErrConflict
             (update_comments (targets_comment ts) (\<lambda>c. c\<lparr>c_is_pinned := pinned\<rparr>)))"

section \<open>Detaching and deleting\<close>

definition parent_is :: "int \<Rightarrow> int \<Rightarrow> comment \<Rightarrow> bool" where
  "parent_is sid cid c \<longleftrightarrow> c_site_id c = sid \<and> c_parent_id c = Some cid"

definition root_is :: "int \<Rightarrow> int \<Rightarrow> comment \<Rightarrow> bool" where
  "root_is sid cid c \<longleftrightarrow> c_site_id c = sid \<and> c_root_id c = Some cid"

definition clear_parent :: "comment \<Rightarrow> comment" where "clear_parent c = c\<lparr>c_parent_id := None\<rparr>"
definition clear_root :: "comment \<Rightarrow> comment" where "clear_root c = c\<lparr>c_root_id := None\<rparr>"

definition DetachCommentChildren :: "int \<Rightarrow> int \<Rightarrow> unit sql" where
  "DetachCommentChildren sid cid =
     bind (sql_write ErrInfra (update_comments (parent_is sid cid) clear_parent)) (\<lambda>_.
     bind (sql_write ErrInfra (update_comments (root_is sid cid) clear_root)) (\<lambda>_.
     ret ()))"

definition DetachCommentChildrenMany :: "comment_batch_target list \<Rightarrow> unit sql" where
  "DetachCommentChildrenMany ts =
     (if ts = [] then ret ()
      else bind (sql_write ErrInfra (update_comments
                   (\<lambda>c. \<exists>t \<in> set ts. parent_is (bt_site_id t) (bt_id t) c) clear_parent)) (\<lambda>_.
           bind (sql_write ErrInfra (update_comments
                   (\<lambda>c. \<exists>t \<in> set ts. root_is (bt_site_id t) (bt_id t) c) clear_root)) (\<lambda>_.
           ret ())))"

definition HardDelete :: "int \<Rightarrow> int \<Rightarrow> unit sql" where
  "HardDelete sid cid = write_or_not_found ErrInfra (delete_comments (the_comment sid cid))"

definition HardDeleteMany :: "comment_batch_target list \<Rightarrow> nat sql" where
  "HardDeleteMany ts =
     (if ts = [] then ret 0 else sql_write ErrInfra (delete_comments (targets_comment ts)))"

definition soft_deletable :: "int list \<Rightarrow> comment \<Rightarrow> bool" where
  "soft_deletable uids c \<longleftrightarrow> c_user_id c \<in> set uids \<and> c_status c \<noteq> CommentStatusDeleted"

definition soft_delete_row :: "int \<Rightarrow> comment \<Rightarrow> comment" where
  "soft_delete_row now c =
     c\<lparr>c_status_before_delete := Some (c_status c), c_status := CommentStatusDeleted,
       c_deleted_at := Some now\<rparr>"

definition SoftDeleteByUser :: "int \<Rightarrow> int \<Rightarrow> unit sql" where
  "SoftDeleteByUser uid now =
     bind (sql_write ErrInfra (update_comments (soft_deletable [uid]) (soft_delete_row now)))
       (\<lambda>_. ret ())"

definition SoftDeleteByUsers :: "int list \<Rightarrow> int \<Rightarrow> nat sql" where
  "SoftDeleteByUsers uids now =
     (if uids = [] then ret 0
      else sql_write ErrInfra (update_comments (soft_deletable uids) (soft_delete_row now)))"

text \<open>\<open>id IN (SELECT id FROM comments WHERE user_id IN ?)\<close>\<close>

definition authored_by :: "comment list \<Rightarrow> int list \<Rightarrow> int option \<Rightarrow> bool" where
  "authored_by cs uids r =
     (case r of None \<Rightarrow> False | Some i \<Rightarrow> (\<exists>c \<in> set cs. c_id c = i \<and> c_user_id c \<in> set uids))"

definition detach_users ::
  "(comment \<Rightarrow> int option) \<Rightarrow> (comment \<Rightarrow> comment) \<Rightarrow> int list \<Rightarrow> db \<Rightarrow> nat \<times> db" where
  "detach_users ref clear uids d =
     update_comments (\<lambda>c. c_user_id c \<notin> set uids \<and> authored_by (db_comments d) uids (ref c)) clear d"

definition DetachUserCommentChildren :: "int \<Rightarrow> unit sql" where
  "DetachUserCommentChildren uid =
     bind (sql_write ErrInfra (detach_users c_parent_id clear_parent [uid])) (\<lambda>_.
     bind (sql_write ErrInfra (detach_users c_root_id clear_root [uid])) (\<lambda>_.
     ret ()))"

definition DetachUserCommentChildrenMany :: "int list \<Rightarrow> unit sql" where
  "DetachUserCommentChildrenMany uids =
     (if uids = [] then ret ()
      else bind (sql_write ErrInfra (detach_users c_parent_id clear_parent uids)) (\<lambda>_.
           bind (sql_write ErrInfra (detach_users c_root_id clear_root uids)) (\<lambda>_.
           ret ())))"

section \<open>Likes\<close>

record like_result =
  lr_comment_id :: int
  lr_like_count :: nat
  lr_liked :: bool

definition the_like :: "int \<Rightarrow> int \<Rightarrow> int \<Rightarrow> comment_like \<Rightarrow> bool" where
  "the_like sid cid uid l \<longleftrightarrow> l_site_id l = sid \<and> l_comment_id l = cid \<and> l_user_id l = uid"

definition like_count_of :: "int \<Rightarrow> int \<Rightarrow> db \<Rightarrow> nat" where
  "like_count_of sid cid d =
     count_where (\<lambda>l. l_site_id l = sid \<and> l_comment_id l = cid) (db_likes d)"

definition likeCount :: "int \<Rightarrow> int \<Rightarrow> nat sql" where
  "likeCount sid cid = sql_query (like_count_of sid cid)"

definition requirePublishedComment :: "int \<Rightarrow> int \<Rightarrow> unit sql" where
  "requirePublishedComment sid cid =
     bind (sql_query (\<lambda>d. count_where
             (\<lambda>c. the_comment sid cid c \<and> c_status c = CommentStatusPublished) (db_comments d)))
       (\<lambda>n. require (n \<noteq> 0) ErrNotFound)"

text \<open>\<open>INSERT ... ON CONFLICT DO NOTHING\<close> on the unique triple.\<close>

definition insert_like :: "int \<Rightarrow> int \<Rightarrow> int \<Rightarrow> db \<Rightarrow> unit \<times> db" where
  "insert_like sid cid uid d =
     (if \<exists>l \<in> set (db_likes d). the_like sid cid uid l then ((), d)
      else ((), d\<lparr>db_likes := db_likes d @
                    [\<lparr>l_id = db_next_like d, l_site_id = sid, l_comment_id = cid, l_user_id = uid\<rparr>],
                  db_next_like := db_next_like d + 1\<rparr>))"

definition delete_like :: "int \<Rightarrow> int \<Rightarrow> int \<Rightarrow> db \<Rightarrow> unit \<times> db" where
  "delete_like sid cid uid d =
     ((), d\<lparr>db_likes := filter (\<lambda>l. \<not> the_like sid cid uid l) (db_likes d)\<rparr>)"

definition AddLike :: "int \<Rightarrow> int \<Rightarrow> int \<Rightarrow> like_result sql" where
  "AddLike sid cid uid = atomically ErrInfra
     (bind (requirePublishedComment sid cid) (\<lambda>_.
      bind (sql_write ErrInfra (insert_like sid cid uid)) (\<lambda>_.
      bind (likeCount sid cid) (\<lambda>n.
      ret \<lparr>lr_comment_id = cid, lr_like_count = n, lr_liked = True\<rparr>))))"

definition RemoveLike :: "int \<Rightarrow> int \<Rightarrow> int \<Rightarrow> like_result sql" where
  "RemoveLike sid cid uid = atomically ErrInfra
     (bind (requirePublishedComment sid cid) (\<lambda>_.
      bind (sql_write ErrInfra (delete_like sid cid uid)) (\<lambda>_.
      bind (likeCount sid cid) (\<lambda>n.
      ret \<lparr>lr_comment_id = cid, lr_like_count = n, lr_liked = False\<rparr>))))"

section \<open>Updates keep the schema\<close>

text \<open>
  A row function that keeps the key and the references (it may clear the parent or the root) and
  the row checks is accepted by the schema on every set of rows.
\<close>

definition keeps_identity :: "(comment \<Rightarrow> comment) \<Rightarrow> bool" where
  "keeps_identity f \<longleftrightarrow> (\<forall>c. c_id (f c) = c_id c \<and> c_site_id (f c) = c_site_id c \<and>
     c_thread_id (f c) = c_thread_id c \<and> c_user_id (f c) = c_user_id c \<and>
     c_reply_to_user_id (f c) = c_reply_to_user_id c \<and>
     (c_parent_id (f c) = c_parent_id c \<or> c_parent_id (f c) = None) \<and>
     (c_root_id (f c) = c_root_id c \<or> c_root_id (f c) = None))"

lemma keeps_identity_touch:
  "keeps_identity f \<Longrightarrow> keeps_identity (\<lambda>c. (f c)\<lparr>c_updated_at := t\<rparr>)"
  by (simp add: keeps_identity_def)

lemma has_comment_map:
  "(\<And>c. c_id (g c) = c_id c \<and> c_site_id (g c) = c_site_id c) \<Longrightarrow>
     has_comment (map g cs) = has_comment cs"
  by (rule ext, rule ext) (auto simp: has_comment_def)

lemma schema_ok_map_comments:
  assumes ok: "schema_ok d" and keep: "keeps_identity g"
    and checks: "\<And>c. c \<in> set (db_comments d) \<Longrightarrow> comment_checks (g c)"
  shows "schema_ok (d\<lparr>db_comments := map g (db_comments d)\<rparr>)"
proof -
  have key: "map c_id (map g (db_comments d)) = map c_id (db_comments d)"
    using keep by (simp add: keeps_identity_def)
  have same: "has_comment (map g (db_comments d)) = has_comment (db_comments d)"
    using keep by (intro has_comment_map) (simp add: keeps_identity_def)
  have keys: "keys_ok c_id (db_next_comment d) (map g (db_comments d))"
    using ok keep unfolding schema_ok_def tables_ok_def keys_ok_def key
    by (auto simp: keeps_identity_def)
  have refs: "comment_refs_ok (db_users d) (db_threads d) (map g (db_comments d)) (g c) \<and>
      ref_ok (has_user (db_users d)) (c_reply_to_user_id (g c))"
    if "c \<in> set (db_comments d)" for c
  proof -
    have "comment_refs_ok (db_users d) (db_threads d) (db_comments d) c"
      "ref_ok (has_user (db_users d)) (c_reply_to_user_id c)"
      using ok that by (simp_all add: schema_ok_def refs_ok_def)
    moreover have "ref_ok Q (c_parent_id (g c))" if "ref_ok Q (c_parent_id c)" for Q
      using that keep by (metis keeps_identity_def ref_ok_def option.simps(4))
    moreover have "ref_ok Q (c_root_id (g c))" if "ref_ok Q (c_root_id c)" for Q
      using that keep by (metis keeps_identity_def ref_ok_def option.simps(4))
    ultimately show ?thesis
      using keep unfolding comment_refs_ok_def same by (simp add: keeps_identity_def)
  qed
  show ?thesis
    using ok keys refs checks
    by (auto simp: schema_ok_def tables_ok_def uniques_ok_def refs_ok_def like_refs_ok_def same)
qed

lemma update_comments_map:
  "snd (update_comments P f d) =
     d\<lparr>db_comments := map (\<lambda>c. if P c then (f c)\<lparr>c_updated_at := db_clock d\<rparr> else c) (db_comments d)\<rparr>"
  by (simp add: update_comments_def update_where_def)

lemma schema_ok_update_comments:
  assumes "schema_ok d" "keeps_identity f"
    "\<And>c. c \<in> set (db_comments d) \<Longrightarrow> P c \<Longrightarrow> comment_checks c \<Longrightarrow> comment_checks (f c)"
  shows "schema_ok (snd (update_comments P f d))"
  unfolding update_comments_map
proof (rule schema_ok_map_comments [OF assms(1)])
  show "keeps_identity (\<lambda>c. if P c then (f c)\<lparr>c_updated_at := db_clock d\<rparr> else c)"
    using assms(2) by (auto simp: keeps_identity_def)
  show "comment_checks (if P c then (f c)\<lparr>c_updated_at := db_clock d\<rparr> else c)"
    if "c \<in> set (db_comments d)" for c
    using assms that by (auto simp: schema_ok_def comment_checks_def)
qed

lemma keeps_identity_rows [simp]:
  "keeps_identity (set_status st before published deleted)"
  "keeps_identity (apply_status_target t)"
  "keeps_identity (soft_delete_row now)" "keeps_identity clear_parent" "keeps_identity clear_root"
  "keeps_identity (\<lambda>c. c\<lparr>c_is_pinned := b\<rparr>)" "keeps_identity (\<lambda>c. c\<lparr>c_body_markdown := s\<rparr>)"
  by (simp_all add: keeps_identity_def set_status_def apply_status_target_def soft_delete_row_def
      clear_parent_def clear_root_def Let_def)

lemma checks_rows [simp]:
  "comment_checks (set_status st before published deleted c) = comment_checks c"
  "comment_checks (apply_status_target t c) = comment_checks c"
  "comment_checks (soft_delete_row now c) = comment_checks c"
  "comment_checks (c\<lparr>c_body_markdown := s\<rparr>) = comment_checks c"
  "comment_checks (c\<lparr>c_is_pinned := False\<rparr>) \<longleftrightarrow>
     0 \<le> c_depth c \<and> privacy_mode_ok (c_ip_mode c) \<and> privacy_mode_ok (c_ua_mode c)"
  "comment_checks c \<Longrightarrow> comment_checks (clear_parent c)"
  "comment_checks c \<Longrightarrow> comment_checks (clear_root c)"
  by (auto simp: comment_checks_def set_status_def apply_status_target_def soft_delete_row_def
      clear_parent_def clear_root_def Let_def)

lemma schema_ok_keys:
  assumes "schema_ok d"
  shows "distinct (map c_id (db_comments d))" "distinct (map u_id (db_users d))"
    "distinct (map t_id (db_threads d))" "distinct (map s_id (db_sites d))"
  using assms unfolding schema_ok_def tables_ok_def keys_ok_def
  by (simp_all add: strict_sorted_iff)

lemma schema_ok_same_id:
  "schema_ok d \<Longrightarrow> c \<in> set (db_comments d) \<Longrightarrow> c' \<in> set (db_comments d) \<Longrightarrow> c_id c = c_id c' \<Longrightarrow>
     c = c'"
  by (rule distinct_key_unique [OF schema_ok_keys(1)])

lemma find_comment:
  assumes "schema_ok d" "c \<in> set (db_comments d)"
  shows "select_first (\<lambda>r. c_id r = c_id c) (db_comments d) = Some c"
    and "select_first (the_comment (c_site_id c) (c_id c)) (db_comments d) = Some c"
  using assms by (auto intro!: select_first_unique dest: schema_ok_same_id simp: the_comment_def)

lemma count_where_pos: "c \<in> set rows \<Longrightarrow> P c \<Longrightarrow> count_where P rows \<noteq> 0"
  by (auto simp: count_where_zero)

end
