(* ===== verification/Records_Repo.thy ===== *)
theory Records_Repo
  imports Store
begin

text \<open>
  The statements of \<open>internal/repository/thread.go\<close>, \<open>site.go\<close> and of the part of
  \<open>user.go\<close> that the comment service uses.
\<close>

section \<open>Users (user.go)\<close>

text \<open>
  The callers leave the key, the session version and the time stamps to the database
  (\<open>AUTOINCREMENT\<close>, \<open>DEFAULT 1\<close>, \<open>autoCreateTime\<close>).  A duplicate normalised
  e-mail is the only constraint an insert can break.
\<close>

definition insert_user :: "user \<Rightarrow> db \<Rightarrow> user \<times> db" where
  "insert_user u d =
     (let row = u\<lparr>u_id := db_next_user d, u_session_version := 1,
                  u_created_at := db_clock d, u_updated_at := db_clock d\<rparr>
      in (row, d\<lparr>db_users := db_users d @ [row], db_next_user := db_next_user d + 1\<rparr>))"

definition User_Create :: "user \<Rightarrow> user sql" where
  "User_Create u = sql_write ErrConflict (insert_user u)"

definition FindByID :: "int \<Rightarrow> user sql" where
  "FindByID uid = first_or_not_found (\<lambda>d. select_first (\<lambda>u. u_id u = uid) (db_users d))"

definition FindByEmailNormalized :: "string \<Rightarrow> user sql" where
  "FindByEmailNormalized e =
     first_or_not_found (\<lambda>d. select_first (\<lambda>u. u_email_normalized u = e) (db_users d))"

definition update_users :: "(user \<Rightarrow> bool) \<Rightarrow> (user \<Rightarrow> user) \<Rightarrow> db \<Rightarrow> nat \<times> db" where
  "update_users P f d =
     (count_where P (db_users d),
      d\<lparr>db_users := update_where P (\<lambda>u. (f u)\<lparr>u_updated_at := db_clock d\<rparr>) (db_users d)\<rparr>)"

definition UpdateProfile :: "int \<Rightarrow> string \<Rightarrow> string option \<Rightarrow> unit sql" where
  "UpdateProfile uid nickname website =
     write_or_not_found ErrInfra (update_users (\<lambda>u. u_id u = uid)
       (\<lambda>u. u\<lparr>u_nickname := nickname, u_website_url := website\<rparr>))"

section \<open>Threads (thread.go)\<close>

definition the_thread :: "int \<Rightarrow> int \<Rightarrow> thread \<Rightarrow> bool" where
  "the_thread sid tid t \<longleftrightarrow> t_site_id t = sid \<and> t_id t = tid"

definition thread_of_page :: "int \<Rightarrow> string \<Rightarrow> thread \<Rightarrow> bool" where
  "thread_of_page sid key t \<longleftrightarrow> t_site_id t = sid \<and> t_page_key t = key"

definition update_threads :: "(thread \<Rightarrow> bool) \<Rightarrow> (thread \<Rightarrow> thread) \<Rightarrow> db \<Rightarrow> nat \<times> db" where
  "update_threads P f d =
     (count_where P (db_threads d),
      d\<lparr>db_threads := update_where P (\<lambda>t. (f t)\<lparr>t_updated_at := db_clock d\<rparr>) (db_threads d)\<rparr>)"

text \<open>\<open>INSERT ... ON CONFLICT (site_id, page_key) DO UPDATE\<close>: only supplied metadata is written.\<close>

definition set_if_given :: "'a option \<Rightarrow> 'a option \<Rightarrow> 'a option" where
  "set_if_given new old = (case new of None \<Rightarrow> old | Some v \<Rightarrow> Some v)"

definition upsert_thread ::
  "int \<Rightarrow> string \<Rightarrow> string option \<Rightarrow> string option \<Rightarrow> db \<Rightarrow> unit \<times> db" where
  "upsert_thread sid key url title d =
     (if \<exists>t \<in> set (db_threads d). thread_of_page sid key t
      then ((), snd (update_threads (thread_of_page sid key)
              (\<lambda>t. t\<lparr>t_page_url := set_if_given url (t_page_url t),
                     t_page_title := set_if_given title (t_page_title t)\<rparr>) d))
      else ((), d\<lparr>db_threads := db_threads d @
                    [\<lparr>t_id = db_next_thread d, t_site_id = sid, t_page_key = key, t_page_url = url,
                      t_page_title = title, t_comments_enabled = True,
                      t_created_at = db_clock d, t_updated_at = db_clock d\<rparr>],
                  db_next_thread := db_next_thread d + 1\<rparr>))"

definition GetBySiteAndKey :: "int \<Rightarrow> string \<Rightarrow> thread sql" where
  "GetBySiteAndKey sid key =
     first_or_not_found (\<lambda>d. select_first (thread_of_page sid key) (db_threads d))"

text \<open>
  The driver returns the key of the inserted or updated row with the statement; its row is read
  here from the table the statement left.  The caller uses the key.
\<close>

definition ResolveOrCreate :: "int \<Rightarrow> string \<Rightarrow> string option \<Rightarrow> string option \<Rightarrow> thread sql" where
  "ResolveOrCreate sid key url title =
     bind (sql_write ErrInfra (\<lambda>d.
             let d' = snd (upsert_thread sid key url title d)
             in (select_first (thread_of_page sid key) (db_threads d'), d')))
          (\<lambda>r. lift (option_to_result ErrNotFound r))"

definition GetBySiteAndID :: "int \<Rightarrow> int \<Rightarrow> thread sql" where
  "GetBySiteAndID sid tid =
     first_or_not_found (\<lambda>d. select_first (the_thread sid tid) (db_threads d))"

definition GetBySiteAndIDsLocked :: "int \<Rightarrow> int list \<Rightarrow> thread list sql" where
  "GetBySiteAndIDsLocked sid ids =
     (if ids = [] then ret []
      else sql_query (\<lambda>d. filter (\<lambda>t. t_site_id t = sid \<and> t_id t \<in> set ids) (db_threads d)))"

definition GetBySiteAndKeyLocked :: "int \<Rightarrow> string \<Rightarrow> thread sql" where
  "GetBySiteAndKeyLocked sid key =
     first_or_not_found (\<lambda>d. select_first (thread_of_page sid key) (db_threads d))"

definition GetBySiteAndIDLocked :: "int \<Rightarrow> int \<Rightarrow> thread sql" where
  "GetBySiteAndIDLocked sid tid =
     first_or_not_found (\<lambda>d. select_first (the_thread sid tid) (db_threads d))"

definition apply_thread_patch :: "thread_patch \<Rightarrow> thread \<Rightarrow> thread" where
  "apply_thread_patch p t =
     t\<lparr>t_page_key := (case tp_page_key p of None \<Rightarrow> t_page_key t | Some k \<Rightarrow> k),
       t_page_title := (if tp_clear_page_title p then None
                        else set_if_given (tp_page_title p) (t_page_title t)),
       t_page_url := (if tp_clear_page_url p then None
                      else set_if_given (tp_page_url p) (t_page_url t)),
       t_comments_enabled :=
         (case tp_comments_enabled p of None \<Rightarrow> t_comments_enabled t | Some b \<Rightarrow> b)\<rparr>"

definition empty_patch :: "thread_patch \<Rightarrow> bool" where
  "empty_patch p \<longleftrightarrow> tp_page_key p = None \<and> tp_page_title p = None \<and> \<not> tp_clear_page_title p \<and>
     tp_page_url p = None \<and> \<not> tp_clear_page_url p \<and> tp_comments_enabled p = None"

definition UpdateThread :: "int \<Rightarrow> int \<Rightarrow> thread_patch \<Rightarrow> thread sql" where
  "UpdateThread sid tid p =
     bind (GetBySiteAndID sid tid) (\<lambda>row.
     if empty_patch p then ret row
     else bind (sql_write ErrConflict
                  (update_threads (the_thread sid tid) (apply_thread_patch p))) (\<lambda>_.
          GetBySiteAndID sid tid))"

definition UpdateCommentsEnabledMany :: "int \<Rightarrow> int list \<Rightarrow> bool \<Rightarrow> nat sql" where
  "UpdateCommentsEnabledMany sid ids enabled =
     (if ids = [] then ret 0
      else sql_write ErrInfra (update_threads
             (\<lambda>t. t_site_id t = sid \<and> t_id t \<in> set ids)
             (\<lambda>t. t\<lparr>t_comments_enabled := enabled\<rparr>)))"

definition DeleteThread :: "int \<Rightarrow> int \<Rightarrow> unit sql" where
  "DeleteThread sid tid = write_or_not_found ErrInfra (delete_threads (the_thread sid tid))"

definition DeleteThreads :: "int \<Rightarrow> int list \<Rightarrow> nat sql" where
  "DeleteThreads sid ids =
     (if ids = [] then ret 0
      else sql_write ErrInfra (delete_threads (\<lambda>t. t_site_id t = sid \<and> t_id t \<in> set ids)))"

section \<open>Sites (site.go)\<close>

definition Site_Get :: "int \<Rightarrow> site sql" where
  "Site_Get sid = first_or_not_found (\<lambda>d. select_first (\<lambda>s. s_id s = sid) (db_sites d))"

definition insert_site :: "string \<Rightarrow> string \<Rightarrow> site_status \<Rightarrow> db \<Rightarrow> site \<times> db" where
  "insert_site name url st d =
     (let row = \<lparr>s_id = db_next_site d, s_name = name, s_canonical_url = url, s_status = st,
                 s_created_at = db_clock d, s_updated_at = db_clock d\<rparr>
      in (row, d\<lparr>db_sites := db_sites d @ [row], db_next_site := db_next_site d + 1\<rparr>))"

definition Site_Create :: "string \<Rightarrow> string \<Rightarrow> site_status \<Rightarrow> site sql" where
  "Site_Create name url st = sql_write ErrInfra (insert_site name url st)"

text \<open>
  The zero value of each field means no change; a status has no zero value in the model, so it
  is optional.
\<close>

definition apply_site_update :: "string \<Rightarrow> string \<Rightarrow> site_status option \<Rightarrow> site \<Rightarrow> site" where
  "apply_site_update name url st s =
     s\<lparr>s_name := (if name = '''' then s_name s else name),
       s_canonical_url := (if url = '''' then s_canonical_url s else url),
       s_status := (case st of None \<Rightarrow> s_status s | Some v \<Rightarrow> v)\<rparr>"

definition update_sites :: "(site \<Rightarrow> bool) \<Rightarrow> (site \<Rightarrow> site) \<Rightarrow> db \<Rightarrow> nat \<times> db" where
  "update_sites P f d =
     (count_where P (db_sites d),
      d\<lparr>db_sites := update_where P (\<lambda>s. (f s)\<lparr>s_updated_at := db_clock d\<rparr>) (db_sites d)\<rparr>)"

definition Site_Update :: "int \<Rightarrow> string \<Rightarrow> string \<Rightarrow> site_status option \<Rightarrow> unit sql" where
  "Site_Update sid name url st =
     (if name = '''' \<and> url = '''' \<and> st = None then ret ()
      else write_or_not_found ErrInfra
             (update_sites (\<lambda>s. s_id s = sid) (apply_site_update name url st)))"

definition Site_Delete :: "int \<Rightarrow> unit sql" where
  "Site_Delete sid = write_or_not_found ErrInfra (delete_sites (\<lambda>s. s_id s = sid))"

definition Site_List :: "site list sql" where
  "Site_List = sql_query db_sites"

definition ListOrigins :: "int \<Rightarrow> origin list sql" where
  "ListOrigins sid = sql_query (\<lambda>d. filter (\<lambda>o'. o_site_id o' = sid) (db_origins d))"

definition the_origin :: "int \<Rightarrow> int \<Rightarrow> origin \<Rightarrow> bool" where
  "the_origin sid oid o' \<longleftrightarrow> o_site_id o' = sid \<and> o_id o' = oid"

definition GetOrigin :: "int \<Rightarrow> int \<Rightarrow> origin sql" where
  "GetOrigin sid oid =
     first_or_not_found (\<lambda>d. select_first (the_origin sid oid) (db_origins d))"

definition insert_origin :: "int \<Rightarrow> string \<Rightarrow> db \<Rightarrow> origin \<times> db" where
  "insert_origin sid v d =
     (let row = \<lparr>o_id = db_next_origin d, o_site_id = sid, o_origin = v\<rparr>
      in (row, d\<lparr>db_origins := db_origins d @ [row], db_next_origin := db_next_origin d + 1\<rparr>))"

text \<open>
  A duplicate is \<open>ErrConflict\<close>; the missing site (a foreign key) is a driver error.
\<close>

definition AddOrigin :: "int \<Rightarrow> string \<Rightarrow> origin sql" where
  "AddOrigin sid v =
     stmt ErrInfra (\<lambda>d. checked (if has_site (db_sites d) sid then ErrConflict else ErrInfra)
       (insert_origin sid v d))"

definition UpdateOrigin :: "int \<Rightarrow> int \<Rightarrow> string \<Rightarrow> origin sql" where
  "UpdateOrigin sid oid v =
     bind (GetOrigin sid oid) (\<lambda>row.
     bind (sql_write ErrConflict (\<lambda>d. ((), d\<lparr>db_origins :=
             update_where (the_origin sid oid) (\<lambda>o'. o'\<lparr>o_origin := v\<rparr>) (db_origins d)\<rparr>)))
       (\<lambda>_. ret (row\<lparr>o_origin := v\<rparr>)))"

definition RemoveOrigin :: "int \<Rightarrow> int \<Rightarrow> unit sql" where
  "RemoveOrigin sid oid =
     write_or_not_found ErrInfra (\<lambda>d.
       (count_where (the_origin sid oid) (db_origins d),
        d\<lparr>db_origins := filter (\<lambda>o'. \<not> the_origin sid oid o') (db_origins d)\<rparr>))"

definition AllowedOrigins :: "int \<Rightarrow> string list sql" where
  "AllowedOrigins sid =
     sql_query (\<lambda>d. map o_origin (filter (\<lambda>o'. o_site_id o' = sid \<and>
        (\<exists>s \<in> set (db_sites d). s_id s = sid \<and> s_status s = SiteStatusActive)) (db_origins d)))"

end
