(* ===== verification/Comment_Inv.thy ===== *)
theory Comment_Inv
  imports Comment_Repo Records_Repo
begin

text \<open>
  The invariant of the comment tables: the schema, the life-cycle columns of every row, and the
  shape of the reply tree.  Every statement of the repository that can run inside a comment
  use case preserves it; the use cases inherit it from their statements.
\<close>

section \<open>Life-cycle columns\<close>

text \<open>
  What the four lifecycle columns promise: a row is deleted exactly when it remembers the status
  it had, that status is a live one, the deletion time goes with it, and a published row carries
  its publication time.
\<close>

definition life_ok :: "comment \<Rightarrow> bool" where
  "life_ok c \<longleftrightarrow>
     (c_status c = CommentStatusDeleted \<longleftrightarrow> c_status_before_delete c \<noteq> None) \<and>
     c_status_before_delete c \<noteq> Some CommentStatusDeleted \<and>
     (c_status c = CommentStatusDeleted \<longleftrightarrow> c_deleted_at c \<noteq> None) \<and>
     (c_status c = CommentStatusPublished \<longrightarrow> c_published_at c \<noteq> None)"

definition life_inv :: "db \<Rightarrow> bool" where
  "life_inv d \<longleftrightarrow> (\<forall>c \<in> set (db_comments d). life_ok c)"

section \<open>The reply tree\<close>

text \<open>
  A parent lives in the same thread one level up; a root lives in the same thread somewhere above.
\<close>

definition parent_ok :: "comment list \<Rightarrow> comment \<Rightarrow> bool" where
  "parent_ok cs c = ref_ok (\<lambda>p. \<exists>r \<in> set cs. the_comment (c_site_id c) p r \<and>
     c_thread_id r = c_thread_id c \<and> c_depth c = c_depth r + 1) (c_parent_id c)"

definition root_ok :: "comment list \<Rightarrow> comment \<Rightarrow> bool" where
  "root_ok cs c = ref_ok (\<lambda>p. \<exists>r \<in> set cs. the_comment (c_site_id c) p r \<and>
     c_thread_id r = c_thread_id c \<and> c_depth r < c_depth c) (c_root_id c)"

lemma parent_ok_iff: "parent_ok cs c \<longleftrightarrow> (\<forall>p. c_parent_id c = Some p \<longrightarrow>
     (\<exists>r \<in> set cs. the_comment (c_site_id c) p r \<and> c_thread_id r = c_thread_id c \<and>
        c_depth c = c_depth r + 1))"
  by (auto simp: parent_ok_def ref_ok_def split: option.splits)

lemma root_ok_iff: "root_ok cs c \<longleftrightarrow> (\<forall>p. c_root_id c = Some p \<longrightarrow>
     (\<exists>r \<in> set cs. the_comment (c_site_id c) p r \<and> c_thread_id r = c_thread_id c \<and>
        c_depth r < c_depth c))"
  by (auto simp: root_ok_def ref_ok_def split: option.splits)

definition tree_inv :: "db \<Rightarrow> bool" where
  "tree_inv d \<longleftrightarrow> (\<forall>c \<in> set (db_comments d). parent_ok (db_comments d) c \<and> root_ok (db_comments d) c)"

definition comment_inv :: "db \<Rightarrow> bool" where
  "comment_inv d \<longleftrightarrow> schema_ok d \<and> life_inv d \<and> tree_inv d"

lemma comment_invD:
  "comment_inv d \<Longrightarrow> schema_ok d" "comment_inv d \<Longrightarrow> life_inv d" "comment_inv d \<Longrightarrow> tree_inv d"
  by (simp_all add: comment_inv_def)

section \<open>Updates\<close>

definition keeps_shape :: "(comment \<Rightarrow> comment) \<Rightarrow> bool" where
  "keeps_shape f \<longleftrightarrow> keeps_identity f \<and> (\<forall>c. c_depth (f c) = c_depth c)"

lemma keeps_shape_rows [simp]:
  "keeps_shape (set_status st before published deleted)"
  "keeps_shape (apply_status_target t)"
  "keeps_shape (soft_delete_row now)" "keeps_shape clear_parent" "keeps_shape clear_root"
  "keeps_shape (\<lambda>c. c\<lparr>c_is_pinned := b\<rparr>)" "keeps_shape (\<lambda>c. c\<lparr>c_body_markdown := s\<rparr>)"
  by (simp_all add: keeps_shape_def)
     (simp_all add: set_status_def apply_status_target_def soft_delete_row_def
      clear_parent_def clear_root_def Let_def)

lemma parent_ok_map:
  assumes "keeps_shape g" "parent_ok cs c"
  shows "parent_ok (map g cs) (g c)"
  unfolding parent_ok_iff
proof (intro allI impI)
  fix p assume "c_parent_id (g c) = Some p"
  then have "c_parent_id c = Some p"
    using assms(1) by (metis keeps_identity_def keeps_shape_def option.distinct(1))
  with assms(2) obtain r where "r \<in> set cs" "the_comment (c_site_id c) p r"
    "c_thread_id r = c_thread_id c" "c_depth c = c_depth r + 1"
    by (auto simp: parent_ok_iff)
  with assms(1) show "\<exists>r \<in> set (map g cs). the_comment (c_site_id (g c)) p r \<and>
      c_thread_id r = c_thread_id (g c) \<and> c_depth (g c) = c_depth r + 1"
    by (intro bexI [of _ "g r"]) (auto simp: keeps_shape_def keeps_identity_def the_comment_def)
qed

lemma root_ok_map:
  assumes "keeps_shape g" "root_ok cs c"
  shows "root_ok (map g cs) (g c)"
  unfolding root_ok_iff
proof (intro allI impI)
  fix p assume "c_root_id (g c) = Some p"
  then have "c_root_id c = Some p"
    using assms(1) by (metis keeps_identity_def keeps_shape_def option.distinct(1))
  with assms(2) obtain r where "r \<in> set cs" "the_comment (c_site_id c) p r"
    "c_thread_id r = c_thread_id c" "c_depth r < c_depth c"
    by (auto simp: root_ok_iff)
  with assms(1) show "\<exists>r \<in> set (map g cs). the_comment (c_site_id (g c)) p r \<and>
      c_thread_id r = c_thread_id (g c) \<and> c_depth r < c_depth (g c)"
    by (intro bexI [of _ "g r"]) (auto simp: keeps_shape_def keeps_identity_def the_comment_def)
qed

lemma tree_inv_map:
  "tree_inv d \<Longrightarrow> keeps_shape g \<Longrightarrow> tree_inv (d\<lparr>db_comments := map g (db_comments d)\<rparr>)"
  by (auto simp: tree_inv_def intro: parent_ok_map root_ok_map)

lemma comment_inv_update:
  assumes inv: "comment_inv d" and shape: "keeps_shape f"
    and life: "\<And>c. c \<in> set (db_comments d) \<Longrightarrow> P c \<Longrightarrow> life_ok c \<Longrightarrow> life_ok (f c)"
    and ok: "schema_ok (snd (update_comments P f d))"
  shows "comment_inv (snd (update_comments P f d))"
proof -
  let ?g = "\<lambda>c. if P c then (f c)\<lparr>c_updated_at := db_clock d\<rparr> else c"
  have "keeps_shape ?g"
    using shape by (auto simp: keeps_shape_def keeps_identity_def)
  then have "tree_inv (snd (update_comments P f d))"
    unfolding update_comments_map using inv by (intro tree_inv_map) (auto simp: comment_inv_def)
  moreover have g: "life_ok (?g c)" if "c \<in> set (db_comments d)" for c
    using life [OF that] inv that by (auto simp: comment_inv_def life_inv_def life_ok_def)
  have "life_inv (snd (update_comments P f d))"
    unfolding update_comments_map life_inv_def
  proof
    fix c' assume "c' \<in> set (db_comments (d\<lparr>db_comments := map ?g (db_comments d)\<rparr>))"
    then have "c' \<in> ?g ` set (db_comments d)" by simp
    then obtain c where "c \<in> set (db_comments d)" "c' = ?g c" by blast
    with g show "life_ok c'" by blast
  qed
  ultimately show ?thesis using ok by (simp add: comment_inv_def)
qed

lemma comment_inv_other_tables:
  assumes "comment_inv d" "db_comments d' = db_comments d" "schema_ok d'"
  shows "comment_inv d'"
  using assms by (simp add: comment_inv_def life_inv_def tree_inv_def)

section \<open>Deletions\<close>

lemma clear_reply_to_fields [simp]:
  "c_id (clear_reply_to us c) = c_id c" "c_site_id (clear_reply_to us c) = c_site_id c"
  "c_thread_id (clear_reply_to us c) = c_thread_id c" "c_user_id (clear_reply_to us c) = c_user_id c"
  "c_parent_id (clear_reply_to us c) = c_parent_id c" "c_root_id (clear_reply_to us c) = c_root_id c"
  "c_depth (clear_reply_to us c) = c_depth c" "life_ok (clear_reply_to us c) = life_ok c"
  by (simp_all add: clear_reply_to_def life_ok_def)

lemma comment_inv_fewer:
  assumes inv: "comment_inv d" and ok: "schema_ok d'"
    and sub: "\<And>c'. c' \<in> set (db_comments d') \<Longrightarrow> \<exists>c \<in> set (db_comments d). c' = clear_reply_to us c"
  shows "comment_inv d'"
proof -
  have life: "life_inv d'"
    using inv sub by (fastforce simp: comment_inv_def life_inv_def)
  have same: "\<exists>r' \<in> set (db_comments d'). the_comment s p r' \<and> r' = clear_reply_to us r"
    if "has_comment (db_comments d') s p" "r \<in> set (db_comments d)" "the_comment s p r" for s p r
  proof -
    from that(1) obtain r' where r': "r' \<in> set (db_comments d')" "the_comment s p r'"
      by (auto simp: has_comment_def the_comment_def)
    then obtain r0 where r0: "r0 \<in> set (db_comments d)" "r' = clear_reply_to us r0"
      using sub by blast
    then have "c_id r0 = c_id r" using r' that(3) by (simp add: the_comment_def)
    then have "r0 = r" using schema_ok_same_id [OF comment_invD(1) [OF inv] r0(1) that(2)] by simp
    with r' r0 show ?thesis by blast
  qed
  have "parent_ok (db_comments d') c' \<and> root_ok (db_comments d') c'"
    if c': "c' \<in> set (db_comments d')" for c'
  proof -
    obtain c where c: "c \<in> set (db_comments d)" "c' = clear_reply_to us c" using sub [OF c'] by blast
    have refs: "comment_refs_ok (db_users d') (db_threads d') (db_comments d') c'"
      using ok c' by (simp add: schema_ok_def refs_ok_def)
    have tree: "parent_ok (db_comments d) c" "root_ok (db_comments d) c"
      using inv c(1) by (simp_all add: comment_inv_def tree_inv_def)
    have "parent_ok (db_comments d') c'"
      unfolding parent_ok_iff
    proof (intro allI impI)
      fix p assume p: "c_parent_id c' = Some p"
      then have here: "has_comment (db_comments d') (c_site_id c') p"
        using refs by (simp add: comment_refs_ok_def ref_ok_def)
      from tree(1) p c(2) obtain r where r: "r \<in> set (db_comments d)"
        "the_comment (c_site_id c') p r" "c_thread_id r = c_thread_id c'" "c_depth c' = c_depth r + 1"
        by (auto simp: parent_ok_iff)
      from same [OF here r(1,2)] r(3,4) show "\<exists>r \<in> set (db_comments d').
          the_comment (c_site_id c') p r \<and> c_thread_id r = c_thread_id c' \<and> c_depth c' = c_depth r + 1"
        by fastforce
    qed
    moreover have "root_ok (db_comments d') c'"
      unfolding root_ok_iff
    proof (intro allI impI)
      fix p assume p: "c_root_id c' = Some p"
      then have here: "has_comment (db_comments d') (c_site_id c') p"
        using refs by (simp add: comment_refs_ok_def ref_ok_def)
      from tree(2) p c(2) obtain r where r: "r \<in> set (db_comments d)"
        "the_comment (c_site_id c') p r" "c_thread_id r = c_thread_id c'" "c_depth r < c_depth c'"
        by (auto simp: root_ok_iff)
      from same [OF here r(1,2)] r(3,4) show "\<exists>r \<in> set (db_comments d').
          the_comment (c_site_id c') p r \<and> c_thread_id r = c_thread_id c' \<and> c_depth r < c_depth c'"
        by fastforce
    qed
    ultimately show ?thesis ..
  qed
  with life ok show ?thesis by (simp add: comment_inv_def tree_inv_def)
qed

lemma cascade_comments:
  "db_comments (cascade d) = map (clear_reply_to (db_users d))
     (sweep_comments (db_users d) (filter (\<lambda>t. has_site (db_sites d) (t_site_id t)) (db_threads d))
        (db_comments d))"
  by (simp add: cascade_def Let_def)

lemma comment_inv_cascade:
  assumes "comment_inv d" "set (db_comments d0) \<subseteq> set (db_comments d)" "schema_ok (cascade d0)"
  shows "comment_inv (cascade d0)"
proof (rule comment_inv_fewer [OF assms(1,3), of "db_users d0"])
  fix c' assume "c' \<in> set (db_comments (cascade d0))"
  then show "\<exists>c \<in> set (db_comments d). c' = clear_reply_to (db_users d0) c"
    using sweep_comments_subset assms(2) unfolding cascade_comments by fastforce
qed

lemma comment_inv_deletes:
  assumes "comment_inv d"
  shows "schema_ok (snd (delete_comments P d)) \<Longrightarrow> comment_inv (snd (delete_comments P d))"
    "schema_ok (snd (delete_threads Q d)) \<Longrightarrow> comment_inv (snd (delete_threads Q d))"
    "schema_ok (snd (delete_sites R d)) \<Longrightarrow> comment_inv (snd (delete_sites R d))"
    "schema_ok (snd (delete_users S d)) \<Longrightarrow> comment_inv (snd (delete_users S d))"
  using assms
  by (auto simp: delete_comments_def delete_threads_def delete_sites_def delete_users_def Let_def
      intro!: comment_inv_cascade)

section \<open>The statements\<close>

lemma life_ok_rows [simp]:
  "life_ok c \<Longrightarrow> life_ok (clear_parent c)" "life_ok c \<Longrightarrow> life_ok (clear_root c)"
  "life_ok c \<Longrightarrow> life_ok (c\<lparr>c_is_pinned := b\<rparr>)" "life_ok c \<Longrightarrow> life_ok (c\<lparr>c_body_markdown := s\<rparr>)"
  "life_ok c \<Longrightarrow> soft_deletable uids c \<Longrightarrow> life_ok (soft_delete_row now c)"
  by (auto simp: life_ok_def clear_parent_def clear_root_def soft_delete_row_def soft_deletable_def)

text \<open>The lifecycle values of a status write are consistent among themselves.\<close>

definition life_values ::
  "comment_status \<Rightarrow> comment_status option \<Rightarrow> int option \<Rightarrow> int option \<Rightarrow> bool" where
  "life_values st before published deleted \<longleftrightarrow>
     (st = CommentStatusDeleted \<longleftrightarrow> before \<noteq> None) \<and> before \<noteq> Some CommentStatusDeleted \<and>
     (st = CommentStatusDeleted \<longleftrightarrow> deleted \<noteq> None) \<and>
     (st = CommentStatusPublished \<longrightarrow> published \<noteq> None)"

lemma life_ok_set_status [simp]:
  "life_ok (set_status st before published deleted c) = life_values st before published deleted"
  by (simp add: life_ok_def set_status_def life_values_def)

lemma life_ok_values:
  "life_ok c = life_values (c_status c) (c_status_before_delete c) (c_published_at c) (c_deleted_at c)"
  by (simp add: life_ok_def life_values_def)

lemma preserves_UpdateStatus [preserves_intros]:
  "life_values st before published deleted \<Longrightarrow>
     preserves comment_inv (UpdateStatus sid cid st before published deleted)"
  by (auto simp: UpdateStatus_def intro!: preserves_intros comment_inv_update)

lemma preserves_statements [preserves_intros]:
  "preserves comment_inv (FindBySiteAndID sid cid)" "preserves comment_inv (FindGlobalByID cid)"
  "preserves comment_inv (FindBySiteAndIDLocked sid cid)"
  "preserves comment_inv (FindGlobalByIDsLocked ids)"
  "preserves comment_inv (UpdateBody sid cid body)"
  "preserves comment_inv (SetPinned sid cid b)" "preserves comment_inv (SetPinnedMany ts b)"
  "preserves comment_inv (DetachCommentChildren sid cid)"
  "preserves comment_inv (DetachCommentChildrenMany ts)"
  "preserves comment_inv (HardDelete sid cid)" "preserves comment_inv (HardDeleteMany ts)"
  "preserves comment_inv (SoftDeleteByUser uid now)"
  "preserves comment_inv (SoftDeleteByUsers uids now)"
  "preserves comment_inv (DetachUserCommentChildren uid)"
  "preserves comment_inv (DetachUserCommentChildrenMany uids)"
  by (auto simp: FindBySiteAndID_def FindGlobalByID_def FindBySiteAndIDLocked_def
      FindGlobalByIDsLocked_def UpdateBody_def SetPinned_def SetPinnedMany_def
      DetachCommentChildren_def DetachCommentChildrenMany_def HardDelete_def HardDeleteMany_def
      SoftDeleteByUser_def SoftDeleteByUsers_def DetachUserCommentChildren_def
      DetachUserCommentChildrenMany_def detach_users_def
      intro!: preserves_intros comment_inv_update comment_inv_deletes)

lemma preserves_likes [preserves_intros]:
  "preserves comment_inv (AddLike sid cid uid)" "preserves comment_inv (RemoveLike sid cid uid)"
  by (auto simp: AddLike_def RemoveLike_def requirePublishedComment_def likeCount_def
      insert_like_def delete_like_def intro!: preserves_intros split: if_splits
      elim: comment_inv_other_tables)

lemma preserves_threads [preserves_intros]:
  "preserves comment_inv (GetBySiteAndKey sid key)"
  "preserves comment_inv (GetBySiteAndID sid tid)"
  "preserves comment_inv (GetBySiteAndKeyLocked sid key)"
  "preserves comment_inv (GetBySiteAndIDLocked sid tid)"
  "preserves comment_inv (GetBySiteAndIDsLocked sid ids)"
  "preserves comment_inv (ResolveOrCreate sid key url title)"
  "preserves comment_inv (UpdateThread sid tid p)"
  "preserves comment_inv (UpdateCommentsEnabledMany sid ids b)"
  "preserves comment_inv (DeleteThread sid tid)" "preserves comment_inv (DeleteThreads sid ids)"
  by (auto simp: GetBySiteAndKey_def GetBySiteAndID_def GetBySiteAndKeyLocked_def
      GetBySiteAndIDLocked_def GetBySiteAndIDsLocked_def ResolveOrCreate_def UpdateThread_def
      UpdateCommentsEnabledMany_def DeleteThread_def DeleteThreads_def upsert_thread_def
      update_threads_def Let_def
      intro!: preserves_intros comment_inv_deletes elim: comment_inv_other_tables split: if_splits)

lemma preserves_users [preserves_intros]:
  "preserves comment_inv (FindByID uid)" "preserves comment_inv (FindByEmailNormalized e)"
  "preserves comment_inv (User_Create u)" "preserves comment_inv (UpdateProfile uid n web)"
  by (auto simp: FindByID_def FindByEmailNormalized_def User_Create_def UpdateProfile_def
      insert_user_def update_users_def Let_def
      intro!: preserves_intros elim: comment_inv_other_tables)

lemma preserves_sites [preserves_intros]:
  "preserves comment_inv (Site_Get sid)" "preserves comment_inv (Site_Create name url st)"
  "preserves comment_inv (Site_Update sid name url st')" "preserves comment_inv (Site_Delete sid)"
  "preserves comment_inv (AllowedOrigins sid)" "preserves comment_inv Site_List"
  "preserves comment_inv (ListOrigins sid)" "preserves comment_inv (RemoveOrigin sid oid)"
  "preserves comment_inv (UpdateOrigin sid oid v)"
  by (auto simp: Site_Get_def Site_Create_def Site_Update_def Site_Delete_def AllowedOrigins_def
      Site_List_def ListOrigins_def RemoveOrigin_def UpdateOrigin_def GetOrigin_def
      insert_site_def update_sites_def Let_def
      intro!: preserves_intros comment_inv_deletes elim: comment_inv_other_tables)

end
