(* ===== verification/Comment_View.thy ===== *)
theory Comment_View
  imports Comment_Inv
begin

text \<open>
  The views a comment is returned as (\<open>internal/service/comment/types.go\<close>,
  \<open>create.go\<close>, \<open>moderation.go\<close>).  \<open>avatar\<close> stands for \<open>gravatar.URL\<close>
  (a SHA-256 digest joined to the configured base) and \<open>settings\<close> for the answer of
  \<open>SettingsReader.CommentPolicy\<close>.
\<close>

type_synonym settings = "error + comment_policy"
type_synonym avatar = "string \<Rightarrow> string \<Rightarrow> string"

record comment_view =
  cv_id :: int
  cv_site_id :: int
  cv_thread_id :: int
  cv_user_id :: int
  cv_parent_id :: "int option"
  cv_root_id :: "int option"
  cv_depth :: int
  cv_body_markdown :: string
  cv_status :: comment_status
  cv_status_before_delete :: "comment_status option"
  cv_is_pinned :: bool
  cv_author_nickname :: string
  cv_author_website :: "string option"
  cv_author_role :: role
  cv_author_avatar_url :: string
  cv_reply_to_user_id :: "int option"
  cv_reply_to_nickname :: "string option"
  cv_created_at :: int
  cv_published_at :: "int option"
  cv_deleted_at :: "int option"
  cv_like_count :: nat
  cv_liked_by_me :: bool

record admin_comment_view =
  av_view :: comment_view
  av_page_title :: "string option"
  av_page_url :: "string option"
  av_email :: string
  av_ip_mode :: string
  av_ip_value :: "string option"
  av_ua_mode :: string
  av_ua_raw :: "string option"
  av_ua_browser :: "string option"
  av_ua_os :: "string option"
  av_ua_device :: "string option"

definition toCommentView ::
  "comment \<Rightarrow> string \<Rightarrow> string option \<Rightarrow> role \<Rightarrow> string \<Rightarrow> comment_view" where
  "toCommentView c nickname website r avatar_url =
     \<lparr>cv_id = c_id c, cv_site_id = c_site_id c, cv_thread_id = c_thread_id c,
      cv_user_id = c_user_id c, cv_parent_id = c_parent_id c, cv_root_id = c_root_id c,
      cv_depth = c_depth c, cv_body_markdown = c_body_markdown c, cv_status = c_status c,
      cv_status_before_delete = c_status_before_delete c, cv_is_pinned = c_is_pinned c,
      cv_author_nickname = nickname, cv_author_website = website,
      cv_author_role = r, cv_author_avatar_url = avatar_url,
      cv_reply_to_user_id = c_reply_to_user_id c, cv_reply_to_nickname = None,
      cv_created_at = c_created_at c, cv_published_at = c_published_at c,
      cv_deleted_at = c_deleted_at c, cv_like_count = 0, cv_liked_by_me = False\<rparr>"

definition toCommentViewWithReply ::
  "comment \<Rightarrow> string \<Rightarrow> string option \<Rightarrow> role \<Rightarrow> string \<Rightarrow> string option \<Rightarrow> nat \<Rightarrow> bool \<Rightarrow>
     comment_view" where
  "toCommentViewWithReply c nickname website r avatar_url reply_nickname likes liked =
     (toCommentView c nickname website r avatar_url)
       \<lparr>cv_reply_to_nickname := reply_nickname, cv_like_count := likes, cv_liked_by_me := liked\<rparr>"

definition avatarBaseURL :: "settings \<Rightarrow> string sql" where
  "avatarBaseURL settings = lift (bindE settings (\<lambda>pol. Inr (pol_gravatar_base_url pol)))"

text \<open>A missing reply target yields no nickname; every other error is returned.\<close>

definition replyToNickname :: "comment \<Rightarrow> string option sql" where
  "replyToNickname c =
     (case c_reply_to_user_id c of
        None \<Rightarrow> ret None
      | Some uid \<Rightarrow>
          sql_query (\<lambda>d. map_option u_nickname (select_first (\<lambda>u. u_id u = uid) (db_users d))))"

definition viewFor :: "avatar \<Rightarrow> settings \<Rightarrow> comment \<Rightarrow> comment_view sql" where
  "viewFor avatar settings c =
     bind (FindByID (c_user_id c)) (\<lambda>u.
     bind (avatarBaseURL settings) (\<lambda>base.
     bind (replyToNickname c) (\<lambda>nick.
     ret ((toCommentView c (u_nickname u) (u_website_url u) (u_role u)
             (avatar (u_email_normalized u) base))\<lparr>cv_reply_to_nickname := nick\<rparr>))))"

definition adminViewFor :: "avatar \<Rightarrow> settings \<Rightarrow> comment \<Rightarrow> admin_comment_view sql" where
  "adminViewFor avatar settings c =
     bind (FindByID (c_user_id c)) (\<lambda>u.
     bind (GetBySiteAndID (c_site_id c) (c_thread_id c)) (\<lambda>t.
     bind (avatarBaseURL settings) (\<lambda>base.
     bind (replyToNickname c) (\<lambda>nick.
     ret \<lparr>av_view = (toCommentView c (u_nickname u) (u_website_url u) (u_role u)
                        (avatar (u_email_normalized u) base))\<lparr>cv_reply_to_nickname := nick\<rparr>,
          av_page_title = t_page_title t, av_page_url = t_page_url t, av_email = u_email u,
          av_ip_mode = c_ip_mode c, av_ip_value = c_ip_value c, av_ua_mode = c_ua_mode c,
          av_ua_raw = c_ua_raw c, av_ua_browser = c_ua_browser c, av_ua_os = c_ua_os c,
          av_ua_device = c_ua_device c\<rparr>))))"

lemma preserves_views [preserves_intros]:
  "preserves I (avatarBaseURL settings)" "preserves I (replyToNickname c)"
  "preserves I (viewFor avatar settings c)" "preserves I (adminViewFor avatar settings c)"
  by (auto simp: avatarBaseURL_def replyToNickname_def viewFor_def adminViewFor_def FindByID_def
      GetBySiteAndID_def intro!: preserves_intros)

text \<open>Building a view is read-only, for every outcome.\<close>

definition read_only :: "'a sql \<Rightarrow> bool" where
  "read_only m \<longleftrightarrow> (\<forall>d. preserves (\<lambda>d'. d' = d) m)"

lemma read_only_data: "read_only m \<Longrightarrow> m w = (r, w') \<Longrightarrow> data w' = data w"
  by (auto simp: read_only_def preserves_def)

lemma read_only_views:
  "read_only (viewFor avatar settings c)" "read_only (adminViewFor avatar settings c)"
  by (auto simp: read_only_def intro: preserves_intros)

end
