(* ===== verification/Moderation.thy ===== *)
theory Moderation
  imports Comment_View
begin

text \<open>
  The moderation state machine of \<open>internal/service/comment/moderation.go\<close>, pinning
  (\<open>pinning.go\<close>) and single deletions (\<open>deletion.go\<close>).
\<close>

section \<open>Transitions\<close>

datatype admin_action = actionPublish | actionSpam | actionSoftDelete | actionRestore | actionPending

fun canTransition :: "comment_status \<Rightarrow> comment_status \<Rightarrow> bool" where
  "canTransition src dst =
     (if src = dst then False
      else case dst of
        CommentStatusPending \<Rightarrow> True
      | CommentStatusPublished \<Rightarrow> True
      | CommentStatusSpam \<Rightarrow> True
      | CommentStatusDeleted \<Rightarrow>
          src = CommentStatusPending \<or> src = CommentStatusPublished \<or> src = CommentStatusSpam)"

declare canTransition.simps [simp del]

lemma canTransition_iff: "canTransition src dst \<longleftrightarrow> src \<noteq> dst"
  by (cases src; cases dst) (simp_all add: canTransition.simps)

definition applyAdminTransition :: "comment \<Rightarrow> admin_action \<Rightarrow> int \<Rightarrow> bool sql" where
  "applyAdminTransition c action now =
     (let upd = (\<lambda>st before published deleted.
                   bind (UpdateStatus (c_site_id c) (c_id c) st before published deleted)
                     (\<lambda>_. ret True))
      in case action of
        actionPublish \<Rightarrow>
          if \<not> canTransition (c_status c) CommentStatusPublished then fail ErrConflict
          else upd CommentStatusPublished None (Some now) None
      | actionPending \<Rightarrow>
          if \<not> canTransition (c_status c) CommentStatusPending then fail ErrConflict
          else upd CommentStatusPending None None None
      | actionSpam \<Rightarrow>
          if \<not> canTransition (c_status c) CommentStatusSpam then fail ErrConflict
          else upd CommentStatusSpam None (c_published_at c) None
      | actionSoftDelete \<Rightarrow>
          if \<not> canTransition (c_status c) CommentStatusDeleted then fail ErrConflict
          else upd CommentStatusDeleted (Some (c_status c)) (c_published_at c) (Some now)
      | actionRestore \<Rightarrow>
          (case c_status_before_delete c of
             None \<Rightarrow> fail ErrConflict
           | Some target \<Rightarrow>
               if c_status c \<noteq> CommentStatusDeleted then fail ErrConflict
               else upd target None
                      (if target = CommentStatusPublished then Some now else None) None))"

definition adminTransition :: "int \<Rightarrow> int \<Rightarrow> admin_action \<Rightarrow> comment sql" where
  "adminTransition now cid action =
     bind (FindGlobalByID cid) (\<lambda>c.
     bind (applyAdminTransition c action now) (\<lambda>_.
     FindGlobalByID cid))"

section \<open>Commands\<close>

definition comment_event :: "comment_event_type \<Rightarrow> comment \<Rightarrow> string \<Rightarrow> comment_event" where
  "comment_event ty c mode =
     \<lparr>ev_type = ty, ev_site_id = c_site_id c, ev_thread_id = c_thread_id c, ev_comment_id = c_id c,
      ev_user_id = c_user_id c, ev_parent_id = c_parent_id c, ev_mode = mode\<rparr>"

definition publishCommentCreated :: "comment \<Rightarrow> string \<Rightarrow> unit sql" where
  "publishCommentCreated c mode = emit (comment_event TypeCommentCreated c mode)"

definition publishCommentPublished :: "comment \<Rightarrow> string \<Rightarrow> unit sql" where
  "publishCommentPublished c mode = emit (comment_event TypeCommentPublished c mode)"

definition AdminGet :: "avatar \<Rightarrow> settings \<Rightarrow> int \<Rightarrow> admin_comment_view sql" where
  "AdminGet avatar settings cid =
     bind (FindGlobalByID cid) (\<lambda>c. adminViewFor avatar settings c)"

definition AdminPublish :: "avatar \<Rightarrow> settings \<Rightarrow> int \<Rightarrow> int \<Rightarrow> admin_comment_view sql" where
  "AdminPublish avatar settings now cid =
     bind (adminTransition now cid actionPublish) (\<lambda>c.
     bind (lift settings) (\<lambda>pol.
     bind (if pol_moderation pol = ModerationReview
           then publishCommentPublished c (pol_mode pol) else ret ()) (\<lambda>_.
     adminViewFor avatar settings c)))"

definition AdminMarkSpam :: "avatar \<Rightarrow> settings \<Rightarrow> int \<Rightarrow> int \<Rightarrow> admin_comment_view sql" where
  "AdminMarkSpam avatar settings now cid =
     bind (adminTransition now cid actionSpam) (\<lambda>c. adminViewFor avatar settings c)"

definition AdminPending :: "avatar \<Rightarrow> settings \<Rightarrow> int \<Rightarrow> int \<Rightarrow> admin_comment_view sql" where
  "AdminPending avatar settings now cid =
     bind (adminTransition now cid actionPending) (\<lambda>c. adminViewFor avatar settings c)"

definition AdminRestore :: "avatar \<Rightarrow> settings \<Rightarrow> int \<Rightarrow> int \<Rightarrow> admin_comment_view sql" where
  "AdminRestore avatar settings now cid =
     bind (adminTransition now cid actionRestore) (\<lambda>c. adminViewFor avatar settings c)"

text \<open>The body check is \<open>validateBody\<close>; it is passed as its outcome.\<close>

definition AdminEditBody ::
  "avatar \<Rightarrow> settings \<Rightarrow> (string \<Rightarrow> error + unit) \<Rightarrow> int \<Rightarrow> string \<Rightarrow> admin_comment_view sql" where
  "AdminEditBody avatar settings validate_body cid body =
     bind (lift (validate_body body)) (\<lambda>_.
     bind (FindGlobalByID cid) (\<lambda>c.
     bind (UpdateBody (c_site_id c) cid body) (\<lambda>_.
     bind (FindGlobalByID cid) (\<lambda>c'.
     adminViewFor avatar settings c'))))"

section \<open>Pinning (pinning.go)\<close>

definition validatePinTarget :: "comment \<Rightarrow> bool \<Rightarrow> error + unit" where
  "validatePinTarget c pinned =
     (if c_parent_id c \<noteq> None \<or> c_root_id c \<noteq> None \<or> c_depth c \<noteq> 0 then Inl ErrConflict
      else if pinned \<and> c_status c \<noteq> CommentStatusPublished then Inl ErrConflict
      else Inr ())"

definition AdminSetPinned :: "avatar \<Rightarrow> settings \<Rightarrow> int \<Rightarrow> bool \<Rightarrow> admin_comment_view sql" where
  "AdminSetPinned avatar settings cid pinned =
     bind (FindGlobalByID cid) (\<lambda>c.
     bind (lift (validatePinTarget c pinned)) (\<lambda>_.
     bind (SetPinned (c_site_id c) (c_id c) pinned) (\<lambda>c'.
     adminViewFor avatar settings c')))"

definition WidgetSetPinned :: "principal \<Rightarrow> int \<Rightarrow> int \<Rightarrow> bool \<Rightarrow> (int \<times> bool) sql" where
  "WidgetSetPinned pr sid cid pinned =
     (if p_status pr \<noteq> UserStatusActive \<or> p_role pr \<noteq> RoleAdmin then fail ErrForbidden
      else bind (FindBySiteAndID sid cid) (\<lambda>c.
           bind (lift (validatePinTarget c pinned)) (\<lambda>_.
           bind (SetPinned sid cid pinned) (\<lambda>c'.
           ret (c_id c', c_is_pinned c')))))"

section \<open>Deletion (deletion.go, batch.go)\<close>

record delete_result =
  dr_deleted_root_id :: int
  dr_hard :: bool

definition hardDeleteInCurrentTx :: "int \<Rightarrow> int \<Rightarrow> unit sql" where
  "hardDeleteInCurrentTx sid cid =
     bind (DetachCommentChildren sid cid) (\<lambda>_. HardDelete sid cid)"

definition hardDeleteOne :: "int \<Rightarrow> int \<Rightarrow> unit sql" where
  "hardDeleteOne sid cid = atomically ErrInfra (hardDeleteInCurrentTx sid cid)"

definition softDeleteOne :: "int \<Rightarrow> int \<Rightarrow> comment \<Rightarrow> unit sql" where
  "softDeleteOne now sid c =
     UpdateStatus sid (c_id c) CommentStatusDeleted (Some (c_status c)) (c_published_at c) (Some now)"

definition DeleteByOwner :: "settings \<Rightarrow> int \<Rightarrow> int \<Rightarrow> int \<Rightarrow> int option \<Rightarrow> delete_result sql" where
  "DeleteByOwner settings now actor cid want_site =
     bind (FindGlobalByID cid) (\<lambda>c.
     if want_site \<noteq> None \<and> want_site \<noteq> Some (c_site_id c) then fail ErrNotFound
     else if c_user_id c \<noteq> actor then fail ErrForbidden
     else if c_status c = CommentStatusDeleted then fail ErrConflict
     else bind (lift settings) (\<lambda>pol.
       if pol_user_delete_mode pol = UserDeleteModeHard
       then bind (hardDeleteOne (c_site_id c) cid)
              (\<lambda>_. ret \<lparr>dr_deleted_root_id = cid, dr_hard = True\<rparr>)
       else bind (softDeleteOne now (c_site_id c) c)
              (\<lambda>_. ret \<lparr>dr_deleted_root_id = cid, dr_hard = False\<rparr>)))"

definition AdminDelete :: "int \<Rightarrow> int \<Rightarrow> bool \<Rightarrow> bool \<Rightarrow> delete_result sql" where
  "AdminDelete now cid hard confirm =
     (if hard \<and> \<not> confirm then fail ErrConfirmationRequired
      else bind (FindGlobalByID cid) (\<lambda>c.
        if hard
        then bind (hardDeleteOne (c_site_id c) cid)
               (\<lambda>_. ret \<lparr>dr_deleted_root_id = cid, dr_hard = True\<rparr>)
        else if c_status c = CommentStatusDeleted then fail ErrConflict
        else bind (softDeleteOne now (c_site_id c) c)
               (\<lambda>_. ret \<lparr>dr_deleted_root_id = cid, dr_hard = False\<rparr>)))"

definition SoftDeleteUserComments :: "int \<Rightarrow> int \<Rightarrow> unit sql" where
  "SoftDeleteUserComments now uid = SoftDeleteByUser uid now"

definition SoftDeleteUsersComments :: "int \<Rightarrow> int list \<Rightarrow> unit sql" where
  "SoftDeleteUsersComments now uids = bind (SoftDeleteByUsers uids now) (\<lambda>_. ret ())"

definition PrepareUserHardDelete :: "int \<Rightarrow> unit sql" where
  "PrepareUserHardDelete uid = DetachUserCommentChildren uid"

definition PrepareUsersHardDelete :: "int list \<Rightarrow> unit sql" where
  "PrepareUsersHardDelete uids = DetachUserCommentChildrenMany uids"

section \<open>Likes (like.go)\<close>

definition LikeComment :: "int \<Rightarrow> int \<Rightarrow> int \<Rightarrow> like_result sql" where
  "LikeComment sid cid uid = AddLike sid cid uid"

definition UnlikeComment :: "int \<Rightarrow> int \<Rightarrow> int \<Rightarrow> like_result sql" where
  "UnlikeComment sid cid uid = RemoveLike sid cid uid"

section \<open>The life cycle of a comment\<close>

text \<open>
  The abstract machine: a comment is live with a status or in the bin with the status it
  comes back to.
\<close>

datatype lifecycle = Live comment_status | Binned comment_status

definition lifecycle_of :: "comment \<Rightarrow> lifecycle" where
  "lifecycle_of c = (case c_status_before_delete c of None \<Rightarrow> Live (c_status c) | Some s \<Rightarrow> Binned s)"

fun lifecycle_step :: "admin_action \<Rightarrow> lifecycle \<Rightarrow> lifecycle option" where
  "lifecycle_step actionPublish s =
     (if s = Live CommentStatusPublished then None else Some (Live CommentStatusPublished))"
| "lifecycle_step actionPending s =
     (if s = Live CommentStatusPending then None else Some (Live CommentStatusPending))"
| "lifecycle_step actionSpam s =
     (if s = Live CommentStatusSpam then None else Some (Live CommentStatusSpam))"
| "lifecycle_step actionSoftDelete (Live s) = Some (Binned s)"
| "lifecycle_step actionSoftDelete (Binned s) = None"
| "lifecycle_step actionRestore (Live s) = None"
| "lifecycle_step actionRestore (Binned s) = Some (Live s)"

text \<open>The row an accepted transition writes.\<close>

definition transition_row :: "admin_action \<Rightarrow> int \<Rightarrow> comment \<Rightarrow> comment" where
  "transition_row action now c =
     (case action of
        actionPublish \<Rightarrow> set_status CommentStatusPublished None (Some now) None c
      | actionPending \<Rightarrow> set_status CommentStatusPending None None None c
      | actionSpam \<Rightarrow> set_status CommentStatusSpam None (c_published_at c) None c
      | actionSoftDelete \<Rightarrow>
          set_status CommentStatusDeleted (Some (c_status c)) (c_published_at c) (Some now) c
      | actionRestore \<Rightarrow>
          (case c_status_before_delete c of
             None \<Rightarrow> c
           | Some s \<Rightarrow> set_status s None
                         (if s = CommentStatusPublished then Some now else None) None c))"

lemma lifecycle_cases:
  assumes "life_ok c"
  obtains (live) "lifecycle_of c = Live (c_status c)" "c_status_before_delete c = None"
      "c_status c \<noteq> CommentStatusDeleted"
  | (binned) s where "lifecycle_of c = Binned s" "c_status_before_delete c = Some s"
      "c_status c = CommentStatusDeleted" "s \<noteq> CommentStatusDeleted"
  using assms that
  by (cases "c_status_before_delete c") (auto simp: life_ok_def lifecycle_of_def)

lemma transition_row_life:
  assumes "life_ok c" "lifecycle_step action (lifecycle_of c) = Some s'"
  shows "life_ok (transition_row action now c)" "lifecycle_of (transition_row action now c) = s'"
  using assms(1)
  by (cases rule: lifecycle_cases;
      use assms in \<open>cases action; auto simp: transition_row_def set_status_def life_ok_def
        lifecycle_of_def split: if_splits\<close>)+

lemma applyAdminTransition_eq:
  assumes "life_ok c"
  shows "applyAdminTransition c action now =
     (if lifecycle_step action (lifecycle_of c) = None then fail ErrConflict
      else bind (write_or_not_found ErrInfra (update_comments (the_comment (c_site_id c) (c_id c))
             (\<lambda>r. set_status (c_status (transition_row action now c))
                    (c_status_before_delete (transition_row action now c))
                    (c_published_at (transition_row action now c))
                    (c_deleted_at (transition_row action now c)) r)))
           (\<lambda>_. ret True))"
  using assms
  by (cases rule: lifecycle_cases;
      cases action; auto simp: applyAdminTransition_def canTransition_iff transition_row_def
        UpdateStatus_def set_status_def Let_def)

section \<open>Rows by key\<close>

definition put_comment :: "comment \<Rightarrow> db \<Rightarrow> db" where
  "put_comment c' d =
     d\<lparr>db_comments := map (\<lambda>r. if c_id r = c_id c' then c' else r) (db_comments d)\<rparr>"

lemma find_by_id:
  assumes "schema_ok d"
  shows "select_first (\<lambda>r. c_id r = cid) (db_comments d) = Some c \<longleftrightarrow>
     c \<in> set (db_comments d) \<and> c_id c = cid"
  using assms find_comment(1) [of d c] by (auto dest: select_first_Some)

lemma update_one:
  assumes "schema_ok d" "c \<in> set (db_comments d)" "sid = c_site_id c" "cid = c_id c"
    "\<And>r. c_id (f r) = c_id r"
  shows "snd (update_comments (the_comment sid cid) f d) =
      put_comment ((f c)\<lparr>c_updated_at := db_clock d\<rparr>) d"
    "fst (update_comments (the_comment sid cid) f d) \<noteq> 0"
proof -
  have "the_comment sid cid r \<longleftrightarrow> c_id r = c_id c" if "r \<in> set (db_comments d)" for r
    using assms that schema_ok_same_id [OF assms(1) that assms(2)] by (auto simp: the_comment_def)
  moreover have "r = c" if "r \<in> set (db_comments d)" "c_id r = c_id c" for r
    using assms that schema_ok_same_id [OF assms(1) that(1) assms(2)] by simp
  ultimately show "snd (update_comments (the_comment sid cid) f d) =
      put_comment ((f c)\<lparr>c_updated_at := db_clock d\<rparr>) d"
    unfolding update_comments_map put_comment_def
    by (intro arg_cong [of _ _ "\<lambda>x. db_comments_update (\<lambda>_. x) d"] map_cong refl)
       (auto simp: assms(5))
  show "fst (update_comments (the_comment sid cid) f d) \<noteq> 0"
    using assms by (simp add: update_comments_def count_where_pos the_comment_def)
qed

lemma put_comment_self [simp]:
  "c \<in> set (db_comments d) \<Longrightarrow> c_id c' = c_id c \<Longrightarrow> c' \<in> set (db_comments (put_comment c' d))"
  by (auto simp: put_comment_def image_iff)

lemma transition_row_id [simp]: "c_id (transition_row action now c) = c_id c"
  by (simp add: transition_row_def set_status_def split: admin_action.splits option.splits)

text \<open>The row a transition leaves, time stamp included.\<close>

definition moved :: "admin_action \<Rightarrow> int \<Rightarrow> db \<Rightarrow> comment \<Rightarrow> comment" where
  "moved action now d c = (transition_row action now c)\<lparr>c_updated_at := db_clock d\<rparr>"

lemma moved_id [simp]: "c_id (moved action now d c) = c_id c"
  by (simp add: moved_def)

lemma life_touch [simp]:
  "life_ok (c\<lparr>c_updated_at := t\<rparr>) = life_ok c"
  "lifecycle_of (c\<lparr>c_updated_at := t\<rparr>) = lifecycle_of c"
  by (simp_all add: life_ok_def lifecycle_of_def split: option.splits)

lemma moved_life:
  assumes "life_ok c" "lifecycle_step action (lifecycle_of c) = Some s'"
  shows "life_ok (moved action now d c)" "lifecycle_of (moved action now d c) = s'"
  using transition_row_life [OF assms, of now]
  by (simp_all add: moved_def)

definition status_row :: "admin_action \<Rightarrow> int \<Rightarrow> comment \<Rightarrow> comment \<Rightarrow> comment" where
  "status_row action now c r = set_status (c_status (transition_row action now c))
     (c_status_before_delete (transition_row action now c))
     (c_published_at (transition_row action now c)) (c_deleted_at (transition_row action now c)) r"

lemma status_row_self [simp]: "status_row action now c c = transition_row action now c"
  by (simp add: status_row_def transition_row_def set_status_def
      split: admin_action.splits option.splits)

lemma status_row_fields [simp]:
  "c_id (status_row action now c r) = c_id r"
  "keeps_identity (status_row action now c)"
  "comment_checks (status_row action now c r) = comment_checks r"
  by (simp_all add: status_row_def set_status_def keeps_identity_def comment_checks_def)

lemma transition_write:
  assumes "comment_inv d" "c \<in> set (db_comments d)"
  shows "snd (update_comments (the_comment (c_site_id c) (c_id c)) (status_row action now c) d) =
      put_comment (moved action now d c) d"
    "fst (update_comments (the_comment (c_site_id c) (c_id c)) (status_row action now c) d) \<noteq> 0"
    "schema_ok (put_comment (moved action now d c) d)"
proof -
  note one = update_one [OF comment_invD(1) [OF assms(1)] assms(2) refl refl,
      of "status_row action now c"]
  show eq: "snd (update_comments (the_comment (c_site_id c) (c_id c)) (status_row action now c) d) =
      put_comment (moved action now d c) d"
    using one(1) by (simp add: moved_def)
  show "fst (update_comments (the_comment (c_site_id c) (c_id c)) (status_row action now c) d) \<noteq> 0"
    by (rule one(2)) simp
  show "schema_ok (put_comment (moved action now d c) d)"
    unfolding eq [symmetric]
    by (rule schema_ok_update_comments) (use assms in \<open>simp_all add: comment_inv_def\<close>)
qed

text \<open>What a transition may do, under any schedule of faults.\<close>

lemma wp_adminTransition:
  assumes inv: "comment_inv d"
  shows "wp (adminTransition now cid action)
     (\<lambda>r d' os'. os' = os \<and>
        (d' = d \<and> (\<exists>e. r = Inl e) \<or>
         (\<exists>c \<in> set (db_comments d). c_id c = cid \<and>
            lifecycle_step action (lifecycle_of c) \<noteq> None \<and>
            d' = put_comment (moved action now d c) d \<and>
            (\<forall>c'. r = Inr c' \<longrightarrow> c' = moved action now d c)))) d os"
proof -
  have found: "wp (applyAdminTransition c action now)
      (\<lambda>r d' os'. os' = os \<and> (d' = d \<and> (\<exists>e. r = Inl e) \<or>
         lifecycle_step action (lifecycle_of c) \<noteq> None \<and> r = Inr True \<and>
         d' = put_comment (moved action now d c) d)) d os"
    if c: "c \<in> set (db_comments d)" for c
  proof -
    have "life_ok c" using inv c by (simp add: comment_inv_def life_inv_def)
    from applyAdminTransition_eq [OF this] have eq: "applyAdminTransition c action now =
       (if lifecycle_step action (lifecycle_of c) = None then fail ErrConflict
        else bind (write_or_not_found ErrInfra
               (update_comments (the_comment (c_site_id c) (c_id c)) (status_row action now c)))
               (\<lambda>_. ret True))"
      by (simp add: status_row_def [abs_def])
    show ?thesis
      unfolding eq using transition_write [OF inv c, of action now]
      by (auto intro!: wp_intros)
  qed
  have after: "select_first (\<lambda>r. c_id r = c_id c) (db_comments (put_comment (moved action now d c) d))
      = Some x \<Longrightarrow> x = moved action now d c"
    if "c \<in> set (db_comments d)" for c x
    using that by (auto simp: put_comment_def dest!: select_first_Some split: if_splits)
  show ?thesis
    unfolding adminTransition_def FindGlobalByID_def
    apply (intro wp_intros)
      apply (auto simp: find_by_id [OF comment_invD(1) [OF inv]])
    apply (rule wp_bind, rule wp_mono [OF found], assumption)
    apply (clarsimp split: sum.splits)
    apply (intro conjI impI allI wp_intros; clarsimp)
      apply (metis option.distinct(1))
     apply (metis option.distinct(1))
    apply (metis after)
    done
qed
end
