(* ===== verification/Removal.thy ===== *)
theory Removal
  imports Moderation
begin

text \<open>
  Hard deletion as a function on tables.  \<open>P s i\<close> selects the comments to remove by site and
  id; \<open>removed P\<close> is the outcome the service promises: exactly those rows and their likes
  go, every other row stays, and a reply to a removed comment loses its reference to it.
\<close>

definition refers :: "(int \<Rightarrow> int \<Rightarrow> bool) \<Rightarrow> int \<Rightarrow> int option \<Rightarrow> bool" where
  "refers P s r = (case r of None \<Rightarrow> False | Some i \<Rightarrow> P s i)"

definition detach_row :: "(int \<Rightarrow> int \<Rightarrow> bool) \<Rightarrow> int \<Rightarrow> comment \<Rightarrow> comment" where
  "detach_row P now c =
     (let c1 = (if refers P (c_site_id c) (c_parent_id c)
                then c\<lparr>c_parent_id := None, c_updated_at := now\<rparr> else c)
      in if refers P (c_site_id c) (c_root_id c)
         then c1\<lparr>c_root_id := None, c_updated_at := now\<rparr> else c1)"

definition removed :: "(int \<Rightarrow> int \<Rightarrow> bool) \<Rightarrow> db \<Rightarrow> db" where
  "removed P d =
     d\<lparr>db_comments := map (detach_row P (db_clock d))
         (filter (\<lambda>c. \<not> P (c_site_id c) (c_id c)) (db_comments d)),
       db_likes := filter (\<lambda>l. \<not> P (l_site_id l) (l_comment_id l)) (db_likes d)\<rparr>"

definition detached :: "(int \<Rightarrow> int \<Rightarrow> bool) \<Rightarrow> db \<Rightarrow> db" where
  "detached P d = d\<lparr>db_comments := map (detach_row P (db_clock d)) (db_comments d)\<rparr>"

lemma detach_row_fields [simp]:
  "c_id (detach_row P now c) = c_id c" "c_site_id (detach_row P now c) = c_site_id c"
  "c_thread_id (detach_row P now c) = c_thread_id c" "c_user_id (detach_row P now c) = c_user_id c"
  "c_reply_to_user_id (detach_row P now c) = c_reply_to_user_id c"
  "c_status (detach_row P now c) = c_status c" "c_body_markdown (detach_row P now c) = c_body_markdown c"
  "c_depth (detach_row P now c) = c_depth c"
  "c_parent_id (detach_row P now c) =
     (if refers P (c_site_id c) (c_parent_id c) then None else c_parent_id c)"
  "c_root_id (detach_row P now c) =
     (if refers P (c_site_id c) (c_root_id c) then None else c_root_id c)"
  by (simp_all add: detach_row_def Let_def)

lemma detach_steps:
  "snd (update_comments (\<lambda>c. refers P (c_site_id c) (c_root_id c)) clear_root
      (snd (update_comments (\<lambda>c. refers P (c_site_id c) (c_parent_id c)) clear_parent d))) =
     detached P d"
  unfolding update_comments_map detached_def
  by (simp add: detach_row_def clear_parent_def clear_root_def Let_def)

lemma detach_schema:
  assumes "schema_ok d"
  shows "schema_ok (snd (update_comments (\<lambda>c. refers P (c_site_id c) (c_parent_id c)) clear_parent d))"
    "schema_ok (detached P d)"
proof -
  show *: "schema_ok (snd (update_comments (\<lambda>c. refers P (c_site_id c) (c_parent_id c)) clear_parent d))"
    using assms by (intro schema_ok_update_comments) simp_all
  show "schema_ok (detached P d)"
    unfolding detach_steps [symmetric] by (rule schema_ok_update_comments [OF *]) simp_all
qed

text \<open>When nothing dangles, a cascade only drops the likes of absent comments.\<close>

lemma cascade_fixed:
  assumes "\<forall>o' \<in> set (db_origins d). has_site (db_sites d) (o_site_id o')"
    and "\<forall>t \<in> set (db_threads d). has_site (db_sites d) (t_site_id t)"
    and "\<forall>c \<in> set (db_comments d).
        comment_refs_ok (db_users d) (db_threads d) (db_comments d) c \<and>
        ref_ok (has_user (db_users d)) (c_reply_to_user_id c)"
  shows "cascade d = d\<lparr>db_likes := filter (like_refs_ok (db_users d) (db_comments d)) (db_likes d)\<rparr>"
proof -
  have "filter (\<lambda>o'. has_site (db_sites d) (o_site_id o')) (db_origins d) = db_origins d"
    "filter (\<lambda>t. has_site (db_sites d) (t_site_id t)) (db_threads d) = db_threads d"
    using assms(1,2) by (simp_all add: filter_id_conv)
  moreover have "sweep_comments (db_users d) (db_threads d) (db_comments d) = db_comments d"
    using assms(3) by (intro sweep_comments_fixpoint) blast
  moreover have "map (clear_reply_to (db_users d)) (db_comments d) = db_comments d"
    using assms(3) by (intro map_idI) (simp add: clear_reply_to_def)
  ultimately show ?thesis by (simp add: cascade_def Let_def)
qed

lemma delete_detached:
  assumes ok: "schema_ok d"
  shows "snd (delete_comments (\<lambda>c. P (c_site_id c) (c_id c)) (detached P d)) = removed P d"
    "schema_ok (removed P d)"
proof -
  let ?g = "detach_row P (db_clock d)"
  let ?keep = "filter (\<lambda>c. \<not> P (c_site_id c) (c_id c)) (db_comments d)"
  let ?d = "(detached P d)\<lparr>db_comments := filter (\<lambda>c. \<not> P (c_site_id c) (c_id c))
      (db_comments (detached P d))\<rparr>"
  have rows: "db_comments ?d = map ?g ?keep"
    by (simp add: detached_def filter_map o_def)
  have refs: "refs_ok d" "uniques_ok d" "tables_ok d" "\<forall>c \<in> set (db_comments d). comment_checks c"
    using ok by (simp_all add: schema_ok_def)
  have here: "has_comment (map ?g ?keep) s i \<longleftrightarrow> has_comment (db_comments d) s i \<and> \<not> P s i" for s i
    by (auto simp: has_comment_def)
  have c_refs: "comment_refs_ok (db_users d) (db_threads d) (map ?g ?keep) (?g c) \<and>
      ref_ok (has_user (db_users d)) (c_reply_to_user_id (?g c))"
    if "c \<in> set (db_comments d)" for c
    using refs(1) that unfolding refs_ok_def comment_refs_ok_def ref_ok_def
    by (auto simp: here refers_def split: option.splits)
  have l_refs: "like_refs_ok (db_users d) (map ?g ?keep) l \<longleftrightarrow> \<not> P (l_site_id l) (l_comment_id l)"
    if "l \<in> set (db_likes d)" for l
    using refs(1) that by (auto simp: refs_ok_def like_refs_ok_def here)
  have "cascade ?d = ?d\<lparr>db_likes := filter (like_refs_ok (db_users ?d) (db_comments ?d)) (db_likes ?d)\<rparr>"
  proof (rule cascade_fixed)
    show "\<forall>c \<in> set (db_comments ?d). comment_refs_ok (db_users ?d) (db_threads ?d) (db_comments ?d) c \<and>
        ref_ok (has_user (db_users ?d)) (c_reply_to_user_id c)"
      unfolding rows using c_refs by (auto simp: detached_def)
  qed (use refs(1) in \<open>simp_all add: detached_def refs_ok_def\<close>)
  also have "\<dots> = removed P d"
    unfolding rows using l_refs by (simp add: removed_def detached_def filter_map o_def cong: filter_cong)
  finally show eq: "snd (delete_comments (\<lambda>c. P (c_site_id c) (c_id c)) (detached P d)) = removed P d"
    by (simp add: delete_comments_def)
  have keys: "keys_ok c_id (db_next_comment d) (map ?g ?keep)" "keys_ok l_id (db_next_like d)
      (filter (\<lambda>l. \<not> P (l_site_id l) (l_comment_id l)) (db_likes d))"
    using refs(3) by (auto simp: tables_ok_def keys_ok_def o_def sorted_wrt_map sorted_wrt_filter)
  have checks: "comment_checks (?g c)" if "c \<in> set (db_comments d)" for c
    using refs(4) that by (fastforce simp: comment_checks_def detach_row_def Let_def)
  show "schema_ok (removed P d)"
    unfolding schema_ok_def
  proof (intro conjI)
    show "tables_ok (removed P d)" using refs(3) keys by (simp add: tables_ok_def removed_def)
    show "uniques_ok (removed P d)"
      using refs(2) by (simp add: uniques_ok_def removed_def distinct_map_filter)
    show "refs_ok (removed P d)"
      using refs(1) c_refs l_refs by (auto simp: refs_ok_def removed_def)
    show "\<forall>c \<in> set (db_comments (removed P d)). comment_checks c"
      using checks by (auto simp: removed_def)
    show "accounts_ok (db_users (removed P d)) (db_accounts (removed P d))"
      using ok by (simp add: schema_ok_def removed_def)
  qed
qed

section \<open>The two hard deletions\<close>

definition one_comment :: "int \<Rightarrow> int \<Rightarrow> int \<Rightarrow> int \<Rightarrow> bool" where
  "one_comment sid cid s i \<longleftrightarrow> s = sid \<and> i = cid"

definition batch_targets :: "('a comment_batch_target_scheme) list \<Rightarrow> int \<Rightarrow> int \<Rightarrow> bool" where
  "batch_targets ts s i \<longleftrightarrow> (\<exists>t \<in> set ts. s = bt_site_id t \<and> i = bt_id t)"

lemma refers_one:
  "parent_is sid cid = (\<lambda>c. refers (one_comment sid cid) (c_site_id c) (c_parent_id c))"
  "root_is sid cid = (\<lambda>c. refers (one_comment sid cid) (c_site_id c) (c_root_id c))"
  "the_comment sid cid = (\<lambda>c. one_comment sid cid (c_site_id c) (c_id c))"
  by (auto simp: fun_eq_iff parent_is_def root_is_def the_comment_def refers_def one_comment_def
      split: option.splits)

lemma refers_many:
  "(\<lambda>c. \<exists>t \<in> set ts. parent_is (bt_site_id t) (bt_id t) c) =
     (\<lambda>c. refers (batch_targets ts) (c_site_id c) (c_parent_id c))"
  "(\<lambda>c. \<exists>t \<in> set ts. root_is (bt_site_id t) (bt_id t) c) =
     (\<lambda>c. refers (batch_targets ts) (c_site_id c) (c_root_id c))"
  "targets_comment ts = (\<lambda>c. batch_targets ts (c_site_id c) (c_id c))"
  by (auto simp: fun_eq_iff parent_is_def root_is_def the_comment_def refers_def batch_targets_def
      targets_comment_def split: option.splits)

lemma deleted_count [simp]: "fst (delete_comments Q d) = count_where Q (db_comments d)"
  by (simp add: delete_comments_def)

lemma count_detached:
  "count_where (\<lambda>c. Q (c_site_id c) (c_id c)) (db_comments (detached P d)) =
     count_where (\<lambda>c. Q (c_site_id c) (c_id c)) (db_comments d)"
  by (simp add: detached_def count_where_def filter_map o_def)

lemmas removal_facts = detach_steps detach_schema delete_detached count_detached

lemma wp_hardDeleteInCurrentTx:
  assumes "schema_ok d"
  shows "wp (hardDeleteInCurrentTx sid cid)
     (\<lambda>r d' os'. os' = os \<and> (\<forall>u. r = Inr u \<longrightarrow> d' = removed (one_comment sid cid) d \<and>
        count_where (the_comment sid cid) (db_comments d) \<noteq> 0)) d os"
  unfolding hardDeleteInCurrentTx_def DetachCommentChildren_def HardDelete_def refers_one
  using assms by (auto intro!: wp_intros simp: removal_facts)

lemma wp_hardDeleteOne:
  assumes "schema_ok d"
  shows "wp (hardDeleteOne sid cid)
     (\<lambda>r d' os'. os' = os \<and> (case r of Inl e \<Rightarrow> d' = d
        | Inr u \<Rightarrow> d' = removed (one_comment sid cid) d \<and>
            count_where (the_comment sid cid) (db_comments d) \<noteq> 0)) d os"
  unfolding hardDeleteOne_def
  by (rule wp_atomically, rule wp_mono [OF wp_hardDeleteInCurrentTx [OF assms]])
     (auto split: sum.splits)

lemma hardDeleteOne_exec:
  assumes "schema_ok (data w)" "faults w = []" "c \<in> set (db_comments (data w))"
  shows "hardDeleteOne (c_site_id c) (c_id c) w =
     (Inr (), w\<lparr>data := removed (one_comment (c_site_id c) (c_id c)) (data w)\<rparr>)"
proof -
  have "count_where (\<lambda>r. one_comment (c_site_id c) (c_id c) (c_site_id r) (c_id r))
      (db_comments (data w)) \<noteq> 0"
    using assms(3) by (intro count_where_pos [of c]) (simp_all add: one_comment_def)
  then have "hardDeleteInCurrentTx (c_site_id c) (c_id c) w =
     (Inr (), w\<lparr>data := removed (one_comment (c_site_id c) (c_id c)) (data w)\<rparr>)"
    unfolding hardDeleteInCurrentTx_def DetachCommentChildren_def HardDelete_def refers_one
      write_or_not_found_def
    using assms(1,2) by (simp add: removal_facts bind_def)
  with assms(2) show ?thesis
    by (simp add: hardDeleteOne_def atomically_steps)
qed

end
