(* ===== verification/Sample.thy ===== *)
theory Sample
  imports Removal
begin

text \<open>
  A small populated database, used to evaluate the operations on concrete input: one site with one
  page, an administrator, a guest and a reader, and a thread with a published root, two replies
  below it and a comment in the bin.
\<close>

definition sample_user :: "int \<Rightarrow> string \<Rightarrow> role \<Rightarrow> user" where
  "sample_user i name r =
     \<lparr>u_id = i, u_email = name @ ''@example.org'', u_email_normalized = name @ ''@example.org'',
      u_nickname = name, u_website_url = None, u_role = r, u_status = UserStatusActive,
      u_session_version = 1, u_email_verified_at = None, u_created_at = 0, u_updated_at = 0,
      u_deleted_at = None, u_status_before_delete = None,
      u_password_hash = None, u_password_changed_at = None\<rparr>"

definition sample_comment :: "int \<Rightarrow> int \<Rightarrow> int option \<Rightarrow> int option \<Rightarrow> int \<Rightarrow> comment_status \<Rightarrow> comment" where
  "sample_comment i uid parent root depth st =
     \<lparr>c_id = i, c_site_id = 1, c_thread_id = 1, c_user_id = uid, c_parent_id = parent,
      c_root_id = root, c_reply_to_user_id = None, c_depth = depth, c_body_markdown = ''hello'',
      c_status = st,
      c_status_before_delete =
        (if st = CommentStatusDeleted then Some CommentStatusPublished else None),
      c_is_pinned = False, c_ip_mode = PrivacyModeNone, c_ip_value = None,
      c_ua_mode = PrivacyModeNone, c_ua_raw = None, c_ua_browser = None, c_ua_os = None,
      c_ua_device = None, c_created_at = 10000 * i, c_updated_at = 10000 * i,
      c_published_at = (if st = CommentStatusPublished then Some (10000 * i) else None),
      c_deleted_at = (if st = CommentStatusDeleted then Some 99 else None)\<rparr>"

definition sample_db :: db where
  "sample_db =
     \<lparr>db_users = [sample_user 1 ''root'' RoleAdmin, sample_user 2 ''guest'' RoleUser,
                  sample_user 3 ''reader'' RoleUser],
      db_sites = [\<lparr>s_id = 1, s_name = ''blog'', s_canonical_url = ''https://blog.example'',
                   s_status = SiteStatusActive, s_created_at = 0, s_updated_at = 0\<rparr>],
      db_origins = [\<lparr>o_id = 1, o_site_id = 1, o_origin = ''https://blog.example''\<rparr>],
      db_threads = [\<lparr>t_id = 1, t_site_id = 1, t_page_key = ''post'', t_page_url = None,
                     t_page_title = Some ''Post'', t_comments_enabled = True, t_created_at = 0,
                     t_updated_at = 0\<rparr>],
      db_comments =
        [sample_comment 1 2 None None 0 CommentStatusPublished,
         sample_comment 2 1 (Some 1) (Some 1) 1 CommentStatusPending,
         sample_comment 3 3 (Some 2) (Some 1) 2 CommentStatusPublished,
         sample_comment 4 2 None None 0 CommentStatusDeleted],
      db_likes = [\<lparr>l_id = 1, l_site_id = 1, l_comment_id = 1, l_user_id = 3\<rparr>],
      db_next_user = 4, db_next_site = 2, db_next_origin = 2, db_next_thread = 2,
      db_next_comment = 5, db_next_like = 2, db_clock = 500,
      db_accounts = no_accounts\<rparr>"

definition sample_world :: "(db, comment_event) world" where
  "sample_world = \<lparr>data = sample_db, faults = [], outbox = []\<rparr>"

lemma sample_world_fields [simp]:
  "data sample_world = sample_db" "faults sample_world = []" "outbox sample_world = []"
  by (simp_all add: sample_world_def)

lemma sample_comments:
  "db_comments sample_db = [sample_comment 1 2 None None 0 CommentStatusPublished,
         sample_comment 2 1 (Some 1) (Some 1) 1 CommentStatusPending,
         sample_comment 3 3 (Some 2) (Some 1) 2 CommentStatusPublished,
         sample_comment 4 2 None None 0 CommentStatusDeleted]"
  by (simp add: sample_db_def)

lemma sample_inv [simp]: "comment_inv sample_db"
  by code_simp

lemma sample_schema [simp]: "schema_ok sample_db"
  using sample_inv by (rule comment_invD)

definition sample_policy :: comment_policy where
  "sample_policy =
     \<lparr>pol_mode = CommentModeAnonymous, pol_epoch = 1, pol_moderation = ModerationReview,
      pol_user_delete_mode = UserDeleteModeSoft, pol_max_reply_depth = 5,
      pol_public_registration = True, pol_captcha_policy = (\<lambda>_. False),
      pol_privacy = \<lparr>pp_ip_mode = PrivacyModeCoarse, pp_ua_mode = PrivacyModeFull\<rparr>,
      pol_gravatar_base_url = ''https://gravatar.example'', pol_comment_sort = ''asc'',
      pol_emoji_catalog_url = ''''\<rparr>"

definition sample_avatar :: avatar where
  "sample_avatar e base = base @ ''/'' @ e"

end
