(* ===== verification/Moderation_Props.thy ===== *)
theory Moderation_Props
  imports Sample
begin

text \<open>
  What the moderation, pinning, deletion and like commands promise.  The statements quantify over
  every schedule of database faults unless they say otherwise.
\<close>

section \<open>Transitions\<close>

lemma find_put_comment:
  assumes "c \<in> set (db_comments d)" "c_id c' = c_id c"
  shows "select_first (\<lambda>r. c_id r = c_id c) (db_comments (put_comment c' d)) = Some c'"
  using assms by (intro select_first_unique) (auto simp: put_comment_def image_iff)

lemma applyAdminTransition_exec:
  assumes "comment_inv (data w)" "faults w = []" "c \<in> set (db_comments (data w))"
  shows "applyAdminTransition c action now w =
     (if lifecycle_step action (lifecycle_of c) = None then (Inl ErrConflict, w)
      else (Inr True, w\<lparr>data := put_comment (moved action now (data w) c) (data w)\<rparr>))"
proof -
  have "life_ok c" using assms by (simp add: comment_inv_def life_inv_def)
  from applyAdminTransition_eq [OF this] have eq: "applyAdminTransition c action now =
       (if lifecycle_step action (lifecycle_of c) = None then fail ErrConflict
        else bind (write_or_not_found ErrInfra
               (update_comments (the_comment (c_site_id c) (c_id c)) (status_row action now c)))
               (\<lambda>_. ret True))"
    by (simp add: status_row_def [abs_def])
  show ?thesis
    unfolding eq write_or_not_found_def
    using transition_write [OF assms(1,3), of action now] assms(2)
    by (simp add: bind_def)
qed

lemma transition_inv:
  assumes "comment_inv d" "c \<in> set (db_comments d)" "lifecycle_step action (lifecycle_of c) \<noteq> None"
  shows "comment_inv (put_comment (moved action now d c) d)"
proof -
  have life: "life_ok c" using assms by (simp add: comment_inv_def life_inv_def)
  then have "life_ok (transition_row action now c)"
    using transition_row_life(1) assms(3) by blast
  then have "life_ok (status_row action now c r)"
    if "r \<in> set (db_comments d)" "the_comment (c_site_id c) (c_id c) r" for r
    using schema_ok_same_id [OF comment_invD(1) [OF assms(1)] that(1) assms(2)] that(2)
    by (simp add: the_comment_def)
  moreover have "keeps_shape (status_row action now c)"
    by (simp add: status_row_def [abs_def])
  ultimately show ?thesis
    unfolding transition_write(1) [OF assms(1,2), symmetric]
    using transition_write(3) [OF assms(1,2), of action now]
    by (intro comment_inv_update [OF assms(1)])
       (auto simp: transition_write(1) [OF assms(1,2)])
qed

lemma adminTransition_exec:
  assumes "comment_inv (data w)" "faults w = []" "c \<in> set (db_comments (data w))"
  shows "adminTransition now (c_id c) action w =
     (if lifecycle_step action (lifecycle_of c) = None then (Inl ErrConflict, w)
      else (Inr (moved action now (data w) c),
            w\<lparr>data := put_comment (moved action now (data w) c) (data w)\<rparr>))"
proof -
  have "FindGlobalByID (c_id c) w = (Inr c, w)"
    using assms find_by_id [OF comment_invD(1) [OF assms(1)], of "c_id c" c]
    by (simp add: FindGlobalByID_def)
  then show ?thesis
    using applyAdminTransition_exec [OF assms, of action now] assms(2)
      find_put_comment [OF assms(3) moved_id]
    by (simp add: adminTransition_def FindGlobalByID_def)
qed

text \<open>C1: without faults, a moderation command on a stored comment does exactly what the abstract
  life cycle says: it is refused with a conflict, nothing written, when the life cycle has no such
  step, and otherwise replaces that one row by a consistent row in the life cycle's next state.\<close>

theorem admin_transition_refines_lifecycle:
  assumes "comment_inv (data w)" "faults w = []" "c \<in> set (db_comments (data w))"
  shows "case lifecycle_step action (lifecycle_of c) of
      None \<Rightarrow> adminTransition now (c_id c) action w = (Inl ErrConflict, w)
    | Some s \<Rightarrow> (\<exists>c'. adminTransition now (c_id c) action w =
          (Inr c', w\<lparr>data := put_comment c' (data w)\<rparr>) \<and>
        lifecycle_of c' = s \<and> life_ok c' \<and> c_id c' = c_id c \<and>
        c_body_markdown c' = c_body_markdown c)"
proof (cases "lifecycle_step action (lifecycle_of c)")
  case None
  then show ?thesis using adminTransition_exec [OF assms] by simp
next
  case (Some s)
  have "life_ok c" using assms by (simp add: comment_inv_def life_inv_def)
  from moved_life [OF this Some] Some show ?thesis
    using adminTransition_exec [OF assms, of now action]
    by (auto simp: moved_def transition_row_def set_status_def
        split: admin_action.splits option.splits)
qed

lemma admin_transition_refines_lifecycle_witness:
  "case lifecycle_step actionSpam (Live CommentStatusPublished) of
      None \<Rightarrow> False
    | Some s \<Rightarrow> (\<exists>c'. adminTransition 7 1 actionSpam sample_world =
          (Inr c', sample_world\<lparr>data := put_comment c' sample_db\<rparr>) \<and> lifecycle_of c' = s)"
  using admin_transition_refines_lifecycle [of sample_world
      "sample_comment 1 2 None None 0 CommentStatusPublished" 7 actionSpam]
  by (auto simp: sample_comments sample_comment_def lifecycle_of_def)

text \<open>Whatever the database does during a moderation command, the rows are either untouched or
  show one accepted step of the life cycle on that one comment; a command that returns a comment
  has performed the step, and none sends an event.\<close>

lemma admin_transition_all_or_nothing:
  assumes "comment_inv (data w)" "adminTransition now cid action w = (r, w')"
  shows "outbox w' = outbox w \<and>
    (data w' = data w \<and> (\<exists>e. r = Inl e) \<or>
     (\<exists>c \<in> set (db_comments (data w)). c_id c = cid \<and>
        lifecycle_step action (lifecycle_of c) \<noteq> None \<and>
        data w' = put_comment (moved action now (data w) c) (data w) \<and>
        (\<forall>c'. r = Inr c' \<longrightarrow> c' = moved action now (data w) c)))"
  by (rule wpD [OF wp_adminTransition [OF assms(1)] assms(2)])

lemma admin_transition_all_or_nothing_witness:
  "\<exists>r w'. adminTransition 7 3 actionPending (sample_world\<lparr>faults := [False, False, True]\<rparr>) = (r, w')
     \<and> outbox w' = [] \<and> data w' \<noteq> sample_db"
proof -
  let ?w = "sample_world\<lparr>faults := [False, False, True]\<rparr>"
  obtain r w' where run: "adminTransition 7 3 actionPending ?w = (r, w')"
    by (cases "adminTransition 7 3 actionPending ?w")
  have "data (snd (adminTransition 7 3 actionPending ?w)) \<noteq> sample_db" by code_simp
  with admin_transition_all_or_nothing [OF _ run] run show ?thesis by simp
qed

text \<open>C35: restoring a comment undoes its deletion: after a soft delete and a restore that both
  succeed, the comment has the status, text and position it had, and every other row is the one
  it was.\<close>

theorem restore_undoes_soft_delete:
  assumes "comment_inv (data w)" "faults w = []" "c \<in> set (db_comments (data w))"
    "c_status c \<noteq> CommentStatusDeleted"
  shows "\<exists>c1 c2. bind (adminTransition now (c_id c) actionSoftDelete)
        (\<lambda>_. adminTransition later (c_id c) actionRestore) w =
          (Inr c2, w\<lparr>data := put_comment c2 (data w)\<rparr>) \<and>
      adminTransition now (c_id c) actionSoftDelete w =
          (Inr c1, w\<lparr>data := put_comment c1 (data w)\<rparr>) \<and>
      c_status c1 = CommentStatusDeleted \<and> c_deleted_at c1 = Some now \<and>
      c2 = c\<lparr>c_published_at := (if c_status c = CommentStatusPublished then Some later else None),
             c_updated_at := db_clock (data w)\<rparr>"
proof -
  let ?c1 = "moved actionSoftDelete now (data w) c"
  let ?w1 = "w\<lparr>data := put_comment ?c1 (data w)\<rparr>"
  have life: "life_ok c" using assms by (simp add: comment_inv_def life_inv_def)
  then have live: "lifecycle_of c = Live (c_status c)" "c_status_before_delete c = None"
      "c_deleted_at c = None"
    using assms(4) by (cases rule: lifecycle_cases; simp add: life_ok_def)+
  have first: "adminTransition now (c_id c) actionSoftDelete w = (Inr ?c1, ?w1)"
    using adminTransition_exec [OF assms(1-3), of now actionSoftDelete] live by simp
  have inv1: "comment_inv (data ?w1)"
    using transition_inv [OF assms(1,3), of actionSoftDelete now] live by simp
  have mem: "?c1 \<in> set (db_comments (data ?w1))" using assms(3) by simp
  have c1: "c_id ?c1 = c_id c" "c_status ?c1 = CommentStatusDeleted" "c_deleted_at ?c1 = Some now"
      "c_status_before_delete ?c1 = Some (c_status c)"
    by (simp_all add: moved_def transition_row_def set_status_def)
  let ?c2 = "moved actionRestore later (data ?w1) ?c1"
  have "adminTransition later (c_id ?c1) actionRestore ?w1 =
      (Inr ?c2, ?w1\<lparr>data := put_comment ?c2 (data ?w1)\<rparr>)"
    using adminTransition_exec [OF inv1 _ mem, of later actionRestore] assms(2) c1(4)
    by (simp add: lifecycle_of_def)
  moreover have "put_comment ?c2 (put_comment ?c1 (data w)) = put_comment ?c2 (data w)"
    by (simp add: put_comment_def)
  moreover have "?c2 = c\<lparr>c_published_at := (if c_status c = CommentStatusPublished then Some later else None),
             c_updated_at := db_clock (data w)\<rparr>"
    using live(2,3) by (cases c) (simp add: moved_def transition_row_def set_status_def put_comment_def)
  ultimately show ?thesis
    using first c1 by simp
qed

lemma restore_undoes_soft_delete_witness:
  "fst (bind (adminTransition 7 1 actionSoftDelete) (\<lambda>_. adminTransition 8 1 actionRestore) sample_world) =
     Inr ((sample_comment 1 2 None None 0 CommentStatusPublished)
       \<lparr>c_published_at := Some 8, c_updated_at := 500\<rparr>)"
  using restore_undoes_soft_delete [of sample_world
      "sample_comment 1 2 None None 0 CommentStatusPublished" 7 8]
  by (auto simp: sample_comments) (simp_all add: sample_comment_def sample_db_def)

section \<open>Deletion\<close>

lemma hardDeleteOne_wp [wp_intros]:
  assumes "schema_ok d" "\<And>e. Q (Inl e) d os"
    "\<And>u. count_where (the_comment sid cid) (db_comments d) \<noteq> 0 \<Longrightarrow>
       Q (Inr u) (removed (one_comment sid cid) d) os"
  shows "wp (hardDeleteOne sid cid) Q d os"
  by (rule wp_mono [OF wp_hardDeleteOne [OF assms(1)]]) (use assms in \<open>auto split: sum.splits\<close>)

lemma softDeleteOne_wp [wp_intros]:
  assumes "comment_inv d" "c \<in> set (db_comments d)" "\<And>e. Q (Inl e) d os"
    "\<And>u. Q (Inr u) (put_comment (moved actionSoftDelete now d c) d) os"
  shows "wp (softDeleteOne now (c_site_id c) c) Q d os"
proof -
  have "status_row actionSoftDelete now c =
      set_status CommentStatusDeleted (Some (c_status c)) (c_published_at c) (Some now)"
    by (simp add: fun_eq_iff status_row_def transition_row_def set_status_def)
  then have "softDeleteOne now (c_site_id c) c = write_or_not_found ErrInfra
      (update_comments (the_comment (c_site_id c) (c_id c)) (status_row actionSoftDelete now c))"
    by (simp add: softDeleteOne_def UpdateStatus_def)
  then show ?thesis
    using transition_write [OF assms(1,2), of actionSoftDelete now] assms(3,4)
    by (auto intro!: wp_intros)
qed

lemma FindGlobalByID_wp [wp_intros]:
  assumes "schema_ok d" "\<And>e. Q (Inl e) d os"
    "\<And>c. c \<in> set (db_comments d) \<Longrightarrow> c_id c = cid \<Longrightarrow> Q (Inr c) d os"
  shows "wpf f (FindGlobalByID cid) Q d os"
  unfolding FindGlobalByID_def
  using assms by (auto intro!: wp_intros simp: find_by_id)

lemma wp_DeleteByOwner:
  assumes inv: "comment_inv d"
  shows "wp (DeleteByOwner settings now actor cid want_site)
     (\<lambda>r d' os'. os' = os \<and> (case r of Inl e \<Rightarrow> d' = d
        | Inr res \<Rightarrow> \<exists>c pol. c \<in> set (db_comments d) \<and> c_id c = cid \<and> settings = Inr pol \<and>
            c_user_id c = actor \<and> (want_site = None \<or> want_site = Some (c_site_id c)) \<and>
            c_status c \<noteq> CommentStatusDeleted \<and>
            d' = (if pol_user_delete_mode pol = UserDeleteModeHard
                  then removed (one_comment (c_site_id c) cid) d
                  else put_comment (moved actionSoftDelete now d c) d))) d os"
  unfolding DeleteByOwner_def using inv comment_invD(1) [OF inv]
  by (cases settings; auto intro!: wp_intros split: sum.splits; blast)

lemma wp_AdminDelete:
  assumes inv: "comment_inv d"
  shows "wp (AdminDelete now cid hard confirm)
     (\<lambda>r d' os'. os' = os \<and> (case r of Inl e \<Rightarrow> d' = d
        | Inr res \<Rightarrow> (hard \<longrightarrow> confirm) \<and> (\<exists>c \<in> set (db_comments d). c_id c = cid \<and>
            (if hard then d' = removed (one_comment (c_site_id c) cid) d
             else c_status c \<noteq> CommentStatusDeleted \<and>
                  d' = put_comment (moved actionSoftDelete now d c) d)))) d os"
  unfolding AdminDelete_def using inv comment_invD(1) [OF inv]
  by (auto intro!: wp_intros split: sum.splits; blast)

text \<open>C33: A user's own deletion.  Whatever the database does, either nothing has changed and the caller
  gets an error, or the comment existed, belonged to the caller, lay on the site asked for and was
  not deleted yet, and the configured mode was applied to exactly that comment.\<close>

theorem owner_deletes_only_own_comment:
  assumes "comment_inv (data w)"
    "DeleteByOwner settings now actor cid want_site w = (r, w')"
  shows "outbox w' = outbox w \<and> (case r of Inl e \<Rightarrow> data w' = data w
        | Inr res \<Rightarrow> \<exists>c pol. c \<in> set (db_comments (data w)) \<and> c_id c = cid \<and> settings = Inr pol \<and>
            c_user_id c = actor \<and> (want_site = None \<or> want_site = Some (c_site_id c)) \<and>
            c_status c \<noteq> CommentStatusDeleted \<and>
            data w' = (if pol_user_delete_mode pol = UserDeleteModeHard
                  then removed (one_comment (c_site_id c) cid) (data w)
                  else put_comment (moved actionSoftDelete now (data w) c) (data w)))"
  by (rule wpD [OF wp_DeleteByOwner [OF assms(1)] assms(2)])

lemma owner_deletes_only_own_comment_witness:
  "\<exists>w'. DeleteByOwner (Inr sample_policy) 7 2 1 None sample_world =
     (Inr \<lparr>dr_deleted_root_id = 1, dr_hard = False\<rparr>, w') \<and>
     data w' = put_comment (moved actionSoftDelete 7 sample_db
       (sample_comment 1 2 None None 0 CommentStatusPublished)) sample_db"
proof -
  obtain r w' where run: "DeleteByOwner (Inr sample_policy) 7 2 1 None sample_world = (r, w')"
    by (cases "DeleteByOwner (Inr sample_policy) 7 2 1 None sample_world")
  have "fst (DeleteByOwner (Inr sample_policy) 7 2 1 None sample_world) =
      Inr \<lparr>dr_deleted_root_id = 1, dr_hard = False\<rparr>"
    by code_simp
  with run owner_deletes_only_own_comment [OF _ run] show ?thesis
    by (auto simp: sample_comments sample_comment_def sample_policy_def)
qed

text \<open>C36: a hard deletion without faults removes exactly the comment and its likes; its direct and
  transitive replies all survive and only lose their references to it.  A soft deletion bins
  exactly the comment.  A hard deletion without confirmation is refused before any statement.\<close>

theorem admin_delete_exact:
  assumes "comment_inv (data w)" "faults w = []" "c \<in> set (db_comments (data w))"
    "c_status c \<noteq> CommentStatusDeleted"
  shows "AdminDelete now (c_id c) True True w =
      (Inr \<lparr>dr_deleted_root_id = c_id c, dr_hard = True\<rparr>,
       w\<lparr>data := removed (one_comment (c_site_id c) (c_id c)) (data w)\<rparr>) \<and>
    AdminDelete now (c_id c) False confirm w =
      (Inr \<lparr>dr_deleted_root_id = c_id c, dr_hard = False\<rparr>,
       w\<lparr>data := put_comment (moved actionSoftDelete now (data w) c) (data w)\<rparr>) \<and>
    AdminDelete now (c_id c) True False w = (Inl ErrConfirmationRequired, w)"
proof (intro conjI)
  have find: "FindGlobalByID (c_id c) w = (Inr c, w)"
    using assms find_by_id [OF comment_invD(1) [OF assms(1)], of "c_id c" c]
    by (simp add: FindGlobalByID_def)
  show "AdminDelete now (c_id c) True True w =
      (Inr \<lparr>dr_deleted_root_id = c_id c, dr_hard = True\<rparr>,
       w\<lparr>data := removed (one_comment (c_site_id c) (c_id c)) (data w)\<rparr>)"
    using find hardDeleteOne_exec [OF comment_invD(1) [OF assms(1)] assms(2,3)]
    by (simp add: AdminDelete_def)
  have "status_row actionSoftDelete now c =
      set_status CommentStatusDeleted (Some (c_status c)) (c_published_at c) (Some now)"
    by (simp add: fun_eq_iff status_row_def transition_row_def set_status_def)
  then have "softDeleteOne now (c_site_id c) c w =
      (Inr (), w\<lparr>data := put_comment (moved actionSoftDelete now (data w) c) (data w)\<rparr>)"
    using transition_write [OF assms(1,3), of actionSoftDelete now] assms(2)
    by (simp add: softDeleteOne_def UpdateStatus_def write_or_not_found_def)
  with find assms(4) show "AdminDelete now (c_id c) False confirm w =
      (Inr \<lparr>dr_deleted_root_id = c_id c, dr_hard = False\<rparr>,
       w\<lparr>data := put_comment (moved actionSoftDelete now (data w) c) (data w)\<rparr>)"
    by (simp add: AdminDelete_def)
  show "AdminDelete now (c_id c) True False w = (Inl ErrConfirmationRequired, w)"
    by (simp add: AdminDelete_def)
qed

lemma admin_delete_exact_witness:
  "map c_id (db_comments (data (snd (AdminDelete 7 1 True True sample_world)))) = [2, 3, 4] \<and>
   map c_parent_id (db_comments (data (snd (AdminDelete 7 1 True True sample_world)))) =
     [None, Some 2, None] \<and>
   db_likes (data (snd (AdminDelete 7 1 True True sample_world))) = []"
  using admin_delete_exact [of sample_world "sample_comment 1 2 None None 0 CommentStatusPublished" 7]
  by (simp add: sample_comments) (simp add: sample_comment_def sample_db_def removed_def
      detach_row_def one_comment_def refers_def)

section \<open>Events\<close>

lemma views_wp [wp_intros]:
  "(\<And>r. Q r d os) \<Longrightarrow> wp (adminViewFor avatar settings c) Q d os"
  unfolding adminViewFor_def FindByID_def GetBySiteAndID_def avatarBaseURL_def replyToNickname_def
  by (cases settings) (auto intro!: wp_intros)

lemma adminTransition_wp [wp_intros]:
  assumes "comment_inv d" "\<And>e. Q (Inl e) d os"
    "\<And>c e. c \<in> set (db_comments d) \<Longrightarrow> c_id c = cid \<Longrightarrow>
       lifecycle_step action (lifecycle_of c) \<noteq> None \<Longrightarrow>
       Q (Inl e) (put_comment (moved action now d c) d) os"
    "\<And>c. c \<in> set (db_comments d) \<Longrightarrow> c_id c = cid \<Longrightarrow>
       lifecycle_step action (lifecycle_of c) \<noteq> None \<Longrightarrow>
       Q (Inr (moved action now d c)) (put_comment (moved action now d c) d) os"
  shows "wp (adminTransition now cid action) Q d os"
proof (rule wp_mono [OF wp_adminTransition [OF assms(1)]])
  fix r :: "error + comment" and d' os'
  assume "os' = os \<and> (d' = d \<and> (\<exists>e. r = Inl e) \<or>
         (\<exists>c \<in> set (db_comments d). c_id c = cid \<and>
            lifecycle_step action (lifecycle_of c) \<noteq> None \<and>
            d' = put_comment (moved action now d c) d \<and>
            (\<forall>c'. r = Inr c' \<longrightarrow> c' = moved action now d c)))"
  then show "Q r d' os'"
    using assms(2-4) by (cases r) auto
qed

definition publish_post :: "settings \<Rightarrow> int \<Rightarrow> int \<Rightarrow> db \<Rightarrow> comment_event list \<Rightarrow> db \<Rightarrow> comment_event list \<Rightarrow> bool" where
  "publish_post settings now cid d os d' os' \<longleftrightarrow> os' = os \<or>
     (\<exists>c pol. c \<in> set (db_comments d) \<and> c_id c = cid \<and> lifecycle_of c \<noteq> Live CommentStatusPublished \<and>
        settings = Inr pol \<and> pol_moderation pol = ModerationReview \<and>
        d' = put_comment (moved actionPublish now d c) d \<and>
        os' = os @ [comment_event TypeCommentPublished (moved actionPublish now d c) (pol_mode pol)])"

lemma publish_postI:
  "publish_post settings now cid d os d' os"
  "c \<in> set (db_comments d) \<Longrightarrow> c_id c = cid \<Longrightarrow>
     lifecycle_step actionPublish (lifecycle_of c) \<noteq> None \<Longrightarrow> settings = Inr pol \<Longrightarrow>
     pol_moderation pol = ModerationReview \<Longrightarrow>
     publish_post settings now cid d os (put_comment (moved actionPublish now d c) d)
       (os @ [comment_event TypeCommentPublished (moved actionPublish now d c) (pol_mode pol)])"
  by (auto simp: publish_post_def)

lemma wp_AdminPublish:
  assumes "comment_inv d"
  shows "wp (AdminPublish avatar settings now cid) (\<lambda>r d' os'.
     publish_post settings now cid d os d' os' \<and>
     (\<forall>v pol. r = Inr v \<longrightarrow> settings = Inr pol \<longrightarrow>
        (os' = os \<longleftrightarrow> pol_moderation pol \<noteq> ModerationReview))) d os"
  unfolding AdminPublish_def publishCommentPublished_def using assms
  apply (cases settings)
  apply (auto intro!: wp_intros publish_postI simp del: lifecycle_step.simps)
  done

text \<open>Publishing notifies once.  Whatever the database does, the command emits nothing, or exactly
  one publication event carrying the published comment, and then the comment was not published
  before, has been written as published, and the site reviews comments first.  A command that
  returns has emitted the event if and only if the site reviews comments.\<close>

lemma publish_notifies_once:
  assumes "comment_inv (data w)" "AdminPublish avatar settings now cid w = (r, w')"
  shows "(outbox w' = outbox w \<or>
     (\<exists>c pol. c \<in> set (db_comments (data w)) \<and> c_id c = cid \<and>
        lifecycle_of c \<noteq> Live CommentStatusPublished \<and>
        settings = Inr pol \<and> pol_moderation pol = ModerationReview \<and>
        data w' = put_comment (moved actionPublish now (data w) c) (data w) \<and>
        outbox w' = outbox w @
          [comment_event TypeCommentPublished (moved actionPublish now (data w) c) (pol_mode pol)])) \<and>
     (\<forall>v pol. r = Inr v \<longrightarrow> settings = Inr pol \<longrightarrow>
        (outbox w' = outbox w \<longleftrightarrow> pol_moderation pol \<noteq> ModerationReview))"
  using wpD [OF wp_AdminPublish [OF assms(1)] assms(2)] by (simp add: publish_post_def)

lemma publish_notifies_once_witness:
  "\<exists>v w'. AdminPublish sample_avatar (Inr sample_policy) 7 2 sample_world = (Inr v, w') \<and>
     outbox w' \<noteq> []"
proof -
  obtain r w' where run: "AdminPublish sample_avatar (Inr sample_policy) 7 2 sample_world = (r, w')"
    by (cases "AdminPublish sample_avatar (Inr sample_policy) 7 2 sample_world")
  have "\<not> isl (fst (AdminPublish sample_avatar (Inr sample_policy) 7 2 sample_world))"
    by code_simp
  with run obtain v where "r = Inr v" by (cases r) auto
  with run publish_notifies_once [OF _ run] show ?thesis
    by (auto simp: sample_policy_def)
qed

section \<open>Pins\<close>

lemma wp_SetPinned:
  assumes ok: "schema_ok d" and c: "c \<in> set (db_comments d)" and sid: "sid = c_site_id c"
    and cid: "cid = c_id c"
  shows "wp (SetPinned sid cid b) (\<lambda>r d' os'. os' = os \<and>
     (d' = d \<and> (c_is_pinned c \<noteq> b \<longrightarrow> isl r) \<or>
      d' = put_comment (c\<lparr>c_is_pinned := b, c_updated_at := db_clock d\<rparr>) d) \<and>
     (\<forall>c'. r = Inr c' \<longrightarrow> c_id c' = c_id c \<and> c_is_pinned c' = b)) d os"
proof -
  let ?c = "\<lambda>v. c\<lparr>c_is_pinned := v, c_updated_at := db_clock d\<rparr>"
  have written: "snd (update_comments (the_comment (c_site_id c) (c_id c)) (\<lambda>c. c\<lparr>c_is_pinned := v\<rparr>) d) =
      put_comment (?c v) d" for v
    using update_one(1) [OF ok c refl refl, of "\<lambda>c. c\<lparr>c_is_pinned := v\<rparr>"] by simp
  have there: "select_first (the_comment (c_site_id c) (c_id c)) (db_comments d) = Some c"
    by (rule find_comment(2) [OF ok c])
  have after: "x = ?c v"
    if "select_first (the_comment (c_site_id c) (c_id c)) (db_comments (put_comment (?c v) d)) = Some x"
    for x v
    using that by (auto simp: put_comment_def the_comment_def dest!: select_first_Some split: if_splits)
  show ?thesis
    unfolding SetPinned_def FindBySiteAndID_def sid cid
    by (intro wp_intros) (auto simp: there written intro!: wp_intros dest!: after)
qed

lemma SetPinned_wp [wp_intros]:
  assumes "schema_ok d" "c \<in> set (db_comments d)" "c_site_id c = sid" "c_id c = cid"
    "\<And>e. Q (Inl e) d os"
    "\<And>e. Q (Inl e) (put_comment (c\<lparr>c_is_pinned := b, c_updated_at := db_clock d\<rparr>) d) os"
    "\<And>c' d'. c_is_pinned c = b \<and> d' = d \<or>
        d' = put_comment (c\<lparr>c_is_pinned := b, c_updated_at := db_clock d\<rparr>) d \<Longrightarrow>
      c_id c' = cid \<Longrightarrow> c_is_pinned c' = b \<Longrightarrow> Q (Inr c') d' os"
  shows "wp (SetPinned sid cid b) Q d os"
proof (rule wp_mono [OF wp_SetPinned [OF assms(1,2) assms(3,4) [symmetric]]])
  fix r :: "error + comment" and d' os'
  assume "os' = os \<and>
     (d' = d \<and> (c_is_pinned c \<noteq> b \<longrightarrow> isl r) \<or>
      d' = put_comment (c\<lparr>c_is_pinned := b, c_updated_at := db_clock d\<rparr>) d) \<and>
     (\<forall>c'. r = Inr c' \<longrightarrow> c_id c' = c_id c \<and> c_is_pinned c' = b)"
  then show "Q r d' os'" using assms(4-) by (cases r) auto
qed

definition pin_post :: "int \<Rightarrow> bool \<Rightarrow> db \<Rightarrow> bool \<Rightarrow> db \<Rightarrow> bool" where
  "pin_post cid b d failed d' \<longleftrightarrow>
     d' = d \<and> (failed \<or> (\<exists>c \<in> set (db_comments d). c_id c = cid \<and> c_is_pinned c = b)) \<or>
     (\<exists>c \<in> set (db_comments d). c_id c = cid \<and> c_parent_id c = None \<and> c_root_id c = None \<and>
         c_depth c = 0 \<and> (b \<longrightarrow> c_status c = CommentStatusPublished) \<and>
         d' = put_comment (c\<lparr>c_is_pinned := b, c_updated_at := db_clock d\<rparr>) d)"

lemma pin_postI:
  "pin_post cid b d True d"
  "c \<in> set (db_comments d) \<Longrightarrow> c_id c = cid \<Longrightarrow> c_parent_id c = None \<Longrightarrow> c_root_id c = None \<Longrightarrow>
     c_depth c = 0 \<Longrightarrow> (b \<longrightarrow> c_status c = CommentStatusPublished) \<Longrightarrow>
     pin_post cid b d failed (put_comment (c\<lparr>c_is_pinned := b, c_updated_at := db_clock d\<rparr>) d)"
  "c \<in> set (db_comments d) \<Longrightarrow> c_id c = cid \<Longrightarrow> c_is_pinned c = b \<Longrightarrow> pin_post cid b d failed d"
  unfolding pin_post_def by blast+

lemma wp_AdminSetPinned:
  assumes "comment_inv d"
  shows "wp (AdminSetPinned avatar settings cid b) (\<lambda>r d' os'. os' = os \<and>
     pin_post cid b d (isl r) d') d os"
proof -
  let ?Q = "\<lambda>(r :: error + admin_comment_view) d' os'. os' = os \<and> pin_post cid b d (isl r) d'"
  have body: "wp (bind (lift (validatePinTarget c b)) (\<lambda>_. bind (SetPinned (c_site_id c) cid b)
        (\<lambda>c'. adminViewFor avatar settings c'))) ?Q d os"
    if c: "c \<in> set (db_comments d)" "c_id c = cid" for c
  proof (cases "validatePinTarget c b")
    case (Inl e)
    then show ?thesis by (auto intro!: wp_intros pin_postI)
  next
    case (Inr u)
    then have "c_parent_id c = None" "c_root_id c = None" "c_depth c = 0"
      "b \<longrightarrow> c_status c = CommentStatusPublished"
      by (auto simp: validatePinTarget_def split: if_splits)
    then have post: "pin_post cid b d failed (put_comment (c\<lparr>c_is_pinned := b, c_updated_at := db_clock d\<rparr>) d)"
      "pin_post cid b d True d" "c_is_pinned c = b \<Longrightarrow> pin_post cid b d failed d" for failed
      using c by (auto intro: pin_postI)
    show ?thesis
      unfolding Inr
      apply (rule wp_bind, rule wp_basic(3), simp only: sum.case)
      apply (rule wp_bind, rule SetPinned_wp [OF comment_invD(1) [OF assms] c(1) refl c(2)])
        apply (simp_all add: post)
      apply (rule views_wp)
      apply (metis post(1,3))
      done
  qed
  show ?thesis
    unfolding AdminSetPinned_def
    by (rule wp_bind, rule FindGlobalByID_wp [OF comment_invD(1) [OF assms]])
       (simp_all add: pin_postI body)
qed

text \<open>Only a top-level comment can be pinned or unpinned, only a published one can be pinned, and
  the command changes nothing but that flag of that comment (and its time stamp).\<close>

theorem pin_only_published_roots:
  assumes "comment_inv (data w)" "AdminSetPinned avatar settings cid b w = (r, w')"
  shows "outbox w' = outbox w \<and>
     (data w' = data w \<and> (isl r \<or> (\<exists>c \<in> set (db_comments (data w)). c_id c = cid \<and> c_is_pinned c = b)) \<or>
      (\<exists>c \<in> set (db_comments (data w)). c_id c = cid \<and> c_parent_id c = None \<and> c_root_id c = None \<and>
         c_depth c = 0 \<and> (b \<longrightarrow> c_status c = CommentStatusPublished) \<and>
         data w' = put_comment (c\<lparr>c_is_pinned := b, c_updated_at := db_clock (data w)\<rparr>) (data w)))"
  using wpD [OF wp_AdminSetPinned [OF assms(1)] assms(2)] by (simp add: pin_post_def)

lemma pin_only_published_roots_witness:
  "data (snd (AdminSetPinned sample_avatar (Inr sample_policy) 4 True sample_world)) = sample_db"
  using pin_only_published_roots [of sample_world sample_avatar "Inr sample_policy" 4 True]
  by (cases "AdminSetPinned sample_avatar (Inr sample_policy) 4 True sample_world")
     (auto simp: sample_comments sample_comment_def)

text \<open>The widget's pin command is for active administrators: for everyone else it fails without
  sending a statement.\<close>

theorem widget_pin_requires_admin:
  "(p_status pr = UserStatusActive \<and> p_role pr = RoleAdmin) =
     (\<exists>sid cid b w. WidgetSetPinned pr sid cid b w \<noteq> (Inl ErrForbidden, w))"
proof
  assume "p_status pr = UserStatusActive \<and> p_role pr = RoleAdmin"
  then have "WidgetSetPinned pr 1 9 True sample_world = (Inl ErrNotFound, sample_world)"
    by (simp add: WidgetSetPinned_def FindBySiteAndID_def sample_comments select_first_def
        the_comment_def sample_comment_def bind_def)
  then have "WidgetSetPinned pr 1 9 True sample_world \<noteq> (Inl ErrForbidden, sample_world)" by simp
  then show "\<exists>sid cid b w. WidgetSetPinned pr sid cid b w \<noteq> (Inl ErrForbidden, w)" by blast
qed (auto simp: WidgetSetPinned_def split: if_splits)

section \<open>Likes\<close>

definition likers :: "int \<Rightarrow> int \<Rightarrow> db \<Rightarrow> int set" where
  "likers sid cid d = {u. \<exists>l \<in> set (db_likes d). the_like sid cid u l}"

lemma like_count_likers:
  assumes "schema_ok d" shows "like_count_of sid cid d = card (likers sid cid d)"
proof -
  let ?ls = "filter (\<lambda>l. l_site_id l = sid \<and> l_comment_id l = cid) (db_likes d)"
  have "distinct (map (\<lambda>l. (l_site_id l, l_comment_id l, l_user_id l)) (db_likes d))"
    using assms by (simp add: schema_ok_def uniques_ok_def)
  then have "distinct (map l_user_id ?ls)"
    by (auto simp: distinct_map inj_on_def)
  moreover have "likers sid cid d = set (map l_user_id ?ls)"
    by (auto simp: likers_def the_like_def)
  ultimately show ?thesis
    by (metis distinct_card length_map like_count_of_def count_where_def)
qed

lemma likers_insert:
  "likers s c (snd (insert_like sid cid uid d)) =
     (if s = sid \<and> c = cid then insert uid (likers s c d) else likers s c d)"
  by (auto simp: likers_def insert_like_def the_like_def)

lemma likers_delete:
  "likers s c (snd (delete_like sid cid uid d)) =
     (if s = sid \<and> c = cid then likers s c d - {uid} else likers s c d)"
  by (auto simp: likers_def delete_like_def the_like_def)

lemma like_writes [simp]:
  "db_comments (snd (insert_like sid cid uid d)) = db_comments d"
  "db_comments (snd (delete_like sid cid uid d)) = db_comments d"
  by (simp_all add: insert_like_def delete_like_def)

text \<open>Likes form a set of readers.  A like that succeeds adds the reader to the comment's set (once,
  however often it is repeated), an unlike removes them, the returned count is the size of the
  set afterwards, no other comment's set changes, only published comments can be liked, and an
  error of any kind leaves all likes alone.\<close>

lemma likes_are_a_set:
  assumes "schema_ok (data w)"
    "(if up then LikeComment sid cid uid else UnlikeComment sid cid uid) w = (r, w')"
  shows "case r of Inl e \<Rightarrow> data w' = data w
    | Inr res \<Rightarrow>
        likers sid cid (data w') =
          (if up then insert uid (likers sid cid (data w)) else likers sid cid (data w) - {uid}) \<and>
        lr_like_count res = card (likers sid cid (data w')) \<and> lr_liked res = up \<and>
        (\<forall>s c. (s, c) \<noteq> (sid, cid) \<longrightarrow> likers s c (data w') = likers s c (data w)) \<and>
        (\<exists>c \<in> set (db_comments (data w)). the_comment sid cid c \<and> c_status c = CommentStatusPublished) \<and>
        db_comments (data w') = db_comments (data w)"
proof -
  have "wp (if up then LikeComment sid cid uid else UnlikeComment sid cid uid) (\<lambda>r d' os'. case r of Inl e \<Rightarrow> d' = data w
    | Inr res \<Rightarrow>
        likers sid cid d' =
          (if up then insert uid (likers sid cid (data w)) else likers sid cid (data w) - {uid}) \<and>
        lr_like_count res = card (likers sid cid d') \<and> lr_liked res = up \<and>
        (\<forall>s c. (s, c) \<noteq> (sid, cid) \<longrightarrow> likers s c d' = likers s c (data w)) \<and>
        (\<exists>c \<in> set (db_comments (data w)). the_comment sid cid c \<and> c_status c = CommentStatusPublished) \<and>
        db_comments d' = db_comments (data w)) (data w) (outbox w)"
    unfolding LikeComment_def UnlikeComment_def AddLike_def RemoveLike_def requirePublishedComment_def
      likeCount_def
    by (cases up; auto intro!: wp_intros simp: likers_insert likers_delete like_count_likers
        count_where_pos_iff; blast)
  from wpD [OF this assms(2)] show ?thesis .
qed

lemma likes_are_a_set_witness:
  "\<exists>res w'. LikeComment 1 1 2 sample_world = (Inr res, w') \<and> lr_like_count res = 2"
proof -
  obtain r w' where run: "LikeComment 1 1 2 sample_world = (r, w')"
    by (cases "LikeComment 1 1 2 sample_world")
  have "fst (LikeComment 1 1 2 sample_world) =
      Inr \<lparr>lr_comment_id = 1, lr_like_count = 2, lr_liked = True\<rparr>"
    by code_simp
  with run likes_are_a_set [of sample_world True 1 1 2 r w'] show ?thesis by auto
qed

end
