(* ===== verification/Batch.thy ===== *)
theory Batch
  imports Removal Go_Std "HOL-Library.List_Lexorder" "HOL-Library.Char_ord"
begin

text \<open>
  The batch commands of \<open>internal/service/comment/batch.go\<close> and \<open>thread_batch.go\<close>:
  one transaction that reads and locks every target, plans every change in memory, and writes in
  groups of rows that receive the same values.
\<close>

section \<open>Input\<close>

datatype batch_action =
    AdminBatchPending | AdminBatchPublish | AdminBatchSpam | AdminBatchSoftDelete
  | AdminBatchRestore | AdminBatchHardDelete | AdminBatchPin | AdminBatchUnpin

fun batch_action_string :: "batch_action \<Rightarrow> string" where
  "batch_action_string AdminBatchPending = ''pending''"
| "batch_action_string AdminBatchPublish = ''publish''"
| "batch_action_string AdminBatchSpam = ''spam''"
| "batch_action_string AdminBatchSoftDelete = ''soft_delete''"
| "batch_action_string AdminBatchRestore = ''restore''"
| "batch_action_string AdminBatchHardDelete = ''hard_delete''"
| "batch_action_string AdminBatchPin = ''pin''"
| "batch_action_string AdminBatchUnpin = ''unpin''"

text \<open>The conversion of a request string; \<open>ValidAdminBatchAction\<close> tells when it is defined.\<close>

definition batch_actions :: "batch_action list" where
  "batch_actions = [AdminBatchPending, AdminBatchPublish, AdminBatchSpam, AdminBatchSoftDelete,
     AdminBatchRestore, AdminBatchHardDelete, AdminBatchPin, AdminBatchUnpin]"

definition batch_action_of :: "string \<Rightarrow> batch_action option" where
  "batch_action_of s = find (\<lambda>a. batch_action_string a = s) batch_actions"

definition ValidAdminBatchAction :: "string \<Rightarrow> bool" where
  "ValidAdminBatchAction s \<longleftrightarrow> s \<in> set (map batch_action_string batch_actions)"

record batch_input =
  bi_ids :: "int list"
  bi_action :: string
  bi_confirm :: bool

text \<open>The loop over the sorted ids: positive and without a repetition.\<close>

fun ids_ok :: "int list \<Rightarrow> bool" where
  "ids_ok [] = True"
| "ids_ok [i] = (0 < i)"
| "ids_ok (i # j # is) = (0 < i \<and> i \<noteq> j \<and> ids_ok (j # is))"

section \<open>Planning\<close>

definition new_target :: "comment \<Rightarrow> comment_status_batch_target" where
  "new_target c = \<lparr>bt_site_id = c_site_id c, bt_id = c_id c, bt_status = CommentStatusPending,
     bt_status_before_delete = None, bt_published_at = None, bt_deleted_at = None,
     bt_preserve_published_at = False\<rparr>"

definition planAdminBatchComment ::
  "comment \<Rightarrow> batch_action \<Rightarrow> int \<Rightarrow> error + comment_status_batch_target \<times> bool" where
  "planAdminBatchComment c action now =
     (let t = new_target c in
      case action of
        AdminBatchPending \<Rightarrow>
          if c_status c = CommentStatusPending then Inr (t, False)
          else if \<not> canTransition (c_status c) CommentStatusPending then Inl ErrConflict
          else Inr (t\<lparr>bt_status := CommentStatusPending\<rparr>, True)
      | AdminBatchPublish \<Rightarrow>
          if c_status c = CommentStatusPublished then Inr (t, False)
          else if \<not> canTransition (c_status c) CommentStatusPublished then Inl ErrConflict
          else Inr (t\<lparr>bt_status := CommentStatusPublished, bt_published_at := Some now\<rparr>, True)
      | AdminBatchSpam \<Rightarrow>
          if c_status c = CommentStatusSpam then Inr (t, False)
          else if \<not> canTransition (c_status c) CommentStatusSpam then Inl ErrConflict
          else Inr (t\<lparr>bt_status := CommentStatusSpam, bt_preserve_published_at := True\<rparr>, True)
      | AdminBatchSoftDelete \<Rightarrow>
          if c_status c = CommentStatusDeleted then Inr (t, False)
          else if \<not> canTransition (c_status c) CommentStatusDeleted then Inl ErrConflict
          else Inr (t\<lparr>bt_status := CommentStatusDeleted,
                      bt_status_before_delete := Some (c_status c),
                      bt_preserve_published_at := True, bt_deleted_at := Some now\<rparr>, True)
      | AdminBatchRestore \<Rightarrow>
          (case c_status_before_delete c of
             None \<Rightarrow> Inl ErrConflict
           | Some before \<Rightarrow>
               if c_status c \<noteq> CommentStatusDeleted then Inl ErrConflict
               else if before \<noteq> CommentStatusPending \<and> before \<noteq> CommentStatusPublished \<and>
                       before \<noteq> CommentStatusSpam then Inl ErrConflict
               else Inr (t\<lparr>bt_status := before,
                           bt_published_at :=
                             (if before = CommentStatusPublished then Some now else None)\<rparr>, True))
      | AdminBatchPin \<Rightarrow>
          (case validatePinTarget c True of
             Inl e \<Rightarrow> Inl e
           | Inr _ \<Rightarrow> Inr (t, \<not> c_is_pinned c))
      | AdminBatchUnpin \<Rightarrow>
          (case validatePinTarget c False of
             Inl e \<Rightarrow> Inl e
           | Inr _ \<Rightarrow> Inr (t, c_is_pinned c))
      | AdminBatchHardDelete \<Rightarrow> Inr (t, True))"

text \<open>
  The planning loop: the changes in the order of the ids, with the rows they start from, and the
  number of targets that already are in the wanted state.
\<close>

fun planTargets :: "batch_action \<Rightarrow> int \<Rightarrow> comment list \<Rightarrow> int list \<Rightarrow>
  error + (comment \<times> comment_status_batch_target) list \<times> nat" where
  "planTargets action now rows [] = Inr ([], 0)"
| "planTargets action now rows (i # is) =
     (case select_first (\<lambda>c. c_id c = i) rows of
        None \<Rightarrow> Inl (ErrResource i ErrNotFound)
      | Some c \<Rightarrow>
          (case planAdminBatchComment c action now of
             Inl e \<Rightarrow> Inl (ErrResource i e)
           | Inr (t, changed) \<Rightarrow>
               bindE (planTargets action now rows is) (\<lambda>(ps, unchanged).
                 Inr (if changed then ((c, t) # ps, unchanged) else (ps, unchanged + 1)))))"

definition commentStatusBatchGroupKey :: "comment_status_batch_target \<Rightarrow> string" where
  "commentStatusBatchGroupKey t =
     (let before = (case bt_status_before_delete t of None \<Rightarrow> '''' | Some s \<Rightarrow> status_string s);
          published = (if bt_preserve_published_at t then ''preserve''
                       else if bt_published_at t \<noteq> None then ''set'' else ''clear'');
          deleted = (if bt_deleted_at t \<noteq> None then ''set'' else ''clear'')
      in status_string (bt_status t) @ ''|'' @ before @ ''|'' @ published @ ''|'' @ deleted)"

section \<open>Writing\<close>

text \<open>The outcome of a write (\<open>Inl\<close> or a row count) is checked against the number of targets.\<close>

definition requireRows :: "nat sql \<Rightarrow> nat \<Rightarrow> unit sql" where
  "requireRows m expected = bind m (\<lambda>n. require (n = expected) (ErrRowsAffected n expected))"

definition writeStatusGroups :: "comment_status_batch_target list \<Rightarrow> unit sql" where
  "writeStatusGroups ts =
     for_each (\<lambda>k. let g = filter (\<lambda>t. commentStatusBatchGroupKey t = k) ts
                   in requireRows (UpdateStatusMany g) (length g))
       (sort (remdups (map commentStatusBatchGroupKey ts)))"

definition plain_target :: "comment_status_batch_target \<Rightarrow> comment_batch_target" where
  "plain_target t = \<lparr>bt_site_id = bt_site_id t, bt_id = bt_id t\<rparr>"

definition writePlan :: "batch_action \<Rightarrow> comment_status_batch_target list \<Rightarrow> unit sql" where
  "writePlan action ts =
     (let plain = map plain_target ts in
      case action of
        AdminBatchPin \<Rightarrow> requireRows (SetPinnedMany plain True) (length plain)
      | AdminBatchUnpin \<Rightarrow> requireRows (SetPinnedMany plain False) (length plain)
      | AdminBatchHardDelete \<Rightarrow>
          bind (DetachCommentChildrenMany plain) (\<lambda>_.
          requireRows (HardDeleteMany plain) (length plain))
      | _ \<Rightarrow> writeStatusGroups ts)"

text \<open>The snapshot a publication event is made from.\<close>

definition published_snapshot :: "comment \<times> comment_status_batch_target \<Rightarrow> comment" where
  "published_snapshot p =
     (fst p)\<lparr>c_status := bt_status (snd p),
             c_status_before_delete := bt_status_before_delete (snd p),
             c_published_at := bt_published_at (snd p), c_deleted_at := bt_deleted_at (snd p)\<rparr>"

definition batchTx :: "batch_action \<Rightarrow> int \<Rightarrow> int list \<Rightarrow>
  ((comment \<times> comment_status_batch_target) list \<times> nat) sql" where
  "batchTx action now ids =
     bind (FindGlobalByIDsLocked ids) (\<lambda>rows.
     bind (lift (planTargets action now rows ids)) (\<lambda>plan.
     bind (writePlan action (map snd (fst plan))) (\<lambda>_.
     ret plan)))"

definition AdminBatch :: "settings \<Rightarrow> int \<Rightarrow> batch_input \<Rightarrow> batch_result sql" where
  "AdminBatch settings now input =
     (if bi_ids input = [] \<or> length (bi_ids input) > 100 \<or> \<not> ValidAdminBatchAction (bi_action input)
      then fail ErrValidation
      else bind (lift (option_to_result ErrValidation (batch_action_of (bi_action input)))) (\<lambda>action.
      if (action = AdminBatchSoftDelete \<or> action = AdminBatchHardDelete) \<and> \<not> bi_confirm input
      then fail ErrConfirmationRequired
      else let ids = sort (bi_ids input) in
      if \<not> ids_ok ids then fail ErrValidation
      else bind (if action = AdminBatchPublish then bind (lift settings) (\<lambda>p. ret (Some p)) else ret None)
        (\<lambda>policy.
      bind (atomically ErrInfra (batchTx action now ids)) (\<lambda>plan.
      bind (case policy of
              None \<Rightarrow> ret ()
            | Some p \<Rightarrow>
                if pol_moderation p = ModerationReview
                then for_each (\<lambda>q. publishCommentPublished (published_snapshot q) (pol_mode p)) (fst plan)
                else ret ()) (\<lambda>_.
      ret \<lparr>br_requested = length ids, br_changed = length (fst plan), br_unchanged = snd plan\<rparr>)))))"

section \<open>Threads (thread_batch.go)\<close>

datatype thread_batch_action =
  AdminThreadBatchEnable | AdminThreadBatchDisable | AdminThreadBatchHardDelete

fun thread_batch_action_string :: "thread_batch_action \<Rightarrow> string" where
  "thread_batch_action_string AdminThreadBatchEnable = ''enable''"
| "thread_batch_action_string AdminThreadBatchDisable = ''disable''"
| "thread_batch_action_string AdminThreadBatchHardDelete = ''hard_delete''"

definition thread_batch_actions :: "thread_batch_action list" where
  "thread_batch_actions = [AdminThreadBatchEnable, AdminThreadBatchDisable, AdminThreadBatchHardDelete]"

definition thread_batch_action_of :: "string \<Rightarrow> thread_batch_action option" where
  "thread_batch_action_of s = find (\<lambda>a. thread_batch_action_string a = s) thread_batch_actions"

definition ValidAdminThreadBatchAction :: "string \<Rightarrow> bool" where
  "ValidAdminThreadBatchAction s \<longleftrightarrow> s \<in> set (map thread_batch_action_string thread_batch_actions)"

fun planAdminThreadBatchAction :: "thread \<Rightarrow> thread_batch_action \<Rightarrow> bool" where
  "planAdminThreadBatchAction t AdminThreadBatchEnable = (\<not> t_comments_enabled t)"
| "planAdminThreadBatchAction t AdminThreadBatchDisable = t_comments_enabled t"
| "planAdminThreadBatchAction t AdminThreadBatchHardDelete = True"

fun planThreads :: "thread_batch_action \<Rightarrow> thread list \<Rightarrow> int list \<Rightarrow> error + int list \<times> nat" where
  "planThreads action rows [] = Inr ([], 0)"
| "planThreads action rows (i # is) =
     (case select_first (\<lambda>t. t_id t = i) rows of
        None \<Rightarrow> Inl (ErrResource i ErrNotFound)
      | Some t \<Rightarrow>
          bindE (planThreads action rows is) (\<lambda>(ws, unchanged).
            Inr (if planAdminThreadBatchAction t action then (i # ws, unchanged)
                 else (ws, unchanged + 1))))"

definition threadBatchTx :: "int \<Rightarrow> thread_batch_action \<Rightarrow> int list \<Rightarrow> (int list \<times> nat) sql" where
  "threadBatchTx sid action ids =
     bind (GetBySiteAndIDsLocked sid ids) (\<lambda>rows.
     bind (lift (planThreads action rows ids)) (\<lambda>plan.
     bind (if action = AdminThreadBatchHardDelete
           then requireRows (DeleteThreads sid (fst plan)) (length (fst plan))
           else requireRows (UpdateCommentsEnabledMany sid (fst plan) (action = AdminThreadBatchEnable))
                  (length (fst plan))) (\<lambda>_.
     ret plan)))"

definition AdminBatchThreads :: "int \<Rightarrow> batch_input \<Rightarrow> batch_result sql" where
  "AdminBatchThreads sid input =
     (if sid \<le> 0 \<or> bi_ids input = [] \<or> length (bi_ids input) > 100 \<or>
         \<not> ValidAdminThreadBatchAction (bi_action input)
      then fail ErrValidation
      else bind (lift (option_to_result ErrValidation (thread_batch_action_of (bi_action input)))) (\<lambda>action.
      if action = AdminThreadBatchHardDelete \<and> \<not> bi_confirm input then fail ErrConfirmationRequired
      else let ids = sort (bi_ids input) in
      if \<not> ids_ok ids then fail ErrValidation
      else bind (atomically ErrInfra (threadBatchTx sid action ids)) (\<lambda>plan.
      ret \<lparr>br_requested = length ids, br_changed = length (fst plan), br_unchanged = snd plan\<rparr>)))"

end
