(* ===== verification/Batch_Props.thy ===== *)
theory Batch_Props
  imports Batch Moderation_Props
begin

text \<open>
  The batch commands against their row-by-row meaning: the grouped statements together write to
  every changed row what its own plan says and to no other row, and a batch either does all of it
  or nothing.
\<close>

section \<open>Group keys\<close>

lemma append_sep_inj:
  "sep \<notin> set a \<Longrightarrow> sep \<notin> set b \<Longrightarrow> a @ sep # x = b @ sep # y \<longleftrightarrow> a = b \<and> x = y"
  by (induction a arbitrary: b; case_tac b) auto

lemma no_bar [simp]: "CHR ''|'' \<notin> set (status_string s)"
  by (cases s) simp_all

lemma status_string_nonempty [simp]: "status_string s \<noteq> []" "[] \<noteq> status_string s"
  by (cases s; simp)+

text \<open>What a plan can be, for an action and a moment.\<close>

lemma plan_shape:
  assumes "planAdminBatchComment c action now = Inr (t, b)"
  shows "bt_site_id t = c_site_id c" "bt_id t = c_id c"
    "bt_published_at t = None \<or> bt_published_at t = Some now"
    "bt_deleted_at t = None \<or> bt_deleted_at t = Some now"
    "bt_status_before_delete t = None \<or> bt_status_before_delete t = Some (c_status c)"
  using assms
  by (auto simp: planAdminBatchComment_def new_target_def Let_def
      split: batch_action.splits if_splits option.splits sum.splits)

text \<open>Plans with the same key write the same values.\<close>

lemma bars_inj:
  assumes "a @ ''|'' @ b @ ''|'' @ c @ ''|'' @ e = a' @ ''|'' @ b' @ ''|'' @ c' @ ''|'' @ e'"
    "CHR ''|'' \<notin> set a" "CHR ''|'' \<notin> set a'" "CHR ''|'' \<notin> set b" "CHR ''|'' \<notin> set b'"
    "CHR ''|'' \<notin> set c" "CHR ''|'' \<notin> set c'"
  shows "a = a' \<and> b = b' \<and> c = c' \<and> e = e'"
  using assms by (simp add: append_sep_inj)

definition before_field :: "comment_status_batch_target \<Rightarrow> string" where
  "before_field t = (case bt_status_before_delete t of None \<Rightarrow> '''' | Some s \<Rightarrow> status_string s)"

definition published_field :: "comment_status_batch_target \<Rightarrow> string" where
  "published_field t = (if bt_preserve_published_at t then ''preserve''
     else if bt_published_at t \<noteq> None then ''set'' else ''clear'')"

definition deleted_field :: "comment_status_batch_target \<Rightarrow> string" where
  "deleted_field t = (if bt_deleted_at t \<noteq> None then ''set'' else ''clear'')"

lemma before_field_inj: "before_field t = before_field t' \<Longrightarrow>
    bt_status_before_delete t = bt_status_before_delete t'"
  by (cases "bt_status_before_delete t"; cases "bt_status_before_delete t'")
     (simp_all add: before_field_def)

lemma key_fields:
  assumes "commentStatusBatchGroupKey t = commentStatusBatchGroupKey t'"
  shows "bt_status t = bt_status t'" "bt_status_before_delete t = bt_status_before_delete t'"
    "published_field t = published_field t'" "deleted_field t = deleted_field t'"
proof -
  have bars: "CHR ''|'' \<notin> set (before_field t)" "CHR ''|'' \<notin> set (published_field t)" for t
    by (simp_all add: before_field_def published_field_def split: option.split)
  have "status_string (bt_status t) = status_string (bt_status t') \<and> before_field t = before_field t' \<and>
      published_field t = published_field t' \<and> deleted_field t = deleted_field t'"
    by (rule bars_inj [OF _ no_bar no_bar bars(1) bars(1) bars(2) bars(2)])
       (use assms in \<open>simp only: commentStatusBatchGroupKey_def Let_def before_field_def
          published_field_def deleted_field_def\<close>)
  then show "bt_status t = bt_status t'" "bt_status_before_delete t = bt_status_before_delete t'"
    "published_field t = published_field t'" "deleted_field t = deleted_field t'"
    by (auto intro: before_field_inj)
qed

lemma key_values:
  assumes "planAdminBatchComment c action now = Inr (t, b)"
    "planAdminBatchComment c' action now = Inr (t', b')"
    "commentStatusBatchGroupKey t = commentStatusBatchGroupKey t'"
  shows "apply_status_target t = apply_status_target t'"
proof -
  note key = key_fields [OF assms(3)]
  have deleted: "bt_deleted_at t = bt_deleted_at t'"
    using key(4) plan_shape(4) [OF assms(1)] plan_shape(4) [OF assms(2)]
    by (cases "bt_deleted_at t"; cases "bt_deleted_at t'") (simp_all add: deleted_field_def)
  have preserve: "bt_preserve_published_at t = bt_preserve_published_at t'"
    using key(3) by (simp add: published_field_def split: if_splits)
  have published: "\<not> bt_preserve_published_at t' \<Longrightarrow> bt_published_at t = bt_published_at t'"
    using key(3) preserve plan_shape(3) [OF assms(1)] plan_shape(3) [OF assms(2)]
    by (cases "bt_published_at t"; cases "bt_published_at t'") (simp_all add: published_field_def)
  show ?thesis
    using key(1,2) deleted preserve published
    by (simp add: fun_eq_iff apply_status_target_def Let_def)
qed

section \<open>Plans\<close>

lemma select_first_filter:
  "i \<in> S \<Longrightarrow> select_first (\<lambda>c. k c = i) (filter (\<lambda>c. k c \<in> S) rows) = select_first (\<lambda>c. k c = i) rows"
  by (induction rows) (auto simp: select_first_def)

lemma planTargets_filter:
  "set is \<subseteq> set ids \<Longrightarrow>
     planTargets action now (filter (\<lambda>c. c_id c \<in> set ids) rows) is = planTargets action now rows is"
  by (induction "is") (simp_all add: select_first_filter split: option.split sum.split)

lemma planTargets_step:
  "planTargets action now rows (i # is) = Inr (ps, n) \<longleftrightarrow>
     (\<exists>c t changed ps' n'. select_first (\<lambda>c. c_id c = i) rows = Some c \<and>
        planAdminBatchComment c action now = Inr (t, changed) \<and>
        planTargets action now rows is = Inr (ps', n') \<and>
        ps = (if changed then (c, t) # ps' else ps') \<and> n = (if changed then n' else n' + 1))"
  by (auto simp: bindE_Inr_iff split: option.splits sum.splits prod.splits if_splits)

text \<open>
  The plan of a batch: every target exists and has a plan, the changed ones are listed once, the
  others are counted.
\<close>

definition plan_ok :: "batch_action \<Rightarrow> int \<Rightarrow> db \<Rightarrow> int list \<Rightarrow>
    (comment \<times> comment_status_batch_target) list \<Rightarrow> bool" where
  "plan_ok action now d ids ps \<longleftrightarrow>
     (\<forall>(c, t) \<in> set ps. c \<in> set (db_comments d) \<and> c_id c \<in> set ids \<and>
        planAdminBatchComment c action now = Inr (t, True)) \<and>
     distinct (map (\<lambda>p. c_id (fst p)) ps) \<and>
     (\<forall>i \<in> set ids. \<exists>c \<in> set (db_comments d). c_id c = i \<and>
        (\<exists>t b. planAdminBatchComment c action now = Inr (t, b) \<and> (b \<longrightarrow> (c, t) \<in> set ps)))"

lemma planTargets_ok:
  assumes "planTargets action now (db_comments d) ids = Inr (ps, n)" "distinct ids"
  shows "plan_ok action now d ids ps \<and> length ps + n = length ids"
  using assms
proof (induction ids arbitrary: ps n)
  case Nil
  then show ?case by (simp add: plan_ok_def)
next
  case (Cons i "is")
  from Cons.prems(1) obtain c t changed ps' n' where
    first: "c \<in> set (db_comments d)" "c_id c = i" and
    plan: "planAdminBatchComment c action now = Inr (t, changed)" and
    rest: "planTargets action now (db_comments d) is = Inr (ps', n')" and
    res: "ps = (if changed then (c, t) # ps' else ps')" "n = (if changed then n' else n' + 1)"
    unfolding planTargets_step by (auto dest!: select_first_Some)
  from Cons.IH [OF rest] Cons.prems(2) have IH: "plan_ok action now d is ps'" "length ps' + n' = length is"
    by simp_all
  then have "i \<notin> (\<lambda>p. c_id (fst p)) ` set ps'"
    using Cons.prems(2) by (auto simp: plan_ok_def)
  moreover have "\<exists>c \<in> set (db_comments d). c_id c = j \<and>
        (\<exists>t b. planAdminBatchComment c action now = Inr (t, b) \<and> (b \<longrightarrow> (c, t) \<in> set ps))"
    if "j \<in> set (i # is)" for j
  proof (cases "j = i")
    case True
    with first plan res show ?thesis by (cases changed) auto
  next
    case False
    with that IH(1) obtain c' t' b' where "c' \<in> set (db_comments d)" "c_id c' = j"
      "planAdminBatchComment c' action now = Inr (t', b')" "b' \<longrightarrow> (c', t') \<in> set ps'"
      by (auto simp: plan_ok_def)
    moreover have "set ps' \<subseteq> set ps" using res by auto
    ultimately show ?thesis by blast
  qed
  ultimately show ?case
    using IH first plan res unfolding plan_ok_def by auto
qed

lemma plan_targets:
  assumes "plan_ok action now d ids ps" "schema_ok d" "(c, t) \<in> set ps" "r \<in> set (db_comments d)"
  shows "the_comment (bt_site_id t) (bt_id t) r \<longleftrightarrow> r = c"
proof -
  have "c \<in> set (db_comments d)" "planAdminBatchComment c action now = Inr (t, True)"
    using assms(1,3) by (auto simp: plan_ok_def)
  with plan_shape(1,2) [of c action now t True] schema_ok_same_id [OF assms(2,4), of c]
  show ?thesis by (auto simp: the_comment_def)
qed

lemma plan_unique:
  assumes "plan_ok action now d ids ps" "(c, t) \<in> set ps" "(c, t') \<in> set ps"
  shows "t = t'"
proof -
  have "planAdminBatchComment c action now = Inr (t, True)"
    "planAdminBatchComment c action now = Inr (t', True)"
    using assms by (auto simp: plan_ok_def)
  then show ?thesis by simp
qed

section \<open>Counting the targets\<close>

lemma targets_plain [simp]: "targets_comment (map plain_target ts) = targets_comment ts"
  by (auto simp: fun_eq_iff targets_comment_def plain_target_def)

lemma targets_plain_map [simp]:
  "targets_comment (map (plain_target \<circ> g) ps) = targets_comment (map g ps)"
  by (simp flip: map_map)

lemma plan_rows:
  assumes "plan_ok action now d ids ps" "schema_ok d" "set qs \<subseteq> set ps" "r \<in> set (db_comments d)"
  shows "targets_comment (map snd qs) r \<longleftrightarrow> r \<in> fst ` set qs"
proof -
  have "the_comment (bt_site_id t) (bt_id t) r \<longleftrightarrow> r = c" if "(c, t) \<in> set qs" for c t
    using plan_targets [OF assms(1,2) _ assms(4)] that assms(3) by blast
  then show ?thesis
    unfolding targets_comment_def by force
qed

lemma plan_count:
  assumes "plan_ok action now d ids ps" "schema_ok d"
  shows "count_where (targets_comment (map snd (filter P ps))) (db_comments d) = length (filter P ps)"
proof -
  let ?qs = "filter P ps"
  have sub: "set ?qs \<subseteq> set ps" by auto
  have "distinct (map c_id (db_comments d))" using assms(2) by (rule schema_ok_keys)
  then have rows: "distinct (db_comments d)" by (simp add: distinct_map)
  have "distinct (map (\<lambda>p. c_id (fst p)) ps)" using assms(1) by (simp add: plan_ok_def)
  then have "distinct (map fst ps)" by (auto simp: distinct_map inj_on_def)
  then have dist: "distinct (map fst ?qs)" by (simp add: distinct_map inj_on_def)
  have "fst ` set ?qs \<subseteq> set (db_comments d)" using assms(1) by (auto simp: plan_ok_def)
  then have "set (filter (targets_comment (map snd ?qs)) (db_comments d)) = set (map fst ?qs)"
    using plan_rows [OF assms sub] by auto
  then show ?thesis
    unfolding count_where_def using rows dist
    by (metis distinct_card distinct_filter length_map)
qed

section \<open>The grouped status writes\<close>

definition group_of :: "comment_status_batch_target list \<Rightarrow> string \<Rightarrow> comment_status_batch_target list" where
  "group_of ts k = filter (\<lambda>t. commentStatusBatchGroupKey t = k) ts"

definition group_row :: "comment_status_batch_target list \<Rightarrow> int \<Rightarrow> string \<Rightarrow> comment \<Rightarrow> comment" where
  "group_row ts clock k c =
     (if targets_comment (group_of ts k) c
      then (apply_status_target (hd (group_of ts k)) c)\<lparr>c_updated_at := clock\<rparr> else c)"

lemma group_row_key [simp]:
  "c_id (group_row ts clock k c) = c_id c" "c_site_id (group_row ts clock k c) = c_site_id c"
  by (simp_all add: group_row_def apply_status_target_def Let_def)

lemma targets_comment_key:
  "c_id c' = c_id c \<Longrightarrow> c_site_id c' = c_site_id c \<Longrightarrow> targets_comment ts c' = targets_comment ts c"
  by (simp add: targets_comment_def the_comment_def)

lemma targets_group_row [simp]:
  "targets_comment ts' (group_row ts clock k c) = targets_comment ts' c"
  by (rule targets_comment_key) simp_all

lemma group_row_missed:
  "(\<And>k. k \<in> set ks \<Longrightarrow> \<not> targets_comment (group_of ts k) c) \<Longrightarrow> fold (group_row ts clock) ks c = c"
  by (induction ks) (simp_all add: group_row_def)

lemma group_row_hit:
  assumes "distinct ks" "k \<in> set ks" "targets_comment (group_of ts k) c"
    "\<And>k'. targets_comment (group_of ts k') c \<Longrightarrow> k' = k"
  shows "fold (group_row ts clock) ks c =
     (apply_status_target (hd (group_of ts k)) c)\<lparr>c_updated_at := clock\<rparr>"
  using assms(1,2)
proof (induction ks)
  case (Cons k' ks)
  show ?case
  proof (cases "k' = k")
    case True
    with Cons.prems have "k \<notin> set ks" by simp
    then have "fold (group_row ts clock) ks (group_row ts clock k c) = group_row ts clock k c"
      using assms(4) by (intro group_row_missed) auto
    moreover have "group_row ts clock k c =
        (apply_status_target (hd (group_of ts k)) c)\<lparr>c_updated_at := clock\<rparr>"
      using assms(3) by (simp add: group_row_def)
    ultimately show ?thesis using True by simp
  next
    case False
    then have "group_row ts clock k' c = c"
      using assms(4) by (auto simp: group_row_def)
    with False Cons show ?thesis by simp
  qed
qed simp

lemma writeGroups_wp:
  assumes "schema_ok d"
    and "\<And>k. k \<in> set ks \<Longrightarrow> group_of ts k \<noteq> [] \<and>
       count_where (targets_comment (group_of ts k)) (db_comments d) = length (group_of ts k)"
    and "\<And>d'. f \<Longrightarrow> Q (Inl ErrInfra) d' os"
    and "Q (Inr ()) (d\<lparr>db_comments := map (fold (group_row ts (db_clock d)) ks) (db_comments d)\<rparr>) os"
  shows "wpf f (for_each (\<lambda>k. let g = group_of ts k in requireRows (UpdateStatusMany g) (length g)) ks)
     Q d os"
  using assms
proof (induction ks arbitrary: d)
  case Nil
  then show ?case unfolding for_each.simps by (intro wp_basic) simp
next
  case (Cons k ks)
  let ?g = "group_of ts k"
  let ?d = "d\<lparr>db_comments := map (group_row ts (db_clock d) k) (db_comments d)\<rparr>"
  have step: "snd (update_comments (targets_comment ?g) (apply_status_target (hd ?g)) d) = ?d"
    by (simp add: update_comments_map group_row_def)
  have ok: "schema_ok ?d"
    unfolding step [symmetric] by (rule schema_ok_update_comments [OF Cons.prems(1)]) simp_all
  have many: "UpdateStatusMany ?g = sql_write ErrInfra
      (update_comments (targets_comment ?g) (apply_status_target (hd ?g)))"
    using Cons.prems(2) [of k] by (cases ?g) (simp_all add: UpdateStatusMany_def)
  have count: "fst (update_comments (targets_comment ?g) (apply_status_target (hd ?g)) d) = length ?g"
    using Cons.prems(2) [of k] by (simp add: update_comments_def)
  have rest: "wpf f (for_each (\<lambda>k. let g = group_of ts k in requireRows (UpdateStatusMany g) (length g)) ks)
     Q ?d os"
  proof (rule Cons.IH [OF ok])
    show "group_of ts k' \<noteq> [] \<and>
        count_where (targets_comment (group_of ts k')) (db_comments ?d) = length (group_of ts k')"
      if "k' \<in> set ks" for k'
      using Cons.prems(2) [of k'] that
      by (simp add: count_where_def filter_map o_def)
  qed (use Cons.prems(3,4) in \<open>simp_all add: o_def\<close>)
  show ?case
    unfolding for_each.simps requireRows_def many Let_def
    by (intro wp_intros) (use Cons.prems(3) ok rest in
      \<open>auto simp: step count requireRows_def Let_def intro!: wp_intros\<close>)
qed


section \<open>What a planned batch writes\<close>

definition plan_row :: "batch_action \<Rightarrow> int \<Rightarrow> comment_status_batch_target \<Rightarrow> comment \<Rightarrow> comment" where
  "plan_row action clock t c =
     (if action = AdminBatchPin then c\<lparr>c_is_pinned := True, c_updated_at := clock\<rparr>
      else if action = AdminBatchUnpin then c\<lparr>c_is_pinned := False, c_updated_at := clock\<rparr>
      else (apply_status_target t c)\<lparr>c_updated_at := clock\<rparr>)"

definition plan_effect :: "batch_action \<Rightarrow> (comment \<times> comment_status_batch_target) list \<Rightarrow> db \<Rightarrow> db" where
  "plan_effect action ps d =
     (if action = AdminBatchHardDelete then removed (batch_targets (map snd ps)) d
      else d\<lparr>db_comments := map (\<lambda>c. case map_of ps c of None \<Rightarrow> c
              | Some t \<Rightarrow> plan_row action (db_clock d) t c) (db_comments d)\<rparr>)"

lemma plan_map_of:
  assumes "plan_ok action now d ids ps"
  shows "map_of ps c = Some t \<longleftrightarrow> (c, t) \<in> set ps"
proof -
  have "distinct (map (\<lambda>p. c_id (fst p)) ps)" using assms by (simp add: plan_ok_def)
  then have "distinct (map fst ps)" by (auto simp: distinct_map inj_on_def)
  then show ?thesis by simp
qed

lemma group_of_plan: "group_of (map snd ps) k =
    map snd (filter (\<lambda>p. commentStatusBatchGroupKey (snd p) = k) ps)"
  by (simp add: group_of_def filter_map o_def)

lemma group_effect:
  assumes plan: "plan_ok action now d ids ps" and ok: "schema_ok d" and c: "c \<in> set (db_comments d)"
    and act: "action \<noteq> AdminBatchPin" "action \<noteq> AdminBatchUnpin"
  shows "fold (group_row (map snd ps) clock)
      (sort (remdups (map commentStatusBatchGroupKey (map snd ps)))) c =
    (case map_of ps c of None \<Rightarrow> c | Some t \<Rightarrow> plan_row action clock t c)"
proof -
  let ?ts = "map snd ps"
  let ?in = "\<lambda>k. {p \<in> set ps. commentStatusBatchGroupKey (snd p) = k}"
  have hits: "targets_comment (group_of ?ts k) c \<longleftrightarrow> c \<in> fst ` ?in k" for k
    unfolding group_of_plan
    using plan_rows [OF plan ok _ c, of "filter (\<lambda>p. commentStatusBatchGroupKey (snd p) = k) ps"]
    by (simp add: set_filter)
  show ?thesis
  proof (cases "map_of ps c")
    case None
    then have "c \<notin> fst ` set ps" by (simp add: map_of_eq_None_iff)
    then show ?thesis using None hits by (simp add: group_row_missed image_iff)
  next
    case (Some t)
    then have t: "(c, t) \<in> set ps" by (rule map_of_SomeD)
    let ?k = "commentStatusBatchGroupKey t"
    have only: "k' = ?k" if "targets_comment (group_of ?ts k') c" for k'
      using that hits plan_unique [OF plan t] by auto
    have hit: "targets_comment (group_of ?ts ?k) c"
      using t hits by force
    have "group_of ?ts ?k \<noteq> []" using hit by (auto simp: targets_comment_def)
    then have "hd (group_of ?ts ?k) \<in> set (group_of ?ts ?k)" by simp
    then obtain c' where c': "(c', hd (group_of ?ts ?k)) \<in> set ps"
      "commentStatusBatchGroupKey (hd (group_of ?ts ?k)) = ?k"
      by (auto simp: group_of_def)
    have "apply_status_target (hd (group_of ?ts ?k)) = apply_status_target t"
      using c' t plan by (intro key_values [of c' action now _ True c _ True]) (auto simp: plan_ok_def)
    moreover have "?k \<in> set (sort (remdups (map commentStatusBatchGroupKey ?ts)))"
      using t by force
    ultimately show ?thesis
      using group_row_hit [OF _ _ hit only, of "sort (remdups (map commentStatusBatchGroupKey ?ts))" clock]
        Some act by (simp add: plan_row_def)
  qed
qed

lemma writePlan_wp:
  assumes plan: "plan_ok action now d ids ps" and ok: "schema_ok d"
    and err: "\<And>d'. f \<Longrightarrow> Q (Inl ErrInfra) d' os"
    and fin: "Q (Inr ()) (plan_effect action ps d) os"
  shows "wpf f (writePlan action (map snd ps)) Q d os"
proof -
  let ?ts = "map snd ps"
  have count: "count_where (targets_comment ?ts) (db_comments d) = length ps"
    using plan_count [OF plan ok, of "\<lambda>_. True"] by simp
  have rows: "targets_comment ?ts c \<longleftrightarrow> map_of ps c \<noteq> None" if "c \<in> set (db_comments d)" for c
    using plan_rows [OF plan ok subset_refl that] by (simp add: map_of_eq_None_iff)
  have none: "plan_effect action [] d = d" if "action \<noteq> AdminBatchHardDelete"
    using that by (simp add: plan_effect_def)
  consider (pin) b where "action = (if b then AdminBatchPin else AdminBatchUnpin)"
    | (hard) "action = AdminBatchHardDelete"
    | (status) "action \<noteq> AdminBatchPin" "action \<noteq> AdminBatchUnpin" "action \<noteq> AdminBatchHardDelete"
    by (cases action; force)
  then show ?thesis
  proof cases
    case (pin b)
    have "writePlan action ?ts = requireRows (SetPinnedMany (map plain_target ?ts) b) (length ps)"
      using pin by (simp add: writePlan_def Let_def)
    moreover have "wpf f (requireRows (SetPinnedMany (map plain_target ?ts) b) (length ps)) Q d os"
    proof (cases "ps = []")
      case True
      then show ?thesis using fin none pin
        by (auto simp: requireRows_def SetPinnedMany_def split: if_splits intro!: wp_intros)
    next
      case False
      have row: "(if targets_comment ?ts c then (c\<lparr>c_is_pinned := b\<rparr>)\<lparr>c_updated_at := db_clock d\<rparr> else c) =
          (case map_of ps c of None \<Rightarrow> c | Some t \<Rightarrow> plan_row action (db_clock d) t c)"
        if "c \<in> set (db_comments d)" for c
        using rows [OF that] pin by (auto simp: plan_row_def split: option.splits)
      have eff: "snd (update_comments (targets_comment ?ts) (\<lambda>c. c\<lparr>c_is_pinned := b\<rparr>) d) =
          plan_effect action ps d"
        unfolding update_comments_map plan_effect_def using row pin by (auto cong: map_cong)
      have "comment_checks (c\<lparr>c_is_pinned := b\<rparr>)"
        if "c \<in> set (db_comments d)" "targets_comment ?ts c" "comment_checks c" for c
      proof -
        from rows that obtain t where "(c, t) \<in> set ps" by (auto dest: map_of_SomeD)
        with plan have "planAdminBatchComment c action now = Inr (t, True)" by (auto simp: plan_ok_def)
        with pin that(3) show ?thesis
          by (cases b) (auto simp: planAdminBatchComment_def validatePinTarget_def comment_checks_def
              Let_def split: if_splits)
      qed
      then have "schema_ok (snd (update_comments (targets_comment ?ts) (\<lambda>c. c\<lparr>c_is_pinned := b\<rparr>) d))"
        by (intro schema_ok_update_comments [OF ok]) simp_all
      then show ?thesis
        unfolding requireRows_def SetPinnedMany_def using False fin err count eff
        by (auto intro!: wp_intros simp: update_comments_def)
    qed
    ultimately show ?thesis by simp
  next
    case hard
    have del: "snd (delete_comments (targets_comment ?ts) (detached (batch_targets ?ts) d)) =
        plan_effect action ps d" "schema_ok (plan_effect action ps d)"
      using delete_detached [OF ok, of "batch_targets ?ts"] hard
      by (simp_all add: plan_effect_def refers_many)
    have count': "count_where (targets_comment ?ts) (db_comments (detached (batch_targets ?ts) d)) = length ps"
      using count count_detached [of "batch_targets ?ts" "batch_targets ?ts" d] by (simp add: refers_many)
    have plain: "map plain_target ?ts = [] \<longleftrightarrow> ps = []" by simp
    have many: "batch_targets (map plain_target ?ts) = batch_targets ?ts"
      by (auto simp: fun_eq_iff batch_targets_def plain_target_def)
    have eq: "writePlan action ?ts = bind (DetachCommentChildrenMany (map plain_target ?ts))
        (\<lambda>_. requireRows (HardDeleteMany (map plain_target ?ts)) (length ps))"
      using hard by (simp add: writePlan_def Let_def)
    show ?thesis
    proof (cases "ps = []")
      case True
      have "detach_row (batch_targets ([] :: comment_status_batch_target list)) clock = (\<lambda>c. c)" for clock
        by (simp add: fun_eq_iff detach_row_def refers_def batch_targets_def Let_def split: option.split)
      with True have "plan_effect action ps d = d"
        using hard by (simp add: plan_effect_def removed_def) (simp add: batch_targets_def)
      with True fin show ?thesis
        unfolding eq by (auto simp: DetachCommentChildrenMany_def HardDeleteMany_def requireRows_def
            intro!: wp_intros)
    next
      case False
      then show ?thesis
        unfolding eq DetachCommentChildrenMany_def HardDeleteMany_def requireRows_def
          refers_many(1,2) many targets_plain
        using detach_schema [OF ok, of "batch_targets ?ts"] del fin err count'
        by (auto intro!: wp_intros simp: detach_steps)
    qed
  next
    case status
    then have "writePlan action ?ts = writeStatusGroups ?ts"
      by (cases action) (simp_all add: writePlan_def Let_def)
    moreover have "wpf f (writeStatusGroups ?ts) Q d os"
      unfolding writeStatusGroups_def group_of_def [symmetric]
    proof (rule writeGroups_wp [OF ok])
      fix k assume "k \<in> set (sort (remdups (map commentStatusBatchGroupKey ?ts)))"
      then have "group_of ?ts k \<noteq> []" by (auto simp: group_of_def filter_empty_conv)
      moreover have "count_where (targets_comment (group_of ?ts k)) (db_comments d) = length (group_of ?ts k)"
        unfolding group_of_plan by (simp add: plan_count [OF plan ok])
      ultimately show "group_of ?ts k \<noteq> [] \<and>
        count_where (targets_comment (group_of ?ts k)) (db_comments d) = length (group_of ?ts k)" ..
    next
      show "Q (Inl ErrInfra) d' os" if f for d' using that by (rule err)
    next
      have rows': "map (fold (group_row ?ts (db_clock d)) (sort (remdups (map commentStatusBatchGroupKey ?ts))))
          (db_comments d) = map (\<lambda>c. case map_of ps c of None \<Rightarrow> c
              | Some t \<Rightarrow> plan_row action (db_clock d) t c) (db_comments d)"
        using group_effect [OF plan ok _ status(1,2)] by (intro map_cong refl) blast
      show "Q (Inr ()) (d\<lparr>db_comments := map (fold (group_row ?ts (db_clock d))
          (sort (remdups (map commentStatusBatchGroupKey ?ts)))) (db_comments d)\<rparr>) os"
        unfolding rows' using fin status(3) by (simp add: plan_effect_def)
    qed
    ultimately show ?thesis by simp
  qed
qed


section \<open>The transaction\<close>

lemma FindGlobalByIDsLocked_wp [wp_intros]:
  "(f \<Longrightarrow> Q (Inl ErrInfra) d os) \<Longrightarrow>
     Q (Inr (filter (\<lambda>c. c_id c \<in> set ids) (db_comments d))) d os \<Longrightarrow>
     wpf f (FindGlobalByIDsLocked ids) Q d os"
  by (auto simp: FindGlobalByIDsLocked_def intro!: wp_intros)

lemma batchTx_wp:
  assumes ok: "schema_ok d" and ids: "distinct ids"
    and err: "\<And>e d'. f \<or> planTargets action now (db_comments d) ids = Inl e \<Longrightarrow> Q (Inl e) d' os"
    and fin: "\<And>ps n. planTargets action now (db_comments d) ids = Inr (ps, n) \<Longrightarrow>
       Q (Inr (ps, n)) (plan_effect action ps d) os"
  shows "wpf f (batchTx action now ids) Q d os"
proof (cases "planTargets action now (db_comments d) ids")
  case (Inl e)
  then show ?thesis
    unfolding batchTx_def by (auto intro!: wp_intros err simp: planTargets_filter)
next
  case (Inr plan)
  obtain ps n where ps: "plan = (ps, n)" by (cases plan)
  have "plan_ok action now d ids ps"
    using planTargets_ok [OF Inr [unfolded ps] ids] by simp
  note done' = writePlan_wp [OF this ok]
  show ?thesis
    unfolding batchTx_def
    using Inr ps fin by (auto intro!: wp_intros done' err simp: planTargets_filter)
qed

lemma ids_ok_sorted:
  "sorted ids \<Longrightarrow> ids_ok ids \<longleftrightarrow> distinct ids \<and> (\<forall>i \<in> set ids. 0 < i)"
  by (induction ids rule: ids_ok.induct) (auto dest: le_neq_trans)

lemma for_each_emit:
  "for_each (\<lambda>q. emit (g q)) qs w = (Inr (), w\<lparr>outbox := outbox w @ map g qs\<rparr>)"
  by (induction qs arbitrary: w) (simp_all add: bind_def emit_def)

lemma for_each_emit_wp [wp_intros]:
  "Q (Inr ()) d (os @ map g qs) \<Longrightarrow> wpf f (for_each (\<lambda>q. emit (g q)) qs) Q d os"
  by (auto simp: wpf_def for_each_emit)

lemma batch_action_of_string [simp]: "batch_action_of (batch_action_string a) = Some a"
  by (cases a) (simp_all add: batch_action_of_def batch_actions_def)

lemma batch_action_valid: "ValidAdminBatchAction s \<longleftrightarrow> (\<exists>a. batch_action_of s = Some a)"
proof
  assume "ValidAdminBatchAction s"
  then obtain a where "s = batch_action_string a" by (auto simp: ValidAdminBatchAction_def)
  then show "\<exists>a. batch_action_of s = Some a" by simp
next
  assume "\<exists>a. batch_action_of s = Some a"
  then show "ValidAdminBatchAction s"
    by (auto simp: batch_action_of_def ValidAdminBatchAction_def find_Some_iff)
qed

definition request_ok :: "batch_input \<Rightarrow> batch_action \<Rightarrow> bool" where
  "request_ok input action \<longleftrightarrow> bi_ids input \<noteq> [] \<and> length (bi_ids input) \<le> 100 \<and>
     batch_action_of (bi_action input) = Some action \<and> distinct (bi_ids input) \<and>
     (\<forall>i \<in> set (bi_ids input). 0 < i) \<and>
     (action = AdminBatchSoftDelete \<or> action = AdminBatchHardDelete \<longrightarrow> bi_confirm input)"

definition batch_events ::
  "settings \<Rightarrow> batch_action \<Rightarrow> (comment \<times> comment_status_batch_target) list \<Rightarrow> comment_event list" where
  "batch_events settings action ps =
     (case settings of Inl e \<Rightarrow> []
      | Inr p \<Rightarrow> if action = AdminBatchPublish \<and> pol_moderation p = ModerationReview
          then map (\<lambda>q. comment_event TypeCommentPublished (published_snapshot q) (pol_mode p)) ps else [])"

lemma AdminBatch_wp:
  assumes ok: "schema_ok d"
    and err: "\<And>e. f \<or> (\<forall>action. \<not> request_ok input action) \<or>
        (\<exists>action. request_ok input action \<and>
           ((action = AdminBatchPublish \<and> settings = Inl e) \<or>
            planTargets action now (db_comments d) (sort (bi_ids input)) = Inl e)) \<Longrightarrow> Q (Inl e) d os"
    and fin: "\<And>action ps n. request_ok input action \<Longrightarrow>
       (action = AdminBatchPublish \<Longrightarrow> \<not> isl settings) \<Longrightarrow>
       planTargets action now (db_comments d) (sort (bi_ids input)) = Inr (ps, n) \<Longrightarrow>
       Q (Inr \<lparr>br_requested = length (bi_ids input), br_changed = length ps, br_unchanged = n\<rparr>)
         (plan_effect action ps d) (os @ batch_events settings action ps)"
  shows "wpf f (AdminBatch settings now input) Q d os"
proof (cases "\<exists>action. request_ok input action")
  case False
  have bad: "\<exists>e. AdminBatch settings now input = fail e"
  proof (cases "bi_ids input = [] \<or> length (bi_ids input) > 100 \<or>
      \<not> ValidAdminBatchAction (bi_action input)")
    case True
    then show ?thesis by (auto simp: AdminBatch_def)
  next
    case valid: False
    then obtain a where a: "batch_action_of (bi_action input) = Some a"
      by (auto simp: batch_action_valid)
    with False valid have "(a = AdminBatchSoftDelete \<or> a = AdminBatchHardDelete) \<and> \<not> bi_confirm input \<or>
        \<not> ids_ok (sort (bi_ids input))"
      using ids_ok_sorted [of "sort (bi_ids input)"] by (auto simp: request_ok_def)
    with valid a show ?thesis by (auto simp: AdminBatch_def bind_unit Let_def)
  qed
  then show ?thesis using err False by (auto intro!: wp_intros)
next
  case True
  then obtain action where req: "request_ok input action" ..
  then have sorted: "ids_ok (sort (bi_ids input))"
    using ids_ok_sorted [of "sort (bi_ids input)"] by (simp add: request_ok_def)
  let ?tx = "\<lambda>policy :: comment_policy option. bind (atomically ErrInfra (batchTx action now (sort (bi_ids input)))) (\<lambda>plan.
      bind (case policy of
              None \<Rightarrow> ret ()
            | Some p \<Rightarrow>
                if pol_moderation p = ModerationReview
                then for_each (\<lambda>q. emit (comment_event TypeCommentPublished (published_snapshot q) (pol_mode p)))
                       (fst plan)
                else ret ()) (\<lambda>_.
      ret \<lparr>br_requested = length (bi_ids input), br_changed = length (fst plan),
           br_unchanged = snd plan\<rparr>))"
  have eq: "AdminBatch settings now input =
      (if action = AdminBatchPublish then bind (lift settings) (\<lambda>p. ?tx (Some p)) else ?tx None)"
    unfolding AdminBatch_def publishCommentPublished_def using req sorted
    by (auto simp: request_ok_def batch_action_valid Let_def bind_unit bind_assoc)
  have tx: "wpf f (?tx policy) Q d os"
    if pol: "policy = None \<and> action \<noteq> AdminBatchPublish \<or>
      (\<exists>p. policy = Some p \<and> action = AdminBatchPublish \<and> settings = Inr p)" for policy
  proof -
    have ev: "batch_events settings action ps = (case policy of None \<Rightarrow> []
        | Some p \<Rightarrow> if pol_moderation p = ModerationReview
            then map (\<lambda>q. comment_event TypeCommentPublished (published_snapshot q) (pol_mode p)) ps
            else [])" for ps
      using pol by (auto simp: batch_events_def split: sum.splits)
    have fin': "Q (Inr \<lparr>br_requested = length (bi_ids input),
          br_changed = length ps, br_unchanged = n\<rparr>) (plan_effect action ps d)
        (os @ (case policy of None \<Rightarrow> []
        | Some p \<Rightarrow> if pol_moderation p = ModerationReview
            then map (\<lambda>q. comment_event TypeCommentPublished (published_snapshot q) (pol_mode p)) ps
            else []))"
      if "planTargets action now (db_comments d) (sort (bi_ids input)) = Inr (ps, n)" for ps n
    proof -
      have "\<not> isl settings" if "action = AdminBatchPublish" using pol that by auto
      from fin [OF req this that] show ?thesis unfolding ev .
    qed
    have err': "Q (Inl e) d os"
      if "f \<or> planTargets action now (db_comments d) (sort (bi_ids input)) = Inl e" for e
      using that req by (intro err) blast
    have distinct: "distinct (sort (bi_ids input))" using req by (simp add: request_ok_def)
    show ?thesis
      apply (rule wp_bind, rule wp_atomically, rule batchTx_wp [OF ok distinct])
       apply (simp add: err')
      apply (cases policy)
       apply (auto simp: err' intro!: wp_intros dest!: fin')
      done
  qed
  show ?thesis
  proof (cases "action = AdminBatchPublish")
    case False
    then have "wpf f (?tx None) Q d os" by (intro tx) simp
    with False show ?thesis unfolding eq by (simp only: if_False)
  next
    case True
    show ?thesis
    proof (cases settings)
      case (Inl e)
      have "Q (Inl e) d os" by (rule err) (use req True Inl in blast)
      with True Inl show ?thesis unfolding eq by (auto simp: bind_unit intro!: wp_basic)
    next
      case (Inr p)
      with True have "wpf f (?tx (Some p)) Q d os" by (intro tx) simp
      with True Inr show ?thesis unfolding eq by (simp only: bind_unit if_True simp_thms)
    qed
  qed
qed


section \<open>Batches and single commands\<close>

fun batch_step :: "batch_action \<Rightarrow> admin_action option" where
  "batch_step AdminBatchPending = Some actionPending"
| "batch_step AdminBatchPublish = Some actionPublish"
| "batch_step AdminBatchSpam = Some actionSpam"
| "batch_step AdminBatchSoftDelete = Some actionSoftDelete"
| "batch_step AdminBatchRestore = Some actionRestore"
| "batch_step AdminBatchHardDelete = None"
| "batch_step AdminBatchPin = None"
| "batch_step AdminBatchUnpin = None"

lemma apply_status_target_set:
  "apply_status_target t c = set_status (bt_status t) (bt_status_before_delete t)
     (if bt_preserve_published_at t then c_published_at c else bt_published_at t) (bt_deleted_at t) c"
  by (simp add: apply_status_target_def set_status_def Let_def)

lemma plan_lifecycle:
  assumes "life_ok c" "batch_step action = Some a" "planAdminBatchComment c action now = Inr (t, b)"
  shows "(b \<longleftrightarrow> lifecycle_step a (lifecycle_of c) \<noteq> None) \<and>
    (b \<longrightarrow> apply_status_target t c = transition_row a now c)"
  using assms(1)
proof (cases rule: lifecycle_cases)
  case live
  show ?thesis
    using live assms(2,3)
    by (cases action)
       (auto simp: planAdminBatchComment_def canTransition_iff new_target_def transition_row_def
        apply_status_target_set Let_def split: if_splits)
next
  case (binned s)
  show ?thesis
    using binned assms(2,3)
    by (cases action)
       (auto simp: planAdminBatchComment_def canTransition_iff new_target_def transition_row_def
        apply_status_target_set Let_def split: if_splits)
qed

definition batch_moved :: "admin_action \<Rightarrow> int \<Rightarrow> int list \<Rightarrow> db \<Rightarrow> db" where
  "batch_moved a now ids d = d\<lparr>db_comments := map (\<lambda>c.
     if c_id c \<in> set ids \<and> lifecycle_step a (lifecycle_of c) \<noteq> None then moved a now d c else c)
     (db_comments d)\<rparr>"

lemma plan_effect_moved:
  assumes "comment_inv d" "batch_step action = Some a" "plan_ok action now d ids ps"
  shows "plan_effect action ps d = batch_moved a now ids d"
proof -
  have status: "action \<noteq> AdminBatchPin" "action \<noteq> AdminBatchUnpin" "action \<noteq> AdminBatchHardDelete"
    using assms(2) by auto
  have "(case map_of ps c of None \<Rightarrow> c | Some t \<Rightarrow> plan_row action (db_clock d) t c) =
      (if c_id c \<in> set ids \<and> lifecycle_step a (lifecycle_of c) \<noteq> None then moved a now d c else c)"
    if c: "c \<in> set (db_comments d)" for c
  proof -
    have life: "life_ok c" using assms(1) c by (simp add: comment_inv_def life_inv_def)
    show ?thesis
    proof (cases "map_of ps c")
      case None
      then have not_in: "(c, t) \<notin> set ps" for t using plan_map_of [OF assms(3), of c t] by simp
      have "lifecycle_step a (lifecycle_of c) = None" if "c_id c \<in> set ids"
      proof -
        from assms(3) that obtain c' t b where "c' \<in> set (db_comments d)" "c_id c' = c_id c"
          "planAdminBatchComment c' action now = Inr (t, b)" "b \<longrightarrow> (c', t) \<in> set ps"
          unfolding plan_ok_def by blast
        moreover from this(1,2) have "c' = c"
          using schema_ok_same_id [OF comment_invD(1) [OF assms(1)] _ c] by blast
        ultimately show ?thesis using plan_lifecycle [OF life assms(2)] not_in by blast
      qed
      with None show ?thesis by auto
    next
      case (Some t)
      then have "(c, t) \<in> set ps" by (rule map_of_SomeD)
      with assms(3) have "planAdminBatchComment c action now = Inr (t, True)" "c_id c \<in> set ids"
        by (auto simp: plan_ok_def)
      with plan_lifecycle [OF life assms(2), of now t True] Some status show ?thesis
        by (simp add: moved_def plan_row_def)
    qed
  qed
  with status show ?thesis by (simp add: plan_effect_def batch_moved_def)
qed

text \<open>C13: a batch is all or nothing.  Whatever the database does, a batch that reports an error has
  changed no row and sent no event.  A batch that returns accounts for every requested comment as
  changed or unchanged; for a lifecycle action the rows are then exactly those of the single
  command applied to each requested comment that the life cycle lets move, although they were
  written in groups.\<close>

theorem batch_atomic:
  assumes "comment_inv (data w)" "AdminBatch settings now input w = (r, w')"
  shows "case r of Inl e \<Rightarrow> data w' = data w \<and> outbox w' = outbox w
    | Inr res \<Rightarrow> br_requested res = length (bi_ids input) \<and>
        br_changed res + br_unchanged res = length (bi_ids input) \<and>
        set (bi_ids input) \<subseteq> c_id ` set (db_comments (data w)) \<and>
        (\<exists>action. batch_action_of (bi_action input) = Some action \<and>
          (\<forall>a. batch_step action = Some a \<longrightarrow>
             data w' = batch_moved a now (bi_ids input) (data w)))"
proof -
  have "wp (AdminBatch settings now input) (\<lambda>r d' os'. case r of
      Inl e \<Rightarrow> d' = data w \<and> os' = outbox w
    | Inr res \<Rightarrow> br_requested res = length (bi_ids input) \<and>
        br_changed res + br_unchanged res = length (bi_ids input) \<and>
        set (bi_ids input) \<subseteq> c_id ` set (db_comments (data w)) \<and>
        (\<exists>action. batch_action_of (bi_action input) = Some action \<and>
          (\<forall>a. batch_step action = Some a \<longrightarrow>
             d' = batch_moved a now (bi_ids input) (data w)))) (data w) (outbox w)"
  proof (rule AdminBatch_wp [OF comment_invD(1) [OF assms(1)]])
    fix action ps n
    assume req: "request_ok input action"
      and "planTargets action now (db_comments (data w)) (sort (bi_ids input)) = Inr (ps, n)"
    then have plan: "plan_ok action now (data w) (sort (bi_ids input)) ps"
      "length ps + n = length (bi_ids input)"
      using planTargets_ok [of action now "data w" "sort (bi_ids input)" ps n]
      by (simp_all add: request_ok_def)
    have "set (bi_ids input) \<subseteq> c_id ` set (db_comments (data w))"
      using plan(1) by (auto simp: plan_ok_def)
    moreover have "batch_action_of (bi_action input) = Some action"
      using req by (simp add: request_ok_def)
    moreover have "plan_effect action ps (data w) = batch_moved a now (bi_ids input) (data w)"
      if "batch_step action = Some a" for a
      using plan_effect_moved [OF assms(1) that plan(1)] by (simp add: batch_moved_def)
    ultimately show "case Inr \<lparr>br_requested = length (bi_ids input), br_changed = length ps, br_unchanged = n\<rparr>
      of Inl e \<Rightarrow> plan_effect action ps (data w) = data w \<and>
          outbox w @ batch_events settings action ps = outbox w
      | Inr res \<Rightarrow> br_requested res = length (bi_ids input) \<and>
        br_changed res + br_unchanged res = length (bi_ids input) \<and>
        set (bi_ids input) \<subseteq> c_id ` set (db_comments (data w)) \<and>
        (\<exists>action'. batch_action_of (bi_action input) = Some action' \<and>
          (\<forall>a. batch_step action' = Some a \<longrightarrow>
             plan_effect action ps (data w) = batch_moved a now (bi_ids input) (data w)))"
      using plan(2) by simp
  qed simp
  from wpD [OF this assms(2)] show ?thesis .
qed

lemma batch_atomic_witness:
  "\<exists>res w'. AdminBatch (Inr sample_policy) 7 \<lparr>bi_ids = [3, 1, 2], bi_action = ''spam'', bi_confirm = False\<rparr>
      (sample_world\<lparr>faults := [False, False, False, False]\<rparr>) = (Inr res, w') \<and> br_changed res = 3 \<and>
    data w' = batch_moved actionSpam 7 [3, 1, 2] sample_db"
proof -
  let ?i = "\<lparr>bi_ids = [3, 1, 2], bi_action = ''spam'', bi_confirm = False\<rparr>"
  let ?w = "sample_world\<lparr>faults := [False, False, False, False]\<rparr>"
  obtain r w' where run: "AdminBatch (Inr sample_policy) 7 ?i ?w = (r, w')"
    by (cases "AdminBatch (Inr sample_policy) 7 ?i ?w")
  have "fst (AdminBatch (Inr sample_policy) 7 ?i ?w) =
      Inr \<lparr>br_requested = 3, br_changed = 3, br_unchanged = 0\<rparr>"
    by code_simp
  moreover have "batch_action_of ''spam'' = Some AdminBatchSpam" by code_simp
  ultimately show ?thesis
    using batch_atomic [OF _ run] run by auto
qed

section \<open>When a batch is accepted\<close>

text \<open>
  Which comments an action accepts, told from the life cycle alone: the status actions and the
  deletions accept every comment, since the bin itself counts as already deleted and every other
  change of state is open; only what is in the bin can be restored; only a comment at the top level
  can be pinned or unpinned, and only a published one pinned.
\<close>

definition top_level :: "comment \<Rightarrow> bool" where
  "top_level c \<longleftrightarrow> c_parent_id c = None \<and> c_root_id c = None \<and> c_depth c = 0"

fun accepts :: "batch_action \<Rightarrow> comment \<Rightarrow> bool" where
  "accepts AdminBatchRestore c = (case lifecycle_of c of Live s \<Rightarrow> False | Binned s \<Rightarrow> True)"
| "accepts AdminBatchPin c = (top_level c \<and> lifecycle_of c = Live CommentStatusPublished)"
| "accepts AdminBatchUnpin c = top_level c"
| "accepts _ c = True"

text \<open>Which of the accepted comments an action changes; the others are already as wanted.\<close>

fun affects :: "batch_action \<Rightarrow> comment \<Rightarrow> bool" where
  "affects AdminBatchPending c = (lifecycle_of c \<noteq> Live CommentStatusPending)"
| "affects AdminBatchPublish c = (lifecycle_of c \<noteq> Live CommentStatusPublished)"
| "affects AdminBatchSpam c = (lifecycle_of c \<noteq> Live CommentStatusSpam)"
| "affects AdminBatchSoftDelete c = (case lifecycle_of c of Live s \<Rightarrow> True | Binned s \<Rightarrow> False)"
| "affects AdminBatchPin c = (\<not> c_is_pinned c)"
| "affects AdminBatchUnpin c = c_is_pinned c"
| "affects _ c = True"

lemma plan_accepts:
  assumes "life_ok c"
  shows "if accepts action c then \<exists>t. planAdminBatchComment c action now = Inr (t, affects action c)
    else planAdminBatchComment c action now = Inl ErrConflict"
  using assms
proof (cases rule: lifecycle_cases)
  case live
  then show ?thesis
    by (cases action; cases "c_status c")
      (simp_all add: planAdminBatchComment_def Let_def canTransition_iff validatePinTarget_def top_level_def)
next
  case (binned s)
  then show ?thesis
    by (cases action; cases s)
      (simp_all add: planAdminBatchComment_def Let_def canTransition_iff validatePinTarget_def top_level_def)
qed

definition acceptable :: "batch_action \<Rightarrow> db \<Rightarrow> int \<Rightarrow> bool" where
  "acceptable action d i \<longleftrightarrow> (\<exists>c \<in> set (db_comments d). c_id c = i \<and> accepts action c)"

definition affected :: "batch_action \<Rightarrow> db \<Rightarrow> int \<Rightarrow> bool" where
  "affected action d i \<longleftrightarrow> (\<exists>c \<in> set (db_comments d). c_id c = i \<and> affects action c)"

text \<open>Why a requested comment stops a batch.\<close>

definition refusal :: "db \<Rightarrow> int \<Rightarrow> error" where
  "refusal d i = ErrResource i (if \<exists>c \<in> set (db_comments d). c_id c = i then ErrConflict else ErrNotFound)"

lemma planTargets_accepted:
  assumes "comment_inv d"
  shows "case planTargets action now (db_comments d) ids of
      Inl e \<Rightarrow> (\<exists>before i after. ids = before @ i # after \<and> (\<forall>j \<in> set before. acceptable action d j) \<and>
                \<not> acceptable action d i \<and> e = refusal d i)
    | Inr (ps, n) \<Rightarrow> (\<forall>i \<in> set ids. acceptable action d i) \<and>
        length ps = length (filter (affected action d) ids) \<and> length ps + n = length ids"
proof (induction ids)
  case (Cons i "is")
  have at_head: ?case if "planTargets action now (db_comments d) (i # is) = Inl (refusal d i)"
    "\<not> acceptable action d i"
    using that by (simp only: sum.case) (metis append_Nil empty_iff list.set(1))
  show ?case
  proof (cases "select_first (\<lambda>c. c_id c = i) (db_comments d)")
    case None
    then have "\<not> (\<exists>c \<in> set (db_comments d). c_id c = i)" by (auto simp: select_first_None)
    then have "\<not> acceptable action d i" "refusal d i = ErrResource i ErrNotFound"
      by (simp_all add: acceptable_def refusal_def)
    with None show ?thesis by (intro at_head) simp_all
  next
    case (Some c)
    then have c: "c \<in> set (db_comments d)" "c_id c = i" by (auto dest!: select_first_Some)
    have only: "(\<exists>r \<in> set (db_comments d). c_id r = i \<and> P r) \<longleftrightarrow> P c" for P
    proof
      assume "\<exists>r \<in> set (db_comments d). c_id r = i \<and> P r"
      then obtain r where r: "r \<in> set (db_comments d)" "c_id r = i" "P r" by blast
      with schema_ok_same_id [OF comment_invD(1) [OF assms] r(1) c(1)] c(2) show "P c" by simp
    next
      assume "P c"
      with c show "\<exists>r \<in> set (db_comments d). c_id r = i \<and> P r" by blast
    qed
    have life: "life_ok c" using assms c by (simp add: comment_inv_def life_inv_def)
    have acc: "acceptable action d i \<longleftrightarrow> accepts action c" "affected action d i \<longleftrightarrow> affects action c"
      "refusal d i = ErrResource i ErrConflict"
      using only [of "\<lambda>_. True"] by (simp_all add: acceptable_def affected_def refusal_def only)
    show ?thesis
    proof (cases "accepts action c")
      case False
      with plan_accepts [OF life, of action now] Some
      have "planTargets action now (db_comments d) (i # is) = Inl (refusal d i)" by (simp add: acc)
      then show ?thesis using False acc by (intro at_head) simp_all
    next
      case True
      then obtain t where t: "planAdminBatchComment c action now = Inr (t, affects action c)"
        using plan_accepts [OF life, of action now] by auto
      show ?thesis
      proof (cases "planTargets action now (db_comments d) is")
        case (Inl e)
        with Cons.IH obtain before j after where "is = before @ j # after"
          "\<forall>k \<in> set before. acceptable action d k" "\<not> acceptable action d j" "e = refusal d j"
          by auto
        moreover have "planTargets action now (db_comments d) (i # is) = Inl e"
          using Some t Inl by (simp add: bindE_def)
        moreover have "acceptable action d i" using True acc(1) by simp
        ultimately show ?thesis
          by (simp only: sum.case) (metis append_Cons set_ConsD)
      next
        case (Inr q)
        with Cons.IH Some t True acc show ?thesis
          by (cases q) (auto simp: bindE_def)
      qed
    qed
  qed
qed simp

lemma least_in_sorted:
  assumes "sort ids = before @ i # after" "distinct ids" "\<forall>j \<in> set before. P j"
  shows "i \<in> set ids \<and> (\<forall>j \<in> set ids. j < i \<longrightarrow> P j)"
proof -
  have "sorted (before @ i # after)" "set ids = set (before @ i # after)"
    unfolding assms(1) [symmetric] by simp_all
  then show ?thesis using assms(3) by (auto simp: sorted_append)
qed

text \<open>C37: without faults a batch succeeds exactly when its request is well formed, the settings can be
  read where a publication needs them, and every requested comment exists and accepts the action by
  the rules of its life cycle.  It then reports how many comments it changed: those that were not yet as
  wanted.  Of a well-formed request that fails on a comment, the least id that is missing or does not
  accept the action is reported, as missing or as in conflict.\<close>

theorem batch_succeeds_iff_accepted:
  assumes "comment_inv (data w)" "faults w = []" "fst (AdminBatch settings now input w) = r"
  shows "((\<exists>res. r = Inr res) \<longleftrightarrow>
      (\<exists>action. request_ok input action \<and> (action = AdminBatchPublish \<longrightarrow> (\<exists>p. settings = Inr p)) \<and>
         (\<forall>i \<in> set (bi_ids input). acceptable action (data w) i))) \<and>
    (\<forall>action res. request_ok input action \<and> r = Inr res \<longrightarrow>
       br_requested res = length (bi_ids input) \<and>
       br_changed res = length (filter (affected action (data w)) (bi_ids input)) \<and>
       br_unchanged res = length (filter (\<lambda>i. \<not> affected action (data w) i) (bi_ids input))) \<and>
    (\<forall>action e. request_ok input action \<and> (action = AdminBatchPublish \<longrightarrow> (\<exists>p. settings = Inr p)) \<and>
         r = Inl e \<longrightarrow>
       (\<exists>i \<in> set (bi_ids input). \<not> acceptable action (data w) i \<and> e = refusal (data w) i \<and>
          (\<forall>j \<in> set (bi_ids input). j < i \<longrightarrow> acceptable action (data w) j)))"
    (is "?goal r")
proof -
  have only: "action' = action" if "request_ok input action'" "request_ok input action" for action action'
    using that by (simp add: request_ok_def)
  have fewer: "length (filter P (sort (bi_ids input))) = length (filter P (bi_ids input))" for P
    by (metis filter_sort length_sort)
  note plan = planTargets_accepted [OF assms(1), where now = now and ids = "sort (bi_ids input)"]
  have "wpf False (AdminBatch settings now input) (\<lambda>r d' os'. ?goal r) (data w) (outbox w)"
  proof (rule AdminBatch_wp [OF comment_invD(1) [OF assms(1)]])
    fix e
    assume "False \<or> (\<forall>action. \<not> request_ok input action) \<or> (\<exists>action. request_ok input action \<and>
           ((action = AdminBatchPublish \<and> settings = Inl e) \<or>
            planTargets action now (db_comments (data w)) (sort (bi_ids input)) = Inl e))"
    then consider "\<forall>action. \<not> request_ok input action"
      | action where "request_ok input action" "action = AdminBatchPublish" "settings = Inl e"
      | action where "request_ok input action"
          "planTargets action now (db_comments (data w)) (sort (bi_ids input)) = Inl e"
      by blast
    then show "?goal (Inl e)"
    proof cases
      case (3 action)
      with plan [where action = action] obtain before i after where
        "sort (bi_ids input) = before @ i # after" "\<forall>j \<in> set before. acceptable action (data w) j"
        and bad: "\<not> acceptable action (data w) i" "e = refusal (data w) i" by auto
      with least_in_sorted [of "bi_ids input" before i after "acceptable action (data w)"] 3(1)
      have "i \<in> set (bi_ids input)" "\<forall>j \<in> set (bi_ids input). j < i \<longrightarrow> acceptable action (data w) j"
        by (auto simp: request_ok_def)
      with bad 3(1) show ?thesis by (auto dest: only)
    qed (auto dest: only)
  next
    fix action ps n
    assume req: "request_ok input action" and pol: "action = AdminBatchPublish \<Longrightarrow> \<not> isl settings"
      and "planTargets action now (db_comments (data w)) (sort (bi_ids input)) = Inr (ps, n)"
    with plan [where action = action] have
      "\<forall>i \<in> set (bi_ids input). acceptable action (data w) i"
      "length ps = length (filter (affected action (data w)) (bi_ids input))"
      "length ps + n = length (bi_ids input)" by (simp_all add: fewer)
    moreover from this(2,3) have "n = length (filter (\<lambda>i. \<not> affected action (data w) i) (bi_ids input))"
      using sum_length_filter_compl [of "affected action (data w)" "bi_ids input"] by linarith
    moreover have "action = AdminBatchPublish \<longrightarrow> (\<exists>p. settings = Inr p)"
      using pol by (cases settings) auto
    ultimately show "?goal (Inr \<lparr>br_requested = length (bi_ids input), br_changed = length ps, br_unchanged = n\<rparr>)"
      using req by (auto dest: only)
  qed
  moreover obtain w' where "AdminBatch settings now input w = (r, w')"
    using assms(3) by (cases "AdminBatch settings now input w") auto
  ultimately show ?thesis using wpf_no_faults assms(2) by fast
qed

lemma batch_succeeds_iff_accepted_witness:
  "fst (AdminBatch (Inr sample_policy) 7
      \<lparr>bi_ids = [2, 1, 9], bi_action = ''pin'', bi_confirm = False\<rparr> sample_world) =
    Inl (ErrResource 2 ErrConflict)"
proof -
  let ?i = "\<lparr>bi_ids = [2, 1, 9], bi_action = ''pin'', bi_confirm = False\<rparr>"
  have req: "request_ok ?i AdminBatchPin" by code_simp
  have ok: "acceptable AdminBatchPin sample_db 1" "\<not> acceptable AdminBatchPin sample_db 2"
    "refusal sample_db 2 = ErrResource 2 ErrConflict" by code_simp+
  have facts: "comment_inv (data sample_world)" "faults sample_world = []" by simp_all
  note fact = batch_succeeds_iff_accepted [OF facts refl, of "Inr sample_policy" 7 ?i]
  from fact req have "\<not> (\<exists>res. fst (AdminBatch (Inr sample_policy) 7 ?i sample_world) = Inr res)"
    using ok by (auto simp: request_ok_def)
  then obtain e where e: "fst (AdminBatch (Inr sample_policy) 7 ?i sample_world) = Inl e"
    by (cases "fst (AdminBatch (Inr sample_policy) 7 ?i sample_world)") auto
  have "\<exists>i \<in> set (bi_ids ?i). \<not> acceptable AdminBatchPin sample_db i \<and> e = refusal sample_db i \<and>
      (\<forall>j \<in> set (bi_ids ?i). j < i \<longrightarrow> acceptable AdminBatchPin sample_db j)"
    using fact [THEN conjunct2, THEN conjunct2, rule_format, of AdminBatchPin e] req e by simp
  with ok e show ?thesis by auto
qed

end
