(* ===== verification/Urlx.thy ===== *)
theory Urlx
  imports Domain Go_Std
begin

text \<open>
  The shared URL rules (\<open>internal/platform/urlx\<close>) and the value formats built on them
  (\<open>internal/platform/value\<close>, \<open>gravatar.ValidateBaseURL\<close>).  The parser of
  \<open>net/url\<close>, the Unicode lower case of \<open>strings.ToLower\<close>, \<open>net.ParseIP\<close> with
  \<open>IsLoopback\<close> and the address parser of \<open>net/mail\<close> are arguments, collected in the
  record \<open>library\<close>; the rules on their results are the code's.
\<close>

record url =
  url_scheme :: string
  url_has_user :: bool
  url_host :: string
  url_path :: string
  url_raw_path :: string
  url_force_query :: bool
  url_raw_query :: string
  url_fragment :: string

record library =
  lib_parse :: "string \<Rightarrow> url option"
  lib_string :: "url \<Rightarrow> string"
  lib_unescape :: "string \<Rightarrow> string option"
  lib_lower :: "string \<Rightarrow> string"
  lib_loopback_ip :: "string \<Rightarrow> bool"
  lib_parse_address :: "string \<Rightarrow> string option"

section \<open>Host and port\<close>

definition rindex :: "char \<Rightarrow> string \<Rightarrow> nat option" where
  "rindex c s =
     (if c \<in> set s then Some (length s - 1 - length (takeWhile (\<lambda>x. x \<noteq> c) (rev s))) else None)"

definition index_of :: "char \<Rightarrow> string \<Rightarrow> nat option" where
  "index_of c s = (if c \<in> set s then Some (length (takeWhile (\<lambda>x. x \<noteq> c) s)) else None)"

definition is_digit_char :: "char \<Rightarrow> bool" where
  "is_digit_char c \<longleftrightarrow> of_char c \<ge> (48 :: nat) \<and> of_char c \<le> (57 :: nat)"

text \<open>\<open>URL.Hostname\<close> and \<open>URL.Port\<close> of \<open>net/url\<close>.\<close>

definition host_port :: "string \<Rightarrow> string \<times> string" where
  "host_port s =
     (let (h, p) =
        (case rindex CHR '':'' s of
           None \<Rightarrow> (s, '''')
         | Some i \<Rightarrow> if list_all is_digit_char (drop (i + 1) s) then (take i s, drop (i + 1) s)
                     else (s, ''''))
      in (if h \<noteq> [] \<and> hd h = CHR ''['' \<and> last h = CHR '']'' \<and> length h \<ge> 2
          then butlast (tl h) else h, p))"

definition Hostname :: "url \<Rightarrow> string" where "Hostname u = fst (host_port (url_host u))"
definition Port :: "url \<Rightarrow> string" where "Port u = snd (host_port (url_host u))"

text \<open>\<open>splitHostPort\<close> of the package: \<open>None\<close> is an error, the flag says a port is given.\<close>

definition splitHostPort :: "string \<Rightarrow> (string \<times> string \<times> bool) option" where
  "splitHostPort raw =
     (if HasPrefix raw ''['' then
        (case index_of CHR '']'' raw of
           None \<Rightarrow> None
         | Some close \<Rightarrow>
             (let host = take (close - 1) (drop 1 raw); remainder = drop (close + 1) raw
              in if remainder = [] then Some (host, '''', False)
                 else if \<not> HasPrefix remainder '':'' then None
                 else Some (host, tl remainder, True)))
      else if count_list raw CHR '':'' > 1 then None
      else (case rindex CHR '':'' raw of
              Some i \<Rightarrow> Some (take i raw, drop (i + 1) raw, True)
            | None \<Rightarrow> Some (raw, '''', False)))"

definition bad_host_chars :: string where
  "bad_host_chars = ''*'' @ [CHR 0x5C, CHR '','', CHR 0x09, CHR 0x0D, CHR 0x0A, CHR '' '']"

definition validateHostPort :: "url \<Rightarrow> bool" where
  "validateHostPort u \<longleftrightarrow>
     Hostname u \<noteq> '''' \<and> list_all (\<lambda>c. c \<notin> set bad_host_chars) (Hostname u) \<and>
     (case splitHostPort (url_host u) of
        None \<Rightarrow> False
      | Some (_, port, has_port) \<Rightarrow>
          \<not> has_port \<or>
          (port \<noteq> '''' \<and> (case ParseInt port of None \<Rightarrow> False | Some n \<Rightarrow> 1 \<le> n \<and> n \<le> 65535)))"

section \<open>Parsing\<close>

text \<open>
  \<open>unicode.IsControl\<close> over the runes of a byte string: the ASCII controls, and the C1 block,
  encoded as \<open>0xC2\<close> and a byte of \<open>0x80\<close> to \<open>0x9F\<close>.
\<close>

fun has_control :: "string \<Rightarrow> bool" where
  "has_control [] = False"
| "has_control (c # s) =
     (of_char c < (32 :: nat) \<or> of_char c = (127 :: nat) \<or>
      (c = CHR 0xC2 \<and> s \<noteq> [] \<and> of_char (hd s) \<ge> (128 :: nat) \<and> of_char (hd s) \<le> (159 :: nat)) \<or>
      has_control s)"

definition cleanRaw :: "string \<Rightarrow> string option" where
  "cleanRaw raw = (let t = TrimSpace raw in if t = '''' \<or> has_control t then None else Some t)"

definition parseAbsolute :: "library \<Rightarrow> string \<Rightarrow> url option" where
  "parseAbsolute L raw =
     (case cleanRaw raw of None \<Rightarrow> None
      | Some t \<Rightarrow> (case lib_parse L t of None \<Rightarrow> None
         | Some u \<Rightarrow> if url_scheme u = '''' \<or> url_host u = '''' \<or> Hostname u = '''' then None else Some u))"

definition ParseHTTP :: "library \<Rightarrow> string \<Rightarrow> url option" where
  "ParseHTTP L raw =
     (case parseAbsolute L raw of None \<Rightarrow> None
      | Some u \<Rightarrow>
          if url_scheme u \<noteq> ''http'' \<and> url_scheme u \<noteq> ''https'' then None
          else if url_has_user u then None
          else if validateHostPort u then Some u else None)"

definition ParseHTTPS :: "library \<Rightarrow> string \<Rightarrow> url option" where
  "ParseHTTPS L raw =
     (case ParseHTTP L raw of None \<Rightarrow> None
      | Some u \<Rightarrow> if url_scheme u = ''https'' then Some u else None)"

definition canonicalizeHost :: "library \<Rightarrow> url \<Rightarrow> url" where
  "canonicalizeHost L u =
     (let host = lib_lower L (Hostname u);
          n = (case ParseInt (Port u) of None \<Rightarrow> 0 | Some n \<Rightarrow> n);
          port = (if Port u = '''' then ''''
                  else if (url_scheme u = ''http'' \<and> n = 80) \<or> (url_scheme u = ''https'' \<and> n = 443)
                  then '''' else FormatInt n)
      in u\<lparr>url_host :=
            (if CHR '':'' \<in> set host
             then ''['' @ host @ '']'' @ (if port = '''' then '''' else '':'' @ port)
             else if port \<noteq> '''' then host @ '':'' @ port else host)\<rparr>)"

definition trim_right_slashes :: "string \<Rightarrow> string" where
  "trim_right_slashes s = rev (dropWhile (\<lambda>c. c = CHR ''/'') (rev s))"

definition trimTrailingPathSeparators :: "library \<Rightarrow> url \<Rightarrow> url" where
  "trimTrailingPathSeparators L u =
     (if url_raw_path u \<noteq> '''' then
        (let raw = trim_right_slashes (url_raw_path u)
         in if raw = '''' \<or> raw = ''/'' then u\<lparr>url_raw_path := '''', url_path := ''''\<rparr>
            else (case lib_unescape L raw of
                    None \<Rightarrow> u\<lparr>url_raw_path := '''', url_path := trim_right_slashes (url_path u)\<rparr>
                  | Some decoded \<Rightarrow> u\<lparr>url_raw_path := raw, url_path := decoded\<rparr>))
      else u\<lparr>url_path := trim_right_slashes (url_path u)\<rparr>)"

definition ParseHTTPBase :: "library \<Rightarrow> string \<Rightarrow> url option" where
  "ParseHTTPBase L raw =
     (case cleanRaw raw of None \<Rightarrow> None
      | Some t \<Rightarrow> (case ParseHTTP L t of None \<Rightarrow> None
         | Some u \<Rightarrow>
             if url_force_query u \<or> url_raw_query u \<noteq> '''' \<or> url_fragment u \<noteq> '''' \<or> CHR ''#'' \<in> set t
             then None
             else Some (trimTrailingPathSeparators L (canonicalizeHost L u))))"

definition ParseHTTPSBase :: "library \<Rightarrow> string \<Rightarrow> url option" where
  "ParseHTTPSBase L raw =
     (case ParseHTTPBase L raw of None \<Rightarrow> None
      | Some u \<Rightarrow> if url_scheme u = ''https'' then Some u else None)"

definition isLoopbackHost :: "library \<Rightarrow> string \<Rightarrow> bool" where
  "isLoopbackHost L host \<longleftrightarrow>
     host = ''localhost'' \<or> host = ''127.0.0.1'' \<or> host = ''::1'' \<or> lib_loopback_ip L host"

definition CanonicalOrigin :: "library \<Rightarrow> string \<Rightarrow> string option" where
  "CanonicalOrigin L raw =
     (case cleanRaw raw of None \<Rightarrow> None
      | Some t \<Rightarrow> (case ParseHTTP L t of None \<Rightarrow> None
         | Some u \<Rightarrow>
             if url_path u \<noteq> '''' \<or> url_force_query u \<or> url_raw_query u \<noteq> '''' \<or>
                url_fragment u \<noteq> '''' \<or> CHR ''#'' \<in> set t then None
             else if url_scheme u = ''http'' \<and> \<not> isLoopbackHost L (lib_lower L (Hostname u)) then None
             else Some (url_scheme u @ ''://'' @ url_host (canonicalizeHost L u))))"

definition ParseLocalReference :: "library \<Rightarrow> string \<Rightarrow> url option" where
  "ParseLocalReference L raw =
     (let t = TrimSpace raw
      in if has_control t \<or> CHR 0x5C \<in> set t then None
         else (case lib_parse L t of None \<Rightarrow> None
               | Some u \<Rightarrow> if url_scheme u \<noteq> '''' \<or> url_host u \<noteq> '''' \<or> HasPrefix t ''//'' then None
                           else Some u))"

section \<open>Values (value.go)\<close>

definition NormalizeEmail :: "library \<Rightarrow> string \<Rightarrow> (string \<times> string) option" where
  "NormalizeEmail L raw =
     (case lib_parse_address L (TrimSpace raw) of
        None \<Rightarrow> None
      | Some address \<Rightarrow>
          if address = '''' then None
          else let original = TrimSpace address in Some (original, lib_lower L original))"

definition NormalizeWebsite :: "library \<Rightarrow> string \<Rightarrow> string option" where
  "NormalizeWebsite L raw =
     (case ParseHTTP L raw of None \<Rightarrow> None
      | Some u \<Rightarrow> if url_scheme u \<noteq> ''https'' \<and> url_scheme u \<noteq> ''http'' then None
                  else Some (lib_string L u))"

section \<open>What an accepted URL is\<close>

lemma ParseHTTP_Some:
  "ParseHTTP L raw = Some u \<longleftrightarrow>
     parseAbsolute L raw = Some u \<and> (url_scheme u = ''http'' \<or> url_scheme u = ''https'') \<and>
     \<not> url_has_user u \<and> validateHostPort u"
  by (auto simp: ParseHTTP_def split: option.splits if_splits)

lemma validateHostPort_port:
  assumes "validateHostPort u" "splitHostPort (url_host u) = Some (h, p, True)"
  shows "\<exists>n. ParseInt p = Some n \<and> 1 \<le> n \<and> n \<le> 65535"
  using assms by (auto simp: validateHostPort_def split: option.splits)

lemma NormalizeWebsite_scheme:
  "NormalizeWebsite L raw = Some s \<Longrightarrow> \<exists>u. ParseHTTP L raw = Some u \<and> s = lib_string L u"
  by (auto simp: NormalizeWebsite_def split: option.splits if_splits)

text \<open>
  Building URLs (\<open>internal/platform/urlx\<close> and \<open>net/url\<close>).  Escaping a path segment, \<open>URL.JoinPath\<close>, reading
  a raw query and \<open>Values.Encode\<close> belong to the library and are collected in \<open>url_builder\<close>.
\<close>

type_synonym query_values = "(string \<times> string list) list"

record url_builder =
  ub_path_escape :: "string \<Rightarrow> string"
  ub_join :: "url \<Rightarrow> string list \<Rightarrow> url"
  ub_query :: "string \<Rightarrow> query_values"
  ub_encode :: "query_values \<Rightarrow> string"

definition values_get :: "query_values \<Rightarrow> string \<Rightarrow> string" where
  "values_get vs k = (case map_of vs k of Some (v # _) \<Rightarrow> v | _ \<Rightarrow> '''')"

definition values_set :: "query_values \<Rightarrow> string \<Rightarrow> string \<Rightarrow> query_values" where
  "values_set vs k v =
     (if k \<in> fst ` set vs then map (\<lambda>(k', xs). (k', if k' = k then [v] else xs)) vs else vs @ [(k, [v])])"

definition Query :: "url_builder \<Rightarrow> url \<Rightarrow> query_values" where
  "Query U u = ub_query U (url_raw_query u)"

definition dots_escaped :: "string \<Rightarrow> string" where
  "dots_escaped s = concat (map (\<lambda>c. if c = CHR ''.'' then ''%2E'' else [c]) s)"

definition escapeSegment :: "url_builder \<Rightarrow> string \<Rightarrow> string" where
  "escapeSegment U segment =
     (let escaped = ub_path_escape U segment
      in if escaped = ''.'' \<or> escaped = ''..'' then dots_escaped escaped else escaped)"

definition JoinPathSegments :: "url_builder \<Rightarrow> url \<Rightarrow> string list \<Rightarrow> url" where
  "JoinPathSegments U base segments = ub_join U base (map (escapeSegment U) segments)"

definition JoinPathDirectory :: "url_builder \<Rightarrow> url \<Rightarrow> string list \<Rightarrow> url" where
  "JoinPathDirectory U base segments = ub_join U (JoinPathSegments U base segments) [''/'']"

lemma values_get_set [simp]: "values_get (values_set vs k v) k = v"
proof -
  have "map_of (map (\<lambda>(k', xs). (k', if k' = k then [v] else xs)) vs) k = Some [v]" if "k \<in> fst ` set vs"
    using that by (induction vs) auto
  moreover have "map_of (vs @ [(k, [v])]) k = Some [v]" if "k \<notin> fst ` set vs"
    using that by (induction vs) auto
  ultimately show ?thesis by (simp add: values_get_def values_set_def)
qed

text \<open>A segment never reaches \<open>JoinPath\<close> as a step to the same or the parent directory.\<close>

lemma escapeSegment_no_dots: "escapeSegment U s \<noteq> ''.'' \<and> escapeSegment U s \<noteq> ''..''"
  by (auto simp: escapeSegment_def dots_escaped_def Let_def)

text \<open>
  Which addresses may register (\<open>internal/service/identity/email_policy.go\<close>).  The
  policy reader may be absent; otherwise it answers with the white list and the black list.
\<close>

definition emailDomain :: "library \<Rightarrow> string \<Rightarrow> string option" where
  "emailDomain L email =
     (case rindex CHR ''@'' email of
        None \<Rightarrow> None
      | Some at \<Rightarrow>
          if at = length email - 1 then None
          else let d = lib_lower L (TrimSpace (drop (at + 1) email)) in if d = '''' then None else Some d)"

definition emailDomainAllowed :: "string \<Rightarrow> string list \<Rightarrow> string list \<Rightarrow> bool" where
  "emailDomainAllowed d whitelist blacklist =
     (if length whitelist > 0 then d \<in> set whitelist else d \<notin> set blacklist)"

definition checkEmailDomainAllowed ::
  "library \<Rightarrow> (error + string list \<times> string list) option \<Rightarrow> string \<Rightarrow> error + unit" where
  "checkEmailDomainAllowed L policy email =
     (case policy of
        None \<Rightarrow> Inl ErrUnavailable
      | Some (Inl e) \<Rightarrow> Inl e
      | Some (Inr (whitelist, blacklist)) \<Rightarrow>
          (case emailDomain L email of
             None \<Rightarrow> Inl ErrValidation
           | Some d \<Rightarrow> if emailDomainAllowed d whitelist blacklist then Inr () else Inl ErrEmailDomainNotAllowed))"

definition defaultNickname :: "string \<Rightarrow> string" where
  "defaultNickname email =
     (let name = hd (SplitN2 CHR ''@'' email) in if TrimSpace name = '''' then ''user'' else name)"

end
