(* ===== verification/Content.thy ===== *)
theory Content
  imports Urlx
begin

text \<open>
  What may be written into a comment and into the metadata of a page: the Markdown check
  (\<open>internal/platform/markdown\<close>) and the input checks at the end of
  \<open>internal/service/comment/create.go\<close>.  The Markdown parser (a third-party package) is an
  argument that yields the syntax tree; the walk over it is the code's.
\<close>

section \<open>Markdown\<close>

datatype md_kind = KindRawHTML | KindHTMLBlock | KindLink string | KindImage string | KindOther

datatype md_node = MdNode md_kind "md_node list"

datatype md_error = ErrRawHTML | ErrUnsafeDestination

record content_library = library +
  lib_markdown :: "string \<Rightarrow> md_node"
  lib_html_unescape :: "string \<Rightarrow> string"

definition unsafe_char :: "char \<Rightarrow> bool" where
  "unsafe_char c \<longleftrightarrow> of_char c \<le> (32 :: nat) \<or> of_char c = (127 :: nat) \<or> c = CHR 0x5C"

definition validateDestination :: "content_library \<Rightarrow> string \<Rightarrow> md_error + unit" where
  "validateDestination L raw =
     (let dest = lib_html_unescape L raw
      in if list_ex unsafe_char dest then Inl ErrUnsafeDestination
         else if HasPrefix dest ''//'' then Inl ErrUnsafeDestination
         else (case lib_parse L dest of
                 None \<Rightarrow> Inl ErrUnsafeDestination
               | Some u \<Rightarrow>
                   if lib_lower L (url_scheme u) \<in> set ['''', ''http'', ''https'', ''mailto''] then Inr ()
                   else Inl ErrUnsafeDestination))"

text \<open>The walk enters a node before its children and stops at the first error.\<close>

fun walk :: "content_library \<Rightarrow> md_node \<Rightarrow> md_error + unit"
  and walk_children :: "content_library \<Rightarrow> md_node list \<Rightarrow> md_error + unit" where
  "walk L (MdNode k children) =
     bindE (case k of
              KindRawHTML \<Rightarrow> Inl ErrRawHTML
            | KindHTMLBlock \<Rightarrow> Inl ErrRawHTML
            | KindLink d \<Rightarrow> validateDestination L d
            | KindImage d \<Rightarrow> validateDestination L d
            | KindOther \<Rightarrow> Inr ()) (\<lambda>_. walk_children L children)"
| "walk_children L [] = Inr ()"
| "walk_children L (n # ns) = bindE (walk L n) (\<lambda>_. walk_children L ns)"

definition Validate :: "content_library \<Rightarrow> string \<Rightarrow> md_error + unit" where
  "Validate L body = walk L (lib_markdown L body)"

section \<open>Input checks (create.go)\<close>

abbreviation "maxBodyLength \<equiv> (4000 :: nat)"
abbreviation "maxPageKeyLength \<equiv> (512 :: nat)"
abbreviation "maxPageURLLength \<equiv> (2048 :: nat)"
abbreviation "maxPageTitleLength \<equiv> (512 :: nat)"
abbreviation "maxNicknameLength \<equiv> (100 :: nat)"

definition validateBody :: "content_library \<Rightarrow> string \<Rightarrow> error + unit" where
  "validateBody L body =
     (if TrimSpace body = '''' then Inl ErrValidation
      else if length body > maxBodyLength then Inl ErrValidation
      else (case Validate L body of Inl _ \<Rightarrow> Inl ErrValidation | Inr _ \<Rightarrow> Inr ()))"

definition validatePageKey :: "string \<Rightarrow> error + unit" where
  "validatePageKey key =
     (if TrimSpace key = '''' then Inl ErrValidation
      else if length key > maxPageKeyLength then Inl ErrValidation else Inr ())"

definition validatePageURL :: "content_library \<Rightarrow> string option \<Rightarrow> error + unit" where
  "validatePageURL L page_url =
     (case page_url of
        None \<Rightarrow> Inr ()
      | Some u \<Rightarrow>
          if TrimSpace u = '''' then Inr ()
          else if length (TrimSpace u) > maxPageURLLength then Inl ErrValidation
          else if ParseHTTP (library.truncate L) (TrimSpace u) = None then Inl ErrValidation
          else Inr ())"

definition validatePageTitle :: "string option \<Rightarrow> error + unit" where
  "validatePageTitle title =
     (case title of None \<Rightarrow> Inr ()
      | Some t \<Rightarrow> if length t > maxPageTitleLength then Inl ErrValidation else Inr ())"

definition normalizeOptionalString :: "string option \<Rightarrow> string option" where
  "normalizeOptionalString v =
     (case v of Some s \<Rightarrow> if TrimSpace s = '''' then None else v | None \<Rightarrow> None)"

section \<open>What an accepted body contains\<close>

fun md_nodes :: "md_node \<Rightarrow> md_kind list" and md_nodes_list :: "md_node list \<Rightarrow> md_kind list" where
  "md_nodes (MdNode k children) = k # md_nodes_list children"
| "md_nodes_list [] = []"
| "md_nodes_list (n # ns) = md_nodes n @ md_nodes_list ns"

definition safe_kind :: "content_library \<Rightarrow> md_kind \<Rightarrow> bool" where
  "safe_kind L k =
     (case k of KindRawHTML \<Rightarrow> False | KindHTMLBlock \<Rightarrow> False | KindOther \<Rightarrow> True
      | KindLink d \<Rightarrow> validateDestination L d = Inr () | KindImage d \<Rightarrow> validateDestination L d = Inr ())"

lemma walk_iff:
  "walk L n = Inr () \<longleftrightarrow> list_all (safe_kind L) (md_nodes n)"
  "walk_children L ns = Inr () \<longleftrightarrow> list_all (safe_kind L) (md_nodes_list ns)"
  by (induction L n and L ns rule: walk_walk_children.induct)
     (auto simp: bindE_Inr_iff safe_kind_def split: md_kind.splits)

lemma validateDestination_iff:
  "validateDestination L d = Inr () \<longleftrightarrow>
     list_all (\<lambda>c. \<not> unsafe_char c) (lib_html_unescape L d) \<and>
     \<not> HasPrefix (lib_html_unescape L d) ''//'' \<and>
     (\<exists>u. lib_parse L (lib_html_unescape L d) = Some u \<and>
        lib_lower L (url_scheme u) \<in> {'''', ''http'', ''https'', ''mailto''})"
  by (auto simp: validateDestination_def Let_def list_all_iff list_ex_iff split: option.splits if_splits)

lemma validateBody_iff:
  "validateBody L body = Inr () \<longleftrightarrow>
     TrimSpace body \<noteq> '''' \<and> length body \<le> maxBodyLength \<and>
     list_all (safe_kind L) (md_nodes (lib_markdown L body))"
  by (auto simp: validateBody_def Validate_def walk_iff [symmetric] split: sum.splits)

text \<open>A body is accepted exactly when it is not blank, has at most 4000 bytes, and its syntax tree
  has no HTML node anywhere and only links and images whose decoded destination has no space,
  control character or backslash, is not protocol-relative, and parses with no scheme or one
  of http, https and mailto.\<close>

lemma accepted_body_iff_safe:
  "(validateBody L body = Inr ()) =
     (TrimSpace body \<noteq> '''' \<and> length body \<le> 4000 \<and>
      list_all (\<lambda>k. k \<notin> {KindRawHTML, KindHTMLBlock} \<and>
          list_all (\<lambda>d. list_all (\<lambda>c. \<not> unsafe_char c) (lib_html_unescape L d) \<and>
                 \<not> HasPrefix (lib_html_unescape L d) ''//'' \<and>
                 (\<exists>u. lib_parse L (lib_html_unescape L d) = Some u \<and>
                    lib_lower L (url_scheme u) \<in> {'''', ''http'', ''https'', ''mailto''}))
            (case k of KindLink d \<Rightarrow> [d] | KindImage d \<Rightarrow> [d] | _ \<Rightarrow> []))
        (md_nodes (lib_markdown L body)))"
proof -
  have "safe_kind L = (\<lambda>k. k \<notin> {KindRawHTML, KindHTMLBlock} \<and>
          list_all (\<lambda>d. validateDestination L d = Inr ())
            (case k of KindLink d \<Rightarrow> [d] | KindImage d \<Rightarrow> [d] | _ \<Rightarrow> []))"
  proof
    fix k
    show "safe_kind L k = (k \<notin> {KindRawHTML, KindHTMLBlock} \<and>
          list_all (\<lambda>d. validateDestination L d = Inr ())
            (case k of KindLink d \<Rightarrow> [d] | KindImage d \<Rightarrow> [d] | _ \<Rightarrow> []))"
      by (cases k) (simp_all add: safe_kind_def)
  qed
  then show ?thesis
    unfolding validateBody_iff validateDestination_iff by simp
qed

end
