(* ===== verification/Clientip.thy ===== *)
theory Clientip
  imports Domain Go_Std "HOL-Library.Word"
begin

text \<open>
  Client addresses and their privacy transformation (\<open>internal/platform/clientip\<close>).  An address is
  the byte slice of Go's \<open>net.IP\<close>; \<open>None\<close> is the nil slice.  The parser of \<open>net.ParseIP\<close>
  and the user agent parser (a third-party package) are arguments.
\<close>

unbundle bit_operations_syntax

type_synonym byte = "8 word"
type_synonym ip = "byte list"

section \<open>Addresses\<close>

definition v4_prefix :: ip where
  "v4_prefix = replicate 10 0 @ [255, 255]"

text \<open>\<open>To4\<close> and \<open>To16\<close> of the standard library.\<close>

definition To4 :: "ip \<Rightarrow> ip option" where
  "To4 a = (if length a = 4 then Some a
            else if length a = 16 \<and> take 12 a = v4_prefix then Some (drop 12 a) else None)"

definition To16 :: "ip \<Rightarrow> ip option" where
  "To16 a = (if length a = 4 then Some (v4_prefix @ a) else if length a = 16 then Some a else None)"

definition Normalize :: "ip option \<Rightarrow> ip option" where
  "Normalize r = (case r of None \<Rightarrow> None
     | Some a \<Rightarrow> (case To4 a of Some a4 \<Rightarrow> Some a4 | None \<Rightarrow> To16 a))"

text \<open>\<open>net.CIDRMask\<close> for a whole number of bytes, and \<open>IP.Mask\<close>.\<close>

definition byte_mask :: "nat \<Rightarrow> nat \<Rightarrow> byte list" where
  "byte_mask ones bits = replicate (ones div 8) 255 @ replicate ((bits - ones) div 8) 0"

definition masked :: "ip \<Rightarrow> byte list \<Rightarrow> ip" where
  "masked a m = map2 (AND) a m"

definition CoarsenIP :: "ip option \<Rightarrow> string \<Rightarrow> error + ip option" where
  "CoarsenIP r mode =
     (case Normalize r of
        None \<Rightarrow> Inl ErrInfra
      | Some a \<Rightarrow>
          if mode = PrivacyModeNone then Inr None
          else if mode = PrivacyModeCoarse then
            (case To4 a of
               Some a4 \<Rightarrow> Inr (Some (masked a4 (byte_mask 24 32)))
             | None \<Rightarrow> Inr (map_option (\<lambda>b. masked b (byte_mask 48 128)) (To16 a)))
          else if mode = PrivacyModeFull then Inr (Some a)
          else Inl ErrInfra)"

section \<open>Text form\<close>

text \<open>
  \<open>IP.String\<close>: dotted decimals for an IPv4 address, otherwise eight groups of hexadecimal digits
  with the first longest run of at least two zero groups written as \<open>::\<close>.
\<close>

fun hex_digits :: "nat \<Rightarrow> nat \<Rightarrow> string" where
  "hex_digits 0 n = ''''"
| "hex_digits (Suc k) n =
     (if n < 16 then [''0123456789abcdef'' ! n]
      else hex_digits k (n div 16) @ [''0123456789abcdef'' ! (n mod 16)])"

fun groups16 :: "byte list \<Rightarrow> nat list" where
  "groups16 (a # b # r) = (unat a * 256 + unat b) # groups16 r"
| "groups16 _ = []"

fun zero_run :: "nat list \<Rightarrow> nat" where
  "zero_run (0 # gs) = Suc (zero_run gs)"
| "zero_run gs = 0"

definition longest_zero_run :: "nat list \<Rightarrow> (nat \<times> nat) option" where
  "longest_zero_run gs =
     (let runs = map (\<lambda>i. (i, zero_run (drop i gs))) [0..<length gs];
          m = Max (set (map snd runs))
      in if m < 2 then None else find (\<lambda>r. snd r = m) runs)"

definition ip6_string :: "nat list \<Rightarrow> string" where
  "ip6_string gs =
     (case longest_zero_run gs of
        None \<Rightarrow> Join CHR '':'' (map (hex_digits 4) gs)
      | Some (i, n) \<Rightarrow>
          Join CHR '':'' (map (hex_digits 4) (take i gs)) @ ''::'' @
          Join CHR '':'' (map (hex_digits 4) (drop (i + n) gs)))"

definition ip_string :: "ip \<Rightarrow> string" where
  "ip_string a =
     (case To4 a of
        Some a4 \<Rightarrow> Join CHR ''.'' (map (\<lambda>b. FormatInt (uint b)) a4)
      | None \<Rightarrow> ip6_string (groups16 a))"

section \<open>User agents\<close>

record ua_info =
  ua_name :: string
  ua_os :: string
  ua_device :: string
  ua_mobile :: bool
  ua_tablet :: bool
  ua_bot :: bool

record ua_record =
  ur_raw :: "string option"
  ur_browser :: "string option"
  ur_os :: "string option"
  ur_device :: "string option"

definition strPtr :: "string \<Rightarrow> string option" where
  "strPtr s = (if s = '''' then None else Some s)"

definition ua_device_class :: "ua_info \<Rightarrow> string" where
  "ua_device_class ua =
     (if ua_device ua \<noteq> '''' then ua_device ua
      else if ua_mobile ua then ''mobile'' else if ua_tablet ua then ''tablet''
      else if ua_bot ua then ''bot'' else ''desktop'')"

definition ParseUA :: "(string \<Rightarrow> ua_info) \<Rightarrow> string \<Rightarrow> string \<Rightarrow> error + ua_record" where
  "ParseUA parse raw mode =
     (if mode = PrivacyModeNone
      then Inr \<lparr>ur_raw = None, ur_browser = None, ur_os = None, ur_device = None\<rparr>
      else if mode = PrivacyModeFull
      then Inr \<lparr>ur_raw = strPtr raw, ur_browser = None, ur_os = None, ur_device = None\<rparr>
      else if mode = PrivacyModeCoarse
      then Inr \<lparr>ur_raw = None, ur_browser = strPtr (ua_name (parse raw)), ur_os = strPtr (ua_os (parse raw)),
                ur_device = strPtr (ua_device_class (parse raw))\<rparr>
      else Inl ErrInfra)"

section \<open>The effective client address\<close>

text \<open>A network is an address and a mask of the same length (\<open>net.IPNet\<close>).\<close>

record ip_net =
  net_ip :: ip
  net_mask :: "byte list"

text \<open>\<open>IPNet.Contains\<close>: both sides in their shortest form, equal under the mask.\<close>

definition net_contains :: "ip_net \<Rightarrow> ip \<Rightarrow> bool" where
  "net_contains n a =
     (let ip = (case To4 a of Some x \<Rightarrow> x | None \<Rightarrow> a);
          nn = (case To4 (net_ip n) of Some x \<Rightarrow> x | None \<Rightarrow> net_ip n);
          m = (if length nn = 4 \<and> length (net_mask n) = 16 then drop 12 (net_mask n) else net_mask n)
      in length ip = length nn \<and> masked ip m = masked nn m)"

definition isTrusted :: "ip_net list \<Rightarrow> ip \<Rightarrow> bool" where
  "isTrusted trusted a \<longleftrightarrow> (\<exists>n \<in> set trusted. net_contains n a)"

definition parseIP :: "(string \<Rightarrow> ip option) \<Rightarrow> string \<Rightarrow> error + ip" where
  "parseIP parse host = option_to_result ErrInfra (parse (takeWhile (\<lambda>c. c \<noteq> CHR ''%'') (TrimSpace host)))"

text \<open>\<open>split\<close> is \<open>net.SplitHostPort\<close>, which fails on an address without a port.\<close>

definition peerIP :: "(string \<Rightarrow> string option) \<Rightarrow> (string \<Rightarrow> ip option) \<Rightarrow> string \<Rightarrow> error + ip" where
  "peerIP split parse addr =
     (case split addr of Some host \<Rightarrow> parseIP parse host | None \<Rightarrow> parseIP parse addr)"

text \<open>The hops of all header values; a nil address is the empty slice.\<close>

fun parse_hops :: "(string \<Rightarrow> ip option) \<Rightarrow> string list \<Rightarrow> error + ip list" where
  "parse_hops parse [] = Inr []"
| "parse_hops parse (raw # raws) =
     (if TrimSpace raw = '''' then parse_hops parse raws
      else bindE (parseIP parse (TrimSpace raw)) (\<lambda>a.
           bindE (parse_hops parse raws) (\<lambda>as.
           Inr ((case Normalize (Some a) of None \<Rightarrow> [] | Some b \<Rightarrow> b) # as))))"

definition xffHops :: "(string \<Rightarrow> ip option) \<Rightarrow> string list \<Rightarrow> error + ip list" where
  "xffHops parse values = parse_hops parse (concat (map (Split CHR '','') values))"

text \<open>The rightmost hop that is no trusted proxy; the leftmost when all are.\<close>

definition first_untrusted :: "ip_net list \<Rightarrow> ip list \<Rightarrow> ip option" where
  "first_untrusted trusted hops =
     (case find (\<lambda>h. \<not> isTrusted trusted h) (rev hops) of
        Some h \<Rightarrow> Some h
      | None \<Rightarrow> (case hops of [] \<Rightarrow> None | h # _ \<Rightarrow> Some h))"

definition Extract ::
  "(string \<Rightarrow> string option) \<Rightarrow> (string \<Rightarrow> ip option) \<Rightarrow> string \<Rightarrow> string list \<Rightarrow> ip_net list \<Rightarrow>
     error + ip option" where
  "Extract split parse addr xff trusted =
     bindE (peerIP split parse addr) (\<lambda>remote.
     if \<not> isTrusted trusted remote then Inr (Normalize (Some remote))
     else bindE (xffHops parse xff) (\<lambda>hops.
       if hops = [] then Inr (Normalize (Some remote))
       else Inr (Normalize (first_untrusted trusted hops))))"

section \<open>Facts\<close>

lemma To4_length: "To4 a = Some b \<Longrightarrow> length b = 4"
  by (auto simp: To4_def split: if_splits)

lemma To4_idem [simp]: "To4 a = Some b \<Longrightarrow> To4 b = Some b"
  by (auto simp: To4_def split: if_splits)

lemma Normalize_cases:
  assumes "Normalize r = Some a"
  shows "length a = 4 \<or> (length a = 16 \<and> To4 a = None)"
  using assms by (auto simp: Normalize_def To4_def To16_def split: option.splits if_splits)

lemma Normalize_idem: "Normalize r = Some a \<Longrightarrow> Normalize (Some a) = Some a"
  by (auto dest!: Normalize_cases simp: Normalize_def To4_def To16_def split: option.splits if_splits)

lemma parse_hops_append:
  "parse_hops parse (xs @ ys) =
     bindE (parse_hops parse xs) (\<lambda>hs. bindE (parse_hops parse ys) (\<lambda>hs'. Inr (hs @ hs')))"
  by (induction parse xs rule: parse_hops.induct)
     (auto simp: bindE_def split: sum.splits)

lemma first_untrusted_last:
  assumes "\<not> isTrusted trusted a" "\<forall>h \<in> set after. isTrusted trusted h"
  shows "first_untrusted trusted (before @ a # after) = Some a"
proof -
  have "find P (xs @ ys) = (case find P xs of None \<Rightarrow> find P ys | Some x \<Rightarrow> Some x)"
    for P and xs ys :: "ip list"
    by (induction xs) auto
  moreover have "find (\<lambda>h. \<not> isTrusted trusted h) (rev after) = None"
    using assms(2) by (auto simp: find_None_iff)
  ultimately show ?thesis using assms(1) by (simp add: first_untrusted_def)
qed

text \<open>What an entry between two commas of a forwarding header says: nothing, an address, or neither.\<close>

definition blank :: "string \<Rightarrow> bool" where
  "blank e \<longleftrightarrow> TrimSpace e = ''''"

definition readable :: "(string \<Rightarrow> ip option) \<Rightarrow> string \<Rightarrow> bool" where
  "readable parse e \<longleftrightarrow> (\<exists>b. parseIP parse (TrimSpace e) = Inr b)"

definition names_ip :: "(string \<Rightarrow> ip option) \<Rightarrow> string \<Rightarrow> ip \<Rightarrow> bool" where
  "names_ip parse e a \<longleftrightarrow> \<not> blank e \<and>
     (\<exists>b. parseIP parse (TrimSpace e) = Inr b \<and> Normalize (Some b) = Some a)"

lemma parse_hops_result:
  "(\<exists>hops. parse_hops parse es = Inr hops) \<longleftrightarrow> (\<forall>e \<in> set es. blank e \<or> readable parse e)"
  "parse_hops parse es = Inl err \<Longrightarrow> err = ErrInfra"
  by (induction parse es rule: parse_hops.induct)
     (auto simp: bindE_def blank_def readable_def parseIP_def split: sum.splits option.splits if_splits)

lemma parse_hops_trusted:
  "\<forall>e \<in> set es. blank e \<or> (\<exists>b. names_ip parse e b \<and> isTrusted trusted b) \<Longrightarrow>
     \<exists>hops. parse_hops parse es = Inr hops \<and> (\<forall>h \<in> set hops. isTrusted trusted h)"
  by (induction es) (auto simp: names_ip_def blank_def bindE_def)

text \<open>C39: forged forwarding entries never win.  The proxies append to the header, so what an outside client
  sends stands to the left of the address at which the first trusted proxy saw it.  When that address is not itself a
  trusted proxy and everything to its right is, it is the address taken, whatever stands to its left, however the
  entries are spread over commas and header lines; entries to the left that are no addresses make the request fail, but
  never change the address.  The header of a request that does not come through a trusted proxy is not read.\<close>

theorem forged_hops_ignored:
  assumes "peerIP split parse addr = Inr remote"
    and "concat (map (Split CHR '','') values) = forged @ client # proxies"
    and "names_ip parse client a" "\<not> isTrusted trusted a"
    and "\<forall>e \<in> set proxies. blank e \<or> (\<exists>b. names_ip parse e b \<and> isTrusted trusted b)"
  shows "Extract split parse addr values trusted =
    (if \<not> isTrusted trusted remote then Inr (Normalize (Some remote))
     else if \<forall>e \<in> set forged. blank e \<or> readable parse e then Inr (Some a)
     else Inl ErrInfra)"
proof -
  obtain after where after: "parse_hops parse proxies = Inr after" "\<forall>h \<in> set after. isTrusted trusted h"
    using parse_hops_trusted [OF assms(5)] by blast
  have "parse_hops parse (client # proxies) = Inr (a # after)"
    using assms(3) after(1) by (auto simp: names_ip_def blank_def bindE_def)
  then have all: "xffHops parse values =
      bindE (parse_hops parse forged) (\<lambda>before. Inr (before @ a # after))"
    by (simp add: xffHops_def assms(2) parse_hops_append bindE_def split: sum.split)
  have norm: "Normalize (Some a) = Some a"
    using assms(3) Normalize_idem by (auto simp: names_ip_def)
  show ?thesis
  proof (cases "parse_hops parse forged")
    case (Inl e)
    then have "\<not> (\<forall>e \<in> set forged. blank e \<or> readable parse e)" "e = ErrInfra"
      using parse_hops_result [where parse = parse and es = forged] by auto
    then show ?thesis using assms(1) all Inl by (auto simp: Extract_def bindE_def)
  next
    case (Inr before)
    then have "\<forall>e \<in> set forged. blank e \<or> readable parse e"
      using parse_hops_result(1) by blast
    then show ?thesis
      using assms(1) all Inr norm first_untrusted_last [OF assms(4) after(2), of before]
      by (simp add: Extract_def bindE_def)
  qed
qed

definition sample_parse_ip :: "string \<Rightarrow> ip option" where
  "sample_parse_ip s =
     map_of [(''10.0.0.2'', v4_prefix @ [10, 0, 0, 2]), (''6.6.6.6'', v4_prefix @ [6, 6, 6, 6]),
             (''203.0.113.9'', v4_prefix @ [203, 0, 113, 9])] s"

lemma forged_hops_ignored_witness:
  "Extract (\<lambda>_. None) sample_parse_ip ''10.0.0.2'' [''6.6.6.6, , 203.0.113.9, 10.0.0.2'']
      [\<lparr>net_ip = [10, 0, 0, 0], net_mask = [255, 0, 0, 0]\<rparr>] = Inr (Some [203, 0, 113, 9])"
proof -
  let ?n = "[\<lparr>net_ip = [10, 0, 0, 0], net_mask = [255, 0, 0, 0]\<rparr>]"
  have entries: "concat (map (Split CHR '','') [''6.6.6.6, , 203.0.113.9, 10.0.0.2'']) =
      [''6.6.6.6'', '' ''] @ '' 203.0.113.9'' # ['' 10.0.0.2'']" by code_simp
  have peer: "peerIP (\<lambda>_. None) sample_parse_ip ''10.0.0.2'' = Inr (v4_prefix @ [10, 0, 0, 2])"
    and proxy: "isTrusted ?n (v4_prefix @ [10, 0, 0, 2])" "isTrusted ?n [10, 0, 0, 2]"
    and client: "\<not> isTrusted ?n [203, 0, 113, 9]"
    by code_simp+
  have read: "parseIP sample_parse_ip (TrimSpace '' 203.0.113.9'') = Inr (v4_prefix @ [203, 0, 113, 9])"
    "parseIP sample_parse_ip (TrimSpace '' 10.0.0.2'') = Inr (v4_prefix @ [10, 0, 0, 2])"
    "parseIP sample_parse_ip (TrimSpace ''6.6.6.6'') = Inr (v4_prefix @ [6, 6, 6, 6])"
    "Normalize (Some (v4_prefix @ [203, 0, 113, 9])) = Some [203, 0, 113, 9]"
    "Normalize (Some (v4_prefix @ [10, 0, 0, 2])) = Some [10, 0, 0, 2]"
    by code_simp+
  have blanks: "blank '' ''" "\<not> blank '' 203.0.113.9''" "\<not> blank '' 10.0.0.2''" by code_simp+
  have "names_ip sample_parse_ip '' 203.0.113.9'' [203, 0, 113, 9]"
    "\<forall>e \<in> set ['' 10.0.0.2'']. blank e \<or> (\<exists>b. names_ip sample_parse_ip e b \<and> isTrusted ?n b)"
    "\<forall>e \<in> set [''6.6.6.6'', '' '']. blank e \<or> readable sample_parse_ip e"
    using read blanks proxy(2) by (auto simp: names_ip_def readable_def)
  with forged_hops_ignored [OF peer entries this(1) client this(2)] proxy(1) show ?thesis by simp
qed

lemma masked_Cons [simp]: "masked (x # a) (m # ms) = (x AND m) # masked a ms" "masked [] ms = []"
    "masked a [] = []"
  by (simp_all add: masked_def)

lemma and_ones [simp]: "x AND 255 = (x :: byte)"
proof -
  have "(255 :: byte) = - 1" by simp
  then show ?thesis by (simp only: and.right_neutral)
qed

lemma masked_zero: "length a = length b \<Longrightarrow> masked a (replicate k 0) = masked b (replicate k 0)"
proof (induction a b arbitrary: k rule: list_induct2)
  case (Cons x xs y ys)
  then show ?case by (cases k) simp_all
qed simp

lemma masked_prefix:
  "length a = length b \<Longrightarrow> take n a = take n b \<Longrightarrow>
     masked a (replicate n 255 @ replicate k 0) = masked b (replicate n 255 @ replicate k 0)"
proof (induction a b arbitrary: n rule: list_induct2)
  case (Cons x xs y ys)
  then show ?case
    using masked_zero [of "x # xs" "y # ys" k] by (cases n) simp_all
qed simp

lemma masked_keeps: "n \<le> length a \<Longrightarrow> take n (masked a (replicate n 255 @ z)) = take n a"
proof (induction n arbitrary: a)
  case (Suc n)
  then show ?case by (cases a) simp_all
qed simp

text \<open>What the coarse mode keeps of an address: addresses of one IPv4 /24, and of one IPv6 /48,
  are stored as the same value, which keeps only that network prefix.\<close>

theorem coarse_address_hides_host:
  assumes "Normalize (Some a) = Some a" "Normalize (Some b) = Some b" "length a = length b"
    "take (if length a = 4 then 3 else 6) a = take (if length a = 4 then 3 else 6) b"
  shows "CoarsenIP (Some a) PrivacyModeCoarse = CoarsenIP (Some b) PrivacyModeCoarse \<and>
    (\<exists>c. CoarsenIP (Some a) PrivacyModeCoarse = Inr (Some c) \<and> length c = length a \<and>
       take (if length a = 4 then 3 else 6) c = take (if length a = 4 then 3 else 6) a)"
proof -
  have masks: "byte_mask 24 32 = replicate 3 255 @ replicate 1 0"
    "byte_mask 48 128 = replicate 6 255 @ replicate 10 0"
    by (simp_all add: byte_mask_def)
  consider (v4) "length a = 4" "To4 a = Some a" "To4 b = Some b"
    | (v6) "length a = 16" "To4 a = None" "To4 b = None"
    using Normalize_cases [OF assms(1)] Normalize_cases [OF assms(2)] assms(3)
    by (auto simp: To4_def split: if_splits)
  then show ?thesis
  proof cases
    case v4
    have "masked a (byte_mask 24 32) = masked b (byte_mask 24 32)"
      unfolding masks using assms(3,4) v4(1) by (intro masked_prefix) simp_all
    moreover have "length (masked a (byte_mask 24 32)) = 4"
      unfolding masks using v4(1) by (simp add: masked_def)
    moreover have "take 3 (masked a (byte_mask 24 32)) = take 3 a"
      unfolding masks using v4(1) by (intro masked_keeps) simp
    ultimately show ?thesis
      using assms(1,2) v4 by (simp add: CoarsenIP_def)
  next
    case v6
    then have b16: "length b = 16" using assms(3) by simp
    have "masked a (byte_mask 48 128) = masked b (byte_mask 48 128)"
      unfolding masks using assms(3,4) v6(1) by (intro masked_prefix) simp_all
    moreover have "length (masked a (byte_mask 48 128)) = 16"
      unfolding masks using v6(1) by (simp add: masked_def)
    moreover have "take 6 (masked a (byte_mask 48 128)) = take 6 a"
      unfolding masks using v6(1) by (intro masked_keeps) simp
    ultimately show ?thesis
      using assms(1,2) v6 b16 by (simp add: CoarsenIP_def To16_def)
  qed
qed

lemma coarse_address_hides_host_witness:
  "CoarsenIP (Some [203, 0, 113, 9]) PrivacyModeCoarse = CoarsenIP (Some [203, 0, 113, 77]) PrivacyModeCoarse"
  using coarse_address_hides_host [of "[203, 0, 113, 9]" "[203, 0, 113, 77]"]
  by (simp add: Normalize_def To4_def)

end
