(* ===== verification/Spam.thy ===== *)
theory Spam
  imports Domain Go_Std
begin

text \<open>
  The spam gateway (\<open>internal/service/comment/spam.go\<close>): the enabled detectors run one after the
  other in a fixed order, and a channel that cannot be built or fails is skipped.  The answers of
  the channels (a keyword file, three web services) are the argument \<open>detect\<close>; the cache of built
  detectors and the logging do not change an answer and are left out.
\<close>

datatype spam_result = ResultPass | ResultReview | ResultBlock

record spam_input =
  si_blog_url :: string
  si_permalink :: string
  si_comment_type :: string
  si_body :: string
  si_nickname :: string
  si_email :: string
  si_author_url :: string
  si_ip :: string
  si_user_agent :: string

record spam_provider =
  sp_key :: string
  sp_check_nickname :: bool
  sp_action :: string
  sp_api_key :: string
  sp_region :: string
  sp_biz_type :: string
  sp_access_key_id :: string
  sp_access_key_secret :: string
  sp_secret_id :: string
  sp_secret_key :: string

type_synonym detect = "spam_provider \<Rightarrow> spam_input \<Rightarrow> error + spam_result"

definition spamProviderOrder :: "string list" where
  "spamProviderOrder = [''spam.local'', ''spam.akismet'', ''spam.aliyun'', ''spam.tencent'']"

definition isBinarySpamProvider :: "string \<Rightarrow> bool" where
  "isBinarySpamProvider key \<longleftrightarrow> key = ''spam.local'' \<or> key = ''spam.akismet''"

definition statusForSpamAction :: "string \<Rightarrow> comment_status option" where
  "statusForSpamAction action =
     (if TrimSpace action = ''spam'' then Some CommentStatusSpam else Some CommentStatusPending)"

text \<open>\<open>byKey\<close>: a later entry of the same key replaces an earlier one.\<close>

definition by_key :: "spam_provider list \<Rightarrow> string \<Rightarrow> spam_provider option" where
  "by_key ps key = find (\<lambda>p. sp_key p = key) (rev ps)"

text \<open>\<open>detectorFor\<close>: only the four known keys have a detector.\<close>

definition detectorFor :: "detect \<Rightarrow> spam_provider \<Rightarrow> (spam_input \<Rightarrow> error + spam_result) option" where
  "detectorFor detect p = (if sp_key p \<in> set spamProviderOrder then Some (detect p) else None)"

text \<open>The loop over the keys; \<open>None\<close> is no override.\<close>

fun check_keys :: "detect \<Rightarrow> spam_provider list \<Rightarrow> spam_input \<Rightarrow> string list \<Rightarrow> comment_status option" where
  "check_keys detect ps x [] = None"
| "check_keys detect ps x (key # keys) =
     (case by_key ps key of
        None \<Rightarrow> check_keys detect ps x keys
      | Some p \<Rightarrow>
          (case detectorFor detect p of
             None \<Rightarrow> check_keys detect ps x keys
           | Some d \<Rightarrow>
               (case d x of
                  Inl _ \<Rightarrow> check_keys detect ps x keys
                | Inr r \<Rightarrow>
                    if isBinarySpamProvider (sp_key p) then
                      (if r = ResultBlock then statusForSpamAction (sp_action p)
                       else check_keys detect ps x keys)
                    else (case r of
                            ResultReview \<Rightarrow> Some CommentStatusPending
                          | ResultBlock \<Rightarrow> Some CommentStatusSpam
                          | ResultPass \<Rightarrow> check_keys detect ps x keys))))"

definition SpamCheck ::
  "error + spam_provider list \<Rightarrow> detect \<Rightarrow> spam_input \<Rightarrow> comment_status option" where
  "SpamCheck providers detect x =
     (case providers of Inl _ \<Rightarrow> None | Inr ps \<Rightarrow> check_keys detect ps x spamProviderOrder)"

definition commentInitialStatus :: "string \<Rightarrow> comment_status option \<Rightarrow> comment_status" where
  "commentInitialStatus moderation override =
     (case override of
        Some s \<Rightarrow> s
      | None \<Rightarrow> if moderation = ModerationReview then CommentStatusPending else CommentStatusPublished)"

definition optionalString :: "string option \<Rightarrow> string" where
  "optionalString v = (case v of None \<Rightarrow> '''' | Some s \<Rightarrow> s)"

section \<open>What the gateway decides\<close>

text \<open>The verdict of one channel on its own, \<open>None\<close> when it has none.\<close>

definition verdict :: "detect \<Rightarrow> spam_provider list \<Rightarrow> spam_input \<Rightarrow> string \<Rightarrow> comment_status option" where
  "verdict detect ps x key =
     (case by_key ps key of
        None \<Rightarrow> None
      | Some p \<Rightarrow>
          (case detect p x of
             Inl _ \<Rightarrow> None
           | Inr ResultPass \<Rightarrow> None
           | Inr ResultReview \<Rightarrow> if isBinarySpamProvider key then None else Some CommentStatusPending
           | Inr ResultBlock \<Rightarrow>
               if isBinarySpamProvider key then statusForSpamAction (sp_action p) else Some CommentStatusSpam))"

lemma by_key_key: "by_key ps key = Some p \<Longrightarrow> sp_key p = key"
  by (auto simp: by_key_def find_Some_iff)

lemma statusForSpamAction_cases:
  "statusForSpamAction a = Some CommentStatusSpam \<or> statusForSpamAction a = Some CommentStatusPending"
  by (simp add: statusForSpamAction_def)

lemma check_keys_verdict:
  assumes "set keys \<subseteq> set spamProviderOrder"
  shows "check_keys detect ps x keys =
     (case find (\<lambda>k. verdict detect ps x k \<noteq> None) keys of None \<Rightarrow> None | Some k \<Rightarrow> verdict detect ps x k)"
  using assms
proof (induction keys)
  case (Cons key keys)
  show ?case
  proof (cases "by_key ps key")
    case None
    with Cons show ?thesis by (simp add: verdict_def)
  next
    case (Some p)
    note key = by_key_key [OF Some]
    have "statusForSpamAction (sp_action p) \<noteq> None" using statusForSpamAction_cases [of "sp_action p"] by auto
    with Cons Some key show ?thesis
      by (auto simp: verdict_def detectorFor_def split: sum.splits spam_result.splits)
  qed
qed simp

lemma verdict_cases: "verdict detect ps x key = None \<or> verdict detect ps x key = Some CommentStatusPending \<or>
    verdict detect ps x key = Some CommentStatusSpam"
  using statusForSpamAction_cases
  by (auto simp: verdict_def split: option.split sum.split spam_result.split)

lemma SpamCheck_cases: "SpamCheck providers detect x \<in> {None, Some CommentStatusPending, Some CommentStatusSpam}"
  using verdict_cases [of detect _ x]
  by (auto simp: SpamCheck_def check_keys_verdict split: sum.split option.split)

lemma initial_not_deleted [simp]:
  "commentInitialStatus moderation (SpamCheck providers detect x) \<noteq> CommentStatusDeleted"
  "commentInitialStatus moderation None \<noteq> CommentStatusDeleted"
  using SpamCheck_cases [of providers detect x] by (auto simp: commentInitialStatus_def)

text \<open>The gateway's answer is the verdict of the first channel, in the fixed order, that has one;
  channels that are missing, fail or pass have none, and a failing configuration has none at
  all.  The answer can only hold a comment back: it is never published or deleted.\<close>

theorem spam_first_verdict:
  "SpamCheck providers detect x =
     (case providers of Inl _ \<Rightarrow> None
      | Inr ps \<Rightarrow> (case filter (\<lambda>v. v \<noteq> None) (map (verdict detect ps x) spamProviderOrder) of
                    [] \<Rightarrow> None | v # _ \<Rightarrow> v)) \<and>
   commentInitialStatus moderation (SpamCheck providers detect x) \<noteq> CommentStatusDeleted \<and>
   (commentInitialStatus moderation (SpamCheck providers detect x) = CommentStatusPublished \<longleftrightarrow>
      moderation \<noteq> ModerationReview \<and> SpamCheck providers detect x = None)"
proof -
  have first: "(case find (\<lambda>k. f k \<noteq> None) ks of None \<Rightarrow> None | Some k \<Rightarrow> f k) =
      (case filter (\<lambda>v. v \<noteq> None) (map f ks) of [] \<Rightarrow> None | v # _ \<Rightarrow> v)"
    for f :: "string \<Rightarrow> comment_status option" and ks
    by (induction ks) auto
  have "SpamCheck providers detect x =
     (case providers of Inl _ \<Rightarrow> None
      | Inr ps \<Rightarrow> (case filter (\<lambda>v. v \<noteq> None) (map (verdict detect ps x) spamProviderOrder) of
                    [] \<Rightarrow> None | v # _ \<Rightarrow> v))"
    by (simp only: SpamCheck_def check_keys_verdict [OF subset_refl] first)
  moreover have "commentInitialStatus moderation (SpamCheck providers detect x) \<noteq> CommentStatusDeleted \<and>
   (commentInitialStatus moderation (SpamCheck providers detect x) = CommentStatusPublished \<longleftrightarrow>
      moderation \<noteq> ModerationReview \<and> SpamCheck providers detect x = None)"
    using SpamCheck_cases [of providers detect x] by (auto simp: commentInitialStatus_def)
  ultimately show ?thesis by blast
qed

end
