(* ===== verification/Create.thy ===== *)
theory Create
  imports Moderation Content Clientip Spam Urlx
begin

text \<open>
  Writing a comment (\<open>internal/service/comment/create.go\<close>, with \<open>captcha.go\<close>,
  \<open>validateSiteAndOrigin\<close> of \<open>widget_session.go\<close>, \<open>WidgetRoleAllowed\<close> of
  \<open>widget.go\<close>, and the user writes of \<open>internal/service/identity/ports_impl.go\<close>).  The record \<open>env\<close> holds what the handlers are given: the library
  functions, the answers of the settings reader, of the principal resolver, of the CAPTCHA verifier
  and of the spam channels, the e-mail policy, and the clock.
\<close>

record env =
  en_lib :: content_library
  en_useragent :: "string \<Rightarrow> ua_info"
  en_settings :: settings
  en_avatar :: avatar
  en_captcha :: "(string \<Rightarrow> string \<Rightarrow> error + unit) option"
  en_principal :: "int \<Rightarrow> error + principal"
  en_spam :: "((error + spam_provider list) \<times> detect) option"
  en_email_policy :: "(error + string list \<times> string list) option"
  en_now :: int

record credential =
  wc_user_id :: int
  wc_site_id :: int
  wc_epoch :: int

record website_operation =
  wo_set :: bool
  wo_value :: "string option"

record create_input =
  ci_site_id :: int
  ci_page_key :: string
  ci_page_url :: "string option"
  ci_page_title :: "string option"
  ci_parent_id :: "int option"
  ci_body :: string
  ci_ip :: "ip option"
  ci_ua :: string
  ci_captcha_token :: string
  ci_origin :: string
  ci_email :: string
  ci_nickname :: string
  ci_website :: website_operation
  ci_credential :: "credential option"

abbreviation "CommentAction \<equiv> ''comment''"

definition en_url_lib :: "env \<Rightarrow> library" where
  "en_url_lib E = library.truncate (en_lib E)"

section \<open>Sites, roles and CAPTCHA\<close>

definition validateSiteActive :: "int \<Rightarrow> unit sql" where
  "validateSiteActive sid =
     bind (Site_Get sid) (\<lambda>s. require (s_status s = SiteStatusActive) ErrSiteInactive)"

definition validateSiteAndOrigin :: "int \<Rightarrow> string \<Rightarrow> unit sql" where
  "validateSiteAndOrigin sid origin =
     bind (attempt (Site_Get sid)) (\<lambda>r.
     case r of
       Inl e \<Rightarrow> fail (if e = ErrNotFound then ErrForbidden else e)
     | Inr s \<Rightarrow>
         if s_status s \<noteq> SiteStatusActive then fail ErrForbidden
         else bind (AllowedOrigins sid) (\<lambda>allowed. require (origin \<in> set allowed) ErrForbidden))"

definition WidgetRoleAllowed :: "string \<Rightarrow> role \<Rightarrow> bool" where
  "WidgetRoleAllowed mode r =
     (if mode = CommentModeAnonymous then r = RoleAdmin
      else if mode = CommentModeAuthenticated then r = RoleUser \<or> r = RoleAdmin
      else False)"

definition checkCaptcha :: "env \<Rightarrow> (string \<Rightarrow> bool) \<Rightarrow> string \<Rightarrow> string \<Rightarrow> error + unit" where
  "checkCaptcha E policy action token =
     (if \<not> policy action then Inr ()
      else (case en_captcha E of
              None \<Rightarrow> Inl ErrCaptchaUnavailable
            | Some verify \<Rightarrow>
                if TrimSpace token = '''' then Inl ErrCaptchaRequired else verify action token))"

text \<open>A site that cannot be read gives the empty address.\<close>

definition siteCanonicalURL :: "int \<Rightarrow> string sql" where
  "siteCanonicalURL sid =
     bind (attempt (Site_Get sid)) (\<lambda>r. ret (case r of Inl _ \<Rightarrow> '''' | Inr s \<Rightarrow> s_canonical_url s))"

section \<open>Accounts (identity)\<close>

definition CreateUser :: "env \<Rightarrow> user \<Rightarrow> user sql" where
  "CreateUser E u =
     (if TrimSpace (u_email_normalized u) = '''' then fail ErrValidation
      else bind (lift (checkEmailDomainAllowed (en_url_lib E) (en_email_policy E) (u_email_normalized u))) (\<lambda>_. User_Create u))"

definition UpdateUserProfile :: "int \<Rightarrow> string \<Rightarrow> string option \<Rightarrow> unit sql" where
  "UpdateUserProfile uid nickname website = UpdateProfile uid nickname website"

section \<open>The author\<close>

definition applyWebsiteOperation ::
  "library \<Rightarrow> string option \<Rightarrow> website_operation \<Rightarrow> error + string option" where
  "applyWebsiteOperation L current op =
     (if \<not> wo_set op then Inr current
      else (case wo_value op of
              None \<Rightarrow> Inr None
            | Some v \<Rightarrow>
                if TrimSpace v = '''' then Inr None
                else (case NormalizeWebsite L (TrimSpace v) of
                        None \<Rightarrow> Inl ErrValidation
                      | Some url \<Rightarrow> Inr (Some url))))"

definition new_user :: "string \<Rightarrow> string \<Rightarrow> string \<Rightarrow> user" where
  "new_user original normalized nickname =
     \<lparr>u_id = 0, u_email = original, u_email_normalized = normalized, u_nickname = nickname,
      u_website_url = None, u_role = RoleUser, u_status = UserStatusActive, u_session_version = 0,
      u_email_verified_at = None, u_created_at = 0, u_updated_at = 0, u_deleted_at = None,
      u_status_before_delete = None,
      u_password_hash = None, u_password_changed_at = None\<rparr>"

definition find_or_create_user :: "env \<Rightarrow> string \<Rightarrow> string \<Rightarrow> string \<Rightarrow> user sql" where
  "find_or_create_user E normalized original nickname =
     bind (attempt (FindByEmailNormalized normalized)) (\<lambda>r.
     case r of
       Inr u \<Rightarrow> ret u
     | Inl e \<Rightarrow>
         if e \<noteq> ErrNotFound then fail e
         else bind (attempt (CreateUser E (new_user original normalized nickname))) (\<lambda>c.
              case c of
                Inr u \<Rightarrow> ret u
              | Inl e' \<Rightarrow> if e' \<noteq> ErrConflict then fail e' else FindByEmailNormalized normalized))"

text \<open>The two halves of \<open>resolveAndSyncActor\<close>: whose account it is, then its profile.\<close>

definition resolveActor ::
  "env \<Rightarrow> comment_policy \<Rightarrow> string \<Rightarrow> string \<Rightarrow> string \<Rightarrow> int option \<Rightarrow> user sql" where
  "resolveActor E pol normalized original nickname actor =
     (case actor of
        Some uid \<Rightarrow>
          bind (FindByID uid) (\<lambda>u.
          if u_email_normalized u \<noteq> normalized then fail ErrInvalidCredentials
          else if u_status u \<noteq> UserStatusActive \<or> \<not> WidgetRoleAllowed (pol_mode pol) (u_role u)
          then fail ErrInvalidCredentials
          else ret u)
      | None \<Rightarrow>
          bind (find_or_create_user E normalized original nickname) (\<lambda>u.
          if u_role u = RoleAdmin then fail ErrAuthorizationRequired
          else if u_status u \<noteq> UserStatusActive then fail ErrInvalidCredentials
          else ret u))"

definition syncAuthor :: "env \<Rightarrow> string \<Rightarrow> website_operation \<Rightarrow> user \<Rightarrow> int sql" where
  "syncAuthor E nickname op u =
     bind (lift (applyWebsiteOperation (en_url_lib E) (u_website_url u) op)) (\<lambda>website.
     bind (UpdateUserProfile (u_id u) nickname website) (\<lambda>_.
     ret (u_id u)))"

definition resolveAndSyncActor ::
  "env \<Rightarrow> comment_policy \<Rightarrow> string \<Rightarrow> string \<Rightarrow> string \<Rightarrow> website_operation \<Rightarrow> int option \<Rightarrow> int sql" where
  "resolveAndSyncActor E pol normalized original nickname op actor =
     bind (resolveActor E pol normalized original nickname actor) (syncAuthor E nickname op)"

text \<open>
  The checks before the CAPTCHA, on committed data: whether the author is an administrator, the
  author's website, and the account a credential names.
\<close>

definition checkActor ::
  "env \<Rightarrow> comment_policy \<Rightarrow> create_input \<Rightarrow> string \<Rightarrow> (bool \<times> string option \<times> int option) sql" where
  "checkActor E pol input normalized =
     (case ci_credential input of
        Some cred \<Rightarrow>
          if wc_epoch cred \<noteq> pol_epoch pol then fail ErrCredentialStale
          else if wc_site_id cred \<noteq> ci_site_id input then fail ErrForbidden
          else (case en_principal E (wc_user_id cred) of
                  Inl _ \<Rightarrow> fail ErrInvalidCredentials
                | Inr p \<Rightarrow>
                    if p_status p \<noteq> UserStatusActive \<or> \<not> WidgetRoleAllowed (pol_mode pol) (p_role p)
                    then fail ErrInvalidCredentials
                    else bind (FindByID (wc_user_id cred)) (\<lambda>subject.
                         if u_email_normalized subject \<noteq> normalized then fail ErrInvalidCredentials
                         else ret (p_role p = RoleAdmin, u_website_url subject, Some (wc_user_id cred))))
      | None \<Rightarrow>
          if pol_mode pol \<noteq> CommentModeAnonymous then fail ErrInvalidCredentials
          else bind (attempt (FindByEmailNormalized normalized)) (\<lambda>r.
               case r of
                 Inr u \<Rightarrow>
                   if u_role u = RoleAdmin then fail ErrAuthorizationRequired
                   else if u_status u \<noteq> UserStatusActive then fail ErrInvalidCredentials
                   else ret (False, u_website_url u, None)
               | Inl e \<Rightarrow>
                   if e \<noteq> ErrNotFound then fail e
                   else if \<not> pol_public_registration pol then fail ErrInvalidCredentials
                   else ret (False, None, None)))"

section \<open>The comment\<close>

definition capturePrivacy ::
  "env \<Rightarrow> privacy_policy \<Rightarrow> ip option \<Rightarrow> string \<Rightarrow> error + string option \<times> ua_record" where
  "capturePrivacy E p ip raw_ua =
     bindE (if pp_ip_mode p \<noteq> ''none'' \<and> ip \<noteq> None
            then bindE (CoarsenIP ip (pp_ip_mode p)) (\<lambda>c. Inr (Some (case c of None \<Rightarrow> ''<nil>'' | Some a \<Rightarrow> ip_string a)))
            else Inr None) (\<lambda>ip_value.
     bindE (ParseUA (en_useragent E) raw_ua (pp_ua_mode p)) (\<lambda>ua.
     Inr (ip_value, ua)))"

text \<open>The place of a reply: its parent, its root and the author it answers.\<close>

definition replyPosition ::
  "comment_policy \<Rightarrow> int \<Rightarrow> int \<Rightarrow> int option \<Rightarrow>
     (int option \<times> int option \<times> int option \<times> int) sql" where
  "replyPosition pol sid tid parent_id =
     (case parent_id of
        None \<Rightarrow> ret (None, None, None, 0)
      | Some pid \<Rightarrow>
          bind (attempt (FindBySiteAndIDLocked sid pid)) (\<lambda>r.
          case r of
            Inl e \<Rightarrow> fail (if e = ErrNotFound then ErrParentNotFound else e)
          | Inr parent \<Rightarrow>
              if c_thread_id parent \<noteq> tid then fail ErrCrossThreadReply
              else if c_status parent = CommentStatusDeleted then fail ErrParentDeleted
              else if c_status parent \<noteq> CommentStatusPublished then fail ErrConflict
              else if c_depth parent \<ge> pol_max_reply_depth pol then fail ErrDepthExceeded
              else ret (Some pid,
                        Some (case c_root_id parent of Some root \<Rightarrow> root | None \<Rightarrow> c_id parent),
                        Some (c_user_id parent), c_depth parent + 1)))"

definition createComment ::
  "env \<Rightarrow> comment_policy \<Rightarrow> int \<Rightarrow> int \<Rightarrow> int \<Rightarrow> int option \<Rightarrow> string \<Rightarrow> ip option \<Rightarrow> string \<Rightarrow>
     comment_status \<Rightarrow> comment sql" where
  "createComment E pol sid tid actor parent_id body ip raw_ua status =
     bind (replyPosition pol sid tid parent_id) (\<lambda>(parent, root, reply_to, depth).
     bind (case capturePrivacy E (pol_privacy pol) ip raw_ua of
             Inl _ \<Rightarrow> fail ErrValidation | Inr r \<Rightarrow> ret r) (\<lambda>(ip_value, ua).
     Comment_Create
       \<lparr>c_id = 0, c_site_id = sid, c_thread_id = tid, c_user_id = actor, c_parent_id = parent,
        c_root_id = root, c_reply_to_user_id = reply_to, c_depth = depth, c_body_markdown = body,
        c_status = status, c_status_before_delete = None, c_is_pinned = False,
        c_ip_mode = pp_ip_mode (pol_privacy pol), c_ip_value = ip_value,
        c_ua_mode = pp_ua_mode (pol_privacy pol), c_ua_raw = ur_raw ua, c_ua_browser = ur_browser ua,
        c_ua_os = ur_os ua, c_ua_device = ur_device ua, c_created_at = en_now E,
        c_updated_at = en_now E,
        c_published_at = (if status = CommentStatusPublished then Some (en_now E) else None),
        c_deleted_at = None\<rparr>))"

section \<open>Create\<close>

definition ip_text :: "ip option \<Rightarrow> string" where
  "ip_text ip = (case ip of None \<Rightarrow> '''' | Some a \<Rightarrow> ip_string a)"

text \<open>The pure checks of the input, in the order of the handler, after the site is checked.\<close>

definition checkInput :: "env \<Rightarrow> create_input \<Rightarrow> error + (string \<times> string \<times> string)" where
  "checkInput E input =
     bindE (validateBody (en_lib E) (ci_body input)) (\<lambda>_.
     bindE (validatePageKey (ci_page_key input)) (\<lambda>_.
     bindE (validatePageURL (en_lib E) (normalizeOptionalString (ci_page_url input))) (\<lambda>_.
     bindE (validatePageTitle (normalizeOptionalString (ci_page_title input))) (\<lambda>_.
     bindE (option_to_result ErrValidation (NormalizeEmail (en_url_lib E) (ci_email input))) (\<lambda>(original, normalized).
     (let nickname = TrimSpace (ci_nickname input)
      in if nickname = '''' then Inl ErrValidation
         else if length nickname > maxNicknameLength then Inl ErrValidation
         else Inr (original, normalized, nickname)))))))"

definition detectSpam ::
  "env \<Rightarrow> comment_policy \<Rightarrow> create_input \<Rightarrow> string \<Rightarrow> bool \<Rightarrow> string option \<Rightarrow> comment_status sql" where
  "detectSpam E pol input nickname is_admin website =
     (case en_spam E of
        Some (providers, detect) \<Rightarrow>
          if is_admin then ret (commentInitialStatus (pol_moderation pol) None)
          else bind (siteCanonicalURL (ci_site_id input)) (\<lambda>blog.
               ret (commentInitialStatus (pol_moderation pol)
                 (SpamCheck providers detect
                   \<lparr>si_blog_url = blog, si_permalink = optionalString (normalizeOptionalString (ci_page_url input)),
                    si_comment_type = ''comment'', si_body = ci_body input, si_nickname = nickname,
                    si_email = ci_email input, si_author_url = optionalString website,
                    si_ip = ip_text (ci_ip input), si_user_agent = ci_ua input\<rparr>)))
      | None \<Rightarrow> ret (commentInitialStatus (pol_moderation pol) None))"

definition createTx ::
  "env \<Rightarrow> comment_policy \<Rightarrow> create_input \<Rightarrow> string \<Rightarrow> string \<Rightarrow> string \<Rightarrow> int option \<Rightarrow> comment_status \<Rightarrow> comment sql" where
  "createTx E pol input normalized original nickname actor status =
     bind (ResolveOrCreate (ci_site_id input) (ci_page_key input)
             (normalizeOptionalString (ci_page_url input)) (normalizeOptionalString (ci_page_title input))) (\<lambda>thread.
     bind (GetBySiteAndKeyLocked (ci_site_id input) (ci_page_key input)) (\<lambda>current.
     if \<not> t_comments_enabled current then fail ErrThreadClosed
     else bind (resolveAndSyncActor E pol normalized original nickname (ci_website input) actor) (\<lambda>uid.
          createComment E pol (ci_site_id input) (t_id thread) uid (ci_parent_id input) (ci_body input)
            (ci_ip input) (ci_ua input) status)))"

definition Create :: "env \<Rightarrow> create_input \<Rightarrow> comment_view sql" where
  "Create E input =
     bind (validateSiteAndOrigin (ci_site_id input) (ci_origin input)) (\<lambda>_.
     bind (lift (checkInput E input)) (\<lambda>(original, normalized, nickname).
     bind (lift (en_settings E)) (\<lambda>pol.
     bind (attempt (GetBySiteAndKey (ci_site_id input) (ci_page_key input))) (\<lambda>r.
     bind (case r of
             Inr t \<Rightarrow> require (t_comments_enabled t) ErrThreadClosed
           | Inl e \<Rightarrow> require (e = ErrNotFound) e) (\<lambda>_.
     bind (checkActor E pol input normalized) (\<lambda>(is_admin, website, actor).
     bind (lift (checkCaptcha E (pol_captcha_policy pol) CommentAction (ci_captcha_token input))) (\<lambda>_.
     bind (detectSpam E pol input nickname is_admin website) (\<lambda>status.
     bind (atomically ErrInfra (createTx E pol input normalized original nickname actor status)) (\<lambda>c.
     bind (publishCommentCreated c (pol_mode pol)) (\<lambda>_.
     viewFor (en_avatar E) (en_settings E) c))))))))))"

section \<open>Replies from the first-party pages\<close>

definition detectSpamReply ::
  "env \<Rightarrow> comment_policy \<Rightarrow> comment \<Rightarrow> int \<Rightarrow> role \<Rightarrow> string \<Rightarrow> ip option \<Rightarrow> string \<Rightarrow> comment_status sql" where
  "detectSpamReply E pol parent actor r body ip raw_ua =
     (case en_spam E of
        Some (providers, detect) \<Rightarrow>
          if r = RoleAdmin then ret (commentInitialStatus (pol_moderation pol) None)
          else
          bind (attempt (GetBySiteAndID (c_site_id parent) (c_thread_id parent))) (\<lambda>thread.
          bind (attempt (FindByID actor)) (\<lambda>author.
          bind (siteCanonicalURL (c_site_id parent)) (\<lambda>blog.
          ret (commentInitialStatus (pol_moderation pol)
            (SpamCheck providers detect
              \<lparr>si_blog_url = blog,
               si_permalink = (case thread of Inl _ \<Rightarrow> '''' | Inr t \<Rightarrow> optionalString (t_page_url t)),
               si_comment_type = ''comment'', si_body = body,
               si_nickname = (case author of Inl _ \<Rightarrow> '''' | Inr u \<Rightarrow> u_nickname u),
               si_email = (case author of Inl _ \<Rightarrow> '''' | Inr u \<Rightarrow> u_email u),
               si_author_url = (case author of Inl _ \<Rightarrow> '''' | Inr u \<Rightarrow> optionalString (u_website_url u)),
               si_ip = ip_text ip, si_user_agent = raw_ua\<rparr>)))))
      | None \<Rightarrow> ret (commentInitialStatus (pol_moderation pol) None))"

definition replyTx ::
  "env \<Rightarrow> comment_policy \<Rightarrow> comment \<Rightarrow> int \<Rightarrow> string \<Rightarrow> ip option \<Rightarrow> string \<Rightarrow> comment_status \<Rightarrow> comment sql" where
  "replyTx E pol parent actor body ip raw_ua status =
     bind (GetBySiteAndIDLocked (c_site_id parent) (c_thread_id parent)) (\<lambda>thread.
     if \<not> t_comments_enabled thread then fail ErrThreadClosed
     else createComment E pol (c_site_id parent) (c_thread_id parent) actor (Some (c_id parent)) body ip
            raw_ua status)"

definition CreateReplyFirstParty ::
  "env \<Rightarrow> int \<Rightarrow> role \<Rightarrow> int \<Rightarrow> string \<Rightarrow> string \<Rightarrow> ip option \<Rightarrow> string \<Rightarrow> comment_view sql" where
  "CreateReplyFirstParty E actor r parent_id body token ip raw_ua =
     bind (lift (validateBody (en_lib E) body)) (\<lambda>_.
     bind (lift (en_settings E)) (\<lambda>pol.
     if pol_mode pol \<noteq> CommentModeAuthenticated \<and> r \<noteq> RoleAdmin then fail ErrForbidden
     else
     bind (lift (checkCaptcha E (pol_captcha_policy pol) CommentAction token)) (\<lambda>_.
     bind (attempt (FindGlobalByID parent_id)) (\<lambda>found.
     case found of
       Inl e \<Rightarrow> fail (if e = ErrNotFound then ErrParentNotFound else e)
     | Inr parent \<Rightarrow>
         if c_status parent \<noteq> CommentStatusPublished
         then fail (if c_status parent = CommentStatusDeleted then ErrParentDeleted else ErrConflict)
         else if c_depth parent \<ge> pol_max_reply_depth pol then fail ErrDepthExceeded
         else bind (detectSpamReply E pol parent actor r body ip raw_ua) (\<lambda>status.
              bind (atomically ErrInfra (replyTx E pol parent actor body ip raw_ua status)) (\<lambda>c.
              bind (publishCommentCreated c (pol_mode pol)) (\<lambda>_.
              viewFor (en_avatar E) (en_settings E) c)))))))"

end
