(* ===== verification/Create_Props.thy ===== *)
theory Create_Props
  imports Create Moderation_Props
begin

text \<open>
  What writing a comment promises: a refused request leaves no trace, an accepted one adds exactly
  one comment, in its place in the tree, by an author who may write, and announces it once.
\<close>

section \<open>A concrete setting\<close>

definition sample_library :: content_library where
  "sample_library =
     \<lparr>lib_parse = (\<lambda>s. Some \<lparr>url_scheme = ''https'', url_has_user = False, url_host = ''blog.example'',
        url_path = '''', url_raw_path = '''', url_force_query = False, url_raw_query = '''', url_fragment = ''''\<rparr>),
      lib_string = (\<lambda>_. ''https://blog.example''), lib_unescape = Some, lib_lower = (\<lambda>s. s),
      lib_loopback_ip = (\<lambda>_. False), lib_parse_address = Some,
      lib_markdown = (\<lambda>_. MdNode KindOther []), lib_html_unescape = (\<lambda>s. s)\<rparr>"

definition sample_env :: env where
  "sample_env =
     \<lparr>en_lib = sample_library,
      en_useragent = (\<lambda>_. \<lparr>ua_name = ''Firefox'', ua_os = ''Linux'', ua_device = '''', ua_mobile = False,
                        ua_tablet = False, ua_bot = False\<rparr>),
      en_settings = Inr sample_policy, en_avatar = sample_avatar, en_captcha = None,
      en_principal = (\<lambda>_. Inl ErrNotFound), en_spam = None, en_email_policy = Some (Inr ([], [])),
      en_now = 7000\<rparr>"

definition sample_input :: "string \<Rightarrow> create_input" where
  "sample_input email =
     \<lparr>ci_site_id = 1, ci_page_key = ''post'', ci_page_url = None, ci_page_title = None,
      ci_parent_id = Some 3, ci_body = ''well said'', ci_ip = Some [203, 0, 113, 9], ci_ua = ''ua'',
      ci_captcha_token = '''', ci_origin = ''https://blog.example'', ci_email = email,
      ci_nickname = ''guest'', ci_website = \<lparr>wo_set = False, wo_value = None\<rparr>, ci_credential = None\<rparr>"

section \<open>Statements the handler uses\<close>

lemma wp_case_prod [wp_intros]:
  "wpf f (g (fst p) (snd p)) Q d os \<Longrightarrow> wpf f (case p of (x, y) \<Rightarrow> g x y) Q d os"
  by (cases p) simp

lemma reads_wp [wp_intros]:
  "(\<And>e. Q1 (Inl e) d os) \<Longrightarrow> (\<And>t. t \<in> set (db_threads d) \<Longrightarrow> thread_of_page sid key t \<Longrightarrow> Q1 (Inr t) d os) \<Longrightarrow>
     wpf f (GetBySiteAndKey sid key) Q1 d os"
  "(\<And>e. Q1 (Inl e) d os) \<Longrightarrow> (\<And>t. t \<in> set (db_threads d) \<Longrightarrow> thread_of_page sid key t \<Longrightarrow> Q1 (Inr t) d os) \<Longrightarrow>
     wpf f (GetBySiteAndKeyLocked sid key) Q1 d os"
  "(\<And>e. Q1 (Inl e) d os) \<Longrightarrow> (\<And>t. t \<in> set (db_threads d) \<Longrightarrow> the_thread sid tid t \<Longrightarrow> Q1 (Inr t) d os) \<Longrightarrow>
     wpf f (GetBySiteAndIDLocked sid tid) Q1 d os"
  "(\<And>e. Q1 (Inl e) d os) \<Longrightarrow> (\<And>t. t \<in> set (db_threads d) \<Longrightarrow> the_thread sid tid t \<Longrightarrow> Q1 (Inr t) d os) \<Longrightarrow>
     wpf f (GetBySiteAndID sid tid) Q1 d os"
  unfolding GetBySiteAndKey_def GetBySiteAndKeyLocked_def GetBySiteAndIDLocked_def GetBySiteAndID_def
  by (auto intro!: wp_intros dest!: select_first_Some)

lemma user_reads_wp [wp_intros]:
  "(\<And>e. Q (Inl e) d os) \<Longrightarrow> (\<And>u. u \<in> set (db_users d) \<Longrightarrow> u_id u = uid \<Longrightarrow> Q (Inr u) d os) \<Longrightarrow>
     wpf f (FindByID uid) Q d os"
  "(\<And>e. Q (Inl e) d os) \<Longrightarrow> (\<And>u. u \<in> set (db_users d) \<Longrightarrow> u_email_normalized u = em \<Longrightarrow> Q (Inr u) d os) \<Longrightarrow>
     wpf f (FindByEmailNormalized em) Q d os"
  unfolding FindByID_def FindByEmailNormalized_def
  by (auto intro!: wp_intros dest!: select_first_Some)

lemma site_reads_wp [wp_intros]:
  "(\<And>r. Q (Inr r) d os) \<Longrightarrow> (\<And>e. Q (Inl e) d os) \<Longrightarrow> wpf f (siteCanonicalURL sid) Q d os"
  unfolding siteCanonicalURL_def Site_Get_def by (auto intro!: wp_intros)

definition site_allows :: "db \<Rightarrow> int \<Rightarrow> string \<Rightarrow> bool" where
  "site_allows d sid origin \<longleftrightarrow> (\<exists>s \<in> set (db_sites d). s_id s = sid \<and> s_status s = SiteStatusActive) \<and>
     (\<exists>o' \<in> set (db_origins d). o_site_id o' = sid \<and> o_origin o' = origin)"

lemma origin_wp [wp_intros]:
  "(\<And>e. Q (Inl e) d os) \<Longrightarrow> (site_allows d sid origin \<Longrightarrow> Q (Inr ()) d os) \<Longrightarrow>
     wpf f (validateSiteAndOrigin sid origin) Q d os"
  unfolding validateSiteAndOrigin_def Site_Get_def AllowedOrigins_def
  by (auto intro!: wp_intros dest!: select_first_Some) (auto simp: site_allows_def)

lemma viewFor_wp [wp_intros]:
  "(\<And>r. Q r d os) \<Longrightarrow> wpf f (viewFor avatar settings c) Q d os"
  unfolding viewFor_def FindByID_def avatarBaseURL_def replyToNickname_def
  by (cases settings) (auto intro!: wp_intros)

lemma detectSpam_wp [wp_intros]:
  "(\<And>e. Q (Inl e) d os) \<Longrightarrow> (\<And>s. s \<noteq> CommentStatusDeleted \<Longrightarrow> Q (Inr s) d os) \<Longrightarrow>
     wpf f (detectSpam E pol input nickname is_admin website) Q d os"
  unfolding detectSpam_def
  by (auto split: option.split intro!: wp_intros)


section \<open>The author\<close>

text \<open>What synchronising the author leaves: one account written, all others and their rights kept.\<close>

definition same_rest :: "db \<Rightarrow> db \<Rightarrow> bool" where
  "same_rest d d' \<longleftrightarrow> db_sites d' = db_sites d \<and> db_origins d' = db_origins d \<and>
     db_comments d' = db_comments d \<and> db_likes d' = db_likes d \<and>
     db_next_comment d' = db_next_comment d \<and> db_clock d' = db_clock d \<and> db_accounts d' = db_accounts d \<and>
     db_next_site d' = db_next_site d \<and> db_next_origin d' = db_next_origin d \<and> db_next_like d' = db_next_like d"

definition same_account :: "user \<Rightarrow> user \<Rightarrow> bool" where
  "same_account u u' \<longleftrightarrow> u_id u' = u_id u \<and> u_role u' = u_role u \<and> u_status u' = u_status u \<and>
     u_email u' = u_email u \<and> u_email_normalized u' = u_email_normalized u \<and>
     u_email_verified_at u' = u_email_verified_at u \<and> u_session_version u' = u_session_version u \<and>
     u_password_hash u' = u_password_hash u \<and> u_password_changed_at u' = u_password_changed_at u \<and>
     u_created_at u' = u_created_at u \<and> u_deleted_at u' = u_deleted_at u \<and>
     u_status_before_delete u' = u_status_before_delete u"

definition accounts_kept :: "int \<Rightarrow> db \<Rightarrow> db \<Rightarrow> bool" where
  "accounts_kept uid d d' \<longleftrightarrow>
     (\<forall>u \<in> set (db_users d). \<exists>u' \<in> set (db_users d'). same_account u u' \<and> (u_id u = uid \<or> u' = u)) \<and>
     (\<forall>u' \<in> set (db_users d'). u_id u' = uid \<or> u' \<in> set (db_users d))"

definition author_ok :: "comment_policy \<Rightarrow> string \<Rightarrow> string \<Rightarrow> int option \<Rightarrow> int \<Rightarrow> db \<Rightarrow> bool" where
  "author_ok pol normalized nickname actor uid d \<longleftrightarrow>
     (\<exists>u \<in> set (db_users d). u_id u = uid \<and> u_email_normalized u = normalized \<and>
        u_nickname u = nickname \<and> u_status u = UserStatusActive \<and>
        (case actor of None \<Rightarrow> u_role u = RoleUser
         | Some a \<Rightarrow> uid = a \<and> WidgetRoleAllowed (pol_mode pol) (u_role u)))"

lemma find_or_create_wp:
  assumes "\<And>e d'. Q (Inl e) d' os"
    "\<And>u. u \<in> set (db_users d) \<Longrightarrow> u_email_normalized u = normalized \<Longrightarrow> Q (Inr u) d os"
    "\<And>u. u = (new_user original normalized nickname)\<lparr>u_id := db_next_user d, u_session_version := 1,
         u_created_at := db_clock d, u_updated_at := db_clock d\<rparr> \<Longrightarrow>
       schema_ok (d\<lparr>db_users := db_users d @ [u], db_next_user := db_next_user d + 1\<rparr>) \<Longrightarrow>
       Q (Inr u) (d\<lparr>db_users := db_users d @ [u], db_next_user := db_next_user d + 1\<rparr>) os"
  shows "wpf f (find_or_create_user E normalized original nickname) Q d os"
  unfolding find_or_create_user_def CreateUser_def User_Create_def insert_user_def Let_def
  by (cases "checkEmailDomainAllowed (en_url_lib E) (en_email_policy E) (u_email_normalized (new_user original normalized nickname))")
     (auto intro!: wp_intros assms)

lemma sync_profile:
  assumes "u0 \<in> set (db_users d1)" "u_id u0 = uid" "u_email_normalized u0 = normalized"
    "u_status u0 = UserStatusActive"
    "case actor of None \<Rightarrow> u_role u0 = RoleUser
       | Some a \<Rightarrow> uid = a \<and> WidgetRoleAllowed (pol_mode pol) (u_role u0)"
    and kept: "accounts_kept uid d d1" and rest: "same_rest d d1" "db_threads d1 = db_threads d"
    and d2: "d2 = snd (update_users (\<lambda>u. u_id u = uid)
       (\<lambda>u. u\<lparr>u_nickname := nickname, u_website_url := website\<rparr>) d1)"
  shows "author_ok pol normalized nickname actor uid d2" "accounts_kept uid d d2" "same_rest d d2"
    "db_threads d2 = db_threads d"
proof -
  let ?g = "\<lambda>u. if u_id u = uid then u\<lparr>u_nickname := nickname, u_website_url := website,
      u_updated_at := db_clock d1\<rparr> else u"
  have users: "db_users d2 = map ?g (db_users d1)"
    by (simp add: d2 update_users_def update_where_def)
  show "author_ok pol normalized nickname actor uid d2"
    unfolding author_ok_def users
    using assms(1-5) by (intro bexI [of _ "?g u0"]) (auto split: option.splits)
  have g: "same_account u (?g u)" for u by (simp add: same_account_def)
  show "accounts_kept uid d d2"
    unfolding accounts_kept_def users
  proof (intro conjI ballI)
    fix u assume "u \<in> set (db_users d)"
    with kept obtain u' where u': "u' \<in> set (db_users d1)" "same_account u u'" "u_id u = uid \<or> u' = u"
      unfolding accounts_kept_def by blast
    then have "?g u' \<in> set (map ?g (db_users d1))" by simp
    moreover have "same_account u (?g u')" using u'(2) g [of u'] by (simp add: same_account_def)
    moreover have "u_id u = uid \<or> ?g u' = u" using u'(2,3) by (auto simp: same_account_def)
    ultimately show "\<exists>u' \<in> set (map ?g (db_users d1)). same_account u u' \<and> (u_id u = uid \<or> u' = u)"
      by blast
  next
    fix u' assume "u' \<in> set (map ?g (db_users d1))"
    then obtain u where "u \<in> set (db_users d1)" "u' = ?g u" by (auto simp only: set_map)
    with kept show "u_id u' = uid \<or> u' \<in> set (db_users d)"
      unfolding accounts_kept_def by (cases "u_id u = uid") auto
  qed
  show "same_rest d d2" "db_threads d2 = db_threads d"
    using rest by (simp_all add: d2 update_users_def same_rest_def)
qed

definition synced :: "comment_policy \<Rightarrow> string \<Rightarrow> string \<Rightarrow> int option \<Rightarrow> int \<Rightarrow> db \<Rightarrow> db \<Rightarrow> bool" where
  "synced pol normalized nickname actor uid d d1 \<longleftrightarrow>
     author_ok pol normalized nickname actor uid d1 \<and> accounts_kept uid d d1 \<and> same_rest d d1 \<and>
     db_threads d1 = db_threads d"

definition resolved :: "comment_policy \<Rightarrow> string \<Rightarrow> int option \<Rightarrow> user \<Rightarrow> db \<Rightarrow> db \<Rightarrow> bool" where
  "resolved pol normalized actor u d d1 \<longleftrightarrow> u \<in> set (db_users d1) \<and> u_email_normalized u = normalized \<and>
     u_status u = UserStatusActive \<and>
     (case actor of None \<Rightarrow> u_role u = RoleUser
       | Some a \<Rightarrow> u_id u = a \<and> WidgetRoleAllowed (pol_mode pol) (u_role u)) \<and>
     accounts_kept (u_id u) d d1 \<and> same_rest d d1 \<and> db_threads d1 = db_threads d"

lemma syncAuthor_wp [wp_intros]:
  assumes "resolved pol normalized actor u d d1" "\<And>e d'. Q (Inl e) d' os"
    "\<And>uid d2. schema_ok d2 \<Longrightarrow> synced pol normalized nickname actor uid d d2 \<Longrightarrow> Q (Inr uid) d2 os"
  shows "wpf f (syncAuthor E nickname op u) Q d1 os"
proof -
  from assms(1) have "u \<in> set (db_users d1)" "u_email_normalized u = normalized"
    "u_status u = UserStatusActive"
    "case actor of None \<Rightarrow> u_role u = RoleUser
       | Some a \<Rightarrow> u_id u = a \<and> WidgetRoleAllowed (pol_mode pol) (u_role u)"
    "accounts_kept (u_id u) d d1" "same_rest d d1" "db_threads d1 = db_threads d"
    by (simp_all add: resolved_def)
  from sync_profile [OF this(1) refl this(2-7) refl] show ?thesis
    unfolding syncAuthor_def UpdateUserProfile_def UpdateProfile_def
    by (cases "applyWebsiteOperation (en_url_lib E) (u_website_url u) op")
       (auto intro!: wp_intros assms(2,3) simp: synced_def)
qed

lemma resolved_new:
  assumes "u = (new_user original normalized nickname)\<lparr>u_id := db_next_user d, u_session_version := 1,
         u_created_at := db_clock d, u_updated_at := db_clock d\<rparr>"
  shows "resolved pol normalized None u d
     (d\<lparr>db_users := db_users d @ [u], db_next_user := db_next_user d + 1\<rparr>)"
  using assms
  by (auto simp: resolved_def new_user_def accounts_kept_def same_account_def same_rest_def)

lemma resolved_old:
  assumes "u \<in> set (db_users d)" "u_email_normalized u = normalized" "u_status u = UserStatusActive"
    "case actor of None \<Rightarrow> u_role u = RoleUser
       | Some a \<Rightarrow> u_id u = a \<and> WidgetRoleAllowed (pol_mode pol) (u_role u)"
  shows "resolved pol normalized actor u d d"
  using assms by (auto simp: resolved_def accounts_kept_def same_account_def same_rest_def)

lemma role_not_admin: "r \<noteq> RoleAdmin \<Longrightarrow> r = RoleUser"
  by (cases r) simp_all

lemma resolveActor_wp:
  assumes err: "\<And>e d'. Q (Inl e) d' os"
    and fin: "\<And>u d1. resolved pol normalized actor u d d1 \<Longrightarrow> Q (Inr u) d1 os"
  shows "wpf f (resolveActor E pol normalized original nickname actor) Q d os"
  unfolding resolveActor_def
proof (cases actor)
  case (Some a)
  then show "wpf f (case actor of
        Some uid \<Rightarrow> bind (FindByID uid) (\<lambda>u.
               if u_email_normalized u \<noteq> normalized then fail ErrInvalidCredentials
               else if u_status u \<noteq> UserStatusActive \<or> \<not> WidgetRoleAllowed (pol_mode pol) (u_role u)
               then fail ErrInvalidCredentials
               else ret u)
        | None \<Rightarrow> bind (find_or_create_user E normalized original nickname) (\<lambda>u.
               if u_role u = RoleAdmin then fail ErrAuthorizationRequired
               else if u_status u \<noteq> UserStatusActive then fail ErrInvalidCredentials
               else ret u)) Q d os"
    by (auto intro!: wp_intros err fin resolved_old)
next
  case None
  then show "wpf f (case actor of
        Some uid \<Rightarrow> bind (FindByID uid) (\<lambda>u.
               if u_email_normalized u \<noteq> normalized then fail ErrInvalidCredentials
               else if u_status u \<noteq> UserStatusActive \<or> \<not> WidgetRoleAllowed (pol_mode pol) (u_role u)
               then fail ErrInvalidCredentials
               else ret u)
        | None \<Rightarrow> bind (find_or_create_user E normalized original nickname) (\<lambda>u.
               if u_role u = RoleAdmin then fail ErrAuthorizationRequired
               else if u_status u \<noteq> UserStatusActive then fail ErrInvalidCredentials
               else ret u)) Q d os"
    by (auto intro!: wp_intros find_or_create_wp err fin resolved_new resolved_old role_not_admin)
qed

lemma resolve_wp [wp_intros]:
  assumes "\<And>e d'. Q (Inl e) d' os"
    "\<And>uid d1. schema_ok d1 \<Longrightarrow> synced pol normalized nickname actor uid d d1 \<Longrightarrow> Q (Inr uid) d1 os"
  shows "wpf f (resolveAndSyncActor E pol normalized original nickname op actor) Q d os"
  unfolding resolveAndSyncActor_def
  by (rule wp_bind, rule resolveActor_wp) (auto intro!: syncAuthor_wp assms)


section \<open>The comment\<close>

text \<open>A comment in its place: top level, or one level below a published parent of the same page.\<close>

definition placed :: "comment_policy \<Rightarrow> int option \<Rightarrow> db \<Rightarrow> comment \<Rightarrow> bool" where
  "placed pol parent_id d c \<longleftrightarrow> c_parent_id c = parent_id \<and>
     (case parent_id of
        None \<Rightarrow> c_root_id c = None \<and> c_reply_to_user_id c = None \<and> c_depth c = 0
      | Some pid \<Rightarrow> (\<exists>p \<in> set (db_comments d). the_comment (c_site_id c) pid p \<and>
          c_thread_id p = c_thread_id c \<and> c_status p = CommentStatusPublished \<and>
          c_depth p < pol_max_reply_depth pol \<and> c_depth c = c_depth p + 1 \<and>
          c_reply_to_user_id c = Some (c_user_id p) \<and>
          c_root_id c = Some (case c_root_id p of Some r \<Rightarrow> r | None \<Rightarrow> pid)))"

definition new_comment_ok ::
  "env \<Rightarrow> comment_policy \<Rightarrow> int option \<Rightarrow> string \<Rightarrow> int \<Rightarrow> int \<Rightarrow> int \<Rightarrow> db \<Rightarrow> comment \<Rightarrow> bool" where
  "new_comment_ok E pol parent_id body sid tid uid d c \<longleftrightarrow>
     c_id c = db_next_comment d \<and> c_site_id c = sid \<and> c_thread_id c = tid \<and> c_user_id c = uid \<and>
     c_body_markdown c = body \<and> placed pol parent_id d c \<and> c_status c \<noteq> CommentStatusDeleted \<and>
     c_status_before_delete c = None \<and> c_deleted_at c = None \<and> \<not> c_is_pinned c \<and>
     c_created_at c = en_now E \<and> c_published_at c = (if c_status c = CommentStatusPublished then Some (en_now E) else None)"

definition add_comment :: "comment \<Rightarrow> db \<Rightarrow> db" where
  "add_comment c d = d\<lparr>db_comments := db_comments d @ [c], db_next_comment := db_next_comment d + 1\<rparr>"

lemma find_site_comment:
  "select_first (the_comment sid cid) rows = Some c \<Longrightarrow> c \<in> set rows \<and> the_comment sid cid c"
  by (rule select_first_Some)

lemma replyPosition_wp [wp_intros]:
  assumes "\<And>e. Q (Inl e) d os"
    "parent_id = None \<Longrightarrow> Q (Inr (None, None, None, 0)) d os"
    "\<And>pid p. parent_id = Some pid \<Longrightarrow> p \<in> set (db_comments d) \<Longrightarrow> the_comment sid pid p \<Longrightarrow>
       c_thread_id p = tid \<Longrightarrow> c_status p = CommentStatusPublished \<Longrightarrow>
       c_depth p < pol_max_reply_depth pol \<Longrightarrow>
       Q (Inr (Some pid, Some (case c_root_id p of Some r \<Rightarrow> r | None \<Rightarrow> c_id p),
               Some (c_user_id p), c_depth p + 1)) d os"
  shows "wpf f (replyPosition pol sid tid parent_id) Q d os"
  unfolding replyPosition_def FindBySiteAndIDLocked_def
  using assms by (cases parent_id) (auto intro!: wp_intros dest!: find_site_comment)

lemma createComment_wp:
  assumes err: "\<And>e. Q (Inl e) d os"
    and status: "status \<noteq> CommentStatusDeleted"
    and fin: "\<And>c. new_comment_ok E pol parent_id body sid tid uid d c \<Longrightarrow> c_status c = status \<Longrightarrow>
       schema_ok (add_comment c d) \<Longrightarrow> Q (Inr c) (add_comment c d) os"
  shows "wpf f (createComment E pol sid tid uid parent_id body ip raw_ua status) Q d os"
proof (cases "capturePrivacy E (pol_privacy pol) ip raw_ua")
  case (Inl e)
  then show ?thesis
    unfolding createComment_def by (auto intro!: wp_intros err)
next
  case (Inr r)
  obtain ip_value ua where r: "r = (ip_value, ua)" by (cases r)
  show ?thesis
    unfolding createComment_def Comment_Create_def insert_comment_def Let_def Inr r sum.case
    apply (rule wp_bind, rule replyPosition_wp)
      apply (simp add: err)
     apply (auto intro!: wp_intros err fin [unfolded add_comment_def] status
        simp: new_comment_ok_def placed_def add_comment_def the_comment_def split: option.splits)
       apply (rule bexI [rotated], assumption, simp)+
    done
qed


section \<open>The handlers\<close>

text \<open>What an accepted comment adds to the rows, whichever handler wrote it.\<close>

definition accepted ::
  "env \<Rightarrow> comment_policy \<Rightarrow> int option \<Rightarrow> string \<Rightarrow> int \<Rightarrow> db \<Rightarrow> db \<Rightarrow> comment \<Rightarrow> bool" where
  "accepted E pol parent_id body sid d d' c \<longleftrightarrow>
     db_comments d' = db_comments d @ [c] \<and> db_likes d' = db_likes d \<and> db_sites d' = db_sites d \<and>
     new_comment_ok E pol parent_id body sid (c_thread_id c) (c_user_id c) d c \<and>
     (\<exists>t \<in> set (db_threads d'). the_thread sid (c_thread_id c) t \<and> t_comments_enabled t) \<and>
     accounts_kept (c_user_id c) d d' \<and> schema_ok d'"

text \<open>What a request about a page leaves of the pages: the others as they are, and its own up to the metadata.\<close>

definition threads_kept :: "int \<Rightarrow> string \<Rightarrow> db \<Rightarrow> db \<Rightarrow> bool" where
  "threads_kept sid key d d' \<longleftrightarrow>
     (\<forall>t \<in> set (db_threads d). \<exists>t' \<in> set (db_threads d'). t_id t' = t_id t \<and> t_site_id t' = t_site_id t \<and>
        t_page_key t' = t_page_key t \<and> t_comments_enabled t' = t_comments_enabled t \<and> t_created_at t' = t_created_at t \<and>
        (thread_of_page sid key t \<or> t' = t)) \<and>
     (\<forall>t' \<in> set (db_threads d'). thread_of_page sid key t' \<or> t' \<in> set (db_threads d))"

lemma threads_kept_upsert: "threads_kept sid key d (snd (upsert_thread sid key url title d))"
proof (cases "\<exists>t \<in> set (db_threads d). thread_of_page sid key t")
  case True
  let ?g = "\<lambda>t. if thread_of_page sid key t then t\<lparr>t_page_url := set_if_given url (t_page_url t),
      t_page_title := set_if_given title (t_page_title t), t_updated_at := db_clock d\<rparr> else t"
  have rows: "db_threads (snd (upsert_thread sid key url title d)) = map ?g (db_threads d)"
    using True by (simp add: upsert_thread_def update_threads_def update_where_def)
  show ?thesis
    unfolding threads_kept_def rows set_map
  proof (intro conjI ballI)
    fix t assume "t \<in> set (db_threads d)"
    then show "\<exists>t' \<in> ?g ` set (db_threads d). t_id t' = t_id t \<and> t_site_id t' = t_site_id t \<and>
        t_page_key t' = t_page_key t \<and> t_comments_enabled t' = t_comments_enabled t \<and> t_created_at t' = t_created_at t \<and>
        (thread_of_page sid key t \<or> t' = t)"
      by (intro bexI [of _ "?g t"] imageI) simp_all
  next
    fix t' assume "t' \<in> ?g ` set (db_threads d)"
    then show "thread_of_page sid key t' \<or> t' \<in> set (db_threads d)"
      by (auto simp: thread_of_page_def)
  qed
next
  case False
  then show ?thesis
    by (auto simp: threads_kept_def upsert_thread_def thread_of_page_def)
qed

lemma ResolveOrCreate_wp [wp_intros]:
  assumes "\<And>e d'. Q (Inl e) d' os"
    "\<And>t d'. schema_ok d' \<Longrightarrow> t \<in> set (db_threads d') \<Longrightarrow> thread_of_page sid key t \<Longrightarrow>
       same_rest d d' \<Longrightarrow> db_users d' = db_users d \<Longrightarrow> threads_kept sid key d d' \<Longrightarrow> Q (Inr t) d' os"
  shows "wpf f (ResolveOrCreate sid key url title) Q d os"
proof -
  let ?d = "snd (upsert_thread sid key url title d)"
  have "same_rest d ?d" "db_users ?d = db_users d"
    by (simp_all add: upsert_thread_def update_threads_def same_rest_def)
  note rest = this
  show ?thesis
  proof (cases "select_first (thread_of_page sid key) (db_threads ?d)")
    case None
    then show ?thesis
      unfolding ResolveOrCreate_def Let_def by (auto intro!: wp_intros assms(1))
  next
    case (Some t)
    with select_first_Some [OF Some] rest show ?thesis
      unfolding ResolveOrCreate_def Let_def by (auto intro!: wp_intros assms threads_kept_upsert)
  qed
qed

lemma page_unique:
  assumes "schema_ok d" "t \<in> set (db_threads d)" "t' \<in> set (db_threads d)"
    "thread_of_page sid key t" "thread_of_page sid key t'"
  shows "t = t'"
proof -
  have "distinct (map (\<lambda>t. (t_site_id t, t_page_key t)) (db_threads d))"
    using assms(1) by (simp add: schema_ok_def uniques_ok_def)
  from distinct_key_unique [OF this assms(2,3)] show ?thesis
    using assms(4,5) by (simp add: thread_of_page_def)
qed

lemma accepted_add:
  assumes "new_comment_ok E pol parent_id body sid tid uid d1 c" "schema_ok (add_comment c d1)"
    "t \<in> set (db_threads d1)" "the_thread sid tid t" "t_comments_enabled t"
    "same_rest d d1" "accounts_kept uid d d1"
  shows "accepted E pol parent_id body sid d (add_comment c d1) c"
  using assms
  by (auto simp: accepted_def add_comment_def new_comment_ok_def placed_def same_rest_def
      accounts_kept_def split: option.splits)

text \<open>The comment stands under the page that was asked for, and nothing else of the database has changed but that
  page's metadata and the accounts, of which \<open>accepted\<close> speaks.\<close>

definition on_page :: "int \<Rightarrow> string \<Rightarrow> comment \<Rightarrow> db \<Rightarrow> db \<Rightarrow> bool" where
  "on_page sid key c d d' \<longleftrightarrow>
     (\<exists>t \<in> set (db_threads d'). t_id t = c_thread_id c \<and> thread_of_page sid key t \<and> t_comments_enabled t) \<and>
     threads_kept sid key d d' \<and> db_origins d' = db_origins d \<and> db_accounts d' = db_accounts d \<and>
     db_clock d' = db_clock d \<and> db_next_site d' = db_next_site d \<and> db_next_origin d' = db_next_origin d \<and>
     db_next_like d' = db_next_like d"

lemma createTx_wp:
  assumes err: "\<And>e d'. Q (Inl e) d' os" and status: "status \<noteq> CommentStatusDeleted"
    and fin: "\<And>c d'. accepted E pol (ci_parent_id input) (ci_body input) (ci_site_id input) d d' c \<Longrightarrow>
       on_page (ci_site_id input) (ci_page_key input) c d d' \<Longrightarrow>
       c_status c = status \<Longrightarrow> author_ok pol normalized nickname actor (c_user_id c) d' \<Longrightarrow>
       Q (Inr c) d' os"
  shows "wpf f (createTx E pol input normalized original nickname actor status) Q d os"
  unfolding createTx_def
proof (rule wp_bind, rule ResolveOrCreate_wp, goal_cases)
  case (1 e d')
  then show ?case by (simp add: err)
next
  case (2 t d1)
  have step: "wpf f (createComment E pol (ci_site_id input) (t_id t) uid (ci_parent_id input)
       (ci_body input) (ci_ip input) (ci_ua input) status) Q d2 os"
    if "synced pol normalized nickname actor uid d1 d2" "t_comments_enabled t" for uid d2
  proof (rule createComment_wp)
    show "Q (Inl e) d2 os" for e by (rule err)
    show "status \<noteq> CommentStatusDeleted" by (rule status)
  next
    fix c
    assume c: "new_comment_ok E pol (ci_parent_id input) (ci_body input) (ci_site_id input) (t_id t) uid d2 c"
      "c_status c = status" "schema_ok (add_comment c d2)"
    have "t \<in> set (db_threads d2)" "the_thread (ci_site_id input) (t_id t) t"
      using 2 that by (simp_all add: synced_def thread_of_page_def the_thread_def)
    moreover have "same_rest d d2" "accounts_kept uid d d2"
      using 2 that by (simp_all add: synced_def same_rest_def accounts_kept_def)
    ultimately have "accepted E pol (ci_parent_id input) (ci_body input) (ci_site_id input) d (add_comment c d2) c"
      using c that(2) by (intro accepted_add)
    moreover have "author_ok pol normalized nickname actor (c_user_id c) (add_comment c d2)"
      using that(1) c(1) by (simp add: synced_def author_ok_def add_comment_def new_comment_ok_def)
    moreover have "on_page (ci_site_id input) (ci_page_key input) c d (add_comment c d2)"
      using 2 that c(1)
      by (auto simp: on_page_def synced_def add_comment_def new_comment_ok_def same_rest_def threads_kept_def)
    ultimately show "Q (Inr c) (add_comment c d2) os" using fin c(2) by blast
  qed
  have same: "t' = t" if "t' \<in> set (db_threads d1)" "thread_of_page (ci_site_id input) (ci_page_key input) t'" for t'
    using page_unique [OF 2(1) that(1) 2(2) that(2) 2(3)] .
  show ?case
    by (auto intro!: wp_intros err step) (metis same)
qed


text \<open>What the checks before the transaction let through.\<close>

definition actor_allowed :: "env \<Rightarrow> comment_policy \<Rightarrow> create_input \<Rightarrow> string \<Rightarrow> int option \<Rightarrow> db \<Rightarrow> bool" where
  "actor_allowed E pol input normalized actor d \<longleftrightarrow>
     (case ci_credential input of
        Some cred \<Rightarrow> actor = Some (wc_user_id cred) \<and> wc_epoch cred = pol_epoch pol \<and>
          wc_site_id cred = ci_site_id input \<and>
          (\<exists>p. en_principal E (wc_user_id cred) = Inr p \<and> p_status p = UserStatusActive \<and>
             WidgetRoleAllowed (pol_mode pol) (p_role p))
      | None \<Rightarrow> actor = None \<and> pol_mode pol = CommentModeAnonymous \<and>
          (\<forall>u \<in> set (db_users d). u_email_normalized u = normalized \<longrightarrow>
             u_role u = RoleUser \<and> u_status u = UserStatusActive))"

lemma email_found:
  "select_first (\<lambda>u. u_email_normalized u = em) (db_users d) = Some u \<Longrightarrow> schema_ok d \<Longrightarrow>
     u' \<in> set (db_users d) \<Longrightarrow> u_email_normalized u' = em \<Longrightarrow> u' = u"
  using distinct_key_unique [of u_email_normalized "db_users d"]
  by (auto dest!: select_first_Some simp: schema_ok_def uniques_ok_def)

lemma checkActor_wp:
  assumes ok: "schema_ok d" and err: "\<And>e. Q (Inl e) d os"
    and fin: "\<And>is_admin website actor. actor_allowed E pol input normalized actor d \<Longrightarrow>
       Q (Inr (is_admin, website, actor)) d os"
  shows "wpf f (checkActor E pol input normalized) Q d os"
proof (cases "ci_credential input")
  case (Some cred)
  then show ?thesis
    unfolding checkActor_def
    by (cases "en_principal E (wc_user_id cred)")
       (auto intro!: wp_intros err fin simp: actor_allowed_def)
next
  case None
  have allowed: "actor_allowed E pol input normalized None d"
    if "pol_mode pol = CommentModeAnonymous"
      "\<forall>u \<in> set (db_users d). u_email_normalized u = normalized \<longrightarrow> u_role u = RoleUser \<and> u_status u = UserStatusActive"
    using None that by (simp add: actor_allowed_def)
  show ?thesis
  proof (cases "select_first (\<lambda>u. u_email_normalized u = normalized) (db_users d)")
    case missing: None
    then have "\<forall>u \<in> set (db_users d). u_email_normalized u \<noteq> normalized" by (simp add: select_first_None)
    with None missing show ?thesis
      unfolding checkActor_def FindByEmailNormalized_def
      by (auto intro!: wp_intros err fin allowed)
  next
    case (Some u)
    have only: "u' = u" if "u' \<in> set (db_users d)" "u_email_normalized u' = normalized" for u'
      by (rule email_found [OF Some ok that])
    from None Some show ?thesis
      unfolding checkActor_def FindByEmailNormalized_def
      by (auto intro!: wp_intros err fin allowed role_not_admin dest!: only)
  qed
qed

lemma Create_wp:
  assumes ok: "schema_ok d" and err: "\<And>e. Q (Inl e) d os"
    and fin: "\<And>r c d' pol original normalized nickname actor.
       en_settings E = Inr pol \<Longrightarrow> checkInput E input = Inr (original, normalized, nickname) \<Longrightarrow>
       checkCaptcha E (pol_captcha_policy pol) CommentAction (ci_captcha_token input) = Inr () \<Longrightarrow>
       actor_allowed E pol input normalized actor d \<Longrightarrow>
       site_allows d (ci_site_id input) (ci_origin input) \<Longrightarrow>
       accepted E pol (ci_parent_id input) (ci_body input) (ci_site_id input) d d' c \<Longrightarrow>
       on_page (ci_site_id input) (ci_page_key input) c d d' \<Longrightarrow>
       author_ok pol normalized nickname actor (c_user_id c) d' \<Longrightarrow>
       Q r d' (os @ [comment_event TypeCommentCreated c (pol_mode pol)])"
  shows "wpf f (Create E input) Q d os"
proof (cases "checkInput E input")
  case (Inl e)
  then show ?thesis unfolding Create_def by (auto intro!: wp_intros err)
next
  case checked: (Inr x)
  obtain original normalized nickname where x: "x = (original, normalized, nickname)" by (cases x)
  show ?thesis
  proof (cases "en_settings E")
    case (Inl e)
    then show ?thesis unfolding Create_def checked x by (auto intro!: wp_intros err)
  next
    case (Inr pol)
    note done' = fin [OF Inr checked [unfolded x]]
    have tx: "wpf f (bind (atomically ErrInfra (createTx E pol input normalized original nickname actor status))
        (\<lambda>c. bind (publishCommentCreated c (pol_mode pol)) (\<lambda>_. viewFor (en_avatar E) (en_settings E) c))) Q d os"
      if "status \<noteq> CommentStatusDeleted" "actor_allowed E pol input normalized actor d"
        "checkCaptcha E (pol_captcha_policy pol) CommentAction (ci_captcha_token input) = Inr ()"
        "site_allows d (ci_site_id input) (ci_origin input)"
      for actor status
    proof (rule wp_bind, rule wp_atomically, rule createTx_wp)
      show "status \<noteq> CommentStatusDeleted" by (rule that)
    qed (use that in \<open>auto intro!: wp_intros err done' simp: publishCommentCreated_def\<close>)
    have rest: "wpf f (bind (checkActor E pol input normalized) (\<lambda>(is_admin, website, actor).
        bind (lift (checkCaptcha E (pol_captcha_policy pol) CommentAction (ci_captcha_token input))) (\<lambda>_.
        bind (detectSpam E pol input nickname is_admin website) (\<lambda>status.
        bind (atomically ErrInfra (createTx E pol input normalized original nickname actor status)) (\<lambda>c.
        bind (publishCommentCreated c (pol_mode pol)) (\<lambda>_.
        viewFor (en_avatar E) (en_settings E) c)))))) Q d os"
      if "site_allows d (ci_site_id input) (ci_origin input)"
    proof (rule wp_bind, rule checkActor_wp [OF ok], goal_cases)
      case (1 e)
      then show ?case by (simp add: err)
    next
      case (2 is_admin website actor)
      then show ?case
        by (cases "checkCaptcha E (pol_captcha_policy pol) CommentAction (ci_captcha_token input)")
           (auto intro!: wp_basic wp_bind [of f "lift _"] detectSpam_wp [THEN wp_bind] err tx that)
    qed
    show ?thesis
      unfolding Create_def checked x
      apply (rule wp_bind, rule origin_wp)
       apply (simp add: err)
      apply (simp only: sum.case)
      apply (rule wp_bind, rule wp_basic(3))
      apply (simp only: sum.case prod.case)
      apply (rule wp_bind, rule wp_basic(3))
      apply (simp only: sum.case Inr)
      apply (rule wp_bind, rule wp_attempt, rule reads_wp(1))
      subgoal for e using rest by (cases "e = ErrNotFound") (auto intro!: wp_basic err simp: Inr bind_unit)
      subgoal for t using rest by (cases "t_comments_enabled t") (auto intro!: wp_basic err simp: Inr bind_unit)
      done
  qed
qed

text \<open>C3: writing a comment is all or nothing, in the right place, by the right author, and announced once.
  Whatever the database and the outside services answer: either nothing has changed, nothing was announced and
  the caller gets an error; or exactly one comment was appended and exactly one creation event was sent, the origin
  was one of an active site and the CAPTCHA was passed.  The comment then has the submitted text and sits at
  the top level or one level below a published comment of the same page, within the configured depth; the page is
  open and the one of the submitted key.  Its author is an active account with the submitted address and name: the
  one of the credential, which is of this site and this generation and whose role the mode allows, or without a
  credential, in the anonymous mode only, an ordinary account.  All other accounts are untouched, and of the author's only
  the name, the website and the time of change; all other pages are untouched, and of this one only the
  metadata; every other table is as it was.\<close>

theorem create_all_or_nothing:
  assumes "comment_inv (data w)" "Create E input w = (r, w')"
  shows "(data w' = data w \<and> outbox w' = outbox w \<and> isl r) \<or>
    (\<exists>c pol original normalized nickname actor.
       en_settings E = Inr pol \<and> checkInput E input = Inr (original, normalized, nickname) \<and>
       site_allows (data w) (ci_site_id input) (ci_origin input) \<and>
       checkCaptcha E (pol_captcha_policy pol) CommentAction (ci_captcha_token input) = Inr () \<and>
       actor_allowed E pol input normalized actor (data w) \<and>
       author_ok pol normalized nickname actor (c_user_id c) (data w') \<and>
       accepted E pol (ci_parent_id input) (ci_body input) (ci_site_id input) (data w) (data w') c \<and>
       on_page (ci_site_id input) (ci_page_key input) c (data w) (data w') \<and>
       outbox w' = outbox w @ [comment_event TypeCommentCreated c (pol_mode pol)])"
proof -
  have "wp (Create E input) (\<lambda>r d' os'. (d' = data w \<and> os' = outbox w \<and> isl r) \<or>
    (\<exists>c pol original normalized nickname actor.
       en_settings E = Inr pol \<and> checkInput E input = Inr (original, normalized, nickname) \<and>
       site_allows (data w) (ci_site_id input) (ci_origin input) \<and>
       checkCaptcha E (pol_captcha_policy pol) CommentAction (ci_captcha_token input) = Inr () \<and>
       actor_allowed E pol input normalized actor (data w) \<and>
       author_ok pol normalized nickname actor (c_user_id c) d' \<and>
       accepted E pol (ci_parent_id input) (ci_body input) (ci_site_id input) (data w) d' c \<and>
       on_page (ci_site_id input) (ci_page_key input) c (data w) d' \<and>
       os' = outbox w @ [comment_event TypeCommentCreated c (pol_mode pol)])) (data w) (outbox w)"
    by (rule Create_wp [OF comment_invD(1) [OF assms(1)]]) (simp, blast)
  from wpD [OF this assms(2)] show ?thesis .
qed

lemma create_all_or_nothing_witness:
  "\<exists>c. accepted sample_env sample_policy (Some 3) ''well said'' 1 sample_db
      (data (snd (Create sample_env (sample_input ''guest@example.org'') sample_world))) c \<and>
    author_ok sample_policy ''guest@example.org'' ''guest'' None (c_user_id c)
      (data (snd (Create sample_env (sample_input ''guest@example.org'') sample_world)))"
proof -
  let ?run = "Create sample_env (sample_input ''guest@example.org'') sample_world"
  have "\<not> isl (fst ?run)" by code_simp
  moreover have "en_settings sample_env = Inr sample_policy" by (simp add: sample_env_def)
  moreover have "checkInput sample_env (sample_input ''guest@example.org'') =
      Inr (''guest@example.org'', ''guest@example.org'', ''guest'')" by code_simp
  moreover have "ci_credential (sample_input ''guest@example.org'') = None" "ci_parent_id (sample_input ''guest@example.org'') = Some 3"
    "ci_body (sample_input ''guest@example.org'') = ''well said''" "ci_site_id (sample_input ''guest@example.org'') = 1"
    by (simp_all add: sample_input_def)
  ultimately show ?thesis
    using create_all_or_nothing [of sample_world sample_env "sample_input ''guest@example.org''" "fst ?run" "snd ?run"]
    by (auto simp: actor_allowed_def)
qed

text \<open>C34: nobody writes in an administrator's name.  Without a credential, a request with the address of
  an administrator (or of a disabled account) changes nothing, announces nothing and fails, whatever
  else it contains and whatever the database does; and without a credential nothing at all can
  be written unless the site is in anonymous mode.\<close>

theorem admin_address_needs_credential:
  assumes "comment_inv (data w)" "ci_credential input = None"
    "NormalizeEmail (en_url_lib E) (ci_email input) = Some (original, normalized)"
    "(\<exists>u \<in> set (db_users (data w)). u_email_normalized u = normalized \<and>
        (u_role u = RoleAdmin \<or> u_status u \<noteq> UserStatusActive)) \<or>
     (\<forall>pol. en_settings E = Inr pol \<longrightarrow> pol_mode pol \<noteq> CommentModeAnonymous)"
    "Create E input w = (r, w')"
  shows "data w' = data w \<and> outbox w' = outbox w \<and> isl r"
proof -
  have norm: "nm = normalized" if "checkInput E input = Inr (og, nm, nick)" for og nm nick
    using that assms(3) by (auto simp: checkInput_def bindE_Inr_iff Let_def split: if_splits)
  have "wp (Create E input) (\<lambda>r d' os'. d' = data w \<and> os' = outbox w \<and> isl r) (data w) (outbox w)"
  proof (rule Create_wp [OF comment_invD(1) [OF assms(1)]], goal_cases)
    case (2 r c d' pol og nm nick actor)
    from 2(4) assms(2) norm [OF 2(2)] have "pol_mode pol = CommentModeAnonymous"
      "\<forall>u \<in> set (db_users (data w)). u_email_normalized u = normalized \<longrightarrow>
         u_role u = RoleUser \<and> u_status u = UserStatusActive"
      by (simp_all add: actor_allowed_def)
    with assms(4) 2(1) show ?case by fastforce
  qed simp
  from wpD [OF this assms(5)] show ?thesis .
qed

lemma admin_address_needs_credential_witness:
  "data (snd (Create sample_env (sample_input ''root@example.org'') sample_world)) = sample_db"
proof -
  let ?run = "Create sample_env (sample_input ''root@example.org'') sample_world"
  have "NormalizeEmail (en_url_lib sample_env) ''root@example.org'' =
      Some (''root@example.org'', ''root@example.org'')"
    by code_simp
  moreover have "sample_user 1 ''root'' RoleAdmin \<in> set (db_users sample_db)"
    "u_email_normalized (sample_user 1 ''root'' RoleAdmin) = ''root@example.org''"
    "u_role (sample_user 1 ''root'' RoleAdmin) = RoleAdmin"
    by (simp_all add: sample_db_def sample_user_def)
  ultimately show ?thesis
    using admin_address_needs_credential [of sample_world "sample_input ''root@example.org''" sample_env
        "''root@example.org''" "''root@example.org''" "fst ?run" "snd ?run"]
    by (auto simp: sample_input_def)
qed

section \<open>Replies from the first-party pages\<close>

lemma global_wp:
  assumes "schema_ok d" "\<And>e. Q (Inl e) d os"
    "\<And>c. c \<in> set (db_comments d) \<Longrightarrow> c_id c = cid \<Longrightarrow> Q (Inr c) d os"
  shows "wpf f (FindGlobalByID cid) Q d os"
  unfolding FindGlobalByID_def
  using assms by (auto intro!: wp_intros simp: find_by_id)

lemma detectSpamReply_wp [wp_intros]:
  "(\<And>e. Q (Inl e) d os) \<Longrightarrow> (\<And>s. s \<noteq> CommentStatusDeleted \<Longrightarrow> Q (Inr s) d os) \<Longrightarrow>
     wpf f (detectSpamReply E pol parent actor r body ip raw_ua) Q d os"
  unfolding detectSpamReply_def
  by (auto split: option.split intro!: wp_intros)

lemma accounts_kept_refl [simp]: "accounts_kept uid d d"
  by (auto simp: accounts_kept_def same_account_def)

lemma same_rest_refl [simp]: "same_rest d d"
  by (simp add: same_rest_def)

lemma replyTx_wp:
  assumes err: "\<And>e d'. Q (Inl e) d' os" and status: "status \<noteq> CommentStatusDeleted"
    and fin: "\<And>c d'. accepted E pol (Some (c_id parent)) body (c_site_id parent) d d' c \<Longrightarrow>
       c_user_id c = actor \<Longrightarrow> c_thread_id c = c_thread_id parent \<Longrightarrow> Q (Inr c) d' os"
  shows "wpf f (replyTx E pol parent actor body ip raw_ua status) Q d os"
  unfolding replyTx_def
proof (rule wp_bind, rule reads_wp(3), goal_cases)
  case (1 e)
  then show ?case by (simp add: err)
next
  case (2 t)
  have "wpf f (createComment E pol (c_site_id parent) (c_thread_id parent) actor (Some (c_id parent)) body ip
       raw_ua status) Q d os" if "t_comments_enabled t"
  proof (rule createComment_wp)
    show "Q (Inl e) d os" for e by (rule err)
    show "status \<noteq> CommentStatusDeleted" by (rule status)
  next
    fix c
    assume c: "new_comment_ok E pol (Some (c_id parent)) body (c_site_id parent) (c_thread_id parent) actor d c"
      "schema_ok (add_comment c d)"
    from c 2 that have "accepted E pol (Some (c_id parent)) body (c_site_id parent) d (add_comment c d) c"
      by (intro accepted_add) (simp_all add: the_thread_def)
    with c(1) show "Q (Inr c) (add_comment c d) os" by (intro fin) (simp_all add: new_comment_ok_def)
  qed
  then show ?case by (auto intro!: wp_intros err)
qed

lemma reply_wp:
  assumes ok: "schema_ok d" and err: "\<And>e. Q (Inl e) d os"
    and fin: "\<And>r' c d' pol. en_settings E = Inr pol \<Longrightarrow>
       pol_mode pol = CommentModeAuthenticated \<or> r = RoleAdmin \<Longrightarrow>
       checkCaptcha E (pol_captcha_policy pol) CommentAction token = Inr () \<Longrightarrow>
       validateBody (en_lib E) body = Inr () \<Longrightarrow>
       accepted E pol (Some parent_id) body (c_site_id c) d d' c \<Longrightarrow> c_user_id c = actor \<Longrightarrow>
       Q r' d' (os @ [comment_event TypeCommentCreated c (pol_mode pol)])"
  shows "wpf f (CreateReplyFirstParty E actor r parent_id body token ip raw_ua) Q d os"
proof (cases "validateBody (en_lib E) body")
  case (Inl e)
  then show ?thesis unfolding CreateReplyFirstParty_def by (auto intro!: wp_intros err)
next
  case body: (Inr u)
  show ?thesis
  proof (cases "en_settings E")
    case (Inl e)
    then show ?thesis unfolding CreateReplyFirstParty_def body by (auto intro!: wp_intros err)
  next
    case (Inr pol)
    have tx: "wpf f (bind (atomically ErrInfra (replyTx E pol parent actor body ip raw_ua status))
        (\<lambda>c. bind (publishCommentCreated c m) (\<lambda>_. viewFor (en_avatar E) (Inr pol) c))) Q d os"
      if "status \<noteq> CommentStatusDeleted" "pol_mode pol = CommentModeAuthenticated \<or> r = RoleAdmin"
        "checkCaptcha E (pol_captcha_policy pol) CommentAction token = Inr ()" "c_id parent = parent_id"
        "pol_mode pol = m"
      for parent status m
      unfolding that(5) [symmetric]
    proof (rule wp_bind, rule wp_atomically, rule replyTx_wp)
      show "status \<noteq> CommentStatusDeleted" by (rule that)
    next
      fix c d'
      assume "accepted E pol (Some (c_id parent)) body (c_site_id parent) d d' c" "c_user_id c = actor"
      moreover from this(1) have "c_site_id c = c_site_id parent"
        by (simp add: accepted_def new_comment_ok_def)
      ultimately have "Q r' d' (os @ [comment_event TypeCommentCreated c (pol_mode pol)])" for r'
        using fin [OF Inr that(2,3)] body that(4) by simp
      then show "case Inr c of Inl e \<Rightarrow> (case Inl e of Inl e \<Rightarrow> Q (Inl e) d os
          | Inr c \<Rightarrow> wpf f (bind (publishCommentCreated c (pol_mode pol)) (\<lambda>_. viewFor (en_avatar E) (Inr pol) c)) Q d os)
        | Inr x \<Rightarrow> (case Inr x of Inl e \<Rightarrow> Q (Inl e) d' os
          | Inr c \<Rightarrow> wpf f (bind (publishCommentCreated c (pol_mode pol)) (\<lambda>_. viewFor (en_avatar E) (Inr pol) c)) Q d' os) \<and>
          (f \<longrightarrow> (case Inl ErrInfra of Inl e \<Rightarrow> Q (Inl e) d os
          | Inr c \<Rightarrow> wpf f (bind (publishCommentCreated c (pol_mode pol)) (\<lambda>_. viewFor (en_avatar E) (Inr pol) c)) Q d os))"
        by (auto intro!: wp_intros err simp: publishCommentCreated_def)
    qed (use err in simp)
    show ?thesis
    proof (cases "checkCaptcha E (pol_captcha_policy pol) CommentAction token")
      case (Inl e)
      then show ?thesis
        unfolding CreateReplyFirstParty_def body \<open>en_settings E = Inr pol\<close>
        by (auto intro!: wp_intros err)
    next
      case captcha: (Inr v)
      show ?thesis
        unfolding CreateReplyFirstParty_def body \<open>en_settings E = Inr pol\<close> captcha
        by (rule wp_bind, rule wp_basic, simp only: sum.case)+
          (auto intro!: wp_basic err wp_bind [OF detectSpamReply_wp] tx [where m = "pol_mode pol"] tx ok
            wp_bind [OF wp_attempt [OF global_wp]] wp_bind [OF wp_basic(3)] simp: captcha)
    qed
  qed
qed

text \<open>A reply written from the first-party pages is all or nothing.  Either nothing is written and
  nothing is announced, or exactly one comment of the signed-in account is added one level below the
  published parent it names, in the parent's thread, which is open, and it is announced once; the
  latter only for administrators or in the authenticated mode, and with the CAPTCHA passed.\<close>

lemma first_party_reply_all_or_nothing:
  assumes "comment_inv (data w)"
    "CreateReplyFirstParty E actor r parent_id body token ip raw_ua w = (res, w')"
  shows "(data w' = data w \<and> outbox w' = outbox w \<and> isl res) \<or>
    (\<exists>c pol. en_settings E = Inr pol \<and> (pol_mode pol = CommentModeAuthenticated \<or> r = RoleAdmin) \<and>
       checkCaptcha E (pol_captcha_policy pol) CommentAction token = Inr () \<and>
       accepted E pol (Some parent_id) body (c_site_id c) (data w) (data w') c \<and> c_user_id c = actor \<and>
       outbox w' = outbox w @ [comment_event TypeCommentCreated c (pol_mode pol)])"
proof -
  have "wp (CreateReplyFirstParty E actor r parent_id body token ip raw_ua)
    (\<lambda>res d' os'. (d' = data w \<and> os' = outbox w \<and> isl res) \<or>
      (\<exists>c pol. en_settings E = Inr pol \<and> (pol_mode pol = CommentModeAuthenticated \<or> r = RoleAdmin) \<and>
       checkCaptcha E (pol_captcha_policy pol) CommentAction token = Inr () \<and>
       accepted E pol (Some parent_id) body (c_site_id c) (data w) d' c \<and> c_user_id c = actor \<and>
       os' = outbox w @ [comment_event TypeCommentCreated c (pol_mode pol)])) (data w) (outbox w)"
    by (rule reply_wp [OF comment_invD(1) [OF assms(1)]]) auto
  from wpD [OF this assms(2)] show ?thesis .
qed

lemma first_party_reply_all_or_nothing_witness:
  "\<exists>c. accepted sample_env sample_policy (Some 3) ''indeed'' 1 sample_db
      (data (snd (CreateReplyFirstParty sample_env 1 RoleAdmin 3 ''indeed'' '''' None ''ua'' sample_world))) c \<and>
    c_user_id c = 1"
proof -
  let ?run = "CreateReplyFirstParty sample_env 1 RoleAdmin 3 ''indeed'' '''' None ''ua'' sample_world"
  have ok: "\<not> isl (fst ?run)" by code_simp
  have one: "c_site_id c = 1" if "accepted sample_env pol (Some 3) ''indeed'' (c_site_id c) sample_db d' c"
    for pol d' c
  proof -
    from that obtain p where "p \<in> set (db_comments sample_db)" "the_comment (c_site_id c) 3 p"
      by (auto simp: accepted_def new_comment_ok_def placed_def)
    then show ?thesis by (auto simp: sample_db_def sample_comment_def the_comment_def)
  qed
  have "en_settings sample_env = Inr sample_policy" by (simp add: sample_env_def)
  then obtain c where "accepted sample_env sample_policy (Some 3) ''indeed'' (c_site_id c) sample_db
      (data (snd ?run)) c" "c_user_id c = 1"
    using first_party_reply_all_or_nothing [of sample_world sample_env 1 RoleAdmin 3 "''indeed''" "''''" None
        "''ua''" "fst ?run" "snd ?run"] ok
    by auto
  with one [OF this(1)] show ?thesis by auto
qed

section \<open>The invariant\<close>

lemma accepted_inv:
  assumes inv: "comment_inv d" and acc: "accepted E pol parent_id body sid d d' c"
  shows "comment_inv d'"
proof -
  have cs: "db_comments d' = db_comments d @ [c]" and ok: "schema_ok d'"
    and new: "new_comment_ok E pol parent_id body sid (c_thread_id c) (c_user_id c) d c"
    using acc by (simp_all add: accepted_def)
  have life: "life_ok c" using new by (auto simp: new_comment_ok_def life_ok_def)
  have place: "placed pol parent_id d c" using new by (simp add: new_comment_ok_def)
  have old: "parent_ok (db_comments d) b \<and> root_ok (db_comments d) b" if "b \<in> set (db_comments d)" for b
    using inv that by (simp add: comment_inv_def tree_inv_def)
  have more: "parent_ok (db_comments d') b \<and> root_ok (db_comments d') b"
    if "parent_ok (db_comments d) b \<and> root_ok (db_comments d) b" for b
    using that unfolding cs parent_ok_iff root_ok_iff by fastforce
  have "parent_ok (db_comments d) c \<and> root_ok (db_comments d) c"
  proof (cases parent_id)
    case None
    with place show ?thesis by (simp add: placed_def parent_ok_iff root_ok_iff)
  next
    case (Some pid)
    with place obtain p where p: "p \<in> set (db_comments d)" "the_comment (c_site_id c) pid p"
      "c_thread_id p = c_thread_id c" "c_depth c = c_depth p + 1" "c_parent_id c = Some pid"
      "c_root_id c = Some (case c_root_id p of Some r \<Rightarrow> r | None \<Rightarrow> pid)"
      by (auto simp: placed_def)
    have "root_ok (db_comments d) c"
    proof (cases "c_root_id p")
      case None
      with p show ?thesis by (force simp: root_ok_iff)
    next
      case (Some r)
      from old [OF p(1)] Some p(2,3) obtain q where "q \<in> set (db_comments d)" "the_comment (c_site_id c) r q"
        "c_thread_id q = c_thread_id c" "c_depth q < c_depth p"
        by (auto simp: root_ok_iff the_comment_def)
      with p Some show ?thesis by (force simp: root_ok_iff)
    qed
    with p show ?thesis by (force simp: parent_ok_iff)
  qed
  with old more life inv ok show ?thesis
    by (auto simp: comment_inv_def life_inv_def tree_inv_def cs)
qed

lemma preserves_Create [preserves_intros]: "preserves comment_inv (Create E input)"
proof (rule preserves_wp)
  fix d os
  assume inv: "comment_inv d"
  show "wp (Create E input) (\<lambda>r d' os'. comment_inv d') d os"
    by (rule Create_wp [OF comment_invD(1) [OF inv]]) (auto intro: inv accepted_inv)
qed

lemma preserves_reply [preserves_intros]:
  "preserves comment_inv (CreateReplyFirstParty E actor r parent_id body token ip raw_ua)"
proof (rule preserves_wp)
  fix d os
  assume inv: "comment_inv d"
  show "wp (CreateReplyFirstParty E actor r parent_id body token ip raw_ua) (\<lambda>r d' os'. comment_inv d') d os"
    by (rule reply_wp [OF comment_invD(1) [OF inv]]) (auto intro: inv accepted_inv)
qed

end
