(* ===== verification/Keyword.thy ===== *)
theory Keyword
  imports Prelude "HOL-Library.Sublist" "HOL-Library.Multiset"
begin

text \<open>
  The multi-pattern automaton of the local keyword list (\<open>internal/platform/spam/local.go\<close>,
  \<open>buildAC\<close> and \<open>contains\<close>).  The nodes live in a heap, a list indexed by their addresses with the
  root at 0; a nil pointer is \<open>None\<close>.  A map from runes to nodes is an association list without
  repeated keys, and the order in which \<open>range\<close> visits one is the argument \<open>ord\<close>, any permutation.
  The loops are partial functions: a loop that does not end, or a nil pointer that is followed, has
  no result.  The section on correctness shows that neither happens and that the answer is the one
  of the naive search.
\<close>

type_synonym rune = nat

record ac_node =
  ac_next :: "(rune \<times> nat) list"
  ac_fail :: "nat option"
  ac_terminal :: bool

type_synonym ac_heap = "ac_node list"

record ac_machine =
  ac_nodes :: ac_heap
  ac_pattern_count :: nat

type_synonym map_order = "nat \<Rightarrow> (rune \<times> nat) list \<Rightarrow> (rune \<times> nat) list"

definition permutes :: "map_order \<Rightarrow> bool" where
  "permutes ord \<longleftrightarrow> (\<forall>a es. mset (ord a es) = mset es)"

section \<open>The trie\<close>

definition new_node :: ac_node where
  "new_node = \<lparr>ac_next = [], ac_fail = None, ac_terminal = False\<rparr>"

definition add_next :: "ac_heap \<Rightarrow> nat \<Rightarrow> rune \<Rightarrow> ac_heap" where
  "add_next h a r = h[a := (h ! a)\<lparr>ac_next := ac_next (h ! a) @ [(r, length h)]\<rparr>] @ [new_node]"

fun insert_runes :: "ac_heap \<Rightarrow> nat \<Rightarrow> rune list \<Rightarrow> ac_heap \<times> nat" where
  "insert_runes h a [] = (h, a)"
| "insert_runes h a (r # rs) =
     (case map_of (ac_next (h ! a)) r of
        Some b \<Rightarrow> insert_runes h b rs
      | None \<Rightarrow> insert_runes (add_next h a r) (length h) rs)"

definition mark :: "ac_heap \<Rightarrow> nat \<Rightarrow> ac_heap" where
  "mark h a = h[a := (h ! a)\<lparr>ac_terminal := True\<rparr>]"

definition insert_pattern :: "ac_heap \<Rightarrow> rune list \<Rightarrow> ac_heap" where
  "insert_pattern h p = (if p = [] then h else (case insert_runes h 0 p of (h', a) \<Rightarrow> mark h' a))"

definition build_trie :: "rune list list \<Rightarrow> ac_heap" where
  "build_trie patterns = foldl insert_pattern [new_node] patterns"

section \<open>The failure links\<close>

definition set_fail :: "ac_heap \<Rightarrow> nat \<Rightarrow> nat \<Rightarrow> ac_heap" where
  "set_fail h a f = h[a := (h ! a)\<lparr>ac_fail := Some f\<rparr>]"

partial_function (option) find_fail :: "ac_heap \<Rightarrow> rune \<Rightarrow> nat option \<Rightarrow> nat option option" where
  "find_fail h r f =
     (case f of
        None \<Rightarrow> Some None
      | Some a \<Rightarrow> (case map_of (ac_next (h ! a)) r of
            Some b \<Rightarrow> Some (Some b)
          | None \<Rightarrow> find_fail h r (ac_fail (h ! a))))"

definition link_child :: "ac_heap \<Rightarrow> nat \<Rightarrow> rune \<times> nat \<Rightarrow> ac_heap option" where
  "link_child h current e =
     (case e of (r, child) \<Rightarrow>
        Option.bind (find_fail h r (ac_fail (h ! current))) (\<lambda>found.
        let h1 = (case found of Some b \<Rightarrow> set_fail h child b | None \<Rightarrow> h);
            h2 = (if ac_fail (h1 ! child) = None then set_fail h1 child 0 else h1)
        in case ac_fail (h2 ! child) of
             None \<Rightarrow> None
           | Some f \<Rightarrow> Some (if ac_terminal (h2 ! f) then mark h2 child else h2)))"

fun link_children :: "ac_heap \<Rightarrow> nat \<Rightarrow> (rune \<times> nat) list \<Rightarrow> ac_heap option" where
  "link_children h current [] = Some h"
| "link_children h current (e # es) =
     Option.bind (link_child h current e) (\<lambda>h'. link_children h' current es)"

partial_function (option) link_queue :: "map_order \<Rightarrow> ac_heap \<Rightarrow> nat list \<Rightarrow> ac_heap option" where
  "link_queue ord h queue =
     (case queue of
        [] \<Rightarrow> Some h
      | current # rest \<Rightarrow>
          (let es = ord current (ac_next (h ! current))
           in Option.bind (link_children h current es) (\<lambda>h'. link_queue ord h' (rest @ map snd es))))"

definition buildAC :: "map_order \<Rightarrow> rune list list \<Rightarrow> ac_machine option" where
  "buildAC ord patterns =
     (let h = build_trie patterns;
          top = map snd (ord 0 (ac_next (h ! 0)))
      in Option.bind (link_queue ord (foldl (\<lambda>h' child. set_fail h' child 0) h top) top) (\<lambda>h'.
         Some \<lparr>ac_nodes = h', ac_pattern_count = length patterns\<rparr>))"

section \<open>The scan\<close>

partial_function (option) fall_back :: "ac_heap \<Rightarrow> rune \<Rightarrow> nat \<Rightarrow> nat option" where
  "fall_back h r a =
     (if a \<noteq> 0 \<and> map_of (ac_next (h ! a)) r = None
      then (case ac_fail (h ! a) of None \<Rightarrow> None | Some f \<Rightarrow> fall_back h r f)
      else Some a)"

fun scan :: "ac_heap \<Rightarrow> nat \<Rightarrow> rune list \<Rightarrow> bool option" where
  "scan h a [] = Some False"
| "scan h a (r # rs) =
     Option.bind (fall_back h r a) (\<lambda>a'.
     let b = (case map_of (ac_next (h ! a')) r of Some b \<Rightarrow> b | None \<Rightarrow> 0)
     in if ac_terminal (h ! b) then Some True else scan h b rs)"

definition contains :: "ac_machine \<Rightarrow> rune list \<Rightarrow> bool option" where
  "contains m text = scan (ac_nodes m) 0 text"

section \<open>Longest suffixes\<close>

text \<open>The longest suffix of a word that is in a set of words.\<close>

fun best :: "rune list set \<Rightarrow> rune list \<Rightarrow> rune list" where
  "best S [] = []"
| "best S (x # w) = (if x # w \<in> S then x # w else best S w)"

lemma best_suffix: "suffix (best S w) w"
  by (induction w) (auto simp: suffix_Cons)

lemma best_in: "[] \<in> S \<Longrightarrow> best S w \<in> S"
  by (induction w) auto

lemma best_self: "w \<in> S \<Longrightarrow> best S w = w"
  by (cases w) auto

lemma best_max: "suffix p w \<Longrightarrow> p \<in> S \<Longrightarrow> suffix p (best S w)"
  by (induction w) (auto simp: suffix_Cons)

lemma best_unique:
  assumes "suffix v w" "v \<in> S" "\<And>p. suffix p w \<Longrightarrow> p \<in> S \<Longrightarrow> suffix p v" "[] \<in> S"
  shows "best S w = v"
  using assms best_max [OF assms(1,2)] best_suffix [of S w] best_in [OF assms(4), of w]
  by (meson suffix_order.antisym)

definition prefix_closed :: "rune list set \<Rightarrow> bool" where
  "prefix_closed S \<longleftrightarrow> [] \<in> S \<and> (\<forall>w r. w @ [r] \<in> S \<longrightarrow> w \<in> S)"

lemma best_append:
  assumes "prefix_closed S"
  shows "best S (best S w @ [r]) = best S (w @ [r])"
proof (rule best_unique)
  have nil: "[] \<in> S" using assms by (simp add: prefix_closed_def)
  show "[] \<in> S" by (rule nil)
  show "best S (w @ [r]) \<in> S" by (rule best_in [OF nil])
  have grow: "suffix p (best S w @ [r])" if "suffix p (w @ [r])" "p \<in> S" for p
  proof (cases p rule: rev_cases)
    case (snoc q x)
    with that(1) have "x = r" "suffix q w" by (auto simp: suffix_def)
    moreover have "q \<in> S" using assms that(2) snoc by (auto simp: prefix_closed_def)
    ultimately show ?thesis using best_max [of q w S] snoc by (auto simp: suffix_def)
  qed simp
  show "suffix (best S (w @ [r])) (best S w @ [r])"
    by (rule grow [OF best_suffix best_in [OF nil]])
  show "suffix p (best S (w @ [r]))" if "suffix p (best S w @ [r])" "p \<in> S" for p
  proof (rule best_max [OF _ that(2)])
    have "suffix (best S w @ [r]) (w @ [r])" using best_suffix [of S w] by (auto simp: suffix_def)
    with that(1) show "suffix p (w @ [r])" by (rule suffix_order.trans)
  qed
qed

lemma best_fall:
  assumes "v @ [r] \<notin> S" "v \<noteq> []"
  shows "best S (v @ [r]) = best S (tl v @ [r])"
  using assms by (cases v) auto

lemma best_letter: "[r] \<notin> S \<Longrightarrow> best S [r] = []"
  by simp

section \<open>The trie of the patterns\<close>

text \<open>
  A heap holds a trie when its addresses are named by the words of a prefix-closed set and its edges
  extend the names by one rune.
\<close>

definition is_trie :: "ac_heap \<Rightarrow> (nat \<Rightarrow> rune list) \<Rightarrow> rune list set \<Rightarrow> bool" where
  "is_trie h L S \<longleftrightarrow> h \<noteq> [] \<and> L 0 = [] \<and> inj_on L {..<length h} \<and> L ` {..<length h} = S \<and>
     (\<forall>a < length h. distinct (map fst (ac_next (h ! a))) \<and>
        (\<forall>(r, b) \<in> set (ac_next (h ! a)). b < length h \<and> L b = L a @ [r])) \<and>
     (\<forall>b < length h. b \<noteq> 0 \<longrightarrow> (\<exists>a < length h. \<exists>r. (r, b) \<in> set (ac_next (h ! a))))"

lemma is_trieD:
  assumes "is_trie h L S"
  shows "h \<noteq> []" "L 0 = []" "inj_on L {..<length h}" "L ` {..<length h} = S"
    "\<And>a. a < length h \<Longrightarrow> distinct (map fst (ac_next (h ! a)))"
    "\<And>a r b. a < length h \<Longrightarrow> (r, b) \<in> set (ac_next (h ! a)) \<Longrightarrow> b < length h \<and> L b = L a @ [r]"
    "\<And>b. b < length h \<Longrightarrow> b \<noteq> 0 \<Longrightarrow> \<exists>a < length h. \<exists>r. (r, b) \<in> set (ac_next (h ! a))"
  using assms unfolding is_trie_def by auto

lemma trie_same:
  assumes "is_trie h L S" "a < length h" "b < length h" "L a = L b"
  shows "a = b"
  using inj_onD [OF is_trieD(3) [OF assms(1)] assms(4)] assms(2,3) by simp

lemma trie_root:
  assumes "is_trie h L S" "a < length h"
  shows "L a = [] \<longleftrightarrow> a = 0"
  using trie_same [OF assms(1) assms(2), of 0] is_trieD(1,2) [OF assms(1)] by auto

lemma trie_edge:
  assumes t: "is_trie h L S" and a: "a < length h"
  shows "map_of (ac_next (h ! a)) r = Some b \<longleftrightarrow> b < length h \<and> L b = L a @ [r]"
proof
  assume "map_of (ac_next (h ! a)) r = Some b"
  then show "b < length h \<and> L b = L a @ [r]" by (rule is_trieD(6) [OF t a map_of_SomeD])
next
  assume b: "b < length h \<and> L b = L a @ [r]"
  then have "b \<noteq> 0" using is_trieD(2) [OF t] by (intro notI) simp
  then obtain p x where p: "p < length h" "(x, b) \<in> set (ac_next (h ! p))"
    using is_trieD(7) [OF t] b by blast
  from is_trieD(6) [OF t p] b have "L p = L a" "x = r" by auto
  with trie_same [OF t p(1) a] p(2) is_trieD(5) [OF t a]
  show "map_of (ac_next (h ! a)) r = Some b" by simp
qed

lemma trie_no_edge:
  assumes t: "is_trie h L S" and a: "a < length h"
  shows "map_of (ac_next (h ! a)) r = None \<longleftrightarrow> L a @ [r] \<notin> S"
proof -
  have "map_of (ac_next (h ! a)) r \<noteq> None \<longleftrightarrow> (\<exists>b < length h. L b = L a @ [r])"
    using trie_edge [OF t a, of r] by auto
  also have "\<dots> \<longleftrightarrow> L a @ [r] \<in> L ` {..<length h}" unfolding image_iff by (metis lessThan_iff)
  finally show ?thesis using is_trieD(4) [OF t] by blast
qed

lemma trie_closed:
  assumes t: "is_trie h L S"
  shows "prefix_closed S"
  unfolding prefix_closed_def
proof (intro conjI allI impI)
  show "[] \<in> S" using is_trieD(1,2,4) [OF t] by (metis imageI lessThan_iff length_greater_0_conv)
  fix w r
  assume "w @ [r] \<in> S"
  then obtain b where b: "b < length h" "L b = w @ [r]" using is_trieD(4) [OF t] by auto
  then have "b \<noteq> 0" using is_trieD(2) [OF t] by (intro notI) simp
  then obtain p x where "p < length h" "(x, b) \<in> set (ac_next (h ! p))"
    using is_trieD(7) [OF t] b by blast
  with is_trieD(6) [OF t this] b have "L p = w" "p < length h" by auto
  then show "w \<in> S" using is_trieD(4) [OF t] by auto
qed

lemma trie_add:
  assumes t: "is_trie h L S" and a: "a < length h" and new: "L a @ [r] \<notin> S"
  shows "is_trie (add_next h a r) (L(length h := L a @ [r])) (insert (L a @ [r]) S)"
proof -
  let ?L = "L(length h := L a @ [r])" and ?h = "add_next h a r"
  have len: "length ?h = Suc (length h)" by (simp add: add_next_def)
  have old: "ac_next (?h ! b) = (if b = a then ac_next (h ! a) @ [(r, length h)] else ac_next (h ! b))"
    if "b < length h" for b
    using that a by (simp add: add_next_def nth_append nth_list_update)
  have last: "ac_next (?h ! length h) = []" by (simp add: add_next_def nth_append new_node_def)
  have fresh: "r \<notin> fst ` set (ac_next (h ! a))"
    using trie_no_edge [OF t a, of r] new by (simp add: map_of_eq_None_iff)
  have img: "?L ` {..<Suc (length h)} = insert (L a @ [r]) S"
    using is_trieD(4) [OF t] by (auto simp: lessThan_Suc)
  have "L b \<noteq> L a @ [r]" if "b < length h" for b
    using that new is_trieD(4) [OF t] by (metis imageI lessThan_iff)
  then have inj: "inj_on ?L {..<Suc (length h)}"
    unfolding lessThan_Suc using is_trieD(3) [OF t] by (auto simp: inj_on_def) metis
  have edges: "distinct (map fst (ac_next (?h ! b))) \<and>
      (\<forall>(x, c) \<in> set (ac_next (?h ! b)). c < Suc (length h) \<and> ?L c = ?L b @ [x])"
    if "b < Suc (length h)" for b
  proof (cases "b = length h")
    case False
    then have b: "b < length h" using that by simp
    then show ?thesis
      using is_trieD(5,6) [OF t b] fresh a by (auto simp: old intro: less_SucI)
  qed (simp add: last)
  have parents: "\<exists>p < Suc (length h). \<exists>x. (x, b) \<in> set (ac_next (?h ! p))"
    if b: "b < Suc (length h)" "b \<noteq> 0" for b
  proof (cases "b = length h")
    case True
    then have "(r, b) \<in> set (ac_next (?h ! a))" using old [OF a] by simp
    then show ?thesis using a by (intro exI [of _ a]) auto
  next
    case False
    then obtain p x where "p < length h" "(x, b) \<in> set (ac_next (h ! p))"
      using is_trieD(7) [OF t, of b] b by (auto simp: less_Suc_eq)
    then show ?thesis using old [of p] by (intro exI [of _ p]) (auto split: if_splits)
  qed
  have "?h \<noteq> []" "?L 0 = []" using is_trieD(1,2) [OF t] by (auto simp: add_next_def)
  with img inj edges parents show ?thesis unfolding is_trie_def len by blast
qed

text \<open>The nodes of the trie phase have no failure link; a node ends a word when it ends a pattern.\<close>

definition plain_trie :: "ac_heap \<Rightarrow> (nat \<Rightarrow> rune list) \<Rightarrow> rune list set \<Rightarrow> rune list set \<Rightarrow> bool" where
  "plain_trie h L S T \<longleftrightarrow> is_trie h L S \<and> T \<subseteq> S \<and>
     (\<forall>a < length h. ac_fail (h ! a) = None \<and> (ac_terminal (h ! a) \<longleftrightarrow> L a \<in> T))"

lemma plain_trie_add:
  assumes t: "plain_trie h L S T" and a: "a < length h" and new: "L a @ [r] \<notin> S"
  shows "plain_trie (add_next h a r) (L(length h := L a @ [r])) (insert (L a @ [r]) S) T"
proof -
  have "ac_fail (add_next h a r ! b) = None \<and>
      (ac_terminal (add_next h a r ! b) \<longleftrightarrow> (L(length h := L a @ [r])) b \<in> T)"
    if "b < length (add_next h a r)" for b
    using that t a new
    by (cases "b = length h")
      (auto simp: plain_trie_def add_next_def new_node_def nth_append nth_list_update)
  with trie_add [of h L S a r] t a new show ?thesis by (auto simp: plain_trie_def)
qed

definition prefixes_from :: "rune list \<Rightarrow> rune list \<Rightarrow> rune list set" where
  "prefixes_from v rs = {v @ p |p. prefix p rs}"

lemma prefixes_from_Nil [simp]: "prefixes_from v [] = {v}"
  by (simp add: prefixes_from_def)

lemma prefixes_from_Cons: "prefixes_from v (r # rs) = insert v (prefixes_from (v @ [r]) rs)"
  by (force simp: prefixes_from_def prefix_Cons)

lemma insert_runes_trie:
  assumes "plain_trie h L S T" "a < length h" "insert_runes h a rs = (h', b)"
  shows "\<exists>L'. plain_trie h' L' (S \<union> prefixes_from (L a) rs) T \<and> b < length h' \<and> L' b = L a @ rs"
  using assms
proof (induction h a rs arbitrary: L S rule: insert_runes.induct)
  case (1 h a)
  have "L a \<in> S" using 1(1,2) is_trieD(4) [of h L S] by (auto simp: plain_trie_def)
  then have "S \<union> {L a} = S" by blast
  with 1 show ?case by auto
next
  case (2 h a r rs)
  have t: "is_trie h L S" using 2(3) by (simp add: plain_trie_def)
  have here: "L a \<in> S" using is_trieD(4) [OF t] 2(4) by blast
  show ?case
  proof (cases "map_of (ac_next (h ! a)) r")
    case (Some c)
    then have c: "c < length h" "L c = L a @ [r]" using trie_edge [OF t 2(4)] by auto
    from 2(2) [OF Some 2(3) c(1)] 2(5) Some c(2) here show ?thesis
      by (simp add: prefixes_from_Cons insert_absorb)
  next
    case None
    then have new: "L a @ [r] \<notin> S" using trie_no_edge [OF t 2(4)] by simp
    have at: "length h < length (add_next h a r)" by (simp add: add_next_def)
    have in_set: "L a @ [r] \<in> prefixes_from (L a @ [r]) rs" by (auto simp: prefixes_from_def)
    from 2(1) [OF None plain_trie_add [OF 2(3,4) new] at] 2(5) None here in_set
    show ?thesis by (simp add: prefixes_from_Cons insert_absorb)
  qed
qed

lemma mark_fields [simp]:
  "length (mark h a) = length h" "ac_next (mark h a ! b) = ac_next (h ! b)"
  "ac_fail (mark h a ! b) = ac_fail (h ! b)" "mark h a = [] \<longleftrightarrow> h = []"
  by (simp_all add: mark_def) (cases "a < length h"; simp add: nth_list_update list_update_beyond)+

lemma is_trie_mark: "is_trie (mark h a) L S = is_trie h L S"
  by (simp add: is_trie_def)

text \<open>All prefixes of the patterns.\<close>

definition stems :: "rune list list \<Rightarrow> rune list set" where
  "stems patterns = insert [] {p. \<exists>q \<in> set patterns. prefix p q}"

definition targets :: "rune list list \<Rightarrow> rune list set" where
  "targets patterns = set patterns - {[]}"

lemma build_trie_ok: "\<exists>L. plain_trie (build_trie patterns) L (stems patterns) (targets patterns)"
proof (induction patterns rule: rev_induct)
  case Nil
  show ?case
    by (intro exI [of _ "\<lambda>_. []"])
      (auto simp: build_trie_def plain_trie_def is_trie_def stems_def targets_def new_node_def inj_on_def)
next
  case (snoc p ps)
  then obtain L where L: "plain_trie (build_trie ps) L (stems ps) (targets ps)" by blast
  have step: "build_trie (ps @ [p]) = insert_pattern (build_trie ps) p" by (simp add: build_trie_def)
  have stems: "stems (ps @ [p]) = stems ps \<union> prefixes_from [] p"
    by (auto simp: stems_def prefixes_from_def)
  show ?case
  proof (cases "p = []")
    case True
    with L show ?thesis unfolding step stems by (auto simp: insert_pattern_def targets_def stems_def)
  next
    case False
    have root: "0 < length (build_trie ps)" "L 0 = []"
      using L is_trieD(1,2) by (auto simp: plain_trie_def)
    obtain h' a where ins: "insert_runes (build_trie ps) 0 p = (h', a)" by fastforce
    from insert_runes_trie [OF L root(1) ins] root(2) obtain L' where
      L': "plain_trie h' L' (stems (ps @ [p])) (targets ps)" "a < length h'" "L' a = p"
      by (auto simp: stems)
    have t: "is_trie h' L' (stems (ps @ [p]))" using L'(1) by (simp add: plain_trie_def)
    have word: "b = a \<longleftrightarrow> L' b = p" if "b < length h'" for b
      using trie_same [OF t that L'(2)] L'(3) by auto
    have old: "ac_fail (h' ! b) = None" "ac_terminal (h' ! b) \<longleftrightarrow> L' b \<in> targets ps"
      if "b < length h'" for b
      using L'(1) that by (simp_all add: plain_trie_def)
    have "ac_terminal (mark h' a ! b) \<longleftrightarrow> L' b \<in> targets (ps @ [p])" if "b < length h'" for b
      using old(2) [OF that] word [OF that] L'(2,3) False
      by (cases "b = a") (simp_all add: mark_def nth_list_update targets_def)
    moreover have "targets (ps @ [p]) \<subseteq> stems (ps @ [p])" by (auto simp: targets_def stems_def)
    ultimately have "plain_trie (mark h' a) L' (stems (ps @ [p])) (targets (ps @ [p]))"
      using t old(1) by (simp add: plain_trie_def is_trie_mark)
    then show ?thesis unfolding step by (auto simp: insert_pattern_def False ins)
  qed
qed

section \<open>The failure links are the longest proper suffixes\<close>

text \<open>
  A linked node: its failure link is the longest proper suffix of its word in the trie, and it is
  terminal when its word ends with a pattern.
\<close>

definition link_ok :: "(nat \<Rightarrow> rune list) \<Rightarrow> nat \<Rightarrow> rune list set \<Rightarrow> nat \<Rightarrow> ac_node \<Rightarrow> bool" where
  "link_ok L n S a nd \<longleftrightarrow> (\<exists>f < n. ac_fail nd = Some f \<and> L f = best S (tl (L a)))"

definition ends :: "rune list set \<Rightarrow> rune list \<Rightarrow> bool" where
  "ends T w \<longleftrightarrow> (\<exists>p \<in> T. suffix p w)"

definition linked :: "(nat \<Rightarrow> rune list) \<Rightarrow> nat \<Rightarrow> rune list set \<Rightarrow> rune list set \<Rightarrow> nat \<Rightarrow> ac_node \<Rightarrow> bool" where
  "linked L n S T a nd \<longleftrightarrow> link_ok L n S a nd \<and> (ac_terminal nd \<longleftrightarrow> ends T (L a))"

lemma shorter: "v \<noteq> [] \<Longrightarrow> length (best S (tl v)) < length v"
  using suffix_length_le [OF best_suffix [of S "tl v"]] by (cases v) auto

lemma find_fail_ok:
  assumes t: "is_trie h L S" and root: "ac_fail (h ! 0) = None" and a: "a < length h"
    and links: "\<forall>b < length h. b \<noteq> 0 \<longrightarrow> length (L b) \<le> length (L a) \<longrightarrow> link_ok L (length h) S b (h ! b)"
  shows "\<exists>g. find_fail h r (Some a) = Some g \<and>
    (case g of None \<Rightarrow> best S (L a @ [r]) = [] | Some b \<Rightarrow> b < length h \<and> L b = best S (L a @ [r]))"
  using a links
proof (induction "length (L a)" arbitrary: a rule: less_induct)
  case less
  show ?case
  proof (cases "map_of (ac_next (h ! a)) r")
    case (Some b)
    then have "b < length h" "L b = L a @ [r]" using trie_edge [OF t less.prems(1)] by auto
    moreover from this have "L a @ [r] \<in> S" using is_trieD(4) [OF t] by (metis imageI lessThan_iff)
    ultimately show ?thesis
      by (subst find_fail.simps) (simp add: Some best_self)
  next
    case None
    then have new: "L a @ [r] \<notin> S" using trie_no_edge [OF t less.prems(1)] by simp
    show ?thesis
    proof (cases "a = 0")
      case True
      then show ?thesis
        using new root is_trieD(2) [OF t] None
        by (subst find_fail.simps, simp, subst find_fail.simps) simp
    next
      case False
      then have word: "L a \<noteq> []" using trie_root [OF t less.prems(1)] by simp
      from less.prems(2) False less.prems(1) obtain f where
        f: "f < length h" "ac_fail (h ! a) = Some f" "L f = best S (tl (L a))"
        by (auto simp: link_ok_def)
      have "length (L f) < length (L a)" using shorter [OF word] f(3) by simp
      then have "\<exists>g. find_fail h r (Some f) = Some g \<and> (case g of None \<Rightarrow> best S (L f @ [r]) = []
          | Some b \<Rightarrow> b < length h \<and> L b = best S (L f @ [r]))"
        using less.hyps [of f] f(1) less.prems(2) by simp
      moreover have "best S (L f @ [r]) = best S (L a @ [r])"
        unfolding f(3) best_append [OF trie_closed [OF t]] best_fall [OF new word] ..
      moreover have "find_fail h r (Some a) = find_fail h r (Some f)"
        by (subst find_fail.simps) (simp add: None f(2))
      ultimately show ?thesis by (simp only:)
    qed
  qed
qed

lemma ends_step:
  assumes "T \<subseteq> S" "[] \<notin> T" "v \<noteq> []"
  shows "ends T v \<longleftrightarrow> v \<in> T \<or> ends T (best S (tl v))"
proof -
  have "ends T v \<longleftrightarrow> v \<in> T \<or> ends T (tl v)"
    using assms(2,3) by (cases v) (auto simp: ends_def suffix_Cons)
  moreover have "ends T (best S u) \<longleftrightarrow> ends T u" for u
    using assms(1) best_max [of _ u S] suffix_order.trans [OF _ best_suffix [of S u]]
    unfolding ends_def by blast
  ultimately show ?thesis by simp
qed

text \<open>One child is linked; no other node changes.\<close>

lemma set_fail_fields [simp]:
  "length (set_fail h a f) = length h" "ac_next (set_fail h a f ! b) = ac_next (h ! b)"
  "ac_terminal (set_fail h a f ! b) = ac_terminal (h ! b)"
  "b \<noteq> a \<Longrightarrow> set_fail h a f ! b = h ! b" "a < length h \<Longrightarrow> ac_fail (set_fail h a f ! a) = Some f"
  by (simp_all add: set_fail_def) (cases "a < length h"; simp add: nth_list_update list_update_beyond)+

lemma mark_other [simp]: "b \<noteq> a \<Longrightarrow> mark h a ! b = h ! b"
  and mark_self [simp]: "a < length h \<Longrightarrow> ac_terminal (mark h a ! a)"
  by (simp_all add: mark_def)

definition grown :: "ac_heap \<Rightarrow> ac_heap \<Rightarrow> nat set \<Rightarrow> bool" where
  "grown h h' A \<longleftrightarrow> length h' = length h \<and> (\<forall>a. ac_next (h' ! a) = ac_next (h ! a)) \<and>
     (\<forall>a. a \<notin> A \<longrightarrow> h' ! a = h ! a)"

lemma grown_trie: "grown h h' A \<Longrightarrow> is_trie h L S \<Longrightarrow> is_trie h' L S"
  unfolding grown_def is_trie_def by auto

lemma link_child_ok:
  assumes t: "is_trie h L S" and T: "T \<subseteq> S" "[] \<notin> T" and root: "ac_fail (h ! 0) = None"
    and c: "c < length h" "c \<noteq> 0"
    and links: "\<forall>b < length h. b \<noteq> 0 \<longrightarrow> length (L b) \<le> length (L c) \<longrightarrow> linked L (length h) S T b (h ! b)"
    and top: "\<not> ac_terminal (h ! 0)"
    and d: "d < length h" "L d = L c @ [r]" "ac_fail (h ! d) = None" "ac_terminal (h ! d) \<longleftrightarrow> L d \<in> T"
  shows "\<exists>h'. link_child h c (r, d) = Some h' \<and> grown h h' {d} \<and> linked L (length h) S T d (h' ! d)"
proof -
  have word: "L c \<noteq> []" using trie_root [OF t c(1)] c(2) by simp
  from links c obtain f where f: "f < length h" "ac_fail (h ! c) = Some f" "L f = best S (tl (L c))"
    by (auto simp: linked_def link_ok_def)
  have small: "length (L f) < length (L c)" using shorter [OF word] f(3) by simp
  have target: "best S (L f @ [r]) = best S (tl (L d))"
    unfolding f(3) best_append [OF trie_closed [OF t]] d(2) using word by simp
  obtain g where g: "find_fail h r (Some f) = Some g"
    "case g of None \<Rightarrow> best S (L f @ [r]) = [] | Some b \<Rightarrow> b < length h \<and> L b = best S (L f @ [r])"
    using find_fail_ok [OF t root f(1), of r] links small by (fastforce simp: linked_def)
  define e where "e = (case g of None \<Rightarrow> 0 | Some b \<Rightarrow> b)"
  have e: "e < length h" "L e = best S (tl (L d))"
    using g(2) target is_trieD(1,2) [OF t] by (auto simp: e_def split: option.splits)
  have dw: "L d \<noteq> []" using d(2) by simp
  have "e \<noteq> d" using e(2) shorter [OF dw, of S] by auto
  have terminal: "ac_terminal (h ! e) \<longleftrightarrow> ends T (L e)"
  proof (cases "e = 0")
    case True
    then show ?thesis using top is_trieD(2) [OF t] T(2) by (auto simp: ends_def)
  next
    case False
    have "length (L e) \<le> length (L c)" using shorter [OF dw, of S] e(2) d(2) by simp
    with links e(1) False show ?thesis by (auto simp: linked_def)
  qed
  let ?h' = "if ac_terminal (h ! e) then mark (set_fail h d e) d else set_fail h d e"
  have "link_child h c (r, d) = Some ?h'"
    using d(1,3) f(2) g(1) by (cases g) (auto simp: link_child_def e_def Let_def)
  moreover have "grown h ?h' {d}" by (auto simp: grown_def)
  moreover have "linked L (length h) S T d (?h' ! d)"
    using e d(1,4) terminal ends_step [OF T dw] by (auto simp: linked_def link_ok_def)
  ultimately show ?thesis by blast
qed

lemma link_children_ok:
  assumes "is_trie h L S" and T: "T \<subseteq> S" "[] \<notin> T" and "ac_fail (h ! 0) = None"
    and "c < length h" "c \<noteq> 0" "\<not> ac_terminal (h ! 0)"
    and "\<forall>b < length h. b \<noteq> 0 \<longrightarrow> length (L b) \<le> length (L c) \<longrightarrow> linked L (length h) S T b (h ! b)"
    and "\<forall>(r, d) \<in> set es. d < length h \<and> L d = L c @ [r] \<and> ac_fail (h ! d) = None \<and>
       (ac_terminal (h ! d) \<longleftrightarrow> L d \<in> T)" "distinct (map snd es)"
  shows "\<exists>h'. link_children h c es = Some h' \<and> grown h h' (snd ` set es) \<and>
    (\<forall>d \<in> snd ` set es. linked L (length h) S T d (h' ! d))"
  using assms(1,4-)
proof (induction es arbitrary: h)
  case Nil
  then show ?case by (auto simp: grown_def)
next
  case (Cons e es)
  obtain r d where e: "e = (r, d)" by (cases e)
  have d: "d < length h" "L d = L c @ [r]" "ac_fail (h ! d) = None" "ac_terminal (h ! d) \<longleftrightarrow> L d \<in> T"
    using Cons.prems(7) e by auto
  obtain h1 where h1: "link_child h c e = Some h1" "grown h h1 {d}" "linked L (length h) S T d (h1 ! d)"
    using link_child_ok [OF Cons.prems(1) T Cons.prems(2,3,4) Cons.prems(6,5) d] unfolding e by blast
  have zero: "d \<noteq> 0" using d(2) is_trieD(2) [OF Cons.prems(1)] by (intro notI) simp
  have len: "length h1 = length h" and old: "\<And>b. b \<noteq> d \<Longrightarrow> h1 ! b = h ! b"
    using h1(2) by (auto simp: grown_def)
  have deeper: "b \<noteq> d" if "length (L b) \<le> length (L c)" for b using that d(2) by auto
  have "\<exists>h'. link_children h1 c es = Some h' \<and> grown h1 h' (snd ` set es) \<and>
      (\<forall>d \<in> snd ` set es. linked L (length h1) S T d (h' ! d))"
  proof (rule Cons.IH)
    show "is_trie h1 L S" by (rule grown_trie [OF h1(2) Cons.prems(1)])
    show "ac_fail (h1 ! 0) = None" "\<not> ac_terminal (h1 ! 0)" "c < length h1" "c \<noteq> 0"
      using Cons.prems zero by (simp_all add: old len)
    show "\<forall>b < length h1. b \<noteq> 0 \<longrightarrow> length (L b) \<le> length (L c) \<longrightarrow> linked L (length h1) S T b (h1 ! b)"
      using Cons.prems(6) deeper by (simp add: old len)
    show "distinct (map snd es)" using Cons.prems(8) by simp
    have "d \<notin> snd ` set es" using Cons.prems(8) e by simp
    then have "h1 ! b = h ! b" if "(x, b) \<in> set es" for x b using that by (force intro: old)
    with Cons.prems(7) show "\<forall>(r, d) \<in> set es. d < length h1 \<and> L d = L c @ [r] \<and>
       ac_fail (h1 ! d) = None \<and> (ac_terminal (h1 ! d) \<longleftrightarrow> L d \<in> T)"
      by (auto simp: len)
  qed
  then obtain h' where h': "link_children h1 c es = Some h'" "grown h1 h' (snd ` set es)"
    "\<forall>d \<in> snd ` set es. linked L (length h) S T d (h' ! d)"
    by (auto simp: len)
  have "d \<notin> snd ` set es" using Cons.prems(8) e by simp
  with h' h1 e show ?case by (auto simp: grown_def)
qed

text \<open>
  The state of the breadth-first pass.  A linked node is right, an unlinked one is as the trie phase
  left it; the queue holds linked nodes by depth, over at most two depths; and the children of a
  node are linked when the node has left the queue.
\<close>

definition queue_ok ::
  "(nat \<Rightarrow> rune list) \<Rightarrow> rune list set \<Rightarrow> rune list set \<Rightarrow> ac_heap \<Rightarrow> nat list \<Rightarrow> bool" where
  "queue_ok L S T h queue \<longleftrightarrow> is_trie h L S \<and> ac_fail (h ! 0) = None \<and> \<not> ac_terminal (h ! 0) \<and>
     (\<forall>a < length h. a \<noteq> 0 \<longrightarrow>
        (if ac_fail (h ! a) = None then ac_terminal (h ! a) \<longleftrightarrow> L a \<in> T
         else linked L (length h) S T a (h ! a))) \<and>
     distinct queue \<and> (\<forall>q \<in> set queue. q < length h \<and> q \<noteq> 0 \<and> ac_fail (h ! q) \<noteq> None) \<and>
     sorted (map (\<lambda>q. length (L q)) queue) \<and>
     (\<forall>q \<in> set queue. length (L q) \<le> length (L (hd queue)) + 1) \<and>
     (\<forall>a < length h. \<forall>b < length h. \<forall>r. L b = L a @ [r] \<longrightarrow>
        (ac_fail (h ! b) \<noteq> None \<longleftrightarrow> a = 0 \<or> (ac_fail (h ! a) \<noteq> None \<and> a \<notin> set queue)))"

lemma queue_okD:
  assumes "queue_ok L S T h queue"
  shows "is_trie h L S" "ac_fail (h ! 0) = None" "\<not> ac_terminal (h ! 0)"
    "\<And>a. a < length h \<Longrightarrow> a \<noteq> 0 \<Longrightarrow> ac_fail (h ! a) = None \<Longrightarrow> ac_terminal (h ! a) \<longleftrightarrow> L a \<in> T"
    "\<And>a. a < length h \<Longrightarrow> a \<noteq> 0 \<Longrightarrow> ac_fail (h ! a) \<noteq> None \<Longrightarrow> linked L (length h) S T a (h ! a)"
    "distinct queue" "\<And>q. q \<in> set queue \<Longrightarrow> q < length h \<and> q \<noteq> 0 \<and> ac_fail (h ! q) \<noteq> None"
    "sorted (map (\<lambda>q. length (L q)) queue)"
    "\<And>q. q \<in> set queue \<Longrightarrow> length (L q) \<le> length (L (hd queue)) + 1"
    "\<And>a b r. a < length h \<Longrightarrow> b < length h \<Longrightarrow> L b = L a @ [r] \<Longrightarrow>
        ac_fail (h ! b) \<noteq> None \<longleftrightarrow> a = 0 \<or> (ac_fail (h ! a) \<noteq> None \<and> a \<notin> set queue)"
  using assms unfolding queue_ok_def by (auto split: if_splits)

lemma trie_parent:
  assumes t: "is_trie h L S" and b: "b < length h" "b \<noteq> 0"
  obtains a r where "a < length h" "L b = L a @ [r]"
  using is_trieD(7) [OF t b] is_trieD(6) [OF t] by blast

lemma queue_level:
  assumes q: "queue_ok L S T h (c # queue)"
    and b: "b < length h" "b \<noteq> 0" "length (L b) \<le> length (L c)"
  shows "ac_fail (h ! b) \<noteq> None"
  using b
proof (induction "length (L b)" arbitrary: b rule: less_induct)
  case less
  obtain a r where a: "a < length h" "L b = L a @ [r]"
    using trie_parent [OF queue_okD(1) [OF q] less.prems(1,2)] .
  have "a = 0 \<or> (ac_fail (h ! a) \<noteq> None \<and> a \<notin> set (c # queue))"
  proof (cases "a = 0")
    case False
    have "length (L a) < length (L c)" using a(2) less.prems(3) by simp
    moreover have "\<forall>x \<in> set queue. length (L c) \<le> length (L x)" using queue_okD(8) [OF q] by simp
    ultimately have "a \<notin> set (c # queue)" by force
    moreover have "ac_fail (h ! a) \<noteq> None" using less.hyps [of a] a False less.prems(3) by simp
    ultimately show ?thesis by simp
  qed simp
  then show ?case using queue_okD(10) [OF q a(1) less.prems(1) a(2)] by simp
qed

definition unlinked :: "ac_heap \<Rightarrow> nat set" where
  "unlinked h = {a. a < length h \<and> a \<noteq> 0 \<and> ac_fail (h ! a) = None}"

lemma finite_unlinked [simp]: "finite (unlinked h)"
  by (simp add: unlinked_def)

lemma edge_list:
  assumes t: "is_trie h L S" and a: "a < length h" and es: "mset es = mset (ac_next (h ! a))"
  shows "set es = set (ac_next (h ! a))" "distinct (map snd es)"
    "snd ` set es = {d. d < length h \<and> (\<exists>r. L d = L a @ [r])}"
proof -
  show same: "set es = set (ac_next (h ! a))" using es by (rule mset_eq_setD)
  have "distinct (ac_next (h ! a))" using is_trieD(5) [OF t a] by (simp add: distinct_map)
  then have "distinct es" using mset_eq_imp_distinct_iff [OF es] by simp
  moreover have "inj_on snd (set es)"
    by (auto simp: inj_on_def same dest!: is_trieD(6) [OF t a])
  ultimately show "distinct (map snd es)" by (simp add: distinct_map)
  show "snd ` set es = {d. d < length h \<and> (\<exists>r. L d = L a @ [r])}"
  proof (intro equalityI subsetI)
    fix d assume "d \<in> snd ` set es"
    then obtain r where "(r, d) \<in> set (ac_next (h ! a))" by (auto simp: same)
    then show "d \<in> {d. d < length h \<and> (\<exists>r. L d = L a @ [r])}" using is_trieD(6) [OF t a] by blast
  next
    fix d assume "d \<in> {d. d < length h \<and> (\<exists>r. L d = L a @ [r])}"
    then obtain r where "map_of (ac_next (h ! a)) r = Some d" using trie_edge [OF t a] by blast
    then have "(r, d) \<in> set es" by (simp add: same map_of_SomeD)
    then show "d \<in> snd ` set es" by force
  qed
qed

lemma queue_step:
  assumes q: "queue_ok L S T h (c # queue)" and T: "T \<subseteq> S" "[] \<notin> T"
    and es: "mset es = mset (ac_next (h ! c))"
  shows "\<exists>h'. link_children h c es = Some h' \<and> queue_ok L S T h' (queue @ map snd es) \<and>
    length h' = length h \<and> card (unlinked h') + length es = card (unlinked h)"
proof -
  note t = queue_okD(1) [OF q]
  have c: "c < length h" "c \<noteq> 0" "ac_fail (h ! c) \<noteq> None" "c \<notin> set queue"
    using queue_okD(7) [OF q, of c] queue_okD(6) [OF q] by simp_all
  define K where "K = snd ` set es"
  have K: "K = {d. d < length h \<and> (\<exists>r. L d = L c @ [r])}" "distinct (map snd es)"
    unfolding K_def using edge_list [OF t c(1) es] by auto
  have sets: "set (map snd es) = K" by (simp add: K_def)
  have K0: "d \<noteq> 0" "ac_fail (h ! d) = None" "d < length h" "length (L d) = length (L c) + 1"
    if d: "d \<in> K" for d
  proof -
    obtain r where r: "d < length h" "L d = L c @ [r]" using d K(1) by blast
    then show "d \<noteq> 0" using is_trieD(2) [OF t] by (intro notI) simp
    show "ac_fail (h ! d) = None" using queue_okD(10) [OF q c(1) r] c(2) by simp
    show "d < length h" "length (L d) = length (L c) + 1" using r by simp_all
  qed
  have low: "\<forall>b < length h. b \<noteq> 0 \<longrightarrow> length (L b) \<le> length (L c) \<longrightarrow> linked L (length h) S T b (h ! b)"
    using queue_level [OF q] queue_okD(5) [OF q] by blast
  have edges: "\<forall>(r, d) \<in> set es. d < length h \<and> L d = L c @ [r] \<and> ac_fail (h ! d) = None \<and>
      (ac_terminal (h ! d) \<longleftrightarrow> L d \<in> T)"
  proof safe
    fix r d assume rd: "(r, d) \<in> set es"
    then have d: "d \<in> K" by (force simp: K_def)
    show "d < length h" "L d = L c @ [r]"
      using is_trieD(6) [OF t c(1)] rd edge_list(1) [OF t c(1) es] by auto
    show "ac_fail (h ! d) = None" by (rule K0(2) [OF d])
    show "ac_terminal (h ! d) \<Longrightarrow> L d \<in> T" "L d \<in> T \<Longrightarrow> ac_terminal (h ! d)"
      using queue_okD(4) [OF q K0(3,1,2) [OF d]] by simp_all
  qed
  obtain h' where h': "link_children h c es = Some h'" "grown h h' K"
    "\<forall>d \<in> K. linked L (length h) S T d (h' ! d)"
    using link_children_ok [OF t T queue_okD(2) [OF q] c(1,2) queue_okD(3) [OF q] low edges K(2)]
    unfolding K_def by blast
  have len: "length h' = length h" and old: "\<And>a. a \<notin> K \<Longrightarrow> h' ! a = h ! a"
    using h'(2) by (simp_all add: grown_def)
  have fail': "ac_fail (h' ! a) \<noteq> None \<longleftrightarrow> a \<in> K \<or> ac_fail (h ! a) \<noteq> None" for a
    using h'(3) old [of a] by (cases "a \<in> K") (auto simp: linked_def link_ok_def)
  have zero: "0 \<notin> K" using K0(1) by blast
  have "x \<notin> K" if "x \<in> set queue" for x using queue_okD(7) [OF q, of x] K0(2) [of x] that by auto
  then have Q': "distinct (queue @ map snd es)"
    using queue_okD(6) [OF q] K(2) by (auto simp: sets simp del: set_map)
  have sortedQ: "\<forall>x \<in> set queue. length (L c) \<le> length (L x) \<and> length (L x) \<le> length (L c) + 1"
    "sorted (map (\<lambda>q. length (L q)) queue)"
    using queue_okD(8,9) [OF q] by auto
  have kids: "sorted (map (\<lambda>q. length (L q)) (map snd es))"
  proof -
    have "map (\<lambda>q. length (L q)) (map snd es) = replicate (length es) (length (L c) + 1)"
      by (rule replicate_eqI) (use K0(4) in \<open>auto simp: K_def\<close>)
    then show ?thesis by simp
  qed
  have first: "length (L c) \<le> length (L (hd (queue @ map snd es)))" if "queue @ map snd es \<noteq> []"
  proof -
    have "hd (queue @ map snd es) \<in> set queue \<union> K" using hd_in_set [OF that] sets by simp
    then show ?thesis using sortedQ(1) K0(4) by force
  qed
  have "queue_ok L S T h' (queue @ map snd es)"
    unfolding queue_ok_def len
  proof (intro conjI allI impI ballI)
    show "is_trie h' L S" by (rule grown_trie [OF h'(2) t])
    show "ac_fail (h' ! 0) = None" "\<not> ac_terminal (h' ! 0)"
      using queue_okD(2,3) [OF q] old [OF zero] by simp_all
    show "distinct (queue @ map snd es)" by (rule Q')
    show "if ac_fail (h' ! a) = None then ac_terminal (h' ! a) \<longleftrightarrow> L a \<in> T
        else linked L (length h) S T a (h' ! a)" if "a < length h" "a \<noteq> 0" for a
      using h'(3) old [of a] queue_okD(4,5) [OF q that] fail' [of a]
      by (cases "a \<in> K") auto
    show "q < length h" "q \<noteq> 0" "ac_fail (h' ! q) \<noteq> None" if "q \<in> set (queue @ map snd es)" for q
      using that queue_okD(7) [OF q, of q] K0 fail' [of q] sets by auto
    have "\<forall>x \<in> set queue. \<forall>d \<in> K. length (L x) \<le> length (L d)" using sortedQ(1) K0(4) by simp
    then show "sorted (map (\<lambda>q. length (L q)) (queue @ map snd es))"
      using sortedQ(2) kids by (auto simp: sorted_append K_def)
    show "length (L q) \<le> length (L (hd (queue @ map snd es))) + 1" if "q \<in> set (queue @ map snd es)" for q
    proof -
      from that have "q \<in> set queue \<or> q \<in> K" by (auto simp: K_def)
      then have "length (L q) \<le> length (L c) + 1" using sortedQ(1) K0(4) by auto
      moreover have "queue @ map snd es \<noteq> []" using that by auto
      ultimately show ?thesis using first by fastforce
    qed
    show "ac_fail (h' ! b) \<noteq> None \<longleftrightarrow> a = 0 \<or> (ac_fail (h' ! a) \<noteq> None \<and> a \<notin> set (queue @ map snd es))"
      if ab: "a < length h" "b < length h" "L b = L a @ [r]" for a b r
    proof (cases "a = c")
      case True
      then have "b \<in> K" using ab K(1) by blast
      moreover have "c \<notin> K" using K0(4) by force
      ultimately show ?thesis using True c fail' sets by auto
    next
      case False
      have "b \<notin> K" using False trie_same [OF t ab(1) c(1)] ab(3) K(1) by auto
      then show ?thesis
        using queue_okD(10) [OF q ab] False fail' [of a] fail' [of b] K0(1,2) [of a]
        by (cases "a \<in> K") (auto simp: K_def [symmetric])
    qed
  qed
  moreover have "ac_fail (h' ! a) = None \<longleftrightarrow> a \<notin> K \<and> ac_fail (h ! a) = None" for a
    using fail' [of a] by blast
  then have "unlinked h' = unlinked h - K" by (auto simp: unlinked_def len)
  moreover have "K \<subseteq> unlinked h" using K0 by (auto simp: unlinked_def)
  moreover have "card K = length es"
    using distinct_card [OF K(2)] by (simp add: sets del: set_map)
  ultimately show ?thesis
    using h'(1) len card_mono [OF finite_unlinked, of K h]
    by (auto simp: card_Diff_subset finite_subset)
qed

lemma link_queue_ok:
  assumes "queue_ok L S T h queue" "T \<subseteq> S" "[] \<notin> T" "permutes ord"
  shows "\<exists>h'. link_queue ord h queue = Some h' \<and> queue_ok L S T h' []"
  using assms(1)
proof (induction "card (unlinked h) + length queue" arbitrary: h queue rule: less_induct)
  case less
  show ?case
  proof (cases queue)
    case Nil
    then show ?thesis using less.prems by (subst link_queue.simps) simp
  next
    case (Cons c rest)
    let ?es = "ord c (ac_next (h ! c))"
    have es: "mset ?es = mset (ac_next (h ! c))" using assms(4) by (simp add: permutes_def)
    obtain h' where h': "link_children h c ?es = Some h'" "queue_ok L S T h' (rest @ map snd ?es)"
      "card (unlinked h') + length ?es = card (unlinked h)"
      using queue_step [OF _ assms(2,3) es, of L rest] less.prems Cons by blast
    from less.hyps [OF _ h'(2)] h'(3) Cons obtain h'' where
      "link_queue ord h' (rest @ map snd ?es) = Some h''" "queue_ok L S T h'' []"
      by auto
    then show ?thesis
      by (subst link_queue.simps) (simp add: Cons h'(1))
  qed
qed

section \<open>The automaton finds the patterns\<close>

lemma foldl_set_fail:
  "length (foldl (\<lambda>h' d. set_fail h' d 0) h ds) = length h"
  "ac_next (foldl (\<lambda>h' d. set_fail h' d 0) h ds ! a) = ac_next (h ! a)"
  "ac_terminal (foldl (\<lambda>h' d. set_fail h' d 0) h ds ! a) = ac_terminal (h ! a)"
  by (induction ds arbitrary: h) auto

lemma foldl_set_fail_link:
  "set ds \<subseteq> {..<length h} \<Longrightarrow>
     ac_fail (foldl (\<lambda>h' d. set_fail h' d 0) h ds ! a) = (if a \<in> set ds then Some 0 else ac_fail (h ! a))"
proof (induction ds arbitrary: h)
  case (Cons d ds)
  then show ?case by (cases "a = d") simp_all
qed simp

lemma start_ok:
  assumes p: "plain_trie h L S T" and T: "[] \<notin> T" and es: "mset es = mset (ac_next (h ! 0))"
  shows "queue_ok L S T (foldl (\<lambda>h' d. set_fail h' d 0) h (map snd es)) (map snd es)"
proof -
  have t: "is_trie h L S" and plain: "\<And>a. a < length h \<Longrightarrow> ac_fail (h ! a) = None"
    and word: "\<And>a. a < length h \<Longrightarrow> ac_terminal (h ! a) \<longleftrightarrow> L a \<in> T"
    using p by (auto simp: plain_trie_def)
  have root: "0 < length h" "L 0 = []" using is_trieD(1,2) [OF t] by auto
  let ?h = "foldl (\<lambda>h' d. set_fail h' d 0) h (map snd es)"
  define K where "K = snd ` set es"
  have K: "K = {d. d < length h \<and> (\<exists>r. L d = [r])}" "distinct (map snd es)" "set (map snd es) = K"
    using edge_list [OF t root(1) es] root(2) by (auto simp: K_def)
  have fields: "length ?h = length h" "\<And>a. ac_next (?h ! a) = ac_next (h ! a)"
    "\<And>a. ac_terminal (?h ! a) = ac_terminal (h ! a)"
    by (simp_all add: foldl_set_fail)
  have "set (map snd es) \<subseteq> {..<length h}" using K(1,3) by auto
  from foldl_set_fail_link [OF this] have link: "ac_fail (?h ! a) = (if a \<in> K then Some 0 else ac_fail (h ! a))" for a
    unfolding K(3) .
  have zero: "0 \<notin> K" using K(1) root(2) by auto
  show ?thesis
    unfolding queue_ok_def fields
  proof (intro conjI allI impI ballI)
    show "is_trie ?h L S" using t by (simp add: is_trie_def foldl_set_fail)
       (metis fields(1) length_0_conv)
    show "ac_fail (?h ! 0) = None" using plain [OF root(1)] zero by (simp add: link)
    show "\<not> ac_terminal (h ! 0)" using word [OF root(1)] root(2) T by simp
    show "if ac_fail (?h ! a) = None then ac_terminal (h ! a) \<longleftrightarrow> L a \<in> T
        else linked L (length h) S T a (?h ! a)" if "a < length h" "a \<noteq> 0" for a
    proof (cases "a \<in> K")
      case True
      then obtain r where r: "L a = [r]" using K(1) by blast
      have "ends T [r] \<longleftrightarrow> [r] \<in> T" using T by (auto simp: ends_def suffix_Cons)
      then show ?thesis
        using word [OF that(1)] True root r by (auto simp: linked_def link_ok_def link fields)
    next
      case False
      then show ?thesis using word [OF that(1)] plain [OF that(1)] by (simp add: link)
    qed
    show "distinct (map snd es)" by (rule K(2))
    show "q < length h" "q \<noteq> 0" "ac_fail (?h ! q) \<noteq> None" if q: "q \<in> set (map snd es)" for q
    proof -
      have "q \<in> K" using q unfolding K(3) .
      with zero show "q \<noteq> 0" by (intro notI) simp
      from \<open>q \<in> K\<close> show "ac_fail (?h ! q) \<noteq> None" by (simp add: link)
      from \<open>q \<in> K\<close> show "q < length h" by (simp add: K(1))
    qed
    have "map (\<lambda>q. length (L q)) (map snd es) = replicate (length es) 1"
    proof (rule replicate_eqI)
      fix y assume "y \<in> set (map (\<lambda>q. length (L q)) (map snd es))"
      then obtain q where "q \<in> K" "y = length (L q)" unfolding K(3) [symmetric] by auto
      then show "y = 1" by (auto simp: K(1))
    qed simp
    then show "sorted (map (\<lambda>q. length (L q)) (map snd es))" by simp
    show "length (L q) \<le> length (L (hd (map snd es))) + 1" if "q \<in> set (map snd es)" for q
      using that unfolding K(3) by (auto simp: K(1))
    show "ac_fail (?h ! b) \<noteq> None \<longleftrightarrow> a = 0 \<or> (ac_fail (?h ! a) \<noteq> None \<and> a \<notin> set (map snd es))"
      if ab: "a < length h" "b < length h" "L b = L a @ [r]" for a b r
    proof -
      have "b \<in> K \<longleftrightarrow> a = 0" using trie_root [OF t ab(1)] ab K(1) by auto
      then show ?thesis using plain [OF ab(1)] plain [OF ab(2)] unfolding K(3) by (auto simp: link)
    qed
  qed
qed

text \<open>All nodes are linked at the end.\<close>

lemma all_linked:
  assumes q: "queue_ok L S T h []" and b: "b < length h" "b \<noteq> 0"
  shows "linked L (length h) S T b (h ! b)"
proof -
  have "ac_fail (h ! b) \<noteq> None"
    using b
  proof (induction "length (L b)" arbitrary: b rule: less_induct)
    case less
    obtain a r where a: "a < length h" "L b = L a @ [r]"
      using trie_parent [OF queue_okD(1) [OF q] less.prems] .
    with less.hyps [of a] have "a = 0 \<or> ac_fail (h ! a) \<noteq> None" by auto
    then show ?case using queue_okD(10) [OF q a(1) less.prems(1) a(2)] by simp
  qed
  then show ?thesis using queue_okD(5) [OF q b] by simp
qed

lemma fall_back_ok:
  assumes q: "queue_ok L S T h []" and a: "a < length h"
  shows "\<exists>b < length h. fall_back h r a = Some b \<and>
    (case map_of (ac_next (h ! b)) r of Some d \<Rightarrow> d < length h \<and> L d = best S (L a @ [r])
     | None \<Rightarrow> best S (L a @ [r]) = [])"
  using a
proof (induction "length (L a)" arbitrary: a rule: less_induct)
  case less
  note t = queue_okD(1) [OF q]
  show ?case
  proof (cases "a \<noteq> 0 \<and> map_of (ac_next (h ! a)) r = None")
    case False
    then have stop: "fall_back h r a = Some a" by (subst fall_back.simps) auto
    show ?thesis
    proof (cases "map_of (ac_next (h ! a)) r")
      case None
      then have "L a = []" "[r] \<notin> S"
        using False trie_no_edge [OF t less.prems, of r] is_trieD(2) [OF t] by auto
      then show ?thesis using stop None less.prems by (intro exI [of _ a]) simp
    next
      case (Some d)
      then have d: "d < length h" "L d = L a @ [r]" using trie_edge [OF t less.prems] by auto
      then have "L a @ [r] \<in> S" using is_trieD(4) [OF t] by (metis imageI lessThan_iff)
      then show ?thesis using stop Some less.prems d by (intro exI [of _ a]) (simp add: best_self)
    qed
  next
    case True
    then have word: "L a \<noteq> []" "L a @ [r] \<notin> S"
      using trie_root [OF t less.prems] trie_no_edge [OF t less.prems] by simp_all
    from all_linked [OF q less.prems] True obtain f where
      f: "f < length h" "ac_fail (h ! a) = Some f" "L f = best S (tl (L a))"
      by (auto simp: linked_def link_ok_def)
    have "length (L f) < length (L a)" using shorter [OF word(1)] f(3) by simp
    from less.hyps [OF this f(1)] obtain b where b: "b < length h" "fall_back h r f = Some b"
      "case map_of (ac_next (h ! b)) r of Some d \<Rightarrow> d < length h \<and> L d = best S (L f @ [r])
       | None \<Rightarrow> best S (L f @ [r]) = []"
      by blast
    moreover have "best S (L f @ [r]) = best S (L a @ [r])"
      unfolding f(3) best_append [OF trie_closed [OF t]] best_fall [OF word(2,1)] ..
    moreover have "fall_back h r a = fall_back h r f"
      by (subst fall_back.simps) (simp add: True f(2))
    ultimately show ?thesis by (intro exI [of _ b]) (simp only: simp_thms)
  qed
qed

lemma scan_ok:
  assumes q: "queue_ok L S T h []" and T: "T \<subseteq> S" "[] \<notin> T"
    and a: "a < length h" "L a = best S u"
  shows "scan h a rs = Some (\<exists>v. v \<noteq> [] \<and> prefix v rs \<and> ends T (u @ v))"
  using a
proof (induction rs arbitrary: a u)
  case (Cons r rs)
  note t = queue_okD(1) [OF q]
  have at: "best S (L a @ [r]) = best S (u @ [r])"
    unfolding Cons.prems(2) by (rule best_append [OF trie_closed [OF t]])
  obtain b where b: "fall_back h r a = Some b" "b < length h"
    "case map_of (ac_next (h ! b)) r of Some d \<Rightarrow> d < length h \<and> L d = best S (L a @ [r])
     | None \<Rightarrow> best S (L a @ [r]) = []"
    using fall_back_ok [OF q Cons.prems(1), of r] by auto
  define c where "c = (case map_of (ac_next (h ! b)) r of Some d \<Rightarrow> d | None \<Rightarrow> 0)"
  have c: "c < length h" "L c = best S (u @ [r])"
    using b(2,3) is_trieD(2) [OF t] at by (auto simp: c_def split: option.splits)
  have hit: "ac_terminal (h ! c) \<longleftrightarrow> ends T (u @ [r])"
  proof -
    have "ends T (best S w) \<longleftrightarrow> ends T w" for w
      using T(1) best_max [of _ w S] suffix_order.trans [OF _ best_suffix [of S w]]
      unfolding ends_def by blast
    moreover have "ac_terminal (h ! c) \<longleftrightarrow> ends T (L c)"
    proof (cases "c = 0")
      case True
      then show ?thesis using queue_okD(3) [OF q] is_trieD(2) [OF t] T(2) by (auto simp: ends_def)
    qed (use all_linked [OF q c(1)] in \<open>simp add: linked_def\<close>)
    ultimately show ?thesis by (simp add: c(2))
  qed
  have split: "(\<exists>v. v \<noteq> [] \<and> prefix v (r # rs) \<and> ends T (u @ v)) \<longleftrightarrow>
      ends T (u @ [r]) \<or> (\<exists>v. v \<noteq> [] \<and> prefix v rs \<and> ends T ((u @ [r]) @ v))"
    (is "?lhs \<longleftrightarrow> ?rhs")
  proof
    assume ?lhs
    then obtain v where v: "prefix v rs" "ends T (u @ r # v)" by (auto simp: prefix_Cons)
    then show ?rhs by (cases "v = []") auto
  next
    assume ?rhs
    then show ?lhs
    proof
      assume "ends T (u @ [r])"
      then show ?lhs by (intro exI [of _ "[r]"]) simp
    next
      assume "\<exists>v. v \<noteq> [] \<and> prefix v rs \<and> ends T ((u @ [r]) @ v)"
      then obtain v where "prefix v rs" "ends T (u @ r # v)" by auto
      then show ?lhs by (intro exI [of _ "r # v"]) simp
    qed
  qed
  show ?case
    using b(1) hit Cons.IH [OF c] by (simp add: split c_def [symmetric] del: append_assoc)
qed simp

lemma contains_correct:
  assumes "permutes ord"
  shows "\<exists>m. buildAC ord patterns = Some m \<and> ac_pattern_count m = length patterns \<and>
    (\<forall>text. contains m text = Some (\<exists>p \<in> set patterns. p \<noteq> [] \<and> sublist p text))"
proof -
  let ?T = "targets patterns" and ?S = "stems patterns"
  obtain L where L: "plain_trie (build_trie patterns) L ?S ?T" using build_trie_ok by blast
  have T: "?T \<subseteq> ?S" "[] \<notin> ?T" by (auto simp: targets_def stems_def)
  let ?es = "ord 0 (ac_next (build_trie patterns ! 0))"
  have "mset ?es = mset (ac_next (build_trie patterns ! 0))" using assms by (simp add: permutes_def)
  from link_queue_ok [OF start_ok [OF L T(2) this] T assms] obtain h where
    h: "link_queue ord (foldl (\<lambda>h' d. set_fail h' d 0) (build_trie patterns) (map snd ?es)) (map snd ?es) = Some h"
    "queue_ok L ?S ?T h []"
    by blast
  have root: "0 < length h" "L 0 = best ?S []"
    using is_trieD(1,2) [OF queue_okD(1) [OF h(2)]] by auto
  have "(\<exists>v. v \<noteq> [] \<and> prefix v w \<and> ends ?T v) \<longleftrightarrow> (\<exists>p \<in> set patterns. p \<noteq> [] \<and> sublist p w)" for w
  proof
    assume "\<exists>v. v \<noteq> [] \<and> prefix v w \<and> ends ?T v"
    then obtain v p where "prefix v w" "suffix p v" "p \<in> set patterns" "p \<noteq> []"
      by (auto simp: ends_def targets_def)
    moreover from this obtain x y where "w = (x @ p) @ y" unfolding prefix_def suffix_def by blast
    ultimately show "\<exists>p \<in> set patterns. p \<noteq> [] \<and> sublist p w"
      by (intro bexI [of _ p]) (auto simp: sublist_def)
  next
    assume "\<exists>p \<in> set patterns. p \<noteq> [] \<and> sublist p w"
    then obtain p x y where "p \<in> set patterns" "p \<noteq> []" "w = x @ p @ y" by (auto simp: sublist_def)
    then show "\<exists>v. v \<noteq> [] \<and> prefix v w \<and> ends ?T v"
      by (intro exI [of _ "x @ p"]) (auto simp: ends_def targets_def suffix_def intro!: bexI [of _ p])
  qed
  then have "scan h 0 w = Some (\<exists>p \<in> set patterns. p \<noteq> [] \<and> sublist p w)" for w
    using scan_ok [OF h(2) T root] by simp
  then show ?thesis by (simp add: buildAC_def Let_def h(1) contains_def)
qed

text \<open>C17: the automaton agrees with the naive search.  In whatever order the maps of the nodes are
  visited, its construction ends, and the scan of any text ends, never follows a nil pointer, and
  reports a hit exactly when some non-empty pattern is a contiguous part of the text.\<close>

theorem automaton_finds_patterns:
  assumes "permutes ord"
  shows "\<exists>m. buildAC ord patterns = Some m \<and>
    (\<forall>w. contains m w = Some (\<exists>p \<in> set patterns. p \<noteq> [] \<and> sublist p w))"
  using contains_correct [OF assms, of patterns] by blast

lemma automaton_finds_patterns_witness:
  "\<exists>m. buildAC (\<lambda>a. rev) [[1, 2, 3], [2, 4], []] = Some m \<and>
     contains m [9, 1, 2, 4] = Some True \<and> contains m [1, 2, 1, 4] = Some False"
proof -
  have "sublist [2, 4] [9, 1, 2, 4 :: nat]" by code_simp
  moreover have "\<not> sublist [1, 2, 3] [1, 2, 1, 4 :: nat]" "\<not> sublist [2, 4] [1, 2, 1, 4 :: nat]" by code_simp+
  ultimately show ?thesis
    using automaton_finds_patterns [of "\<lambda>a. rev" "[[1, 2, 3], [2, 4], []]"] by (auto simp: permutes_def)
qed

end
