(* ===== verification/Runes.thy ===== *)
theory Runes
  imports Go_Std
begin

text \<open>
  Strings as Go's \<open>range\<close> loop and \<open>[]rune\<close> conversion see them: the code points of the UTF-8 encoding, where a byte
  that starts no valid encoding stands for the replacement character.
\<close>

section \<open>The size of the first rune\<close>

definition between :: "nat \<Rightarrow> nat \<Rightarrow> nat \<Rightarrow> bool" where
  "between lo hi n \<longleftrightarrow> lo \<le> n \<and> n \<le> hi"

definition continues :: "nat \<Rightarrow> bool" where
  "continues = between 0x80 0xBF"

definition second_of_three :: "nat \<Rightarrow> nat \<Rightarrow> bool" where
  "second_of_three a = between (if a = 0xE0 then 0xA0 else 0x80) (if a = 0xED then 0x9F else 0xBF)"

definition second_of_four :: "nat \<Rightarrow> nat \<Rightarrow> bool" where
  "second_of_four a = between (if a = 0xF0 then 0x90 else 0x80) (if a = 0xF4 then 0x8F else 0xBF)"

fun first_rune_size :: "nat list \<Rightarrow> nat" where
  "first_rune_size (a # b # c # d # _) =
     (if between 0xC2 0xDF a \<and> continues b then 2
      else if between 0xE0 0xEF a \<and> second_of_three a b \<and> continues c then 3
      else if between 0xF0 0xF4 a \<and> second_of_four a b \<and> continues c \<and> continues d then 4
      else 1)"
| "first_rune_size (a # b # c # _) =
     (if between 0xC2 0xDF a \<and> continues b then 2
      else if between 0xE0 0xEF a \<and> second_of_three a b \<and> continues c then 3
      else 1)"
| "first_rune_size (a # b # _) = (if between 0xC2 0xDF a \<and> continues b then 2 else 1)"
| "first_rune_size _ = 1"

lemma first_rune_size_pos: "0 < first_rune_size bytes"
  by (cases bytes rule: first_rune_size.cases) auto

section \<open>Decoding and encoding\<close>

fun rune_of :: "nat list \<Rightarrow> nat" where
  "rune_of [a] = (if a < 0x80 then a else 0xFFFD)"
| "rune_of [a, b] = (a - 0xC0) * 64 + (b - 0x80)"
| "rune_of [a, b, c] = (a - 0xE0) * 4096 + (b - 0x80) * 64 + (c - 0x80)"
| "rune_of [a, b, c, d] = (a - 0xF0) * 262144 + (b - 0x80) * 4096 + (c - 0x80) * 64 + (d - 0x80)"
| "rune_of _ = 0xFFFD"

function decode_runes :: "nat list \<Rightarrow> nat list" where
  "decode_runes [] = []"
| "decode_runes (b # bytes) =
     rune_of (take (first_rune_size (b # bytes)) (b # bytes)) #
     decode_runes (drop (first_rune_size (b # bytes)) (b # bytes))"
  by pat_completeness auto
termination
proof (relation "measure length")
  show "(drop (first_rune_size (b # bytes)) (b # bytes), b # bytes) \<in> measure length" for b bytes
    using first_rune_size_pos [of "b # bytes"] by simp
qed simp

definition encode_rune :: "nat \<Rightarrow> nat list" where
  "encode_rune r =
     (if r < 0x80 then [r]
      else if r < 0x800 then [0xC0 + r div 64, 0x80 + r mod 64]
      else if r < 0x10000 then [0xE0 + r div 4096, 0x80 + (r div 64) mod 64, 0x80 + r mod 64]
      else [0xF0 + r div 262144, 0x80 + (r div 4096) mod 64, 0x80 + (r div 64) mod 64, 0x80 + r mod 64])"

definition runes :: "string \<Rightarrow> nat list" where
  "runes s = decode_runes (map of_char s)"

definition of_runes :: "nat list \<Rightarrow> string" where
  "of_runes rs = map char_of (concat (map encode_rune rs))"

text \<open>\<open>utf8.RuneCountInString\<close>.\<close>

definition rune_count :: "string \<Rightarrow> nat" where
  "rune_count s = length (runes s)"

definition valid_rune :: "nat \<Rightarrow> bool" where
  "valid_rune r \<longleftrightarrow> r < 0xD800 \<or> between 0xE000 0x10FFFF r"

section \<open>Encoded runes are read back\<close>

lemma first_rune_ascii [simp]: "a < 0x80 \<Longrightarrow> first_rune_size (a # bs) = 1"
  by (cases "a # bs" rule: first_rune_size.cases) (auto simp: between_def)

lemma decode_ascii [simp]: "a < 0x80 \<Longrightarrow> decode_runes (a # bs) = a # decode_runes bs"
  by simp

text \<open>A number in base 64, as the encoding splits it.\<close>

lemma base64_split:
  obtains a b c :: nat where "r = 4096 * a + 64 * b + c" "b < 64" "c < 64"
    "a = r div 4096" "b = r div 64 mod 64" "c = r mod 64"
proof
  have "r div 4096 = r div 64 div 64" by (simp flip: div_mult2_eq)
  then show "r = 4096 * (r div 4096) + 64 * (r div 64 mod 64) + r mod 64"
    using mult_div_mod_eq [of 64 r] mult_div_mod_eq [of 64 "r div 64"] by linarith
qed simp_all

lemma decode_two:
  assumes "2 \<le> a" "a < 32" "c < 64"
  shows "decode_runes ([0xC0 + a, 0x80 + c] @ bs) = (64 * a + c) # decode_runes bs"
proof -
  have "first_rune_size ([0xC0 + a, 0x80 + c] @ bs) = 2"
    using assms by (cases bs; cases "tl bs") (auto simp: between_def continues_def)
  then show ?thesis by simp
qed

lemma decode_three:
  assumes "a < 16" "b < 64" "c < 64" "a = 0 \<longrightarrow> 32 \<le> b" "a = 13 \<longrightarrow> b < 32"
  shows "decode_runes ([0xE0 + a, 0x80 + b, 0x80 + c] @ bs) = (4096 * a + 64 * b + c) # decode_runes bs"
proof -
  have "first_rune_size ([0xE0 + a, 0x80 + b, 0x80 + c] @ bs) = 3"
    using assms by (cases bs) (auto simp: between_def continues_def second_of_three_def)
  then show ?thesis by simp
qed

lemma decode_four:
  assumes "e < 5" "a < 64" "b < 64" "c < 64" "e = 0 \<longrightarrow> 16 \<le> a" "e = 4 \<longrightarrow> a < 16"
  shows "decode_runes ([0xF0 + e, 0x80 + a, 0x80 + b, 0x80 + c] @ bs) =
    (262144 * e + 4096 * a + 64 * b + c) # decode_runes bs"
proof -
  have "first_rune_size ([0xF0 + e, 0x80 + a, 0x80 + b, 0x80 + c] @ bs) = 4"
    using assms by (auto simp: between_def continues_def second_of_four_def)
  then show ?thesis by simp
qed

lemma decode_encode:
  assumes "valid_rune r"
  shows "decode_runes (encode_rune r @ bs) = r # decode_runes bs"
proof -
  obtain a b c where abc: "r = 4096 * a + 64 * b + c" "b < 64" "c < 64"
    "a = r div 4096" "b = r div 64 mod 64" "c = r mod 64"
    by (rule base64_split)
  have "r \<le> 0x10FFFF" using assms by (auto simp: valid_rune_def between_def)
  consider (one) "r < 0x80" | (two) "0x80 \<le> r" "r < 0x800" | (three) "0x800 \<le> r" "r < 0x10000"
    | (four) "0x10000 \<le> r" by linarith
  then show ?thesis
  proof cases
    case one
    then show ?thesis by (simp add: encode_rune_def)
  next
    case two
    have e: "encode_rune r = [0xC0 + r div 64, 0x80 + c]" using two abc(6) by (simp add: encode_rune_def)
    have "r div 64 * 64 + c = r" using abc(6) by simp
    then show ?thesis using decode_two [of "r div 64" c bs] two abc(3) unfolding e by simp
  next
    case three
    have e: "encode_rune r = [0xE0 + a, 0x80 + b, 0x80 + c]" using three abc(4-6) by (simp add: encode_rune_def)
    have "a = 13 \<longrightarrow> b < 32" using assms abc(1-3) by (auto simp: valid_rune_def between_def)
    then show ?thesis using decode_three [of a b c bs] three abc(1-3) unfolding e by simp
  next
    case four
    obtain e' a' where ea: "a = 64 * e' + a'" "a' < 64" "e' = a div 64" "a' = a mod 64" by simp
    have "a div 64 = r div 262144" by (simp add: abc(4) flip: div_mult2_eq)
    then have e: "encode_rune r = [0xF0 + e', 0x80 + a', 0x80 + b, 0x80 + c]"
      using four abc(4-6) ea(3,4) by (simp add: encode_rune_def)
    have "262144 * e' + 4096 * a' + 64 * b + c = r" using abc(1) ea(1) by simp
    then show ?thesis
      using decode_four [of e' a' b c bs] four abc(2,3) ea(2) \<open>r \<le> 0x10FFFF\<close> unfolding e by simp
  qed
qed

lemma decode_concat:
  "\<forall>r \<in> set rs. valid_rune r \<Longrightarrow> decode_runes (concat (map encode_rune rs) @ bs) = rs @ decode_runes bs"
  by (induction rs) (simp_all add: decode_encode)

lemma encode_rune_bytes: "valid_rune r \<Longrightarrow> b \<in> set (encode_rune r) \<Longrightarrow> b < 256"
  by (auto simp: encode_rune_def valid_rune_def between_def split: if_splits)

lemma of_char_of: "\<forall>b \<in> set bs. b < (256 :: nat) \<Longrightarrow> map of_char (map char_of bs :: string) = bs"
  by (induction bs) simp_all

lemma runes_of_runes:
  assumes "\<forall>r \<in> set rs. valid_rune r"
  shows "runes (of_runes rs) = rs"
proof -
  have "\<forall>b \<in> set (concat (map encode_rune rs)). b < 256" using assms encode_rune_bytes by auto
  then have "map of_char (of_runes rs) = concat (map encode_rune rs)"
    unfolding of_runes_def by (rule of_char_of)
  then show ?thesis using decode_concat [OF assms, of "[]"] by (simp add: runes_def)
qed

section \<open>What a string decodes to\<close>

lemma first_rune_size_le: "bytes \<noteq> [] \<Longrightarrow> first_rune_size bytes \<le> length bytes"
  by (cases bytes rule: first_rune_size.cases) auto

lemma rune_of_valid:
  "bytes \<noteq> [] \<Longrightarrow> valid_rune (rune_of (take (first_rune_size bytes) bytes))"
  by (cases bytes rule: first_rune_size.cases)
    (auto simp: valid_rune_def between_def continues_def second_of_three_def second_of_four_def split: if_splits)

lemma decode_valid: "\<forall>r \<in> set (decode_runes bytes). valid_rune r"
  by (induction bytes rule: decode_runes.induct) (use rune_of_valid in auto)

lemma runes_valid: "r \<in> set (runes s) \<Longrightarrow> valid_rune r"
  using decode_valid by (auto simp: runes_def)

text \<open>An ASCII byte starts a rune, whatever precedes it.\<close>

definition starts_ascii :: "nat list \<Rightarrow> bool" where
  "starts_ascii bs \<longleftrightarrow> (bs \<noteq> [] \<longrightarrow> hd bs < 0x80)"

lemma first_rune_size_append:
  "bytes \<noteq> [] \<Longrightarrow> starts_ascii bs \<Longrightarrow> first_rune_size (bytes @ bs) = first_rune_size bytes"
  by (cases bytes rule: first_rune_size.cases; cases bs rule: first_rune_size.cases)
    (auto simp: starts_ascii_def between_def continues_def second_of_three_def second_of_four_def)

lemma decode_append:
  "starts_ascii bs \<Longrightarrow> decode_runes (bytes @ bs) = decode_runes bytes @ decode_runes bs"
proof (induction bytes rule: decode_runes.induct)
  case (2 b bytes)
  have "first_rune_size ((b # bytes) @ bs) = first_rune_size (b # bytes)"
    by (rule first_rune_size_append) (use 2 in simp_all)
  moreover have le: "first_rune_size (b # bytes) \<le> length (b # bytes)" by (rule first_rune_size_le) simp
  have "take (first_rune_size (b # bytes)) ((b # bytes) @ bs) = take (first_rune_size (b # bytes)) (b # bytes)"
    "drop (first_rune_size (b # bytes)) ((b # bytes) @ bs) = drop (first_rune_size (b # bytes)) (b # bytes) @ bs"
    unfolding take_append drop_append using le by simp_all
  ultimately show ?case using 2 by simp
qed simp

lemma runes_append: "t = '''' \<or> of_char (hd t) < (0x80 :: nat) \<Longrightarrow> runes (s @ t) = runes s @ runes t"
  using decode_append [of "map of_char t" "map of_char s"]
  by (cases t) (auto simp: runes_def starts_ascii_def)

lemma runes_Nil [simp]: "runes [] = []"
  by (simp add: runes_def)

lemma runes_Nil_iff [simp]: "runes s = [] \<longleftrightarrow> s = []"
  by (cases s) (auto simp: runes_def)

lemma runes_ascii: "of_char c < (0x80 :: nat) \<Longrightarrow> runes (c # s) = of_char c # runes s"
  by (simp add: runes_def)

end
