(* ===== verification/Local_Spam.thy ===== *)
theory Local_Spam
  imports Spam Keyword Runes
begin

text \<open>
  The local keyword detector around the automaton (\<open>internal/platform/spam/local.go\<close>): reading the
  keyword file, reloading it when its signature changes, and the check.  The operating system
  answers \<open>stat\<close> and the reads (the record \<open>keyword_file\<close>); \<open>norm.NFKC\<close> and \<open>cases.Fold\<close> of
  \<open>golang.org/x/text\<close> are the two functions of \<open>text_library\<close>.
\<close>

record text_library =
  tl_nfkc :: "string \<Rightarrow> string"
  tl_fold :: "string \<Rightarrow> string"

section \<open>UTF-8\<close>

text \<open>\<open>utf8.Valid\<close>: no byte stands alone but an ASCII character.\<close>

function valid_bytes :: "nat list \<Rightarrow> bool" where
  "valid_bytes [] = True"
| "valid_bytes (b # bytes) =
     ((b < 0x80 \<or> 1 < first_rune_size (b # bytes)) \<and>
      valid_bytes (drop (first_rune_size (b # bytes)) (b # bytes)))"
  by pat_completeness auto
termination
proof (relation "measure length")
  show "(drop (first_rune_size (b # bytes)) (b # bytes), b # bytes) \<in> measure length" for b bytes
    using first_rune_size_pos [of "b # bytes"] by simp
qed simp

definition valid_utf8 :: "string \<Rightarrow> bool" where
  "valid_utf8 s = valid_bytes (map of_char s)"

section \<open>The keyword file\<close>

abbreviation "maxKeywordFileSize \<equiv> (67108864 :: int)"
abbreviation "maxKeywordLineLen \<equiv> (4000 :: nat)"

record file_signature =
  fs_size :: int
  fs_mtime :: int

text \<open>What opening and reading the file gives; \<open>None\<close> is an error of that call.\<close>

record keyword_file =
  kf_info :: "(bool \<times> int) option"
  kf_data :: "string option"
  kf_after :: "file_signature option"

definition normalizeKeyword :: "text_library \<Rightarrow> string \<Rightarrow> string" where
  "normalizeKeyword L raw = tl_fold L (tl_nfkc L raw)"

fun keyword_lines :: "text_library \<Rightarrow> string list \<Rightarrow> string list \<Rightarrow> string list option" where
  "keyword_lines L out [] = Some out"
| "keyword_lines L out (raw # raws) =
     (let line = TrimSpace raw in
      if line = '''' then keyword_lines L out raws
      else if length line > maxKeywordLineLen then None
      else let key = normalizeKeyword L line in
           if key \<in> set out then keyword_lines L out raws else keyword_lines L (out @ [key]) raws)"

definition parseKeywordLines :: "text_library \<Rightarrow> string \<Rightarrow> string list option" where
  "parseKeywordLines L content = keyword_lines L [] (Split (CHR 0x0A) content)"

definition loadKeywordFile :: "text_library \<Rightarrow> keyword_file option \<Rightarrow> file_signature \<Rightarrow> string list option" where
  "loadKeywordFile L opened before =
     Option.bind opened (\<lambda>f.
     Option.bind (kf_info f) (\<lambda>(regular, size).
     if \<not> regular then None
     else if size > maxKeywordFileSize then None
     else
     Option.bind (kf_data f) (\<lambda>bytes.
     let content = take (nat (maxKeywordFileSize + 1)) bytes in
     if int (length content) > maxKeywordFileSize then None
     else
     Option.bind (kf_after f) (\<lambda>after.
     if after \<noteq> before then None
     else if \<not> valid_utf8 content then None
     else parseKeywordLines L content))))"

section \<open>The matcher\<close>

record keyword_snapshot =
  ks_signature :: file_signature
  ks_matcher :: ac_machine

text \<open>
  One call: the state is the current snapshot; the outer option is \<open>None\<close> when the call does not
  return.
\<close>

definition reloadIfChanged ::
  "text_library \<Rightarrow> map_order \<Rightarrow> file_signature option \<Rightarrow> keyword_file option \<Rightarrow>
     keyword_snapshot option \<Rightarrow> ((error + keyword_snapshot) \<times> keyword_snapshot option) option" where
  "reloadIfChanged L ord stat opened current =
     (case stat of
        None \<Rightarrow>
          Some (case current of Some snap \<Rightarrow> Inr snap | None \<Rightarrow> Inl ErrUnavailable, current)
      | Some sig \<Rightarrow>
          (case current of
             Some snap \<Rightarrow>
               if ks_signature snap = sig then Some (Inr snap, current)
               else (case loadKeywordFile L opened sig of
                       None \<Rightarrow> Some (Inr snap, current)
                     | Some patterns \<Rightarrow>
                         Option.bind (buildAC ord (map runes patterns)) (\<lambda>m.
                         let snap' = \<lparr>ks_signature = sig, ks_matcher = m\<rparr> in Some (Inr snap', Some snap')))
           | None \<Rightarrow>
               (case loadKeywordFile L opened sig of
                  None \<Rightarrow> Some (Inl ErrUnavailable, None)
                | Some patterns \<Rightarrow>
                    Option.bind (buildAC ord (map runes patterns)) (\<lambda>m.
                    let snap' = \<lparr>ks_signature = sig, ks_matcher = m\<rparr> in Some (Inr snap', Some snap')))))"

definition LocalCheck ::
  "text_library \<Rightarrow> map_order \<Rightarrow> bool \<Rightarrow> file_signature option \<Rightarrow> keyword_file option \<Rightarrow> spam_input \<Rightarrow>
     keyword_snapshot option \<Rightarrow> ((error + spam_result) \<times> keyword_snapshot option) option" where
  "LocalCheck L ord check_nickname stat opened x current =
     Option.bind (reloadIfChanged L ord stat opened current) (\<lambda>(r, current').
     case r of
       Inl e \<Rightarrow> Some (Inl e, current')
     | Inr snap \<Rightarrow>
         if ac_pattern_count (ks_matcher snap) = 0 then Some (Inr ResultPass, current')
         else
         Option.bind (contains (ks_matcher snap) (runes (normalizeKeyword L (si_body x)))) (\<lambda>body.
         if body then Some (Inr ResultBlock, current')
         else if check_nickname then
           Option.bind (contains (ks_matcher snap) (runes (normalizeKeyword L (si_nickname x)))) (\<lambda>nickname.
           Some (Inr (if nickname then ResultBlock else ResultPass), current'))
         else Some (Inr ResultPass, current')))"

section \<open>The specification\<close>

text \<open>
  The state of the specification is the keywords in force with the signature of the file they come
  from; a text is blocked when a keyword occurs in it.
\<close>

type_synonym word_list = "file_signature \<times> string list"

definition occurs :: "text_library \<Rightarrow> string list \<Rightarrow> string \<Rightarrow> bool" where
  "occurs L patterns t \<longleftrightarrow>
     (\<exists>p \<in> set patterns. p \<noteq> [] \<and> sublist (runes p) (runes (normalizeKeyword L t)))"

definition keywords_after ::
  "text_library \<Rightarrow> file_signature option \<Rightarrow> keyword_file option \<Rightarrow> word_list option \<Rightarrow> word_list option" where
  "keywords_after L stat opened kws =
     (case stat of
        None \<Rightarrow> kws
      | Some sig \<Rightarrow>
          if map_option fst kws = Some sig then kws
          else (case loadKeywordFile L opened sig of Some patterns \<Rightarrow> Some (sig, patterns) | None \<Rightarrow> kws))"

definition keyword_verdict :: "text_library \<Rightarrow> bool \<Rightarrow> word_list option \<Rightarrow> spam_input \<Rightarrow> error + spam_result" where
  "keyword_verdict L check_nickname kws x =
     (case kws of
        None \<Rightarrow> Inl ErrUnavailable
      | Some (_, patterns) \<Rightarrow>
          Inr (if occurs L patterns (si_body x) \<or> (check_nickname \<and> occurs L patterns (si_nickname x))
               then ResultBlock else ResultPass))"

definition represents :: "map_order \<Rightarrow> keyword_snapshot option \<Rightarrow> word_list option \<Rightarrow> bool" where
  "represents ord snap kws \<longleftrightarrow>
     (case kws of
        None \<Rightarrow> snap = None
      | Some (sig, patterns) \<Rightarrow>
          \<exists>m. buildAC ord (map runes patterns) = Some m \<and>
            snap = Some \<lparr>ks_signature = sig, ks_matcher = m\<rparr>)"

lemma build_keywords:
  assumes "permutes ord"
  obtains m where "buildAC ord (map runes patterns) = Some m" "ac_pattern_count m = length patterns"
    "\<And>t. contains m (runes (normalizeKeyword L t)) = Some (occurs L patterns t)"
proof -
  obtain m where m: "buildAC ord (map runes patterns) = Some m"
    "ac_pattern_count m = length (map runes patterns)"
    "\<forall>w. contains m w = Some (\<exists>p \<in> set (map runes patterns). p \<noteq> [] \<and> sublist p w)"
    using contains_correct [OF assms, of "map runes patterns"] by blast
  show thesis by (rule that [of m]) (use m in \<open>simp_all add: occurs_def\<close>)
qed

lemma reload_refines:
  assumes ord: "permutes ord" and rep: "represents ord current kws"
  shows "\<exists>current'. reloadIfChanged L ord stat opened current =
      Some (case current' of Some snap \<Rightarrow> Inr snap | None \<Rightarrow> Inl ErrUnavailable, current') \<and>
    represents ord current' (keywords_after L stat opened kws)"
proof -
  define B where "B patterns = the (buildAC ord (map runes patterns))" for patterns
  have build: "buildAC ord (map runes patterns) = Some (B patterns)" for patterns
    by (rule build_keywords [OF ord, of patterns]) (simp add: B_def)
  show ?thesis
  proof (cases kws)
    case None
    then show ?thesis
      using rep build
      by (auto simp: represents_def reloadIfChanged_def keywords_after_def Let_def split: option.splits)
  next
    case (Some k)
    then show ?thesis
      using rep build
      by (cases k)
        (auto simp: represents_def reloadIfChanged_def keywords_after_def Let_def split: option.splits)
  qed
qed

definition sample_text :: text_library where
  "sample_text = \<lparr>tl_nfkc = (\<lambda>s. s), tl_fold = (\<lambda>s. s)\<rparr>"

definition sample_keywords :: string where
  "sample_keywords = ''she'' @ [CHR 0x0A] @ ''hers'' @ [CHR 0x0A] @ ''ersatz''"

definition sample_signature :: file_signature where
  "sample_signature = \<lparr>fs_size = 15, fs_mtime = 5\<rparr>"

definition sample_file :: keyword_file where
  "sample_file = \<lparr>kf_info = Some (True, 15), kf_data = Some sample_keywords, kf_after = Some sample_signature\<rparr>"

definition sample_candidate :: spam_input where
  "sample_candidate = \<lparr>si_blog_url = '''', si_permalink = '''', si_comment_type = '''', si_body = ''xshersy'',
     si_nickname = ''n'', si_email = '''', si_author_url = '''', si_ip = '''', si_user_agent = ''''\<rparr>"

lemma sample_load:
  "loadKeywordFile sample_text (Some sample_file) sample_signature = Some [''she'', ''hers'', ''ersatz'']"
proof -
  have "valid_utf8 sample_keywords" "length sample_keywords = 15" by code_simp+
  moreover have "parseKeywordLines sample_text sample_keywords = Some [''she'', ''hers'', ''ersatz'']"
    by code_simp
  ultimately show ?thesis by (simp add: loadKeywordFile_def sample_file_def Let_def)
qed

text \<open>C2: the local keyword detector blocks a comment exactly when one of the keywords in force occurs,
  after normalisation, in its body (or in its nickname when that is checked).  The keywords in force are
  those of the last version of the file that could be read and parsed; only when there has never been
  one does the check fail.  This holds in every order in which the automaton's maps are visited, and
  includes that the construction and the scan end and never follow a nil pointer.\<close>

theorem local_check_refines:
  assumes ord: "permutes ord" and rep: "represents ord current kws"
  shows "\<exists>current'. LocalCheck L ord check_nickname stat opened x current =
      Some (keyword_verdict L check_nickname (keywords_after L stat opened kws) x, current') \<and>
    represents ord current' (keywords_after L stat opened kws)"
proof -
  obtain current' where step: "reloadIfChanged L ord stat opened current =
      Some (case current' of Some snap \<Rightarrow> Inr snap | None \<Rightarrow> Inl ErrUnavailable, current')"
    and rep': "represents ord current' (keywords_after L stat opened kws)"
    using reload_refines [OF assms] by blast
  show ?thesis
  proof (cases "keywords_after L stat opened kws")
    case None
    with step rep' show ?thesis by (auto simp: represents_def LocalCheck_def keyword_verdict_def)
  next
    case (Some k)
    obtain sig patterns where k: "k = (sig, patterns)" by (cases k)
    obtain m where m: "buildAC ord (map runes patterns) = Some m" "ac_pattern_count m = length patterns"
      "\<And>t. contains m (runes (normalizeKeyword L t)) = Some (occurs L patterns t)"
      using build_keywords [OF ord] by metis
    have "occurs L [] t = False" for t by (simp add: occurs_def)
    with step rep' m show ?thesis
      by (auto simp: Some k represents_def LocalCheck_def keyword_verdict_def)
  qed
qed

lemma local_check_refines_witness:
  "\<exists>current'. LocalCheck sample_text (\<lambda>a. rev) True (Some sample_signature) (Some sample_file)
      sample_candidate None = Some (Inr ResultBlock, current')"
proof -
  have "runes (normalizeKeyword sample_text (si_body sample_candidate)) = runes ''x'' @ runes ''she'' @ runes ''rsy''"
    by code_simp
  then have "sublist (runes ''she'') (runes (normalizeKeyword sample_text (si_body sample_candidate)))"
    by (auto simp: sublist_def)
  then have "keyword_verdict sample_text True
      (keywords_after sample_text (Some sample_signature) (Some sample_file) None) sample_candidate = Inr ResultBlock"
    by (simp add: keywords_after_def sample_load keyword_verdict_def occurs_def)
  then show ?thesis
    using local_check_refines [of "\<lambda>a. rev" None None sample_text True "Some sample_signature"
        "Some sample_file" sample_candidate]
    by (auto simp: permutes_def represents_def)
qed

end
