(* ===== verification/Listing_Repo.thy ===== *)
theory Listing_Repo
  imports Comment_View Cursor "HOL-Library.Product_Lexorder"
begin

text \<open>
  The listing queries of \<open>internal/repository/comment.go\<close>, \<open>comment_public_pages.go\<close> and
  \<open>pagination.go\<close>: the recursive relation of visible comments, its projections, the sort orders
  and the keyset predicates, and the administrator's and the owner's lists.  A query is a function
  of the rows it is run on.  \<open>LIKE\<close> is the database's, an argument of the queries that use it.
\<close>

section \<open>The visible relation\<close>

record visible_row =
  vr_comment :: comment
  vr_parent :: "int option"
  vr_root :: "int option"

text \<open>\<open>publicListCteAnchor\<close>: the comments of the thread without a parent, whatever their status.\<close>

definition in_thread :: "int \<Rightarrow> int \<Rightarrow> comment \<Rightarrow> bool" where
  "in_thread sid tid c \<longleftrightarrow> c_site_id c = sid \<and> c_thread_id c = tid"

definition cte_anchor :: "int \<Rightarrow> int \<Rightarrow> comment list \<Rightarrow> visible_row list" where
  "cte_anchor sid tid cs =
     map (\<lambda>c. \<lparr>vr_comment = c, vr_parent = None, vr_root = None\<rparr>)
       (filter (\<lambda>c. in_thread sid tid c \<and> c_parent_id c = None) cs)"

definition is_published :: "visible_row \<Rightarrow> bool" where
  "is_published v \<longleftrightarrow> c_status (vr_comment v) = CommentStatusPublished"

text \<open>
  \<open>publicListCteStep\<close>: a child of a published comment hangs below it; a child of a hidden one
  inherits the nearest published ancestor its parent carries.
\<close>

definition cte_child :: "visible_row \<Rightarrow> comment \<Rightarrow> visible_row" where
  "cte_child v c =
     \<lparr>vr_comment = c,
      vr_parent = (if is_published v then Some (c_id (vr_comment v)) else vr_parent v),
      vr_root = (if is_published v
                 then Some (case vr_root v of Some r \<Rightarrow> r | None \<Rightarrow> c_id (vr_comment v))
                 else vr_root v)\<rparr>"

definition joins_parent :: "visible_row \<Rightarrow> comment \<Rightarrow> bool" where
  "joins_parent v c \<longleftrightarrow> c_parent_id c = Some (c_id (vr_comment v)) \<and>
     c_site_id c = c_site_id (vr_comment v) \<and> c_thread_id c = c_thread_id (vr_comment v)"

definition cte_step :: "int \<Rightarrow> int \<Rightarrow> comment list \<Rightarrow> visible_row list \<Rightarrow> visible_row list" where
  "cte_step sid tid cs work =
     concat (map (\<lambda>v. map (cte_child v)
                        (filter (\<lambda>c. joins_parent v c \<and> in_thread sid tid c) cs)) work)"

text \<open>
  The evaluation of \<open>WITH RECURSIVE ... UNION ALL\<close>: the step runs on the rows the previous round
  added, until a round adds none.
\<close>

partial_function (option) cte_loop ::
  "int \<Rightarrow> int \<Rightarrow> comment list \<Rightarrow> visible_row list \<Rightarrow> visible_row list \<Rightarrow> visible_row list option" where
  "cte_loop sid tid cs acc work =
     (if work = [] then Some acc
      else cte_loop sid tid cs (acc @ work) (cte_step sid tid cs work))"

definition visible :: "int \<Rightarrow> int \<Rightarrow> comment list \<Rightarrow> visible_row list option" where
  "visible sid tid cs = cte_loop sid tid cs [] (cte_anchor sid tid cs)"

section \<open>Projections\<close>

record public_comment =
  pc_comment :: comment
  pc_author_nickname :: string
  pc_author_website :: "string option"
  pc_author_role :: role
  pc_author_email_normalized :: string
  pc_reply_to_nickname :: "string option"
  pc_like_count :: nat
  pc_liked_by_me :: bool

record public_root_comment =
  pr_public :: public_comment
  pr_has_replies :: bool

definition reply_nickname :: "user list \<Rightarrow> comment \<Rightarrow> string option" where
  "reply_nickname us c =
     (case c_reply_to_user_id c of
        None \<Rightarrow> None
      | Some uid \<Rightarrow> map_option u_nickname (select_first (\<lambda>u. u_id u = uid) us))"

text \<open>
  \<open>publicCommentColumns\<close>: the parent and the root are the visible ones; a row whose author does
  not exist is dropped by the join.
\<close>

definition project :: "db \<Rightarrow> int option \<Rightarrow> visible_row \<Rightarrow> public_comment list" where
  "project d viewer v =
     (let c = vr_comment v in
      case select_first (\<lambda>u. u_id u = c_user_id c) (db_users d) of
        None \<Rightarrow> []
      | Some u \<Rightarrow>
          [\<lparr>pc_comment = c\<lparr>c_parent_id := vr_parent v, c_root_id := vr_root v\<rparr>,
            pc_author_nickname = u_nickname u, pc_author_website = u_website_url u,
            pc_author_role = u_role u, pc_author_email_normalized = u_email_normalized u,
            pc_reply_to_nickname = reply_nickname (db_users d) c,
            pc_like_count = like_count_of (c_site_id c) (c_id c) d,
            pc_liked_by_me = (case viewer of
               None \<Rightarrow> False
             | Some uid \<Rightarrow> \<exists>l \<in> set (db_likes d). the_like (c_site_id c) (c_id c) uid l)\<rparr>])"

text \<open>\<open>publicListProjection\<close> and \<open>publicRootProjection\<close>.\<close>

definition public_rows :: "db \<Rightarrow> int option \<Rightarrow> visible_row list \<Rightarrow> public_comment list" where
  "public_rows d viewer vs = concat (map (project d viewer) (filter is_published vs))"

definition root_rows :: "db \<Rightarrow> int option \<Rightarrow> visible_row list \<Rightarrow> public_root_comment list" where
  "root_rows d viewer vs =
     map (\<lambda>p. \<lparr>pr_public = p,
              pr_has_replies = (\<exists>v \<in> set vs. vr_root v = Some (c_id (pc_comment p)) \<and> is_published v)\<rparr>)
       (public_rows d viewer (filter (\<lambda>v. vr_parent v = None) vs))"

section \<open>Orders and keyset predicates\<close>

text \<open>The columns the orders use: the pinned bit, the likes, the creation time and the key.\<close>

type_synonym sort_columns = "int \<times> int \<times> int \<times> int"

definition pinnedExpr :: "bool \<Rightarrow> int" where
  "pinnedExpr pinned = (if pinned then 1 else 0)"

definition sort_columns :: "public_comment \<Rightarrow> sort_columns" where
  "sort_columns p =
     (pinnedExpr (c_is_pinned (pc_comment p)), int (pc_like_count p), c_created_at (pc_comment p),
      c_id (pc_comment p))"

text \<open>\<open>time.UnixMicro\<close> builds the instant a cursor holds; instants are nanoseconds.\<close>

definition UnixMicro_time :: "int \<Rightarrow> int" where
  "UnixMicro_time micros = micros * 1000"

definition UnixMicro :: "int \<Rightarrow> int" where
  "UnixMicro t = t div 1000"

definition after_cursor :: "comment_sort \<Rightarrow> cursor \<Rightarrow> sort_columns \<Rightarrow> bool" where
  "after_cursor srt cur = (\<lambda>(pinned, likes, created, cid).
     let p0 = pinnedExpr (cur_pinned cur); t0 = UnixMicro_time (cur_created_at cur);
         n0 = cur_like_count cur; i0 = cur_id cur
     in case srt of
          CommentSortHot \<Rightarrow> pinned < p0 \<or> (pinned = p0 \<and> (likes < n0 \<or> (likes = n0 \<and>
            (created < t0 \<or> (created = t0 \<and> cid < i0)))))
        | CommentSortDesc \<Rightarrow> pinned < p0 \<or> (pinned = p0 \<and>
            (created < t0 \<or> (created = t0 \<and> cid < i0)))
        | CommentSortAsc \<Rightarrow> pinned < p0 \<or> (pinned = p0 \<and>
            (created > t0 \<or> (created = t0 \<and> cid > i0))))"

text \<open>
  The \<open>ORDER BY\<close> of a sort as a key compared column by column; a column in \<open>DESC\<close> is negated.
\<close>

definition order_key :: "comment_sort \<Rightarrow> sort_columns \<Rightarrow> int \<times> int \<times> int \<times> int" where
  "order_key srt = (\<lambda>(pinned, likes, created, cid).
     case srt of
       CommentSortHot \<Rightarrow> (- pinned, - likes, - created, - cid)
     | CommentSortDesc \<Rightarrow> (- pinned, 0, - created, - cid)
     | CommentSortAsc \<Rightarrow> (- pinned, 0, created, cid))"

definition applyCursorOrder :: "comment_sort \<Rightarrow> comment \<Rightarrow> int \<times> int" where
  "applyCursorOrder srt c =
     (if srt = CommentSortDesc then (- c_created_at c, - c_id c) else (c_created_at c, c_id c))"

definition keyset :: "comment_sort \<Rightarrow> cursor option \<Rightarrow> ('r \<Rightarrow> sort_columns) \<Rightarrow> 'r list \<Rightarrow> 'r list" where
  "keyset srt cur cols rows =
     filter (\<lambda>r. case cur of None \<Rightarrow> True | Some c \<Rightarrow> after_cursor srt c (cols r)) rows"

definition default_limit :: "int \<Rightarrow> int \<Rightarrow> nat" where
  "default_limit dflt limit = nat (if limit \<le> 0 then dflt else limit)"

section \<open>Public lists\<close>

definition sql_visible :: "int \<Rightarrow> int \<Rightarrow> (db \<Rightarrow> visible_row list \<Rightarrow> 'a) \<Rightarrow> 'a sql" where
  "sql_visible sid tid g =
     bind (sql_query (\<lambda>d. map_option (g d) (visible sid tid (db_comments d)))) (\<lambda>r.
     lift (option_to_result ErrInfra r))"

definition Repo_ListPublic ::
  "int \<Rightarrow> int \<Rightarrow> comment_sort \<Rightarrow> cursor option \<Rightarrow> int \<Rightarrow> int option \<Rightarrow> public_comment list sql" where
  "Repo_ListPublic sid tid srt cur limit viewer =
     sql_visible sid tid (\<lambda>d vs.
       take (default_limit 50 limit)
         (sort_key (\<lambda>p. order_key srt (sort_columns p))
           (keyset srt cur sort_columns (public_rows d viewer vs))))"

definition Repo_ListPublicRoots ::
  "int \<Rightarrow> int \<Rightarrow> comment_sort \<Rightarrow> cursor option \<Rightarrow> int \<Rightarrow> int option \<Rightarrow> public_root_comment list sql" where
  "Repo_ListPublicRoots sid tid srt cur limit viewer =
     sql_visible sid tid (\<lambda>d vs.
       take (default_limit 50 limit)
         (sort_key (\<lambda>p. order_key srt (sort_columns (pr_public p)))
           (keyset srt cur (sort_columns \<circ> pr_public) (root_rows d viewer vs))))"

definition reply_columns :: "public_comment \<Rightarrow> sort_columns" where
  "reply_columns p = (0, 0, c_created_at (pc_comment p), c_id (pc_comment p))"

definition reply_after :: "cursor \<Rightarrow> visible_row \<Rightarrow> bool" where
  "reply_after cur v =
     (let t0 = UnixMicro_time (cur_created_at cur); c = vr_comment v
      in c_created_at c > t0 \<or> (c_created_at c = t0 \<and> c_id c > cur_id cur))"

definition reply_order :: "visible_row \<Rightarrow> int \<times> int" where
  "reply_order v = (c_created_at (vr_comment v), c_id (vr_comment v))"

text \<open>
  \<open>requested_root\<close> and \<open>reply_page\<close>; the query reports no row at all when the root is not a visible
  published root.  An author exists by the foreign key, so the outer join is an inner one.
\<close>

definition requested_root :: "int \<Rightarrow> visible_row list \<Rightarrow> bool" where
  "requested_root root vs \<longleftrightarrow>
     (\<exists>v \<in> set vs. c_id (vr_comment v) = root \<and> is_published v \<and> vr_parent v = None)"

definition reply_rows :: "int \<Rightarrow> visible_row list \<Rightarrow> visible_row list" where
  "reply_rows root vs =
     filter (\<lambda>v. is_published v \<and> vr_root v = Some root \<and> c_id (vr_comment v) \<noteq> root) vs"

definition Repo_ListPublicReplies ::
  "int \<Rightarrow> int \<Rightarrow> int \<Rightarrow> cursor option \<Rightarrow> int \<Rightarrow> int option \<Rightarrow> public_comment list sql" where
  "Repo_ListPublicReplies sid tid root cur limit viewer =
     bind (sql_visible sid tid (\<lambda>d vs.
       if requested_root root vs then
         Some (concat (map (project d viewer)
           (take (default_limit 50 limit)
             (sort_key reply_order
               (filter (\<lambda>v. case cur of None \<Rightarrow> True | Some c \<Rightarrow> reply_after c v) (reply_rows root vs))))))
       else None)) (\<lambda>r. lift (option_to_result ErrNotFound r))"

section \<open>Latest, administrator's and owner's lists\<close>

record latest_public_comment =
  lp_comment :: comment
  lp_author_nickname :: string
  lp_author_website :: "string option"
  lp_author_role :: role
  lp_author_email_normalized :: string
  lp_reply_to_nickname :: "string option"
  lp_page_key :: string
  lp_page_url :: "string option"
  lp_page_title :: "string option"

record admin_comment =
  ac_comment :: comment
  ac_author_email :: string
  ac_author_nickname :: string
  ac_author_website :: "string option"
  ac_author_role :: role
  ac_author_email_normalized :: string
  ac_reply_to_nickname :: "string option"

record owner_comment =
  oc_comment :: comment
  oc_author_nickname :: string
  oc_author_website :: "string option"
  oc_author_role :: role
  oc_author_email_normalized :: string
  oc_reply_to_nickname :: "string option"
  oc_site_name :: string
  oc_page_key :: string
  oc_page_url :: "string option"
  oc_page_title :: "string option"

text \<open>The rows a comment joins with: its author, its thread, its site.\<close>

definition author_of :: "db \<Rightarrow> comment \<Rightarrow> user option" where
  "author_of d c = select_first (\<lambda>u. u_id u = c_user_id c) (db_users d)"

definition thread_of :: "db \<Rightarrow> comment \<Rightarrow> thread option" where
  "thread_of d c = select_first (\<lambda>t. t_id t = c_thread_id c) (db_threads d)"

definition site_of :: "db \<Rightarrow> comment \<Rightarrow> site option" where
  "site_of d c = select_first (\<lambda>s. s_id s = c_site_id c) (db_sites d)"

definition latest_row :: "db \<Rightarrow> comment \<Rightarrow> latest_public_comment option" where
  "latest_row d c =
     Option.bind (author_of d c) (\<lambda>u.
     Option.bind (select_first (the_thread (c_site_id c) (c_thread_id c)) (db_threads d)) (\<lambda>t.
     Some \<lparr>lp_comment = c, lp_author_nickname = u_nickname u, lp_author_website = u_website_url u,
           lp_author_role = u_role u, lp_author_email_normalized = u_email_normalized u,
           lp_reply_to_nickname = reply_nickname (db_users d) c, lp_page_key = t_page_key t,
           lp_page_url = t_page_url t, lp_page_title = t_page_title t\<rparr>))"

definition Repo_ListLatestPublic :: "int \<Rightarrow> int \<Rightarrow> latest_public_comment list sql" where
  "Repo_ListLatestPublic sid limit =
     sql_query (\<lambda>d.
       take (default_limit 25 limit)
         (sort_key (\<lambda>r. applyCursorOrder CommentSortDesc (lp_comment r))
           (List.map_filter (latest_row d)
             (filter (\<lambda>c. c_site_id c = sid \<and> c_status c = CommentStatusPublished) (db_comments d)))))"

definition admin_row :: "db \<Rightarrow> comment \<Rightarrow> admin_comment option" where
  "admin_row d c =
     map_option (\<lambda>u. \<lparr>ac_comment = c, ac_author_email = u_email u, ac_author_nickname = u_nickname u,
         ac_author_website = u_website_url u, ac_author_role = u_role u,
         ac_author_email_normalized = u_email_normalized u,
         ac_reply_to_nickname = reply_nickname (db_users d) c\<rparr>) (author_of d c)"

definition opt_eq :: "'a option \<Rightarrow> 'a \<Rightarrow> bool" where
  "opt_eq want x = (case want of None \<Rightarrow> True | Some v \<Rightarrow> x = v)"

definition admin_matches :: "(string \<Rightarrow> string \<Rightarrow> bool) \<Rightarrow> admin_filter \<Rightarrow> admin_comment \<Rightarrow> bool" where
  "admin_matches like f r =
     (let c = ac_comment r; q = TrimSpace (af_q f); pattern = ''%'' @ q @ ''%''
      in opt_eq (af_site_id f) (c_site_id c) \<and> opt_eq (af_thread_id f) (c_thread_id c) \<and>
         opt_eq (af_status f) (c_status c) \<and> opt_eq (af_user_id f) (c_user_id c) \<and>
         (case af_since f of None \<Rightarrow> True | Some t \<Rightarrow> c_created_at c \<ge> t) \<and>
         (case af_until f of None \<Rightarrow> True | Some t \<Rightarrow> c_created_at c \<le> t) \<and>
         (q = '''' \<or> like pattern (c_body_markdown c) \<or> like pattern (ac_author_email r) \<or>
          like pattern (ac_author_email_normalized r) \<or> like pattern (ac_author_nickname r)))"

definition admin_selection ::
  "(string \<Rightarrow> string \<Rightarrow> bool) \<Rightarrow> admin_filter \<Rightarrow> db \<Rightarrow> admin_comment list" where
  "admin_selection like f d = filter (admin_matches like f) (List.map_filter (admin_row d) (db_comments d))"

definition window :: "int \<Rightarrow> int \<Rightarrow> 'r list \<Rightarrow> 'r list" where
  "window offset limit rows = take (default_limit 50 limit) (drop (nat offset) rows)"

definition Repo_ListAdmin :: "(string \<Rightarrow> string \<Rightarrow> bool) \<Rightarrow> admin_filter \<Rightarrow> admin_comment list sql" where
  "Repo_ListAdmin like f =
     sql_query (\<lambda>d. window (af_offset f) (af_limit f)
       (sort_key (\<lambda>r. applyCursorOrder (af_sort f) (ac_comment r)) (admin_selection like f d)))"

definition Repo_CountAdmin :: "(string \<Rightarrow> string \<Rightarrow> bool) \<Rightarrow> admin_filter \<Rightarrow> nat sql" where
  "Repo_CountAdmin like f = sql_query (\<lambda>d. length (admin_selection like f d))"

definition ownerVisibleStatus :: "comment_status list" where
  "ownerVisibleStatus = [CommentStatusPublished, CommentStatusPending, CommentStatusSpam]"

definition owner_row :: "db \<Rightarrow> comment \<Rightarrow> owner_comment option" where
  "owner_row d c =
     Option.bind (author_of d c) (\<lambda>u. Option.bind (site_of d c) (\<lambda>s. Option.bind (thread_of d c) (\<lambda>t.
     Some \<lparr>oc_comment = c, oc_author_nickname = u_nickname u, oc_author_website = u_website_url u,
           oc_author_role = u_role u, oc_author_email_normalized = u_email_normalized u,
           oc_reply_to_nickname = reply_nickname (db_users d) c, oc_site_name = s_name s,
           oc_page_key = t_page_key t, oc_page_url = t_page_url t, oc_page_title = t_page_title t\<rparr>)))"

definition owner_sees :: "int \<Rightarrow> owner_filter \<Rightarrow> comment \<Rightarrow> bool" where
  "owner_sees owner f c \<longleftrightarrow> c_user_id c = owner \<and> c_status c \<in> set ownerVisibleStatus \<and>
     opt_eq (of_site_id f) (c_site_id c) \<and> opt_eq (of_status f) (c_status c)"

definition Repo_ListByOwner :: "int \<Rightarrow> owner_filter \<Rightarrow> owner_comment list sql" where
  "Repo_ListByOwner owner f =
     sql_query (\<lambda>d. window (of_offset f) (of_limit f)
       (sort_key (\<lambda>r. applyCursorOrder CommentSortAsc (oc_comment r))
         (List.map_filter (owner_row d) (filter (owner_sees owner f) (db_comments d)))))"

definition Repo_CountByOwner :: "int \<Rightarrow> owner_filter \<Rightarrow> nat sql" where
  "Repo_CountByOwner owner f = sql_query (\<lambda>d. count_where (owner_sees owner f) (db_comments d))"

definition GetByOwnerAndID :: "int \<Rightarrow> int \<Rightarrow> owner_comment sql" where
  "GetByOwnerAndID owner cid =
     first_or_not_found (\<lambda>d. select_first (\<lambda>_. True)
       (List.map_filter (owner_row d)
         (filter (\<lambda>c. c_user_id c = owner \<and> c_id c = cid \<and> c_status c \<in> set ownerVisibleStatus)
           (db_comments d))))"

definition Repo_ListOwnerSites :: "int \<Rightarrow> site list sql" where
  "Repo_ListOwnerSites owner =
     sql_query (\<lambda>d. sort_key s_id (filter (\<lambda>s. \<exists>c \<in> set (db_comments d).
       c_site_id c = s_id s \<and> c_user_id c = owner \<and> c_status c \<in> set ownerVisibleStatus) (db_sites d)))"

end
