(* ===== verification/Visible.thy ===== *)
theory Visible
  imports Listing_Repo
begin

text \<open>
  The recursive relation of visible comments ends, has one row for every comment of the thread, and
  hangs each comment below its nearest published ancestor.
\<close>

abbreviation vid :: "visible_row \<Rightarrow> int" where "vid v \<equiv> c_id (vr_comment v)"

section \<open>One round\<close>

lemma cte_step_Cons:
  "cte_step sid tid cs (v # work) =
     map (cte_child v) (filter (\<lambda>c. joins_parent v c \<and> in_thread sid tid c) cs) @ cte_step sid tid cs work"
  by (simp add: cte_step_def)

lemma cte_step_Nil [simp]: "cte_step sid tid cs [] = []"
  by (simp add: cte_step_def)

lemma in_cte_step:
  "x \<in> set (cte_step sid tid cs work) \<longleftrightarrow>
     (\<exists>v \<in> set work. \<exists>c \<in> set cs. joins_parent v c \<and> in_thread sid tid c \<and> x = cte_child v c)"
  by (auto simp: cte_step_def)

lemma cte_child_comment [simp]: "vr_comment (cte_child v c) = c"
  by (simp add: cte_child_def)

lemma distinct_map_filter_id: "distinct (map f xs) \<Longrightarrow> distinct (map f (filter P xs))"
  by (induction xs) auto

lemma distinct_map_append:
  "distinct (map f (xs @ ys)) \<longleftrightarrow>
     distinct (map f xs) \<and> distinct (map f ys) \<and> (\<forall>x \<in> set xs. \<forall>y \<in> set ys. f x \<noteq> f y)"
  by (auto simp: image_iff)

lemma cte_step_distinct:
  assumes "distinct (map c_id cs)" "distinct (map vid work)"
  shows "distinct (map vid (cte_step sid tid cs work))"
  using assms(2)
proof (induction work)
  case (Cons v work)
  have apart: "vid x \<noteq> vid y"
    if x: "x \<in> set (map (cte_child v) (filter (\<lambda>c. joins_parent v c \<and> in_thread sid tid c) cs))"
      and y: "y \<in> set (cte_step sid tid cs work)" for x y
  proof -
    from x have "vr_comment x \<in> set cs" "c_parent_id (vr_comment x) = Some (vid v)"
      by (auto simp: joins_parent_def)
    moreover from y have "vr_comment y \<in> set cs" "\<exists>u \<in> set work. c_parent_id (vr_comment y) = Some (vid u)"
      by (auto simp: in_cte_step joins_parent_def)
    moreover have "\<forall>u \<in> set work. vid u \<noteq> vid v" using Cons.prems by (auto simp: image_iff)
    ultimately show ?thesis using assms(1) by (auto simp: distinct_map inj_on_def)
  qed
  have "distinct (map vid (map (cte_child v)
      (filter (\<lambda>c. joins_parent v c \<and> in_thread sid tid c) cs)))"
    using distinct_map_filter_id [OF assms(1)] by (simp add: comp_def)
  with apart Cons show ?case
    by (simp only: cte_step_Cons distinct_map_append) simp
qed simp

section \<open>The loop\<close>

text \<open>A row of a child is the one its parent's row gives.\<close>

definition hung_below :: "visible_row list \<Rightarrow> visible_row \<Rightarrow> bool" where
  "hung_below rows v \<longleftrightarrow>
     (if c_parent_id (vr_comment v) = None then vr_parent v = None \<and> vr_root v = None
      else \<exists>u \<in> set rows. joins_parent u (vr_comment v) \<and> v = cte_child u (vr_comment v))"

definition loop_inv :: "int \<Rightarrow> int \<Rightarrow> comment list \<Rightarrow> visible_row list \<Rightarrow> visible_row list \<Rightarrow> bool" where
  "loop_inv sid tid cs acc work \<longleftrightarrow>
     distinct (map vid (acc @ work)) \<and>
     (\<forall>v \<in> set (acc @ work). vr_comment v \<in> set cs \<and> in_thread sid tid (vr_comment v) \<and> hung_below acc v) \<and>
     (\<forall>c \<in> set cs. in_thread sid tid c \<longrightarrow>
        c_parent_id c = None \<or> (\<exists>u \<in> set acc. joins_parent u c) \<longrightarrow> c \<in> vr_comment ` set (acc @ work))"

lemma loop_invD:
  assumes "loop_inv sid tid cs acc work"
  shows "distinct (map vid acc)" "distinct (map vid work)"
    "\<And>u v. u \<in> set acc \<Longrightarrow> v \<in> set work \<Longrightarrow> vid u \<noteq> vid v"
    "\<And>v. v \<in> set (acc @ work) \<Longrightarrow> vr_comment v \<in> set cs \<and> in_thread sid tid (vr_comment v) \<and> hung_below acc v"
    "\<And>c. c \<in> set cs \<Longrightarrow> in_thread sid tid c \<Longrightarrow> c_parent_id c = None \<or> (\<exists>u \<in> set acc. joins_parent u c) \<Longrightarrow>
       c \<in> vr_comment ` set (acc @ work)"
  using assms unfolding loop_inv_def distinct_map_append by auto

lemma hung_below_mono: "hung_below rows v \<Longrightarrow> set rows \<subseteq> set rows' \<Longrightarrow> hung_below rows' v"
  unfolding hung_below_def by (cases "c_parent_id (vr_comment v)") (simp, auto)

lemma loop_inv_start: "distinct (map c_id cs) \<Longrightarrow> loop_inv sid tid cs [] (cte_anchor sid tid cs)"
  using distinct_map_filter_id [of c_id cs]
  by (force simp: loop_inv_def cte_anchor_def hung_below_def comp_def)

lemma loop_inv_step:
  assumes ids: "distinct (map c_id cs)" and inv: "loop_inv sid tid cs acc work"
  shows "loop_inv sid tid cs (acc @ work) (cte_step sid tid cs work)"
proof -
  let ?new = "cte_step sid tid cs work"
  note I = loop_invD [OF inv]
  have fresh: "vid v \<noteq> vid x" if v: "v \<in> set (acc @ work)" and x: "x \<in> set ?new" for v x
  proof
    assume same: "vid v = vid x"
    from x obtain u c where u: "u \<in> set work" "c \<in> set cs" "joins_parent u c" "x = cte_child u c"
      by (auto simp: in_cte_step)
    with same I(4) [OF v] ids have "vr_comment v = c" by (auto simp: distinct_map inj_on_def)
    with u(3) I(4) [OF v] obtain u' where "u' \<in> set acc" "joins_parent u' c"
      by (auto simp: hung_below_def joins_parent_def split: if_splits)
    with u(1,3) I(3) [of u' u] show False by (simp add: joins_parent_def)
  qed
  have "distinct (map vid ((acc @ work) @ ?new))"
    using inv fresh cte_step_distinct [OF ids I(2)] unfolding loop_inv_def distinct_map_append
    by (simp add: ball_Un)
  moreover have "hung_below (acc @ work) v" if "v \<in> set ((acc @ work) @ ?new)" for v
  proof (cases "v \<in> set ?new")
    case True
    then show ?thesis by (auto simp: in_cte_step hung_below_def joins_parent_def)
  next
    case False
    then have "hung_below acc v" using I(4) that by auto
    then show ?thesis by (rule hung_below_mono) simp
  qed
  moreover have "vr_comment v \<in> set cs \<and> in_thread sid tid (vr_comment v)" if "v \<in> set ((acc @ work) @ ?new)" for v
    using that I(4) [of v] by (auto simp: in_cte_step)
  moreover have "c \<in> vr_comment ` set ((acc @ work) @ ?new)"
    if c: "c \<in> set cs" "in_thread sid tid c" "c_parent_id c = None \<or> (\<exists>u \<in> set (acc @ work). joins_parent u c)" for c
  proof (cases "\<exists>u \<in> set work. joins_parent u c")
    case True
    then obtain u where "u \<in> set work" "joins_parent u c" by blast
    with c(1,2) have "cte_child u c \<in> set ?new" by (auto simp: in_cte_step)
    then show ?thesis by (force simp del: cte_child_comment intro: cte_child_comment [symmetric])
  next
    case False
    then show ?thesis using I(5) [OF c(1,2)] c(3) by auto
  qed
  ultimately show ?thesis unfolding loop_inv_def by blast
qed

lemma loop_ends:
  assumes ids: "distinct (map c_id cs)"
  shows "loop_inv sid tid cs acc work \<Longrightarrow> \<exists>vs. cte_loop sid tid cs acc work = Some vs \<and> loop_inv sid tid cs vs []"
proof (induction "length cs - length acc" arbitrary: acc work rule: less_induct)
  case less
  show ?case
  proof (cases "work = []")
    case True
    with less.prems show ?thesis by (subst cte_loop.simps) simp
  next
    case False
    have "length (acc @ work) \<le> length cs"
    proof -
      have "distinct (map vid (acc @ work))" using less.prems by (simp add: loop_inv_def)
      then have "length (map vid (acc @ work)) = card (set (map vid (acc @ work)))"
        by (rule distinct_card [symmetric])
      also have "\<dots> \<le> card (c_id ` set cs)"
        using loop_invD(4) [OF less.prems] by (intro card_mono) auto
      also have "\<dots> \<le> length cs" using card_image_le [of "set cs" c_id] card_length [of cs] by simp
      finally show ?thesis by simp
    qed
    moreover have "0 < length work" using False by simp
    ultimately have "length cs - length (acc @ work) < length cs - length acc"
      unfolding length_append by linarith
    from less.hyps [OF this loop_inv_step [OF ids less.prems]] False show ?thesis
      by (subst cte_loop.simps) simp
  qed
qed

section \<open>The relation\<close>

text \<open>
  What the queries rely on: every comment of the thread has one row, and the row of a child is the
  one its parent's row gives.
\<close>

definition visible_ok :: "int \<Rightarrow> int \<Rightarrow> comment list \<Rightarrow> visible_row list \<Rightarrow> bool" where
  "visible_ok sid tid cs vs \<longleftrightarrow> distinct (map vid vs) \<and>
     vr_comment ` set vs = {c \<in> set cs. in_thread sid tid c} \<and> (\<forall>v \<in> set vs. hung_below vs v)"

lemma tree_ids: "schema_ok d \<Longrightarrow> distinct (map c_id (db_comments d))"
  by (auto simp: schema_ok_def tables_ok_def keys_ok_def strict_sorted_iff)

lemma visible_total:
  assumes inv: "comment_inv d"
  shows "\<exists>vs. visible sid tid (db_comments d) = Some vs \<and> visible_ok sid tid (db_comments d) vs"
proof -
  let ?cs = "db_comments d"
  have ids: "distinct (map c_id ?cs)" using tree_ids comment_invD(1) [OF inv] by blast
  obtain vs where vs: "visible sid tid ?cs = Some vs" "loop_inv sid tid ?cs vs []"
    using loop_ends [OF ids loop_inv_start [OF ids]] unfolding visible_def by blast
  note I = loop_invD [OF vs(2)]
  have all: "c \<in> vr_comment ` set vs" if "c \<in> set ?cs" "in_thread sid tid c" for c
    using that
  proof (induction "nat (c_depth c)" arbitrary: c rule: less_induct)
    case less
    show ?case
    proof (cases "c_parent_id c")
      case None
      then show ?thesis using I(5) [OF less.prems] by simp
    next
      case (Some p)
      have "parent_ok ?cs c" using inv less.prems(1) by (simp add: comment_inv_def tree_inv_def)
      with Some obtain r where r: "r \<in> set ?cs" "the_comment (c_site_id c) p r"
        "c_thread_id r = c_thread_id c" "c_depth c = c_depth r + 1"
        by (auto simp: parent_ok_iff)
      moreover have "0 \<le> c_depth r"
        using comment_invD(1) [OF inv] r(1) by (auto simp: schema_ok_def comment_checks_def)
      ultimately have "r \<in> vr_comment ` set vs"
        using less.hyps [of r] less.prems(2) by (simp add: in_thread_def the_comment_def)
      then obtain u where "u \<in> set vs" "vr_comment u = r" by blast
      with r Some have "joins_parent u c" by (auto simp: joins_parent_def the_comment_def)
      with \<open>u \<in> set vs\<close> I(5) [OF less.prems] show ?thesis by auto
    qed
  qed
  have "visible_ok sid tid ?cs vs"
    using I(1,4) all by (auto simp: visible_ok_def)
  with vs(1) show ?thesis by blast
qed

lemma visible_okD:
  assumes "visible_ok sid tid cs vs"
  shows "distinct (map vid vs)" "\<And>v. v \<in> set vs \<Longrightarrow> vr_comment v \<in> set cs \<and> in_thread sid tid (vr_comment v)"
    "\<And>c. c \<in> set cs \<Longrightarrow> in_thread sid tid c \<Longrightarrow> \<exists>v \<in> set vs. vr_comment v = c"
    "\<And>v. v \<in> set vs \<Longrightarrow> hung_below vs v"
proof -
  have set: "vr_comment ` set vs = {c \<in> set cs. in_thread sid tid c}" using assms by (simp add: visible_ok_def)
  show "distinct (map vid vs)" "\<And>v. v \<in> set vs \<Longrightarrow> hung_below vs v"
    using assms by (auto simp: visible_ok_def)
  show "vr_comment v \<in> set cs \<and> in_thread sid tid (vr_comment v)" if "v \<in> set vs" for v
    using set that by blast
  show "\<exists>v \<in> set vs. vr_comment v = c" if "c \<in> set cs" "in_thread sid tid c" for c
  proof -
    have "c \<in> vr_comment ` set vs" using set that by blast
    then show ?thesis by blast
  qed
qed

lemma visible_same: "visible_ok sid tid cs vs \<Longrightarrow> u \<in> set vs \<Longrightarrow> v \<in> set vs \<Longrightarrow> vid u = vid v \<Longrightarrow> u = v"
  using visible_okD(1) by (auto simp: distinct_map inj_on_def)

text \<open>
  A visible parent is published, and so is a visible root, which has no visible parent itself; a row
  has the one exactly when it has the other.
\<close>

lemma visible_refs:
  assumes inv: "comment_inv d" and ok: "visible_ok sid tid (db_comments d) vs" and v: "v \<in> set vs"
  shows "(case vr_parent v of None \<Rightarrow> vr_root v = None
     | Some p \<Rightarrow> (\<exists>u \<in> set vs. vid u = p \<and> is_published u \<and> c_depth (vr_comment u) < c_depth (vr_comment v) \<and>
         vr_root v = Some (case vr_root u of Some r \<Rightarrow> r | None \<Rightarrow> p))) \<and>
    (\<forall>r. vr_root v = Some r \<longrightarrow>
       (\<exists>u \<in> set vs. vid u = r \<and> is_published u \<and> vr_parent u = None \<and>
          c_depth (vr_comment u) < c_depth (vr_comment v)))"
  using v
proof (induction "nat (c_depth (vr_comment v))" arbitrary: v rule: less_induct)
  case less
  have hung: "hung_below vs v" by (rule visible_okD(4) [OF ok less.prems])
  show ?case
  proof (cases "c_parent_id (vr_comment v)")
    case None
    with hung show ?thesis by (simp add: hung_below_def)
  next
    case (Some p)
    with hung obtain u where u: "u \<in> set vs" "joins_parent u (vr_comment v)" "v = cte_child u (vr_comment v)"
      by (auto simp: hung_below_def)
    have cs: "vr_comment v \<in> set (db_comments d)" "vr_comment u \<in> set (db_comments d)"
      using visible_okD(2) [OF ok] less.prems u(1) by auto
    have "parent_ok (db_comments d) (vr_comment v)" using inv cs(1) by (simp add: comment_inv_def tree_inv_def)
    with Some obtain r where r: "r \<in> set (db_comments d)" "c_id r = p"
      "c_depth (vr_comment v) = c_depth r + 1"
      by (auto simp: parent_ok_iff the_comment_def)
    have "r = vr_comment u"
      using schema_ok_same_id [OF comment_invD(1) [OF inv] r(1) cs(2)] r(2) u(2) Some
      by (simp add: joins_parent_def)
    with r(3) have depth: "c_depth (vr_comment v) = c_depth (vr_comment u) + 1" by simp
    moreover have "0 \<le> c_depth (vr_comment u)"
      using comment_invD(1) [OF inv] cs(2) by (auto simp: schema_ok_def comment_checks_def)
    ultimately have IH: "(case vr_parent u of None \<Rightarrow> vr_root u = None
     | Some p \<Rightarrow> (\<exists>x \<in> set vs. vid x = p \<and> is_published x \<and> c_depth (vr_comment x) < c_depth (vr_comment u) \<and>
         vr_root u = Some (case vr_root x of Some r \<Rightarrow> r | None \<Rightarrow> p))) \<and>
    (\<forall>r. vr_root u = Some r \<longrightarrow>
       (\<exists>x \<in> set vs. vid x = r \<and> is_published x \<and> vr_parent x = None \<and>
          c_depth (vr_comment x) < c_depth (vr_comment u)))"
      using less.hyps [of u] u(1) by simp
    have row: "vr_parent v = (if is_published u then Some (vid u) else vr_parent u)"
      "vr_root v = (if is_published u then Some (case vr_root u of Some r \<Rightarrow> r | None \<Rightarrow> vid u) else vr_root u)"
      by (subst u(3), simp add: cte_child_def)+
    show ?thesis
    proof (cases "is_published u")
      case True
      have "vr_root u = None \<Longrightarrow> vr_parent u = None" using IH by (auto split: option.splits)
      with True IH u(1) depth row show ?thesis by (fastforce split: option.splits)
    next
      case False
      with IH depth row show ?thesis by (fastforce split: option.splits)
    qed
  qed
qed

end
