(* ===== verification/Keyset.thy ===== *)
theory Keyset
  imports Visible
begin

text \<open>
  Keyset pagination: a client that follows the cursors of a list reads the whole list, whatever the
  page size.  The contract of a sort is that its keyset predicate selects the rows behind the
  cursor's row in its \<open>ORDER BY\<close>; it is interpreted on the code's three public sorts and on the
  order of the replies.
\<close>

section \<open>Pages\<close>

text \<open>
  What the handlers make of the rows: they fetch one row more than the page holds, return the
  page, and issue the cursor of its last row when there was one more.
\<close>

definition cut_page :: "nat \<Rightarrow> ('r \<Rightarrow> 'v) \<Rightarrow> ('r \<Rightarrow> string) \<Rightarrow> 'r list \<Rightarrow> 'v list \<times> string option" where
  "cut_page limit view next rows =
     (let has_more = length rows > limit; page = (if has_more then take limit rows else rows)
      in (map view page, if has_more then Some (next (last page)) else None))"

text \<open>A client: it reads pages until one has no cursor; \<open>None\<close> when a read fails or the fuel ends.\<close>

fun follow :: "nat \<Rightarrow> (string \<Rightarrow> 'e + 'v list \<times> string option) \<Rightarrow> string \<Rightarrow> 'v list option" where
  "follow 0 get cur = None"
| "follow (Suc n) get cur =
     (case get cur of
        Inl _ \<Rightarrow> None
      | Inr (vs, None) \<Rightarrow> Some vs
      | Inr (vs, Some cur') \<Rightarrow> map_option ((@) vs) (follow n get cur'))"

lemma last_take: "0 < n \<Longrightarrow> n \<le> length xs \<Longrightarrow> last (take n xs) = xs ! (n - 1)"
  by (subst last_conv_nth) auto

lemma cut_page_fetched:
  "0 < limit \<Longrightarrow> cut_page limit view next (take (Suc limit) rows) =
     (map view (take limit rows),
      if limit < length rows then Some (next (rows ! (limit - 1))) else None)"
  by (auto simp: cut_page_def Let_def min_def last_take)

section \<open>The contract of an order\<close>

locale keyset_order =
  fixes key :: "'r \<Rightarrow> 'k::linorder" and after :: "'c \<Rightarrow> 'r \<Rightarrow> bool" and position :: "'r \<Rightarrow> 'c"
    and exact :: "'r \<Rightarrow> bool"
  assumes after_position: "exact a \<Longrightarrow> after (position a) b \<longleftrightarrow> key a < key b"
begin

lemma sort_behind:
  assumes "inj_on key (set rows)" "distinct rows" "m < length rows" "exact (sort_key key rows ! m)"
  shows "sort_key key (filter (after (position (sort_key key rows ! m))) rows) =
    drop (Suc m) (sort_key key rows)"
proof -
  let ?s = "sort_key key rows"
  have m: "m < length ?s" using assms(3) by simp
  have sorted: "sorted (map key ?s)" "distinct (map key ?s)"
    using assms(1,2) by (auto simp: distinct_map)
  then have strict: "sorted_wrt (<) (map key ?s)" by (simp add: strict_sorted_iff)
  have "sort_key key (filter (after (position (?s ! m))) rows) = filter (after (position (?s ! m))) ?s"
    by (rule filter_sort [symmetric])
  also have "\<dots> = filter (\<lambda>b. key (?s ! m) < key b) ?s"
    by (intro filter_cong refl after_position [OF assms(4)])
  also have "\<dots> = drop (Suc m) ?s"
  proof -
    have "?s = take (Suc m) ?s @ drop (Suc m) ?s" by simp
    moreover have "\<not> key (?s ! m) < key b" if "b \<in> set (take (Suc m) ?s)" for b
    proof -
      from that obtain i where "i < Suc m" "i < length ?s" "b = ?s ! i" by (auto simp: in_set_conv_nth)
      then show ?thesis using sorted_nth_mono [OF sorted(1), of i m] m by (auto simp: not_less)
    qed
    moreover have "key (?s ! m) < key b" if "b \<in> set (drop (Suc m) ?s)" for b
    proof -
      from that obtain i where "i < length (drop (Suc m) ?s)" "drop (Suc m) ?s ! i = b"
        unfolding in_set_conv_nth by blast
      then have "Suc m + i < length ?s" "b = ?s ! (Suc m + i)" by auto
      then show ?thesis using sorted_wrt_nth_less [OF strict, of m "Suc m + i"] by simp
    qed
    ultimately show ?thesis
      by (metis (mono_tags, lifting) append_Nil filter_False filter_True filter_append)
  qed
  finally show ?thesis .
qed

lemma follow_pages:
  assumes rows: "inj_on key (set rows)" "distinct rows" "\<forall>a \<in> set rows. exact a" and limit: "0 < limit"
    and start: "get start = Inr (cut_page limit view next (take (Suc limit) (sort_key key rows)))"
    and continue: "\<And>a. a \<in> set rows \<Longrightarrow> get (next a) =
      Inr (cut_page limit view next (take (Suc limit) (sort_key key (filter (after (position a)) rows))))"
    and fuel: "length rows < n"
  shows "follow n get start = Some (map view (sort_key key rows))"
proof -
  let ?s = "sort_key key rows"
  have "follow n get cur = Some (map view (drop m ?s))"
    if "get cur = Inr (cut_page limit view next (take (Suc limit) (drop m ?s)))" "length rows - m < n" for cur m
    using that
  proof (induction n arbitrary: cur m)
    case (Suc n)
    show ?case
    proof (cases "limit < length (drop m ?s)")
      case False
      with Suc.prems(1) show ?thesis by (simp add: cut_page_fetched [OF limit])
    next
      case True
      let ?i = "m + limit - 1"
      have i: "?i < length rows" "Suc ?i = m + limit" "drop m ?s ! (limit - 1) = ?s ! ?i"
        using True limit by auto
      have mem: "?s ! ?i \<in> set rows" using i(1) nth_mem [of ?i ?s] by simp
      have "get (next (?s ! ?i)) = Inr (cut_page limit view next (take (Suc limit) (drop (m + limit) ?s)))"
        using continue [OF mem] sort_behind [OF rows(1,2) i(1)] rows(3) mem i(2) by simp
      then have "follow n get (next (?s ! ?i)) = Some (map view (drop (m + limit) ?s))"
        using Suc.IH Suc.prems(2) True limit by simp
      moreover have "take limit (drop m ?s) @ drop (m + limit) ?s = drop m ?s"
        by (metis add.commute append_take_drop_id drop_drop)
      ultimately show ?thesis
        using Suc.prems(1) True i(3)
        by (simp add: cut_page_fetched [OF limit] map_append [symmetric] del: map_append)
    qed
  qed simp
  from this [of start 0] start fuel show ?thesis by simp
qed

end

section \<open>The orders of the code\<close>

lemma UnixMicro_exact: "1000 dvd t \<Longrightarrow> UnixMicro_time (UnixMicro t) = t"
  by (simp add: UnixMicro_time_def UnixMicro_def)

definition row_cursor :: "comment_sort \<Rightarrow> sort_columns \<Rightarrow> cursor" where
  "row_cursor srt = (\<lambda>(pinned, likes, created, cid).
     if srt = CommentSortHot then hot_cursor (pinned = 1, likes, UnixMicro created, cid)
     else directional_cursor (pinned = 1, UnixMicro created, cid))"

definition exact_columns :: "sort_columns \<Rightarrow> bool" where
  "exact_columns = (\<lambda>(pinned, likes, created, cid). (pinned = 0 \<or> pinned = 1) \<and> 1000 dvd created)"

lemma after_row_cursor:
  assumes "exact_columns a"
  shows "after_cursor srt (row_cursor srt a) b \<longleftrightarrow> order_key srt a < order_key srt b"
proof -
  obtain p n t i where a: "a = (p, n, t, i)" by (cases a)
  obtain p' n' t' i' where b: "b = (p', n', t', i')" by (cases b)
  have "UnixMicro_time (UnixMicro t) = t" "pinnedExpr (p = 1) = p"
    using assms by (auto simp: a exact_columns_def UnixMicro_exact pinnedExpr_def)
  then show ?thesis
    by (cases srt) (auto simp: a b after_cursor_def row_cursor_def order_key_def Let_def
        hot_cursor_def directional_cursor_def less_prod_def')
qed

interpretation public_order: keyset_order "\<lambda>p. order_key srt (sort_columns p)"
  "\<lambda>c p. after_cursor srt c (sort_columns p)" "\<lambda>p. row_cursor srt (sort_columns p)"
  "\<lambda>p. exact_columns (sort_columns p)" for srt
  by unfold_locales (rule after_row_cursor)

interpretation root_order: keyset_order "\<lambda>p. order_key srt (sort_columns (pr_public p))"
  "\<lambda>c p. after_cursor srt c (sort_columns (pr_public p))" "\<lambda>p. row_cursor srt (sort_columns (pr_public p))"
  "\<lambda>p. exact_columns (sort_columns (pr_public p))" for srt
  by unfold_locales (rule after_row_cursor)

definition reply_cursor :: "visible_row \<Rightarrow> cursor" where
  "reply_cursor v =
     \<lparr>cur_pinned = False, cur_created_at = UnixMicro (c_created_at (vr_comment v)),
      cur_id = c_id (vr_comment v), cur_like_count = 0, cur_hot = False\<rparr>"

interpretation replies_order: keyset_order reply_order reply_after reply_cursor
  "\<lambda>v. 1000 dvd c_created_at (vr_comment v)"
  by unfold_locales
    (auto simp: reply_after_def reply_order_def reply_cursor_def UnixMicro_exact Let_def less_prod_def')

end
