(* ===== verification/Listing.thy ===== *)
theory Listing
  imports Create Keyset
begin

text \<open>
  The lists of the comment service: \<open>query.go\<close> and \<open>public_pages.go\<close> for the widget,
  \<open>account.go\<close> for the signed-in user, \<open>AdminList\<close> of \<open>moderation.go\<close> and the trend of
  \<open>trend.go\<close>.
\<close>

section \<open>Views\<close>

record thread_view =
  tv_id :: int
  tv_site_id :: int
  tv_page_key :: string
  tv_page_url :: "string option"
  tv_page_title :: "string option"
  tv_comments_enabled :: bool
  tv_comments :: "comment_view list"
  tv_next_cursor :: "string option"

record root_comment_view =
  rc_view :: comment_view
  rc_has_replies :: bool

record root_thread_view =
  rv_id :: int
  rv_site_id :: int
  rv_page_key :: string
  rv_page_url :: "string option"
  rv_page_title :: "string option"
  rv_comments_enabled :: bool
  rv_comments :: "root_comment_view list"
  rv_next_cursor :: "string option"

record reply_page_view =
  yv_root_id :: int
  yv_comments :: "comment_view list"
  yv_next_cursor :: "string option"

record latest_comment_view =
  lv_id :: int
  lv_site_id :: int
  lv_thread_id :: int
  lv_page_key :: string
  lv_page_url :: "string option"
  lv_page_title :: "string option"
  lv_user_id :: int
  lv_body_markdown :: string
  lv_status :: comment_status
  lv_author_nickname :: string
  lv_author_website :: "string option"
  lv_author_role :: role
  lv_author_avatar_url :: string
  lv_reply_to_user_id :: "int option"
  lv_reply_to_nickname :: "string option"
  lv_created_at :: int
  lv_published_at :: "int option"

definition publicPageCommentView :: "avatar \<Rightarrow> string \<Rightarrow> public_comment \<Rightarrow> comment_view" where
  "publicPageCommentView avatar base p =
     toCommentViewWithReply (pc_comment p) (pc_author_nickname p) (pc_author_website p)
       (pc_author_role p) (avatar (pc_author_email_normalized p) base) (pc_reply_to_nickname p)
       (pc_like_count p) (pc_liked_by_me p)"

definition latest_view :: "avatar \<Rightarrow> string \<Rightarrow> latest_public_comment \<Rightarrow> latest_comment_view" where
  "latest_view avatar base r =
     (let c = lp_comment r in
      \<lparr>lv_id = c_id c, lv_site_id = c_site_id c, lv_thread_id = c_thread_id c,
       lv_page_key = lp_page_key r, lv_page_url = lp_page_url r, lv_page_title = lp_page_title r,
       lv_user_id = c_user_id c, lv_body_markdown = c_body_markdown c, lv_status = c_status c,
       lv_author_nickname = lp_author_nickname r, lv_author_website = lp_author_website r,
       lv_author_role = lp_author_role r,
       lv_author_avatar_url = avatar (lp_author_email_normalized r) base,
       lv_reply_to_user_id = c_reply_to_user_id c, lv_reply_to_nickname = lp_reply_to_nickname r,
       lv_created_at = c_created_at c, lv_published_at = c_published_at c\<rparr>)"

section \<open>The flat list\<close>

definition normalizeSort :: "string \<Rightarrow> string \<Rightarrow> error + comment_sort" where
  "normalizeSort raw default_sort =
     (let s = (if raw = '''' then default_sort else raw)
      in if \<not> ValidPublicCommentSort s then Inl ErrValidation
         else option_to_result ErrValidation (comment_sort_of s))"

definition flat_next :: "comment_sort \<Rightarrow> public_comment \<Rightarrow> string" where
  "flat_next srt p =
     (let c = pc_comment p in
      if srt = CommentSortHot
      then encodeHotCursor (c_is_pinned c) (int (pc_like_count p)) (UnixMicro (c_created_at c)) (c_id c)
      else encodeCursor (c_is_pinned c) (UnixMicro (c_created_at c)) (c_id c))"

definition ListPublic ::
  "avatar \<Rightarrow> settings \<Rightarrow> int \<Rightarrow> string \<Rightarrow> string \<Rightarrow> string \<Rightarrow> int \<Rightarrow> int option \<Rightarrow> thread_view sql" where
  "ListPublic avatar settings sid key cursor_raw sort_raw limit viewer =
     bind (validateSiteActive sid) (\<lambda>_.
     bind (lift (validatePageKey key)) (\<lambda>_.
     bind (lift settings) (\<lambda>pol.
     bind (lift (normalizeSort sort_raw (pol_comment_sort pol))) (\<lambda>srt.
     bind (lift (decodeCursor cursor_raw srt)) (\<lambda>cur.
     bind (attempt (GetBySiteAndKey sid key)) (\<lambda>found.
     case found of
       Inl e \<Rightarrow>
         if e = ErrNotFound
         then ret \<lparr>tv_id = 0, tv_site_id = sid, tv_page_key = key, tv_page_url = None,
                   tv_page_title = None, tv_comments_enabled = True, tv_comments = [],
                   tv_next_cursor = None\<rparr>
         else fail e
     | Inr t \<Rightarrow>
         bind (Repo_ListPublic sid (t_id t) srt cur (normalizeLimit limit + 1) viewer) (\<lambda>rows.
         let page = cut_page (nat (normalizeLimit limit))
               (publicPageCommentView avatar (pol_gravatar_base_url pol)) (flat_next srt) rows
         in ret \<lparr>tv_id = t_id t, tv_site_id = sid, tv_page_key = key, tv_page_url = t_page_url t,
                 tv_page_title = t_page_title t, tv_comments_enabled = t_comments_enabled t,
                 tv_comments = fst page, tv_next_cursor = snd page\<rparr>)))))))"

definition ListLatestPublic :: "avatar \<Rightarrow> settings \<Rightarrow> int \<Rightarrow> int \<Rightarrow> latest_comment_view list sql" where
  "ListLatestPublic avatar settings sid limit =
     bind (validateSiteActive sid) (\<lambda>_.
     bind (lift settings) (\<lambda>pol.
     bind (Repo_ListLatestPublic sid (normalizeLatestLimit limit)) (\<lambda>rows.
     ret (map (latest_view avatar (pol_gravatar_base_url pol)) rows))))"

section \<open>Roots and replies\<close>

definition root_next :: "int \<Rightarrow> int \<Rightarrow> comment_sort \<Rightarrow> public_root_comment \<Rightarrow> string" where
  "root_next sid tid srt r =
     (let c = pc_comment (pr_public r) in
      encodeRootCursor \<lparr>rp_site = sid, rp_thread = tid, rp_sort = srt, rp_pinned = c_is_pinned c,
        rp_likes = int (pc_like_count (pr_public r)), rp_created_at = UnixMicro (c_created_at c),
        rp_id = c_id c\<rparr>)"

definition root_view :: "avatar \<Rightarrow> string \<Rightarrow> public_root_comment \<Rightarrow> root_comment_view" where
  "root_view avatar base r =
     \<lparr>rc_view = publicPageCommentView avatar base (pr_public r), rc_has_replies = pr_has_replies r\<rparr>"

definition ListPublicRoots ::
  "avatar \<Rightarrow> settings \<Rightarrow> int \<Rightarrow> string \<Rightarrow> string \<Rightarrow> string \<Rightarrow> int \<Rightarrow> int option \<Rightarrow> root_thread_view sql" where
  "ListPublicRoots avatar settings sid key cursor_raw sort_raw limit viewer =
     bind (validateSiteActive sid) (\<lambda>_.
     bind (lift (validatePageKey key)) (\<lambda>_.
     bind (lift settings) (\<lambda>pol.
     bind (lift (normalizeSort sort_raw (pol_comment_sort pol))) (\<lambda>srt.
     bind (attempt (GetBySiteAndKey sid key)) (\<lambda>found.
     case found of
       Inl e \<Rightarrow>
         if e = ErrNotFound
         then bind (lift (decodeRootCursor cursor_raw sid 0 srt)) (\<lambda>_.
              ret \<lparr>rv_id = 0, rv_site_id = sid, rv_page_key = key, rv_page_url = None,
                   rv_page_title = None, rv_comments_enabled = True, rv_comments = [],
                   rv_next_cursor = None\<rparr>)
         else fail e
     | Inr t \<Rightarrow>
         bind (lift (decodeRootCursor cursor_raw sid (t_id t) srt)) (\<lambda>cur.
         bind (Repo_ListPublicRoots sid (t_id t) srt cur (normalizeLimit limit + 1) viewer) (\<lambda>rows.
         let page = cut_page (nat (normalizeLimit limit)) (root_view avatar (pol_gravatar_base_url pol))
               (root_next sid (t_id t) srt) rows
         in ret \<lparr>rv_id = t_id t, rv_site_id = sid, rv_page_key = key, rv_page_url = t_page_url t,
                 rv_page_title = t_page_title t, rv_comments_enabled = t_comments_enabled t,
                 rv_comments = fst page, rv_next_cursor = snd page\<rparr>)))))))"

definition reply_next :: "int \<Rightarrow> int \<Rightarrow> int \<Rightarrow> public_comment \<Rightarrow> string" where
  "reply_next sid tid root p =
     encodeReplyCursor \<lparr>yp_site = sid, yp_thread = tid, yp_root = root,
       yp_created_at = UnixMicro (c_created_at (pc_comment p)), yp_id = c_id (pc_comment p)\<rparr>"

definition ListPublicReplies ::
  "avatar \<Rightarrow> settings \<Rightarrow> int \<Rightarrow> int \<Rightarrow> string \<Rightarrow> string \<Rightarrow> int \<Rightarrow> int option \<Rightarrow> reply_page_view sql" where
  "ListPublicReplies avatar settings sid root key cursor_raw limit viewer =
     bind (validateSiteActive sid) (\<lambda>_.
     bind (lift (validatePageKey key)) (\<lambda>_.
     bind (GetBySiteAndKey sid key) (\<lambda>t.
     bind (lift (decodeReplyCursor cursor_raw sid (t_id t) root)) (\<lambda>cur.
     bind (lift settings) (\<lambda>pol.
     bind (Repo_ListPublicReplies sid (t_id t) root cur (normalizeLimit limit + 1) viewer) (\<lambda>rows.
     let page = cut_page (nat (normalizeLimit limit))
           (publicPageCommentView avatar (pol_gravatar_base_url pol)) (reply_next sid (t_id t) root) rows
     in ret \<lparr>yv_root_id = root, yv_comments = fst page, yv_next_cursor = snd page\<rparr>))))))"

section \<open>The user's own comments\<close>

record owner_comment_view =
  ov_view :: comment_view
  ov_site_name :: string
  ov_page_key :: string
  ov_page_url :: "string option"
  ov_page_title :: "string option"

record owner_list_result =
  or_comments :: "owner_comment_view list"
  or_total :: nat
  or_user_delete_mode :: string

definition toOwnerCommentView :: "avatar \<Rightarrow> string \<Rightarrow> owner_comment \<Rightarrow> owner_comment_view" where
  "toOwnerCommentView avatar base r =
     \<lparr>ov_view = toCommentViewWithReply (oc_comment r) (oc_author_nickname r) (oc_author_website r)
        (oc_author_role r) (avatar (oc_author_email_normalized r) base) (oc_reply_to_nickname r) 0 False,
      ov_site_name = oc_site_name r, ov_page_key = oc_page_key r, ov_page_url = oc_page_url r,
      ov_page_title = oc_page_title r\<rparr>"

definition ListByOwner ::
  "avatar \<Rightarrow> settings \<Rightarrow> int \<Rightarrow> int option \<Rightarrow> comment_status option \<Rightarrow> int \<Rightarrow> int \<Rightarrow> owner_list_result sql" where
  "ListByOwner avatar settings owner want_site status page limit =
     (let n = normalizeLimit limit;
          f = \<lparr>of_site_id = want_site, of_status = status, of_offset = OffsetForPage page n, of_limit = n\<rparr>
      in bind (Repo_ListByOwner owner f) (\<lambda>rows.
         bind (Repo_CountByOwner owner f) (\<lambda>total.
         bind (lift settings) (\<lambda>pol.
         ret \<lparr>or_comments = map (toOwnerCommentView avatar (pol_gravatar_base_url pol)) rows,
              or_total = total, or_user_delete_mode = pol_user_delete_mode pol\<rparr>))))"

definition GetByOwner :: "avatar \<Rightarrow> settings \<Rightarrow> int \<Rightarrow> int \<Rightarrow> (owner_comment_view \<times> string) sql" where
  "GetByOwner avatar settings owner cid =
     bind (GetByOwnerAndID owner cid) (\<lambda>row.
     bind (lift settings) (\<lambda>pol.
     ret (toOwnerCommentView avatar (pol_gravatar_base_url pol) row, pol_user_delete_mode pol)))"

definition ListOwnerSites :: "int \<Rightarrow> (int \<times> string) list sql" where
  "ListOwnerSites owner =
     bind (Repo_ListOwnerSites owner) (\<lambda>rows. ret (map (\<lambda>s. (s_id s, s_name s)) rows))"

section \<open>The administrator's list and the trend\<close>

record admin_list_result =
  al_comments :: "admin_comment_view list"
  al_total :: nat

definition admin_list_view :: "avatar \<Rightarrow> string \<Rightarrow> admin_comment \<Rightarrow> admin_comment_view" where
  "admin_list_view avatar base r =
     (let c = ac_comment r in
      \<lparr>av_view = toCommentViewWithReply c (ac_author_nickname r) (ac_author_website r) (ac_author_role r)
         (avatar (ac_author_email_normalized r) base) (ac_reply_to_nickname r) 0 False,
       av_page_title = None, av_page_url = None, av_email = ac_author_email r,
       av_ip_mode = c_ip_mode c, av_ip_value = c_ip_value c, av_ua_mode = c_ua_mode c,
       av_ua_raw = c_ua_raw c, av_ua_browser = c_ua_browser c, av_ua_os = c_ua_os c,
       av_ua_device = c_ua_device c\<rparr>)"

definition AdminList ::
  "avatar \<Rightarrow> settings \<Rightarrow> (string \<Rightarrow> string \<Rightarrow> bool) \<Rightarrow> admin_filter \<Rightarrow> int \<Rightarrow> admin_list_result sql" where
  "AdminList avatar settings like f page =
     (let n = normalizeLimit (af_limit f);
          g = f\<lparr>af_limit := n, af_offset := OffsetForPage page n\<rparr>
      in bind (Repo_ListAdmin like g) (\<lambda>rows.
         bind (Repo_CountAdmin like g) (\<lambda>total.
         bind (avatarBaseURL settings) (\<lambda>base.
         ret \<lparr>al_comments = map (admin_list_view avatar base) rows, al_total = total\<rparr>))))"

text \<open>
  The calendar of \<open>time\<close>: the start of today in a time zone, the start of the day some days away
  and the text of a date; \<open>None\<close> is an unknown zone.
\<close>

record calendar =
  ca_today :: int
  ca_add_days :: "int \<Rightarrow> int \<Rightarrow> int"
  ca_format :: "int \<Rightarrow> string"

record comment_trend =
  ct_days :: int
  ct_timezone :: string
  ct_points :: "(string \<times> nat) list"

definition trend_dates :: "calendar \<Rightarrow> int \<Rightarrow> int list" where
  "trend_dates cal days = map (\<lambda>i. ca_add_days cal (ca_today cal) (i - (days - 1))) [0 .. days - 1]"

definition AdminCommentTrend :: "(string \<Rightarrow> calendar option) \<Rightarrow> int \<Rightarrow> string \<Rightarrow> comment_trend sql" where
  "AdminCommentTrend zone days timezone =
     (if days \<noteq> 7 \<and> days \<noteq> 30 then fail ErrValidation
      else let tz = TrimSpace timezone in
      if tz = '''' then fail ErrValidation
      else (case zone tz of
              None \<Rightarrow> fail ErrValidation
            | Some cal \<Rightarrow>
                bind (CountCreatedByRanges
                  (map (\<lambda>date. \<lparr>tr_start = date, tr_end = ca_add_days cal date 1\<rparr>) (trend_dates cal days))) (\<lambda>counts.
                ret \<lparr>ct_days = days, ct_timezone = tz,
                     ct_points = zip (map (ca_format cal) (trend_dates cal days)) counts\<rparr>)))"

end
