(* ===== verification/Paging.thy ===== *)
theory Paging
  imports Listing Sample
begin

text \<open>
  Following the cursors of the three public lists: the pages a client reads, put together, are the
  rows of the list in its order.
\<close>

section \<open>Running a list\<close>

lemma run_visible:
  assumes "faults w = []" "visible sid tid (db_comments (data w)) = Some vs"
  shows "sql_visible sid tid g w = (Inr (g (data w) vs), w)"
  using assms by (simp add: sql_visible_def sql_query_def option_to_result_def lift_def)

lemma run_thread:
  assumes "faults w = []" "select_first (thread_of_page sid key) (db_threads (data w)) = Some t"
  shows "GetBySiteAndKey sid key w = (Inr t, w)"
  using assms by (simp add: GetBySiteAndKey_def first_or_not_found_def sql_query_def option_to_result_def lift_def)

lemma fetched_limit: "default_limit 50 (normalizeLimit limit + 1) = Suc (nat (normalizeLimit limit))"
  by (auto simp: default_limit_def normalizeLimit_def)

lemma page_limit: "0 < nat (normalizeLimit limit)"
  by (auto simp: normalizeLimit_def)

section \<open>The rows of a thread\<close>

definition public_row :: "db \<Rightarrow> int option \<Rightarrow> visible_row \<Rightarrow> public_comment" where
  "public_row d viewer v = hd (project d viewer v)"

lemma project_row:
  assumes "schema_ok d" "vr_comment v \<in> set (db_comments d)"
  shows "project d viewer v = [public_row d viewer v]"
    and "pc_comment (public_row d viewer v) = (vr_comment v)\<lparr>c_parent_id := vr_parent v, c_root_id := vr_root v\<rparr>"
    and "pc_like_count (public_row d viewer v) \<le> length (db_likes d)"
proof -
  have "has_user (db_users d) (c_user_id (vr_comment v))"
    using assms by (simp add: schema_ok_def refs_ok_def comment_refs_ok_def)
  then obtain u where "select_first (\<lambda>u. u_id u = c_user_id (vr_comment v)) (db_users d) = Some u"
    by (cases "select_first (\<lambda>u. u_id u = c_user_id (vr_comment v)) (db_users d)")
      (auto simp: has_user_def select_first_def find_None_iff)
  then show "project d viewer v = [public_row d viewer v]"
    "pc_comment (public_row d viewer v) = (vr_comment v)\<lparr>c_parent_id := vr_parent v, c_root_id := vr_root v\<rparr>"
    "pc_like_count (public_row d viewer v) \<le> length (db_likes d)"
    by (simp_all add: public_row_def project_def Let_def like_count_of_def count_where_def)
qed

lemma public_rows_map:
  assumes "schema_ok d" "\<forall>v \<in> set vs. vr_comment v \<in> set (db_comments d)"
  shows "public_rows d viewer vs = map (public_row d viewer) (filter is_published vs)"
  using assms(2) project_row(1) [OF assms(1)]
  by (induction vs) (auto simp: public_rows_def)

lemma public_row_fields:
  assumes "schema_ok d" "vr_comment v \<in> set (db_comments d)"
  shows "c_id (pc_comment (public_row d viewer v)) = vid v"
    "c_created_at (pc_comment (public_row d viewer v)) = c_created_at (vr_comment v)"
    "c_is_pinned (pc_comment (public_row d viewer v)) = c_is_pinned (vr_comment v)"
  by (simp_all add: project_row(2) [OF assms])

text \<open>Positions that fit a cursor: whole microseconds and 64-bit numbers.\<close>

definition exact_db :: "db \<Rightarrow> bool" where
  "exact_db d \<longleftrightarrow> count64 (int (length (db_likes d))) \<and>
     (\<forall>c \<in> set (db_comments d). id64 (c_id c) \<and> 1000 dvd c_created_at c \<and> count64 (UnixMicro (c_created_at c)))"

lemma count64_int64: "count64 n \<Longrightarrow> int64 n"
  by (simp add: count64_def int64_def)

lemma exact_row:
  assumes "schema_ok d" "exact_db d" "vr_comment v \<in> set (db_comments d)"
  shows "exact_columns (sort_columns (public_row d viewer v))"
    "count64 (int (pc_like_count (public_row d viewer v)))"
    "count64 (UnixMicro (c_created_at (vr_comment v)))" "id64 (vid v)" "1000 dvd c_created_at (vr_comment v)"
proof -
  note f = public_row_fields [OF assms(1,3), of viewer]
  show "exact_columns (sort_columns (public_row d viewer v))"
    using assms(2,3) by (simp add: exact_columns_def sort_columns_def f exact_db_def pinnedExpr_def)
  show "count64 (int (pc_like_count (public_row d viewer v)))"
    using assms(2) project_row(3) [OF assms(1,3), of viewer] by (auto simp: exact_db_def count64_def)
  show "count64 (UnixMicro (c_created_at (vr_comment v)))" "id64 (vid v)" "1000 dvd c_created_at (vr_comment v)"
    using assms(2,3) by (auto simp: exact_db_def)
qed

lemma order_key_id: "order_key srt a = order_key srt b \<Longrightarrow> snd (snd (snd a)) = snd (snd (snd b))"
  by (cases a; cases b; cases srt) (auto simp: order_key_def)

lemma rows_distinct:
  assumes "schema_ok d" "visible_ok sid tid (db_comments d) vs" "set us \<subseteq> set vs" "distinct us"
  shows "distinct (map (public_row d viewer) us)"
    "inj_on (\<lambda>p. order_key srt (sort_columns p)) (public_row d viewer ` set us)"
proof -
  have here: "vr_comment v \<in> set (db_comments d)" if "v \<in> set us" for v
    using visible_okD(2) [OF assms(2)] assms(3) that by blast
  have same: "u = v" if "u \<in> set us" "v \<in> set us"
    "c_id (pc_comment (public_row d viewer u)) = c_id (pc_comment (public_row d viewer v))" for u v
    using that visible_same [OF assms(2), of u v] assms(3) public_row_fields(1) [OF assms(1) here]
    by auto
  then show "distinct (map (public_row d viewer) us)"
    using assms(4) by (auto simp: distinct_map inj_on_def)
  show "inj_on (\<lambda>p. order_key srt (sort_columns p)) (public_row d viewer ` set us)"
  proof (rule inj_onI, clarify)
    fix u v
    assume uv: "u \<in> set us" "v \<in> set us"
      "order_key srt (sort_columns (public_row d viewer u)) = order_key srt (sort_columns (public_row d viewer v))"
    from order_key_id [OF uv(3)] have "u = v" by (intro same uv(1,2)) (simp add: sort_columns_def)
    then show "public_row d viewer u = public_row d viewer v" by simp
  qed
qed

lemma visible_length:
  assumes "visible_ok sid tid cs vs"
  shows "length vs \<le> length cs"
proof -
  have "length vs = card (vid ` set vs)"
    using visible_okD(1) [OF assms] distinct_card [of "map vid vs"] by simp
  also have "\<dots> \<le> card (c_id ` set cs)" using visible_okD(2) [OF assms] by (intro card_mono) auto
  also have "\<dots> \<le> length cs"
    using card_image_le [of "set cs" c_id] card_length [of cs] by simp
  finally show ?thesis .
qed

section \<open>The flat list\<close>

lemma decode_flat_next:
  assumes "int64 (int (pc_like_count p))" "int64 (UnixMicro (c_created_at (pc_comment p)))" "int64 (c_id (pc_comment p))"
  shows "decodeCursor (flat_next srt p) srt = Inr (Some (row_cursor srt (sort_columns p)))"
proof -
  have "(pinnedExpr b = 1) = b" for b by (simp add: pinnedExpr_def)
  then show ?thesis
    using assms decode_encodeCursor decode_encodeHotCursor
    by (cases "srt = CommentSortHot") (simp_all add: flat_next_def Let_def row_cursor_def sort_columns_def)
qed

definition flat_page :: "thread_view \<Rightarrow> comment_view list \<times> string option" where
  "flat_page v = (tv_comments v, tv_next_cursor v)"

lemma flat_run:
  assumes "faults w = []" "settings = Inr pol" "validateSiteActive sid w = (Inr (), w)"
    "validatePageKey key = Inr ()" "normalizeSort sort_raw (pol_comment_sort pol) = Inr srt"
    "select_first (thread_of_page sid key) (db_threads (data w)) = Some t"
    "visible sid (t_id t) (db_comments (data w)) = Some vs" "decodeCursor cur srt = Inr c"
  shows "map_sum id flat_page (fst (ListPublic avatar settings sid key cur sort_raw limit viewer w)) =
    Inr (cut_page (nat (normalizeLimit limit)) (publicPageCommentView avatar (pol_gravatar_base_url pol))
      (flat_next srt) (take (Suc (nat (normalizeLimit limit)))
        (sort_key (\<lambda>p. order_key srt (sort_columns p))
          (keyset srt c sort_columns (public_rows (data w) viewer vs)))))"
  using assms
  by (simp add: run_thread [OF assms(1,6)] run_visible [OF assms(1,7)] ListPublic_def Repo_ListPublic_def attempt_def lift_def Let_def flat_page_def
      fetched_limit ret_def bind_def)

lemma flat_follow:
  assumes inv: "comment_inv (data w)" and exact: "exact_db (data w)"
    and run: "faults w = []" "settings = Inr pol" "validateSiteActive sid w = (Inr (), w)"
    "validatePageKey key = Inr ()" "normalizeSort sort_raw (pol_comment_sort pol) = Inr srt"
    "select_first (thread_of_page sid key) (db_threads (data w)) = Some t"
    "visible sid (t_id t) (db_comments (data w)) = Some vs"
    "visible_ok sid (t_id t) (db_comments (data w)) vs"
  shows "follow (Suc (length (db_comments (data w))))
      (\<lambda>cur. map_sum id flat_page (fst (ListPublic avatar settings sid key cur sort_raw limit viewer w))) '''' =
    Some (map (publicPageCommentView avatar (pol_gravatar_base_url pol))
      (sort_key (\<lambda>p. order_key srt (sort_columns p))
        (map (public_row (data w) viewer) (filter is_published vs))))"
proof -
  let ?d = "data w" and ?us = "filter is_published vs"
  note ok = comment_invD(1) [OF inv]
  have here: "vr_comment v \<in> set (db_comments ?d)" if "v \<in> set vs" for v
    using visible_okD(2) [OF run(8) that] by blast
  have rows: "public_rows ?d viewer vs = map (public_row ?d viewer) ?us"
    using public_rows_map [OF ok] here by blast
  have facts: "exact_columns (sort_columns p)" "int64 (int (pc_like_count p))"
    "int64 (UnixMicro (c_created_at (pc_comment p)))" "int64 (c_id (pc_comment p))"
    if "p \<in> set (map (public_row ?d viewer) ?us)" for p
    using that exact_row [OF ok exact here] public_row_fields [OF ok here]
    by (auto intro: count64_int64 count64_int64 [OF id64_count64])
  have "length ?us \<le> length (db_comments ?d)"
    using visible_length [OF run(8)] length_filter_le le_trans by blast
  moreover have "distinct ?us" using visible_okD(1) [OF run(8)] by (simp add: distinct_map)
  ultimately show ?thesis
    using rows_distinct(1) [OF ok run(8), of ?us viewer] rows_distinct(2) [OF ok run(8), of ?us srt viewer]
  proof (intro public_order.follow_pages [OF _ _ _ page_limit [of limit]])
    fix p assume p: "p \<in> set (map (public_row ?d viewer) ?us)"
    show "map_sum id flat_page (fst (ListPublic avatar settings sid key (flat_next srt p) sort_raw limit viewer w)) =
      Inr (cut_page (nat (normalizeLimit limit)) (publicPageCommentView avatar (pol_gravatar_base_url pol))
        (flat_next srt) (take (Suc (nat (normalizeLimit limit))) (sort_key (\<lambda>p. order_key srt (sort_columns p))
          (filter (\<lambda>q. after_cursor srt (row_cursor srt (sort_columns p)) (sort_columns q))
            (map (public_row ?d viewer) ?us)))))"
      using flat_run [OF run(1-7) decode_flat_next [OF facts(2-4) [OF p]]]
      by (simp add: keyset_def rows)
  qed (auto simp: flat_run [OF run(1-7)] decodeCursor_def keyset_def rows facts(1))
qed

section \<open>Roots\<close>

definition root_of :: "db \<Rightarrow> int option \<Rightarrow> visible_row list \<Rightarrow> visible_row \<Rightarrow> public_root_comment" where
  "root_of d viewer vs v =
     \<lparr>pr_public = public_row d viewer v,
      pr_has_replies = (\<exists>u \<in> set vs. vr_root u = Some (vid v) \<and> is_published u)\<rparr>"

definition root_list :: "visible_row list \<Rightarrow> visible_row list" where
  "root_list vs = filter is_published (filter (\<lambda>v. vr_parent v = None) vs)"

definition root_page :: "root_thread_view \<Rightarrow> root_comment_view list \<times> string option" where
  "root_page v = (rv_comments v, rv_next_cursor v)"

lemma root_rows_map:
  assumes "schema_ok d" "\<forall>v \<in> set vs. vr_comment v \<in> set (db_comments d)"
  shows "root_rows d viewer vs = map (root_of d viewer vs) (root_list vs)"
proof -
  have "public_rows d viewer (filter (\<lambda>v. vr_parent v = None) vs) = map (public_row d viewer) (root_list vs)"
    unfolding root_list_def using assms(2) by (intro public_rows_map [OF assms(1)]) auto
  then show ?thesis
    using assms by (auto simp: root_rows_def root_of_def root_list_def public_row_fields(1) intro!: map_cong)
qed

lemma decode_root_next:
  assumes "id64 sid" "id64 tid" "count64 (int (pc_like_count (pr_public r)))"
    "count64 (UnixMicro (c_created_at (pc_comment (pr_public r))))" "id64 (c_id (pc_comment (pr_public r)))"
  shows "decodeRootCursor (root_next sid tid srt r) sid tid srt =
    Inr (Some (row_cursor srt (sort_columns (pr_public r))))"
proof -
  have "(pinnedExpr b = 1) = b" for b by (simp add: pinnedExpr_def)
  then show ?thesis
    using assms by (simp add: root_next_def Let_def decode_encodeRootCursor root_position_ok_def row_cursor_def
        sort_columns_def hot_cursor_def directional_cursor_def)
qed

lemma root_run:
  assumes "faults w = []" "settings = Inr pol" "validateSiteActive sid w = (Inr (), w)"
    "validatePageKey key = Inr ()" "normalizeSort sort_raw (pol_comment_sort pol) = Inr srt"
    "select_first (thread_of_page sid key) (db_threads (data w)) = Some t"
    "visible sid (t_id t) (db_comments (data w)) = Some vs" "decodeRootCursor cur sid (t_id t) srt = Inr c"
  shows "map_sum id root_page (fst (ListPublicRoots avatar settings sid key cur sort_raw limit viewer w)) =
    Inr (cut_page (nat (normalizeLimit limit)) (root_view avatar (pol_gravatar_base_url pol))
      (root_next sid (t_id t) srt) (take (Suc (nat (normalizeLimit limit)))
        (sort_key (\<lambda>p. order_key srt (sort_columns (pr_public p)))
          (keyset srt c (sort_columns \<circ> pr_public) (root_rows (data w) viewer vs)))))"
  using assms
  by (simp add: run_thread [OF assms(1,6)] run_visible [OF assms(1,7)] ListPublicRoots_def Repo_ListPublicRoots_def
      attempt_def lift_def Let_def root_page_def fetched_limit ret_def bind_def)

lemma root_follow:
  assumes inv: "comment_inv (data w)" and exact: "exact_db (data w)"
    and run: "faults w = []" "settings = Inr pol" "validateSiteActive sid w = (Inr (), w)"
    "validatePageKey key = Inr ()" "normalizeSort sort_raw (pol_comment_sort pol) = Inr srt"
    "select_first (thread_of_page sid key) (db_threads (data w)) = Some t"
    "visible sid (t_id t) (db_comments (data w)) = Some vs"
    and ok: "visible_ok sid (t_id t) (db_comments (data w)) vs" and ids: "id64 sid" "id64 (t_id t)"
  shows "follow (Suc (length (db_comments (data w))))
      (\<lambda>cur. map_sum id root_page (fst (ListPublicRoots avatar settings sid key cur sort_raw limit viewer w))) '''' =
    Some (map (root_view avatar (pol_gravatar_base_url pol))
      (sort_key (\<lambda>p. order_key srt (sort_columns (pr_public p)))
        (map (root_of (data w) viewer vs) (root_list vs))))"
proof -
  let ?d = "data w" and ?us = "root_list vs"
  note schema = comment_invD(1) [OF inv]
  have here: "vr_comment v \<in> set (db_comments ?d)" if "v \<in> set vs" for v
    using visible_okD(2) [OF ok that] by blast
  have rows: "root_rows ?d viewer vs = map (root_of ?d viewer vs) ?us"
    using root_rows_map [OF schema] here by blast
  have facts: "exact_columns (sort_columns (pr_public p))" "count64 (int (pc_like_count (pr_public p)))"
    "count64 (UnixMicro (c_created_at (pc_comment (pr_public p))))" "id64 (c_id (pc_comment (pr_public p)))"
    if "p \<in> set (map (root_of ?d viewer vs) ?us)" for p
    using that exact_row [OF schema exact here] public_row_fields [OF schema here]
    by (auto simp: root_of_def root_list_def)
  have us: "set ?us \<subseteq> set vs" "distinct ?us"
    using visible_okD(1) [OF ok] by (auto simp: root_list_def distinct_map)
  have short: "length ?us \<le> length (db_comments ?d)"
    unfolding root_list_def by (meson visible_length [OF ok] le_trans length_filter_le)
  have "map pr_public (map (root_of ?d viewer vs) ?us) = map (public_row ?d viewer) ?us"
    by (simp add: root_of_def)
  then have "distinct (map (root_of ?d viewer vs) ?us)"
    using rows_distinct(1) [OF schema ok us, of viewer] by (metis distinct_map)
  moreover have "inj_on (\<lambda>p. order_key srt (sort_columns (pr_public p))) (set (map (root_of ?d viewer vs) ?us))"
  proof (rule inj_onI)
    fix p q assume pq: "p \<in> set (map (root_of ?d viewer vs) ?us)" "q \<in> set (map (root_of ?d viewer vs) ?us)"
      "order_key srt (sort_columns (pr_public p)) = order_key srt (sort_columns (pr_public q))"
    then obtain u v where uv: "u \<in> set ?us" "p = root_of ?d viewer vs u" "v \<in> set ?us" "q = root_of ?d viewer vs v"
      by auto
    then have mem: "u \<in> set vs" "v \<in> set vs" using us(1) by auto
    have "vid u = vid v"
      using order_key_id [OF pq(3)] public_row_fields(1) [OF schema here] mem
      by (simp add: uv sort_columns_def root_of_def)
    with uv visible_same [OF ok mem] show "p = q" by simp
  qed
  ultimately show ?thesis
  proof (intro root_order.follow_pages [OF _ _ _ page_limit [of limit]])
    fix p assume p: "p \<in> set (map (root_of ?d viewer vs) ?us)"
    show "map_sum id root_page (fst (ListPublicRoots avatar settings sid key (root_next sid (t_id t) srt p) sort_raw
        limit viewer w)) =
      Inr (cut_page (nat (normalizeLimit limit)) (root_view avatar (pol_gravatar_base_url pol))
        (root_next sid (t_id t) srt) (take (Suc (nat (normalizeLimit limit)))
          (sort_key (\<lambda>p. order_key srt (sort_columns (pr_public p)))
          (filter (\<lambda>q. after_cursor srt (row_cursor srt (sort_columns (pr_public p))) (sort_columns (pr_public q)))
            (map (root_of ?d viewer vs) ?us)))))"
      using root_run [OF run decode_root_next [OF ids facts(2-4) [OF p]]]
      by (simp add: keyset_def rows)
  qed (use short in \<open>auto simp: root_run [OF run] decodeRootCursor_def keyset_def rows facts(1)\<close>)
qed

section \<open>Replies\<close>

definition reply_page :: "reply_page_view \<Rightarrow> comment_view list \<times> string option" where
  "reply_page v = (yv_comments v, yv_next_cursor v)"

lemma cut_page_map:
  "0 < n \<Longrightarrow> cut_page n view next (map f xs) = cut_page n (view \<circ> f) (next \<circ> f) xs"
  by (cases "xs = []") (auto simp: cut_page_def Let_def take_map last_map)

lemma decode_reply_next:
  assumes "id64 sid" "id64 tid" "id64 root" "id64 (vid v)" "count64 (UnixMicro (c_created_at (vr_comment v)))"
    "schema_ok d" "vr_comment v \<in> set (db_comments d)"
  shows "decodeReplyCursor (reply_next sid tid root (public_row d viewer v)) sid tid root =
    Inr (Some (reply_cursor v))"
  using assms(1-5)
  by (simp add: reply_next_def decode_encodeReplyCursor reply_position_ok_def reply_cursor_def
      public_row_fields [OF assms(6,7)])

lemma reply_run:
  assumes "faults w = []" "settings = Inr pol" "validateSiteActive sid w = (Inr (), w)"
    "validatePageKey key = Inr ()"
    "select_first (thread_of_page sid key) (db_threads (data w)) = Some t"
    "visible sid (t_id t) (db_comments (data w)) = Some vs"
    and inv: "schema_ok (data w)" "\<forall>v \<in> set vs. vr_comment v \<in> set (db_comments (data w))"
    and "decodeReplyCursor cur sid (t_id t) root = Inr c"
  shows "map_sum id reply_page (fst (ListPublicReplies avatar settings sid root key cur limit viewer w)) =
    (if requested_root root vs
     then Inr (cut_page (nat (normalizeLimit limit))
       (publicPageCommentView avatar (pol_gravatar_base_url pol) \<circ> public_row (data w) viewer)
       (reply_next sid (t_id t) root \<circ> public_row (data w) viewer)
       (take (Suc (nat (normalizeLimit limit))) (sort_key reply_order
          (filter (\<lambda>v. case c of None \<Rightarrow> True | Some c \<Rightarrow> reply_after c v) (reply_rows root vs)))))
     else Inl ErrNotFound)"
proof -
  have rows: "concat (map (project (data w) viewer) us) = map (public_row (data w) viewer) us"
    if "set us \<subseteq> set vs" for us
    using that inv(2) by (induction us) (auto simp: project_row(1) [OF inv(1)])
  have "set (take (Suc (nat (normalizeLimit limit))) (sort_key reply_order
      (filter (\<lambda>v. case c of None \<Rightarrow> True | Some c \<Rightarrow> reply_after c v) (reply_rows root vs)))) \<subseteq> set vs"
    by (auto simp: reply_rows_def dest!: in_set_takeD)
  note list = rows [OF this]
  show ?thesis
    using assms(2-4,9) unfolding cut_page_map [OF page_limit, symmetric]
    by (simp add: run_thread [OF assms(1,5)] run_visible [OF assms(1,6)] ListPublicReplies_def
        Repo_ListPublicReplies_def lift_def Let_def reply_page_def fetched_limit ret_def bind_def
        option_to_result_def fail_def list)
qed

lemma reply_follow:
  assumes inv: "comment_inv (data w)" and exact: "exact_db (data w)"
    and run: "faults w = []" "settings = Inr pol" "validateSiteActive sid w = (Inr (), w)"
    "validatePageKey key = Inr ()"
    "select_first (thread_of_page sid key) (db_threads (data w)) = Some t"
    "visible sid (t_id t) (db_comments (data w)) = Some vs"
    and ok: "visible_ok sid (t_id t) (db_comments (data w)) vs" and ids: "id64 sid" "id64 (t_id t)"
    and root: "requested_root root vs"
  shows "follow (Suc (length (db_comments (data w))))
      (\<lambda>cur. map_sum id reply_page (fst (ListPublicReplies avatar settings sid root key cur limit viewer w))) '''' =
    Some (map (publicPageCommentView avatar (pol_gravatar_base_url pol) \<circ> public_row (data w) viewer)
      (sort_key reply_order (reply_rows root vs)))"
proof -
  let ?d = "data w" and ?us = "reply_rows root vs"
  note schema = comment_invD(1) [OF inv]
  have here: "vr_comment v \<in> set (db_comments ?d)" if "v \<in> set vs" for v
    using visible_okD(2) [OF ok that] by blast
  note step = reply_run [OF run schema ballI [OF here]]
  have us: "set ?us \<subseteq> set vs" "distinct ?us"
    using visible_okD(1) [OF ok] by (auto simp: reply_rows_def distinct_map)
  have short: "length ?us \<le> length (db_comments ?d)"
    unfolding reply_rows_def by (meson visible_length [OF ok] le_trans length_filter_le)
  have rid: "id64 root"
  proof -
    from root obtain v where "v \<in> set vs" "vid v = root" by (auto simp: requested_root_def)
    with exact_row(4) [OF schema exact here] show ?thesis by blast
  qed
  have "inj_on reply_order (set ?us)"
    using visible_same [OF ok] us(1) by (intro inj_onI) (auto simp: reply_order_def)
  then show ?thesis
    using us(2)
  proof (rule replies_order.follow_pages [OF _ _ _ page_limit [of limit]])
    fix v assume v: "v \<in> set ?us"
    then have "v \<in> set vs" using us(1) by blast
    note e = exact_row [OF schema exact here [OF this]]
    have "decodeReplyCursor (reply_next sid (t_id t) root (public_row ?d viewer v)) sid (t_id t) root =
      Inr (Some (reply_cursor v))"
      by (rule decode_reply_next [OF ids rid e(4,3) schema here [OF \<open>v \<in> set vs\<close>]])
    from step [OF _ this] root
    show "map_sum id reply_page (fst (ListPublicReplies avatar settings sid root key
        ((reply_next sid (t_id t) root \<circ> public_row ?d viewer) v) limit viewer w)) =
      Inr (cut_page (nat (normalizeLimit limit))
        (publicPageCommentView avatar (pol_gravatar_base_url pol) \<circ> public_row ?d viewer)
        (reply_next sid (t_id t) root \<circ> public_row ?d viewer)
        (take (Suc (nat (normalizeLimit limit))) (sort_key reply_order
          (filter (reply_after (reply_cursor v)) ?us))))"
      by simp
  qed (use short root exact_row(5) [OF schema exact here] us(1) in
      \<open>auto simp: step decodeReplyCursor_def comp_def\<close>)
qed

end
