(* ===== verification/Listing_Props.thy ===== *)
theory Listing_Props
  imports Paging
begin

text \<open>
  What a reader of the public lists gets: the flat list is every published comment of the page once
  and in order, roots and replies split it, and nothing hidden is shown, even while the database
  fails.
\<close>

text \<open>A request for an existing page of an active site, on a database whose rows fit the cursors.\<close>

definition open_page :: "(db, comment_event) world \<Rightarrow> int \<Rightarrow> string \<Rightarrow> thread \<Rightarrow> bool" where
  "open_page w sid key t \<longleftrightarrow> faults w = [] \<and> comment_inv (data w) \<and> exact_db (data w) \<and>
     validateSiteActive sid w = (Inr (), w) \<and> validatePageKey key = Inr () \<and>
     select_first (thread_of_page sid key) (db_threads (data w)) = Some t \<and> id64 sid \<and> id64 (t_id t)"

definition published_ids :: "db \<Rightarrow> int \<Rightarrow> int \<Rightarrow> int set" where
  "published_ids d sid tid =
     c_id ` {c \<in> set (db_comments d). in_thread sid tid c \<and> c_status c = CommentStatusPublished}"

lemma published_ids_list:
  "published_ids d sid tid =
     set (map c_id (filter (\<lambda>c. in_thread sid tid c \<and> c_status c = CommentStatusPublished) (db_comments d)))"
  by (simp add: published_ids_def)

lemma published_ids_visible:
  assumes "visible_ok sid tid (db_comments d) vs"
  shows "vid ` set (filter is_published vs) = published_ids d sid tid"
proof -
  have "vr_comment ` set vs = {c \<in> set (db_comments d). in_thread sid tid c}"
    using assms by (simp add: visible_ok_def)
  then have "vr_comment ` set (filter is_published vs) =
      {c \<in> set (db_comments d). in_thread sid tid c \<and> c_status c = CommentStatusPublished}"
    by (auto simp: is_published_def image_iff)
  then show ?thesis unfolding published_ids_def by (metis image_image)
qed

lemma view_of_row:
  assumes "schema_ok d" "vr_comment v \<in> set (db_comments d)"
  shows "cv_id (publicPageCommentView avatar base (public_row d viewer v)) = vid v"
    "cv_root_id (publicPageCommentView avatar base (public_row d viewer v)) = vr_root v"
    "cv_parent_id (publicPageCommentView avatar base (public_row d viewer v)) = vr_parent v"
    "cv_body_markdown (publicPageCommentView avatar base (public_row d viewer v)) = c_body_markdown (vr_comment v)"
    "cv_status (publicPageCommentView avatar base (public_row d viewer v)) = c_status (vr_comment v)"
  by (simp_all add: publicPageCommentView_def toCommentViewWithReply_def toCommentView_def
      project_row(2) [OF assms])

section \<open>Completeness\<close>

text \<open>
  C16: whatever the page size, following the cursors of the flat list from its first page ends, and
  yields every published comment of the page exactly once, in the order of the sort, and nothing else.
\<close>

theorem flat_listing_complete:
  assumes page: "open_page w sid key t" and policy: "settings = Inr pol"
    "normalizeSort sort_raw (pol_comment_sort pol) = Inr srt"
  shows "\<exists>ps. follow (Suc (length (db_comments (data w))))
      (\<lambda>cur. map_sum id flat_page (fst (ListPublic avatar settings sid key cur sort_raw limit viewer w))) '''' =
        Some (map (publicPageCommentView avatar (pol_gravatar_base_url pol)) ps) \<and>
      sorted (map (\<lambda>p. order_key srt (sort_columns p)) ps) \<and>
      distinct (map (c_id \<circ> pc_comment) ps) \<and>
      (c_id \<circ> pc_comment) ` set ps = published_ids (data w) sid (t_id t)"
proof -
  have inv: "comment_inv (data w)" using page by (simp add: open_page_def)
  obtain vs where vs: "visible sid (t_id t) (db_comments (data w)) = Some vs"
    "visible_ok sid (t_id t) (db_comments (data w)) vs"
    using visible_total [OF inv] by blast
  let ?ps = "map (public_row (data w) viewer) (filter is_published vs)"
  have id: "c_id (pc_comment (public_row (data w) viewer v)) = vid v" if "v \<in> set vs" for v
    using public_row_fields(1) [OF comment_invD(1) [OF inv]] visible_okD(2) [OF vs(2) that] by blast
  have ids: "map (c_id \<circ> pc_comment) ?ps = map vid (filter is_published vs)"
    using id by (auto simp: comp_def)
  then have "distinct (map (c_id \<circ> pc_comment) ?ps)"
    using visible_okD(1) [OF vs(2)] by (simp only: distinct_map_filter_id)
  then have "distinct (map (c_id \<circ> pc_comment) (sort_key (\<lambda>p. order_key srt (sort_columns p)) ?ps))"
    by (simp only: distinct_map distinct_sort set_sort)
  moreover have "(c_id \<circ> pc_comment) ` set ?ps = published_ids (data w) sid (t_id t)"
    using arg_cong [OF ids, of set] published_ids_visible [OF vs(2)] by (simp only: set_map)
  ultimately show ?thesis
    using page policy vs
    by (intro exI [of _ "sort_key (\<lambda>p. order_key srt (sort_columns p)) ?ps"] conjI flat_follow)
      (auto simp: open_page_def)
qed

lemma visible_rootD:
  assumes "comment_inv d" "visible_ok sid tid (db_comments d) vs" "v \<in> set vs"
  shows "vr_parent v = None \<Longrightarrow> vr_root v = None"
    "vr_parent v = Some p \<Longrightarrow> \<exists>u \<in> set vs. vid u = p \<and> is_published u"
    "vr_parent v = Some p \<Longrightarrow> \<exists>r. vr_root v = Some r"
    "vr_root v = Some r \<Longrightarrow> \<exists>u \<in> set vs. vid u = r \<and> is_published u \<and> vr_parent u = None \<and>
       c_depth (vr_comment u) < c_depth (vr_comment v)"
proof -
  note C = visible_refs [OF assms]
  show "vr_parent v = None \<Longrightarrow> vr_root v = None" using conjunct1 [OF C] by simp
  show "vr_parent v = Some p \<Longrightarrow> \<exists>u \<in> set vs. vid u = p \<and> is_published u"
    "vr_parent v = Some p \<Longrightarrow> \<exists>r. vr_root v = Some r"
  proof -
    assume p: "vr_parent v = Some p"
    from conjunct1 [OF C, unfolded p option.case]
    show "\<exists>u \<in> set vs. vid u = p \<and> is_published u" "\<exists>r. vr_root v = Some r" by blast+
  qed
  show "vr_root v = Some r \<Longrightarrow> \<exists>u \<in> set vs. vid u = r \<and> is_published u \<and> vr_parent u = None \<and>
       c_depth (vr_comment u) < c_depth (vr_comment v)"
    using conjunct2 [OF C] by blast
qed

lemma root_list_ids:
  assumes "comment_inv d" "visible_ok sid tid (db_comments d) vs"
  shows "v \<in> set vs \<Longrightarrow> is_published v \<Longrightarrow> v \<in> set (root_list vs) \<or> (\<exists>u \<in> set (root_list vs). v \<in> set (reply_rows (vid u) vs))"
    "u \<in> set (root_list vs) \<Longrightarrow> requested_root (vid u) vs"
    "u \<in> set (root_list vs) \<Longrightarrow> v \<in> set (reply_rows r vs) \<Longrightarrow> vid u \<noteq> vid v"
    "v \<in> set (reply_rows r vs) \<Longrightarrow> v \<in> set vs \<and> is_published v \<and> vr_root v = Some r"
proof -
  assume v: "v \<in> set vs" "is_published v"
  show "v \<in> set (root_list vs) \<or> (\<exists>u \<in> set (root_list vs). v \<in> set (reply_rows (vid u) vs))"
  proof (cases "vr_parent v")
    case None
    with v show ?thesis by (simp add: root_list_def)
  next
    case (Some p)
    with visible_rootD(3) [OF assms v(1)] obtain r where r: "vr_root v = Some r" by blast
    from visible_rootD(4) [OF assms v(1) r] obtain u where
      u: "u \<in> set vs" "vid u = r" "is_published u" "vr_parent u = None"
        "c_depth (vr_comment u) < c_depth (vr_comment v)" by blast
    have "vid v \<noteq> vid u"
    proof
      assume "vid v = vid u"
      then have "u = v" by (intro visible_same [OF assms(2) u(1) v(1)]) simp
      with u(5) show False by simp
    qed
    with u r v show ?thesis by (auto simp: root_list_def reply_rows_def)
  qed
next
  show "u \<in> set (root_list vs) \<Longrightarrow> requested_root (vid u) vs"
    by (auto simp: root_list_def requested_root_def)
  show "v \<in> set (reply_rows r vs) \<Longrightarrow> v \<in> set vs \<and> is_published v \<and> vr_root v = Some r"
    by (simp add: reply_rows_def)
  assume u: "u \<in> set (root_list vs)" and v: "v \<in> set (reply_rows r vs)"
  have mem: "u \<in> set vs" "v \<in> set vs" "vr_parent u = None" "vr_root v = Some r"
    using u v by (auto simp: root_list_def reply_rows_def)
  have "vr_root u = None" using visible_rootD(1) [OF assms mem(1,3)] .
  with mem(4) have "u \<noteq> v" by (intro notI) simp
  then show "vid u \<noteq> vid v" using visible_same [OF assms(2) mem(1,2)] by blast
qed

lemma replies_disjoint:
  assumes "visible_ok sid tid cs vs" "a \<noteq> b"
  shows "vid ` set (reply_rows a vs) \<inter> vid ` set (reply_rows b vs) = {}"
proof (rule ccontr)
  assume "\<not> ?thesis"
  then obtain u v where uv: "u \<in> set (reply_rows a vs)" "v \<in> set (reply_rows b vs)" "vid u = vid v"
    by (auto simp del: filter_set)
  then have "u = v" by (intro visible_same [OF assms(1)]) (simp_all add: reply_rows_def)
  with uv(1,2) assms(2) show False by (simp add: reply_rows_def)
qed

definition replies_of :: "(int \<Rightarrow> comment_view list) \<Rightarrow> root_comment_view \<Rightarrow> comment_view list" where
  "replies_of reps r = reps (cv_id (rc_view r))"

lemma distinct_concat_disjoint:
  assumes "distinct (map h us)" "\<And>u. u \<in> set us \<Longrightarrow> distinct (g u)"
    "\<And>u v. u \<in> set us \<Longrightarrow> v \<in> set us \<Longrightarrow> h u \<noteq> h v \<Longrightarrow> set (g u) \<inter> set (g v) = {}"
  shows "distinct (concat (map g us))"
  using assms
proof (induction us)
  case (Cons u us)
  have "set (g u) \<inter> set (g v) = {}" if "v \<in> set us" for v
    using that Cons.prems(1) by (intro Cons.prems(3)) (auto simp: image_iff)
  moreover have "distinct (concat (map g us))"
    by (rule Cons.IH) (use Cons.prems in \<open>auto\<close>)
  ultimately show ?case using Cons.prems(2) by auto
qed simp

lemma root_has_replies:
  assumes "comment_inv d" "visible_ok sid tid (db_comments d) vs" "u \<in> set (root_list vs)"
  shows "pr_has_replies (root_of d viewer vs u) = (reply_rows (vid u) vs \<noteq> [])"
proof -
  have "vid v \<noteq> vid u" if "v \<in> set vs" "is_published v" "vr_root v = Some (vid u)" for v
    using visible_same [OF assms(2) that(1), of u] assms(3) visible_rootD(1) [OF assms(1,2) that(1)] that(3)
    by (auto simp: root_list_def)
  then have "(\<exists>v \<in> set vs. vr_root v = Some (vid u) \<and> is_published v) = (set (reply_rows (vid u) vs) \<noteq> {})"
    by (auto simp: reply_rows_def)
  then show ?thesis by (simp add: root_of_def)
qed

text \<open>The ids of a root's replies, in the order of the list.\<close>

definition reply_ids :: "visible_row list \<Rightarrow> int \<Rightarrow> int list" where
  "reply_ids vs root = map vid (sort_key reply_order (reply_rows root vs))"

lemma set_reply_ids: "set (reply_ids vs root) = vid ` set (reply_rows root vs)"
  by (simp add: reply_ids_def)

lemma partition_ids:
  assumes inv: "comment_inv d" and ok: "visible_ok sid tid (db_comments d) vs"
    and ids: "set ids = vid ` set (root_list vs)" "distinct ids"
  shows "distinct (ids @ concat (map (reply_ids vs) ids))"
    "set (ids @ concat (map (reply_ids vs) ids)) = published_ids d sid tid"
proof -
  note R = root_list_ids [OF inv ok]
  have "distinct (reply_ids vs r)" for r
    using visible_okD(1) [OF ok] unfolding reply_ids_def
    by (metis (no_types) distinct_map distinct_sort set_sort distinct_map_filter_id reply_rows_def)
  then have "distinct (concat (map (reply_ids vs) ids))"
    using ids(2) replies_disjoint [OF ok]
    by (intro distinct_concat_disjoint [where h = id]) (simp_all add: set_reply_ids)
  moreover have "set ids \<inter> set (concat (map (reply_ids vs) ids)) = {}"
  proof -
    have "vid ` set (root_list vs) \<inter> vid ` set (reply_rows r vs) = {}" for r using R(3) by fastforce
    then show ?thesis unfolding set_concat set_map ids(1) by (auto simp: set_reply_ids)
  qed
  ultimately show "distinct (ids @ concat (map (reply_ids vs) ids))" using ids(2) by simp
  have "set (concat (map (reply_ids vs) ids)) = (\<Union>u \<in> set (root_list vs). vid ` set (reply_rows (vid u) vs))"
    unfolding set_concat set_map ids(1) by (auto simp: set_reply_ids)
  then have "set (ids @ concat (map (reply_ids vs) ids)) = vid ` set (filter is_published vs)"
    using R(1,4) ids(1) unfolding set_append by (fastforce simp: root_list_def)
  then show "set (ids @ concat (map (reply_ids vs) ids)) = published_ids d sid tid"
    by (simp only: published_ids_visible [OF ok])
qed

text \<open>
  C15: the two-level lists split the flat one.  Following the cursors of the root list ends, and so
  does following the reply list of every root it gives; a root says it has replies exactly when that
  list is not empty, and together the lists hold every published comment of the page once.
\<close>

theorem roots_and_replies_partition:
  assumes page: "open_page w sid key t" and policy: "settings = Inr pol"
    "normalizeSort sort_raw (pol_comment_sort pol) = Inr srt"
  shows "\<exists>rs reps. follow (Suc (length (db_comments (data w))))
      (\<lambda>cur. map_sum id root_page (fst (ListPublicRoots avatar settings sid key cur sort_raw limit viewer w))) '''' =
        Some rs \<and>
      (\<forall>r \<in> set rs. follow (Suc (length (db_comments (data w))))
        (\<lambda>cur. map_sum id reply_page
          (fst (ListPublicReplies avatar settings sid (cv_id (rc_view r)) key cur limit viewer w))) '''' =
            Some (replies_of reps r) \<and>
        rc_has_replies r = (replies_of reps r \<noteq> []) \<and>
        (\<forall>v \<in> set (replies_of reps r). cv_root_id v = Some (cv_id (rc_view r)))) \<and>
      distinct (map (cv_id \<circ> rc_view) rs @ concat (map (map cv_id \<circ> replies_of reps) rs)) \<and>
      set (map (cv_id \<circ> rc_view) rs @ concat (map (map cv_id \<circ> replies_of reps) rs)) =
        published_ids (data w) sid (t_id t)"
proof -
  let ?d = "data w" and ?base = "pol_gravatar_base_url pol"
  have inv: "comment_inv ?d" using page by (simp add: open_page_def)
  obtain vs where vs: "visible sid (t_id t) (db_comments ?d) = Some vs"
    "visible_ok sid (t_id t) (db_comments ?d) vs"
    using visible_total [OF inv] by blast
  note R = root_list_ids [OF inv vs(2)]
  define ord :: "public_root_comment \<Rightarrow> int \<times> int \<times> int \<times> int"
    where "ord = (\<lambda>p. order_key srt (sort_columns (pr_public p)))"
  define rs where "rs = map (root_view avatar ?base) (sort_key ord (map (root_of ?d viewer vs) (root_list vs)))"
  define reps where "reps root = map (publicPageCommentView avatar ?base \<circ> public_row ?d viewer)
    (sort_key reply_order (reply_rows root vs))" for root
  note view = view_of_row [OF comment_invD(1) [OF inv] conjunct1 [OF visible_okD(2) [OF vs(2)]], of _ avatar ?base viewer]
  have root: "\<exists>u \<in> set (root_list vs). r = root_view avatar ?base (root_of ?d viewer vs u) \<and> cv_id (rc_view r) = vid u"
    if "r \<in> set rs" for r
  proof -
    from that obtain u where u: "u \<in> set (root_list vs)" "r = root_view avatar ?base (root_of ?d viewer vs u)"
      by (auto simp: rs_def)
    then have "u \<in> set vs" by (simp add: root_list_def)
    with u view(1) show ?thesis by (intro bexI [of _ u]) (simp_all add: root_view_def root_of_def)
  qed
  have ids_reps: "map cv_id (reps root) = reply_ids vs root" for root
  proof -
    have "v \<in> set vs" if "v \<in> set (reply_rows root vs)" for v using R(4) [OF that] by blast
    then show ?thesis using view(1) by (simp add: reps_def reply_ids_def)
  qed
  have follow_roots: "follow (Suc (length (db_comments ?d)))
      (\<lambda>cur. map_sum id root_page (fst (ListPublicRoots avatar settings sid key cur sort_raw limit viewer w))) '''' = Some rs"
    unfolding rs_def ord_def using page policy vs by (intro root_follow) (auto simp: open_page_def)
  have each: "follow (Suc (length (db_comments ?d)))
        (\<lambda>cur. map_sum id reply_page
          (fst (ListPublicReplies avatar settings sid (cv_id (rc_view r)) key cur limit viewer w))) '''' =
            Some (replies_of reps r) \<and>
        rc_has_replies r = (replies_of reps r \<noteq> []) \<and>
        (\<forall>v \<in> set (replies_of reps r). cv_root_id v = Some (cv_id (rc_view r)))" if r: "r \<in> set rs" for r
  proof -
    obtain u where u: "u \<in> set (root_list vs)" "r = root_view avatar ?base (root_of ?d viewer vs u)"
      "cv_id (rc_view r) = vid u" using root [OF r] by blast
    have "follow (Suc (length (db_comments ?d)))
        (\<lambda>cur. map_sum id reply_page (fst (ListPublicReplies avatar settings sid (vid u) key cur limit viewer w))) '''' =
            Some (reps (vid u))"
      unfolding reps_def using page policy(1) vs R(2) [OF u(1)]
      by (intro reply_follow) (auto simp: open_page_def)
    moreover have "rc_has_replies r = (reps (vid u) \<noteq> [])"
      using root_has_replies [OF inv vs(2) u(1), of viewer]
      by (simp add: u(2) root_view_def reps_def set_empty [symmetric] del: set_empty)
    moreover have "\<forall>v \<in> set (reps (vid u)). cv_root_id v = Some (vid u)"
    proof -
      have "v \<in> set vs \<and> vr_root v = Some (vid u)" if "v \<in> set (reply_rows (vid u) vs)" for v
        using R(4) [OF that] by blast
      then show ?thesis using view(2) by (simp add: reps_def)
    qed
    ultimately show ?thesis by (simp add: u(3) replies_of_def)
  qed
  let ?ids = "map (cv_id \<circ> rc_view) rs"
  have set_ids: "set ?ids = vid ` set (root_list vs)"
    using view(1) by (auto simp: rs_def image_image root_view_def root_of_def root_list_def intro!: image_cong)
  have "distinct (map vid (root_list vs))"
    using visible_okD(1) [OF vs(2)] by (simp add: root_list_def distinct_map_filter_id del: filter_filter)
  then have "card (set ?ids) = length ?ids"
    using distinct_card [of "map vid (root_list vs)"] unfolding set_ids by (simp add: rs_def)
  then have "distinct ?ids" by (rule card_distinct)
  note parts = partition_ids [OF inv vs(2) set_ids this]
  have "map (map cv_id \<circ> replies_of reps) rs = map (reply_ids vs) ?ids"
    by (simp add: replies_of_def ids_reps)
  note parts [folded this]
  with follow_roots each show ?thesis by blast
qed

section \<open>Confidentiality\<close>

definition published_in :: "db \<Rightarrow> int \<Rightarrow> int \<Rightarrow> bool" where
  "published_in d sid i \<longleftrightarrow>
     (\<exists>x \<in> set (db_comments d). c_id x = i \<and> c_site_id x = sid \<and> c_status x = CommentStatusPublished)"

definition shown :: "db \<Rightarrow> int \<Rightarrow> comment_view \<Rightarrow> bool" where
  "shown d sid c \<longleftrightarrow> published_in d sid (cv_id c) \<and>
     (\<forall>p. cv_parent_id c = Some p \<or> cv_root_id c = Some p \<longrightarrow> published_in d sid p)"

lemma published_inI:
  "visible_ok sid tid (db_comments d) vs \<Longrightarrow> v \<in> set vs \<Longrightarrow> is_published v \<Longrightarrow> published_in d sid (vid v)"
  using visible_okD(2) [of sid tid "db_comments d" vs v]
  by (auto simp: published_in_def in_thread_def is_published_def)

lemma row_shown:
  assumes "comment_inv d" "visible_ok sid tid (db_comments d) vs" "v \<in> set vs" "is_published v"
  shows "shown d sid (publicPageCommentView avatar base (public_row d viewer v))"
proof -
  have here: "vr_comment v \<in> set (db_comments d)" using visible_okD(2) [OF assms(2,3)] by blast
  note R = visible_rootD [OF assms(1-3)]
  show ?thesis
    unfolding shown_def view_of_row [OF comment_invD(1) [OF assms(1)] here]
    using published_inI [OF assms(2)] assms(3,4) R(2,4) by metis
qed

lemma public_row_shown:
  assumes "comment_inv d" "visible_ok sid tid (db_comments d) vs" "p \<in> set (public_rows d viewer us)"
    "set us \<subseteq> set vs"
  shows "shown d sid (publicPageCommentView avatar base p)"
proof -
  have "\<forall>v \<in> set us. vr_comment v \<in> set (db_comments d)" using visible_okD(2) [OF assms(2)] assms(4) by blast
  from public_rows_map [OF comment_invD(1) [OF assms(1)] this] assms(3)
  obtain v where "v \<in> set us" "is_published v" "p = public_row d viewer v" by auto
  then show ?thesis using row_shown [OF assms(1,2)] assms(4) by blast
qed

lemma wp_sql_visible:
  assumes "comment_inv d" "\<And>e. Q (Inl e) d os"
    "\<And>vs. visible_ok sid tid (db_comments d) vs \<Longrightarrow> Q (Inr (g d vs)) d os"
  shows "wpf f (sql_visible sid tid g) Q d os"
  using visible_total [OF assms(1), of sid tid] assms(2,3)
  unfolding sql_visible_def by (auto intro!: wp_intros)

lemma cut_page_subset: "set (fst (cut_page n view next rows)) \<subseteq> view ` set rows"
  by (auto simp: cut_page_def Let_def dest: in_set_takeD)

lemma in_page:
  assumes "c \<in> set (fst (cut_page n view next (take m (sort_key k rows))))"
  shows "\<exists>r \<in> set rows. c = view r"
proof -
  obtain r where "r \<in> set (take m (sort_key k rows))" "c = view r"
    using subsetD [OF cut_page_subset assms] by blast
  then show ?thesis using in_set_takeD [of r m "sort_key k rows"] by auto
qed

lemma in_keyset: "r \<in> set (keyset srt c cols rows) \<Longrightarrow> r \<in> set rows"
  by (simp add: keyset_def)

definition reads_only :: "('a \<Rightarrow> bool) \<Rightarrow> 'a sql \<Rightarrow> db \<Rightarrow> comment_event list \<Rightarrow> bool" where
  "reads_only P m d os \<longleftrightarrow>
     wp m (\<lambda>r d' os'. d' = d \<and> os' = os \<and> (\<forall>x. r = Inr x \<longrightarrow> P x)) d os"

lemma case_sum_pred:
  "(\<And>e. r = Inl e \<Longrightarrow> P e) \<Longrightarrow> (\<And>x. r = Inr x \<Longrightarrow> R x) \<Longrightarrow> case r of Inl e \<Rightarrow> P e | Inr x \<Rightarrow> R x"
  by (cases r) auto

lemmas read_intros = wp_intros case_sum_pred
lemmas read_defs = reads_only_def validateSiteActive_def Site_Get_def GetBySiteAndKey_def Let_def

lemma flat_reads:
  assumes "comment_inv d"
  shows "reads_only (\<lambda>v. \<forall>c \<in> set (tv_comments v). shown d sid c)
    (ListPublic avatar settings sid key cur sort_raw limit viewer) d os"
proof -
  have "shown d sid c"
    if "visible_ok sid tid (db_comments d) vs"
      "c \<in> set (fst (cut_page n (publicPageCommentView avatar base) next (take m (sort_key k
         (keyset srt cu sort_columns (public_rows d viewer vs))))))" for tid vs c n base "next" m k srt cu
    using in_page [OF that(2)] public_row_shown [OF assms that(1) in_keyset] by blast
  then show ?thesis
    unfolding read_defs ListPublic_def Repo_ListPublic_def
    by (intro read_intros wp_sql_visible [OF assms]) (simp_all, (blast+)?)
qed

lemma root_reads:
  assumes "comment_inv d"
  shows "reads_only (\<lambda>v. \<forall>c \<in> set (rv_comments v). shown d sid (rc_view c))
    (ListPublicRoots avatar settings sid key cur sort_raw limit viewer) d os"
proof -
  have "shown d sid (rc_view c)"
    if ok: "visible_ok sid tid (db_comments d) vs"
      and c: "c \<in> set (fst (cut_page n (root_view avatar base) next (take m (sort_key k
         (keyset srt cu (sort_columns \<circ> pr_public) (root_rows d viewer vs))))))" for tid vs c n base "next" m k srt cu
  proof -
    from in_page [OF c] obtain r where "r \<in> set (keyset srt cu (sort_columns \<circ> pr_public) (root_rows d viewer vs))"
      and r: "c = root_view avatar base r" by blast
    from in_keyset [OF this(1)] have "pr_public r \<in> set (public_rows d viewer (filter (\<lambda>v. vr_parent v = None) vs))"
      by (auto simp: root_rows_def)
    from public_row_shown [OF assms ok this] r show ?thesis by (auto simp: root_view_def)
  qed
  then show ?thesis
    unfolding read_defs ListPublicRoots_def Repo_ListPublicRoots_def
    by (intro read_intros wp_sql_visible [OF assms]) (simp_all, (blast+)?)
qed

lemma wp_replies:
  assumes "comment_inv d" "\<And>e. Q (Inl e) d os"
    "\<And>vs P m. visible_ok sid tid (db_comments d) vs \<Longrightarrow> Q (Inr (concat (map (project d viewer)
       (take m (sort_key reply_order (filter P (reply_rows root vs))))))) d os"
  shows "wpf f (Repo_ListPublicReplies sid tid root cur limit viewer) Q d os"
  unfolding Repo_ListPublicReplies_def
  by (rule wp_bind, rule wp_sql_visible [OF assms(1)])
    (use assms(2,3) in \<open>auto intro!: wp_intros simp: option_to_result_def\<close>)

lemma reply_reads:
  assumes "comment_inv d"
  shows "reads_only (\<lambda>v. \<forall>c \<in> set (yv_comments v). shown d sid c \<and> cv_root_id c = Some root)
    (ListPublicReplies avatar settings sid root key cur limit viewer) d os"
proof -
  have "shown d sid c \<and> cv_root_id c = Some root"
    if ok: "visible_ok sid tid (db_comments d) vs"
      and c: "c \<in> set (fst (cut_page n (publicPageCommentView avatar base) next
         (concat (map (project d viewer) (take m (sort_key reply_order (filter P (reply_rows root vs))))))))"
    for tid vs c n base "next" m P
  proof -
    obtain p where p: "p \<in> set (concat (map (project d viewer)
        (take m (sort_key reply_order (filter P (reply_rows root vs))))))"
      "c = publicPageCommentView avatar base p"
      using subsetD [OF cut_page_subset c] by blast
    then obtain v where "v \<in> set (take m (sort_key reply_order (filter P (reply_rows root vs))))"
      and v: "p \<in> set (project d viewer v)" by auto
    from in_set_takeD [OF this(1)] have row: "v \<in> set (reply_rows root vs)" by simp
    then have mem: "v \<in> set vs" "is_published v" "vr_root v = Some root" by (simp_all add: reply_rows_def)
    have here: "vr_comment v \<in> set (db_comments d)" using visible_okD(2) [OF ok mem(1)] by blast
    have "p = public_row d viewer v"
      using v project_row(1) [OF comment_invD(1) [OF assms] here] by simp
    then show ?thesis
      using row_shown [OF assms ok mem(1,2)] mem(3) view_of_row(2) [OF comment_invD(1) [OF assms] here] p(2)
      by simp
  qed
  then show ?thesis
    unfolding read_defs ListPublicReplies_def
    by (intro read_intros wp_replies [OF assms]) (simp_all, blast)
qed

text \<open>
  C14: nothing hidden is shown.  Whatever the request and whatever the database does, the three public
  lists write nothing, and every comment they return, its parent and its root are published
  comments of the site; the reply list returns comments of the root asked for.
\<close>

theorem hidden_never_shown:
  assumes inv: "comment_inv (data w)"
  shows "(case ListPublic avatar settings sid key cur sort_raw limit viewer w of (r, w') \<Rightarrow>
      data w' = data w \<and> outbox w' = outbox w \<and>
      (\<forall>v. r = Inr v \<longrightarrow> (\<forall>c \<in> set (tv_comments v). shown (data w) sid c))) \<and>
    (case ListPublicRoots avatar settings sid key cur sort_raw limit viewer w of (r, w') \<Rightarrow>
      data w' = data w \<and> outbox w' = outbox w \<and>
      (\<forall>v. r = Inr v \<longrightarrow> (\<forall>c \<in> set (rv_comments v). shown (data w) sid (rc_view c)))) \<and>
    (case ListPublicReplies avatar settings sid root key cur limit viewer w of (r, w') \<Rightarrow>
      data w' = data w \<and> outbox w' = outbox w \<and>
      (\<forall>v. r = Inr v \<longrightarrow> (\<forall>c \<in> set (yv_comments v). shown (data w) sid c \<and> cv_root_id c = Some root)))"
  using wpD [OF flat_reads [OF inv, unfolded reads_only_def]] wpD [OF root_reads [OF inv, unfolded reads_only_def]]
    wpD [OF reply_reads [OF inv, unfolded reads_only_def]]
  by (intro conjI) (simp_all split: prod.split)

section \<open>Witnesses\<close>

definition sample_thread :: thread where
  "sample_thread = hd (db_threads sample_db)"

lemma sample_exact: "exact_db sample_db"
  by (simp add: exact_db_def sample_comments sample_comment_def sample_db_def count64_def id64_def UnixMicro_def)

lemma sample_open: "open_page sample_world 1 ''post'' sample_thread"
proof -
  have "select_first (thread_of_page 1 ''post'') (db_threads sample_db) = Some sample_thread"
    "id64 (t_id sample_thread)"
    by (simp_all add: sample_thread_def sample_db_def select_first_def thread_of_page_def id64_def)
  moreover have "validatePageKey ''post'' = Inr ()" by code_simp
  moreover have "validateSiteActive 1 sample_world = (Inr (), sample_world)"
    by (simp add: validateSiteActive_def Site_Get_def sample_db_def select_first_def bind_def require_def)
  ultimately show ?thesis by (simp add: open_page_def sample_exact id64_def)
qed

lemma sample_sort: "normalizeSort '''' (pol_comment_sort sample_policy) = Inr CommentSortAsc"
  by code_simp

lemma flat_listing_complete_witness:
  "\<exists>ps. follow 5 (\<lambda>cur. map_sum id flat_page (fst (ListPublic sample_avatar (Inr sample_policy) 1 ''post'' cur ''''
      1 None sample_world))) '''' = Some (map (publicPageCommentView sample_avatar ''https://gravatar.example'') ps) \<and>
    (c_id \<circ> pc_comment) ` set ps = {1, 3}"
proof -
  have "published_ids sample_db 1 (t_id sample_thread) = {1, 3}"
    by (simp add: published_ids_list in_thread_def sample_comments sample_comment_def sample_thread_def
        sample_db_def)
  then show ?thesis
    using flat_listing_complete [OF sample_open refl sample_sort, of sample_avatar 1 None]
    by (auto simp: sample_comments numeral_eq_Suc sample_policy_def)
qed

lemma roots_and_replies_partition_witness:
  "\<exists>rs reps. follow 5 (\<lambda>cur. map_sum id root_page (fst (ListPublicRoots sample_avatar (Inr sample_policy) 1
      ''post'' cur '''' 1 None sample_world))) '''' = Some rs \<and>
    distinct (map (cv_id \<circ> rc_view) rs @ concat (map (map cv_id \<circ> replies_of reps) rs))"
  using roots_and_replies_partition [OF sample_open refl sample_sort, of sample_avatar 1 None]
  by (force simp: sample_comments numeral_eq_Suc sample_policy_def)

lemma hidden_never_shown_witness:
  "outbox (snd (ListPublic sample_avatar (Inr sample_policy) 1 ''post'' '''' '''' 10 None sample_world)) = []"
  using hidden_never_shown [of sample_world 1 sample_avatar "Inr sample_policy" "''post''" "''''" "''''" 10 None 1]
  by (auto split: prod.splits)

end
