(* ===== verification/Thread_Admin.thy ===== *)
theory Thread_Admin
  imports Listing Batch
begin

text \<open>
  The administrator's thread commands (\<open>internal/service/comment/thread_admin.go\<close>) and the listing
  statements of \<open>internal/repository/thread.go\<close> they use.
\<close>

section \<open>Statements\<close>

record admin_thread_filter =
  tf_site_id :: "int option"
  tf_comments_enabled :: "bool option"
  tf_q :: string
  tf_sort :: "comment_sort option"
  tf_offset :: int
  tf_limit :: int

record admin_thread =
  at_thread :: thread
  at_site_name :: string

definition admin_thread_row :: "db \<Rightarrow> thread \<Rightarrow> admin_thread option" where
  "admin_thread_row d t =
     map_option (\<lambda>s. \<lparr>at_thread = t, at_site_name = s_name s\<rparr>)
       (select_first (\<lambda>s. s_id s = t_site_id t) (db_sites d))"

definition opt_like :: "(string \<Rightarrow> string \<Rightarrow> bool) \<Rightarrow> string \<Rightarrow> string option \<Rightarrow> bool" where
  "opt_like like pattern v = (case v of None \<Rightarrow> False | Some s \<Rightarrow> like pattern s)"

definition applyAdminThreadFilters :: "(string \<Rightarrow> string \<Rightarrow> bool) \<Rightarrow> admin_thread_filter \<Rightarrow> thread \<Rightarrow> bool" where
  "applyAdminThreadFilters like f t =
     (let pattern = ''%'' @ tf_q f @ ''%''
      in opt_eq (tf_site_id f) (t_site_id t) \<and> opt_eq (tf_comments_enabled f) (t_comments_enabled t) \<and>
         (tf_q f = '''' \<or> like pattern (t_page_key t) \<or> opt_like like pattern (t_page_title t) \<or>
          opt_like like pattern (t_page_url t)))"

definition thread_cursor_order :: "comment_sort \<Rightarrow> thread \<Rightarrow> int \<times> int" where
  "thread_cursor_order srt t =
     (if srt = CommentSortDesc then (- t_created_at t, - t_id t) else (t_created_at t, t_id t))"

definition sort_or_desc :: "comment_sort option \<Rightarrow> comment_sort" where
  "sort_or_desc srt = (case srt of None \<Rightarrow> CommentSortDesc | Some s \<Rightarrow> s)"

definition Thread_ListAdmin :: "(string \<Rightarrow> string \<Rightarrow> bool) \<Rightarrow> admin_thread_filter \<Rightarrow> admin_thread list sql" where
  "Thread_ListAdmin like f =
     sql_query (\<lambda>d. window (tf_offset f) (tf_limit f)
       (sort_key (\<lambda>r. thread_cursor_order (sort_or_desc (tf_sort f)) (at_thread r))
         (List.map_filter (admin_thread_row d) (filter (applyAdminThreadFilters like f) (db_threads d)))))"

definition Thread_CountAdmin :: "(string \<Rightarrow> string \<Rightarrow> bool) \<Rightarrow> admin_thread_filter \<Rightarrow> nat sql" where
  "Thread_CountAdmin like f = sql_query (\<lambda>d. count_where (applyAdminThreadFilters like f) (db_threads d))"

section \<open>Views and the list\<close>

record admin_thread_view =
  tw_id :: int
  tw_site_id :: int
  tw_site_name :: string
  tw_page_key :: string
  tw_page_url :: "string option"
  tw_page_title :: "string option"
  tw_comments_enabled :: bool
  tw_created_at :: int
  tw_updated_at :: int

record admin_thread_list =
  tl_threads :: "admin_thread_view list"
  tl_total :: nat

definition toAdminThreadView :: "admin_thread \<Rightarrow> admin_thread_view" where
  "toAdminThreadView r =
     (let t = at_thread r in
      \<lparr>tw_id = t_id t, tw_site_id = t_site_id t, tw_site_name = at_site_name r, tw_page_key = t_page_key t,
       tw_page_url = t_page_url t, tw_page_title = t_page_title t, tw_comments_enabled = t_comments_enabled t,
       tw_created_at = t_created_at t, tw_updated_at = t_updated_at t\<rparr>)"

definition adminThreadView :: "int \<Rightarrow> thread \<Rightarrow> admin_thread_view sql" where
  "adminThreadView sid t =
     bind (Site_Get sid) (\<lambda>s. ret (toAdminThreadView \<lparr>at_thread = t, at_site_name = s_name s\<rparr>))"

definition AdminListThreads ::
  "(string \<Rightarrow> string \<Rightarrow> bool) \<Rightarrow> int \<Rightarrow> bool option \<Rightarrow> string \<Rightarrow> int \<Rightarrow> comment_sort option \<Rightarrow> int \<Rightarrow>
     admin_thread_list sql" where
  "AdminListThreads like sid enabled q page srt limit =
     (let n = normalizeLimit limit;
          f = \<lparr>tf_site_id = Some sid, tf_comments_enabled = enabled, tf_q = q,
               tf_sort = Some (sort_or_desc srt), tf_offset = OffsetForPage page n, tf_limit = n\<rparr>
      in bind (Thread_ListAdmin like f) (\<lambda>rows.
         bind (Thread_CountAdmin like f) (\<lambda>total.
         ret \<lparr>tl_threads = map toAdminThreadView rows, tl_total = total\<rparr>)))"

section \<open>Updates\<close>

text \<open>\<open>OptionalNullableString\<close>: absent, null or blank, or a value.\<close>

record optional_nullable =
  on_set :: bool
  on_value :: "string option"

record thread_update =
  tu_page_key :: "string option"
  tu_page_title :: optional_nullable
  tu_page_url :: optional_nullable
  tu_comments_enabled :: "bool option"

definition trimmed_value :: "optional_nullable \<Rightarrow> string" where
  "trimmed_value o' = (case on_value o' of None \<Rightarrow> '''' | Some v \<Rightarrow> TrimSpace v)"

definition patch_key :: "string option \<Rightarrow> error + string option" where
  "patch_key k =
     (case k of None \<Rightarrow> Inr None
      | Some raw \<Rightarrow>
          let key = TrimSpace raw in
          if key = '''' then Inl ErrValidation
          else if length key > maxPageKeyLength then Inl ErrValidation else Inr (Some key))"

text \<open>The written value and the clear flag of a three-state field.\<close>

definition patch_title :: "optional_nullable \<Rightarrow> error + string option \<times> bool" where
  "patch_title o' =
     (if \<not> on_set o' then Inr (None, False)
      else let title = trimmed_value o' in
      if title = '''' then Inr (None, True)
      else if length title > maxPageTitleLength then Inl ErrValidation
      else Inr (Some title, False))"

definition patch_url :: "content_library \<Rightarrow> optional_nullable \<Rightarrow> error + string option \<times> bool" where
  "patch_url L o' =
     (if \<not> on_set o' then Inr (None, False)
      else let url = trimmed_value o' in
      if url = '''' then Inr (None, True)
      else bindE (validatePageURL L (Some url)) (\<lambda>_. Inr (Some url, False)))"

definition thread_patch_of :: "content_library \<Rightarrow> thread_update \<Rightarrow> error + thread_patch" where
  "thread_patch_of L input =
     (if tu_page_key input = None \<and> \<not> on_set (tu_page_title input) \<and> \<not> on_set (tu_page_url input) \<and>
         tu_comments_enabled input = None
      then Inl ErrValidation
      else bindE (patch_key (tu_page_key input)) (\<lambda>key.
           bindE (patch_title (tu_page_title input)) (\<lambda>title.
           bindE (patch_url L (tu_page_url input)) (\<lambda>url.
           Inr \<lparr>tp_page_key = key, tp_page_title = fst title, tp_clear_page_title = snd title,
                tp_page_url = fst url, tp_clear_page_url = snd url,
                tp_comments_enabled = tu_comments_enabled input\<rparr>))))"

definition AdminUpdateThread ::
  "content_library \<Rightarrow> int \<Rightarrow> int \<Rightarrow> thread_update \<Rightarrow> admin_thread_view sql" where
  "AdminUpdateThread L sid tid input =
     bind (lift (thread_patch_of L input)) (\<lambda>patch.
     bind (UpdateThread sid tid patch) (\<lambda>t.
     adminThreadView sid t))"

definition AdminDeleteThread :: "int \<Rightarrow> int \<Rightarrow> bool \<Rightarrow> unit sql" where
  "AdminDeleteThread sid tid confirm =
     (if \<not> confirm then fail ErrConfirmationRequired else DeleteThread sid tid)"

end
