(* ===== verification/Site_Service.thy ===== *)
theory Site_Service
  imports Records_Repo Urlx
begin

text \<open>
  Sites and their allowed origins (\<open>internal/service/site/service.go\<close>).
\<close>

record site_view =
  sv_site :: site
  sv_origins :: "origin list"

definition Sites_Get :: "int \<Rightarrow> site_view sql" where
  "Sites_Get sid =
     bind (Site_Get sid) (\<lambda>s.
     bind (ListOrigins (s_id s)) (\<lambda>os.
     ret \<lparr>sv_site = s, sv_origins = os\<rparr>))"

text \<open>The loop of \<open>List\<close>: one statement per site, stopping at the first error.\<close>

fun with_origins :: "site list \<Rightarrow> site_view list sql" where
  "with_origins [] = ret []"
| "with_origins (s # ss) =
     bind (ListOrigins (s_id s)) (\<lambda>os.
     bind (with_origins ss) (\<lambda>vs.
     ret (\<lparr>sv_site = s, sv_origins = os\<rparr> # vs)))"

definition Sites_List :: "site_view list sql" where
  "Sites_List = bind Site_List with_origins"

definition normalizeSiteInput :: "library \<Rightarrow> string \<Rightarrow> string \<Rightarrow> error + string \<times> string" where
  "normalizeSiteInput L name canonical_url =
     (if TrimSpace name = '''' then Inl ErrValidation
      else (case CanonicalOrigin L canonical_url of
              None \<Rightarrow> Inl ErrValidation
            | Some canonical \<Rightarrow> Inr (TrimSpace name, canonical)))"

definition Sites_Create :: "library \<Rightarrow> string \<Rightarrow> string \<Rightarrow> site_view sql" where
  "Sites_Create L name canonical_url =
     bind (lift (normalizeSiteInput L name canonical_url)) (\<lambda>(n, canonical).
     bind (Site_Create n canonical SiteStatusActive) (\<lambda>row.
     Sites_Get (s_id row)))"

text \<open>The status of a patch is the text of the request; only two texts are accepted.\<close>

record site_update =
  su_name :: "string option"
  su_canonical_url :: "string option"
  su_status :: "string option"

definition site_status_of :: "string \<Rightarrow> site_status option" where
  "site_status_of s =
     (if s = ''active'' then Some SiteStatusActive
      else if s = ''disabled'' then Some SiteStatusDisabled else None)"

definition patch_status :: "string option \<Rightarrow> error + site_status option" where
  "patch_status st =
     (case st of None \<Rightarrow> Inr None
      | Some s \<Rightarrow> (case site_status_of s of None \<Rightarrow> Inl ErrValidation | Some v \<Rightarrow> Inr (Some v)))"

definition patch_name :: "string option \<Rightarrow> error + string" where
  "patch_name name =
     (case name of None \<Rightarrow> Inr ''''
      | Some n \<Rightarrow> if TrimSpace n = '''' then Inl ErrValidation else Inr (TrimSpace n))"

definition patch_canonical :: "library \<Rightarrow> string option \<Rightarrow> error + string" where
  "patch_canonical L url =
     (case url of None \<Rightarrow> Inr ''''
      | Some u \<Rightarrow> option_to_result ErrValidation (CanonicalOrigin L u))"

definition Sites_Update :: "library \<Rightarrow> int \<Rightarrow> site_update \<Rightarrow> site_view sql" where
  "Sites_Update L sid patch =
     bind (lift (patch_status (su_status patch))) (\<lambda>st.
     bind (lift (patch_name (su_name patch))) (\<lambda>name.
     bind (lift (patch_canonical L (su_canonical_url patch))) (\<lambda>canonical.
     bind (Site_Update sid name canonical st) (\<lambda>_.
     Sites_Get sid))))"

definition Sites_Delete :: "int \<Rightarrow> bool \<Rightarrow> unit sql" where
  "Sites_Delete sid confirm = (if \<not> confirm then fail ErrConfirmationRequired else Site_Delete sid)"

definition Sites_AddOrigin :: "library \<Rightarrow> int \<Rightarrow> string \<Rightarrow> origin sql" where
  "Sites_AddOrigin L sid origin' =
     bind (Site_Get sid) (\<lambda>_.
     bind (lift (option_to_result ErrValidation (CanonicalOrigin L origin'))) (\<lambda>normalized.
     AddOrigin sid normalized))"

definition Sites_UpdateOrigin :: "library \<Rightarrow> int \<Rightarrow> int \<Rightarrow> string \<Rightarrow> origin sql" where
  "Sites_UpdateOrigin L sid oid origin' =
     bind (lift (option_to_result ErrValidation (CanonicalOrigin L origin'))) (\<lambda>normalized.
     UpdateOrigin sid oid normalized)"

definition Sites_RemoveOrigin :: "int \<Rightarrow> int \<Rightarrow> unit sql" where
  "Sites_RemoveOrigin sid oid = RemoveOrigin sid oid"

definition Sites_AllowedOrigins :: "int \<Rightarrow> string list sql" where
  "Sites_AllowedOrigins sid = AllowedOrigins sid"

end
