(* ===== verification/Cascade.thy ===== *)
theory Cascade
  imports Comment_Inv
begin

text \<open>
  Deletion of threads and sites as a function on tables.  A cascade never breaks the schema, and
  when threads go, exactly their comments and the likes of those comments go with them.
\<close>

section \<open>A cascade keeps the schema\<close>

lemma sweep_comments_filter: "\<exists>Q. sweep_comments us ts cs = filter Q cs"
proof (induction us ts cs rule: sweep_comments.induct)
  case (1 us ts cs)
  show ?case
  proof (cases "length (filter (comment_refs_ok us ts cs) cs) < length cs")
    case True
    with 1 obtain Q where "sweep_comments us ts (filter (comment_refs_ok us ts cs) cs) =
        filter Q (filter (comment_refs_ok us ts cs) cs)" by auto
    with True show ?thesis by (subst sweep_comments.simps) (auto simp: Let_def)
  next
    case False
    then have "sweep_comments us ts cs = filter (\<lambda>_. True) cs"
      by (subst sweep_comments.simps) (simp add: Let_def)
    then show ?thesis by blast
  qed
qed

lemma clear_reply_to_checks [simp]: "comment_checks (clear_reply_to us c) = comment_checks c"
  by (simp add: clear_reply_to_def comment_checks_def)

lemma has_comment_clear: "has_comment (map (clear_reply_to us) cs) = has_comment cs"
  by (auto simp: fun_eq_iff has_comment_def)

lemma ref_ok_clear: "ref_ok (has_user us) (c_reply_to_user_id (clear_reply_to us c))"
  by (simp add: clear_reply_to_def ref_ok_def)

lemma keys_ok_filter: "keys_ok k n rows \<Longrightarrow> keys_ok k n (filter P rows)"
  by (auto simp: keys_ok_def sorted_wrt_map sorted_wrt_filter)

lemma schema_ok_cascade:
  assumes ok: "schema_ok d" and acc: "accounts_ok (filter U (db_users d)) (db_accounts d)"
  shows "schema_ok (cascade (d\<lparr>db_users := filter U (db_users d), db_sites := filter S (db_sites d),
    db_threads := filter T (db_threads d), db_comments := filter C (db_comments d)\<rparr>))"
proof -
  let ?us = "filter U (db_users d)" and ?ss = "filter S (db_sites d)"
  let ?ts = "filter (\<lambda>t. has_site ?ss (t_site_id t)) (filter T (db_threads d))"
  let ?sw = "sweep_comments ?us ?ts (filter C (db_comments d))"
  let ?cs = "map (clear_reply_to ?us) ?sw"
  obtain Q where "?sw = filter Q (filter C (db_comments d))" using sweep_comments_filter by blast
  then have sw: "?sw = filter (\<lambda>c. C c \<and> Q c) (db_comments d)" by (simp add: conj_commute)
  have parts: "tables_ok d" "uniques_ok d" "refs_ok d" "\<forall>c \<in> set (db_comments d). comment_checks c"
    using ok by (simp_all add: schema_ok_def)
  have ids: "map c_id ?cs = map c_id ?sw" by simp
  have "keys_ok c_id (db_next_comment d) ?sw"
    using parts(1) unfolding sw by (simp add: tables_ok_def keys_ok_filter)
  then have keys: "keys_ok c_id (db_next_comment d) ?cs" unfolding keys_ok_def ids by auto
  have refs: "comment_refs_ok ?us ?ts ?cs c" if "c \<in> set ?cs" for c
    using that sweep_comments_refs_ok [of _ ?us ?ts "filter C (db_comments d)"]
    by (auto simp: comment_refs_ok_def has_comment_clear)
  have eq: "cascade (d\<lparr>db_users := ?us, db_sites := ?ss, db_threads := filter T (db_threads d),
      db_comments := filter C (db_comments d)\<rparr>) =
    d\<lparr>db_users := ?us, db_sites := ?ss, db_threads := ?ts, db_comments := ?cs,
      db_origins := filter (\<lambda>o'. has_site ?ss (o_site_id o')) (db_origins d),
      db_likes := filter (like_refs_ok ?us ?cs) (db_likes d)\<rparr>"
    by (simp add: cascade_def Let_def)
  show ?thesis
    unfolding eq schema_ok_def
  proof (intro conjI)
    show "tables_ok (d\<lparr>db_users := ?us, db_sites := ?ss, db_threads := ?ts, db_comments := ?cs,
      db_origins := filter (\<lambda>o'. has_site ?ss (o_site_id o')) (db_origins d),
      db_likes := filter (like_refs_ok ?us ?cs) (db_likes d)\<rparr>)"
      using parts(1) keys unfolding tables_ok_def by (simp add: keys_ok_filter del: filter_filter)
    show "uniques_ok (d\<lparr>db_users := ?us, db_sites := ?ss, db_threads := ?ts, db_comments := ?cs,
      db_origins := filter (\<lambda>o'. has_site ?ss (o_site_id o')) (db_origins d),
      db_likes := filter (like_refs_ok ?us ?cs) (db_likes d)\<rparr>)"
      using parts(2) unfolding uniques_ok_def by (simp add: distinct_map_filter)
    show "refs_ok (d\<lparr>db_users := ?us, db_sites := ?ss, db_threads := ?ts, db_comments := ?cs,
      db_origins := filter (\<lambda>o'. has_site ?ss (o_site_id o')) (db_origins d),
      db_likes := filter (like_refs_ok ?us ?cs) (db_likes d)\<rparr>)"
      using refs unfolding refs_ok_def by (auto simp: ref_ok_clear)
    show "\<forall>c \<in> set (db_comments (d\<lparr>db_users := ?us, db_sites := ?ss, db_threads := ?ts, db_comments := ?cs,
      db_origins := filter (\<lambda>o'. has_site ?ss (o_site_id o')) (db_origins d),
      db_likes := filter (like_refs_ok ?us ?cs) (db_likes d)\<rparr>)). comment_checks c"
      using parts(4) by (auto dest!: subsetD [OF sweep_comments_subset])
  qed (use acc in simp)
qed

section \<open>Threads and their comments\<close>

lemma comment_in_thread:
  assumes "comment_inv d" "c \<in> set (db_comments d)"
  shows "comment_refs_ok (db_users d) (db_threads d) (db_comments d) c"
    "ref_ok (has_user (db_users d)) (c_reply_to_user_id c)"
  using comment_invD(1) [OF assms(1)] assms(2) by (auto simp: schema_ok_def refs_ok_def)

lemma sweep_pruned:
  assumes inv: "comment_inv d"
  shows "sweep_comments (db_users d) (filter (\<lambda>t. K (t_site_id t) (t_id t)) (db_threads d)) (db_comments d) =
    filter (\<lambda>c. K (c_site_id c) (c_thread_id c)) (db_comments d)"
proof -
  let ?ts = "filter (\<lambda>t. K (t_site_id t) (t_id t)) (db_threads d)" and ?cs = "db_comments d"
  let ?keep = "filter (\<lambda>c. K (c_site_id c) (c_thread_id c)) ?cs"
  have thread: "has_thread ?ts s i \<longleftrightarrow> has_thread (db_threads d) s i \<and> K s i" for s i
    by (auto simp: has_thread_def)
  have live: "filter (comment_refs_ok (db_users d) ?ts ?cs) ?cs = ?keep"
    using comment_in_thread(1) [OF inv] by (intro filter_cong) (auto simp: comment_refs_ok_def thread)
  have refs: "comment_refs_ok (db_users d) ?ts ?keep c" if c: "c \<in> set ?keep" for c
  proof -
    have mem: "c \<in> set ?cs" "K (c_site_id c) (c_thread_id c)" using c by auto
    note ok = comment_in_thread(1) [OF inv mem(1)]
    have "parent_ok ?cs c" "root_ok ?cs c" using inv mem(1) by (auto simp: comment_inv_def tree_inv_def)
    then have "ref_ok (has_comment ?keep (c_site_id c)) (c_parent_id c)"
      "ref_ok (has_comment ?keep (c_site_id c)) (c_root_id c)"
      using mem(2)
      by (auto simp: parent_ok_def root_ok_def ref_ok_def has_comment_def the_comment_def split: option.splits)
    with ok mem(2) show ?thesis by (simp add: comment_refs_ok_def thread)
  qed
  show ?thesis
  proof (cases "length ?keep < length ?cs")
    case True
    then have "sweep_comments (db_users d) ?ts ?cs = sweep_comments (db_users d) ?ts ?keep"
      by (subst sweep_comments.simps) (simp only: live Let_def if_True)
    also have "\<dots> = ?keep" using refs by (rule sweep_comments_fixpoint)
    finally show ?thesis .
  next
    case False
    then have "?keep = ?cs" by (metis filter_id_conv length_filter_less)
    with False show ?thesis
      by (subst sweep_comments.simps) (simp only: live Let_def if_False)
  qed
qed

text \<open>\<open>K\<close> selects the threads that stay, by site and key.\<close>

definition pruned :: "(int \<Rightarrow> int \<Rightarrow> bool) \<Rightarrow> db \<Rightarrow> db" where
  "pruned K d =
     (let cs = filter (\<lambda>c. K (c_site_id c) (c_thread_id c)) (db_comments d)
      in d\<lparr>db_threads := filter (\<lambda>t. K (t_site_id t) (t_id t)) (db_threads d), db_comments := cs,
           db_likes := filter (\<lambda>l. has_comment cs (l_site_id l) (l_comment_id l)) (db_likes d)\<rparr>)"

lemma likes_pruned:
  assumes "comment_inv d"
  shows "filter (like_refs_ok (db_users d) cs) (db_likes d) =
    filter (\<lambda>l. has_comment cs (l_site_id l) (l_comment_id l)) (db_likes d)"
  using comment_invD(1) [OF assms] by (intro filter_cong) (auto simp: like_refs_ok_def schema_ok_def refs_ok_def)

lemma replies_kept:
  assumes "comment_inv d"
  shows "map (clear_reply_to (db_users d)) (filter P (db_comments d)) = filter P (db_comments d)"
  using comment_in_thread(2) [OF assms] by (intro map_idI) (auto simp: clear_reply_to_def)

lemma delete_threads_pruned:
  assumes inv: "comment_inv d"
  shows "snd (delete_threads (\<lambda>t. \<not> K (t_site_id t) (t_id t)) d) = pruned K d"
    "schema_ok (pruned K d)"
proof -
  have refs: "\<forall>o' \<in> set (db_origins d). has_site (db_sites d) (o_site_id o')"
    "\<forall>t \<in> set (db_threads d). has_site (db_sites d) (t_site_id t)"
    using comment_invD(1) [OF inv] by (auto simp: schema_ok_def refs_ok_def)
  then have same: "filter (\<lambda>o'. has_site (db_sites d) (o_site_id o')) (db_origins d) = db_origins d"
    "filter (\<lambda>t. has_site (db_sites d) (t_site_id t)) (filter (\<lambda>t. K (t_site_id t) (t_id t)) (db_threads d)) =
       filter (\<lambda>t. K (t_site_id t) (t_id t)) (db_threads d)"
    by (simp_all add: filter_id_conv del: filter_filter)
  then show eq: "snd (delete_threads (\<lambda>t. \<not> K (t_site_id t) (t_id t)) d) = pruned K d"
    by (simp add: delete_threads_def cascade_def Let_def pruned_def sweep_pruned [OF inv] likes_pruned [OF inv]
        replies_kept [OF inv] del: filter_filter)
  have "schema_ok (cascade (d\<lparr>db_users := filter (\<lambda>_. True) (db_users d), db_sites := filter (\<lambda>_. True) (db_sites d),
      db_threads := filter (\<lambda>t. K (t_site_id t) (t_id t)) (db_threads d),
      db_comments := filter (\<lambda>_. True) (db_comments d)\<rparr>))"
    by (rule schema_ok_cascade [OF comment_invD(1) [OF inv]])
      (use comment_invD(1) [OF inv] in \<open>simp add: schema_ok_def\<close>)
  then show "schema_ok (pruned K d)" unfolding eq [symmetric] by (simp add: delete_threads_def)
qed

definition without_site :: "int \<Rightarrow> db \<Rightarrow> db" where
  "without_site sid d =
     (pruned (\<lambda>s _. s \<noteq> sid) d)
       \<lparr>db_sites := filter (\<lambda>s. s_id s \<noteq> sid) (db_sites d),
        db_origins := filter (\<lambda>o'. o_site_id o' \<noteq> sid) (db_origins d)\<rparr>"

lemma delete_site_pruned:
  assumes inv: "comment_inv d"
  shows "snd (delete_sites (\<lambda>s. s_id s = sid) d) = without_site sid d" "schema_ok (without_site sid d)"
proof -
  let ?ss = "filter (\<lambda>s. s_id s \<noteq> sid) (db_sites d)"
  have site: "has_site ?ss i \<longleftrightarrow> has_site (db_sites d) i \<and> i \<noteq> sid" for i
    by (auto simp: has_site_def)
  have "filter (\<lambda>o'. has_site ?ss (o_site_id o')) (db_origins d) = filter (\<lambda>o'. o_site_id o' \<noteq> sid) (db_origins d)"
    "filter (\<lambda>t. has_site ?ss (t_site_id t)) (db_threads d) = filter (\<lambda>t. t_site_id t \<noteq> sid) (db_threads d)"
    using comment_invD(1) [OF inv] by (auto simp: schema_ok_def refs_ok_def site intro!: filter_cong)
  then show eq: "snd (delete_sites (\<lambda>s. s_id s = sid) d) = without_site sid d"
    using sweep_pruned [OF inv, of "\<lambda>s _. s \<noteq> sid"]
    by (simp add: delete_sites_def cascade_def Let_def pruned_def without_site_def likes_pruned [OF inv]
        replies_kept [OF inv])
  have "schema_ok (cascade (d\<lparr>db_users := filter (\<lambda>_. True) (db_users d), db_sites := ?ss,
      db_threads := filter (\<lambda>_. True) (db_threads d), db_comments := filter (\<lambda>_. True) (db_comments d)\<rparr>))"
    by (rule schema_ok_cascade [OF comment_invD(1) [OF inv]])
      (use comment_invD(1) [OF inv] in \<open>simp add: schema_ok_def\<close>)
  then show "schema_ok (without_site sid d)" unfolding eq [symmetric] by (simp add: delete_sites_def)
qed

end
