(* ===== verification/Admin_Props.thy ===== *)
theory Admin_Props
  imports Thread_Admin Site_Service Cascade Sample "HOL-Library.Multiset"
begin

text \<open>
  The administrator's lists and the thread and site commands: the numbered pages put together are
  the whole selection, and an update or a deletion does exactly what it says.
\<close>

section \<open>Numbered pages\<close>

text \<open>
  The offset of a page never leaves the range of the machine integer, is a multiple of the
  page size, and is the exact product whenever the product fits.
\<close>

theorem page_offset_bounds:
  "0 \<le> OffsetForPage page limit \<and> OffsetForPage page limit \<le> maxInt \<and>
   (OffsetForPage page limit = 0 \<or> limit dvd OffsetForPage page limit) \<and>
   (1 \<le> page \<and> 0 < limit \<and> (page - 1) * limit \<le> maxInt \<longrightarrow> OffsetForPage page limit = (page - 1) * limit) \<and>
   (1 \<le> page \<and> 0 < limit \<and> maxInt < (page - 1) * limit \<longrightarrow> maxInt - limit < OffsetForPage page limit)"
proof (cases "page \<le> 1 \<or> limit \<le> 0")
  case True
  then show ?thesis by (auto simp: OffsetForPage_def maxInt_def)
next
  case False
  then have page: "1 < page" "0 < limit" by auto
  have max: "0 \<le> maxInt" by (simp add: maxInt_def)
  have rem: "0 \<le> maxInt mod limit" "maxInt mod limit < limit" "maxInt mod limit \<le> maxInt"
    using page(2) max by (simp_all add: zmod_le_nonneg_dividend)
  have "limit dvd maxInt - maxInt mod limit" by (rule dvd_minus_mod)
  then show ?thesis
    using OffsetForPage_cases [OF page] page rem by (cases "(page - 1) * limit \<le> maxInt") auto
qed

lemma page_offset_bounds_witness: "OffsetForPage 3 50 = 100"
  using page_offset_bounds [of 3 50] by (simp add: maxInt_def)

lemma normalizeLimit_range: "0 < normalizeLimit limit" "normalizeLimit limit \<le> 100"
  by (simp_all add: normalizeLimit_def)

lemma window_pages:
  assumes "0 < n" "int k * n \<le> maxInt"
  shows "concat (map (\<lambda>p. window (OffsetForPage p n) n rows) [1 .. int k]) = take (k * nat n) rows"
  using assms(2)
proof (induction k)
  case (Suc k)
  have "OffsetForPage (int k + 1) n = int k * n"
    using Suc.prems assms(1) page_offset_bounds [of "int k + 1" n] by (auto simp: algebra_simps)
  then have "window (OffsetForPage (int k + 1) n) n rows = take (nat n) (drop (k * nat n) rows)"
    using assms(1) by (simp add: window_def default_limit_def nat_mult_distrib)
  moreover have "int k * n \<le> maxInt" using Suc.prems assms(1) by (simp add: algebra_simps)
  moreover have "take (Suc k * nat n) rows = take (k * nat n) rows @ take (nat n) (drop (k * nat n) rows)"
    using take_add [of "k * nat n" "nat n" rows] by (simp add: add.commute)
  ultimately show ?case
    using Suc.IH upto_rec2 [of 1 "int k + 1"] by (simp add: add.commute)
qed simp

definition page_rows :: "('v \<Rightarrow> 'r list) \<Rightarrow> (int \<Rightarrow> error + 'v) \<Rightarrow> nat \<Rightarrow> 'r list" where
  "page_rows sel get k = concat (map (\<lambda>p. case get p of Inl _ \<Rightarrow> [] | Inr v \<Rightarrow> sel v) [1 .. int k])"

lemma page_rows_whole:
  assumes "\<And>p. \<exists>v. get p = Inr v \<and> sel v = map view (window (OffsetForPage p n) n rows)"
    and "0 < n" "int k * n \<le> maxInt" "int (length rows) \<le> int k * n"
  shows "page_rows sel get k = map view rows"
proof -
  have "(case get p of Inl _ \<Rightarrow> [] | Inr v \<Rightarrow> sel v) = map view (window (OffsetForPage p n) n rows)" for p
    using assms(1) [of p] by auto
  then have "page_rows sel get k = map view (concat (map (\<lambda>p. window (OffsetForPage p n) n rows) [1 .. int k]))"
    by (simp add: page_rows_def map_concat comp_def)
  moreover have "int (length rows) \<le> int (k * nat n)" using assms(2,4) by simp
  then have "length rows \<le> k * nat n" by (simp only: of_nat_le_iff)
  ultimately show ?thesis by (simp add: window_pages [OF assms(2,3)])
qed

lemma map_filter_total:
  "(\<And>x. x \<in> set xs \<Longrightarrow> \<exists>y. f x = Some y \<and> g y = x) \<Longrightarrow> map g (List.map_filter f xs) = xs"
  by (induction xs) (fastforce simp: List.map_filter_simps)+

lemma thread_row_total:
  assumes "schema_ok d" "t \<in> set (db_threads d)"
  shows "\<exists>r. admin_thread_row d t = Some r \<and> at_thread r = t"
proof -
  have "has_site (db_sites d) (t_site_id t)" using assms by (simp add: schema_ok_def refs_ok_def)
  then have "select_first (\<lambda>s. s_id s = t_site_id t) (db_sites d) \<noteq> None"
    by (auto simp: has_site_def select_first_None)
  then show ?thesis by (auto simp: admin_thread_row_def)
qed

lemma comment_row_total:
  assumes "schema_ok d" "c \<in> set (db_comments d)"
  shows "\<exists>r. admin_row d c = Some r \<and> ac_comment r = c"
proof -
  have "has_user (db_users d) (c_user_id c)"
    using assms by (simp add: schema_ok_def refs_ok_def comment_refs_ok_def)
  then have "author_of d c \<noteq> None" by (auto simp: author_of_def has_user_def select_first_None)
  then show ?thesis by (auto simp: admin_row_def)
qed

lemma sort_or_desc_given [simp]: "sort_or_desc (Some s) = s"
  by (simp add: sort_or_desc_def)

text \<open>
  The pages of the thread list, read one after another, are every thread of the site that passes
  the filter, once and in order, each page reporting the same total.
\<close>

theorem thread_pages_cover:
  fixes srt :: "comment_sort option" and w :: "(db, comment_event) world"
  assumes "schema_ok (data w)" "faults w = []" "int k * normalizeLimit limit \<le> maxInt"
    "int (length (db_threads (data w))) \<le> int k * normalizeLimit limit"
  shows "\<exists>rows. page_rows tl_threads (\<lambda>p. fst (AdminListThreads like sid enabled q p srt limit w)) k =
      map toAdminThreadView rows \<and>
    sorted (map (\<lambda>r. thread_cursor_order (sort_or_desc srt) (at_thread r)) rows) \<and>
    mset (map at_thread rows) = mset (filter (\<lambda>t. t_site_id t = sid \<and> opt_eq enabled (t_comments_enabled t) \<and>
      (q = '''' \<or> like (''%'' @ q @ ''%'') (t_page_key t) \<or> opt_like like (''%'' @ q @ ''%'') (t_page_title t) \<or>
       opt_like like (''%'' @ q @ ''%'') (t_page_url t))) (db_threads (data w))) \<and>
    (\<forall>p. map_sum id tl_total (fst (AdminListThreads like sid enabled q p srt limit w)) = Inr (length rows))"
proof -
  let ?n = "normalizeLimit limit"
  define f where "f p = \<lparr>tf_site_id = Some sid, tf_comments_enabled = enabled, tf_q = q,
      tf_sort = Some (sort_or_desc srt), tf_offset = OffsetForPage p ?n, tf_limit = ?n\<rparr>" for p
  define sel where "sel = filter (applyAdminThreadFilters like (f 1)) (db_threads (data w))"
  define rows where "rows = sort_key (\<lambda>r. thread_cursor_order (sort_or_desc srt) (at_thread r))
      (List.map_filter (admin_thread_row (data w)) sel)"
  have same: "applyAdminThreadFilters like (f p) = applyAdminThreadFilters like (f 1)" for p
    by (simp add: fun_eq_iff applyAdminThreadFilters_def f_def)
  have get: "fst (AdminListThreads like sid enabled q p srt limit w) =
      Inr \<lparr>tl_threads = map toAdminThreadView (window (OffsetForPage p ?n) ?n rows), tl_total = length sel\<rparr>" for p
    using assms(2) same [of p]
    by (simp add: AdminListThreads_def Let_def Thread_ListAdmin_def Thread_CountAdmin_def ret_def count_where_def
        f_def rows_def sel_def)
  have again: "map at_thread (List.map_filter (admin_thread_row (data w)) sel) = sel"
    using thread_row_total [OF assms(1)] by (intro map_filter_total) (auto simp: sel_def)
  have bag: "mset (map at_thread rows) = mset sel"
    using arg_cong [OF again, of mset] by (simp add: rows_def)
  then have len: "length rows = length sel" by (metis length_map size_mset)
  have whole: "page_rows tl_threads (\<lambda>p. fst (AdminListThreads like sid enabled q p srt limit w)) k =
      map toAdminThreadView rows"
  proof (intro page_rows_whole [OF _ normalizeLimit_range(1)])
    have "length sel \<le> length (db_threads (data w))" by (simp add: sel_def)
    then show "int (length rows) \<le> int k * ?n" using assms(4) len by linarith
  qed (use assms(3) in \<open>simp_all add: get\<close>)
  have "sel = filter (\<lambda>t. t_site_id t = sid \<and> opt_eq enabled (t_comments_enabled t) \<and>
      (q = '''' \<or> like (''%'' @ q @ ''%'') (t_page_key t) \<or> opt_like like (''%'' @ q @ ''%'') (t_page_title t) \<or>
       opt_like like (''%'' @ q @ ''%'') (t_page_url t))) (db_threads (data w))"
    unfolding sel_def by (intro filter_cong) (auto simp: applyAdminThreadFilters_def f_def opt_eq_def Let_def)
  with whole bag len show ?thesis
    by (intro exI [of _ rows]) (simp add: get rows_def)
qed

text \<open>
  The pages of the comment list, read one after another, are every comment that passes the
  administrator's filter, once and in order, each page reporting the same total.
\<close>

theorem comment_pages_cover:
  fixes w :: "(db, comment_event) world"
  assumes "schema_ok (data w)" "faults w = []" "settings = Inr pol"
    "int k * normalizeLimit (af_limit flt) \<le> maxInt"
    "int (length (db_comments (data w))) \<le> int k * normalizeLimit (af_limit flt)"
  shows "\<exists>rows. page_rows al_comments (\<lambda>p. fst (AdminList avatar settings like flt p w)) k =
      map (admin_list_view avatar (pol_gravatar_base_url pol)) rows \<and>
    sorted (map (\<lambda>r. applyCursorOrder (af_sort flt) (ac_comment r)) rows) \<and>
    distinct (map ac_comment rows) \<and>
    ac_comment ` set rows = {c \<in> set (db_comments (data w)). \<exists>r. admin_row (data w) c = Some r \<and> admin_matches like flt r} \<and>
    (\<forall>p. map_sum id al_total (fst (AdminList avatar settings like flt p w)) = Inr (length rows))"
proof -
  let ?n = "normalizeLimit (af_limit flt)"
  define sel where "sel = admin_selection like flt (data w)"
  define rows where "rows = sort_key (\<lambda>r. applyCursorOrder (af_sort flt) (ac_comment r)) sel"
  have same: "admin_selection like (flt\<lparr>af_limit := a, af_offset := b\<rparr>) d = admin_selection like flt d" for a b d
    by (simp add: admin_selection_def fun_eq_iff admin_matches_def Let_def cong: filter_cong)
  have get: "fst (AdminList avatar settings like flt p w) =
      Inr \<lparr>al_comments = map (admin_list_view avatar (pol_gravatar_base_url pol))
        (window (OffsetForPage p ?n) ?n rows), al_total = length sel\<rparr>" for p
    using assms(2,3)
    by (simp add: AdminList_def Let_def Repo_ListAdmin_def Repo_CountAdmin_def avatarBaseURL_def same rows_def sel_def)
  have again: "map ac_comment (List.map_filter (admin_row (data w)) (db_comments (data w))) = db_comments (data w)"
    using comment_row_total [OF assms(1)] by (intro map_filter_total) auto
  have sel_set: "ac_comment ` set sel =
      {c \<in> set (db_comments (data w)). \<exists>r. admin_row (data w) c = Some r \<and> admin_matches like flt r}"
    using comment_row_total [OF assms(1)]
    by (force simp: sel_def admin_selection_def List.map_filter_def)
  have "distinct (map ac_comment (List.map_filter (admin_row (data w)) (db_comments (data w))))"
    unfolding again using assms(1) by (auto simp: schema_ok_def tables_ok_def keys_ok_def strict_sorted_iff distinct_map)
  then have "distinct (map ac_comment sel)"
    unfolding sel_def admin_selection_def by (rule distinct_map_filter)
  then have dist: "distinct (map ac_comment rows)"
    by (simp add: rows_def distinct_map)
  have whole: "page_rows al_comments (\<lambda>p. fst (AdminList avatar settings like flt p w)) k =
      map (admin_list_view avatar (pol_gravatar_base_url pol)) rows"
  proof (intro page_rows_whole [OF _ normalizeLimit_range(1)])
    have "length sel \<le> length (List.map_filter (admin_row (data w)) (db_comments (data w)))"
      by (simp add: sel_def admin_selection_def)
    also have "\<dots> = length (db_comments (data w))" using arg_cong [OF again, of length] by simp
    finally show "int (length rows) \<le> int k * ?n" using assms(5) by (simp add: rows_def)
  qed (use assms(4) in \<open>simp_all add: get\<close>)
  with dist sel_set show ?thesis
    by (intro exI [of _ rows]) (simp add: get rows_def)
qed

section \<open>Deletions\<close>

lemma pruned_same:
  assumes "comment_inv d" "\<And>t. t \<in> set (db_threads d) \<Longrightarrow> K (t_site_id t) (t_id t)"
  shows "pruned K d = d"
proof -
  have refs: "refs_ok d" using comment_invD(1) [OF assms(1)] by (simp add: schema_ok_def)
  have "filter (\<lambda>c. K (c_site_id c) (c_thread_id c)) (db_comments d) = db_comments d"
    using refs assms(2) by (fastforce simp: filter_id_conv refs_ok_def comment_refs_ok_def has_thread_def)
  moreover have "filter (\<lambda>l. has_comment (db_comments d) (l_site_id l) (l_comment_id l)) (db_likes d) = db_likes d"
    using refs by (auto simp: filter_id_conv refs_ok_def like_refs_ok_def)
  moreover have "filter (\<lambda>t. K (t_site_id t) (t_id t)) (db_threads d) = db_threads d"
    using assms(2) by (simp add: filter_id_conv)
  ultimately show ?thesis by (simp add: pruned_def)
qed

text \<open>
  Deleting a page needs the confirmation, and then removes exactly that thread, its comments and
  their likes; nothing of another thread, site or user changes, and a missing thread is reported.
\<close>

lemma thread_delete_exact:
  assumes inv: "comment_inv (data w)" and run: "faults w = []"
  shows "AdminDeleteThread sid tid confirm w =
    (if \<not> confirm then (Inl ErrConfirmationRequired, w)
     else if has_thread (db_threads (data w)) sid tid
     then (Inr (), w\<lparr>data := pruned (\<lambda>s i. s \<noteq> sid \<or> i \<noteq> tid) (data w)\<rparr>)
     else (Inl ErrNotFound, w))"
proof -
  let ?K = "\<lambda>s i. s \<noteq> sid \<or> i \<noteq> tid" and ?d = "data w"
  have sel: "the_thread sid tid = (\<lambda>t. \<not> ?K (t_site_id t) (t_id t))"
    by (simp add: fun_eq_iff the_thread_def)
  have eq: "snd (delete_threads (the_thread sid tid) ?d) = pruned ?K ?d" "schema_ok (pruned ?K ?d)"
    using delete_threads_pruned [OF inv, of ?K] unfolding sel by simp_all
  have "fst (delete_threads (the_thread sid tid) ?d) = 0 \<longleftrightarrow> \<not> has_thread (db_threads ?d) sid tid"
    by (auto simp: delete_threads_def count_where_zero has_thread_def the_thread_def)
  moreover have "pruned ?K ?d = ?d" if "\<not> has_thread (db_threads ?d) sid tid"
    using that by (intro pruned_same [OF inv]) (auto simp: has_thread_def)
  ultimately show ?thesis
    using run eq by (auto simp: AdminDeleteThread_def DeleteThread_def write_or_not_found_def require_def)
qed

text \<open>
  C40: deleting a site needs the confirmation, and then removes exactly that site with its origins,
  threads, comments and likes; every row of another site stays, and a missing site is reported.
\<close>

theorem site_delete_exact:
  assumes inv: "comment_inv (data w)" and run: "faults w = []"
  shows "Sites_Delete sid confirm w =
    (if \<not> confirm then (Inl ErrConfirmationRequired, w)
     else if has_site (db_sites (data w)) sid
     then (Inr (), w\<lparr>data := without_site sid (data w)\<rparr>)
     else (Inl ErrNotFound, w))"
proof -
  let ?d = "data w"
  note eq = delete_site_pruned [OF inv, of sid]
  have zero: "fst (delete_sites (\<lambda>s. s_id s = sid) ?d) = 0 \<longleftrightarrow> \<not> has_site (db_sites ?d) sid"
    by (auto simp: delete_sites_def count_where_zero has_site_def)
  have "without_site sid ?d = ?d" if none: "\<not> has_site (db_sites ?d) sid"
  proof -
    have refs: "refs_ok ?d" using comment_invD(1) [OF inv] by (simp add: schema_ok_def)
    have "pruned (\<lambda>s _. s \<noteq> sid) ?d = ?d"
      using refs none by (intro pruned_same [OF inv]) (auto simp: refs_ok_def)
    moreover have "filter (\<lambda>s. s_id s \<noteq> sid) (db_sites ?d) = db_sites ?d"
      "filter (\<lambda>o'. o_site_id o' \<noteq> sid) (db_origins ?d) = db_origins ?d"
      using refs none by (auto simp: filter_id_conv has_site_def refs_ok_def)
    ultimately show ?thesis by (simp add: without_site_def)
  qed
  with zero show ?thesis
    using run eq by (auto simp: Sites_Delete_def Site_Delete_def write_or_not_found_def require_def)
qed

section \<open>Updates\<close>

lemma thread_rows_split:
  assumes "schema_ok d" "select_first (the_thread sid tid) (db_threads d) = Some t"
  shows "\<exists>xs ys. db_threads d = xs @ t # ys \<and> the_thread sid tid t \<and>
    (\<forall>u \<in> set xs \<union> set ys. \<not> the_thread sid tid u \<and> u \<noteq> t)"
proof -
  have t: "t \<in> set (db_threads d)" "the_thread sid tid t" using select_first_Some [OF assms(2)] by auto
  then obtain xs ys where xy: "db_threads d = xs @ t # ys" by (meson split_list)
  have "distinct (map t_id (db_threads d))"
    using assms(1) by (simp add: schema_ok_def tables_ok_def keys_ok_def strict_sorted_iff)
  then have "\<forall>u \<in> set xs \<union> set ys. t_id u \<noteq> t_id t" by (force simp: xy image_iff)
  with t xy show ?thesis by (intro exI [of _ xs] exI [of _ ys]) (auto simp: the_thread_def)
qed

lemma schema_ok_update_thread:
  assumes ok: "schema_ok d" and row: "db_threads d = xs @ t # ys" and
    same: "t_id t' = t_id t" "t_site_id t' = t_site_id t"
  shows "schema_ok (d\<lparr>db_threads := xs @ t' # ys\<rparr>) \<longleftrightarrow>
    (\<forall>u \<in> set xs \<union> set ys. \<not> thread_of_page (t_site_id t) (t_page_key t') u)"
proof -
  have ids: "map t_id (xs @ t' # ys) = map t_id (db_threads d)" by (simp add: row same)
  have keys: "keys_ok t_id n (xs @ t' # ys) = keys_ok t_id n (db_threads d)" for n
    unfolding keys_ok_def ids by (auto simp: row same)
  have "has_thread (xs @ t' # ys) = has_thread (db_threads d)"
    by (auto simp: fun_eq_iff has_thread_def row same)
  then have refs: "refs_ok (d\<lparr>db_threads := xs @ t' # ys\<rparr>) = refs_ok d"
    by (auto simp: refs_ok_def comment_refs_ok_def row same)
  have uniq: "distinct (map (\<lambda>t. (t_site_id t, t_page_key t)) (xs @ ys))"
    using ok by (simp add: schema_ok_def uniques_ok_def row)
  then have "distinct (map (\<lambda>t. (t_site_id t, t_page_key t)) (xs @ t' # ys)) \<longleftrightarrow>
      (t_site_id t', t_page_key t') \<notin> (\<lambda>t. (t_site_id t, t_page_key t)) ` set (xs @ ys)"
    by auto
  also have "\<dots> \<longleftrightarrow> (\<forall>u \<in> set xs \<union> set ys. \<not> thread_of_page (t_site_id t) (t_page_key t') u)"
    by (auto simp: thread_of_page_def same image_iff) (metis UnI1, metis UnI2)
  finally show ?thesis
    using ok keys refs by (simp add: schema_ok_def tables_ok_def uniques_ok_def)
qed

lemma update_where_at:
  "db_threads d = xs @ t # ys \<Longrightarrow> the_thread sid tid t \<Longrightarrow> \<forall>u \<in> set xs \<union> set ys. \<not> the_thread sid tid u \<Longrightarrow>
   update_where (the_thread sid tid) f (db_threads d) = xs @ f t # ys"
  by (auto simp: update_where_def intro!: map_idI)

lemma patch_not_empty: "thread_patch_of L input = Inr p \<Longrightarrow> \<not> empty_patch p"
  by (auto simp: thread_patch_of_def patch_key_def patch_title_def patch_url_def empty_patch_def Let_def
      bindE_Inr_iff split: if_splits option.splits)

text \<open>
  An update of a page writes the fields of the patch and nothing else.  An invalid patch is
  refused before any statement, a missing thread is reported, and a page key another page of the
  site has is a conflict that writes nothing.
\<close>

theorem thread_update_exact:
  assumes ok: "schema_ok (data w)" and run: "faults w = []"
  shows "AdminUpdateThread L sid tid input w =
    (case thread_patch_of L input of Inl e \<Rightarrow> (Inl e, w)
     | Inr p \<Rightarrow> (case select_first (the_thread sid tid) (db_threads (data w)) of
         None \<Rightarrow> (Inl ErrNotFound, w)
       | Some t \<Rightarrow>
           let t' = (apply_thread_patch p t)\<lparr>t_updated_at := db_clock (data w)\<rparr> in
           if \<exists>u \<in> set (db_threads (data w)). u \<noteq> t \<and> thread_of_page sid (t_page_key t') u
           then (Inl ErrConflict, w)
           else (Inr (toAdminThreadView \<lparr>at_thread = t',
                   at_site_name = s_name (the (select_first (\<lambda>s. s_id s = sid) (db_sites (data w))))\<rparr>),
                 w\<lparr>data := (data w)\<lparr>db_threads := map (\<lambda>u. if u = t then t' else u) (db_threads (data w))\<rparr>\<rparr>)))"
proof (cases "thread_patch_of L input")
  case (Inl e)
  then show ?thesis by (simp add: AdminUpdateThread_def)
next
  case (Inr p)
  show ?thesis
  proof (cases "select_first (the_thread sid tid) (db_threads (data w))")
    case None
    with Inr run show ?thesis by (simp add: AdminUpdateThread_def UpdateThread_def GetBySiteAndID_def)
  next
    case (Some t)
    let ?d = "data w" and ?t' = "(apply_thread_patch p t)\<lparr>t_updated_at := db_clock (data w)\<rparr>"
    obtain xs ys where row: "db_threads ?d = xs @ t # ys" "the_thread sid tid t"
      "\<forall>u \<in> set xs \<union> set ys. \<not> the_thread sid tid u \<and> u \<noteq> t"
      using thread_rows_split [OF ok Some] by blast
    have site: "t_site_id t = sid" using row(2) by (simp add: the_thread_def)
    have same: "t_id ?t' = t_id t" "t_site_id ?t' = t_site_id t" by (simp_all add: apply_thread_patch_def)
    have upd: "snd (update_threads (the_thread sid tid) (apply_thread_patch p) ?d) =
        ?d\<lparr>db_threads := xs @ ?t' # ys\<rparr>"
      using update_where_at [OF row(1,2)] row(3) by (simp add: update_threads_def)
    have map_eq: "map (\<lambda>u. if u = t then ?t' else u) (db_threads ?d) = xs @ ?t' # ys"
      using row(3) by (auto simp: row(1) intro!: map_idI)
    have clash: "schema_ok (?d\<lparr>db_threads := xs @ ?t' # ys\<rparr>) \<longleftrightarrow>
        \<not> (\<exists>u \<in> set (db_threads ?d). u \<noteq> t \<and> thread_of_page sid (t_page_key ?t') u)"
      using row(3) unfolding schema_ok_update_thread [OF ok row(1) same] by (auto simp: row(1) site)
    have "select_first (the_thread sid tid) (xs @ ?t' # ys) = Some ?t'"
    proof -
      have "find (the_thread sid tid) xs = None" using row(3) by (auto simp: find_None_iff)
      moreover have "the_thread sid tid ?t'" using row(2) same by (simp add: the_thread_def)
      ultimately show ?thesis by (induction xs) (auto simp: select_first_def split: if_splits)
    qed
    moreover have "\<exists>s. select_first (\<lambda>s. s_id s = sid) (db_sites ?d) = Some s"
    proof -
      have "has_site (db_sites ?d) sid"
        using ok row(1) site by (auto simp: schema_ok_def refs_ok_def)
      then show ?thesis by (cases "select_first (\<lambda>s. s_id s = sid) (db_sites ?d)")
          (auto simp: has_site_def select_first_None)
    qed
    ultimately show ?thesis
      using Inr Some run patch_not_empty [OF Inr] clash map_eq
      by (auto simp: AdminUpdateThread_def UpdateThread_def GetBySiteAndID_def upd adminThreadView_def Site_Get_def
          Let_def)
  qed
qed

section \<open>Witnesses\<close>

lemma thread_pages_cover_witness:
  "\<exists>rows. page_rows tl_threads (\<lambda>p. fst (AdminListThreads (=) 1 None '''' p None 20 sample_world)) 1 =
     map toAdminThreadView rows \<and> mset (map at_thread rows) = mset (db_threads sample_db)"
proof -
  have "schema_ok (data sample_world)" "faults sample_world = []" "int 1 * normalizeLimit 20 \<le> maxInt"
    "int (length (db_threads (data sample_world))) \<le> int 1 * normalizeLimit 20"
    by (simp_all add: normalizeLimit_def maxInt_def) (simp add: sample_db_def)
  from thread_pages_cover [OF this, of "(=)" 1 None "''''" None] show ?thesis
    by (auto simp: opt_eq_def) (auto simp: sample_db_def)
qed

definition sample_filter :: admin_filter where
  "sample_filter = \<lparr>af_site_id = Some 1, af_thread_id = None, af_status = None, af_user_id = None,
     af_since = None, af_until = None, af_q = '''', af_sort = CommentSortAsc, af_offset = 0, af_limit = 20\<rparr>"

lemma comment_pages_cover_witness:
  "\<exists>rows. page_rows al_comments (\<lambda>p. fst (AdminList sample_avatar (Inr sample_policy) (=) sample_filter p
      sample_world)) 1 = map (admin_list_view sample_avatar (pol_gravatar_base_url sample_policy)) rows \<and>
    distinct (map ac_comment rows)"
  using comment_pages_cover [of sample_world "Inr sample_policy" sample_policy 1 sample_filter sample_avatar "(=)"]
  by (auto simp: sample_comments sample_filter_def normalizeLimit_def maxInt_def)

lemma thread_delete_exact_witness:
  "AdminDeleteThread 1 1 True sample_world =
     (Inr (), sample_world\<lparr>data := sample_db\<lparr>db_threads := [], db_comments := [], db_likes := []\<rparr>\<rparr>)"
proof -
  have w: "comment_inv (data sample_world)" "faults sample_world = []" by simp_all
  show ?thesis
    using thread_delete_exact [OF w, of 1 1 True]
    by (simp add: sample_db_def pruned_def has_thread_def sample_comment_def has_comment_def Let_def)
qed

lemma site_delete_exact_witness: "Sites_Delete 7 True sample_world = (Inl ErrNotFound, sample_world)"
proof -
  have "\<not> has_site (db_sites sample_db) 7" by (simp add: sample_db_def has_site_def)
  then show ?thesis using site_delete_exact [of sample_world 7 True] by simp
qed

definition sample_update :: thread_update where
  "sample_update = \<lparr>tu_page_key = None, tu_page_title = \<lparr>on_set = True, on_value = None\<rparr>,
     tu_page_url = \<lparr>on_set = False, on_value = None\<rparr>, tu_comments_enabled = Some False\<rparr>"

lemma thread_update_exact_witness:
  "\<forall>L. fst (AdminUpdateThread L 1 1 sample_update sample_world) =
     Inr \<lparr>tw_id = 1, tw_site_id = 1, tw_site_name = ''blog'', tw_page_key = ''post'', tw_page_url = None,
       tw_page_title = None, tw_comments_enabled = False, tw_created_at = 0, tw_updated_at = 500\<rparr>"
proof
  fix L
  have w: "schema_ok (data sample_world)" "faults sample_world = []" by simp_all
  have "thread_patch_of L sample_update = Inr \<lparr>tp_page_key = None, tp_page_title = None, tp_clear_page_title = True,
      tp_page_url = None, tp_clear_page_url = False, tp_comments_enabled = Some False\<rparr>"
    by (simp add: thread_patch_of_def sample_update_def patch_key_def patch_title_def patch_url_def trimmed_value_def)
  then show "fst (AdminUpdateThread L 1 1 sample_update sample_world) =
     Inr \<lparr>tw_id = 1, tw_site_id = 1, tw_site_name = ''blog'', tw_page_key = ''post'', tw_page_url = None,
       tw_page_title = None, tw_comments_enabled = False, tw_created_at = 0, tw_updated_at = 500\<rparr>"
    using thread_update_exact [OF w, of L 1 1 sample_update]
    by (simp add: sample_db_def select_first_def the_thread_def thread_of_page_def apply_thread_patch_def
        set_if_given_def toAdminThreadView_def Let_def)
qed

end
