(* ===== verification/User_Repo.thy ===== *)
theory User_Repo
  imports Records_Repo Go_Std
begin

text \<open>
  The rest of \<open>internal/repository/user.go\<close>: the statements of account administration, of the
  passwords and of the sessions.  The domain's \<open>User\<close> carries no password, so the users given to the two
  inserts have empty password columns.  Row locks (\<open>FOR UPDATE\<close>) matter between concurrent
  transactions only, which run one after the other here.
\<close>

section \<open>Selecting\<close>

definition FindByIDLocked :: "int \<Rightarrow> user sql" where
  "FindByIDLocked uid = first_or_not_found (\<lambda>d. select_first (\<lambda>u. u_id u = uid) (db_users d))"

definition FindByIDsLocked :: "int list \<Rightarrow> user list sql" where
  "FindByIDsLocked ids =
     (if ids = [] then ret [] else sql_query (\<lambda>d. filter (\<lambda>u. u_id u \<in> set ids) (db_users d)))"

text \<open>
  \<open>domain.AdminUserFilter\<close>; the empty string of an enumeration means no condition.  \<open>like\<close> is
  the database's \<open>LIKE\<close>, pattern first.
\<close>

record admin_user_filter =
  uf_search :: string
  uf_status :: "user_status option"
  uf_role :: "role option"
  uf_email_verified :: "bool option"

definition applyAdminUserFilter :: "(string \<Rightarrow> string \<Rightarrow> bool) \<Rightarrow> admin_user_filter \<Rightarrow> user \<Rightarrow> bool" where
  "applyAdminUserFilter like f u \<longleftrightarrow>
     (let search = TrimSpace (uf_search f); pattern = ''%'' @ search @ ''%''
      in search = '''' \<or> like pattern (u_email_normalized u) \<or> like pattern (u_nickname u)) \<and>
     (case uf_status f of None \<Rightarrow> True | Some st \<Rightarrow> u_status u = st) \<and>
     (case uf_role f of None \<Rightarrow> True | Some r \<Rightarrow> u_role u = r) \<and>
     (case uf_email_verified f of None \<Rightarrow> True | Some b \<Rightarrow> (u_email_verified_at u \<noteq> None) = b)"

text \<open>The rows are kept in the order of their keys; no offset is sent for \<open>offset \<le> 0\<close>.\<close>

definition ListFiltered ::
  "(string \<Rightarrow> string \<Rightarrow> bool) \<Rightarrow> admin_user_filter \<Rightarrow> comment_sort option \<Rightarrow> int \<Rightarrow> int \<Rightarrow> user list sql" where
  "ListFiltered like f srt limit offset =
     (let limit = (if limit \<le> 0 \<or> limit > 100 then 50 else limit);
          desc = (srt = None \<or> srt = Some CommentSortDesc)
      in sql_query (\<lambda>d.
           let rows = filter (applyAdminUserFilter like f) (db_users d);
               ordered = (if desc then rev rows else rows)
           in take (nat limit) (drop (nat offset) ordered)))"

definition search_filter :: "string \<Rightarrow> admin_user_filter" where
  "search_filter search = \<lparr>uf_search = search, uf_status = None, uf_role = None, uf_email_verified = None\<rparr>"

definition User_List ::
  "(string \<Rightarrow> string \<Rightarrow> bool) \<Rightarrow> string \<Rightarrow> comment_sort option \<Rightarrow> int \<Rightarrow> int \<Rightarrow> user list sql" where
  "User_List like search = ListFiltered like (search_filter search)"

definition CountFiltered :: "(string \<Rightarrow> string \<Rightarrow> bool) \<Rightarrow> admin_user_filter \<Rightarrow> nat sql" where
  "CountFiltered like f = sql_query (\<lambda>d. count_where (applyAdminUserFilter like f) (db_users d))"

definition User_Count :: "(string \<Rightarrow> string \<Rightarrow> bool) \<Rightarrow> string \<Rightarrow> nat sql" where
  "User_Count like search = CountFiltered like (search_filter search)"

definition with_role_and_status :: "role \<Rightarrow> user_status \<Rightarrow> user \<Rightarrow> bool" where
  "with_role_and_status r st u \<longleftrightarrow> u_role u = r \<and> u_status u = st"

definition CountByRoleAndStatus :: "role \<Rightarrow> user_status \<Rightarrow> nat sql" where
  "CountByRoleAndStatus r st = sql_query (\<lambda>d. count_where (with_role_and_status r st) (db_users d))"

abbreviation active_admin :: "user \<Rightarrow> bool" where
  "active_admin \<equiv> with_role_and_status RoleAdmin UserStatusActive"

definition LockActiveAdmins :: "nat sql" where
  "LockActiveAdmins = sql_query (\<lambda>d. length (filter active_admin (db_users d)))"

definition ListActiveAdmins :: "user list sql" where
  "ListActiveAdmins = sql_query (\<lambda>d. filter active_admin (db_users d))"

section \<open>Administration\<close>

definition UpdateRoleStatus :: "int \<Rightarrow> role \<Rightarrow> user_status \<Rightarrow> unit sql" where
  "UpdateRoleStatus uid r st =
     write_or_not_found ErrInfra (update_users (\<lambda>u. u_id u = uid) (\<lambda>u. u\<lparr>u_role := r, u_status := st\<rparr>))"

text \<open>The map of columns given to \<open>UpdateAdmin\<close>: a key that is absent is \<open>None\<close>.\<close>

record user_fields =
  fd_email :: "(string \<times> string) option"
  fd_nickname :: "string option"
  fd_website_url :: "string option option"
  fd_role :: "role option"
  fd_status :: "user_status option"
  fd_email_verified_at :: "int option option"

definition given :: "'a option \<Rightarrow> 'a \<Rightarrow> 'a" where
  "given new old = (case new of None \<Rightarrow> old | Some v \<Rightarrow> v)"

definition apply_fields :: "user_fields \<Rightarrow> user \<Rightarrow> user" where
  "apply_fields f u =
     u\<lparr>u_email := given (map_option fst (fd_email f)) (u_email u),
       u_email_normalized := given (map_option snd (fd_email f)) (u_email_normalized u),
       u_nickname := given (fd_nickname f) (u_nickname u),
       u_website_url := given (fd_website_url f) (u_website_url u),
       u_role := given (fd_role f) (u_role u),
       u_status := given (fd_status f) (u_status u),
       u_email_verified_at := given (fd_email_verified_at f) (u_email_verified_at u)\<rparr>"

definition no_fields :: user_fields where
  "no_fields = \<lparr>fd_email = None, fd_nickname = None, fd_website_url = None, fd_role = None,
     fd_status = None, fd_email_verified_at = None\<rparr>"

definition UpdateAdmin :: "int \<Rightarrow> user_fields \<Rightarrow> unit sql" where
  "UpdateAdmin uid f =
     bind (FindByID uid) (\<lambda>_.
     bind (sql_write ErrConflict (update_users (\<lambda>u. u_id u = uid) (apply_fields f))) (\<lambda>_. ret ()))"

definition UpdateStatusMany_Users :: "int list \<Rightarrow> user_status \<Rightarrow> nat sql" where
  "UpdateStatusMany_Users ids st =
     (if ids = [] then ret 0
      else sql_write ErrInfra (update_users (\<lambda>u. u_id u \<in> set ids) (\<lambda>u. u\<lparr>u_status := st\<rparr>)))"

definition MarkEmailVerifiedMany :: "int list \<Rightarrow> int \<Rightarrow> nat sql" where
  "MarkEmailVerifiedMany ids at =
     (if ids = [] then ret 0
      else sql_write ErrInfra (update_users (\<lambda>u. u_id u \<in> set ids \<and> u_email_verified_at u = None)
             (\<lambda>u. u\<lparr>u_email_verified_at := Some at\<rparr>)))"

definition UnverifyEmailMany :: "int list \<Rightarrow> nat sql" where
  "UnverifyEmailMany ids =
     (if ids = [] then ret 0
      else sql_write ErrInfra (update_users (\<lambda>u. u_id u \<in> set ids \<and> u_email_verified_at u \<noteq> None)
             (\<lambda>u. u\<lparr>u_email_verified_at := None\<rparr>)))"

definition delete_columns :: "user_status \<Rightarrow> int \<Rightarrow> user \<Rightarrow> user" where
  "delete_columns before at u =
     u\<lparr>u_status := UserStatusDeleted, u_status_before_delete := Some before, u_deleted_at := Some at\<rparr>"

definition SoftDeleteMany :: "int list \<Rightarrow> int \<Rightarrow> nat sql" where
  "SoftDeleteMany ids at =
     (if ids = [] then ret 0
      else sql_write ErrInfra (update_users (\<lambda>u. u_id u \<in> set ids \<and> u_status u \<noteq> UserStatusDeleted)
             (\<lambda>u. delete_columns (u_status u) at u)))"

text \<open>The \<open>CASE\<close> expression, and the same choice made by the single restore.\<close>

definition status_to_restore :: "user \<Rightarrow> user_status" where
  "status_to_restore u =
     (case u_status_before_delete u of
        Some UserStatusActive \<Rightarrow> UserStatusActive
      | Some UserStatusDisabled \<Rightarrow> UserStatusDisabled
      | _ \<Rightarrow> UserStatusActive)"

definition restore_columns :: "user_status \<Rightarrow> user \<Rightarrow> user" where
  "restore_columns st u = u\<lparr>u_status := st, u_status_before_delete := None, u_deleted_at := None\<rparr>"

definition RestoreMany :: "int list \<Rightarrow> nat sql" where
  "RestoreMany ids =
     (if ids = [] then ret 0
      else sql_write ErrInfra (update_users (\<lambda>u. u_id u \<in> set ids \<and> u_status u = UserStatusDeleted)
             (\<lambda>u. restore_columns (status_to_restore u) u)))"

definition DeleteMany :: "int list \<Rightarrow> nat sql" where
  "DeleteMany ids =
     (if ids = [] then ret 0 else sql_write ErrInfra (delete_users (\<lambda>u. u_id u \<in> set ids)))"

definition User_SoftDelete :: "int \<Rightarrow> user_status \<Rightarrow> int \<Rightarrow> unit sql" where
  "User_SoftDelete uid before at =
     bind (FindByID uid) (\<lambda>_.
     bind (sql_write ErrInfra (update_users (\<lambda>u. u_id u = uid) (delete_columns before at))) (\<lambda>_. ret ()))"

definition User_Restore :: "int \<Rightarrow> unit sql" where
  "User_Restore uid =
     bind (FindByID uid) (\<lambda>row.
     bind (sql_write ErrInfra (update_users (\<lambda>u. u_id u = uid) (restore_columns (status_to_restore row)))) (\<lambda>_.
     ret ()))"

definition User_Delete :: "int \<Rightarrow> unit sql" where
  "User_Delete uid = write_or_not_found ErrInfra (delete_users (\<lambda>u. u_id u = uid))"

section \<open>Passwords and sessions\<close>

definition with_password :: "string \<Rightarrow> int \<Rightarrow> user \<Rightarrow> user" where
  "with_password hash at u = u\<lparr>u_password_hash := Some hash, u_password_changed_at := Some at\<rparr>"

definition CreateWithPassword :: "user \<Rightarrow> string \<Rightarrow> int \<Rightarrow> user sql" where
  "CreateWithPassword u hash at = sql_write ErrConflict (insert_user (with_password hash at u))"

text \<open>\<open>UPDATE ... RETURNING\<close>: the updated row that satisfies the condition, \<open>None\<close> when none did.\<close>

definition update_returning :: "(user \<Rightarrow> bool) \<Rightarrow> (user \<Rightarrow> user) \<Rightarrow> (user \<Rightarrow> 'a) \<Rightarrow> 'a sql" where
  "update_returning P f col =
     bind (sql_write ErrInfra (\<lambda>d.
             let d' = snd (update_users P f d)
             in (map_option (\<lambda>u. col (f u)) (select_first P (db_users d)), d')))
          (\<lambda>r. lift (option_to_result ErrNotFound r))"

definition bump_session :: "user \<Rightarrow> user" where
  "bump_session u = u\<lparr>u_session_version := u_session_version u + 1\<rparr>"

definition SetPassword :: "int \<Rightarrow> string \<Rightarrow> int \<Rightarrow> int sql" where
  "SetPassword uid hash at =
     update_returning (\<lambda>u. u_id u = uid) (\<lambda>u. bump_session (with_password hash at u)) u_session_version"

definition BumpSessionVersion :: "int \<Rightarrow> int sql" where
  "BumpSessionVersion uid = update_returning (\<lambda>u. u_id u = uid) bump_session u_session_version"

definition PasswordHash :: "int \<Rightarrow> string sql" where
  "PasswordHash uid =
     bind (FindByID uid) (\<lambda>row. lift (option_to_result ErrNotFound (u_password_hash row)))"

definition coalesce_verified :: "int \<Rightarrow> user \<Rightarrow> user" where
  "coalesce_verified at u =
     u\<lparr>u_email_verified_at := (case u_email_verified_at u of None \<Rightarrow> Some at | Some t \<Rightarrow> Some t)\<rparr>"

definition ResetPasswordByEmail :: "string \<Rightarrow> string \<Rightarrow> int \<Rightarrow> int \<Rightarrow> (int \<times> int) sql" where
  "ResetPasswordByEmail email hash changed verified =
     update_returning (\<lambda>u. u_email_normalized u = email)
       (\<lambda>u. coalesce_verified verified (bump_session (with_password hash changed u)))
       (\<lambda>u. (u_id u, u_session_version u))"

definition MarkEmailVerified :: "int \<Rightarrow> int \<Rightarrow> bool sql" where
  "MarkEmailVerified uid at =
     bind (FindByID uid) (\<lambda>row.
     if u_email_verified_at row \<noteq> None then ret False
     else bind (sql_write ErrInfra (update_users (\<lambda>u. u_id u = uid)
                  (\<lambda>u. u\<lparr>u_email_verified_at := Some at\<rparr>))) (\<lambda>_.
          ret True))"

definition HasPassword :: "int \<Rightarrow> bool sql" where
  "HasPassword uid = bind (FindByID uid) (\<lambda>row. ret (u_password_hash row \<noteq> None))"

end
