(* ===== verification/Credential_Repo.thy ===== *)
theory Credential_Repo
  imports User_Repo
begin

text \<open>
  The statements of \<open>internal/repository/credential.go\<close>: passkeys, external identities and
  notification preferences.  The keys and creation times of new rows come from the database.
\<close>

definition map_accounts :: "(accounts \<Rightarrow> accounts) \<Rightarrow> db \<Rightarrow> db" where
  "map_accounts f d = d\<lparr>db_accounts := f (db_accounts d)\<rparr>"

text \<open>
  An insert whose statement reports a duplicate key as a conflict and every other refusal as it is.
\<close>

definition sql_insert :: "(db \<Rightarrow> bool) \<Rightarrow> (db \<Rightarrow> unit \<times> db) \<Rightarrow> unit sql" where
  "sql_insert dup f = stmt ErrInfra (\<lambda>d. checked (if dup d then ErrConflict else ErrInfra) (f d))"

lemma sql_insert_iff [prog_elims]:
  "sql_insert dup f w = (Inr y, w') \<longleftrightarrow>
     (faults w = [] \<or> \<not> hd (faults w)) \<and> schema_ok (snd (f (data w))) \<and>
     w' = w\<lparr>faults := tl (faults w), data := snd (f (data w))\<rparr>"
  by (cases "f (data w)") (auto simp: sql_insert_def stmt_iff checked_def)

lemma preserves_sql_insert [preserves_intros]:
  "(\<And>d. I d \<Longrightarrow> schema_ok (snd (f d)) \<Longrightarrow> I (snd (f d))) \<Longrightarrow> preserves I (sql_insert dup f)"
  unfolding sql_insert_def
  by (rule preserves_stmt) (metis checked_def sum.distinct(1) sum.inject(2) snd_conv)

lemma wp_sql_insert [wp_intros]:
  "(f \<Longrightarrow> Q (Inl ErrInfra) d os) \<Longrightarrow>
     (\<not> schema_ok (snd (g d)) \<Longrightarrow> Q (Inl (if dup d then ErrConflict else ErrInfra)) d os) \<Longrightarrow>
     (schema_ok (snd (g d)) \<Longrightarrow> Q (Inr ()) (snd (g d)) os) \<Longrightarrow> wpf f (sql_insert dup g) Q d os"
  unfolding sql_insert_def
  by (rule wp_stmt) (auto simp: checked_def split: if_splits)

section \<open>Passkeys\<close>

definition insert_passkey :: "passkey_credential \<Rightarrow> db \<Rightarrow> unit \<times> db" where
  "insert_passkey row d =
     ((), map_accounts (\<lambda>a. a\<lparr>ac_passkeys := ac_passkeys a @
            [row\<lparr>pk_id := ac_next_passkey a, pk_created_at := db_clock d\<rparr>],
            ac_next_passkey := ac_next_passkey a + 1\<rparr>) d)"

definition Passkey_Create :: "passkey_credential \<Rightarrow> unit sql" where
  "Passkey_Create row =
     sql_insert (\<lambda>d. \<exists>p \<in> set (ac_passkeys (db_accounts d)). pk_credential_id p = pk_credential_id row)
       (insert_passkey row)"

definition the_passkey :: "int \<Rightarrow> int \<Rightarrow> passkey_credential \<Rightarrow> bool" where
  "the_passkey uid i p \<longleftrightarrow> pk_user_id p = uid \<and> pk_id p = i"

definition Passkey_GetByUserIDAndID :: "int \<Rightarrow> int \<Rightarrow> passkey_credential sql" where
  "Passkey_GetByUserIDAndID uid i =
     first_or_not_found (\<lambda>d. select_first (the_passkey uid i) (ac_passkeys (db_accounts d)))"

definition GetByCredentialID :: "string \<Rightarrow> passkey_credential sql" where
  "GetByCredentialID cid =
     first_or_not_found (\<lambda>d. select_first (\<lambda>p. pk_credential_id p = cid) (ac_passkeys (db_accounts d)))"

definition Passkey_ListByUserID :: "int \<Rightarrow> passkey_credential list sql" where
  "Passkey_ListByUserID uid =
     sql_query (\<lambda>d. filter (\<lambda>p. pk_user_id p = uid) (ac_passkeys (db_accounts d)))"

definition Passkey_CountByUserID :: "int \<Rightarrow> nat sql" where
  "Passkey_CountByUserID uid =
     sql_query (\<lambda>d. count_where (\<lambda>p. pk_user_id p = uid) (ac_passkeys (db_accounts d)))"

definition Passkey_DeleteByUserAndID :: "int \<Rightarrow> int \<Rightarrow> unit sql" where
  "Passkey_DeleteByUserAndID uid i =
     sql_write ErrInfra (\<lambda>d. ((), map_accounts (\<lambda>a.
       a\<lparr>ac_passkeys := filter (\<lambda>p. \<not> the_passkey uid i p) (ac_passkeys a)\<rparr>) d))"

definition update_passkeys ::
  "(passkey_credential \<Rightarrow> bool) \<Rightarrow> (passkey_credential \<Rightarrow> passkey_credential) \<Rightarrow> db \<Rightarrow> nat \<times> db" where
  "update_passkeys P f d =
     (count_where P (ac_passkeys (db_accounts d)),
      map_accounts (\<lambda>a. a\<lparr>ac_passkeys := update_where P f (ac_passkeys a)\<rparr>) d)"

definition RenameByUserAndID :: "int \<Rightarrow> int \<Rightarrow> string \<Rightarrow> unit sql" where
  "RenameByUserAndID uid i name =
     write_or_not_found ErrInfra (update_passkeys (the_passkey uid i) (\<lambda>p. p\<lparr>pk_name := name\<rparr>))"

text \<open>The sign counter, a \<open>uint32\<close> in the code, is only stored here and read back; nothing is computed with it.\<close>

definition UpdateLoginState :: "int \<Rightarrow> int \<Rightarrow> bool \<Rightarrow> int \<Rightarrow> unit sql" where
  "UpdateLoginState i sign_count backup_state used_at =
     write_or_not_found ErrInfra (update_passkeys (\<lambda>p. pk_id p = i)
       (\<lambda>p. p\<lparr>pk_sign_count := sign_count, pk_backup_state := backup_state,
               pk_last_used_at := Some used_at\<rparr>))"

section \<open>External identities\<close>

definition insert_identity :: "external_identity \<Rightarrow> db \<Rightarrow> unit \<times> db" where
  "insert_identity row d =
     ((), map_accounts (\<lambda>a. a\<lparr>ac_identities := ac_identities a @
            [row\<lparr>ei_id := ac_next_identity a, ei_created_at := db_clock d\<rparr>],
            ac_next_identity := ac_next_identity a + 1\<rparr>) d)"

definition Identity_Create :: "external_identity \<Rightarrow> unit sql" where
  "Identity_Create row =
     sql_insert (\<lambda>d. \<exists>e \<in> set (ac_identities (db_accounts d)). ei_provider_key e = ei_provider_key row \<and>
         ei_provider_subject e = ei_provider_subject row)
       (insert_identity row)"

definition GetByProviderSubject :: "string \<Rightarrow> string \<Rightarrow> external_identity sql" where
  "GetByProviderSubject key subject =
     first_or_not_found (\<lambda>d. select_first (\<lambda>e. ei_provider_key e = key \<and> ei_provider_subject e = subject)
       (ac_identities (db_accounts d)))"

definition the_identity :: "int \<Rightarrow> int \<Rightarrow> external_identity \<Rightarrow> bool" where
  "the_identity uid i e \<longleftrightarrow> ei_user_id e = uid \<and> ei_id e = i"

definition Identity_GetByUserIDAndID :: "int \<Rightarrow> int \<Rightarrow> external_identity sql" where
  "Identity_GetByUserIDAndID uid i =
     first_or_not_found (\<lambda>d. select_first (the_identity uid i) (ac_identities (db_accounts d)))"

definition Identity_ListByUserID :: "int \<Rightarrow> external_identity list sql" where
  "Identity_ListByUserID uid =
     sql_query (\<lambda>d. filter (\<lambda>e. ei_user_id e = uid) (ac_identities (db_accounts d)))"

definition Identity_CountByUserID :: "int \<Rightarrow> nat sql" where
  "Identity_CountByUserID uid =
     sql_query (\<lambda>d. count_where (\<lambda>e. ei_user_id e = uid) (ac_identities (db_accounts d)))"

definition Identity_DeleteByUserAndID :: "int \<Rightarrow> int \<Rightarrow> unit sql" where
  "Identity_DeleteByUserAndID uid i =
     sql_write ErrInfra (\<lambda>d. ((), map_accounts (\<lambda>a.
       a\<lparr>ac_identities := filter (\<lambda>e. \<not> the_identity uid i e) (ac_identities a)\<rparr>) d))"

definition TouchLastLogin :: "int \<Rightarrow> int \<Rightarrow> unit sql" where
  "TouchLastLogin i at =
     write_or_not_found ErrInfra (\<lambda>d.
       (count_where (\<lambda>e. ei_id e = i) (ac_identities (db_accounts d)),
        map_accounts (\<lambda>a. a\<lparr>ac_identities :=
          update_where (\<lambda>e. ei_id e = i) (\<lambda>e. e\<lparr>ei_last_login_at := Some at\<rparr>) (ac_identities a)\<rparr>) d))"

section \<open>Notification preferences\<close>

text \<open>\<open>INSERT ... ON CONFLICT (user_id) DO UPDATE\<close>; \<open>at\<close> is the repository's clock.\<close>

definition upsert_preferences :: "int \<Rightarrow> bool \<Rightarrow> bool \<Rightarrow> int \<Rightarrow> accounts \<Rightarrow> accounts" where
  "upsert_preferences uid reply moderation at a =
     (if \<exists>n \<in> set (ac_prefs a). np_user_id n = uid
      then a\<lparr>ac_prefs := update_where (\<lambda>n. np_user_id n = uid)
             (\<lambda>n. n\<lparr>np_reply_enabled := reply, np_moderation_enabled := moderation, np_updated_at := at\<rparr>)
             (ac_prefs a)\<rparr>
      else a\<lparr>ac_prefs := ac_prefs a @
               [\<lparr>np_id = ac_next_pref a, np_user_id = uid, np_reply_enabled = reply,
                 np_moderation_enabled = moderation, np_updated_at = at\<rparr>],
             ac_next_pref := ac_next_pref a + 1\<rparr>)"

definition Prefs_Upsert :: "int \<Rightarrow> bool \<Rightarrow> bool \<Rightarrow> int \<Rightarrow> unit sql" where
  "Prefs_Upsert uid reply moderation at =
     sql_write ErrInfra (\<lambda>d. ((), map_accounts (upsert_preferences uid reply moderation at) d))"

definition Prefs_GetByUserID :: "int \<Rightarrow> notification_preferences sql" where
  "Prefs_GetByUserID uid =
     first_or_not_found (\<lambda>d. select_first (\<lambda>n. np_user_id n = uid) (ac_prefs (db_accounts d)))"

end
