(* ===== verification/Frame.thy ===== *)
theory Frame
  imports Comment_Repo Credential_Repo
begin

text \<open>
  Which tables a statement leaves alone.  A condition that only looks at the accounts survives every
  statement on sites, threads, comments and credentials, one that only looks at the comments survives
  every statement on the other tables.  Each is stated once, as a contract, for all such conditions.
\<close>

lemma cascade_accounts [simp]:
  "db_users (cascade d) = db_users d" "db_accounts (cascade d) = db_accounts d"
  "db_next_user (cascade d) = db_next_user d"
  by (simp_all add: cascade_def Let_def)

section \<open>Conditions on the accounts\<close>

locale reads_accounts =
  fixes I :: "db \<Rightarrow> bool"
  assumes same_accounts: "I d \<Longrightarrow> schema_ok d' \<Longrightarrow> db_users d' = db_users d \<Longrightarrow>
    db_next_user d' = db_next_user d \<Longrightarrow> ac_bootstrap (db_accounts d') = ac_bootstrap (db_accounts d) \<Longrightarrow> I d'"
begin

lemma other_tables:
  assumes "I d"
  shows "schema_ok (snd (update_comments P f d)) \<Longrightarrow> I (snd (update_comments P f d))"
    "schema_ok (snd (update_threads Q g d)) \<Longrightarrow> I (snd (update_threads Q g d))"
    "schema_ok (snd (update_sites R h d)) \<Longrightarrow> I (snd (update_sites R h d))"
    "schema_ok (snd (delete_comments P d)) \<Longrightarrow> I (snd (delete_comments P d))"
    "schema_ok (snd (delete_threads Q d)) \<Longrightarrow> I (snd (delete_threads Q d))"
    "schema_ok (snd (delete_sites R d)) \<Longrightarrow> I (snd (delete_sites R d))"
  using assms
  by (auto elim!: same_accounts simp: update_comments_def update_threads_def update_sites_def
      delete_comments_def delete_threads_def delete_sites_def)

lemma upsert_row:
  "I d \<Longrightarrow> schema_ok (snd (upsert_thread sid key url title d)) \<Longrightarrow> I (snd (upsert_thread sid key url title d))"
  by (erule same_accounts) (auto simp: upsert_thread_def update_threads_def)

lemma credential_rows:
  "I d \<Longrightarrow> schema_ok (map_accounts f d) \<Longrightarrow>
     ac_bootstrap (f (db_accounts d)) = ac_bootstrap (db_accounts d) \<Longrightarrow> I (map_accounts f d)"
  by (erule same_accounts) (auto simp: map_accounts_def)

lemma keeps_comment_statements [preserves_intros]:
  "preserves I (FindBySiteAndID sid cid)" "preserves I (FindGlobalByID cid)"
  "preserves I (FindBySiteAndIDLocked sid cid)" "preserves I (FindGlobalByIDsLocked ids)"
  "preserves I (Comment_Create c)" "preserves I (UpdateBody sid cid body)"
  "preserves I (UpdateStatus sid cid st before published deleted)" "preserves I (UpdateStatusMany ts)"
  "preserves I (SetPinned sid cid b)" "preserves I (SetPinnedMany us b)"
  "preserves I (DetachCommentChildren sid cid)" "preserves I (DetachCommentChildrenMany us)"
  "preserves I (HardDelete sid cid)" "preserves I (HardDeleteMany us)"
  "preserves I (SoftDeleteByUser uid now)" "preserves I (SoftDeleteByUsers uids now)"
  "preserves I (DetachUserCommentChildren uid)" "preserves I (DetachUserCommentChildrenMany uids)"
  by (auto simp: FindBySiteAndID_def FindGlobalByID_def FindBySiteAndIDLocked_def FindGlobalByIDsLocked_def
      Comment_Create_def insert_comment_def UpdateBody_def UpdateStatus_def UpdateStatusMany_def
      SetPinned_def SetPinnedMany_def DetachCommentChildren_def DetachCommentChildrenMany_def
      HardDelete_def HardDeleteMany_def SoftDeleteByUser_def SoftDeleteByUsers_def
      DetachUserCommentChildren_def DetachUserCommentChildrenMany_def detach_users_def Let_def
      intro!: preserves_intros other_tables elim: same_accounts split: list.split)

lemma keeps_likes [preserves_intros]: "preserves I (AddLike sid cid uid)" "preserves I (RemoveLike sid cid uid)"
  by (auto simp: AddLike_def RemoveLike_def requirePublishedComment_def likeCount_def
      insert_like_def delete_like_def intro!: preserves_intros split: if_splits elim: same_accounts)

lemma keeps_threads [preserves_intros]:
  "preserves I (GetBySiteAndKey sid key)" "preserves I (GetBySiteAndID sid tid)"
  "preserves I (GetBySiteAndKeyLocked sid key)" "preserves I (GetBySiteAndIDLocked sid tid)"
  "preserves I (GetBySiteAndIDsLocked sid ids)" "preserves I (ResolveOrCreate sid key url title)"
  "preserves I (UpdateThread sid tid p)" "preserves I (UpdateCommentsEnabledMany sid ids b)"
  "preserves I (DeleteThread sid tid)" "preserves I (DeleteThreads sid ids)"
  by (auto simp: GetBySiteAndKey_def GetBySiteAndID_def GetBySiteAndKeyLocked_def
      GetBySiteAndIDLocked_def GetBySiteAndIDsLocked_def ResolveOrCreate_def UpdateThread_def
      UpdateCommentsEnabledMany_def DeleteThread_def DeleteThreads_def Let_def
      intro!: preserves_intros other_tables upsert_row)

lemma keeps_sites [preserves_intros]:
  "preserves I (Site_Get sid)" "preserves I (Site_Create name url st)"
  "preserves I (Site_Update sid name url st')" "preserves I (Site_Delete sid)"
  "preserves I (AllowedOrigins sid)" "preserves I Site_List" "preserves I (ListOrigins sid)"
  "preserves I (RemoveOrigin sid oid)" "preserves I (UpdateOrigin sid oid v)"
  by (auto simp: Site_Get_def Site_Create_def Site_Update_def Site_Delete_def AllowedOrigins_def
      Site_List_def ListOrigins_def RemoveOrigin_def UpdateOrigin_def GetOrigin_def insert_site_def Let_def
      intro!: preserves_intros other_tables elim: same_accounts)

lemma keeps_AddOrigin [preserves_intros]: "preserves I (AddOrigin sid v)"
  unfolding AddOrigin_def
  by (intro preserves_stmt)
    (auto simp: checked_def insert_origin_def Let_def elim: same_accounts split: if_splits)

lemma keeps_user_reads [preserves_intros]:
  "preserves I (FindByID uid)" "preserves I (FindByIDLocked uid)" "preserves I (FindByIDsLocked ids)"
  "preserves I (FindByEmailNormalized e)" "preserves I LockActiveAdmins" "preserves I (CountByRoleAndStatus r st)"
  "preserves I (HasPassword uid)" "preserves I (PasswordHash uid)"
  by (auto simp: FindByID_def FindByIDLocked_def FindByIDsLocked_def FindByEmailNormalized_def
      LockActiveAdmins_def CountByRoleAndStatus_def HasPassword_def PasswordHash_def intro!: preserves_intros)

lemma keeps_credential_statements [preserves_intros]:
  "preserves I (Prefs_GetByUserID uid)" "preserves I (Prefs_Upsert uid r m at)"
  "preserves I (Passkey_Create p)" "preserves I (Passkey_GetByUserIDAndID uid i)"
  "preserves I (GetByCredentialID cid)" "preserves I (Passkey_ListByUserID uid)"
  "preserves I (Passkey_CountByUserID uid)" "preserves I (Passkey_DeleteByUserAndID uid i)"
  "preserves I (RenameByUserAndID uid i name)" "preserves I (UpdateLoginState i n b at)"
  "preserves I (Identity_Create e)" "preserves I (GetByProviderSubject k subject)"
  "preserves I (Identity_GetByUserIDAndID uid i)" "preserves I (Identity_ListByUserID uid)"
  "preserves I (Identity_CountByUserID uid)" "preserves I (Identity_DeleteByUserAndID uid i)"
  "preserves I (TouchLastLogin i at)"
  by (auto simp: Prefs_GetByUserID_def Prefs_Upsert_def Passkey_Create_def Passkey_GetByUserIDAndID_def
      GetByCredentialID_def Passkey_ListByUserID_def Passkey_CountByUserID_def Passkey_DeleteByUserAndID_def
      RenameByUserAndID_def UpdateLoginState_def update_passkeys_def insert_passkey_def Identity_Create_def
      insert_identity_def GetByProviderSubject_def Identity_GetByUserIDAndID_def Identity_ListByUserID_def
      Identity_CountByUserID_def Identity_DeleteByUserAndID_def TouchLastLogin_def upsert_preferences_def
      intro!: preserves_intros credential_rows)

end

section \<open>Conditions on the comments\<close>

locale reads_comments =
  fixes I :: "db \<Rightarrow> bool"
  assumes same_comments: "I d \<Longrightarrow> schema_ok d' \<Longrightarrow> db_comments d' = db_comments d \<Longrightarrow>
    db_next_comment d' = db_next_comment d \<Longrightarrow> I d'"
begin

lemma account_rows:
  assumes "I d"
  shows "schema_ok (snd (update_users P f d)) \<Longrightarrow> I (snd (update_users P f d))"
    "schema_ok (map_accounts h d) \<Longrightarrow> I (map_accounts h d)"
  using assms by (auto elim!: same_comments simp: update_users_def map_accounts_def)

lemma leaves_comments_users [preserves_intros]:
  "preserves I (FindByID uid)" "preserves I (FindByIDLocked uid)" "preserves I (FindByIDsLocked ids)"
  "preserves I (FindByEmailNormalized e)" "preserves I LockActiveAdmins" "preserves I (CountByRoleAndStatus r st)"
  "preserves I (HasPassword uid)" "preserves I (PasswordHash uid)"
  "preserves I (User_Create u)" "preserves I (CreateWithPassword u hash at)" "preserves I (UpdateProfile uid n web)"
  "preserves I (UpdateAdmin uid F)" "preserves I (UpdateStatusMany_Users ids st)"
  "preserves I (SetPassword uid hash at)" "preserves I (BumpSessionVersion uid)"
  "preserves I (ResetPasswordByEmail e hash at v)" "preserves I (MarkEmailVerified uid at)"
  "preserves I (MarkEmailVerifiedMany ids at)" "preserves I (UnverifyEmailMany ids)"
  "preserves I (User_SoftDelete uid st at)" "preserves I (SoftDeleteMany ids at)"
  "preserves I (User_Restore uid)" "preserves I (RestoreMany ids)"
  by (auto simp: FindByID_def FindByIDLocked_def FindByIDsLocked_def FindByEmailNormalized_def
      LockActiveAdmins_def CountByRoleAndStatus_def HasPassword_def PasswordHash_def User_Create_def
      CreateWithPassword_def insert_user_def UpdateProfile_def UpdateAdmin_def UpdateStatusMany_Users_def
      SetPassword_def BumpSessionVersion_def ResetPasswordByEmail_def update_returning_def MarkEmailVerified_def
      MarkEmailVerifiedMany_def UnverifyEmailMany_def User_SoftDelete_def SoftDeleteMany_def User_Restore_def
      RestoreMany_def Let_def intro!: preserves_intros account_rows elim: same_comments)

lemma leaves_comments_credentials [preserves_intros]:
  "preserves I (Prefs_GetByUserID uid)" "preserves I (Prefs_Upsert uid r m at)"
  "preserves I (Passkey_Create p)" "preserves I (Passkey_GetByUserIDAndID uid i)"
  "preserves I (GetByCredentialID cid)" "preserves I (Passkey_ListByUserID uid)"
  "preserves I (Passkey_CountByUserID uid)" "preserves I (Passkey_DeleteByUserAndID uid i)"
  "preserves I (RenameByUserAndID uid i name)" "preserves I (UpdateLoginState i n b at)"
  "preserves I (Identity_Create e)" "preserves I (GetByProviderSubject k subject)"
  "preserves I (Identity_GetByUserIDAndID uid i)" "preserves I (Identity_ListByUserID uid)"
  "preserves I (Identity_CountByUserID uid)" "preserves I (Identity_DeleteByUserAndID uid i)"
  "preserves I (TouchLastLogin i at)"
  by (auto simp: Prefs_GetByUserID_def Prefs_Upsert_def Passkey_Create_def Passkey_GetByUserIDAndID_def
      GetByCredentialID_def Passkey_ListByUserID_def Passkey_CountByUserID_def Passkey_DeleteByUserAndID_def
      RenameByUserAndID_def UpdateLoginState_def update_passkeys_def insert_passkey_def Identity_Create_def
      insert_identity_def GetByProviderSubject_def Identity_GetByUserIDAndID_def Identity_ListByUserID_def
      Identity_CountByUserID_def Identity_DeleteByUserAndID_def TouchLastLogin_def
      intro!: preserves_intros account_rows)

end

end
