(* ===== verification/Commands.thy ===== *)
theory Commands
  imports Batch Create_Props Thread_Admin Site_Service Cascade Frame
begin

text \<open>
  The commands of the comment system (\<open>internal/service/comment\<close>, \<open>thread\<close>, \<open>site\<close>), one per use case, and what
  each does to the set of comments, to the comment invariant and to conditions on the accounts.
\<close>

section \<open>Commands\<close>

datatype command =
    CmdCreate create_input
  | CmdReply int role int string string "ip option" string
  | CmdPublish int | CmdSpam int | CmdPending int | CmdRestore int
  | CmdEditBody int string
  | CmdPin int bool
  | CmdWidgetPin principal int int bool
  | CmdDeleteByOwner int int "int option"
  | CmdAdminDelete int bool bool
  | CmdLike int int int | CmdUnlike int int int
  | CmdBatch batch_input
  | CmdThreadBatch int batch_input
  | CmdThreadUpdate int int thread_update
  | CmdThreadDelete int int bool
  | CmdSiteCreate string string
  | CmdSiteUpdate int site_update
  | CmdSiteDelete int bool
  | CmdOriginAdd int string
  | CmdOriginUpdate int int string
  | CmdOriginRemove int int
  | CmdUserCommentsDelete "int list"
  | CmdUserCommentsDetach "int list"

definition only :: "'a sql \<Rightarrow> unit sql" where
  "only m = bind m (\<lambda>_. ret ())"

fun exec :: "env \<Rightarrow> command \<Rightarrow> unit sql" where
  "exec E (CmdCreate input) = only (Create E input)"
| "exec E (CmdReply actor r parent body token ip ua) = only (CreateReplyFirstParty E actor r parent body token ip ua)"
| "exec E (CmdPublish cid) = only (AdminPublish (en_avatar E) (en_settings E) (en_now E) cid)"
| "exec E (CmdSpam cid) = only (AdminMarkSpam (en_avatar E) (en_settings E) (en_now E) cid)"
| "exec E (CmdPending cid) = only (AdminPending (en_avatar E) (en_settings E) (en_now E) cid)"
| "exec E (CmdRestore cid) = only (AdminRestore (en_avatar E) (en_settings E) (en_now E) cid)"
| "exec E (CmdEditBody cid body) =
     only (AdminEditBody (en_avatar E) (en_settings E) (validateBody (en_lib E)) cid body)"
| "exec E (CmdPin cid pinned) = only (AdminSetPinned (en_avatar E) (en_settings E) cid pinned)"
| "exec E (CmdWidgetPin pr sid cid pinned) = only (WidgetSetPinned pr sid cid pinned)"
| "exec E (CmdDeleteByOwner actor cid sid) = only (DeleteByOwner (en_settings E) (en_now E) actor cid sid)"
| "exec E (CmdAdminDelete cid hard confirm) = only (AdminDelete (en_now E) cid hard confirm)"
| "exec E (CmdLike sid cid uid) = only (LikeComment sid cid uid)"
| "exec E (CmdUnlike sid cid uid) = only (UnlikeComment sid cid uid)"
| "exec E (CmdBatch input) = only (AdminBatch (en_settings E) (en_now E) input)"
| "exec E (CmdThreadBatch sid input) = only (AdminBatchThreads sid input)"
| "exec E (CmdThreadUpdate sid tid input) = only (AdminUpdateThread (en_lib E) sid tid input)"
| "exec E (CmdThreadDelete sid tid confirm) = AdminDeleteThread sid tid confirm"
| "exec E (CmdSiteCreate name url) = only (Sites_Create (en_url_lib E) name url)"
| "exec E (CmdSiteUpdate sid patch) = only (Sites_Update (en_url_lib E) sid patch)"
| "exec E (CmdSiteDelete sid confirm) = Sites_Delete sid confirm"
| "exec E (CmdOriginAdd sid v) = only (Sites_AddOrigin (en_url_lib E) sid v)"
| "exec E (CmdOriginUpdate sid oid v) = only (Sites_UpdateOrigin (en_url_lib E) sid oid v)"
| "exec E (CmdOriginRemove sid oid) = Sites_RemoveOrigin sid oid"
| "exec E (CmdUserCommentsDelete uids) = SoftDeleteUsersComments (en_now E) uids"
| "exec E (CmdUserCommentsDetach uids) = PrepareUsersHardDelete uids"

section \<open>The comment invariant\<close>

lemma yields_life:
  "yields comment_inv life_ok (FindGlobalByID cid)"
  "yields comment_inv (\<lambda>rows. \<forall>c \<in> set rows. life_ok c) (FindGlobalByIDsLocked ids)"
  by (auto simp: yields_def FindGlobalByID_def FindGlobalByIDsLocked_def prog_elims comment_inv_def life_inv_def
      dest!: select_first_Some split: if_splits)

lemma preserves_applyAdminTransition:
  "life_ok c \<Longrightarrow> preserves comment_inv (applyAdminTransition c action now)"
  by (cases action)
    (auto simp: applyAdminTransition_def Let_def life_ok_def life_values_def canTransition_iff
      intro!: preserves_intros split: option.splits)

lemma preserves_adminTransition [preserves_intros]: "preserves comment_inv (adminTransition now cid action)"
  unfolding adminTransition_def
  by (rule preserves_bind_yields [OF _ yields_life(1)])
    (auto intro!: preserves_intros preserves_applyAdminTransition)

lemma preserves_softDeleteOne:
  "c_status c \<noteq> CommentStatusDeleted \<Longrightarrow> preserves comment_inv (softDeleteOne now sid c)"
  by (auto simp: softDeleteOne_def life_values_def intro!: preserves_intros)

lemma preserves_hardDeleteOne [preserves_intros]: "preserves comment_inv (hardDeleteOne sid cid)"
  by (auto simp: hardDeleteOne_def hardDeleteInCurrentTx_def intro!: preserves_intros)

definition target_life :: "comment_status_batch_target \<Rightarrow> bool" where
  "target_life t \<longleftrightarrow>
     (bt_status t = CommentStatusDeleted \<longleftrightarrow> bt_status_before_delete t \<noteq> None) \<and>
     bt_status_before_delete t \<noteq> Some CommentStatusDeleted \<and>
     (bt_status t = CommentStatusDeleted \<longleftrightarrow> bt_deleted_at t \<noteq> None) \<and>
     (bt_status t = CommentStatusPublished \<longrightarrow> \<not> bt_preserve_published_at t \<and> bt_published_at t \<noteq> None)"

lemma plan_target_life:
  assumes "life_ok c" "planAdminBatchComment c action now = Inr (t, True)"
    "action \<noteq> AdminBatchPin" "action \<noteq> AdminBatchUnpin" "action \<noteq> AdminBatchHardDelete"
  shows "target_life t"
  using assms
  by (cases action)
    (auto simp: planAdminBatchComment_def new_target_def target_life_def life_ok_def Let_def
      split: if_splits option.splits)

lemma planTargets_life:
  "planTargets action now rows ids = Inr (ps, n) \<Longrightarrow> \<forall>c \<in> set rows. life_ok c \<Longrightarrow>
   action \<notin> {AdminBatchPin, AdminBatchUnpin, AdminBatchHardDelete} \<Longrightarrow> \<forall>t \<in> set (map snd ps). target_life t"
proof (induction ids arbitrary: ps n)
  case (Cons i ids)
  then obtain c t b qs m where *: "select_first (\<lambda>c. c_id c = i) rows = Some c"
    "planAdminBatchComment c action now = Inr (t, b)" "planTargets action now rows ids = Inr (qs, m)"
    "ps = (if b then (c, t) # qs else qs)"
    by (auto simp: bindE_Inr_iff split: option.splits sum.splits prod.splits if_splits)
  then have "life_ok c" using Cons.prems(2) by (auto dest: select_first_Some)
  with * Cons.IH [OF *(3)] Cons.prems plan_target_life [of c action now t] show ?case by (cases b) auto
qed simp

lemma preserves_UpdateStatusMany:
  assumes "\<forall>t \<in> set ts. target_life t"
  shows "preserves comment_inv (UpdateStatusMany ts)"
proof (cases ts)
  case (Cons t us)
  then have "target_life t" using assms by simp
  then have "life_ok (apply_status_target t c)" for c
    by (auto simp: target_life_def life_ok_def apply_status_target_def Let_def)
  then show ?thesis
    unfolding UpdateStatusMany_def Cons by (auto intro!: preserves_intros comment_inv_update)
qed (auto simp: UpdateStatusMany_def intro: preserves_intros)

lemma preserves_requireRows [preserves_intros]: "preserves I m \<Longrightarrow> preserves I (requireRows m n)"
  by (auto simp: requireRows_def intro!: preserves_intros)

lemma preserves_writePlan:
  assumes "action \<notin> {AdminBatchPin, AdminBatchUnpin, AdminBatchHardDelete} \<Longrightarrow> \<forall>t \<in> set ts. target_life t"
  shows "preserves comment_inv (writePlan action ts)"
proof -
  have "preserves comment_inv (writeStatusGroups ts)" if "\<forall>t \<in> set ts. target_life t"
    unfolding writeStatusGroups_def Let_def using that
    by (intro preserves_intros preserves_UpdateStatusMany) auto
  with assms show ?thesis by (cases action) (auto simp: writePlan_def Let_def intro!: preserves_intros)
qed

lemma preserves_batchTx [preserves_intros]: "preserves comment_inv (batchTx action now ids)"
  unfolding batchTx_def
proof (rule preserves_bind_yields [OF _ yields_life(2)])
  fix rows assume rows: "\<forall>c \<in> set rows. life_ok c"
  show "preserves comment_inv (bind (lift (planTargets action now rows ids)) (\<lambda>plan.
     bind (writePlan action (map snd (fst plan))) (\<lambda>_. ret plan)))"
  proof (cases "planTargets action now rows ids")
    case (Inr plan)
    with planTargets_life [of action now rows ids "fst plan" "snd plan"] rows
    show ?thesis by (auto intro!: preserves_intros preserves_writePlan simp: bind_unit)
  qed (simp add: bind_unit preserves_intros)
qed (simp add: preserves_intros)

lemma preserves_AddOrigin [preserves_intros]: "preserves comment_inv (AddOrigin sid v)"
  unfolding AddOrigin_def
  by (intro preserves_stmt)
    (auto simp: checked_def insert_origin_def Let_def elim: comment_inv_other_tables split: if_splits)

lemma preserves_only [preserves_intros]: "preserves I m \<Longrightarrow> preserves I (only m)"
  by (auto simp: only_def intro!: preserves_intros)

lemma preserves_admin_commands [preserves_intros]:
  "preserves comment_inv (AdminPublish avatar settings now cid)"
  "preserves comment_inv (AdminMarkSpam avatar settings now cid)"
  "preserves comment_inv (AdminPending avatar settings now cid)"
  "preserves comment_inv (AdminRestore avatar settings now cid)"
  "preserves comment_inv (AdminEditBody avatar settings v cid body)"
  "preserves comment_inv (AdminSetPinned avatar settings cid b)"
  "preserves comment_inv (WidgetSetPinned pr sid cid b)"
  "preserves comment_inv (DeleteByOwner settings now actor cid want)"
  "preserves comment_inv (AdminDelete now cid hard confirm)"
  "preserves comment_inv (AdminBatch settings now input)"
  by (auto simp: AdminPublish_def AdminMarkSpam_def AdminPending_def AdminRestore_def AdminEditBody_def
      AdminSetPinned_def WidgetSetPinned_def DeleteByOwner_def AdminDelete_def AdminBatch_def
      publishCommentPublished_def Let_def intro!: preserves_intros preserves_softDeleteOne)

lemma preserves_thread_commands [preserves_intros]:
  "preserves comment_inv (AdminBatchThreads sid input)"
  "preserves comment_inv (AdminUpdateThread L sid tid u)"
  "preserves comment_inv (AdminDeleteThread sid tid confirm)"
  by (auto simp: AdminBatchThreads_def threadBatchTx_def AdminUpdateThread_def adminThreadView_def
      AdminDeleteThread_def Let_def intro!: preserves_intros)

lemma preserves_site_commands [preserves_intros]:
  "preserves comment_inv (Sites_Create L name url)" "preserves comment_inv (Sites_Update L sid patch)"
  "preserves comment_inv (Sites_Delete sid confirm)" "preserves comment_inv (Sites_AddOrigin L sid v)"
  "preserves comment_inv (Sites_UpdateOrigin L sid oid v)" "preserves comment_inv (Sites_RemoveOrigin sid oid)"
  by (auto simp: Sites_Create_def Sites_Update_def Sites_Delete_def Sites_AddOrigin_def Sites_UpdateOrigin_def
      Sites_RemoveOrigin_def Sites_Get_def split: prod.splits intro!: preserves_intros)

lemma preserves_exec: "preserves comment_inv (exec E cmd)"
  by (cases cmd) (auto simp: LikeComment_def UnlikeComment_def SoftDeleteUsersComments_def
      PrepareUsersHardDelete_def intro!: preserves_intros)

section \<open>What a command does to the set of comments\<close>

text \<open>
  A calm program adds no comment, changes the identity and the creation time of none, and hands
  no creation message to the bus.  Every command except the two that post is calm.
\<close>

definition calm_db :: "db \<Rightarrow> db \<Rightarrow> bool" where
  "calm_db d d' \<longleftrightarrow> db_next_comment d' = db_next_comment d \<and>
     (\<forall>c' \<in> set (db_comments d'). \<exists>c \<in> set (db_comments d). c_id c' = c_id c \<and> c_created_at c' = c_created_at c)"

definition calm :: "'a sql \<Rightarrow> bool" where
  "calm m \<longleftrightarrow> (\<forall>w r w'. m w = (r, w') \<longrightarrow> calm_db (data w) (data w') \<and>
     (\<exists>es. outbox w' = outbox w @ es \<and> (\<forall>e \<in> set es. ev_type e \<noteq> TypeCommentCreated)))"

named_theorems calm_intros \<open>programs that post nothing\<close>

lemma calm_db_refl [simp]: "calm_db d d"
  by (auto simp: calm_db_def)

lemma calm_db_trans: "calm_db d d1 \<Longrightarrow> calm_db d1 d2 \<Longrightarrow> calm_db d d2"
  unfolding calm_db_def by metis

lemma calmD:
  assumes "calm m" "m w = (r, w')"
  shows "calm_db (data w) (data w')"
    "\<exists>es. outbox w' = outbox w @ es \<and> (\<forall>e \<in> set es. ev_type e \<noteq> TypeCommentCreated)"
  using assms unfolding calm_def by blast+

lemma calm_quiet:
  "(\<And>w r w'. m w = (r, w') \<Longrightarrow> calm_db (data w) (data w') \<and> outbox w' = outbox w) \<Longrightarrow> calm m"
  by (auto simp: calm_def)

lemma calm_basic [calm_intros]: "calm (ret x)" "calm (fail e)" "calm (lift r)" "calm (require b e)"
  by (auto simp: ret_def fail_def lift_def require_def intro!: calm_quiet split: if_splits)

lemma calm_emit [calm_intros]: "ev_type m \<noteq> TypeCommentCreated \<Longrightarrow> calm (emit m)"
  by (auto simp: calm_def emit_def)

lemma calm_stmt: "(\<And>d x d'. f d = Inr (x, d') \<Longrightarrow> calm_db d d') \<Longrightarrow> calm (stmt ErrInfra f)"
  by (rule calm_quiet) (auto simp: stmt_def Let_def split: if_splits sum.splits prod.splits)

lemma calm_sql_query [calm_intros]: "calm (sql_query g)"
  unfolding sql_query_def query_def by (rule calm_stmt) auto

lemma calm_sql_write [calm_intros]: "(\<And>d. calm_db d (snd (f d))) \<Longrightarrow> calm (sql_write viol f)"
  unfolding sql_write_def by (rule calm_stmt) (metis checked_def sum.distinct(1) sum.inject(2) snd_conv)

lemma calm_bind [calm_intros]:
  assumes m: "calm m" and f: "\<And>x. calm (f x)"
  shows "calm (bind m f)"
  unfolding calm_def
proof (intro allI impI)
  fix w r w' assume run: "bind m f w = (r, w')"
  obtain r1 w1 where one: "m w = (r1, w1)" by (cases "m w")
  note c1 = calmD [OF m one]
  show "calm_db (data w) (data w') \<and> (\<exists>es. outbox w' = outbox w @ es \<and> (\<forall>e \<in> set es. ev_type e \<noteq> TypeCommentCreated))"
  proof (cases r1)
    case (Inl e)
    with one run c1 show ?thesis by (auto simp: bind_def)
  next
    case (Inr x)
    with one run have "f x w1 = (r, w')" by (simp add: bind_def)
    note c2 = calmD [OF f this]
    from c1(2) obtain es where es: "outbox w1 = outbox w @ es" "\<forall>e \<in> set es. ev_type e \<noteq> TypeCommentCreated"
      by blast
    from c2(2) obtain fs where fs: "outbox w' = outbox w1 @ fs" "\<forall>e \<in> set fs. ev_type e \<noteq> TypeCommentCreated"
      by blast
    from es fs calm_db_trans [OF c1(1) c2(1)] show ?thesis by (auto intro!: exI [of _ "es @ fs"])
  qed
qed

lemma calm_attempt [calm_intros]: "calm m \<Longrightarrow> calm (attempt m)"
  unfolding calm_def attempt_def by (auto split: prod.splits)

lemma calm_atomically [calm_intros]:
  assumes "calm m"
  shows "calm (atomically ErrInfra m)"
proof -
  let ?m = "bind m (\<lambda>x. bind (query ErrInfra (\<lambda>_. ())) (\<lambda>_. ret x))"
  have "calm ?m" using assms calm_sql_query [of "\<lambda>_. ()"] by (auto simp: sql_query_def intro!: calm_intros)
  then show ?thesis unfolding calm_def atomically_def by (fastforce split: prod.splits sum.splits)
qed

lemma calm_case_sum [calm_intros]:
  "(\<And>e. r = Inl e \<Longrightarrow> calm (f e)) \<Longrightarrow> (\<And>x. r = Inr x \<Longrightarrow> calm (g x)) \<Longrightarrow>
     calm (case r of Inl e \<Rightarrow> f e | Inr x \<Rightarrow> g x)"
  by (cases r) auto

lemma calm_if [calm_intros]: "(b \<Longrightarrow> calm m) \<Longrightarrow> (\<not> b \<Longrightarrow> calm m') \<Longrightarrow> calm (if b then m else m')"
  by simp

lemma calm_case_option [calm_intros]:
  "(x = None \<Longrightarrow> calm m) \<Longrightarrow> (\<And>y. x = Some y \<Longrightarrow> calm (g y)) \<Longrightarrow>
     calm (case x of None \<Rightarrow> m | Some y \<Rightarrow> g y)"
  by (cases x) auto

lemma calm_for_each [calm_intros]: "(\<And>x. x \<in> set xs \<Longrightarrow> calm (f x)) \<Longrightarrow> calm (for_each f xs)"
  by (induction xs) (auto intro!: calm_intros)

lemma calm_first_or_not_found [calm_intros]: "calm (first_or_not_found g)"
  by (auto simp: first_or_not_found_def intro!: calm_intros)

lemma calm_write_or_not_found [calm_intros]: "(\<And>d. calm_db d (snd (f d))) \<Longrightarrow> calm (write_or_not_found viol f)"
  by (auto simp: write_or_not_found_def intro!: calm_intros)

lemma calm_update:
  "(\<And>c. c_id (f c) = c_id c \<and> c_created_at (f c) = c_created_at c) \<Longrightarrow> calm_db d (snd (update_comments P f d))"
  by (force simp: calm_db_def update_comments_def set_update_where)

lemma calm_rows: "db_comments d' = db_comments d \<Longrightarrow> db_next_comment d' = db_next_comment d \<Longrightarrow> calm_db d d'"
  by (auto simp: calm_db_def)

lemma calm_cascade:
  assumes "set (db_comments d0) \<subseteq> set (db_comments d)" "db_next_comment d0 = db_next_comment d"
  shows "calm_db d (cascade d0)"
proof -
  have "db_next_comment (cascade d0) = db_next_comment d" using assms(2) by (simp add: cascade_def Let_def)
  moreover have "\<exists>c \<in> set (db_comments d). c_id c' = c_id c \<and> c_created_at c' = c_created_at c"
    if "c' \<in> set (db_comments (cascade d0))" for c'
  proof -
    from that obtain c where "c \<in> set (db_comments d0)" "c' = clear_reply_to (db_users d0) c"
      using sweep_comments_subset by (fastforce simp: cascade_comments)
    then show ?thesis using assms(1) by (auto simp: clear_reply_to_def intro!: bexI [of _ c])
  qed
  ultimately show ?thesis by (auto simp: calm_db_def)
qed

lemma calm_deletes [simp]:
  "calm_db d (snd (delete_comments P d))" "calm_db d (snd (delete_threads Q d))" "calm_db d (snd (delete_sites R d))"
  by (auto simp: delete_comments_def delete_threads_def delete_sites_def intro!: calm_cascade)

lemma calm_row_updates [simp]:
  "calm_db d (snd (update_comments P (set_status st before published deleted) d))"
  "calm_db d (snd (update_comments P (apply_status_target t) d))"
  "calm_db d (snd (update_comments P (soft_delete_row now) d))"
  "calm_db d (snd (update_comments P clear_parent d))" "calm_db d (snd (update_comments P clear_root d))"
  "calm_db d (snd (update_comments P (\<lambda>c. c\<lparr>c_is_pinned := b\<rparr>) d))"
  "calm_db d (snd (update_comments P (\<lambda>c. c\<lparr>c_body_markdown := body\<rparr>) d))"
  "calm_db d (snd (update_threads Q g d))" "calm_db d (snd (update_sites R h d))"
  by (auto intro!: calm_update calm_rows
      simp: set_status_def apply_status_target_def soft_delete_row_def clear_parent_def clear_root_def Let_def
        update_threads_def update_sites_def)

lemma calm_comment_statements [calm_intros]:
  "calm (FindBySiteAndID sid cid)" "calm (FindGlobalByID cid)" "calm (FindGlobalByIDsLocked ids)"
  "calm (UpdateBody sid cid body)" "calm (UpdateStatus sid cid st before published deleted)"
  "calm (UpdateStatusMany ts)" "calm (SetPinned sid cid b)" "calm (SetPinnedMany us b)"
  "calm (DetachCommentChildren sid cid)" "calm (DetachCommentChildrenMany us)"
  "calm (HardDelete sid cid)" "calm (HardDeleteMany us)" "calm (SoftDeleteByUsers uids now)"
  "calm (DetachUserCommentChildrenMany uids)" "calm (AddLike sid cid uid)" "calm (RemoveLike sid cid uid)"
  by (auto simp: FindBySiteAndID_def FindGlobalByID_def FindGlobalByIDsLocked_def UpdateBody_def UpdateStatus_def
      UpdateStatusMany_def SetPinned_def SetPinnedMany_def DetachCommentChildren_def
      DetachCommentChildrenMany_def HardDelete_def HardDeleteMany_def SoftDeleteByUsers_def
      DetachUserCommentChildrenMany_def detach_users_def AddLike_def RemoveLike_def requirePublishedComment_def
      likeCount_def insert_like_def delete_like_def intro!: calm_intros intro: calm_rows split: list.split)

lemma calm_record_statements [calm_intros]:
  "calm (GetBySiteAndID sid tid)" "calm (GetBySiteAndIDsLocked sid ids)" "calm (UpdateThread sid tid p)"
  "calm (UpdateCommentsEnabledMany sid ids b)" "calm (DeleteThread sid tid)" "calm (DeleteThreads sid ids)"
  "calm (FindByID uid)" "calm (Site_Get sid)" "calm (Site_Create name url st)" "calm (Site_Update sid name url st')"
  "calm (Site_Delete sid)" "calm (ListOrigins sid)" "calm (UpdateOrigin sid oid v)" "calm (RemoveOrigin sid oid)"
  by (auto simp: GetBySiteAndID_def GetBySiteAndIDsLocked_def UpdateThread_def UpdateCommentsEnabledMany_def
      DeleteThread_def DeleteThreads_def FindByID_def Site_Get_def Site_Create_def insert_site_def Site_Update_def
      Site_Delete_def ListOrigins_def UpdateOrigin_def GetOrigin_def RemoveOrigin_def Let_def
      intro!: calm_intros intro: calm_rows)

lemma calm_AddOrigin [calm_intros]: "calm (AddOrigin sid v)"
  unfolding AddOrigin_def
  by (rule calm_stmt) (auto simp: checked_def insert_origin_def Let_def intro: calm_rows split: if_splits)

lemma calm_views [calm_intros]: "calm (adminViewFor avatar settings c)" "calm (adminThreadView sid t)"
  by (auto simp: adminViewFor_def avatarBaseURL_def replyToNickname_def adminThreadView_def intro!: calm_intros)

lemma calm_admin_commands [calm_intros]:
  "calm (AdminPublish avatar settings now cid)" "calm (AdminMarkSpam avatar settings now cid)"
  "calm (AdminPending avatar settings now cid)" "calm (AdminRestore avatar settings now cid)"
  "calm (AdminEditBody avatar settings v cid body)" "calm (AdminSetPinned avatar settings cid b)"
  "calm (WidgetSetPinned pr sid cid b)" "calm (DeleteByOwner settings now actor cid want)"
  "calm (AdminDelete now cid hard confirm)"
proof -
  have adm: "calm (adminTransition now cid action)" for action
    unfolding adminTransition_def applyAdminTransition_def Let_def
    by (intro calm_intros; cases action) (auto intro!: calm_intros)
  then show "calm (AdminPublish avatar settings now cid)" "calm (AdminMarkSpam avatar settings now cid)"
    "calm (AdminPending avatar settings now cid)" "calm (AdminRestore avatar settings now cid)"
    by (auto simp: AdminPublish_def AdminMarkSpam_def AdminPending_def AdminRestore_def publishCommentPublished_def
        comment_event_def intro!: calm_intros)
qed (auto simp: AdminEditBody_def AdminSetPinned_def WidgetSetPinned_def DeleteByOwner_def AdminDelete_def
    softDeleteOne_def hardDeleteOne_def hardDeleteInCurrentTx_def intro!: calm_intros)

lemma calm_requireRows [calm_intros]: "calm m \<Longrightarrow> calm (requireRows m n)"
  by (auto simp: requireRows_def intro!: calm_intros)

lemma calm_batches [calm_intros]: "calm (AdminBatch settings now input)" "calm (AdminBatchThreads sid input)"
proof -
  have "calm (writePlan action ts)" for action ts
    by (cases action) (auto simp: writePlan_def writeStatusGroups_def Let_def intro!: calm_intros)
  then show "calm (AdminBatch settings now input)"
    by (auto simp: AdminBatch_def batchTx_def publishCommentPublished_def comment_event_def Let_def
        intro!: calm_intros)
qed (auto simp: AdminBatchThreads_def threadBatchTx_def Let_def intro!: calm_intros)

lemma calm_thread_and_site_commands [calm_intros]:
  "calm (AdminUpdateThread L sid tid u)" "calm (AdminDeleteThread sid tid confirm)"
  "calm (Sites_Create K name url)" "calm (Sites_Update K sid patch)" "calm (Sites_Delete sid confirm)"
  "calm (Sites_AddOrigin K sid v)" "calm (Sites_UpdateOrigin K sid oid v)" "calm (Sites_RemoveOrigin sid oid)"
  by (auto simp: AdminUpdateThread_def AdminDeleteThread_def Sites_Create_def Sites_Update_def Sites_Delete_def
      Sites_AddOrigin_def Sites_UpdateOrigin_def Sites_RemoveOrigin_def Sites_Get_def split: prod.splits
      intro!: calm_intros)

lemma calm_only [calm_intros]: "calm m \<Longrightarrow> calm (only m)"
  by (auto simp: only_def intro!: calm_intros)

fun posts :: "command \<Rightarrow> bool" where
  "posts (CmdCreate input) = True"
| "posts (CmdReply actor r parent body token ip ua) = True"
| "posts cmd = False"

lemma calm_exec: "\<not> posts cmd \<Longrightarrow> calm (exec E cmd)"
  by (cases cmd) (auto simp: LikeComment_def UnlikeComment_def SoftDeleteUsersComments_def
      PrepareUsersHardDelete_def intro!: calm_intros)

section \<open>Posting\<close>

definition posted :: "db \<Rightarrow> comment_event list \<Rightarrow> db \<Rightarrow> bool" where
  "posted d ms d' \<longleftrightarrow> (d' = d \<and> ms = []) \<or>
     (\<exists>c mode. db_comments d' = db_comments d @ [c] \<and> c_id c = db_next_comment d \<and> 1000 dvd c_created_at c \<and>
        schema_ok d' \<and> ms = [comment_event TypeCommentCreated c mode])"

lemma wp_only:
  assumes "wpf f m (\<lambda>r. P) d os"
  shows "wpf f (only m) (\<lambda>r. P) d os"
  unfolding only_def
  by (rule wp_bind, rule wp_mono [OF assms]) (auto split: sum.split intro!: wp_intros)

lemma accepted_posted:
  "accepted E pol parent body sid d d' c \<Longrightarrow> 1000 dvd en_now E \<Longrightarrow>
   posted d ([] @ [comment_event TypeCommentCreated c mode]) d'"
  by (auto simp: posted_def accepted_def new_comment_ok_def)

lemma post_step:
  assumes "posts cmd" "schema_ok d" "1000 dvd en_now E"
    and run: "exec E cmd \<lparr>data = d, faults = fs, outbox = []\<rparr> = (r, w')"
  shows "posted d (outbox w') (data w')"
proof -
  have none: "posted d [] d" by (simp add: posted_def)
  have "wp (exec E cmd) (\<lambda>r d' os'. posted d os' d') d []"
  proof (cases cmd)
    case (CmdCreate input)
    have "wp (Create E input) (\<lambda>r d' os'. posted d os' d') d []"
      by (rule Create_wp [OF assms(2)]) (auto simp: none dest: accepted_posted [OF _ assms(3)])
    then show ?thesis unfolding CmdCreate exec.simps by (rule wp_only)
  next
    case (CmdReply actor r parent body token ip ua)
    have "wp (CreateReplyFirstParty E actor r parent body token ip ua) (\<lambda>r d' os'. posted d os' d') d []"
      by (rule reply_wp [OF assms(2)]) (auto simp: none dest: accepted_posted [OF _ assms(3)])
    then show ?thesis unfolding CmdReply exec.simps by (rule wp_only)
  qed (use assms(1) in auto)
  from wpD [of "exec E cmd" _ "\<lparr>data = d, faults = fs, outbox = []\<rparr>", simplified, OF this run] show ?thesis .
qed

section \<open>Conditions on the accounts\<close>

text \<open>
  A condition on the accounts that a new account and an edited profile keep is kept by every command.
\<close>

locale account_condition = reads_accounts +
  assumes new_account: "u_status u \<noteq> UserStatusDeleted \<Longrightarrow> preserves I (User_Create u)"
    and new_profile: "preserves I (UpdateProfile uid nickname website)"
begin

lemma new_user_status [simp]: "u_status (new_user original normalized nickname) \<noteq> UserStatusDeleted"
  by (simp add: new_user_def)

lemmas keeps_new_rows [preserves_intros] = new_account new_profile

lemma keeps_views [preserves_intros]:
  "preserves I (viewFor avatar settings c)" "preserves I (adminViewFor avatar settings c)"
  "preserves I (adminThreadView sid t)"
  by (auto simp: viewFor_def adminViewFor_def avatarBaseURL_def replyToNickname_def adminThreadView_def
      intro!: preserves_intros)

lemma keeps_actor [preserves_intros]:
  "preserves I (checkActor E pol input normalized)"
  "preserves I (resolveAndSyncActor E pol normalized original nickname op actor)"
  by (auto simp: checkActor_def resolveAndSyncActor_def resolveActor_def find_or_create_user_def CreateUser_def
      syncAuthor_def UpdateUserProfile_def intro!: preserves_intros)

lemma keeps_posting [preserves_intros]:
  "preserves I (createComment E pol sid tid actor parent body ip raw_ua status)"
  "preserves I (detectSpam E pol input nickname is_admin website)"
  "preserves I (detectSpamReply E pol parent' actor' r body' ip' raw_ua')"
  "preserves I (validateSiteAndOrigin sid origin)" "preserves I (validateSiteActive sid)"
  by (auto simp: createComment_def replyPosition_def detectSpam_def detectSpamReply_def siteCanonicalURL_def
      validateSiteAndOrigin_def validateSiteActive_def intro!: preserves_intros split: prod.split)

lemma keeps_Create: "preserves I (Create E input)"
  by (auto simp: Create_def createTx_def publishCommentCreated_def intro!: preserves_intros split: prod.split)

lemma keeps_reply: "preserves I (CreateReplyFirstParty E actor r parent body token ip ua)"
  by (auto simp: CreateReplyFirstParty_def replyTx_def publishCommentCreated_def Let_def
      intro!: preserves_intros split: prod.split)

lemma keeps_moderation [preserves_intros]:
  "preserves I (adminTransition now cid action)" "preserves I (writePlan batch_action ts)"
  by (auto simp: adminTransition_def applyAdminTransition_def writePlan_def writeStatusGroups_def requireRows_def
      Let_def intro!: preserves_intros split: admin_action.split batch_action.split)

lemma keeps_admin_commands [preserves_intros]:
  "preserves I (AdminPublish avatar settings now cid)" "preserves I (AdminMarkSpam avatar settings now cid)"
  "preserves I (AdminPending avatar settings now cid)" "preserves I (AdminRestore avatar settings now cid)"
  "preserves I (AdminEditBody avatar settings v cid body)" "preserves I (AdminSetPinned avatar settings cid b)"
  "preserves I (WidgetSetPinned pr sid cid b)" "preserves I (DeleteByOwner settings now actor cid want)"
  "preserves I (AdminDelete now cid hard confirm)" "preserves I (AdminBatch settings now input)"
  by (auto simp: AdminPublish_def AdminMarkSpam_def AdminPending_def AdminRestore_def AdminEditBody_def
      AdminSetPinned_def WidgetSetPinned_def DeleteByOwner_def AdminDelete_def AdminBatch_def batchTx_def
      publishCommentPublished_def softDeleteOne_def hardDeleteOne_def hardDeleteInCurrentTx_def Let_def
      intro!: preserves_intros)

lemma keeps_records [preserves_intros]:
  "preserves I (AdminBatchThreads sid input)" "preserves I (AdminUpdateThread L sid tid u)"
  "preserves I (AdminDeleteThread sid tid confirm)" "preserves I (Sites_Create K name url)"
  "preserves I (Sites_Update K sid patch)" "preserves I (Sites_Delete sid confirm)"
  "preserves I (Sites_AddOrigin K sid v)" "preserves I (Sites_UpdateOrigin K sid oid v)"
  "preserves I (Sites_RemoveOrigin sid oid)" "preserves I (LikeComment sid cid uid)"
  "preserves I (UnlikeComment sid cid uid)" "preserves I (SoftDeleteUsersComments now uids)"
  "preserves I (PrepareUsersHardDelete uids)"
  by (auto simp: AdminBatchThreads_def threadBatchTx_def AdminUpdateThread_def AdminDeleteThread_def
      Sites_Create_def Sites_Update_def Sites_Delete_def Sites_AddOrigin_def Sites_UpdateOrigin_def
      Sites_RemoveOrigin_def Sites_Get_def LikeComment_def UnlikeComment_def SoftDeleteUsersComments_def
      PrepareUsersHardDelete_def Let_def intro!: preserves_intros split: prod.splits)

lemma exec_keeps: "preserves I (exec E cmd)"
  by (cases cmd) (auto intro!: preserves_intros keeps_Create keeps_reply)

end

end
