(* ===== verification/Password.thy ===== *)
theory Password
  imports Go_Std "HOL-Library.Word"
begin

text \<open>
  Stored passwords (\<open>internal/service/identity/password.go\<close>): an Argon2id key in an envelope that
  names its parameters.  \<open>argon2.IDKey\<close> is not in the repository, so it is an argument (password,
  salt, time, memory, threads, key length); so are the random bytes of the salt.
\<close>

type_synonym kdf = "string \<Rightarrow> string \<Rightarrow> int \<Rightarrow> int \<Rightarrow> int \<Rightarrow> int \<Rightarrow> string"

abbreviation "argon2Memory \<equiv> (65536 :: int)"
abbreviation "argon2Time \<equiv> (3 :: int)"
abbreviation "argon2Threads \<equiv> (2 :: int)"
abbreviation "argon2KeyLen \<equiv> (32 :: int)"
abbreviation "argon2Version \<equiv> (19 :: int)"

record envelope_params =
  ev_memory :: "32 word"
  ev_time :: "32 word"
  ev_threads :: "8 word"
  ev_key_len :: "32 word"
  ev_salt :: string
  ev_hash :: string

section \<open>fmt.Sscanf\<close>

text \<open>
  The formats used here are literals and \<open>%d\<close>.  A literal is matched byte by byte; \<open>%d\<close> skips spaces,
  takes an optional sign and the digits after it and parses them as an \<open>int64\<close>.  What
  follows the last directive is not looked at.
\<close>

definition scan_literal :: "string \<Rightarrow> string \<Rightarrow> string option" where
  "scan_literal lit s = (if HasPrefix s lit then Some (drop (length lit) s) else None)"

definition blank_runes :: "string list" where
  "blank_runes = filter (\<lambda>r. r \<noteq> [CHR 0x0A]) space_runes"

definition scan_int :: "string \<Rightarrow> (int \<times> string) option" where
  "scan_int s =
     (let s = trim_runes blank_runes s;
          sign = (if s \<noteq> [] \<and> (hd s = CHR ''+'' \<or> hd s = CHR ''-'') then [hd s] else []);
          ds = takeWhile is_digit (drop (length sign) s)
      in if ds = [] then None
         else map_option (\<lambda>n. (n, drop (length sign + length ds) s)) (ParseInt (sign @ ds)))"

fun scan_fields :: "string list \<Rightarrow> string \<Rightarrow> int list option" where
  "scan_fields [] s = Some []"
| "scan_fields (lit # lits) s =
     (case scan_literal lit s of
        None \<Rightarrow> None
      | Some s' \<Rightarrow>
          (case scan_int s' of
             None \<Rightarrow> None
           | Some (n, rest) \<Rightarrow> map_option (\<lambda>ns. n # ns) (scan_fields lits rest)))"

section \<open>Hashing and checking\<close>

definition hashPassword :: "kdf \<Rightarrow> 'e + string \<Rightarrow> string \<Rightarrow> 'e + string" where
  "hashPassword kdf random password =
     bindE random (\<lambda>salt.
       let key = kdf password salt argon2Time argon2Memory argon2Threads argon2KeyLen
       in Inr (''$argon2id$v='' @ FormatInt argon2Version @
               ''$m='' @ FormatInt argon2Memory @ '',t='' @ FormatInt argon2Time @
               '',p='' @ FormatInt argon2Threads @ ''$'' @ std64_encode salt @ ''$'' @ std64_encode key))"

definition parseEnvelope :: "string \<Rightarrow> envelope_params option" where
  "parseEnvelope encoded =
     (case Split CHR ''$'' encoded of
        [_, kind, version, params, salt, hash] \<Rightarrow>
          if kind \<noteq> ''argon2id'' then None
          else (case scan_fields [''v=''] version of
                  Some [v] \<Rightarrow>
                    if v \<noteq> argon2Version then None
                    else (case (scan_fields [''m='', '',t='', '',p=''] params,
                                std64_decode salt, std64_decode hash) of
                            (Some [m, t, p], Some s, Some h) \<Rightarrow>
                              Some \<lparr>ev_memory = word_of_int m, ev_time = word_of_int t,
                                    ev_threads = word_of_int p,
                                    ev_key_len = word_of_nat (length h), ev_salt = s, ev_hash = h\<rparr>
                          | _ \<Rightarrow> None)
                | _ \<Rightarrow> None)
      | _ \<Rightarrow> None)"

definition verifyPassword :: "kdf \<Rightarrow> string \<Rightarrow> string \<Rightarrow> bool" where
  "verifyPassword kdf encoded password =
     (case parseEnvelope encoded of
        None \<Rightarrow> False
      | Some p \<Rightarrow> kdf password (ev_salt p) (uint (ev_time p)) (uint (ev_memory p)) (uint (ev_threads p))
                      (uint (ev_key_len p)) = ev_hash p)"

section \<open>What is hashed is accepted\<close>

lemma is_digit_no_blank:
  assumes "is_digit c"
  shows "strip_rune blank_runes (c # s) = None"
proof -
  have "\<forall>r \<in> set blank_runes. r \<noteq> [] \<and> hd r \<noteq> c"
    using assms by (auto simp: blank_runes_def space_runes_def is_digit_def)
  then have "\<forall>r \<in> set blank_runes. \<not> (r \<noteq> [] \<and> take (length r) (c # s) = r)"
    by (metis list.sel(1) take_Cons' length_0_conv)
  then show ?thesis by (auto simp: strip_rune_def find_None_iff split: option.splits)
qed

lemma takeWhile_digits:
  assumes "\<forall>c \<in> set ds. is_digit c" "rest = [] \<or> \<not> is_digit (hd rest)"
  shows "takeWhile is_digit (ds @ rest) = ds"
  using assms by (induction ds) (auto simp: takeWhile_eq_Nil_iff)

lemma scan_int_digits:
  assumes "0 \<le> n" "n \<le> maxint" "maxint = 2 ^ 63 - 1" "rest = [] \<or> \<not> is_digit (hd rest)"
  shows "scan_int (FormatInt n @ rest) = Some (n, rest)"
proof -
  obtain c r where c: "FormatInt n = c # r" "is_digit c"
    using FormatInt_digits [OF assms(1)] by (cases "FormatInt n") auto
  have ds: "\<forall>c \<in> set (FormatInt n). is_digit c" using FormatInt_digits [OF assms(1)] by simp
  have trim: "trim_runes blank_runes (FormatInt n @ rest) = FormatInt n @ rest"
    unfolding c by (subst trim_runes.simps) (simp add: is_digit_no_blank c)
  have sign: "\<not> (hd (FormatInt n @ rest) = CHR ''+'' \<or> hd (FormatInt n @ rest) = CHR ''-'')"
    using c is_digit_not_sign [of c] by simp
  have tw: "takeWhile is_digit (FormatInt n @ rest) = FormatInt n"
    by (rule takeWhile_digits [OF ds assms(4)])
  have "ParseInt (FormatInt n) = Some n"
    using assms by (intro ParseInt_FormatInt) simp_all
  then show ?thesis
    using c(1) unfolding scan_int_def Let_def trim
    by (simp add: sign tw) (use sign tw c in \<open>auto simp: Let_def\<close>)
qed

lemma envelope_bytes: "CHR ''$'' \<notin> set (std64_encode s)"
proof
  assume "CHR ''$'' \<in> set (std64_encode s)"
  then obtain n where "n < 64" "CHR ''$'' = std64_char n" using std64_encode_bytes by blast
  then have "std64_value CHR ''$'' = Some n" by (simp add: std64_value_char)
  then show False by (simp add: std64_value_def b64_value_def)
qed

lemma scan_fields_params:
  assumes "0 \<le> m" "0 \<le> t" "0 \<le> p" "m < 2 ^ 63" "t < 2 ^ 63" "p < 2 ^ 63"
  shows "scan_fields [''m='', '',t='', '',p='']
      (''m='' @ FormatInt m @ '',t='' @ FormatInt t @ '',p='' @ FormatInt p) = Some [m, t, p]"
proof -
  have i: "scan_int (FormatInt n @ rest) = Some (n, rest)"
    if "0 \<le> n" "n < 2 ^ 63" "rest = [] \<or> \<not> is_digit (hd rest)" for n rest
    using that by (intro scan_int_digits) simp_all
  have p: "scan_int (FormatInt p) = Some (p, [])"
    using i [OF assms(3,6), of "[]"] by simp
  show ?thesis
    by (simp add: scan_literal_def HasPrefix_def i [OF assms(1,4)] i [OF assms(2,5)] p is_digit_def)
qed

lemma parseEnvelope_hash:
  assumes "hashPassword kdf (Inr salt) password = Inr encoded"
  shows "parseEnvelope encoded =
    (let key = kdf password salt argon2Time argon2Memory argon2Threads argon2KeyLen
     in Some \<lparr>ev_memory = 65536, ev_time = 3, ev_threads = 2,
              ev_key_len = word_of_nat (length key), ev_salt = salt, ev_hash = key\<rparr>)"
proof -
  define key where "key = kdf password salt argon2Time argon2Memory argon2Threads argon2KeyLen"
  define version where "version = ''v='' @ FormatInt argon2Version"
  define params where "params = ''m='' @ FormatInt argon2Memory @ '',t='' @ FormatInt argon2Time @
               '',p='' @ FormatInt argon2Threads"
  have e: "encoded = Join CHR ''$'' ['''', ''argon2id'', version, params, std64_encode salt, std64_encode key]"
    using assms by (simp add: hashPassword_def Let_def key_def version_def params_def)
  have digits: "CHR ''$'' \<notin> set (FormatInt n)" if "0 \<le> n" for n
    using FormatInt_digits [OF that] by (auto simp: is_digit_def)
  have parts: "Split CHR ''$'' encoded = ['''', ''argon2id'', version, params, std64_encode salt, std64_encode key]"
    unfolding e by (rule Split_Join) (auto simp: envelope_bytes version_def params_def digits)
  have v: "scan_fields [''v=''] version = Some [argon2Version]"
    using scan_int_digits [of 19 _ "[]"] by (simp add: version_def scan_literal_def HasPrefix_def)
  have ps: "scan_fields [''m='', '',t='', '',p=''] params = Some [argon2Memory, argon2Time, argon2Threads]"
    unfolding params_def by (rule scan_fields_params) simp_all
  show ?thesis
    unfolding parseEnvelope_def parts list.case
    by (simp del: scan_fields.simps add: v ps std64_roundtrip key_def Let_def)
qed

text \<open>
  A password checked against the envelope of another is accepted exactly when the keys agree;
  Argon2 answers with as many bytes as it is asked for.
\<close>

lemma verify_hash:
  assumes "hashPassword kdf (Inr salt) password = Inr encoded"
    and "length (kdf password salt argon2Time argon2Memory argon2Threads argon2KeyLen) = 32"
  shows "verifyPassword kdf encoded guess \<longleftrightarrow>
    kdf guess salt argon2Time argon2Memory argon2Threads argon2KeyLen =
    kdf password salt argon2Time argon2Memory argon2Threads argon2KeyLen"
  using parseEnvelope_hash [OF assms(1)] assms(2) by (simp add: verifyPassword_def Let_def)

end
