(* ===== verification/Identity.thy ===== *)
theory Identity
  imports Credential_Repo Password Urlx Comment_View Memory_Cache
begin

text \<open>
  The identity service (\<open>internal/service/identity\<close>): what its handlers are given, profiles
  (\<open>profile.go\<close>), passwords and sessions of an account (\<open>account_password.go\<close>).  A handler works on
  the rows and on the cache, which keeps each user's role, status and session version under a key of
  its own; the transaction covers the rows only.
\<close>

section \<open>The environment\<close>

text \<open>
  Library functions, the answers of the settings (\<open>Policy\<close>: registration open, comment mode;
  \<open>EmailPolicy\<close>: white list, black list, avatar base), the CAPTCHA verifier, the random bytes drawn for a
  salt and a CSRF token, the token signer with its lifetime, and the clock.
  \<open>id_comment_deleter\<close> tells whether \<open>SetCommentDeleter\<close> has installed the comment service.
\<close>

record identity_env =
  id_lib :: library
  id_avatar :: avatar
  id_policy :: "error + bool \<times> string"
  id_email_policy :: "error + string list \<times> string list \<times> string"
  id_captcha_policy :: "error + (string \<Rightarrow> bool)"
  id_captcha :: "(string \<Rightarrow> string \<Rightarrow> error + unit) option"
  id_kdf :: kdf
  id_salt :: "error + string"
  id_csrf :: "error + string"
  id_sign :: "int \<Rightarrow> int \<Rightarrow> error + string"
  id_lifetime :: int
  id_comment_deleter :: bool
  id_now :: int

abbreviation "minPasswordLength \<equiv> (8 :: nat)"

text \<open>\<open>Truncate(time.Microsecond)\<close>.\<close>

definition micro :: "int \<Rightarrow> int" where
  "micro t = t - t mod 1000"

lemma micro_dvd [simp]: "1000 dvd micro t"
  by (simp add: micro_def)

section \<open>Rows and cache\<close>

text \<open>
  A handler over the rows and a state in memory; \<open>on_db\<close> runs the part that talks to the database,
  \<open>in_memory\<close> a step on the other one.
\<close>

type_synonym ('m, 'a) handler = "(error, db \<times> 'm, comment_event, 'a) prog"

type_synonym 'a svc = "(memory, 'a) handler"

definition rows_of :: "(db \<times> 'm, comment_event) world \<Rightarrow> (db, comment_event) world" where
  "rows_of w = \<lparr>data = fst (data w), faults = faults w, outbox = outbox w\<rparr>"

definition with_rows ::
  "(db \<times> 'm, comment_event) world \<Rightarrow> (db, comment_event) world \<Rightarrow> (db \<times> 'm, comment_event) world" where
  "with_rows w v = \<lparr>data = (data v, snd (data w)), faults = faults v, outbox = outbox v\<rparr>"

definition on_db :: "'a sql \<Rightarrow> ('m, 'a) handler" where
  "on_db m w = (case m (rows_of w) of (r, v) \<Rightarrow> (r, with_rows w v))"

definition in_memory :: "('m \<Rightarrow> 'a \<times> 'm) \<Rightarrow> ('m, 'a) handler" where
  "in_memory op w =
     (Inr (fst (op (snd (data w)))), w\<lparr>data := (fst (data w), snd (op (snd (data w))))\<rparr>)"

lemma rows_of_simps [simp]:
  "data (rows_of w) = fst (data w)" "faults (rows_of w) = faults w" "outbox (rows_of w) = outbox w"
  "data (with_rows w v) = (data v, snd (data w))" "faults (with_rows w v) = faults v"
  "outbox (with_rows w v) = outbox v"
  by (simp_all add: rows_of_def with_rows_def)

text \<open>A call of the cache: the oracle may refuse it, otherwise its own answer comes back as a value.\<close>

definition on_cache :: "'a cache_op \<Rightarrow> (cache_error + 'a) svc" where
  "on_cache op = stmt ErrInfra (\<lambda>(d, c). case op c of (r, c') \<Rightarrow> Inr (r, (d, c')))"

lemma wp_on_db [wp_intros]:
  assumes "wpf f m (\<lambda>r d' os'. Q r (d', snd dc) os') (fst dc) os"
  shows "wpf f (on_db m) Q dc os"
  unfolding wpf_def
proof (intro allI impI)
  fix w :: "(db \<times> 'b, comment_event) world"
  assume w: "data w = dc" "outbox w = os" "f \<or> faults w = []"
  obtain r v where run: "m (rows_of w) = (r, v)" by fastforce
  have "case m (rows_of w) of (r, v) \<Rightarrow> Q r (data v, snd dc) (outbox v) \<and> (f \<or> faults v = [])"
    using assms [unfolded wpf_def, rule_format, of "rows_of w"] w by simp
  with run w show "case on_db m w of (r, w') \<Rightarrow> Q r (data w') (outbox w') \<and> (f \<or> faults w' = [])"
    by (simp add: on_db_def)
qed

lemma on_db_iff [prog_elims]:
  "on_db m w = (Inr y, w') \<longleftrightarrow> (\<exists>v. m (rows_of w) = (Inr y, v) \<and> w' = with_rows w v)"
  by (auto simp: on_db_def split: prod.splits)

lemma wp_on_cache [wp_intros]:
  assumes "f \<Longrightarrow> Q (Inl ErrInfra) dc os"
    "\<And>r c'. op (snd dc) = (r, c') \<Longrightarrow> Q (Inr r) (fst dc, c') os"
  shows "wpf f (on_cache op) Q dc os"
  unfolding on_cache_def by (rule wp_stmt) (use assms in \<open>auto split: prod.splits\<close>)

lemma preserves_on_db [preserves_intros]:
  assumes "preserves I m"
  shows "preserves (\<lambda>dc. I (fst dc)) (on_db m)"
  unfolding preserves_def
proof (intro allI impI)
  fix w r w'
  assume I: "I (fst (data w))" and run: "on_db m w = (r, w')"
  obtain v where "m (rows_of w) = (r, v)" "w' = with_rows w v"
    using run by (auto simp: on_db_def split: prod.splits)
  with preservesD [OF assms] I show "I (fst (data w'))" by simp
qed

lemma wp_in_memory [wp_intros]:
  "Q (Inr (fst (op (snd dc)))) (fst dc, snd (op (snd dc))) os \<Longrightarrow> wpf f (in_memory op) Q dc os"
  by (simp add: wpf_def in_memory_def)

lemma preserves_in_memory [preserves_intros]: "preserves (\<lambda>dc. I (fst dc)) (in_memory op)"
  by (auto simp: preserves_def in_memory_def)

lemma preserves_on_cache [preserves_intros]: "preserves (\<lambda>dc. I (fst dc)) (on_cache op)"
  unfolding on_cache_def by (rule preserves_stmt) (auto split: prod.splits)

definition authzKey :: "int \<Rightarrow> string" where
  "authzKey uid = ''authz:user:'' @ FormatInt uid"

text \<open>A failed deletion also stops the process (\<open>failFast\<close>).\<close>

definition invalidateAuthz :: "int \<Rightarrow> unit svc" where
  "invalidateAuthz uid =
     bind (attempt (on_cache (Memory_Delete (authzKey uid)))) (\<lambda>r.
     case r of Inr (Inr _) \<Rightarrow> ret () | _ \<Rightarrow> fail ErrCacheInvalidation)"

lemma preserves_invalidateAuthz [preserves_intros]: "preserves (\<lambda>dc. I (fst dc)) (invalidateAuthz uid)"
  unfolding invalidateAuthz_def by (intro preserves_intros)

section \<open>Profiles (profile.go)\<close>

record profile =
  pf_id :: int
  pf_email :: string
  pf_nickname :: string
  pf_website_url :: "string option"
  pf_role :: role
  pf_status :: user_status
  pf_email_verified :: bool
  pf_has_password :: bool
  pf_reply_enabled :: bool
  pf_moderation_enabled :: bool
  pf_avatar_url :: string
  pf_created_at :: int
  pf_updated_at :: int
  pf_deleted_at :: "int option"

definition profileOf :: "identity_env \<Rightarrow> user \<Rightarrow> profile sql" where
  "profileOf I u =
     bind (attempt (Prefs_GetByUserID (u_id u))) (\<lambda>r.
     bind (case r of
             Inr row \<Rightarrow> ret (np_reply_enabled row, np_moderation_enabled row)
           | Inl e \<Rightarrow> if e = ErrNotFound then ret (True, True) else fail e) (\<lambda>(reply, moderation).
     bind (HasPassword (u_id u)) (\<lambda>has_password.
     bind (lift (id_email_policy I)) (\<lambda>(_, _, gravatar_base).
     ret \<lparr>pf_id = u_id u, pf_email = u_email u, pf_nickname = u_nickname u,
          pf_website_url = u_website_url u, pf_role = u_role u, pf_status = u_status u,
          pf_email_verified = (u_email_verified_at u \<noteq> None), pf_has_password = has_password,
          pf_reply_enabled = reply, pf_moderation_enabled = moderation,
          pf_avatar_url = id_avatar I (u_email_normalized u) gravatar_base,
          pf_created_at = u_created_at u, pf_updated_at = u_updated_at u,
          pf_deleted_at = u_deleted_at u\<rparr>))))"

definition getWithPrefs :: "identity_env \<Rightarrow> int \<Rightarrow> profile sql" where
  "getWithPrefs I uid = bind (FindByID uid) (profileOf I)"

definition Profile_Get :: "identity_env \<Rightarrow> int \<Rightarrow> profile sql" where
  "Profile_Get I uid = getWithPrefs I uid"

definition nickname_ok :: "string \<Rightarrow> bool" where
  "nickname_ok n \<longleftrightarrow> n \<noteq> '''' \<and> length n \<le> 100"

text \<open>An optional website: \<open>None\<close> stays, a value has to be an HTTP address.\<close>

definition normalize_website :: "library \<Rightarrow> string option \<Rightarrow> error + string option" where
  "normalize_website L website =
     (case website of
        None \<Rightarrow> Inr None
      | Some v \<Rightarrow> bindE (option_to_result ErrValidation (NormalizeWebsite L v)) (\<lambda>u. Inr (Some u)))"

definition Profile_Update :: "identity_env \<Rightarrow> int \<Rightarrow> string \<Rightarrow> string option \<Rightarrow> profile sql" where
  "Profile_Update I uid raw website =
     (let nickname = TrimSpace raw
      in bind (require (nickname_ok nickname) ErrValidation) (\<lambda>_.
         bind (lift (normalize_website (id_lib I) website)) (\<lambda>url.
         bind (UpdateProfile uid nickname url) (\<lambda>_.
         getWithPrefs I uid))))"

definition UpdateNotificationPreferences :: "identity_env \<Rightarrow> int \<Rightarrow> bool \<Rightarrow> bool \<Rightarrow> (bool \<times> bool) sql" where
  "UpdateNotificationPreferences I uid reply moderation =
     bind (Prefs_Upsert uid reply moderation (id_now I)) (\<lambda>_. ret (reply, moderation))"

definition normalizeUserLimit :: "int \<Rightarrow> int" where
  "normalizeUserLimit limit = (if limit \<le> 0 \<or> limit > 100 then 50 else limit)"

text \<open>The loop over the rows of a page.\<close>

fun profilesOf :: "identity_env \<Rightarrow> user list \<Rightarrow> profile list sql" where
  "profilesOf I [] = ret []"
| "profilesOf I (u # us) = bind (profileOf I u) (\<lambda>p. bind (profilesOf I us) (\<lambda>ps. ret (p # ps)))"

definition Profile_List ::
  "identity_env \<Rightarrow> (string \<Rightarrow> string \<Rightarrow> bool) \<Rightarrow> string \<Rightarrow> comment_sort option \<Rightarrow> int \<Rightarrow> int \<Rightarrow> profile list sql" where
  "Profile_List I like search srt page raw_limit =
     (let limit = normalizeUserLimit raw_limit
      in bind (User_List like search srt limit (OffsetForPage page limit)) (profilesOf I))"

definition ListWithTotalFiltered ::
  "identity_env \<Rightarrow> (string \<Rightarrow> string \<Rightarrow> bool) \<Rightarrow> admin_user_filter \<Rightarrow> comment_sort option \<Rightarrow> int \<Rightarrow> int \<Rightarrow>
     (profile list \<times> nat) sql" where
  "ListWithTotalFiltered I like f srt page raw_limit =
     (let limit = normalizeUserLimit raw_limit
      in bind (ListFiltered like f srt limit (OffsetForPage page limit)) (\<lambda>rows.
         bind (profilesOf I rows) (\<lambda>users.
         bind (CountFiltered like f) (\<lambda>total.
         ret (users, total)))))"

definition ListWithTotal ::
  "identity_env \<Rightarrow> (string \<Rightarrow> string \<Rightarrow> bool) \<Rightarrow> string \<Rightarrow> comment_sort option \<Rightarrow> int \<Rightarrow> int \<Rightarrow>
     (profile list \<times> nat) sql" where
  "ListWithTotal I like search = ListWithTotalFiltered I like (search_filter search)"

section \<open>Sessions and passwords (account_password.go)\<close>

record session =
  se_token :: string
  se_csrf_token :: string
  se_expires_at :: int

definition new_session :: "identity_env \<Rightarrow> int \<Rightarrow> int \<Rightarrow> error + session" where
  "new_session I uid version =
     bindE (id_sign I uid version) (\<lambda>token.
     bindE (id_csrf I) (\<lambda>csrf.
     Inr \<lparr>se_token = token, se_csrf_token = csrf, se_expires_at = id_now I + id_lifetime I\<rparr>))"

definition setPassword :: "identity_env \<Rightarrow> int \<Rightarrow> string \<Rightarrow> int sql" where
  "setPassword I uid password =
     bind (lift (hashPassword (id_kdf I) (id_salt I) password)) (\<lambda>hash.
     SetPassword uid hash (micro (id_now I)))"

definition check_current_password :: "identity_env \<Rightarrow> int \<Rightarrow> string option \<Rightarrow> unit sql" where
  "check_current_password I uid current =
     bind (HasPassword uid) (\<lambda>has.
     if \<not> has then ret ()
     else (case current of
             None \<Rightarrow> fail ErrInvalidCredentials
           | Some password \<Rightarrow>
               if password = '''' then fail ErrInvalidCredentials
               else bind (PasswordHash uid) (\<lambda>hash.
                    require (verifyPassword (id_kdf I) hash password) ErrInvalidCredentials)))"

definition ChangePassword :: "identity_env \<Rightarrow> int \<Rightarrow> string option \<Rightarrow> string \<Rightarrow> session svc" where
  "ChangePassword I uid current new_password =
     (if length new_password < minPasswordLength then fail ErrValidation
      else bind (on_db (check_current_password I uid current)) (\<lambda>_.
           bind (on_db (atomically ErrInfra (setPassword I uid new_password))) (\<lambda>version.
           bind (invalidateAuthz uid) (\<lambda>_.
           lift (new_session I uid version)))))"

definition RevokeAllSessions :: "int \<Rightarrow> unit svc" where
  "RevokeAllSessions uid =
     bind (on_db (atomically ErrInfra (BumpSessionVersion uid))) (\<lambda>_. invalidateAuthz uid)"

definition AdminResetPassword :: "identity_env \<Rightarrow> int \<Rightarrow> string \<Rightarrow> unit svc" where
  "AdminResetPassword I target new_password =
     (if length new_password < minPasswordLength then fail ErrValidation
      else bind (on_db (atomically ErrInfra (setPassword I target new_password))) (\<lambda>_.
           invalidateAuthz target))"

section \<open>Creating an account (profile.go, ports_impl.go)\<close>

definition account_of :: "string \<Rightarrow> string \<Rightarrow> string \<Rightarrow> role \<Rightarrow> user" where
  "account_of original normalized nickname r =
     \<lparr>u_id = 0, u_email = original, u_email_normalized = normalized, u_nickname = nickname,
      u_website_url = None, u_role = r, u_status = UserStatusActive, u_session_version = 0,
      u_email_verified_at = None, u_created_at = 0, u_updated_at = 0, u_deleted_at = None,
      u_status_before_delete = None, u_password_hash = None, u_password_changed_at = None\<rparr>"

text \<open>Roles come as strings; only the two constants are accepted.\<close>

definition role_of :: "string \<Rightarrow> role option" where
  "role_of s = (if s = ''user'' then Some RoleUser else if s = ''admin'' then Some RoleAdmin else None)"

definition Profile_Create :: "identity_env \<Rightarrow> string \<Rightarrow> string \<Rightarrow> string \<Rightarrow> profile sql" where
  "Profile_Create I email raw_nickname raw_role =
     bind (lift (option_to_result ErrValidation (NormalizeEmail (id_lib I) email))) (\<lambda>(original, normalized).
     bind (lift (option_to_result ErrValidation (role_of raw_role))) (\<lambda>r.
     let nickname = TrimSpace raw_nickname
     in bind (require (nickname_ok nickname) ErrValidation) (\<lambda>_.
        bind (User_Create (account_of original normalized nickname r)) (\<lambda>u.
        getWithPrefs I (u_id u)))))"

definition CreateUserWithPassword :: "identity_env \<Rightarrow> user \<Rightarrow> string \<Rightarrow> user sql" where
  "CreateUserWithPassword I u password =
     bind (lift (hashPassword (id_kdf I) (id_salt I) password)) (\<lambda>hash.
     CreateWithPassword u hash (id_now I))"

definition UpsertNotificationPreferences :: "identity_env \<Rightarrow> int \<Rightarrow> bool \<Rightarrow> bool \<Rightarrow> unit sql" where
  "UpsertNotificationPreferences I uid reply moderation = Prefs_Upsert uid reply moderation (id_now I)"

end
