(* ===== verification/User_Admin.thy ===== *)
theory User_Admin
  imports Identity Moderation Batch
begin

text \<open>
  Account administration (\<open>internal/service/identity/admin.go\<close>, \<open>batch.go\<close>).
  \<open>runAdminMutation\<close> holds a process-wide mutex around a transaction that first locks and counts the
  active administrators, so these transactions run one after the other.
\<close>

section \<open>Transactions that may remove an administrator\<close>

definition runAdminMutationWithActiveAdminCount :: "(nat \<Rightarrow> 'a sql) \<Rightarrow> 'a sql" where
  "runAdminMutationWithActiveAdminCount body = atomically ErrInfra (bind LockActiveAdmins body)"

definition runAdminMutation :: "'a sql \<Rightarrow> 'a sql" where
  "runAdminMutation body = runAdminMutationWithActiveAdminCount (\<lambda>_. body)"

definition ensureNotLastActiveAdmin :: "user \<Rightarrow> user_status \<Rightarrow> unit sql" where
  "ensureNotLastActiveAdmin u next_status =
     (if u_role u \<noteq> RoleAdmin \<or> u_status u \<noteq> UserStatusActive \<or> next_status = UserStatusActive then ret ()
      else bind (CountByRoleAndStatus RoleAdmin UserStatusActive) (\<lambda>n.
           require (\<not> n \<le> 1) ErrLastAdmin))"

section \<open>One account (admin.go)\<close>

text \<open>\<open>Set\<close> with \<open>Value == nil\<close> is an explicit null.\<close>

record optional_nullable_string =
  ons_set :: bool
  ons_value :: "string option"

record admin_create_user_input =
  cu_email :: string
  cu_nickname :: string
  cu_website_url :: "string option"
  cu_role :: string
  cu_password :: "string option"
  cu_email_verified :: bool

record admin_update_user_input =
  uu_email :: "string option"
  uu_nickname :: "string option"
  uu_website_url :: optional_nullable_string
  uu_role :: "string option"
  uu_status :: "string option"
  uu_email_verified :: "bool option"

definition new_password_hash :: "identity_env \<Rightarrow> string option \<Rightarrow> error + (string \<times> int) option" where
  "new_password_hash I password =
     (case password of
        None \<Rightarrow> Inr None
      | Some p \<Rightarrow>
          if length p < minPasswordLength then Inl ErrValidation
          else bindE (hashPassword (id_kdf I) (id_salt I) p) (\<lambda>h. Inr (Some (h, micro (id_now I)))))"

definition AdminCreateUser :: "identity_env \<Rightarrow> admin_create_user_input \<Rightarrow> profile sql" where
  "AdminCreateUser I input =
     bind (lift (option_to_result ErrValidation (NormalizeEmail (id_lib I) (cu_email input)))) (\<lambda>(original, normalized).
     bind (lift (option_to_result ErrValidation (role_of (cu_role input)))) (\<lambda>r.
     let nickname = TrimSpace (cu_nickname input)
     in bind (require (nickname_ok nickname) ErrValidation) (\<lambda>_.
        bind (lift (normalize_website (id_lib I) (cu_website_url input))) (\<lambda>website.
        bind (lift (new_password_hash I (cu_password input))) (\<lambda>pw.
        let u = (account_of original normalized nickname r)
                  \<lparr>u_website_url := website,
                   u_email_verified_at := (if cu_email_verified input then Some (micro (id_now I)) else None)\<rparr>
        in bind (atomically ErrInfra (case pw of
                   Some (hash, changed) \<Rightarrow> CreateWithPassword u hash changed
                 | None \<Rightarrow> User_Create u)) (\<lambda>row.
           getWithPrefs I (u_id row)))))))"

text \<open>The status of an update is one of two; \<open>deleted\<close> is reached by deletion only.\<close>

definition editable_status :: "string \<Rightarrow> user_status option" where
  "editable_status s = (if s = ''active'' then Some UserStatusActive
     else if s = ''disabled'' then Some UserStatusDisabled else None)"

definition patched :: "'b \<Rightarrow> 'a option \<Rightarrow> ('a \<Rightarrow> error + 'b) \<Rightarrow> error + 'b" where
  "patched old input f = (case input of None \<Rightarrow> Inr old | Some v \<Rightarrow> f v)"

record user_values =
  nx_email :: string
  nx_email_normalized :: string
  nx_nickname :: string
  nx_website_url :: "string option"
  nx_role :: role
  nx_status :: user_status

definition next_values :: "identity_env \<Rightarrow> admin_update_user_input \<Rightarrow> user \<Rightarrow> error + user_values" where
  "next_values I input u =
     bindE (patched (u_email u, u_email_normalized u) (uu_email input)
              (\<lambda>v. option_to_result ErrValidation (NormalizeEmail (id_lib I) v))) (\<lambda>(email, normalized).
     bindE (patched (u_nickname u) (uu_nickname input)
              (\<lambda>v. let n = TrimSpace v in bindE (guardE (nickname_ok n) ErrValidation) (\<lambda>_. Inr n))) (\<lambda>nickname.
     bindE (if ons_set (uu_website_url input)
            then normalize_website (id_lib I) (ons_value (uu_website_url input))
            else Inr (u_website_url u)) (\<lambda>website.
     bindE (patched (u_role u) (uu_role input) (\<lambda>v. option_to_result ErrValidation (role_of v))) (\<lambda>r.
     bindE (patched (u_status u) (uu_status input) (\<lambda>v. option_to_result ErrValidation (editable_status v))) (\<lambda>st.
     Inr \<lparr>nx_email = email, nx_email_normalized = normalized, nx_nickname = nickname,
          nx_website_url = website, nx_role = r, nx_status = st\<rparr>)))))"

text \<open>An explicit flag keeps the time of an earlier verification.\<close>

definition next_verified :: "int \<Rightarrow> bool option \<Rightarrow> int option \<Rightarrow> int option" where
  "next_verified now flag verified =
     (case flag of
        None \<Rightarrow> verified
      | Some True \<Rightarrow> (case verified of None \<Rightarrow> Some now | Some t \<Rightarrow> Some t)
      | Some False \<Rightarrow> None)"

definition changed_to :: "'a \<Rightarrow> 'a \<Rightarrow> 'a option" where
  "changed_to new old = (if new \<noteq> old then Some new else None)"

definition changed_fields :: "int \<Rightarrow> admin_update_user_input \<Rightarrow> user_values \<Rightarrow> user \<Rightarrow> user_fields" where
  "changed_fields now input v u =
     \<lparr>fd_email = changed_to (nx_email v, nx_email_normalized v) (u_email u, u_email_normalized u),
      fd_nickname = changed_to (nx_nickname v) (u_nickname u),
      fd_website_url = changed_to (nx_website_url v) (u_website_url u),
      fd_role = changed_to (nx_role v) (u_role u),
      fd_status = changed_to (nx_status v) (u_status u),
      fd_email_verified_at =
        (case uu_email_verified input of
           None \<Rightarrow> None
         | Some b \<Rightarrow> Some (next_verified now (Some b) (u_email_verified_at u)))\<rparr>"

text \<open>The body of the transaction gives back whether role or status have changed.\<close>

definition updateUserTx :: "identity_env \<Rightarrow> int \<Rightarrow> admin_update_user_input \<Rightarrow> bool sql" where
  "updateUserTx I target input =
     bind (FindByID target) (\<lambda>u.
     bind (lift (next_values I input u)) (\<lambda>v.
     bind (if u_role u = RoleAdmin \<and> u_status u = UserStatusActive \<and>
              (nx_role v \<noteq> RoleAdmin \<or> nx_status v \<noteq> UserStatusActive)
           then bind (CountByRoleAndStatus RoleAdmin UserStatusActive) (\<lambda>n.
                require (\<not> n \<le> 1) ErrLastAdmin)
           else ret ()) (\<lambda>_.
     let fields = changed_fields (micro (id_now I)) input v u;
         changed = (nx_role v \<noteq> u_role u \<or> nx_status v \<noteq> u_status u)
     in if fields = no_fields then ret changed
        else bind (UpdateAdmin target fields) (\<lambda>_. ret changed))))"

definition updateUser :: "identity_env \<Rightarrow> int \<Rightarrow> admin_update_user_input \<Rightarrow> bool sql" where
  "updateUser I target input =
     (if uu_role input \<noteq> None \<or> uu_status input \<noteq> None
      then runAdminMutation (updateUserTx I target input)
      else atomically ErrInfra (updateUserTx I target input))"

definition AdminUpdateUser :: "identity_env \<Rightarrow> int \<Rightarrow> admin_update_user_input \<Rightarrow> profile svc" where
  "AdminUpdateUser I target input =
     bind (on_db (updateUser I target input)) (\<lambda>changed.
     bind (if changed then invalidateAuthz target else ret ()) (\<lambda>_.
     on_db (getWithPrefs I target)))"

definition UpdateRoleStatus_Input :: "string option \<Rightarrow> string option \<Rightarrow> admin_update_user_input" where
  "UpdateRoleStatus_Input r st =
     \<lparr>uu_email = None, uu_nickname = None, uu_website_url = \<lparr>ons_set = False, ons_value = None\<rparr>,
      uu_role = r, uu_status = st, uu_email_verified = None\<rparr>"

definition Service_UpdateRoleStatus :: "identity_env \<Rightarrow> int \<Rightarrow> string option \<Rightarrow> string option \<Rightarrow> profile svc" where
  "Service_UpdateRoleStatus I target r st = AdminUpdateUser I target (UpdateRoleStatus_Input r st)"

section \<open>Deleting and restoring one account (admin.go, batch.go)\<close>

definition applyAdminUserDeleteInTx ::
  "identity_env \<Rightarrow> int \<Rightarrow> user \<Rightarrow> string \<Rightarrow> bool \<Rightarrow> bool sql" where
  "applyAdminUserDeleteInTx I acting u mode confirm =
     (let now = micro (id_now I); hard = (mode = UserDeleteModeHard)
      in if acting = u_id u then fail ErrForbidden
         else if mode \<noteq> UserDeleteModeSoft \<and> mode \<noteq> UserDeleteModeHard then fail ErrValidation
         else if hard \<and> \<not> confirm then fail ErrConfirmationRequired
         else if mode = UserDeleteModeSoft \<and> u_status u = UserStatusDeleted then ret False
         else bind (ensureNotLastActiveAdmin u UserStatusDeleted) (\<lambda>_.
              if hard
              then bind (if id_comment_deleter I then PrepareUserHardDelete (u_id u) else ret ()) (\<lambda>_.
                   bind (User_Delete (u_id u)) (\<lambda>_.
                   ret True))
              else bind (User_SoftDelete (u_id u) (u_status u) now) (\<lambda>_.
                   bind (if id_comment_deleter I then SoftDeleteUserComments now (u_id u) else ret ()) (\<lambda>_.
                   ret True))))"

definition deleteUser :: "identity_env \<Rightarrow> int \<Rightarrow> int \<Rightarrow> string \<Rightarrow> bool \<Rightarrow> bool sql" where
  "deleteUser I acting target mode confirm =
     (if acting = target then fail ErrForbidden
      else if mode \<noteq> UserDeleteModeSoft \<and> mode \<noteq> UserDeleteModeHard then fail ErrValidation
      else if mode = UserDeleteModeHard \<and> \<not> confirm then fail ErrConfirmationRequired
      else runAdminMutation (bind (FindByID target) (\<lambda>u. applyAdminUserDeleteInTx I acting u mode confirm)))"

definition AdminDeleteUser :: "identity_env \<Rightarrow> int \<Rightarrow> int \<Rightarrow> string \<Rightarrow> bool \<Rightarrow> unit svc" where
  "AdminDeleteUser I acting target mode confirm =
     bind (on_db (deleteUser I acting target mode confirm)) (\<lambda>_. invalidateAuthz target)"

definition restoreAdminUserInTx :: "user \<Rightarrow> bool sql" where
  "restoreAdminUserInTx u =
     (if u_status u \<noteq> UserStatusDeleted then ret False
      else bind (User_Restore (u_id u)) (\<lambda>_. ret True))"

definition restoreUser :: "int \<Rightarrow> bool sql" where
  "restoreUser target = atomically ErrInfra (bind (FindByID target) restoreAdminUserInTx)"

definition AdminRestoreUser :: "identity_env \<Rightarrow> int \<Rightarrow> profile svc" where
  "AdminRestoreUser I target =
     bind (on_db (restoreUser target)) (\<lambda>restored.
     if \<not> restored then fail ErrConflict
     else bind (invalidateAuthz target) (\<lambda>_. on_db (getWithPrefs I target)))"

end
