(* ===== verification/Bootstrap.thy ===== *)
theory Bootstrap
  imports Identity
begin

text \<open>
  The first administrator (\<open>internal/service/bootstrap/service.go\<close>, \<open>internal/repository/bootstrap.go\<close>):
  a one-time setup token, printed at the start of a fresh instance, admits one request, whose
  transaction inserts the administrator together with the row that marks the instance as initialised.
\<close>

section \<open>The marker (bootstrap.go)\<close>

definition IsInitialized :: "bool sql" where
  "IsInitialized = sql_query (\<lambda>d. ac_bootstrap (db_accounts d) \<noteq> None)"

text \<open>The marker's row has a unique key of one value.\<close>

definition Bootstrap_Create :: "int \<Rightarrow> int \<Rightarrow> unit sql" where
  "Bootstrap_Create at admin =
     stmt ErrInfra (\<lambda>d.
       if ac_bootstrap (db_accounts d) \<noteq> None then Inl ErrConflict
       else Inr ((), map_accounts (\<lambda>a. a\<lparr>ac_bootstrap :=
              Some \<lparr>bs_initialized_at = at, bs_admin_user_id = admin\<rparr>\<rparr>) d))"

section \<open>The setup token\<close>

record setup_token =
  tok_raw :: string
  tok_hash :: string
  tok_expires_at :: int
  tok_used :: bool

abbreviation "setupTokenTTL \<equiv> (600000000000 :: int)"

text \<open>\<open>sha\<close> is the hexadecimal SHA-256; \<open>random\<close> the result of \<open>RandomToken\<close>.\<close>

definition newSetupToken :: "(string \<Rightarrow> string) \<Rightarrow> error + string \<Rightarrow> int \<Rightarrow> int \<Rightarrow> error + setup_token" where
  "newSetupToken sha random ttl now =
     bindE random (\<lambda>raw.
     Inr \<lparr>tok_raw = raw, tok_hash = sha raw, tok_expires_at = now + ttl, tok_used = False\<rparr>)"

definition plaintext :: "int \<Rightarrow> setup_token option \<Rightarrow> string option" where
  "plaintext now token =
     (case token of
        None \<Rightarrow> None
      | Some t \<Rightarrow> if tok_used t \<or> tok_hash t = '''' \<or> tok_expires_at t < now then None else Some (tok_raw t))"

definition verify_token :: "(string \<Rightarrow> string) \<Rightarrow> string \<Rightarrow> int \<Rightarrow> setup_token option \<Rightarrow> bool \<times> setup_token option" where
  "verify_token sha candidate now token =
     (case token of
        None \<Rightarrow> (False, None)
      | Some t \<Rightarrow>
          if tok_used t \<or> tok_hash t = '''' \<or> tok_expires_at t < now then (False, Some t)
          else if sha candidate \<noteq> tok_hash t then (False, Some t)
          else (True, Some (t\<lparr>tok_used := True\<rparr>)))"

section \<open>The service\<close>

record admin_input =
  ai_setup_token :: string
  ai_email :: string
  ai_nickname :: string
  ai_password :: string

definition validateInput :: "admin_input \<Rightarrow> error + unit" where
  "validateInput input =
     (if TrimSpace (ai_setup_token input) = '''' then Inl ErrTokenInvalid
      else if TrimSpace (ai_email input) = '''' then Inl ErrValidation
      else if length (TrimSpace (ai_nickname input)) < 1 then Inl ErrValidation
      else if length (ai_password input) < minPasswordLength then Inl ErrValidation
      else Inr ())"

text \<open>The token of a fresh service: none once the instance is initialised, or when that is unknown.\<close>

definition NewService :: "(string \<Rightarrow> string) \<Rightarrow> error + string \<Rightarrow> int \<Rightarrow> (error + bool) \<Rightarrow> error + setup_token option" where
  "NewService sha random now initialized =
     (case initialized of
        Inl _ \<Rightarrow> Inr None
      | Inr True \<Rightarrow> Inr None
      | Inr False \<Rightarrow> bindE (newSetupToken sha random setupTokenTTL now) (\<lambda>t. Inr (Some t)))"

definition Bootstrap_Status :: "bool sql" where
  "Bootstrap_Status = bind IsInitialized (\<lambda>b. ret (\<not> b))"

definition createAdminTx :: "identity_env \<Rightarrow> string \<Rightarrow> string \<Rightarrow> string \<Rightarrow> string \<Rightarrow> unit sql" where
  "createAdminTx I original normalized nickname password =
     bind IsInitialized (\<lambda>initialized.
     if initialized then fail ErrAlreadyInitialized
     else bind (attempt (FindByEmailNormalized normalized)) (\<lambda>r.
          case r of
            Inr _ \<Rightarrow> fail ErrEmailExists
          | Inl e \<Rightarrow>
              if e \<noteq> ErrNotFound then fail e
              else bind (CreateUserWithPassword I
                          ((account_of original normalized (TrimSpace nickname) RoleAdmin)
                             \<lparr>u_email_verified_at := Some (id_now I)\<rparr>) password) (\<lambda>admin.
                   Bootstrap_Create (id_now I) (u_id admin))))"

definition createAdmin :: "identity_env \<Rightarrow> string \<Rightarrow> string \<Rightarrow> string \<Rightarrow> string \<Rightarrow> unit sql" where
  "createAdmin I original normalized nickname password =
     bind (attempt (atomically ErrInfra (createAdminTx I original normalized nickname password))) (\<lambda>r.
     case r of
       Inr _ \<Rightarrow> ret ()
     | Inl e \<Rightarrow> fail (if e = ErrConflict then ErrAlreadyInitialized else e))"

definition CreateAdmin ::
  "identity_env \<Rightarrow> (string \<Rightarrow> string) \<Rightarrow> admin_input \<Rightarrow> (setup_token option, unit) handler" where
  "CreateAdmin I sha input =
     bind (lift (validateInput input)) (\<lambda>_.
     bind (lift (option_to_result ErrValidation (NormalizeEmail (id_lib I) (ai_email input)))) (\<lambda>(original, normalized).
     bind (in_memory (verify_token sha (ai_setup_token input) (id_now I))) (\<lambda>accepted.
     bind (require accepted ErrTokenInvalid) (\<lambda>_.
     on_db (createAdmin I original normalized (ai_nickname input) (ai_password input))))))"

end
