(* ===== verification/Credentials.thy ===== *)
theory Credentials
  imports Identity Runes
begin

text \<open>
  The ways an account can sign in (\<open>internal/service/identity/credential.go\<close>): its password, its passkeys
  and its bindings to external identities.  A removal counts them first, in a transaction that has
  locked the account's row; a lock of the process per account surrounds it.
\<close>

section \<open>The list of sign-in methods\<close>

datatype identity_kind = IdentityKindPassword | IdentityKindPasskey | IdentityKindExternal

record identity_entry =
  ie_kind :: identity_kind
  ie_id :: int
  ie_name :: string
  ie_provider :: string
  ie_created_at :: int
  ie_last_used_at :: "int option"

definition passkey_entry :: "passkey_credential \<Rightarrow> identity_entry" where
  "passkey_entry row = \<lparr>ie_kind = IdentityKindPasskey, ie_id = pk_id row, ie_name = pk_name row,
     ie_provider = '''', ie_created_at = pk_created_at row, ie_last_used_at = pk_last_used_at row\<rparr>"

definition external_entry :: "external_identity \<Rightarrow> identity_entry" where
  "external_entry row = \<lparr>ie_kind = IdentityKindExternal, ie_id = ei_id row, ie_name = '''',
     ie_provider = ei_provider_key row, ie_created_at = ei_created_at row,
     ie_last_used_at = ei_last_login_at row\<rparr>"

text \<open>\<open>zero\<close> is Go's zero time, which the password's entry has.\<close>

definition ListIdentities :: "int \<Rightarrow> int \<Rightarrow> identity_entry list sql" where
  "ListIdentities zero uid =
     bind (HasPassword uid) (\<lambda>has_password.
     bind (Passkey_ListByUserID uid) (\<lambda>passkeys.
     bind (Identity_ListByUserID uid) (\<lambda>identities.
     ret ((if has_password
           then [\<lparr>ie_kind = IdentityKindPassword, ie_id = 0, ie_name = '''', ie_provider = '''',
                  ie_created_at = zero, ie_last_used_at = None\<rparr>] else []) @
          map passkey_entry passkeys @ map external_entry identities))))"

section \<open>Removing one\<close>

definition loginMethodCount :: "int \<Rightarrow> nat sql" where
  "loginMethodCount uid =
     bind (HasPassword uid) (\<lambda>has_password.
     bind (Passkey_CountByUserID uid) (\<lambda>passkeys.
     bind (Identity_CountByUserID uid) (\<lambda>identities.
     ret ((if has_password then 1 else 0) + passkeys + identities))))"

definition DeletePasskey :: "int \<Rightarrow> int \<Rightarrow> unit sql" where
  "DeletePasskey uid passkey_id =
     atomically ErrInfra (
     bind (FindByIDLocked uid) (\<lambda>_.
     bind (Passkey_GetByUserIDAndID uid passkey_id) (\<lambda>row.
     bind (loginMethodCount uid) (\<lambda>remaining.
     if remaining \<le> 1 then fail ErrLastLoginMethod
     else Passkey_DeleteByUserAndID uid (pk_id row)))))"

definition DeleteExternalIdentity :: "int \<Rightarrow> int \<Rightarrow> unit sql" where
  "DeleteExternalIdentity uid identity_id =
     atomically ErrInfra (
     bind (FindByIDLocked uid) (\<lambda>_.
     bind (Identity_GetByUserIDAndID uid identity_id) (\<lambda>row.
     bind (loginMethodCount uid) (\<lambda>remaining.
     if remaining \<le> 1 then fail ErrLastLoginMethod
     else Identity_DeleteByUserAndID uid (ei_id row)))))"

definition RenamePasskey :: "int \<Rightarrow> int \<Rightarrow> string \<Rightarrow> unit sql" where
  "RenamePasskey uid passkey_id name =
     (let trimmed = TrimSpace name
      in if trimmed = '''' \<or> 100 < rune_count trimmed then fail ErrValidation
         else atomically ErrInfra (
              bind (Passkey_GetByUserIDAndID uid passkey_id) (\<lambda>row.
              RenameByUserAndID uid (pk_id row) trimmed)))"

section \<open>An account keeps a way in\<close>

text \<open>The number of ways in that the rows record.\<close>

definition login_methods :: "db \<Rightarrow> int \<Rightarrow> nat" where
  "login_methods d uid =
     (if \<exists>u \<in> set (db_users d). u_id u = uid \<and> u_password_hash u \<noteq> None then 1 else 0) +
     count_where (\<lambda>p. pk_user_id p = uid) (ac_passkeys (db_accounts d)) +
     count_where (\<lambda>e. ei_user_id e = uid) (ac_identities (db_accounts d))"

end
