(* ===== verification/Email_Code.thy ===== *)
theory Email_Code
  imports Identity Onetime
begin

text \<open>
  Codes sent by mail (\<open>internal/service/identity/login.go\<close>, \<open>password_reset.go\<close>, \<open>captcha.go\<close>): six random
  digits, kept as a digest in the one-time store of their purpose, delivered to the address they
  are for.
\<close>

section \<open>CAPTCHA (captcha.go)\<close>

abbreviation "EmailCodeAction \<equiv> ''email_code''"
abbreviation "EmailCodeLoginAction \<equiv> ''email_code_login''"
abbreviation "PasswordLoginAction \<equiv> ''password_login''"
abbreviation "PasswordResetAction \<equiv> ''password_reset''"

definition identity_checkCaptcha :: "identity_env \<Rightarrow> string \<Rightarrow> string \<Rightarrow> error + unit" where
  "identity_checkCaptcha I act token =
     bindE (id_captcha_policy I) (\<lambda>policy.
     if \<not> policy act then Inr ()
     else (case id_captcha I of
             None \<Rightarrow> Inl ErrCaptchaUnavailable
           | Some verify \<Rightarrow>
               if TrimSpace token = '''' then Inl ErrCaptchaRequired else verify act token))"

section \<open>Messages\<close>

text \<open>A message without its sender; the HTML part comes from a template.\<close>

record mail =
  ml_to :: string
  ml_subject :: string
  ml_text :: string
  ml_html :: string

definition utf8 :: "nat list \<Rightarrow> string" where
  "utf8 bytes = map char_of bytes"

definition login_subject :: string where
  "login_subject = utf8
     [0xE6, 0x82, 0xA8, 0xE7, 0x9A, 0x84, 0x20, 0x46, 0x75, 0x72, 0x74, 0x61, 0x6C, 0x6B, 0x20, 0xE7,
     0x99, 0xBB, 0xE5, 0xBD, 0x95, 0xE9, 0xAA, 0x8C, 0xE8, 0xAF, 0x81, 0xE7, 0xA0, 0x81]"

definition login_text_before :: string where
  "login_text_before = utf8
     [0xE6, 0x82, 0xA8, 0xE7, 0x9A, 0x84, 0x20, 0x46, 0x75, 0x72, 0x74, 0x61, 0x6C, 0x6B, 0x20, 0xE7,
     0x99, 0xBB, 0xE5, 0xBD, 0x95, 0xE9, 0xAA, 0x8C, 0xE8, 0xAF, 0x81, 0xE7, 0xA0, 0x81, 0xE6, 0x98,
     0xAF, 0xEF, 0xBC, 0x9A]"

definition reset_subject :: string where
  "reset_subject = utf8
     [0xE6, 0x82, 0xA8, 0xE7, 0x9A, 0x84, 0x20, 0x46, 0x75, 0x72, 0x74, 0x61, 0x6C, 0x6B, 0x20, 0xE5,
     0xAF, 0x86, 0xE7, 0xA0, 0x81, 0xE9, 0x87, 0x8D, 0xE7, 0xBD, 0xAE, 0xE9, 0xAA, 0x8C, 0xE8, 0xAF,
     0x81, 0xE7, 0xA0, 0x81]"

definition reset_text_before :: string where
  "reset_text_before = utf8
     [0xE6, 0x82, 0xA8, 0xE7, 0x9A, 0x84, 0x20, 0x46, 0x75, 0x72, 0x74, 0x61, 0x6C, 0x6B, 0x20, 0xE5,
     0xAF, 0x86, 0xE7, 0xA0, 0x81, 0xE9, 0x87, 0x8D, 0xE7, 0xBD, 0xAE, 0xE9, 0xAA, 0x8C, 0xE8, 0xAF,
     0x81, 0xE7, 0xA0, 0x81, 0xE6, 0x98, 0xAF, 0xEF, 0xBC, 0x9A]"

definition code_text_between :: string where
  "code_text_between = utf8
     [0xE3, 0x80, 0x82, 0x0A, 0x0A, 0xE9, 0xAA, 0x8C, 0xE8, 0xAF, 0x81, 0xE7, 0xA0, 0x81, 0x20]"

definition code_text_after :: string where
  "code_text_after = utf8
     [0x20, 0xE5, 0x88, 0x86, 0xE9, 0x92, 0x9F, 0xE5, 0x86, 0x85, 0xE6, 0x9C, 0x89, 0xE6, 0x95, 0x88,
     0xE3, 0x80, 0x82, 0xE5, 0xA6, 0x82, 0xE9, 0x9D, 0x9E, 0xE6, 0x9C, 0xAC, 0xE4, 0xBA, 0xBA, 0xE6,
     0x93, 0x8D, 0xE4, 0xBD, 0x9C, 0xEF, 0xBC, 0x8C, 0xE5, 0x8F, 0xAF, 0xE5, 0xBF, 0xBD, 0xE7, 0x95,
     0xA5, 0xE6, 0xAD, 0xA4, 0xE9, 0x82, 0xAE, 0xE4, 0xBB, 0xB6, 0xE3, 0x80, 0x82]"

abbreviation "emailCodeTTL \<equiv> (300000000000 :: int)"
abbreviation "passwordResetCodeTTL \<equiv> (600000000000 :: int)"
abbreviation "emailCodeMaxAttempts \<equiv> (3 :: int)"
abbreviation "passwordResetMaxAttempts \<equiv> (5 :: int)"
abbreviation "emailCodeLength \<equiv> (6 :: nat)"
abbreviation "emailCodePurpose \<equiv> ''login''"
abbreviation "passwordResetPurpose \<equiv> ''password_reset''"

definition minutes_of :: "int \<Rightarrow> int" where
  "minutes_of ttl = ttl div 60000000000"

text \<open>A template is given the code and the minutes it is valid.\<close>

type_synonym code_template = "string \<Rightarrow> int \<Rightarrow> string option"

definition renderEmailCodeMessage :: "code_template \<Rightarrow> string \<Rightarrow> string \<Rightarrow> int \<Rightarrow> mail option" where
  "renderEmailCodeMessage template to code ttl =
     map_option (\<lambda>html. \<lparr>ml_to = to, ml_subject = login_subject,
         ml_text = login_text_before @ code @ code_text_between @ FormatInt (minutes_of ttl) @ code_text_after,
         ml_html = html\<rparr>)
       (template code (minutes_of ttl))"

definition renderPasswordResetMessage :: "code_template \<Rightarrow> string \<Rightarrow> string \<Rightarrow> int \<Rightarrow> mail option" where
  "renderPasswordResetMessage template to code ttl =
     map_option (\<lambda>html. \<lparr>ml_to = to, ml_subject = reset_subject,
         ml_text = reset_text_before @ code @ code_text_between @ FormatInt (minutes_of ttl) @ code_text_after,
         ml_html = html\<rparr>)
       (template code (minutes_of ttl))"

section \<open>Digits\<close>

text \<open>
  \<open>generateCode\<close> reads one random byte at a time and rejects those from 250 on; \<open>rand.Read\<close> fails where
  the given bytes end.
\<close>

fun generateCode :: "nat \<Rightarrow> nat list \<Rightarrow> error + string" where
  "generateCode 0 bytes = Inr ''''"
| "generateCode (Suc n) [] = Inl ErrInfra"
| "generateCode (Suc n) (b # bytes) =
     (if b < 250 then bindE (generateCode n bytes) (\<lambda>code. Inr (digit_char (b mod 10) # code))
      else generateCode (Suc n) bytes)"

section \<open>The code store\<close>

text \<open>
  \<open>cacheEmailCodeStore\<close>: the one-time store of each purpose and, for stores without atomic
  operations, the plain cache.
\<close>

record email_code_store =
  ec_store :: bool
  ec_login :: "namespace option"
  ec_password_reset :: "namespace option"

definition NewEmailCodeStore :: email_code_store where
  "NewEmailCodeStore = \<lparr>ec_store = True, ec_login = Some email_code_login_ns,
     ec_password_reset = Some password_reset_ns\<rparr>"

definition bounded_codes :: "email_code_store \<Rightarrow> bool" where
  "bounded_codes a \<longleftrightarrow> ec_login a \<noteq> None \<or> ec_password_reset a \<noteq> None"

definition oneTimeFor :: "email_code_store \<Rightarrow> string \<Rightarrow> error + namespace option" where
  "oneTimeFor a purpose =
     (let chosen = (\<lambda>n. if n = None \<and> bounded_codes a then Inl ErrInfra else Inr n)
      in if purpose = emailCodePurpose then chosen (ec_login a)
         else if purpose = passwordResetPurpose then chosen (ec_password_reset a)
         else if bounded_codes a then Inl ErrInfra
         else Inr None)"

definition emailCodeKey :: "string \<Rightarrow> string \<Rightarrow> string" where
  "emailCodeKey purpose email = ''email-code:'' @ purpose @ '':'' @ email"

text \<open>
  What the handlers of this part are given besides \<open>identity_env\<close>: the code store, the digest, the
  codecs, the cache's answers about the request's context, the instants, the rounds of a
  verification (its last round is where the request's context ends), random bytes, the mailer
  and its templates, the admission of password logins and whether a hashing slot is free.
\<close>

record login_env =
  le_id :: identity_env
  le_codes :: email_code_store
  le_sha :: "string \<Rightarrow> string"
  le_json :: onetime_json
  le_json_string :: "string \<Rightarrow> string option"
  le_valid :: "string \<Rightarrow> bool"
  le_ctx :: "cache_error option"
  le_issued_at :: int
  le_cache_now :: int
  le_rounds :: "(verify_round \<times> (memory \<Rightarrow> memory)) list"
  le_random :: "nat list"
  le_mailer :: "(mail \<Rightarrow> error + unit) option"
  le_login_template :: code_template
  le_reset_template :: code_template
  le_admission :: "(string \<Rightarrow> string \<Rightarrow> bool) option"
  le_budget_free :: bool

text \<open>The state in memory: the cache, and the messages handed to the mailer, oldest first.\<close>

record desk =
  dk_cache :: memory
  dk_sent :: "mail list"

type_synonym 'a desk_handler = "(desk, 'a) handler"

definition cache_part :: "(db \<times> desk, comment_event) world \<Rightarrow> (db \<times> memory, comment_event) world" where
  "cache_part w = \<lparr>data = (fst (data w), dk_cache (snd (data w))), faults = faults w, outbox = outbox w\<rparr>"

definition on_svc :: "'a svc \<Rightarrow> 'a desk_handler" where
  "on_svc m w = (case m (cache_part w) of (r, v) \<Rightarrow>
     (r, \<lparr>data = (fst (data v), (snd (data w))\<lparr>dk_cache := snd (data v)\<rparr>), faults = faults v,
          outbox = outbox v\<rparr>))"

definition send_mail :: "(mail \<Rightarrow> error + unit) \<Rightarrow> mail \<Rightarrow> (error + unit) desk_handler" where
  "send_mail deliver m = in_memory (\<lambda>k. (deliver m, k\<lparr>dk_sent := dk_sent k @ [m]\<rparr>))"

definition SetEmailCode :: "login_env \<Rightarrow> string \<Rightarrow> string \<Rightarrow> string \<Rightarrow> int \<Rightarrow> (cache_error + unit) svc" where
  "SetEmailCode L purpose email digest ttl =
     bind (lift (oneTimeFor (le_codes L) purpose)) (\<lambda>n.
     case n of
       Some N \<Rightarrow> on_cache (Issue (namespace_backend (le_valid L) N) (le_json L) (le_ctx L) (le_issued_at L)
                   (le_cache_now L) email digest ttl)
     | None \<Rightarrow>
         if \<not> ec_store (le_codes L) then fail ErrInfra
         else on_cache (Memory_Set (le_json_string L digest) (le_cache_now L) (emailCodeKey purpose email) ttl))"

definition DeleteEmailCode :: "login_env \<Rightarrow> string \<Rightarrow> string \<Rightarrow> (cache_error + unit) svc" where
  "DeleteEmailCode L purpose email =
     bind (lift (oneTimeFor (le_codes L) purpose)) (\<lambda>n.
     case n of
       Some N \<Rightarrow> on_cache (Onetime_Delete (namespace_backend (le_valid L) N) email)
     | None \<Rightarrow>
         if \<not> ec_store (le_codes L) then fail ErrInfra
         else on_cache (Memory_Delete (emailCodeKey purpose email)))"

text \<open>The loop of a verification that is still running when its context ends answers with an error.\<close>

definition verify_code ::
  "login_env \<Rightarrow> namespace \<Rightarrow> string \<Rightarrow> string \<Rightarrow> int \<Rightarrow> verify_result cache_op" where
  "verify_code L N email submitted maxAttempts s =
     (case VerifyAndConsume (namespace_backend (le_valid L) N) (le_json L) (le_rounds L) email submitted
             maxAttempts s of
        (None, s') \<Rightarrow> (Inl Cache_Context, s')
      | (Some r, s') \<Rightarrow> (r, s'))"

definition AtomicVerifyEmailCode :: "login_env \<Rightarrow> string \<Rightarrow> string \<Rightarrow> string \<Rightarrow> int \<Rightarrow> bool svc" where
  "AtomicVerifyEmailCode L purpose email submitted maxAttempts =
     bind (lift (oneTimeFor (le_codes L) purpose)) (\<lambda>n.
     case n of
       Some N \<Rightarrow>
         bind (on_cache (verify_code L N email submitted maxAttempts)) (\<lambda>r.
         case r of Inl _ \<Rightarrow> fail ErrInfra | Inr v \<Rightarrow> ret (v = Consumed))
     | None \<Rightarrow> ret False)"

text \<open>A full namespace is reported as unavailable; the other errors of the cache are internal.\<close>

definition mapEphemeralError :: "cache_error \<Rightarrow> error" where
  "mapEphemeralError e = (if e = Cache_ErrCapacity then ErrUnavailable else ErrInfra)"

section \<open>Rules\<close>

lemma wp_on_svc [wp_intros]:
  assumes "wpf f m (\<lambda>r dc' os'. Q r (fst dc', (snd dk)\<lparr>dk_cache := snd dc'\<rparr>) os')
    (fst dk, dk_cache (snd dk)) os"
  shows "wpf f (on_svc m) Q dk os"
  unfolding wpf_def
proof (intro allI impI)
  fix w :: "(db \<times> desk, comment_event) world"
  assume w: "data w = dk" "outbox w = os" "f \<or> faults w = []"
  obtain r v where run: "m (cache_part w) = (r, v)" by fastforce
  have "Q r (fst (data v), (snd dk)\<lparr>dk_cache := snd (data v)\<rparr>) (outbox v) \<and> (f \<or> faults v = [])"
    using assms [unfolded wpf_def, rule_format, of "cache_part w"] w run by (simp add: cache_part_def)
  with run w show "case on_svc m w of (r, w') \<Rightarrow> Q r (data w') (outbox w') \<and> (f \<or> faults w' = [])"
    by (simp add: on_svc_def)
qed

lemma preserves_on_svc [preserves_intros]:
  assumes "preserves (\<lambda>dc. I (fst dc)) m"
  shows "preserves (\<lambda>dk. I (fst dk)) (on_svc m)"
  unfolding preserves_def
proof (intro allI impI)
  fix w r w'
  assume I: "I (fst (data w))" and run: "on_svc m w = (r, w')"
  obtain v where "m (cache_part w) = (r, v)" "fst (data w') = fst (data v)"
    using run by (auto simp: on_svc_def split: prod.splits)
  with preservesD [OF assms] I show "I (fst (data w'))" by (simp add: cache_part_def)
qed

lemma preserves_code_store [preserves_intros]:
  "preserves (\<lambda>dc. I (fst dc)) (SetEmailCode L purpose email digest ttl)"
  "preserves (\<lambda>dc. I (fst dc)) (DeleteEmailCode L purpose email)"
  "preserves (\<lambda>dc. I (fst dc)) (AtomicVerifyEmailCode L purpose email submitted n)"
  by (auto simp: SetEmailCode_def DeleteEmailCode_def AtomicVerifyEmailCode_def intro!: preserves_intros)

lemma preserves_send_mail [preserves_intros]: "preserves (\<lambda>dk. I (fst dk)) (send_mail deliver m)"
  unfolding send_mail_def by (rule preserves_in_memory)

text \<open>A code has the length asked for and only digits, and no digit is favoured.\<close>

lemma digit_char_digit: "is_digit (digit_char (b mod 10))"
  by (simp add: is_digit_def digit_char_def)

lemma generateCode_digits:
  "generateCode n bytes = Inr code \<Longrightarrow> length code = n \<and> (\<forall>c \<in> set code. is_digit c)"
  by (induction n bytes arbitrary: code rule: generateCode.induct)
    (auto simp: bindE_Inr_iff digit_char_digit split: if_splits)

lemma generateCode_total:
  "n \<le> length (filter (\<lambda>b. b < 250) bytes) \<Longrightarrow> \<exists>code. generateCode n bytes = Inr code"
  by (induction n bytes rule: generateCode.induct) auto

end
