(* ===== verification/Token.thy ===== *)
theory Token
  imports Domain Go_Std
begin

text \<open>
  Signed tokens (\<open>internal/platform/token/jwt.go\<close>).  Serialising, signing and the registered checks
  (signature, issuer, audience, times) belong to the JWT library, so signing and parsing are arguments;
  the claims that are signed and what the service checks on top of the library are the code's.
\<close>

abbreviation "AudienceFirstParty \<equiv> ''furtalk-first-party''"
abbreviation "AudienceWidgetAuthenticated \<equiv> ''furtalk-widget-authenticated''"
abbreviation "AudienceUnsubscribe \<equiv> ''furtalk-unsubscribe''"
abbreviation "TokenKindFirstParty \<equiv> ''first_party''"
abbreviation "TokenKindWidgetAuthenticated \<equiv> ''widget_authenticated''"
abbreviation "TokenKindUnsubscribe \<equiv> ''unsubscribe''"

datatype token_error = ErrInvalidToken | ErrTokenExpired | ErrTokenSign

text \<open>The times are whole seconds, given in nanoseconds, as the library's numeric dates have them.\<close>

record claims =
  cl_token_kind :: string
  cl_site_id :: string
  cl_credential_epoch :: string
  cl_notification_kind :: string
  cl_session_version :: int
  cl_issuer :: string
  cl_subject :: string
  cl_audience :: "string list"
  cl_expires_at :: "int option"
  cl_not_before :: "int option"
  cl_issued_at :: "int option"
  cl_id :: string

definition numeric_date :: "int \<Rightarrow> int" where
  "numeric_date t = t - t mod 1000000000"

text \<open>\<open>Claims.UserID\<close>: the subject is a positive decimal identifier.\<close>

definition claims_UserID :: "claims \<Rightarrow> token_error + int" where
  "claims_UserID c =
     (case ParseInt (cl_subject c) of
        None \<Rightarrow> Inl ErrInvalidToken
      | Some n \<Rightarrow> if n \<le> 0 then Inl ErrInvalidToken else Inr n)"

text \<open>
  The service: issuer, life time, and the library with the key: \<open>jw_sign\<close> signs claims,
  \<open>jw_parse issuer audience now raw\<close> gives the claims of a token that passes the
  registered checks.
\<close>

record jwt_service =
  jw_issuer :: string
  jw_lifetime :: int
  jw_sign :: "claims \<Rightarrow> token_error + string"
  jw_parse :: "string \<Rightarrow> string \<Rightarrow> int \<Rightarrow> string \<Rightarrow> token_error + claims"

definition base_claims :: "jwt_service \<Rightarrow> int \<Rightarrow> string \<Rightarrow> int \<Rightarrow> int \<Rightarrow> string \<Rightarrow> string \<Rightarrow> claims" where
  "base_claims S now uuid uid lifetime kind audience =
     \<lparr>cl_token_kind = kind, cl_site_id = '''', cl_credential_epoch = '''', cl_notification_kind = '''',
      cl_session_version = 0, cl_issuer = jw_issuer S, cl_subject = FormatInt uid, cl_audience = [audience],
      cl_expires_at = Some (numeric_date (now + lifetime)), cl_not_before = Some (numeric_date now),
      cl_issued_at = Some (numeric_date now), cl_id = uuid\<rparr>"

definition SignFirstParty :: "jwt_service \<Rightarrow> int \<Rightarrow> string \<Rightarrow> int \<Rightarrow> int \<Rightarrow> token_error + string" where
  "SignFirstParty S now uuid uid version =
     (if version \<le> 0 then Inl ErrTokenSign
      else jw_sign S ((base_claims S now uuid uid (jw_lifetime S) TokenKindFirstParty AudienceFirstParty)
             \<lparr>cl_session_version := version\<rparr>))"

definition SignWidget :: "jwt_service \<Rightarrow> int \<Rightarrow> string \<Rightarrow> int \<Rightarrow> int \<Rightarrow> string \<Rightarrow> string \<Rightarrow> token_error + string" where
  "SignWidget S now uuid uid sid kind epoch =
     (if kind \<noteq> TokenKindWidgetAuthenticated then Inl ErrTokenSign
      else jw_sign S ((base_claims S now uuid uid (jw_lifetime S) kind AudienceWidgetAuthenticated)
             \<lparr>cl_site_id := FormatInt sid, cl_credential_epoch := epoch\<rparr>))"

definition SignUnsubscribe :: "jwt_service \<Rightarrow> int \<Rightarrow> string \<Rightarrow> int \<Rightarrow> string \<Rightarrow> int \<Rightarrow> token_error + string" where
  "SignUnsubscribe S now uuid uid kind lifetime =
     jw_sign S ((base_claims S now uuid uid lifetime TokenKindUnsubscribe AudienceUnsubscribe)
       \<lparr>cl_notification_kind := kind\<rparr>)"

definition Token_Parse :: "jwt_service \<Rightarrow> int \<Rightarrow> string \<Rightarrow> string \<Rightarrow> string \<Rightarrow> token_error + claims" where
  "Token_Parse S now raw audience kind =
     bindE (jw_parse S (jw_issuer S) audience now raw) (\<lambda>c.
     if cl_subject c = '''' \<or> cl_id c = '''' then Inl ErrInvalidToken
     else if cl_token_kind c \<noteq> kind then Inl ErrInvalidToken
     else bindE (claims_UserID c) (\<lambda>_. Inr c))"

definition ParseUnsubscribe :: "jwt_service \<Rightarrow> int \<Rightarrow> string \<Rightarrow> token_error + int \<times> string" where
  "ParseUnsubscribe S now raw =
     bindE (Token_Parse S now raw AudienceUnsubscribe TokenKindUnsubscribe) (\<lambda>c.
     if cl_notification_kind c = '''' then Inl ErrInvalidToken
     else bindE (claims_UserID c) (\<lambda>uid. Inr (uid, cl_notification_kind c)))"

section \<open>What is signed is read back\<close>

text \<open>
  The library reads back what it has signed while the token is valid, for its audience and issuer.
\<close>

definition jwt_ok :: "jwt_service \<Rightarrow> bool" where
  "jwt_ok S \<longleftrightarrow> (\<forall>c raw now audience. jw_sign S c = Inr raw \<longrightarrow> cl_issuer c = jw_issuer S \<longrightarrow>
     audience \<in> set (cl_audience c) \<longrightarrow>
     (\<forall>t. cl_expires_at c = Some t \<longrightarrow> now < t) \<longrightarrow> cl_expires_at c \<noteq> None \<longrightarrow>
     (\<forall>t. cl_not_before c = Some t \<longrightarrow> t \<le> now) \<longrightarrow> (\<forall>t. cl_issued_at c = Some t \<longrightarrow> t \<le> now) \<longrightarrow>
     jw_parse S (jw_issuer S) audience now raw = Inr c)"

lemma numeric_date_le: "numeric_date t \<le> t"
  by (simp add: numeric_date_def)

lemma parse_signed:
  assumes "jwt_ok S" "jw_sign S c = Inr raw"
    and c: "c = (base_claims S now uuid uid lifetime kind audience)\<lparr>cl_site_id := sid,
      cl_credential_epoch := epoch, cl_notification_kind := notification, cl_session_version := version\<rparr>"
    and "0 < uid" "uid < 2 ^ 63" "uuid \<noteq> ''''" "now \<le> later" "later < numeric_date (now + lifetime)"
  shows "Token_Parse S later raw audience kind = Inr c" "claims_UserID c = Inr uid"
proof -
  have "ParseInt (FormatInt uid) = Some uid" using assms(4,5) by (intro ParseInt_FormatInt) simp_all
  then show uid: "claims_UserID c = Inr uid" using assms(4) by (simp add: claims_UserID_def c base_claims_def)
  have "numeric_date now \<le> later" using assms(7) numeric_date_le [of now] by linarith
  then have "jw_parse S (jw_issuer S) audience later raw = Inr c"
    using assms(1) [unfolded jwt_ok_def, rule_format, OF assms(2), of audience later] assms(8)
    by (simp add: c base_claims_def)
  moreover have "FormatInt uid \<noteq> ''''" using FormatInt_digits [of uid] assms(4) by auto
  ultimately show "Token_Parse S later raw audience kind = Inr c"
    using uid assms(6) by (simp add: Token_Parse_def) (simp add: c base_claims_def)
qed

end
