(* ===== verification/Access.thy ===== *)
theory Access
  imports Identity Token
begin

text \<open>
  Who a request is (\<open>internal/service/identity/access.go\<close>, \<open>internal/middleware/auth.go\<close>): the principal
  is resolved through the authorisation cache, and a session token counts only in the session generation
  of its account.
\<close>

section \<open>The authorisation cache (access.go)\<close>

text \<open>\<open>domain.AuthzInfo\<close> and its JSON codec; every role and status of a row is a known one.\<close>

record authz_info =
  az_role :: role
  az_status :: user_status
  az_session_version :: int

record authz_codec =
  az_marshal :: "authz_info \<Rightarrow> string option"
  az_unmarshal :: "string \<Rightarrow> authz_info option"

definition authz_of :: "user \<Rightarrow> authz_info" where
  "authz_of u = \<lparr>az_role = u_role u, az_status = u_status u, az_session_version = u_session_version u\<rparr>"

definition principal_of :: "int \<Rightarrow> authz_info \<Rightarrow> principal" where
  "principal_of uid i = \<lparr>p_user_id = uid, p_role = az_role i, p_status = az_status i,
     p_session_version = az_session_version i\<rparr>"

abbreviation "authzCacheTTL \<equiv> (300000000000 :: int)"

definition load_authz :: "int \<Rightarrow> authz_info sql" where
  "load_authz uid = bind (FindByID uid) (\<lambda>u. ret (authz_of u))"

text \<open>
  \<open>Resolve\<close> runs under the user's lock.  It is \<open>GetOrLoad\<close>, whose load is a query, step by step;
  \<open>now\<close> and \<open>later\<close> are the cache's instants of the lookup and of the write.
\<close>

definition publish_authz :: "authz_codec \<Rightarrow> int \<Rightarrow> int \<Rightarrow> authz_info \<Rightarrow> unit cache_op" where
  "publish_authz C later uid info = Memory_Set (az_marshal C info) later (authzKey uid) authzCacheTTL"

definition Resolve :: "authz_codec \<Rightarrow> cache_error option \<Rightarrow> int \<Rightarrow> int \<Rightarrow> int \<Rightarrow> principal svc" where
  "Resolve C ctx now later uid =
     bind (on_cache (Memory_Get (az_unmarshal C) ctx now (authzKey uid))) (\<lambda>r.
     case r of
       Inr info \<Rightarrow> ret (principal_of uid info)
     | Inl e \<Rightarrow>
         if e \<noteq> Cache_ErrNotFound then fail ErrInfra
         else bind (on_db (load_authz uid)) (\<lambda>info.
              bind (on_cache (publish_authz C later uid info)) (\<lambda>s.
              case s of
                Inl _ \<Rightarrow> fail ErrInfra
              | Inr _ \<Rightarrow>
                  (case Option.bind (az_marshal C info) (az_unmarshal C) of
                     None \<Rightarrow> fail ErrInfra
                   | Some i \<Rightarrow> ret (principal_of uid i)))))"

section \<open>Gates (access.go)\<close>

definition firstPartyAllowed :: "string \<Rightarrow> role \<Rightarrow> bool" where
  "firstPartyAllowed mode r \<longleftrightarrow> mode \<noteq> CommentModeAnonymous \<or> r = RoleAdmin"

definition RequireAdmin :: "principal \<Rightarrow> error + unit" where
  "RequireAdmin p =
     (if p_status p \<noteq> UserStatusActive then Inl ErrDisabled
      else if p_role p \<noteq> RoleAdmin then Inl ErrForbidden
      else Inr ())"

definition RequireUser :: "identity_env \<Rightarrow> principal \<Rightarrow> error + unit" where
  "RequireUser I p =
     (if p_status p \<noteq> UserStatusActive then Inl ErrDisabled
      else if p_role p = RoleAdmin then Inr ()
      else bindE (id_policy I) (\<lambda>(_, mode).
           if \<not> firstPartyAllowed mode (p_role p) then Inl ErrAnonymousRestricted else Inr ()))"

section \<open>The request's session (auth.go)\<close>

definition sessionVersionMatches :: "claims \<Rightarrow> principal \<Rightarrow> bool" where
  "sessionVersionMatches c p \<longleftrightarrow>
     0 < cl_session_version c \<and> 0 < p_session_version p \<and> cl_session_version c = p_session_version p"

text \<open>
  What the middleware chain leaves for the handler: nobody, with or without clearing the
  cookies, somebody, or an aborted request.
\<close>

datatype request_identity = Anonymous bool | Somebody principal | Aborted

text \<open>\<open>JWTVerification\<close>: a token that does not verify leaves the request anonymous.\<close>

definition JWTVerification :: "jwt_service \<Rightarrow> int \<Rightarrow> string option \<Rightarrow> claims option" where
  "JWTVerification S now cookie =
     (case cookie of
        None \<Rightarrow> None
      | Some raw \<Rightarrow>
          if raw = '''' then None
          else (case Token_Parse S now raw AudienceFirstParty TokenKindFirstParty of
                  Inl _ \<Rightarrow> None
                | Inr c \<Rightarrow> Some c))"

definition PrincipalResolution ::
  "authz_codec \<Rightarrow> cache_error option \<Rightarrow> int \<Rightarrow> int \<Rightarrow> claims option \<Rightarrow> request_identity svc" where
  "PrincipalResolution C ctx now later found =
     (case found of
        None \<Rightarrow> ret (Anonymous False)
      | Some c \<Rightarrow>
          (case claims_UserID c of
             Inl _ \<Rightarrow> ret (Anonymous False)
           | Inr uid \<Rightarrow>
               bind (attempt (Resolve C ctx now later uid)) (\<lambda>r.
               case r of
                 Inl e \<Rightarrow> ret (if e = ErrNotFound then Anonymous True else Aborted)
               | Inr p \<Rightarrow>
                   ret (if \<not> sessionVersionMatches c p then Anonymous True else Somebody p))))"

text \<open>The status the gates of the routes answer with; \<open>None\<close> lets the request pass.\<close>

definition gate_RequireUser :: "identity_env \<Rightarrow> request_identity \<Rightarrow> nat option" where
  "gate_RequireUser I who =
     (case who of
        Somebody p \<Rightarrow> (case RequireUser I p of Inl _ \<Rightarrow> Some 403 | Inr _ \<Rightarrow> None)
      | Aborted \<Rightarrow> Some 403
      | Anonymous _ \<Rightarrow> Some 401)"

definition gate_RequireAdmin :: "request_identity \<Rightarrow> nat option" where
  "gate_RequireAdmin who =
     (case who of
        Somebody p \<Rightarrow> (case RequireAdmin p of Inl _ \<Rightarrow> Some 403 | Inr _ \<Rightarrow> None)
      | Aborted \<Rightarrow> Some 403
      | Anonymous _ \<Rightarrow> Some 401)"

definition csrfTokenLength :: nat where "csrfTokenLength = 43"

text \<open>\<open>CSRFProtection\<close>: an unsafe method has to send the token of the cookie in the header too.\<close>

definition CSRFProtection :: "string \<Rightarrow> string option \<Rightarrow> string \<Rightarrow> bool" where
  "CSRFProtection http_method cookie header \<longleftrightarrow>
     http_method = ''GET'' \<or> http_method = ''HEAD'' \<or> http_method = ''OPTIONS'' \<or>
     (case cookie of
        None \<Rightarrow> False
      | Some c \<Rightarrow> length c = csrfTokenLength \<and> length header = csrfTokenLength \<and> c = header)"

definition cookieMaxAge :: "int \<Rightarrow> int" where
  "cookieMaxAge ttl = (let seconds = (if 0 \<le> ttl then ttl div 1000000000 else - ((- ttl) div 1000000000))
     in if seconds \<le> 0 then - 1 else seconds)"

end
