(* ===== verification/Login.thy ===== *)
theory Login
  imports Email_Code Access
begin

text \<open>
  Signing in (\<open>internal/service/identity/login.go\<close>, \<open>password.go\<close>, \<open>password_reset.go\<close>): a code sent by mail or a
  password yields a session, a code may register a new account or set a new password.
\<close>

section \<open>Ending a sign-in (login.go)\<close>

definition completeLogin :: "identity_env \<Rightarrow> user \<Rightarrow> error + session" where
  "completeLogin I u =
     (if u_status u \<noteq> UserStatusActive then Inl ErrDisabled
      else bindE (id_policy I) (\<lambda>(_, mode).
           if \<not> firstPartyAllowed mode (u_role u) then Inl ErrInvalidCredentials
           else new_session I (u_id u) (u_session_version u)))"

definition email_lists :: "identity_env \<Rightarrow> (error + string list \<times> string list) option" where
  "email_lists I = Some (bindE (id_email_policy I) (\<lambda>(whitelist, blacklist, _). Inr (whitelist, blacklist)))"

text \<open>A query that may find nothing.\<close>

definition find_user :: "string \<Rightarrow> user option sql" where
  "find_user normalized =
     bind (attempt (FindByEmailNormalized normalized)) (\<lambda>r.
     case r of
       Inr u \<Rightarrow> ret (Some u)
     | Inl e \<Rightarrow> if e = ErrNotFound then ret None else fail e)"

section \<open>Codes by mail (login.go)\<close>

definition SendEmailCode :: "login_env \<Rightarrow> string \<Rightarrow> string \<Rightarrow> unit desk_handler" where
  "SendEmailCode L raw_email captcha_token =
     (let I = le_id L
      in bind (lift (option_to_result ErrValidation (NormalizeEmail (id_lib I) raw_email))) (\<lambda>(_, normalized).
         bind (lift (identity_checkCaptcha I EmailCodeAction captcha_token)) (\<lambda>_.
         case le_mailer L of
           None \<Rightarrow> fail ErrMailUnavailable
         | Some deliver \<Rightarrow>
             bind (on_db (find_user normalized)) (\<lambda>known.
             bind (if known = None then lift (checkEmailDomainAllowed (id_lib I) (email_lists I) normalized)
                   else ret ()) (\<lambda>_.
             bind (lift (generateCode emailCodeLength (le_random L))) (\<lambda>code.
             bind (on_svc (SetEmailCode L emailCodePurpose normalized (le_sha L code) emailCodeTTL)) (\<lambda>stored.
             case stored of
               Inl e \<Rightarrow> fail (mapEphemeralError e)
             | Inr _ \<Rightarrow>
                 (case renderEmailCodeMessage (le_login_template L) normalized code emailCodeTTL of
                    None \<Rightarrow> fail ErrMailUnavailable
                  | Some message \<Rightarrow>
                      bind (send_mail deliver message) (\<lambda>sent.
                      case sent of Inl _ \<Rightarrow> fail ErrMailUnavailable | Inr _ \<Rightarrow> ret ())))))))))"

definition registerOnCodeLogin :: "login_env \<Rightarrow> string \<Rightarrow> session sql" where
  "registerOnCodeLogin L normalized =
     (let I = le_id L
      in bind (lift (id_policy I)) (\<lambda>(public, _).
         if \<not> public then fail ErrInvalidCredentials
         else bind (lift (checkEmailDomainAllowed (id_lib I) (email_lists I) normalized)) (\<lambda>_.
              bind (User_Create ((account_of normalized normalized (defaultNickname normalized) RoleUser)
                      \<lparr>u_email_verified_at := Some (id_now I)\<rparr>)) (\<lambda>u.
              lift (completeLogin I u)))))"

record email_code_login_input =
  el_email :: string
  el_code :: string
  el_captcha_token :: string

text \<open>After the code has been consumed: sign in, then note that the address is verified.\<close>

definition loginByEmail :: "login_env \<Rightarrow> string \<Rightarrow> session sql" where
  "loginByEmail L normalized =
     (let I = le_id L
      in bind (find_user normalized) (\<lambda>found.
         case found of
           None \<Rightarrow> registerOnCodeLogin L normalized
         | Some u \<Rightarrow>
             bind (lift (completeLogin I u)) (\<lambda>s.
             if u_email_verified_at u = None
             then bind (MarkEmailVerified (u_id u) (micro (id_now I))) (\<lambda>_. ret s)
             else ret s)))"

definition LoginWithEmailCode :: "login_env \<Rightarrow> email_code_login_input \<Rightarrow> session desk_handler" where
  "LoginWithEmailCode L input =
     (let I = le_id L
      in bind (lift (option_to_result ErrInvalidCredentials (NormalizeEmail (id_lib I) (el_email input)))) (\<lambda>(_, normalized).
         bind (lift (identity_checkCaptcha I EmailCodeLoginAction (el_captcha_token input))) (\<lambda>_.
         bind (on_svc (AtomicVerifyEmailCode L emailCodePurpose normalized (le_sha L (el_code input))
                 emailCodeMaxAttempts)) (\<lambda>consumed.
         if \<not> consumed then fail ErrInvalidCredentials
         else on_db (loginByEmail L normalized)))))"

section \<open>Passwords (password.go)\<close>

abbreviation "PolicyPasswordLoginIP \<equiv> ''password_login_ip''"
abbreviation "PolicyPasswordLoginEmail \<equiv> ''password_login_email''"

record password_login_input =
  pl_email :: string
  pl_password :: string
  pl_captcha_token :: string
  pl_client_ip :: string

definition admitPasswordLogin :: "login_env \<Rightarrow> string \<Rightarrow> string \<Rightarrow> error + unit" where
  "admitPasswordLogin L normalized client_ip =
     (case le_admission L of
        None \<Rightarrow> Inr ()
      | Some allow \<Rightarrow>
          let ip = (if TrimSpace client_ip = '''' then ''unknown'' else TrimSpace client_ip)
          in if \<not> allow PolicyPasswordLoginIP (''ip:'' @ ip) then Inl ErrRateLimited
             else if \<not> allow PolicyPasswordLoginEmail (''email:'' @ le_sha L normalized)
             then Inl ErrRateLimited
             else Inr ())"

text \<open>
  The part on the rows.  The hash of the unknown cases is computed for its time only, and its result dropped.
\<close>

definition loginByPassword :: "identity_env \<Rightarrow> string \<Rightarrow> string \<Rightarrow> session sql" where
  "loginByPassword I normalized password =
     bind (find_user normalized) (\<lambda>found.
     case found of
       None \<Rightarrow> fail ErrInvalidCredentials
     | Some u \<Rightarrow>
         bind (attempt (PasswordHash (u_id u))) (\<lambda>r.
         case r of
           Inl e \<Rightarrow> fail (if e = ErrNotFound then ErrInvalidCredentials else e)
         | Inr hash \<Rightarrow>
             if \<not> verifyPassword (id_kdf I) hash password then fail ErrInvalidCredentials
             else lift (completeLogin I u)))"

definition LoginWithPasswordFromInput :: "login_env \<Rightarrow> password_login_input \<Rightarrow> session sql" where
  "LoginWithPasswordFromInput L input =
     (let I = le_id L
      in bind (lift (option_to_result ErrInvalidCredentials (NormalizeEmail (id_lib I) (pl_email input)))) (\<lambda>(_, normalized).
         bind (lift (identity_checkCaptcha I PasswordLoginAction (pl_captcha_token input))) (\<lambda>_.
         bind (lift (admitPasswordLogin L normalized (pl_client_ip input))) (\<lambda>_.
         if \<not> le_budget_free L then fail ErrRateLimited
         else loginByPassword I normalized (pl_password input)))))"

definition LoginWithPassword :: "login_env \<Rightarrow> string \<Rightarrow> string \<Rightarrow> string \<Rightarrow> session sql" where
  "LoginWithPassword L email password captcha_token =
     LoginWithPasswordFromInput L
       \<lparr>pl_email = email, pl_password = password, pl_captcha_token = captcha_token, pl_client_ip = ''''\<rparr>"

section \<open>Forgotten passwords (password_reset.go)\<close>

text \<open>A code that cannot be delivered is withdrawn; whether that works is not looked at.\<close>

definition withdraw_reset_code :: "login_env \<Rightarrow> string \<Rightarrow> unit desk_handler" where
  "withdraw_reset_code L normalized =
     bind (attempt (on_svc (DeleteEmailCode L passwordResetPurpose normalized))) (\<lambda>_. ret ())"

definition send_reset_code :: "login_env \<Rightarrow> (mail \<Rightarrow> error + unit) \<Rightarrow> string \<Rightarrow> unit desk_handler" where
  "send_reset_code L deliver normalized =
     bind (lift (generateCode emailCodeLength (le_random L))) (\<lambda>code.
     bind (on_svc (SetEmailCode L passwordResetPurpose normalized (le_sha L code) passwordResetCodeTTL)) (\<lambda>stored.
     case stored of
       Inl e \<Rightarrow> if e = Cache_ErrCapacity then ret () else fail ErrInfra
     | Inr _ \<Rightarrow>
         (case renderPasswordResetMessage (le_reset_template L) normalized code passwordResetCodeTTL of
            None \<Rightarrow> withdraw_reset_code L normalized
          | Some message \<Rightarrow>
              bind (send_mail deliver message) (\<lambda>sent.
              case sent of Inl _ \<Rightarrow> withdraw_reset_code L normalized | Inr _ \<Rightarrow> ret ()))))"

definition RequestPasswordReset :: "login_env \<Rightarrow> string \<Rightarrow> string \<Rightarrow> unit desk_handler" where
  "RequestPasswordReset L raw_email captcha_token =
     (let I = le_id L
      in bind (lift (option_to_result ErrValidation (NormalizeEmail (id_lib I) raw_email))) (\<lambda>(_, normalized).
         bind (lift (identity_checkCaptcha I PasswordResetAction captcha_token)) (\<lambda>_.
         bind (on_db (find_user normalized)) (\<lambda>found.
         case found of
           None \<Rightarrow> ret ()
         | Some _ \<Rightarrow>
             (case le_mailer L of
                None \<Rightarrow> ret ()
              | Some deliver \<Rightarrow> send_reset_code L deliver normalized)))))"

definition resetPassword :: "identity_env \<Rightarrow> string \<Rightarrow> string \<Rightarrow> int sql" where
  "resetPassword I normalized hash =
     atomically ErrInfra
       (bind (ResetPasswordByEmail normalized hash (micro (id_now I)) (micro (id_now I))) (\<lambda>(uid, _). ret uid))"

definition ResetPasswordWithCode :: "login_env \<Rightarrow> string \<Rightarrow> string \<Rightarrow> string \<Rightarrow> unit desk_handler" where
  "ResetPasswordWithCode L raw_email code new_password =
     (let I = le_id L
      in bind (lift (option_to_result ErrInvalidCredentials (NormalizeEmail (id_lib I) raw_email))) (\<lambda>(_, normalized).
         if length new_password < minPasswordLength then fail ErrValidation
         else bind (on_svc (AtomicVerifyEmailCode L passwordResetPurpose normalized (le_sha L code)
                 passwordResetMaxAttempts)) (\<lambda>consumed.
              if \<not> consumed then fail ErrInvalidCredentials
              else bind (lift (hashPassword (id_kdf I) (id_salt I) new_password)) (\<lambda>hash.
                   bind (on_db (resetPassword I normalized hash)) (\<lambda>uid.
                   on_svc (invalidateAuthz uid))))))"

end
