(* ===== verification/OAuth_Catalog.thy ===== *)
theory OAuth_Catalog
  imports Go_Std
begin

text \<open>
  The built-in sign-in providers (\<open>internal/platform/oauth/catalog.go\<close>): a constant table; a key that is not
  in it belongs to a custom OpenID Connect provider.
\<close>

datatype callback_mode = CallbackQuery | CallbackFormPost

record config_spec =
  cs_public_fields :: "string list"
  cs_secret_field :: string
  cs_instance_url_required :: bool
  cs_instance_url_default :: string
  cs_fixed_public :: "(string \<times> string) list"

record provider_spec =
  ps_key :: string
  ps_name :: string
  ps_kind :: string
  ps_pkce :: bool
  ps_nonce :: bool
  ps_callback :: callback_mode
  ps_config :: config_spec

definition Catalog :: "provider_spec list" where
  "Catalog =
     [
      \<lparr>ps_key = ''apple'', ps_name = ''Apple'', ps_kind = ''oidc'', ps_pkce = False, ps_nonce = True, ps_callback = CallbackFormPost,
       ps_config = \<lparr>cs_public_fields = [''client_id'', ''team_id'', ''key_id''],
         cs_secret_field = ''private_key'', cs_instance_url_required = False, cs_instance_url_default = '''',
         cs_fixed_public = []\<rparr>\<rparr>,
      \<lparr>ps_key = ''discord'', ps_name = ''Discord'', ps_kind = ''oauth'', ps_pkce = False, ps_nonce = False, ps_callback = CallbackQuery,
       ps_config = \<lparr>cs_public_fields = [''client_id''],
         cs_secret_field = ''client_secret'', cs_instance_url_required = False, cs_instance_url_default = '''',
         cs_fixed_public = []\<rparr>\<rparr>,
      \<lparr>ps_key = ''gitea'', ps_name = ''Gitea'', ps_kind = ''oidc'', ps_pkce = True, ps_nonce = True, ps_callback = CallbackQuery,
       ps_config = \<lparr>cs_public_fields = [''client_id'', ''instance_url''],
         cs_secret_field = ''client_secret'', cs_instance_url_required = True, cs_instance_url_default = '''',
         cs_fixed_public = []\<rparr>\<rparr>,
      \<lparr>ps_key = ''github'', ps_name = ''GitHub'', ps_kind = ''oauth'', ps_pkce = True, ps_nonce = False, ps_callback = CallbackQuery,
       ps_config = \<lparr>cs_public_fields = [''client_id'', ''auth_url'', ''token_url''],
         cs_secret_field = ''client_secret'', cs_instance_url_required = False, cs_instance_url_default = '''',
         cs_fixed_public = [(''auth_url'', ''https://github.com/login/oauth/authorize''),
           (''token_url'', ''https://github.com/login/oauth/access_token'')]\<rparr>\<rparr>,
      \<lparr>ps_key = ''gitlab'', ps_name = ''GitLab'', ps_kind = ''oidc'', ps_pkce = True, ps_nonce = True, ps_callback = CallbackQuery,
       ps_config = \<lparr>cs_public_fields = [''client_id'', ''instance_url''],
         cs_secret_field = ''client_secret'', cs_instance_url_required = False, cs_instance_url_default = ''https://gitlab.com'',
         cs_fixed_public = []\<rparr>\<rparr>,
      \<lparr>ps_key = ''google'', ps_name = ''Google'', ps_kind = ''oidc'', ps_pkce = True, ps_nonce = True, ps_callback = CallbackQuery,
       ps_config = \<lparr>cs_public_fields = [''client_id'', ''issuer_url''],
         cs_secret_field = ''client_secret'', cs_instance_url_required = False, cs_instance_url_default = '''',
         cs_fixed_public = [(''issuer_url'', ''https://accounts.google.com'')]\<rparr>\<rparr>,
      \<lparr>ps_key = ''line'', ps_name = ''LINE'', ps_kind = ''oidc'', ps_pkce = True, ps_nonce = True, ps_callback = CallbackQuery,
       ps_config = \<lparr>cs_public_fields = [''client_id''],
         cs_secret_field = ''client_secret'', cs_instance_url_required = False, cs_instance_url_default = '''',
         cs_fixed_public = []\<rparr>\<rparr>,
      \<lparr>ps_key = ''mastodon'', ps_name = ''Mastodon'', ps_kind = ''oauth'', ps_pkce = True, ps_nonce = False, ps_callback = CallbackQuery,
       ps_config = \<lparr>cs_public_fields = [''client_id'', ''instance_url''],
         cs_secret_field = ''client_secret'', cs_instance_url_required = True, cs_instance_url_default = '''',
         cs_fixed_public = []\<rparr>\<rparr>,
      \<lparr>ps_key = ''microsoft'', ps_name = ''Microsoft'', ps_kind = ''oidc'', ps_pkce = True, ps_nonce = True, ps_callback = CallbackQuery,
       ps_config = \<lparr>cs_public_fields = [''client_id''],
         cs_secret_field = ''client_secret'', cs_instance_url_required = False, cs_instance_url_default = '''',
         cs_fixed_public = []\<rparr>\<rparr>,
      \<lparr>ps_key = ''twitter'', ps_name = ''Twitter'', ps_kind = ''oauth'', ps_pkce = True, ps_nonce = False, ps_callback = CallbackQuery,
       ps_config = \<lparr>cs_public_fields = [''client_id''],
         cs_secret_field = ''client_secret'', cs_instance_url_required = False, cs_instance_url_default = '''',
         cs_fixed_public = []\<rparr>\<rparr>
     ]"

text \<open>\<open>AuthProvider\<close>, which is also what the factory is given.\<close>

record auth_provider =
  ap_key :: string
  ap_kind :: string
  ap_enabled :: bool
  ap_configured :: bool
  ap_client_id :: string
  ap_client_secret :: string
  ap_auth_url :: string
  ap_token_url :: string
  ap_issuer_url :: string
  ap_instance_url :: string
  ap_apple_team_id :: string
  ap_apple_key_id :: string
  ap_apple_private_key :: string

definition LookupProvider :: "string \<Rightarrow> provider_spec option" where
  "LookupProvider key = find (\<lambda>s. ps_key s = key) Catalog"

lemma Catalog_keys_distinct: "distinct (map ps_key Catalog)"
  by (simp add: Catalog_def)

end
