(* ===== verification/OAuth_Login.thy ===== *)
theory OAuth_Login
  imports Login OAuth_Catalog Urlx
begin

text \<open>
  Signing in through another provider (\<open>internal/service/identity/oauth.go\<close>): a one-time state starts a
  flow, the callback consumes it, and the identity the provider vouches for signs in the account it is
  bound to, is bound to the account that asked for it, or registers a new one.
\<close>

section \<open>Records\<close>

abbreviation "oauthStateTTL \<equiv> (600000000000 :: int)"
abbreviation "oauthHandoffTTL \<equiv> (120000000000 :: int)"
abbreviation "oauthPurposeLogin \<equiv> ''login''"
abbreviation "oauthPurposeRegister \<equiv> ''register''"
abbreviation "oauthPurposeBind \<equiv> ''bind''"

definition oauth_state_ns :: namespace where
  "oauth_state_ns = \<lparr>ns_name = ''oauth_state'', ns_prefix = ''oauth-state:'', ns_limit = 2000\<rparr>"

definition oauth_handoff_ns :: namespace where
  "oauth_handoff_ns = \<lparr>ns_name = ''oauth_handoff'', ns_prefix = ''oauth-handoff:'', ns_limit = 500\<rparr>"

record oauth_state =
  os_provider :: string
  os_purpose :: string
  os_verifier :: string
  os_nonce :: string
  os_user_id :: int
  os_redirect :: string
  os_redirect_uri :: string

record oauth_handoff =
  oh_provider :: string
  oh_state :: string
  oh_code :: string
  oh_error :: string

record oauth_identity =
  oi_subject :: string
  oi_verified_email :: string

record authorization_request =
  ar_state :: string
  ar_verifier :: string
  ar_nonce :: string
  ar_redirect_uri :: string

record exchange_request =
  xr_code :: string
  xr_verifier :: string
  xr_nonce :: string
  xr_redirect_uri :: string

datatype exchange_error = ResponseTooLarge | ExchangeFailed

text \<open>An adapter speaks with the provider over the network; its answers are arguments.\<close>

record oauth_adapter =
  ad_auth_url :: "authorization_request \<Rightarrow> string option"
  ad_exchange :: "exchange_request \<Rightarrow> exchange_error + oauth_identity option"

text \<open>
  What the handlers are given: the provider reader, the adapter factory (absent in some tests), the
  public base address with the path functions of \<open>net/url\<close>, the random tokens, the JSON codecs
  of the two records and of strings, and the cache's instants.
\<close>

record oauth_env =
  oe_id :: identity_env
  oe_providers :: "error + auth_provider list"
  oe_provider :: "string \<Rightarrow> error + auth_provider"
  oe_factory :: "(auth_provider \<Rightarrow> oauth_adapter option) option"
  oe_base_url :: string
  oe_urls :: url_builder
  oe_state_token :: "error + string"
  oe_verifier :: "error + string"
  oe_nonce :: "error + string"
  oe_handoff_token :: "error + string"
  oe_state_json :: "oauth_state \<Rightarrow> string option"
  oe_json_state :: "string \<Rightarrow> oauth_state option"
  oe_handoff_json :: "oauth_handoff \<Rightarrow> string option"
  oe_json_handoff :: "string \<Rightarrow> oauth_handoff option"
  oe_string_json :: "string \<Rightarrow> string option"
  oe_json_string :: "string \<Rightarrow> string option"
  oe_ctx :: "cache_error option"
  oe_cache_now :: int

section \<open>Providers\<close>

record provider_meta =
  pm_key :: string
  pm_kind :: string
  pm_name :: string

definition providerDisplayName :: "auth_provider \<Rightarrow> string" where
  "providerDisplayName p = (case LookupProvider (ap_key p) of Some s \<Rightarrow> ps_name s | None \<Rightarrow> ap_key p)"

definition OAuthProviders :: "oauth_env \<Rightarrow> error + provider_meta list" where
  "OAuthProviders W =
     bindE (oe_providers W) (\<lambda>ps.
     Inr (map (\<lambda>p. \<lparr>pm_key = ap_key p, pm_kind = ap_kind p, pm_name = providerDisplayName p\<rparr>) ps))"

datatype registration_mode = registrationVerifiedEmail | registrationBindOnly

definition providerRegistrationMode :: "string \<Rightarrow> registration_mode" where
  "providerRegistrationMode key =
     (if key \<in> {''line'', ''mastodon'', ''microsoft''} then registrationBindOnly else registrationVerifiedEmail)"

definition buildProvider :: "oauth_env \<Rightarrow> auth_provider \<Rightarrow> error + oauth_adapter" where
  "buildProvider W p =
     (case oe_factory W of
        None \<Rightarrow> Inl ErrUnavailable
      | Some build \<Rightarrow> option_to_result ErrInfra (build p))"

definition oauthRedirectURI :: "oauth_env \<Rightarrow> string \<Rightarrow> string" where
  "oauthRedirectURI W key =
     (case ParseHTTPBase (id_lib (oe_id W)) (oe_base_url W) of
        None \<Rightarrow> ''''
      | Some base \<Rightarrow> lib_string (id_lib (oe_id W)) (JoinPathSegments (oe_urls W) base [''oauth'', ''callback'', key]))"

definition sanitizeRedirect :: "library \<Rightarrow> string \<Rightarrow> string" where
  "sanitizeRedirect L raw =
     (let r = TrimSpace raw
      in if r = '''' then ''/'' else if ParseLocalReference L r = None then ''/'' else r)"

section \<open>Starting\<close>

text \<open>Whether the flow has a PKCE verifier and a nonce; a custom provider has both.\<close>

definition flow_features :: "string \<Rightarrow> bool \<times> bool" where
  "flow_features key = (case LookupProvider key of Some s \<Rightarrow> (ps_pkce s, ps_nonce s) | None \<Rightarrow> (True, True))"

definition new_state :: "oauth_env \<Rightarrow> auth_provider \<Rightarrow> string \<Rightarrow> int \<Rightarrow> string \<Rightarrow> error + oauth_state" where
  "new_state W p purpose uid redirect =
     (let (pkce, nonce) = flow_features (ap_key p)
      in bindE (if pkce then oe_verifier W else Inr '''') (\<lambda>v.
         bindE (if nonce then oe_nonce W else Inr '''') (\<lambda>n.
         Inr \<lparr>os_provider = ap_key p, os_purpose = purpose, os_verifier = v, os_nonce = n, os_user_id = uid,
              os_redirect = sanitizeRedirect (id_lib (oe_id W)) redirect,
              os_redirect_uri = oauthRedirectURI W (ap_key p)\<rparr>)))"

definition store_json :: "oauth_env \<Rightarrow> namespace \<Rightarrow> string option \<Rightarrow> string \<Rightarrow> int \<Rightarrow> unit svc" where
  "store_json W N record_json key ttl =
     bind (lift (option_to_result ErrInfra record_json)) (\<lambda>raw.
     bind (on_cache (Namespace_Set N (oe_string_json W raw) (oe_cache_now W) key ttl)) (\<lambda>r.
     case r of Inl e \<Rightarrow> fail (mapEphemeralError e) | Inr _ \<Rightarrow> ret ()))"

definition BeginOAuth :: "oauth_env \<Rightarrow> string \<Rightarrow> string \<Rightarrow> int \<Rightarrow> string \<Rightarrow> string svc" where
  "BeginOAuth W key purpose uid redirect =
     (if purpose \<notin> {oauthPurposeLogin, oauthPurposeRegister, oauthPurposeBind} then fail ErrValidation
      else if purpose = oauthPurposeRegister \<and> providerRegistrationMode key = registrationBindOnly
      then fail ErrInvalidCredentials
      else if purpose = oauthPurposeBind \<and> uid \<le> 0 then fail ErrInvalidCredentials
      else
        bind (lift (oe_provider W key)) (\<lambda>config.
        bind (lift (case buildProvider W config of Inl _ \<Rightarrow> Inl ErrUnavailable | Inr a \<Rightarrow> Inr a)) (\<lambda>adapter.
        bind (lift (oe_state_token W)) (\<lambda>token.
        bind (lift (new_state W config purpose uid redirect)) (\<lambda>record.
        bind (store_json W oauth_state_ns (oe_state_json W record) token oauthStateTTL) (\<lambda>_.
        lift (option_to_result ErrUnavailable
          (ad_auth_url adapter \<lparr>ar_state = token, ar_verifier = os_verifier record, ar_nonce = os_nonce record,
             ar_redirect_uri = os_redirect_uri record\<rparr>))))))))"

section \<open>Who the identity is\<close>

definition completeOAuthLogin :: "identity_env \<Rightarrow> external_identity \<Rightarrow> session sql" where
  "completeOAuthLogin I bound =
     bind (attempt (FindByID (ei_user_id bound))) (\<lambda>r.
     case r of
       Inl e \<Rightarrow> fail (if e = ErrNotFound then ErrInvalidCredentials else e)
     | Inr u \<Rightarrow>
         bind (TouchLastLogin (ei_id bound) (id_now I)) (\<lambda>_.
         lift (completeLogin I u)))"

definition new_binding :: "int \<Rightarrow> auth_provider \<Rightarrow> oauth_identity \<Rightarrow> external_identity" where
  "new_binding uid p who =
     \<lparr>ei_id = 0, ei_user_id = uid, ei_provider_key = ap_key p, ei_provider_subject = oi_subject who,
      ei_verified_email = oi_verified_email who, ei_created_at = 0, ei_last_login_at = None\<rparr>"

definition bindOAuthIdentity :: "identity_env \<Rightarrow> auth_provider \<Rightarrow> oauth_identity \<Rightarrow> user \<Rightarrow> session sql" where
  "bindOAuthIdentity I p who u =
     bind (attempt (atomically ErrInfra (Identity_Create (new_binding (u_id u) p who)))) (\<lambda>r.
     case r of
       Inl e \<Rightarrow> fail (if e = ErrConflict then ErrInvalidCredentials else e)
     | Inr _ \<Rightarrow> lift (completeLogin I u))"

definition registerOAuthUser :: "identity_env \<Rightarrow> auth_provider \<Rightarrow> oauth_identity \<Rightarrow> string \<Rightarrow> session sql" where
  "registerOAuthUser I p who normalized =
     bind (lift (id_policy I)) (\<lambda>(public, _).
     if \<not> public then fail ErrInvalidCredentials
     else bind (lift (checkEmailDomainAllowed (id_lib I) (email_lists I) normalized)) (\<lambda>_.
          bind (attempt (atomically ErrInfra (
                  bind (User_Create ((account_of normalized normalized (defaultNickname normalized) RoleUser)
                          \<lparr>u_email_verified_at := Some (id_now I)\<rparr>)) (\<lambda>u.
                  bind (Identity_Create (new_binding (u_id u) p who)) (\<lambda>_.
                  ret (u_id u)))))) (\<lambda>r.
          case r of
            Inl _ \<Rightarrow> fail ErrInvalidCredentials
          | Inr uid \<Rightarrow> bind (FindByID uid) (\<lambda>u. lift (completeLogin I u)))))"

definition resolveOAuthIdentity ::
  "identity_env \<Rightarrow> auth_provider \<Rightarrow> oauth_identity option \<Rightarrow> oauth_state \<Rightarrow> session sql" where
  "resolveOAuthIdentity I p identity record =
     (case identity of
        None \<Rightarrow> fail ErrInvalidCredentials
      | Some who \<Rightarrow>
          if oi_subject who = '''' then fail ErrInvalidCredentials
          else
            bind (attempt (GetByProviderSubject (ap_key p) (oi_subject who))) (\<lambda>found.
            case found of
              Inr bound \<Rightarrow>
                if os_purpose record = oauthPurposeBind \<and> os_user_id record \<noteq> ei_user_id bound
                then fail ErrInvalidCredentials
                else completeOAuthLogin I bound
            | Inl e \<Rightarrow>
                if e \<noteq> ErrNotFound then fail e
                else if os_purpose record = oauthPurposeBind
                then bind (FindByID (os_user_id record)) (bindOAuthIdentity I p who)
                else if providerRegistrationMode (ap_key p) = registrationBindOnly
                then fail ErrInvalidCredentials
                else
                  (case NormalizeEmail (id_lib I) (oi_verified_email who) of
                     None \<Rightarrow> fail ErrInvalidCredentials
                   | Some (_, normalized) \<Rightarrow>
                       if normalized = '''' then fail ErrInvalidCredentials
                       else
                         bind (find_user normalized) (\<lambda>known.
                         case known of
                           None \<Rightarrow> registerOAuthUser I p who normalized
                         | Some u \<Rightarrow>
                             if os_purpose record \<noteq> oauthPurposeBind \<or> os_user_id record \<noteq> u_id u
                             then fail ErrInvalidCredentials
                             else bindOAuthIdentity I p who u))))"

section \<open>The callback\<close>

text \<open>The answer is a result together with the address to return to, which an error may have too.\<close>

definition consume_state :: "oauth_env \<Rightarrow> string \<Rightarrow> string \<Rightarrow> oauth_state option svc" where
  "consume_state W key state =
     bind (attempt (on_cache (Namespace_AtomicConsume (oe_json_string W) oauth_state_ns (oe_cache_now W) state))) (\<lambda>r.
     ret (case r of
            Inr (Inr raw) \<Rightarrow>
              (case oe_json_state W raw of
                 None \<Rightarrow> None
               | Some record \<Rightarrow> if os_provider record \<noteq> key then None else Some record)
          | _ \<Rightarrow> None))"

definition FinishOAuth :: "oauth_env \<Rightarrow> string \<Rightarrow> string \<Rightarrow> string \<Rightarrow> ((error + session) \<times> string) svc" where
  "FinishOAuth W key state code =
     (if oe_factory W = None then ret (Inl ErrOAuthVerificationFailed, '''')
      else
        bind (consume_state W key state) (\<lambda>consumed.
        case consumed of
          None \<Rightarrow> ret (Inl ErrOAuthCallbackInvalid, '''')
        | Some record \<Rightarrow>
            (case bindE (oe_provider W key) (\<lambda>config. bindE (buildProvider W config) (\<lambda>a. Inr (config, a))) of
               Inl _ \<Rightarrow> ret (Inl ErrOAuthVerificationFailed, os_redirect record)
             | Inr (config, adapter) \<Rightarrow>
                 (case ad_exchange adapter \<lparr>xr_code = code, xr_verifier = os_verifier record,
                         xr_nonce = os_nonce record, xr_redirect_uri = os_redirect_uri record\<rparr> of
                    Inl e \<Rightarrow> ret (Inl (if e = ResponseTooLarge then ErrUnavailable
                                  else ErrOAuthVerificationFailed), os_redirect record)
                  | Inr identity \<Rightarrow>
                      bind (attempt (on_db (resolveOAuthIdentity (oe_id W) config identity record))) (\<lambda>s.
                      ret (s, os_redirect record))))))"

definition OAuthAccessDenied :: "oauth_env \<Rightarrow> string \<Rightarrow> string \<Rightarrow> (string \<times> error) svc" where
  "OAuthAccessDenied W key state =
     bind (consume_state W key state) (\<lambda>consumed.
     ret (case consumed of
            None \<Rightarrow> ('''', ErrOAuthCallbackInvalid)
          | Some record \<Rightarrow> (os_redirect record, ErrOAuthAccessDenied)))"

section \<open>Apple's form post\<close>

text \<open>The stored state is read as it is: a JSON string holding the record, or the record itself.\<close>

definition stored_state :: "oauth_env \<Rightarrow> string \<Rightarrow> oauth_state option" where
  "stored_state W raw =
     Option.bind (if raw \<noteq> '''' \<and> hd raw = CHR 0x22 then oe_json_string W raw else Some raw) (oe_json_state W)"

definition CreateOAuthHandoff :: "oauth_env \<Rightarrow> string \<Rightarrow> string \<Rightarrow> string \<Rightarrow> string \<Rightarrow> string svc" where
  "CreateOAuthHandoff W key state code message =
     (if state = '''' then fail ErrValidation
      else if key \<noteq> ''apple'' then fail ErrOAuthCallbackInvalid
      else
        bind (attempt (on_cache (Namespace_Get Some oauth_state_ns (oe_ctx W) (oe_cache_now W) state))) (\<lambda>r.
        case r of
          Inr (Inr raw) \<Rightarrow>
            (case stored_state W raw of
               None \<Rightarrow> fail ErrOAuthCallbackInvalid
             | Some record \<Rightarrow>
                 if os_provider record \<noteq> ''apple'' then fail ErrOAuthCallbackInvalid
                 else
                   bind (lift (oe_handoff_token W)) (\<lambda>token.
                   bind (store_json W oauth_handoff_ns
                           (oe_handoff_json W \<lparr>oh_provider = key, oh_state = state, oh_code = code,
                              oh_error = message\<rparr>) token oauthHandoffTTL) (\<lambda>_.
                   ret token)))
        | _ \<Rightarrow> fail ErrOAuthCallbackInvalid))"

definition ConsumeOAuthHandoff :: "oauth_env \<Rightarrow> string \<Rightarrow> oauth_handoff svc" where
  "ConsumeOAuthHandoff W handoff =
     bind (attempt (on_cache (Namespace_AtomicConsume (oe_json_string W) oauth_handoff_ns (oe_cache_now W) handoff))) (\<lambda>r.
     case r of
       Inr (Inr raw) \<Rightarrow> lift (option_to_result ErrOAuthCallbackInvalid (oe_json_handoff W raw))
     | _ \<Rightarrow> fail ErrOAuthCallbackInvalid)"

end
