(* ===== verification/Passkey_Login.thy ===== *)
theory Passkey_Login
  imports Login
begin

text \<open>
  Passkeys (\<open>internal/service/identity/passkey.go\<close>, \<open>internal/platform/passkey/passkey.go\<close>): a challenge kept in
  the cache is answered once, by registering a credential or by signing in with one.
\<close>

section \<open>base64.StdEncoding\<close>

text \<open>The padded alphabet, in which \<open>encoding/json\<close> writes bytes.\<close>

definition pad_char :: char where "pad_char = CHR ''=''"

definition std64_padded_encode :: "string \<Rightarrow> string" where
  "std64_padded_encode s =
     (let t = std64_encode s in t @ replicate ((4 - length t mod 4) mod 4) pad_char)"

definition std64_padded_decode :: "string \<Rightarrow> string option" where
  "std64_padded_decode s =
     (let t = filter (\<lambda>c. c \<noteq> CHR 0x0A \<and> c \<noteq> CHR 0x0D) s;
          padding = length (takeWhile (\<lambda>c. c = pad_char) (rev t))
      in if length t mod 4 \<noteq> 0 \<or> 2 < padding then None
         else std64_decode (take (length t - padding) t))"

section \<open>The adapter (platform/passkey)\<close>

record webauthn_credential =
  cr_id :: string
  cr_public_key :: string
  cr_attestation_type :: string
  cr_transports :: "string list"
  cr_sign_count :: int
  cr_backup_eligible :: bool
  cr_backup_state :: bool

record passkey_user =
  pu_id :: string
  pu_name :: string
  pu_display_name :: string
  pu_credentials :: "webauthn_credential list"

text \<open>
  The WebAuthn library: a ceremony's options and session, the credential of a registration, and of an
  assertion first the identifiers in it, for which the library asks for the user, then its
  check, which yields the credential and the signature counter.
\<close>

record webauthn =
  wa_begin_registration :: "passkey_user \<Rightarrow> (string \<times> string) option"
  wa_finish_registration :: "passkey_user \<Rightarrow> string \<Rightarrow> string \<Rightarrow> webauthn_credential option"
  wa_begin_login :: "(string \<times> string) option"
  wa_assertion :: "string \<Rightarrow> string \<Rightarrow> (string \<times> string) option"
  wa_validate :: "passkey_user \<Rightarrow> string \<Rightarrow> string \<Rightarrow> (webauthn_credential \<times> int) option"

text \<open>
  What the handlers are given: the adapter, the JSON codecs (the challenge of a session, strings, lists of
  strings) and the cache's instant.
\<close>

record passkey_env =
  pe_id :: identity_env
  pe_adapter :: "webauthn option"
  pe_challenge :: "string \<Rightarrow> string option"
  pe_string_json :: "string \<Rightarrow> string option"
  pe_json_string :: "string \<Rightarrow> string option"
  pe_list_json :: "string list \<Rightarrow> string option"
  pe_json_list :: "string \<Rightarrow> string list option"
  pe_cache_now :: int

definition passkey_ns :: namespace where
  "passkey_ns = \<lparr>ns_name = ''passkey'', ns_prefix = ''webauthn:'', ns_limit = 2000\<rparr>"

abbreviation "passkeyChallengeTTL \<equiv> (300000000000 :: int)"

section \<open>Users for the adapter\<close>

definition userHandle :: "int \<Rightarrow> string" where
  "userHandle uid = FormatInt uid"

definition encodeCredentialID :: "string \<Rightarrow> string" where
  "encodeCredentialID raw = b64_encode raw"

definition decodeCredentialID :: "string \<Rightarrow> string option" where
  "decodeCredentialID encoded = b64_decode encoded"

definition credential_of :: "passkey_env \<Rightarrow> passkey_credential \<Rightarrow> webauthn_credential option" where
  "credential_of P row =
     map_option (\<lambda>i. \<lparr>cr_id = i, cr_public_key = pk_public_key row,
         cr_attestation_type = pk_attestation_type row,
         cr_transports = (case pe_json_list P (pk_transports row) of None \<Rightarrow> [] | Some ts \<Rightarrow> ts),
         cr_sign_count = pk_sign_count row, cr_backup_eligible = pk_backup_eligible row,
         cr_backup_state = pk_backup_state row\<rparr>)
       (decodeCredentialID (pk_credential_id row))"

definition toPasskeyUser :: "passkey_env \<Rightarrow> user \<Rightarrow> passkey_credential list \<Rightarrow> passkey_user" where
  "toPasskeyUser P u rows =
     \<lparr>pu_id = userHandle (u_id u), pu_name = u_nickname u, pu_display_name = u_nickname u,
      pu_credentials = List.map_filter (credential_of P) rows\<rparr>"

definition passkeyUser :: "passkey_env \<Rightarrow> int \<Rightarrow> passkey_user sql" where
  "passkeyUser P uid =
     bind (FindByID uid) (\<lambda>u.
     bind (Passkey_ListByUserID uid) (\<lambda>rows.
     ret (toPasskeyUser P u rows)))"

definition lookupPasskeyUser :: "passkey_env \<Rightarrow> string \<Rightarrow> string \<Rightarrow> passkey_user sql" where
  "lookupPasskeyUser P raw_id handle =
     bind (attempt (bind (GetByCredentialID (encodeCredentialID raw_id)) (\<lambda>row.
             bind (FindByID (pk_user_id row)) (\<lambda>u. ret (row, u))))) (\<lambda>r.
     case r of
       Inl _ \<Rightarrow> fail ErrInvalidCredentials
     | Inr (row, u) \<Rightarrow>
         bind (Passkey_ListByUserID (pk_user_id row)) (\<lambda>rows.
         ret (toPasskeyUser P u rows)))"

section \<open>Challenges\<close>

definition storePasskeySession :: "passkey_env \<Rightarrow> string \<Rightarrow> string svc" where
  "storePasskeySession P s =
     (case pe_challenge P s of
        None \<Rightarrow> fail ErrInvalidCredentials
      | Some challenge \<Rightarrow>
          if challenge = '''' then fail ErrInvalidCredentials
          else
            bind (on_cache (Namespace_Set passkey_ns (pe_string_json P (std64_padded_encode s))
                    (pe_cache_now P) challenge passkeyChallengeTTL)) (\<lambda>r.
            case r of Inl e \<Rightarrow> fail (mapEphemeralError e) | Inr _ \<Rightarrow> ret challenge))"

definition consumePasskeySession :: "passkey_env \<Rightarrow> string \<Rightarrow> string svc" where
  "consumePasskeySession P challenge =
     (if challenge = '''' then fail ErrInvalidCredentials
      else
        bind (attempt (on_cache (Namespace_AtomicConsume (pe_json_string P) passkey_ns (pe_cache_now P) challenge))) (\<lambda>r.
        case r of
          Inr (Inr raw) \<Rightarrow> lift (option_to_result ErrInvalidCredentials (std64_padded_decode raw))
        | _ \<Rightarrow> fail ErrInvalidCredentials))"

section \<open>Registering a passkey\<close>

definition BeginPasskeyRegistration :: "passkey_env \<Rightarrow> int \<Rightarrow> (string \<times> string) svc" where
  "BeginPasskeyRegistration P uid =
     (case pe_adapter P of
        None \<Rightarrow> fail ErrInvalidCredentials
      | Some wa \<Rightarrow>
          bind (on_db (passkeyUser P uid)) (\<lambda>u.
          bind (lift (option_to_result ErrInvalidCredentials (wa_begin_registration wa u))) (\<lambda>(options, s).
          bind (storePasskeySession P s) (\<lambda>challenge.
          ret (challenge, options)))))"

definition passkey_row :: "int \<Rightarrow> webauthn_credential \<Rightarrow> string \<Rightarrow> passkey_credential" where
  "passkey_row uid c transports =
     \<lparr>pk_id = 0, pk_user_id = uid, pk_credential_id = encodeCredentialID (cr_id c),
      pk_public_key = cr_public_key c, pk_attestation_type = cr_attestation_type c,
      pk_transports = transports, pk_sign_count = cr_sign_count c,
      pk_backup_eligible = cr_backup_eligible c, pk_backup_state = cr_backup_state c,
      pk_name = ''Passkey'', pk_created_at = 0, pk_last_used_at = None\<rparr>"

definition addPasskey :: "int \<Rightarrow> webauthn_credential \<Rightarrow> string \<Rightarrow> unit sql" where
  "addPasskey uid c transports =
     bind (attempt (Passkey_Create (passkey_row uid c transports))) (\<lambda>r.
     case r of
       Inl e \<Rightarrow> fail (if e = ErrConflict then ErrInvalidCredentials else e)
     | Inr _ \<Rightarrow> ret ())"

definition FinishPasskeyRegistration :: "passkey_env \<Rightarrow> int \<Rightarrow> string \<Rightarrow> string \<Rightarrow> unit svc" where
  "FinishPasskeyRegistration P uid challenge response =
     (case pe_adapter P of
        None \<Rightarrow> fail ErrInvalidCredentials
      | Some wa \<Rightarrow>
          bind (attempt (bind (consumePasskeySession P challenge) (\<lambda>s.
                  bind (on_db (passkeyUser P uid)) (\<lambda>u. ret (s, u))))) (\<lambda>r.
          case r of
            Inl _ \<Rightarrow> fail ErrInvalidCredentials
          | Inr (s, u) \<Rightarrow>
              bind (lift (option_to_result ErrInvalidCredentials (wa_finish_registration wa u s response))) (\<lambda>c.
              bind (lift (option_to_result ErrInvalidCredentials (pe_list_json P (cr_transports c)))) (\<lambda>transports.
              on_db (addPasskey uid c transports)))))"

section \<open>Signing in\<close>

definition BeginPasskeyLogin :: "passkey_env \<Rightarrow> (string \<times> string) svc" where
  "BeginPasskeyLogin P =
     (case pe_adapter P of
        None \<Rightarrow> fail ErrInvalidCredentials
      | Some wa \<Rightarrow>
          bind (lift (option_to_result ErrInvalidCredentials (wa_begin_login wa))) (\<lambda>(options, s).
          bind (storePasskeySession P s) (\<lambda>challenge.
          ret (challenge, options))))"

text \<open>\<open>Adapter.FinishLogin\<close>: parse, look the user up, validate.\<close>

definition FinishLogin :: "passkey_env \<Rightarrow> webauthn \<Rightarrow> string \<Rightarrow> string \<Rightarrow> (webauthn_credential \<times> int) sql" where
  "FinishLogin P wa s response =
     bind (lift (option_to_result ErrInvalidCredentials (wa_assertion wa s response))) (\<lambda>(raw_id, handle).
     bind (lookupPasskeyUser P raw_id handle) (\<lambda>u.
     lift (option_to_result ErrInvalidCredentials (wa_validate wa u s response))))"

text \<open>A counter that runs backwards means a copied key.\<close>

definition loginByPasskey :: "passkey_env \<Rightarrow> webauthn \<Rightarrow> string \<Rightarrow> string \<Rightarrow> session sql" where
  "loginByPasskey P wa s response =
     (let I = pe_id P
      in bind (attempt (bind (FinishLogin P wa s response) (\<lambda>(c, counter).
                 bind (GetByCredentialID (encodeCredentialID (cr_id c))) (\<lambda>stored.
                 ret (c, counter, stored))))) (\<lambda>r.
         case r of
           Inl _ \<Rightarrow> fail ErrInvalidCredentials
         | Inr (c, counter, stored) \<Rightarrow>
             if 0 < pk_sign_count stored \<and> counter < pk_sign_count stored then fail ErrInvalidCredentials
             else
               bind (UpdateLoginState (pk_id stored) counter (cr_backup_state c) (id_now I)) (\<lambda>_.
               bind (attempt (FindByID (pk_user_id stored))) (\<lambda>found.
               case found of
                 Inl e \<Rightarrow> fail (if e = ErrNotFound then ErrInvalidCredentials else e)
               | Inr u \<Rightarrow> lift (completeLogin I u)))))"

definition VerifyPasskeyLogin :: "passkey_env \<Rightarrow> string \<Rightarrow> string \<Rightarrow> session svc" where
  "VerifyPasskeyLogin P challenge response =
     (case pe_adapter P of
        None \<Rightarrow> fail ErrInvalidCredentials
      | Some wa \<Rightarrow>
          bind (attempt (consumePasskeySession P challenge)) (\<lambda>r.
          case r of
            Inl _ \<Rightarrow> fail ErrInvalidCredentials
          | Inr s \<Rightarrow> on_db (loginByPasskey P wa s response)))"

section \<open>A stored challenge comes back\<close>

lemma std64_value_pad: "std64_value pad_char = None"
  by (simp add: std64_value_def b64_value_def pad_char_def)

lemma std64_char_plain: "n < 64 \<Longrightarrow> std64_char n \<noteq> pad_char \<and> std64_char n \<noteq> CHR 0x0A \<and> std64_char n \<noteq> CHR 0x0D"
  using std64.no_break [of n] std64_value_char [of n] std64_value_pad by auto

lemma encode_nats_length: "length (b64_encode_nats ns) mod 4 \<noteq> 1"
proof (induction ns rule: b64_encode_nats.induct)
  case (4 a b c ns)
  have "length (b64_encode_nats (a # b # c # ns)) = length (b64_encode_nats ns) + 4" by simp
  then show ?case using 4 by (metis mod_add_self2)
qed simp_all

lemma std64_encode_length: "length (std64_encode s) mod 4 \<noteq> 1"
  using encode_nats_length by (simp add: std64_encode_def radix64_encode_def)

lemma pad_count: "(n :: nat) mod 4 \<noteq> 1 \<Longrightarrow> (n + (4 - n mod 4) mod 4) mod 4 = 0 \<and> (4 - n mod 4) mod 4 \<le> 2"
proof -
  assume "n mod 4 \<noteq> 1"
  moreover have "n mod 4 < 4" by simp
  ultimately consider "n mod 4 = 0" | "n mod 4 = 2" | "n mod 4 = 3" by linarith
  then show ?thesis by cases (simp_all add: mod_Suc)
qed

lemma takeWhile_replicate_append:
  "\<forall>c \<in> set t. c \<noteq> x \<Longrightarrow> takeWhile (\<lambda>c. c = x) (replicate n x @ t) = replicate n x"
  by (induction n) (auto simp: takeWhile_eq_Nil_iff)

lemma std64_padded_roundtrip: "std64_padded_decode (std64_padded_encode s) = Some s"
proof -
  define t where "t = std64_encode s"
  define n where "n = (4 - length t mod 4) mod 4"
  have plain: "c \<noteq> pad_char \<and> c \<noteq> CHR 0x0A \<and> c \<noteq> CHR 0x0D" if "c \<in> set t" for c
    using std64_encode_bytes [of c s] that std64_char_plain by (auto simp: t_def)
  have flt: "filter (\<lambda>c. c \<noteq> CHR 0x0A \<and> c \<noteq> CHR 0x0D) (t @ replicate n pad_char) = t @ replicate n pad_char"
    using plain by (simp add: filter_id_conv pad_char_def)
  have padding: "takeWhile (\<lambda>c. c = pad_char) (rev (t @ replicate n pad_char)) = replicate n pad_char"
    using takeWhile_replicate_append [of "rev t" pad_char n] plain by simp
  have "length (t @ replicate n pad_char) mod 4 = 0 \<and> n \<le> 2"
    using pad_count std64_encode_length [of s] by (simp add: n_def t_def)
  then show ?thesis
    using std64_roundtrip [of s]
    unfolding std64_padded_decode_def std64_padded_encode_def t_def [symmetric] n_def [symmetric] Let_def flt padding
    by simp
qed

end
