(* ===== verification/User_Batch.thy ===== *)
theory User_Batch
  imports User_Admin
begin

text \<open>
  The batch command over accounts (\<open>internal/service/identity/batch.go\<close>): the targets are locked and
  read once, the plan is made in memory in the order of the ids, and one statement per action writes
  it.  The actions that may remove administrators count down from the number of active ones.
\<close>

section \<open>Input\<close>

datatype user_batch_action =
    AdminUserBatchEnable | AdminUserBatchDisable | AdminUserBatchVerifyEmail
  | AdminUserBatchUnverifyEmail | AdminUserBatchSoftDelete | AdminUserBatchHardDelete
  | AdminUserBatchRestore

fun user_batch_action_string :: "user_batch_action \<Rightarrow> string" where
  "user_batch_action_string AdminUserBatchEnable = ''enable''"
| "user_batch_action_string AdminUserBatchDisable = ''disable''"
| "user_batch_action_string AdminUserBatchVerifyEmail = ''verify_email''"
| "user_batch_action_string AdminUserBatchUnverifyEmail = ''unverify_email''"
| "user_batch_action_string AdminUserBatchSoftDelete = ''soft_delete''"
| "user_batch_action_string AdminUserBatchHardDelete = ''hard_delete''"
| "user_batch_action_string AdminUserBatchRestore = ''restore''"

definition user_batch_actions :: "user_batch_action list" where
  "user_batch_actions = [AdminUserBatchEnable, AdminUserBatchDisable, AdminUserBatchVerifyEmail,
     AdminUserBatchUnverifyEmail, AdminUserBatchSoftDelete, AdminUserBatchHardDelete, AdminUserBatchRestore]"

definition user_batch_action_of :: "string \<Rightarrow> user_batch_action option" where
  "user_batch_action_of s = find (\<lambda>a. user_batch_action_string a = s) user_batch_actions"

definition ValidAdminUserBatchAction :: "string \<Rightarrow> bool" where
  "ValidAdminUserBatchAction s \<longleftrightarrow> s \<in> set (map user_batch_action_string user_batch_actions)"

abbreviation "maxUserBatchLimit \<equiv> (100 :: nat)"

record user_batch_input =
  ub_acting_id :: int
  ub_ids :: "int list"
  ub_action :: string
  ub_confirm :: bool

section \<open>Planning\<close>

text \<open>The guard counts down: it gives back the number of active administrators that are left.\<close>

definition planAdminAdminRemoval :: "user \<Rightarrow> user_status \<Rightarrow> nat \<Rightarrow> error + nat" where
  "planAdminAdminRemoval u next_status count =
     (if u_role u \<noteq> RoleAdmin \<or> u_status u \<noteq> UserStatusActive \<or> next_status = UserStatusActive
      then Inr count
      else if count \<le> 1 then Inl ErrLastAdmin
      else Inr (count - 1))"

text \<open>The answer: whether the row changes, whether its authorisation does, and the count left.\<close>

definition planAdminUserBatchAction ::
  "int \<Rightarrow> user \<Rightarrow> user_batch_action \<Rightarrow> nat \<Rightarrow> error + bool \<times> bool \<times> nat" where
  "planAdminUserBatchAction acting u action count =
     (if action \<in> {AdminUserBatchEnable, AdminUserBatchDisable, AdminUserBatchVerifyEmail,
           AdminUserBatchUnverifyEmail} \<and> u_status u = UserStatusDeleted
      then Inl ErrConflict
      else
        (case action of
           AdminUserBatchEnable \<Rightarrow>
             Inr (u_status u \<noteq> UserStatusActive, u_status u \<noteq> UserStatusActive, count)
         | AdminUserBatchDisable \<Rightarrow>
             if u_status u = UserStatusDisabled then Inr (False, False, count)
             else bindE (planAdminAdminRemoval u UserStatusDisabled count) (\<lambda>n. Inr (True, True, n))
         | AdminUserBatchVerifyEmail \<Rightarrow> Inr (u_email_verified_at u = None, False, count)
         | AdminUserBatchUnverifyEmail \<Rightarrow> Inr (u_email_verified_at u \<noteq> None, False, count)
         | AdminUserBatchSoftDelete \<Rightarrow>
             if acting = u_id u then Inl ErrForbidden
             else if u_status u = UserStatusDeleted then Inr (False, False, count)
             else bindE (planAdminAdminRemoval u UserStatusDeleted count) (\<lambda>n. Inr (True, True, n))
         | AdminUserBatchHardDelete \<Rightarrow>
             if acting = u_id u then Inl ErrForbidden
             else bindE (planAdminAdminRemoval u UserStatusDeleted count) (\<lambda>n. Inr (True, True, n))
         | AdminUserBatchRestore \<Rightarrow>
             Inr (u_status u = UserStatusDeleted, u_status u = UserStatusDeleted, count)))"

record user_plan =
  up_changed :: "int list"
  up_authz :: "int list"
  up_unchanged :: nat

text \<open>The loop over the sorted ids.\<close>

fun planUsers :: "int \<Rightarrow> user_batch_action \<Rightarrow> user list \<Rightarrow> int list \<Rightarrow> nat \<Rightarrow> error + user_plan" where
  "planUsers acting action rows [] count = Inr \<lparr>up_changed = [], up_authz = [], up_unchanged = 0\<rparr>"
| "planUsers acting action rows (i # is) count =
     (case select_first (\<lambda>u. u_id u = i) rows of
        None \<Rightarrow> Inl (ErrResource i ErrNotFound)
      | Some u \<Rightarrow>
          (case planAdminUserBatchAction acting u action count of
             Inl e \<Rightarrow> Inl (ErrResource i e)
           | Inr (changed, authz, left) \<Rightarrow>
               bindE (planUsers acting action rows is left) (\<lambda>p.
                 Inr (if changed
                      then p\<lparr>up_changed := i # up_changed p,
                             up_authz := (if authz then i # up_authz p else up_authz p)\<rparr>
                      else p\<lparr>up_unchanged := up_unchanged p + 1\<rparr>))))"

section \<open>Writing\<close>

definition requireUserRows :: "nat sql \<Rightarrow> nat \<Rightarrow> unit sql" where
  "requireUserRows m expected = bind m (\<lambda>n. require (n = expected) (ErrRowsAffected n expected))"

fun writeUserPlan :: "identity_env \<Rightarrow> user_batch_action \<Rightarrow> int list \<Rightarrow> unit sql" where
  "writeUserPlan I AdminUserBatchEnable ids =
     requireUserRows (UpdateStatusMany_Users ids UserStatusActive) (length ids)"
| "writeUserPlan I AdminUserBatchDisable ids =
     requireUserRows (UpdateStatusMany_Users ids UserStatusDisabled) (length ids)"
| "writeUserPlan I AdminUserBatchVerifyEmail ids =
     requireUserRows (MarkEmailVerifiedMany ids (micro (id_now I))) (length ids)"
| "writeUserPlan I AdminUserBatchUnverifyEmail ids = requireUserRows (UnverifyEmailMany ids) (length ids)"
| "writeUserPlan I AdminUserBatchSoftDelete ids =
     bind (requireUserRows (SoftDeleteMany ids (micro (id_now I))) (length ids)) (\<lambda>_.
     if id_comment_deleter I then SoftDeleteUsersComments (micro (id_now I)) ids else ret ())"
| "writeUserPlan I AdminUserBatchHardDelete ids =
     bind (if id_comment_deleter I then PrepareUsersHardDelete ids else ret ()) (\<lambda>_.
     requireUserRows (DeleteMany ids) (length ids))"
| "writeUserPlan I AdminUserBatchRestore ids = requireUserRows (RestoreMany ids) (length ids)"

definition applyAdminUserBatchPlan ::
  "identity_env \<Rightarrow> int \<Rightarrow> user_batch_action \<Rightarrow> int list \<Rightarrow> nat \<Rightarrow> user_plan sql" where
  "applyAdminUserBatchPlan I acting action ids count =
     bind (FindByIDsLocked ids) (\<lambda>rows.
     bind (lift (planUsers acting action rows ids count)) (\<lambda>plan.
     bind (writeUserPlan I action (up_changed plan)) (\<lambda>_.
     ret plan)))"

section \<open>The command\<close>

definition destructive :: "user_batch_action \<Rightarrow> bool" where
  "destructive action \<longleftrightarrow>
     action \<in> {AdminUserBatchDisable, AdminUserBatchSoftDelete, AdminUserBatchHardDelete}"

text \<open>The checks before the transaction give the action and the sorted ids.\<close>

definition checkUserBatch :: "user_batch_input \<Rightarrow> error + user_batch_action \<times> int list" where
  "checkUserBatch input =
     (if ub_acting_id input \<le> 0 \<or> ub_ids input = [] \<or> length (ub_ids input) > maxUserBatchLimit
      then Inl ErrValidation
      else (case user_batch_action_of (ub_action input) of
              None \<Rightarrow> Inl ErrValidation
            | Some action \<Rightarrow>
                if (action = AdminUserBatchSoftDelete \<or> action = AdminUserBatchHardDelete) \<and> \<not> ub_confirm input
                then Inl ErrConfirmationRequired
                else let ids = sort (ub_ids input)
                     in if ids_ok ids then Inr (action, ids) else Inl ErrValidation))"

definition batchUsersTx :: "identity_env \<Rightarrow> int \<Rightarrow> user_batch_action \<Rightarrow> int list \<Rightarrow> user_plan sql" where
  "batchUsersTx I acting action ids =
     (if destructive action
      then runAdminMutationWithActiveAdminCount (applyAdminUserBatchPlan I acting action ids)
      else atomically ErrInfra (applyAdminUserBatchPlan I acting action ids 0))"

definition batchUsers :: "identity_env \<Rightarrow> user_batch_input \<Rightarrow> (int list \<times> user_plan) sql" where
  "batchUsers I input =
     bind (lift (checkUserBatch input)) (\<lambda>(action, ids).
     bind (batchUsersTx I (ub_acting_id input) action ids) (\<lambda>plan. ret (ids, plan)))"

definition AdminBatchUsers :: "identity_env \<Rightarrow> user_batch_input \<Rightarrow> batch_result svc" where
  "AdminBatchUsers I input =
     bind (on_db (batchUsers I input)) (\<lambda>(ids, plan).
     bind (for_each invalidateAuthz (up_authz plan)) (\<lambda>_.
     ret \<lparr>br_requested = length ids, br_changed = length (up_changed plan),
          br_unchanged = up_unchanged plan\<rparr>))"

end
