(* ===== verification/Account_Inv.thy ===== *)
theory Account_Inv
  imports User_Batch Bootstrap Frame
begin

text \<open>
  What holds of the accounts: once the instance is initialised there is an active administrator, and a
  deleted account remembers when it was deleted and which live status it had.
\<close>

section \<open>The invariant\<close>

definition has_admin :: "user list \<Rightarrow> bool" where
  "has_admin us \<longleftrightarrow> (\<exists>u \<in> set us. active_admin u)"

definition account_life :: "user \<Rightarrow> bool" where
  "account_life u \<longleftrightarrow> (u_status u = UserStatusDeleted \<longrightarrow>
     u_deleted_at u \<noteq> None \<and> u_status_before_delete u \<in> {Some UserStatusActive, Some UserStatusDisabled})"

definition account_inv :: "db \<Rightarrow> bool" where
  "account_inv d \<longleftrightarrow> schema_ok d \<and> (ac_bootstrap (db_accounts d) \<noteq> None \<longrightarrow> has_admin (db_users d)) \<and>
     (\<forall>u \<in> set (db_users d). account_life u)"

lemma account_inv_same:
  "account_inv d \<Longrightarrow> schema_ok d' \<Longrightarrow> db_users d' = db_users d \<Longrightarrow>
     ac_bootstrap (db_accounts d') = ac_bootstrap (db_accounts d) \<Longrightarrow> account_inv d'"
  by (simp add: account_inv_def)

lemma account_inv_append:
  "account_inv d \<Longrightarrow> schema_ok d' \<Longrightarrow> db_users d' = db_users d @ [u] \<Longrightarrow> account_life u \<Longrightarrow>
     db_accounts d' = db_accounts d \<Longrightarrow> account_inv d'"
  by (auto simp: account_inv_def has_admin_def)

text \<open>An update keeps the invariant when each row it writes stays what the invariant needs.\<close>

definition keeps_account :: "(user \<Rightarrow> user) \<Rightarrow> bool" where
  "keeps_account f \<longleftrightarrow> (\<forall>u. (active_admin u \<longrightarrow> active_admin (f u)) \<and> (account_life u \<longrightarrow> account_life (f u)))"

lemma account_inv_update:
  assumes inv: "account_inv d" and ok: "schema_ok (snd (update_users P f d))"
    and life: "\<And>u. u \<in> set (db_users d) \<Longrightarrow> P u \<Longrightarrow> account_life u \<Longrightarrow> account_life (f u)"
    and admin: "has_admin (db_users d) \<Longrightarrow>
      \<exists>u \<in> set (db_users d). active_admin u \<and> (P u \<longrightarrow> active_admin (f u))"
  shows "account_inv (snd (update_users P f d))"
proof -
  let ?g = "\<lambda>u. (f u)\<lparr>u_updated_at := db_clock d\<rparr>"
  have g: "active_admin (?g u) = active_admin (f u)" "account_life (?g u) = account_life (f u)" for u
    by (simp_all add: with_role_and_status_def account_life_def)
  have users: "db_users (snd (update_users P f d)) = update_where P ?g (db_users d)"
    by (simp add: update_users_def)
  have "has_admin (update_where P ?g (db_users d))" if ad: "has_admin (db_users d)"
  proof -
    obtain u where u: "u \<in> set (db_users d)" "active_admin u" "P u \<longrightarrow> active_admin (f u)"
      using admin [OF ad] by blast
    then have "(if P u then ?g u else u) \<in> set (update_where P ?g (db_users d))"
      by (auto simp: set_update_where)
    moreover have "active_admin (if P u then ?g u else u)" using u g by simp
    ultimately show ?thesis unfolding has_admin_def by blast
  qed
  moreover have "\<forall>u \<in> set (update_where P ?g (db_users d)). account_life u"
    using inv life by (auto simp: set_update_where g account_inv_def)
  ultimately show ?thesis
    using inv ok unfolding account_inv_def users by (simp add: update_users_def)
qed

lemma account_inv_keeps:
  assumes "account_inv d" "schema_ok (snd (update_users P f d))" "keeps_account f"
  shows "account_inv (snd (update_users P f d))"
proof (rule account_inv_update [OF assms(1,2)])
  show "\<exists>u \<in> set (db_users d). active_admin u \<and> (P u \<longrightarrow> active_admin (f u))" if "has_admin (db_users d)"
    using that assms(3) unfolding has_admin_def keeps_account_def by blast
qed (use assms(3) in \<open>simp add: keeps_account_def\<close>)

text \<open>Writing to one row leaves every other administrator alone.\<close>

definition another_admin :: "int \<Rightarrow> db \<Rightarrow> bool" where
  "another_admin uid d \<longleftrightarrow> (\<exists>u \<in> set (db_users d). active_admin u \<and> u_id u \<noteq> uid)"

lemma another_adminI:
  assumes "schema_ok d" "\<not> count_where active_admin (db_users d) \<le> 1"
  shows "another_admin uid d"
proof (rule ccontr)
  assume no: "\<not> another_admin uid d"
  have d: "distinct (map u_id (db_users d))"
    using assms(1) by (simp add: schema_ok_def tables_ok_def keys_ok_def strict_sorted_iff)
  let ?as = "filter active_admin (db_users d)"
  have "set (map u_id ?as) \<subseteq> {uid}" using no by (auto simp: another_admin_def)
  moreover have "distinct (map u_id ?as)" using d by (simp add: distinct_map_filter)
  ultimately have "length (map u_id ?as) \<le> 1"
    by (metis card_mono distinct_card finite.emptyI finite_insert is_singletonI is_singleton_altdef)
  with assms(2) show False by (simp add: count_where_def)
qed

section \<open>The statements\<close>

lemma keeps_account_rows [simp]:
  "keeps_account (\<lambda>u. u\<lparr>u_nickname := n, u_website_url := web\<rparr>)"
  "keeps_account (\<lambda>u. u\<lparr>u_email_verified_at := v\<rparr>)"
  "keeps_account (\<lambda>u. bump_session (with_password h at u))" "keeps_account bump_session"
  "keeps_account (\<lambda>u. coalesce_verified t (bump_session (with_password h at u)))"
  by (simp_all add: keeps_account_def with_role_and_status_def account_life_def bump_session_def
      with_password_def coalesce_verified_def)

interpretation accounts: reads_accounts account_inv
  by unfold_locales (rule account_inv_same)

lemma users_update_comments [simp]: "db_users (snd (update_comments P f d)) = db_users d"
  by (simp add: update_comments_def)

lemma account_life_active [simp]: "u_status u \<noteq> UserStatusDeleted \<Longrightarrow> account_life u"
  by (simp add: account_life_def)

lemma keeps_new_users [preserves_intros]:
  "u_status u \<noteq> UserStatusDeleted \<Longrightarrow> preserves account_inv (User_Create u)"
  "u_status u \<noteq> UserStatusDeleted \<Longrightarrow> preserves account_inv (CreateWithPassword u hash at)"
  by (auto simp: User_Create_def CreateWithPassword_def insert_user_def with_password_def Let_def
      intro!: preserves_intros elim: account_inv_append)

lemma keeps_user_writes [preserves_intros]:
  "preserves account_inv (UpdateProfile uid n web)" "preserves account_inv (SetPassword uid hash at)"
  "preserves account_inv (BumpSessionVersion uid)" "preserves account_inv (ResetPasswordByEmail e hash at v)"
  "preserves account_inv (MarkEmailVerified uid at)" "preserves account_inv (MarkEmailVerifiedMany ids at)"
  "preserves account_inv (UnverifyEmailMany ids)"
  by (auto simp: UpdateProfile_def SetPassword_def BumpSessionVersion_def ResetPasswordByEmail_def
      update_returning_def MarkEmailVerified_def MarkEmailVerifiedMany_def UnverifyEmailMany_def Let_def
      intro!: preserves_intros account_inv_keeps)

section \<open>One account\<close>

lemma distinct_users: "schema_ok d \<Longrightarrow> distinct (map u_id (db_users d))"
  by (simp add: schema_ok_def tables_ok_def keys_ok_def strict_sorted_iff)

lemma user_unique:
  "schema_ok d \<Longrightarrow> u \<in> set (db_users d) \<Longrightarrow> v \<in> set (db_users d) \<Longrightarrow> u_id u = u_id v \<Longrightarrow> u = v"
  by (rule distinct_key_unique [OF distinct_users])

lemma account_inv_one:
  assumes inv: "account_inv d" and ok: "schema_ok (snd (update_users (\<lambda>x. u_id x = uid) f d))"
    and u: "u \<in> set (db_users d)" "u_id u = uid"
    and life: "account_life u \<Longrightarrow> account_life (f u)"
    and admin: "active_admin u \<Longrightarrow> active_admin (f u) \<or> another_admin uid d"
  shows "account_inv (snd (update_users (\<lambda>x. u_id x = uid) f d))"
proof (rule account_inv_update [OF inv ok])
  have s: "schema_ok d" using inv by (simp add: account_inv_def)
  show "account_life (f x)" if "x \<in> set (db_users d)" "u_id x = uid" "account_life x" for x
    using life user_unique [OF s that(1) u(1)] that u(2) by simp
  show "\<exists>x \<in> set (db_users d). active_admin x \<and> (u_id x = uid \<longrightarrow> active_admin (f x))"
    if some: "has_admin (db_users d)"
  proof -
    obtain x where x: "x \<in> set (db_users d)" "active_admin x" using some by (auto simp: has_admin_def)
    show ?thesis
    proof (cases "u_id x = uid")
      case True
      then have "x = u" using user_unique [OF s x(1) u(1)] u(2) by simp
      with admin x u show ?thesis unfolding another_admin_def by blast
    qed (use x in blast)
  qed
qed

lemma account_inv_delete:
  assumes "account_inv d" "schema_ok (snd (delete_users P d))"
    "has_admin (db_users d) \<Longrightarrow> \<exists>u \<in> set (db_users d). active_admin u \<and> \<not> P u"
  shows "account_inv (snd (delete_users P d))"
  using assms unfolding account_inv_def has_admin_def
  by (auto simp: delete_users_def keep_accounts_def Let_def)

lemma next_values_status:
  "next_values I input u = Inr v \<Longrightarrow> nx_status v = u_status u \<or> nx_status v \<noteq> UserStatusDeleted"
  by (auto simp: next_values_def bindE_Inr_iff patched_def editable_status_def
      split: option.splits if_splits prod.splits)

lemma changed_fields_row:
  "u_role (apply_fields (changed_fields now input v u) u) = nx_role v"
  "u_status (apply_fields (changed_fields now input v u) u) = nx_status v"
  "u_deleted_at (apply_fields F u) = u_deleted_at u"
  "u_status_before_delete (apply_fields F u) = u_status_before_delete u"
  by (auto simp: apply_fields_def changed_fields_def changed_to_def given_def)

lemma keeps_updateUserTx [preserves_intros]: "preserves account_inv (updateUserTx I target input)"
proof (rule preserves_wp)
  fix d :: db and os :: "comment_event list" assume inv: "account_inv d"
  have s: "schema_ok d" using inv by (simp add: account_inv_def)
  have step: "account_inv (snd (update_users (\<lambda>x. u_id x = target) (apply_fields (changed_fields now input v u)) d))"
    if "select_first (\<lambda>x. u_id x = target) (db_users d) = Some u" "next_values I input u = Inr v"
      "schema_ok (snd (update_users (\<lambda>x. u_id x = target) (apply_fields (changed_fields now input v u)) d))"
      "active_admin u \<and> (nx_role v \<noteq> RoleAdmin \<or> nx_status v \<noteq> UserStatusActive) \<longrightarrow>
         \<not> count_where active_admin (db_users d) \<le> 1"
    for u v now
  proof (rule account_inv_one [OF inv that(3)])
    show "u \<in> set (db_users d)" "u_id u = target" using select_first_Some [OF that(1)] by auto
    show "account_life (apply_fields (changed_fields now input v u) u)" if "account_life u"
      using that next_values_status [OF \<open>next_values I input u = Inr v\<close>]
      by (auto simp: account_life_def changed_fields_row)
    show "active_admin (apply_fields (changed_fields now input v u) u) \<or> another_admin target d" if "active_admin u"
      using that \<open>_ \<longrightarrow> \<not> count_where _ _ \<le> 1\<close> another_adminI [OF s]
      by (auto simp: with_role_and_status_def changed_fields_row)
  qed
  show "wp (updateUserTx I target input) (\<lambda>r d' os'. account_inv d') d os"
    unfolding updateUserTx_def FindByID_def CountByRoleAndStatus_def UpdateAdmin_def Let_def
    by (rule wp_intros)+ (auto simp: inv step with_role_and_status_def intro!: wp_intros split: sum.splits)
qed

text \<open>Detaching comments or deleting them does not touch the accounts.\<close>

lemma comment_deleter_wp:
  assumes inv: "account_inv d"
    and Q: "\<And>r d'. account_inv d' \<Longrightarrow> db_users d' = db_users d \<Longrightarrow> Q r d' os"
  shows "wpf f (PrepareUserHardDelete uid) Q d os" "wpf f (PrepareUsersHardDelete uids) Q d os"
    "wpf f (SoftDeleteUserComments now uid) Q d os" "wpf f (SoftDeleteUsersComments now uids) Q d os"
  unfolding PrepareUserHardDelete_def PrepareUsersHardDelete_def SoftDeleteUserComments_def
    SoftDeleteUsersComments_def DetachUserCommentChildren_def DetachUserCommentChildrenMany_def
    detach_users_def SoftDeleteByUser_def SoftDeleteByUsers_def
  by (auto intro!: wp_intros Q inv accounts.other_tables)

lemma account_life_delete [simp]: "account_life (delete_columns st at u) \<longleftrightarrow> st \<noteq> UserStatusDeleted"
  by (cases st) (auto simp: account_life_def delete_columns_def)

lemma account_life_restore [simp]: "account_life (restore_columns (status_to_restore u) v)"
  by (auto simp: account_life_def restore_columns_def status_to_restore_def split: option.splits user_status.splits)

lemma keeps_deleteInTx:
  assumes inv: "account_inv d" and u: "u \<in> set (db_users d)"
  shows "wp (applyAdminUserDeleteInTx I acting u mode confirm) (\<lambda>r d' os'. account_inv d') d os"
proof -
  have s: "schema_ok d" using inv by (simp add: account_inv_def)
  have soft: "account_inv (snd (update_users (\<lambda>x. u_id x = u_id u) (delete_columns st now) d))"
    if "schema_ok (snd (update_users (\<lambda>x. u_id x = u_id u) (delete_columns st now) d))"
      "st \<noteq> UserStatusDeleted" "active_admin u \<longrightarrow> \<not> count_where active_admin (db_users d) \<le> 1" for now st
    by (rule account_inv_one [OF inv that(1) u])
      (use that another_adminI [OF s] in auto)
  have hard: "account_inv (snd (delete_users (\<lambda>x. u_id x = u_id u) d'))"
    if "account_inv d'" "db_users d' = db_users d" "schema_ok (snd (delete_users (\<lambda>x. u_id x = u_id u) d'))"
      "active_admin u \<longrightarrow> \<not> count_where active_admin (db_users d) \<le> 1" for d'
  proof (rule account_inv_delete [OF that(1,3)])
    assume some: "has_admin (db_users d')"
    show "\<exists>v \<in> set (db_users d'). active_admin v \<and> u_id v \<noteq> u_id u"
    proof (cases "active_admin u")
      case True
      with that(4) another_adminI [OF s] show ?thesis unfolding that(2) another_admin_def by blast
    next
      case False
      with some user_unique [OF s] u show ?thesis unfolding that(2) has_admin_def by metis
    qed
  qed
  show ?thesis
    unfolding applyAdminUserDeleteInTx_def ensureNotLastActiveAdmin_def CountByRoleAndStatus_def User_Delete_def
      User_SoftDelete_def FindByID_def Let_def
    by (auto intro!: wp_intros comment_deleter_wp inv soft hard simp: with_role_and_status_def split: sum.splits)
qed

lemma keeps_single_commands [preserves_intros]:
  "preserves account_inv (updateUser I target input)"
  "preserves account_inv (deleteUser I acting target mode confirm)" "preserves account_inv (restoreUser target)"
proof -
  have adm: "preserves account_inv (runAdminMutation m)" if "preserves account_inv m" for m :: "bool sql"
    using that by (auto simp: runAdminMutation_def runAdminMutationWithActiveAdminCount_def intro!: preserves_intros)
  show "preserves account_inv (updateUser I target input)"
    by (auto simp: updateUser_def intro!: adm preserves_intros)
  have "preserves account_inv (bind (FindByID target) (\<lambda>u. applyAdminUserDeleteInTx I acting u mode confirm))"
  proof (rule preserves_wp)
    fix d :: db and os :: "comment_event list" assume inv: "account_inv d"
    show "wp (bind (FindByID target) (\<lambda>u. applyAdminUserDeleteInTx I acting u mode confirm))
        (\<lambda>r d' os'. account_inv d') d os"
      unfolding FindByID_def
      by (auto intro!: wp_intros inv keeps_deleteInTx dest: select_first_Some)
  qed
  then show "preserves account_inv (deleteUser I acting target mode confirm)"
    by (simp add: deleteUser_def adm preserves_intros)
  have "preserves account_inv (bind (FindByID target) restoreAdminUserInTx)"
  proof (rule preserves_wp)
    fix d :: db and os :: "comment_event list" assume inv: "account_inv d"
    have ok: "schema_ok d" using inv by (simp add: account_inv_def)
    have "account_inv (snd (update_users (\<lambda>x. u_id x = u_id u) (restore_columns (status_to_restore v)) d))"
      if "select_first (\<lambda>x. u_id x = target) (db_users d) = Some u" "u_status u = UserStatusDeleted"
        "select_first (\<lambda>x. u_id x = u_id u) (db_users d) = Some v"
        "schema_ok (snd (update_users (\<lambda>x. u_id x = u_id u) (restore_columns (status_to_restore v)) d))" for u v
    proof (rule account_inv_one [OF inv that(4)])
      show v: "v \<in> set (db_users d)" "u_id v = u_id u" using select_first_Some [OF that(3)] by auto
      then have "v = u" using user_unique [OF ok] select_first_Some [OF that(1)] by blast
      then show "active_admin v \<Longrightarrow> active_admin (restore_columns (status_to_restore v) v) \<or> another_admin (u_id u) d"
        using that(2) by (simp add: with_role_and_status_def)
    qed auto
    then show "wp (bind (FindByID target) restoreAdminUserInTx) (\<lambda>r d' os'. account_inv d') d os"
      unfolding restoreAdminUserInTx_def User_Restore_def FindByID_def
      by (auto intro!: wp_intros inv)
  qed
  then show "preserves account_inv (restoreUser target)"
    unfolding restoreUser_def by (rule preserves_atomically)
qed

section \<open>The batch\<close>

text \<open>The targets a destructive action takes from the active administrators.\<close>

definition admin_target :: "user list \<Rightarrow> int \<Rightarrow> bool" where
  "admin_target rows i \<longleftrightarrow> (\<exists>u \<in> set rows. u_id u = i \<and> active_admin u)"

lemma plan_action_count:
  assumes "planAdminUserBatchAction acting u action count = Inr (changed, authz, left)" "destructive action"
  shows "if active_admin u then 1 < count \<and> left = count - 1 else left = count"
  using assms
  by (auto simp: planAdminUserBatchAction_def destructive_def planAdminAdminRemoval_def
      with_role_and_status_def split: if_splits)

lemma planUsers_ids: "planUsers acting action rows ids count = Inr p \<Longrightarrow> set (up_changed p) \<subseteq> set ids"
  by (induction ids arbitrary: count p) (fastforce simp: bindE_Inr_iff split: option.splits sum.splits if_splits)+

lemma planUsers_leaves_one:
  assumes "planUsers acting action rows ids count = Inr p" "destructive action"
    "distinct (map u_id rows)"
  shows "length (filter (admin_target rows) ids) = 0 \<or> length (filter (admin_target rows) ids) < count"
  using assms(1)
proof (induction ids arbitrary: count p)
  case (Cons i ids)
  then obtain u changed authz left q where *:
    "select_first (\<lambda>u. u_id u = i) rows = Some u"
    "planAdminUserBatchAction acting u action count = Inr (changed, authz, left)"
    "planUsers acting action rows ids left = Inr q"
    by (auto simp: bindE_Inr_iff split: option.splits sum.splits prod.splits if_splits)
  have "admin_target rows i \<longleftrightarrow> active_admin u"
    using select_first_Some [OF *(1)] distinct_key_unique [OF assms(3)] unfolding admin_target_def by blast
  then show ?case
    using Cons.IH [OF *(3)] plan_action_count [OF *(2) assms(2)] by (auto split: if_splits)
qed simp

lemma batch_leaves_admin:
  assumes ok: "schema_ok d" and some: "has_admin (db_users d)" and action: "destructive action"
    and plan: "planUsers acting action (filter (\<lambda>u. u_id u \<in> set ids) (db_users d)) ids
      (length (filter active_admin (db_users d))) = Inr p"
  shows "\<exists>u \<in> set (db_users d). active_admin u \<and> u_id u \<notin> set (up_changed p)"
proof (rule ccontr)
  assume none: "\<not> ?thesis"
  let ?rows = "filter (\<lambda>u. u_id u \<in> set ids) (db_users d)" and ?as = "filter active_admin (db_users d)"
  have in_ids: "u_id u \<in> set ids" if "u \<in> set ?as" for u
    using none that planUsers_ids [OF plan] by auto
  have "set (map u_id ?as) \<subseteq> set (filter (admin_target ?rows) ids)"
    using in_ids by (auto simp: admin_target_def)
  then have "card (set (map u_id ?as)) \<le> length (filter (admin_target ?rows) ids)"
    by (metis List.finite_set card_length card_mono order_trans)
  moreover have "card (set (map u_id ?as)) = length ?as"
    using distinct_users [OF ok] by (metis distinct_card distinct_map_filter length_map)
  moreover have "0 < length ?as" using some by (auto simp: has_admin_def filter_empty_conv)
  moreover have "distinct (map u_id ?rows)" using distinct_users [OF ok] by (rule distinct_map_filter)
  ultimately show False
    using planUsers_leaves_one [OF plan action] by auto
qed

lemma account_inv_many:
  assumes inv: "account_inv d" and ok: "schema_ok (snd (update_users P f d))"
    and life: "\<And>u. P u \<Longrightarrow> account_life (f u)"
    and admin: "\<And>u. P u \<Longrightarrow> active_admin u \<Longrightarrow> u_id u \<in> set ids \<or> active_admin (f u)"
    and left: "has_admin (db_users d) \<Longrightarrow> \<exists>u \<in> set (db_users d). active_admin u \<and>
      (u_id u \<in> set ids \<longrightarrow> P u \<longrightarrow> active_admin (f u))"
  shows "account_inv (snd (update_users P f d))"
proof (rule account_inv_update [OF inv ok])
  show "\<exists>u \<in> set (db_users d). active_admin u \<and> (P u \<longrightarrow> active_admin (f u))" if some: "has_admin (db_users d)"
    using left [OF some] admin by blast
qed (use life in blast)

lemma writeUserPlan_wp:
  assumes inv: "account_inv d"
    and left: "destructive action \<Longrightarrow> has_admin (db_users d) \<Longrightarrow>
      \<exists>u \<in> set (db_users d). active_admin u \<and> u_id u \<notin> set ids"
  shows "wp (writeUserPlan I action ids) (\<lambda>r d' os'. account_inv d') d os"
proof -
  have status: "account_inv (snd (update_users (\<lambda>u. u_id u \<in> set ids) (\<lambda>u. u\<lparr>u_status := st\<rparr>) d))"
    if "schema_ok (snd (update_users (\<lambda>u. u_id u \<in> set ids) (\<lambda>u. u\<lparr>u_status := st\<rparr>) d))"
      "st = UserStatusActive \<or> st \<noteq> UserStatusDeleted \<and> destructive action" for st
    by (rule account_inv_many [OF inv that(1), of ids])
      (use that(2) left in \<open>auto simp: with_role_and_status_def has_admin_def\<close>)
  have soft: "account_inv (snd (update_users (\<lambda>u. u_id u \<in> set ids \<and> u_status u \<noteq> UserStatusDeleted)
        (\<lambda>u. delete_columns (u_status u) t u) d))"
    if "schema_ok (snd (update_users (\<lambda>u. u_id u \<in> set ids \<and> u_status u \<noteq> UserStatusDeleted)
        (\<lambda>u. delete_columns (u_status u) t u) d))" "destructive action" for t
    by (rule account_inv_many [OF inv that(1), of ids]) (use that(2) left in auto)
  have restore: "account_inv (snd (update_users (\<lambda>u. u_id u \<in> set ids \<and> u_status u = UserStatusDeleted)
        (\<lambda>u. restore_columns (status_to_restore u) u) d))"
    if "schema_ok (snd (update_users (\<lambda>u. u_id u \<in> set ids \<and> u_status u = UserStatusDeleted)
        (\<lambda>u. restore_columns (status_to_restore u) u) d))"
    by (rule account_inv_many [OF inv that, of ids]) (auto simp: with_role_and_status_def has_admin_def)
  have hard: "account_inv (snd (delete_users (\<lambda>u. u_id u \<in> set ids) d'))"
    if "account_inv d'" "db_users d' = db_users d" "destructive action"
      "schema_ok (snd (delete_users (\<lambda>u. u_id u \<in> set ids) d'))" for d'
    by (rule account_inv_delete [OF that(1,4)]) (use that(2,3) left in simp)
  have flags: "account_inv (snd (update_users P (\<lambda>u. u\<lparr>u_email_verified_at := v\<rparr>) d))"
    if "schema_ok (snd (update_users P (\<lambda>u. u\<lparr>u_email_verified_at := v\<rparr>) d))" for P v
    by (rule account_inv_keeps [OF inv that]) simp
  show ?thesis
    by (cases action)
      (auto simp: requireUserRows_def UpdateStatusMany_Users_def MarkEmailVerifiedMany_def UnverifyEmailMany_def
        SoftDeleteMany_def RestoreMany_def DeleteMany_def destructive_def inv
        intro!: wp_intros comment_deleter_wp status soft restore hard flags split: sum.splits)
qed

lemma wp_FindByIDsLocked:
  "(f \<Longrightarrow> Q (Inl ErrInfra) d os) \<Longrightarrow> Q (Inr (filter (\<lambda>u. u_id u \<in> set ids) (db_users d))) d os \<Longrightarrow>
     wpf f (FindByIDsLocked ids) Q d os"
  by (cases "ids = []") (auto simp: FindByIDsLocked_def intro!: wp_intros)

lemma keeps_batchUsers [preserves_intros]: "preserves account_inv (batchUsers I input)"
proof -
  have plan: "wp (applyAdminUserBatchPlan I acting action ids count) (\<lambda>r d' os'. account_inv d') d os"
    if inv: "account_inv d" and count: "destructive action \<Longrightarrow> count = length (filter active_admin (db_users d))"
    for acting action ids count d os
  proof -
    have ok: "schema_ok d" using inv by (simp add: account_inv_def)
    have "wp (writeUserPlan I action (up_changed p)) (\<lambda>r d' os'. account_inv d') d os"
      if "planUsers acting action (filter (\<lambda>u. u_id u \<in> set ids) (db_users d)) ids count = Inr p" for p
      by (rule writeUserPlan_wp [OF inv]) (use batch_leaves_admin [OF ok] that count in auto)
    then have wr: "wp (bind (writeUserPlan I action (up_changed p)) (\<lambda>_. ret p)) (\<lambda>r d' os'. account_inv d') d os"
      if "planUsers acting action (filter (\<lambda>u. u_id u \<in> set ids) (db_users d)) ids count = Inr p" for p
      using that by (auto intro!: wp_intros elim!: wp_mono split: sum.splits)
    show ?thesis
      unfolding applyAdminUserBatchPlan_def
      by (rule wp_bind, rule wp_FindByIDsLocked) (auto intro!: wp_intros wr inv split: sum.splits)
  qed
  have "preserves account_inv (batchUsersTx I acting action ids)" for acting action ids
  proof (rule preserves_wp)
    fix d :: db and os :: "comment_event list" assume inv: "account_inv d"
    have tx: "wp (applyAdminUserBatchPlan I acting action ids count)
        (\<lambda>r d' os'. case r of Inl e \<Rightarrow> account_inv d | Inr x \<Rightarrow> account_inv d' \<and> (True \<longrightarrow> account_inv d)) d os"
      if "destructive action \<Longrightarrow> count = length (filter active_admin (db_users d))" for count
      by (rule wp_mono [OF plan [OF inv that]]) (auto simp: inv split: sum.splits)
    show "wp (batchUsersTx I acting action ids) (\<lambda>r d' os'. account_inv d') d os"
      unfolding batchUsersTx_def runAdminMutationWithActiveAdminCount_def LockActiveAdmins_def
      by (auto intro!: wp_intros inv tx)
  qed
  then show ?thesis
    unfolding batchUsers_def
    by (intro preserves_bind preserves_basic) (auto intro!: preserves_bind preserves_basic)
qed

section \<open>The other commands on accounts\<close>

lemma account_of_active [simp]: "u_status (account_of original normalized nickname r) = UserStatusActive"
  by (simp add: account_of_def)

lemma keeps_password_commands [preserves_intros]:
  "preserves account_inv (setPassword I uid pw)" "preserves account_inv (check_current_password I uid cur)"
  by (auto simp: setPassword_def check_current_password_def intro!: preserves_intros)

text \<open>The marker of initialisation is written in the transaction that has inserted an administrator.\<close>

lemma account_inv_first_admin:
  assumes "account_inv d" "schema_ok (d\<lparr>db_users := db_users d @ [u], db_next_user := db_next_user d + 1\<rparr>)"
    "active_admin u"
  shows "account_inv (map_accounts (\<lambda>a. a\<lparr>ac_bootstrap := Some b\<rparr>)
    (d\<lparr>db_users := db_users d @ [u], db_next_user := db_next_user d + 1\<rparr>))"
  using assms
  by (auto simp: account_inv_def map_accounts_def has_admin_def with_role_and_status_def schema_ok_def tables_ok_def
      uniques_ok_def refs_ok_def accounts_ok_def)

lemma keeps_createAdmin [preserves_intros]:
  "preserves account_inv (createAdmin I original normalized nickname password)"
proof -
  have tx: "preserves account_inv (createAdminTx I original normalized nickname password)"
  proof (rule preserves_wp)
    fix d :: db and os :: "comment_event list" assume inv: "account_inv d"
    have admin: "active_admin (u\<lparr>u_id := i, u_session_version := v, u_created_at := t, u_updated_at := t'\<rparr>) \<longleftrightarrow>
      active_admin u" for u i v t t'
      by (simp add: with_role_and_status_def)
    have new: "active_admin (with_password h t' ((account_of original normalized n RoleAdmin)\<lparr>u_email_verified_at := t\<rparr>))"
      for h n t t' by (simp add: with_role_and_status_def with_password_def account_of_def)
    have grown: "account_inv (d\<lparr>db_users := db_users d @ [u], db_next_user := db_next_user d + 1\<rparr>)"
      if "schema_ok (d\<lparr>db_users := db_users d @ [u], db_next_user := db_next_user d + 1\<rparr>)" "active_admin u" for u
      by (rule account_inv_append [OF inv that(1)]) (use that(2) in \<open>auto simp: with_role_and_status_def\<close>)
    show "wp (createAdminTx I original normalized nickname password) (\<lambda>r d' os'. account_inv d') d os"
      unfolding createAdminTx_def IsInitialized_def FindByEmailNormalized_def CreateUserWithPassword_def
        CreateWithPassword_def insert_user_def Bootstrap_Create_def Let_def
      by (auto intro!: wp_intros wp_stmt inv account_inv_first_admin grown simp: admin new split: sum.splits if_splits)
  qed
  then show ?thesis unfolding createAdmin_def by (auto intro!: preserves_intros)
qed

end
