(* ===== verification/Account_Commands.thy ===== *)
theory Account_Commands
  imports Commands User_Admin Bootstrap Credentials OAuth_Login Passkey_Login Account_Inv
begin

text \<open>
  Use cases that write to the accounts only by opening one, by writing a profile or by confirming an email address.  A
  condition those three statements preserve survives all of them.
\<close>

locale account_use_cases = account_condition +
  assumes new_password_account:
      "u_status u \<noteq> UserStatusDeleted \<Longrightarrow> preserves I (CreateWithPassword u hash at)"
    and email_verified: "preserves I (MarkEmailVerified uid at)"
begin

lemmas keeps_account_statements [preserves_intros] = new_password_account email_verified

lemma keeps_reads [preserves_intros]:
  "preserves I (profileOf IE u)" "preserves I (getWithPrefs IE uid)" "preserves I (find_user e)"
  "preserves I IsInitialized" "preserves I (PrepareUserHardDelete uid)"
  "preserves I (SoftDeleteUserComments now uid)"
proof -
  show p: "preserves I (profileOf IE u)" for u
    unfolding profileOf_def by (intro preserves_intros) (auto intro!: preserves_intros split: prod.split)
  show "preserves I (getWithPrefs IE uid)"
    unfolding getWithPrefs_def by (intro preserves_intros p)
qed (auto simp: find_user_def IsInitialized_def PrepareUserHardDelete_def SoftDeleteUserComments_def
    intro!: preserves_intros)

lemma keeps_profiles [preserves_intros]:
  "preserves I (Profile_Create IE email nick r)" "preserves I (Profile_Update IE uid nick web)"
  "preserves I (UpdateNotificationPreferences IE uid r' m)" "preserves I (AdminCreateUser IE cinput)"
  by (auto simp: Profile_Create_def Profile_Update_def UpdateNotificationPreferences_def AdminCreateUser_def
      account_of_def Let_def intro!: preserves_intros split: prod.split)

lemma keeps_sign_in [preserves_intros]:
  "preserves I (registerOnCodeLogin L normalized)" "preserves I (loginByEmail L normalized)"
  "preserves I (LoginWithPasswordFromInput L linput)"
  by (auto simp: registerOnCodeLogin_def loginByEmail_def LoginWithPasswordFromInput_def loginByPassword_def
      account_of_def Let_def intro!: preserves_intros split: prod.split)

lemma keeps_oauth [preserves_intros]: "preserves I (resolveOAuthIdentity IE p identity record)"
proof -
  have "preserves I (registerOAuthUser IE p who normalized)" for who normalized
    by (auto simp: registerOAuthUser_def account_of_def intro!: preserves_intros split: prod.split)
  moreover have "preserves I (bindOAuthIdentity IE p who u)" for who u
    by (auto simp: bindOAuthIdentity_def intro!: preserves_intros)
  moreover have "preserves I (completeOAuthLogin IE bound)" for bound
    by (auto simp: completeOAuthLogin_def intro!: preserves_intros)
  ultimately show ?thesis
    by (auto simp: resolveOAuthIdentity_def intro!: preserves_intros split: prod.split)
qed

lemma keeps_credentials [preserves_intros]:
  "preserves I (loginByPasskey P wa s response)" "preserves I (addPasskey uid c transports)"
  "preserves I (RenamePasskey uid j name)" "preserves I (DeletePasskey uid j)"
  "preserves I (DeleteExternalIdentity uid j)"
  by (auto simp: loginByPasskey_def FinishLogin_def lookupPasskeyUser_def addPasskey_def RenamePasskey_def
      DeletePasskey_def DeleteExternalIdentity_def loginMethodCount_def Let_def
      intro!: preserves_intros split: prod.split)

end

text \<open>
  What the identity service does to the rows, one command per use case, and the accounts whose
  cached authorisation the use case deletes after its transaction has committed.  The rest of each
  use case, the checks before and the cache after, is in the handlers these parts are taken from.
\<close>

section \<open>Commands\<close>

datatype account_command =
    AcBatch user_batch_input
  | AcUpdate int admin_update_user_input
  | AcDelete int int string bool
  | AcRestore int
  | AcSetPassword int string
  | AcResetPassword string string
  | AcRevoke int
  | AcAdminCreate admin_create_user_input
  | AcCreate string string string
  | AcProfile int string "string option"
  | AcPreferences int bool bool
  | AcBootstrap string string string string
  | AcCodeLogin login_env string
  | AcPasswordLogin login_env password_login_input
  | AcOAuth auth_provider "oauth_identity option" oauth_state
  | AcPasskeyLogin passkey_env webauthn string string
  | AcAddPasskey int webauthn_credential string
  | AcRenamePasskey int int string
  | AcDeletePasskey int int
  | AcDeleteIdentity int int

definition leaving :: "'b \<Rightarrow> 'a sql \<Rightarrow> 'b sql" where
  "leaving x m = bind m (\<lambda>_. ret x)"

fun account_tx :: "identity_env \<Rightarrow> account_command \<Rightarrow> int list sql" where
  "account_tx I (AcBatch input) = bind (batchUsers I input) (\<lambda>(_, plan). ret (up_authz plan))"
| "account_tx I (AcUpdate target input) =
     bind (updateUser I target input) (\<lambda>changed. ret (if changed then [target] else []))"
| "account_tx I (AcDelete acting target mode confirm) = leaving [target] (deleteUser I acting target mode confirm)"
| "account_tx I (AcRestore target) =
     bind (restoreUser target) (\<lambda>restored. ret (if restored then [target] else []))"
| "account_tx I (AcSetPassword uid password) = leaving [uid] (atomically ErrInfra (setPassword I uid password))"
| "account_tx I (AcResetPassword email hash) = bind (resetPassword I email hash) (\<lambda>uid. ret [uid])"
| "account_tx I (AcRevoke uid) = leaving [uid] (atomically ErrInfra (BumpSessionVersion uid))"
| "account_tx I (AcAdminCreate input) = leaving [] (AdminCreateUser I input)"
| "account_tx I (AcCreate email nickname r) = leaving [] (Profile_Create I email nickname r)"
| "account_tx I (AcProfile uid nickname website) = leaving [] (Profile_Update I uid nickname website)"
| "account_tx I (AcPreferences uid r m) = leaving [] (UpdateNotificationPreferences I uid r m)"
| "account_tx I (AcBootstrap original normalized nickname password) =
     leaving [] (createAdmin I original normalized nickname password)"
| "account_tx I (AcCodeLogin L normalized) = leaving [] (loginByEmail L normalized)"
| "account_tx I (AcPasswordLogin L input) = leaving [] (LoginWithPasswordFromInput L input)"
| "account_tx I (AcOAuth p identity record) = leaving [] (resolveOAuthIdentity I p identity record)"
| "account_tx I (AcPasskeyLogin P wa s response) = leaving [] (loginByPasskey P wa s response)"
| "account_tx I (AcAddPasskey uid c transports) = leaving [] (addPasskey uid c transports)"
| "account_tx I (AcRenamePasskey uid i name) = leaving [] (RenamePasskey uid i name)"
| "account_tx I (AcDeletePasskey uid i) = leaving [] (DeletePasskey uid i)"
| "account_tx I (AcDeleteIdentity uid i) = leaving [] (DeleteExternalIdentity uid i)"

lemma preserves_leaving [preserves_intros]: "preserves I m \<Longrightarrow> preserves I (leaving x m)"
  by (auto simp: leaving_def intro!: preserves_intros)

section \<open>The use cases are these commands followed by the invalidations\<close>

lemma rows_with_rows: "rows_of (with_rows w v) = v" "with_rows w (rows_of w) = w"
    "with_rows (with_rows w v) v' = with_rows w v'"
  by (simp_all add: rows_of_def with_rows_def)

lemma on_db_bind: "on_db (bind m g) = bind (on_db m) (\<lambda>x. on_db (g x))"
  by (rule ext) (auto simp: on_db_def bind_def rows_with_rows split: prod.splits sum.splits)

lemma on_db_ret: "on_db (ret x) = ret x"
  by (rule ext) (simp add: on_db_def ret_def rows_with_rows)

definition commit_and_invalidate :: "identity_env \<Rightarrow> account_command \<Rightarrow> unit svc" where
  "commit_and_invalidate I cmd = bind (on_db (account_tx I cmd)) (for_each invalidateAuthz)"

lemma bind_ret_left: "bind (ret x) f = f x"
  by (rule ext) (simp add: bind_def ret_def)

lemma bind_ret_right: "bind m ret = m"
  by (rule ext) (auto simp: bind_def ret_def split: prod.splits sum.splits)

lemmas use_case_simps = commit_and_invalidate_def leaving_def on_db_bind on_db_ret bind_assoc bind_ret_left
  bind_ret_right

lemma AdminBatchUsers_commits:
  "bind (AdminBatchUsers I input) (\<lambda>_. m) = bind (commit_and_invalidate I (AcBatch input)) (\<lambda>_. m)"
  by (simp add: AdminBatchUsers_def use_case_simps case_prod_unfold)

lemma AdminDeleteUser_commits:
  "AdminDeleteUser I acting target mode confirm = commit_and_invalidate I (AcDelete acting target mode confirm)"
  by (simp add: AdminDeleteUser_def use_case_simps)

lemma RevokeAllSessions_commits: "RevokeAllSessions uid = commit_and_invalidate I (AcRevoke uid)"
  by (simp add: RevokeAllSessions_def use_case_simps)

lemma AdminResetPassword_commits:
  "minPasswordLength \<le> length new_password \<Longrightarrow>
     AdminResetPassword I target new_password = commit_and_invalidate I (AcSetPassword target new_password)"
  by (simp add: AdminResetPassword_def use_case_simps)

lemma AdminUpdateUser_commits:
  "AdminUpdateUser I target input =
     bind (commit_and_invalidate I (AcUpdate target input)) (\<lambda>_. on_db (getWithPrefs I target))"
  by (simp add: AdminUpdateUser_def use_case_simps if_distrib [of "for_each invalidateAuthz"] cong: if_cong)

section \<open>The accounts stay in order\<close>

interpretation account_rows: account_use_cases account_inv
  by unfold_locales (auto intro: preserves_intros)

lemma keeps_resetPassword [preserves_intros]: "preserves account_inv (resetPassword I e hash)"
  by (auto simp: resetPassword_def intro!: preserves_intros)

lemma account_tx_keeps: "preserves account_inv (account_tx I cmd)"
  by (cases cmd) (auto intro!: preserves_intros split: prod.split)

end
