(* ===== verification/Account_Effects.thy ===== *)
theory Account_Effects
  imports Commands Account_Commands
begin

text \<open>
  What the commands of the identity service do to the comments: they keep the invariant of the
  comment tables, and they post nothing.
\<close>

section \<open>Account commands and comments\<close>

interpretation comments: reads_comments comment_inv
  by unfold_locales (rule comment_inv_other_tables)

lemma preserves_user_deletes [preserves_intros]:
  "preserves comment_inv (User_Delete uid)" "preserves comment_inv (DeleteMany ids)"
  by (auto simp: User_Delete_def DeleteMany_def intro!: preserves_intros comment_inv_deletes)

lemma preserves_comment_deleter [preserves_intros]:
  "preserves comment_inv (PrepareUserHardDelete uid)" "preserves comment_inv (PrepareUsersHardDelete uids)"
  "preserves comment_inv (SoftDeleteUserComments now uid)" "preserves comment_inv (SoftDeleteUsersComments now uids)"
  by (auto simp: PrepareUserHardDelete_def PrepareUsersHardDelete_def SoftDeleteUserComments_def
      SoftDeleteUsersComments_def intro!: preserves_intros)

lemma preserves_profile_reads [preserves_intros]:
  "preserves comment_inv (profileOf I u)" "preserves comment_inv (getWithPrefs I uid)"
proof -
  show p: "preserves comment_inv (profileOf I u)" for u
    unfolding profileOf_def by (intro preserves_intros) (auto intro!: preserves_intros split: prod.split)
  show "preserves comment_inv (getWithPrefs I uid)"
    unfolding getWithPrefs_def by (intro preserves_intros p)
qed

lemma preserves_find_user [preserves_intros]: "preserves comment_inv (find_user e)"
  by (auto simp: find_user_def intro!: preserves_intros)

lemma preserves_writeUserPlan [preserves_intros]: "preserves comment_inv (writeUserPlan I action ids)"
  by (cases action) (auto simp: requireUserRows_def intro!: preserves_intros)

lemma preserves_account_admin [preserves_intros]:
  "preserves comment_inv (batchUsers I binput)" "preserves comment_inv (updateUser I target input)"
  "preserves comment_inv (deleteUser I acting target mode confirm)" "preserves comment_inv (restoreUser target)"
  by (auto simp: batchUsers_def batchUsersTx_def applyAdminUserBatchPlan_def updateUser_def updateUserTx_def
      deleteUser_def applyAdminUserDeleteInTx_def ensureNotLastActiveAdmin_def restoreUser_def
      restoreAdminUserInTx_def runAdminMutation_def runAdminMutationWithActiveAdminCount_def Let_def
      intro!: preserves_intros split: prod.split)

lemma preserves_account_own [preserves_intros]:
  "preserves comment_inv (setPassword I uid pw)" "preserves comment_inv (resetPassword I e hash)"
  "preserves comment_inv (AdminCreateUser I cinput)" "preserves comment_inv (Profile_Create I email nick r)"
  "preserves comment_inv (Profile_Update I uid nick web)"
  "preserves comment_inv (UpdateNotificationPreferences I uid r' m)"
  by (auto simp: setPassword_def resetPassword_def AdminCreateUser_def Profile_Create_def Profile_Update_def
      UpdateNotificationPreferences_def Let_def intro!: preserves_intros split: prod.split)

lemma schema_bootstrap: "schema_ok (map_accounts (\<lambda>a. a\<lparr>ac_bootstrap := b\<rparr>) d) = schema_ok d"
  by (simp add: map_accounts_def schema_ok_def tables_ok_def uniques_ok_def refs_ok_def accounts_ok_def)

lemma preserves_bootstrap_rows [preserves_intros]:
  "preserves comment_inv IsInitialized" "preserves comment_inv (Bootstrap_Create at admin)"
proof -
  show "preserves comment_inv (Bootstrap_Create at admin)"
    unfolding Bootstrap_Create_def
    by (rule preserves_stmt)
      (auto split: if_splits intro!: comments.account_rows(2) simp: schema_bootstrap comment_invD)
qed (auto simp: IsInitialized_def intro!: preserves_intros)

lemma preserves_sign_in [preserves_intros]:
  "preserves comment_inv (createAdmin I original normalized nickname password)"
  "preserves comment_inv (loginByEmail L normalized)" "preserves comment_inv (LoginWithPasswordFromInput L input)"
  by (auto simp: createAdmin_def createAdminTx_def CreateUserWithPassword_def loginByEmail_def registerOnCodeLogin_def
      LoginWithPasswordFromInput_def loginByPassword_def Let_def intro!: preserves_intros split: prod.split)

lemma preserves_oauth [preserves_intros]: "preserves comment_inv (resolveOAuthIdentity I p identity record)"
proof -
  have "preserves comment_inv (registerOAuthUser I p who normalized)" for who normalized
    by (auto simp: registerOAuthUser_def intro!: preserves_intros split: prod.split)
  moreover have "preserves comment_inv (bindOAuthIdentity I p who u)" for who u
    by (auto simp: bindOAuthIdentity_def intro!: preserves_intros)
  moreover have "preserves comment_inv (completeOAuthLogin I bound)" for bound
    by (auto simp: completeOAuthLogin_def intro!: preserves_intros)
  ultimately show ?thesis
    by (auto simp: resolveOAuthIdentity_def intro!: preserves_intros split: prod.split)
qed

lemma preserves_passkeys [preserves_intros]:
  "preserves comment_inv (loginByPasskey P wa s response)" "preserves comment_inv (addPasskey uid c transports)"
  "preserves comment_inv (RenamePasskey uid i name)" "preserves comment_inv (DeletePasskey uid i)"
  "preserves comment_inv (DeleteExternalIdentity uid i)"
  by (auto simp: loginByPasskey_def FinishLogin_def lookupPasskeyUser_def addPasskey_def RenamePasskey_def
      DeletePasskey_def DeleteExternalIdentity_def loginMethodCount_def Let_def
      intro!: preserves_intros split: prod.split)

lemma preserves_account_tx: "preserves comment_inv (account_tx I cmd)"
  by (cases cmd) (auto intro!: preserves_intros split: prod.split)

section \<open>Account commands post nothing\<close>

lemma calm_map_accounts [simp]: "calm_db d (map_accounts f d)"
  by (simp add: calm_rows map_accounts_def)

lemma calm_user_rows [simp]: "calm_db d (snd (update_users P f d))" "calm_db d (snd (delete_users P d))"
  by (auto simp: update_users_def delete_users_def Let_def intro!: calm_rows calm_cascade)

lemma calm_sql_insert [calm_intros]: "(\<And>d. calm_db d (snd (f d))) \<Longrightarrow> calm (sql_insert dup f)"
  unfolding sql_insert_def by (rule calm_stmt) (metis checked_def sum.distinct(1) sum.inject(2) snd_conv)

lemma calm_user_statements [calm_intros]:
  "calm (FindByIDLocked uid)" "calm (FindByIDsLocked ids)" "calm (FindByEmailNormalized e)"
  "calm LockActiveAdmins" "calm (CountByRoleAndStatus r st)" "calm (HasPassword uid)" "calm (PasswordHash uid)"
  "calm (User_Create u)" "calm (CreateWithPassword u hash at)" "calm (UpdateProfile uid n web)"
  "calm (UpdateAdmin uid F)" "calm (UpdateStatusMany_Users ids st)" "calm (SetPassword uid hash at)"
  "calm (BumpSessionVersion uid)" "calm (ResetPasswordByEmail e hash at v)" "calm (MarkEmailVerified uid at)"
  "calm (MarkEmailVerifiedMany ids at)" "calm (UnverifyEmailMany ids)" "calm (User_SoftDelete uid st at)"
  "calm (SoftDeleteMany ids at)" "calm (User_Restore uid)" "calm (RestoreMany ids)"
  "calm (User_Delete uid)" "calm (DeleteMany ids)"
  by (auto simp: FindByIDLocked_def FindByIDsLocked_def FindByEmailNormalized_def LockActiveAdmins_def
      CountByRoleAndStatus_def HasPassword_def PasswordHash_def User_Create_def CreateWithPassword_def
      insert_user_def UpdateProfile_def UpdateAdmin_def UpdateStatusMany_Users_def SetPassword_def
      BumpSessionVersion_def ResetPasswordByEmail_def update_returning_def MarkEmailVerified_def
      MarkEmailVerifiedMany_def UnverifyEmailMany_def User_SoftDelete_def SoftDeleteMany_def User_Restore_def
      RestoreMany_def User_Delete_def DeleteMany_def Let_def intro!: calm_intros intro: calm_rows)

lemma calm_credential_statements [calm_intros]:
  "calm (Prefs_GetByUserID uid)" "calm (Prefs_Upsert uid r' m at)" "calm (Passkey_Create p)"
  "calm (Passkey_GetByUserIDAndID uid i)" "calm (GetByCredentialID cid)" "calm (Passkey_ListByUserID uid)"
  "calm (Passkey_CountByUserID uid)" "calm (Passkey_DeleteByUserAndID uid i)" "calm (RenameByUserAndID uid i name)"
  "calm (UpdateLoginState i n b at)" "calm (Identity_Create x)" "calm (GetByProviderSubject k subject)"
  "calm (Identity_GetByUserIDAndID uid i)" "calm (Identity_CountByUserID uid)"
  "calm (Identity_DeleteByUserAndID uid i)" "calm (TouchLastLogin i at)"
  by (auto simp: Prefs_GetByUserID_def Prefs_Upsert_def Passkey_Create_def Passkey_GetByUserIDAndID_def
      GetByCredentialID_def Passkey_ListByUserID_def Passkey_CountByUserID_def Passkey_DeleteByUserAndID_def
      RenameByUserAndID_def UpdateLoginState_def update_passkeys_def insert_passkey_def Identity_Create_def
      insert_identity_def GetByProviderSubject_def Identity_GetByUserIDAndID_def Identity_CountByUserID_def
      Identity_DeleteByUserAndID_def TouchLastLogin_def intro!: calm_intros)

lemma calm_comment_deleter [calm_intros]:
  "calm (PrepareUserHardDelete uid)" "calm (PrepareUsersHardDelete uids)" "calm (SoftDeleteUserComments now uid)"
  "calm (SoftDeleteUsersComments now uids)"
  by (auto simp: PrepareUserHardDelete_def PrepareUsersHardDelete_def SoftDeleteUserComments_def
      SoftDeleteUsersComments_def DetachUserCommentChildren_def SoftDeleteByUser_def detach_users_def
      intro!: calm_intros)

lemma calm_profile_reads [calm_intros]: "calm (profileOf I u)" "calm (getWithPrefs I uid)" "calm (find_user e)"
proof -
  show p: "calm (profileOf I u)" for u
    unfolding profileOf_def by (intro calm_intros) (auto intro!: calm_intros split: prod.split)
  show "calm (getWithPrefs I uid)"
    unfolding getWithPrefs_def by (intro calm_intros p)
qed (auto simp: find_user_def intro!: calm_intros)

lemma calm_writeUserPlan [calm_intros]: "calm (writeUserPlan I action ids)"
  by (cases action) (auto simp: requireUserRows_def intro!: calm_intros)

lemma calm_account_admin [calm_intros]:
  "calm (batchUsers I binput)" "calm (updateUser I target input)"
  "calm (deleteUser I acting target mode confirm)" "calm (restoreUser target)"
  by (auto simp: batchUsers_def batchUsersTx_def applyAdminUserBatchPlan_def updateUser_def updateUserTx_def
      deleteUser_def applyAdminUserDeleteInTx_def ensureNotLastActiveAdmin_def restoreUser_def
      restoreAdminUserInTx_def runAdminMutation_def runAdminMutationWithActiveAdminCount_def Let_def
      intro!: calm_intros split: prod.split)

lemma calm_account_own [calm_intros]:
  "calm (setPassword I uid pw)" "calm (resetPassword I e hash)" "calm (AdminCreateUser I cinput)"
  "calm (Profile_Create I email nick r)" "calm (Profile_Update I uid nick web)"
  "calm (UpdateNotificationPreferences I uid r' m)"
  by (auto simp: setPassword_def resetPassword_def AdminCreateUser_def Profile_Create_def Profile_Update_def
      UpdateNotificationPreferences_def Let_def intro!: calm_intros split: prod.split)

lemma calm_bootstrap [calm_intros]: "calm (createAdmin I original normalized nickname password)"
proof -
  have "calm (Bootstrap_Create at admin)" for at admin
    unfolding Bootstrap_Create_def by (rule calm_stmt) (auto split: if_splits)
  then show ?thesis
    by (auto simp: createAdmin_def createAdminTx_def CreateUserWithPassword_def IsInitialized_def
        intro!: calm_intros)
qed

lemma calm_sign_in [calm_intros]:
  "calm (loginByEmail L normalized)" "calm (LoginWithPasswordFromInput L input)"
  by (auto simp: loginByEmail_def registerOnCodeLogin_def LoginWithPasswordFromInput_def loginByPassword_def
      Let_def intro!: calm_intros split: prod.split)

lemma calm_oauth [calm_intros]: "calm (resolveOAuthIdentity I p identity record)"
proof -
  have "calm (registerOAuthUser I p who normalized)" for who normalized
    by (auto simp: registerOAuthUser_def intro!: calm_intros split: prod.split)
  moreover have "calm (bindOAuthIdentity I p who u)" for who u
    by (auto simp: bindOAuthIdentity_def intro!: calm_intros)
  moreover have "calm (completeOAuthLogin I bound)" for bound
    by (auto simp: completeOAuthLogin_def intro!: calm_intros)
  ultimately show ?thesis
    by (auto simp: resolveOAuthIdentity_def intro!: calm_intros split: prod.split)
qed

lemma calm_passkeys [calm_intros]:
  "calm (loginByPasskey P wa s response)" "calm (addPasskey uid c transports)"
  "calm (RenamePasskey uid i name)" "calm (DeletePasskey uid i)" "calm (DeleteExternalIdentity uid i)"
  by (auto simp: loginByPasskey_def FinishLogin_def lookupPasskeyUser_def addPasskey_def RenamePasskey_def
      DeletePasskey_def DeleteExternalIdentity_def loginMethodCount_def Let_def
      intro!: calm_intros split: prod.split)

lemma calm_account_tx: "calm (account_tx I cmd)"
  by (cases cmd) (auto simp: leaving_def intro!: calm_intros split: prod.split)

end
