(* ===== verification/System.thy ===== *)
theory System
  imports Account_Effects
begin

text \<open>
  The whole program as one state machine.  A step runs a command of the comment system or of the
  identity service from any request, under any schedule of database failures, and leaves the rows
  it left; the clock moves forward between commands.  The invariants hold in every reachable state.
\<close>

section \<open>Steps and histories\<close>

text \<open>
  The service's clock truncates to microseconds (\<open>service.go\<close>), so a step takes place at a whole
  microsecond.  A history is a run from the empty database with the messages its steps handed
  to the bus, oldest first.
\<close>

inductive step :: "db \<Rightarrow> comment_event list \<Rightarrow> db \<Rightarrow> bool" where
  run: "1000 dvd en_now E \<Longrightarrow> exec E cmd \<lparr>data = d, faults = fs, outbox = []\<rparr> = (r, w') \<Longrightarrow>
     step d (outbox w') (data w')"
| account: "account_tx I acmd \<lparr>data = d, faults = fs, outbox = []\<rparr> = (ids, w') \<Longrightarrow>
     step d (outbox w') (data w')"
| tick: "db_clock d \<le> t \<Longrightarrow> step d [] (d\<lparr>db_clock := t\<rparr>)"

inductive history :: "comment_event list \<Rightarrow> db \<Rightarrow> bool" where
  start: "history [] empty_db"
| next_step: "history es d \<Longrightarrow> step d ms d' \<Longrightarrow> history (es @ ms) d'"

inductive_cases stepE [consumes 1, case_names run account tick]: "step d ms d'"

lemma schema_tick: "schema_ok (d\<lparr>db_clock := t\<rparr>) = schema_ok d"
  by (simp add: schema_ok_def tables_ok_def uniques_ok_def refs_ok_def)

lemma comment_inv_tick: "comment_inv d \<Longrightarrow> comment_inv (d\<lparr>db_clock := t\<rparr>)"
  by (rule comment_inv_other_tables) (auto simp: schema_tick comment_invD)

lemma comment_inv_empty: "comment_inv empty_db"
  by code_simp

lemma step_inv: "step d ms d' \<Longrightarrow> comment_inv d \<Longrightarrow> comment_inv d'"
  by (erule stepE)
    (auto dest: preservesD [OF preserves_exec] preservesD [OF preserves_account_tx] intro: comment_inv_tick)

lemma step_cases:
  assumes "step d ms d'" "schema_ok d"
  shows "posted d ms d' \<or> (calm_db d d' \<and> (\<forall>e \<in> set ms. ev_type e \<noteq> TypeCommentCreated))"
  using assms(1)
proof (cases rule: stepE)
  case (run E cmd fs r w')
  show ?thesis
  proof (cases "posts cmd")
    case True
    with post_step [OF this assms(2) run(3,4)] run show ?thesis by simp
  next
    case False
    from calmD [OF calm_exec [OF this] run(4)] run(1,2) show ?thesis by auto
  qed
next
  case (account I acmd fs ids w')
  from calmD [OF calm_account_tx account(3)] account(1,2) show ?thesis by auto
next
  case (tick t)
  then show ?thesis by (auto intro: calm_rows)
qed

section \<open>The accounts\<close>

lemma account_inv_tick: "account_inv d \<Longrightarrow> account_inv (d\<lparr>db_clock := t\<rparr>)"
  by (simp add: account_inv_def schema_tick)

lemma account_inv_empty: "account_inv empty_db"
  by code_simp

lemma step_accounts: "step d ms d' \<Longrightarrow> account_inv d \<Longrightarrow> account_inv d'"
  by (erule stepE)
    (auto dest: preservesD [OF account_rows.exec_keeps] preservesD [OF account_tx_keeps] intro: account_inv_tick)

lemma history_accounts: "history es d \<Longrightarrow> account_inv d"
  by (induction rule: history.induct) (auto intro: account_inv_empty step_accounts)

section \<open>Every reachable state\<close>

definition created_ids :: "comment_event list \<Rightarrow> int list" where
  "created_ids es = map ev_comment_id (filter (\<lambda>e. ev_type e = TypeCommentCreated) es)"

definition micro_times :: "db \<Rightarrow> bool" where
  "micro_times d \<longleftrightarrow> (\<forall>c \<in> set (db_comments d). 1000 dvd c_created_at c)"

definition announced :: "comment_event list \<Rightarrow> db \<Rightarrow> bool" where
  "announced es d \<longleftrightarrow> distinct (created_ids es) \<and> (\<forall>i \<in> set (created_ids es). i < db_next_comment d) \<and>
     c_id ` set (db_comments d) \<subseteq> set (created_ids es)"

lemma created_ids_append: "created_ids (es @ ms) = created_ids es @ created_ids ms"
  by (simp add: created_ids_def)

lemma created_ids_none: "\<forall>e \<in> set ms. ev_type e \<noteq> TypeCommentCreated \<Longrightarrow> created_ids ms = []"
  by (simp add: created_ids_def filter_empty_conv)

lemma step_announced:
  assumes "step d ms d'" "schema_ok d" "announced es d" "micro_times d"
  shows "announced (es @ ms) d'" "micro_times d'"
proof -
  from step_cases [OF assms(1,2)] have "announced (es @ ms) d' \<and> micro_times d'"
  proof
    assume "posted d ms d'"
    then consider "d' = d" "ms = []"
      | c mode where "db_comments d' = db_comments d @ [c]" "c_id c = db_next_comment d" "1000 dvd c_created_at c"
        "schema_ok d'" "ms = [comment_event TypeCommentCreated c mode]"
      unfolding posted_def by blast
    then show ?thesis
    proof cases
      case (2 c mode)
      have "c_id c < db_next_comment d'"
        using 2(1,4) by (auto simp: schema_ok_def tables_ok_def keys_ok_def)
      moreover have "created_ids ms = [c_id c]" using 2(5) by (simp add: created_ids_def comment_event_def)
      ultimately show ?thesis
        using assms(3,4) 2(1-3) by (fastforce simp: announced_def micro_times_def created_ids_append)
    qed (use assms(3,4) in simp)
  next
    assume calm: "calm_db d d' \<and> (\<forall>e \<in> set ms. ev_type e \<noteq> TypeCommentCreated)"
    then have "created_ids (es @ ms) = created_ids es" by (simp add: created_ids_append created_ids_none)
    moreover have "db_next_comment d' = db_next_comment d" using calm by (simp add: calm_db_def)
    moreover have "c_id ` set (db_comments d') \<subseteq> c_id ` set (db_comments d)"
      using calm by (fastforce simp: calm_db_def)
    moreover have "micro_times d'" using calm assms(4) unfolding calm_db_def micro_times_def by metis
    ultimately show ?thesis using assms(3) by (auto simp: announced_def)
  qed
  then show "announced (es @ ms) d'" "micro_times d'" by auto
qed

lemma history_inv: "history es d \<Longrightarrow> comment_inv d \<and> announced es d \<and> micro_times d"
proof (induction rule: history.induct)
  case start
  have "db_comments empty_db = []" by (simp add: empty_db_def)
  then show ?case by (simp add: comment_inv_empty announced_def micro_times_def created_ids_def)
next
  case (next_step es d ms d')
  then show ?case
    using step_inv [OF next_step.hyps(2)] step_announced [OF next_step.hyps(2) comment_invD(1)] by blast
qed

text \<open>
  C4: in every state any history of commands reaches, under any database failures, the schema holds,
  every comment's life-cycle columns agree with its status, every reply hangs one level below a
  comment of its own page, and every creation time is a whole microsecond.
\<close>

theorem reachable_comment_inv:
  assumes "history es d"
  shows "comment_inv d \<and> micro_times d"
  using history_inv [OF assms] by simp

text \<open>
  C5: over a whole history, whatever fails on the way, no comment is announced as created twice, and
  every comment the database holds has been announced.
\<close>

theorem comments_announced_once:
  assumes "history es d"
  shows "distinct (created_ids es) \<and> c_id ` set (db_comments d) \<subseteq> set (created_ids es)"
  using history_inv [OF assms] by (simp add: announced_def)

text \<open>
  C6: whatever history of commands, of the comment system or of the identity service, has led here, and
  whatever has failed on the way: once the instance is initialised there is an active administrator, and
  every deleted account remembers its deletion time and a live status to return to.
\<close>

theorem admins_never_run_out:
  assumes "history es d"
  shows "(ac_bootstrap (db_accounts d) \<noteq> None \<longrightarrow> (\<exists>u \<in> set (db_users d). active_admin u)) \<and>
    (\<forall>u \<in> set (db_users d). account_life u)"
  using history_accounts [OF assms] by (simp add: account_inv_def has_admin_def)

section \<open>A run\<close>

text \<open>A site is created, its origin is allowed, and a guest posts the first comment of a page.\<close>

definition run_from :: "db \<Rightarrow> command \<Rightarrow> (db, comment_event) world" where
  "run_from d cmd = snd (exec sample_env cmd \<lparr>data = d, faults = [], outbox = []\<rparr>)"

definition first_post :: create_input where
  "first_post = (sample_input ''guest@example.org'')\<lparr>ci_parent_id := None, ci_origin := ''https://blog.example''\<rparr>"

definition site_world :: "(db, comment_event) world" where
  "site_world = run_from empty_db (CmdSiteCreate ''blog'' ''https://blog.example'')"

definition origin_world :: "(db, comment_event) world" where
  "origin_world = run_from (data site_world) (CmdOriginAdd 1 ''https://blog.example'')"

definition post_world :: "(db, comment_event) world" where
  "post_world = run_from (data origin_world) (CmdCreate first_post)"

lemma run_from_step: "step d (outbox (run_from d cmd)) (data (run_from d cmd))"
  by (rule step.run [of sample_env cmd d "[]" "fst (exec sample_env cmd \<lparr>data = d, faults = [], outbox = []\<rparr>)"])
    (simp_all add: run_from_def sample_env_def)

lemma quiet_setup: "outbox site_world = []" "outbox origin_world = []"
  by code_simp+

lemma sample_history: "history (outbox post_world) (data post_world)"
proof -
  have "history ([] @ outbox site_world) (data site_world)"
    unfolding site_world_def by (rule next_step [OF start run_from_step])
  then have "history (([] @ outbox site_world) @ outbox origin_world) (data origin_world)"
    unfolding origin_world_def by (rule next_step [OF _ run_from_step])
  then have "history ([] @ outbox post_world) (data post_world)"
    unfolding post_world_def quiet_setup by (intro next_step [OF _ run_from_step]) simp
  then show ?thesis by simp
qed

lemma reachable_comment_inv_witness: "comment_inv (data post_world)"
  using reachable_comment_inv [OF sample_history] by simp

lemma comments_announced_once_witness:
  "map c_id (db_comments (data post_world)) = [1] \<and> distinct (created_ids (outbox post_world))"
proof -
  have "map c_id (db_comments (data post_world)) = [1]" by code_simp
  with comments_announced_once [OF sample_history] show ?thesis by simp
qed

text \<open>The first administrator is created.\<close>

definition sample_identity :: identity_env where
  "sample_identity = \<lparr>id_lib = en_url_lib sample_env, id_avatar = en_avatar sample_env,
     id_policy = Inr (True, CommentModeAuthenticated),
     id_email_policy = Inr ([], [], ''''), id_captcha_policy = Inr (\<lambda>_. False), id_captcha = None,
     id_kdf = (\<lambda>pw salt t m p n. pw @ salt), id_salt = Inr ''salt'', id_csrf = Inr ''csrf'',
     id_sign = (\<lambda>uid v. Inr ''token''), id_lifetime = 1000, id_comment_deleter = True, id_now = 5000\<rparr>"

definition boot_world :: "(db, comment_event) world" where
  "boot_world = snd (leaving ([] :: int list)
     (createAdmin sample_identity ''root@example.org'' ''root@example.org'' ''root'' ''password'')
     \<lparr>data = empty_db, faults = [], outbox = []\<rparr>)"

lemma boot_data: "ac_bootstrap (db_accounts (data boot_world)) \<noteq> None \<and> outbox boot_world = []"
  by (simp add: boot_world_def leaving_def createAdmin_def createAdminTx_def IsInitialized_def sql_query_def query_def
    atomically_def attempt_def
    FindByEmailNormalized_def first_or_not_found_def CreateUserWithPassword_def hashPassword_def sample_identity_def
    CreateWithPassword_def insert_user_def Bootstrap_Create_def stmt_def sql_write_def checked_def Let_def bind_def ret_def fail_def lift_def
    empty_db_def no_accounts_def select_first_def schema_ok_def tables_ok_def keys_ok_def uniques_ok_def refs_ok_def accounts_ok_def
    user_checks_def with_password_def account_of_def map_accounts_def)
lemma boot_history: "history [] (data boot_world)"
proof -
  have "outbox boot_world = []" using boot_data by simp
  moreover have "step empty_db (outbox boot_world) (data boot_world)"
    unfolding boot_world_def account_tx.simps(12) [symmetric] by (rule step.account [OF surjective_pairing])
  ultimately show ?thesis using next_step [OF start] by fastforce
qed

lemma admins_never_run_out_witness:
  "ac_bootstrap (db_accounts (data boot_world)) \<noteq> None \<and> (\<exists>u \<in> set (db_users (data boot_world)). active_admin u)"
proof -
  have "ac_bootstrap (db_accounts (data boot_world)) \<noteq> None" using boot_data by simp
  with admins_never_run_out [OF boot_history] show ?thesis by blast
qed

end
