(* ===== verification/Authz_Rows.thy ===== *)
theory Authz_Rows
  imports Account_Effects
begin

text \<open>
  Which accounts a command may change for the authorisation: what the rows say of any other account,
  its role, its status and its session version, is the same after the command as before.
\<close>

section \<open>What the rows say\<close>

definition authz_at :: "db \<Rightarrow> int \<Rightarrow> authz_info option" where
  "authz_at d uid = map_option authz_of (select_first (\<lambda>u. u_id u = uid) (db_users d))"

definition authz_is :: "int \<Rightarrow> authz_info \<Rightarrow> db \<Rightarrow> bool" where
  "authz_is uid i d \<longleftrightarrow> schema_ok d \<and> authz_at d uid = Some i"

lemma authz_is_iff:
  "authz_is uid i d \<longleftrightarrow> schema_ok d \<and> (\<exists>u \<in> set (db_users d). u_id u = uid \<and> authz_of u = i)"
proof (cases "schema_ok d")
  case True
  have "authz_at d uid = Some i \<longleftrightarrow> (\<exists>u \<in> set (db_users d). u_id u = uid \<and> authz_of u = i)"
  proof
    assume "authz_at d uid = Some i"
    then show "\<exists>u \<in> set (db_users d). u_id u = uid \<and> authz_of u = i"
      by (auto simp: authz_at_def dest: select_first_Some)
  next
    assume "\<exists>u \<in> set (db_users d). u_id u = uid \<and> authz_of u = i"
    then obtain u where "u \<in> set (db_users d)" "u_id u = uid" "authz_of u = i" by blast
    then show "authz_at d uid = Some i"
      using select_first_key [OF distinct_users [OF True], of u] by (simp add: authz_at_def)
  qed
  with True show ?thesis by (simp add: authz_is_def)
qed (simp add: authz_is_def)

lemma authz_is_same: "authz_is uid i d \<Longrightarrow> schema_ok d' \<Longrightarrow> db_users d' = db_users d \<Longrightarrow> authz_is uid i d'"
  by (simp add: authz_is_iff)

text \<open>An update that leaves the account's three columns, a deletion that leaves the account.\<close>

lemma authz_update:
  assumes "authz_is uid i d" "schema_ok (snd (update_users P f d))"
    "\<And>u. u \<in> set (db_users d) \<Longrightarrow> u_id u = uid \<Longrightarrow> P u \<Longrightarrow> u_id (f u) = uid \<and> authz_of (f u) = authz_of u"
  shows "authz_is uid i (snd (update_users P f d))"
proof -
  obtain u where u: "u \<in> set (db_users d)" "u_id u = uid" "authz_of u = i"
    using assms(1) by (auto simp: authz_is_iff)
  let ?g = "\<lambda>u. (f u)\<lparr>u_updated_at := db_clock d\<rparr>"
  have "(if P u then ?g u else u) \<in> set (update_where P ?g (db_users d))"
    using u(1) by (auto simp: set_update_where)
  moreover have "u_id (if P u then ?g u else u) = uid \<and> authz_of (if P u then ?g u else u) = i"
    using u assms(3) [OF u(1,2)] by (auto simp: authz_of_def)
  ultimately show ?thesis
    using assms(2) unfolding authz_is_iff by (auto simp: update_users_def)
qed

lemma authz_update_other:
  assumes "authz_is uid i d" "schema_ok (snd (update_users P f d))"
    "\<And>u. u \<in> set (db_users d) \<Longrightarrow> u_id u = uid \<Longrightarrow> \<not> P u"
  shows "authz_is uid i (snd (update_users P f d))"
  by (rule authz_update [OF assms(1,2)]) (use assms(3) in blast)

lemma authz_delete:
  "authz_is uid i d \<Longrightarrow> schema_ok (snd (delete_users P d)) \<Longrightarrow> (\<And>u. u_id u = uid \<Longrightarrow> \<not> P u) \<Longrightarrow>
     authz_is uid i (snd (delete_users P d))"
  unfolding authz_is_iff by (auto simp: delete_users_def keep_accounts_def Let_def)

lemma authz_new:
  "authz_is uid i d \<Longrightarrow> schema_ok (snd (insert_user u d)) \<Longrightarrow> authz_is uid i (snd (insert_user u d))"
  unfolding authz_is_iff by (auto simp: insert_user_def Let_def)

lemma authz_of_rows [simp]:
  "authz_of (u\<lparr>u_nickname := n, u_website_url := web\<rparr>) = authz_of u"
  "authz_of (u\<lparr>u_email_verified_at := v\<rparr>) = authz_of u"
  by (simp_all add: authz_of_def)

interpretation authz_rows: account_use_cases "authz_is uid i" for uid i
proof unfold_locales
  show "authz_is uid i d'" if "authz_is uid i d" "schema_ok d'" "db_users d' = db_users d" for d d'
    using authz_is_same [OF that] .
  show "preserves (authz_is uid i) (User_Create u)" for u
    by (auto simp: User_Create_def intro!: preserves_intros authz_new)
  show "preserves (authz_is uid i) (UpdateProfile uid' nickname website)" for uid' nickname website
    by (auto simp: UpdateProfile_def intro!: preserves_intros authz_update)
  show "preserves (authz_is uid i) (CreateWithPassword u hash at)" for u hash at
    by (auto simp: CreateWithPassword_def intro!: preserves_intros authz_new)
  show "preserves (authz_is uid i) (MarkEmailVerified uid' at)" for uid' at
    by (auto simp: MarkEmailVerified_def FindByID_def intro!: preserves_intros authz_update)
qed

section \<open>Commands that concern no account's authorisation\<close>

lemma authz_keeps_many [preserves_intros]:
  "preserves (authz_is uid i) (MarkEmailVerifiedMany ids at)" "preserves (authz_is uid i) (UnverifyEmailMany ids)"
  by (auto simp: MarkEmailVerifiedMany_def UnverifyEmailMany_def intro!: preserves_intros authz_update)

lemma authz_keeps_createAdmin [preserves_intros]:
  "preserves (authz_is uid i) (createAdmin I original normalized nickname password)"
proof -
  have "preserves (authz_is uid i) (Bootstrap_Create at admin)" for at admin
    unfolding Bootstrap_Create_def
    by (rule preserves_stmt) (auto split: if_splits simp: authz_is_iff schema_bootstrap [unfolded map_accounts_def] map_accounts_def)
  then show ?thesis
    by (auto simp: createAdmin_def createAdminTx_def CreateUserWithPassword_def account_of_def Let_def
        intro!: preserves_intros)
qed

section \<open>Commands that name the accounts they change\<close>

text \<open>The account is the same as before, unless the command names it.\<close>

definition covered :: "int \<Rightarrow> authz_info \<Rightarrow> error + int list \<Rightarrow> db \<Rightarrow> bool" where
  "covered uid i r d' \<longleftrightarrow> (case r of Inl _ \<Rightarrow> authz_is uid i d' | Inr ids \<Rightarrow> uid \<notin> set ids \<longrightarrow> authz_is uid i d')"

lemma covered_simps [simp]:
  "covered uid i (Inl e) d' = authz_is uid i d'"
  "covered uid i (Inr ids) d' = (uid \<notin> set ids \<longrightarrow> authz_is uid i d')"
  by (simp_all add: covered_def)

lemma wp_preserved: "preserves I m \<Longrightarrow> I d \<Longrightarrow> wp m (\<lambda>r d' os'. I d') d os"
  unfolding wpf_def preserves_def by (auto split: prod.splits)

lemma wp_leaving [wp_intros]:
  "wpf f m (\<lambda>r d' os'. Q (case r of Inl e \<Rightarrow> Inl e | Inr _ \<Rightarrow> Inr x) d' os') d os \<Longrightarrow> wpf f (leaving x m) Q d os"
  unfolding leaving_def by (rule wp_bind, erule wp_mono) (auto intro: wp_intros split: sum.splits)

lemma covered_quiet:
  assumes "preserves (authz_is uid i) m" "authz_is uid i d"
  shows "wp (leaving ids m) (\<lambda>r d' os'. covered uid i r d') d os"
  by (rule wp_leaving, rule wp_mono [OF wp_preserved [OF assms]]) (auto split: sum.splits)

text \<open>A transaction on one account.\<close>

lemma covered_target:
  assumes other: "target \<noteq> uid \<Longrightarrow> preserves (authz_is uid i) m" and d: "authz_is uid i d"
  shows "wp (leaving [target] (atomically ErrInfra m)) (\<lambda>r d' os'. covered uid i r d') d os"
proof -
  have "wp m (\<lambda>r d' os'. uid \<noteq> target \<longrightarrow> authz_is uid i d') d os"
  proof (cases "uid = target")
    case True
    then show ?thesis by (simp add: wpf_def split: prod.splits)
  next
    case False
    with wp_mono [OF wp_preserved [OF other d]] show ?thesis by auto
  qed
  then show ?thesis
    by (intro wp_leaving wp_atomically) (erule wp_mono, auto simp: d split: sum.splits)
qed

lemma authz_other_statements [preserves_intros]:
  "target \<noteq> uid \<Longrightarrow> preserves (authz_is uid i) (SetPassword target hash at)"
  "target \<noteq> uid \<Longrightarrow> preserves (authz_is uid i) (BumpSessionVersion target)"
  "target \<noteq> uid \<Longrightarrow> preserves (authz_is uid i) (User_SoftDelete target st at)"
  "target \<noteq> uid \<Longrightarrow> preserves (authz_is uid i) (User_Restore target)"
  "target \<noteq> uid \<Longrightarrow> preserves (authz_is uid i) (User_Delete target)"
  "target \<noteq> uid \<Longrightarrow> preserves (authz_is uid i) (UpdateAdmin target F)"
  by (auto simp: SetPassword_def BumpSessionVersion_def update_returning_def User_SoftDelete_def User_Restore_def
      User_Delete_def UpdateAdmin_def Let_def intro!: preserves_intros authz_update_other authz_delete)

lemma found_target:
  "preserves I (FindByID target) \<Longrightarrow> (\<And>u. u_id u = target \<Longrightarrow> preserves I (g u)) \<Longrightarrow>
     preserves I (bind (FindByID target) g)"
  by (rule preserves_bind_yields [of _ _ "\<lambda>u. u_id u = target"])
    (auto simp: yields_def FindByID_def prog_elims dest!: select_first_Some)

lemma delete_covered:
  assumes "authz_is uid i d"
  shows "wp (leaving [target] (deleteUser I acting target mode confirm)) (\<lambda>r d' os'. covered uid i r d') d os"
proof -
  have "preserves (authz_is uid i) (bind LockActiveAdmins (\<lambda>_. bind (FindByID target) (\<lambda>u.
      applyAdminUserDeleteInTx I acting u mode confirm)))" if "target \<noteq> uid"
    by (intro preserves_intros found_target)
      (use that in \<open>auto simp: applyAdminUserDeleteInTx_def ensureNotLastActiveAdmin_def Let_def intro!: preserves_intros\<close>)
  then have "wp (leaving [target] (runAdminMutation (bind (FindByID target) (\<lambda>u.
      applyAdminUserDeleteInTx I acting u mode confirm)))) (\<lambda>r d' os'. covered uid i r d') d os"
    unfolding runAdminMutation_def runAdminMutationWithActiveAdminCount_def
    by (rule covered_target [OF _ assms])
  note adm = this
  have err: "wp (leaving [target] (fail e :: bool sql)) (\<lambda>r d' os'. covered uid i r d') d os" for e
    by (intro wp_intros) (simp add: assms)
  show ?thesis
    unfolding deleteUser_def
    by (cases "acting = target"; cases "mode \<noteq> UserDeleteModeSoft \<and> mode \<noteq> UserDeleteModeHard";
        cases "mode = UserDeleteModeHard \<and> \<not> confirm"; simp only: if_True if_False err adm simp_thms)
qed

lemma restore_covered:
  assumes "authz_is uid i d"
  shows "wp (bind (restoreUser target) (\<lambda>restored. ret (if restored then [target] else [])))
    (\<lambda>r d' os'. covered uid i r d') d os"
  unfolding restoreUser_def restoreAdminUserInTx_def FindByID_def User_Restore_def
  by (auto simp: assms intro!: wp_intros authz_update_other dest!: select_first_Some split: sum.splits)

lemma reset_covered:
  assumes "authz_is uid i d"
  shows "wp (bind (resetPassword I e hash) (\<lambda>uid. ret [uid])) (\<lambda>r d' os'. covered uid i r d') d os"
proof -
  have ok: "schema_ok d" using assms by (simp add: authz_is_def)
  have "authz_is uid i (snd (update_users (\<lambda>u. u_email_normalized u = e) f d))"
    if "select_first (\<lambda>u. u_email_normalized u = e) (db_users d) = Some u" "uid \<noteq> u_id u"
      "schema_ok (snd (update_users (\<lambda>u. u_email_normalized u = e) f d))" for u f
  proof (rule authz_update_other [OF assms that(3)])
    have "distinct (map u_email_normalized (db_users d))" using ok by (simp add: schema_ok_def uniques_ok_def)
    then show "u_email_normalized v \<noteq> e" if "v \<in> set (db_users d)" "u_id v = uid" for v
      using that select_first_Some [OF \<open>select_first _ _ = Some u\<close>] \<open>uid \<noteq> u_id u\<close> distinct_key_unique by metis
  qed
  then show ?thesis
    unfolding resetPassword_def ResetPasswordByEmail_def update_returning_def
    by (auto simp: assms Let_def coalesce_verified_def bump_session_def with_password_def
        intro!: wp_intros split: sum.splits)
qed

lemma update_covered:
  assumes "authz_is uid i d"
  shows "wp (bind (updateUser I target input) (\<lambda>changed. ret (if changed then [target] else [])))
    (\<lambda>r d' os'. covered uid i r d') d os"
proof -
  have ok: "schema_ok d" using assms by (simp add: authz_is_def)
  have same: "authz_is uid i (snd (update_users (\<lambda>x. u_id x = target) (apply_fields (changed_fields now input v u)) d))"
    if "select_first (\<lambda>x. u_id x = target) (db_users d) = Some u"
      "(nx_role v \<noteq> u_role u \<or> nx_status v \<noteq> u_status u) \<longrightarrow> uid \<noteq> target"
      "schema_ok (snd (update_users (\<lambda>x. u_id x = target) (apply_fields (changed_fields now input v u)) d))" for now v u
  proof (rule authz_update [OF assms that(3)])
    fix x assume x: "x \<in> set (db_users d)" "u_id x = uid" "u_id x = target"
    then have "x = u" using select_first_Some [OF that(1)] user_unique [OF ok] by blast
    then show "u_id (apply_fields (changed_fields now input v u) x) = uid \<and>
        authz_of (apply_fields (changed_fields now input v u) x) = authz_of x"
      using that(2) x by (auto simp: authz_of_def changed_fields_row) (auto simp: apply_fields_def)
  qed
  have "wp (updateUserTx I target input) (\<lambda>r d' os'. case r of Inl e \<Rightarrow> True | Inr changed \<Rightarrow>
      (changed \<longrightarrow> uid \<noteq> target) \<longrightarrow> authz_is uid i d') d os"
    unfolding updateUserTx_def FindByID_def CountByRoleAndStatus_def UpdateAdmin_def Let_def
    by (rule wp_intros)+ (auto simp: assms intro!: wp_intros same split: sum.splits)
  then have "wp (updateUserTx I target input) (\<lambda>r d' os'. case r of Inl e \<Rightarrow> authz_is uid i d | Inr changed \<Rightarrow>
      ((changed \<longrightarrow> uid \<noteq> target) \<longrightarrow> authz_is uid i d') \<and> (True \<longrightarrow> authz_is uid i d)) d os"
    by (rule wp_mono) (auto simp: assms split: sum.splits)
  then show ?thesis
    unfolding updateUser_def runAdminMutation_def runAdminMutationWithActiveAdminCount_def LockActiveAdmins_def
    by (auto simp: assms intro!: wp_intros elim!: wp_mono split: sum.splits if_splits)
qed

section \<open>The batch\<close>

definition authz_neutral :: "user_batch_action \<Rightarrow> bool" where
  "authz_neutral action \<longleftrightarrow> action = AdminUserBatchVerifyEmail \<or> action = AdminUserBatchUnverifyEmail"

lemma plan_action_authz:
  "planAdminUserBatchAction acting u action count = Inr (changed, authz, left) \<Longrightarrow> \<not> authz_neutral action \<Longrightarrow>
     authz = changed"
  by (auto simp: planAdminUserBatchAction_def authz_neutral_def bindE_Inr_iff
      split: if_splits user_batch_action.splits)

lemma planUsers_authz:
  "planUsers acting action rows ids count = Inr p \<Longrightarrow> \<not> authz_neutral action \<Longrightarrow> up_authz p = up_changed p"
proof (induction ids arbitrary: count p)
  case (Cons j ids)
  then show ?case
    by (auto simp: bindE_Inr_iff dest: plan_action_authz split: option.splits sum.splits if_splits)
qed auto

lemma writeUserPlan_other [preserves_intros]:
  assumes "authz_neutral action \<or> uid \<notin> set ids"
  shows "preserves (authz_is uid i) (writeUserPlan I action ids)"
  using assms
  by (cases action)
    (auto simp: requireUserRows_def UpdateStatusMany_Users_def SoftDeleteMany_def RestoreMany_def DeleteMany_def
      authz_neutral_def intro!: preserves_intros authz_update_other authz_delete)

lemma batch_covered:
  assumes "authz_is uid i d"
  shows "wp (bind (batchUsers I input) (\<lambda>(_, plan). ret (up_authz plan))) (\<lambda>r d' os'. covered uid i r d') d os"
proof -
  have wr: "wp (writeUserPlan I action (up_changed p)) (\<lambda>r d' os'. uid \<notin> set (up_authz p) \<longrightarrow> authz_is uid i d') d os"
    if "planUsers acting action rows ids count = Inr p" for acting action rows ids count p os
  proof (cases "authz_neutral action \<or> uid \<notin> set (up_changed p)")
    case True
    show ?thesis
      by (rule wp_mono [OF wp_preserved [OF writeUserPlan_other [OF True] assms]]) simp
  next
    case False
    then show ?thesis
      using planUsers_authz [OF that] by (simp add: wpf_def split: prod.splits)
  qed
  have plan: "wp (applyAdminUserBatchPlan I acting action ids count) (\<lambda>r d' os'. case r of Inl e \<Rightarrow> authz_is uid i d
      | Inr p \<Rightarrow> (uid \<notin> set (up_authz p) \<longrightarrow> authz_is uid i d') \<and> (True \<longrightarrow> authz_is uid i d)) d os"
    for acting action ids count os
  proof -
    let ?rows = "filter (\<lambda>u. u_id u \<in> set ids) (db_users d)"
    let ?Q = "\<lambda>r d' os'. case r of Inl e \<Rightarrow> authz_is uid i d
      | Inr p \<Rightarrow> (uid \<notin> set (up_authz p) \<longrightarrow> authz_is uid i d') \<and> (True \<longrightarrow> authz_is uid i d)"
    have "wp (bind (writeUserPlan I action (up_changed p)) (\<lambda>_. ret p)) ?Q d os"
      if "planUsers acting action ?rows ids count = Inr p" for p
      by (rule wp_bind, rule wp_mono [OF wr [OF that]]) (auto simp: assms intro!: wp_intros split: sum.splits)
    then show ?thesis
      unfolding applyAdminUserBatchPlan_def
      by (intro wp_bind wp_FindByIDsLocked) (auto simp: assms intro!: wp_intros split: sum.splits)
  qed
  have plan': "wp (applyAdminUserBatchPlan I acting action ids count)
      (\<lambda>r d' os'. \<forall>p. r = Inr p \<longrightarrow> uid \<notin> set (up_authz p) \<longrightarrow> authz_is uid i d') d os"
    for acting action ids count os
    by (rule wp_mono [OF plan]) auto
  have tx: "wp (batchUsersTx I acting action ids) (\<lambda>r d' os'. case r of Inl e \<Rightarrow> authz_is uid i d'
      | Inr p \<Rightarrow> uid \<notin> set (up_authz p) \<longrightarrow> authz_is uid i d') d os" for acting action ids os
    unfolding batchUsersTx_def runAdminMutationWithActiveAdminCount_def LockActiveAdmins_def
    by (auto simp: assms plan' intro!: wp_intros split: sum.splits)
  show ?thesis
  proof (cases "checkUserBatch input")
    case (Inr a)
    then have eq: "batchUsers I input =
        bind (batchUsersTx I (ub_acting_id input) (fst a) (snd a)) (\<lambda>plan. ret (snd a, plan))"
      by (cases a) (auto simp: batchUsers_def bind_def lift_def fun_eq_iff split: prod.splits sum.splits)
    show ?thesis
      unfolding eq
      by (intro wp_bind, rule wp_mono [OF tx]) (auto simp: assms intro!: wp_intros split: sum.splits)
  qed (auto simp: batchUsers_def assms intro!: wp_intros)
qed

theorem account_tx_covers:
  assumes "authz_is uid i d"
  shows "wp (account_tx I cmd) (\<lambda>r d' os'. covered uid i r d') d os"
proof (cases cmd)
  case (AcSetPassword target password)
  have "preserves (authz_is uid i) (setPassword I target password)" if "target \<noteq> uid"
    using that by (auto simp: setPassword_def intro!: preserves_intros)
  then show ?thesis unfolding AcSetPassword account_tx.simps by (rule covered_target [OF _ assms])
next
  case (AcRevoke target)
  have "preserves (authz_is uid i) (BumpSessionVersion target)" if "target \<noteq> uid"
    using that by (auto intro!: preserves_intros)
  then show ?thesis unfolding AcRevoke account_tx.simps by (rule covered_target [OF _ assms])
qed (use assms in \<open>auto intro!: covered_quiet batch_covered update_covered delete_covered restore_covered
  reset_covered preserves_intros\<close>)

text \<open>
  The session generation of an account never goes back: no command lowers it, and an account that is
  gone does not come back under the same id.
\<close>

definition generation :: "int \<Rightarrow> int \<Rightarrow> db \<Rightarrow> bool" where
  "generation uid n d \<longleftrightarrow> schema_ok d \<and> uid < db_next_user d \<and>
     (\<forall>u \<in> set (db_users d). u_id u = uid \<longrightarrow> n \<le> u_session_version u)"

lemma generation_same:
  "generation uid n d \<Longrightarrow> schema_ok d' \<Longrightarrow> db_users d' = db_users d \<Longrightarrow> db_next_user d' = db_next_user d \<Longrightarrow>
     generation uid n d'"
  by (simp add: generation_def)

lemma generation_update:
  assumes "generation uid n d" "schema_ok (snd (update_users P f d))"
    "\<And>u. u_id (f u) = u_id u \<and> u_session_version u \<le> u_session_version (f u)"
  shows "generation uid n (snd (update_users P f d))"
  using assms(1,2) order_trans [OF _ conjunct2 [OF assms(3)]] assms(3)
  by (auto simp: generation_def update_users_def set_update_where)

lemma generation_delete:
  "generation uid n d \<Longrightarrow> schema_ok (snd (delete_users P d)) \<Longrightarrow> generation uid n (snd (delete_users P d))"
  by (auto simp: generation_def delete_users_def keep_accounts_def cascade_def Let_def)

lemma generation_new:
  "generation uid n d \<Longrightarrow> schema_ok (snd (insert_user u d)) \<Longrightarrow> generation uid n (snd (insert_user u d))"
  by (auto simp: generation_def insert_user_def Let_def)

definition ages :: "(user \<Rightarrow> user) \<Rightarrow> bool" where
  "ages f \<longleftrightarrow> (\<forall>u. u_id (f u) = u_id u \<and> u_session_version u \<le> u_session_version (f u))"

lemma generation_ages:
  "generation uid n d \<Longrightarrow> schema_ok (snd (update_users P f d)) \<Longrightarrow> ages f \<Longrightarrow>
     generation uid n (snd (update_users P f d))"
  by (rule generation_update) (auto simp: ages_def)

lemma ages_rows [simp]:
  "ages (\<lambda>u. u\<lparr>u_nickname := x, u_website_url := web\<rparr>)" "ages (\<lambda>u. u\<lparr>u_email_verified_at := v\<rparr>)"
  "ages (\<lambda>u. bump_session (with_password h at u))" "ages bump_session"
  "ages (\<lambda>u. coalesce_verified t (bump_session (with_password h at u)))"
  "ages (apply_fields F)" "ages (\<lambda>u. u\<lparr>u_status := st\<rparr>)" "ages (delete_columns before at)"
  "ages (\<lambda>u. delete_columns (g u) at u)"
  "ages (restore_columns st)" "ages (\<lambda>u. restore_columns (g u) u)"
  by (simp_all add: ages_def apply_fields_def bump_session_def with_password_def coalesce_verified_def
      delete_columns_def restore_columns_def)

interpretation generations: account_use_cases "generation uid n" for uid n
proof unfold_locales
  show "preserves (generation uid n) (User_Create u)" for u
    by (auto simp: User_Create_def intro!: preserves_intros generation_new)
  show "preserves (generation uid n) (UpdateProfile uid' nickname website)" for uid' nickname website
    by (auto simp: UpdateProfile_def intro!: preserves_intros generation_ages)
  show "preserves (generation uid n) (CreateWithPassword u hash at)" for u hash at
    by (auto simp: CreateWithPassword_def intro!: preserves_intros generation_new)
  show "preserves (generation uid n) (MarkEmailVerified uid' at)" for uid' at
    by (auto simp: MarkEmailVerified_def FindByID_def intro!: preserves_intros generation_ages)
qed (rule generation_same)

lemma generation_statements [preserves_intros]:
  "preserves (generation uid n) (MarkEmailVerifiedMany ids at)" "preserves (generation uid n) (UnverifyEmailMany ids)"
  "preserves (generation uid n) (SetPassword target hash at)" "preserves (generation uid n) (BumpSessionVersion target)"
  "preserves (generation uid n) (User_SoftDelete target st at)" "preserves (generation uid n) (User_Restore target)"
  "preserves (generation uid n) (User_Delete target)" "preserves (generation uid n) (UpdateAdmin target F)"
  "preserves (generation uid n) (UpdateStatusMany_Users ids st)" "preserves (generation uid n) (SoftDeleteMany ids at)"
  "preserves (generation uid n) (RestoreMany ids)" "preserves (generation uid n) (DeleteMany ids)"
  "preserves (generation uid n) (ResetPasswordByEmail e hash at v)"
  by (auto simp: MarkEmailVerifiedMany_def UnverifyEmailMany_def SetPassword_def BumpSessionVersion_def
      update_returning_def User_SoftDelete_def User_Restore_def User_Delete_def UpdateAdmin_def
      UpdateStatusMany_Users_def SoftDeleteMany_def RestoreMany_def DeleteMany_def ResetPasswordByEmail_def Let_def
      intro!: preserves_intros generation_ages generation_delete)

lemma generation_createAdmin [preserves_intros]:
  "preserves (generation uid n) (createAdmin I original normalized nickname password)"
proof -
  have "preserves (generation uid n) (Bootstrap_Create at admin)" for at admin
    unfolding Bootstrap_Create_def
    by (rule preserves_stmt) (auto split: if_splits simp: generation_def schema_bootstrap [unfolded map_accounts_def] map_accounts_def)
  then show ?thesis
    by (auto simp: createAdmin_def createAdminTx_def CreateUserWithPassword_def account_of_def Let_def
        intro!: preserves_intros)
qed

lemma generation_admin [preserves_intros]:
  "preserves (generation uid n) (deleteUser I acting target mode confirm)"
  "preserves (generation uid n) (restoreUser target)" "preserves (generation uid n) (updateUser I target input)"
  "preserves (generation uid n) (setPassword I target password)" "preserves (generation uid n) (resetPassword I e hash)"
  by (auto simp: deleteUser_def applyAdminUserDeleteInTx_def ensureNotLastActiveAdmin_def runAdminMutation_def
      runAdminMutationWithActiveAdminCount_def restoreUser_def restoreAdminUserInTx_def updateUser_def updateUserTx_def
      setPassword_def resetPassword_def Let_def intro!: preserves_intros split: prod.split)

lemma generation_batch [preserves_intros]: "preserves (generation uid n) (batchUsers I input)"
proof -
  have "preserves (generation uid n) (writeUserPlan I action ids)" for action ids
    by (cases action) (auto simp: requireUserRows_def intro!: preserves_intros)
  then show ?thesis
    by (auto simp: batchUsers_def batchUsersTx_def applyAdminUserBatchPlan_def runAdminMutationWithActiveAdminCount_def
        intro!: preserves_intros split: prod.split)
qed

lemma generation_account_tx: "preserves (generation uid n) (account_tx I cmd)"
  by (cases cmd) (auto intro!: preserves_intros split: prod.split)

end
