(* ===== verification/Authz_World.thy ===== *)
theory Authz_World
  imports Authz_Rows Cache_Props Sample
begin

text \<open>
  Requests that resolve their principal through the authorisation cache, next to the commands that
  change the accounts.  A resolution is several steps, a lookup, a query and a write to the cache, all under the
  user's lock; a command commits its transaction first and deletes the cached entries of the accounts it
  names in later steps, which wait for the lock.  Every other step may come in between.
\<close>

section \<open>States and steps\<close>

text \<open>Where the holder of a user's lock is, and the invalidations that have not succeeded yet.\<close>

datatype lookup = Idle | Missed | Loaded authz_info

record authz_world =
  aw_db :: db
  aw_memory :: memory
  aw_now :: int
  aw_lookup :: "int \<Rightarrow> lookup"
  aw_pending :: "int list"

datatype authz_label = Quiet | Answered int authz_info

definition at_lookup :: "int \<Rightarrow> lookup \<Rightarrow> authz_world \<Rightarrow> authz_world" where
  "at_lookup uid l w = w\<lparr>aw_lookup := (aw_lookup w)(uid := l)\<rparr>"

definition missed :: "cache_error \<Rightarrow> lookup" where
  "missed e = (if e = Cache_ErrNotFound then Missed else Idle)"

definition loaded :: "error + authz_info \<Rightarrow> lookup" where
  "loaded r = (case r of Inl _ \<Rightarrow> Idle | Inr info \<Rightarrow> Loaded info)"

definition published :: "authz_codec \<Rightarrow> int \<Rightarrow> authz_info \<Rightarrow> cache_error + unit \<Rightarrow> authz_label" where
  "published C uid info r =
     (case r of
        Inl _ \<Rightarrow> Quiet
      | Inr _ \<Rightarrow> (case Option.bind (az_marshal C info) (az_unmarshal C) of
                    None \<Rightarrow> Quiet | Some i \<Rightarrow> Answered uid i))"

definition named :: "error + int list \<Rightarrow> int list" where
  "named r = (case r of Inl _ \<Rightarrow> [] | Inr ids \<Rightarrow> ids)"

inductive authz_step :: "authz_codec \<Rightarrow> authz_world \<Rightarrow> authz_label \<Rightarrow> authz_world \<Rightarrow> bool" for C where
  comments: "exec E cmd \<lparr>data = aw_db w, faults = fs, outbox = []\<rparr> = (r, v) \<Longrightarrow>
     authz_step C w Quiet (w\<lparr>aw_db := data v\<rparr>)"
| account: "account_tx I acmd \<lparr>data = aw_db w, faults = fs, outbox = []\<rparr> = (ids, v) \<Longrightarrow>
     authz_step C w Quiet (w\<lparr>aw_db := data v, aw_pending := named ids @ aw_pending w\<rparr>)"
| time: "aw_now w \<le> t \<Longrightarrow> authz_step C w Quiet (w\<lparr>aw_now := t\<rparr>)"
| hit: "aw_lookup w uid = Idle \<Longrightarrow>
     Memory_Get (az_unmarshal C) ctx (aw_now w) (authzKey uid) (aw_memory w) = (Inr info, s) \<Longrightarrow>
     authz_step C w (Answered uid info) (w\<lparr>aw_memory := s\<rparr>)"
| miss: "aw_lookup w uid = Idle \<Longrightarrow>
     Memory_Get (az_unmarshal C) ctx (aw_now w) (authzKey uid) (aw_memory w) = (Inl e, s) \<Longrightarrow>
     authz_step C w Quiet (at_lookup uid (missed e) (w\<lparr>aw_memory := s\<rparr>))"
| load: "aw_lookup w uid = Missed \<Longrightarrow>
     load_authz uid \<lparr>data = aw_db w, faults = fs, outbox = []\<rparr> = (ld, v) \<Longrightarrow>
     authz_step C w Quiet (at_lookup uid (loaded ld) w)"
| publish: "aw_lookup w uid = Loaded info \<Longrightarrow>
     publish_authz C (aw_now w) uid info (aw_memory w) = (pb, s) \<Longrightarrow>
     authz_step C w (published C uid info pb) (at_lookup uid Idle (w\<lparr>aw_memory := s\<rparr>))"
| invalidate: "uid \<in> set (aw_pending w) \<Longrightarrow> aw_lookup w uid = Idle \<Longrightarrow>
     Memory_Delete (authzKey uid) (aw_memory w) = (q, s) \<Longrightarrow>
     authz_step C w Quiet (w\<lparr>aw_memory := s, aw_pending := remove1 uid (aw_pending w)\<rparr>)"
| give_up: "authz_step C w Quiet (at_lookup uid Idle w)"
| elsewhere: "exec_command (aw_now w) c (aw_memory w) = (reply, s) \<Longrightarrow> usable c \<Longrightarrow>
     (\<And>uid. command_key c \<noteq> authzKey uid) \<Longrightarrow> authz_step C w Quiet (w\<lparr>aw_memory := s\<rparr>)"

inductive_cases authz_stepE [consumes 1, case_names comments account time hit miss load publish invalidate give_up elsewhere]:
  "authz_step C w l w'"

inductive authz_reach :: "authz_codec \<Rightarrow> authz_world \<Rightarrow> bool" for C where
  start: "account_inv (aw_db w) \<Longrightarrow> aw_memory w = NewMemory limit \<Longrightarrow> (\<And>uid. aw_lookup w uid = Idle) \<Longrightarrow>
     authz_reach C w"
| further: "authz_reach C w \<Longrightarrow> authz_step C w l w' \<Longrightarrow> authz_reach C w'"

section \<open>What the cache and the lock holders know\<close>

definition faithful_codec :: "authz_codec \<Rightarrow> bool" where
  "faithful_codec C \<longleftrightarrow> (\<forall>i x. az_marshal C i = Some x \<longrightarrow> az_unmarshal C x = Some i)"

definition known :: "authz_codec \<Rightarrow> authz_world \<Rightarrow> int \<Rightarrow> authz_info \<Rightarrow> bool" where
  "known C w uid i \<longleftrightarrow>
     (\<exists>x. view (aw_memory w) (aw_now w) (authzKey uid) = Some x \<and> az_unmarshal C x = Some i) \<or>
     aw_lookup w uid = Loaded i"

definition authz_inv :: "authz_codec \<Rightarrow> authz_world \<Rightarrow> bool" where
  "authz_inv C w \<longleftrightarrow> account_inv (aw_db w) \<and> mem_ok (aw_memory w) \<and>
     (\<forall>uid i. uid \<notin> set (aw_pending w) \<longrightarrow> known C w uid i \<longrightarrow> authz_is uid i (aw_db w))"

lemma authz_invI:
  assumes "account_inv (aw_db w)" "mem_ok (aw_memory w)"
    "\<And>uid i. uid \<notin> set (aw_pending w) \<Longrightarrow> known C w uid i \<Longrightarrow> authz_is uid i (aw_db w)"
  shows "authz_inv C w"
  using assms by (simp add: authz_inv_def)

lemma authz_invD:
  assumes "authz_inv C w"
  shows "account_inv (aw_db w)" "mem_ok (aw_memory w)"
    "uid \<notin> set (aw_pending w) \<Longrightarrow> known C w uid i \<Longrightarrow> authz_is uid i (aw_db w)"
  using assms by (auto simp: authz_inv_def)

text \<open>A step that leaves the rows and the pending accounts, and adds nothing to what is known.\<close>

lemma authz_inv_less:
  assumes "authz_inv C w" "aw_db w' = aw_db w" "aw_pending w' = aw_pending w" "mem_ok (aw_memory w')"
    "\<And>uid i. known C w' uid i \<Longrightarrow> known C w uid i \<or> authz_is uid i (aw_db w)"
  shows "authz_inv C w'"
  using assms by (auto simp: authz_inv_def)

subsection \<open>The operations on the cache\<close>

lemma FormatInt_inject [simp]: "FormatInt a = FormatInt b \<longleftrightarrow> a = b"
proof
  assume eq: "FormatInt a = FormatInt b"
  have sign: "(hd (FormatInt n) = CHR ''-'') = (n < 0)" for n
  proof -
    obtain c r where "nat_digits (nat n) = c # r" "is_digit c" using nat_digits_head by blast
    then show ?thesis using is_digit_not_sign [of c] by (simp add: FormatInt_def)
  qed
  have "nat_digits (nat \<bar>a\<bar>) = nat_digits (nat \<bar>b\<bar>)"
    using eq sign [of a] sign [of b] by (auto simp: FormatInt_def split: if_splits)
  then have "nat \<bar>a\<bar> = nat \<bar>b\<bar>" by (metis parse_nat_digits option.inject)
  then show "a = b" using eq sign [of a] sign [of b] by auto
qed simp

lemma authzKey_inject [simp]: "authzKey a = authzKey b \<longleftrightarrow> a = b"
  by (simp add: authzKey_def)

lemma Memory_Get_view:
  assumes "Memory_Get dec ctx now k s = (r, s')" "mem_ok s"
  shows "mem_ok s' \<and> view s' now = view s now \<and> (\<forall>x. r = Inr x \<longrightarrow> (\<exists>y. view s now k = Some y \<and> dec y = Some x))"
proof (cases "ctx = None \<and> live_item now k s = None")
  case True
  then have "s' = forget_key k s" "r = Inl Cache_ErrNotFound" using assms(1) by (auto simp: Memory_Get_def)
  then show ?thesis
    using shrinks_forget [OF assms(2)] True view_shrinks [of now s "forget_key k s" now] mem_ok_forget [OF assms(2)] by auto
next
  case False
  then show ?thesis
    using assms by (auto simp: Memory_Get_def view_def decoded_def split: option.splits)
qed

lemma publish_view:
  assumes "publish_authz C now uid info s = (r, s')" "mem_ok s"
  shows "mem_ok s' \<and> (\<forall>k x. view s' now k = Some x \<longrightarrow>
    view s now k = Some x \<or> k = authzKey uid \<and> az_marshal C info = Some x)"
proof (cases "az_marshal C info")
  case None
  then show ?thesis using assms by (simp add: publish_authz_def Memory_Set_def)
next
  case (Some bytes)
  with assms(1) have "Memory_Set (Some bytes) now (authzKey uid) authzCacheTTL s = (r, s')"
    by (simp add: publish_authz_def)
  from this assms(2) show ?thesis
  proof (cases rule: Memory_Set_cases)
    case refused
    then show ?thesis using view_shrinks [OF refused(2), of now] shrinks_ok by auto
  next
    case (written sm)
    then show ?thesis
      using view_shrinks [OF written(2), of now] shrinks_ok [OF written(2)] Some
      by (auto simp: view_put split: if_splits)
  qed
qed

lemma command_view:
  assumes "exec_command now c s = (r, s')" "mem_ok s" "usable c"
  shows "mem_ok s' \<and> (\<forall>k. k \<noteq> command_key c \<longrightarrow> view s' now k = view s now k)"
proof -
  have like: "answers_like now (command_op c) (command_key c) r s s'"
    using assms exec_plain_like [of now _ s r s'] exec_in_like [of _ now _ s r s']
    by (cases c) (simp_all add: usable_def)
  have "snd (spec_op now op k v) now k' = v now k'" if "k' \<noteq> k" for op k k' v
    using that by (cases op) auto
  then show ?thesis using like by (auto simp: answers_like_def same_from_def)
qed

lemma view_time: "view s t k = Some x \<Longrightarrow> t' \<le> t \<Longrightarrow> view s t' k = Some x"
  by (auto simp: view_def live_item_def split: option.splits if_splits)

section \<open>The invariant\<close>

lemma load_reads_row:
  assumes "load_authz uid \<lparr>data = d, faults = fs, outbox = []\<rparr> = (Inr i, v)" "schema_ok d"
  shows "authz_is uid i d"
  using assms
  by (auto simp: load_authz_def FindByID_def authz_is_def authz_at_def prog_elims)

lemma authz_inv_step:
  assumes "authz_step C w l w'" "authz_inv C w" "faithful_codec C"
  shows "authz_inv C w'"
  using assms(1)
proof (cases rule: authz_stepE)
  case (comments E cmd fs r v)
  have keep: "authz_is uid i (data v)" if "authz_is uid i (aw_db w)" for uid i
    using preservesD [OF authz_rows.exec_keeps comments(3)] that by simp
  have "account_inv (data v)"
    using preservesD [OF account_rows.exec_keeps comments(3)] authz_invD(1) [OF assms(2)] by simp
  then show ?thesis
    using authz_invD [OF assms(2)] keep comments by (auto intro!: authz_invI simp: known_def)
next
  case (account I acmd fs ids v)
  have keep: "authz_is uid i (data v)" if "authz_is uid i (aw_db w)" "uid \<notin> set (named ids)" for uid i
  proof -
    have "covered uid i ids (data v)"
      using account_tx_covers [OF that(1), of I acmd "[]", unfolded wpf_def, rule_format,
          of "\<lparr>data = aw_db w, faults = fs, outbox = []\<rparr>"] account(3) by simp
    with that(2) show ?thesis by (cases ids) (simp_all add: named_def)
  qed
  have "account_inv (data v)"
    using preservesD [OF account_tx_keeps account(3)] authz_invD(1) [OF assms(2)] by simp
  then show ?thesis
    using authz_invD [OF assms(2)] keep account by (auto intro!: authz_invI simp: known_def)
next
  case (time t)
  then show ?thesis
    by (intro authz_inv_less [OF assms(2)]) (auto simp: known_def authz_invD [OF assms(2)] dest: view_time)
next
  case (hit uid ctx info s)
  with Memory_Get_view [OF hit(4) authz_invD(2) [OF assms(2)]] show ?thesis
    by (intro authz_inv_less [OF assms(2)]) (auto simp: known_def)
next
  case (miss uid ctx e s)
  with Memory_Get_view [OF miss(4) authz_invD(2) [OF assms(2)]] show ?thesis
    by (intro authz_inv_less [OF assms(2)]) (auto simp: known_def at_lookup_def missed_def split: if_splits)
next
  case (load uid fs ld v)
  have "schema_ok (aw_db w)" using authz_invD(1) [OF assms(2)] by (simp add: account_inv_def)
  with load load_reads_row show ?thesis
    by (intro authz_inv_less [OF assms(2)])
      (auto simp: known_def at_lookup_def loaded_def authz_invD [OF assms(2)] split: if_splits sum.splits)
next
  case (publish uid info pb s)
  note pv = publish_view [OF publish(4) authz_invD(2) [OF assms(2)]]
  have "known C w u i" if k: "known C w' u i" for u i
    using k pv publish(1-3) assms(3)
    by (fastforce simp: known_def at_lookup_def faithful_codec_def split: if_splits)
  then show ?thesis
    using pv publish by (intro authz_inv_less [OF assms(2)]) (auto simp: at_lookup_def)
next
  case (invalidate uid q s)
  then have s: "s = forget_key (authzKey uid) (aw_memory w)" by (simp add: Memory_Delete_def)
  show ?thesis
  proof (rule authz_invI)
    fix u i
    assume u: "u \<notin> set (aw_pending w')" "known C w' u i"
    show "authz_is u i (aw_db w')"
    proof (cases "u = uid")
      case True
      with u(2) show ?thesis using invalidate s by (simp add: known_def view_forget)
    next
      case False
      then show ?thesis
        using u invalidate s authz_invD(3) [OF assms(2), of u i] by (auto simp: known_def view_forget)
    qed
  qed (use invalidate s authz_invD [OF assms(2)] in \<open>simp_all add: mem_ok_forget\<close>)
next
  case (give_up uid)
  then show ?thesis
    by (intro authz_inv_less [OF assms(2)]) (auto simp: known_def at_lookup_def authz_invD [OF assms(2)] split: if_splits)
next
  case (elsewhere c reply s)
  note cv = command_view [OF elsewhere(3) authz_invD(2) [OF assms(2)] elsewhere(4)]
  then have "view s (aw_now w) (authzKey uid) = view (aw_memory w) (aw_now w) (authzKey uid)" for uid
    using elsewhere(5) by metis
  with cv elsewhere show ?thesis
    by (intro authz_inv_less [OF assms(2)]) (auto simp: known_def)
qed

lemma authz_reach_inv:
  assumes "authz_reach C w" "faithful_codec C"
  shows "authz_inv C w"
  using assms(1)
proof induction
  case (start w limit)
  then show ?case
    by (intro authz_invI) (auto simp: known_def NewMemory_def mem_ok_def view_def live_item_def)
next
  case (further w l w')
  then show ?case using authz_inv_step assms(2) by blast
qed

section \<open>Answers\<close>

lemma answer_known:
  assumes "authz_step C w (Answered uid i) w'" "mem_ok (aw_memory w)" "faithful_codec C"
  shows "known C w uid i"
  using assms(1)
proof (cases rule: authz_stepE)
  case (hit ctx s)
  with Memory_Get_view [OF hit(4) assms(2)] show ?thesis by (auto simp: known_def)
next
  case (publish u info pb s)
  then show ?thesis
    using assms(3)
    by (auto simp: published_def known_def faithful_codec_def split: sum.splits option.splits bind_splits)
qed simp_all

text \<open>
  C7: A principal resolved through the cache is the account's row as it is at the moment of the answer, its role, status
  and session version, whenever no invalidation of the account is outstanding.  The answer may come from
  the cache or from a query made any time before, with any commands of the program, any other use of the
  cache and any failures in between.
\<close>

theorem authz_answer_is_current:
  assumes "faithful_codec C" "authz_reach C w" "authz_step C w (Answered uid i) w'"
    "uid \<notin> set (aw_pending w)"
  shows "authz_at (aw_db w) uid = Some i"
proof -
  note inv = authz_reach_inv [OF assms(2,1)]
  have "known C w uid i" by (rule answer_known [OF assms(3) authz_invD(2) [OF inv] assms(1)])
  from authz_invD(3) [OF inv assms(4) this] show ?thesis by (simp add: authz_is_def)
qed

subsection \<open>Runs\<close>

inductive authz_run :: "authz_codec \<Rightarrow> authz_world \<Rightarrow> authz_label list \<Rightarrow> authz_world \<Rightarrow> bool" for C where
  here: "authz_run C w [] w"
| onward: "authz_step C w l w' \<Longrightarrow> authz_run C w' ls w'' \<Longrightarrow> authz_run C w (l # ls) w''"

lemma run_reach: "authz_run C w ls w' \<Longrightarrow> authz_reach C w \<Longrightarrow> authz_reach C w'"
  by (induction rule: authz_run.induct) (auto intro: authz_reach.further)

lemma step_generation:
  assumes "authz_step C w l w'" "generation uid n (aw_db w)"
  shows "generation uid n (aw_db w')"
  using assms
  by (cases rule: authz_stepE)
    (auto dest: preservesD [OF generations.exec_keeps] preservesD [OF generation_account_tx] simp: at_lookup_def)

lemma run_generation: "authz_run C w ls w' \<Longrightarrow> generation uid n (aw_db w) \<Longrightarrow> generation uid n (aw_db w')"
  by (induction rule: authz_run.induct) (auto intro: step_generation)

lemma generation_of_row:
  assumes "schema_ok d" "u \<in> set (db_users d)"
  shows "generation (u_id u) (u_session_version u) d"
  using assms user_unique [OF assms(1)]
  by (auto simp: generation_def schema_ok_def tables_ok_def keys_ok_def)

text \<open>
  C8: A session of an account's past is over, once its invalidation is done.  After the account's row has reached a
  session version, by a revocation, a new password or a reset, no request that is answered while no invalidation
  of the account is outstanding is accepted with a token of an older version.  This holds across every run of
  commands and cache operations, deletion of the account included.  Between the commit of a change and the deletion of the
  cache entry the claim does not hold: there a cached principal of before is still given out.
\<close>

theorem past_sessions_stay_out:
  assumes "faithful_codec C" "authz_reach C w" "u \<in> set (db_users (aw_db w))"
    "authz_run C w ls w'" "authz_step C w' (Answered (u_id u) i) w''" "u_id u \<notin> set (aw_pending w')"
    "sessionVersionMatches c (principal_of (u_id u) i)"
  shows "u_session_version u \<le> cl_session_version c"
proof -
  have ok: "schema_ok (aw_db w)"
    using authz_invD(1) [OF authz_reach_inv [OF assms(2,1)]] by (simp add: account_inv_def)
  have gen: "generation (u_id u) (u_session_version u) (aw_db w')"
    by (rule run_generation [OF assms(4) generation_of_row [OF ok assms(3)]])
  note inv = authz_reach_inv [OF run_reach [OF assms(4,2)] assms(1)]
  have "authz_is (u_id u) i (aw_db w')"
    by (rule authz_invD(3) [OF inv assms(6) answer_known [OF assms(5) authz_invD(2) [OF inv] assms(1)]])
  then show ?thesis
    using gen assms(7) by (auto simp: authz_is_iff generation_def sessionVersionMatches_def principal_of_def authz_of_def)
qed

subsection \<open>Resolve is such a run\<close>

lemma run_append: "authz_run C w ls w' \<Longrightarrow> authz_run C w' ls' w'' \<Longrightarrow> authz_run C w (ls @ ls') w''"
  by (induction rule: authz_run.induct) (auto intro: authz_run.intros)

lemma run_one: "authz_step C w l w' \<Longrightarrow> authz_run C w [l] w'"
  by (auto intro: authz_run.intros)

definition answers_of :: "authz_label list \<Rightarrow> authz_label list" where
  "answers_of ls = filter (\<lambda>l. l \<noteq> Quiet) ls"

definition resolved :: "error + principal \<Rightarrow> int \<Rightarrow> authz_label list \<Rightarrow> bool" where
  "resolved r uid ls \<longleftrightarrow>
     (case r of Inl _ \<Rightarrow> ls = [] | Inr p \<Rightarrow> \<exists>i. ls = [Answered uid i] \<and> p = principal_of uid i)"

text \<open>A run of a resolution ends with the rows and the store of the handler, and the lock free.\<close>

definition ends_like :: "authz_world \<Rightarrow> int \<Rightarrow> (db \<times> memory, comment_event) world \<Rightarrow> authz_world \<Rightarrow> bool" where
  "ends_like w uid v w' \<longleftrightarrow> aw_db w' = fst (data v) \<and> aw_memory w' = snd (data v) \<and>
     aw_lookup w' = (aw_lookup w)(uid := Idle) \<and> aw_pending w' = aw_pending w"

lemma on_cache_run:
  "on_cache op w = (r, w') \<Longrightarrow> r = Inl ErrInfra \<and> data w' = data w \<and> outbox w' = outbox w \<or>
     (\<exists>x. r = Inr x \<and> op (snd (data w)) = (x, snd (data w')) \<and> fst (data w') = fst (data w) \<and>
        outbox w' = outbox w)"
  by (auto simp: on_cache_def stmt_def Let_def split: if_splits prod.splits)

lemma load_run:
  assumes "on_db (load_authz uid) w = (r, w')"
  shows "data w' = data w \<and> outbox w' = outbox w \<and>
    (\<exists>v. load_authz uid \<lparr>data = fst (data w), faults = faults w, outbox = outbox w\<rparr> = (r, v))"
  using assms
  by (auto simp: on_db_def rows_of_def with_rows_def load_authz_def FindByID_def first_or_not_found_def sql_query_def
      query_def stmt_def bind_def lift_def ret_def Let_def split: prod.splits sum.splits if_splits)

text \<open>The parts of \<open>Resolve\<close> after a miss and after the query.\<close>

definition publish_part :: "authz_codec \<Rightarrow> int \<Rightarrow> int \<Rightarrow> authz_info \<Rightarrow> principal svc" where
  "publish_part C later uid info =
     bind (on_cache (publish_authz C later uid info)) (\<lambda>s.
     case s of
       Inl _ \<Rightarrow> fail ErrInfra
     | Inr _ \<Rightarrow>
         (case Option.bind (az_marshal C info) (az_unmarshal C) of
            None \<Rightarrow> fail ErrInfra
          | Some i \<Rightarrow> ret (principal_of uid i)))"

definition load_part :: "authz_codec \<Rightarrow> int \<Rightarrow> int \<Rightarrow> principal svc" where
  "load_part C later uid = bind (on_db (load_authz uid)) (publish_part C later uid)"

lemma Resolve_parts:
  "Resolve C ctx now later uid =
     bind (on_cache (Memory_Get (az_unmarshal C) ctx now (authzKey uid))) (\<lambda>r.
     case r of
       Inr info \<Rightarrow> ret (principal_of uid info)
     | Inl e \<Rightarrow> if e \<noteq> Cache_ErrNotFound then fail ErrInfra else load_part C later uid)"
  unfolding Resolve_def load_part_def publish_part_def [abs_def] by (rule refl)

definition has_run :: "authz_codec \<Rightarrow> authz_world \<Rightarrow> int \<Rightarrow> error + principal \<Rightarrow>
    (db \<times> memory, comment_event) world \<Rightarrow> bool" where
  "has_run C w uid r v \<longleftrightarrow>
     (\<exists>ls w'. authz_run C w ls w' \<and> resolved r uid (answers_of ls) \<and> ends_like w uid v w')"

lemma has_runI:
  "authz_run C w ls w' \<Longrightarrow> resolved r uid (answers_of ls) \<Longrightarrow> ends_like w uid v w' \<Longrightarrow> has_run C w uid r v"
  by (auto simp: has_run_def)

lemma has_run_step:
  assumes "authz_step C w Quiet w1" "has_run C w1 uid r v"
    "\<And>w'. ends_like w1 uid v w' \<Longrightarrow> ends_like w uid v w'"
  shows "has_run C w uid r v"
proof -
  obtain ls w' where "authz_run C w1 ls w'" "resolved r uid (answers_of ls)" "ends_like w1 uid v w'"
    using assms(2) by (auto simp: has_run_def)
  with assms(1,3) show ?thesis
    by (intro has_runI [of C w "Quiet # ls" w']) (auto intro: authz_run.onward simp: answers_of_def)
qed

lemma publish_part_runs:
  assumes "publish_part C (aw_now w) uid info v0 = (r, v)" "data v0 = (aw_db w, aw_memory w)"
    "aw_lookup w uid = Loaded info"
  shows "has_run C w uid r v"
proof -
  obtain pb v1 where pb: "on_cache (publish_authz C (aw_now w) uid info) v0 = (pb, v1)" by fastforce
  from on_cache_run [OF pb] show ?thesis
  proof (elim disjE exE conjE)
    assume "pb = Inl ErrInfra" "data v1 = data v0"
    with assms pb show ?thesis
      by (intro has_runI [OF run_one [OF authz_step.give_up [of C w uid]]])
        (auto simp: publish_part_def bind_def resolved_def answers_of_def ends_like_def at_lookup_def)
  next
    fix p assume p: "pb = Inr p" "publish_authz C (aw_now w) uid info (snd (data v0)) = (p, snd (data v1))"
      and d: "fst (data v1) = fst (data v0)"
    have "authz_run C w [published C uid info p] (at_lookup uid Idle (w\<lparr>aw_memory := snd (data v1)\<rparr>))"
      by (rule run_one, rule authz_step.publish) (use p assms in auto)
    then show ?thesis
      by (rule has_runI)
        (use assms pb p d in \<open>auto simp: publish_part_def bind_def ret_def fail_def resolved_def answers_of_def
          published_def ends_like_def at_lookup_def split: sum.splits option.splits\<close>)
  qed
qed

lemma load_part_runs:
  assumes "load_part C later uid v0 = (r, v)" "data v0 = (aw_db w, aw_memory w)" "outbox v0 = []"
    "aw_lookup w uid = Missed" "aw_now w \<le> later"
  shows "has_run C w uid r v"
proof -
  obtain ld v1 where ld: "on_db (load_authz uid) v0 = (ld, v1)" by fastforce
  note lr = load_run [OF ld]
  obtain v' where "load_authz uid \<lparr>data = aw_db w, faults = faults v0, outbox = []\<rparr> = (ld, v')"
    using lr assms(2,3) by auto
  then have s1: "authz_step C w Quiet (at_lookup uid (loaded ld) w)"
    by (rule authz_step.load [OF assms(4)])
  let ?w1 = "(at_lookup uid (loaded ld) w)\<lparr>aw_now := later\<rparr>"
  have s2: "authz_step C (at_lookup uid (loaded ld) w) Quiet ?w1"
    by (rule authz_step.time) (simp add: at_lookup_def assms(5))
  have "has_run C ?w1 uid r v"
  proof (cases ld)
    case (Inl e)
    then show ?thesis
      using assms(1,2) ld lr
      by (intro has_runI [OF authz_run.here])
        (auto simp: load_part_def bind_def resolved_def answers_of_def ends_like_def loaded_def at_lookup_def)
  next
    case (Inr info)
    then have "publish_part C (aw_now ?w1) uid info v1 = (r, v)"
      using assms(1) ld by (simp add: load_part_def bind_def)
    then show ?thesis
      by (rule publish_part_runs) (use lr assms(2) Inr in \<open>auto simp: at_lookup_def loaded_def\<close>)
  qed
  then have "has_run C (at_lookup uid (loaded ld) w) uid r v"
    by (rule has_run_step [OF s2]) (simp add: ends_like_def at_lookup_def)
  then show ?thesis
    by (rule has_run_step [OF s1]) (simp add: ends_like_def at_lookup_def)
qed

text \<open>
  \<open>Resolve\<close>, with the lock free, does what such a run of steps does: it ends with the rows and the store
  of the run, an answer is the one answer of the run, and an error leaves a run without an answer.
\<close>

lemma Resolve_runs:
  assumes "Resolve C ctx (aw_now w) later uid \<lparr>data = (aw_db w, aw_memory w), faults = fs, outbox = []\<rparr> = (r, v)"
    "aw_lookup w uid = Idle" "aw_now w \<le> later"
  shows "\<exists>ls w'. authz_run C w ls w' \<and> resolved r uid (answers_of ls) \<and> ends_like w uid v w'"
proof -
  let ?v0 = "\<lparr>data = (aw_db w, aw_memory w), faults = fs, outbox = []\<rparr>"
  obtain g v1 where g: "on_cache (Memory_Get (az_unmarshal C) ctx (aw_now w) (authzKey uid)) ?v0 = (g, v1)" by fastforce
  note idle = fun_upd_triv [of "aw_lookup w" uid, unfolded assms(2)]
  from on_cache_run [OF g] have "has_run C w uid r v"
  proof (elim disjE exE conjE)
    assume "g = Inl ErrInfra" "data v1 = data ?v0"
    with assms(1) g idle show ?thesis
      by (intro has_runI [OF authz_run.here])
        (auto simp: Resolve_parts bind_def resolved_def answers_of_def ends_like_def)
  next
    fix x assume x: "g = Inr x"
        "Memory_Get (az_unmarshal C) ctx (aw_now w) (authzKey uid) (snd (data ?v0)) = (x, snd (data v1))"
      and d: "fst (data v1) = fst (data ?v0)" "outbox v1 = outbox ?v0"
    show ?thesis
    proof (cases x)
      case (Inr info)
      have "authz_run C w [Answered uid info] (w\<lparr>aw_memory := snd (data v1)\<rparr>)"
        by (rule run_one, rule authz_step.hit [OF assms(2)]) (use x Inr in auto)
      then show ?thesis
        by (rule has_runI)
          (use assms(1) g x Inr idle d in \<open>auto simp: Resolve_parts bind_def ret_def resolved_def answers_of_def ends_like_def\<close>)
    next
      case (Inl e)
      let ?w1 = "at_lookup uid (missed e) (w\<lparr>aw_memory := snd (data v1)\<rparr>)"
      have "authz_step C w Quiet ?w1"
        by (rule authz_step.miss [OF assms(2)]) (use x Inl in auto)
      moreover have "has_run C ?w1 uid r v"
      proof (cases "e = Cache_ErrNotFound")
        case True
        then have "load_part C later uid v1 = (r, v)" using assms(1) g x Inl by (simp add: Resolve_parts bind_def)
        then show ?thesis
          by (rule load_part_runs) (use d assms(3) True in \<open>auto simp: at_lookup_def missed_def prod_eq_iff\<close>)
      next
        case False
        with assms(1) g x Inl d show ?thesis
          by (intro has_runI [OF authz_run.here])
            (auto simp: Resolve_parts bind_def fail_def resolved_def answers_of_def ends_like_def missed_def at_lookup_def)
      qed
      ultimately show ?thesis
        by (rule has_run_step) (simp add: ends_like_def at_lookup_def)
    qed
  qed
  then show ?thesis by (simp add: has_run_def)
qed

section \<open>A run\<close>

definition sample_codec :: authz_codec where
  "sample_codec =
     \<lparr>az_marshal = (\<lambda>i.
        if - (2 ^ 63) \<le> az_session_version i \<and> az_session_version i \<le> 2 ^ 63 - 1
        then Some ((if az_role i = RoleAdmin then CHR ''A'' else CHR ''U'') #
                   (case az_status i of UserStatusActive \<Rightarrow> CHR ''a'' | UserStatusDisabled \<Rightarrow> CHR ''d''
                      | UserStatusDeleted \<Rightarrow> CHR ''x'') # FormatInt (az_session_version i))
        else None),
      az_unmarshal = (\<lambda>x.
        case x of
          r # st # v \<Rightarrow>
            map_option (\<lambda>n. \<lparr>az_role = (if r = CHR ''A'' then RoleAdmin else RoleUser),
              az_status = (if st = CHR ''a'' then UserStatusActive
                else if st = CHR ''d'' then UserStatusDisabled else UserStatusDeleted),
              az_session_version = n\<rparr>) (ParseInt v)
        | _ \<Rightarrow> None)\<rparr>"

lemma faithful_sample_codec: "faithful_codec sample_codec"
proof -
  have "az_unmarshal sample_codec x = Some i" if "az_marshal sample_codec i = Some x" for i x
    using that ParseInt_FormatInt [of "az_session_version i"]
    by (cases i; cases "az_role i"; cases "az_status i") (auto simp: sample_codec_def split: if_splits)
  then show ?thesis by (simp add: faithful_codec_def)
qed

definition first_world :: authz_world where
  "first_world = \<lparr>aw_db = sample_db, aw_memory = NewMemory 0, aw_now = 0, aw_lookup = (\<lambda>_. Idle), aw_pending = []\<rparr>"

abbreviation "reader_info \<equiv> authz_of (sample_user 3 ''reader'' RoleUser)"

lemma sample_db_accounts: "account_inv sample_db"
  by code_simp

lemma first_world_reach: "authz_reach sample_codec first_world"
  by (rule authz_reach.start) (simp_all add: first_world_def sample_db_accounts)

lemma first_answer:
  obtains w ls w' where "authz_run sample_codec first_world ls w" "aw_pending w = []"
    "authz_step sample_codec w (Answered 3 reader_info) w'"
proof -
  have empty: "Memory_Get dec None 0 k (NewMemory 0) = (Inl Cache_ErrNotFound, NewMemory 0)" for dec k
    by (simp add: Memory_Get_def NewMemory_def live_item_def drop_item_def
        removeNamespaceMembershipLocked_def)
  let ?w1 = "at_lookup 3 Missed first_world"
  have 1: "authz_step sample_codec first_world Quiet ?w1"
    using authz_step.miss [of first_world 3 sample_codec None Cache_ErrNotFound "NewMemory 0"]
    by (simp add: first_world_def empty missed_def at_lookup_def)
  let ?w2 = "at_lookup 3 (Loaded reader_info) ?w1"
  have row: "load_authz 3 \<lparr>data = sample_db, faults = [], outbox = []\<rparr> =
      (Inr reader_info, \<lparr>data = sample_db, faults = [], outbox = []\<rparr>)"
    by (simp add: load_authz_def FindByID_def first_or_not_found_def sql_query_def query_def stmt_def bind_def
        lift_def ret_def select_first_def sample_db_def sample_user_def)
  have 2: "authz_step sample_codec ?w1 Quiet ?w2"
    using authz_step.load [of ?w1 3 "[]" "Inr reader_info"] row
    by (simp add: at_lookup_def first_world_def loaded_def)
  obtain s where s: "publish_authz sample_codec 0 3 reader_info (NewMemory 0) = (Inr (), s)"
    by (simp add: publish_authz_def Memory_Set_def sample_codec_def authz_of_def sample_user_def NewMemory_def
        items_full_def DefaultMemoryLimit_def Let_def)
  have "published sample_codec 3 reader_info (Inr ()) = Answered 3 reader_info"
  proof -
    obtain x where "az_marshal sample_codec reader_info = Some x"
      by (simp add: sample_codec_def authz_of_def sample_user_def)
    then show ?thesis
      using faithful_sample_codec by (simp add: published_def faithful_codec_def)
  qed
  then have 3: "\<exists>w'. authz_step sample_codec ?w2 (Answered 3 reader_info) w'"
    using authz_step.publish [of ?w2 3 reader_info sample_codec "Inr ()" s] s
    by (auto simp: at_lookup_def first_world_def)
  have run: "authz_run sample_codec first_world [Quiet, Quiet] ?w2"
    using 1 2 by (blast intro: authz_run.intros)
  have none: "aw_pending ?w2 = []" by (simp add: at_lookup_def first_world_def)
  from 3 show thesis using that [OF run none] by blast
qed

lemma authz_answer_is_current_witness:
  "\<exists>w w'. authz_step sample_codec w (Answered 3 reader_info) w' \<and> authz_at (aw_db w) 3 = Some reader_info"
proof -
  obtain w ls w' where run: "authz_run sample_codec first_world ls w" "aw_pending w = []"
    and ans: "authz_step sample_codec w (Answered 3 reader_info) w'" by (rule first_answer)
  have "authz_reach sample_codec w" by (rule run_reach [OF run(1) first_world_reach])
  from authz_answer_is_current [OF faithful_sample_codec this ans] run(2) ans show ?thesis by auto
qed

lemma past_sessions_stay_out_witness:
  "\<exists>w w'. authz_step sample_codec w (Answered 3 reader_info) w' \<and>
     (\<forall>c. sessionVersionMatches c (principal_of 3 reader_info) \<longrightarrow> 1 \<le> cl_session_version c)"
proof -
  obtain w ls w' where run: "authz_run sample_codec first_world ls w" "aw_pending w = []"
    and ans: "authz_step sample_codec w (Answered 3 reader_info) w'" by (rule first_answer)
  have u: "sample_user 3 ''reader'' RoleUser \<in> set (db_users (aw_db first_world))"
    by (simp add: first_world_def sample_db_def)
  have i: "u_id (sample_user 3 ''reader'' RoleUser) = 3" "u_session_version (sample_user 3 ''reader'' RoleUser) = 1"
    by (simp_all add: sample_user_def)
  have "1 \<le> cl_session_version c" if "sessionVersionMatches c (principal_of 3 reader_info)" for c
    using past_sessions_stay_out [OF faithful_sample_codec first_world_reach u run(1), unfolded i, OF ans _ that]
      run(2) by simp
  then show ?thesis using ans by blast
qed

text \<open>A reader nobody has looked up yet.\<close>

lemma Resolve_runs_witness:
  "\<exists>r v ls w'. Resolve sample_codec None 0 1 3 \<lparr>data = (sample_db, NewMemory 0), faults = [], outbox = []\<rparr> = (r, v) \<and>
     authz_run sample_codec first_world ls w' \<and> resolved r 3 (answers_of ls) \<and> aw_db w' = fst (data v)"
proof -
  obtain r v where e: "Resolve sample_codec None 0 1 3 \<lparr>data = (sample_db, NewMemory 0), faults = [], outbox = []\<rparr> = (r, v)"
    by fastforce
  moreover have "aw_now first_world = 0" "aw_db first_world = sample_db" "aw_memory first_world = NewMemory 0"
    "aw_lookup first_world 3 = Idle" by (simp_all add: first_world_def)
  ultimately show ?thesis
    using Resolve_runs [of sample_codec None first_world 1 3 "[]" r v] by (auto simp: ends_like_def)
qed

end
