(* ===== verification/Login_Props.thy ===== *)
theory Login_Props
  imports System
begin

text \<open>
  What signing in and managing the ways to sign in promise.
\<close>

section \<open>Ways in\<close>

lemma count_remove_one:
  assumes "distinct (map key rows)" "r \<in> set rows" "P r"
  shows "count_where P (filter (\<lambda>x. \<not> (P x \<and> key x = key r)) rows) + 1 = count_where P rows"
  using assms
proof (induction rows)
  case (Cons a rows)
  show ?case
  proof (cases "a = r")
    case True
    then have "filter (\<lambda>x. \<not> (P x \<and> key x = key r)) rows = rows"
      using Cons.prems(1) by (auto simp: filter_id_conv image_iff)
    then show ?thesis using True Cons.prems(3) by (simp add: count_where_def)
  next
    case False
    then have "r \<in> set rows" "key a \<noteq> key r" using Cons.prems(1,2) by (auto simp: image_iff)
    with Cons show ?thesis by (auto simp: count_where_def)
  qed
qed simp

lemma count_other: "(\<And>x. P x \<Longrightarrow> \<not> Q x) \<Longrightarrow> count_where P (filter (\<lambda>x. \<not> Q x) rows) = count_where P rows"
  unfolding count_where_def filter_filter by (rule arg_cong [of _ _ length], rule filter_cong) auto

definition one_way_less :: "db \<Rightarrow> int \<Rightarrow> db \<Rightarrow> bool" where
  "one_way_less d uid d' \<longleftrightarrow> db_users d' = db_users d \<and> login_methods d' uid + 1 = login_methods d uid \<and>
     (\<forall>other. other \<noteq> uid \<longrightarrow> login_methods d' other = login_methods d other)"

lemma login_methods_found:
  assumes "schema_ok d" "select_first (\<lambda>u. u_id u = uid) (db_users d) = Some u"
  shows "login_methods d uid = (if u_password_hash u \<noteq> None then 1 else 0) +
    count_where (\<lambda>p. pk_user_id p = uid) (ac_passkeys (db_accounts d)) +
    count_where (\<lambda>e. ei_user_id e = uid) (ac_identities (db_accounts d))"
proof -
  have "distinct (map u_id (db_users d))"
    using assms(1) by (simp add: schema_ok_def tables_ok_def keys_ok_def strict_sorted_iff)
  then have "(\<exists>v \<in> set (db_users d). u_id v = uid \<and> u_password_hash v \<noteq> None) = (u_password_hash u \<noteq> None)"
    using select_first_Some [OF assms(2)] distinct_key_unique by metis
  then show ?thesis by (simp add: login_methods_def)
qed

lemma passkey_way_less:
  assumes "schema_ok d" "select_first (the_passkey uid i) (ac_passkeys (db_accounts d)) = Some row"
  shows "one_way_less d uid (map_accounts (\<lambda>a.
    a\<lparr>ac_passkeys := filter (\<lambda>p. \<not> the_passkey uid (pk_id row) p) (ac_passkeys a)\<rparr>) d)"
proof -
  have "distinct (map pk_id (ac_passkeys (db_accounts d)))"
    using assms(1) by (simp add: schema_ok_def accounts_ok_def keys_ok_def strict_sorted_iff)
  moreover have "row \<in> set (ac_passkeys (db_accounts d))" "pk_user_id row = uid"
    using select_first_Some [OF assms(2)] by (auto simp: the_passkey_def)
  ultimately have "count_where (\<lambda>p. pk_user_id p = uid)
      (filter (\<lambda>p. \<not> the_passkey uid (pk_id row) p) (ac_passkeys (db_accounts d))) + 1 =
      count_where (\<lambda>p. pk_user_id p = uid) (ac_passkeys (db_accounts d))"
    unfolding the_passkey_def by (rule count_remove_one)
  moreover have "count_where (\<lambda>p. pk_user_id p = other)
      (filter (\<lambda>p. \<not> the_passkey uid (pk_id row) p) (ac_passkeys (db_accounts d))) =
      count_where (\<lambda>p. pk_user_id p = other) (ac_passkeys (db_accounts d))" if "other \<noteq> uid" for other
    by (rule count_other) (use that in \<open>simp add: the_passkey_def\<close>)
  ultimately show ?thesis by (simp add: one_way_less_def login_methods_def map_accounts_def)
qed

lemma identity_way_less:
  assumes "schema_ok d" "select_first (the_identity uid i) (ac_identities (db_accounts d)) = Some row"
  shows "one_way_less d uid (map_accounts (\<lambda>a.
    a\<lparr>ac_identities := filter (\<lambda>e. \<not> the_identity uid (ei_id row) e) (ac_identities a)\<rparr>) d)"
proof -
  have "distinct (map ei_id (ac_identities (db_accounts d)))"
    using assms(1) by (simp add: schema_ok_def accounts_ok_def keys_ok_def strict_sorted_iff)
  moreover have "row \<in> set (ac_identities (db_accounts d))" "ei_user_id row = uid"
    using select_first_Some [OF assms(2)] by (auto simp: the_identity_def)
  ultimately have "count_where (\<lambda>e. ei_user_id e = uid)
      (filter (\<lambda>e. \<not> the_identity uid (ei_id row) e) (ac_identities (db_accounts d))) + 1 =
      count_where (\<lambda>e. ei_user_id e = uid) (ac_identities (db_accounts d))"
    unfolding the_identity_def by (rule count_remove_one)
  moreover have "count_where (\<lambda>e. ei_user_id e = other)
      (filter (\<lambda>e. \<not> the_identity uid (ei_id row) e) (ac_identities (db_accounts d))) =
      count_where (\<lambda>e. ei_user_id e = other) (ac_identities (db_accounts d))" if "other \<noteq> uid" for other
    by (rule count_other) (use that in \<open>simp add: the_identity_def\<close>)
  ultimately show ?thesis by (simp add: one_way_less_def login_methods_def map_accounts_def)
qed

lemmas way_in_defs = FindByIDLocked_def Passkey_GetByUserIDAndID_def Identity_GetByUserIDAndID_def
  loginMethodCount_def HasPassword_def FindByID_def Passkey_CountByUserID_def Identity_CountByUserID_def
  Passkey_DeleteByUserAndID_def Identity_DeleteByUserAndID_def

text \<open>
  C20: Nobody loses the last way into an account.  Whatever the database does, removing a passkey or the binding
  to an external identity either changes nothing, or the account had at least two ways in, and then it has
  exactly one less and no other account has any less.
\<close>

theorem last_login_method_kept:
  assumes "schema_ok d" "remove \<in> {DeletePasskey uid i, DeleteExternalIdentity uid i}"
  shows "wp remove (\<lambda>r d' os'. os' = os \<and>
    (case r of Inl _ \<Rightarrow> d' = d | Inr _ \<Rightarrow> 2 \<le> login_methods d uid \<and> one_way_less d uid d')) d os"
proof -
  have "wp (DeletePasskey uid i) (\<lambda>r d' os'. os' = os \<and>
      (case r of Inl _ \<Rightarrow> d' = d | Inr _ \<Rightarrow> 2 \<le> login_methods d uid \<and> one_way_less d uid d')) d os"
    unfolding DeletePasskey_def way_in_defs
    by (auto intro!: wp_intros passkey_way_less assms(1) simp: login_methods_found [OF assms(1)] split: sum.splits)
  moreover have "wp (DeleteExternalIdentity uid i) (\<lambda>r d' os'. os' = os \<and>
      (case r of Inl _ \<Rightarrow> d' = d | Inr _ \<Rightarrow> 2 \<le> login_methods d uid \<and> one_way_less d uid d')) d os"
    unfolding DeleteExternalIdentity_def way_in_defs
    by (auto intro!: wp_intros identity_way_less assms(1) simp: login_methods_found [OF assms(1)] split: sum.splits)
  ultimately show ?thesis using assms(2) by auto
qed

section \<open>Resetting a password\<close>

lemma schema_update_users:
  assumes "schema_ok d" "\<And>u. u_id (f u) = u_id u \<and> u_email_normalized (f u) = u_email_normalized u"
    "\<And>u. user_checks u \<Longrightarrow> user_checks (f u) \<and> user_checks ((f u)\<lparr>u_updated_at := db_clock d\<rparr>)"
  shows "schema_ok (snd (update_users P f d))"
proof -
  let ?us = "update_where P (\<lambda>u. (f u)\<lparr>u_updated_at := db_clock d\<rparr>) (db_users d)"
  have ids: "map u_id ?us = map u_id (db_users d)" "map u_email_normalized ?us = map u_email_normalized (db_users d)"
    using assms(2) by (simp_all add: update_where_def)
  have all: "(\<forall>r \<in> set rows. Q (u_id r)) = (\<forall>i \<in> set (map u_id rows). Q i)" for rows and Q :: "int \<Rightarrow> bool"
    by simp
  have keys: "keys_ok u_id n ?us = keys_ok u_id n (db_users d)" for n
    unfolding keys_ok_def all [of _ "\<lambda>i. 0 < i \<and> i < n"] ids by (rule refl)
  have ex: "has_user rows i = (i \<in> set (map u_id rows))" for rows i
    by (auto simp: has_user_def)
  have has: "has_user ?us = has_user (db_users d)"
    unfolding fun_eq_iff ex ids by simp
  have refs: "comment_refs_ok ?us = comment_refs_ok (db_users d)" "like_refs_ok ?us = like_refs_ok (db_users d)"
    by (simp_all add: comment_refs_ok_def like_refs_ok_def has fun_eq_iff)
  have checks: "\<forall>u \<in> set ?us. user_checks u"
    using assms(1,3) by (auto simp: update_where_def schema_ok_def accounts_ok_def)
  show ?thesis
    using assms(1) checks
    by (simp add: update_users_def schema_ok_def tables_ok_def uniques_ok_def refs_ok_def accounts_ok_def ids keys has refs)
qed

definition reset_row :: "string \<Rightarrow> int \<Rightarrow> user \<Rightarrow> user" where
  "reset_row hash at u = coalesce_verified at (bump_session (with_password hash at u))"

lemma reset_row_simps [simp]:
  "u_id (reset_row hash at u) = u_id u" "u_email_normalized (reset_row hash at u) = u_email_normalized u"
  "u_password_hash (reset_row hash at u) = Some hash" "u_role (reset_row hash at u) = u_role u"
  "u_status (reset_row hash at u) = u_status u"
  "u_session_version (reset_row hash at u) = u_session_version u + 1"
  by (simp_all add: reset_row_def coalesce_verified_def bump_session_def with_password_def)

lemma select_updated:
  assumes "select_first P rows = Some u" "\<And>x. P (g x) = P x"
  shows "select_first P (update_where P g rows) = Some (g u)"
  using assms by (induction rows) (auto simp: select_first_def update_where_def split: if_splits)

definition reset_then_sign_in :: "identity_env \<Rightarrow> string \<Rightarrow> string \<Rightarrow> string \<Rightarrow> (int \<times> (error + session)) sql" where
  "reset_then_sign_in I email hash guess =
     bind (resetPassword I email hash) (\<lambda>uid.
     bind (attempt (loginByPassword I email guess)) (\<lambda>r. ret (uid, r)))"

lemma completeLogin_same:
  "u_id v = u_id u \<Longrightarrow> u_status v = u_status u \<Longrightarrow> u_role v = u_role u \<Longrightarrow>
     u_session_version v = u_session_version u \<Longrightarrow> completeLogin I v = completeLogin I u"
  by (cases "id_policy I") (auto simp: completeLogin_def)

text \<open>
  C22: After a password reset the account signs in with the new password and, up to a collision of the key
  derivation, with no other: every other guess gets the same answer as an unknown address.  The session is in a
  new generation, so the sessions from before the reset are over.
\<close>

theorem reset_password_signs_in:
  assumes "schema_ok d" "select_first (\<lambda>x. u_email_normalized x = email) (db_users d) = Some u"
    "hashPassword (id_kdf I) (Inr salt) password = (Inr hash :: error + string)"
    "\<And>pw. length (id_kdf I pw salt argon2Time argon2Memory argon2Threads argon2KeyLen) = 32"
  shows "wpf False (reset_then_sign_in I email hash guess) (\<lambda>r d' os'. os' = os \<and>
    (\<exists>answer. r = Inr (u_id u, answer) \<and>
       answer = (if id_kdf I guess salt argon2Time argon2Memory argon2Threads argon2KeyLen =
                   id_kdf I password salt argon2Time argon2Memory argon2Threads argon2KeyLen
                 then completeLogin I (u\<lparr>u_session_version := u_session_version u + 1\<rparr>)
                 else Inl ErrInvalidCredentials))) d os"
proof -
  let ?P = "\<lambda>x. u_email_normalized x = email" and ?at = "micro (id_now I)"
  let ?v = "(reset_row hash ?at u)\<lparr>u_updated_at := db_clock d\<rparr>"
  have ok: "schema_ok (snd (update_users ?P (reset_row hash ?at) d))"
    by (rule schema_update_users [OF assms(1)])
      (auto simp: user_checks_def reset_row_def coalesce_verified_def bump_session_def with_password_def)
  have found: "select_first ?P (db_users (snd (update_users ?P (reset_row hash ?at) d))) = Some ?v"
    unfolding update_users_def by (simp add: select_updated [OF assms(2)])
  have "distinct (map u_id (db_users (snd (update_users ?P (reset_row hash ?at) d))))"
    using ok by (simp add: schema_ok_def tables_ok_def keys_ok_def strict_sorted_iff)
  from select_first_key [OF this, of ?v] select_first_Some [OF found]
  have by_id: "select_first (\<lambda>x. u_id x = u_id u) (db_users (snd (update_users ?P (reset_row hash ?at) d))) = Some ?v"
    by simp
  have login: "completeLogin I ?v = completeLogin I (u\<lparr>u_session_version := u_session_version u + 1\<rparr>)"
    by (rule completeLogin_same) simp_all
  have reset: "resetPassword I email hash = atomically ErrInfra (bind (update_returning ?P (reset_row hash ?at)
      (\<lambda>u. (u_id u, u_session_version u))) (\<lambda>(uid, _). ret uid))"
    by (simp add: resetPassword_def ResetPasswordByEmail_def reset_row_def [abs_def])
  show ?thesis
    unfolding reset_then_sign_in_def reset update_returning_def loginByPassword_def find_user_def
      FindByEmailNormalized_def PasswordHash_def FindByID_def
    by (auto intro!: wp_intros simp: ok found by_id login assms(2) Let_def
        verify_hash [OF assms(3,4)] split: sum.splits)
qed

section \<open>What a reset request tells\<close>

lemma namespaceSet_answers:
  assumes "namespaceSet name prefix suffix (Some bytes) now ttl limit s = (r, s')"
  shows "r = Inr () \<or> r = Inl Cache_ErrCapacity"
  using assms
  by (auto simp: namespaceSet_def admit_key_def Let_def split: prod.splits sum.splits if_splits)

lemma reset_code_stored:
  assumes "le_codes L = NewEmailCodeStore" "le_ctx L = None" "\<And>r. oj_marshal (le_json L) r \<noteq> None"
  shows "wpf False (SetEmailCode L passwordResetPurpose email digest passwordResetCodeTTL)
    (\<lambda>r dc' os'. fst dc' = fst dc \<and> os' = os \<and> (r = Inr (Inr ()) \<or> r = Inr (Inl Cache_ErrCapacity))) dc os"
proof -
  obtain bytes where b: "oj_marshal (le_json L) \<lparr>or_hash = digest, or_attempts = 0,
      or_expires_at = le_issued_at L + passwordResetCodeTTL\<rparr> = Some bytes"
    using assms(3) by blast
  have "ns_valid password_reset_ns" by code_simp
  then have stored: "r = Inr () \<or> r = Inl Cache_ErrCapacity"
    if "Issue (namespace_backend (le_valid L) password_reset_ns) (le_json L) (le_ctx L) (le_issued_at L)
      (le_cache_now L) email digest passwordResetCodeTTL s = (r, s')" for r s s'
    using that namespaceSet_answers
    by (fastforce simp: Issue_def assms(2) b namespace_backend_def Namespace_Set_def when_valid_def)
  show ?thesis
    unfolding SetEmailCode_def
    by (auto dest: stored intro!: wp_intros simp: assms(1) oneTimeFor_def NewEmailCodeStore_def Let_def)
qed

lemma withdraw_quiet:
  assumes "le_codes L = NewEmailCodeStore"
  shows "wpf False (withdraw_reset_code L email) (\<lambda>r dk' os'. fst dk' = fst dk \<and> os' = os \<and> r = Inr ()) dk os"
  unfolding withdraw_reset_code_def DeleteEmailCode_def
  by (auto intro!: wp_intros simp: assms oneTimeFor_def NewEmailCodeStore_def Let_def)

text \<open>
  C23: A request to reset a password tells nothing about who has an account.  When nothing fails in the database its answer
  depends on the address and the captcha alone: not on the rows, not on the codes stored so far or the space left for
  them, and not on whether there is a mailer and the mail goes out.  The rows are not changed.
\<close>

theorem reset_request_reveals_nothing:
  assumes "le_codes L = NewEmailCodeStore" "le_ctx L = None" "\<And>r. oj_marshal (le_json L) r \<noteq> None"
    "emailCodeLength \<le> length (filter (\<lambda>b. b < 250) (le_random L))"
  shows "wpf False (RequestPasswordReset L email captcha_token) (\<lambda>r dk' os'. fst dk' = fst dk \<and> os' = os \<and>
    r = bindE (option_to_result ErrValidation (NormalizeEmail (id_lib (le_id L)) email)) (\<lambda>_.
        identity_checkCaptcha (le_id L) PasswordResetAction captcha_token)) dk os"
proof -
  obtain code where code: "generateCode emailCodeLength (le_random L) = Inr code"
    using generateCode_total [OF assms(4)] by blast
  have send: "wpf False (send_reset_code L deliver normalized)
      (\<lambda>r dk' os'. fst dk' = fst dk \<and> os' = os \<and> r = Inr ()) dk os" for deliver normalized
    unfolding send_reset_code_def send_mail_def
    by (auto simp: code intro!: wp_intros wp_mono [OF reset_code_stored [OF assms(1-3)]]
        wp_mono [OF withdraw_quiet [OF assms(1)]] split: sum.splits)
  show ?thesis
    unfolding RequestPasswordReset_def find_user_def FindByEmailNormalized_def
    by (auto intro!: wp_intros wp_mono [OF send] simp: Let_def split: sum.splits prod.splits)
qed

section \<open>External identities\<close>

definition bound_to :: "db \<Rightarrow> string \<Rightarrow> string \<Rightarrow> int \<Rightarrow> bool" where
  "bound_to d k subject uid \<longleftrightarrow> (\<exists>e \<in> set (ac_identities (db_accounts d)).
     ei_provider_key e = k \<and> ei_provider_subject e = subject \<and> ei_user_id e = uid)"

definition bindings_stay :: "db \<Rightarrow> db \<Rightarrow> bool" where
  "bindings_stay d d' \<longleftrightarrow> (\<forall>k s uid. bound_to d k s uid \<longrightarrow> bound_to d' k s uid)"

lemma bindings_stay_refl [simp]: "bindings_stay d d"
  by (simp add: bindings_stay_def)

lemma bindings_stay_rows:
  "bindings_stay d (snd (insert_identity row d))" "bindings_stay d (snd (insert_user u d))"
  by (auto simp: bindings_stay_def bound_to_def insert_identity_def insert_user_def map_accounts_def Let_def)

lemma bindings_stay_touch:
  "bindings_stay d (map_accounts (\<lambda>a. a\<lparr>ac_identities := update_where P (\<lambda>e. e\<lparr>ei_last_login_at := t\<rparr>) (ac_identities a)\<rparr>) d)"
proof -
  have "(if P e then e\<lparr>ei_last_login_at := t\<rparr> else e) \<in> set (update_where P (\<lambda>e. e\<lparr>ei_last_login_at := t\<rparr>) rows)"
    if "e \<in> set rows" for e rows using that by (auto simp: set_update_where)
  moreover have "ei_provider_key (if P e then e\<lparr>ei_last_login_at := t\<rparr> else e) = ei_provider_key e \<and>
      ei_provider_subject (if P e then e\<lparr>ei_last_login_at := t\<rparr> else e) = ei_provider_subject e \<and>
      ei_user_id (if P e then e\<lparr>ei_last_login_at := t\<rparr> else e) = ei_user_id e" for e by simp
  ultimately show ?thesis
    unfolding bindings_stay_def bound_to_def map_accounts_def by (simp del: set_map) metis
qed

lemma bindings_stay_trans: "bindings_stay d d' \<Longrightarrow> bindings_stay d' d'' \<Longrightarrow> bindings_stay d d''"
  by (auto simp: bindings_stay_def)

lemma bound_new: "bound_to (snd (insert_identity (new_binding uid p who) d)) (ap_key p) (oi_subject who) uid"
  by (auto simp: bound_to_def insert_identity_def map_accounts_def new_binding_def)

definition signed_in_as_bound :: "identity_env \<Rightarrow> auth_provider \<Rightarrow> oauth_identity \<Rightarrow> oauth_state \<Rightarrow> session \<Rightarrow> db \<Rightarrow> bool" where
  "signed_in_as_bound I p who state s d \<longleftrightarrow>
     (\<exists>u \<in> set (db_users d). bound_to d (ap_key p) (oi_subject who) (u_id u) \<and> completeLogin I u = Inr s \<and>
        (os_purpose state = oauthPurposeBind \<longrightarrow> u_id u = os_user_id state))"

lemma signedI:
  "u \<in> set (db_users d) \<Longrightarrow> u_id u = uid \<Longrightarrow> bound_to d (ap_key p) (oi_subject who) uid \<Longrightarrow> completeLogin I u = Inr s \<Longrightarrow>
     (os_purpose state = oauthPurposeBind \<Longrightarrow> uid = os_user_id state) \<Longrightarrow> signed_in_as_bound I p who state s d"
  by (auto simp: signed_in_as_bound_def)

lemma users_of_binding [simp]:
  "db_users (snd (insert_identity row d)) = db_users d"
  "db_users (map_accounts g d) = db_users d"
  by (simp_all add: insert_identity_def map_accounts_def)

text \<open>
  What a sign-in through a provider may write: nothing but the time of a use of an identity; or the one new binding of the presented
  identity, for the account that asked to add it, which exists and stays as it is; or, in a flow that does not
  add, together with the one new account, an ordinary one, that it opens for the address of the identity.
\<close>

definition untimed :: "external_identity \<Rightarrow> external_identity" where
  "untimed e = e\<lparr>ei_last_login_at := None\<rparr>"

definition same_identities :: "db \<Rightarrow> db \<Rightarrow> bool" where
  "same_identities d d' \<longleftrightarrow> map untimed (ac_identities (db_accounts d')) = map untimed (ac_identities (db_accounts d))"

definition one_binding :: "auth_provider \<Rightarrow> oauth_identity \<Rightarrow> int \<Rightarrow> db \<Rightarrow> db \<Rightarrow> bool" where
  "one_binding p who uid d d' \<longleftrightarrow>
     (\<exists>e. ac_identities (db_accounts d') = ac_identities (db_accounts d) @ [e] \<and> ei_provider_key e = ap_key p \<and>
        ei_provider_subject e = oi_subject who \<and> ei_user_id e = uid)"

definition opens_account :: "auth_provider \<Rightarrow> oauth_identity \<Rightarrow> string \<Rightarrow> db \<Rightarrow> db \<Rightarrow> bool" where
  "opens_account p who normalized d d' \<longleftrightarrow>
     (\<exists>u. db_users d' = db_users d @ [u] \<and> u_role u = RoleUser \<and> u_email_normalized u = normalized \<and>
        one_binding p who (u_id u) d d')"

definition binds_for_asker :: "identity_env \<Rightarrow> auth_provider \<Rightarrow> oauth_identity option \<Rightarrow> oauth_state \<Rightarrow> db \<Rightarrow> db \<Rightarrow> bool" where
  "binds_for_asker I p identity state d d' \<longleftrightarrow>
     (db_users d' = db_users d \<and> same_identities d d') \<or>
     (os_purpose state = oauthPurposeBind \<and> db_users d' = db_users d \<and> (\<exists>u \<in> set (db_users d). u_id u = os_user_id state) \<and>
        (\<exists>who. identity = Some who \<and> one_binding p who (os_user_id state) d d')) \<or>
     (os_purpose state \<noteq> oauthPurposeBind \<and>
        (\<exists>who original normalized. identity = Some who \<and>
           NormalizeEmail (id_lib I) (oi_verified_email who) = Some (original, normalized) \<and>
           (\<forall>u \<in> set (db_users d). u_email_normalized u \<noteq> normalized) \<and> opens_account p who normalized d d'))"

lemma same_identities_refl [simp]: "same_identities d d"
  by (simp add: same_identities_def)

lemma same_identities_touch:
  "same_identities d (map_accounts (\<lambda>a. a\<lparr>ac_identities := update_where P (\<lambda>e. e\<lparr>ei_last_login_at := t\<rparr>) (ac_identities a)\<rparr>) d)"
  by (simp add: same_identities_def map_accounts_def update_where_def untimed_def)

lemma one_binding_new:
  "db_accounts d1 = db_accounts d \<Longrightarrow> one_binding p who uid d (snd (insert_identity (new_binding uid p who) d1))"
  by (simp add: one_binding_def insert_identity_def map_accounts_def new_binding_def)

lemma opens_account_new:
  "opens_account p who normalized d (snd (insert_identity
      (new_binding (u_id (fst (insert_user (account_of original normalized nickname RoleUser\<lparr>u_email_verified_at := t\<rparr>) d))) p who)
      (snd (insert_user (account_of original normalized nickname RoleUser\<lparr>u_email_verified_at := t\<rparr>) d))))"
  unfolding opens_account_def
  by (auto simp: insert_user_def Let_def account_of_def intro!: one_binding_new)

lemma completeOAuthLogin_wp:
  assumes "e \<in> set (ac_identities (db_accounts d))" "ei_provider_key e = ap_key p" "ei_provider_subject e = oi_subject who"
    "os_purpose state = oauthPurposeBind \<Longrightarrow> os_user_id state = ei_user_id e"
  shows "wp (completeOAuthLogin I e) (\<lambda>r d' os'. bindings_stay d d' \<and> db_users d' = db_users d \<and> same_identities d d' \<and>
    (\<forall>s. r = Inr s \<longrightarrow> signed_in_as_bound I p who state s d')) d os"
proof -
  have here: "bound_to d (ap_key p) (oi_subject who) (ei_user_id e)"
    using assms(1-3) by (auto simp: bound_to_def)
  then have "bound_to (map_accounts (\<lambda>a. a\<lparr>ac_identities := update_where P (\<lambda>e. e\<lparr>ei_last_login_at := t\<rparr>) (ac_identities a)\<rparr>) d)
      (ap_key p) (oi_subject who) (ei_user_id e)" for P t
    using bindings_stay_touch by (auto simp: bindings_stay_def)
  then show ?thesis
    unfolding completeOAuthLogin_def FindByID_def TouchLastLogin_def
    by (auto intro!: wp_intros bindings_stay_touch same_identities_touch signedI dest!: select_first_Some split: sum.splits)
      (auto simp: assms(4))
qed

lemma bindOAuthIdentity_wp:
  assumes "u \<in> set (db_users d)" "os_purpose state = oauthPurposeBind \<Longrightarrow> u_id u = os_user_id state"
  shows "wp (bindOAuthIdentity I p who u) (\<lambda>r d' os'. bindings_stay d d' \<and> db_users d' = db_users d \<and>
    (same_identities d d' \<or> one_binding p who (u_id u) d d') \<and>
    (\<forall>s. r = Inr s \<longrightarrow> signed_in_as_bound I p who state s d')) d os"
  unfolding bindOAuthIdentity_def Identity_Create_def
  by (auto intro!: wp_intros bindings_stay_rows signedI bound_new one_binding_new assms split: sum.splits)

lemma registerOAuthUser_wp:
  assumes "os_purpose state \<noteq> oauthPurposeBind"
  shows "wp (registerOAuthUser I p who normalized) (\<lambda>r d' os'. bindings_stay d d' \<and>
    (d' = d \<or> opens_account p who normalized d d') \<and>
    (\<forall>s. r = Inr s \<longrightarrow> signed_in_as_bound I p who state s d')) d os"
  unfolding registerOAuthUser_def Identity_Create_def User_Create_def FindByID_def
  by (auto intro!: wp_intros bindings_stay_trans [OF bindings_stay_rows(2) bindings_stay_rows(1)]
      signedI simp: assms opens_account_new dest!: select_first_Some split: sum.splits prod.splits)
    (auto simp: bound_new)

text \<open>The three ways to write nothing or what was asked for.\<close>

lemma asker_intros:
  "db_users d' = db_users d \<Longrightarrow> same_identities d d' \<Longrightarrow> binds_for_asker I p identity state d d'"
  "os_purpose state = oauthPurposeBind \<Longrightarrow> db_users d' = db_users d \<Longrightarrow> u \<in> set (db_users d) \<Longrightarrow> u_id u = os_user_id state \<Longrightarrow>
     same_identities d d' \<or> one_binding p who (u_id u) d d' \<Longrightarrow> binds_for_asker I p (Some who) state d d'"
  "os_purpose state \<noteq> oauthPurposeBind \<Longrightarrow> NormalizeEmail (id_lib I) (oi_verified_email who) = Some (original, normalized) \<Longrightarrow>
     select_first (\<lambda>u. u_email_normalized u = normalized) (db_users d) = None \<Longrightarrow>
     d' = d \<or> opens_account p who normalized d d' \<Longrightarrow> binds_for_asker I p (Some who) state d d'"
  by (auto simp: binds_for_asker_def select_first_None)

text \<open>
  C21: An external identity leads to one account.  Whatever the database does, a sign-in through a provider never moves or
  drops a binding; a session it gives out is of the account the identity is bound to; an identity is
  added at most once, and only to the existing account that asked for it, in the flow that adds, or to the new account that a
  flow without an account opens for the identity's own address, which no account had; in the flow that adds
  an identity to an account the session is of that account and no account is opened or changed.
\<close>

theorem oauth_identity_leads_to_one_account:
  "wp (resolveOAuthIdentity I p identity state) (\<lambda>r d' os'. bindings_stay d d' \<and>
     binds_for_asker I p identity state d d' \<and>
     (os_purpose state = oauthPurposeBind \<longrightarrow> db_users d' = db_users d) \<and>
     (case r of Inl _ \<Rightarrow> True
      | Inr s \<Rightarrow> (case identity of None \<Rightarrow> False | Some who \<Rightarrow> signed_in_as_bound I p who state s d'))) d os"
  unfolding resolveOAuthIdentity_def GetByProviderSubject_def find_user_def FindByEmailNormalized_def FindByID_def
  by (auto intro!: wp_intros wp_mono [OF completeOAuthLogin_wp [of _ d p _ state]]
      wp_mono [OF bindOAuthIdentity_wp [of _ d state]] wp_mono [OF registerOAuthUser_wp [of state]]
      simp: asker_intros(1) dest!: select_first_Some split: sum.splits prod.splits)
    (auto simp: asker_intros(2) asker_intros(3))

section \<open>On concrete rows\<close>

definition sample_binding :: "int \<Rightarrow> int \<Rightarrow> string \<Rightarrow> external_identity" where
  "sample_binding i uid subject =
     \<lparr>ei_id = i, ei_user_id = uid, ei_provider_key = ''github'', ei_provider_subject = subject,
      ei_verified_email = ''guest@example.org'', ei_created_at = 0, ei_last_login_at = None\<rparr>"

definition two_ways_db :: db where
  "two_ways_db = map_accounts (\<lambda>a. a\<lparr>ac_identities := [sample_binding 1 2 ''7'', sample_binding 2 2 ''8''],
     ac_next_identity := 3\<rparr>) sample_db"

lemma two_ways_ok: "schema_ok two_ways_db"
  by code_simp

lemma last_login_method_kept_witness:
  "case DeleteExternalIdentity 2 1 \<lparr>data = two_ways_db, faults = [], outbox = []\<rparr> of
     (Inl _, w) \<Rightarrow> False
   | (Inr _, w) \<Rightarrow> 2 \<le> login_methods two_ways_db 2 \<and> one_way_less two_ways_db 2 (data w)"
proof -
  obtain w where w: "DeleteExternalIdentity 2 1 \<lparr>data = two_ways_db, faults = [], outbox = []\<rparr> = (Inr (), w)"
  proof -
    have "fst (DeleteExternalIdentity 2 1 \<lparr>data = two_ways_db, faults = [], outbox = []\<rparr>) = Inr ()" by code_simp
    then show ?thesis using that by (metis prod.collapse)
  qed
  have "DeleteExternalIdentity 2 1 \<in> {DeletePasskey 2 1, DeleteExternalIdentity 2 1}" by simp
  from last_login_method_kept [OF two_ways_ok this, of "[]", unfolded wpf_def, rule_format,
      of "\<lparr>data = two_ways_db, faults = [], outbox = []\<rparr>"] w
  show ?thesis by simp
qed

text \<open>A signed-in account adds an identity.\<close>

definition sample_provider :: auth_provider where
  "sample_provider =
     \<lparr>ap_key = ''github'', ap_kind = ''github'', ap_enabled = True, ap_configured = True, ap_client_id = ''id'',
      ap_client_secret = ''s'', ap_auth_url = '''', ap_token_url = '''', ap_issuer_url = '''',
      ap_instance_url = '''', ap_apple_team_id = '''', ap_apple_key_id = '''', ap_apple_private_key = ''''\<rparr>"

definition binding_flow :: oauth_state where
  "binding_flow = \<lparr>os_provider = ''github'', os_purpose = oauthPurposeBind, os_verifier = '''', os_nonce = '''',
     os_user_id = 2, os_redirect = ''/'', os_redirect_uri = ''''\<rparr>"

definition new_identity :: oauth_identity where
  "new_identity = \<lparr>oi_subject = ''9'', oi_verified_email = ''guest@example.org''\<rparr>"

abbreviation "bound_world \<equiv>
  resolveOAuthIdentity sample_identity sample_provider (Some new_identity) binding_flow
    \<lparr>data = two_ways_db, faults = [], outbox = []\<rparr>"

theorem oauth_identity_leads_to_one_account_witness:
  "case bound_world of
     (Inl _, _) \<Rightarrow> False
   | (Inr s, w) \<Rightarrow> bindings_stay two_ways_db (data w) \<and> db_users (data w) = db_users two_ways_db \<and>
       binds_for_asker sample_identity sample_provider (Some new_identity) binding_flow two_ways_db (data w) \<and>
       signed_in_as_bound sample_identity sample_provider new_identity binding_flow s (data w)"
proof -
  obtain s w where w: "bound_world = (Inr s, w)"
  proof -
    have "case fst bound_world of Inl _ \<Rightarrow> False | Inr _ \<Rightarrow> True" by code_simp
    then show ?thesis using that by (cases bound_world) (auto split: sum.splits)
  qed
  from oauth_identity_leads_to_one_account [of sample_identity sample_provider "Some new_identity" binding_flow
      two_ways_db "[]", unfolded wpf_def, rule_format, of "\<lparr>data = two_ways_db, faults = [], outbox = []\<rparr>"] w
  show ?thesis by (simp add: binding_flow_def)
qed

text \<open>A key derivation that is not one, but answers with as many bytes as it is asked for.\<close>

definition sample_kdf :: kdf where
  "sample_kdf = (\<lambda>pw salt t m p n. take 32 (pw @ replicate 32 CHR ''.''))"

lemma reset_password_signs_in_witness:
  "\<exists>hash. hashPassword sample_kdf (Inr ''salt'') ''secret'' = (Inr hash :: error + string) \<and>
     wpf False (reset_then_sign_in (sample_identity\<lparr>id_kdf := sample_kdf\<rparr>) ''guest@example.org'' hash ''wrong'')
       (\<lambda>r d' os'. r = Inr (2, Inl ErrInvalidCredentials)) sample_db []"
proof -
  let ?I = "sample_identity\<lparr>id_kdf := sample_kdf\<rparr>"
  obtain hash where hash: "hashPassword sample_kdf (Inr ''salt'') ''secret'' = (Inr hash :: error + string)"
    by (simp add: hashPassword_def Let_def)
  have ok: "schema_ok sample_db" by code_simp
  have found: "select_first (\<lambda>x. u_email_normalized x = ''guest@example.org'') (db_users sample_db) =
      Some (sample_user 2 ''guest'' RoleUser)"
    by (simp add: sample_db_def sample_user_def select_first_def)
  have other: "sample_kdf ''wrong'' s t m p n \<noteq> sample_kdf ''secret'' s t m p n" for s t m p n
    by (simp add: sample_kdf_def)
  have hash': "hashPassword (id_kdf ?I) (Inr ''salt'') ''secret'' = (Inr hash :: error + string)" using hash by simp
  have len: "length (id_kdf ?I pw ''salt'' argon2Time argon2Memory argon2Threads argon2KeyLen) = 32" for pw
    by (simp add: sample_kdf_def)
  have "wpf False (reset_then_sign_in ?I ''guest@example.org'' hash ''wrong'')
      (\<lambda>r d' os'. r = Inr (2, Inl ErrInvalidCredentials)) sample_db []"
    by (rule wp_mono [OF reset_password_signs_in [OF ok found hash' len]]) (simp add: other sample_user_def)
  with hash show ?thesis by blast
qed

definition sample_login :: login_env where
  "sample_login =
     \<lparr>le_id = sample_identity, le_codes = NewEmailCodeStore, le_sha = (\<lambda>x. x),
      le_json = \<lparr>oj_marshal = (\<lambda>r. Some (or_hash r)), oj_unmarshal = (\<lambda>_. None)\<rparr>,
      le_json_string = Some, le_valid = (\<lambda>_. True), le_ctx = None, le_issued_at = 0, le_cache_now = 0,
      le_rounds = [], le_random = [1, 2, 3, 4, 5, 6, 7, 8], le_mailer = Some (\<lambda>_. Inl ErrInfra),
      le_login_template = (\<lambda>_ _. None), le_reset_template = (\<lambda>code _. Some code),
      le_admission = None, le_budget_free = True\<rparr>"

text \<open>One of the addresses has an account, the other has none, and the mailer is down.\<close>

lemma reset_request_reveals_nothing_witness:
  "\<forall>email. wpf False (RequestPasswordReset sample_login email ''token'')
     (\<lambda>r dk' os'. fst dk' = sample_db \<and> r = bindE (option_to_result ErrValidation (NormalizeEmail (id_lib sample_identity) email))
        (\<lambda>_. identity_checkCaptcha sample_identity PasswordResetAction ''token''))
     (sample_db, \<lparr>dk_cache = NewMemory 4, dk_sent = []\<rparr>) []"
  by (rule allI, rule wp_mono [OF reset_request_reveals_nothing])
    (simp_all add: sample_login_def)

section \<open>An update that revives an account\<close>

text \<open>
  \<open>AdminUpdateUser\<close> takes the status of a deleted account without looking at it, where the batch command
  answers with a conflict: the account is live again and still carries its deletion.
\<close>

definition deleted_row :: user where
  "deleted_row = delete_columns UserStatusActive 400 (sample_user 3 ''reader'' RoleUser)"

definition revive_input :: admin_update_user_input where
  "revive_input = \<lparr>uu_email = None, uu_nickname = None, uu_website_url = \<lparr>ons_set = False, ons_value = None\<rparr>,
     uu_role = None, uu_status = Some ''active'', uu_email_verified = None\<rparr>"

lemma update_revives_deleted:
  "u_status deleted_row = UserStatusDeleted \<and>
   (\<exists>v. next_values sample_identity revive_input deleted_row = Inr v \<and>
      u_status (apply_fields (changed_fields 5 revive_input v deleted_row) deleted_row) = UserStatusActive \<and>
      u_deleted_at (apply_fields (changed_fields 5 revive_input v deleted_row) deleted_row) = Some 400) \<and>
   planAdminUserBatchAction 1 deleted_row AdminUserBatchEnable 1 = Inl ErrConflict"
  by (simp add: deleted_row_def delete_columns_def sample_user_def revive_input_def next_values_def patched_def
      changed_fields_def apply_fields_def given_def editable_status_def option_to_result_def planAdminUserBatchAction_def
      changed_to_def)

end
