(* ===== verification/Widget.thy ===== *)
theory Widget
  imports Create Access Onetime
begin

text \<open>
  The widget's credentials (\<open>internal/service/comment/widget_session.go\<close>, \<open>authcode.go\<close>, \<open>widget.go\<close>,
  \<open>signer.go\<close> and \<open>internal/middleware/widget.go\<close>): a first-party session obtains a one-time code bound to
  a site, an origin and a user; the widget exchanges the code for a token, and every later request with the token
  is checked against the live policy and the live principal.
\<close>

section \<open>Codes (authcode.go)\<close>

record auth_code_record =
  ar_site_id :: int
  ar_origin :: string
  ar_user_id :: int
  ar_request_id :: string
  ar_expires_at :: int
  ar_credential_mode :: string

text \<open>
  What the service is given: the settings reader, the token service with the identifier of the next token,
  SHA-256, random bytes, the JSON codecs of a record and of a string, the cache of the principals, and the
  instants at which the service and the caches look at their clocks.
\<close>

record widget_env =
  wg_settings :: settings
  wg_jwt :: jwt_service
  wg_uuid :: string
  wg_sha :: "string \<Rightarrow> string"
  wg_random :: "error + string"
  wg_marshal :: "auth_code_record \<Rightarrow> string option"
  wg_unmarshal :: "string \<Rightarrow> auth_code_record option"
  wg_json_string :: "string \<Rightarrow> string option"
  wg_string_json :: "string \<Rightarrow> string option"
  wg_codec :: authz_codec
  wg_ctx :: "cache_error option"
  wg_now :: int
  wg_later :: int
  wg_cache_now :: int
  wg_resolve_at :: int
  wg_publish_at :: int

definition SetAuthCode :: "widget_env \<Rightarrow> string \<Rightarrow> auth_code_record \<Rightarrow> int \<Rightarrow> unit svc" where
  "SetAuthCode W code_hash r ttl =
     (case wg_marshal W r of
        None \<Rightarrow> fail ErrInfra
      | Some bytes \<Rightarrow>
          bind (on_cache (Namespace_Set widget_auth_code_ns (wg_json_string W bytes) (wg_cache_now W) code_hash ttl))
            (\<lambda>stored.
          case stored of
            Inl e \<Rightarrow> fail (if e = Cache_ErrCapacity then ErrUnavailable else ErrInfra)
          | Inr _ \<Rightarrow> ret ()))"

definition ConsumeAuthCode :: "widget_env \<Rightarrow> string \<Rightarrow> auth_code_record svc" where
  "ConsumeAuthCode W code_hash =
     bind (on_cache (Namespace_AtomicConsume (wg_string_json W) widget_auth_code_ns (wg_cache_now W) code_hash)) (\<lambda>found.
     case found of
       Inl e \<Rightarrow> fail (if e = Cache_ErrNotFound then ErrInvalidCredentials else ErrInfra)
     | Inr raw \<Rightarrow>
         (case wg_unmarshal W raw of
            None \<Rightarrow> fail ErrInfra
          | Some r \<Rightarrow> ret r))"

section \<open>Tokens (widget.go)\<close>

record widget_credential = credential +
  wc_expires_at :: "int option"

definition parseDecimalClaim :: "string \<Rightarrow> error + int" where
  "parseDecimalClaim raw =
     (if raw = '''' then Inl ErrValidation
      else (case ParseInt raw of
              None \<Rightarrow> Inl ErrValidation
            | Some n \<Rightarrow> if n < 0 then Inl ErrValidation else Inr n))"

definition Verify :: "jwt_service \<Rightarrow> int \<Rightarrow> string \<Rightarrow> widget_credential option" where
  "Verify S now raw =
     (case Token_Parse S now raw AudienceWidgetAuthenticated TokenKindWidgetAuthenticated of
        Inl _ \<Rightarrow> None
      | Inr c \<Rightarrow>
          (case (claims_UserID c, parseDecimalClaim (cl_site_id c), parseDecimalClaim (cl_credential_epoch c)) of
             (Inr uid, Inr sid, Inr epoch) \<Rightarrow>
               Some \<lparr>wc_user_id = uid, wc_site_id = sid, wc_epoch = epoch, wc_expires_at = cl_expires_at c\<rparr>
           | _ \<Rightarrow> None))"

definition popupAuthorizationAllowed :: "string \<Rightarrow> role \<Rightarrow> bool" where
  "popupAuthorizationAllowed mode r =
     (if mode = CommentModeAnonymous then r = RoleAdmin
      else if mode = CommentModeAuthenticated then r = RoleUser \<or> r = RoleAdmin
      else False)"

section \<open>Issuing and exchanging (widget_session.go)\<close>

abbreviation "authCodeTTL \<equiv> (60000000000 :: int)"
abbreviation "authCodeBytes \<equiv> (16 :: nat)"

record issue_input =
  is_site_id :: int
  is_origin :: string
  is_request_id :: string
  is_user_id :: int
  is_role :: role

record auth_code_result =
  ac_code :: string
  ac_request_id :: string
  ac_expires_at :: int

record session_result =
  sr_token :: string
  sr_expires_at :: int

text \<open>\<open>RandomToken\<close> encodes the random bytes.\<close>

definition generateAuthCode :: "error + string \<Rightarrow> error + string" where
  "generateAuthCode random = bindE random (\<lambda>bytes. Inr (b64_encode bytes))"

definition resolve_for :: "widget_env \<Rightarrow> int \<Rightarrow> principal svc" where
  "resolve_for W = Resolve (wg_codec W) (wg_ctx W) (wg_resolve_at W) (wg_publish_at W)"

definition IssueAuthorization :: "widget_env \<Rightarrow> issue_input \<Rightarrow> auth_code_result svc" where
  "IssueAuthorization W input =
     bind (lift (wg_settings W)) (\<lambda>pol.
     if \<not> popupAuthorizationAllowed (pol_mode pol) (is_role input) then fail ErrForbidden
     else bind (on_db (validateSiteAndOrigin (is_site_id input) (is_origin input))) (\<lambda>_.
          if TrimSpace (is_request_id input) = '''' then fail ErrValidation
          else bind (lift (generateAuthCode (wg_random W))) (\<lambda>code.
               let expires = wg_now W + authCodeTTL;
                   r = \<lparr>ar_site_id = is_site_id input, ar_origin = is_origin input, ar_user_id = is_user_id input,
                        ar_request_id = is_request_id input, ar_expires_at = expires,
                        ar_credential_mode = pol_mode pol\<rparr>
               in bind (SetAuthCode W (wg_sha W code) r authCodeTTL) (\<lambda>_.
                  ret \<lparr>ac_code = code, ac_request_id = is_request_id input, ac_expires_at = expires\<rparr>))))"

definition requireActivePopupPrincipal :: "widget_env \<Rightarrow> auth_code_record \<Rightarrow> comment_policy \<Rightarrow> unit svc" where
  "requireActivePopupPrincipal W r pol =
     (if ar_credential_mode r \<noteq> pol_mode pol then fail ErrInvalidCredentials
      else bind (attempt (resolve_for W (ar_user_id r))) (\<lambda>found.
           case found of
             Inl _ \<Rightarrow> fail ErrInvalidCredentials
           | Inr p \<Rightarrow>
               if p_status p \<noteq> UserStatusActive then fail ErrInvalidCredentials
               else if \<not> popupAuthorizationAllowed (ar_credential_mode r) (p_role p) then fail ErrInvalidCredentials
               else ret ()))"

definition widget_token :: "widget_env \<Rightarrow> auth_code_record \<Rightarrow> comment_policy \<Rightarrow> error + session_result" where
  "widget_token W r pol =
     (case SignWidget (wg_jwt W) (wg_later W) (wg_uuid W) (ar_user_id r) (ar_site_id r)
             TokenKindWidgetAuthenticated (FormatInt (pol_epoch pol)) of
        Inl _ \<Rightarrow> Inl ErrInfra
      | Inr token \<Rightarrow> Inr \<lparr>sr_token = token, sr_expires_at = wg_later W + jw_lifetime (wg_jwt W)\<rparr>)"

definition ExchangeAuthorization :: "widget_env \<Rightarrow> string \<Rightarrow> string \<Rightarrow> session_result svc" where
  "ExchangeAuthorization W raw_code origin =
     (if TrimSpace raw_code = '''' then fail ErrInvalidCredentials
      else bind (ConsumeAuthCode W (wg_sha W raw_code)) (\<lambda>r.
           if ar_origin r \<noteq> origin then fail ErrInvalidCredentials
           else if ar_expires_at r < wg_now W then fail ErrInvalidCredentials
           else bind (attempt (on_db (validateSiteAndOrigin (ar_site_id r) origin))) (\<lambda>site.
                case site of
                  Inl e \<Rightarrow> fail (if e = ErrForbidden then ErrInvalidCredentials else e)
                | Inr _ \<Rightarrow>
                    bind (lift (wg_settings W)) (\<lambda>pol.
                    bind (attempt (requireActivePopupPrincipal W r pol)) (\<lambda>live.
                    case live of
                      Inl _ \<Rightarrow> fail ErrInvalidCredentials
                    | Inr _ \<Rightarrow> lift (widget_token W r pol))))))"

section \<open>Probing and the authorization page (widget_session.go)\<close>

datatype probe_result = Invalid | Valid widget_credential role

text \<open>Every failure on the way is the same answer.\<close>

definition Probe :: "widget_env \<Rightarrow> string \<Rightarrow> string \<Rightarrow> probe_result svc" where
  "Probe W raw origin =
     (if TrimSpace raw = '''' then ret Invalid
      else (case Verify (wg_jwt W) (wg_now W) raw of
              None \<Rightarrow> ret Invalid
            | Some cred \<Rightarrow>
                bind (attempt (on_db (AllowedOrigins (wc_site_id cred)))) (\<lambda>allowed.
                case allowed of
                  Inl _ \<Rightarrow> ret Invalid
                | Inr origins \<Rightarrow>
                    if origin \<notin> set origins then ret Invalid
                    else (case wg_settings W of
                            Inl _ \<Rightarrow> ret Invalid
                          | Inr pol \<Rightarrow>
                              if wc_epoch cred \<noteq> pol_epoch pol then ret Invalid
                              else bind (attempt (resolve_for W (wc_user_id cred))) (\<lambda>found.
                                   case found of
                                     Inl _ \<Rightarrow> ret Invalid
                                   | Inr p \<Rightarrow>
                                       ret (if p_status p \<noteq> UserStatusActive \<or> \<not> WidgetRoleAllowed (pol_mode pol) (p_role p)
                                            then Invalid else Valid cred (p_role p)))))))"

record authorization_context =
  ax_site_id :: int
  ax_site_name :: string
  ax_origin :: string

definition AuthorizationContext :: "widget_env \<Rightarrow> int \<Rightarrow> role \<Rightarrow> string \<Rightarrow> authorization_context sql" where
  "AuthorizationContext W sid r origin =
     bind (lift (wg_settings W)) (\<lambda>pol.
     if \<not> popupAuthorizationAllowed (pol_mode pol) r then fail ErrForbidden
     else bind (validateSiteAndOrigin sid origin) (\<lambda>_.
          bind (Site_Get sid) (\<lambda>s.
          ret \<lparr>ax_site_id = sid, ax_site_name = s_name s, ax_origin = origin\<rparr>)))"

section \<open>Requests of the widget (internal/middleware/widget.go)\<close>

text \<open>\<open>WidgetConfig\<close> of \<open>signer.go\<close> reads mode and generation of the policy.\<close>

definition WidgetConfig :: "settings \<Rightarrow> error + string \<times> int" where
  "WidgetConfig s = bindE s (\<lambda>pol. Inr (pol_mode pol, pol_epoch pol))"

definition checkWidgetCredential :: "widget_env \<Rightarrow> widget_credential \<Rightarrow> principal svc" where
  "checkWidgetCredential W cred =
     bind (lift (WidgetConfig (wg_settings W))) (\<lambda>(mode, epoch).
     if wc_epoch cred \<noteq> epoch then fail ErrCredentialStale
     else bind (resolve_for W (wc_user_id cred)) (\<lambda>p.
          if p_status p \<noteq> UserStatusActive \<or> \<not> WidgetRoleAllowed mode (p_role p) then fail ErrCredentialMode
          else ret p))"

text \<open>
  What the middleware leaves for the handler: an aborted request with its status, nobody, with or without
  clearing the cookie, or a credential with its principal.  The route may carry a site.
\<close>

datatype widget_request = WidgetAborted nat | WidgetNobody bool | WidgetUser widget_credential principal

definition site_param_ok :: "string \<Rightarrow> widget_credential \<Rightarrow> bool" where
  "site_param_ok raw_site cred \<longleftrightarrow> raw_site = '''' \<or> ParseInt raw_site = Some (wc_site_id cred)"

definition WidgetPrincipalResolution :: "widget_env \<Rightarrow> string option \<Rightarrow> string \<Rightarrow> widget_request svc" where
  "WidgetPrincipalResolution W cookie raw_site =
     (case cookie of
        None \<Rightarrow> ret (WidgetAborted 401)
      | Some raw \<Rightarrow>
          if raw = '''' then ret (WidgetAborted 401)
          else (case Verify (wg_jwt W) (wg_now W) raw of
                  None \<Rightarrow> ret (WidgetAborted 401)
                | Some cred \<Rightarrow>
                    bind (attempt (checkWidgetCredential W cred)) (\<lambda>r.
                    ret (case r of
                           Inl _ \<Rightarrow> WidgetAborted 403
                         | Inr p \<Rightarrow> if site_param_ok raw_site cred then WidgetUser cred p else WidgetAborted 403))))"

definition WidgetOptionalResolution :: "widget_env \<Rightarrow> string option \<Rightarrow> string \<Rightarrow> widget_request svc" where
  "WidgetOptionalResolution W cookie raw_site =
     (case cookie of
        None \<Rightarrow> ret (WidgetNobody False)
      | Some raw \<Rightarrow>
          if raw = '''' then ret (WidgetNobody False)
          else (case Verify (wg_jwt W) (wg_now W) raw of
                  None \<Rightarrow> ret (WidgetNobody True)
                | Some cred \<Rightarrow>
                    bind (attempt (checkWidgetCredential W cred)) (\<lambda>r.
                    ret (case r of
                           Inl _ \<Rightarrow> WidgetNobody False
                         | Inr p \<Rightarrow> if site_param_ok raw_site cred then WidgetUser cred p else WidgetNobody False))))"

text \<open>The cookie's life time in seconds.\<close>

definition widget_cookie_seconds :: "int \<Rightarrow> int" where
  "widget_cookie_seconds max_age = (if max_age \<le> 0 then 86400000000000 else max_age) div 1000000000"

section \<open>What is issued is what is read back\<close>

lemma parseDecimalClaim_FormatInt: "0 \<le> n \<Longrightarrow> n < 2 ^ 63 \<Longrightarrow> parseDecimalClaim (FormatInt n) = Inr n"
  using FormatInt_digits [of n] ParseInt_FormatInt [of n] by (auto simp: parseDecimalClaim_def)

end
