(* ===== verification/Widget_Props.thy ===== *)
theory Widget_Props
  imports Widget System
begin

text \<open>
  What the exchange of an authorization code promises, whatever fails on the way.
\<close>

section \<open>A spent code stays spent\<close>

definition absent :: "string \<Rightarrow> memory \<Rightarrow> bool" where
  "absent k s \<longleftrightarrow> (\<forall>t. view s t k = None)"

lemma absent_iff: "absent k s \<longleftrightarrow> item_of s k = None"
proof
  assume a: "absent k s"
  show "item_of s k = None"
  proof (cases "item_of s k")
    case (Some it)
    have "view s (mi_expires it - 1) k = Some (mi_data it)" using Some by (simp add: view_def live_item_def)
    with a show ?thesis by (simp add: absent_def)
  qed
qed (simp add: absent_def view_def live_item_def)

lemma absent_shrinks: "shrinks now s s' \<Longrightarrow> absent k s \<Longrightarrow> absent k s'"
  unfolding absent_iff by (erule shrinks_item [of now s s' k]) auto

lemma absent_Get:
  assumes "Memory_Get dec ctx now k' s = (r, s')" "mem_ok s" "absent k s"
  shows "mem_ok s' \<and> absent k s'"
  using assms mem_ok_steps(1,3)
  by (auto simp: Memory_Get_def absent_iff cache_simps split: option.splits)

lemma absent_Set:
  assumes "Memory_Set b now k' ttl s = (r, s')" "mem_ok s" "absent k s" "k' \<noteq> k"
  shows "mem_ok s' \<and> absent k s'"
  using assms shrinks_ok [OF shrinks_evict [OF assms(2)]] absent_shrinks [OF shrinks_evict [OF assms(2)] assms(3)]
  by (auto simp: Memory_Set_def absent_iff cache_simps Let_def split: option.splits if_splits)

definition code_entry :: "string \<Rightarrow> string" where
  "code_entry h = ''authcode:'' @ h"

abbreviation "code_key W raw \<equiv> code_entry (wg_sha W raw)"

lemma code_key_not_authz [simp]: "authzKey uid \<noteq> code_entry x"
  by (simp add: authzKey_def code_entry_def)

lemma absent_publish:
  "publish_authz C now uid info s = (r, s') \<Longrightarrow> mem_ok s \<Longrightarrow> absent (code_entry x) s \<Longrightarrow>
     mem_ok s' \<and> absent (code_entry x) s'"
  unfolding publish_authz_def by (rule absent_Set) auto

text \<open>
  The principal of an account: what the cache holds for it or what the account's row says, as the codec of the cache
  reads it back.
\<close>

definition known_principal :: "widget_env \<Rightarrow> db \<Rightarrow> memory \<Rightarrow> int \<Rightarrow> principal \<Rightarrow> bool" where
  "known_principal W d m uid p \<longleftrightarrow>
     (\<exists>i. p = principal_of uid i \<and>
        ((\<exists>raw. view m (wg_resolve_at W) (authzKey uid) = Some raw \<and> az_unmarshal (wg_codec W) raw = Some i) \<or>
         (\<exists>u \<in> set (db_users d). u_id u = uid \<and>
            Option.bind (az_marshal (wg_codec W) (authz_of u)) (az_unmarshal (wg_codec W)) = Some i)))"

lemma known_row:
  "u \<in> set (db_users d) \<Longrightarrow> u_id u = uid \<Longrightarrow>
   Option.bind (az_marshal (wg_codec W) (authz_of u)) (az_unmarshal (wg_codec W)) = Some i \<Longrightarrow>
   known_principal W d m uid (principal_of uid i)"
  unfolding known_principal_def by blast

lemma Memory_Get_hit:
  "Memory_Get dec ctx now k s = (Inr i, s') \<Longrightarrow> \<exists>raw. view s now k = Some raw \<and> dec raw = Some i"
  by (auto simp: Memory_Get_def view_def decoded_def split: option.splits)

lemma resolve_keeps_absent:
  assumes "mem_ok (snd dc)" "absent (code_entry x) (snd dc)"
  shows "wp (resolve_for W uid) (\<lambda>r dc' os'. fst dc' = fst dc \<and> mem_ok (snd dc') \<and> absent (code_entry x) (snd dc') \<and>
    (\<forall>p. r = Inr p \<longrightarrow> known_principal W (fst dc) (snd dc) uid p)) dc os"
proof -
  have get: "mem_ok c' \<and> absent (code_entry x) c' \<and> (\<forall>i. r = Inr i \<longrightarrow> known_principal W (fst dc) (snd dc) uid (principal_of uid i))"
    if "Memory_Get (az_unmarshal (wg_codec W)) (wg_ctx W) (wg_resolve_at W) (authzKey uid) (snd dc) = (r, c')" for r c'
  proof (intro conjI allI impI)
    show "mem_ok c'" "absent (code_entry x) c'" using absent_Get [OF that assms] by simp_all
    show "known_principal W (fst dc) (snd dc) uid (principal_of uid i)" if "r = Inr i" for i
      using Memory_Get_hit [OF \<open>_ = (r, c')\<close> [unfolded that]] unfolding known_principal_def by blast
  qed
  have put: "mem_ok c' \<and> absent (code_entry x) c'"
    if "publish_authz (wg_codec W) (wg_publish_at W) k i c = (r, c')" "mem_ok c" "absent (code_entry x) c" for k i c r c'
    using absent_publish that by blast
  show ?thesis
    unfolding resolve_for_def Resolve_def load_authz_def FindByID_def
    using assms
    by (auto intro!: wp_intros dest!: get select_first_Some split: sum.splits) (blast dest: put intro: known_row)+
qed

section \<open>The exchange\<close>

text \<open>
  What a successful exchange rests on: the cache held, under the code, a record for this origin that has not expired;
  the site is active and allows the origin; the mode is the one of the record; and the user it names is active with a role
  the mode allows.
\<close>

definition honoured :: "widget_env \<Rightarrow> string \<Rightarrow> string \<Rightarrow> db \<Rightarrow> memory \<Rightarrow> session_result \<Rightarrow> bool" where
  "honoured W raw origin d m s \<longleftrightarrow>
     (\<exists>x bytes a pol (p :: principal). view m (wg_cache_now W) (code_key W raw) = Some x \<and> wg_string_json W x = Some bytes \<and>
        wg_unmarshal W bytes = Some a \<and> ar_origin a = origin \<and> wg_now W \<le> ar_expires_at a \<and>
        site_allows d (ar_site_id a) origin \<and> wg_settings W = Inr pol \<and> ar_credential_mode a = pol_mode pol \<and>
        known_principal W d m (ar_user_id a) p \<and> p_status p = UserStatusActive \<and>
        popupAuthorizationAllowed (pol_mode pol) (p_role p) \<and> widget_token W a pol = Inr s)"

lemma consume_wp:
  assumes "mem_ok (snd dc)"
  shows "wp (ConsumeAuthCode W h) (\<lambda>r dc' os'. fst dc' = fst dc \<and>
    (\<forall>a. r = Inr a \<longrightarrow> mem_ok (snd dc') \<and> absent (code_entry h) (snd dc') \<and>
      (\<forall>t uid. view (snd dc') t (authzKey uid) = view (snd dc) t (authzKey uid)) \<and>
      (\<exists>x bytes. view (snd dc) (wg_cache_now W) (code_entry h) = Some x \<and> wg_string_json W x = Some bytes \<and>
         wg_unmarshal W bytes = Some a))) dc os"
proof -
  have "ns_valid widget_auth_code_ns" by code_simp
  moreover have "authzKey uid \<noteq> ''authcode:'' @ h" for uid
    using code_key_not_authz [of uid h] by (simp add: code_entry_def)
  ultimately have law: "mem_ok c' \<and> absent (code_entry h) c' \<and>
      (\<forall>t uid. view c' t (authzKey uid) = view (snd dc) t (authzKey uid)) \<and>
      (\<forall>bytes. r = Inr bytes \<longrightarrow> (\<exists>x. view (snd dc) (wg_cache_now W) (code_entry h) = Some x \<and> wg_string_json W x = Some bytes))"
    if "Namespace_AtomicConsume (wg_string_json W) widget_auth_code_ns (wg_cache_now W) h (snd dc) = (r, c')" for r c'
    using that namespaceConsume_law [OF _ assms, of "wg_string_json W" "wg_cache_now W" "''widget_auth_code''" "''authcode:''" h r c']
    by (auto simp: Namespace_AtomicConsume_def when_valid_def widget_auth_code_ns_def code_entry_def absent_def decoded_def
        split: option.splits)
  show ?thesis
    unfolding ConsumeAuthCode_def
    by (auto intro!: wp_intros dest!: law split: sum.splits)
qed

lemma site_wp:
  "wp (validateSiteAndOrigin sid origin) (\<lambda>r d' os'. d' = d \<and> os' = os \<and> (r = Inr () \<longrightarrow> site_allows d sid origin)) d os"
  unfolding validateSiteAndOrigin_def Site_Get_def AllowedOrigins_def
  by (auto intro!: wp_intros dest!: select_first_Some split: sum.splits)
    (auto simp: site_allows_def)

lemma principal_wp:
  assumes "mem_ok (snd dc)" "absent (code_entry x) (snd dc)"
  shows "wp (requireActivePopupPrincipal W a pol) (\<lambda>r dc' os'. fst dc' = fst dc \<and> mem_ok (snd dc') \<and>
    absent (code_entry x) (snd dc') \<and>
    (r = Inr () \<longrightarrow> ar_credential_mode a = pol_mode pol \<and>
       (\<exists>p. known_principal W (fst dc) (snd dc) (ar_user_id a) p \<and> p_status p = UserStatusActive \<and>
         popupAuthorizationAllowed (pol_mode pol) (p_role p)))) dc os"
  unfolding requireActivePopupPrincipal_def
  using assms by (auto intro!: wp_intros wp_mono [OF resolve_keeps_absent [OF assms]] split: sum.splits) blast

lemma exchange_wp:
  assumes "mem_ok (snd dc)"
  shows "wp (ExchangeAuthorization W raw origin) (\<lambda>r dc' os'. \<forall>s. r = Inr s \<longrightarrow>
    honoured W raw origin (fst dc) (snd dc) s \<and> mem_ok (snd dc') \<and> absent (code_key W raw) (snd dc')) dc os"
proof -
  have "wp (requireActivePopupPrincipal W a pol)
      (\<lambda>r. wp (case r of Inl _ \<Rightarrow> fail ErrInvalidCredentials | Inr _ \<Rightarrow> lift (widget_token W a pol))
        (\<lambda>r dc' os'. \<forall>s. r = Inr s \<longrightarrow> honoured W raw (ar_origin a) (fst dc) (snd dc) s \<and> mem_ok (snd dc') \<and>
           absent (code_key W raw) (snd dc'))) dc1 os1"
    if "mem_ok (snd dc1)" "absent (code_key W raw) (snd dc1)" "view (snd dc) (wg_cache_now W) (code_key W raw) = Some x"
      "wg_string_json W x = Some bytes" "wg_unmarshal W bytes = Some a" "\<not> ar_expires_at a < wg_now W"
      "site_allows (fst dc) (ar_site_id a) (ar_origin a)" "wg_settings W = Inr pol"
      "fst dc1 = fst dc" "\<forall>t uid. view (snd dc1) t (authzKey uid) = view (snd dc) t (authzKey uid)"
    for a pol dc1 os1 x bytes
    by (rule wp_mono [OF principal_wp [OF that(1,2)]])
      (use that in \<open>auto intro!: wp_intros simp: honoured_def known_principal_def split: sum.splits\<close>)
  note live = this
  show ?thesis
    unfolding ExchangeAuthorization_def
    by (auto intro!: wp_intros wp_mono [OF consume_wp [OF assms]] wp_mono [OF site_wp] live split: sum.splits) simp
qed

lemma exchange_absent:
  assumes "mem_ok (snd dc)" "absent (code_key W raw) (snd dc)"
  shows "wp (ExchangeAuthorization W raw origin) (\<lambda>r dc' os'. \<exists>e. r = Inl e) dc os"
proof -
  have "wp (ConsumeAuthCode W (wg_sha W raw)) (\<lambda>r dc' os'. \<exists>e. r = Inl e) dc os"
    by (rule wp_mono [OF consume_wp [OF assms(1)]]) (use assms(2) in \<open>auto simp: absent_def intro: sum.exhaust\<close>)
  then show ?thesis
    unfolding ExchangeAuthorization_def
    by (auto intro!: wp_intros elim!: wp_mono split: sum.splits)
qed

text \<open>
  C18: A widget session is what was authorized, once.  Whatever fails on the way, a session is given out only against a stored
  record for this very origin that has not expired, on an active site that allows the origin, in the mode of the record
  and for a user whose principal, as the authorisation cache or the account's row has it at the exchange, is active and
  has a role the mode allows; it is the token for the record's user and site.  And the code is then spent: presenting it
  again, from any origin and in any state of the rest of the program, is an error.
\<close>

theorem authorization_exchanged_once:
  assumes "mem_ok (snd dc)" "wg_sha W' raw' = wg_sha W raw"
  shows "wp (bind (ExchangeAuthorization W raw origin) (\<lambda>s.
      bind (attempt (ExchangeAuthorization W' raw' origin')) (\<lambda>again. ret (s, again))))
    (\<lambda>r dc' os'. \<forall>s again. r = Inr (s, again) \<longrightarrow>
       honoured W raw origin (fst dc) (snd dc) s \<and> (\<exists>e. again = Inl e)) dc os"
proof -
  have again: "wp (bind (attempt (ExchangeAuthorization W' raw' origin')) (\<lambda>again. ret (s, again)))
      (\<lambda>r dc' os'. \<exists>e. r = Inr (s, Inl e)) dc1 os1"
    if "mem_ok (snd dc1)" "absent (code_key W raw) (snd dc1)" for s dc1 os1
    by (rule wp_bind, rule wp_attempt, rule wp_mono [OF exchange_absent])
      (use that assms(2) in \<open>auto intro!: wp_intros\<close>)
  show ?thesis
    by (rule wp_bind, rule wp_mono [OF exchange_wp [OF assms(1)]])
      (auto intro!: wp_mono [OF again] split: sum.splits)
qed

section \<open>On concrete states\<close>

definition sample_authorization :: auth_code_record where
  "sample_authorization = \<lparr>ar_site_id = 1, ar_origin = ''https://blog.example'', ar_user_id = 3, ar_request_id = ''r'',
     ar_expires_at = 60, ar_credential_mode = CommentModeAuthenticated\<rparr>"

definition sample_jwt :: jwt_service where
  "sample_jwt = \<lparr>jw_issuer = ''furtalk'', jw_lifetime = 3600000000000, jw_sign = (\<lambda>_. Inr ''token''),
     jw_parse = (\<lambda>_ _ _ _. Inl ErrInvalidToken)\<rparr>"

definition sample_widget :: widget_env where
  "sample_widget =
     \<lparr>wg_settings = Inr (sample_policy\<lparr>pol_mode := CommentModeAuthenticated\<rparr>), wg_jwt = sample_jwt, wg_uuid = ''u'',
      wg_sha = (\<lambda>x. x), wg_random = Inr ''bytes'', wg_marshal = (\<lambda>_. Some ''r''),
      wg_unmarshal = (\<lambda>_. Some sample_authorization), wg_json_string = Some, wg_string_json = Some,
      wg_codec = \<lparr>az_marshal = (\<lambda>_. Some ''i''),
        az_unmarshal = (\<lambda>_. Some \<lparr>az_role = RoleUser, az_status = UserStatusActive, az_session_version = 1\<rparr>)\<rparr>, wg_ctx = None, wg_now = 5,
      wg_later = 6, wg_cache_now = 5, wg_resolve_at = 5, wg_publish_at = 5\<rparr>"

definition code_store :: memory where
  "code_store = snd (Namespace_Set widget_auth_code_ns (Some ''r'') 0 ''code'' 60 (NewMemory 4))"

definition twice_exchanged :: "(session_result \<times> (error + session_result)) svc" where
  "twice_exchanged =
     bind (ExchangeAuthorization sample_widget ''code'' ''https://blog.example'') (\<lambda>s.
     bind (attempt (ExchangeAuthorization sample_widget ''code'' ''https://blog.example'')) (\<lambda>again. ret (s, again)))"

lemma twice_exchanged_succeeds:
  "case fst (twice_exchanged \<lparr>data = (sample_db, code_store), faults = [], outbox = []\<rparr>) of Inl e \<Rightarrow> False | Inr x \<Rightarrow> True"
  by code_simp

lemma authorization_exchanged_once_witness:
  "\<exists>s e w'. twice_exchanged \<lparr>data = (sample_db, code_store), faults = [], outbox = []\<rparr> = (Inr (s, Inl e), w') \<and>
     honoured sample_widget ''code'' ''https://blog.example'' sample_db code_store s"
proof -
  let ?w = "\<lparr>data = (sample_db, code_store), faults = [], outbox = []\<rparr> :: (db \<times> memory, comment_event) world"
  obtain s again w' where run: "twice_exchanged ?w = (Inr (s, again), w')"
    using twice_exchanged_succeeds by (cases "twice_exchanged ?w") (auto split: sum.splits)
  have "mem_ok code_store" by code_simp
  then have "wp twice_exchanged (\<lambda>r dc' os'. \<forall>s again. r = Inr (s, again) \<longrightarrow>
      honoured sample_widget ''code'' ''https://blog.example'' sample_db code_store s \<and> (\<exists>e. again = Inl e))
      (sample_db, code_store) []"
    using authorization_exchanged_once [of "(sample_db, code_store)" sample_widget "''code''" sample_widget "''code''"]
    by (simp add: twice_exchanged_def)
  from wpD [of twice_exchanged _ ?w, simplified, OF this run] run show ?thesis by auto
qed

text \<open>
  C19: A widget token reads back as the user, the site and the generation it was signed for, from the moment it
  was signed until its expiry.
\<close>

theorem widget_token_roundtrip:
  assumes "jwt_ok S" "SignWidget S now uuid uid sid TokenKindWidgetAuthenticated (FormatInt epoch) = Inr raw"
    "0 < uid" "uid < 2 ^ 63" "0 \<le> sid" "sid < 2 ^ 63" "0 \<le> epoch" "epoch < 2 ^ 63" "uuid \<noteq> ''''"
    "now \<le> later" "later < numeric_date (now + jw_lifetime S)"
  shows "Verify S later raw = Some \<lparr>wc_user_id = uid, wc_site_id = sid, wc_epoch = epoch,
    wc_expires_at = Some (numeric_date (now + jw_lifetime S))\<rparr>"
proof -
  let ?c = "(base_claims S now uuid uid (jw_lifetime S) TokenKindWidgetAuthenticated AudienceWidgetAuthenticated)
    \<lparr>cl_site_id := FormatInt sid, cl_credential_epoch := FormatInt epoch, cl_notification_kind := '''',
     cl_session_version := 0\<rparr>"
  have "jw_sign S ?c = Inr raw"
    using assms(2) by (simp add: SignWidget_def base_claims_def)
  note p = parse_signed [OF assms(1) this refl assms(3,4,9,10,11)]
  show ?thesis
    by (simp add: Verify_def p)
      (simp add: base_claims_def parseDecimalClaim_FormatInt [OF assms(5,6)] parseDecimalClaim_FormatInt [OF assms(7,8)])
qed

text \<open>A library that signs one set of claims.\<close>

lemma widget_token_roundtrip_witness:
  "\<exists>S raw. SignWidget S 0 ''u'' 7 3 TokenKindWidgetAuthenticated (FormatInt 2) = Inr raw \<and>
     Verify S 5 raw = Some \<lparr>wc_user_id = 7, wc_site_id = 3, wc_epoch = 2, wc_expires_at = Some 3600000000000\<rparr>"
proof -
  define c where "c = (base_claims (sample_jwt\<lparr>jw_sign := \<lambda>_. Inl ErrTokenSign\<rparr>) 0 ''u'' 7 3600000000000
    TokenKindWidgetAuthenticated AudienceWidgetAuthenticated)\<lparr>cl_site_id := FormatInt 3, cl_credential_epoch := FormatInt 2\<rparr>"
  define S where "S = \<lparr>jw_issuer = ''furtalk'', jw_lifetime = 3600000000000,
    jw_sign = (\<lambda>x. if x = c then Inr ''token'' else Inl ErrTokenSign),
    jw_parse = (\<lambda>issuer audience now raw. if raw = ''token'' then Inr c else Inl ErrInvalidToken)\<rparr>"
  have ok: "jwt_ok S" by (simp add: jwt_ok_def S_def)
  have signed: "SignWidget S 0 ''u'' 7 3 TokenKindWidgetAuthenticated (FormatInt 2) = Inr ''token''"
    by (simp add: SignWidget_def S_def c_def base_claims_def sample_jwt_def)
  have life: "jw_lifetime S = 3600000000000" by (simp add: S_def)
  have "Verify S 5 ''token'' = Some \<lparr>wc_user_id = 7, wc_site_id = 3, wc_epoch = 2, wc_expires_at = Some 3600000000000\<rparr>"
    using widget_token_roundtrip [OF ok signed, of 5] by (simp add: life numeric_date_def)
  with signed show ?thesis by blast
qed

end
