(* ===== verification/Queues.thy ===== *)
theory Queues
  imports Domain "HOL-Library.Sublist"
begin

text \<open>
  Queues that never block their producer: the event bus (\<open>internal/platform/eventbus\<close>) and the queue of the mail
  workers (\<open>internal/service/notification/mail_dispatcher.go\<close>).  Both are a buffered channel with a sender that
  gives up when the buffer is full.
\<close>

section \<open>The interface\<close>

datatype 'e queue_action = Offer 'e | Poll

fun offered :: "'e queue_action list \<Rightarrow> 'e list" where
  "offered [] = []"
| "offered (Offer e # as) = e # offered as"
| "offered (Poll # as) = offered as"

text \<open>A run of a producer and a consumer: the queue left behind, what was accepted and what was received.\<close>

fun queue_run ::
  "('q \<Rightarrow> 'e \<Rightarrow> bool \<times> 'q) \<Rightarrow> ('q \<Rightarrow> ('e \<times> 'q) option) \<Rightarrow> 'q \<Rightarrow> 'e queue_action list \<Rightarrow> 'q \<times> 'e list \<times> 'e list" where
  "queue_run offer poll q [] = (q, [], [])"
| "queue_run offer poll q (Offer e # as) =
     (case offer q e of (accepted, q') \<Rightarrow>
        (case queue_run offer poll q' as of (q'', ins, outs) \<Rightarrow> (q'', if accepted then e # ins else ins, outs)))"
| "queue_run offer poll q (Poll # as) =
     (case poll q of
        None \<Rightarrow> queue_run offer poll q as
      | Some (e, q') \<Rightarrow> (case queue_run offer poll q' as of (q'', ins, outs) \<Rightarrow> (q'', ins, e # outs)))"

locale lossy_queue =
  fixes offer :: "'q \<Rightarrow> 'e \<Rightarrow> bool \<times> 'q" and poll :: "'q \<Rightarrow> ('e \<times> 'q) option"
    and items :: "'q \<Rightarrow> 'e list" and room :: "'q \<Rightarrow> nat"
  assumes accepted: "offer q e = (True, q') \<Longrightarrow> items q' = items q @ [e] \<and> length (items q) < room q \<and> room q' = room q"
    and refused: "offer q e = (False, q') \<Longrightarrow> items q' = items q \<and> room q' = room q"
    and polled: "poll q = Some (e, q') \<Longrightarrow> items q = e # items q' \<and> room q' = room q"
begin

text \<open>One step of a run, with what the laws say of it.\<close>

lemma run_cases:
  assumes "queue_run offer poll q (a # as) = (q', ins, outs)"
  obtains (taken) e q1 ins' where "a = Offer e" "items q1 = items q @ [e]" "length (items q) < room q"
      "room q1 = room q" "queue_run offer poll q1 as = (q', ins', outs)" "ins = e # ins'"
    | (lost) e q1 where "a = Offer e" "items q1 = items q" "room q1 = room q"
      "queue_run offer poll q1 as = (q', ins, outs)"
    | (got) e q1 outs' where "a = Poll" "items q = e # items q1" "room q1 = room q"
      "queue_run offer poll q1 as = (q', ins, outs')" "outs = e # outs'"
    | (empty) "a = Poll" "queue_run offer poll q as = (q', ins, outs)"
proof (cases a)
  case (Offer e)
  obtain ok q1 where step: "offer q e = (ok, q1)" by fastforce
  obtain q2 ins' outs' where rest: "queue_run offer poll q1 as = (q2, ins', outs')" by (metis prod_cases3)
  show thesis
  proof (cases ok)
    case True
    show thesis
      by (rule taken) (use assms Offer step rest True accepted [of q e q1] in auto)
  next
    case False
    show thesis
      by (rule lost) (use assms Offer step rest False refused [of q e q1] in auto)
  qed
next
  case Poll
  show thesis
  proof (cases "poll q")
    case None
    then show thesis by (intro empty) (use assms Poll in auto)
  next
    case (Some p)
    obtain e q1 where p: "p = (e, q1)" by fastforce
    obtain q2 ins' outs' where rest: "queue_run offer poll q1 as = (q2, ins', outs')" by (metis prod_cases3)
    show thesis
      by (rule got) (use assms Poll Some p rest polled [of q e q1] in auto)
  qed
qed

text \<open>What is received is, in order, what was accepted; and what was accepted is part of what was offered.\<close>

lemma run_in_order: "queue_run offer poll q as = (q', ins, outs) \<Longrightarrow> outs @ items q' = items q @ ins"
proof (induction as arbitrary: q ins outs)
  case (Cons a as)
  from Cons.prems show ?case by (cases rule: run_cases) (use Cons.IH in fastforce)+
qed simp

lemma run_accepts: "queue_run offer poll q as = (q', ins, outs) \<Longrightarrow> subseq ins (offered as)"
proof (induction as arbitrary: q ins outs)
  case (Cons a as)
  from Cons.prems show ?case by (cases rule: run_cases) (use Cons.IH in auto)
qed simp

lemma run_bounded:
  "queue_run offer poll q as = (q', ins, outs) \<Longrightarrow> length (items q) \<le> room q \<Longrightarrow>
     length (items q') \<le> room q' \<and> room q' = room q"
proof (induction as arbitrary: q ins outs)
  case (Cons a as)
  from Cons.prems(1) show ?case
  proof (cases rule: run_cases)
    case (taken e q1 ins')
    then show ?thesis using Cons.IH [OF taken(5)] by simp
  next
    case (lost e q1)
    then show ?thesis using Cons.IH [OF lost(4)] Cons.prems(2) by simp
  next
    case (got e q1 outs')
    then show ?thesis using Cons.IH [OF got(4)] Cons.prems(2) by simp
  next
    case empty
    then show ?thesis using Cons.IH [OF empty(2)] Cons.prems(2) by simp
  qed
qed simp

lemma run_delivers:
  assumes "queue_run offer poll q as = (q', ins, outs)" "items q = []"
  shows "subseq outs (offered as)" "length (items q') \<le> room q" "outs @ items q' = ins"
proof -
  show order: "outs @ items q' = ins" using run_in_order [OF assms(1)] assms(2) by simp
  have "subseq outs ins" unfolding order [symmetric] by (rule list_emb_prefix) simp
  then show "subseq outs (offered as)" using run_accepts [OF assms(1)] by (rule subseq_order.order_trans)
  show "length (items q') \<le> room q" using run_bounded [OF assms(1)] assms(2) by simp
qed

end

section \<open>The event bus (eventbus.go)\<close>

record 'e bus =
  bus_queue :: "'e list"
  bus_capacity :: nat
  bus_closed :: bool

abbreviation "DefaultBusCapacity \<equiv> (1024 :: nat)"

definition New_Bus :: "int \<Rightarrow> 'e bus" where
  "New_Bus capacity =
     \<lparr>bus_queue = [], bus_capacity = (if capacity \<le> 0 then DefaultBusCapacity else nat capacity), bus_closed = False\<rparr>"

text \<open>The answer is whether the event is in the queue; \<open>False\<close> stands for \<open>ErrDropped\<close>.\<close>

definition Publish :: "'e bus \<Rightarrow> 'e \<Rightarrow> bool \<times> 'e bus" where
  "Publish b e =
     (if bus_closed b then (False, b)
      else if length (bus_queue b) < bus_capacity b then (True, b\<lparr>bus_queue := bus_queue b @ [e]\<rparr>)
      else (False, b))"

text \<open>One round of \<open>Consume\<close> that receives an event; in the other rounds the loop waits or ends.\<close>

definition Consume :: "'e bus \<Rightarrow> ('e \<times> 'e bus) option" where
  "Consume b = (case bus_queue b of [] \<Rightarrow> None | e # es \<Rightarrow> Some (e, b\<lparr>bus_queue := es\<rparr>))"

definition Close :: "'e bus \<Rightarrow> 'e bus" where
  "Close b = b\<lparr>bus_closed := True\<rparr>"

interpretation bus: lossy_queue Publish Consume bus_queue bus_capacity
  by unfold_locales (auto simp: Publish_def Consume_def split: if_splits list.splits)

lemma closed_bus_refuses: "Publish (Close b) e = (False, Close b)"
  by (simp add: Publish_def Close_def)

section \<open>The queue of the mail workers (mail_dispatcher.go)\<close>

record 'j mail_queue =
  mq_jobs :: "'j list"
  mq_dropped :: int

abbreviation "mailQueueCapacity \<equiv> (256 :: nat)"
abbreviation "mailRecipientLimit \<equiv> (100 :: nat)"

definition new_mail_queue :: "'j mail_queue" where
  "new_mail_queue = \<lparr>mq_jobs = [], mq_dropped = 0\<rparr>"

text \<open>The counter is an atomic \<open>uint64\<close>.\<close>

definition mail_submit :: "'j mail_queue \<Rightarrow> 'j \<Rightarrow> bool \<times> 'j mail_queue" where
  "mail_submit q job =
     (if length (mq_jobs q) < mailQueueCapacity then (True, q\<lparr>mq_jobs := mq_jobs q @ [job]\<rparr>)
      else (False, q\<lparr>mq_dropped := (mq_dropped q + 1) mod 2 ^ 64\<rparr>))"

text \<open>A worker takes a job.\<close>

definition mail_take :: "'j mail_queue \<Rightarrow> ('j \<times> 'j mail_queue) option" where
  "mail_take q = (case mq_jobs q of [] \<Rightarrow> None | j # js \<Rightarrow> Some (j, q\<lparr>mq_jobs := js\<rparr>))"

interpretation mails: lossy_queue mail_submit mail_take mq_jobs "\<lambda>_. mailQueueCapacity"
  by unfold_locales (auto simp: mail_submit_def mail_take_def split: if_splits list.splits)

end
