(* ===== verification/Notification.thy ===== *)
theory Notification
  imports Email_Code Queues Token Urlx Runes
begin

text \<open>
  Notification mails (\<open>internal/service/notification/service.go\<close>): what a comment event sends to whom, and the
  signed links that switch a kind of mail off.  Every read may fail, a failed read is logged and ends the part of
  the handler that needs it, so a handler answers with the jobs it hands to the queue of the mail workers.  The
  templates, the settings reader and the token service are given.
\<close>

section \<open>Texts\<close>

definition no_content_text :: string where
    "no_content_text = of_runes [0xFF08, 0x65E0, 0x5185, 0x5BB9, 0xFF09]"

definition published_subject :: string where
    "published_subject = of_runes [0x60A8, 0x7684, 0x8BC4, 0x8BBA, 0x5DF2, 0x53D1, 0x5E03]"

definition published_text :: string where
    "published_text = of_runes [0x60A8, 0x7684, 0x8BC4, 0x8BBA, 0x5DF2, 0x53D1, 0x5E03, 0x3002]"

definition reply_subject :: string where
    "reply_subject = of_runes [0x60A8, 0x6709, 0x4E00, 0x6761, 0x65B0, 0x56DE, 0x590D]"

definition reply_text :: string where
    "reply_text = of_runes [0x6709, 0x4EBA, 0x56DE, 0x590D, 0x4E86, 0x60A8, 0x7684, 0x8BC4, 0x8BBA,
     0x3002]"

definition page_label :: string where
    "page_label = of_runes [0x9875, 0x9762, 0xFF1A]"

definition pending_subject :: string where
    "pending_subject = of_runes [0x8BC4, 0x8BBA, 0x5F85, 0x5BA1, 0x6838]"

definition pending_lead :: string where
    "pending_lead = of_runes [0x6709, 0x4E00, 0x6761, 0x65B0, 0x8BC4, 0x8BBA, 0x7B49, 0x5F85, 0x5BA1,
     0x6838, 0x3002]"

definition spam_subject :: string where
    "spam_subject = of_runes [0x8BC4, 0x8BBA, 0x88AB, 0x6807, 0x8BB0, 0x4E3A, 0x5783, 0x573E]"

definition spam_lead :: string where
    "spam_lead = of_runes [0x6709, 0x4E00, 0x6761, 0x8BC4, 0x8BBA, 0x88AB, 0x81EA, 0x52A8, 0x6807,
     0x8BB0, 0x4E3A, 0x5783, 0x573E, 0x3002]"

definition new_subject :: string where
    "new_subject = of_runes [0x65B0, 0x8BC4, 0x8BBA]"

definition new_lead :: string where
    "new_lead = of_runes [0x6709, 0x65B0, 0x8BC4, 0x8BBA, 0x53D1, 0x8868, 0x3002]"

definition unsubscribe_lead :: string where
    "unsubscribe_lead = of_runes [0x5982, 0x4E0D, 0x518D, 0x60F3, 0x6536, 0x5230, 0x6B64, 0x7C7B, 0x90AE,
     0x4EF6, 0xFF0C, 0x8BF7, 0x8BBF, 0x95EE, 0xFF1A]"

definition unsubscribe_word :: string where
    "unsubscribe_word = of_runes [0x9000, 0x8BA2]"

section \<open>The service\<close>

abbreviation "KindReply \<equiv> ''reply''"
abbreviation "KindModeration \<equiv> ''moderation''"
abbreviation "notificationTTL \<equiv> (2592000000000000 :: int)"

record moderation_data =
  md_author :: string
  md_body :: string
  md_awaiting :: bool
  md_page_title :: string
  md_page_url :: string

record reply_data =
  rd_reply_author :: string
  rd_parent_author :: string
  rd_reply_body :: string
  rd_parent_body :: string
  rd_unsubscribe :: string
  rd_page_title :: string
  rd_page_url :: string

record mail_job =
  mj_user :: int
  mj_mail :: mail
  mj_unsub :: string
  mj_html_has_unsub :: bool

text \<open>
  The switches \<open>(moderation, replies)\<close> are read when an event arrives and again before a reply is notified;
  \<open>None\<close> for the token service is the nil signer.
\<close>

record notification_env =
  no_settings :: "error + bool \<times> bool"
  no_reply_settings :: "error + bool \<times> bool"
  no_mailer :: bool
  no_moderation_mail :: "moderation_data \<Rightarrow> string option"
  no_published_mail :: "string \<times> string \<times> string \<Rightarrow> string option"
  no_reply_mail :: "reply_data \<Rightarrow> string option"
  no_signer :: "jwt_service option"
  no_uuid :: "int \<Rightarrow> string \<Rightarrow> string"
  no_now :: int
  no_base_url :: string
  no_lib :: library
  no_urls :: url_builder

text \<open>A read whose failure is logged: the handler goes on with \<open>k\<close> or answers with \<open>otherwise\<close>.\<close>

definition read_or :: "'b \<Rightarrow> 'a sql \<Rightarrow> ('a \<Rightarrow> 'b sql) \<Rightarrow> 'b sql" where
  "read_or otherwise m k = bind (attempt m) (\<lambda>r. case r of Inl _ \<Rightarrow> ret otherwise | Inr x \<Rightarrow> k x)"

definition shown_body :: "string \<Rightarrow> string" where
  "shown_body body = (if TrimSpace body = '''' then no_content_text else body)"

definition newline :: string where
  "newline = [CHR 0x0A]"

definition page_lines :: "string \<Rightarrow> string \<Rightarrow> string" where
  "page_lines title address =
     (if title \<noteq> '''' \<or> address \<noteq> '''' then
        newline @ newline @ page_label @ title @
        (if address \<noteq> '''' then (if title \<noteq> '''' then newline else '''') @ address else '''')
      else '''')"

section \<open>Preferences and links\<close>

definition pref_enabled :: "string \<Rightarrow> notification_preferences \<Rightarrow> bool" where
  "pref_enabled kind p =
     (if kind = KindReply then np_reply_enabled p
      else if kind = KindModeration then np_moderation_enabled p else False)"

definition notificationEnabled :: "int \<Rightarrow> string \<Rightarrow> bool sql" where
  "notificationEnabled uid kind =
     bind (attempt (Prefs_GetByUserID uid)) (\<lambda>r.
     case r of
       Inr p \<Rightarrow> ret (pref_enabled kind p)
     | Inl e \<Rightarrow> ret (e = ErrNotFound))"

definition unsubscribeURL :: "notification_env \<Rightarrow> int \<Rightarrow> string \<Rightarrow> string" where
  "unsubscribeURL N uid kind =
     (case no_signer N of
        None \<Rightarrow> ''''
      | Some S \<Rightarrow>
          if no_base_url N = '''' \<or> kind = '''' then ''''
          else
            (case SignUnsubscribe S (no_now N) (no_uuid N uid kind) uid kind notificationTTL of
               Inl _ \<Rightarrow> ''''
             | Inr token \<Rightarrow>
                 (case ParseHTTPBase (no_lib N) (no_base_url N) of
                    None \<Rightarrow> ''''
                  | Some base \<Rightarrow>
                      lib_string (no_lib N) ((JoinPathSegments (no_urls N) base [''unsubscribe''])
                        \<lparr>url_raw_query := ub_encode (no_urls N) (values_set [] ''token'' token)\<rparr>))))"

section \<open>Mails\<close>

definition threadPage :: "comment \<Rightarrow> (string \<times> string) sql" where
  "threadPage c =
     read_or ('''', '''') (GetBySiteAndID (c_site_id c) (c_thread_id c)) (\<lambda>t.
       ret (case t_page_title t of None \<Rightarrow> '''' | Some s \<Rightarrow> s, case t_page_url t of None \<Rightarrow> '''' | Some s \<Rightarrow> s))"

text \<open>The author of the parent of a published reply; 0 stands for nobody.\<close>

definition replyParentUserID :: "comment \<Rightarrow> int sql" where
  "replyParentUserID c =
     (case c_parent_id c of
        None \<Rightarrow> ret 0
      | Some pid \<Rightarrow>
          if c_status c \<noteq> CommentStatusPublished then ret 0
          else read_or 0 (FindBySiteAndID (c_site_id c) pid) (\<lambda>p. ret (c_user_id p)))"

definition moderationMail ::
  "notification_env \<Rightarrow> string \<Rightarrow> comment \<Rightarrow> string \<Rightarrow> string \<Rightarrow> string \<Rightarrow> mail option" where
  "moderationMail N to c nickname title address =
     (let (subject, lead, awaiting) =
            (case c_status c of
               CommentStatusPending \<Rightarrow> (pending_subject, pending_lead, True)
             | CommentStatusSpam \<Rightarrow> (spam_subject, spam_lead, False)
             | _ \<Rightarrow> (new_subject, new_lead, False));
          body = shown_body (c_body_markdown c)
      in map_option (\<lambda>html. \<lparr>ml_to = to, ml_subject = subject,
             ml_text = lead @ newline @ newline @ body @ page_lines title address, ml_html = html\<rparr>)
           (no_moderation_mail N \<lparr>md_author = nickname, md_body = body, md_awaiting = awaiting,
              md_page_title = title, md_page_url = address\<rparr>))"

text \<open>The loop over the administrators; the first argument counts the eligible ones.\<close>

fun moderation_jobs :: "nat \<Rightarrow> (user \<Rightarrow> mail option) \<Rightarrow> int \<Rightarrow> int \<Rightarrow> user list \<Rightarrow> mail_job list" where
  "moderation_jobs n render author excluded [] = []"
| "moderation_jobs n render author excluded (admin # admins) =
     (if u_id admin = author then moderation_jobs n render author excluded admins
      else if excluded \<noteq> 0 \<and> u_id admin = excluded then moderation_jobs n render author excluded admins
      else if TrimSpace (u_email admin) = '''' then moderation_jobs n render author excluded admins
      else if mailRecipientLimit < n + 1 then moderation_jobs (n + 1) render author excluded admins
      else
        (case render admin of
           None \<Rightarrow> moderation_jobs (n + 1) render author excluded admins
         | Some m \<Rightarrow> \<lparr>mj_user = u_id admin, mj_mail = m, mj_unsub = '''', mj_html_has_unsub = False\<rparr> #
                     moderation_jobs (n + 1) render author excluded admins))"

definition sendModerationMails :: "notification_env \<Rightarrow> comment \<Rightarrow> user \<Rightarrow> mail_job list sql" where
  "sendModerationMails N c author =
     read_or [] ListActiveAdmins (\<lambda>admins.
     bind (replyParentUserID c) (\<lambda>excluded.
     bind (threadPage c) (\<lambda>(title, address).
     ret (moderation_jobs 0
            (\<lambda>admin. moderationMail N (u_email admin) c (u_nickname author) title address)
            (c_user_id c) excluded admins))))"

definition reply_job :: "notification_env \<Rightarrow> comment \<Rightarrow> comment \<Rightarrow> user \<Rightarrow> user \<Rightarrow> string \<Rightarrow> string \<Rightarrow> mail_job list" where
  "reply_job N c parent author parent_author title address =
     (let unsub = unsubscribeURL N (u_id parent_author) KindReply
      in case no_reply_mail N \<lparr>rd_reply_author = u_nickname author, rd_parent_author = u_nickname parent_author,
             rd_reply_body = shown_body (c_body_markdown c), rd_parent_body = shown_body (c_body_markdown parent),
             rd_unsubscribe = unsub, rd_page_title = title, rd_page_url = address\<rparr> of
           None \<Rightarrow> []
         | Some html \<Rightarrow>
             [\<lparr>mj_user = u_id parent_author,
               mj_mail = \<lparr>ml_to = u_email parent_author, ml_subject = reply_subject,
                 ml_text = reply_text @ page_lines title address, ml_html = html\<rparr>,
               mj_unsub = unsub, mj_html_has_unsub = True\<rparr>])"

definition sendReplyNotification :: "notification_env \<Rightarrow> comment \<Rightarrow> user \<Rightarrow> mail_job list sql" where
  "sendReplyNotification N c author =
     (case c_parent_id c of
        None \<Rightarrow> ret []
      | Some pid \<Rightarrow>
          read_or [] (lift (no_reply_settings N)) (\<lambda>(_, replies).
          if \<not> replies then ret []
          else read_or [] (FindBySiteAndID (c_site_id c) pid) (\<lambda>parent.
          if c_user_id parent = c_user_id c then ret []
          else read_or [] (FindByID (c_user_id parent)) (\<lambda>parent_author.
          if TrimSpace (u_email parent_author) = '''' then ret []
          else bind (notificationEnabled (u_id parent_author) KindReply) (\<lambda>enabled.
          if \<not> enabled then ret []
          else bind (threadPage c) (\<lambda>(title, address).
          ret (reply_job N c parent author parent_author title address)))))))"

definition published_job :: "notification_env \<Rightarrow> comment \<Rightarrow> user \<Rightarrow> mail_job list" where
  "published_job N c author =
     (let unsub = unsubscribeURL N (u_id author) KindModeration
      in case no_published_mail N (u_nickname author, shown_body (c_body_markdown c), unsub) of
           None \<Rightarrow> []
         | Some html \<Rightarrow>
             [\<lparr>mj_user = u_id author,
               mj_mail = \<lparr>ml_to = u_email author, ml_subject = published_subject,
                 ml_text = published_text, ml_html = html\<rparr>,
               mj_unsub = unsub, mj_html_has_unsub = True\<rparr>])"

definition handlePublished :: "notification_env \<Rightarrow> comment_event \<Rightarrow> mail_job list sql" where
  "handlePublished N ev =
     (if \<not> no_mailer N then ret []
      else read_or [] (FindByID (ev_user_id ev)) (\<lambda>author.
      read_or [] (FindBySiteAndID (ev_site_id ev) (ev_comment_id ev)) (\<lambda>c.
      bind (if TrimSpace (u_email author) = '''' then ret False
            else notificationEnabled (u_id author) KindModeration) (\<lambda>enabled.
      bind (sendReplyNotification N c author) (\<lambda>replies.
      ret ((if enabled then published_job N c author else []) @ replies))))))"

section \<open>Delivery\<close>

definition html_escape :: "nat \<Rightarrow> string" where
  "html_escape r =
     (if r = 0x26 then ''&amp;'' else if r = 0x3C then ''&lt;'' else if r = 0x3E then ''&gt;''
      else if r = 0x22 then ''&#34;'' else if r = 0x27 then ''&#39;'' else of_runes [r])"

definition escapeHTML :: "string \<Rightarrow> string" where
  "escapeHTML s = concat (map html_escape (runes s))"

definition unsubscribe_anchor :: "string \<Rightarrow> string" where
  "unsubscribe_anchor link =
     ''<p><a href='' @ [CHR 0x22] @ escapeHTML link @ [CHR 0x22] @ ''>'' @ unsubscribe_word @ ''</a></p>''"

text \<open>The message a worker gives to the mailer; its answer is only logged.\<close>

definition deliverMail :: "notification_env \<Rightarrow> mail_job \<Rightarrow> mail option" where
  "deliverMail N job =
     (if \<not> no_mailer N then None
      else if mj_unsub job = '''' then Some (mj_mail job)
      else Some ((mj_mail job)\<lparr>
             ml_text := ml_text (mj_mail job) @ newline @ newline @ unsubscribe_lead @ mj_unsub job,
             ml_html := ml_html (mj_mail job) @
               (if mj_html_has_unsub job then '''' else unsubscribe_anchor (mj_unsub job))\<rparr>))"

section \<open>Unsubscribing\<close>

text \<open>\<open>ErrTokenInvalid\<close> stands for the package's \<open>ErrInvalidToken\<close>.\<close>

definition parseUnsubscribe :: "notification_env \<Rightarrow> string \<Rightarrow> (int \<times> string) option" where
  "parseUnsubscribe N raw =
     (case no_signer N of
        None \<Rightarrow> None
      | Some S \<Rightarrow> (case ParseUnsubscribe S (no_now N) raw of Inl _ \<Rightarrow> None | Inr p \<Rightarrow> Some p))"

definition switch_off :: "identity_env \<Rightarrow> int \<Rightarrow> string \<Rightarrow> bool \<Rightarrow> bool \<Rightarrow> unit sql" where
  "switch_off I uid kind reply moderation =
     (if kind = KindReply then UpsertNotificationPreferences I uid False moderation
      else if kind = KindModeration then UpsertNotificationPreferences I uid reply False
      else fail ErrTokenInvalid)"

definition Unsubscribe :: "notification_env \<Rightarrow> identity_env \<Rightarrow> string \<Rightarrow> unit sql" where
  "Unsubscribe N I raw =
     (case parseUnsubscribe N raw of
        None \<Rightarrow> fail ErrTokenInvalid
      | Some (uid, kind) \<Rightarrow>
          bind (attempt (FindByID uid)) (\<lambda>found.
          case found of
            Inl e \<Rightarrow> if e = ErrNotFound then ret () else fail e
          | Inr _ \<Rightarrow>
              bind (attempt (Prefs_GetByUserID uid)) (\<lambda>r.
              case (case r of
                      Inr p \<Rightarrow> Inr (np_reply_enabled p, np_moderation_enabled p)
                    | Inl e \<Rightarrow> if e = ErrNotFound then Inr (True, True) else Inl e) of
                Inl e \<Rightarrow> fail e
              | Inr (reply, moderation) \<Rightarrow> switch_off I uid kind reply moderation)))"

end
