(* ===== verification/Json.thy ===== *)
theory Json
  imports Runes "HOL-Library.Char_ord" "HOL-Library.List_Lexorder" Go_Std "HOL-Library.AList"
begin

text \<open>
  JSON texts as \<open>encoding/json\<close> writes them: strings with the characters of markup escaped, the fields of a
  struct in their order and the keys of a map sorted.
\<close>

datatype json =
    JNull
  | JBool bool
  | JInt int
  | JString string
  | JArray "json list"
  | JStruct "(string \<times> json) list"
  | JMap "(string \<times> json) list"

definition hex_char :: "nat \<Rightarrow> char" where
  "hex_char n = char_of (if n < 10 then 48 + n else 87 + n)"

definition unicode_escape :: "nat \<Rightarrow> string" where
  "unicode_escape r =
     CHR 0x5C # CHR ''u'' # map hex_char [r div 4096 mod 16, r div 256 mod 16, r div 16 mod 16, r mod 16]"

text \<open>The replacement character of a byte that starts no rune is escaped, the same character in the text is not.\<close>

definition json_rune :: "nat \<Rightarrow> string" where
  "json_rune r =
     (if r = 0x22 \<or> r = 0x5C then [CHR 0x5C, char_of r]
      else if r = 0x08 then CHR 0x5C # ''b''
      else if r = 0x0C then CHR 0x5C # ''f''
      else if r = 0x0A then CHR 0x5C # ''n''
      else if r = 0x0D then CHR 0x5C # ''r''
      else if r = 0x09 then CHR 0x5C # ''t''
      else if r < 0x20 \<or> r \<in> {0x3C, 0x3E, 0x26, 0x2028, 0x2029} then unicode_escape r
      else of_runes [r])"

function json_bytes :: "nat list \<Rightarrow> string" where
  "json_bytes [] = ''''"
| "json_bytes (b # bytes) =
     (let n = first_rune_size (b # bytes)
      in (if n = 1 \<and> 0x80 \<le> b then unicode_escape 0xFFFD else json_rune (rune_of (take n (b # bytes)))) @
         json_bytes (drop n (b # bytes)))"
  by pat_completeness auto
termination
proof (relation "measure length")
  show "(drop n (b # bytes), b # bytes) \<in> measure length" if "n = first_rune_size (b # bytes)" for n b bytes
    using first_rune_size_pos [of "b # bytes"] that by simp
qed simp

definition json_string :: "string \<Rightarrow> string" where
  "json_string s = CHR 0x22 # json_bytes (map of_char s) @ [CHR 0x22]"

fun comma_separated :: "string list \<Rightarrow> string" where
  "comma_separated [] = ''''"
| "comma_separated [x] = x"
| "comma_separated (x # xs) = x @ '','' @ comma_separated xs"

definition json_members :: "(string \<times> string) list \<Rightarrow> string" where
  "json_members kvs = ''{'' @ comma_separated (map (\<lambda>(k, v). json_string k @ '':'' @ v) kvs) @ ''}''"

fun json_marshal :: "json \<Rightarrow> string" where
  "json_marshal JNull = ''null''"
| "json_marshal (JBool b) = (if b then ''true'' else ''false'')"
| "json_marshal (JInt n) = FormatInt n"
| "json_marshal (JString s) = json_string s"
| "json_marshal (JArray xs) = ''['' @ comma_separated (map json_marshal xs) @ '']''"
| "json_marshal (JStruct kvs) = json_members (map (\<lambda>(k, v). (k, json_marshal v)) kvs)"
| "json_marshal (JMap kvs) = json_members (sort_key fst (map (\<lambda>(k, v). (k, json_marshal v)) kvs))"

definition json_optional :: "string option \<Rightarrow> json" where
  "json_optional s = (case s of None \<Rightarrow> JNull | Some t \<Rightarrow> JString t)"

text \<open>
  JSON documents as the program keeps and decodes them.  A document is what a JSON text denotes: its objects
  are lists of members in the order of the text, its numbers the literals.  \<open>interface_of\<close> is
  \<open>json.Unmarshal\<close> into an \<open>any\<close>: numbers become \<open>float64\<close>s and objects maps.  The
  decoders are \<open>json.Unmarshal\<close> into a typed value: they take the value the target has, which a
  \<open>null\<close> leaves as it is.
\<close>

datatype json_number = Whole int | Literal string

datatype json_value =
    JvNull
  | JvBool bool
  | JvNumber json_number
  | JvString string
  | JvArray "json_value list"
  | JvObject "(string \<times> json_value) list"

text \<open>
  The arithmetic of \<open>float64\<close> is an argument: \<open>fl_read\<close> is the float a literal is read as, in
  the literal that \<open>json.Marshal\<close> writes for it, \<open>fl_whole\<close> compares the float with
  \<open>math.Trunc\<close> of it, \<open>fl_trunc\<close> is the integer part, and \<open>fl_overflow\<close> what the
  processor makes of a conversion to \<open>int64\<close> out of range.
\<close>

record floats =
  fl_read :: "json_number \<Rightarrow> json_number"
  fl_whole :: "json_number \<Rightarrow> bool"
  fl_trunc :: "json_number \<Rightarrow> int"
  fl_overflow :: "int \<Rightarrow> int"

definition max_int64 :: int where "max_int64 = 9223372036854775807"

definition in_int64 :: "int \<Rightarrow> bool" where
  "in_int64 n \<longleftrightarrow> - 9223372036854775808 \<le> n \<and> n \<le> max_int64"

definition int64_of_float :: "floats \<Rightarrow> json_number \<Rightarrow> int" where
  "int64_of_float F n = (if in_int64 (fl_trunc F n) then fl_trunc F n else fl_overflow F (fl_trunc F n))"

section \<open>Decoding into \<open>any\<close>\<close>

definition as_map :: "(string \<times> 'a) list \<Rightarrow> (string \<times> 'a) list" where
  "as_map kvs = sort_key fst (AList.clearjunk (rev kvs))"

fun interface_of :: "floats \<Rightarrow> json_value \<Rightarrow> json_value" where
  "interface_of F (JvNumber n) = JvNumber (fl_read F n)"
| "interface_of F (JvArray xs) = JvArray (map (interface_of F) xs)"
| "interface_of F (JvObject kvs) = JvObject (as_map (map (\<lambda>(k, v). (k, interface_of F v)) kvs))"
| "interface_of F v = v"

section \<open>Decoding into typed values\<close>

fun dec_string :: "json_value \<Rightarrow> string \<Rightarrow> string option" where
  "dec_string JvNull old = Some old"
| "dec_string (JvString s) old = Some s"
| "dec_string v old = None"

fun dec_bool :: "json_value \<Rightarrow> bool \<Rightarrow> bool option" where
  "dec_bool JvNull old = Some old"
| "dec_bool (JvBool b) old = Some b"
| "dec_bool v old = None"

fun dec_int64 :: "json_value \<Rightarrow> int \<Rightarrow> int option" where
  "dec_int64 JvNull old = Some old"
| "dec_int64 (JvNumber (Whole n)) old = (if in_int64 n then Some n else None)"
| "dec_int64 v old = None"

text \<open>A byte slice is a base64 string, or an array of bytes.\<close>

fun dec_byte :: "json_value \<Rightarrow> char option" where
  "dec_byte JvNull = Some (CHR 0x00)"
| "dec_byte (JvNumber (Whole n)) = (if 0 \<le> n \<and> n \<le> 255 then Some (char_of (nat n)) else None)"
| "dec_byte v = None"

fun dec_bytes :: "json_value \<Rightarrow> string option" where
  "dec_bytes JvNull = Some ''''"
| "dec_bytes (JvString s) = std64_decode s"
| "dec_bytes (JvArray xs) = those (map dec_byte xs)"
| "dec_bytes v = None"

fun dec_string_element :: "json_value \<Rightarrow> string option" where
  "dec_string_element v = dec_string v ''''"

fun dec_strings :: "json_value \<Rightarrow> string list option" where
  "dec_strings JvNull = Some []"
| "dec_strings (JvArray xs) = those (map dec_string_element xs)"
| "dec_strings v = None"

text \<open>A map of flags: a member that is \<open>null\<close> sets the flag to false.\<close>

fun dec_flags :: "(string \<times> json_value) list \<Rightarrow> (string \<times> bool) list option" where
  "dec_flags [] = Some []"
| "dec_flags ((k, v) # kvs) =
     (case dec_bool v False of None \<Rightarrow> None
      | Some b \<Rightarrow> (case dec_flags kvs of None \<Rightarrow> None | Some flags \<Rightarrow> Some ((k, b) # flags)))"

fun dec_flag_map :: "json_value \<Rightarrow> (string \<times> bool) list option" where
  "dec_flag_map JvNull = Some []"
| "dec_flag_map (JvObject kvs) = map_option as_map (dec_flags kvs)"
| "dec_flag_map v = None"

text \<open>
  Members of an object meet the fields of a struct by name, or by a name that differs only in case: the runes
  U+017F and U+212A fold to \<open>s\<close> and \<open>k\<close>.  A decoder that is strict refuses a member without
  a field.
\<close>

definition fold_rune :: "nat \<Rightarrow> nat" where
  "fold_rune r =
     (if 0x41 \<le> r \<and> r \<le> 0x5A then r + 32 else if r = 0x17F then 0x73 else if r = 0x212A then 0x6B else r)"

definition field_for :: "string list \<Rightarrow> string \<Rightarrow> string option" where
  "field_for names k =
     (if k \<in> set names then Some k
      else find (\<lambda>name. map fold_rune (runes k) = map fold_rune (runes name)) names)"

fun decode_members ::
  "bool \<Rightarrow> string list \<Rightarrow> (string \<Rightarrow> json_value \<Rightarrow> 'a \<Rightarrow> 'a option) \<Rightarrow>
     (string \<times> json_value) list \<Rightarrow> 'a \<Rightarrow> 'a option" where
  "decode_members strict names set_field [] s = Some s"
| "decode_members strict names set_field ((k, v) # kvs) s =
     (case field_for names k of
        None \<Rightarrow> if strict then None else decode_members strict names set_field kvs s
      | Some name \<Rightarrow> (case set_field name v s of None \<Rightarrow> None
          | Some s' \<Rightarrow> decode_members strict names set_field kvs s'))"

definition decode_struct ::
  "bool \<Rightarrow> string list \<Rightarrow> (string \<Rightarrow> json_value \<Rightarrow> 'a \<Rightarrow> 'a option) \<Rightarrow>
     json_value \<Rightarrow> 'a \<Rightarrow> 'a option" where
  "decode_struct strict names set_field v s =
     (case v of JvNull \<Rightarrow> Some s | JvObject kvs \<Rightarrow> decode_members strict names set_field kvs s | _ \<Rightarrow> None)"

text \<open>A field of a struct that is set to what a decoder makes of the value.\<close>

definition set_decoded :: "('b \<Rightarrow> 'a) \<Rightarrow> 'b option \<Rightarrow> 'a option" where
  "set_decoded update decoded = map_option update decoded"

lemma set_decoded_simps [simp]: "set_decoded f None = None" "set_decoded f (Some x) = Some (f x)"
  by (simp_all add: set_decoded_def)

lemma field_for_exact [simp]: "k \<in> set names \<Longrightarrow> field_for names k = Some k"
  by (simp add: field_for_def)

end
