(* ===== verification/Notifier.thy ===== *)
theory Notifier
  imports Runes Domain Json Urlx
begin

text \<open>
  The text of a notification (\<open>internal/platform/notifier/text.go\<close>): truncation to the budgets of the platforms
  in runes, bytes and UTF-16 units, the breaking of mentions, and the composition of title, text and page address.
\<close>

section \<open>Truncation\<close>

definition ellipsis :: string where
  "ellipsis = of_runes [0x2026]"

definition TruncateRunes :: "string \<Rightarrow> int \<Rightarrow> string \<times> bool" where
  "TruncateRunes s m =
     (if int (rune_count s) \<le> m then (s, False)
      else if m \<le> 1 then (ellipsis, True)
      else (of_runes (take (nat (m - 1)) (runes s)) @ ellipsis, True))"

text \<open>The loop of the two other truncations: take runes while their sizes fit into the budget.\<close>

fun take_within :: "(nat \<Rightarrow> nat) \<Rightarrow> int \<Rightarrow> nat list \<Rightarrow> nat list" where
  "take_within width budget [] = []"
| "take_within width budget (r # rs) =
     (if budget < int (width r) then [] else r # take_within width (budget - int (width r)) rs)"

definition rune_len :: "nat \<Rightarrow> nat" where
  "rune_len r = length (encode_rune r)"

definition utf16Len :: "nat \<Rightarrow> nat" where
  "utf16Len r = (if 0xFFFF < r then 2 else 1)"

definition utf16_size :: "nat list \<Rightarrow> nat" where
  "utf16_size rs = sum_list (map utf16Len rs)"

definition utf16Count :: "string \<Rightarrow> nat" where
  "utf16Count s = utf16_size (runes s)"

definition truncateBytes :: "string \<Rightarrow> int \<Rightarrow> string \<times> bool" where
  "truncateBytes s m =
     (if int (length s) \<le> m then (s, False)
      else (let b = of_runes (take_within rune_len m (runes s))
            in if b = '''' then (ellipsis, True) else (b @ ellipsis, True)))"

definition truncateUTF16 :: "string \<Rightarrow> int \<Rightarrow> string \<times> bool" where
  "truncateUTF16 s m =
     (if int (utf16Count s) \<le> m then (s, False)
      else if m - 1 \<le> 0 then (ellipsis, True)
      else (let b = of_runes (take_within utf16Len (m - 1) (runes s))
            in if b = '''' then (ellipsis, True) else (b @ ellipsis, True)))"

section \<open>Composition\<close>

definition zero_width_space :: string where
  "zero_width_space = of_runes [0x200B]"

definition breakMentions :: "string \<Rightarrow> string" where
  "breakMentions s = concat (map (\<lambda>c. if c = CHR ''@'' then CHR ''@'' # zero_width_space else [c]) s)"

definition discord_special :: "nat list" where
  "discord_special = [0x5C, 0x60, 0x2A, 0x5F, 0x7E, 0x7C, 0x3C, 0x3E, 0x40, 0x23]"

definition escapeDiscordMarkdown :: "string \<Rightarrow> string" where
  "escapeDiscordMarkdown s =
     of_runes (concat (map (\<lambda>r. if r \<in> set discord_special then [0x5C, r] else [r]) (runes s)))"

definition blank_line :: string where
  "blank_line = [CHR 0x0A, CHR 0x0A]"

definition text_head :: "string \<Rightarrow> string \<Rightarrow> string" where
  "text_head title body = breakMentions title @ blank_line @ breakMentions body"

definition url_block :: "string \<Rightarrow> string" where
  "url_block page_url = (if page_url = '''' then '''' else blank_line @ page_url)"

definition composeText :: "string \<Rightarrow> string \<Rightarrow> string \<Rightarrow> int \<Rightarrow> string" where
  "composeText title body page_url m =
     (let block = url_block page_url; len = int (rune_count block)
      in if m \<le> len then fst (TruncateRunes block m)
         else fst (TruncateRunes (text_head title body) (m - len)) @ block)"

definition composeTextUTF16 :: "string \<Rightarrow> string \<Rightarrow> string \<Rightarrow> int \<Rightarrow> string" where
  "composeTextUTF16 title body page_url m =
     (let block = url_block page_url; len = int (utf16Count block)
      in if m \<le> len then fst (truncateUTF16 block m)
         else fst (truncateUTF16 (text_head title body) (m - len)) @ block)"

section \<open>The budgets are kept\<close>

lemma runes_of_valid: "\<forall>r \<in> set rs. valid_rune r \<Longrightarrow> runes (of_runes rs) = rs"
  by (rule runes_of_runes)

lemma of_runes_append [simp]: "of_runes (rs @ ss) = of_runes rs @ of_runes ss"
  by (simp add: of_runes_def)

lemma valid_ellipsis [simp]: "valid_rune 0x2026"
  by (simp add: valid_rune_def between_def)

lemma runes_truncated:
  assumes "set rs \<subseteq> set (runes s)"
  shows "runes (of_runes rs @ ellipsis) = rs @ [0x2026]"
proof -
  have "\<forall>r \<in> set (rs @ [0x2026]). valid_rune r" using assms runes_valid by auto
  from runes_of_runes [OF this] show ?thesis by (simp add: ellipsis_def)
qed

lemma runes_ellipsis: "runes ellipsis = [0x2026]"
  unfolding ellipsis_def by (rule runes_of_runes) simp

lemma TruncateRunes_bound: "1 \<le> m \<Longrightarrow> int (rune_count (fst (TruncateRunes s m))) \<le> m"
  using runes_truncated [of "take (nat (m - 1)) (runes s)" s]
  by (auto simp: TruncateRunes_def rune_count_def runes_ellipsis set_take_subset)

lemma take_within_subset: "set (take_within width budget rs) \<subseteq> set rs"
  by (induction rs arbitrary: budget) auto

lemma take_within_size: "0 \<le> budget \<Longrightarrow> int (sum_list (map width (take_within width budget rs))) \<le> budget"
proof (induction rs arbitrary: budget)
  case (Cons r rs)
  have "int (sum_list (map width (take_within width (budget - int (width r)) rs))) \<le> budget - int (width r)"
    if "\<not> budget < int (width r)" using that by (intro Cons.IH) simp
  then show ?case using Cons.prems by (cases "budget < int (width r)") simp_all
qed simp

lemma truncateUTF16_bound:
  assumes "1 \<le> m" shows "int (utf16Count (fst (truncateUTF16 s m))) \<le> m"
proof -
  let ?rs = "take_within utf16Len (m - 1) (runes s)"
  have "int (utf16_size ?rs) \<le> m - 1" using take_within_size [of "m - 1"] assms by (simp add: utf16_size_def)
  moreover have "runes (of_runes ?rs @ ellipsis) = ?rs @ [0x2026]"
    by (rule runes_truncated [OF take_within_subset])
  ultimately show ?thesis
    using assms by (auto simp: truncateUTF16_def utf16Count_def runes_ellipsis utf16_size_def utf16Len_def Let_def)
qed

text \<open>Bark's budget is in bytes and does not reserve the ellipsis: a truncated body may exceed it by three bytes.\<close>

lemma length_of_runes: "length (of_runes rs) = sum_list (map rune_len rs)"
  by (induction rs) (simp_all add: of_runes_def rune_len_def)

lemma truncateBytes_bound:
  assumes "0 \<le> m" shows "int (length (fst (truncateBytes s m))) \<le> m + 3"
proof -
  have "length ellipsis = 3" by (simp add: ellipsis_def of_runes_def encode_rune_def)
  then show ?thesis
    using take_within_size [OF assms, of rune_len "runes s"]
    by (auto simp: truncateBytes_def length_of_runes Let_def)
qed

text \<open>The page address starts on a line of its own, so the runes of the parts add up.\<close>

lemma runes_with_block: "runes (s @ url_block page_url) = runes s @ runes (url_block page_url)"
  by (rule runes_append) (simp add: url_block_def blank_line_def)

lemma composeText_bound:
  assumes "1 \<le> m" shows "int (rune_count (composeText title body page_url m)) \<le> m"
proof (cases "m \<le> int (rune_count (url_block page_url))")
  case True
  then show ?thesis using TruncateRunes_bound [OF assms] by (simp add: composeText_def)
next
  case False
  then show ?thesis
    using TruncateRunes_bound [of "m - int (rune_count (url_block page_url))" "text_head title body"]
    by (auto simp: composeText_def rune_count_def runes_with_block Let_def)
qed

lemma composeTextUTF16_bound:
  assumes "1 \<le> m" shows "int (utf16Count (composeTextUTF16 title body page_url m)) \<le> m"
proof (cases "m \<le> int (utf16Count (url_block page_url))")
  case True
  then show ?thesis using truncateUTF16_bound [OF assms] by (simp add: composeTextUTF16_def)
next
  case False
  then show ?thesis
    using truncateUTF16_bound [of "m - int (utf16Count (url_block page_url))" "text_head title body"]
    by (auto simp: composeTextUTF16_def utf16Count_def utf16_size_def runes_with_block Let_def)
qed

section \<open>Mentions are broken\<close>

text \<open>An at sign is always followed by a zero-width space, or by the ellipsis of a truncation.\<close>

fun mentions_broken :: "nat list \<Rightarrow> bool" where
  "mentions_broken (r # r' # rs) = ((r = 0x40 \<longrightarrow> r' = 0x200B \<or> r' = 0x2026) \<and> mentions_broken (r' # rs))"
| "mentions_broken [r] = (r \<noteq> 0x40)"
| "mentions_broken [] = True"

definition spaced :: "nat list \<Rightarrow> nat list" where
  "spaced rs = concat (map (\<lambda>r. if r = 0x40 then [0x40, 0x200B] else [r]) rs)"

lemma small_rune: "bytes \<noteq> [] \<Longrightarrow> rune_of (take (first_rune_size bytes) bytes) < 0x80 \<Longrightarrow>
    rune_of (take (first_rune_size bytes) bytes) = hd bytes"
  by (cases bytes rule: first_rune_size.cases)
    (auto simp: between_def continues_def second_of_three_def second_of_four_def split: if_splits)

lemma decode_small: "r \<in> set (decode_runes bytes) \<Longrightarrow> r < 0x80 \<Longrightarrow> r \<in> set bytes"
proof (induction bytes rule: decode_runes.induct)
  case (2 b bytes)
  let ?n = "first_rune_size (b # bytes)"
  from 2 consider "r = rune_of (take ?n (b # bytes))" | "r \<in> set (drop ?n (b # bytes))" by auto
  then show ?case
  proof cases
    case 1
    then show ?thesis using small_rune [of "b # bytes"] 2(3) by simp
  next
    case 2
    then show ?thesis by (rule in_set_dropD)
  qed
qed simp

lemma runes_at: "0x40 \<in> set (runes s) \<Longrightarrow> CHR ''@'' \<in> set s"
proof -
  assume "0x40 \<in> set (runes s)"
  then have "0x40 \<in> set (map of_char s :: nat list)" unfolding runes_def by (rule decode_small) simp
  then obtain c where "c \<in> set s" "of_char c = (0x40 :: nat)" by auto
  moreover from this(2) have "c = CHR ''@''" by (intro of_char_eqI [where 'a = nat]) simp
  ultimately show ?thesis by simp
qed

lemma spaced_none: "0x40 \<notin> set rs \<Longrightarrow> spaced rs = rs"
  by (induction rs) (auto simp: spaced_def)

lemma breakMentions_none: "CHR ''@'' \<notin> set s \<Longrightarrow> breakMentions s = s"
  by (induction s) (auto simp: breakMentions_def)

lemma runes_zero_width: "runes (zero_width_space @ s) = 0x200B # runes s"
proof -
  have valid: "valid_rune 0x200B" by (simp add: valid_rune_def)
  have "map of_char zero_width_space = encode_rune 0x200B"
    by (simp add: zero_width_space_def of_runes_def encode_rune_def)
  then show ?thesis using decode_encode [OF valid, of "map of_char s"] by (simp add: runes_def)
qed

lemma runes_breakMentions: "runes (breakMentions s) = spaced (runes s)"
proof (induction "length s" arbitrary: s rule: less_induct)
  case less
  show ?case
  proof (cases "CHR ''@'' \<in> set s")
    case False
    then have "0x40 \<notin> set (runes s)" using runes_at by blast
    then show ?thesis using breakMentions_none [OF False] spaced_none by metis
  next
    case True
    then obtain a b where s: "s = a @ CHR ''@'' # b" "CHR ''@'' \<notin> set a"
      by (metis split_list_first)
    have "breakMentions s = a @ CHR ''@'' # (zero_width_space @ breakMentions b)"
      using breakMentions_none [OF s(2)] by (simp add: s(1) breakMentions_def)
    moreover have "runes (a @ CHR ''@'' # x) = runes a @ 0x40 # runes x" for x
      by (simp add: runes_append runes_ascii)
    moreover have "0x40 \<notin> set (runes a)" using runes_at s(2) by blast
    moreover have "runes (breakMentions b) = spaced (runes b)" using less [of b] s(1) by simp
    ultimately show ?thesis using s(1) by (simp add: runes_zero_width spaced_def) (simp add: spaced_none flip: spaced_def)
  qed
qed

lemma mentions_broken_Cons: "mentions_broken rs \<Longrightarrow> r \<noteq> 0x40 \<Longrightarrow> mentions_broken (r # rs)"
  by (cases rs) auto

lemma mentions_broken_spaced: "mentions_broken rest \<Longrightarrow> mentions_broken (spaced rs @ rest)"
  by (induction rs) (auto simp: spaced_def intro: mentions_broken_Cons)

lemma mentions_broken_cut: "mentions_broken rs \<Longrightarrow> mentions_broken (take k rs @ [0x2026])"
proof (induction rs arbitrary: k rule: mentions_broken.induct)
  case (1 r r' rs)
  show ?case
  proof (cases k)
    case (Suc j)
    have "mentions_broken (take j (r' # rs) @ [0x2026])" using "1.IH" [of j] "1.prems" by simp
    then show ?thesis using "1.prems" Suc by (cases j) auto
  qed simp
next
  case (2 r)
  then show ?case by (cases k) auto
qed simp

lemma runes_text_head: "runes (text_head title body) = spaced (runes title) @ [0x0A, 0x0A] @ spaced (runes body)"
  by (simp add: text_head_def blank_line_def runes_append runes_ascii runes_breakMentions)

lemma mentions_broken_head: "mentions_broken (runes (text_head title body))"
  using mentions_broken_spaced [of "[]" "runes body"]
  by (auto simp: runes_text_head intro!: mentions_broken_spaced mentions_broken_Cons)

lemma TruncateRunes_broken: "mentions_broken (runes s) \<Longrightarrow> mentions_broken (runes (fst (TruncateRunes s m)))"
  using runes_truncated [of "take (nat (m - 1)) (runes s)" s] mentions_broken_cut [of "runes s" "nat (m - 1)"]
  by (auto simp: TruncateRunes_def runes_ellipsis set_take_subset)

lemma take_within_prefix: "\<exists>k. take_within width budget rs = take k rs"
proof (induction rs arbitrary: budget)
  case (Cons r rs)
  then obtain k where "take_within width (budget - int (width r)) rs = take k rs" by blast
  then have "take_within width budget (r # rs) = take (if budget < int (width r) then 0 else Suc k) (r # rs)" by simp
  then show ?case by blast
qed simp

lemma truncateUTF16_broken: "mentions_broken (runes s) \<Longrightarrow> mentions_broken (runes (fst (truncateUTF16 s m)))"
proof -
  assume broken: "mentions_broken (runes s)"
  obtain k where k: "take_within utf16Len (m - 1) (runes s) = take k (runes s)" using take_within_prefix by blast
  show ?thesis
    using runes_truncated [of "take k (runes s)" s] mentions_broken_cut [OF broken, of k] broken
    by (auto simp: truncateUTF16_def runes_ellipsis set_take_subset k Let_def)
qed

lemma composed_broken:
  assumes "int (rune_count (url_block page_url)) < m"
  shows "\<exists>rs. runes (composeText title body page_url m) = rs @ runes (url_block page_url) \<and> mentions_broken rs"
proof (intro exI conjI)
  let ?head = "fst (TruncateRunes (text_head title body) (m - int (rune_count (url_block page_url))))"
  show "runes (composeText title body page_url m) = runes ?head @ runes (url_block page_url)"
    using assms by (simp add: composeText_def runes_with_block Let_def)
  show "mentions_broken (runes ?head)" by (rule TruncateRunes_broken [OF mentions_broken_head])
qed

lemma composedUTF16_broken:
  assumes "int (utf16Count (url_block page_url)) < m"
  shows "\<exists>rs. runes (composeTextUTF16 title body page_url m) = rs @ runes (url_block page_url) \<and> mentions_broken rs"
proof (intro exI conjI)
  let ?head = "fst (truncateUTF16 (text_head title body) (m - int (utf16Count (url_block page_url))))"
  show "runes (composeTextUTF16 title body page_url m) = runes ?head @ runes (url_block page_url)"
    using assms by (simp add: composeTextUTF16_def runes_with_block Let_def)
  show "mentions_broken (runes ?head)" by (rule truncateUTF16_broken [OF mentions_broken_head])
qed

section \<open>Discord\<close>

text \<open>
  The content for Discord is cut to its budget before the escape characters are added, so the content that is
  sent can be twice as long as the budget.
\<close>

definition discord_content :: "string \<Rightarrow> string \<Rightarrow> string \<Rightarrow> int \<Rightarrow> string" where
  "discord_content title body page_url m =
     escapeDiscordMarkdown (fst (TruncateRunes (text_head title body) (m - int (rune_count (url_block page_url))))) @
     url_block page_url"

lemma valid_ascii: "r < 0x80 \<Longrightarrow> valid_rune r"
  by (simp add: valid_rune_def)

lemma runes_escaped: "runes (escapeDiscordMarkdown s) =
    concat (map (\<lambda>r. if r \<in> set discord_special then [0x5C, r] else [r]) (runes s))"
  unfolding escapeDiscordMarkdown_def
  by (rule runes_of_runes) (auto simp: valid_ascii intro: runes_valid split: if_splits)

lemma discord_exceeds_budget: "\<exists>body. 3998 = rune_count (discord_content '''' body '''' 2000)"
proof
  define body where "body = replicate 1998 (CHR ''*'')"
  have broken: "breakMentions body = body" by (rule breakMentions_none) (simp add: body_def)
  have stars: "runes (replicate n (CHR ''*'')) = replicate n 0x2A" for n
    by (induction n) (simp_all add: runes_ascii)
  have head: "runes (text_head '''' body) = 0x0A # 0x0A # replicate 1998 0x2A"
    unfolding text_head_def broken unfolding body_def
    by (simp add: breakMentions_def blank_line_def runes_ascii stars)
  then have "fst (TruncateRunes (text_head '''' body) 2000) = text_head '''' body"
    by (simp add: TruncateRunes_def rune_count_def)
  moreover have "length (concat (map (\<lambda>r. if r \<in> set discord_special then [0x5C, r] else [r]) (replicate n 0x2A))) = 2 * n" for n
    by (induction n) (simp_all add: discord_special_def)
  ultimately show "3998 = rune_count (discord_content '''' body '''' 2000)"
    by (simp add: discord_content_def url_block_def rune_count_def runes_escaped head discord_special_def
       )
qed

text \<open>
  The outgoing channels of a notification (\<open>internal/platform/notifier\<close>): the platforms and their typed
  configuration, its validation, one request per platform and the judgement of the answer.  The HTTP client,
  HMAC-SHA256 and the reading of JSON answers belong to the standard library and are collected, with the clock,
  in \<open>notifier_env\<close>.
\<close>

section \<open>Platforms and configuration (notifier.go, url.go)\<close>

datatype platform =
    PlatformTelegram | PlatformFeishu | PlatformDingTalk | PlatformBark
  | PlatformSlack | PlatformLine | PlatformWebHook | PlatformDiscord

fun platform_string :: "platform \<Rightarrow> string" where
  "platform_string PlatformTelegram = ''telegram''"
| "platform_string PlatformFeishu = ''feishu''"
| "platform_string PlatformDingTalk = ''dingtalk''"
| "platform_string PlatformBark = ''bark''"
| "platform_string PlatformSlack = ''slack''"
| "platform_string PlatformLine = ''line''"
| "platform_string PlatformWebHook = ''webhook''"
| "platform_string PlatformDiscord = ''discord''"

definition platforms :: "platform list" where
  "platforms = [PlatformTelegram, PlatformFeishu, PlatformDingTalk, PlatformBark, PlatformSlack, PlatformLine,
     PlatformWebHook, PlatformDiscord]"

text \<open>\<open>ErrConfig\<close>, and the class and detail of a \<open>DeliveryError\<close>.\<close>

datatype notifier_error = ChannelConfigError | DeliveryError (de_class: string) (de_detail: string)

abbreviation "notification_prefix \<equiv> ''notification.''"

definition ParsePlatform :: "string \<Rightarrow> notifier_error + platform" where
  "ParsePlatform key =
     (if length key \<le> length notification_prefix \<or> \<not> HasPrefix key notification_prefix then Inl ChannelConfigError
      else option_to_result ChannelConfigError
             (find (\<lambda>p. platform_string p = drop (length notification_prefix) key) platforms))"

record channel_config =
  cc_bot_token :: string
  cc_chat_id :: string
  cc_webhook_url :: string
  cc_server_url :: string
  cc_device_key :: string
  cc_access_token :: string
  cc_target_id :: string

record notifier_config = channel_config +
  nc_platform :: platform
  nc_signing_secret :: string

record notifier_message =
  nm_title :: string
  nm_text :: string
  nm_page_url :: string
  nm_webhook_raw :: string

text \<open>\<open>strings.EqualFold\<close> against an ASCII host name folds the letters of both sides.\<close>

definition validateOfficialWebhookURL ::
  "library \<Rightarrow> url_builder \<Rightarrow> (string \<Rightarrow> string \<Rightarrow> bool) \<Rightarrow> string \<Rightarrow> string \<Rightarrow> string \<Rightarrow> string \<Rightarrow> bool" where
  "validateOfficialWebhookURL L U equal_fold raw host path_prefix required \<longleftrightarrow>
     (case ParseHTTPS L raw of
        None \<Rightarrow> False
      | Some u \<Rightarrow>
          url_fragment u = '''' \<and> equal_fold (Hostname u) host \<and> HasPrefix (url_path u) path_prefix \<and>
          (if required \<noteq> '''' then
             values_get (Query U u) required \<noteq> '''' \<and> length (Query U u) = 1
           else url_raw_query u = ''''))"

definition validateSlackWebhookURL :: "library \<Rightarrow> string \<Rightarrow> bool" where
  "validateSlackWebhookURL L raw \<longleftrightarrow>
     (case ParseHTTPS L raw of
        None \<Rightarrow> False
      | Some u \<Rightarrow>
          url_fragment u = '''' \<and>
          (let host = lib_lower L (Hostname u) in host = ''hooks.slack.com'' \<or> host = ''hooks.slack-gov.com'') \<and>
          HasPrefix (url_path u) ''/services/'')"

definition ValidateWebhookURL ::
  "library \<Rightarrow> url_builder \<Rightarrow> (string \<Rightarrow> string \<Rightarrow> bool) \<Rightarrow> platform \<Rightarrow> string \<Rightarrow> bool" where
  "ValidateWebhookURL L U equal_fold p raw =
     (case p of
        PlatformFeishu \<Rightarrow>
          validateOfficialWebhookURL L U equal_fold raw ''open.feishu.cn'' ''/open-apis/bot/v2/hook/'' ''''
      | PlatformDingTalk \<Rightarrow>
          validateOfficialWebhookURL L U equal_fold raw ''oapi.dingtalk.com'' ''/robot/send'' ''access_token''
      | PlatformSlack \<Rightarrow> validateSlackWebhookURL L raw
      | PlatformDiscord \<Rightarrow> validateOfficialWebhookURL L U equal_fold raw ''discord.com'' ''/api/webhooks/'' ''''
      | _ \<Rightarrow> False)"

definition ValidateTrustedURL :: "library \<Rightarrow> string \<Rightarrow> bool" where
  "ValidateTrustedURL L raw \<longleftrightarrow>
     (case ParseHTTP L raw of None \<Rightarrow> False | Some u \<Rightarrow> url_fragment u = '''')"

definition validateBarkBaseURL :: "library \<Rightarrow> string \<Rightarrow> bool" where
  "validateBarkBaseURL L raw \<longleftrightarrow> ParseHTTPBase L raw \<noteq> None"

definition config_valid ::
  "library \<Rightarrow> url_builder \<Rightarrow> (string \<Rightarrow> string \<Rightarrow> bool) \<Rightarrow> notifier_config \<Rightarrow> bool" where
  "config_valid L U equal_fold cfg =
     (case nc_platform cfg of
        PlatformTelegram \<Rightarrow> TrimSpace (cc_bot_token cfg) \<noteq> '''' \<and> TrimSpace (cc_chat_id cfg) \<noteq> ''''
      | PlatformBark \<Rightarrow> TrimSpace (cc_device_key cfg) \<noteq> '''' \<and> validateBarkBaseURL L (cc_server_url cfg)
      | PlatformLine \<Rightarrow> TrimSpace (cc_access_token cfg) \<noteq> '''' \<and> TrimSpace (cc_target_id cfg) \<noteq> ''''
      | PlatformWebHook \<Rightarrow> ValidateTrustedURL L (cc_webhook_url cfg)
      | p \<Rightarrow> ValidateWebhookURL L U equal_fold p (cc_webhook_url cfg))"

section \<open>One bounded request (notifier.go, client.go)\<close>

record http_request =
  rq_url :: string
  rq_headers :: "(string \<times> string) list"
  rq_body :: string

record http_response =
  rs_status :: int
  rs_content_length :: int
  rs_body :: "string option"

text \<open>How the transport fails: the context ended, a deadline passed, a timeout of the network, anything else.\<close>

datatype transport_error = ContextEnded | DeadlineExceeded | NetworkTimeout | TransportFailed

text \<open>
  \<open>nv_request\<close> says whether \<open>http.NewRequest\<close> takes the address; the decoders give what \<open>json.Unmarshal\<close> leaves
  in the struct of the source, \<open>None\<close> for an error.
\<close>

record notifier_env =
  nv_lib :: library
  nv_urls :: url_builder
  nv_equal_fold :: "string \<Rightarrow> string \<Rightarrow> bool"
  nv_now :: int
  nv_query_escape :: "string \<Rightarrow> string"
  nv_hmac :: "string \<Rightarrow> string \<Rightarrow> string"
  nv_base64 :: "string \<Rightarrow> string"
  nv_request :: "string \<Rightarrow> bool"
  nv_do :: "http_request \<Rightarrow> transport_error + http_response"
  nv_status_text :: "int \<Rightarrow> string"
  nv_json_valid :: "string \<Rightarrow> bool"
  nv_telegram :: "string \<Rightarrow> (bool \<times> int) option"
  nv_code :: "string \<Rightarrow> int option"
  nv_errcode :: "string \<Rightarrow> int option"
  nv_feishu :: "string \<Rightarrow> (int option \<times> int option) option"

abbreviation "maxResponseBytes \<equiv> (65536 :: nat)"

definition request_failed :: notifier_error where
  "request_failed = DeliveryError ''network'' ''request_failed''"

definition platform_error :: "string \<Rightarrow> notifier_error" where
  "platform_error detail = DeliveryError ''platform'' detail"

fun transport_class :: "transport_error \<Rightarrow> notifier_error" where
  "transport_class ContextEnded = DeliveryError ''timeout'' ''''"
| "transport_class DeadlineExceeded = DeliveryError ''timeout'' ''''"
| "transport_class NetworkTimeout = DeliveryError ''timeout'' ''''"
| "transport_class TransportFailed = DeliveryError ''network'' ''''"

definition readBody :: "http_response \<Rightarrow> notifier_error + string" where
  "readBody rs =
     (if int maxResponseBytes < rs_content_length rs then Inl (DeliveryError ''response'' ''body_too_large'')
      else case rs_body rs of
             None \<Rightarrow> Inl (DeliveryError ''response'' ''read_failed'')
           | Some body \<Rightarrow>
               if maxResponseBytes < length body then Inl (DeliveryError ''response'' ''body_too_large'')
               else Inr body)"

definition httpStatusError :: "notifier_env \<Rightarrow> int \<Rightarrow> notifier_error" where
  "httpStatusError N status = DeliveryError ''http'' (''HTTP '' @ nv_status_text N status)"

definition exchange :: "notifier_env \<Rightarrow> http_request \<Rightarrow> notifier_error + int \<times> string" where
  "exchange N rq =
     (if \<not> nv_request N (rq_url rq) then Inl request_failed
      else case nv_do N rq of
             Inl e \<Rightarrow> Inl (transport_class e)
           | Inr rs \<Rightarrow> bindE (readBody rs) (\<lambda>body. Inr (rs_status rs, body)))"

definition successful :: "int \<Rightarrow> bool" where
  "successful status \<longleftrightarrow> 200 \<le> status \<and> status \<le> 299"

definition json_content :: "(string \<times> string) list" where
  "json_content = [(''Content-Type'', ''application/json'')]"

definition post_json :: "string \<Rightarrow> json \<Rightarrow> http_request" where
  "post_json address payload = \<lparr>rq_url = address, rq_headers = json_content, rq_body = json_marshal payload\<rparr>"

section \<open>The requests\<close>

definition telegram_request :: "notifier_env \<Rightarrow> notifier_config \<Rightarrow> notifier_message \<Rightarrow> notifier_error + http_request" where
  "telegram_request N cfg msg =
     (case ParseHTTPSBase (nv_lib N) ''https://api.telegram.org'' of
        None \<Rightarrow> Inl request_failed
      | Some base \<Rightarrow>
          Inr (post_json
            (lib_string (nv_lib N) (JoinPathSegments (nv_urls N) base [''bot'' @ cc_bot_token cfg, ''sendMessage'']))
            (JMap [(''chat_id'', JString (cc_chat_id cfg)),
                   (''text'', JString (composeText (nm_title msg) (nm_text msg) (nm_page_url msg) 4096)),
                   (''link_preview_options'', JMap [(''is_disabled'', JBool True)])])))"

text \<open>Feishu and DingTalk cut the text alone and append the address after it.\<close>

definition bot_text :: "notifier_message \<Rightarrow> string" where
  "bot_text msg = fst (TruncateRunes (text_head (nm_title msg) (nm_text msg)) 4000) @ url_block (nm_page_url msg)"

definition string_to_sign :: "int \<Rightarrow> string \<Rightarrow> string" where
  "string_to_sign timestamp secret = FormatInt timestamp @ [CHR 0x0A] @ secret"

definition feishuSign :: "notifier_env \<Rightarrow> string \<Rightarrow> int \<Rightarrow> string" where
  "feishuSign N secret timestamp = nv_base64 N (nv_hmac N (string_to_sign timestamp secret) '''')"

definition feishu_request :: "notifier_env \<Rightarrow> notifier_config \<Rightarrow> notifier_message \<Rightarrow> notifier_error + http_request" where
  "feishu_request N cfg msg =
     (let timestamp = nv_now N div 1000000000
      in Inr (post_json (cc_webhook_url cfg)
           (JMap ([(''msg_type'', JString ''text''), (''content'', JMap [(''text'', JString (bot_text msg))])] @
              (if nc_signing_secret cfg \<noteq> '''' then
                 [(''timestamp'', JString (FormatInt timestamp)),
                  (''sign'', JString (feishuSign N (nc_signing_secret cfg) timestamp))]
               else [])))))"

definition dingtalkSign :: "notifier_env \<Rightarrow> string \<Rightarrow> int \<Rightarrow> string" where
  "dingtalkSign N secret timestamp =
     nv_query_escape N (nv_base64 N (nv_hmac N secret (string_to_sign timestamp secret)))"

definition dingtalk_request :: "notifier_env \<Rightarrow> notifier_config \<Rightarrow> notifier_message \<Rightarrow> notifier_error + http_request" where
  "dingtalk_request N cfg msg =
     (case ParseHTTPS (nv_lib N) (cc_webhook_url cfg) of
        None \<Rightarrow> Inl request_failed
      | Some endpoint \<Rightarrow>
          (let timestamp = nv_now N div 1000000;
               signed = values_set (values_set (Query (nv_urls N) endpoint) ''timestamp'' (FormatInt timestamp))
                 ''sign'' (dingtalkSign N (nc_signing_secret cfg) timestamp);
               endpoint' = (if nc_signing_secret cfg \<noteq> ''''
                 then endpoint\<lparr>url_raw_query := ub_encode (nv_urls N) signed\<rparr> else endpoint)
           in Inr (post_json (lib_string (nv_lib N) endpoint')
                (JMap [(''msgtype'', JString ''text''),
                       (''text'', JMap [(''content'', JString (bot_text msg))]),
                       (''at'', JMap [(''atMobiles'', JArray []), (''atUserIds'', JArray []), (''isAtAll'', JBool False)])]))))"

definition bark_body :: "notifier_message \<Rightarrow> string" where
  "bark_body msg =
     (let block = url_block (nm_page_url msg)
      in fst (truncateBytes (breakMentions (nm_text msg)) (2500 - int (length block))) @ block)"

definition bark_request :: "notifier_env \<Rightarrow> notifier_config \<Rightarrow> notifier_message \<Rightarrow> notifier_error + http_request" where
  "bark_request N cfg msg =
     (case ParseHTTPBase (nv_lib N) (cc_server_url cfg) of
        None \<Rightarrow> Inl request_failed
      | Some base \<Rightarrow>
          Inr \<lparr>rq_url = lib_string (nv_lib N) (JoinPathSegments (nv_urls N) base [''push'']),
               rq_headers = [(''Content-Type'', ''application/json; charset=utf-8'')],
               rq_body = json_marshal (JMap ([(''device_key'', JString (cc_device_key cfg)),
                 (''title'', JString (fst (TruncateRunes (nm_title msg) 100))), (''body'', JString (bark_body msg)),
                 (''group'', JString ''Furtalk'')] @
                 (if nm_page_url msg \<noteq> '''' then [(''url'', JString (nm_page_url msg))] else [])))\<rparr>)"

definition slack_request :: "notifier_env \<Rightarrow> notifier_config \<Rightarrow> notifier_message \<Rightarrow> notifier_error + http_request" where
  "slack_request N cfg msg =
     Inr (post_json (cc_webhook_url cfg)
       (JMap [(''text'', JString (composeText (nm_title msg) (nm_text msg) (nm_page_url msg) 4000)),
              (''mrkdwn'', JBool False), (''unfurl_links'', JBool False), (''unfurl_media'', JBool False)]))"

definition line_request :: "notifier_env \<Rightarrow> notifier_config \<Rightarrow> notifier_message \<Rightarrow> notifier_error + http_request" where
  "line_request N cfg msg =
     Inr \<lparr>rq_url = ''https://api.line.me/v2/bot/message/push'',
          rq_headers = json_content @ [(''Authorization'', ''Bearer '' @ cc_access_token cfg)],
          rq_body = json_marshal (JMap [(''to'', JString (cc_target_id cfg)),
            (''messages'', JArray [JMap [(''type'', JString ''text''),
               (''text'', JString (composeTextUTF16 (nm_title msg) (nm_text msg) (nm_page_url msg) 5000))]]),
            (''notificationDisabled'', JBool False)])\<rparr>"

definition webhookSignature :: "notifier_env \<Rightarrow> string \<Rightarrow> int \<Rightarrow> string \<Rightarrow> string" where
  "webhookSignature N secret timestamp body =
     concat (map (\<lambda>c. [hex_char (of_char c div 16), hex_char (of_char c mod 16)])
       (nv_hmac N secret (FormatInt timestamp @ ''.'' @ body)))"

definition webhook_request :: "notifier_env \<Rightarrow> notifier_config \<Rightarrow> notifier_message \<Rightarrow> notifier_error + http_request" where
  "webhook_request N cfg msg =
     (let timestamp = nv_now N div 1000000000; raw = nm_webhook_raw msg
      in if raw = '''' then Inl (DeliveryError ''response'' ''empty_webhook_body'')
         else Inr \<lparr>rq_url = cc_webhook_url cfg,
                   rq_headers = json_content @ [(''X-FurTalk-Webhook-Version'', ''1''),
                     (''X-FurTalk-Webhook-Timestamp'', FormatInt timestamp)] @
                     (if nc_signing_secret cfg \<noteq> '''' then
                        [(''X-FurTalk-Webhook-Signature'', ''sha256='' @ webhookSignature N (nc_signing_secret cfg) timestamp raw)]
                      else []),
                   rq_body = raw\<rparr>)"

definition discord_request :: "notifier_env \<Rightarrow> notifier_config \<Rightarrow> notifier_message \<Rightarrow> notifier_error + http_request" where
  "discord_request N cfg msg =
     (case ParseHTTPS (nv_lib N) (cc_webhook_url cfg) of
        None \<Rightarrow> Inl request_failed
      | Some endpoint \<Rightarrow>
          Inr (post_json
            (lib_string (nv_lib N) (endpoint\<lparr>url_raw_query :=
               ub_encode (nv_urls N) (values_set (Query (nv_urls N) endpoint) ''wait'' ''true'')\<rparr>))
            (JMap [(''content'', JString (discord_content (nm_title msg) (nm_text msg) (nm_page_url msg) 2000)),
                   (''allowed_mentions'', JMap [(''parse'', JArray [])])])))"

definition channel_request :: "notifier_env \<Rightarrow> notifier_config \<Rightarrow> notifier_message \<Rightarrow> notifier_error + http_request" where
  "channel_request N cfg msg =
     (case nc_platform cfg of
        PlatformTelegram \<Rightarrow> telegram_request N cfg msg
      | PlatformFeishu \<Rightarrow> feishu_request N cfg msg
      | PlatformDingTalk \<Rightarrow> dingtalk_request N cfg msg
      | PlatformBark \<Rightarrow> bark_request N cfg msg
      | PlatformSlack \<Rightarrow> slack_request N cfg msg
      | PlatformLine \<Rightarrow> line_request N cfg msg
      | PlatformWebHook \<Rightarrow> webhook_request N cfg msg
      | PlatformDiscord \<Rightarrow> discord_request N cfg msg)"

section \<open>The judgement of the answers\<close>

definition telegram_verdict :: "notifier_env \<Rightarrow> int \<Rightarrow> string \<Rightarrow> notifier_error + unit" where
  "telegram_verdict N status body =
     (if \<not> successful status then Inl (httpStatusError N status)
      else case nv_telegram N body of
             None \<Rightarrow> Inl (platform_error ''malformed_response'')
           | Some (ok, code) \<Rightarrow>
               if ok then Inr ()
               else Inl (platform_error (if code \<noteq> 0 then ''telegram_error_'' @ FormatInt code else ''ok_false'')))"

definition feishu_verdict :: "notifier_env \<Rightarrow> int \<Rightarrow> string \<Rightarrow> notifier_error + unit" where
  "feishu_verdict N status body =
     (if \<not> successful status then Inl (httpStatusError N status)
      else case nv_feishu N body of
             None \<Rightarrow> Inl (platform_error ''malformed_response'')
           | Some (None, None) \<Rightarrow> Inl (platform_error ''missing_success_field'')
           | Some (Some c, s) \<Rightarrow>
               if c \<noteq> 0 \<or> (s \<noteq> None \<and> s \<noteq> Some 0) then Inl (platform_error (''feishu_code_'' @ FormatInt c)) else Inr ()
           | Some (None, Some s) \<Rightarrow>
               if s \<noteq> 0 then Inl (platform_error (''feishu_code_'' @ FormatInt s)) else Inr ())"

definition dingtalk_verdict :: "notifier_env \<Rightarrow> int \<Rightarrow> string \<Rightarrow> notifier_error + unit" where
  "dingtalk_verdict N status body =
     (if \<not> successful status then Inl (httpStatusError N status)
      else case nv_errcode N body of
             None \<Rightarrow> Inl (platform_error ''malformed_response'')
           | Some c \<Rightarrow> if c \<noteq> 0 then Inl (platform_error (''dingtalk_code_'' @ FormatInt c)) else Inr ())"

definition bark_verdict :: "notifier_env \<Rightarrow> int \<Rightarrow> string \<Rightarrow> notifier_error + unit" where
  "bark_verdict N status body =
     (if \<not> successful status then Inl (httpStatusError N status)
      else case nv_code N body of
             None \<Rightarrow> Inl (platform_error ''malformed_response'')
           | Some c \<Rightarrow> if c \<noteq> 200 then Inl (platform_error ''bark_code_not_200'') else Inr ())"

definition slack_verdict :: "notifier_env \<Rightarrow> int \<Rightarrow> string \<Rightarrow> notifier_error + unit" where
  "slack_verdict N status body =
     (if status \<noteq> 200 then Inl (httpStatusError N status)
      else if TrimSpace body \<noteq> ''ok'' then Inl (platform_error ''unexpected_body'') else Inr ())"

definition json_verdict :: "notifier_env \<Rightarrow> int \<Rightarrow> string \<Rightarrow> notifier_error + unit" where
  "json_verdict N status body =
     (if status \<noteq> 200 then Inl (httpStatusError N status)
      else if \<not> nv_json_valid N body then Inl (platform_error ''malformed_response'') else Inr ())"

definition webhook_verdict :: "notifier_env \<Rightarrow> int \<Rightarrow> string \<Rightarrow> notifier_error + unit" where
  "webhook_verdict N status body = (if \<not> successful status then Inl (httpStatusError N status) else Inr ())"

definition channel_verdict :: "notifier_env \<Rightarrow> platform \<Rightarrow> int \<Rightarrow> string \<Rightarrow> notifier_error + unit" where
  "channel_verdict N p =
     (case p of
        PlatformTelegram \<Rightarrow> telegram_verdict N
      | PlatformFeishu \<Rightarrow> feishu_verdict N
      | PlatformDingTalk \<Rightarrow> dingtalk_verdict N
      | PlatformBark \<Rightarrow> bark_verdict N
      | PlatformSlack \<Rightarrow> slack_verdict N
      | PlatformLine \<Rightarrow> json_verdict N
      | PlatformWebHook \<Rightarrow> webhook_verdict N
      | PlatformDiscord \<Rightarrow> json_verdict N)"

definition Send :: "notifier_env \<Rightarrow> notifier_config \<Rightarrow> notifier_message \<Rightarrow> notifier_error + unit" where
  "Send N cfg msg =
     (if \<not> config_valid (nv_lib N) (nv_urls N) (nv_equal_fold N) cfg then Inl ChannelConfigError
      else bindE (channel_request N cfg msg) (\<lambda>rq.
           bindE (exchange N rq) (\<lambda>(status, body). channel_verdict N (nc_platform cfg) status body)))"

section \<open>What reaches the platforms\<close>

text \<open>Where the document that a platform is sent has its text: the names of the fields down to it.\<close>

fun field_of :: "string \<Rightarrow> json \<Rightarrow> json option" where
  "field_of name (JMap fs) = map_of fs name"
| "field_of name _ = None"

fun first_item :: "json \<Rightarrow> json option" where
  "first_item (JArray (x # xs)) = Some x"
| "first_item _ = None"

fun string_value :: "json \<Rightarrow> string option" where
  "string_value (JString s) = Some s"
| "string_value _ = None"

fun sent_field :: "platform \<Rightarrow> json \<Rightarrow> json option" where
  "sent_field PlatformTelegram doc = field_of ''text'' doc"
| "sent_field PlatformFeishu doc = Option.bind (field_of ''content'' doc) (field_of ''text'')"
| "sent_field PlatformDingTalk doc = Option.bind (field_of ''text'' doc) (field_of ''content'')"
| "sent_field PlatformBark doc = field_of ''body'' doc"
| "sent_field PlatformSlack doc = field_of ''text'' doc"
| "sent_field PlatformLine doc =
     Option.bind (Option.bind (field_of ''messages'' doc) first_item) (field_of ''text'')"
| "sent_field PlatformDiscord doc = field_of ''content'' doc"
| "sent_field PlatformWebHook doc = None"

text \<open>
  What the text may measure next to the page address (with its blank line) at its end.  Telegram, Slack and LINE
  count the address into their budget.  Feishu and DingTalk have it on top of their 4000 runes.  Bark has 2500 bytes
  for both, plus the three bytes of an ellipsis, unless the address alone is longer.  Discord has 2000 runes before
  escaping, which at worst doubles what stands before the address.
\<close>

fun within_budget :: "platform \<Rightarrow> string \<Rightarrow> string \<Rightarrow> bool" where
  "within_budget PlatformTelegram block t = (rune_count t \<le> 4096)"
| "within_budget PlatformSlack block t = (rune_count t \<le> 4000)"
| "within_budget PlatformLine block t = (utf16Count t \<le> 5000)"
| "within_budget PlatformFeishu block t = (rune_count t \<le> 4000 + rune_count block)"
| "within_budget PlatformDingTalk block t = (rune_count t \<le> 4000 + rune_count block)"
| "within_budget PlatformBark block t = (length t \<le> 3 + max 2500 (length block))"
| "within_budget PlatformDiscord block t =
     (rune_count t + rune_count block \<le> max 4000 (2 * rune_count block + 2))"
| "within_budget PlatformWebHook block t = True"

text \<open>Whether the address is sent whole: where it counts into the budget, when it is shorter.\<close>

fun address_whole :: "platform \<Rightarrow> string \<Rightarrow> bool" where
  "address_whole PlatformTelegram block = (rune_count block < 4096)"
| "address_whole PlatformSlack block = (rune_count block < 4000)"
| "address_whole PlatformLine block = (utf16Count block < 5000)"
| "address_whole _ block = True"

definition delivered_text :: "platform \<Rightarrow> notifier_message \<Rightarrow> string \<Rightarrow> bool" where
  "delivered_text p msg t \<longleftrightarrow>
     (let block = url_block (nm_page_url msg)
      in within_budget p block t \<and>
         (address_whole p block \<longrightarrow> (\<exists>rs. runes t = rs @ runes block \<and> mentions_broken rs)))"

lemma truncateBytes_broken: "mentions_broken (runes s) \<Longrightarrow> mentions_broken (runes (fst (truncateBytes s m)))"
proof -
  assume broken: "mentions_broken (runes s)"
  obtain k where k: "take_within rune_len m (runes s) = take k (runes s)" using take_within_prefix by blast
  show ?thesis
    using runes_truncated [of "take k (runes s)" s] mentions_broken_cut [OF broken, of k] broken
    by (auto simp: truncateBytes_def runes_ellipsis set_take_subset k Let_def)
qed

lemma truncateBytes_length: "length (fst (truncateBytes s m)) \<le> 3 + nat m"
proof (cases "0 \<le> m")
  case True
  then show ?thesis using truncateBytes_bound [of m s] by simp
next
  case False
  then have "take_within rune_len m rs = []" for rs by (cases rs) auto
  with False show ?thesis
    by (simp add: truncateBytes_def of_runes_def ellipsis_def encode_rune_def)
qed

lemma breakMentions_broken: "mentions_broken (runes (breakMentions s))"
  using mentions_broken_spaced [of "[]" "runes s"] by (simp add: runes_breakMentions)

definition escaped_runes :: "nat list \<Rightarrow> nat list" where
  "escaped_runes rs = concat (map (\<lambda>r. if r \<in> set discord_special then [0x5C, r] else [r]) rs)"

lemma escaped_runes_broken: "mentions_broken rs \<Longrightarrow> mentions_broken (escaped_runes rs)"
proof (induction rs rule: mentions_broken.induct)
  case (1 r r' rs)
  have rest: "mentions_broken (escaped_runes (r' # rs))" using 1 by simp
  show ?case
  proof (cases "r = 0x40")
    case True
    with 1(2) have "r' = 0x200B \<or> r' = 0x2026" by simp
    then obtain tail where "escaped_runes (r' # rs) = r' # tail"
      by (auto simp: escaped_runes_def discord_special_def)
    then show ?thesis using True rest 1(2)
      by (simp add: escaped_runes_def discord_special_def)
  next
    case False
    then have "escaped_runes (r # r' # rs) = 0x5C # r # escaped_runes (r' # rs) \<or>
        escaped_runes (r # r' # rs) = r # escaped_runes (r' # rs)"
      by (simp add: escaped_runes_def)
    then show ?thesis using rest False by (auto intro!: mentions_broken_Cons)
  qed
qed (auto simp: escaped_runes_def discord_special_def)

lemma escaped_runes_length: "length (escaped_runes rs) \<le> 2 * length rs"
  by (induction rs) (auto simp: escaped_runes_def)

lemma bot_text_delivered:
  "rune_count (bot_text msg) \<le> 4000 + rune_count (url_block (nm_page_url msg))"
  "\<exists>rs. runes (bot_text msg) = rs @ runes (url_block (nm_page_url msg)) \<and> mentions_broken rs"
proof -
  let ?head = "fst (TruncateRunes (text_head (nm_title msg) (nm_text msg)) 4000)"
  have "runes (bot_text msg) = runes ?head @ runes (url_block (nm_page_url msg))"
    by (simp add: bot_text_def runes_with_block)
  moreover have "rune_count ?head \<le> 4000"
    using TruncateRunes_bound [of 4000 "text_head (nm_title msg) (nm_text msg)"] by simp
  ultimately show "rune_count (bot_text msg) \<le> 4000 + rune_count (url_block (nm_page_url msg))"
    "\<exists>rs. runes (bot_text msg) = rs @ runes (url_block (nm_page_url msg)) \<and> mentions_broken rs"
    using TruncateRunes_broken [OF mentions_broken_head] by (auto simp: rune_count_def)
qed

lemma bark_body_delivered:
  "length (bark_body msg) \<le> 3 + max 2500 (length (url_block (nm_page_url msg)))"
  "\<exists>rs. runes (bark_body msg) = rs @ runes (url_block (nm_page_url msg)) \<and> mentions_broken rs"
  using truncateBytes_length [of "breakMentions (nm_text msg)" "2500 - int (length (url_block (nm_page_url msg)))"]
    truncateBytes_broken [OF breakMentions_broken]
  by (auto simp: bark_body_def runes_with_block Let_def)

lemma discord_delivered:
  "rune_count (discord_content title body address 2000) + rune_count (url_block address) \<le>
     max 4000 (2 * rune_count (url_block address) + 2)"
  "\<exists>rs. runes (discord_content title body address 2000) = rs @ runes (url_block address) \<and> mentions_broken rs"
proof -
  let ?m = "2000 - int (rune_count (url_block address))"
  let ?head = "fst (TruncateRunes (text_head title body) ?m)"
  have all: "runes (discord_content title body address 2000) = escaped_runes (runes ?head) @ runes (url_block address)"
    by (simp add: discord_content_def runes_with_block runes_escaped escaped_runes_def)
  have "int (rune_count ?head) \<le> max 1 ?m"
  proof (cases "1 \<le> ?m")
    case True
    then show ?thesis using TruncateRunes_bound [of ?m "text_head title body"] by simp
  next
    case False
    then show ?thesis by (auto simp: TruncateRunes_def rune_count_def runes_ellipsis)
  qed
  then have "length (escaped_runes (runes ?head)) + 2 * rune_count (url_block address) \<le>
      max 4000 (2 * rune_count (url_block address) + 2)"
    using escaped_runes_length [of "runes ?head"] by (simp add: rune_count_def)
  then show "rune_count (discord_content title body address 2000) + rune_count (url_block address) \<le>
     max 4000 (2 * rune_count (url_block address) + 2)"
    using all by (simp add: rune_count_def)
  show "\<exists>rs. runes (discord_content title body address 2000) = rs @ runes (url_block address) \<and> mentions_broken rs"
    using all escaped_runes_broken [OF TruncateRunes_broken [OF mentions_broken_head]] by blast
qed

text \<open>The text the requests put there.\<close>

fun sent_text :: "platform \<Rightarrow> notifier_message \<Rightarrow> string" where
  "sent_text PlatformTelegram msg = composeText (nm_title msg) (nm_text msg) (nm_page_url msg) 4096"
| "sent_text PlatformSlack msg = composeText (nm_title msg) (nm_text msg) (nm_page_url msg) 4000"
| "sent_text PlatformLine msg = composeTextUTF16 (nm_title msg) (nm_text msg) (nm_page_url msg) 5000"
| "sent_text PlatformBark msg = bark_body msg"
| "sent_text PlatformDiscord msg = discord_content (nm_title msg) (nm_text msg) (nm_page_url msg) 2000"
| "sent_text p msg = bot_text msg"

lemma sent_text_delivered: "p \<noteq> PlatformWebHook \<Longrightarrow> delivered_text p msg (sent_text p msg)"
  using composeText_bound [of 4096 "nm_title msg" "nm_text msg" "nm_page_url msg"]
    composeText_bound [of 4000 "nm_title msg" "nm_text msg" "nm_page_url msg"]
    composeTextUTF16_bound [of 5000 "nm_title msg" "nm_text msg" "nm_page_url msg"]
    bot_text_delivered [of msg] bark_body_delivered [of msg]
    discord_delivered [of "nm_title msg" "nm_text msg" "nm_page_url msg"]
  by (cases p) (simp_all add: delivered_text_def composed_broken composedUTF16_broken)

lemma body_of_post_json [simp]: "rq_body (post_json address payload) = json_marshal payload"
  by (simp add: post_json_def)

lemma request_field:
  assumes "channel_request N cfg msg = Inr rq" "nc_platform cfg \<noteq> PlatformWebHook"
  shows "\<exists>doc. rq_body rq = json_marshal doc \<and>
    sent_field (nc_platform cfg) doc = Some (JString (sent_text (nc_platform cfg) msg))"
proof -
  have found: ?thesis if "rq_body rq = json_marshal doc"
    "sent_field (nc_platform cfg) doc = Some (JString (sent_text (nc_platform cfg) msg))" for doc
    using that by blast
  show ?thesis
    using assms
    by (cases "nc_platform cfg")
      (auto simp: channel_request_def telegram_request_def feishu_request_def dingtalk_request_def bark_request_def
        slack_request_def line_request_def discord_request_def Let_def simp del: json_marshal.simps
        split: option.splits intro!: found)
qed

text \<open>
  C32: The text that a request to a platform carries, in the field its interface reads, keeps the budget of the
  platform.  The page address stands whole at its end, except on Telegram, Slack and LINE when it alone fills the
  budget; and before the address every at sign of the title and of the body is broken, so no comment can mention
  anybody.  What the budgets are worth is told at \<open>within_budget\<close>: Discord's is not the 2000 runes of the
  platform, and Bark's may be passed by three bytes.  The webhook sends a document of its own and no such text.
\<close>

theorem platform_text_within_budget:
  assumes "channel_request N cfg msg = Inr rq" "nc_platform cfg \<noteq> PlatformWebHook"
  shows "\<exists>doc t. rq_body rq = json_marshal doc \<and>
    Option.bind (sent_field (nc_platform cfg) doc) string_value = Some t \<and> delivered_text (nc_platform cfg) msg t"
  using request_field [OF assms] sent_text_delivered [OF assms(2), of msg] by auto

definition sample_channel :: notifier_config where
  "sample_channel = \<lparr>cc_bot_token = '''', cc_chat_id = '''', cc_webhook_url = ''https://hooks.slack.com/services/x'',
     cc_server_url = '''', cc_device_key = '''', cc_access_token = '''', cc_target_id = '''',
     nc_platform = PlatformSlack, nc_signing_secret = ''''\<rparr>"

definition sample_message :: notifier_message where
  "sample_message = \<lparr>nm_title = ''new'', nm_text = ''mail me@example.org now'', nm_page_url = ''https://x'',
     nm_webhook_raw = ''''\<rparr>"

lemma platform_text_within_budget_witness:
  "\<forall>N. \<exists>rq doc t rs. channel_request N sample_channel sample_message = Inr rq \<and> rq_body rq = json_marshal doc \<and>
     field_of ''text'' doc = Some (JString t) \<and> rune_count t \<le> 4000 \<and>
     runes t = rs @ runes (url_block ''https://x'') \<and> mentions_broken rs"
proof
  fix N
  have block: "rune_count (url_block ''https://x'') = 11"
    by (simp add: url_block_def blank_line_def rune_count_def runes_ascii)
  obtain rq where rq: "channel_request N sample_channel sample_message = Inr rq"
    by (simp add: channel_request_def sample_channel_def slack_request_def)
  have slack: "nc_platform sample_channel = PlatformSlack" "nm_page_url sample_message = ''https://x''"
    by (simp_all add: sample_channel_def sample_message_def)
  have is_string: "v = JString t" if "string_value v = Some t" for v t using that by (cases v) auto
  show "\<exists>rq doc t rs. channel_request N sample_channel sample_message = Inr rq \<and> rq_body rq = json_marshal doc \<and>
     field_of ''text'' doc = Some (JString t) \<and> rune_count t \<le> 4000 \<and>
     runes t = rs @ runes (url_block ''https://x'') \<and> mentions_broken rs"
    using platform_text_within_budget [OF rq] slack block rq
    by (auto simp: delivered_text_def bind_eq_Some_conv dest!: is_string)
qed

end
