(* ===== verification/Notify_Channels.thy ===== *)
theory Notify_Channels
  imports Notification Notifier
begin

text \<open>
  The channels of the administrators (\<open>internal/service/notification/channels.go\<close>) and the dispatch of an event to
  mails and channels (\<open>service.go\<close>).  A channel is sent to in a goroutine of its own, so the messages are a list
  without an order that matters; a failed delivery is only logged.
\<close>

section \<open>The message\<close>

definition site_label :: string where
    "site_label = of_runes [0x7AD9, 0x70B9, 0xFF1A]"

definition author_label :: string where
    "author_label = of_runes [0x4F5C, 0x8005, 0xFF1A]"

definition status_label :: string where
    "status_label = of_runes [0x72B6, 0x6001, 0xFF1A]"

definition time_label :: string where
    "time_label = of_runes [0x65F6, 0x95F4, 0xFF1A]"

definition test_title :: string where
    "test_title = of_runes [0x46, 0x75, 0x72, 0x74, 0x61, 0x6C, 0x6B, 0x20, 0x901A, 0x9053, 0x6D4B,
     0x8BD5]"

definition test_text :: string where
    "test_text = of_runes [0x8FD9, 0x662F, 0x4E00, 0x6761, 0x7531, 0x20, 0x46, 0x75, 0x72, 0x74, 0x61,
     0x6C, 0x6B, 0x20, 0x7BA1, 0x7406, 0x5458, 0x53D1, 0x8D77, 0x7684, 0x6D4B, 0x8BD5, 0x6D88, 0x606F,
     0x3002]"

record channel_settings = channel_config +
  cs_signing_secret :: "string option"

record channel_provider =
  cp_key :: string
  cp_config :: channel_settings

text \<open>
  The enabled providers (\<open>None\<close> when a collaborator is not wired), RFC 3339 in UTC, and the dispatcher.
\<close>

record channel_env =
  ce_providers :: "(error + channel_provider list) option"
  ce_rfc3339 :: "int \<Rightarrow> string"
  ce_dispatcher :: "notifier_env option"
  ce_now :: int

definition channelLabels :: "comment_status \<Rightarrow> string \<times> string" where
  "channelLabels status =
     (if status = CommentStatusPending then (pending_subject, ''pending_comment'') else (new_subject, ''new_comment''))"

definition decimalID :: "int option \<Rightarrow> string option" where
  "decimalID i = map_option FormatInt i"

definition derefString :: "string option \<Rightarrow> string" where
  "derefString s = (case s of None \<Rightarrow> '''' | Some x \<Rightarrow> x)"

definition given_text :: "string \<Rightarrow> string option" where
  "given_text s = (if s = '''' then None else Some s)"

abbreviation "webhookBodyMaxRunes \<equiv> (1000 :: int)"

definition webHookEnvelope ::
  "channel_env \<Rightarrow> comment_event \<Rightarrow> comment \<Rightarrow> user \<Rightarrow> site \<Rightarrow> string \<Rightarrow> string \<Rightarrow> string" where
  "webHookEnvelope C ev c author s title address =
     (let (body, truncated) = TruncateRunes (c_body_markdown c) webhookBodyMaxRunes;
          at = JString (ce_rfc3339 C (c_created_at c))
      in json_marshal (JStruct
        [(''version'', JString ''1''),
         (''event'', JString ''comment.created''),
         (''notification_type'', JString (snd (channelLabels (c_status c)))),
         (''event_id'', JString (''comment.created:'' @ FormatInt (ev_site_id ev) @ '':'' @ FormatInt (ev_comment_id ev))),
         (''occurred_at'', at),
         (''site'', JStruct [(''id'', JString (FormatInt (s_id s))), (''name'', JString (s_name s)),
            (''canonical_url'', JString (s_canonical_url s))]),
         (''page'', JStruct [(''thread_id'', JString (FormatInt (c_thread_id c))),
            (''title'', json_optional (given_text title)), (''url'', json_optional (given_text address))]),
         (''comment'', JStruct [(''id'', JString (FormatInt (c_id c))),
            (''parent_id'', json_optional (decimalID (c_parent_id c))),
            (''status'', JString (status_string (c_status c))),
            (''author_nickname'', JString (u_nickname author)),
            (''body_markdown'', JString body), (''body_truncated'', JBool truncated), (''created_at'', at)])]))"

definition webHookTestEnvelope :: "channel_env \<Rightarrow> string" where
  "webHookTestEnvelope C = json_marshal (JMap
     [(''version'', JString ''1''), (''event'', JString ''notification.test''), (''notification_type'', JString ''test''),
      (''event_id'', JString ''notification.test''), (''occurred_at'', JString (ce_rfc3339 C (ce_now C))),
      (''test'', JBool True), (''message'', JString test_text)])"

definition channel_text :: "channel_env \<Rightarrow> comment \<Rightarrow> user \<Rightarrow> site \<Rightarrow> string \<Rightarrow> string \<Rightarrow> string" where
  "channel_text C c author s title address =
     site_label @ s_name s @
     (if title \<noteq> '''' then newline @ page_label @ title else '''') @
     (if address \<noteq> '''' then newline @ address else '''') @
     newline @ author_label @ u_nickname author @
     newline @ status_label @ status_string (c_status c) @
     newline @ time_label @ ce_rfc3339 C (c_created_at c) @ newline @ newline @
     (let body = TrimSpace (c_body_markdown c) in if body = '''' then no_content_text else body)"

definition buildChannelMessage :: "channel_env \<Rightarrow> comment \<Rightarrow> user \<Rightarrow> site \<Rightarrow> comment_event \<Rightarrow> notifier_message sql" where
  "buildChannelMessage C c author s ev =
     bind (threadPage c) (\<lambda>(title, address).
     ret \<lparr>nm_title = fst (channelLabels (c_status c)), nm_text = channel_text C c author s title address,
          nm_page_url = address, nm_webhook_raw = webHookEnvelope C ev c author s title address\<rparr>)"

definition channelConfig :: "channel_provider \<Rightarrow> notifier_error + notifier_config" where
  "channelConfig p =
     bindE (ParsePlatform (cp_key p)) (\<lambda>platform.
       let g = cp_config p
       in Inr \<lparr>cc_bot_token = cc_bot_token g, cc_chat_id = cc_chat_id g, cc_webhook_url = cc_webhook_url g,
            cc_server_url = cc_server_url g, cc_device_key = cc_device_key g, cc_access_token = cc_access_token g,
            cc_target_id = cc_target_id g, nc_platform = platform,
            nc_signing_secret = derefString (cs_signing_secret g)\<rparr>)"

section \<open>Sending\<close>

text \<open>\<open>dispatchChannel\<close> for one provider: the configuration and the message given to the dispatcher.\<close>

definition dispatchChannel :: "notifier_message \<Rightarrow> channel_provider \<Rightarrow> (notifier_config \<times> notifier_message) list" where
  "dispatchChannel msg p = (case channelConfig p of Inl _ \<Rightarrow> [] | Inr cfg \<Rightarrow> [(cfg, msg)])"

definition sendChannels ::
  "channel_env \<Rightarrow> comment \<Rightarrow> user \<Rightarrow> comment_event \<Rightarrow> (notifier_config \<times> notifier_message) list sql" where
  "sendChannels C c author ev =
     (case ce_providers C of
        None \<Rightarrow> ret []
      | Some answer \<Rightarrow>
          read_or [] (lift answer) (\<lambda>providers.
          if providers = [] then ret []
          else read_or [] (Site_Get (c_site_id c)) (\<lambda>s.
          bind (buildChannelMessage C c author s ev) (\<lambda>msg.
          ret (concat (map (dispatchChannel msg) providers))))))"

definition TestChannel :: "channel_env \<Rightarrow> string \<Rightarrow> channel_settings \<Rightarrow> error + unit" where
  "TestChannel C key settings =
     (case ce_dispatcher C of
        None \<Rightarrow> Inl ErrUnavailable
      | Some N \<Rightarrow>
          (case channelConfig \<lparr>cp_key = key, cp_config = settings\<rparr> of
             Inl _ \<Rightarrow> Inl ErrValidation
           | Inr cfg \<Rightarrow>
               (case Send N cfg \<lparr>nm_title = test_title, nm_text = test_text, nm_page_url = '''',
                       nm_webhook_raw = webHookTestEnvelope C\<rparr> of
                  Inr _ \<Rightarrow> Inr ()
                | Inl ChannelConfigError \<Rightarrow> Inl ErrValidation
                | Inl (DeliveryError _ _) \<Rightarrow> Inl ErrUnavailable)))"

section \<open>Events (service.go)\<close>

type_synonym notified = "mail_job list \<times> (notifier_config \<times> notifier_message) list"

definition handleCreated :: "notification_env \<Rightarrow> channel_env \<Rightarrow> comment_event \<Rightarrow> notified sql" where
  "handleCreated N C ev =
     read_or ([], []) (lift (no_settings N)) (\<lambda>(moderation, _).
     read_or ([], []) (FindBySiteAndID (ev_site_id ev) (ev_comment_id ev)) (\<lambda>c.
     read_or ([], []) (FindByID (c_user_id c)) (\<lambda>author.
     bind (if no_mailer N \<and> moderation then sendModerationMails N c author else ret []) (\<lambda>mails.
     bind (if no_mailer N \<and> c_status c = CommentStatusPublished then sendReplyNotification N c author else ret [])
       (\<lambda>replies.
     bind (if c_status c = CommentStatusPublished \<or> c_status c = CommentStatusPending
           then sendChannels C c author ev else ret []) (\<lambda>sends.
     ret (mails @ replies, sends)))))))"

definition handle :: "notification_env \<Rightarrow> channel_env \<Rightarrow> comment_event \<Rightarrow> notified sql" where
  "handle N C ev =
     (case ev_type ev of
        TypeCommentCreated \<Rightarrow> handleCreated N C ev
      | TypeCommentPublished \<Rightarrow> bind (handlePublished N ev) (\<lambda>mails. ret (mails, [])))"

end
