(* ===== verification/Notify_Props.thy ===== *)
theory Notify_Props
  imports Notify_Channels System
begin

text \<open>
  Whom the notifications reach: every mail has a reason in the rows, a switched-off kind of mail stays off, and an
  event that the bus delivers is delivered once.
\<close>

section \<open>Reads that may fail\<close>

lemma wp_read_or [wp_intros]:
  assumes "wpf f m (\<lambda>r d' os'. case r of Inl _ \<Rightarrow> Q (Inr otherwise) d' os' | Inr x \<Rightarrow> wpf f (k x) Q d' os') d os"
  shows "wpf f (read_or otherwise m k) Q d os"
  unfolding read_or_def
  by (rule wp_bind, rule wp_attempt) (use assms in \<open>auto intro!: wp_intros elim!: wp_mono split: sum.splits\<close>)

text \<open>The switch of a kind of mail in the rows; without a row it is on.\<close>

definition wants :: "db \<Rightarrow> int \<Rightarrow> string \<Rightarrow> bool" where
  "wants d uid kind =
     (case select_first (\<lambda>n. np_user_id n = uid) (ac_prefs (db_accounts d)) of
        None \<Rightarrow> True
      | Some p \<Rightarrow> pref_enabled kind p)"

lemma wp_notificationEnabled:
  assumes "\<And>b. (b \<longrightarrow> wants d uid kind) \<Longrightarrow> Q (Inr b) d os"
  shows "wpf f (notificationEnabled uid kind) Q d os"
  unfolding notificationEnabled_def Prefs_GetByUserID_def
  by (intro wp_intros) (auto intro!: wp_intros assms simp: wants_def)

section \<open>Reasons to send\<close>

definition mail_to :: "mail_job \<Rightarrow> user \<Rightarrow> string \<Rightarrow> bool" where
  "mail_to j u subject \<longleftrightarrow> mj_user j = u_id u \<and> ml_to (mj_mail j) = u_email u \<and>
     TrimSpace (u_email u) \<noteq> '''' \<and> ml_subject (mj_mail j) = subject"

definition admin_mail :: "db \<Rightarrow> comment \<Rightarrow> mail_job \<Rightarrow> bool" where
  "admin_mail d c j \<longleftrightarrow>
     (\<exists>u \<in> set (db_users d). active_admin u \<and> u_id u \<noteq> c_user_id c \<and>
        (\<exists>s \<in> {pending_subject, spam_subject, new_subject}. mail_to j u s))"

definition reply_mail :: "db \<Rightarrow> comment \<Rightarrow> mail_job \<Rightarrow> bool" where
  "reply_mail d c j \<longleftrightarrow>
     (\<exists>u \<in> set (db_users d). \<exists>p \<in> set (db_comments d).
        c_site_id p = c_site_id c \<and> c_parent_id c = Some (c_id p) \<and> c_user_id p = u_id u \<and>
        u_id u \<noteq> c_user_id c \<and> wants d (u_id u) KindReply \<and> mail_to j u reply_subject)"

definition published_mail :: "db \<Rightarrow> int \<Rightarrow> mail_job \<Rightarrow> bool" where
  "published_mail d uid j \<longleftrightarrow>
     (\<exists>u \<in> set (db_users d). u_id u = uid \<and> wants d uid KindModeration \<and> mail_to j u published_subject)"

definition has_reason :: "db \<Rightarrow> comment_event \<Rightarrow> mail_job \<Rightarrow> bool" where
  "has_reason d ev j \<longleftrightarrow>
     (\<exists>c \<in> set (db_comments d). c_site_id c = ev_site_id ev \<and> c_id c = ev_comment_id ev \<and>
        (case ev_type ev of
           TypeCommentCreated \<Rightarrow> admin_mail d c j \<or> (c_status c = CommentStatusPublished \<and> reply_mail d c j)
         | TypeCommentPublished \<Rightarrow> published_mail d (ev_user_id ev) j \<or> reply_mail d c j))"

subsection \<open>The parts of the handler\<close>

text \<open>The rows are as they were and each of at most \<open>n\<close> mails satisfies \<open>P\<close>.\<close>

definition explained ::
  "db \<Rightarrow> comment_event list \<Rightarrow> nat \<Rightarrow> (mail_job \<Rightarrow> bool) \<Rightarrow> error + mail_job list \<Rightarrow> db \<Rightarrow> comment_event list \<Rightarrow> bool" where
  "explained d os n P r d' os' \<longleftrightarrow> d' = d \<and> os' = os \<and>
     (\<exists>mails. r = Inr mails \<and> length mails \<le> n \<and> (\<forall>j \<in> set mails. P j))"

lemma explainedI: "length mails \<le> n \<Longrightarrow> (\<And>j. j \<in> set mails \<Longrightarrow> P j) \<Longrightarrow> explained d os n P (Inr mails) d os"
  by (simp add: explained_def)

lemma explained_nothing: "explained d os n P (Inr []) d os"
  by (simp add: explained_def)

lemma explained_mono: "explained d os n P r d' os' \<Longrightarrow> n \<le> m \<Longrightarrow> (\<And>j. P j \<Longrightarrow> P' j) \<Longrightarrow> explained d os m P' r d' os'"
  by (fastforce simp: explained_def)

lemma wp_explained_bind:
  assumes "wp m (explained d os n P) d os"
    and "\<And>mails. length mails \<le> n \<Longrightarrow> \<forall>j \<in> set mails. P j \<Longrightarrow> wp (k mails) Q d os"
  shows "wp (bind m k) Q d os"
  by (rule wp_bind, rule wp_mono [OF assms(1)]) (auto simp: explained_def assms(2))

lemma wp_threadPage: "(\<And>p. Q (Inr p) d os) \<Longrightarrow> wpf f (threadPage c) Q d os"
  unfolding threadPage_def GetBySiteAndID_def by (intro wp_intros) (auto intro!: wp_intros)

lemma wp_replyParentUserID: "(\<And>i. Q (Inr i) d os) \<Longrightarrow> wpf f (replyParentUserID c) Q d os"
  unfolding replyParentUserID_def FindBySiteAndID_def by (intro wp_intros) (auto intro!: wp_intros)

lemma moderation_jobs_reason:
  assumes "j \<in> set (moderation_jobs n render author excluded admins)"
  shows "\<exists>u \<in> set admins. u_id u \<noteq> author \<and> TrimSpace (u_email u) \<noteq> '''' \<and> mj_user j = u_id u \<and> render u = Some (mj_mail j)"
  using assms by (induction n render author excluded admins rule: moderation_jobs.induct)
    (auto split: if_splits option.splits)

lemma moderation_jobs_limit: "length (moderation_jobs n render author excluded admins) \<le> mailRecipientLimit - n"
  by (induction n render author excluded admins rule: moderation_jobs.induct) (auto split: option.splits)

lemma moderationMail_subject: "moderationMail N to c nickname title address = Some m \<Longrightarrow>
    ml_to m = to \<and> ml_subject m \<in> {pending_subject, spam_subject, new_subject}"
  by (auto simp: moderationMail_def Let_def split: comment_status.splits prod.splits)

lemma sendModerationMails_wp:
  "wp (sendModerationMails N c author) (explained d os mailRecipientLimit (admin_mail d c)) d os"
proof -
  have reason: "admin_mail d c j"
    if "j \<in> set (moderation_jobs 0 (\<lambda>a. moderationMail N (u_email a) c nick t u) (c_user_id c) excluded
          (filter active_admin (db_users d)))" for j t u nick excluded
    using moderation_jobs_reason [OF that] moderationMail_subject
    by (fastforce simp: admin_mail_def mail_to_def)
  have limit: "length (moderation_jobs 0 render who excluded admins) \<le> 100" for render who excluded admins
    using moderation_jobs_limit [of 0] by simp
  show ?thesis
    unfolding sendModerationMails_def ListActiveAdmins_def
    by (intro wp_intros wp_replyParentUserID wp_threadPage)
      (auto intro!: wp_intros wp_replyParentUserID wp_threadPage explained_nothing explainedI reason limit
        split: prod.splits)
qed

lemma reply_job_to: "j \<in> set (reply_job N c parent author u title address) \<Longrightarrow> TrimSpace (u_email u) \<noteq> '''' \<Longrightarrow>
    mail_to j u reply_subject"
  by (auto simp: reply_job_def mail_to_def Let_def split: option.splits)

lemma reply_job_one: "length (reply_job N c parent author u title address) \<le> Suc 0"
  by (simp add: reply_job_def Let_def split: option.splits)

lemma reply_reason:
  assumes "select_first (the_comment (c_site_id c) pid) (db_comments d) = Some p" "c_parent_id c = Some pid"
    "select_first (\<lambda>u. u_id u = c_user_id p) (db_users d) = Some u" "c_user_id p \<noteq> c_user_id c"
    "TrimSpace (u_email u) \<noteq> ''''" "wants d (u_id u) KindReply" "j \<in> set (reply_job N c p author u title address)"
  shows "reply_mail d c j"
proof -
  have "mail_to j u reply_subject" by (rule reply_job_to [OF assms(7,5)])
  moreover have "p \<in> set (db_comments d)" "c_site_id p = c_site_id c" "c_id p = pid"
    "u \<in> set (db_users d)" "u_id u = c_user_id p"
    using assms(1,3) by (auto simp: the_comment_def dest!: select_first_Some)
  ultimately show ?thesis
    using assms(2,4,6) unfolding reply_mail_def by (intro bexI [of _ u] bexI [of _ p]) auto
qed

lemma sendReplyNotification_wp:
  "wp (sendReplyNotification N c author) (explained d os 1 (reply_mail d c)) d os"
  unfolding sendReplyNotification_def FindBySiteAndID_def FindByID_def
  by (auto intro!: wp_intros wp_notificationEnabled wp_threadPage explained_nothing explainedI reply_job_one
      split: sum.splits prod.splits)
    (auto intro: reply_reason dest: select_first_Some)

lemma sendChannels_wp:
  "wp (sendChannels C c author ev) (\<lambda>r d' os'. d' = d \<and> os' = os \<and> (\<exists>sends. r = Inr sends)) d os"
  unfolding sendChannels_def Site_Get_def buildChannelMessage_def
  by (auto intro!: wp_intros wp_threadPage split: sum.splits prod.splits)

lemma published_job_to: "j \<in> set (published_job N c u) \<Longrightarrow> TrimSpace (u_email u) \<noteq> '''' \<Longrightarrow> mail_to j u published_subject"
  by (auto simp: published_job_def mail_to_def Let_def split: option.splits)

lemma published_job_one: "length (published_job N c u) \<le> Suc 0"
  by (simp add: published_job_def Let_def split: option.splits)

definition of_event :: "db \<Rightarrow> comment_event \<Rightarrow> (comment \<Rightarrow> mail_job \<Rightarrow> bool) \<Rightarrow> mail_job \<Rightarrow> bool" where
  "of_event d ev P j \<longleftrightarrow>
     (\<exists>c \<in> set (db_comments d). c_site_id c = ev_site_id ev \<and> c_id c = ev_comment_id ev \<and> P c j)"

lemma of_eventI: "select_first (the_comment (ev_site_id ev) (ev_comment_id ev)) (db_comments d) = Some c \<Longrightarrow> P c j \<Longrightarrow>
    of_event d ev P j"
  by (auto simp: of_event_def the_comment_def dest!: select_first_Some)

lemma handlePublished_wp:
  "wp (handlePublished N ev)
     (explained d os 2 (of_event d ev (\<lambda>c j. published_mail d (ev_user_id ev) j \<or> reply_mail d c j))) d os"
proof -
  let ?P = "of_event d ev (\<lambda>c j. published_mail d (ev_user_id ev) j \<or> reply_mail d c j)"
  define rest where "rest author c enabled = bind (sendReplyNotification N c author) (\<lambda>replies.
      ret ((if enabled then published_job N c author else []) @ replies))" for author c enabled
  have part: "wp (rest author c enabled) (explained d os 2 ?P) d os"
    if author: "select_first (\<lambda>u. u_id u = ev_user_id ev) (db_users d) = Some author"
      and c: "select_first (the_comment (ev_site_id ev) (ev_comment_id ev)) (db_comments d) = Some c"
      and enabled: "enabled \<longrightarrow> TrimSpace (u_email author) \<noteq> '''' \<and> wants d (u_id author) KindModeration"
    for author c enabled
    unfolding rest_def
  proof (rule wp_explained_bind [OF sendReplyNotification_wp])
    fix replies assume replies: "length replies \<le> 1" "\<forall>j \<in> set replies. reply_mail d c j"
    have "author \<in> set (db_users d)" "u_id author = ev_user_id ev" using author by (auto dest: select_first_Some)
    then have "published_mail d (ev_user_id ev) j" if "enabled" "j \<in> set (published_job N c author)" for j
      using enabled that published_job_to [OF that(2)] unfolding published_mail_def by auto
    then show "wp (ret ((if enabled then published_job N c author else []) @ replies)) (explained d os 2 ?P) d os"
      using replies published_job_one [of N c author] by (auto intro!: wp_intros explainedI of_eventI [OF c])
  qed
  show ?thesis
    unfolding handlePublished_def FindByID_def FindBySiteAndID_def rest_def [symmetric]
    by (auto intro!: wp_intros part wp_notificationEnabled explained_nothing split: sum.splits)
qed

lemma handleCreated_wp:
  "wp (handleCreated N C ev) (\<lambda>r d' os'. \<exists>sends mails. r = Inr (mails, sends) \<and>
     explained d os 101 (of_event d ev (\<lambda>c j. admin_mail d c j \<or> (c_status c = CommentStatusPublished \<and> reply_mail d c j)))
       (Inr mails) d' os') d os"
proof -
  let ?P = "of_event d ev (\<lambda>c j. admin_mail d c j \<or> (c_status c = CommentStatusPublished \<and> reply_mail d c j))"
  let ?Q = "\<lambda>r d' os'. \<exists>sends mails. r = Inr (mails, sends) \<and> explained d os 101 ?P (Inr mails) d' os'"
  define rest where "rest c author moderation =
    bind (if no_mailer N \<and> moderation then sendModerationMails N c author else ret []) (\<lambda>mails.
    bind (if no_mailer N \<and> c_status c = CommentStatusPublished then sendReplyNotification N c author else ret [])
       (\<lambda>replies.
    bind (if c_status c = CommentStatusPublished \<or> c_status c = CommentStatusPending
           then sendChannels C c author ev else ret []) (\<lambda>sends.
    ret (mails @ replies, sends))))" for c author moderation
  have part: "wp (rest c author moderation) ?Q d os"
    if c: "select_first (the_comment (ev_site_id ev) (ev_comment_id ev)) (db_comments d) = Some c" for c author moderation
    unfolding rest_def
  proof (rule wp_explained_bind [where n = 100 and P = "admin_mail d c"])
    show "wp (if no_mailer N \<and> moderation then sendModerationMails N c author else ret [])
        (explained d os 100 (admin_mail d c)) d os"
      by (auto intro!: wp_intros sendModerationMails_wp explained_nothing)
    fix mails assume mails: "length mails \<le> 100" "\<forall>j \<in> set mails. admin_mail d c j"
    show "wp (bind (if no_mailer N \<and> c_status c = CommentStatusPublished then sendReplyNotification N c author else ret [])
       (\<lambda>replies. bind (if c_status c = CommentStatusPublished \<or> c_status c = CommentStatusPending
           then sendChannels C c author ev else ret []) (\<lambda>sends. ret (mails @ replies, sends)))) ?Q d os"
    proof (rule wp_explained_bind [where n = 1 and P = "\<lambda>j. c_status c = CommentStatusPublished \<and> reply_mail d c j"])
      show "wp (if no_mailer N \<and> c_status c = CommentStatusPublished then sendReplyNotification N c author else ret [])
          (explained d os 1 (\<lambda>j. c_status c = CommentStatusPublished \<and> reply_mail d c j)) d os"
        by (auto intro!: wp_intros wp_mono [OF sendReplyNotification_wp] explained_nothing elim!: explained_mono)
      fix replies
      assume replies: "length replies \<le> 1" "\<forall>j \<in> set replies. c_status c = CommentStatusPublished \<and> reply_mail d c j"
      have "explained d os 101 ?P (Inr (mails @ replies)) d os"
        using mails replies by (auto intro!: explainedI of_eventI [OF c])
      then show "wp (bind (if c_status c = CommentStatusPublished \<or> c_status c = CommentStatusPending
           then sendChannels C c author ev else ret []) (\<lambda>sends. ret (mails @ replies, sends))) ?Q d os"
        by (auto intro!: wp_intros wp_mono [OF sendChannels_wp] split: sum.splits)
    qed
  qed
  show ?thesis
    unfolding handleCreated_def FindByID_def FindBySiteAndID_def rest_def [symmetric]
    by (auto intro!: wp_intros part explained_nothing split: sum.splits prod.splits)
qed

lemma handle_wp:
  "wp (handle N C ev) (\<lambda>r d' os'. \<exists>mails sends. r = Inr (mails, sends) \<and>
     explained d os 101 (has_reason d ev) (Inr mails) d' os') d os"
proof (cases "ev_type ev")
  case TypeCommentCreated
  then have "handle N C ev = handleCreated N C ev" "has_reason d ev =
      of_event d ev (\<lambda>c j. admin_mail d c j \<or> (c_status c = CommentStatusPublished \<and> reply_mail d c j))"
    by (simp_all add: handle_def has_reason_def of_event_def fun_eq_iff)
  then show ?thesis by (simp only:) (rule wp_mono [OF handleCreated_wp], blast)
next
  case TypeCommentPublished
  then have "handle N C ev = bind (handlePublished N ev) (\<lambda>mails. ret (mails, []))" "has_reason d ev =
      of_event d ev (\<lambda>c j. published_mail d (ev_user_id ev) j \<or> reply_mail d c j)"
    by (simp_all add: handle_def has_reason_def of_event_def fun_eq_iff)
  then show ?thesis
    by (simp only:) (rule wp_explained_bind [OF handlePublished_wp], rule wp_basic, simp add: explained_def)
qed

section \<open>Every mail has a reason\<close>

text \<open>
  C24: Whatever fails on the way, the handler changes no row and sends at most 101 mails; and every mail goes to the address
  of an account with a reason in the rows: an active administrator who is not the author, the author of a comment
  that was published, who has not switched these mails off, or the author of the comment that was replied to, who is
  someone else and has not switched replies off.
\<close>

theorem mails_have_reasons:
  "wp (handle N C ev) (\<lambda>r d' os'. \<exists>mails sends. r = Inr (mails, sends) \<and>
     explained d os 101 (has_reason d ev) (Inr mails) d' os') d os"
  by (rule handle_wp)

section \<open>Unsubscribing\<close>

lemma wants_upsert:
  "wants (map_accounts (upsert_preferences uid reply moderation t) d) v kind =
     (if v = uid then (if kind = KindReply then reply else if kind = KindModeration then moderation else False)
      else wants d v kind)"
proof -
  let ?set = "\<lambda>n. n\<lparr>np_reply_enabled := reply, np_moderation_enabled := moderation, np_updated_at := t\<rparr>"
  let ?at = "\<lambda>v rows. select_first (\<lambda>n. np_user_id n = v) rows"
  have own: "?at uid (update_where (\<lambda>n. np_user_id n = uid) ?set rows) = map_option ?set (?at uid rows)" for rows
    by (induction rows) (auto simp: select_first_def update_where_def)
  have other: "?at v (update_where (\<lambda>n. np_user_id n = uid) ?set rows) = ?at v rows" if "v \<noteq> uid" for rows
    using that by (induction rows) (auto simp: select_first_def update_where_def)
  have added: "?at v (rows @ [n]) = (case ?at v rows of None \<Rightarrow> if np_user_id n = v then Some n else None | Some x \<Rightarrow> Some x)"
    for rows n by (induction rows) (auto simp: select_first_def)
  let ?rows = "ac_prefs (db_accounts d)"
  show ?thesis
  proof (cases "?at uid ?rows")
    case None
    then have "\<not> (\<exists>n \<in> set ?rows. np_user_id n = uid)" by (simp add: select_first_None)
    then show ?thesis using None
      by (auto simp: wants_def map_accounts_def upsert_preferences_def added pref_enabled_def split: option.split)
  next
    case (Some n)
    then have "\<exists>n \<in> set ?rows. np_user_id n = uid" by (auto dest: select_first_Some)
    then show ?thesis using Some
      by (cases "v = uid") (simp_all add: wants_def map_accounts_def upsert_preferences_def own other pref_enabled_def)
  qed
qed

definition kinds :: "string list" where
  "kinds = [KindReply, KindModeration]"

definition only_switches_off :: "db \<Rightarrow> int \<Rightarrow> string \<Rightarrow> db \<Rightarrow> bool" where
  "only_switches_off d uid kind d' \<longleftrightarrow> db_users d' = db_users d \<and> db_comments d' = db_comments d \<and>
     (\<forall>v. \<forall>k \<in> set kinds. wants d' v k = (wants d v k \<and> \<not> (v = uid \<and> k = kind)) \<or> d' = d)"

lemma switched_off:
  assumes "kind \<in> set kinds"
    "case select_first (\<lambda>n. np_user_id n = uid) (ac_prefs (db_accounts d)) of
       None \<Rightarrow> reply \<and> moderation
     | Some p \<Rightarrow> reply = np_reply_enabled p \<and> moderation = np_moderation_enabled p"
  shows "only_switches_off d uid kind (map_accounts (upsert_preferences uid (kind \<noteq> KindReply \<and> reply)
      (kind \<noteq> KindModeration \<and> moderation) t) d)"
    (is "only_switches_off d uid kind ?d")
proof -
  have "wants ?d v k = (wants d v k \<and> \<not> (v = uid \<and> k = kind))" if "k \<in> set kinds" for v k
    using assms that unfolding wants_upsert
    by (auto simp: kinds_def wants_def pref_enabled_def split: option.splits)
  then show ?thesis by (simp add: only_switches_off_def map_accounts_def)
qed

lemma only_switches_off_refl [simp]: "only_switches_off d uid kind d"
  by (simp add: only_switches_off_def)

lemma switch_off_wp:
  assumes "kind \<in> set kinds"
    "case select_first (\<lambda>n. np_user_id n = uid) (ac_prefs (db_accounts d)) of
       None \<Rightarrow> reply \<and> moderation
     | Some p \<Rightarrow> reply = np_reply_enabled p \<and> moderation = np_moderation_enabled p"
  shows "wp (switch_off I uid kind reply moderation)
    (\<lambda>r d' os'. os' = os \<and> only_switches_off d uid kind d' \<and> (r = Inr () \<longrightarrow> \<not> wants d' uid kind)) d os"
proof -
  have off: "\<not> wants (map_accounts (upsert_preferences uid (kind \<noteq> KindReply \<and> reply) (kind \<noteq> KindModeration \<and> moderation) t) d) uid kind" for t
    unfolding wants_upsert by simp
  have upsert: "switch_off I uid kind reply moderation =
    Prefs_Upsert uid (kind \<noteq> KindReply \<and> reply) (kind \<noteq> KindModeration \<and> moderation) (id_now I)"
    using assms(1) by (auto simp: kinds_def switch_off_def UpsertNotificationPreferences_def)
  show ?thesis
    unfolding upsert Prefs_Upsert_def by (rule wp_sql_write) (simp_all add: off switched_off [OF assms])
qed

lemma Unsubscribe_wp:
  assumes "parseUnsubscribe N raw = Some (uid, kind)" "kind \<in> set kinds"
  shows "wp (Unsubscribe N I raw) (\<lambda>r d' os'. os' = os \<and> only_switches_off d uid kind d' \<and>
     (r = Inr () \<longrightarrow> (\<forall>u \<in> set (db_users d). u_id u \<noteq> uid) \<or> \<not> wants d' uid kind)) d os"
  unfolding Unsubscribe_def FindByID_def Prefs_GetByUserID_def
  by (auto simp: assms(1) intro!: wp_intros wp_mono [OF switch_off_wp [OF assms(2)]] split: sum.splits option.splits
      dest: select_first_None [THEN iffD1])
    (auto simp: select_first_None)

text \<open>The subject that tells the mails of a kind apart.\<close>

definition subject_of :: "string \<Rightarrow> string" where
  "subject_of kind = (if kind = KindReply then reply_subject else published_subject)"

lemma runes_subjects:
  "runes published_subject = [0x60A8, 0x7684, 0x8BC4, 0x8BBA, 0x5DF2, 0x53D1, 0x5E03]"
  "runes reply_subject = [0x60A8, 0x6709, 0x4E00, 0x6761, 0x65B0, 0x56DE, 0x590D]"
  "runes pending_subject = [0x8BC4, 0x8BBA, 0x5F85, 0x5BA1, 0x6838]"
  "runes spam_subject = [0x8BC4, 0x8BBA, 0x88AB, 0x6807, 0x8BB0, 0x4E3A, 0x5783, 0x573E]"
  "runes new_subject = [0x65B0, 0x8BC4, 0x8BBA]"
  unfolding published_subject_def reply_subject_def pending_subject_def spam_subject_def new_subject_def
  by (rule runes_of_runes, simp add: valid_rune_def between_def)+

lemma subjects_differ:
  "published_subject \<noteq> reply_subject" "published_subject \<noteq> pending_subject" "published_subject \<noteq> spam_subject"
  "published_subject \<noteq> new_subject" "reply_subject \<noteq> pending_subject" "reply_subject \<noteq> spam_subject"
  "reply_subject \<noteq> new_subject"
  by (rule notI, drule arg_cong [where f = runes], simp add: runes_subjects)+

lemma reason_wants:
  assumes "has_reason d ev j" "ml_subject (mj_mail j) = subject_of kind" "kind \<in> set kinds"
  shows "(\<exists>u \<in> set (db_users d). u_id u = mj_user j) \<and> wants d (mj_user j) kind"
  using assms subjects_differ
  by (cases "ev_type ev")
    (auto simp: has_reason_def admin_mail_def reply_mail_def published_mail_def mail_to_def subject_of_def kinds_def)

text \<open>
  C25: A link in a notification mail does what it says.  While the token of the link is valid, following it changes
  at most the one switch it was signed for; and when it reports success, no event that is handled afterwards sends
  that user a mail of that kind again, whatever fails.
\<close>

theorem unsubscribe_silences:
  assumes "jwt_ok S" "no_signer N = Some S" "kind \<in> set kinds"
    and "SignUnsubscribe S issued uuid uid kind notificationTTL = Inr raw"
    and "0 < uid" "uid < 2 ^ 63" "uuid \<noteq> ''''" "issued \<le> no_now N" "no_now N < numeric_date (issued + notificationTTL)"
  shows "wp (bind (attempt (Unsubscribe N I raw)) (\<lambda>answer. bind (handle N' C ev) (\<lambda>sent. ret (answer, sent))))
    (\<lambda>r d' os'. only_switches_off d uid kind d' \<and>
       (\<forall>mails sends. r = Inr (Inr (), mails, sends) \<longrightarrow>
          (\<forall>j \<in> set mails. \<not> (mj_user j = uid \<and> ml_subject (mj_mail j) = subject_of kind)))) d os"
proof -
  have kind: "kind \<noteq> ''''" using assms(3) by (auto simp: kinds_def)
  have "SignUnsubscribe S issued uuid uid kind notificationTTL =
      jw_sign S ((base_claims S issued uuid uid notificationTTL TokenKindUnsubscribe AudienceUnsubscribe)
        \<lparr>cl_site_id := '''', cl_credential_epoch := '''', cl_notification_kind := kind, cl_session_version := 0\<rparr>)"
    by (simp add: SignUnsubscribe_def base_claims_def)
  then have signed: "jw_sign S ((base_claims S issued uuid uid notificationTTL TokenKindUnsubscribe AudienceUnsubscribe)
        \<lparr>cl_site_id := '''', cl_credential_epoch := '''', cl_notification_kind := kind, cl_session_version := 0\<rparr>) = Inr raw"
    using assms(4) by simp
  have "parseUnsubscribe N raw = Some (uid, kind)"
    using parse_signed [OF assms(1) signed refl assms(5-9)] kind assms(2)
    by (simp add: parseUnsubscribe_def ParseUnsubscribe_def)
  note unsubscribe = Unsubscribe_wp [OF this assms(3), of I os d]
  show ?thesis
  proof (rule wp_bind, rule wp_attempt, rule wp_mono [OF unsubscribe], simp only: sum.case, elim conjE)
    fix answer d' os' assume off: "only_switches_off d uid kind d'"
      and silent: "answer = Inr () \<longrightarrow> (\<forall>u \<in> set (db_users d). u_id u \<noteq> uid) \<or> \<not> wants d' uid kind"
    have "db_users d' = db_users d" using off by (simp add: only_switches_off_def)
    then have "\<not> (mj_user j = uid \<and> ml_subject (mj_mail j) = subject_of kind)"
      if "answer = Inr ()" "has_reason d' ev j" for j
      using reason_wants [OF that(2) _ assms(3)] silent that(1) by auto
    then show "wp (bind (handle N' C ev) (\<lambda>sent. ret (answer, sent)))
      (\<lambda>r d' os'. only_switches_off d uid kind d' \<and>
         (\<forall>mails sends. r = Inr (Inr (), mails, sends) \<longrightarrow>
            (\<forall>j \<in> set mails. \<not> (mj_user j = uid \<and> ml_subject (mj_mail j) = subject_of kind)))) d' os'"
      using off by (intro wp_bind wp_mono [OF handle_wp]) (auto intro!: wp_intros simp: explained_def)
  qed
qed

section \<open>Events are delivered once\<close>

lemma subseq_distinct: "subseq xs ys \<Longrightarrow> distinct ys \<Longrightarrow> distinct xs"
  by (induction rule: list_emb.induct) (auto dest: list_emb_set)

text \<open>
  C26: The bus between the comment system and the notification service.  However publishing and handling interleave, the
  events that are handled are, in order, among those of the history, the buffer stays within its capacity, and no
  comment is handled as created twice, although an overflowing bus drops events.
\<close>

theorem created_handled_once:
  assumes "history es d" "offered as = es" "queue_run Publish Consume (New_Bus n) as = (b, ins, outs)"
  shows "subseq outs es \<and> distinct (created_ids outs) \<and> outs @ bus_queue b = ins \<and>
    length (bus_queue b) \<le> bus_capacity (New_Bus n :: comment_event bus)"
proof -
  have "bus_queue (New_Bus n :: comment_event bus) = []" by (simp add: New_Bus_def)
  note run = bus.run_delivers [OF assms(3) this, unfolded assms(2)]
  have "distinct (created_ids es)" using history_inv [OF assms(1)] by (simp add: announced_def)
  moreover have "subseq (created_ids outs) (created_ids es)"
    unfolding created_ids_def by (intro subseq_map subseq_filter run(1))
  ultimately show ?thesis using run subseq_distinct by blast
qed

section \<open>On concrete rows\<close>

text \<open>
  A site that mails: the reader's comment 3 answers comment 2 of the administrator and has been published.
\<close>

definition sample_mails :: notification_env where
  "sample_mails =
     \<lparr>no_settings = Inr (True, True), no_reply_settings = Inr (True, True), no_mailer = True,
      no_moderation_mail = (\<lambda>_. Some ''<p>new</p>''), no_published_mail = (\<lambda>_. Some ''<p>published</p>''),
      no_reply_mail = (\<lambda>_. Some ''<p>reply</p>''), no_signer = None, no_uuid = (\<lambda>_ _. ''u''), no_now = 5,
      no_base_url = '''', no_lib = en_url_lib sample_env,
      no_urls = \<lparr>ub_path_escape = (\<lambda>s. s), ub_join = (\<lambda>u ss. u), ub_query = (\<lambda>_. []), ub_encode = (\<lambda>_. '''')\<rparr>\<rparr>"

definition published_event :: comment_event where
  "published_event = \<lparr>ev_type = TypeCommentPublished, ev_site_id = 1, ev_thread_id = 1, ev_comment_id = 3,
     ev_user_id = 3, ev_parent_id = Some 2, ev_mode = CommentModeAnonymous\<rparr>"

definition no_channels :: channel_env where
  "no_channels = \<lparr>ce_providers = None, ce_rfc3339 = (\<lambda>_. ''''), ce_dispatcher = None, ce_now = 5\<rparr>"

abbreviation "sample_start \<equiv> \<lparr>data = sample_db, faults = [], outbox = [] :: comment_event list\<rparr>"

lemma sample_addresses:
  "TrimSpace ''root@example.org'' = ''root@example.org''" "TrimSpace ''reader@example.org'' = ''reader@example.org''"
  by code_simp+

lemma sample_mails_sent:
  "\<exists>mails w. handle sample_mails no_channels published_event sample_start = (Inr (mails, []), w) \<and> map mj_user mails = [3, 1]"
  by (simp add: handle_def handlePublished_def sendReplyNotification_def read_or_def attempt_def bind_def lift_def ret_def
      FindByID_def FindBySiteAndID_def GetBySiteAndID_def threadPage_def notificationEnabled_def Prefs_GetByUserID_def
      first_or_not_found_def sql_query_def query_def stmt_def select_first_def option_to_result_def the_comment_def
      the_thread_def published_job_def reply_job_def unsubscribeURL_def sample_mails_def published_event_def
      sample_db_def sample_user_def sample_comment_def no_accounts_def sample_addresses Let_def)

text \<open>A token service that knows the token of one link.\<close>

definition link_claims :: claims where
  "link_claims =
     \<lparr>cl_token_kind = TokenKindUnsubscribe, cl_site_id = '''', cl_credential_epoch = '''',
      cl_notification_kind = KindReply, cl_session_version = 0, cl_issuer = ''furtalk'', cl_subject = FormatInt 1,
      cl_audience = [AudienceUnsubscribe], cl_expires_at = Some notificationTTL, cl_not_before = Some 0,
      cl_issued_at = Some 0, cl_id = ''u''\<rparr>"

definition link_service :: jwt_service where
  "link_service =
     \<lparr>jw_issuer = ''furtalk'', jw_lifetime = 1000000000,
      jw_sign = (\<lambda>c. if c = link_claims then Inr ''link'' else Inl ErrTokenSign),
      jw_parse = (\<lambda>_ audience now raw.
        if raw \<noteq> ''link'' \<or> audience \<noteq> AudienceUnsubscribe then Inl ErrInvalidToken
        else if notificationTTL \<le> now then Inl ErrTokenExpired else Inr link_claims)\<rparr>"

lemma link_service_ok: "jwt_ok link_service"
  by (auto simp: jwt_ok_def link_service_def link_claims_def split: if_splits)

lemma link_signed: "SignUnsubscribe link_service 0 ''u'' 1 KindReply notificationTTL = Inr ''link''"
  by (simp add: SignUnsubscribe_def base_claims_def link_service_def link_claims_def numeric_date_def)

text \<open>
  The administrator, who would have been mailed, follows the link of a reply notification; the next reply is not
  mailed to them.
\<close>

theorem unsubscribe_silences_witness:
  "fst (Unsubscribe (sample_mails\<lparr>no_signer := Some link_service\<rparr>) sample_identity ''link'' sample_start) = Inr () \<and>
   wp (bind (attempt (Unsubscribe (sample_mails\<lparr>no_signer := Some link_service\<rparr>) sample_identity ''link''))
        (\<lambda>answer. bind (handle sample_mails no_channels published_event) (\<lambda>sent. ret (answer, sent))))
    (\<lambda>r d' os'. only_switches_off sample_db 1 KindReply d' \<and>
       (\<forall>mails sends. r = Inr (Inr (), mails, sends) \<longrightarrow>
          (\<forall>j \<in> set mails. \<not> (mj_user j = 1 \<and> ml_subject (mj_mail j) = subject_of KindReply)))) sample_db []"
proof
  let ?N = "sample_mails\<lparr>no_signer := Some link_service\<rparr>"
  have "parseUnsubscribe ?N ''link'' = Some (1, KindReply)"
    using ParseInt_FormatInt [of 1] FormatInt_digits [of 1]
    by (auto simp: parseUnsubscribe_def ParseUnsubscribe_def Token_Parse_def claims_UserID_def link_service_def
        link_claims_def sample_mails_def)
  then show "fst (Unsubscribe ?N sample_identity ''link'' sample_start) = Inr ()"
    by (simp only: Unsubscribe_def option.case prod.case) code_simp
  show "wp (bind (attempt (Unsubscribe ?N sample_identity ''link''))
        (\<lambda>answer. bind (handle sample_mails no_channels published_event) (\<lambda>sent. ret (answer, sent))))
    (\<lambda>r d' os'. only_switches_off sample_db 1 KindReply d' \<and>
       (\<forall>mails sends. r = Inr (Inr (), mails, sends) \<longrightarrow>
          (\<forall>j \<in> set mails. \<not> (mj_user j = 1 \<and> ml_subject (mj_mail j) = subject_of KindReply)))) sample_db []"
    by (rule unsubscribe_silences [OF link_service_ok _ _ link_signed])
      (simp_all add: sample_mails_def kinds_def numeric_date_def)
qed

theorem created_handled_once_witness:
  "\<exists>b ins outs. queue_run Publish Consume (New_Bus 0) (map Offer (outbox post_world) @ [Poll]) = (b, ins, outs) \<and>
     subseq outs (outbox post_world) \<and> distinct (created_ids outs) \<and> length (bus_queue b) \<le> DefaultBusCapacity"
proof -
  let ?as = "map Offer (outbox post_world) @ [Poll]"
  have offers: "offered (map Offer es @ [Poll]) = es" for es :: "comment_event list"
    by (induction es) simp_all
  obtain b ins outs where run: "queue_run Publish Consume (New_Bus 0) ?as = (b, ins, outs)" by (metis prod_cases3)
  from created_handled_once [OF sample_history offers run] run show ?thesis by (auto simp: New_Bus_def)
qed

end
