(* ===== verification/Settings.thy ===== *)
theory Settings
  imports Urlx Json Prelude
begin

text \<open>
  The value rules of the instance settings and the snapshot they are checked in
  (\<open>internal/service/setting/value_policy.go\<close>, \<open>DefaultSettings\<close> and \<open>ValidateSettings\<close> of
  \<open>service.go\<close>, \<open>Settings\<close> of \<open>internal/domain/types.go\<close>).
\<close>

section \<open>Value rules (value_policy.go)\<close>

definition HasSuffix :: "string \<Rightarrow> string \<Rightarrow> bool" where
  "HasSuffix s t \<longleftrightarrow> length t \<le> length s \<and> drop (length s - length t) s = t"

fun has_double_dot :: "string \<Rightarrow> bool" where
  "has_double_dot (c # d # s) = ((c = CHR ''.'' \<and> d = CHR ''.'') \<or> has_double_dot (d # s))"
| "has_double_dot s = False"

definition label_rune_ok :: "nat \<Rightarrow> bool" where
  "label_rune_ok r \<longleftrightarrow> (0x61 \<le> r \<and> r \<le> 0x7A) \<or> (0x30 \<le> r \<and> r \<le> 0x39) \<or> r = 0x2D"

definition validEmailDomainLabel :: "string \<Rightarrow> bool" where
  "validEmailDomainLabel label \<longleftrightarrow>
     label \<noteq> '''' \<and> length label \<le> 63 \<and> hd label \<noteq> CHR ''-'' \<and> last label \<noteq> CHR ''-'' \<and>
     list_all label_rune_ok (runes label)"

definition bad_domain_chars :: string where
  "bad_domain_chars = ''@:/*'' @ [CHR 0x5C]"

definition normalizeEmailDomain :: "library \<Rightarrow> string \<Rightarrow> error + string" where
  "normalizeEmailDomain L raw =
     (let d = lib_lower L (TrimSpace raw)
      in if d = '''' then Inl ErrValidation
         else if list_ex (\<lambda>c. c \<in> set bad_domain_chars) d then Inl ErrValidation
         else if HasPrefix d ''.'' \<or> HasSuffix d ''.'' \<or> has_double_dot d then Inl ErrValidation
         else if \<not> list_all validEmailDomainLabel (Split CHR ''.'' d) then Inl ErrValidation
         else Inr d)"

fun normalize_domains :: "library \<Rightarrow> string list \<Rightarrow> string list \<Rightarrow> error + string list" where
  "normalize_domains L out [] = Inr out"
| "normalize_domains L out (entry # raw) =
     bindE (normalizeEmailDomain L entry) (\<lambda>d.
       if d \<in> set out then Inl ErrValidation else normalize_domains L (out @ [d]) raw)"

definition normalizeEmailDomains :: "library \<Rightarrow> string list \<Rightarrow> error + string list" where
  "normalizeEmailDomains L raw = normalize_domains L [] raw"

definition validateEmojiCatalogURL :: "library \<Rightarrow> string \<Rightarrow> error + unit" where
  "validateEmojiCatalogURL L raw =
     (let v = TrimSpace raw
      in if v = '''' then Inr ()
         else if length v > 2048 then Inl ErrValidation
         else (case ParseHTTPS L v of None \<Rightarrow> Inl ErrValidation
               | Some u \<Rightarrow> if url_fragment u \<noteq> '''' then Inl ErrValidation else Inr ()))"

definition normalizePublicHTTPSURL :: "library \<Rightarrow> string \<Rightarrow> error + string" where
  "normalizePublicHTTPSURL L raw =
     (let v = TrimSpace raw
      in if v = '''' then Inr ''''
         else if length v > 2048 then Inl ErrValidation
         else (case ParseHTTPS L v of None \<Rightarrow> Inl ErrValidation | Some u \<Rightarrow> Inr (lib_string L u)))"

definition validatePublicHTTPSURL :: "library \<Rightarrow> string \<Rightarrow> error + unit" where
  "validatePublicHTTPSURL L raw = bindE (normalizePublicHTTPSURL L raw) (\<lambda>_. Inr ())"

definition hex_rune :: "nat \<Rightarrow> bool" where
  "hex_rune r \<longleftrightarrow> (0x30 \<le> r \<and> r \<le> 0x39) \<or> (0x61 \<le> r \<and> r \<le> 0x66) \<or> (0x41 \<le> r \<and> r \<le> 0x46)"

text \<open>\<open>strings.ToUpper\<close> of a text of ASCII characters, which the colour is when it gets there.\<close>

definition upper_char :: "char \<Rightarrow> char" where
  "upper_char c = (let n = of_char c :: nat in if 0x61 \<le> n \<and> n \<le> 0x7A then char_of (n - 32) else c)"

definition normalizeHexColor :: "string \<Rightarrow> error + string" where
  "normalizeHexColor raw =
     (let v = TrimSpace raw
      in if length v \<noteq> 7 \<or> hd v \<noteq> CHR ''#'' then Inl ErrValidation
         else if \<not> list_all hex_rune (runes (tl v)) then Inl ErrValidation
         else Inr (map upper_char v))"

definition validateHexColor :: "string \<Rightarrow> error + unit" where
  "validateHexColor raw = bindE (normalizeHexColor raw) (\<lambda>_. Inr ())"

section \<open>The snapshot\<close>

record privacy_settings =
  pv_ip_mode :: string
  pv_ua_mode :: string

record notification_switches =
  ns_moderation :: bool
  ns_replies :: bool

record instance_settings =
  st_comment_mode :: string
  st_moderation :: string
  st_user_delete_mode :: string
  st_max_reply_depth :: int
  st_public_registration :: bool
  st_privacy :: privacy_settings
  st_captcha_policy :: "(string \<times> bool) list"
  st_notifications :: notification_switches
  st_captcha_provider :: string
  st_whitelist :: "string list"
  st_blacklist :: "string list"
  st_gravatar_base_url :: string
  st_comment_sort :: string
  st_emoji_catalog_url :: string
  st_user_agreement_url :: string
  st_privacy_policy_url :: string
  st_legal_consent_version :: int
  st_brand_primary_color :: string

abbreviation "maxReplyDepthLimit \<equiv> 50 :: int"

definition defaultGravatarBaseURL :: string where
  "defaultGravatarBaseURL = ''https://www.gravatar.com/avatar''"

definition DefaultSettings :: instance_settings where
  "DefaultSettings =
     \<lparr>st_comment_mode = CommentModeAnonymous, st_moderation = ModerationDirect,
      st_user_delete_mode = UserDeleteModeSoft, st_max_reply_depth = 3, st_public_registration = True,
      st_privacy = \<lparr>pv_ip_mode = ''coarse'', pv_ua_mode = ''coarse''\<rparr>, st_captcha_policy = [],
      st_notifications = \<lparr>ns_moderation = True, ns_replies = True\<rparr>, st_captcha_provider = '''',
      st_whitelist = [], st_blacklist = [], st_gravatar_base_url = defaultGravatarBaseURL,
      st_comment_sort = ''asc'', st_emoji_catalog_url = '''', st_user_agreement_url = '''',
      st_privacy_policy_url = '''', st_legal_consent_version = 1, st_brand_primary_color = ''#18181B''\<rparr>"

definition validPrivacyMode :: "string \<Rightarrow> bool" where
  "validPrivacyMode mode \<longleftrightarrow> mode = ''none'' \<or> mode = ''coarse'' \<or> mode = ''full''"

definition ValidateBaseURL :: "library \<Rightarrow> string \<Rightarrow> error + unit" where
  "ValidateBaseURL L raw = guardE (ParseHTTPBase L raw \<noteq> None) ErrValidation"

definition ValidateSettings :: "library \<Rightarrow> instance_settings \<Rightarrow> error + unit" where
  "ValidateSettings L s =
     bindE (guardE (st_comment_mode s = CommentModeAnonymous \<or> st_comment_mode s = CommentModeAuthenticated)
              ErrValidation) (\<lambda>_.
     bindE (guardE (st_moderation s = ModerationDirect \<or> st_moderation s = ModerationReview) ErrValidation) (\<lambda>_.
     bindE (guardE (st_user_delete_mode s = UserDeleteModeSoft \<or> st_user_delete_mode s = UserDeleteModeHard)
              ErrValidation) (\<lambda>_.
     bindE (guardE (0 \<le> st_max_reply_depth s \<and> st_max_reply_depth s \<le> maxReplyDepthLimit) ErrValidation) (\<lambda>_.
     bindE (guardE (validPrivacyMode (pv_ip_mode (st_privacy s))) ErrValidation) (\<lambda>_.
     bindE (guardE (validPrivacyMode (pv_ua_mode (st_privacy s))) ErrValidation) (\<lambda>_.
     bindE (guardE ('''' \<notin> fst ` set (st_captcha_policy s)) ErrValidation) (\<lambda>_.
     bindE (normalizeEmailDomains L (st_whitelist s)) (\<lambda>_.
     bindE (normalizeEmailDomains L (st_blacklist s)) (\<lambda>_.
     bindE (ValidateBaseURL L (st_gravatar_base_url s)) (\<lambda>_.
     bindE (guardE (ValidPublicCommentSort (st_comment_sort s)) ErrValidation) (\<lambda>_.
     bindE (validateEmojiCatalogURL L (st_emoji_catalog_url s)) (\<lambda>_.
     bindE (validatePublicHTTPSURL L (st_user_agreement_url s)) (\<lambda>_.
     bindE (validatePublicHTTPSURL L (st_privacy_policy_url s)) (\<lambda>_.
     bindE (guardE (0 < st_legal_consent_version s) ErrValidation) (\<lambda>_.
     validateHexColor (st_brand_primary_color s))))))))))))))))"

section \<open>Properties of the rules\<close>

text \<open>What the normalisation of a list gives is free of duplicates, and every entry passes the rule.\<close>

lemma normalize_domains_distinct:
  "normalize_domains L out raw = Inr ds \<Longrightarrow> distinct out \<Longrightarrow> distinct ds \<and> set out \<subseteq> set ds"
  by (induction L out raw rule: normalize_domains.induct) (auto simp: bindE_Inr_iff split: if_splits)

lemma normalizeEmailDomain_shape:
  "normalizeEmailDomain L raw = Inr d \<Longrightarrow>
     d \<noteq> '''' \<and> (\<forall>label \<in> set (Split CHR ''.'' d). validEmailDomainLabel label)"
  by (auto simp: normalizeEmailDomain_def Let_def list_all_iff split: if_splits)

lemma normalize_domains_shape:
  "normalize_domains L out raw = Inr ds \<Longrightarrow>
     \<forall>d \<in> set out. \<exists>r. normalizeEmailDomain L r = Inr d \<Longrightarrow>
     \<forall>d \<in> set ds. \<exists>r. normalizeEmailDomain L r = Inr d"
  by (induction L out raw rule: normalize_domains.induct) (auto simp: bindE_Inr_iff split: if_splits)

text \<open>
  The dynamic settings and the provider configurations stored among them
  (\<open>internal/repository/settings.go\<close>).  The column \<open>value\<close> holds a JSON document;
  \<open>None\<close> is a text that is none, which only a hand other than the program's can have written.  The
  columns \<open>id\<close> and \<open>updated_at\<close> are never read.
\<close>

record setting_row =
  sr_key :: string
  sr_type :: string
  sr_value :: "json_value option"
  sr_updated_by :: int

text \<open>The rows, and the snapshot the settings service caches in the process (\<open>Service.cached\<close>).\<close>

record settings_view =
  sv_settings :: instance_settings
  sv_epoch :: int

record settings_store =
  ss_rows :: "setting_row list"
  ss_cached :: "settings_view option"

type_synonym 'a setting_op = "(error, settings_store, unit, 'a) prog"

definition setting_types :: "string list" where
  "setting_types = [''string'', ''integer'', ''boolean'', ''json'']"

definition rows_ok :: "setting_row list \<Rightarrow> bool" where
  "rows_ok rows \<longleftrightarrow> distinct (map sr_key rows) \<and> list_all (\<lambda>r. sr_type r \<in> set setting_types) rows"

definition rows_by_key :: "setting_row list \<Rightarrow> setting_row list" where
  "rows_by_key rows = sort_key sr_key rows"

section \<open>Statements\<close>

definition setting_query :: "(setting_row list \<Rightarrow> 'a) \<Rightarrow> 'a setting_op" where
  "setting_query g = query ErrInfra (\<lambda>d. g (ss_rows d))"

text \<open>A write is refused when a row it brings violates the check on \<open>type\<close>.\<close>

definition setting_write ::
  "setting_row list \<Rightarrow> (setting_row list \<Rightarrow> setting_row list) \<Rightarrow> unit setting_op" where
  "setting_write brought f =
     stmt ErrInfra (\<lambda>d. if list_all (\<lambda>r. sr_type r \<in> set setting_types) brought
                         then Inr ((), d\<lparr>ss_rows := f (ss_rows d)\<rparr>) else Inl ErrInfra)"

definition ListSettings :: "setting_row list setting_op" where
  "ListSettings = setting_query rows_by_key"

definition GetSetting :: "string \<Rightarrow> setting_row setting_op" where
  "GetSetting key =
     bind (setting_query (select_first (\<lambda>r. sr_key r = key))) (\<lambda>r. lift (option_to_result ErrNotFound r))"

definition LockRows :: "string list \<Rightarrow> setting_row list setting_op" where
  "LockRows keys = setting_query (\<lambda>rows. rows_by_key (filter (\<lambda>r. sr_key r \<in> set keys) rows))"

text \<open>\<open>ON CONFLICT DO NOTHING\<close>, and \<open>ON CONFLICT (key) DO UPDATE\<close>, row by row.\<close>

definition insert_missing :: "setting_row \<Rightarrow> setting_row list \<Rightarrow> setting_row list" where
  "insert_missing r rows = (if sr_key r \<in> set (map sr_key rows) then rows else rows @ [r])"

definition upsert_setting_row :: "setting_row \<Rightarrow> setting_row list \<Rightarrow> setting_row list" where
  "upsert_setting_row r rows =
     (if sr_key r \<in> set (map sr_key rows)
      then update_where (\<lambda>r'. sr_key r' = sr_key r)
             (\<lambda>r'. r'\<lparr>sr_type := sr_type r, sr_value := sr_value r, sr_updated_by := sr_updated_by r\<rparr>) rows
      else rows @ [r])"

definition SeedMissing :: "setting_row list \<Rightarrow> unit setting_op" where
  "SeedMissing new_rows =
     (if new_rows = [] then ret () else setting_write new_rows (fold insert_missing new_rows))"

definition UpsertSettings :: "setting_row list \<Rightarrow> unit setting_op" where
  "UpsertSettings new_rows =
     (if new_rows = [] then ret () else setting_write new_rows (fold upsert_setting_row new_rows))"

section \<open>Provider rows\<close>

abbreviation "CaptchaProviderSettingKey \<equiv> ''captcha_provider''"
abbreviation "providerSettingSuffix \<equiv> ''_provider''"

definition ProviderSettingKey :: "string \<Rightarrow> string" where
  "ProviderSettingKey provider_key = provider_key @ providerSettingSuffix"

definition IsProviderSettingKey :: "string \<Rightarrow> bool" where
  "IsProviderSettingKey key \<longleftrightarrow> key \<noteq> CaptchaProviderSettingKey \<and> HasSuffix key providerSettingSuffix"

text \<open>
  The four kinds of envelope differ in whether they carry \<open>enabled\<close> and in the values of
  \<open>kind\<close>; one record holds what the repository's row types hold, a captcha row without
  \<open>enabled\<close>.  A public configuration is absent (\<open>None\<close>) or a document.
\<close>

record provider_row =
  pr_key :: string
  pr_kind :: string
  pr_enabled :: bool
  pr_public :: "json_value option"
  pr_version :: int
  pr_nonce :: string
  pr_ciphertext :: string

abbreviation "KindCaptcha \<equiv> ''captcha''"
abbreviation "KindOAuth \<equiv> ''oauth''"
abbreviation "KindOIDC \<equiv> ''oidc''"
abbreviation "KindSpam \<equiv> ''spam''"
abbreviation "KindNotification \<equiv> ''notification''"

record envelope =
  en_kind :: string
  en_enabled :: bool
  en_public :: "json_value option"
  en_version :: int
  en_nonce :: string
  en_ciphertext :: string

definition empty_envelope :: envelope where
  "empty_envelope =
     \<lparr>en_kind = '''', en_enabled = False, en_public = None, en_version = 0, en_nonce = '''', en_ciphertext = ''''\<rparr>"

definition bytes_member :: "string \<Rightarrow> string \<Rightarrow> (string \<times> json_value) list" where
  "bytes_member name bytes = (if bytes = '''' then [] else [(name, JvString (std64_encode bytes))])"

text \<open>What \<open>json.Marshal\<close> makes of an envelope: \<open>omitempty\<close> drops an absent configuration and
  empty byte slices.\<close>

definition encode_envelope :: "provider_row \<Rightarrow> json_value" where
  "encode_envelope r =
     JvObject
       ([(''kind'', JvString (pr_kind r))] @
        (if pr_kind r = KindCaptcha then [] else [(''enabled'', JvBool (pr_enabled r))]) @
        (case pr_public r of None \<Rightarrow> [] | Some v \<Rightarrow> [(''public_config'', v)]) @
        [(''secret_key_version'', JvNumber (Whole (pr_version r)))] @
        bytes_member ''secret_nonce'' (pr_nonce r) @ bytes_member ''secret_ciphertext'' (pr_ciphertext r))"

fun set_kind :: "string \<Rightarrow> json_value \<Rightarrow> string \<Rightarrow> string option" where
  "set_kind name v s = dec_string v s"

fun set_envelope_field :: "string \<Rightarrow> json_value \<Rightarrow> envelope \<Rightarrow> envelope option" where
  "set_envelope_field name v e =
     (if name = ''kind'' then set_decoded (\<lambda>x. e\<lparr>en_kind := x\<rparr>) (dec_string v (en_kind e))
      else if name = ''enabled'' then set_decoded (\<lambda>x. e\<lparr>en_enabled := x\<rparr>) (dec_bool v (en_enabled e))
      else if name = ''public_config'' then Some (e\<lparr>en_public := Some v\<rparr>)
      else if name = ''secret_key_version'' then set_decoded (\<lambda>x. e\<lparr>en_version := x\<rparr>) (dec_int64 v (en_version e))
      else if name = ''secret_nonce'' then set_decoded (\<lambda>x. e\<lparr>en_nonce := x\<rparr>) (dec_bytes v)
      else set_decoded (\<lambda>x. e\<lparr>en_ciphertext := x\<rparr>) (dec_bytes v))"

definition envelope_fields :: "string \<Rightarrow> string list" where
  "envelope_fields kind =
     (if kind = KindCaptcha then [''kind'', ''public_config'', ''secret_key_version'', ''secret_nonce'', ''secret_ciphertext'']
      else [''kind'', ''enabled'', ''public_config'', ''secret_key_version'', ''secret_nonce'', ''secret_ciphertext''])"

definition normalizePublicConfig :: "json_value option \<Rightarrow> json_value option" where
  "normalizePublicConfig raw = (if raw = Some JvNull then None else raw)"

definition decodeProviderRow :: "setting_row \<Rightarrow> error + provider_row" where
  "decodeProviderRow row =
     (case sr_value row of None \<Rightarrow> Inl ErrInfra
      | Some v \<Rightarrow> (case decode_struct False [''kind''] set_kind v '''' of None \<Rightarrow> Inl ErrInfra
          | Some kind \<Rightarrow>
              if kind \<notin> {KindCaptcha, KindOAuth, KindOIDC, KindSpam, KindNotification} then Inl ErrValidation
              else (case decode_struct False (envelope_fields kind) set_envelope_field v empty_envelope of
                      None \<Rightarrow> Inl ErrInfra
                    | Some e \<Rightarrow>
                        Inr \<lparr>pr_key = take (length (sr_key row) - length providerSettingSuffix) (sr_key row),
                             pr_kind = kind, pr_enabled = en_enabled e,
                             pr_public = normalizePublicConfig (en_public e), pr_version = en_version e,
                             pr_nonce = en_nonce e, pr_ciphertext = en_ciphertext e\<rparr>)))"

fun decode_rows :: "setting_row list \<Rightarrow> error + provider_row list" where
  "decode_rows [] = Inr []"
| "decode_rows (r # rows) =
     bindE (decodeProviderRow r) (\<lambda>p. bindE (decode_rows rows) (\<lambda>ps. Inr (p # ps)))"

definition listProviderDecoded :: "provider_row list setting_op" where
  "listProviderDecoded =
     bind (setting_query (\<lambda>rows. rows_by_key (filter (\<lambda>r. IsProviderSettingKey (sr_key r)) rows))) (\<lambda>rows.
     lift (decode_rows rows))"

definition getProviderDecoded :: "string \<Rightarrow> provider_row setting_op" where
  "getProviderDecoded provider_key =
     bind (setting_query (select_first (\<lambda>r. sr_key r = ProviderSettingKey provider_key))) (\<lambda>found.
     case found of None \<Rightarrow> fail ErrNotFound | Some row \<Rightarrow> lift (decodeProviderRow row))"

definition list_providers :: "string list \<Rightarrow> provider_row list setting_op" where
  "list_providers kinds = bind listProviderDecoded (\<lambda>ps. ret (filter (\<lambda>p. pr_kind p \<in> set kinds) ps))"

definition get_provider :: "string list \<Rightarrow> string \<Rightarrow> provider_row setting_op" where
  "get_provider kinds provider_key =
     bind (getProviderDecoded provider_key) (\<lambda>p. if pr_kind p \<in> set kinds then ret p else fail ErrNotFound)"

definition upsertProviderValue :: "string \<Rightarrow> json_value \<Rightarrow> unit setting_op" where
  "upsertProviderValue provider_key v =
     (let row = \<lparr>sr_key = ProviderSettingKey provider_key, sr_type = ''json'', sr_value = Some v, sr_updated_by = 0\<rparr>
      in setting_write [row] (upsert_setting_row row))"

definition delete_provider_setting :: "string \<Rightarrow> unit setting_op" where
  "delete_provider_setting provider_key =
     setting_write [] (filter (\<lambda>r. sr_key r \<noteq> ProviderSettingKey provider_key))"

definition upsert_provider :: "provider_row \<Rightarrow> unit setting_op" where
  "upsert_provider r = upsertProviderValue (pr_key r) (encode_envelope r)"

definition delete_provider :: "string list \<Rightarrow> string \<Rightarrow> unit setting_op" where
  "delete_provider kinds provider_key =
     bind (get_provider kinds provider_key) (\<lambda>_. delete_provider_setting provider_key)"

text \<open>The operations by kind.\<close>

definition ListCaptchaProviders :: "provider_row list setting_op" where
  "ListCaptchaProviders = list_providers [KindCaptcha]"

definition GetCaptchaProvider :: "string \<Rightarrow> provider_row setting_op" where
  "GetCaptchaProvider = get_provider [KindCaptcha]"

definition UpsertCaptchaProvider :: "provider_row \<Rightarrow> unit setting_op" where
  "UpsertCaptchaProvider r = upsert_provider (r\<lparr>pr_kind := KindCaptcha\<rparr>)"

definition DeleteCaptchaProvider :: "string \<Rightarrow> unit setting_op" where
  "DeleteCaptchaProvider = delete_provider [KindCaptcha]"

definition ListAuthProviders :: "provider_row list setting_op" where
  "ListAuthProviders = list_providers [KindOAuth, KindOIDC]"

definition GetAuthProvider :: "string \<Rightarrow> provider_row setting_op" where
  "GetAuthProvider = get_provider [KindOAuth, KindOIDC]"

definition UpsertAuthProvider :: "provider_row \<Rightarrow> unit setting_op" where
  "UpsertAuthProvider r = upsert_provider r"

definition DeleteAuthProvider :: "string \<Rightarrow> unit setting_op" where
  "DeleteAuthProvider = delete_provider [KindOAuth, KindOIDC]"

definition ListSpamProviders :: "provider_row list setting_op" where
  "ListSpamProviders = list_providers [KindSpam]"

definition GetSpamProvider :: "string \<Rightarrow> provider_row setting_op" where
  "GetSpamProvider = get_provider [KindSpam]"

definition UpsertSpamProvider :: "provider_row \<Rightarrow> unit setting_op" where
  "UpsertSpamProvider r = upsert_provider (r\<lparr>pr_kind := KindSpam\<rparr>)"

definition DeleteSpamProvider :: "string \<Rightarrow> unit setting_op" where
  "DeleteSpamProvider = delete_provider [KindSpam]"

definition ListNotificationProviders :: "provider_row list setting_op" where
  "ListNotificationProviders = list_providers [KindNotification]"

definition GetNotificationProvider :: "string \<Rightarrow> provider_row setting_op" where
  "GetNotificationProvider = get_provider [KindNotification]"

definition UpsertNotificationProvider :: "provider_row \<Rightarrow> unit setting_op" where
  "UpsertNotificationProvider r = upsert_provider (r\<lparr>pr_kind := KindNotification\<rparr>)"

definition DeleteNotificationProvider :: "string \<Rightarrow> unit setting_op" where
  "DeleteNotificationProvider = delete_provider [KindNotification]"

text \<open>
  The settings service (\<open>internal/service/setting/service.go\<close>): typed settings kept as rows of JSON
  documents, patched in a transaction that bumps the widget credential epoch when the comment mode changes,
  and read through a snapshot cached in the process.  A failed type assertion panics; the request dies with
  \<open>500\<close> and the transaction rolls back, so it is \<open>ErrInfra\<close> here.
\<close>

section \<open>Items and their types\<close>

abbreviation "KeyCommentMode \<equiv> ''comment_mode''"
abbreviation "KeyModeration \<equiv> ''moderation''"
abbreviation "KeyUserDeleteMode \<equiv> ''user_delete_mode''"
abbreviation "KeyMaxReplyDepth \<equiv> ''max_reply_depth''"
abbreviation "KeyPublicRegistration \<equiv> ''public_registration''"
abbreviation "KeyPrivacy \<equiv> ''privacy''"
abbreviation "KeyCaptchaPolicy \<equiv> ''captcha_policy''"
abbreviation "KeyNotifications \<equiv> ''notifications''"
abbreviation "KeyWhitelist \<equiv> ''email_domain_whitelist''"
abbreviation "KeyBlacklist \<equiv> ''email_domain_blacklist''"
abbreviation "KeyGravatarBaseURL \<equiv> ''gravatar_base_url''"
abbreviation "KeyCommentSort \<equiv> ''comment_sort''"
abbreviation "KeyEmojiCatalogURL \<equiv> ''emoji_catalog_url''"
abbreviation "KeyUserAgreementURL \<equiv> ''user_agreement_url''"
abbreviation "KeyPrivacyPolicyURL \<equiv> ''privacy_policy_url''"
abbreviation "KeyLegalConsentVersion \<equiv> ''legal_consent_version''"
abbreviation "KeyBrandPrimaryColor \<equiv> ''brand_primary_color''"
abbreviation "KeyInternalEpoch \<equiv> ''internal.widget_credential_epoch''"

datatype setting_type = SettingTypeString | SettingTypeInteger | SettingTypeBoolean | SettingTypeJSON

fun type_string :: "setting_type \<Rightarrow> string" where
  "type_string SettingTypeString = ''string''"
| "type_string SettingTypeInteger = ''integer''"
| "type_string SettingTypeBoolean = ''boolean''"
| "type_string SettingTypeJSON = ''json''"

record setting_item =
  it_key :: string
  it_type :: string
  it_value :: json_value

definition knownSettings :: "(string \<times> setting_type) list" where
  "knownSettings =
     [(KeyCommentMode, SettingTypeString), (KeyModeration, SettingTypeString),
      (KeyUserDeleteMode, SettingTypeString), (KeyMaxReplyDepth, SettingTypeInteger),
      (KeyPublicRegistration, SettingTypeBoolean), (KeyPrivacy, SettingTypeJSON),
      (KeyCaptchaPolicy, SettingTypeJSON), (KeyNotifications, SettingTypeJSON),
      (CaptchaProviderSettingKey, SettingTypeString), (KeyWhitelist, SettingTypeJSON),
      (KeyBlacklist, SettingTypeJSON), (KeyGravatarBaseURL, SettingTypeString),
      (KeyCommentSort, SettingTypeString), (KeyEmojiCatalogURL, SettingTypeString),
      (KeyUserAgreementURL, SettingTypeString), (KeyPrivacyPolicyURL, SettingTypeString),
      (KeyLegalConsentVersion, SettingTypeInteger), (KeyBrandPrimaryColor, SettingTypeString)]"

definition knownType :: "string \<Rightarrow> string option" where
  "knownType key = map_option type_string (map_of knownSettings key)"

definition isInternalKey :: "string \<Rightarrow> bool" where
  "isInternalKey key \<longleftrightarrow> HasPrefix key ''internal.''"

text \<open>\<open>^[a-z][a-z0-9_.]*$\<close>.\<close>

definition lower_letter :: "char \<Rightarrow> bool" where
  "lower_letter c \<longleftrightarrow> of_char c \<ge> (0x61 :: nat) \<and> of_char c \<le> (0x7A :: nat)"

definition setting_key_char :: "char \<Rightarrow> bool" where
  "setting_key_char c \<longleftrightarrow> lower_letter c \<or> is_digit_char c \<or> c = CHR ''_'' \<or> c = CHR ''.''"

definition settingKeyPattern :: "string \<Rightarrow> bool" where
  "settingKeyPattern key \<longleftrightarrow> key \<noteq> '''' \<and> lower_letter (hd key) \<and> list_all setting_key_char (tl key)"

definition validPublicKey :: "string \<Rightarrow> bool" where
  "validPublicKey key \<longleftrightarrow> settingKeyPattern key \<and> \<not> isInternalKey key \<and> \<not> IsProviderSettingKey key"

fun is_string :: "json_value \<Rightarrow> bool" where "is_string (JvString s) = True" | "is_string v = False"
fun is_bool :: "json_value \<Rightarrow> bool" where "is_bool (JvBool b) = True" | "is_bool v = False"
fun is_whole :: "floats \<Rightarrow> json_value \<Rightarrow> bool" where
  "is_whole F (JvNumber n) = fl_whole F n" | "is_whole F v = False"
fun is_container :: "json_value \<Rightarrow> bool" where
  "is_container (JvArray xs) = True" | "is_container (JvObject kvs) = True" | "is_container v = False"

definition item_type_ok :: "floats \<Rightarrow> setting_item \<Rightarrow> bool" where
  "item_type_ok F it =
     (if it_type it = type_string SettingTypeString then is_string (it_value it)
      else if it_type it = type_string SettingTypeInteger then is_whole F (it_value it)
      else if it_type it = type_string SettingTypeBoolean then is_bool (it_value it)
      else if it_type it = type_string SettingTypeJSON then is_container (it_value it)
      else False)"

definition validateItemType :: "floats \<Rightarrow> setting_item \<Rightarrow> error + unit" where
  "validateItemType F it = guardE (item_type_ok F it) ErrValidation"

fun validate_items :: "floats \<Rightarrow> string list \<Rightarrow> setting_item list \<Rightarrow> error + unit" where
  "validate_items F seen [] = Inr ()"
| "validate_items F seen (it # items) =
     bindE (guardE (validPublicKey (it_key it)) ErrValidation) (\<lambda>_.
     bindE (guardE (it_key it \<notin> set seen) ErrValidation) (\<lambda>_.
     bindE (guardE (it_value it \<noteq> JvNull) ErrValidation) (\<lambda>_.
     bindE (validateItemType F it) (\<lambda>_.
     bindE (guardE (case knownType (it_key it) of None \<Rightarrow> True | Some t \<Rightarrow> t = it_type it) ErrValidation) (\<lambda>_.
     validate_items F (it_key it # seen) items)))))"

definition validatePatch :: "floats \<Rightarrow> setting_item list \<Rightarrow> error + unit" where
  "validatePatch F items = (if items = [] then Inl ErrValidation else validate_items F [] items)"

definition hasKey :: "setting_item list \<Rightarrow> string \<Rightarrow> bool" where
  "hasKey items key \<longleftrightarrow> list_ex (\<lambda>it. it_key it = key) items"

definition itemValue :: "setting_item list \<Rightarrow> string \<Rightarrow> json_value" where
  "itemValue items key = (case find (\<lambda>it. it_key it = key) items of None \<Rightarrow> JvNull | Some it \<Rightarrow> it_value it)"

section \<open>From items to the snapshot\<close>

record setting_env =
  se_lib :: library
  se_floats :: floats

fun assert_string :: "json_value \<Rightarrow> error + string" where
  "assert_string (JvString s) = Inr s" | "assert_string v = Inl ErrInfra"

fun assert_bool :: "json_value \<Rightarrow> error + bool" where
  "assert_bool (JvBool b) = Inr b" | "assert_bool v = Inl ErrInfra"

fun assert_number :: "json_value \<Rightarrow> error + json_number" where
  "assert_number (JvNumber n) = Inr n" | "assert_number v = Inl ErrInfra"

definition set_privacy :: "string \<Rightarrow> json_value \<Rightarrow> privacy_settings \<Rightarrow> privacy_settings option" where
  "set_privacy name v p =
     (if name = ''ip_mode'' then set_decoded (\<lambda>x. p\<lparr>pv_ip_mode := x\<rparr>) (dec_string v (pv_ip_mode p))
      else set_decoded (\<lambda>x. p\<lparr>pv_ua_mode := x\<rparr>) (dec_string v (pv_ua_mode p)))"

definition dec_privacy :: "json_value \<Rightarrow> privacy_settings option" where
  "dec_privacy v =
     decode_struct False [''ip_mode'', ''ua_mode''] set_privacy v \<lparr>pv_ip_mode = '''', pv_ua_mode = ''''\<rparr>"

definition set_switch :: "string \<Rightarrow> json_value \<Rightarrow> notification_switches \<Rightarrow> notification_switches option" where
  "set_switch name v n =
     (if name = ''moderation'' then set_decoded (\<lambda>x. n\<lparr>ns_moderation := x\<rparr>) (dec_bool v (ns_moderation n))
      else set_decoded (\<lambda>x. n\<lparr>ns_replies := x\<rparr>) (dec_bool v (ns_replies n)))"

definition dec_switches :: "json_value \<Rightarrow> notification_switches option" where
  "dec_switches v =
     decode_struct False [''moderation'', ''replies''] set_switch v \<lparr>ns_moderation = False, ns_replies = False\<rparr>"

definition dec_domains :: "setting_env \<Rightarrow> json_value \<Rightarrow> error + string list" where
  "dec_domains E v =
     bindE (option_to_result ErrInfra (dec_strings v)) (\<lambda>raw. normalizeEmailDomains (se_lib E) raw)"

definition legal_version :: "setting_env \<Rightarrow> json_value \<Rightarrow> error + int" where
  "legal_version E v =
     (case v of
        JvNumber n \<Rightarrow>
          if fl_whole (se_floats E) n \<and> 0 < fl_trunc (se_floats E) n \<and> fl_trunc (se_floats E) n \<le> max_int64 + 1
          then Inr (int64_of_float (se_floats E) n) else Inl ErrValidation
      | _ \<Rightarrow> Inl ErrValidation)"

definition applyItem :: "setting_env \<Rightarrow> instance_settings \<Rightarrow> setting_item \<Rightarrow> error + instance_settings" where
  "applyItem E s it =
     (let key = it_key it; v = it_value it
      in if key = KeyCommentMode then bindE (assert_string v) (\<lambda>x. Inr (s\<lparr>st_comment_mode := x\<rparr>))
         else if key = KeyModeration then bindE (assert_string v) (\<lambda>x. Inr (s\<lparr>st_moderation := x\<rparr>))
         else if key = KeyUserDeleteMode then bindE (assert_string v) (\<lambda>x. Inr (s\<lparr>st_user_delete_mode := x\<rparr>))
         else if key = KeyMaxReplyDepth then
           bindE (assert_number v) (\<lambda>n. Inr (s\<lparr>st_max_reply_depth := int64_of_float (se_floats E) n\<rparr>))
         else if key = KeyPublicRegistration then bindE (assert_bool v) (\<lambda>x. Inr (s\<lparr>st_public_registration := x\<rparr>))
         else if key = KeyPrivacy then
           bindE (option_to_result ErrInfra (dec_privacy v)) (\<lambda>x. Inr (s\<lparr>st_privacy := x\<rparr>))
         else if key = KeyCaptchaPolicy then
           bindE (option_to_result ErrInfra (dec_flag_map v)) (\<lambda>x. Inr (s\<lparr>st_captcha_policy := x\<rparr>))
         else if key = KeyNotifications then
           bindE (option_to_result ErrInfra (dec_switches v)) (\<lambda>x. Inr (s\<lparr>st_notifications := x\<rparr>))
         else if key = CaptchaProviderSettingKey then
           bindE (assert_string v) (\<lambda>x. Inr (s\<lparr>st_captcha_provider := x\<rparr>))
         else if key = KeyWhitelist then bindE (dec_domains E v) (\<lambda>x. Inr (s\<lparr>st_whitelist := x\<rparr>))
         else if key = KeyBlacklist then bindE (dec_domains E v) (\<lambda>x. Inr (s\<lparr>st_blacklist := x\<rparr>))
         else if key = KeyGravatarBaseURL then
           bindE (assert_string v) (\<lambda>x. Inr (s\<lparr>st_gravatar_base_url := TrimSpace x\<rparr>))
         else if key = KeyCommentSort then bindE (assert_string v) (\<lambda>x. Inr (s\<lparr>st_comment_sort := x\<rparr>))
         else if key = KeyEmojiCatalogURL then
           bindE (assert_string v) (\<lambda>x. Inr (s\<lparr>st_emoji_catalog_url := TrimSpace x\<rparr>))
         else if key = KeyUserAgreementURL then
           bindE (assert_string v) (\<lambda>x. bindE (normalizePublicHTTPSURL (se_lib E) x) (\<lambda>u.
           Inr (s\<lparr>st_user_agreement_url := u\<rparr>)))
         else if key = KeyPrivacyPolicyURL then
           bindE (assert_string v) (\<lambda>x. bindE (normalizePublicHTTPSURL (se_lib E) x) (\<lambda>u.
           Inr (s\<lparr>st_privacy_policy_url := u\<rparr>)))
         else if key = KeyLegalConsentVersion then
           bindE (legal_version E v) (\<lambda>n. Inr (s\<lparr>st_legal_consent_version := n\<rparr>))
         else if key = KeyBrandPrimaryColor then
           bindE (assert_string v) (\<lambda>x. bindE (normalizeHexColor x) (\<lambda>c. Inr (s\<lparr>st_brand_primary_color := c\<rparr>)))
         else Inr s)"

fun applyItems :: "setting_env \<Rightarrow> instance_settings \<Rightarrow> setting_item list \<Rightarrow> error + instance_settings" where
  "applyItems E s [] = Inr s"
| "applyItems E s (it # items) = bindE (applyItem E s it) (\<lambda>s'. applyItems E s' items)"

section \<open>From rows to the snapshot\<close>

text \<open>\<open>json.Unmarshal\<close> of a stored value into an \<open>any\<close>.\<close>

definition decoded_value :: "setting_env \<Rightarrow> setting_row \<Rightarrow> error + json_value" where
  "decoded_value E row = option_to_result ErrInfra (map_option (interface_of (se_floats E)) (sr_value row))"

definition hidden_row :: "setting_row \<Rightarrow> bool" where
  "hidden_row row \<longleftrightarrow> isInternalKey (sr_key row) \<or> IsProviderSettingKey (sr_key row)"

fun row_items :: "setting_env \<Rightarrow> setting_row list \<Rightarrow> error + setting_item list" where
  "row_items E [] = Inr []"
| "row_items E (row # rows) =
     (if hidden_row row then row_items E rows
      else bindE (decoded_value E row) (\<lambda>v.
           bindE (guardE (case knownType (sr_key row) of None \<Rightarrow> True | Some t \<Rightarrow> sr_type row = t) ErrValidation) (\<lambda>_.
           bindE (row_items E rows) (\<lambda>items.
           Inr (\<lparr>it_key = sr_key row, it_type = sr_type row, it_value = v\<rparr> # items)))))"

definition settingsFromRows :: "setting_env \<Rightarrow> setting_row list \<Rightarrow> error + instance_settings" where
  "settingsFromRows E rows =
     bindE (row_items E rows) (\<lambda>items.
     bindE (applyItems E DefaultSettings items) (\<lambda>s.
     bindE (ValidateSettings (se_lib E) s) (\<lambda>_. Inr s)))"

fun publicItemsFromRows :: "setting_env \<Rightarrow> setting_row list \<Rightarrow> error + setting_item list" where
  "publicItemsFromRows E [] = Inr []"
| "publicItemsFromRows E (row # rows) =
     (if hidden_row row \<or> sr_key row = KeyLegalConsentVersion then publicItemsFromRows E rows
      else bindE (decoded_value E row) (\<lambda>v.
           bindE (publicItemsFromRows E rows) (\<lambda>items.
           Inr (\<lparr>it_key = sr_key row, it_type = sr_type row, it_value = v\<rparr> # items))))"

definition stored_int :: "setting_row \<Rightarrow> int \<Rightarrow> int option" where
  "stored_int row old = (case sr_value row of None \<Rightarrow> None | Some v \<Rightarrow> dec_int64 v old)"

definition epochFromRows :: "setting_row list \<Rightarrow> int" where
  "epochFromRows rows =
     (case find (\<lambda>r. sr_key r = KeyInternalEpoch) rows of None \<Rightarrow> 0
      | Some r \<Rightarrow> (case stored_int r 0 of None \<Rightarrow> 0 | Some n \<Rightarrow> n))"

definition modeOf :: "setting_row list \<Rightarrow> string" where
  "modeOf rows =
     (case find (\<lambda>r. sr_key r = KeyCommentMode) rows of None \<Rightarrow> ''''
      | Some r \<Rightarrow> (case sr_value r of None \<Rightarrow> ''''
          | Some v \<Rightarrow> (case dec_string v '''' of None \<Rightarrow> '''' | Some m \<Rightarrow> m)))"

text \<open>The default items with the documents \<open>json.Marshal\<close> makes of their values.\<close>

definition default_row :: "string \<Rightarrow> setting_type \<Rightarrow> json_value \<Rightarrow> setting_row" where
  "default_row key t v = \<lparr>sr_key = key, sr_type = type_string t, sr_value = Some v, sr_updated_by = 0\<rparr>"

definition defaultItems :: "setting_row list" where
  "defaultItems =
     (let s = DefaultSettings in
     [default_row KeyCommentMode SettingTypeString (JvString (st_comment_mode s)),
      default_row KeyModeration SettingTypeString (JvString (st_moderation s)),
      default_row KeyUserDeleteMode SettingTypeString (JvString (st_user_delete_mode s)),
      default_row KeyMaxReplyDepth SettingTypeInteger (JvNumber (Whole (st_max_reply_depth s))),
      default_row KeyPublicRegistration SettingTypeBoolean (JvBool (st_public_registration s)),
      default_row KeyPrivacy SettingTypeJSON
        (JvObject [(''ip_mode'', JvString (pv_ip_mode (st_privacy s))),
                   (''ua_mode'', JvString (pv_ua_mode (st_privacy s)))]),
      default_row KeyCaptchaPolicy SettingTypeJSON
        (JvObject (map (\<lambda>(k, b). (k, JvBool b)) (st_captcha_policy s))),
      default_row KeyNotifications SettingTypeJSON
        (JvObject [(''moderation'', JvBool (ns_moderation (st_notifications s))),
                   (''replies'', JvBool (ns_replies (st_notifications s)))]),
      default_row CaptchaProviderSettingKey SettingTypeString (JvString (st_captcha_provider s)),
      default_row KeyWhitelist SettingTypeJSON (JvArray (map JvString (st_whitelist s))),
      default_row KeyBlacklist SettingTypeJSON (JvArray (map JvString (st_blacklist s))),
      default_row KeyGravatarBaseURL SettingTypeString (JvString (st_gravatar_base_url s)),
      default_row KeyCommentSort SettingTypeString (JvString (st_comment_sort s)),
      default_row KeyEmojiCatalogURL SettingTypeString (JvString (st_emoji_catalog_url s)),
      default_row KeyUserAgreementURL SettingTypeString (JvString (st_user_agreement_url s)),
      default_row KeyPrivacyPolicyURL SettingTypeString (JvString (st_privacy_policy_url s)),
      default_row KeyLegalConsentVersion SettingTypeInteger (JvNumber (Whole (st_legal_consent_version s))),
      default_row KeyBrandPrimaryColor SettingTypeString (JvString (st_brand_primary_color s))])"

definition epoch_row :: "int \<Rightarrow> int \<Rightarrow> setting_row" where
  "epoch_row epoch updated_by =
     \<lparr>sr_key = KeyInternalEpoch, sr_type = type_string SettingTypeInteger, sr_value = Some (JvNumber (Whole epoch)),
      sr_updated_by = updated_by\<rparr>"

definition missingRows :: "setting_row list \<Rightarrow> setting_row list" where
  "missingRows rows =
     filter (\<lambda>r. sr_key r \<notin> set (map sr_key rows)) defaultItems @
     (if KeyInternalEpoch \<in> set (map sr_key rows) then [] else [epoch_row 0 0])"

section \<open>The service\<close>

text \<open>Setting the cached snapshot is no statement of the database.\<close>

definition set_cached :: "settings_view option \<Rightarrow> unit setting_op" where
  "set_cached v w = (Inr (), w\<lparr>data := (data w)\<lparr>ss_cached := v\<rparr>\<rparr>)"

definition get_cached :: "settings_view option setting_op" where
  "get_cached w = (Inr (ss_cached (data w)), w)"

definition Invalidate :: "unit setting_op" where
  "Invalidate = set_cached None"

definition seedDefaults :: "unit setting_op" where
  "seedDefaults = atomically ErrInfra (SeedMissing (missingRows []))"

definition GetSettings :: "setting_env \<Rightarrow> settings_view setting_op" where
  "GetSettings E =
     bind get_cached (\<lambda>cached.
     case cached of Some v \<Rightarrow> ret v
     | None \<Rightarrow>
         bind ListSettings (\<lambda>rows0.
         bind (if missingRows rows0 \<noteq> [] then bind seedDefaults (\<lambda>_. ListSettings) else ret rows0) (\<lambda>rows.
         bind (lift (settingsFromRows E rows)) (\<lambda>current.
         let v = \<lparr>sv_settings = current, sv_epoch = epochFromRows rows\<rparr>
         in bind (set_cached (Some v)) (\<lambda>_. ret v)))))"

definition PublicItems :: "setting_env \<Rightarrow> setting_item list setting_op" where
  "PublicItems E = bind ListSettings (\<lambda>rows. lift (publicItemsFromRows E rows))"

text \<open>\<open>epoch++\<close> wraps around at \<open>int64\<close>.\<close>

definition next_epoch :: "int \<Rightarrow> int" where
  "next_epoch n = (if n = max_int64 then - 9223372036854775808 else n + 1)"

definition item_row :: "int \<Rightarrow> setting_item \<Rightarrow> setting_row" where
  "item_row updated_by it =
     \<lparr>sr_key = it_key it, sr_type = it_type it, sr_value = Some (it_value it), sr_updated_by = updated_by\<rparr>"

definition seeded_rows :: "setting_row list setting_op" where
  "seeded_rows =
     bind ListSettings (\<lambda>rows.
     if missingRows rows \<noteq> [] then bind (SeedMissing (missingRows rows)) (\<lambda>_. ListSettings) else ret rows)"

definition epoch_writes :: "setting_item list \<Rightarrow> int \<Rightarrow> setting_row list setting_op" where
  "epoch_writes items updated_by =
     (if hasKey items KeyCommentMode then
        bind (LockRows [KeyCommentMode, KeyInternalEpoch]) (\<lambda>locked.
        ret (if JvString (modeOf locked) \<noteq> itemValue items KeyCommentMode
             then [epoch_row (next_epoch (epochFromRows locked)) updated_by] else []))
      else ret [])"

definition patch_tx ::
  "setting_env \<Rightarrow> (string \<Rightarrow> unit setting_op) option \<Rightarrow> setting_item list \<Rightarrow> int \<Rightarrow> unit setting_op" where
  "patch_tx E validator items updated_by =
     bind seeded_rows (\<lambda>rows.
     bind (lift (settingsFromRows E rows)) (\<lambda>before.
     bind (lift (applyItems E before items)) (\<lambda>current.
     bind (lift (ValidateSettings (se_lib E) current)) (\<lambda>_.
     bind (if hasKey items CaptchaProviderSettingKey then
             (case validator of None \<Rightarrow> fail ErrCaptchaUnavailable
              | Some validate \<Rightarrow> validate (st_captcha_provider current))
           else ret ()) (\<lambda>_.
     bind (epoch_writes items updated_by) (\<lambda>extra.
     UpsertSettings (map (item_row updated_by) items @ extra)))))))"

definition Patch ::
  "setting_env \<Rightarrow> (string \<Rightarrow> unit setting_op) option \<Rightarrow> setting_item list \<Rightarrow> int \<Rightarrow>
     setting_item list setting_op" where
  "Patch E validator items updated_by =
     bind (lift (validatePatch (se_floats E) items)) (\<lambda>_.
     if hasKey items KeyLegalConsentVersion then fail ErrValidation
     else bind (atomically ErrInfra (patch_tx E validator items updated_by)) (\<lambda>_.
          bind Invalidate (\<lambda>_. PublicItems E)))"

fun legal_of_locked :: "int \<Rightarrow> setting_row list \<Rightarrow> error + int" where
  "legal_of_locked current [] = Inr current"
| "legal_of_locked current (row # rows) =
     (if sr_key row \<noteq> KeyLegalConsentVersion then legal_of_locked current rows
      else if sr_type row \<noteq> type_string SettingTypeInteger then Inl ErrValidation
      else (case stored_int row current of None \<Rightarrow> Inl ErrValidation
            | Some n \<Rightarrow> if n \<le> 0 then Inl ErrValidation else legal_of_locked n rows))"

definition legal_row :: "int \<Rightarrow> int \<Rightarrow> setting_row" where
  "legal_row version updated_by =
     \<lparr>sr_key = KeyLegalConsentVersion, sr_type = type_string SettingTypeInteger,
      sr_value = Some (JvNumber (Whole version)), sr_updated_by = updated_by\<rparr>"

definition ResetLegalConsent :: "int \<Rightarrow> int setting_op" where
  "ResetLegalConsent updated_by =
     bind (atomically ErrInfra (
       bind ListSettings (\<lambda>rows.
       bind (SeedMissing (missingRows rows)) (\<lambda>_.
       bind (LockRows [KeyLegalConsentVersion]) (\<lambda>locked.
       bind (lift (legal_of_locked (st_legal_consent_version DefaultSettings) locked)) (\<lambda>current.
       if current = max_int64 then fail ErrValidation
       else bind (UpsertSettings [legal_row (current + 1) updated_by]) (\<lambda>_. ret (current + 1)))))))) (\<lambda>version.
     bind Invalidate (\<lambda>_. ret version))"

end
