(* ===== verification/Settings_Facts.thy ===== *)
theory Settings_Facts
  imports Settings "HOL-Library.Multiset"
begin

text \<open>
  How the items build the snapshot: an item sets one field, so items with different keys commute and a later
  value of a key replaces the earlier one.  What the rows stand for therefore does not depend on their order,
  and an upsert of an item is the item applied to the snapshot.
\<close>

section \<open>One item\<close>

lemma applyItem_any_snapshot:
  "applyItem E s it = Inr s' \<Longrightarrow> \<exists>t'. applyItem E t it = Inr t'"
  by (auto simp: applyItem_def Let_def bindE_Inr_iff split: if_splits)

definition item_ok :: "setting_env \<Rightarrow> setting_item \<Rightarrow> bool" where
  "item_ok E it \<longleftrightarrow> (\<exists>s'. applyItem E DefaultSettings it = Inr s')"

definition item_update :: "setting_env \<Rightarrow> setting_item \<Rightarrow> instance_settings \<Rightarrow> instance_settings" where
  "item_update E it s = (case applyItem E s it of Inr s' \<Rightarrow> s' | Inl e \<Rightarrow> s)"

lemma applyItem_ok: "item_ok E it \<Longrightarrow> applyItem E s it = Inr (item_update E it s)"
  unfolding item_ok_def item_update_def
  by (auto dest: applyItem_any_snapshot [where t = s])

lemma applyItem_iff: "applyItem E s it = Inr s' \<longleftrightarrow> item_ok E it \<and> s' = item_update E it s"
proof
  assume run: "applyItem E s it = Inr s'"
  then have "item_ok E it"
    unfolding item_ok_def by (rule applyItem_any_snapshot)
  with run show "item_ok E it \<and> s' = item_update E it s" by (simp add: applyItem_ok)
qed (simp add: applyItem_ok)

text \<open>The item's key names the one field it sets.\<close>

definition copy_field :: "string \<Rightarrow> instance_settings \<Rightarrow> instance_settings \<Rightarrow> instance_settings" where
  "copy_field key s t =
     (if key = KeyCommentMode then t\<lparr>st_comment_mode := st_comment_mode s\<rparr>
      else if key = KeyModeration then t\<lparr>st_moderation := st_moderation s\<rparr>
      else if key = KeyUserDeleteMode then t\<lparr>st_user_delete_mode := st_user_delete_mode s\<rparr>
      else if key = KeyMaxReplyDepth then t\<lparr>st_max_reply_depth := st_max_reply_depth s\<rparr>
      else if key = KeyPublicRegistration then t\<lparr>st_public_registration := st_public_registration s\<rparr>
      else if key = KeyPrivacy then t\<lparr>st_privacy := st_privacy s\<rparr>
      else if key = KeyCaptchaPolicy then t\<lparr>st_captcha_policy := st_captcha_policy s\<rparr>
      else if key = KeyNotifications then t\<lparr>st_notifications := st_notifications s\<rparr>
      else if key = CaptchaProviderSettingKey then t\<lparr>st_captcha_provider := st_captcha_provider s\<rparr>
      else if key = KeyWhitelist then t\<lparr>st_whitelist := st_whitelist s\<rparr>
      else if key = KeyBlacklist then t\<lparr>st_blacklist := st_blacklist s\<rparr>
      else if key = KeyGravatarBaseURL then t\<lparr>st_gravatar_base_url := st_gravatar_base_url s\<rparr>
      else if key = KeyCommentSort then t\<lparr>st_comment_sort := st_comment_sort s\<rparr>
      else if key = KeyEmojiCatalogURL then t\<lparr>st_emoji_catalog_url := st_emoji_catalog_url s\<rparr>
      else if key = KeyUserAgreementURL then t\<lparr>st_user_agreement_url := st_user_agreement_url s\<rparr>
      else if key = KeyPrivacyPolicyURL then t\<lparr>st_privacy_policy_url := st_privacy_policy_url s\<rparr>
      else if key = KeyLegalConsentVersion then t\<lparr>st_legal_consent_version := st_legal_consent_version s\<rparr>
      else if key = KeyBrandPrimaryColor then t\<lparr>st_brand_primary_color := st_brand_primary_color s\<rparr>
      else t)"

lemma copy_field_fields:
  "st_comment_mode (copy_field k a s) = (if k = KeyCommentMode then st_comment_mode a else st_comment_mode s)"
  "st_moderation (copy_field k a s) = (if k = KeyModeration then st_moderation a else st_moderation s)"
  "st_user_delete_mode (copy_field k a s) = (if k = KeyUserDeleteMode then st_user_delete_mode a else st_user_delete_mode s)"
  "st_max_reply_depth (copy_field k a s) = (if k = KeyMaxReplyDepth then st_max_reply_depth a else st_max_reply_depth s)"
  "st_public_registration (copy_field k a s) = (if k = KeyPublicRegistration then st_public_registration a else st_public_registration s)"
  "st_privacy (copy_field k a s) = (if k = KeyPrivacy then st_privacy a else st_privacy s)"
  "st_captcha_policy (copy_field k a s) = (if k = KeyCaptchaPolicy then st_captcha_policy a else st_captcha_policy s)"
  "st_notifications (copy_field k a s) = (if k = KeyNotifications then st_notifications a else st_notifications s)"
  "st_captcha_provider (copy_field k a s) = (if k = CaptchaProviderSettingKey then st_captcha_provider a else st_captcha_provider s)"
  "st_whitelist (copy_field k a s) = (if k = KeyWhitelist then st_whitelist a else st_whitelist s)"
  "st_blacklist (copy_field k a s) = (if k = KeyBlacklist then st_blacklist a else st_blacklist s)"
  "st_gravatar_base_url (copy_field k a s) = (if k = KeyGravatarBaseURL then st_gravatar_base_url a else st_gravatar_base_url s)"
  "st_comment_sort (copy_field k a s) = (if k = KeyCommentSort then st_comment_sort a else st_comment_sort s)"
  "st_emoji_catalog_url (copy_field k a s) = (if k = KeyEmojiCatalogURL then st_emoji_catalog_url a else st_emoji_catalog_url s)"
  "st_user_agreement_url (copy_field k a s) = (if k = KeyUserAgreementURL then st_user_agreement_url a else st_user_agreement_url s)"
  "st_privacy_policy_url (copy_field k a s) = (if k = KeyPrivacyPolicyURL then st_privacy_policy_url a else st_privacy_policy_url s)"
  "st_legal_consent_version (copy_field k a s) = (if k = KeyLegalConsentVersion then st_legal_consent_version a else st_legal_consent_version s)"
  "st_brand_primary_color (copy_field k a s) = (if k = KeyBrandPrimaryColor then st_brand_primary_color a else st_brand_primary_color s)"
  "instance_settings.more (copy_field k a s) = instance_settings.more s"
  by (simp_all add: copy_field_def)

lemma copy_field_same: "copy_field k a (copy_field k b s) = copy_field k a s"
  by (rule instance_settings.equality) (simp_all add: copy_field_fields)

lemma copy_field_commute:
  "k \<noteq> k' \<Longrightarrow> copy_field k a (copy_field k' b s) = copy_field k' b (copy_field k a s)"
  by (rule instance_settings.equality) (auto simp: copy_field_fields)

lemma copy_field_at:
  "copy_field KeyCommentMode a s = s\<lparr>st_comment_mode := st_comment_mode a\<rparr>"
  "copy_field KeyModeration a s = s\<lparr>st_moderation := st_moderation a\<rparr>"
  "copy_field KeyUserDeleteMode a s = s\<lparr>st_user_delete_mode := st_user_delete_mode a\<rparr>"
  "copy_field KeyMaxReplyDepth a s = s\<lparr>st_max_reply_depth := st_max_reply_depth a\<rparr>"
  "copy_field KeyPublicRegistration a s = s\<lparr>st_public_registration := st_public_registration a\<rparr>"
  "copy_field KeyPrivacy a s = s\<lparr>st_privacy := st_privacy a\<rparr>"
  "copy_field KeyCaptchaPolicy a s = s\<lparr>st_captcha_policy := st_captcha_policy a\<rparr>"
  "copy_field KeyNotifications a s = s\<lparr>st_notifications := st_notifications a\<rparr>"
  "copy_field CaptchaProviderSettingKey a s = s\<lparr>st_captcha_provider := st_captcha_provider a\<rparr>"
  "copy_field KeyWhitelist a s = s\<lparr>st_whitelist := st_whitelist a\<rparr>"
  "copy_field KeyBlacklist a s = s\<lparr>st_blacklist := st_blacklist a\<rparr>"
  "copy_field KeyGravatarBaseURL a s = s\<lparr>st_gravatar_base_url := st_gravatar_base_url a\<rparr>"
  "copy_field KeyCommentSort a s = s\<lparr>st_comment_sort := st_comment_sort a\<rparr>"
  "copy_field KeyEmojiCatalogURL a s = s\<lparr>st_emoji_catalog_url := st_emoji_catalog_url a\<rparr>"
  "copy_field KeyUserAgreementURL a s = s\<lparr>st_user_agreement_url := st_user_agreement_url a\<rparr>"
  "copy_field KeyPrivacyPolicyURL a s = s\<lparr>st_privacy_policy_url := st_privacy_policy_url a\<rparr>"
  "copy_field KeyLegalConsentVersion a s = s\<lparr>st_legal_consent_version := st_legal_consent_version a\<rparr>"
  "copy_field KeyBrandPrimaryColor a s = s\<lparr>st_brand_primary_color := st_brand_primary_color a\<rparr>"
  by (simp_all add: copy_field_def)

lemma copy_field_elsewhere:
  assumes "k \<noteq> KeyCommentMode" "k \<noteq> KeyModeration" "k \<noteq> KeyUserDeleteMode" "k \<noteq> KeyMaxReplyDepth" "k \<noteq> KeyPublicRegistration" "k \<noteq> KeyPrivacy" "k \<noteq> KeyCaptchaPolicy" "k \<noteq> KeyNotifications" "k \<noteq> CaptchaProviderSettingKey" "k \<noteq> KeyWhitelist" "k \<noteq> KeyBlacklist" "k \<noteq> KeyGravatarBaseURL" "k \<noteq> KeyCommentSort" "k \<noteq> KeyEmojiCatalogURL" "k \<noteq> KeyUserAgreementURL" "k \<noteq> KeyPrivacyPolicyURL" "k \<noteq> KeyLegalConsentVersion" "k \<noteq> KeyBrandPrimaryColor"
  shows "copy_field k a s = s"
  using assms by (simp add: copy_field_def)

lemma applyItem_copies:
  assumes "applyItem E DefaultSettings it = Inr t"
  shows "applyItem E s it = Inr (copy_field (it_key it) t s)"
proof (cases "it_key it \<in> fst ` set knownSettings")
  case True
  then have known: "it_key it = KeyCommentMode \<or>
      it_key it = KeyModeration \<or>
      it_key it = KeyUserDeleteMode \<or>
      it_key it = KeyMaxReplyDepth \<or>
      it_key it = KeyPublicRegistration \<or>
      it_key it = KeyPrivacy \<or>
      it_key it = KeyCaptchaPolicy \<or>
      it_key it = KeyNotifications \<or>
      it_key it = CaptchaProviderSettingKey \<or>
      it_key it = KeyWhitelist \<or>
      it_key it = KeyBlacklist \<or>
      it_key it = KeyGravatarBaseURL \<or>
      it_key it = KeyCommentSort \<or>
      it_key it = KeyEmojiCatalogURL \<or>
      it_key it = KeyUserAgreementURL \<or>
      it_key it = KeyPrivacyPolicyURL \<or>
      it_key it = KeyLegalConsentVersion \<or>
      it_key it = KeyBrandPrimaryColor"
    unfolding knownSettings_def by simp
  then show ?thesis
    using assms
    by (cases it) (elim disjE; clarsimp; simp add: applyItem_def copy_field_at bindE_Inr_iff; clarsimp)
next
  case False
  then have "copy_field (it_key it) t s = s"
    by (intro copy_field_elsewhere) (auto simp: knownSettings_def)
  with assms False show ?thesis by (auto simp: applyItem_def knownSettings_def)
qed

lemma item_update_copies:
  "item_ok E it \<Longrightarrow> item_update E it s = copy_field (it_key it) (item_update E it DefaultSettings) s"
  using applyItem_copies [of E it "item_update E it DefaultSettings" s] by (simp add: applyItem_ok)

lemma item_update_same_key:
  "item_ok E a \<Longrightarrow> item_ok E b \<Longrightarrow> it_key a = it_key b \<Longrightarrow>
     item_update E b (item_update E a s) = item_update E b s"
  using item_update_copies [of E a s] item_update_copies [of E b s] item_update_copies [of E b "item_update E a s"]
  by (simp add: copy_field_same)

lemma item_update_commute:
  "item_ok E a \<Longrightarrow> item_ok E b \<Longrightarrow> it_key a \<noteq> it_key b \<Longrightarrow>
     item_update E a (item_update E b s) = item_update E b (item_update E a s)"
  using item_update_copies [of E a s] item_update_copies [of E b s] item_update_copies [of E b "item_update E a s"]
    item_update_copies [of E a "item_update E b s"]
  by (simp add: copy_field_commute)

section \<open>Lists of items\<close>

lemma applyItems_iff:
  "applyItems E s items = Inr s' \<longleftrightarrow>
     (\<forall>it \<in> set items. item_ok E it) \<and> s' = fold (item_update E) items s"
  by (induction items arbitrary: s) (auto simp: bindE_Inr_iff applyItem_iff)

lemma fold_item_update_commute:
  assumes "item_ok E a" "\<forall>it \<in> set items. item_ok E it \<and> it_key it \<noteq> it_key a"
  shows "fold (item_update E) items (item_update E a s) = item_update E a (fold (item_update E) items s)"
  using assms(2)
proof (induction items arbitrary: s)
  case (Cons b items)
  then have "item_update E b (item_update E a s) = item_update E a (item_update E b s)"
    by (intro item_update_commute) (auto simp: assms(1))
  with Cons show ?case by simp
qed simp

lemma fold_items_mset:
  assumes "mset xs = mset ys" "distinct (map it_key xs)" "\<forall>it \<in> set xs. item_ok E it"
  shows "fold (item_update E) xs = fold (item_update E) ys"
proof (rule fold_multiset_equiv)
  fix a b assume "a \<in> set xs" "b \<in> set xs"
  with assms(2,3) have "item_ok E a" "item_ok E b" "a \<noteq> b \<longrightarrow> it_key a \<noteq> it_key b"
    by (auto simp: inj_on_def distinct_map)
  then show "item_update E a \<circ> item_update E b = item_update E b \<circ> item_update E a"
    using item_update_commute [of E a b] by (cases "a = b") (auto simp: fun_eq_iff)
qed (rule assms(1))

section \<open>Rows\<close>

definition row_item :: "setting_env \<Rightarrow> setting_row \<Rightarrow> setting_item" where
  "row_item E r =
     \<lparr>it_key = sr_key r, it_type = sr_type r,
      it_value = (case sr_value r of None \<Rightarrow> JvNull | Some v \<Rightarrow> interface_of (se_floats E) v)\<rparr>"

definition row_ok :: "setting_env \<Rightarrow> setting_row \<Rightarrow> bool" where
  "row_ok E r \<longleftrightarrow>
     sr_value r \<noteq> None \<and> (\<forall>t. knownType (sr_key r) = Some t \<longrightarrow> sr_type r = t) \<and> item_ok E (row_item E r)"

abbreviation shown_rows :: "setting_row list \<Rightarrow> setting_row list" where
  "shown_rows rows \<equiv> filter (\<lambda>r. \<not> hidden_row r) rows"

definition snapshot :: "setting_env \<Rightarrow> setting_row list \<Rightarrow> instance_settings" where
  "snapshot E rows = fold (item_update E) (map (row_item E) (shown_rows rows)) DefaultSettings"

lemma row_item_key [simp]: "it_key (row_item E r) = sr_key r"
  by (simp add: row_item_def)

lemma row_items_iff:
  "row_items E rows = Inr items \<longleftrightarrow>
     (\<forall>r \<in> set (shown_rows rows). sr_value r \<noteq> None \<and> (\<forall>t. knownType (sr_key r) = Some t \<longrightarrow> sr_type r = t)) \<and>
     items = map (row_item E) (shown_rows rows)"
  by (induction rows arbitrary: items)
    (auto simp: bindE_Inr_iff decoded_value_def row_item_def split: option.splits)

lemma settingsFromRows_iff:
  "settingsFromRows E rows = Inr s \<longleftrightarrow>
     (\<forall>r \<in> set (shown_rows rows). row_ok E r) \<and> s = snapshot E rows \<and> ValidateSettings (se_lib E) s = Inr ()"
  by (auto simp: settingsFromRows_def bindE_Inr_iff row_items_iff applyItems_iff row_ok_def snapshot_def)

lemma snapshot_mset:
  assumes "mset rows = mset rows'" "distinct (map sr_key rows)" "\<forall>r \<in> set (shown_rows rows). row_ok E r"
  shows "snapshot E rows = snapshot E rows'"
proof -
  have "fold (item_update E) (map (row_item E) (shown_rows rows)) =
      fold (item_update E) (map (row_item E) (shown_rows rows'))"
  proof (rule fold_items_mset)
    show "mset (map (row_item E) (shown_rows rows)) = mset (map (row_item E) (shown_rows rows'))"
      by (simp add: assms(1) mset_filter)
    show "distinct (map it_key (map (row_item E) (shown_rows rows)))"
      using assms(2) by (simp add: comp_def distinct_map_filter)
    show "\<forall>it \<in> set (map (row_item E) (shown_rows rows)). item_ok E it"
      using assms(3) by (auto simp: row_ok_def)
  qed
  then show ?thesis by (simp add: snapshot_def)
qed

lemma settingsFromRows_mset:
  assumes "mset rows = mset rows'" "distinct (map sr_key rows)"
  shows "settingsFromRows E rows = Inr s \<longleftrightarrow> settingsFromRows E rows' = Inr s"
proof -
  have "set (shown_rows rows) = set (shown_rows rows')"
    using mset_eq_setD [OF assms(1)] by simp
  then show ?thesis
    using snapshot_mset [OF assms] by (auto simp: settingsFromRows_iff)
qed

lemma mset_rows_by_key: "mset (rows_by_key rows) = mset rows"
  by (simp add: rows_by_key_def)

lemma rows_by_key_distinct [simp]: "distinct (map sr_key (rows_by_key rows)) \<longleftrightarrow> distinct (map sr_key rows)"
  by (metis mset_rows_by_key mset_map mset_eq_imp_distinct_iff)

lemma set_rows_by_key [simp]: "set (rows_by_key rows) = set rows"
  by (simp add: rows_by_key_def)

lemma loads_by_key:
  "distinct (map sr_key rows) \<Longrightarrow> settingsFromRows E (rows_by_key rows) = Inr s \<longleftrightarrow> settingsFromRows E rows = Inr s"
  by (rule settingsFromRows_mset) (simp_all add: mset_rows_by_key)

text \<open>
  What the statements of the settings repository do to the rows: keys stay distinct, a key looked up after an
  upsert gives the row written, and the snapshot follows the item.
\<close>

section \<open>Look-up\<close>

abbreviation row_at :: "string \<Rightarrow> setting_row list \<Rightarrow> setting_row option" where
  "row_at key rows \<equiv> find (\<lambda>r. sr_key r = key) rows"

lemma row_at_iff:
  "distinct (map sr_key rows) \<Longrightarrow> row_at key rows = Some r \<longleftrightarrow> r \<in> set rows \<and> sr_key r = key"
  by (induction rows) auto

lemma row_at_None: "row_at key rows = None \<longleftrightarrow> key \<notin> sr_key ` set rows"
  by (auto simp: find_None_iff)

lemma row_at_cong:
  assumes "set rows = set rows'" "distinct (map sr_key rows)" "distinct (map sr_key rows')"
  shows "row_at key rows = row_at key rows'"
proof (cases "row_at key rows")
  case None
  with assms show ?thesis by (metis row_at_None)
next
  case (Some r)
  with assms show ?thesis by (metis row_at_iff)
qed

lemma row_at_by_key: "distinct (map sr_key rows) \<Longrightarrow> row_at key (rows_by_key rows) = row_at key rows"
  by (intro row_at_cong) simp_all

lemma rows_by_key_filter: "rows_by_key (filter P rows) = filter P (rows_by_key rows)"
  unfolding rows_by_key_def by (simp add: filter_sort)

lemma row_at_filter: "(\<And>r. sr_key r = key \<Longrightarrow> P r) \<Longrightarrow> row_at key (filter P rows) = row_at key rows"
  by (induction rows) auto

section \<open>Upserts\<close>

lemma upsert_replaces:
  assumes "distinct (map sr_key rows)" "sr_key r \<in> sr_key ` set rows"
  shows "upsert_setting_row r rows = map (\<lambda>x. if sr_key x = sr_key r then r else x) rows"
  using assms(2) by (auto simp: upsert_setting_row_def update_where_def intro!: setting_row.equality)

lemma upsert_keys:
  "map sr_key (upsert_setting_row r rows) =
     (if sr_key r \<in> sr_key ` set rows then map sr_key rows else map sr_key rows @ [sr_key r])"
  by (auto simp: upsert_setting_row_def update_where_def comp_def)

lemma upsert_distinct [simp]: "distinct (map sr_key rows) \<Longrightarrow> distinct (map sr_key (upsert_setting_row r rows))"
  by (simp only: upsert_keys split: if_split) auto

lemma set_upsert:
  assumes "distinct (map sr_key rows)"
  shows "set (upsert_setting_row r rows) = insert r {x \<in> set rows. sr_key x \<noteq> sr_key r}"
proof (cases "sr_key r \<in> sr_key ` set rows")
  case True
  then show ?thesis using upsert_replaces [OF assms True] by auto
next
  case False
  then have "sr_key x \<noteq> sr_key r" if "x \<in> set rows" for x
    using that by (metis imageI)
  with False show ?thesis by (auto simp: upsert_setting_row_def)
qed

lemma row_at_upsert:
  assumes "distinct (map sr_key rows)"
  shows "row_at key (upsert_setting_row r rows) = (if key = sr_key r then Some r else row_at key rows)"
proof (cases "key = sr_key r")
  case True
  then show ?thesis using row_at_iff [OF upsert_distinct [OF assms], of key r r] assms by (simp add: set_upsert)
next
  case False
  then have "row_at key (upsert_setting_row r rows) = Some x \<longleftrightarrow> row_at key rows = Some x" for x
    using assms row_at_iff [OF upsert_distinct [OF assms], of key r x] by (auto simp: set_upsert row_at_iff)
  with False show ?thesis by (metis not_Some_eq)
qed

lemma distinct_rows_mset: "distinct (map sr_key rows) \<Longrightarrow> mset rows = mset_set (set rows)"
  by (simp add: mset_set_set distinct_map)

lemma upsert_mset:
  assumes "distinct (map sr_key rows)"
  shows "mset (upsert_setting_row r rows) = mset (filter (\<lambda>x. sr_key x \<noteq> sr_key r) rows @ [r])"
proof -
  let ?rest = "filter (\<lambda>x. sr_key x \<noteq> sr_key r) rows"
  have d: "distinct (map sr_key (?rest @ [r]))"
    using assms by (auto simp: distinct_map_filter)
  have "set (upsert_setting_row r rows) = set (?rest @ [r])" using assms by (auto simp: set_upsert)
  then show ?thesis
    using distinct_rows_mset [OF upsert_distinct [OF assms]] distinct_rows_mset [OF d] by metis
qed

lemma snapshot_append:
  "snapshot E (rows @ [r]) =
     (if hidden_row r then snapshot E rows else item_update E (row_item E r) (snapshot E rows))"
  by (simp add: snapshot_def)

lemma snapshot_upsert:
  assumes d: "distinct (map sr_key rows)" and ok: "\<forall>x \<in> set (shown_rows rows). row_ok E x" and r: "row_ok E r"
    and vis: "\<not> hidden_row r"
  shows "snapshot E (upsert_setting_row r rows) = item_update E (row_item E r) (snapshot E rows)"
proof -
  let ?rest = "filter (\<lambda>x. sr_key x \<noteq> sr_key r) rows"
  have rest: "distinct (map sr_key ?rest)" using d by (simp add: distinct_map_filter)
  have "snapshot E (upsert_setting_row r rows) = snapshot E (?rest @ [r])"
    using d ok r by (intro snapshot_mset upsert_mset) (auto simp: set_upsert)
  then have new: "snapshot E (upsert_setting_row r rows) = item_update E (row_item E r) (snapshot E ?rest)"
    using vis by (simp add: snapshot_append)
  show ?thesis
  proof (cases "row_at (sr_key r) rows")
    case None
    then have "?rest = rows" by (auto simp: find_None_iff filter_id_conv)
    with new show ?thesis by simp
  next
    case (Some x)
    with d have x: "x \<in> set rows" "sr_key x = sr_key r" by (auto simp: row_at_iff)
    have "set rows = set (?rest @ [x])"
      using x d by (auto simp: inj_on_def distinct_map)
    moreover have "distinct (map sr_key (?rest @ [x]))"
      using rest x by auto
    ultimately have "mset rows = mset (?rest @ [x])"
      using d distinct_rows_mset by metis
    then have "snapshot E rows = snapshot E (?rest @ [x])"
      using d ok by (intro snapshot_mset)
    moreover have "\<not> hidden_row x" using vis x by (simp add: hidden_row_def)
    moreover from this have "item_ok E (row_item E x)" using ok x by (auto simp: row_ok_def)
    ultimately show ?thesis
      using new r x by (simp add: snapshot_append item_update_same_key row_ok_def)
  qed
qed

lemma snapshot_upsert_hidden:
  assumes d: "distinct (map sr_key rows)" and ok: "\<forall>x \<in> set (shown_rows rows). row_ok E x" and h: "hidden_row r"
  shows "snapshot E (upsert_setting_row r rows) = snapshot E rows"
proof -
  have "x \<in> set (shown_rows (upsert_setting_row r rows)) \<longleftrightarrow> x \<in> set (shown_rows rows)" for x
    using h d by (auto simp: set_upsert hidden_row_def)
  moreover have "distinct (map sr_key (shown_rows xs))" if "distinct (map sr_key xs)" for xs
    using that by (simp add: distinct_map_filter)
  ultimately have "mset (shown_rows (upsert_setting_row r rows)) = mset (shown_rows rows)"
    using d distinct_rows_mset upsert_distinct by (metis subset_antisym subsetI)
  moreover have "snapshot E xs = snapshot E (shown_rows xs)" for xs
    by (simp add: snapshot_def)
  ultimately show ?thesis
    using snapshot_mset [of "shown_rows (upsert_setting_row r rows)" "shown_rows rows" E] ok d h
    by (auto simp: distinct_map_filter set_upsert hidden_row_def)
qed

lemma rows_ok_upsert: "rows_ok rows \<Longrightarrow> sr_type r \<in> set setting_types \<Longrightarrow> rows_ok (upsert_setting_row r rows)"
  by (auto simp: rows_ok_def list_all_iff set_upsert)

lemma rows_ok_insert_missing:
  "rows_ok rows \<Longrightarrow> sr_type r \<in> set setting_types \<Longrightarrow> rows_ok (insert_missing r rows)"
  by (auto simp: rows_ok_def list_all_iff insert_missing_def)

text \<open>
  What the operations of the settings service do to the stored settings: seeding completes the rows, a patch
  stores the items and bumps the epoch, and the next snapshot is the old one with the items applied.
\<close>

section \<open>Complete rows\<close>

definition required_keys :: "string set" where
  "required_keys = insert KeyInternalEpoch (sr_key ` set defaultItems)"

lemma missingRows_Nil_iff: "missingRows rows = [] \<longleftrightarrow> required_keys \<subseteq> sr_key ` set rows"
  unfolding missingRows_def required_keys_def by (auto simp: filter_empty_conv split: if_splits)

lemma missingRows_cong: "sr_key ` set rows = sr_key ` set rows' \<Longrightarrow> missingRows rows = missingRows rows'"
  by (simp add: missingRows_def)

lemma missingRows_by_key [simp]: "missingRows (rows_by_key rows) = missingRows rows"
  by (rule missingRows_cong) simp

lemma missingRows_keys: "required_keys \<subseteq> sr_key ` set rows \<union> sr_key ` set (missingRows rows)"
  unfolding missingRows_def required_keys_def by (auto simp: epoch_row_def)

lemma insert_missing_keys: "sr_key ` set (insert_missing r rows) = insert (sr_key r) (sr_key ` set rows)"
  by (auto simp: insert_missing_def)

lemma fold_insert_missing_keys:
  "sr_key ` set (fold insert_missing new rows) = sr_key ` set new \<union> sr_key ` set rows"
  by (induction new arbitrary: rows) (auto simp: insert_missing_keys)

lemma fold_insert_missing_ok:
  "rows_ok rows \<Longrightarrow> list_all (\<lambda>r. sr_type r \<in> set setting_types) new \<Longrightarrow> rows_ok (fold insert_missing new rows)"
  by (induction new arbitrary: rows) (auto simp: rows_ok_insert_missing)

definition seeded :: "setting_row list \<Rightarrow> setting_row list" where
  "seeded rows = fold insert_missing (missingRows rows) rows"

lemma seeded_complete: "missingRows (seeded rows) = []"
  unfolding missingRows_Nil_iff seeded_def fold_insert_missing_keys using missingRows_keys by blast

lemma seeded_id: "missingRows rows = [] \<Longrightarrow> seeded rows = rows"
  by (simp add: seeded_def)

section \<open>Statements that succeed\<close>

lemma setting_query_iff [prog_elims]:
  "setting_query g w = (Inr y, w') \<longleftrightarrow>
     (faults w = [] \<or> \<not> hd (faults w)) \<and> y = g (ss_rows (data w)) \<and> w' = w\<lparr>faults := tl (faults w)\<rparr>"
  by (simp add: setting_query_def query_iff)

lemma setting_write_iff [prog_elims]:
  "setting_write brought f w = (Inr u, w') \<longleftrightarrow>
     (faults w = [] \<or> \<not> hd (faults w)) \<and> list_all (\<lambda>r. sr_type r \<in> set setting_types) brought \<and>
     w' = w\<lparr>faults := tl (faults w), data := (data w)\<lparr>ss_rows := f (ss_rows (data w))\<rparr>\<rparr>"
  by (auto simp: setting_write_def stmt_iff split: if_splits)

text \<open>The rows and the cache after a step, without the oracle.\<close>

lemma ListSettings_data:
  "ListSettings w = (Inr rows, w') \<Longrightarrow> rows = rows_by_key (ss_rows (data w)) \<and> data w' = data w"
  by (auto simp: ListSettings_def prog_elims)

lemma LockRows_data:
  "LockRows keys w = (Inr rows, w') \<Longrightarrow>
     rows = rows_by_key (filter (\<lambda>r. sr_key r \<in> set keys) (ss_rows (data w))) \<and> data w' = data w"
  by (auto simp: LockRows_def prog_elims)

lemma SeedMissing_data:
  "SeedMissing new w = (Inr u, w') \<Longrightarrow>
     list_all (\<lambda>r. sr_type r \<in> set setting_types) new \<and>
     data w' = (data w)\<lparr>ss_rows := fold insert_missing new (ss_rows (data w))\<rparr>"
  by (auto simp: SeedMissing_def prog_elims split: if_splits)

lemma UpsertSettings_data:
  "UpsertSettings new w = (Inr u, w') \<Longrightarrow>
     list_all (\<lambda>r. sr_type r \<in> set setting_types) new \<and>
     data w' = (data w)\<lparr>ss_rows := fold upsert_setting_row new (ss_rows (data w))\<rparr>"
  by (auto simp: UpsertSettings_def prog_elims split: if_splits)

lemma seeded_rows_data:
  assumes "seeded_rows w = (Inr rows, w')" "rows_ok (ss_rows (data w))"
  shows "data w' = (data w)\<lparr>ss_rows := seeded (ss_rows (data w))\<rparr>" "rows = rows_by_key (seeded (ss_rows (data w)))"
    "rows_ok (seeded (ss_rows (data w)))"
proof -
  have "data w' = (data w)\<lparr>ss_rows := seeded (ss_rows (data w))\<rparr> \<and> rows = rows_by_key (seeded (ss_rows (data w))) \<and>
      rows_ok (seeded (ss_rows (data w)))"
    using assms
    by (auto simp: seeded_rows_def prog_elims seeded_def
        dest!: ListSettings_data SeedMissing_data intro!: fold_insert_missing_ok split: if_splits)
  then show "data w' = (data w)\<lparr>ss_rows := seeded (ss_rows (data w))\<rparr>"
    "rows = rows_by_key (seeded (ss_rows (data w)))" "rows_ok (seeded (ss_rows (data w)))" by auto
qed

section \<open>Upserting items\<close>

lemma validate_items_all:
  "validate_items F seen items = Inr u \<Longrightarrow>
     (\<forall>it \<in> set items. validPublicKey (it_key it) \<and> it_key it \<notin> set seen \<and> item_type_ok F it \<and>
        (\<forall>t. knownType (it_key it) = Some t \<longrightarrow> t = it_type it)) \<and> distinct (map it_key items)"
  by (induction F seen items rule: validate_items.induct)
    (auto simp: bindE_Inr_iff validateItemType_def split: option.splits)

lemma row_item_of_item:
  assumes "interface_of (se_floats E) (it_value it) = it_value it"
  shows "row_item E (item_row admin it) = it"
  using assms by (simp add: row_item_def item_row_def)

lemma upsert_items:
  fixes admin :: int
  assumes "distinct (map sr_key rows)" "\<forall>x \<in> set (shown_rows rows). row_ok E x"
    "\<forall>it \<in> set items. validPublicKey (it_key it) \<and> (\<forall>t. knownType (it_key it) = Some t \<longrightarrow> t = it_type it) \<and>
       item_ok E it \<and> interface_of (se_floats E) (it_value it) = it_value it"
  defines "rows' \<equiv> fold upsert_setting_row (map (item_row admin) items) rows"
  shows "distinct (map sr_key rows') \<and> (\<forall>x \<in> set (shown_rows rows'). row_ok E x) \<and>
    snapshot E rows' = fold (item_update E) items (snapshot E rows) \<and>
    sr_key ` set rows \<subseteq> sr_key ` set rows' \<and> row_at KeyInternalEpoch rows' = row_at KeyInternalEpoch rows"
  using assms(1-3) unfolding rows'_def
proof (induction items arbitrary: rows)
  case (Cons it items)
  let ?r = "item_row admin it"
  have key: "sr_key ?r = it_key it" by (simp add: item_row_def)
  have ok: "row_ok E ?r"
    using Cons.prems by (auto simp: row_ok_def row_item_of_item) (simp_all add: item_row_def)
  have vis: "\<not> hidden_row ?r" and internal: "it_key it \<noteq> KeyInternalEpoch"
    using Cons.prems by (auto simp: hidden_row_def item_row_def validPublicKey_def isInternalKey_def HasPrefix_def)
  have "snapshot E (upsert_setting_row ?r rows) = item_update E it (snapshot E rows)"
    using snapshot_upsert [OF Cons.prems(1,2) ok vis] Cons.prems by (simp add: row_item_of_item)
  moreover have "\<forall>x \<in> set (shown_rows (upsert_setting_row ?r rows)). row_ok E x"
    using Cons.prems(1,2) ok by (auto simp: set_upsert)
  moreover have "sr_key ` set rows \<subseteq> sr_key ` set (upsert_setting_row ?r rows)"
    using Cons.prems(1) by (auto simp: set_upsert)
  moreover have "row_at KeyInternalEpoch (upsert_setting_row ?r rows) = row_at KeyInternalEpoch rows"
    using row_at_upsert [OF Cons.prems(1), of KeyInternalEpoch ?r] internal key by simp
  ultimately have
    snap: "snapshot E (upsert_setting_row ?r rows) = item_update E it (snapshot E rows)" and
    ok': "\<forall>x \<in> set (shown_rows (upsert_setting_row ?r rows)). row_ok E x" and
    keys: "sr_key ` set rows \<subseteq> sr_key ` set (upsert_setting_row ?r rows)" and
    epoch: "row_at KeyInternalEpoch (upsert_setting_row ?r rows) = row_at KeyInternalEpoch rows" by blast+
  have step: "fold upsert_setting_row (map (item_row admin) (it # items)) rows =
      fold upsert_setting_row (map (item_row admin) items) (upsert_setting_row ?r rows)" by simp
  have rest: "\<forall>it \<in> set items. validPublicKey (it_key it) \<and> (\<forall>t. knownType (it_key it) = Some t \<longrightarrow> t = it_type it) \<and>
      item_ok E it \<and> interface_of (se_floats E) (it_value it) = it_value it"
    using Cons.prems(3) by simp
  show ?case
    unfolding step using Cons.IH [OF upsert_distinct [OF Cons.prems(1)] ok' rest] snap keys epoch by force
qed simp

section \<open>Patch\<close>

definition changes_mode :: "setting_item list \<Rightarrow> setting_row list \<Rightarrow> bool" where
  "changes_mode items rows \<longleftrightarrow>
     hasKey items KeyCommentMode \<and> JvString (modeOf rows) \<noteq> itemValue items KeyCommentMode"

definition epoch_after :: "setting_item list \<Rightarrow> setting_row list \<Rightarrow> int" where
  "epoch_after items rows =
     (if changes_mode items rows then next_epoch (epochFromRows rows) else epochFromRows rows)"

lemma in_int64_dec: "dec_int64 v old = Some n \<Longrightarrow> in_int64 old \<Longrightarrow> in_int64 n"
  by (cases "(v, old)" rule: dec_int64.cases) (auto split: if_splits)

lemma in_int64_epoch: "in_int64 (epochFromRows rows)"
  unfolding epochFromRows_def stored_int_def
  by (auto split: option.splits dest!: in_int64_dec) (auto simp: in_int64_def max_int64_def)

lemma in_int64_next: "in_int64 n \<Longrightarrow> in_int64 (next_epoch n)"
  by (auto simp: next_epoch_def in_int64_def max_int64_def)

lemma epoch_of_epoch_row: "in_int64 n \<Longrightarrow> stored_int (epoch_row n u) old = Some n"
  by (simp add: epoch_row_def stored_int_def)

lemma locked_rows_agree:
  assumes "distinct (map sr_key rows)"
  defines "locked \<equiv> rows_by_key (filter (\<lambda>r. sr_key r \<in> set [KeyCommentMode, KeyInternalEpoch]) rows)"
  shows "epochFromRows locked = epochFromRows rows" "modeOf locked = modeOf rows"
proof -
  have "row_at key locked = row_at key rows" if "key \<in> {KeyCommentMode, KeyInternalEpoch}" for key
    using that assms by (simp add: locked_def row_at_by_key distinct_map_filter) (auto intro: row_at_filter)
  then show "epochFromRows locked = epochFromRows rows" "modeOf locked = modeOf rows"
    by (simp_all add: epochFromRows_def modeOf_def)
qed

lemma LockRows_epoch:
  assumes "LockRows [KeyCommentMode, KeyInternalEpoch] w = (Inr locked, w')" "distinct (map sr_key (ss_rows (data w)))"
  shows "data w' = data w" "epochFromRows locked = epochFromRows (ss_rows (data w))"
    "modeOf locked = modeOf (ss_rows (data w))"
  using LockRows_data [OF assms(1)] locked_rows_agree [OF assms(2)] by simp_all

lemma epoch_writes_data:
  assumes "epoch_writes items admin w = (Inr extra, w')" "distinct (map sr_key (ss_rows (data w)))"
  shows "data w' = data w \<and>
    extra = (if changes_mode items (ss_rows (data w)) then [epoch_row (epoch_after items (ss_rows (data w))) admin] else [])"
proof (cases "hasKey items KeyCommentMode")
  case True
  then obtain locked where lock: "LockRows [KeyCommentMode, KeyInternalEpoch] w = (Inr locked, w')" and
    "extra = (if JvString (modeOf locked) \<noteq> itemValue items KeyCommentMode
       then [epoch_row (next_epoch (epochFromRows locked)) admin] else [])"
    using assms(1) by (auto simp: epoch_writes_def bind_iff ret_iff)
  with LockRows_epoch [OF lock assms(2)] True show ?thesis
    by (simp add: changes_mode_def epoch_after_def)
next
  case False
  with assms(1) show ?thesis by (simp add: epoch_writes_def changes_mode_def)
qed

lemma epoch_cong: "row_at KeyInternalEpoch rows = row_at KeyInternalEpoch rows' \<Longrightarrow> epochFromRows rows = epochFromRows rows'"
  by (simp add: epochFromRows_def)

lemma loads_rows:
  "distinct (map sr_key rows) \<Longrightarrow> settingsFromRows E (rows_by_key rows) = Inr s \<longleftrightarrow>
     (\<forall>r \<in> set (shown_rows rows). row_ok E r) \<and> s = snapshot E rows \<and> ValidateSettings (se_lib E) s = Inr ()"
  using loads_by_key [of rows E s] settingsFromRows_iff [of E rows s] by simp

text \<open>A program that reads.\<close>

definition only_reads :: "'a setting_op \<Rightarrow> bool" where
  "only_reads m \<longleftrightarrow> (\<forall>w r w'. m w = (r, w') \<longrightarrow> data w' = data w)"

lemma patch_tx_effect:
  assumes run: "patch_tx E validator items admin w = (Inr u, w')"
    and ok: "rows_ok (ss_rows (data w))" and valid: "validatePatch (se_floats E) items = Inr v"
    and decoded: "\<forall>it \<in> set items. interface_of (se_floats E) (it_value it) = it_value it"
    and validator: "\<And>check k. validator = Some check \<Longrightarrow> only_reads (check k)"
  defines "rows \<equiv> seeded (ss_rows (data w))"
  shows "\<exists>s s' rows'. settingsFromRows E (rows_by_key rows) = Inr s \<and> applyItems E s items = Inr s' \<and>
    data w' = (data w)\<lparr>ss_rows := rows'\<rparr> \<and> distinct (map sr_key rows') \<and> missingRows rows' = [] \<and>
    settingsFromRows E (rows_by_key rows') = Inr s' \<and> epochFromRows rows' = epoch_after items rows \<and>
    rows' = fold upsert_setting_row
      (map (item_row admin) items @ (if changes_mode items rows then [epoch_row (epoch_after items rows) admin] else [])) rows"
proof -
  define check where "check k = (if hasKey items CaptchaProviderSettingKey then
      (case validator of None \<Rightarrow> fail ErrCaptchaUnavailable | Some validate \<Rightarrow> validate k) else ret ())" for k
  have reads: "data w2 = data w1" if "check k w1 = (Inr x, w2)" for k w1 w2 x
    using that validator by (auto simp: check_def only_reads_def prog_elims split: if_splits option.splits)
  obtain listed s s' w1 w2 w3 extra where
    listed: "seeded_rows w = (Inr listed, w1)" and s0: "settingsFromRows E listed = Inr s"
    and s': "applyItems E s items = Inr s'" and v': "ValidateSettings (se_lib E) s' = Inr ()"
    and checked: "check (st_captcha_provider s') w1 = (Inr (), w2)"
    and extra: "epoch_writes items admin w2 = (Inr extra, w3)"
    and upsert: "UpsertSettings (map (item_row admin) items @ extra) w3 = (Inr u, w')"
    using run unfolding patch_tx_def check_def [symmetric] by (auto simp: bind_iff lift_iff)
  have "listed = rows_by_key rows" using seeded_rows_data(2) [OF listed ok] by (simp add: rows_def)
  with listed s0 have seed: "seeded_rows w = (Inr (rows_by_key rows), w1)" and s: "settingsFromRows E (rows_by_key rows) = Inr s"
    by simp_all
  have check: "data w2 = data w1" using reads [OF checked] .
  have w1: "data w1 = (data w)\<lparr>ss_rows := rows\<rparr>" and rows_ok: "rows_ok rows"
    using seeded_rows_data [OF seed ok] by (simp_all add: rows_def)
  then have d: "distinct (map sr_key rows)" by (simp add: rows_ok_def)
  have w3: "data w3 = (data w)\<lparr>ss_rows := rows\<rparr>"
    and ex: "extra = (if changes_mode items rows then [epoch_row (epoch_after items rows) admin] else [])"
    using epoch_writes_data [OF extra] d by (auto simp: check w1)
  have items: "\<forall>it \<in> set items. validPublicKey (it_key it) \<and> (\<forall>t. knownType (it_key it) = Some t \<longrightarrow> t = it_type it) \<and>
      item_ok E it \<and> interface_of (se_floats E) (it_value it) = it_value it"
    using validate_items_all [of "se_floats E" "[]" items] valid s' decoded
    by (auto simp: validatePatch_def applyItems_iff split: if_splits)
  have loads: "\<forall>r \<in> set (shown_rows rows). row_ok E r" "s = snapshot E rows"
    using s d by (simp_all add: loads_rows)
  define mid where "mid = fold upsert_setting_row (map (item_row admin) items) rows"
  define rows' where "rows' = fold upsert_setting_row extra mid"
  have mid: "distinct (map sr_key mid)" "\<forall>x \<in> set (shown_rows mid). row_ok E x" "snapshot E mid = s'"
    "sr_key ` set rows \<subseteq> sr_key ` set mid" "row_at KeyInternalEpoch mid = row_at KeyInternalEpoch rows"
    using upsert_items [OF d loads(1) items, of admin] s' loads(2) by (auto simp: mid_def applyItems_iff)
  have hidden: "hidden_row (epoch_row n admin)" "sr_key (epoch_row n admin) = KeyInternalEpoch" for n
    by (simp_all add: hidden_row_def epoch_row_def isInternalKey_def HasPrefix_def)
  have final: "distinct (map sr_key rows') \<and> (\<forall>x \<in> set (shown_rows rows'). row_ok E x) \<and> snapshot E rows' = s' \<and>
      sr_key ` set rows \<subseteq> sr_key ` set rows' \<and> epochFromRows rows' = epoch_after items rows"
  proof (cases "changes_mode items rows")
    case False
    with mid ex show ?thesis
      by (auto simp: rows'_def epoch_after_def intro: epoch_cong)
  next
    case True
    let ?r = "epoch_row (epoch_after items rows) admin"
    have up: "rows' = upsert_setting_row ?r mid" using True ex by (simp add: rows'_def)
    have "in_int64 (epoch_after items rows)"
      by (simp add: epoch_after_def in_int64_epoch in_int64_next)
    moreover have "row_at KeyInternalEpoch rows' = Some ?r"
      unfolding up using row_at_upsert [OF mid(1), of KeyInternalEpoch ?r] hidden(2) by simp
    ultimately have "epochFromRows rows' = epoch_after items rows"
      by (simp add: epochFromRows_def epoch_of_epoch_row)
    moreover have "snapshot E rows' = s'"
      unfolding up using snapshot_upsert_hidden [OF mid(1,2) hidden(1)] mid(3) by simp
    moreover have "set rows' = insert ?r {x \<in> set mid. sr_key x \<noteq> KeyInternalEpoch}"
      unfolding up using set_upsert [OF mid(1)] hidden(2) by simp
    moreover from this have "sr_key ` set mid \<subseteq> sr_key ` set rows'"
      using hidden(2) by auto
    then have "sr_key ` set rows \<subseteq> sr_key ` set rows'" using mid(4) by (rule order_trans [rotated])
    moreover have "distinct (map sr_key rows')" unfolding up using mid(1) by simp
    moreover have "\<forall>x \<in> set (shown_rows rows'). row_ok E x"
      using calculation(3) mid(2) hidden(1) by auto
    ultimately show ?thesis by simp
  qed
  have "missingRows rows' = []"
    using seeded_complete [of "ss_rows (data w)"] final unfolding missingRows_Nil_iff rows_def by blast
  moreover have "data w' = (data w)\<lparr>ss_rows := rows'\<rparr>"
    using UpsertSettings_data [OF upsert] w3 by (simp add: rows'_def mid_def)
  moreover have "settingsFromRows E (rows_by_key rows') = Inr s'"
    using final v' by (simp add: loads_rows)
  moreover have "rows' = fold upsert_setting_row (map (item_row admin) items @
      (if changes_mode items rows then [epoch_row (epoch_after items rows) admin] else [])) rows"
    by (simp add: rows'_def mid_def ex)
  ultimately show ?thesis using s s' final by blast
qed

end
