(* ===== verification/Captcha.thy ===== *)
theory Captcha
  imports Json Urlx Notifier Settings
begin

text \<open>
  CAPTCHA verification: the adapter of the four providers (\<open>internal/platform/captcha/captcha.go\<close>) and the
  gateway in front of it (\<open>internal/service/captcha/gateway.go\<close>), which keeps one verifier per
  configuration.  The HTTP client and the decoder that reads the first document of a stream are fields of
  \<open>captcha_http\<close>.
\<close>

section \<open>The adapter (platform/captcha)\<close>

datatype captcha_error = CaptchaUnavailable | CaptchaFailed | CaptchaUnsupported | CaptchaRequired

record captcha_config =
  cap_provider :: string
  cap_site_key :: string
  cap_secret_key :: string
  cap_endpoint :: string

record captcha_http =
  ch_lib :: library
  ch_urls :: url_builder
  ch_request :: "string \<Rightarrow> bool"
  ch_do :: "http_request \<Rightarrow> transport_error + http_response"
  ch_decode :: "string \<Rightarrow> json_value option"

definition validatedOverrideOrDefault :: "captcha_http \<Rightarrow> string \<Rightarrow> string \<Rightarrow> captcha_error + string" where
  "validatedOverrideOrDefault H override fallback =
     (if TrimSpace override = '''' then Inr fallback
      else (case ParseHTTPBase (ch_lib H) override of
              None \<Rightarrow> Inl CaptchaUnavailable | Some u \<Rightarrow> Inr (lib_string (ch_lib H) u)))"

definition siteVerifyURL :: "captcha_http \<Rightarrow> captcha_config \<Rightarrow> captcha_error + string" where
  "siteVerifyURL H cfg =
     (if cap_provider cfg = ''turnstile'' then
        validatedOverrideOrDefault H (cap_endpoint cfg) ''https://challenges.cloudflare.com/turnstile/v0/siteverify''
      else if cap_provider cfg = ''recaptcha'' then
        validatedOverrideOrDefault H (cap_endpoint cfg) ''https://www.google.com/recaptcha/api/siteverify''
      else if cap_provider cfg = ''hcaptcha'' then
        validatedOverrideOrDefault H (cap_endpoint cfg) ''https://hcaptcha.com/siteverify''
      else if cap_provider cfg = ''cap'' then
        (if TrimSpace (cap_endpoint cfg) = '''' then Inl CaptchaUnavailable
         else (case ParseHTTPBase (ch_lib H) (cap_endpoint cfg) of
                 None \<Rightarrow> Inl CaptchaUnavailable
               | Some base \<Rightarrow>
                   Inr (lib_string (ch_lib H) (JoinPathSegments (ch_urls H) base [cap_site_key cfg, ''siteverify'']))))
      else Inl CaptchaUnsupported)"

definition WidgetAPIURL :: "captcha_http \<Rightarrow> captcha_config \<Rightarrow> string" where
  "WidgetAPIURL H cfg =
     (if cap_provider cfg \<noteq> ''cap'' \<or> TrimSpace (cap_endpoint cfg) = '''' then ''''
      else (case ParseHTTPBase (ch_lib H) (cap_endpoint cfg) of
              None \<Rightarrow> ''''
            | Some base \<Rightarrow> lib_string (ch_lib H) (JoinPathDirectory (ch_urls H) base [cap_site_key cfg])))"

text \<open>A verifier: its configuration, the host name it insists on (none in the program) and the address.\<close>

record captcha_verifier =
  vf_config :: captcha_config
  vf_hostname :: string
  vf_endpoint :: string

definition new_verifier :: "captcha_http \<Rightarrow> captcha_config \<Rightarrow> string \<Rightarrow> captcha_error + captcha_verifier" where
  "new_verifier H cfg hostname =
     bindE (siteVerifyURL H cfg) (\<lambda>endpoint.
     if TrimSpace (cap_secret_key cfg) = '''' then Inl CaptchaUnavailable
     else Inr \<lparr>vf_config = cfg, vf_hostname = hostname, vf_endpoint = endpoint\<rparr>)"

record verify_response =
  vr_success :: bool
  vr_codes :: "string list"
  vr_hostname :: string
  vr_action :: string

definition set_response :: "string \<Rightarrow> json_value \<Rightarrow> verify_response \<Rightarrow> verify_response option" where
  "set_response name v r =
     (if name = ''success'' then set_decoded (\<lambda>x. r\<lparr>vr_success := x\<rparr>) (dec_bool v (vr_success r))
      else if name = ''error-codes'' then set_decoded (\<lambda>x. r\<lparr>vr_codes := x\<rparr>) (dec_strings v)
      else if name = ''hostname'' then set_decoded (\<lambda>x. r\<lparr>vr_hostname := x\<rparr>) (dec_string v (vr_hostname r))
      else set_decoded (\<lambda>x. r\<lparr>vr_action := x\<rparr>) (dec_string v (vr_action r)))"

definition dec_response :: "json_value \<Rightarrow> verify_response option" where
  "dec_response v =
     decode_struct False [''success'', ''error-codes'', ''hostname'', ''action''] set_response v
       \<lparr>vr_success = False, vr_codes = [], vr_hostname = '''', vr_action = ''''\<rparr>"

abbreviation "captcha_body_limit \<equiv> (1048576 :: nat)"

definition siteverify_request :: "captcha_http \<Rightarrow> captcha_verifier \<Rightarrow> string \<Rightarrow> http_request" where
  "siteverify_request H c token =
     (let secret = cap_secret_key (vf_config c)
      in if cap_provider (vf_config c) = ''cap'' then
           post_json (vf_endpoint c) (JMap [(''secret'', JString secret), (''response'', JString token)])
         else \<lparr>rq_url = vf_endpoint c, rq_headers = [(''Content-Type'', ''application/x-www-form-urlencoded'')],
               rq_body = ub_encode (ch_urls H) (values_set (values_set [] ''secret'' secret) ''response'' token)\<rparr>)"

definition captcha_verdict :: "captcha_verifier \<Rightarrow> string \<Rightarrow> verify_response \<Rightarrow> captcha_error + unit" where
  "captcha_verdict c act out =
     (if \<not> vr_success out then Inl CaptchaFailed
      else if vf_hostname c \<noteq> '''' \<and> vr_hostname out \<noteq> '''' \<and> vr_hostname out \<noteq> vf_hostname c then Inl CaptchaFailed
      else if act \<noteq> '''' \<and> vr_action out \<noteq> '''' \<and> vr_action out \<noteq> act then Inl CaptchaFailed
      else Inr ())"

definition captcha_verify :: "captcha_http \<Rightarrow> captcha_verifier \<Rightarrow> string \<Rightarrow> string \<Rightarrow> captcha_error + unit" where
  "captcha_verify H c act token =
     (if TrimSpace token = '''' then Inl CaptchaFailed
      else if \<not> ch_request H (vf_endpoint c) then Inl CaptchaUnavailable
      else case ch_do H (siteverify_request H c token) of
             Inl e \<Rightarrow> Inl CaptchaUnavailable
           | Inr rs \<Rightarrow>
               if rs_status rs \<noteq> 200 then Inl CaptchaUnavailable
               else (case Option.bind (rs_body rs)
                        (\<lambda>body. Option.bind (ch_decode H (take captcha_body_limit body)) dec_response) of
                       None \<Rightarrow> Inl CaptchaUnavailable
                     | Some out \<Rightarrow> captcha_verdict c act out))"

text \<open>The probe sends a request without a token; every answer counts as reachable.\<close>

definition captcha_probe :: "captcha_http \<Rightarrow> captcha_config \<Rightarrow> captcha_error + unit" where
  "captcha_probe H cfg =
     bindE (new_verifier H cfg '''') (\<lambda>c.
     if \<not> ch_request H (vf_endpoint c) then Inl CaptchaUnavailable
     else case ch_do H \<lparr>rq_url = vf_endpoint c, rq_headers = [], rq_body = ''''\<rparr> of
            Inl e \<Rightarrow> Inl CaptchaUnavailable | Inr rs \<Rightarrow> Inr ())"

section \<open>The gateway (service/captcha)\<close>

type_synonym verifier_cache = "(string \<times> captcha_verifier) list"

definition fingerprint :: "captcha_config \<Rightarrow> string" where
  "fingerprint cfg = Join (CHR 0x00) [cap_provider cfg, cap_site_key cfg, cap_secret_key cfg, cap_endpoint cfg]"

definition verifierFor ::
  "captcha_http \<Rightarrow> captcha_config \<Rightarrow> verifier_cache \<Rightarrow> (captcha_error + captcha_verifier) \<times> verifier_cache" where
  "verifierFor H cfg cache =
     (case map_of cache (fingerprint cfg) of
        Some v \<Rightarrow> (Inr v, cache)
      | None \<Rightarrow> (case new_verifier H cfg '''' of
                   Inl e \<Rightarrow> (Inl e, cache)
                 | Inr v \<Rightarrow> (Inr v, (fingerprint cfg, v) # cache)))"

fun mapCaptchaError :: "captcha_error \<Rightarrow> error" where
  "mapCaptchaError CaptchaUnavailable = ErrCaptchaUnavailable"
| "mapCaptchaError CaptchaRequired = ErrCaptchaRequired"
| "mapCaptchaError CaptchaFailed = ErrCaptchaFailed"
| "mapCaptchaError CaptchaUnsupported = ErrCaptchaFailed"

text \<open>\<open>selected\<close> is the answer of \<open>SelectedCaptcha\<close>; \<open>None\<close> a gateway without a reader, an inner
  \<open>None\<close> no configuration.\<close>

definition gateway_verify ::
  "captcha_http \<Rightarrow> (error + captcha_config option) option \<Rightarrow> string \<Rightarrow> string \<Rightarrow> verifier_cache \<Rightarrow>
     (error + unit) \<times> verifier_cache" where
  "gateway_verify H selected act token cache =
     (case selected of
        Some (Inr (Some cfg)) \<Rightarrow>
          (case verifierFor H cfg cache of
             (Inl e, cache') \<Rightarrow> (Inl ErrCaptchaUnavailable, cache')
           | (Inr v, cache') \<Rightarrow>
               (case captcha_verify H v act token of
                  Inl e \<Rightarrow> (Inl (mapCaptchaError e), cache') | Inr u \<Rightarrow> (Inr u, cache')))
      | _ \<Rightarrow> (Inl ErrCaptchaUnavailable, cache))"

section \<open>The cache is transparent\<close>

text \<open>
  The fingerprint tells two configurations apart as long as no zero byte is in the provider, the site key and the
  endpoint.  The provider is one of four names, and the URL parser refuses a zero byte in an endpoint; but nothing
  keeps one out of the site key: \<open>CaptchaConfig.Validate\<close> asks only that it is not blank, and the JSON column
  stores the byte escaped.  For the site key this is a restriction of the claims, and \<open>zero_byte_collides\<close> shows
  what happens without it.
\<close>

definition no_nul :: "captcha_config \<Rightarrow> bool" where
  "no_nul cfg \<longleftrightarrow>
     list_all (\<lambda>s. CHR 0x00 \<notin> set s) [cap_provider cfg, cap_site_key cfg, cap_endpoint cfg]"

lemma separated_prefix:
  assumes "x \<notin> set a" "x \<notin> set b" "a @ x # c = b @ x # d"
  shows "a = b" "c = d"
proof -
  have "takeWhile (\<lambda>y. y \<noteq> x) (a @ x # c) = a" "takeWhile (\<lambda>y. y \<noteq> x) (b @ x # d) = b"
    using assms(1,2) by (simp_all add: takeWhile_append)
  with assms(3) show "a = b" by simp
  with assms(3) show "c = d" by simp
qed

lemma separated_suffix:
  assumes "x \<notin> set c" "x \<notin> set d" "a @ x # c = b @ x # d"
  shows "a = b" "c = d"
proof -
  have "rev c @ x # rev a = rev d @ x # rev b" using arg_cong [OF assms(3), of rev] by simp
  from separated_prefix [OF _ _ this] assms(1,2) show "a = b" "c = d" by simp_all
qed

lemma fingerprint_inj: "no_nul a \<Longrightarrow> no_nul b \<Longrightarrow> fingerprint a = fingerprint b \<Longrightarrow> a = b"
proof -
  assume nul: "no_nul a" "no_nul b" and same: "fingerprint a = fingerprint b"
  have parts: "fingerprint c = cap_provider c @ CHR 0x00 # cap_site_key c @ CHR 0x00 # cap_secret_key c @ CHR 0x00 #
      cap_endpoint c" for c :: captcha_config
    by (simp add: fingerprint_def)
  note eq = same [unfolded parts]
  have provider: "cap_provider a = cap_provider b"
    and rest: "cap_site_key a @ CHR 0x00 # cap_secret_key a @ CHR 0x00 # cap_endpoint a =
      cap_site_key b @ CHR 0x00 # cap_secret_key b @ CHR 0x00 # cap_endpoint b"
    using separated_prefix [OF _ _ eq] nul by (simp_all add: no_nul_def)
  have site: "cap_site_key a = cap_site_key b"
    and tail: "cap_secret_key a @ CHR 0x00 # cap_endpoint a = cap_secret_key b @ CHR 0x00 # cap_endpoint b"
    using separated_prefix [OF _ _ rest] nul by (simp_all add: no_nul_def)
  have "cap_secret_key a = cap_secret_key b" "cap_endpoint a = cap_endpoint b"
    using separated_suffix [OF _ _ tail] nul by (simp_all add: no_nul_def)
  with provider site show "a = b" by (intro captcha_config.equality) simp_all
qed

definition colliding :: "string \<Rightarrow> string \<Rightarrow> captcha_config" where
  "colliding site secret =
     \<lparr>cap_provider = ''turnstile'', cap_site_key = site, cap_secret_key = secret, cap_endpoint = ''''\<rparr>"

lemma zero_byte_collides:
  fixes H :: captcha_http
  defines "before \<equiv> colliding (''a'' @ [CHR 0x00] @ ''b'') ''c''"
    and "after \<equiv> colliding ''a'' (''b'' @ [CHR 0x00] @ ''c'')"
  assumes "new_verifier H before '''' = Inr v"
  shows "fingerprint before = fingerprint after \<and> cap_secret_key before \<noteq> cap_secret_key after \<and>
    fst (verifierFor H after (snd (verifierFor H before []))) = Inr v"
proof -
  have "fingerprint before = fingerprint after"
    by (simp add: assms(1,2) colliding_def fingerprint_def)
  then show ?thesis
    using assms(3) by (simp add: verifierFor_def) (simp add: assms(1,2) colliding_def)
qed

definition cache_faithful :: "captcha_http \<Rightarrow> verifier_cache \<Rightarrow> bool" where
  "cache_faithful H cache \<longleftrightarrow>
     (\<forall>(k, v) \<in> set cache. \<exists>cfg. no_nul cfg \<and> k = fingerprint cfg \<and> new_verifier H cfg '''' = Inr v)"

lemma cache_faithful_empty: "cache_faithful H []"
  by (simp add: cache_faithful_def)

lemma verifierFor_fresh:
  assumes "cache_faithful H cache" "no_nul cfg"
  shows "fst (verifierFor H cfg cache) = new_verifier H cfg ''''" "cache_faithful H (snd (verifierFor H cfg cache))"
proof -
  have "new_verifier H cfg '''' = Inr v" if "map_of cache (fingerprint cfg) = Some v" for v
  proof -
    from that have "(fingerprint cfg, v) \<in> set cache" by (rule map_of_SomeD)
    with assms obtain cfg' where "no_nul cfg'" "fingerprint cfg = fingerprint cfg'" "new_verifier H cfg' '''' = Inr v"
      by (auto simp: cache_faithful_def)
    with assms(2) fingerprint_inj [of cfg cfg'] show ?thesis by simp
  qed
  then show "fst (verifierFor H cfg cache) = new_verifier H cfg ''''"
    by (auto simp: verifierFor_def split: option.splits sum.splits)
  show "cache_faithful H (snd (verifierFor H cfg cache))"
    using assms by (auto simp: verifierFor_def cache_faithful_def split: option.splits sum.splits)
qed

end
