(* ===== verification/Providers.thy ===== *)
theory Providers
  imports Settings Captcha OAuth_Catalog Local_Spam Notify_Channels
begin

text \<open>
  The provider configurations (\<open>internal/service/setting/provider.go\<close>): validated, split into a public
  document and secrets sealed with AES-256-GCM under the derived master key
  (\<open>internal/platform/crypto\<close>), stored as rows of the settings table and read back with the secrets
  opened.  AES-GCM itself, the random nonce and the text of a document are fields of \<open>provider_env\<close>.
\<close>

section \<open>Envelopes (platform/crypto)\<close>

record provider_env =
  pe_lib :: library
  pe_urls :: url_builder
  pe_equal_fold :: "string \<Rightarrow> string \<Rightarrow> bool"
  pe_text :: "json_value \<Rightarrow> string"
  pe_parse :: "string \<Rightarrow> json_value option"
  pe_nonce :: "error + string"
  pe_seal :: "string \<Rightarrow> string \<Rightarrow> string"
  pe_open :: "string \<Rightarrow> string \<Rightarrow> string option"
  pe_keyword_text :: text_library
  pe_keyword_stat :: "(bool \<times> file_signature) option"
  pe_keyword_file :: "keyword_file option"
  pe_apple_key_ok :: "string \<Rightarrow> bool"
  pe_invalidator :: bool

definition masterKeyVersion :: nat where "masterKeyVersion = 2"

definition Encrypt :: "provider_env \<Rightarrow> nat \<Rightarrow> string \<Rightarrow> error + string" where
  "Encrypt P version plaintext =
     bindE (pe_nonce P) (\<lambda>nonce. Inr (char_of version # nonce @ pe_seal P nonce plaintext))"

definition Decrypt :: "provider_env \<Rightarrow> nat \<Rightarrow> string \<Rightarrow> string option" where
  "Decrypt P version envelope =
     (if length envelope < 1 + 12 + 16 then None
      else if hd envelope \<noteq> char_of version then None
      else pe_open P (take 12 (drop 1 envelope)) (drop 13 envelope))"

definition seal_document :: "provider_env \<Rightarrow> json_value \<Rightarrow> error + string \<times> string" where
  "seal_document P v =
     bindE (Encrypt P masterKeyVersion (pe_text P v)) (\<lambda>envelope.
     Inr (take 12 (drop 1 envelope), drop 13 envelope))"

definition decryptSecretEnvelope :: "provider_env \<Rightarrow> provider_row \<Rightarrow> error + string" where
  "decryptSecretEnvelope P r =
     (if pr_version r \<noteq> int masterKeyVersion then Inl ErrSecretCorrupt
      else option_to_result ErrSecretCorrupt
             (Decrypt P masterKeyVersion (char_of masterKeyVersion # pr_nonce r @ pr_ciphertext r)))"

text \<open>\<open>json.Unmarshal\<close> of an opened secret.\<close>

definition decode_secret :: "provider_env \<Rightarrow> provider_row \<Rightarrow> (json_value \<Rightarrow> 'a option) \<Rightarrow> error + 'a" where
  "decode_secret P r decoder =
     bindE (decryptSecretEnvelope P r) (\<lambda>text.
     option_to_result ErrSecretCorrupt (Option.bind (pe_parse P text) decoder))"

definition decodeConfigFields :: "json_value option \<Rightarrow> (json_value \<Rightarrow> 'a option) \<Rightarrow> 'a \<Rightarrow> error + 'a" where
  "decodeConfigFields raw decoder unset =
     (case raw of None \<Rightarrow> Inr unset | Some v \<Rightarrow> option_to_result ErrSecretCorrupt (decoder v))"

text \<open>A member that is written only when its text is not empty, and the object a Go map marshals to.\<close>

definition given_member :: "string \<Rightarrow> string \<Rightarrow> (string \<times> json_value) list" where
  "given_member name s = (if s = '''' then [] else [(name, JvString s)])"

definition object_of :: "(string \<times> json_value) list \<Rightarrow> json_value" where
  "object_of members = JvObject (as_map members)"

section \<open>Typed configurations\<close>

definition set_captcha :: "string \<Rightarrow> json_value \<Rightarrow> captcha_config \<Rightarrow> captcha_config option" where
  "set_captcha name v c =
     (if name = ''provider'' then set_decoded (\<lambda>x. c\<lparr>cap_provider := x\<rparr>) (dec_string v (cap_provider c))
      else if name = ''site_key'' then set_decoded (\<lambda>x. c\<lparr>cap_site_key := x\<rparr>) (dec_string v (cap_site_key c))
      else if name = ''secret_key'' then set_decoded (\<lambda>x. c\<lparr>cap_secret_key := x\<rparr>) (dec_string v (cap_secret_key c))
      else set_decoded (\<lambda>x. c\<lparr>cap_endpoint := x\<rparr>) (dec_string v (cap_endpoint c)))"

definition dec_captcha :: "json_value \<Rightarrow> captcha_config \<Rightarrow> captcha_config option" where
  "dec_captcha = decode_struct False [''provider'', ''site_key'', ''secret_key'', ''endpoint''] set_captcha"

definition no_captcha :: captcha_config where
  "no_captcha = \<lparr>cap_provider = '''', cap_site_key = '''', cap_secret_key = '''', cap_endpoint = ''''\<rparr>"

record auth_config =
  ac_client_id :: string
  ac_client_secret :: string
  ac_issuer_url :: string
  ac_auth_url :: string
  ac_token_url :: string
  ac_instance_url :: string
  ac_team_id :: string
  ac_key_id :: string
  ac_private_key :: string

definition no_auth :: auth_config where
  "no_auth =
     \<lparr>ac_client_id = '''', ac_client_secret = '''', ac_issuer_url = '''', ac_auth_url = '''', ac_token_url = '''',
      ac_instance_url = '''', ac_team_id = '''', ac_key_id = '''', ac_private_key = ''''\<rparr>"

definition auth_fields :: "string list" where
  "auth_fields =
     [''client_id'', ''client_secret'', ''issuer_url'', ''auth_url'', ''token_url'', ''instance_url'', ''team_id'',
      ''key_id'', ''private_key'']"

definition set_auth :: "string \<Rightarrow> json_value \<Rightarrow> auth_config \<Rightarrow> auth_config option" where
  "set_auth name v c =
     (if name = ''client_id'' then set_decoded (\<lambda>x. c\<lparr>ac_client_id := x\<rparr>) (dec_string v (ac_client_id c))
      else if name = ''client_secret'' then
        set_decoded (\<lambda>x. c\<lparr>ac_client_secret := x\<rparr>) (dec_string v (ac_client_secret c))
      else if name = ''issuer_url'' then set_decoded (\<lambda>x. c\<lparr>ac_issuer_url := x\<rparr>) (dec_string v (ac_issuer_url c))
      else if name = ''auth_url'' then set_decoded (\<lambda>x. c\<lparr>ac_auth_url := x\<rparr>) (dec_string v (ac_auth_url c))
      else if name = ''token_url'' then set_decoded (\<lambda>x. c\<lparr>ac_token_url := x\<rparr>) (dec_string v (ac_token_url c))
      else if name = ''instance_url'' then
        set_decoded (\<lambda>x. c\<lparr>ac_instance_url := x\<rparr>) (dec_string v (ac_instance_url c))
      else if name = ''team_id'' then set_decoded (\<lambda>x. c\<lparr>ac_team_id := x\<rparr>) (dec_string v (ac_team_id c))
      else if name = ''key_id'' then set_decoded (\<lambda>x. c\<lparr>ac_key_id := x\<rparr>) (dec_string v (ac_key_id c))
      else set_decoded (\<lambda>x. c\<lparr>ac_private_key := x\<rparr>) (dec_string v (ac_private_key c)))"

definition dec_auth :: "bool \<Rightarrow> json_value \<Rightarrow> auth_config \<Rightarrow> auth_config option" where
  "dec_auth strict = decode_struct strict auth_fields set_auth"

record spam_config =
  sc_check_nickname :: bool
  sc_action :: string
  sc_api_key :: string
  sc_region :: string
  sc_biz_type :: string
  sc_access_key_id :: string
  sc_access_key_secret :: string
  sc_secret_id :: string
  sc_secret_key :: string

definition no_spam :: spam_config where
  "no_spam =
     \<lparr>sc_check_nickname = False, sc_action = '''', sc_api_key = '''', sc_region = '''', sc_biz_type = '''',
      sc_access_key_id = '''', sc_access_key_secret = '''', sc_secret_id = '''', sc_secret_key = ''''\<rparr>"

definition spam_fields :: "string list" where
  "spam_fields =
     [''check_nickname'', ''action'', ''api_key'', ''region'', ''biz_type'', ''access_key_id'', ''access_key_secret'',
      ''secret_id'', ''secret_key'']"

definition set_spam :: "string \<Rightarrow> json_value \<Rightarrow> spam_config \<Rightarrow> spam_config option" where
  "set_spam name v c =
     (if name = ''check_nickname'' then
        set_decoded (\<lambda>x. c\<lparr>sc_check_nickname := x\<rparr>) (dec_bool v (sc_check_nickname c))
      else if name = ''action'' then set_decoded (\<lambda>x. c\<lparr>sc_action := x\<rparr>) (dec_string v (sc_action c))
      else if name = ''api_key'' then set_decoded (\<lambda>x. c\<lparr>sc_api_key := x\<rparr>) (dec_string v (sc_api_key c))
      else if name = ''region'' then set_decoded (\<lambda>x. c\<lparr>sc_region := x\<rparr>) (dec_string v (sc_region c))
      else if name = ''biz_type'' then set_decoded (\<lambda>x. c\<lparr>sc_biz_type := x\<rparr>) (dec_string v (sc_biz_type c))
      else if name = ''access_key_id'' then
        set_decoded (\<lambda>x. c\<lparr>sc_access_key_id := x\<rparr>) (dec_string v (sc_access_key_id c))
      else if name = ''access_key_secret'' then
        set_decoded (\<lambda>x. c\<lparr>sc_access_key_secret := x\<rparr>) (dec_string v (sc_access_key_secret c))
      else if name = ''secret_id'' then set_decoded (\<lambda>x. c\<lparr>sc_secret_id := x\<rparr>) (dec_string v (sc_secret_id c))
      else set_decoded (\<lambda>x. c\<lparr>sc_secret_key := x\<rparr>) (dec_string v (sc_secret_key c)))"

definition dec_spam :: "bool \<Rightarrow> json_value \<Rightarrow> spam_config \<Rightarrow> spam_config option" where
  "dec_spam strict = decode_struct strict spam_fields set_spam"

text \<open>
  A notification channel: the stored configuration has a secret that may be absent, the input of the
  administrator tells an absent member from \<open>null\<close>.
\<close>

record channel_input = channel_config +
  in_signing_secret :: "json_value option"

definition channel_fields :: "string list" where
  "channel_fields =
     [''bot_token'', ''chat_id'', ''webhook_url'', ''server_url'', ''device_key'', ''channel_access_token'', ''target_id'',
      ''signing_secret'']"

definition set_channel :: "string \<Rightarrow> json_value \<Rightarrow> 'a channel_config_scheme \<Rightarrow> 'a channel_config_scheme option" where
  "set_channel name v c =
     (if name = ''bot_token'' then set_decoded (\<lambda>x. c\<lparr>cc_bot_token := x\<rparr>) (dec_string v (cc_bot_token c))
      else if name = ''chat_id'' then set_decoded (\<lambda>x. c\<lparr>cc_chat_id := x\<rparr>) (dec_string v (cc_chat_id c))
      else if name = ''webhook_url'' then set_decoded (\<lambda>x. c\<lparr>cc_webhook_url := x\<rparr>) (dec_string v (cc_webhook_url c))
      else if name = ''server_url'' then set_decoded (\<lambda>x. c\<lparr>cc_server_url := x\<rparr>) (dec_string v (cc_server_url c))
      else if name = ''device_key'' then set_decoded (\<lambda>x. c\<lparr>cc_device_key := x\<rparr>) (dec_string v (cc_device_key c))
      else if name = ''channel_access_token'' then
        set_decoded (\<lambda>x. c\<lparr>cc_access_token := x\<rparr>) (dec_string v (cc_access_token c))
      else set_decoded (\<lambda>x. c\<lparr>cc_target_id := x\<rparr>) (dec_string v (cc_target_id c)))"

fun dec_string_pointer :: "json_value \<Rightarrow> string option option" where
  "dec_string_pointer JvNull = Some None"
| "dec_string_pointer (JvString s) = Some (Some s)"
| "dec_string_pointer v = None"

definition set_stored_channel :: "string \<Rightarrow> json_value \<Rightarrow> channel_settings \<Rightarrow> channel_settings option" where
  "set_stored_channel name v c =
     (if name = ''signing_secret'' then set_decoded (\<lambda>x. c\<lparr>cs_signing_secret := x\<rparr>) (dec_string_pointer v)
      else set_channel name v c)"

definition set_input_channel :: "string \<Rightarrow> json_value \<Rightarrow> channel_input \<Rightarrow> channel_input option" where
  "set_input_channel name v c =
     (if name = ''signing_secret'' then Some (c\<lparr>in_signing_secret := Some v\<rparr>) else set_channel name v c)"

definition no_channel :: channel_config where
  "no_channel =
     \<lparr>cc_bot_token = '''', cc_chat_id = '''', cc_webhook_url = '''', cc_server_url = '''', cc_device_key = '''',
      cc_access_token = '''', cc_target_id = ''''\<rparr>"

definition no_stored_channel :: channel_settings where
  "no_stored_channel = channel_config.extend no_channel (channel_settings.fields None)"

definition no_input_channel :: channel_input where
  "no_input_channel = channel_config.extend no_channel (channel_input.fields None)"

definition dec_stored_channel :: "json_value \<Rightarrow> channel_settings \<Rightarrow> channel_settings option" where
  "dec_stored_channel = decode_struct False channel_fields set_stored_channel"

text \<open>The raw configuration of a request: absent, or a document.\<close>

definition decode_config :: "json_value option \<Rightarrow> (json_value \<Rightarrow> 'a option) \<Rightarrow> error + 'a" where
  "decode_config raw decoder = option_to_result ErrValidation (Option.bind raw decoder)"

text \<open>
  The operations of \<open>ProviderService\<close> (\<open>internal/service/setting/provider.go\<close>): upserts by kind,
  decrypted configurations for the consumers, the captcha selection, deletion, and the public captcha
  configuration of an action (\<open>captcha_config.go\<close>).
\<close>

section \<open>Captcha providers\<close>

definition isSpamProviderKey :: "string \<Rightarrow> bool" where
  "isSpamProviderKey key \<longleftrightarrow> HasPrefix key ''spam.''"

definition isNotificationProviderKey :: "string \<Rightarrow> bool" where
  "isNotificationProviderKey key \<longleftrightarrow> HasPrefix key ''notification.''"

definition validateProviderKey :: "string \<Rightarrow> error + unit" where
  "validateProviderKey key =
     (if TrimSpace key = '''' then Inl ErrValidation
      else if ProviderSettingKey key = CaptchaProviderSettingKey then Inl ErrValidation
      else if isSpamProviderKey key then Inl ErrValidation
      else if isNotificationProviderKey key then Inl ErrValidation
      else Inr ())"

definition validateCaptcha :: "library \<Rightarrow> captcha_config \<Rightarrow> error + unit" where
  "validateCaptcha L c =
     (if cap_provider c \<notin> {''turnstile'', ''recaptcha'', ''hcaptcha'', ''cap''} then Inl ErrValidation
      else if TrimSpace (cap_site_key c) = '''' \<or> TrimSpace (cap_secret_key c) = '''' then Inl ErrValidation
      else if cap_provider c = ''cap'' then guardE (ParseHTTPBase L (cap_endpoint c) \<noteq> None) ErrValidation
      else if TrimSpace (cap_endpoint c) \<noteq> '''' then guardE (ParseHTTPBase L (cap_endpoint c) \<noteq> None) ErrValidation
      else Inr ())"

definition normalizeHTTPSURL :: "library \<Rightarrow> string \<Rightarrow> error + string" where
  "normalizeHTTPSURL L raw =
     (case ParseHTTPBase L raw of None \<Rightarrow> Inl ErrValidation | Some u \<Rightarrow> Inr (lib_string L u))"

text \<open>The public and the secret document of a configuration (\<open>splitConfig\<close>).\<close>

definition splitCaptchaConfig :: "provider_env \<Rightarrow> json_value option \<Rightarrow> error + json_value \<times> json_value" where
  "splitCaptchaConfig P raw =
     bindE (decode_config raw (\<lambda>v. dec_captcha v no_captcha)) (\<lambda>cfg.
     bindE (if TrimSpace (cap_endpoint cfg) = '''' then Inr cfg
            else bindE (normalizeHTTPSURL (pe_lib P) (cap_endpoint cfg)) (\<lambda>e. Inr (cfg\<lparr>cap_endpoint := e\<rparr>))) (\<lambda>cfg.
     bindE (validateCaptcha (pe_lib P) cfg) (\<lambda>_.
     Inr (object_of ([(''provider'', JvString (cap_provider cfg)), (''site_key'', JvString (cap_site_key cfg))] @
                     given_member ''endpoint'' (cap_endpoint cfg)),
          object_of [(''secret_key'', JvString (cap_secret_key cfg))]))))"

definition sealed_row :: "string \<Rightarrow> string \<Rightarrow> bool \<Rightarrow> json_value \<Rightarrow> (string \<times> string) option \<Rightarrow> provider_row" where
  "sealed_row key kind enabled public sealed =
     (case sealed of
        None \<Rightarrow> \<lparr>pr_key = key, pr_kind = kind, pr_enabled = enabled, pr_public = Some public, pr_version = 0,
                 pr_nonce = '''', pr_ciphertext = ''''\<rparr>
      | Some (nonce, ciphertext) \<Rightarrow>
          \<lparr>pr_key = key, pr_kind = kind, pr_enabled = enabled, pr_public = Some public,
           pr_version = int masterKeyVersion, pr_nonce = nonce, pr_ciphertext = ciphertext\<rparr>)"

definition UpsertCaptcha :: "provider_env \<Rightarrow> string \<Rightarrow> json_value option \<Rightarrow> unit setting_op" where
  "UpsertCaptcha P key config =
     bind (lift (validateProviderKey key)) (\<lambda>_.
     bind (lift (decode_config config (\<lambda>v. dec_captcha v no_captcha))) (\<lambda>parsed.
     bind (require (TrimSpace (cap_provider parsed) = key) ErrValidation) (\<lambda>_.
     bind (lift (splitCaptchaConfig P config)) (\<lambda>(public, secret).
     bind (lift (seal_document P secret)) (\<lambda>sealed.
     atomically ErrInfra (UpsertCaptchaProvider (sealed_row key KindCaptcha False public (Some sealed))))))))"

definition captchaConfig :: "provider_env \<Rightarrow> provider_row \<Rightarrow> error + captcha_config" where
  "captchaConfig P r =
     bindE (decodeConfigFields (pr_public r) (\<lambda>v. dec_captcha v no_captcha) no_captcha) (\<lambda>cfg.
     decode_secret P r (\<lambda>v. dec_captcha v cfg))"

definition provider_not_found :: "'a setting_op \<Rightarrow> 'a setting_op" where
  "provider_not_found m =
     bind (attempt m) (\<lambda>r. lift (case r of Inl e \<Rightarrow> Inl (if e = ErrNotFound then ErrProviderNotFound else e)
                                        | Inr x \<Rightarrow> Inr x))"

definition CaptchaProvider :: "provider_env \<Rightarrow> string \<Rightarrow> captcha_config setting_op" where
  "CaptchaProvider P key =
     bind (provider_not_found (GetCaptchaProvider key)) (\<lambda>r.
     if pr_ciphertext r = '''' then fail ErrProviderNotFound else lift (captchaConfig P r))"

definition selectedCaptchaProvider :: "string setting_op" where
  "selectedCaptchaProvider =
     bind (attempt (GetSetting CaptchaProviderSettingKey)) (\<lambda>r.
     case r of
       Inl e \<Rightarrow> if e = ErrNotFound then ret '''' else fail e
     | Inr row \<Rightarrow> lift (option_to_result ErrSecretCorrupt (Option.bind (sr_value row) (\<lambda>v. dec_string v ''''))))"

definition SelectedCaptcha :: "provider_env \<Rightarrow> captcha_config setting_op" where
  "SelectedCaptcha P =
     bind selectedCaptchaProvider (\<lambda>selected.
     if selected = '''' then fail ErrProviderNotFound else CaptchaProvider P selected)"

definition ValidateSelection :: "provider_env \<Rightarrow> string \<Rightarrow> unit setting_op" where
  "ValidateSelection P key =
     (if key = '''' then ret ()
      else bind (attempt (CaptchaProvider P key)) (\<lambda>r.
           case r of Inl e \<Rightarrow> fail ErrCaptchaUnavailable | Inr cfg \<Rightarrow> ret ()))"

section \<open>Sign-in providers\<close>

definition validateAuthKeyKind :: "string \<Rightarrow> string \<Rightarrow> error + unit" where
  "validateAuthKeyKind key kind =
     (case LookupProvider key of
        Some spec \<Rightarrow> guardE (ps_kind spec = kind) ErrValidation
      | None \<Rightarrow> guardE (kind = KindOIDC) ErrValidation)"

definition customOIDCSpec :: provider_spec where
  "customOIDCSpec =
     \<lparr>ps_key = ''custom-oidc'', ps_name = ''Custom OIDC'', ps_kind = ''oidc'', ps_pkce = True, ps_nonce = True,
      ps_callback = CallbackQuery,
      ps_config = \<lparr>cs_public_fields = [''client_id'', ''issuer_url''], cs_secret_field = ''client_secret'',
        cs_instance_url_required = False, cs_instance_url_default = '''', cs_fixed_public = []\<rparr>\<rparr>"

definition authConfigSpec :: "string \<Rightarrow> provider_spec" where
  "authConfigSpec key = (case LookupProvider key of Some spec \<Rightarrow> spec | None \<Rightarrow> customOIDCSpec)"

text \<open>Overwriting the preset fields: their order does not matter, each is preset once.\<close>

definition set_fixed :: "string \<times> string \<Rightarrow> auth_config \<Rightarrow> auth_config" where
  "set_fixed fixed cfg =
     (case fixed of (field, v) \<Rightarrow>
        if field = ''auth_url'' then cfg\<lparr>ac_auth_url := v\<rparr>
        else if field = ''token_url'' then cfg\<lparr>ac_token_url := v\<rparr>
        else if field = ''issuer_url'' then cfg\<lparr>ac_issuer_url := v\<rparr> else cfg)"

definition applyAuthConfigDefaults :: "auth_config \<Rightarrow> provider_spec \<Rightarrow> auth_config" where
  "applyAuthConfigDefaults cfg spec = fold set_fixed (cs_fixed_public (ps_config spec)) cfg"

definition normalizeInstanceURL :: "library \<Rightarrow> string \<Rightarrow> bool \<Rightarrow> error + string" where
  "normalizeInstanceURL L raw root_only =
     (case ParseHTTPSBase L raw of None \<Rightarrow> Inl ErrValidation
      | Some u \<Rightarrow> if root_only \<and> url_path u \<noteq> '''' then Inl ErrValidation else Inr (lib_string L u))"

definition validateAuthConfig :: "library \<Rightarrow> string \<Rightarrow> auth_config \<Rightarrow> provider_spec \<Rightarrow> error + auth_config" where
  "validateAuthConfig L key cfg spec =
     (let rules = ps_config spec; instance_raw = TrimSpace (ac_instance_url cfg) in
     bindE (guardE (TrimSpace (ac_client_id cfg) \<noteq> '''') ErrValidation) (\<lambda>_.
     bindE (if cs_instance_url_required rules \<or> cs_instance_url_default rules \<noteq> '''' \<or> instance_raw \<noteq> '''' then
              (if instance_raw = '''' \<and> cs_instance_url_required rules then Inl ErrValidation
               else bindE (normalizeInstanceURL L
                             (if instance_raw = '''' then cs_instance_url_default rules else instance_raw)
                             (key = ''mastodon'')) (\<lambda>u. Inr (cfg\<lparr>ac_instance_url := u\<rparr>)))
            else Inr cfg) (\<lambda>cfg.
     bindE (if key = ''apple'' then
              (if TrimSpace (ac_team_id cfg) = '''' then Inl ErrValidation
               else guardE (TrimSpace (ac_private_key cfg) = '''' \<or> TrimSpace (ac_key_id cfg) \<noteq> '''') ErrValidation)
            else Inr ()) (\<lambda>_.
     if LookupProvider key = None then
       (case ParseHTTPSBase L (ac_issuer_url cfg) of None \<Rightarrow> Inl ErrValidation
        | Some u \<Rightarrow> Inr (cfg\<lparr>ac_issuer_url := lib_string L u\<rparr>))
     else Inr cfg))))"

definition public_auth_member :: "auth_config \<Rightarrow> string \<Rightarrow> error + (string \<times> json_value) list" where
  "public_auth_member cfg field =
     (if field = ''client_id'' then Inr (given_member field (ac_client_id cfg))
      else if field = ''issuer_url'' then Inr (given_member field (ac_issuer_url cfg))
      else if field = ''auth_url'' then Inr (given_member field (ac_auth_url cfg))
      else if field = ''token_url'' then Inr (given_member field (ac_token_url cfg))
      else if field = ''instance_url'' then Inr (given_member field (ac_instance_url cfg))
      else if field = ''team_id'' then Inr (given_member field (ac_team_id cfg))
      else if field = ''key_id'' then Inr (given_member field (ac_key_id cfg))
      else Inl ErrInfra)"

fun object_members :: "('a \<Rightarrow> error + (string \<times> json_value) list) \<Rightarrow> 'a list \<Rightarrow> error + (string \<times> json_value) list" where
  "object_members f [] = Inr []"
| "object_members f (x # xs) = bindE (f x) (\<lambda>ms. bindE (object_members f xs) (\<lambda>rest. Inr (ms @ rest)))"

definition publicAuthConfig :: "auth_config \<Rightarrow> provider_spec \<Rightarrow> error + json_value" where
  "publicAuthConfig cfg spec =
     bindE (object_members (public_auth_member cfg) (cs_public_fields (ps_config spec))) (\<lambda>ms. Inr (object_of ms))"

definition optionalSecret :: "string \<Rightarrow> string \<Rightarrow> json_value option" where
  "optionalSecret field secret =
     (if TrimSpace secret = '''' then None else Some (object_of [(field, JvString secret)]))"

definition secretAuthConfig :: "auth_config \<Rightarrow> provider_spec \<Rightarrow> json_value option" where
  "secretAuthConfig cfg spec =
     (if cs_secret_field (ps_config spec) = ''client_secret'' then optionalSecret ''client_secret'' (ac_client_secret cfg)
      else if cs_secret_field (ps_config spec) = ''private_key'' then optionalSecret ''private_key'' (ac_private_key cfg)
      else None)"

definition splitAuthConfig ::
  "provider_env \<Rightarrow> string \<Rightarrow> string \<Rightarrow> json_value option \<Rightarrow> error + json_value \<times> json_value option" where
  "splitAuthConfig P key kind raw =
     bindE (validateAuthKeyKind key kind) (\<lambda>_.
     bindE (decode_config raw (\<lambda>v. dec_auth True v no_auth)) (\<lambda>cfg.
     bindE (validateAuthConfig (pe_lib P) key (applyAuthConfigDefaults cfg (authConfigSpec key)) (authConfigSpec key))
       (\<lambda>cfg.
     bindE (publicAuthConfig cfg (authConfigSpec key)) (\<lambda>public.
     Inr (public, secretAuthConfig cfg (authConfigSpec key))))))"

text \<open>A missing row is an answer, any other error ends the request.\<close>

definition existing_row :: "provider_row setting_op \<Rightarrow> provider_row option setting_op" where
  "existing_row m =
     bind (attempt m) (\<lambda>r. lift (case r of Inr row \<Rightarrow> Inr (Some row)
                                        | Inl e \<Rightarrow> if e = ErrNotFound then Inr None else Inl e))"

definition kept_secret :: "provider_row option \<Rightarrow> provider_row \<Rightarrow> provider_row" where
  "kept_secret existing row =
     (case existing of
        None \<Rightarrow> row
      | Some old \<Rightarrow>
          if pr_ciphertext old = '''' then row
          else row\<lparr>pr_version := pr_version old, pr_nonce := pr_nonce old, pr_ciphertext := pr_ciphertext old\<rparr>)"

definition UpsertAuth ::
  "provider_env \<Rightarrow> string \<Rightarrow> string \<Rightarrow> bool \<Rightarrow> json_value option \<Rightarrow> unit setting_op" where
  "UpsertAuth P key kind enabled config =
     bind (lift (validateProviderKey key)) (\<lambda>_.
     bind (lift (validateAuthKeyKind key kind)) (\<lambda>_.
     bind (lift (splitAuthConfig P key kind config)) (\<lambda>(public, new_secret).
     bind (existing_row (GetAuthProvider key)) (\<lambda>existing.
     bind (case new_secret of
             Some secret \<Rightarrow>
               bind (lift (seal_document P secret)) (\<lambda>sealed. ret (sealed_row key kind enabled public (Some sealed)))
           | None \<Rightarrow>
               let row = kept_secret existing (sealed_row key kind enabled public None)
               in if pr_ciphertext row = '''' then fail ErrValidation else ret row) (\<lambda>row.
     atomically ErrInfra (UpsertAuthProvider row))))))"

definition auth_provider_of :: "provider_env \<Rightarrow> provider_row \<Rightarrow> error + auth_provider" where
  "auth_provider_of P r =
     bindE (decryptSecretEnvelope P r) (\<lambda>text.
     bindE (decodeConfigFields (pr_public r) (\<lambda>v. dec_auth False v no_auth) no_auth) (\<lambda>cfg.
     bindE (option_to_result ErrSecretCorrupt (Option.bind (pe_parse P text) (\<lambda>v. dec_auth False v cfg))) (\<lambda>cfg.
     Inr \<lparr>ap_key = pr_key r, ap_kind = pr_kind r, ap_enabled = pr_enabled r, ap_configured = True,
          ap_client_id = ac_client_id cfg, ap_client_secret = ac_client_secret cfg, ap_auth_url = ac_auth_url cfg,
          ap_token_url = ac_token_url cfg, ap_issuer_url = ac_issuer_url cfg, ap_instance_url = ac_instance_url cfg,
          ap_apple_team_id = ac_team_id cfg, ap_apple_key_id = ac_key_id cfg,
          ap_apple_private_key = ac_private_key cfg\<rparr>)))"

definition AuthProvider :: "provider_env \<Rightarrow> string \<Rightarrow> auth_provider setting_op" where
  "AuthProvider P key =
     bind (provider_not_found (GetAuthProvider key)) (\<lambda>r.
     if \<not> pr_enabled r \<or> pr_ciphertext r = '''' then fail ErrProviderNotFound else lift (auth_provider_of P r))"

fun auth_providers_of :: "provider_env \<Rightarrow> provider_row list \<Rightarrow> auth_provider list setting_op" where
  "auth_providers_of P [] = ret []"
| "auth_providers_of P (r # rows) =
     (if \<not> pr_enabled r \<or> pr_ciphertext r = '''' then auth_providers_of P rows
      else bind (AuthProvider P (pr_key r)) (\<lambda>p. bind (auth_providers_of P rows) (\<lambda>ps. ret (p # ps))))"

definition AuthProviders :: "provider_env \<Rightarrow> auth_provider list setting_op" where
  "AuthProviders P = bind ListAuthProviders (auth_providers_of P)"

section \<open>Spam providers\<close>

record spam_spec =
  sp_public :: "string list"
  sp_secret :: "string list"
  sp_binary :: bool

definition spamProviderSpecs :: "(string \<times> spam_spec) list" where
  "spamProviderSpecs =
     [(''spam.local'', \<lparr>sp_public = [''check_nickname'', ''action''], sp_secret = [], sp_binary = True\<rparr>),
      (''spam.akismet'', \<lparr>sp_public = [''action''], sp_secret = [''api_key''], sp_binary = True\<rparr>),
      (''spam.aliyun'', \<lparr>sp_public = [''region'', ''biz_type''],
         sp_secret = [''access_key_id'', ''access_key_secret''], sp_binary = False\<rparr>),
      (''spam.tencent'', \<lparr>sp_public = [''region'', ''biz_type''],
         sp_secret = [''secret_id'', ''secret_key''], sp_binary = False\<rparr>)]"

definition spamProviderKeys :: "string list" where
  "spamProviderKeys = [''spam.local'', ''spam.akismet'', ''spam.aliyun'', ''spam.tencent'']"

definition validateSpamAction :: "string \<Rightarrow> error + unit" where
  "validateSpamAction act = guardE (act = ''pending'' \<or> act = ''spam'') ErrValidation"

definition validateKeywordFile :: "provider_env \<Rightarrow> error + unit" where
  "validateKeywordFile P =
     (case pe_keyword_stat P of
        None \<Rightarrow> Inl ErrValidation
      | Some (regular, sig) \<Rightarrow>
          if \<not> regular then Inl ErrValidation
          else if loadKeywordFile (pe_keyword_text P) (pe_keyword_file P) sig = None then Inl ErrValidation
          else Inr ())"

definition validateSpamConfig :: "provider_env \<Rightarrow> string \<Rightarrow> spam_spec \<Rightarrow> spam_config \<Rightarrow> error + unit" where
  "validateSpamConfig P key spec cfg =
     bindE (if sp_binary spec then validateSpamAction (sc_action cfg) else Inr ()) (\<lambda>_.
     bindE (if key = ''spam.local'' then validateKeywordFile P else Inr ()) (\<lambda>_.
     if key = ''spam.aliyun'' \<or> key = ''spam.tencent'' then guardE (TrimSpace (sc_region cfg) \<noteq> '''') ErrValidation
     else Inr ()))"

definition public_spam_member :: "spam_config \<Rightarrow> string \<Rightarrow> error + (string \<times> json_value) list" where
  "public_spam_member cfg field =
     (if field = ''check_nickname'' then Inr [(field, JvBool (sc_check_nickname cfg))]
      else if field = ''action'' then Inr (given_member field (sc_action cfg))
      else if field = ''region'' then Inr (given_member field (sc_region cfg))
      else if field = ''biz_type'' then Inr (given_member field (sc_biz_type cfg))
      else Inl ErrInfra)"

definition publicSpamConfig :: "spam_config \<Rightarrow> spam_spec \<Rightarrow> error + json_value" where
  "publicSpamConfig cfg spec =
     bindE (object_members (public_spam_member cfg) (sp_public spec)) (\<lambda>ms. Inr (object_of ms))"

definition secret_spam_value :: "spam_config \<Rightarrow> string \<Rightarrow> string option" where
  "secret_spam_value cfg field =
     (if field = ''api_key'' then Some (sc_api_key cfg)
      else if field = ''access_key_id'' then Some (sc_access_key_id cfg)
      else if field = ''access_key_secret'' then Some (sc_access_key_secret cfg)
      else if field = ''secret_id'' then Some (sc_secret_id cfg)
      else if field = ''secret_key'' then Some (sc_secret_key cfg)
      else None)"

definition secretSpamConfig :: "spam_config \<Rightarrow> spam_spec \<Rightarrow> error + json_value option" where
  "secretSpamConfig cfg spec =
     (if sp_secret spec = [] then Inr None
      else case those (map (secret_spam_value cfg) (sp_secret spec)) of
             None \<Rightarrow> Inl ErrInfra
           | Some secrets \<Rightarrow>
               let has_any = list_ex (\<lambda>s. TrimSpace s \<noteq> '''') secrets;
                   has_blank = list_ex (\<lambda>s. TrimSpace s = '''') secrets
               in if has_any \<and> has_blank then Inl ErrValidation
                  else if \<not> has_any then Inr None
                  else Inr (Some (object_of (zip (sp_secret spec) (map JvString secrets)))))"

definition splitSpamConfig :: "provider_env \<Rightarrow> string \<Rightarrow> json_value option \<Rightarrow> error + json_value \<times> json_value option" where
  "splitSpamConfig P key raw =
     bindE (option_to_result ErrValidation (map_of spamProviderSpecs key)) (\<lambda>spec.
     bindE (decode_config raw (\<lambda>v. dec_spam True v no_spam)) (\<lambda>cfg.
     bindE (validateSpamConfig P key spec cfg) (\<lambda>_.
     bindE (publicSpamConfig cfg spec) (\<lambda>public.
     bindE (secretSpamConfig cfg spec) (\<lambda>secret.
     Inr (public, secret))))))"

text \<open>The action of a stored local configuration.\<close>

definition set_action :: "string \<Rightarrow> json_value \<Rightarrow> string \<Rightarrow> string option" where
  "set_action name v s = dec_string v s"

definition stored_action :: "json_value option \<Rightarrow> string option" where
  "stored_action raw = Option.bind raw (\<lambda>v. decode_struct False [''action''] set_action v '''')"

definition validateSpamRunnable :: "string \<Rightarrow> provider_row \<Rightarrow> error + unit" where
  "validateSpamRunnable key row =
     (if key = ''spam.local'' then
        (case stored_action (pr_public row) of None \<Rightarrow> Inl ErrValidation | Some act \<Rightarrow> validateSpamAction act)
      else guardE (pr_ciphertext row \<noteq> '''') ErrValidation)"

definition UpsertSpam :: "provider_env \<Rightarrow> string \<Rightarrow> bool \<Rightarrow> json_value option \<Rightarrow> unit setting_op" where
  "UpsertSpam P key enabled config =
     bind (require (map_of spamProviderSpecs key \<noteq> None) ErrValidation) (\<lambda>_.
     bind (lift (splitSpamConfig P key config)) (\<lambda>(public, new_secret).
     bind (existing_row (GetSpamProvider key)) (\<lambda>existing.
     bind (case new_secret of
             Some secret \<Rightarrow>
               bind (lift (seal_document P secret)) (\<lambda>sealed. ret (sealed_row key KindSpam enabled public (Some sealed)))
           | None \<Rightarrow> ret (kept_secret existing (sealed_row key KindSpam enabled public None))) (\<lambda>row.
     bind (if enabled then lift (validateSpamRunnable key row) else ret ()) (\<lambda>_.
     atomically ErrInfra (UpsertSpamProvider row))))))"

definition spamConfigured :: "provider_row \<Rightarrow> bool" where
  "spamConfigured row \<longleftrightarrow>
     (if pr_key row = ''spam.local'' then
        (case stored_action (pr_public row) of None \<Rightarrow> False | Some act \<Rightarrow> validateSpamAction act = Inr ())
      else pr_ciphertext row \<noteq> '''')"

record opened_spam_provider =
  spp_key :: string
  spp_enabled :: bool
  spp_configured :: bool
  spp_config :: spam_config

definition spamProvider :: "provider_env \<Rightarrow> provider_row \<Rightarrow> error + opened_spam_provider" where
  "spamProvider P r =
     bindE (decodeConfigFields (pr_public r) (\<lambda>v. dec_spam False v no_spam) no_spam) (\<lambda>cfg.
     let provider = \<lparr>spp_key = pr_key r, spp_enabled = pr_enabled r, spp_configured = spamConfigured r, spp_config = cfg\<rparr>
     in if pr_ciphertext r = '''' then Inr provider
        else bindE (decode_secret P r (\<lambda>v. dec_spam False v no_spam)) (\<lambda>secret.
             Inr (provider\<lparr>spp_config :=
               (if pr_key r = ''spam.akismet'' then cfg\<lparr>sc_api_key := sc_api_key secret\<rparr>
                else if pr_key r = ''spam.aliyun'' then
                  cfg\<lparr>sc_access_key_id := sc_access_key_id secret, sc_access_key_secret := sc_access_key_secret secret\<rparr>
                else if pr_key r = ''spam.tencent'' then
                  cfg\<lparr>sc_secret_id := sc_secret_id secret, sc_secret_key := sc_secret_key secret\<rparr>
                else cfg)\<rparr>)))"

definition SpamProvider :: "provider_env \<Rightarrow> string \<Rightarrow> opened_spam_provider setting_op" where
  "SpamProvider P key = bind (provider_not_found (GetSpamProvider key)) (\<lambda>r. lift (spamProvider P r))"

text \<open>The enabled rows in the fixed order of the keys, each opened; the first that does not open ends the list.\<close>

definition enabled_in_order :: "string list \<Rightarrow> provider_row list \<Rightarrow> provider_row list" where
  "enabled_in_order keys rows =
     concat (map (\<lambda>key. case find (\<lambda>r. pr_key r = key \<and> pr_enabled r) rows of None \<Rightarrow> [] | Some r \<Rightarrow> [r]) keys)"

fun open_rows :: "(provider_row \<Rightarrow> error + 'a) \<Rightarrow> provider_row list \<Rightarrow> error + 'a list" where
  "open_rows f [] = Inr []"
| "open_rows f (r # rows) = bindE (f r) (\<lambda>p. bindE (open_rows f rows) (\<lambda>ps. Inr (p # ps)))"

definition EnabledSpamProviders :: "provider_env \<Rightarrow> opened_spam_provider list setting_op" where
  "EnabledSpamProviders P =
     bind ListSpamProviders (\<lambda>rows. lift (open_rows (spamProvider P) (enabled_in_order spamProviderKeys rows)))"

end
