(* ===== verification/Provider_Admin.thy ===== *)
theory Provider_Admin
  imports Providers
begin

text \<open>
  The rest of \<open>ProviderService\<close>: notification channels, the administrator's list, deletion with the captcha
  selection, the connectivity test, the audit of the secrets at start-up, and the public captcha configuration
  of an action (\<open>captcha_config.go\<close>).
\<close>

section \<open>Notification channels\<close>

record channel_spec =
  ch_public :: "string list"
  ch_secret :: "string list"
  ch_optional :: "string list"

definition notificationProviderKeys :: "string list" where
  "notificationProviderKeys =
     [''notification.telegram'', ''notification.feishu'', ''notification.dingtalk'', ''notification.bark'',
      ''notification.slack'', ''notification.line'', ''notification.webhook'', ''notification.discord'']"

definition notificationProviderSpecs :: "(string \<times> channel_spec) list" where
  "notificationProviderSpecs =
     [(''notification.telegram'', \<lparr>ch_public = [], ch_secret = [''bot_token'', ''chat_id''], ch_optional = []\<rparr>),
      (''notification.feishu'', \<lparr>ch_public = [], ch_secret = [''webhook_url''], ch_optional = [''signing_secret'']\<rparr>),
      (''notification.dingtalk'', \<lparr>ch_public = [], ch_secret = [''webhook_url''], ch_optional = [''signing_secret'']\<rparr>),
      (''notification.bark'', \<lparr>ch_public = [''server_url''], ch_secret = [''device_key''], ch_optional = []\<rparr>),
      (''notification.slack'', \<lparr>ch_public = [], ch_secret = [''webhook_url''], ch_optional = []\<rparr>),
      (''notification.line'', \<lparr>ch_public = [], ch_secret = [''channel_access_token'', ''target_id''], ch_optional = []\<rparr>),
      (''notification.webhook'', \<lparr>ch_public = [], ch_secret = [''webhook_url''], ch_optional = [''signing_secret'']\<rparr>),
      (''notification.discord'', \<lparr>ch_public = [], ch_secret = [''webhook_url''], ch_optional = []\<rparr>)]"

definition ValidNotificationProviderKey :: "string \<Rightarrow> bool" where
  "ValidNotificationProviderKey key \<longleftrightarrow> map_of notificationProviderSpecs key \<noteq> None"

text \<open>The specification of a key that is no channel is the empty one.\<close>

definition channelSpec :: "string \<Rightarrow> channel_spec" where
  "channelSpec key =
     (case map_of notificationProviderSpecs key of Some spec \<Rightarrow> spec
      | None \<Rightarrow> \<lparr>ch_public = [], ch_secret = [], ch_optional = []\<rparr>)"

definition decodeNotificationInput :: "json_value option \<Rightarrow> error + channel_input" where
  "decodeNotificationInput raw =
     decode_config raw (\<lambda>v. decode_struct True channel_fields set_input_channel v no_input_channel)"

definition or_kept :: "string \<Rightarrow> string \<Rightarrow> string" where
  "or_kept given_value kept = (if given_value \<noteq> '''' then given_value else kept)"

definition merge_signing_secret :: "json_value option \<Rightarrow> string option \<Rightarrow> error + string option" where
  "merge_signing_secret input kept =
     (case input of
        None \<Rightarrow> Inr kept
      | Some v \<Rightarrow>
          if v = JvNull then Inr None
          else (case dec_string v '''' of
                  None \<Rightarrow> Inl ErrValidation
                | Some s \<Rightarrow> Inr (if TrimSpace s = '''' then None else Some (TrimSpace s))))"

definition effectiveNotificationConfig ::
  "string \<Rightarrow> channel_input \<Rightarrow> channel_settings option \<Rightarrow> error + channel_settings" where
  "effectiveNotificationConfig key input existing =
     (if \<not> ValidNotificationProviderKey key then Inl ErrValidation
      else let kept = (case existing of None \<Rightarrow> no_stored_channel | Some c \<Rightarrow> c)
           in bindE (merge_signing_secret (in_signing_secret input) (cs_signing_secret kept)) (\<lambda>signing.
              Inr \<lparr>cc_bot_token = or_kept (cc_bot_token input) (cc_bot_token kept),
                   cc_chat_id = or_kept (cc_chat_id input) (cc_chat_id kept),
                   cc_webhook_url = or_kept (cc_webhook_url input) (cc_webhook_url kept),
                   cc_server_url = or_kept (cc_server_url input) (cc_server_url kept),
                   cc_device_key = or_kept (cc_device_key input) (cc_device_key kept),
                   cc_access_token = or_kept (cc_access_token input) (cc_access_token kept),
                   cc_target_id = or_kept (cc_target_id input) (cc_target_id kept),
                   cs_signing_secret = signing\<rparr>))"

definition present :: "string \<Rightarrow> error + unit" where
  "present s = guardE (TrimSpace s \<noteq> '''') ErrValidation"

definition validateNotificationConfig :: "provider_env \<Rightarrow> string \<Rightarrow> channel_settings \<Rightarrow> error + unit" where
  "validateNotificationConfig P key cfg =
     (if key = ''notification.telegram'' then
        bindE (present (cc_bot_token cfg)) (\<lambda>_. present (cc_chat_id cfg))
      else if key \<in> {''notification.feishu'', ''notification.dingtalk'', ''notification.slack'', ''notification.discord''} then
        bindE (present (cc_webhook_url cfg)) (\<lambda>_.
        (case ParsePlatform key of
           Inl e \<Rightarrow> Inl ErrValidation
         | Inr p \<Rightarrow> guardE (ValidateWebhookURL (pe_lib P) (pe_urls P) (pe_equal_fold P) p (cc_webhook_url cfg)) ErrValidation))
      else if key = ''notification.webhook'' then
        bindE (present (cc_webhook_url cfg)) (\<lambda>_.
        guardE (ValidateTrustedURL (pe_lib P) (cc_webhook_url cfg)) ErrValidation)
      else if key = ''notification.bark'' then
        bindE (present (cc_server_url cfg)) (\<lambda>_. bindE (present (cc_device_key cfg)) (\<lambda>_.
        guardE (ValidateTrustedURL (pe_lib P) (cc_server_url cfg)) ErrValidation))
      else if key = ''notification.line'' then
        bindE (present (cc_access_token cfg)) (\<lambda>_. present (cc_target_id cfg))
      else Inl ErrValidation)"

definition validateNotificationRunnable :: "provider_env \<Rightarrow> string \<Rightarrow> channel_settings \<Rightarrow> error + unit" where
  "validateNotificationRunnable = validateNotificationConfig"

definition public_channel_member :: "channel_settings \<Rightarrow> string \<Rightarrow> error + (string \<times> json_value) list" where
  "public_channel_member cfg field =
     (if field = ''server_url'' then Inr (given_member field (cc_server_url cfg)) else Inl ErrInfra)"

definition publicNotificationConfig :: "channel_settings \<Rightarrow> channel_spec \<Rightarrow> error + json_value" where
  "publicNotificationConfig cfg spec =
     bindE (object_members (public_channel_member cfg) (ch_public spec)) (\<lambda>ms. Inr (object_of ms))"

definition secret_channel_member :: "channel_settings \<Rightarrow> string \<Rightarrow> error + (string \<times> json_value) list" where
  "secret_channel_member cfg field =
     (if field = ''bot_token'' then Inr [(field, JvString (cc_bot_token cfg))]
      else if field = ''chat_id'' then Inr [(field, JvString (cc_chat_id cfg))]
      else if field = ''webhook_url'' then Inr [(field, JvString (cc_webhook_url cfg))]
      else if field = ''device_key'' then Inr [(field, JvString (cc_device_key cfg))]
      else if field = ''channel_access_token'' then Inr [(field, JvString (cc_access_token cfg))]
      else if field = ''target_id'' then Inr [(field, JvString (cc_target_id cfg))]
      else Inl ErrInfra)"

definition optional_channel_member :: "channel_settings \<Rightarrow> string \<Rightarrow> error + (string \<times> json_value) list" where
  "optional_channel_member cfg field =
     (if field \<noteq> ''signing_secret'' then Inl ErrInfra
      else Inr (case cs_signing_secret cfg of None \<Rightarrow> [] | Some s \<Rightarrow> [(field, JvString s)]))"

definition secretNotificationConfig :: "channel_settings \<Rightarrow> channel_spec \<Rightarrow> error + json_value" where
  "secretNotificationConfig cfg spec =
     bindE (object_members (secret_channel_member cfg) (ch_secret spec)) (\<lambda>ms.
     bindE (object_members (optional_channel_member cfg) (ch_optional spec)) (\<lambda>os. Inr (object_of (ms @ os))))"

text \<open>Copying a secret field of the opened document into the configuration.\<close>

definition copy_secret ::
  "channel_settings \<Rightarrow> string \<Rightarrow> channel_settings \<Rightarrow> error + channel_settings" where
  "copy_secret secret field cfg =
     (if field = ''bot_token'' then Inr (cfg\<lparr>cc_bot_token := cc_bot_token secret\<rparr>)
      else if field = ''chat_id'' then Inr (cfg\<lparr>cc_chat_id := cc_chat_id secret\<rparr>)
      else if field = ''webhook_url'' then Inr (cfg\<lparr>cc_webhook_url := cc_webhook_url secret\<rparr>)
      else if field = ''device_key'' then Inr (cfg\<lparr>cc_device_key := cc_device_key secret\<rparr>)
      else if field = ''channel_access_token'' then Inr (cfg\<lparr>cc_access_token := cc_access_token secret\<rparr>)
      else if field = ''target_id'' then Inr (cfg\<lparr>cc_target_id := cc_target_id secret\<rparr>)
      else if field = ''signing_secret'' then Inr (cfg\<lparr>cs_signing_secret := cs_signing_secret secret\<rparr>)
      else Inl ErrInfra)"

fun copy_secrets ::
  "channel_settings \<Rightarrow> string list \<Rightarrow> channel_settings \<Rightarrow> error + channel_settings" where
  "copy_secrets secret [] cfg = Inr cfg"
| "copy_secrets secret (field # names) cfg =
     bindE (copy_secret secret field cfg) (\<lambda>cfg'. copy_secrets secret names cfg')"

record notification_provider =
  np_key :: string
  np_enabled :: bool
  np_configured :: bool
  np_config :: channel_settings

definition notificationProvider :: "provider_env \<Rightarrow> provider_row \<Rightarrow> error + notification_provider" where
  "notificationProvider P r =
     bindE (decodeConfigFields (pr_public r) (\<lambda>v. dec_stored_channel v no_stored_channel) no_stored_channel) (\<lambda>cfg.
     let provider = \<lparr>np_key = pr_key r, np_enabled = pr_enabled r, np_configured = pr_ciphertext r \<noteq> '''', np_config = cfg\<rparr>
     in if pr_ciphertext r = '''' then Inr provider
        else bindE (decode_secret P r (\<lambda>v. dec_stored_channel v no_stored_channel)) (\<lambda>secret.
             bindE (copy_secrets secret (ch_secret (channelSpec (pr_key r)) @ ch_optional (channelSpec (pr_key r))) cfg)
               (\<lambda>cfg'. Inr (provider\<lparr>np_config := cfg'\<rparr>))))"

definition NotificationProvider :: "provider_env \<Rightarrow> string \<Rightarrow> notification_provider setting_op" where
  "NotificationProvider P key =
     bind (provider_not_found (GetNotificationProvider key)) (\<lambda>r. lift (notificationProvider P r))"

definition EnabledNotificationProviders :: "provider_env \<Rightarrow> notification_provider list setting_op" where
  "EnabledNotificationProviders P =
     bind ListNotificationProviders (\<lambda>rows.
     lift (open_rows (notificationProvider P) (enabled_in_order notificationProviderKeys rows)))"

text \<open>The document of the secrets is never empty, so it is always sealed.\<close>

definition UpsertNotification :: "provider_env \<Rightarrow> string \<Rightarrow> bool \<Rightarrow> json_value option \<Rightarrow> unit setting_op" where
  "UpsertNotification P key enabled config =
     bind (require (ValidNotificationProviderKey key) ErrValidation) (\<lambda>_.
     bind (lift (decodeNotificationInput config)) (\<lambda>input.
     bind (existing_row (GetNotificationProvider key)) (\<lambda>row.
     bind (lift (case row of None \<Rightarrow> Inr None
                 | Some r \<Rightarrow> bindE (notificationProvider P r) (\<lambda>p. Inr (Some (np_config p))))) (\<lambda>existing.
     bind (lift (effectiveNotificationConfig key input existing)) (\<lambda>merged.
     bind (lift (validateNotificationConfig P key merged)) (\<lambda>_.
     bind (if enabled then lift (validateNotificationRunnable P key merged) else ret ()) (\<lambda>_.
     bind (lift (publicNotificationConfig merged (channelSpec key))) (\<lambda>public.
     bind (lift (secretNotificationConfig merged (channelSpec key))) (\<lambda>secret.
     bind (lift (seal_document P secret)) (\<lambda>sealed.
     atomically ErrInfra
       (UpsertNotificationProvider (sealed_row key KindNotification enabled public (Some sealed)))))))))))))"

section \<open>The administrator's list\<close>

record admin_provider_meta =
  am_key :: string
  am_kind :: string
  am_enabled :: bool
  am_configured :: bool
  am_public :: "json_value option"

definition publicRaw :: "json_value option \<Rightarrow> json_value option" where
  "publicRaw raw = raw"

definition publicSpamRaw :: "string \<Rightarrow> json_value option \<Rightarrow> json_value option" where
  "publicSpamRaw key raw =
     (if key \<noteq> ''spam.local'' then publicRaw raw
      else case raw of
             Some (JvObject kvs) \<Rightarrow> Some (object_of (filter (\<lambda>(k, v). k \<noteq> ''file_path'') kvs))
           | _ \<Rightarrow> publicRaw raw)"

definition meta_of :: "provider_row \<Rightarrow> admin_provider_meta" where
  "meta_of r =
     \<lparr>am_key = pr_key r, am_kind = pr_kind r,
      am_enabled = (pr_kind r \<noteq> KindCaptcha \<and> pr_enabled r),
      am_configured = (if pr_kind r = KindSpam then spamConfigured r else pr_ciphertext r \<noteq> ''''),
      am_public = (if pr_kind r = KindSpam then publicSpamRaw (pr_key r) (pr_public r) else publicRaw (pr_public r))\<rparr>"

definition ListProviders :: "admin_provider_meta list setting_op" where
  "ListProviders =
     bind ListCaptchaProviders (\<lambda>captchas. bind ListAuthProviders (\<lambda>auths. bind ListSpamProviders (\<lambda>spams.
     bind ListNotificationProviders (\<lambda>channels.
     ret (sort_key am_key (map meta_of captchas @ map meta_of auths @ map meta_of spams @ map meta_of channels))))))"

section \<open>Deletion\<close>

definition clearSelectionIfSelected :: "string \<Rightarrow> unit setting_op" where
  "clearSelectionIfSelected key =
     bind (attempt (GetCaptchaProvider key)) (\<lambda>found.
     case found of
       Inl e \<Rightarrow> if e = ErrNotFound then ret () else fail e
     | Inr row \<Rightarrow>
         bind selectedCaptchaProvider (\<lambda>selected.
         if selected \<noteq> key then ret ()
         else UpsertSettings [\<lparr>sr_key = CaptchaProviderSettingKey, sr_type = type_string SettingTypeString,
                               sr_value = Some (JvString ''''), sr_updated_by = 0\<rparr>]))"

definition or_else_missing :: "unit setting_op \<Rightarrow> unit setting_op \<Rightarrow> unit setting_op" where
  "or_else_missing m otherwise =
     bind (attempt m) (\<lambda>r. case r of Inr u \<Rightarrow> ret () | Inl e \<Rightarrow> if e = ErrNotFound then otherwise else fail e)"

definition deleteProviderRow :: "string \<Rightarrow> unit setting_op" where
  "deleteProviderRow key =
     or_else_missing (DeleteCaptchaProvider key)
       (or_else_missing (DeleteAuthProvider key)
         (or_else_missing (DeleteSpamProvider key)
           (or_else_missing (DeleteNotificationProvider key) (fail ErrNotFound))))"

definition DeleteProvider :: "provider_env \<Rightarrow> string \<Rightarrow> unit setting_op" where
  "DeleteProvider P key =
     bind (atomically ErrInfra (bind (clearSelectionIfSelected key) (\<lambda>_. deleteProviderRow key))) (\<lambda>_.
     if pe_invalidator P then Invalidate else ret ())"

section \<open>The connectivity test\<close>

definition authProbeTarget :: "provider_env \<Rightarrow> auth_provider \<Rightarrow> error + string" where
  "authProbeTarget P p =
     (let instance_target = (\<lambda>document.
        if ap_instance_url p = '''' then Inl ErrValidation
        else (case ParseHTTPSBase (pe_lib P) (ap_instance_url p) of
                None \<Rightarrow> Inl ErrValidation
              | Some u \<Rightarrow> Inr (lib_string (pe_lib P) (JoinPathSegments (pe_urls P) u [''.well-known'', document]))))
      in case LookupProvider (ap_key p) of
           None \<Rightarrow> if ap_issuer_url p = '''' then Inl ErrValidation else Inr (ap_issuer_url p)
         | Some spec \<Rightarrow>
             if ps_kind spec = ''oauth'' \<and> ap_key p = ''github'' then Inr (ap_auth_url p)
             else if ps_kind spec = ''oauth'' \<and> ap_key p = ''twitter'' then Inr ''https://x.com/i/oauth2/authorize''
             else if ps_kind spec = ''oauth'' \<and> ap_key p = ''discord'' then Inr ''https://discord.com/oauth2/authorize''
             else if ap_key p = ''google'' then Inr (ap_issuer_url p)
             else if ap_key p = ''gitlab'' \<or> ap_key p = ''gitea'' then instance_target ''openid-configuration''
             else if ap_key p = ''mastodon'' then instance_target ''oauth-authorization-server''
             else if ap_key p = ''microsoft'' then
               Inr ''https://login.microsoftonline.com/common/v2.0/.well-known/openid-configuration''
             else if ap_key p = ''line'' then Inr ''https://access.line.me/.well-known/openid-configuration''
             else if ap_key p = ''apple'' then Inr ''https://appleid.apple.com/auth/keys''
             else Inl ErrValidation)"

text \<open>The collaborators of the test: the two probes and, when it is wired, the tester of channels.\<close>

record probes =
  pb_captcha :: "captcha_config \<Rightarrow> bool"
  pb_url :: "string \<Rightarrow> bool"
  pb_tester :: "(string \<Rightarrow> channel_settings \<Rightarrow> error + unit) option"

definition unknown_provider :: "error \<Rightarrow> bool" where
  "unknown_provider e \<longleftrightarrow> e = ErrProviderNotFound \<or> e = ErrNotFound"

definition test_channel :: "provider_env \<Rightarrow> probes \<Rightarrow> string \<Rightarrow> unit setting_op" where
  "test_channel P B key =
     (if ValidNotificationProviderKey key then
        bind (NotificationProvider P key) (\<lambda>p.
        case pb_tester B of None \<Rightarrow> fail ErrUnavailable | Some test \<Rightarrow> lift (test key (np_config p)))
      else fail ErrProviderNotFound)"

definition test_auth :: "provider_env \<Rightarrow> probes \<Rightarrow> auth_provider \<Rightarrow> error + unit" where
  "test_auth P B p =
     bindE (guardE (ap_key p = ''apple'' \<longrightarrow> pe_apple_key_ok P (ap_apple_private_key p)) ErrValidation) (\<lambda>_.
     bindE (authProbeTarget P p) (\<lambda>target. guardE (pb_url B target) ErrUnavailable))"

definition TestProvider :: "provider_env \<Rightarrow> probes \<Rightarrow> string \<Rightarrow> unit setting_op" where
  "TestProvider P B key =
     bind (attempt (CaptchaProvider P key)) (\<lambda>captcha.
     case captcha of
       Inr cfg \<Rightarrow> require (pb_captcha B cfg) ErrUnavailable
     | Inl e \<Rightarrow>
         if \<not> unknown_provider e then fail e
         else bind (attempt (AuthProvider P key)) (\<lambda>auth.
              case auth of
                Inr p \<Rightarrow> lift (test_auth P B p)
              | Inl e \<Rightarrow> if \<not> unknown_provider e then fail e else test_channel P B key))"

section \<open>Audit and public configuration\<close>

record audit_report =
  ar_scanned :: nat
  ar_unsupported :: nat
  ar_unreadable :: nat
  ar_query_failures :: nat

definition sealed_rows :: "provider_row list \<Rightarrow> provider_row list" where
  "sealed_rows rows = filter (\<lambda>r. pr_ciphertext r \<noteq> '''') rows"

definition audit_of :: "provider_env \<Rightarrow> provider_row list \<Rightarrow> nat \<Rightarrow> audit_report" where
  "audit_of P rows failures =
     (let sealed = sealed_rows rows;
          supported = filter (\<lambda>r. pr_version r = int masterKeyVersion) sealed
      in \<lparr>ar_scanned = length sealed,
          ar_unsupported = count_where (\<lambda>r. pr_version r \<noteq> int masterKeyVersion) sealed,
          ar_unreadable = count_where (\<lambda>r. Decrypt P masterKeyVersion
             (char_of masterKeyVersion # pr_nonce r @ pr_ciphertext r) = None) supported,
          ar_query_failures = failures\<rparr>)"

definition rows_or_failure :: "error + provider_row list \<Rightarrow> provider_row list \<times> nat" where
  "rows_or_failure r = (case r of Inl e \<Rightarrow> ([], 1) | Inr rows \<Rightarrow> (rows, 0))"

definition AuditSecrets :: "provider_env \<Rightarrow> audit_report setting_op" where
  "AuditSecrets P =
     bind (attempt ListCaptchaProviders) (\<lambda>a. bind (attempt ListAuthProviders) (\<lambda>b.
     bind (attempt ListSpamProviders) (\<lambda>c. bind (attempt ListNotificationProviders) (\<lambda>d.
     let parts = map rows_or_failure [a, b, c, d]
     in ret (audit_of P (concat (map fst parts)) (sum_list (map snd parts)))))))"

text \<open>A warning is logged when the report shows anything unusable.\<close>

definition audit_warns :: "audit_report \<Rightarrow> bool" where
  "audit_warns r \<longleftrightarrow> 0 < ar_query_failures r \<or> 0 < ar_unsupported r \<or> 0 < ar_unreadable r"

record public_captcha =
  pc_required :: bool
  pc_provider :: string
  pc_site_key :: string
  pc_api_endpoint :: string

definition PublicConfig ::
  "setting_env \<Rightarrow> provider_env \<Rightarrow> captcha_http \<Rightarrow> string \<Rightarrow> public_captcha setting_op" where
  "PublicConfig E P H raw_action =
     (let act = TrimSpace raw_action
      in if act = '''' \<or> length act > 64 then fail ErrValidation
         else bind (GetSettings E) (\<lambda>view.
              if map_of (st_captcha_policy (sv_settings view)) act \<noteq> Some True
              then ret \<lparr>pc_required = False, pc_provider = '''', pc_site_key = '''', pc_api_endpoint = ''''\<rparr>
              else bind (attempt (SelectedCaptcha P)) (\<lambda>selected.
                   case selected of
                     Inl e \<Rightarrow> fail ErrCaptchaUnavailable
                   | Inr cfg \<Rightarrow>
                       ret \<lparr>pc_required = True, pc_provider = cap_provider cfg, pc_site_key = cap_site_key cfg,
                            pc_api_endpoint = WidgetAPIURL H (cfg\<lparr>cap_secret_key := ''''\<rparr>)\<rparr>)))"

end
