(* ===== verification/Settings_Props.thy ===== *)
theory Settings_Props
  imports Settings_Facts Provider_Admin
begin

text \<open>
  Properties of the settings and the provider configurations: the cached snapshot is never stale, a patch takes
  effect, the epoch of the widget credentials follows the comment mode, and secrets come back as they went in.
\<close>

section \<open>Programs that read\<close>

lemma only_reads_basic:
  "only_reads (ret x)" "only_reads (fail e)" "only_reads (lift r)" "only_reads (require b e)"
  "only_reads (setting_query g)"
  by (auto simp: only_reads_def ret_def fail_def lift_def require_def setting_query_def query_def stmt_def Let_def
      split: if_splits)

lemma only_reads_bind: "only_reads m \<Longrightarrow> (\<And>x. only_reads (f x)) \<Longrightarrow> only_reads (bind m f)"
  unfolding only_reads_def bind_def by (fastforce split: prod.splits sum.splits)

lemma only_reads_attempt: "only_reads m \<Longrightarrow> only_reads (attempt m)"
  unfolding only_reads_def attempt_def by (fastforce split: prod.splits)

lemma only_reads_split:
  "(b \<Longrightarrow> only_reads m) \<Longrightarrow> (\<not> b \<Longrightarrow> only_reads m') \<Longrightarrow> only_reads (if b then m else m')"
  "(\<And>e. only_reads (f e)) \<Longrightarrow> (\<And>x. only_reads (g x)) \<Longrightarrow> only_reads (case r of Inl e \<Rightarrow> f e | Inr x \<Rightarrow> g x)"
  "only_reads m \<Longrightarrow> (\<And>x. only_reads (h x)) \<Longrightarrow> only_reads (case y of None \<Rightarrow> m | Some x \<Rightarrow> h x)"
  by (auto split: sum.splits option.splits)

lemmas only_reads_rules = only_reads_basic only_reads_bind only_reads_attempt only_reads_split

lemma get_provider_reads: "only_reads (get_provider kinds key)"
  unfolding get_provider_def getProviderDecoded_def by (intro only_reads_rules)

lemma list_providers_reads: "only_reads (list_providers kinds)"
  unfolding list_providers_def listProviderDecoded_def by (intro only_reads_rules)

lemma CaptchaProvider_reads: "only_reads (CaptchaProvider P key)"
  unfolding CaptchaProvider_def provider_not_found_def GetCaptchaProvider_def
  by (intro only_reads_rules get_provider_reads)

lemma ValidateSelection_reads: "only_reads (ValidateSelection P key)"
  unfolding ValidateSelection_def by (intro only_reads_rules CaptchaProvider_reads)

lemma selectedCaptchaProvider_reads: "only_reads selectedCaptchaProvider"
  unfolding selectedCaptchaProvider_def GetSetting_def by (intro only_reads_rules)

lemma preserves_only_reads: "only_reads m \<Longrightarrow> preserves I m"
  by (auto simp: only_reads_def preserves_def)

lemma preserves_bind_lift: "(\<And>x. r = Inr x \<Longrightarrow> preserves I (f x)) \<Longrightarrow> preserves I (bind (lift r) f)"
  by (cases r) (auto simp: bind_unit intro: preserves_basic)

lemma preserves_bind_require: "(b \<Longrightarrow> preserves I (f ())) \<Longrightarrow> preserves I (bind (require b e) f)"
  by (cases b) (auto simp: require_def bind_unit intro: preserves_basic)

section \<open>Writes\<close>

lemma preserves_setting_write:
  assumes "\<And>d. list_all (\<lambda>r. sr_type r \<in> set setting_types) brought \<Longrightarrow> I d \<Longrightarrow> I (d\<lparr>ss_rows := f (ss_rows d)\<rparr>)"
  shows "preserves I (setting_write brought f)"
  unfolding setting_write_def using assms by (intro preserves_stmt) (auto split: if_splits)

abbreviation stored_rows_ok :: "settings_store \<Rightarrow> bool" where
  "stored_rows_ok d \<equiv> rows_ok (ss_rows d)"

lemma fold_upsert_ok:
  "rows_ok rows \<Longrightarrow> list_all (\<lambda>r. sr_type r \<in> set setting_types) new \<Longrightarrow> rows_ok (fold upsert_setting_row new rows)"
  by (induction new arbitrary: rows) (auto simp: rows_ok_upsert)

lemma SeedMissing_ok: "preserves stored_rows_ok (SeedMissing new)"
  unfolding SeedMissing_def
  by (intro preserves_if preserves_basic preserves_setting_write) (auto intro: fold_insert_missing_ok)

lemma UpsertSettings_ok: "preserves stored_rows_ok (UpsertSettings new)"
  unfolding UpsertSettings_def
  by (intro preserves_if preserves_basic preserves_setting_write) (auto intro: fold_upsert_ok)

lemma ListSettings_reads: "only_reads ListSettings" "only_reads (LockRows keys)" "only_reads (PublicItems E)"
  unfolding PublicItems_def ListSettings_def LockRows_def by (intro only_reads_rules)+

lemma patch_tx_ok:
  assumes "\<And>check k. validator = Some check \<Longrightarrow> only_reads (check k)"
  shows "preserves stored_rows_ok (patch_tx E validator items admin)"
proof -
  have "preserves stored_rows_ok seeded_rows"
    unfolding seeded_rows_def
    by (intro preserves_bind preserves_if preserves_basic SeedMissing_ok preserves_only_reads [OF ListSettings_reads(1)])
  moreover have "only_reads (epoch_writes items admin)"
    unfolding epoch_writes_def by (intro only_reads_rules ListSettings_reads)
  ultimately show ?thesis
    unfolding patch_tx_def using assms
    by (auto intro!: preserves_bind preserves_if preserves_case_option preserves_basic UpsertSettings_ok
        intro: preserves_only_reads)
qed

section \<open>The cached snapshot\<close>

text \<open>What is cached is what the rows stand for.\<close>

definition coherent :: "setting_env \<Rightarrow> settings_store \<Rightarrow> bool" where
  "coherent E d \<longleftrightarrow>
     rows_ok (ss_rows d) \<and>
     (\<forall>v. ss_cached d = Some v \<longrightarrow>
        settingsFromRows E (rows_by_key (ss_rows d)) = Inr (sv_settings v) \<and> sv_epoch v = epochFromRows (ss_rows d))"

lemma epoch_rows_by_key: "rows_ok rows \<Longrightarrow> epochFromRows (rows_by_key rows) = epochFromRows rows"
  by (intro epoch_cong row_at_by_key) (simp add: rows_ok_def)

lemma Invalidate_data: "Invalidate w = (r, w') \<Longrightarrow> data w' = (data w)\<lparr>ss_cached := None\<rparr>"
  by (auto simp: Invalidate_def set_cached_def)

text \<open>A transaction that keeps the rows in order and is followed by an invalidation.\<close>

lemma coherent_invalidating:
  assumes "preserves stored_rows_ok m" "\<And>x. only_reads (rest x)"
  shows "preserves (coherent E) (bind (atomically ErrInfra m) (\<lambda>x. bind Invalidate (\<lambda>_. rest x)))"
  unfolding preserves_def
proof (intro allI impI)
  fix w r w'
  assume c: "coherent E (data w)" and run: "bind (atomically ErrInfra m) (\<lambda>x. bind Invalidate (\<lambda>_. rest x)) w = (r, w')"
  obtain r1 w1 where tx: "atomically ErrInfra m w = (r1, w1)" by (cases "atomically ErrInfra m w")
  show "coherent E (data w')"
  proof (cases r1)
    case (Inl e)
    with tx run have "data w' = data w" by (auto simp: bind_def dest: atomically_error)
    with c show ?thesis by simp
  next
    case (Inr x)
    have ok: "rows_ok (ss_rows (data w1))"
      using preservesD [OF preserves_atomically [OF assms(1)] tx] c by (simp add: coherent_def)
    obtain u w2 where inv: "Invalidate w1 = (Inr u, w2)" by (auto simp: Invalidate_def set_cached_def)
    then have "bind Invalidate (\<lambda>_. rest x) w1 = rest x w2" by simp
    with tx run Inr have "rest x w2 = (r, w')" by (simp add: bind_def [of "atomically ErrInfra m"])
    with assms(2) have "data w' = data w2" by (auto simp: only_reads_def)
    with Invalidate_data [OF inv] ok show ?thesis by (simp add: coherent_def)
  qed
qed

text \<open>Writing or removing a row that does not show in the snapshot leaves it as it is.\<close>

lemma hidden_upsert_loads:
  assumes "rows_ok rows" "hidden_row r"
  shows "settingsFromRows E (rows_by_key (upsert_setting_row r rows)) = Inr s \<longleftrightarrow>
    settingsFromRows E (rows_by_key rows) = Inr s"
proof -
  have d: "distinct (map sr_key rows)" using assms(1) by (simp add: rows_ok_def)
  have "x \<in> set (shown_rows (upsert_setting_row r rows)) \<longleftrightarrow> x \<in> set (shown_rows rows)" for x
    using assms(2) d by (auto simp: set_upsert hidden_row_def)
  then show ?thesis
    unfolding loads_rows [OF d] loads_rows [OF upsert_distinct [OF d]]
    using snapshot_upsert_hidden [OF d _ assms(2), of E] by auto
qed

lemma coherent_hidden_upsert:
  assumes "hidden_row r" "sr_key r \<noteq> KeyInternalEpoch" "coherent E d" "sr_type r \<in> set setting_types"
  shows "coherent E (d\<lparr>ss_rows := upsert_setting_row r (ss_rows d)\<rparr>)"
proof -
  have "epochFromRows (upsert_setting_row r (ss_rows d)) = epochFromRows (ss_rows d)"
    using assms(2,3) row_at_upsert [of "ss_rows d" KeyInternalEpoch r]
    by (intro epoch_cong) (simp add: coherent_def rows_ok_def)
  then show ?thesis
    using assms rows_ok_upsert [of "ss_rows d" r]
    by (auto simp: coherent_def hidden_upsert_loads)
qed

lemma provider_key_hidden:
  "IsProviderSettingKey (ProviderSettingKey key) \<longleftrightarrow> key \<noteq> ''captcha''"
  by (auto simp: IsProviderSettingKey_def ProviderSettingKey_def HasSuffix_def)

lemma provider_key_not_internal: "ProviderSettingKey key \<noteq> KeyInternalEpoch"
proof
  assume "ProviderSettingKey key = KeyInternalEpoch"
  then have "last (ProviderSettingKey key) = last KeyInternalEpoch" by simp
  then show False by (simp add: ProviderSettingKey_def)
qed

lemma upsert_provider_coherent:
  "pr_key r \<noteq> ''captcha'' \<Longrightarrow> preserves (coherent E) (upsert_provider r)"
  unfolding upsert_provider_def upsertProviderValue_def Let_def
  by (intro preserves_setting_write coherent_hidden_upsert)
    (auto simp: hidden_row_def provider_key_hidden provider_key_not_internal setting_types_def)

section \<open>Every operation keeps the cache coherent\<close>

lemma GetSettings_coherent: "preserves (coherent E) (GetSettings E)"
  unfolding preserves_def
proof (intro allI impI)
  fix w r w'
  assume c: "coherent E (data w)" and run: "GetSettings E w = (r, w')"
  have cached: "get_cached w = (Inr (ss_cached (data w)), w)" by (simp add: get_cached_def)
  show "coherent E (data w')"
  proof (cases "ss_cached (data w)")
    case (Some v)
    with run cached c show ?thesis by (simp add: GetSettings_def)
  next
    case None
    let ?I = "\<lambda>d. rows_ok (ss_rows d) \<and> ss_cached d = None"
    have seed: "preserves ?I seedDefaults"
      unfolding seedDefaults_def SeedMissing_def
      by (intro preserves_atomically preserves_if preserves_basic preserves_setting_write)
        (auto intro: fold_insert_missing_ok)
    have read: "preserves ?I (if missingRows rows0 \<noteq> [] then bind seedDefaults (\<lambda>_. ListSettings) else ret rows0)" for rows0
      by (intro preserves_if preserves_bind preserves_basic seed preserves_only_reads [OF ListSettings_reads(1)])
    define load where "load rows0 = (if missingRows rows0 \<noteq> [] then bind seedDefaults (\<lambda>_. ListSettings) else ret rows0)"
      for rows0
    define finish where "finish rows = bind (lift (settingsFromRows E rows)) (\<lambda>current.
        let v = \<lparr>sv_settings = current, sv_epoch = epochFromRows rows\<rparr>
        in bind (set_cached (Some v)) (\<lambda>_. ret v))" for rows
    have step: "bind ListSettings (\<lambda>rows0. bind (load rows0) finish) w = (r, w')"
      using run cached None unfolding GetSettings_def load_def finish_def by simp
    obtain r1 w1 where list: "ListSettings w = (r1, w1)" by (cases "ListSettings w")
    then have w1: "data w1 = data w" using ListSettings_reads(1) by (auto simp: only_reads_def)
    show ?thesis
    proof (cases r1)
      case (Inl e)
      with list step w1 c show ?thesis by (auto simp: bind_def)
    next
      case (Inr rows0)
      obtain r2 w2 where l: "load rows0 w1 = (r2, w2)" by (cases "load rows0 w1")
      have I2: "?I (data w2)"
        using preservesD [OF read [of rows0], of w1 r2 w2] l c None w1 by (simp add: load_def coherent_def)
      show ?thesis
      proof (cases r2)
        case (Inl e)
        with Inr list step l I2 show ?thesis by (auto simp: bind_def coherent_def)
      next
        case (Inr rows)
        have rows: "rows = rows_by_key (ss_rows (data w2))"
          using l Inr list w1 \<open>r1 = Inr rows0\<close>
          by (auto simp: load_def prog_elims dest!: ListSettings_data split: if_splits)
        have "finish rows w2 = (r, w')"
          using step list l Inr \<open>r1 = Inr rows0\<close> by (simp add: bind_def)
        then show ?thesis
          using I2 rows epoch_rows_by_key [of "ss_rows (data w2)"]
          by (cases "settingsFromRows E rows")
            (auto simp: finish_def Let_def bind_unit set_cached_def bind_def ret_def fail_def coherent_def)
      qed
    qed
  qed
qed

lemma Patch_coherent: "preserves (coherent E) (Patch E (Some (ValidateSelection P)) items admin)"
  unfolding Patch_def
  by (intro preserves_bind preserves_if preserves_basic coherent_invalidating patch_tx_ok ListSettings_reads)
    (auto simp: ValidateSelection_reads)

lemma ResetLegalConsent_coherent: "preserves (coherent E) (ResetLegalConsent admin)"
  unfolding ResetLegalConsent_def
  by (intro coherent_invalidating preserves_bind preserves_if preserves_basic SeedMissing_ok UpsertSettings_ok
      only_reads_basic preserves_only_reads [OF ListSettings_reads(1)] preserves_only_reads [OF ListSettings_reads(2)])

lemma sealed_row_key [simp]:
  "pr_key (sealed_row key kind enabled public sealed) = key" "pr_kind (sealed_row key kind enabled public sealed) = kind"
  "pr_key (kept_secret existing row) = pr_key row" "pr_kind (kept_secret existing row) = pr_kind row"
  by (auto simp: sealed_row_def kept_secret_def split: option.splits)

lemma validateProviderKey_captcha: "validateProviderKey key = Inr u \<Longrightarrow> key \<noteq> ''captcha''"
  by (auto simp: validateProviderKey_def ProviderSettingKey_def split: if_splits)

lemma UpsertCaptcha_coherent: "preserves (coherent E) (UpsertCaptcha P key config)"
  unfolding UpsertCaptcha_def UpsertCaptchaProvider_def
  by (auto intro!: preserves_bind_lift preserves_bind preserves_basic preserves_atomically upsert_provider_coherent
      dest: validateProviderKey_captcha)

lemma existing_row_reads: "only_reads (existing_row (get_provider kinds key))"
  unfolding existing_row_def by (intro only_reads_rules get_provider_reads)

text \<open>A row is put together by reading, and its key is not the one of the selection.\<close>

lemma chosen_row_coherent:
  assumes "only_reads pick" "\<And>w row w'. pick w = (Inr row, w') \<Longrightarrow> pr_key row \<noteq> ''captcha''"
    "\<And>row. pr_key row \<noteq> ''captcha'' \<Longrightarrow> preserves (coherent E) (write row)"
  shows "preserves (coherent E) (bind pick write)"
proof (rule preserves_bind_yields [OF preserves_only_reads [OF assms(1)]])
  show "yields (coherent E) (\<lambda>row. pr_key row \<noteq> ''captcha'') pick"
    using assms(2) by (auto simp: yields_def)
qed (rule assms(3))

lemma write_row_coherent: "pr_key row \<noteq> ''captcha'' \<Longrightarrow> preserves (coherent E) (atomically ErrInfra (upsert_provider row))"
  by (intro preserves_atomically upsert_provider_coherent)

lemma UpsertAuth_coherent: "preserves (coherent E) (UpsertAuth P key kind enabled config)"
  unfolding UpsertAuth_def UpsertAuthProvider_def GetAuthProvider_def
proof (intro preserves_bind_lift)
  fix u u' and split :: "json_value \<times> json_value option"
  assume "validateProviderKey key = Inr u"
  then have key: "key \<noteq> ''captcha''" by (rule validateProviderKey_captcha)
  obtain public secret where s: "split = (public, secret)" by (cases split)
  show "preserves (coherent E) (case split of (public, new_secret) \<Rightarrow>
      bind (existing_row (get_provider [KindOAuth, KindOIDC] key)) (\<lambda>existing.
      bind (case new_secret of
             Some secret \<Rightarrow>
               bind (lift (seal_document P secret)) (\<lambda>sealed. ret (sealed_row key kind enabled public (Some sealed)))
           | None \<Rightarrow>
               let row = kept_secret existing (sealed_row key kind enabled public None)
               in if pr_ciphertext row = '''' then fail ErrValidation else ret row) (\<lambda>row.
      atomically ErrInfra (upsert_provider row))))"
    unfolding s prod.case Let_def
    by (intro preserves_bind [OF preserves_only_reads [OF existing_row_reads]] chosen_row_coherent write_row_coherent
        only_reads_rules) (use key in \<open>auto simp: prog_elims split: option.splits if_splits\<close>)
qed

lemma UpsertSpam_coherent: "preserves (coherent E) (UpsertSpam P key enabled config)"
  unfolding UpsertSpam_def UpsertSpamProvider_def GetSpamProvider_def
proof (intro preserves_bind_require preserves_bind_lift)
  fix split :: "json_value \<times> json_value option"
  assume "map_of spamProviderSpecs key \<noteq> None"
  then have key: "key \<noteq> ''captcha''" by (auto simp: spamProviderSpecs_def)
  obtain public secret where s: "split = (public, secret)" by (cases split)
  show "preserves (coherent E) (case split of (public, new_secret) \<Rightarrow>
      bind (existing_row (get_provider [KindSpam] key)) (\<lambda>existing.
      bind (case new_secret of
             Some secret \<Rightarrow>
               bind (lift (seal_document P secret)) (\<lambda>sealed. ret (sealed_row key KindSpam enabled public (Some sealed)))
           | None \<Rightarrow> ret (kept_secret existing (sealed_row key KindSpam enabled public None))) (\<lambda>row.
      bind (if enabled then lift (validateSpamRunnable key row) else ret ()) (\<lambda>_.
      atomically ErrInfra (upsert_provider (row\<lparr>pr_kind := KindSpam\<rparr>))))))"
    unfolding s prod.case
    by (intro preserves_bind [OF preserves_only_reads [OF existing_row_reads]] chosen_row_coherent write_row_coherent
        preserves_bind preserves_if preserves_basic only_reads_rules)
      (use key in \<open>auto simp: prog_elims split: option.splits if_splits\<close>)
qed

lemma UpsertNotification_coherent: "preserves (coherent E) (UpsertNotification P key enabled config)"
  unfolding UpsertNotification_def UpsertNotificationProvider_def GetNotificationProvider_def
proof (intro preserves_bind_require)
  assume "ValidNotificationProviderKey key"
  then have "key \<noteq> ''captcha''"
    by (auto simp: ValidNotificationProviderKey_def notificationProviderSpecs_def)
  then show "preserves (coherent E) (bind (lift (decodeNotificationInput config)) (\<lambda>input.
     bind (existing_row (get_provider [KindNotification] key)) (\<lambda>row.
     bind (lift (case row of None \<Rightarrow> Inr None
                 | Some r \<Rightarrow> bindE (notificationProvider P r) (\<lambda>p. Inr (Some (np_config p))))) (\<lambda>existing.
     bind (lift (effectiveNotificationConfig key input existing)) (\<lambda>merged.
     bind (lift (validateNotificationConfig P key merged)) (\<lambda>_.
     bind (if enabled then lift (validateNotificationRunnable P key merged) else ret ()) (\<lambda>_.
     bind (lift (publicNotificationConfig merged (channelSpec key))) (\<lambda>public.
     bind (lift (secretNotificationConfig merged (channelSpec key))) (\<lambda>secret.
     bind (lift (seal_document P secret)) (\<lambda>sealed.
     atomically ErrInfra
       (upsert_provider (sealed_row key KindNotification enabled public (Some sealed)\<lparr>pr_kind := KindNotification\<rparr>))))))))))))"
    by (intro preserves_bind preserves_if preserves_basic write_row_coherent
        preserves_only_reads [OF existing_row_reads]) simp
qed

lemma delete_provider_ok: "preserves stored_rows_ok (delete_provider kinds key)"
  unfolding delete_provider_def delete_provider_setting_def
  by (intro preserves_bind preserves_only_reads [OF get_provider_reads] preserves_setting_write)
    (auto simp: rows_ok_def distinct_map_filter list_all_iff)

lemma or_else_missing_preserves: "preserves I m \<Longrightarrow> preserves I m' \<Longrightarrow> preserves I (or_else_missing m m')"
  unfolding or_else_missing_def
  by (intro preserves_bind preserves_attempt preserves_case_sum preserves_if preserves_basic)

lemma clearSelectionIfSelected_ok: "preserves stored_rows_ok (clearSelectionIfSelected key)"
  unfolding clearSelectionIfSelected_def GetCaptchaProvider_def
  by (intro preserves_bind preserves_attempt preserves_case_sum preserves_if preserves_basic UpsertSettings_ok
      preserves_only_reads [OF get_provider_reads] preserves_only_reads [OF selectedCaptchaProvider_reads])

lemma deleteProviderRow_ok: "preserves stored_rows_ok (deleteProviderRow key)"
  unfolding deleteProviderRow_def DeleteCaptchaProvider_def DeleteAuthProvider_def DeleteSpamProvider_def
    DeleteNotificationProvider_def
  by (intro or_else_missing_preserves delete_provider_ok preserves_basic)

lemma DeleteProvider_coherent:
  assumes "pe_invalidator P"
  shows "preserves (coherent E) (DeleteProvider P key)"
proof -
  have "DeleteProvider P key =
      bind (atomically ErrInfra (bind (clearSelectionIfSelected key) (\<lambda>_. deleteProviderRow key)))
        (\<lambda>x. bind Invalidate (\<lambda>_. ret ()))"
    using assms by (auto simp: DeleteProvider_def fun_eq_iff bind_def ret_def split: prod.splits sum.splits)
  then show ?thesis
    by (simp only:) (intro coherent_invalidating preserves_bind clearSelectionIfSelected_ok deleteProviderRow_ok
        only_reads_basic)
qed

section \<open>The epoch\<close>

definition epoch_is :: "int \<Rightarrow> settings_store \<Rightarrow> bool" where
  "epoch_is n d \<longleftrightarrow> rows_ok (ss_rows d) \<and> epochFromRows (ss_rows d) = n"

lemma row_at_insert_missing:
  "row_at key (insert_missing r rows) =
     (case row_at key rows of Some x \<Rightarrow> Some x | None \<Rightarrow> if sr_key r = key then Some r else None)"
proof -
  have append: "row_at key (rows @ [r]) =
      (case row_at key rows of Some x \<Rightarrow> Some x | None \<Rightarrow> if sr_key r = key then Some r else None)"
    by (induction rows) auto
  show ?thesis
  proof (cases "sr_key r \<in> set (map sr_key rows)")
    case True
    then have "row_at (sr_key r) rows \<noteq> None" by (auto simp: find_None_iff)
    with True show ?thesis by (auto simp: insert_missing_def split: option.splits)
  next
    case False
    with append show ?thesis by (simp add: insert_missing_def)
  qed
qed

lemma default_keys_public: "KeyInternalEpoch \<notin> sr_key ` set defaultItems"
  by (simp add: defaultItems_def default_row_def Let_def)

lemma missing_epoch_zero: "r \<in> set (missingRows rows) \<Longrightarrow> sr_key r = KeyInternalEpoch \<Longrightarrow> r = epoch_row 0 0"
  using default_keys_public by (auto simp: missingRows_def image_iff split: if_splits)

lemma epoch_fold_insert_missing:
  "\<forall>r \<in> set new. sr_key r = KeyInternalEpoch \<longrightarrow> r = epoch_row 0 0 \<Longrightarrow>
     epochFromRows (fold insert_missing new rows) = epochFromRows rows"
proof (induction new arbitrary: rows)
  case (Cons r new)
  have "epochFromRows (insert_missing r rows) = epochFromRows rows"
    using Cons.prems by (auto simp: epochFromRows_def row_at_insert_missing epoch_of_epoch_row in_int64_def max_int64_def
        split: option.splits)
  with Cons show ?case by simp
qed simp

lemma epoch_seeded: "epochFromRows (seeded rows) = epochFromRows rows"
  unfolding seeded_def by (rule epoch_fold_insert_missing) (auto dest: missing_epoch_zero)

lemma SeedMissing_epoch: "preserves (epoch_is n) (SeedMissing (missingRows rows))"
  unfolding SeedMissing_def epoch_is_def
  by (intro preserves_if preserves_basic preserves_setting_write)
    (auto intro: fold_insert_missing_ok epoch_fold_insert_missing [THEN trans] dest: missing_epoch_zero)

lemma epoch_upsert_other:
  "epoch_is n d \<Longrightarrow> sr_key r \<noteq> KeyInternalEpoch \<Longrightarrow> sr_type r \<in> set setting_types \<Longrightarrow>
     epoch_is n (d\<lparr>ss_rows := upsert_setting_row r (ss_rows d)\<rparr>)"
  using row_at_upsert [of "ss_rows d" KeyInternalEpoch r]
  by (auto simp: epoch_is_def rows_ok_upsert rows_ok_def intro: epoch_cong [THEN trans])
    (auto simp: set_upsert list_all_iff)

lemma UpsertSettings_epoch: "sr_key r \<noteq> KeyInternalEpoch \<Longrightarrow> preserves (epoch_is n) (UpsertSettings [r])"
  unfolding UpsertSettings_def
  by (intro preserves_if preserves_basic preserves_setting_write) (auto intro: epoch_upsert_other)

lemma upsert_provider_epoch: "preserves (epoch_is n) (upsert_provider r)"
  unfolding upsert_provider_def upsertProviderValue_def Let_def
  by (intro preserves_setting_write)
    (auto intro!: epoch_upsert_other simp: provider_key_not_internal setting_types_def)

lemma delete_provider_epoch: "preserves (epoch_is n) (delete_provider kinds key)"
proof -
  have "epoch_is n (d\<lparr>ss_rows := filter (\<lambda>r. sr_key r \<noteq> ProviderSettingKey key) (ss_rows d)\<rparr>)" if "epoch_is n d" for d
    using that row_at_filter [of KeyInternalEpoch "\<lambda>r. sr_key r \<noteq> ProviderSettingKey key" "ss_rows d"]
    by (auto simp: epoch_is_def rows_ok_def distinct_map_filter list_all_iff provider_key_not_internal [symmetric]
        intro: epoch_cong [THEN trans])
  then show ?thesis
    unfolding delete_provider_def delete_provider_setting_def
    by (intro preserves_bind preserves_only_reads [OF get_provider_reads] preserves_setting_write)
qed

lemma Invalidate_epoch: "preserves (epoch_is n) Invalidate" "preserves (epoch_is n) (set_cached v)"
  by (auto simp: preserves_def Invalidate_def set_cached_def epoch_is_def)

lemma GetSettings_epoch: "preserves (epoch_is n) (GetSettings E)"
proof -
  have cached: "preserves (epoch_is n) get_cached" by (auto simp: preserves_def get_cached_def)
  have seed: "preserves (epoch_is n) seedDefaults"
    unfolding seedDefaults_def by (intro preserves_atomically SeedMissing_epoch)
  show ?thesis
    unfolding GetSettings_def Let_def
    by (intro preserves_bind preserves_case_option preserves_if preserves_basic cached seed Invalidate_epoch
        preserves_only_reads [OF ListSettings_reads(1)])
qed

lemma ResetLegalConsent_epoch: "preserves (epoch_is n) (ResetLegalConsent admin)"
  unfolding ResetLegalConsent_def
  by (intro preserves_bind preserves_atomically preserves_if preserves_basic SeedMissing_epoch UpsertSettings_epoch
      Invalidate_epoch preserves_only_reads [OF ListSettings_reads(1)] preserves_only_reads [OF ListSettings_reads(2)])
    (simp add: legal_row_def)

lemma write_row_epoch: "preserves (epoch_is n) (atomically ErrInfra (upsert_provider row))"
  by (intro preserves_atomically upsert_provider_epoch)

lemma Upserts_epoch:
  "preserves (epoch_is n) (UpsertCaptcha P key config)"
  "preserves (epoch_is n) (UpsertAuth P key kind enabled config)"
  "preserves (epoch_is n) (UpsertSpam P key enabled config)"
  "preserves (epoch_is n) (UpsertNotification P key enabled config)"
  unfolding UpsertCaptcha_def UpsertCaptchaProvider_def UpsertAuth_def UpsertAuthProvider_def UpsertSpam_def
    UpsertSpamProvider_def UpsertNotification_def UpsertNotificationProvider_def GetAuthProvider_def GetSpamProvider_def
    GetNotificationProvider_def Let_def case_prod_beta
  by (intro preserves_bind preserves_case_option preserves_if preserves_basic write_row_epoch
      preserves_only_reads [OF existing_row_reads])+

lemma DeleteProvider_epoch: "preserves (epoch_is n) (DeleteProvider P key)"
proof -
  have "preserves (epoch_is n) (deleteProviderRow key)"
    unfolding deleteProviderRow_def DeleteCaptchaProvider_def DeleteAuthProvider_def DeleteSpamProvider_def
      DeleteNotificationProvider_def
    by (intro or_else_missing_preserves delete_provider_epoch preserves_basic)
  moreover have "preserves (epoch_is n) (clearSelectionIfSelected key)"
    unfolding clearSelectionIfSelected_def GetCaptchaProvider_def
    by (intro preserves_bind preserves_attempt preserves_case_sum preserves_if preserves_basic UpsertSettings_epoch
        preserves_only_reads [OF get_provider_reads] preserves_only_reads [OF selectedCaptchaProvider_reads]) simp
  ultimately show ?thesis
    unfolding DeleteProvider_def by (intro preserves_bind preserves_atomically preserves_if preserves_basic Invalidate_epoch)
qed

section \<open>A patch that returns\<close>

text \<open>What the transaction did, seen from the whole operation.\<close>

lemma Patch_effect:
  assumes run: "Patch E (Some (ValidateSelection P)) items admin w = (Inr out, w')" and ok: "rows_ok (ss_rows (data w))"
    and floats: "\<forall>it \<in> set items. interface_of (se_floats E) (it_value it) = it_value it"
  defines "rows \<equiv> seeded (ss_rows (data w))"
  shows "\<exists>s s'. settingsFromRows E (rows_by_key rows) = Inr s \<and> applyItems E s items = Inr s' \<and>
    ss_cached (data w') = None \<and> distinct (map sr_key (ss_rows (data w'))) \<and> missingRows (ss_rows (data w')) = [] \<and>
    settingsFromRows E (rows_by_key (ss_rows (data w'))) = Inr s' \<and>
    epochFromRows (ss_rows (data w')) = epoch_after items rows"
proof -
  obtain v w1 w2 where valid: "validatePatch (se_floats E) items = Inr v"
    and commit: "atomically ErrInfra (patch_tx E (Some (ValidateSelection P)) items admin) w = (Inr (), w1)"
    and inv: "Invalidate w1 = (Inr (), w2)" and public: "PublicItems E w2 = (Inr out, w')"
    using run unfolding Patch_def by (auto simp: bind_iff lift_iff if_prog_iff fail_iff)
  obtain w3 where tx: "patch_tx E (Some (ValidateSelection P)) items admin w = (Inr (), w3)" and "data w1 = data w3"
    using commit by (auto simp: atomically_iff)
  then have w2: "data w2 = (data w3)\<lparr>ss_cached := None\<rparr>" using Invalidate_data [OF inv] by simp
  have w': "data w' = data w2" using ListSettings_reads(3) public by (auto simp: only_reads_def)
  have "\<exists>s s' rows'. settingsFromRows E (rows_by_key rows) = Inr s \<and> applyItems E s items = Inr s' \<and>
      data w3 = (data w)\<lparr>ss_rows := rows'\<rparr> \<and> distinct (map sr_key rows') \<and> missingRows rows' = [] \<and>
      settingsFromRows E (rows_by_key rows') = Inr s' \<and> epochFromRows rows' = epoch_after items rows"
    unfolding rows_def using patch_tx_effect [OF tx ok valid floats] ValidateSelection_reads by blast
  then show ?thesis using w' w2 by auto
qed

text \<open>Any outcome: a patch is refused and changes no row, or its transaction committed, whatever comes after.\<close>

lemma Patch_outcome:
  assumes run: "Patch E validator items admin w = (r, w')"
  shows "(ss_rows (data w') = ss_rows (data w) \<and> isl r) \<or>
    (\<exists>v w3. validatePatch (se_floats E) items = Inr v \<and> patch_tx E validator items admin w = (Inr (), w3) \<and>
       ss_rows (data w') = ss_rows (data w3))"
proof (cases "isl (validatePatch (se_floats E) items) \<or> hasKey items KeyLegalConsentVersion")
  case True
  then show ?thesis
    using run by (cases "validatePatch (se_floats E) items") (auto simp: Patch_def bind_unit fail_def bind_def lift_def ret_def)
next
  case False
  then obtain v where valid: "validatePatch (se_floats E) items = Inr v" by (cases "validatePatch (se_floats E) items") auto
  obtain q w1 where tx: "atomically ErrInfra (patch_tx E validator items admin) w = (q, w1)"
    by (cases "atomically ErrInfra (patch_tx E validator items admin) w")
  have steps: "bind (atomically ErrInfra (patch_tx E validator items admin)) (\<lambda>_. bind Invalidate (\<lambda>_. PublicItems E)) w = (r, w')"
    using run False valid by (simp add: Patch_def bind_unit)
  show ?thesis
  proof (cases q)
    case (Inl e)
    with tx steps atomically_error [of ErrInfra "patch_tx E validator items admin" w e w1] show ?thesis
      by (auto simp: bind_def)
  next
    case (Inr u)
    then obtain w3 where w3: "patch_tx E validator items admin w = (Inr (), w3)" "data w1 = data w3"
      using tx by (auto simp: atomically_iff)
    obtain w2 where inv: "Invalidate w1 = (Inr (), w2)" by (auto simp: Invalidate_def set_cached_def)
    from steps tx Inr inv have "PublicItems E w2 = (r, w')" by (simp add: bind_def)
    then have "data w' = data w2" using ListSettings_reads(3) by (auto simp: only_reads_def)
    with Invalidate_data [OF inv] w3 have "ss_rows (data w') = ss_rows (data w3)" by simp
    with valid w3(1) show ?thesis by blast
  qed
qed

text \<open>A snapshot that is not cached is read from complete rows in two steps.\<close>

lemma GetSettings_uncached:
  assumes "ss_cached (data w) = None" "missingRows (ss_rows (data w)) = []" "distinct (map sr_key (ss_rows (data w)))"
    "settingsFromRows E (rows_by_key (ss_rows (data w))) = Inr s"
  shows "fst (GetSettings E (w\<lparr>faults := []\<rparr>)) = Inr \<lparr>sv_settings = s, sv_epoch = epochFromRows (ss_rows (data w))\<rparr>"
proof -
  have "ListSettings (w\<lparr>faults := []\<rparr>) = (Inr (rows_by_key (ss_rows (data w))), w\<lparr>faults := []\<rparr>)"
    by (simp add: ListSettings_def setting_query_def)
  moreover have "epochFromRows (rows_by_key (ss_rows (data w))) = epochFromRows (ss_rows (data w))"
    by (intro epoch_cong row_at_by_key assms(3))
  ultimately show ?thesis
    using assms by (simp add: GetSettings_def get_cached_def set_cached_def Let_def bind_unit)
qed

section \<open>A patch returns\<close>

lemma setting_no_faults [simp]:
  "faults w = [] \<Longrightarrow> setting_query g w = (Inr (g (ss_rows (data w))), w)"
  "faults w = [] \<Longrightarrow> list_all (\<lambda>r. sr_type r \<in> set setting_types) brought \<Longrightarrow>
     setting_write brought f w = (Inr (), w\<lparr>data := (data w)\<lparr>ss_rows := f (ss_rows (data w))\<rparr>\<rparr>)"
  by (simp_all add: setting_query_def setting_write_def)

lemma missingRows_types: "list_all (\<lambda>r. sr_type r \<in> set setting_types) (missingRows rows)"
proof -
  have "list_all (\<lambda>r. sr_type r \<in> set setting_types) defaultItems"
    by (simp add: defaultItems_def default_row_def setting_types_def Let_def)
  then show ?thesis by (auto simp: missingRows_def list_all_iff epoch_row_def setting_types_def)
qed

lemma missingRows_values: "r \<in> set (missingRows rows) \<Longrightarrow> sr_value r \<noteq> None"
proof -
  have "\<forall>r \<in> set defaultItems. sr_value r \<noteq> None"
    by (simp add: defaultItems_def default_row_def Let_def)
  then show "r \<in> set (missingRows rows) \<Longrightarrow> sr_value r \<noteq> None"
    by (auto simp: missingRows_def epoch_row_def split: if_splits)
qed

lemma set_fold_insert_missing: "set (fold insert_missing new rows) \<subseteq> set new \<union> set rows"
proof (induction new arbitrary: rows)
  case (Cons r new)
  have "set (insert_missing r rows) \<subseteq> insert r (set rows)" by (auto simp: insert_missing_def)
  with Cons [of "insert_missing r rows"] show ?case by auto
qed simp

lemma seeded_values: "\<forall>r \<in> set rows. sr_value r \<noteq> None \<Longrightarrow> r \<in> set (seeded rows) \<Longrightarrow> sr_value r \<noteq> None"
  using set_fold_insert_missing [of "missingRows rows" rows] missingRows_values [of r rows]
  by (auto simp: seeded_def)

lemma publicItems_defined:
  "\<forall>r \<in> set rows. sr_value r \<noteq> None \<Longrightarrow> \<exists>items. publicItemsFromRows E rows = Inr items"
  by (induction rows) (auto simp: decoded_value_def)

lemma upsert_values:
  "\<forall>r \<in> set rows \<union> set new. sr_value r \<noteq> None \<Longrightarrow> distinct (map sr_key rows) \<Longrightarrow>
     \<forall>r \<in> set (fold upsert_setting_row new rows). sr_value r \<noteq> None"
proof (induction new arbitrary: rows)
  case (Cons x new)
  have "\<forall>r \<in> set (upsert_setting_row x rows) \<union> set new. sr_value r \<noteq> None"
    using Cons.prems by (auto simp: set_upsert)
  with Cons.IH [of "upsert_setting_row x rows"] Cons.prems(2) show ?case by simp
qed simp

lemma seeded_rows_returns:
  assumes "faults w = []"
  shows "seeded_rows w = (Inr (rows_by_key (seeded (ss_rows (data w)))), w\<lparr>data := (data w)\<lparr>ss_rows := seeded (ss_rows (data w))\<rparr>\<rparr>)"
  using assms missingRows_types
  by (simp add: seeded_rows_def ListSettings_def SeedMissing_def seeded_def)

lemma Patch_returns:
  assumes calm: "faults w = []" and ok: "rows_ok (ss_rows (data w))" and valid: "validatePatch (se_floats E) items = Inr ()"
    and keys: "\<not> hasKey items KeyLegalConsentVersion" "\<not> hasKey items CaptchaProviderSettingKey"
    and s: "settingsFromRows E (rows_by_key (seeded (ss_rows (data w)))) = Inr s"
    and s': "applyItems E s items = Inr s'" "ValidateSettings (se_lib E) s' = Inr ()"
    and vals: "\<forall>r \<in> set (ss_rows (data w)). sr_value r \<noteq> None"
  shows "\<exists>out w'. Patch E validator items admin w = (Inr out, w')"
proof -
  define rows where "rows = seeded (ss_rows (data w))"
  let ?w1 = "w\<lparr>data := (data w)\<lparr>ss_rows := rows\<rparr>\<rparr>"
  have rok: "rows_ok rows"
    unfolding rows_def seeded_def by (intro fold_insert_missing_ok ok missingRows_types)
  obtain extra where extra: "epoch_writes items admin ?w1 = (Inr extra, ?w1)"
    and eok: "list_all (\<lambda>r. sr_type r \<in> set setting_types) extra" "\<forall>r \<in> set extra. sr_value r \<noteq> None"
  proof (cases "hasKey items KeyCommentMode")
    case True
    define locked where "locked =
      rows_by_key (filter (\<lambda>r. sr_key r \<in> set [KeyCommentMode, KeyInternalEpoch]) rows)"
    have "LockRows [KeyCommentMode, KeyInternalEpoch] ?w1 = (Inr locked, ?w1)"
      using calm by (simp add: LockRows_def locked_def)
    with True show thesis
      by (intro that [of "if JvString (modeOf locked) \<noteq> itemValue items KeyCommentMode
            then [epoch_row (next_epoch (epochFromRows locked)) admin] else []"])
        (simp_all add: epoch_writes_def epoch_row_def setting_types_def)
  next
    case False
    then show thesis by (intro that [of "[]"]) (simp_all add: epoch_writes_def)
  qed
  let ?new = "map (item_row admin) items @ extra"
  have "\<forall>it \<in> set items. it_type it \<in> set setting_types"
    using validate_items_all [of "se_floats E" "[]" items] valid
    by (auto simp: validatePatch_def item_type_ok_def setting_types_def split: if_splits)
  then have new: "list_all (\<lambda>r. sr_type r \<in> set setting_types) ?new" "\<forall>r \<in> set ?new. sr_value r \<noteq> None"
    using eok by (auto simp: list_all_iff item_row_def)
  let ?w2 = "w\<lparr>data := (data w)\<lparr>ss_rows := fold upsert_setting_row ?new rows\<rparr>\<rparr>"
  have "UpsertSettings ?new ?w1 = (Inr (), ?w2)"
    using calm new(1) by (simp add: UpsertSettings_def)
  then have tx: "patch_tx E validator items admin w = (Inr (), ?w2)"
    unfolding patch_tx_def using seeded_rows_returns [OF calm] s s' keys extra
    by (simp add: rows_def [symmetric])
  have at: "atomically ErrInfra (patch_tx E validator items admin) w = (Inr (), ?w2)"
    using atomically_steps(2) [where m = "patch_tx E validator items admin" and w = w and x = "()" and w' = ?w2 and infra = ErrInfra] tx calm by simp
  have "\<forall>r \<in> set (fold upsert_setting_row ?new rows). sr_value r \<noteq> None"
  proof (rule upsert_values)
    show "\<forall>r \<in> set rows \<union> set ?new. sr_value r \<noteq> None"
      using new(2) seeded_values [OF vals] unfolding rows_def by blast
    show "distinct (map sr_key rows)" using rok by (simp add: rows_ok_def)
  qed
  then obtain out where "publicItemsFromRows E (rows_by_key (fold upsert_setting_row ?new rows)) = Inr out"
    using publicItems_defined [of "rows_by_key (fold upsert_setting_row ?new rows)" E] by auto
  then have "PublicItems E (?w2\<lparr>data := (data ?w2)\<lparr>ss_cached := None\<rparr>\<rparr>) =
      (Inr out, ?w2\<lparr>data := (data ?w2)\<lparr>ss_cached := None\<rparr>\<rparr>)"
    using calm by (simp add: PublicItems_def ListSettings_def)
  then have "Patch E validator items admin w = (Inr out, ?w2\<lparr>data := (data ?w2)\<lparr>ss_cached := None\<rparr>\<rparr>)"
    unfolding Patch_def using at valid keys by (simp add: Invalidate_def set_cached_def bind_unit)
  then show ?thesis by blast
qed

section \<open>Sample values\<close>

definition sample_setting_lib :: library where
  "sample_setting_lib =
     \<lparr>lib_parse = (\<lambda>s. if s = defaultGravatarBaseURL
        then Some \<lparr>url_scheme = ''https'', url_has_user = False, url_host = ''www.gravatar.com'', url_path = ''/avatar'',
               url_raw_path = '''', url_force_query = False, url_raw_query = '''', url_fragment = ''''\<rparr>
        else None),
      lib_string = (\<lambda>u. url_scheme u @ ''://'' @ url_host u @ url_path u), lib_unescape = Some, lib_lower = (\<lambda>s. s),
      lib_loopback_ip = (\<lambda>s. False), lib_parse_address = Some\<rparr>"

definition sample_floats :: floats where
  "sample_floats =
     \<lparr>fl_read = (\<lambda>n. n), fl_whole = (\<lambda>n. case n of Whole k \<Rightarrow> True | Literal s \<Rightarrow> False),
      fl_trunc = (\<lambda>n. case n of Whole k \<Rightarrow> k | Literal s \<Rightarrow> 0), fl_overflow = (\<lambda>n. 0)\<rparr>"

definition sample_setting_env :: setting_env where
  "sample_setting_env = \<lparr>se_lib = sample_setting_lib, se_floats = sample_floats\<rparr>"

definition empty_settings :: "(settings_store, unit) world" where
  "empty_settings = \<lparr>data = \<lparr>ss_rows = [], ss_cached = None\<rparr>, faults = [], outbox = []\<rparr>"

definition sample_items :: "setting_item list" where
  "sample_items = [\<lparr>it_key = KeyCommentMode, it_type = ''string'', it_value = JvString CommentModeAuthenticated\<rparr>]"

definition sample_providers :: provider_env where
  "sample_providers =
     \<lparr>pe_lib = sample_setting_lib,
      pe_urls = \<lparr>ub_path_escape = (\<lambda>s. s), ub_join = (\<lambda>u xs. u), ub_query = (\<lambda>s. []), ub_encode = (\<lambda>q. '''')\<rparr>,
      pe_equal_fold = (=), pe_text = (\<lambda>v. if v = JvObject [(''secret_key'', JvString ''k'')] then ''x'' else ''y''),
      pe_parse = (\<lambda>s. if s = ''x'' then Some (JvObject [(''secret_key'', JvString ''k'')]) else None),
      pe_nonce = Inr (replicate 12 (CHR ''n'')), pe_seal = (\<lambda>n p. replicate 16 (CHR ''t'') @ p),
      pe_open = (\<lambda>n c. Some (drop 16 c)), pe_keyword_text = sample_text, pe_keyword_stat = None, pe_keyword_file = None,
      pe_apple_key_ok = (\<lambda>s. True), pe_invalidator = True\<rparr>"

lemma sample_defaults_load:
  "settingsFromRows sample_setting_env (rows_by_key (seeded [])) = Inr DefaultSettings"
proof -
  have "rows_ok (seeded [])"
    unfolding seeded_def by (intro fold_insert_missing_ok missingRows_types) (simp add: rows_ok_def)
  then have "distinct (map sr_key (seeded []))" by (simp add: rows_ok_def)
  moreover have "settingsFromRows sample_setting_env (seeded []) = Inr DefaultSettings" by code_simp
  ultimately show ?thesis by (simp add: loads_by_key)
qed

lemma sample_patch_returns:
  "\<exists>out w'. Patch sample_setting_env (Some (ValidateSelection sample_providers)) sample_items 7 empty_settings = (Inr out, w')"
proof (rule Patch_returns)
  have rows: "ss_rows (data empty_settings) = []" by (simp add: empty_settings_def)
  show "settingsFromRows sample_setting_env (rows_by_key (seeded (ss_rows (data empty_settings)))) = Inr DefaultSettings"
    by (simp add: rows sample_defaults_load)
  show "applyItems sample_setting_env DefaultSettings sample_items =
      Inr (DefaultSettings\<lparr>st_comment_mode := CommentModeAuthenticated\<rparr>)" by code_simp
  show "ValidateSettings (se_lib sample_setting_env) (DefaultSettings\<lparr>st_comment_mode := CommentModeAuthenticated\<rparr>) = Inr ()"
    by code_simp
  show "validatePatch (se_floats sample_setting_env) sample_items = Inr ()" by code_simp
  show "\<not> hasKey sample_items KeyLegalConsentVersion" "\<not> hasKey sample_items CaptchaProviderSettingKey" by code_simp+
qed (simp_all add: empty_settings_def rows_ok_def)

section \<open>Requests that are not refused as they should\<close>

text \<open>A value of the wrong shape passes the check of the patch and fails as an internal error, and a provider
  for sign-in can take the key of a captcha provider.\<close>

lemma container_is_internal_error:
  "applyItem E s \<lparr>it_key = KeyPrivacy, it_type = ''json'', it_value = JvArray []\<rparr> = Inl ErrInfra"
  "validatePatch (se_floats E) [\<lparr>it_key = KeyPrivacy, it_type = ''json'', it_value = JvArray []\<rparr>] = Inr ()"
  by code_simp+

lemma captcha_key_passes_for_oidc:
  "validateProviderKey ''turnstile'' = Inr ()" "validateAuthKeyKind ''turnstile'' KindOIDC = Inr ()"
  by code_simp+

section \<open>The properties\<close>

text \<open>C27: the snapshot of the settings that the process caches is never stale: it is what the stored rows stand
  for, with the stored epoch, before and after every operation on the settings table, whether the operation
  succeeds or fails at any statement.\<close>

theorem settings_cache_never_stale:
  assumes "pe_invalidator P"
  shows "preserves (coherent E) (GetSettings E) \<and>
    preserves (coherent E) (Patch E (Some (ValidateSelection P)) items admin) \<and>
    preserves (coherent E) (ResetLegalConsent admin) \<and>
    preserves (coherent E) (UpsertCaptcha P key config) \<and>
    preserves (coherent E) (UpsertAuth P key kind enabled config) \<and>
    preserves (coherent E) (UpsertSpam P key enabled config) \<and>
    preserves (coherent E) (UpsertNotification P key enabled config) \<and>
    preserves (coherent E) (DeleteProvider P key)"
  using assms
  by (intro conjI GetSettings_coherent Patch_coherent ResetLegalConsent_coherent UpsertCaptcha_coherent
      UpsertAuth_coherent UpsertSpam_coherent UpsertNotification_coherent DeleteProvider_coherent)

theorem settings_cache_never_stale_witness:
  "coherent sample_setting_env (data empty_settings) \<and>
   coherent sample_setting_env
     (data (snd (Patch sample_setting_env (Some (ValidateSelection sample_providers)) sample_items 7 empty_settings)))"
proof -
  have start: "coherent sample_setting_env (data empty_settings)"
    by (simp add: coherent_def empty_settings_def rows_ok_def)
  have "pe_invalidator sample_providers" by (simp add: sample_providers_def)
  from settings_cache_never_stale [OF this, of sample_setting_env sample_items 7 "''cap''" None "''oidc''" True]
  have "preserves (coherent sample_setting_env)
      (Patch sample_setting_env (Some (ValidateSelection sample_providers)) sample_items 7)" by blast
  from preservesD [OF this, of empty_settings] start show ?thesis
    by (metis prod.collapse)
qed

text \<open>C28: a patch that is answered leaves settings that decode and pass every rule: they are the settings before
  it (defaults where rows were missing) with the items applied, and the next snapshot read from the database is
  exactly these, with the epoch the patch left.\<close>

theorem patch_takes_effect:
  assumes "Patch E (Some (ValidateSelection P)) items admin w = (Inr out, w')" "rows_ok (ss_rows (data w))"
    "\<forall>it \<in> set items. interface_of (se_floats E) (it_value it) = it_value it"
  shows "\<exists>before after. settingsFromRows E (rows_by_key (seeded (ss_rows (data w)))) = Inr before \<and>
    applyItems E before items = Inr after \<and> ValidateSettings (se_lib E) after = Inr () \<and>
    fst (GetSettings E (w'\<lparr>faults := []\<rparr>)) =
      Inr \<lparr>sv_settings = after, sv_epoch = epoch_after items (seeded (ss_rows (data w)))\<rparr>"
proof -
  obtain s s' where eff: "settingsFromRows E (rows_by_key (seeded (ss_rows (data w)))) = Inr s"
    "applyItems E s items = Inr s'" "ss_cached (data w') = None" "distinct (map sr_key (ss_rows (data w')))"
    "missingRows (ss_rows (data w')) = []" "settingsFromRows E (rows_by_key (ss_rows (data w'))) = Inr s'"
    "epochFromRows (ss_rows (data w')) = epoch_after items (seeded (ss_rows (data w)))"
    using Patch_effect [OF assms] by blast
  from GetSettings_uncached [OF eff(3,5,4,6)] eff settingsFromRows_iff [of E "rows_by_key (ss_rows (data w'))" s']
  show ?thesis by auto
qed

lemma sample_items_decoded:
  "\<forall>it \<in> set sample_items. interface_of (se_floats sample_setting_env) (it_value it) = it_value it"
  by (simp add: sample_items_def)

theorem patch_takes_effect_witness:
  "\<exists>out w' before after.
     Patch sample_setting_env (Some (ValidateSelection sample_providers)) sample_items 7 empty_settings = (Inr out, w') \<and>
     applyItems sample_setting_env before sample_items = Inr after \<and>
     fst (GetSettings sample_setting_env (w'\<lparr>faults := []\<rparr>)) =
       Inr \<lparr>sv_settings = after, sv_epoch = epoch_after sample_items (seeded [])\<rparr>"
proof -
  obtain out w' where run: "Patch sample_setting_env (Some (ValidateSelection sample_providers)) sample_items 7
      empty_settings = (Inr out, w')" using sample_patch_returns by blast
  have "rows_ok (ss_rows (data empty_settings))" by (simp add: empty_settings_def rows_ok_def)
  from patch_takes_effect [OF run this sample_items_decoded] run show ?thesis
    by (auto simp: empty_settings_def)
qed

text \<open>C29: the epoch that every widget credential carries rises by one exactly when a patch that is stored changes the
  comment mode.  A patch that is refused, or whose transaction fails, changes no row at all; of a stored one, whether or
  not its answer can still be read, the settings are the earlier ones with its items applied, and the epoch is the
  earlier one, or the next when the mode it brings is another.  No other operation on the settings table
  moves the epoch, whether it succeeds or fails.\<close>

theorem epoch_follows_comment_mode:
  assumes "Patch E (Some (ValidateSelection P)) items admin w = (r, w')" "rows_ok (ss_rows (data w))"
    "\<forall>it \<in> set items. interface_of (se_floats E) (it_value it) = it_value it"
  shows "((ss_rows (data w') = ss_rows (data w) \<and> isl r) \<or>
      (\<exists>before after. settingsFromRows E (rows_by_key (seeded (ss_rows (data w)))) = Inr before \<and>
         applyItems E before items = Inr after \<and> settingsFromRows E (rows_by_key (ss_rows (data w'))) = Inr after \<and>
         epochFromRows (ss_rows (data w')) =
           (if hasKey items KeyCommentMode \<and>
               itemValue items KeyCommentMode \<noteq> JvString (modeOf (seeded (ss_rows (data w))))
            then next_epoch (epochFromRows (ss_rows (data w))) else epochFromRows (ss_rows (data w))))) \<and>
    (\<forall>n. preserves (epoch_is n) (GetSettings E) \<and> preserves (epoch_is n) (ResetLegalConsent admin) \<and>
       preserves (epoch_is n) (UpsertCaptcha P key config) \<and>
       preserves (epoch_is n) (UpsertAuth P key kind enabled config) \<and>
       preserves (epoch_is n) (UpsertSpam P key enabled config) \<and>
       preserves (epoch_is n) (UpsertNotification P key enabled config) \<and>
       preserves (epoch_is n) (DeleteProvider P key))"
proof
  show "(ss_rows (data w') = ss_rows (data w) \<and> isl r) \<or>
      (\<exists>before after. settingsFromRows E (rows_by_key (seeded (ss_rows (data w)))) = Inr before \<and>
         applyItems E before items = Inr after \<and> settingsFromRows E (rows_by_key (ss_rows (data w'))) = Inr after \<and>
         epochFromRows (ss_rows (data w')) =
           (if hasKey items KeyCommentMode \<and>
               itemValue items KeyCommentMode \<noteq> JvString (modeOf (seeded (ss_rows (data w))))
            then next_epoch (epochFromRows (ss_rows (data w))) else epochFromRows (ss_rows (data w))))"
    using Patch_outcome [OF assms(1)]
  proof (elim disjE exE conjE)
    fix v w3
    assume valid: "validatePatch (se_floats E) items = Inr v"
      and tx: "patch_tx E (Some (ValidateSelection P)) items admin w = (Inr (), w3)"
      and rows: "ss_rows (data w') = ss_rows (data w3)"
    have "\<exists>s s' rows'. settingsFromRows E (rows_by_key (seeded (ss_rows (data w)))) = Inr s \<and>
        applyItems E s items = Inr s' \<and> data w3 = (data w)\<lparr>ss_rows := rows'\<rparr> \<and>
        settingsFromRows E (rows_by_key rows') = Inr s' \<and>
        epochFromRows rows' = epoch_after items (seeded (ss_rows (data w)))"
      using patch_tx_effect [OF tx assms(2) valid assms(3)] ValidateSelection_reads by blast
    then show ?thesis using rows by (auto simp: epoch_after_def changes_mode_def epoch_seeded)
  qed simp
qed (intro allI conjI GetSettings_epoch ResetLegalConsent_epoch Upserts_epoch DeleteProvider_epoch)

theorem epoch_follows_comment_mode_witness:
  "\<exists>out w'. Patch sample_setting_env (Some (ValidateSelection sample_providers)) sample_items 7 empty_settings =
     (Inr out, w') \<and> epochFromRows (ss_rows (data w')) = 1"
proof -
  obtain out w' where run: "Patch sample_setting_env (Some (ValidateSelection sample_providers)) sample_items 7
      empty_settings = (Inr out, w')" using sample_patch_returns by blast
  have "rows_ok (ss_rows (data empty_settings))" by (simp add: empty_settings_def rows_ok_def)
  from epoch_follows_comment_mode [OF run this sample_items_decoded, of "''cap''" None "''oidc''" True]
  have "epochFromRows (ss_rows (data w')) =
      (if hasKey sample_items KeyCommentMode \<and>
          itemValue sample_items KeyCommentMode \<noteq> JvString (modeOf (seeded []))
       then next_epoch (epochFromRows []) else epochFromRows [])" by (auto simp: empty_settings_def)
  moreover have "modeOf (seeded []) = CommentModeAnonymous" by code_simp
  moreover have "hasKey sample_items KeyCommentMode" "itemValue sample_items KeyCommentMode = JvString CommentModeAuthenticated"
    "next_epoch (epochFromRows []) = 1" by code_simp+
  ultimately show ?thesis using run by auto
qed

end
