(* ===== verification/Provider_Props.thy ===== *)
theory Provider_Props
  imports Settings_Props
begin

text \<open>
  The configurations of providers read back as they were written: a row survives the envelope it is stored
  in, a sealed document opens to itself, and a captcha configuration that was accepted is the one the gateway
  is given.  The gateway answers as if it kept nothing between requests.
\<close>

section \<open>Envelopes\<close>

lemma other_initial:
  "of_char c < (0x80 :: nat) \<Longrightarrow> of_char d < (0x80 :: nat) \<Longrightarrow>
   fold_rune (of_char c) \<noteq> fold_rune (of_char d) \<Longrightarrow> field_for [d # t] (c # s) = None"
  by (auto simp: field_for_def runes_ascii)

lemma only_kind_is_read:
  "field_for [''kind''] ''enabled'' = None" "field_for [''kind''] ''public_config'' = None"
  "field_for [''kind''] ''secret_key_version'' = None" "field_for [''kind''] ''secret_nonce'' = None"
  "field_for [''kind''] ''secret_ciphertext'' = None"
  by (rule other_initial; simp add: fold_rune_def)+

lemma decode_members_append:
  "decode_members strict names set_field (xs @ ys) s =
     Option.bind (decode_members strict names set_field xs s) (decode_members strict names set_field ys)"
  by (induction strict names set_field xs s rule: decode_members.induct) (auto split: option.splits)

lemma kind_of_envelope: "decode_struct False [''kind''] set_kind (encode_envelope r) '''' = Some (pr_kind r)"
  by (cases "pr_public r")
    (simp_all add: decode_struct_def encode_envelope_def decode_members_append bytes_member_def only_kind_is_read)

text \<open>The rows that the repository writes and its decoder gives back.\<close>

definition storable_row :: "provider_row \<Rightarrow> bool" where
  "storable_row r \<longleftrightarrow>
     pr_kind r \<in> {KindCaptcha, KindOAuth, KindOIDC, KindSpam, KindNotification} \<and>
     (pr_kind r = KindCaptcha \<longrightarrow> \<not> pr_enabled r) \<and> pr_public r \<noteq> Some JvNull \<and> in_int64 (pr_version r)"

lemma envelope_of_row:
  assumes "storable_row r"
  shows "decode_struct False (envelope_fields (pr_kind r)) set_envelope_field (encode_envelope r) empty_envelope =
    Some \<lparr>en_kind = pr_kind r, en_enabled = pr_enabled r, en_public = pr_public r, en_version = pr_version r,
          en_nonce = pr_nonce r, en_ciphertext = pr_ciphertext r\<rparr>"
  using assms
  by (cases "pr_public r")
    (auto simp: storable_row_def decode_struct_def encode_envelope_def decode_members_append bytes_member_def
      envelope_fields_def empty_envelope_def std64_roundtrip)

lemma provider_row_decoded:
  assumes "storable_row r"
  shows "decodeProviderRow \<lparr>sr_key = ProviderSettingKey (pr_key r), sr_type = t, sr_value = Some (encode_envelope r),
      sr_updated_by = u\<rparr> = Inr r"
  using assms envelope_of_row [OF assms] kind_of_envelope [of r]
  by (auto simp: decodeProviderRow_def storable_row_def ProviderSettingKey_def normalizePublicConfig_def
      simp del: set_kind.simps)

text \<open>What was upserted is what the repository gives back.\<close>

lemma written_row_found:
  assumes "upsert_provider r w = (Inr u, w')" "storable_row r" "pr_kind r \<in> set kinds"
    "distinct (map sr_key (ss_rows (data w)))" "data v = data w'" "faults v = []"
  shows "get_provider kinds (pr_key r) v = (Inr r, v)"
proof -
  let ?row = "\<lparr>sr_key = ProviderSettingKey (pr_key r), sr_type = ''json'', sr_value = Some (encode_envelope r),
    sr_updated_by = 0\<rparr>"
  have "ss_rows (data w') = upsert_setting_row ?row (ss_rows (data w))"
    using assms(1) by (auto simp: upsert_provider_def upsertProviderValue_def Let_def prog_elims)
  then have "select_first (\<lambda>x. sr_key x = ProviderSettingKey (pr_key r)) (ss_rows (data w')) = Some ?row"
    using row_at_upsert [OF assms(4), of "ProviderSettingKey (pr_key r)" ?row] by (simp add: select_first_def)
  then show ?thesis
    using assms(3,5,6) provider_row_decoded [OF assms(2)]
    by (simp add: get_provider_def getProviderDecoded_def setting_query_def query_def stmt_def bind_def lift_def ret_def)
qed

section \<open>Secrets\<close>

text \<open>What is asked of the cipher: nonces of twelve bytes, a tag of at least sixteen, and what was sealed opens.\<close>

definition cipher_opens :: "provider_env \<Rightarrow> string \<Rightarrow> bool" where
  "cipher_opens P plaintext \<longleftrightarrow>
     (case pe_nonce P of Inl e \<Rightarrow> True
      | Inr nonce \<Rightarrow> length nonce = 12 \<and> 16 \<le> length (pe_seal P nonce plaintext) \<and>
          pe_open P nonce (pe_seal P nonce plaintext) = Some plaintext)"

lemma sealed_document_opens:
  assumes "seal_document P v = Inr (nonce, ciphertext)" "cipher_opens P (pe_text P v)"
    "pe_parse P (pe_text P v) = Some v" "pr_version r = int masterKeyVersion" "pr_nonce r = nonce"
    "pr_ciphertext r = ciphertext"
  shows "decode_secret P r decoder = option_to_result ErrSecretCorrupt (decoder v)" "ciphertext \<noteq> ''''"
  using assms
  by (auto simp: seal_document_def Encrypt_def bindE_Inr_iff cipher_opens_def decode_secret_def
      decryptSecretEnvelope_def Decrypt_def)

section \<open>Captcha configurations\<close>

lemma captcha_documents:
  "as_map [(''provider'', a), (''site_key'', b)] = [(''provider'', a), (''site_key'', b)]"
  "as_map [(''provider'', a), (''site_key'', b), (''endpoint'', c)] =
     [(''endpoint'', c), (''provider'', a), (''site_key'', b)]"
  "as_map [(''secret_key'', a)] = [(''secret_key'', a)]"
  by (simp_all add: as_map_def Cons_less_Cons Cons_le_Cons less_char_def less_eq_char_def)

lemma captcha_split_joins:
  assumes "splitCaptchaConfig P config = Inr (public, secret)"
    "decode_config config (\<lambda>v. dec_captcha v no_captcha) = Inr cfg"
  shows "\<exists>c. Option.bind (dec_captcha public no_captcha) (dec_captcha secret) = Some c \<and> public \<noteq> JvNull \<and>
    secret = JvObject [(''secret_key'', JvString (cap_secret_key cfg))] \<and>
    cap_provider c = cap_provider cfg \<and> cap_site_key c = cap_site_key cfg \<and>
    cap_secret_key c = cap_secret_key cfg \<and>
    (if TrimSpace (cap_endpoint cfg) = '''' then cap_endpoint c = cap_endpoint cfg
     else normalizeHTTPSURL (pe_lib P) (cap_endpoint cfg) = Inr (cap_endpoint c))"
  using assms
  by (auto simp: splitCaptchaConfig_def bindE_Inr_iff object_of_def given_member_def captcha_documents dec_captcha_def
      decode_struct_def set_captcha_def no_captcha_def split: if_splits)

text \<open>The row that an accepted configuration is stored in.\<close>

lemma UpsertCaptcha_writes:
  assumes "UpsertCaptcha P key config w = (Inr u, w')"
    "decode_config config (\<lambda>v. dec_captcha v no_captcha) = Inr cfg"
  shows "\<exists>public secret nonce ciphertext w1.
    splitCaptchaConfig P config = Inr (public, secret) \<and> seal_document P secret = Inr (nonce, ciphertext) \<and>
    upsert_provider (sealed_row key KindCaptcha False public (Some (nonce, ciphertext))) w = (Inr (), w1) \<and>
    data w' = data w1"
  using assms
  by (auto simp: UpsertCaptcha_def UpsertCaptchaProvider_def sealed_row_def prog_elims)

lemma upsert_provider_rows:
  "upsert_provider r w = (Inr u, w') \<Longrightarrow> distinct (map sr_key (ss_rows (data w))) \<Longrightarrow> k \<noteq> ProviderSettingKey (pr_key r) \<Longrightarrow>
   row_at k (ss_rows (data w')) = row_at k (ss_rows (data w))"
  by (auto simp: upsert_provider_def upsertProviderValue_def Let_def prog_elims row_at_upsert)

text \<open>C30: a captcha configuration that an administrator has stored is the configuration the gateway is given
  afterwards: the same provider, site key and secret, and the normalised endpoint; every other setting and
  every other provider keeps its row.  The cipher is asked to open what it sealed, and the text of the secret to
  read back.\<close>

theorem captcha_reads_back:
  assumes "UpsertCaptcha P key config w = (Inr u, w')" "rows_ok (ss_rows (data w))"
    "decode_config config (\<lambda>v. dec_captcha v no_captcha) = Inr cfg"
    "pe_parse P (pe_text P (JvObject [(''secret_key'', JvString (cap_secret_key cfg))])) =
       Some (JvObject [(''secret_key'', JvString (cap_secret_key cfg))])"
    "cipher_opens P (pe_text P (JvObject [(''secret_key'', JvString (cap_secret_key cfg))]))"
  shows "(\<exists>c. fst (CaptchaProvider P key (w'\<lparr>faults := []\<rparr>)) = Inr c \<and>
      cap_provider c = cap_provider cfg \<and> cap_site_key c = cap_site_key cfg \<and> cap_secret_key c = cap_secret_key cfg \<and>
      (if TrimSpace (cap_endpoint cfg) = '''' then cap_endpoint c = cap_endpoint cfg
       else normalizeHTTPSURL (pe_lib P) (cap_endpoint cfg) = Inr (cap_endpoint c))) \<and>
    (\<forall>k. k \<noteq> ProviderSettingKey key \<longrightarrow> row_at k (ss_rows (data w')) = row_at k (ss_rows (data w)))"
proof -
  obtain public secret nonce ciphertext w1 where parts: "splitCaptchaConfig P config = Inr (public, secret)"
    "seal_document P secret = Inr (nonce, ciphertext)"
    "upsert_provider (sealed_row key KindCaptcha False public (Some (nonce, ciphertext))) w = (Inr (), w1)"
    "data w' = data w1"
    using UpsertCaptcha_writes [OF assms(1,3)] by blast
  define r where "r = sealed_row key KindCaptcha False public (Some (nonce, ciphertext))"
  have fields: "pr_key r = key" "pr_kind r = KindCaptcha" "pr_public r = Some public" "\<not> pr_enabled r"
    "pr_version r = int masterKeyVersion" "pr_nonce r = nonce" "pr_ciphertext r = ciphertext"
    by (simp_all add: r_def sealed_row_def)
  obtain c where joined: "Option.bind (dec_captcha public no_captcha) (dec_captcha secret) = Some c" "public \<noteq> JvNull"
    "secret = JvObject [(''secret_key'', JvString (cap_secret_key cfg))]"
    "cap_provider c = cap_provider cfg" "cap_site_key c = cap_site_key cfg" "cap_secret_key c = cap_secret_key cfg"
    "if TrimSpace (cap_endpoint cfg) = '''' then cap_endpoint c = cap_endpoint cfg
     else normalizeHTTPSURL (pe_lib P) (cap_endpoint cfg) = Inr (cap_endpoint c)"
    using captcha_split_joins [OF parts(1) assms(3)] by blast
  have d: "distinct (map sr_key (ss_rows (data w)))" using assms(2) by (simp add: rows_ok_def)
  have "storable_row r" using fields joined(2) by (simp add: storable_row_def masterKeyVersion_def in_int64_def max_int64_def)
  with parts(3,4) d fields have found: "get_provider [KindCaptcha] key (w'\<lparr>faults := []\<rparr>) = (Inr r, w'\<lparr>faults := []\<rparr>)"
    using written_row_found [of r w "()" w1 "[KindCaptcha]" "w'\<lparr>faults := []\<rparr>"] by (simp add: r_def)
  obtain p where p: "dec_captcha public no_captcha = Some p" "dec_captcha secret p = Some c"
    using joined(1) by (cases "dec_captcha public no_captcha") auto
  then have "captchaConfig P r = Inr c"
    using sealed_document_opens(1) [OF parts(2), of r "\<lambda>v. dec_captcha v p"] joined(3) assms(4,5) fields
    by (simp add: captchaConfig_def decodeConfigFields_def)
  moreover have "ciphertext \<noteq> ''''"
    using sealed_document_opens(2) [OF parts(2), of r] joined(3) assms(4,5) fields by simp
  ultimately have "fst (CaptchaProvider P key (w'\<lparr>faults := []\<rparr>)) = Inr c"
    using fields found by (simp add: CaptchaProvider_def provider_not_found_def GetCaptchaProvider_def attempt_def bind_def
        lift_def ret_def)
  moreover have "\<forall>k. k \<noteq> ProviderSettingKey key \<longrightarrow> row_at k (ss_rows (data w')) = row_at k (ss_rows (data w))"
    using upsert_provider_rows [OF parts(3) d] parts(4) fields by (simp add: r_def)
  ultimately show ?thesis using joined(4-7) by blast
qed

definition sample_captcha :: json_value where
  "sample_captcha =
     JvObject [(''provider'', JvString ''turnstile''), (''site_key'', JvString ''s''), (''secret_key'', JvString ''k'')]"

lemma sample_captcha_decoded:
  "decode_config (Some sample_captcha) (\<lambda>v. dec_captcha v no_captcha) =
     Inr \<lparr>cap_provider = ''turnstile'', cap_site_key = ''s'', cap_secret_key = ''k'', cap_endpoint = ''''\<rparr>"
  by (simp add: sample_captcha_def decode_config_def dec_captcha_def decode_struct_def set_captcha_def no_captcha_def)

lemma sample_captcha_split:
  "splitCaptchaConfig sample_providers (Some sample_captcha) =
     Inr (JvObject [(''provider'', JvString ''turnstile''), (''site_key'', JvString ''s'')],
          JvObject [(''secret_key'', JvString ''k'')])"
proof -
  have "TrimSpace ''s'' \<noteq> ''''" "TrimSpace ''k'' \<noteq> ''''" by code_simp+
  then show ?thesis
    by (simp add: splitCaptchaConfig_def sample_captcha_decoded validateCaptcha_def object_of_def given_member_def
        captcha_documents)
qed

lemma sample_captcha_stored:
  "\<exists>w'. UpsertCaptcha sample_providers ''turnstile'' (Some sample_captcha) empty_settings = (Inr (), w')"
proof -
  have "validateProviderKey ''turnstile'' = Inr ()" "TrimSpace ''turnstile'' = ''turnstile''" by code_simp+
  moreover have "\<exists>sealed. seal_document sample_providers (JvObject [(''secret_key'', JvString ''k'')]) = Inr sealed"
    by (simp add: seal_document_def Encrypt_def sample_providers_def)
  ultimately show ?thesis
    by (auto simp: UpsertCaptcha_def UpsertCaptchaProvider_def upsert_provider_def upsertProviderValue_def Let_def
        sample_captcha_decoded sample_captcha_split bind_unit setting_write_def stmt_def atomically_def bind_def lift_def
        ret_def require_def query_def empty_settings_def setting_types_def)
qed

theorem captcha_reads_back_witness:
  "\<exists>w' c. UpsertCaptcha sample_providers ''turnstile'' (Some sample_captcha) empty_settings = (Inr (), w') \<and>
     fst (CaptchaProvider sample_providers ''turnstile'' (w'\<lparr>faults := []\<rparr>)) = Inr c \<and> cap_secret_key c = ''k''"
proof -
  obtain w' where run: "UpsertCaptcha sample_providers ''turnstile'' (Some sample_captcha) empty_settings = (Inr (), w')"
    using sample_captcha_stored by blast
  have "rows_ok (ss_rows (data empty_settings))" by (simp add: empty_settings_def rows_ok_def)
  from captcha_reads_back [OF run this sample_captcha_decoded] run show ?thesis
    by (auto simp: sample_providers_def cipher_opens_def)
qed

section \<open>The captcha gateway over many requests\<close>

text \<open>
  One verification: what \<open>SelectedCaptcha\<close> answers, how the provider answers on the network at that moment, the
  action and the token.  \<open>gateway_answers\<close> is the gateway with the verifiers it has kept.
\<close>

record verification =
  vn_selected :: "(error + captcha_config option) option"
  vn_network :: "http_request \<Rightarrow> transport_error + http_response"
  vn_action :: string
  vn_token :: string

fun gateway_answers :: "captcha_http \<Rightarrow> verification list \<Rightarrow> verifier_cache \<Rightarrow> (error + unit) list" where
  "gateway_answers H [] cache = []"
| "gateway_answers H (q # qs) cache =
     (case gateway_verify (H\<lparr>ch_do := vn_network q\<rparr>) (vn_selected q) (vn_action q) (vn_token q) cache of
        (r, cache') \<Rightarrow> r # gateway_answers H qs cache')"

definition sane_request :: "verification \<Rightarrow> bool" where
  "sane_request q \<longleftrightarrow> (case vn_selected q of Some (Inr (Some cfg)) \<Rightarrow> no_nul cfg | _ \<Rightarrow> True)"

text \<open>A provider has vouched for the token: with the selected configuration, in an answer with status 200 whose
  document says so.\<close>

definition vouched :: "captcha_http \<Rightarrow> verification \<Rightarrow> bool" where
  "vouched H q \<longleftrightarrow>
     (\<exists>cfg v rs body doc out. vn_selected q = Some (Inr (Some cfg)) \<and> new_verifier H cfg '''' = Inr v \<and>
        TrimSpace (vn_token q) \<noteq> '''' \<and> vn_network q (siteverify_request H v (vn_token q)) = Inr rs \<and>
        rs_status rs = 200 \<and> rs_body rs = Some body \<and> ch_decode H (take captcha_body_limit body) = Some doc \<and>
        dec_response doc = Some out \<and> vr_success out \<and>
        (vn_action q = '''' \<or> vr_action out = '''' \<or> vr_action out = vn_action q))"

lemma network_not_used [simp]:
  "new_verifier (H\<lparr>ch_do := d\<rparr>) cfg host = new_verifier H cfg host"
  "siteverify_request (H\<lparr>ch_do := d\<rparr>) v token = siteverify_request H v token"
  "cache_faithful (H\<lparr>ch_do := d\<rparr>) cache = cache_faithful H cache"
proof -
  show nv: "new_verifier (H\<lparr>ch_do := d\<rparr>) cfg host = new_verifier H cfg host" for cfg host
    by (cases "ParseHTTPBase (ch_lib H) (cap_endpoint cfg)")
      (simp_all add: new_verifier_def siteVerifyURL_def validatedOverrideOrDefault_def)
  show "siteverify_request (H\<lparr>ch_do := d\<rparr>) v token = siteverify_request H v token"
    by (simp add: siteverify_request_def Let_def)
  show "cache_faithful (H\<lparr>ch_do := d\<rparr>) cache = cache_faithful H cache"
    by (simp add: cache_faithful_def nv)
qed

lemma gateway_verify_fresh:
  assumes "cache_faithful H cache" "\<And>cfg. selected = Some (Inr (Some cfg)) \<Longrightarrow> no_nul cfg"
  shows "fst (gateway_verify H selected act token cache) = fst (gateway_verify H selected act token [])"
    "cache_faithful H (snd (gateway_verify H selected act token cache))"
proof -
  have fresh: "\<exists>c. verifierFor H cfg cache = (new_verifier H cfg '''', c) \<and> cache_faithful H c"
    "\<exists>c. verifierFor H cfg [] = (new_verifier H cfg '''', c)" if "selected = Some (Inr (Some cfg))" for cfg
    using verifierFor_fresh [of H cache cfg] verifierFor_fresh [of H "[]" cfg] assms that cache_faithful_empty
    by (metis prod.collapse)+
  show "fst (gateway_verify H selected act token cache) = fst (gateway_verify H selected act token [])"
    "cache_faithful H (snd (gateway_verify H selected act token cache))"
    using fresh assms(1)
    by (cases "\<exists>cfg. selected = Some (Inr (Some cfg))";
        fastforce simp: gateway_verify_def split: option.splits sum.splits)+
qed

lemma gateway_accepts:
  assumes "fst (gateway_verify (H\<lparr>ch_do := vn_network q\<rparr>) (vn_selected q) (vn_action q) (vn_token q) []) = Inr ()"
  shows "vouched H q"
  using assms
  by (auto simp: gateway_verify_def verifierFor_def captcha_verify_def captcha_verdict_def vouched_def
      bind_eq_Some_conv split: option.splits sum.splits if_splits)

lemma gateway_answers_fresh:
  "cache_faithful H cache \<Longrightarrow> list_all sane_request qs \<Longrightarrow>
   gateway_answers H qs cache = map (\<lambda>q. hd (gateway_answers H [q] [])) qs"
proof (induction qs arbitrary: cache)
  case (Cons q qs)
  let ?H = "H\<lparr>ch_do := vn_network q\<rparr>"
  have "cache_faithful ?H cache" using Cons.prems(1) by simp
  moreover have "no_nul cfg" if "vn_selected q = Some (Inr (Some cfg))" for cfg
    using Cons.prems(2) that by (simp add: sane_request_def)
  ultimately have one: "fst (gateway_verify ?H (vn_selected q) (vn_action q) (vn_token q) cache) =
      fst (gateway_verify ?H (vn_selected q) (vn_action q) (vn_token q) [])"
    and kept: "cache_faithful ?H (snd (gateway_verify ?H (vn_selected q) (vn_action q) (vn_token q) cache))"
    using gateway_verify_fresh [of ?H cache "vn_selected q"] by blast+
  have "cache_faithful H (snd (gateway_verify ?H (vn_selected q) (vn_action q) (vn_token q) cache))"
    using kept by simp
  from Cons.IH [OF this] one Cons.prems(2) show ?case
    by (simp add: case_prod_beta)
qed simp

text \<open>C31: as long as no selected configuration has a zero byte in its provider, site key or endpoint, the
  verifiers that the captcha gateway keeps between requests never show: over any sequence of verifications, with
  configurations that change in between, every answer is the one a gateway without memory gives.  A token is accepted
  only when the provider of the selected configuration has vouched for it just then; every failure on the way refuses
  it.  With a zero byte in a site key the first half fails (\<open>zero_byte_collides\<close>).\<close>

theorem captcha_gateway_fresh_and_strict:
  assumes "list_all sane_request qs"
  shows "gateway_answers H qs [] = map (\<lambda>q. hd (gateway_answers H [q] [])) qs \<and>
    (\<forall>i < length qs. gateway_answers H qs [] ! i = Inr () \<longrightarrow> vouched H (qs ! i))"
proof -
  have all: "gateway_answers H qs [] = map (\<lambda>q. hd (gateway_answers H [q] [])) qs"
    using gateway_answers_fresh [OF cache_faithful_empty assms] .
  then show ?thesis
    using gateway_accepts [where H = H] by (auto simp: case_prod_beta)
qed

definition sample_http :: captcha_http where
  "sample_http =
     \<lparr>ch_lib = sample_setting_lib,
      ch_urls = \<lparr>ub_path_escape = (\<lambda>s. s), ub_join = (\<lambda>u xs. u), ub_query = (\<lambda>s. []), ub_encode = (\<lambda>q. '''')\<rparr>,
      ch_request = (\<lambda>s. True), ch_do = (\<lambda>q. Inl TransportFailed),
      ch_decode = (\<lambda>s. if s = ''+'' then Some (JvObject [(''success'', JvBool True)]) else None)\<rparr>"

definition sample_verifications :: "verification list" where
  "sample_verifications =
     map (\<lambda>(secret, answer). \<lparr>vn_selected = Some (Inr (Some \<lparr>cap_provider = ''turnstile'', cap_site_key = ''s'',
            cap_secret_key = secret, cap_endpoint = ''''\<rparr>)),
          vn_network = (\<lambda>q. Inr \<lparr>rs_status = 200, rs_content_length = 1, rs_body = Some answer\<rparr>), vn_action = ''login'', vn_token = ''t''\<rparr>)
       [(''k'', ''+''), (''j'', ''-''), (''k'', ''-'')]"

lemma sample_verifications_sane: "list_all sane_request sample_verifications"
  by (simp add: sample_verifications_def sane_request_def no_nul_def)

theorem captcha_gateway_fresh_and_strict_witness:
  "gateway_answers sample_http sample_verifications [] =
     map (\<lambda>q. hd (gateway_answers sample_http [q] [])) sample_verifications \<and>
   gateway_answers sample_http sample_verifications [] ! 0 = Inr () \<and>
   gateway_answers sample_http sample_verifications [] ! 2 = Inl ErrCaptchaUnavailable \<and>
   vouched sample_http (sample_verifications ! 0)"
proof -
  have token: "TrimSpace ''t'' \<noteq> ''''" "TrimSpace ''k'' \<noteq> ''''" "TrimSpace ''j'' \<noteq> ''''" by code_simp+
  have answers: "gateway_answers sample_http sample_verifications [] =
      [Inr (), Inl ErrCaptchaUnavailable, Inl ErrCaptchaUnavailable]" using token
    by (simp add: sample_verifications_def sample_http_def gateway_verify_def verifierFor_def new_verifier_def
        siteVerifyURL_def validatedOverrideOrDefault_def captcha_verify_def captcha_verdict_def dec_response_def decode_struct_def
        set_response_def fingerprint_def)
  moreover have "0 < length sample_verifications" by (simp add: sample_verifications_def)
  ultimately show ?thesis
    using captcha_gateway_fresh_and_strict [OF sample_verifications_sane, of sample_http] by auto
qed

end
