(* ===== verification/Spec2Isabelle.thy ===== *)
theory Spec2Isabelle
  imports Cursor Cache_Props Moderation_Props Batch_Props Create_Props Clientip Spam Local_Spam Content Urlx
    Listing_Props Admin_Props System Authz_World Login_Props Widget_Props Notify_Props Settings_Props Provider_Props
begin

text \<open>
  FurTalk is a comment server: pages of registered sites embed a widget, readers write and like
  comments through it, an administrator moderates them.  Its handlers (\<open>internal/handler\<close>) call
  services (\<open>internal/service\<close>), which run the rules of the program inside database transactions
  (\<open>internal/platform/gormtx\<close>) over repositories (\<open>internal/repository\<close>), keep short-lived state in
  a cache (\<open>internal/platform/cache\<close>) and publish events to an in-process bus, from which the
  notification service sends mails and messages.  This development models the services, the repositories
  and the platform packages that carry rules of their own, and proves what they promise.

  How the code is read.  A function that returns a value and an error and talks to the database is
  a program (\<open>prog\<close> of theory Prelude, \<open>sql\<close> of theory Store): it takes a world and
  gives an error or a value, and the world it leaves.  The world holds the state (\<open>data\<close>: the tables of
  Store, the cache of Memory_Cache, the settings table of Settings, or a sum of these), the
  events handed to the bus (\<open>outbox\<close>) and a schedule (\<open>faults\<close>) that decides for every
  statement whether the infrastructure answers, so a theorem about all worlds is a theorem about
  all schedules of database failures.  \<open>atomically\<close> is \<open>gormtx.Transactor\<close>: an error puts the
  rows back; events are published after it returns.  Go structs are records with
  the columns of their table, pointers are options, sentinel errors are the datatype \<open>error\<close> of
  theory Domain, any other error is \<open>ErrInfra\<close>; ids and instants are integers, strings are lists of bytes.
  What is not in the repository (Unicode tables, \<open>net/url\<close>, \<open>net.ParseIP\<close>, the Markdown
  parser, JWT, WebAuthn, Argon2, AES-GCM, the text of JSON documents and of floating-point numbers, the answers
  of web services) is an argument, with the facts a proof needs of it as named hypotheses.

  Foundations.
  \<^item> Prelude: results, programs, the weakest-precondition rules (\<open>wp_intros\<close>), invariants of
    programs (\<open>preserves_intros\<close>), table operations.
  \<^item> Go_Std, Runes, Json: the functions of \<open>strings\<close>, \<open>strconv\<close>, \<open>base64\<close>, \<open>utf8\<close> and the decoded documents
    of \<open>encoding/json\<close>, with the rules by which \<open>Unmarshal\<close> fills a struct.  Urlx: \<open>platform/urlx\<close>,
    \<open>platform/value\<close>, the building of addresses and the policy of e-mail domains.
  \<^item> Domain: \<open>internal/domain\<close>.  Store: the schema of \<open>migrations/\<close> with its constraints and
    cascades, \<open>schema_ok\<close>.  Comment_Repo, Records_Repo, Listing_Repo, User_Repo, Credential_Repo: the statements of
    \<open>internal/repository\<close>.
  \<^item> Comment_Inv: \<open>comment_inv\<close>, the invariant of the comment tables (life-cycle columns agree with the
    status, replies hang below their root in the same page).  Account_Inv: \<open>account_inv\<close>, the invariant of the
    accounts (an initialised instance has an active administrator, a deleted account remembers its
    status).  Frame: which statements leave which tables alone.  Removal, Cascade: hard deletion as
    functions on tables.  Sample: concrete worlds for the witnesses.

  Comments.
  \<^item> Moderation (\<open>moderation.go\<close>, \<open>pinning.go\<close>, \<open>deletion.go\<close>, \<open>like.go\<close>), Moderation_Props: the
    handler refines the abstract life cycle of a comment; restoring undoes deleting; an owner
    deletes only their own comment; likes form a set.
  \<^item> Batch (\<open>batch.go\<close>, \<open>thread_batch.go\<close>), Batch_Props: the grouped statements of a batch write to every row
    what its own plan says, or nothing happens; a batch is accepted exactly when the life cycle of every
    comment in it allows the action.
  \<^item> Create (\<open>create.go\<close>, \<open>captcha.go\<close>), Create_Props: a request adds one comment in its place in
    the tree, announced once, or leaves no trace; the address of an administrator is
    not taken without the credential.
  \<^item> Spam, Keyword, Local_Spam (\<open>spam.go\<close>, \<open>platform/spam/local.go\<close>): the gateway stops at the first
    verdict; the automaton built on a heap of nodes answers as the naive search; reloading a keyword
    file keeps the last good snapshot.
  \<^item> Content, Clientip: \<open>platform/markdown\<close>, \<open>platform/clientip\<close>; behind trusted proxies an outside client
    cannot choose its address by the entries it forges.
  \<^item> Cursor (\<open>cursor.go\<close>, \<open>public_page_cursor.go\<close>): the locale \<open>wire_format\<close> and the round trips.
  \<^item> Listing (\<open>query.go\<close>, \<open>public_pages.go\<close>, \<open>account.go\<close>, \<open>trend.go\<close>), with Comment_View, Visible (the recursive
    relation of visible comments), Keyset and Paging (following cursors), Listing_Props: a
    reader who follows the cursors gets every published comment once and in order, and nothing
    hidden.
  \<^item> Thread_Admin, Site_Service, Admin_Props (\<open>thread_admin.go\<close>, \<open>service/site\<close>): numbered pages
    cover the selection; deletions remove exactly what belongs to their target.
  \<^item> Widget, Widget_Props (\<open>widget_session.go\<close>, \<open>authcode.go\<close>, \<open>signer.go\<close>, \<open>middleware/widget.go\<close>):
    authorization codes are exchanged once, for the origin and the user they were issued for.

  Accounts.
  \<^item> Password, Identity, User_Admin, User_Batch, Bootstrap (\<open>service/identity\<close>, \<open>service/bootstrap\<close>): profiles,
    administration and its batch, the first administrator.
  \<^item> Token, Access, Email_Code, Login, Credentials, OAuth_Catalog, OAuth_Login, Passkey_Login, Login_Props
    (\<open>access.go\<close>, \<open>login.go\<close>, \<open>password_reset.go\<close>, \<open>credential.go\<close>, \<open>oauth.go\<close>, \<open>passkey.go\<close>): the ways to sign
    in, and what they cannot do: take the last way in from an account, move an identity to another account,
    tell whether an address has an account.
  \<^item> Commands, Account_Commands, Account_Effects, System: the commands of all services as one inductive step
    relation with a moving clock; the invariants hold in every reachable state, an active administrator remains,
    and no comment is announced as created twice.
  \<^item> Authz_Rows, Authz_World: the cached principals of \<open>access.go\<close> interleaved with the commands that change
    accounts and invalidate them; while no invalidation is outstanding an answer is the row of the moment.

  Cache and one-time credentials.
  \<^item> Memory_Cache, Memory_Spec, Backend, Quota, Onetime, Cache_Props (\<open>memory.go\<close>, \<open>namespace.go\<close>, \<open>onetime.go\<close>):
    the store answers as the map of the unexpired entries; namespaces keep their quota; a credential is
    spent at most as often as it was issued, under every interleaving of requests.

  Notifications.
  \<^item> Queues, Notification, Notifier, Notify_Channels, Notify_Props (\<open>eventbus.go\<close>, \<open>service/notification\<close>,
    \<open>platform/notifier\<close>): mails have a reason in the rows, an unsubscribed user gets none, events are handled in
    order and at most once, each text keeps the bound that the code can give for its platform (not always the
    platform's own).

  Settings and providers.
  \<^item> Settings (\<open>service/setting/service.go\<close>, \<open>value_policy.go\<close>, \<open>repository/settings.go\<close>), Settings_Facts: the
    table, the snapshot as a function of the set of rows, the transaction of a patch.
  \<^item> Captcha (\<open>platform/captcha\<close>, \<open>service/captcha\<close>), Providers, Provider_Admin (\<open>provider.go\<close>,
    \<open>captcha_config.go\<close>, \<open>platform/crypto\<close>): the configurations of captcha, sign-in, spam and message providers
    and the envelopes of their secrets.  Settings_Props: the cached snapshot is never stale, a patch takes
    effect, the epoch of the widget credentials follows the comment mode.  Provider_Props: captcha configurations
    read back as they were stored, and the gateway answers as if it remembered nothing, as long as no site key
    has a zero byte.

  Interfaces.  \<open>wire_format\<close> (Cursor) is what the cursor parsers rely on, \<open>radix64_alphabet\<close> (Go_Std) what
  base64 does, \<open>keyset_order\<close> (Keyset) what following cursors needs of a sort, \<open>lossy_queue\<close> (Queues) what the
  bus and the queue of mail jobs share.  \<open>expiring_store\<close>, \<open>json_backend\<close>, \<open>consuming_store\<close> and
  \<open>valid_namespace\<close> (Backend) are the contract of the cache that the one-time credentials rest on.
  \<open>reads_accounts\<close>, \<open>reads_comments\<close> (Frame), \<open>account_condition\<close> (Commands) and \<open>account_use_cases\<close>
  (Account_Commands) carry a condition on the accounts through every command.  Each is interpreted on the code's
  own definitions.

  Bounds and fuel.  A client that follows cursors is given one request more than there are
  comments, enough because every page but the last returns a row (Paging).  The
  loop over the visible relation and those over the automaton are partial
  functions, whose results are proved to exist (Visible, Keyword).  The retry loop of a one-time credential
  takes a number of rounds; two undisturbed ones are enough (Cache_Props).  Offsets of numbered pages, decimal
  fields and page sizes keep Go's bounds (64-bit), where the theorems need them.

  Not modelled.  HTTP handlers, routing and DTOs (\<open>internal/handler\<close>, \<open>internal/router\<close>), the
  generated API documentation, configuration, wiring, logging and the migration tools move data between the parts
  above.  Rate limits and the Redis backend rest on scripts that Redis runs; the web clients of spam detection
  and of the OAuth providers talk to services that are not in the repository; what the modelled code
  uses of them is an argument.  Goroutines appear where the code's correctness depends on their order, as steps
  of Authz_World, Onetime and Queues; inside the database concurrency is left to the row locks and
  serialised transactions the code asks for: transactions run one after the other.
\<close>

end
